(* ===== verification/Prelude.thy ===== *)
theory Prelude
  imports Main
begin

text \<open>
  Shared vocabulary of the development: date and time values, error chains, the
  database tables the Django models are stored in, and the generic interfaces
  (locales) through which the components use them.

  Instants are Unix time in microseconds (\<open>datetime\<close>), calendar dates are day
  numbers since 1970-01-01 (\<open>date\<close>) and times of day are microseconds since
  midnight (\<open>daytime\<close>): the resolution of Python's \<open>datetime\<close> module. A
  table is the list of its rows, in primary key order, with the next value of its
  key sequence.
\<close>

named_theorems model_defs \<open>definitions of the validators and handlers of the model\<close>
named_theorems tbl_simps \<open>equations about table operations\<close>

section \<open>Time\<close>

type_synonym datetime = int
type_synonym date = int
type_synonym daytime = int

definition usec_per_day :: int where
  "usec_per_day = 86400000000"

definition seconds :: "int \<Rightarrow> int" where
  "seconds n = n * 1000000"

definition minutes :: "int \<Rightarrow> int" where
  "minutes n = n * 60000000"

definition hours :: "int \<Rightarrow> int" where
  "hours n = n * 3600000000"

definition days :: "int \<Rightarrow> int" where
  "days n = n * usec_per_day"

lemmas time_units = usec_per_day_def seconds_def minutes_def hours_def days_def

text \<open>
  The current time zone is a fixed offset from UTC (\<open>Asia/Almaty\<close> in the
  settings), \<open>off\<close> microseconds east. Day 0 is a Thursday, weekday 3.
\<close>

definition local_date :: "int \<Rightarrow> datetime \<Rightarrow> date" where
  "local_date off t = (t + off) div usec_per_day"

definition local_time :: "int \<Rightarrow> datetime \<Rightarrow> daytime" where
  "local_time off t = (t + off) mod usec_per_day"

definition weekday :: "date \<Rightarrow> int" where
  "weekday d = (d + 3) mod 7"

definition time_hour :: "daytime \<Rightarrow> int" where
  "time_hour t = t div 3600000000"

definition time_minute :: "daytime \<Rightarrow> int" where
  "time_minute t = (t div 60000000) mod 60"

definition make_aware :: "int \<Rightarrow> date \<Rightarrow> daytime \<Rightarrow> datetime" where
  "make_aware off d t = d * usec_per_day + t - off"

lemma local_date_make_aware [simp]:
  "0 \<le> t \<Longrightarrow> t < usec_per_day \<Longrightarrow> local_date off (make_aware off d t) = d"
  by (simp add: local_date_def make_aware_def usec_per_day_def)

lemma local_time_make_aware [simp]:
  "0 \<le> t \<Longrightarrow> t < usec_per_day \<Longrightarrow> local_time off (make_aware off d t) = t"
  by (simp add: local_time_def make_aware_def usec_per_day_def)

lemma make_aware_local [simp]:
  "make_aware off (local_date off t) (local_time off t) = t"
  by (simp add: local_date_def local_time_def make_aware_def)

lemma local_time_bounds: "0 \<le> local_time off t" "local_time off t < usec_per_day"
  by (simp_all add: local_time_def usec_per_day_def)

lemma weekday_bounds: "0 \<le> weekday d" "weekday d < 7"
  by (simp_all add: weekday_def)

lemma weekday_add_week [simp]: "weekday (d + 7 * k) = weekday d"
  unfolding weekday_def by presburger

lemma local_date_mono: "s \<le> t \<Longrightarrow> local_date off s \<le> local_date off t"
  by (simp add: local_date_def usec_per_day_def zdiv_mono1)

text \<open>Half-open intervals, as the ORM filters write their overlap.\<close>

definition overlaps :: "datetime \<Rightarrow> datetime \<Rightarrow> datetime \<Rightarrow> datetime \<Rightarrow> bool" where
  "overlaps s1 e1 s2 e2 \<longleftrightarrow> s1 < e2 \<and> e1 > s2"

lemma overlaps_sym: "overlaps s1 e1 s2 e2 \<longleftrightarrow> overlaps s2 e2 s1 e1"
  by (auto simp: overlaps_def)

lemma overlaps_iff_common_instant:
  "s1 < e1 \<Longrightarrow> s2 < e2 \<Longrightarrow>
   overlaps s1 e1 s2 e2 \<longleftrightarrow> (\<exists>t. s1 \<le> t \<and> t < e1 \<and> s2 \<le> t \<and> t < e2)"
proof
  assume "s1 < e1" "s2 < e2" "overlaps s1 e1 s2 e2"
  then have "s1 \<le> max s1 s2 \<and> max s1 s2 < e1 \<and> s2 \<le> max s1 s2 \<and> max s1 s2 < e2"
    by (auto simp: overlaps_def)
  then show "\<exists>t. s1 \<le> t \<and> t < e1 \<and> s2 \<le> t \<and> t < e2" by blast
qed (auto simp: overlaps_def)

section \<open>Chains of checks\<close>

text \<open>
  A validator returns the error it raises, if any. A sequence of validators raises
  the first error of the sequence.
\<close>

fun first_err :: "'e option list \<Rightarrow> 'e option" where
  "first_err [] = None"
| "first_err (None # cs) = first_err cs"
| "first_err (Some e # cs) = Some e"

definition require :: "bool \<Rightarrow> 'e \<Rightarrow> 'e option" where
  "require ok e = (if ok then None else Some e)"

lemma first_err_None_iff: "first_err cs = None \<longleftrightarrow> (\<forall>c \<in> set cs. c = None)"
  by (induction cs rule: first_err.induct) auto

lemma first_err_Cons_None [simp]:
  "first_err (c # cs) = None \<longleftrightarrow> c = None \<and> first_err cs = None"
  by (cases c) auto

lemma require_None [simp]: "require ok e = None \<longleftrightarrow> ok"
  by (simp add: require_def)

lemma require_Some [simp]: "require ok e = Some e' \<longleftrightarrow> \<not> ok \<and> e' = e"
  by (auto simp: require_def)

lemma require_simps: "require True e = None" "require False e = Some e"
  by (simp_all add: require_def)

text \<open>An operation guarded by a check: the error, or what the operation does.\<close>

definition guarded :: "'e option \<Rightarrow> 'a \<Rightarrow> 'e + 'a" where
  "guarded c x = (case c of Some e \<Rightarrow> Inl e | None \<Rightarrow> Inr x)"

lemma guarded_Inr [simp]: "guarded c x = Inr y \<longleftrightarrow> c = None \<and> y = x"
  by (auto simp: guarded_def split: option.splits)

lemma guarded_Inl [simp]: "guarded c x = Inl e \<longleftrightarrow> c = Some e"
  by (auto simp: guarded_def split: option.splits)

lemma guarded_simps: "guarded None x = Inr x" "guarded (Some e) x = Inl e"
  by (simp_all add: guarded_def)

definition is_ok :: "'e + 'a \<Rightarrow> bool" where
  "is_ok r = (case r of Inl _ \<Rightarrow> False | Inr _ \<Rightarrow> True)"

lemma is_ok_simps [simp]: "is_ok (Inr x)" "\<not> is_ok (Inl e)"
  by (simp_all add: is_ok_def)

lemma is_ok_iff: "is_ok r \<longleftrightarrow> (\<exists>x. r = Inr x)"
  by (cases r) simp_all

text \<open>What a request sends for a field, or the value the field has.\<close>

definition pick :: "'a option \<Rightarrow> 'a \<Rightarrow> 'a" where
  "pick x d = (case x of None \<Rightarrow> d | Some v \<Rightarrow> v)"

lemma find_append: "find P (xs @ ys) = (case find P xs of None \<Rightarrow> find P ys | Some x \<Rightarrow> Some x)"
  by (induction xs) auto

section \<open>Strings\<close>

text \<open>\<open>str.strip\<close>: strings are byte strings here, so only the ASCII white space counts.\<close>

definition is_space :: "char \<Rightarrow> bool" where
  "is_space c \<longleftrightarrow> c \<in> {CHR '' '', CHR 0x09, CHR 0x0A, CHR 0x0B, CHR 0x0C, CHR 0x0D,
     CHR 0x1C, CHR 0x1D, CHR 0x1E, CHR 0x1F}"

definition strip :: "string \<Rightarrow> string" where
  "strip s = rev (dropWhile is_space (rev (dropWhile is_space s)))"

definition to_lower :: "char \<Rightarrow> char" where
  "to_lower c = (if 65 \<le> (of_char c :: nat) \<and> (of_char c :: nat) \<le> 90
                 then char_of ((of_char c :: nat) + 32) else c)"

definition lower :: "string \<Rightarrow> string" where
  "lower s = map to_lower s"

lemma to_lower_idem: "to_lower (to_lower c) = to_lower c"
proof (cases "65 \<le> (of_char c :: nat) \<and> (of_char c :: nat) \<le> 90")
  case True
  then have "(of_char (char_of ((of_char c :: nat) + 32)) :: nat) = (of_char c :: nat) + 32"
    by simp
  with True show ?thesis by (simp add: to_lower_def)
qed (auto simp: to_lower_def)

lemma lower_idem [simp]: "lower (lower s) = lower s"
  by (simp add: lower_def to_lower_idem)

lemma strip_Nil [simp]: "strip [] = []"
  by (simp add: strip_def)

lemma strip_eq_Nil_iff: "strip s = [] \<longleftrightarrow> list_all is_space s"
  by (induction s) (auto simp: strip_def dropWhile_eq_Nil_conv list_all_iff dropWhile_append split: if_splits)

text \<open>Request bodies, as the JSON parser hands them over.\<close>

datatype json = JNull | JBool bool | JInt int | JStr string | JList "json list"
  | JObj "(string \<times> json) list"

text \<open>
  A text shown to a person: a literal, a number, an instant in local time, or a message of
  the source (named by a key, its wording left out) filled with arguments.
\<close>

datatype msg = Str string | Num int | At datetime | Fmt string "msg list"

section \<open>Tables\<close>

datatype 'r table = Table (rows: "'r list") (next_id: nat)

definition empty_table :: "'r table" where
  "empty_table = Table [] 1"

definition tbl_get :: "('r \<Rightarrow> nat) \<Rightarrow> nat \<Rightarrow> 'r table \<Rightarrow> 'r option" where
  "tbl_get key k t = find (\<lambda>r. key r = k) (rows t)"

definition tbl_filter :: "('r \<Rightarrow> bool) \<Rightarrow> 'r table \<Rightarrow> 'r list" where
  "tbl_filter P t = filter P (rows t)"

definition tbl_update :: "('r \<Rightarrow> bool) \<Rightarrow> ('r \<Rightarrow> 'r) \<Rightarrow> 'r table \<Rightarrow> 'r table" where
  "tbl_update P f t = Table (map (\<lambda>r. if P r then f r else r) (rows t)) (next_id t)"

definition tbl_save :: "('r \<Rightarrow> nat) \<Rightarrow> 'r \<Rightarrow> 'r table \<Rightarrow> 'r table" where
  "tbl_save key r t = tbl_update (\<lambda>r'. key r' = key r) (\<lambda>_. r) t"

definition tbl_insert :: "(nat \<Rightarrow> 'r) \<Rightarrow> 'r table \<Rightarrow> 'r table" where
  "tbl_insert mk t = Table (rows t @ [mk (next_id t)]) (Suc (next_id t))"

definition tbl_delete :: "('r \<Rightarrow> bool) \<Rightarrow> 'r table \<Rightarrow> 'r table" where
  "tbl_delete P t = Table (filter (\<lambda>r. \<not> P r) (rows t)) (next_id t)"

definition tbl_wf :: "('r \<Rightarrow> nat) \<Rightarrow> 'r table \<Rightarrow> bool" where
  "tbl_wf key t \<longleftrightarrow> distinct (map key (rows t)) \<and> list_all (\<lambda>r. key r < next_id t) (rows t)"

lemma rows_tbl [simp, tbl_simps]:
  "rows (tbl_update P f t) = map (\<lambda>r. if P r then f r else r) (rows t)"
  "rows (tbl_insert mk t) = rows t @ [mk (next_id t)]"
  "rows (tbl_delete P t) = filter (\<lambda>r. \<not> P r) (rows t)"
  "rows empty_table = []"
  by (simp_all add: tbl_update_def tbl_insert_def tbl_delete_def empty_table_def)

lemma next_id_tbl [simp, tbl_simps]:
  "next_id (tbl_update P f t) = next_id t"
  "next_id (tbl_save key r t) = next_id t"
  "next_id (tbl_insert mk t) = Suc (next_id t)"
  "next_id (tbl_delete P t) = next_id t"
  by (simp_all add: tbl_update_def tbl_save_def tbl_insert_def tbl_delete_def)

lemma set_tbl_filter [simp]: "set (tbl_filter P t) = {r \<in> set (rows t). P r}"
  by (auto simp: tbl_filter_def)

lemma tbl_get_SomeD: "tbl_get key k t = Some r \<Longrightarrow> r \<in> set (rows t) \<and> key r = k"
  by (auto simp: tbl_get_def find_Some_iff)

lemma tbl_get_None_iff: "tbl_get key k t = None \<longleftrightarrow> k \<notin> key ` set (rows t)"
  by (auto simp: tbl_get_def find_None_iff)

lemma find_row: "find P xs = Some x \<Longrightarrow> x \<in> set xs \<and> P x"
  by (auto simp: find_Some_iff)

lemma find_conj: "find (\<lambda>x. P x \<and> Q x) xs = find P (filter Q xs)"
  by (induction xs) auto

lemma find_key_unique:
  "distinct (map key xs) \<Longrightarrow> r \<in> set xs \<Longrightarrow> find (\<lambda>r'. key r' = key r) xs = Some r"
  by (induction xs) (auto simp: image_iff)

lemma tbl_get_row: "tbl_wf key t \<Longrightarrow> r \<in> set (rows t) \<Longrightarrow> tbl_get key (key r) t = Some r"
  by (simp add: tbl_get_def tbl_wf_def find_key_unique)

lemma tbl_get_iff:
  "tbl_wf key t \<Longrightarrow> tbl_get key k t = Some r \<longleftrightarrow> r \<in> set (rows t) \<and> key r = k"
  using tbl_get_row tbl_get_SomeD by metis

lemma tbl_wf_empty [simp]: "tbl_wf key empty_table"
  by (simp add: tbl_wf_def)

lemma tbl_wf_update:
  "tbl_wf key t \<Longrightarrow> (\<And>r. P r \<Longrightarrow> key (f r) = key r) \<Longrightarrow> tbl_wf key (tbl_update P f t)"
proof -
  assume wf: "tbl_wf key t" and f: "\<And>r. P r \<Longrightarrow> key (f r) = key r"
  have "map key (rows (tbl_update P f t)) = map key (rows t)"
    using f by simp
  with wf f show ?thesis by (auto simp: tbl_wf_def list_all_iff simp del: rows_tbl) (auto simp: f)
qed

lemma tbl_wf_save: "tbl_wf key t \<Longrightarrow> tbl_wf key (tbl_save key r t)"
  unfolding tbl_save_def by (rule tbl_wf_update) auto

lemma tbl_wf_insert:
  "tbl_wf key t \<Longrightarrow> (\<And>i. key (mk i) = i) \<Longrightarrow> tbl_wf key (tbl_insert mk t)"
  by (auto simp: tbl_wf_def list_all_iff less_Suc_eq)

lemma tbl_wf_delete: "tbl_wf key t \<Longrightarrow> tbl_wf key (tbl_delete P t)"
  by (auto simp: tbl_wf_def list_all_iff distinct_map inj_on_def)

lemma tbl_get_update:
  "tbl_wf key t \<Longrightarrow> (\<And>r. P r \<Longrightarrow> key (f r) = key r) \<Longrightarrow>
   tbl_get key k (tbl_update P f t) = map_option (\<lambda>r. if P r then f r else r) (tbl_get key k t)"
proof -
  assume wf: "tbl_wf key t" and f: "\<And>r. P r \<Longrightarrow> key (f r) = key r"
  have "find (\<lambda>r. key r = k) (map (\<lambda>r. if P r then f r else r) xs)
      = map_option (\<lambda>r. if P r then f r else r) (find (\<lambda>r. key r = k) xs)" for xs
    using f by (induction xs) auto
  then show ?thesis by (simp add: tbl_get_def)
qed

lemma tbl_get_insert:
  assumes wf: "tbl_wf key t" and mk: "\<And>i. key (mk i) = i"
  shows "tbl_get key k (tbl_insert mk t) = (if k = next_id t then Some (mk k) else tbl_get key k t)"
proof -
  have fresh: "key r \<noteq> next_id t" if "r \<in> set (rows t)" for r
    using that wf by (auto simp: tbl_wf_def list_all_iff)
  have "tbl_get key k (tbl_insert mk t) = Some r \<longleftrightarrow>
    (if k = next_id t then Some (mk k) else tbl_get key k t) = Some r" for r
    using fresh by (auto simp: tbl_get_iff[OF tbl_wf_insert[of key, OF wf mk]] tbl_get_iff[OF wf] mk)
  then show ?thesis by (metis option.exhaust)
qed

lemma tbl_get_delete:
  assumes wf: "tbl_wf key t"
  shows "tbl_get key k (tbl_delete P t) =
     (case tbl_get key k t of None \<Rightarrow> None | Some r \<Rightarrow> if P r then None else Some r)"
proof -
  have "tbl_get key k (tbl_delete P t) = Some r \<longleftrightarrow>
     (case tbl_get key k t of None \<Rightarrow> None | Some r \<Rightarrow> if P r then None else Some r) = Some r" for r
    by (auto simp: tbl_get_iff[OF tbl_wf_delete[OF wf]] tbl_get_iff[OF wf] split: option.splits
        dest: tbl_get_SomeD) (metis wf tbl_get_None_iff image_eqI option.inject tbl_get_row)+
  then show ?thesis by (metis option.exhaust)
qed

text \<open>Counting rows: saving a row changes a count by what it changes for that row.\<close>

lemma tbl_save_count:
  assumes "tbl_wf key t" "tbl_get key (key r) t = Some old"
  shows "length (filter P (rows (tbl_save key r t))) + (if P old then 1 else 0)
    = length (filter P (rows t)) + (if P r then 1 else 0)"
proof -
  have "distinct (map key xs) \<Longrightarrow> old \<in> set xs \<Longrightarrow> key old = key r \<Longrightarrow>
    length (filter P (map (\<lambda>x. if key x = key r then r else x) xs)) + (if P old then 1 else 0)
    = length (filter P xs) + (if P r then 1 else 0)" for xs
  proof (induction xs)
    case (Cons x xs)
    show ?case
    proof (cases "x = old")
      case True
      then have "key y \<noteq> key r" if "y \<in> set xs" for y
        using Cons.prems that by (metis distinct.simps(2) image_eqI list.set_map list.simps(9))
      then have "map (\<lambda>x. if key x = key r then r else x) xs = xs" by (simp add: map_idI)
      with True Cons.prems(3) show ?thesis by simp
    next
      case False
      then have "key x \<noteq> key r" using Cons.prems by (auto simp: image_iff)
      with False Cons show ?thesis by auto
    qed
  qed simp
  then show ?thesis using assms tbl_get_SomeD[OF assms(2)] by (simp add: tbl_save_def tbl_wf_def)
qed

text \<open>Keys survive updates that keep them; loops keep an invariant of their body.\<close>

lemma image_update:
  "(\<And>r. P r \<Longrightarrow> key (f r) = key r) \<Longrightarrow> key ` set (rows (tbl_update P f t)) = key ` set (rows t)"
  unfolding rows_tbl set_map image_image by (rule image_cong) auto

lemma save_ids: "key ` set (rows (tbl_save key r t)) = key ` set (rows t)"
  unfolding tbl_save_def by (rule image_update) simp

lemma fold_inv: "I s \<Longrightarrow> (\<And>x s. I s \<Longrightarrow> I (f x s)) \<Longrightarrow> I (fold f xs s)"
  by (induction xs arbitrary: s) auto

section \<open>Interfaces\<close>

text \<open>
  What the handlers rely on when they use a model's manager: a row is found under its
  key after it was created or saved, other rows are untouched, keys stay unique.
\<close>

locale repository =
  fixes key :: "'r \<Rightarrow> nat"
    and get :: "nat \<Rightarrow> 't \<Rightarrow> 'r option"
    and save :: "'r \<Rightarrow> 't \<Rightarrow> 't"
    and create :: "(nat \<Rightarrow> 'r) \<Rightarrow> 't \<Rightarrow> 't"
    and remove :: "nat \<Rightarrow> 't \<Rightarrow> 't"
    and fresh :: "'t \<Rightarrow> nat"
    and wf :: "'t \<Rightarrow> bool"
  assumes get_key: "get k t = Some r \<Longrightarrow> key r = k"
    and get_save: "wf t \<Longrightarrow> get (key r) t \<noteq> None \<Longrightarrow>
      get k (save r t) = (if k = key r then Some r else get k t)"
    and get_create: "wf t \<Longrightarrow> (\<And>i. key (mk i) = i) \<Longrightarrow>
      get k (create mk t) = (if k = fresh t then Some (mk k) else get k t)"
    and get_fresh: "wf t \<Longrightarrow> get (fresh t) t = None"
    and get_remove: "wf t \<Longrightarrow> get k (remove j t) = (if k = j then None else get k t)"
    and wf_save: "wf t \<Longrightarrow> wf (save r t)"
    and wf_create: "wf t \<Longrightarrow> (\<And>i. key (mk i) = i) \<Longrightarrow> wf (create mk t)"
    and wf_remove: "wf t \<Longrightarrow> wf (remove j t)"
begin

lemma get_save_same: "wf t \<Longrightarrow> get (key r) t \<noteq> None \<Longrightarrow> get (key r) (save r t) = Some r"
  by (simp add: get_save)

lemma get_save_other: "wf t \<Longrightarrow> get (key r) t \<noteq> None \<Longrightarrow> k \<noteq> key r \<Longrightarrow> get k (save r t) = get k t"
  by (simp add: get_save)

lemma save_overwrites:
  "wf t \<Longrightarrow> get (key r) t \<noteq> None \<Longrightarrow> key r' = key r \<Longrightarrow>
   get k (save r' (save r t)) = get k (save r' t)"
  using wf_save[of t r] by (simp add: get_save)

lemma saves_commute:
  "wf t \<Longrightarrow> get (key r) t \<noteq> None \<Longrightarrow> get (key r') t \<noteq> None \<Longrightarrow> key r \<noteq> key r' \<Longrightarrow>
   get k (save r (save r' t)) = get k (save r' (save r t))"
  using wf_save[of t r] wf_save[of t r'] by (simp add: get_save)

lemma create_then_remove:
  "wf t \<Longrightarrow> (\<And>i. key (mk i) = i) \<Longrightarrow> get k (remove (fresh t) (create mk t)) = get k t"
  using wf_create[of t mk] by (simp add: get_remove get_create get_fresh)

lemma created_key_was_free:
  "wf t \<Longrightarrow> (\<And>i. key (mk i) = i) \<Longrightarrow> get k t = Some r \<Longrightarrow> get k (create mk t) = Some r"
  using get_fresh[of t] by (auto simp: get_create)

end

definition tbl_remove :: "('r \<Rightarrow> nat) \<Rightarrow> nat \<Rightarrow> 'r table \<Rightarrow> 'r table" where
  "tbl_remove key k t = tbl_delete (\<lambda>r. key r = k) t"

lemma tbl_repository:
  "repository key (tbl_get key) (tbl_save key) tbl_insert (tbl_remove key) next_id (tbl_wf key)"
proof
  fix k t r assume "tbl_get key k t = Some r"
  then show "key r = k" by (simp add: tbl_get_SomeD)
next
  fix t r k assume wf: "tbl_wf key t" and ex: "tbl_get key (key r) t \<noteq> None"
  have "tbl_get key k (tbl_save key r t) =
    map_option (\<lambda>r'. if key r' = key r then r else r') (tbl_get key k t)"
    unfolding tbl_save_def by (rule tbl_get_update[OF wf]) simp
  with ex show "tbl_get key k (tbl_save key r t) = (if k = key r then Some r else tbl_get key k t)"
    by (cases "tbl_get key k t") (auto dest: tbl_get_SomeD)
next
  fix t :: "'a table" assume "tbl_wf key t"
  then show "tbl_get key (next_id t) t = None"
    by (auto simp: tbl_get_None_iff tbl_wf_def list_all_iff)
qed (auto simp: tbl_get_insert tbl_remove_def tbl_get_delete tbl_wf_save tbl_wf_insert tbl_wf_delete
      split: option.splits dest: tbl_get_SomeD)

text \<open>
  A system of operations over a state: an operation that raises an error is rolled back,
  so the state it was run in stays. A component that shows its operations to keep an
  invariant gets it for every run.
\<close>

fun run_ops :: "('op \<Rightarrow> 's \<Rightarrow> 'e + 's) \<Rightarrow> 'op list \<Rightarrow> 's \<Rightarrow> 's" where
  "run_ops exec [] s = s"
| "run_ops exec (x # xs) s =
     run_ops exec xs (case exec x s of Inl _ \<Rightarrow> s | Inr s' \<Rightarrow> s')"

locale op_system =
  fixes exec :: "'op \<Rightarrow> 's \<Rightarrow> 'e + 's"
    and inv :: "'s \<Rightarrow> bool"
    and admissible :: "'op \<Rightarrow> bool"
  assumes exec_inv: "inv s \<Longrightarrow> admissible x \<Longrightarrow> exec x s = Inr s' \<Longrightarrow> inv s'"
begin

lemma run_inv: "inv s \<Longrightarrow> list_all admissible xs \<Longrightarrow> inv (run_ops exec xs s)"
  by (induction xs arbitrary: s) (auto split: sum.splits intro: exec_inv)

lemma run_append: "run_ops exec (xs @ ys) s = run_ops exec ys (run_ops exec xs s)"
  by (induction xs arbitrary: s) auto

end

text \<open>Operations that never leave a settled state: what is decided stays decided.\<close>

locale settling_system = op_system +
  fixes settled :: "'s \<Rightarrow> 'k \<Rightarrow> 'v option"
  assumes exec_settled: "inv s \<Longrightarrow> admissible x \<Longrightarrow> exec x s = Inr s' \<Longrightarrow>
    settled s k = Some v \<Longrightarrow> settled s' k = Some v"
begin

lemma run_settled:
  "inv s \<Longrightarrow> list_all admissible xs \<Longrightarrow> settled s k = Some v \<Longrightarrow>
   settled (run_ops exec xs s) k = Some v"
  by (induction xs arbitrary: s) (auto split: sum.splits intro: exec_inv exec_settled)

end

text \<open>
  Operations that implement a specification: what an operation does to the state is, seen through
  the abstraction function, a step the specification allows.
\<close>

locale refining_system = op_system +
  fixes abs :: "'s \<Rightarrow> 'a" and step :: "'a \<Rightarrow> 'a \<Rightarrow> bool"
  assumes exec_refines: "inv s \<Longrightarrow> admissible x \<Longrightarrow> exec x s = Inr s' \<Longrightarrow> step (abs s) (abs s')"
begin

lemma run_refines:
  "inv s \<Longrightarrow> list_all admissible xs \<Longrightarrow> step\<^sup>*\<^sup>* (abs s) (abs (run_ops exec xs s))"
proof (induction xs arbitrary: s)
  case (Cons x xs)
  then show ?case
  proof (cases "exec x s")
    case (Inr s')
    with Cons have "step (abs s) (abs s')" "step\<^sup>*\<^sup>* (abs s') (abs (run_ops exec xs s'))"
      by (auto intro: exec_refines exec_inv)
    with Inr show ?thesis by (simp add: converse_rtranclp_into_rtranclp)
  qed simp
qed simp

lemma run_abstract_inv:
  assumes "inv s" "list_all admissible xs" "J (abs s)" "\<And>a b. J a \<Longrightarrow> step a b \<Longrightarrow> J b"
  shows "J (abs (run_ops exec xs s))"
  using run_refines[OF assms(1,2)] assms(3,4) by (induction rule: rtranclp_induct) auto

end

end
