(* ===== verification/Core.thy ===== *)
theory Core
  imports Prelude
begin

text \<open>
  \<open>apps/core\<close>, and the user and company rows every component reads: roles and
  plans, the errors the API raises, the permission classes of
  \<open>core/permissions.py\<close>, the tenant isolation of \<open>core/mixins.py\<close> and soft deletion of
  \<open>core/models.py\<close>.
\<close>

section \<open>Errors\<close>

text \<open>
  \<open>ValidationError field key\<close> is \<open>raise_validation_error(field, key)\<close> (400),
  \<open>LocalizedError code key status\<close> the exception of that name, \<open>PermissionDenied\<close>
  carries its message key; message parameters only fill the translated text and are left out.
\<close>

datatype api_error =
    ValidationError string string
  | LocalizedError string string nat
  | PermissionDenied string
  | NotFound
  | NotAuthenticated
  | ServerError

definition raise_validation_error :: "string \<Rightarrow> string \<Rightarrow> api_error" where
  "raise_validation_error field i18n_key = ValidationError field i18n_key"

section \<open>Companies and users\<close>

datatype plan = Basic | Standard | Premium

datatype role = Superadmin | Company_admin | Employee | Reception | Service_manager | Guest

instantiation plan :: linorder
begin

definition less_eq_plan :: "plan \<Rightarrow> plan \<Rightarrow> bool" where
  "less_eq_plan p q \<longleftrightarrow> p = Basic \<or> q = Premium \<or> p = q"

definition less_plan :: "plan \<Rightarrow> plan \<Rightarrow> bool" where
  "less_plan p q \<longleftrightarrow> p \<noteq> q \<and> (p = Basic \<or> q = Premium)"

instance
proof
  fix x y z :: plan
  show "x < y \<longleftrightarrow> x \<le> y \<and> \<not> y \<le> x"
    by (cases x; cases y) (simp_all add: less_plan_def less_eq_plan_def)
  show "x \<le> x" by (simp add: less_eq_plan_def)
  show "x \<le> y \<Longrightarrow> y \<le> z \<Longrightarrow> x \<le> z"
    by (cases x; cases y; cases z) (simp_all add: less_eq_plan_def)
  show "x \<le> y \<Longrightarrow> y \<le> x \<Longrightarrow> x = y"
    by (cases x; cases y) (simp_all add: less_eq_plan_def)
  show "x \<le> y \<or> y \<le> x"
    by (cases x; cases y) (simp_all add: less_eq_plan_def)
qed

end

text \<open>
  A logo or an avatar is the name of its file. \<open>u_password\<close> is the text the stored hash was made from:
  \<open>set_password\<close> writes it, \<open>check_password\<close> compares with it. \<open>co_storage_limit\<close> is
  \<open>storage_limit_gb\<close> in thousandths of a gigabyte: the column is a decimal with three places.
\<close>

record company =
  co_id :: nat
  co_name :: string
  co_description :: string
  co_logo :: "string option"
  co_floor :: string
  co_floor_fk :: "nat option"
  co_office_number :: string
  co_categories :: "string list"
  co_plan :: plan
  co_max_employees :: int
  co_storage_limit :: int
  co_max_boards :: int
  co_is_active :: bool
  co_working_hours_start :: daytime
  co_working_hours_end :: daytime
  co_is_deleted :: bool
  co_deleted_at :: "datetime option"

record user =
  u_id :: nat
  u_email :: string
  u_first_name :: string
  u_last_name :: string
  u_phone :: string
  u_position :: string
  u_avatar :: "string option"
  u_password :: string
  u_role :: role
  u_company :: "nat option"
  u_is_active :: bool
  u_is_staff :: bool
  u_is_email_verified :: bool
  u_last_login :: "datetime option"
  u_is_deleted :: bool
  u_deleted_at :: "datetime option"

text \<open>The two tables every request reads.\<close>

record accounts =
  ac_users :: "user table"
  ac_companies :: "company table"

interpretation users: repository u_id "tbl_get u_id" "tbl_save u_id" tbl_insert
    "tbl_remove u_id" next_id "tbl_wf u_id"
  by (rule tbl_repository)

interpretation companies: repository co_id "tbl_get co_id" "tbl_save co_id" tbl_insert
    "tbl_remove co_id" next_id "tbl_wf co_id"
  by (rule tbl_repository)

definition full_name :: "user \<Rightarrow> string" where
  "full_name u =
     (let n = strip (u_first_name u @ '' '' @ u_last_name u) in if n = [] then u_email u else n)"

definition is_superadmin :: "user \<Rightarrow> bool" where
  "is_superadmin u \<longleftrightarrow> u_role u = Superadmin"

definition is_company_admin :: "user \<Rightarrow> bool" where
  "is_company_admin u \<longleftrightarrow> u_role u \<in> {Superadmin, Company_admin}"

definition is_company_member :: "user \<Rightarrow> bool" where
  "is_company_member u \<longleftrightarrow> u_role u \<in> {Company_admin, Employee} \<and> u_company u \<noteq> None"

text \<open>The check constraint \<open>users_employee_admin_requires_company\<close> of the users table.\<close>

definition users_employee_admin_requires_company :: "user \<Rightarrow> bool" where
  "users_employee_admin_requires_company u \<longleftrightarrow>
     u_role u \<notin> {Employee, Company_admin} \<or> u_company u \<noteq> None"

definition company_of :: "accounts \<Rightarrow> user \<Rightarrow> company option" where
  "company_of acc u = Option.bind (u_company u) (\<lambda>c. tbl_get co_id c (ac_companies acc))"

text \<open>\<open>Company.objects\<close> hides the deleted companies, a foreign key still reaches them.\<close>

definition get_company :: "accounts \<Rightarrow> nat \<Rightarrow> company option" where
  "get_company acc k = find (\<lambda>c. co_id c = k \<and> \<not> co_is_deleted c) (rows (ac_companies acc))"

definition plan_default_limits :: "plan \<Rightarrow> int \<times> int \<times> int" where
  \<comment> \<open>\<open>max_employees\<close>, \<open>max_boards\<close>, \<open>storage_limit_gb\<close> in thousandths\<close>
  "plan_default_limits p = (case p of
      Basic \<Rightarrow> (10, 1, 5000)
    | Standard \<Rightarrow> (30, 5, 20000)
    | Premium \<Rightarrow> (9999, 9999, 100000))"

text \<open>\<open>Company.save\<close> on a row being added: limits left at their default follow the plan.\<close>

definition company_save_new :: "company \<Rightarrow> company" where
  "company_save_new c =
     (case plan_default_limits Basic of (be, bb, bs) \<Rightarrow>
      case plan_default_limits (co_plan c) of (pe, pb, ps) \<Rightarrow>
        c\<lparr>co_max_employees := (if co_max_employees c = be then pe else co_max_employees c),
          co_max_boards := (if co_max_boards c = bb then pb else co_max_boards c),
          co_storage_limit := (if co_storage_limit c = bs then ps else co_storage_limit c)\<rparr>)"

text \<open>\<open>employee_count\<close>: active members other than superadmins.\<close>

definition employee_count :: "accounts \<Rightarrow> company \<Rightarrow> int" where
  "employee_count acc c = int (length (tbl_filter
     (\<lambda>u. u_company u = Some (co_id c) \<and> u_is_active u \<and> u_role u \<noteq> Superadmin) (ac_users acc)))"

definition is_employee_limit_reached :: "accounts \<Rightarrow> company \<Rightarrow> bool" where
  "is_employee_limit_reached acc c \<longleftrightarrow> employee_count acc c \<ge> co_max_employees c"

section \<open>Permission classes\<close>

text \<open>
  The framework answers a refused request with 401 when nobody is logged in and 403
  otherwise; a class may raise its own \<open>PermissionDenied\<close>. \<open>None\<close> lets the request pass.
\<close>

datatype http_method = GET | HEAD | OPTIONS | POST | PUT | PATCH | DELETE

definition safe_method :: "http_method \<Rightarrow> bool" where
  "safe_method m \<longleftrightarrow> m \<in> {GET, HEAD, OPTIONS}"

definition authenticated :: "user option \<Rightarrow> (user \<Rightarrow> api_error option) \<Rightarrow> api_error option" where
  "authenticated ru check = (case ru of None \<Rightarrow> Some NotAuthenticated | Some u \<Rightarrow> check u)"

definition denied :: api_error where
  "denied = PermissionDenied ''common.permission_denied''"

definition IsAuthenticated :: "user option \<Rightarrow> api_error option" where
  "IsAuthenticated ru = authenticated ru (\<lambda>u. None)"

definition IsSuperAdmin :: "user option \<Rightarrow> api_error option" where
  "IsSuperAdmin ru = authenticated ru (\<lambda>u. require (u_role u = Superadmin) denied)"

definition IsCompanyAdmin :: "user option \<Rightarrow> api_error option" where
  "IsCompanyAdmin ru =
     authenticated ru (\<lambda>u. require (u_role u \<in> {Superadmin, Company_admin}) denied)"

definition IsCompanyMember :: "user option \<Rightarrow> api_error option" where
  "IsCompanyMember ru = authenticated ru (\<lambda>u.
     if u_role u = Superadmin then None
     else if u_role u \<in> {Company_admin, Employee} then
       (if u_company u = None then Some (PermissionDenied ''company.not_assigned'') else None)
     else Some denied)"

definition IsGuestOrCompanyMember :: "user option \<Rightarrow> api_error option" where
  "IsGuestOrCompanyMember ru = authenticated ru (\<lambda>u.
     if u_role u = Superadmin then None
     else if u_role u \<in> {Company_admin, Employee} then
       (if u_company u = None then Some (PermissionDenied ''company.not_assigned'') else None)
     else if u_role u = Guest then None
     else Some denied)"

definition IsCompanyAdminOrReadOnly :: "http_method \<Rightarrow> user option \<Rightarrow> api_error option" where
  "IsCompanyAdminOrReadOnly m ru = authenticated ru (\<lambda>u.
     if safe_method m then None else require (u_role u \<in> {Superadmin, Company_admin}) denied)"

definition IsEmailVerifiedOrSuperAdmin :: "user option \<Rightarrow> api_error option" where
  "IsEmailVerifiedOrSuperAdmin ru = authenticated ru (\<lambda>u.
     if u_role u = Superadmin then None
     else require (u_is_email_verified u) (PermissionDenied ''auth.email_not_verified_short''))"

text \<open>
  Object permissions see the object's owner and, if the model has a \<open>company\<close> field,
  the company the object belongs to (\<open>Some None\<close>: the field is null).
\<close>

definition IsOwnerOrAdmin :: "nat option \<Rightarrow> nat option option \<Rightarrow> user \<Rightarrow> bool" where
  "IsOwnerOrAdmin owner company u \<longleftrightarrow>
     (if u_role u = Superadmin then True
      else if owner = Some (u_id u) then True
      else if u_role u = Company_admin \<and> company \<noteq> None then company = Some (u_company u)
      else False)"

definition IsOwnerOrSuperAdmin :: "nat option \<Rightarrow> user \<Rightarrow> bool" where
  "IsOwnerOrSuperAdmin owner u \<longleftrightarrow>
     (if u_role u = Superadmin then True else owner = Some (u_id u))"

definition IsServiceManager :: "user option \<Rightarrow> api_error option" where
  "IsServiceManager ru = authenticated ru (\<lambda>u. require (u_role u = Service_manager) denied)"

definition IsServiceRequestManager :: "user option \<Rightarrow> api_error option" where
  "IsServiceRequestManager ru =
     authenticated ru (\<lambda>u. require (u_role u \<in> {Superadmin, Service_manager}) denied)"

definition IsSuperAdminOrReception :: "user option \<Rightarrow> api_error option" where
  "IsSuperAdminOrReception ru =
     authenticated ru (\<lambda>u. require (u_role u \<in> {Superadmin, Reception}) denied)"

definition IsCompanyPremium :: "accounts \<Rightarrow> user option \<Rightarrow> api_error option" where
  "IsCompanyPremium acc ru = authenticated ru (\<lambda>u.
     if u_role u = Superadmin then None
     else case company_of acc u of
       None \<Rightarrow> Some denied
     | Some c \<Rightarrow> require (co_plan c = Premium) (PermissionDenied ''company.premium_plan_required''))"

lemmas permission_defs = IsAuthenticated_def IsSuperAdmin_def IsCompanyAdmin_def IsCompanyMember_def
  IsGuestOrCompanyMember_def IsCompanyAdminOrReadOnly_def IsEmailVerifiedOrSuperAdmin_def
  IsServiceManager_def IsServiceRequestManager_def IsSuperAdminOrReception_def IsCompanyPremium_def
  authenticated_def

lemma anonymous_refused:
  "IsAuthenticated None = Some NotAuthenticated"
  "IsSuperAdmin None = Some NotAuthenticated"
  "IsCompanyAdmin None = Some NotAuthenticated"
  "IsCompanyMember None = Some NotAuthenticated"
  "IsGuestOrCompanyMember None = Some NotAuthenticated"
  "IsCompanyAdminOrReadOnly m None = Some NotAuthenticated"
  "IsEmailVerifiedOrSuperAdmin None = Some NotAuthenticated"
  "IsServiceManager None = Some NotAuthenticated"
  "IsServiceRequestManager None = Some NotAuthenticated"
  "IsSuperAdminOrReception None = Some NotAuthenticated"
  "IsCompanyPremium acc None = Some NotAuthenticated"
  by (simp_all add: permission_defs)

lemma company_member_permission_sound:
  "IsCompanyMember (Some u) = None \<longleftrightarrow> u_role u = Superadmin \<or> is_company_member u"
  by (auto simp: permission_defs is_company_member_def split: option.splits)

section \<open>Tenant isolation\<close>

text \<open>
  \<open>CompanyIsolationMixin.get_queryset\<close>: \<open>company\<close> reads the company column (or the
  path of \<open>company_lookup\<close>) of a row.
\<close>

definition company_isolation :: "('r \<Rightarrow> nat option) \<Rightarrow> user \<Rightarrow> 'r list \<Rightarrow> 'r list" where
  "company_isolation company u qs =
     (if u_role u = Superadmin then qs
      else case u_company u of
        None \<Rightarrow> []
      | Some c \<Rightarrow> filter (\<lambda>r. company r = Some c) qs)"

text \<open>The contract a scoped view relies on.\<close>

locale tenant_scope =
  fixes company :: "'r \<Rightarrow> nat option"
    and scope :: "user \<Rightarrow> 'r list \<Rightarrow> 'r list"
  assumes scope_superadmin: "u_role u = Superadmin \<Longrightarrow> scope u qs = qs"
    and scope_own: "u_role u \<noteq> Superadmin \<Longrightarrow> r \<in> set (scope u qs) \<Longrightarrow>
      company r \<noteq> None \<and> company r = u_company u"
    and scope_complete: "r \<in> set qs \<Longrightarrow> company r \<noteq> None \<Longrightarrow> company r = u_company u \<Longrightarrow>
      r \<in> set (scope u qs)"
    and scope_sub: "set (scope u qs) \<subseteq> set qs"
begin

lemma scope_disjoint:
  "u_role u \<noteq> Superadmin \<Longrightarrow> u_role v \<noteq> Superadmin \<Longrightarrow> u_company u \<noteq> u_company v \<Longrightarrow>
   set (scope u qs) \<inter> set (scope v qs) = {}"
  by (metis disjoint_iff scope_own)

lemma scope_no_company:
  "u_role u \<noteq> Superadmin \<Longrightarrow> u_company u = None \<Longrightarrow> scope u qs = []"
  using scope_own[of u _ qs] by (cases "scope u qs") fastforce+

lemma scope_idem_set: "set (scope u (scope u qs)) = set (scope u qs)"
proof (cases "u_role u = Superadmin")
  case False
  then show ?thesis
    using scope_own[of u _ qs] scope_complete[of _ "scope u qs" u] scope_sub[of u "scope u qs"] by fastforce
qed (simp add: scope_superadmin)

end

interpretation isolation: tenant_scope company "company_isolation company"
  for company :: "'r \<Rightarrow> nat option"
  by unfold_locales (auto simp: company_isolation_def split: option.splits if_splits)

section \<open>Soft deletion\<close>

text \<open>\<open>SoftDeleteModel\<close> over a row type that has the two columns.\<close>

record soft_row =
  is_deleted :: bool
  deleted_at :: "datetime option"

definition soft_delete :: "datetime \<Rightarrow> soft_row \<Rightarrow> soft_row" where
  "soft_delete now r = r\<lparr>is_deleted := True, deleted_at := Some now\<rparr>"

definition restore :: "soft_row \<Rightarrow> soft_row" where
  "restore r = r\<lparr>is_deleted := False, deleted_at := None\<rparr>"

definition live_rows :: "('r \<Rightarrow> bool) \<Rightarrow> 'r list \<Rightarrow> 'r list" where
  \<comment> \<open>\<open>SoftDeleteManager.get_queryset\<close>\<close>
  "live_rows del = filter (\<lambda>r. \<not> del r)"

definition deleted_only :: "('r \<Rightarrow> bool) \<Rightarrow> 'r list \<Rightarrow> 'r list" where
  "deleted_only del = filter del"

section \<open>Example rows\<close>

text \<open>A company and users that the witnesses of the components work with.\<close>

definition demo_company :: company where
  "demo_company = \<lparr>co_id = 1, co_name = ''Acme'', co_description = [], co_logo = None,
     co_floor = [], co_floor_fk = None, co_office_number = [], co_categories = [], co_plan = Premium, co_max_employees = 10,
     co_storage_limit = 5000, co_max_boards = 1, co_is_active = True,
     co_working_hours_start = hours 9, co_working_hours_end = hours 18, co_is_deleted = False,
     co_deleted_at = None\<rparr>"

definition demo_user :: "nat \<Rightarrow> role \<Rightarrow> nat option \<Rightarrow> user" where
  "demo_user i r c = \<lparr>u_id = i, u_email = ''u'', u_first_name = ''A'', u_last_name = ''B'', u_phone = [], u_position = [], u_avatar = None, u_password = [],
     u_role = r,
     u_company = c, u_is_active = True, u_is_staff = False, u_is_email_verified = True, u_last_login = None,
     u_is_deleted = False, u_deleted_at = None\<rparr>"

lemma demo_user_simps [simp]:
  "u_id (demo_user i r c) = i" "u_role (demo_user i r c) = r" "u_company (demo_user i r c) = c"
  by (simp_all add: demo_user_def)

end
