(* ===== verification/Notifications.thy ===== *)
theory Notifications
  imports Core
begin

text \<open>
  \<open>apps/notifications\<close>: notification rows, the per-user preference record with its
  Do-Not-Disturb switches, \<open>create_notification\<close> and \<open>should_notify\<close>, the mail task with
  its preference checks and de-duplication cache, and the preference, Do-Not-Disturb,
  unsubscribe and read endpoints.
\<close>

section \<open>Types\<close>

datatype ntype =
    Booking_confirmed | Booking_reminder | Booking_cancelled | Booking_completed
  | Task_assigned | Task_moved | Task_comment | Task_deadline
  | Task_deadline_soon | Task_deadline_overdue
  | Guest_validated | Guest_arrived | Guest_pass_expiring | Pass_expiring
  | Service_request_update | Service_accepted | Service_status | Service_completed
  | Announcement_any | Announcement_building | Announcement_company
  | Invitation_any | Invite_received | Leave_review | Leave_approved | Leave_rejected
  | New_employee | System

text \<open>The keys of \<open>NOTIFICATION_TYPES\<close>.\<close>

definition ntype_key :: "ntype \<Rightarrow> string" where
  "ntype_key t = (case t of
     Booking_confirmed \<Rightarrow> ''booking_confirmed'' | Booking_reminder \<Rightarrow> ''booking_reminder''
   | Booking_cancelled \<Rightarrow> ''booking_cancelled'' | Booking_completed \<Rightarrow> ''booking_completed''
   | Task_assigned \<Rightarrow> ''task_assigned'' | Task_moved \<Rightarrow> ''task_moved''
   | Task_comment \<Rightarrow> ''task_comment'' | Task_deadline \<Rightarrow> ''task_deadline''
   | Task_deadline_soon \<Rightarrow> ''task_deadline_soon''
   | Task_deadline_overdue \<Rightarrow> ''task_deadline_overdue''
   | Guest_validated \<Rightarrow> ''guest_validated'' | Guest_arrived \<Rightarrow> ''guest_arrived''
   | Guest_pass_expiring \<Rightarrow> ''guest_pass_expiring'' | Pass_expiring \<Rightarrow> ''pass_expiring''
   | Service_request_update \<Rightarrow> ''service_request_update''
   | Service_accepted \<Rightarrow> ''service_accepted'' | Service_status \<Rightarrow> ''service_status''
   | Service_completed \<Rightarrow> ''service_completed'' | Announcement_any \<Rightarrow> ''announcement''
   | Announcement_building \<Rightarrow> ''announcement_building''
   | Announcement_company \<Rightarrow> ''announcement_company''
   | Invitation_any \<Rightarrow> ''invitation'' | Invite_received \<Rightarrow> ''invite_received''
   | Leave_review \<Rightarrow> ''leave_review'' | Leave_approved \<Rightarrow> ''leave_approved''
   | Leave_rejected \<Rightarrow> ''leave_rejected'' | New_employee \<Rightarrow> ''new_employee''
   | System \<Rightarrow> ''system'')"

definition NOTIFICATION_TYPES :: "ntype list" where
  "NOTIFICATION_TYPES = [Booking_confirmed, Booking_reminder, Booking_cancelled, Booking_completed,
     Task_assigned, Task_moved, Task_comment, Task_deadline, Task_deadline_soon,
     Task_deadline_overdue, Guest_validated, Guest_arrived, Guest_pass_expiring, Pass_expiring,
     Service_request_update, Service_accepted, Service_status, Service_completed,
     Announcement_any, Announcement_building, Announcement_company, Invitation_any,
     Invite_received, Leave_review, Leave_approved, Leave_rejected, New_employee, System]"

definition parse_ntype :: "string \<Rightarrow> ntype option" where
  "parse_ntype key = find (\<lambda>t. ntype_key t = key) NOTIFICATION_TYPES"

text \<open>\<open>NOTIFICATION_TYPE_FIELD_MAP\<close>: the in-app and the mail column of a type.\<close>

definition NOTIFICATION_TYPE_FIELD_MAP :: "ntype \<Rightarrow> (string \<times> string) option" where
  "NOTIFICATION_TYPE_FIELD_MAP t = (case t of
     Booking_confirmed \<Rightarrow> Some (''booking_confirmed_in_app'', ''booking_confirmed_email'')
   | Booking_reminder \<Rightarrow> Some (''booking_reminder_in_app'', ''booking_reminder_email'')
   | Booking_cancelled \<Rightarrow> Some (''booking_cancelled_in_app'', ''booking_cancelled_email'')
   | Booking_completed \<Rightarrow> Some (''booking_completed_in_app'', ''booking_completed_email'')
   | Task_assigned \<Rightarrow> Some (''task_assigned_in_app'', ''task_assigned_email'')
   | Task_moved \<Rightarrow> Some (''task_moved_in_app'', ''task_moved_email'')
   | Task_comment \<Rightarrow> Some (''task_comment_in_app'', ''task_comment_email'')
   | Task_deadline \<Rightarrow> Some (''task_deadline_in_app'', ''task_deadline_email'')
   | Guest_validated \<Rightarrow> Some (''guest_validated_in_app'', ''guest_validated_email'')
   | Guest_pass_expiring \<Rightarrow> Some (''guest_pass_expiring_in_app'', ''guest_pass_expiring_email'')
   | Service_request_update \<Rightarrow>
       Some (''service_request_update_in_app'', ''service_request_update_email'')
   | Announcement_any \<Rightarrow> Some (''announcement_in_app'', ''announcement_email'')
   | Invitation_any \<Rightarrow> Some (''invitation_in_app'', ''invitation_email'')
   | Leave_review \<Rightarrow> Some (''leave_review_in_app'', ''leave_review_email'')
   | New_employee \<Rightarrow> Some (''new_employee_in_app'', ''new_employee_email'')
   | System \<Rightarrow> Some (''system_in_app'', ''system_email'')
   | _ \<Rightarrow> None)"

definition EMAIL_ENABLED_TYPES :: "ntype list" where
  "EMAIL_ENABLED_TYPES = [Booking_confirmed, Booking_completed, Task_assigned, Task_deadline,
     Leave_review, Guest_validated, Announcement_any, New_employee]"

text \<open>\<open>_PREF_FIELD_MAP\<close> of the mail task; \<open>system\<close> has no preference.\<close>

definition PREF_FIELD_MAP :: "ntype \<Rightarrow> string option" where
  "PREF_FIELD_MAP t = (case t of
     Booking_confirmed \<Rightarrow> Some ''booking_confirmed_email''
   | Booking_reminder \<Rightarrow> Some ''booking_reminder_email''
   | Booking_cancelled \<Rightarrow> Some ''booking_cancelled_email''
   | Booking_completed \<Rightarrow> Some ''booking_completed_email''
   | Task_assigned \<Rightarrow> Some ''task_assigned_email''
   | Task_moved \<Rightarrow> Some ''task_moved_email''
   | Task_comment \<Rightarrow> Some ''task_comment_email''
   | Task_deadline \<Rightarrow> Some ''task_deadline_email''
   | Task_deadline_soon \<Rightarrow> Some ''task_deadline_email''
   | Task_deadline_overdue \<Rightarrow> Some ''task_deadline_email''
   | Guest_validated \<Rightarrow> Some ''guest_validated_email''
   | Guest_arrived \<Rightarrow> Some ''guest_pass_expiring_email''
   | Guest_pass_expiring \<Rightarrow> Some ''guest_pass_expiring_email''
   | Pass_expiring \<Rightarrow> Some ''guest_pass_expiring_email''
   | Service_request_update \<Rightarrow> Some ''service_request_update_email''
   | Service_accepted \<Rightarrow> Some ''service_request_update_email''
   | Service_status \<Rightarrow> Some ''service_request_update_email''
   | Service_completed \<Rightarrow> Some ''service_request_update_email''
   | Announcement_any \<Rightarrow> Some ''announcement_email''
   | Announcement_building \<Rightarrow> Some ''announcement_email''
   | Announcement_company \<Rightarrow> Some ''announcement_email''
   | Invitation_any \<Rightarrow> Some ''invitation_email''
   | Invite_received \<Rightarrow> Some ''invitation_email''
   | Leave_review \<Rightarrow> Some ''leave_review_email''
   | Leave_approved \<Rightarrow> Some ''leave_review_email''
   | Leave_rejected \<Rightarrow> Some ''leave_review_email''
   | New_employee \<Rightarrow> Some ''new_employee_email''
   | System \<Rightarrow> None)"

text \<open>\<open>ROLE_NOTIFICATION_TYPES\<close>; roles it does not list may configure every type.\<close>

definition mapped_types :: "ntype list" where
  "mapped_types = filter (\<lambda>t. NOTIFICATION_TYPE_FIELD_MAP t \<noteq> None) NOTIFICATION_TYPES"

definition ROLE_NOTIFICATION_TYPES :: "role \<Rightarrow> ntype list option" where
  "ROLE_NOTIFICATION_TYPES r = (case r of
     Company_admin \<Rightarrow> Some [Booking_confirmed, Booking_reminder, Booking_cancelled, Booking_completed,
       Task_assigned, Task_moved, Task_comment, Task_deadline, Guest_validated,
       Guest_pass_expiring, Service_request_update, Announcement_any, Invitation_any,
       Leave_review, New_employee, System]
   | Employee \<Rightarrow> Some [Booking_confirmed, Booking_reminder, Booking_cancelled, Booking_completed,
       Task_assigned, Task_moved, Task_comment, Task_deadline, Service_request_update,
       Announcement_any, System]
   | Guest \<Rightarrow> Some [Guest_validated, Guest_pass_expiring, Announcement_any, System]
   | _ \<Rightarrow> None)"

definition get_allowed_types_for_role :: "role \<Rightarrow> ntype list" where
  "get_allowed_types_for_role r = (case ROLE_NOTIFICATION_TYPES r of
     None \<Rightarrow> mapped_types
   | Some ts \<Rightarrow> filter (\<lambda>t. t \<in> set ts) mapped_types)"

section \<open>State\<close>

record notification =
  n_id :: nat
  n_user :: nat
  n_type :: ntype
  n_title :: msg
  n_body :: msg
  n_url :: msg
  n_is_read :: bool
  n_read_at :: "datetime option"
  n_created_at :: datetime

text \<open>
  A preference row. The boolean toggle columns are read and written by column name
  (\<open>getattr\<close>, \<open>setattr\<close>), so they are kept as a map from the name.
\<close>

record pref =
  np_id :: nat
  np_user :: nat
  np_fields :: "(string \<times> bool) list"
  np_do_not_disturb :: bool
  np_dnd_enabled :: bool
  np_dnd_until :: "datetime option"

definition default_fields :: "(string \<times> bool) list" where
  "default_fields =
    [(''booking_confirmed_in_app'', True), (''booking_confirmed_email'', True),
     (''booking_reminder_in_app'', True), (''booking_reminder_email'', True),
     (''booking_cancelled_in_app'', True), (''booking_cancelled_email'', True),
     (''booking_completed_in_app'', True), (''booking_completed_email'', False),
     (''task_assigned_in_app'', True), (''task_assigned_email'', True),
     (''task_moved_in_app'', True), (''task_moved_email'', False),
     (''task_comment_in_app'', True), (''task_comment_email'', False),
     (''task_deadline_in_app'', True), (''task_deadline_email'', False),
     (''guest_validated_in_app'', True), (''guest_validated_email'', True),
     (''guest_pass_expiring_in_app'', True), (''guest_pass_expiring_email'', True),
     (''service_request_update_in_app'', True), (''service_request_update_email'', False),
     (''announcement_in_app'', True), (''announcement_email'', True),
     (''invitation_in_app'', True), (''invitation_email'', True),
     (''leave_review_in_app'', True), (''leave_review_email'', True),
     (''new_employee_in_app'', True), (''new_employee_email'', True),
     (''system_in_app'', True), (''system_email'', False),
     (''booking_in_app'', True), (''booking_email'', True),
     (''task_in_app'', True), (''task_email'', False),
     (''access_in_app'', True), (''access_email'', True),
     (''service_in_app'', True), (''service_email'', False),
     (''hr_in_app'', True), (''hr_email'', True)]"

definition new_pref :: "nat \<Rightarrow> nat \<Rightarrow> pref" where
  "new_pref uid i = \<lparr>np_id = i, np_user = uid, np_fields = default_fields,
     np_do_not_disturb = False, np_dnd_enabled = False, np_dnd_until = None\<rparr>"

definition getattr :: "pref \<Rightarrow> string \<Rightarrow> bool \<Rightarrow> bool" where
  "getattr p f d = (case map_of (np_fields p) f of None \<Rightarrow> d | Some b \<Rightarrow> b)"

definition setattr :: "string \<Rightarrow> bool \<Rightarrow> pref \<Rightarrow> pref" where
  "setattr f b p = p\<lparr>np_fields := (f, b) # filter (\<lambda>kv. fst kv \<noteq> f) (np_fields p)\<rparr>"

text \<open>
  \<open>nt_queue\<close> holds the mail tasks handed to the worker (recipient, type, subject),
  \<open>nt_outbox\<close> the mails sent, \<open>nt_cache\<close> the de-duplication keys with their expiry.
\<close>

type_synonym mail = "nat \<times> ntype \<times> msg"

record nt_state =
  nt_prefs :: "pref table"
  nt_notifs :: "notification table"
  nt_queue :: "mail list"
  nt_cache :: "(mail \<times> datetime) list"
  nt_outbox :: "mail list"

definition EMAIL_DEDUP_TTL :: int where
  "EMAIL_DEDUP_TTL = seconds 300"

section \<open>Preferences and Do-Not-Disturb\<close>

definition is_dnd_active :: "datetime \<Rightarrow> pref \<Rightarrow> bool" where
  "is_dnd_active now p =
     (if np_do_not_disturb p then True
      else if \<not> np_dnd_enabled p then False
      else case np_dnd_until p of None \<Rightarrow> True | Some until \<Rightarrow> until > now)"

definition in_app_allowed :: "pref \<Rightarrow> ntype \<Rightarrow> bool" where
  "in_app_allowed p t = (case NOTIFICATION_TYPE_FIELD_MAP t of
     None \<Rightarrow> True
   | Some (in_app_field, _) \<Rightarrow> getattr p in_app_field True)"

definition email_allowed :: "pref \<Rightarrow> ntype \<Rightarrow> bool" where
  "email_allowed p t = (case NOTIFICATION_TYPE_FIELD_MAP t of
     None \<Rightarrow> False
   | Some (_, email_field) \<Rightarrow> getattr p email_field False)"

definition pref_row :: "nat \<Rightarrow> nt_state \<Rightarrow> pref option" where
  "pref_row uid s = find (\<lambda>p. np_user p = uid) (rows (nt_prefs s))"

text \<open>\<open>NotificationPreference.objects.get_or_create(user=user)\<close>\<close>

definition get_or_create_pref :: "nat \<Rightarrow> nt_state \<Rightarrow> pref \<times> nt_state" where
  "get_or_create_pref uid s = (case pref_row uid s of
     Some p \<Rightarrow> (p, s)
   | None \<Rightarrow> (new_pref uid (next_id (nt_prefs s)),
       s\<lparr>nt_prefs := tbl_insert (new_pref uid) (nt_prefs s)\<rparr>))"

definition should_notify :: "datetime \<Rightarrow> nat \<Rightarrow> ntype \<Rightarrow> nt_state \<Rightarrow> bool \<times> nt_state" where
  "should_notify now uid t s = (case get_or_create_pref uid s of (p, s') \<Rightarrow>
     (if is_dnd_active now p then (False, s')
      else if \<not> in_app_allowed p t then (False, s')
      else (True, s')))"

definition new_notification :: "datetime \<Rightarrow> nat \<Rightarrow> ntype \<Rightarrow> msg \<Rightarrow> msg \<Rightarrow> msg \<Rightarrow> nat \<Rightarrow> notification" where
  "new_notification now uid t title body url i = \<lparr>n_id = i, n_user = uid, n_type = t, n_title = title,
     n_body = body, n_url = url, n_is_read = False, n_read_at = None,
     n_created_at = now\<rparr>"

definition create_notification ::
  "datetime \<Rightarrow> nat \<Rightarrow> ntype \<Rightarrow> msg \<Rightarrow> msg \<Rightarrow> msg option \<Rightarrow> nt_state \<Rightarrow> nt_state" where
  "create_notification now uid t title message link s =
     (case get_or_create_pref uid s of (p, s') \<Rightarrow>
       (if is_dnd_active now p then s'
        else if \<not> in_app_allowed p t then s'
        else s'\<lparr>nt_notifs := tbl_insert
               (new_notification now uid t title message (case link of None \<Rightarrow> Str [] | Some l \<Rightarrow> l))
               (nt_notifs s')\<rparr>))"

text \<open>The same with the type given by its key: an unknown key raises \<open>ValueError\<close>.\<close>

definition create_notification_key ::
  "datetime \<Rightarrow> nat \<Rightarrow> string \<Rightarrow> msg \<Rightarrow> msg \<Rightarrow> msg option \<Rightarrow> nt_state \<Rightarrow> api_error + nt_state" where
  "create_notification_key now uid key title message link s = (case parse_ntype key of
     None \<Rightarrow> Inl ServerError
   | Some t \<Rightarrow> Inr (create_notification now uid t title message link s))"

text \<open>The Celery task of the same name writes the row without looking at the preferences.\<close>

definition create_notification_task ::
  "accounts \<Rightarrow> datetime \<Rightarrow> nat \<Rightarrow> ntype \<Rightarrow> msg \<Rightarrow> msg \<Rightarrow> msg \<Rightarrow> nt_state \<Rightarrow> nt_state" where
  "create_notification_task acc now uid t title body url s = (case tbl_get u_id uid (ac_users acc) of
     None \<Rightarrow> s
   | Some u \<Rightarrow> s\<lparr>nt_notifs := tbl_insert (new_notification now uid t title body url) (nt_notifs s)\<rparr>)"

section \<open>Mail\<close>

text \<open>\<open>send_notification_email.delay(...)\<close>: the task is queued.\<close>

definition delay_email :: "nat \<Rightarrow> ntype \<Rightarrow> msg \<Rightarrow> nt_state \<Rightarrow> nt_state" where
  "delay_email uid t subject s = s\<lparr>nt_queue := nt_queue s @ [(uid, t, subject)]\<rparr>"

definition cache_get :: "datetime \<Rightarrow> mail \<Rightarrow> nt_state \<Rightarrow> bool" where
  "cache_get now k s = (case map_of (nt_cache s) k of None \<Rightarrow> False | Some expiry \<Rightarrow> now < expiry)"

definition check_dnd :: "datetime \<Rightarrow> nat \<Rightarrow> nt_state \<Rightarrow> bool \<times> nt_state" where
  "check_dnd now uid s = (case get_or_create_pref uid s of (p, s') \<Rightarrow> (\<not> is_dnd_active now p, s'))"

definition check_preference :: "nat \<Rightarrow> ntype \<Rightarrow> nt_state \<Rightarrow> bool" where
  "check_preference uid t s = (case PREF_FIELD_MAP t of
     None \<Rightarrow> True
   | Some f \<Rightarrow> (case pref_row uid s of None \<Rightarrow> True | Some p \<Rightarrow> getattr p f True))"

text \<open>
  The mail task; \<open>subject\<close> is the subject of the context or the type's default one, and
  \<open>sent\<close> says whether the mail server took the mail (\<open>send_mail\<close> did not raise).
\<close>

definition send_notification_email ::
  "accounts \<Rightarrow> datetime \<Rightarrow> bool \<Rightarrow> mail \<Rightarrow> nt_state \<Rightarrow> nt_state" where
  "send_notification_email acc now sent m s = (case m of (uid, t, subject) \<Rightarrow>
     (case tbl_get u_id uid (ac_users acc) of
       None \<Rightarrow> s
     | Some u \<Rightarrow> (case check_dnd now uid s of (proceed, s') \<Rightarrow>
         (if \<not> proceed then s'
          else if \<not> check_preference uid t s' then s'
          else if cache_get now m s' then s'
          else if sent then
            s'\<lparr>nt_outbox := nt_outbox s' @ [m], nt_cache := (m, now + EMAIL_DEDUP_TTL) # nt_cache s'\<rparr>
          else s'))))"

section \<open>Endpoints\<close>

definition mark_read :: "datetime \<Rightarrow> user \<Rightarrow> nat \<Rightarrow> nt_state \<Rightarrow> api_error + nt_state" where
  "mark_read now u k s =
     (case find (\<lambda>n. n_id n = k) (tbl_filter (\<lambda>n. n_user n = u_id u) (nt_notifs s)) of
       None \<Rightarrow> Inl NotFound
     | Some n \<Rightarrow> Inr (if \<not> n_is_read n
         then s\<lparr>nt_notifs := tbl_save n_id (n\<lparr>n_is_read := True, n_read_at := Some now\<rparr>) (nt_notifs s)\<rparr>
         else s))"

definition mark_all_read :: "datetime \<Rightarrow> user \<Rightarrow> nt_state \<Rightarrow> nt_state" where
  "mark_all_read now u s = s\<lparr>nt_notifs := tbl_update
     (\<lambda>n. n_user n = u_id u \<and> \<not> n_is_read n)
     (\<lambda>n. n\<lparr>n_is_read := True, n_read_at := Some now\<rparr>) (nt_notifs s)\<rparr>"

definition unread_count :: "user \<Rightarrow> nt_state \<Rightarrow> nat" where
  "unread_count u s = length (tbl_filter (\<lambda>n. n_user n = u_id u \<and> \<not> n_is_read n) (nt_notifs s))"

text \<open>\<open>DNDSerializer.validate\<close>: the validated \<open>until\<close>.\<close>

definition dnd_validate :: "datetime \<Rightarrow> bool \<Rightarrow> datetime option \<Rightarrow> api_error + datetime option" where
  "dnd_validate now enabled until = (case until of
     None \<Rightarrow> Inr None
   | Some t \<Rightarrow> (if \<not> enabled then Inr None
       else if t \<le> now then Inl (raise_validation_error ''dnd_until'' ''Must be a future datetime.'')
       else Inr (Some t)))"

definition save_pref :: "pref \<Rightarrow> nt_state \<Rightarrow> nt_state" where
  "save_pref p s = s\<lparr>nt_prefs := tbl_save np_id p (nt_prefs s)\<rparr>"

definition do_not_disturb ::
  "datetime \<Rightarrow> user \<Rightarrow> bool \<Rightarrow> datetime option \<Rightarrow> nt_state \<Rightarrow> api_error + nt_state" where
  "do_not_disturb now u enabled until s = (case get_or_create_pref (u_id u) s of (p, s') \<Rightarrow>
     (case dnd_validate now enabled until of
       Inl e \<Rightarrow> Inl e
     | Inr until' \<Rightarrow> Inr (save_pref (p\<lparr>np_dnd_enabled := enabled, np_dnd_until := until'\<rparr>) s')))"

text \<open>
  \<open>token_user\<close> is what the signing library recovers from the token (\<open>None\<close> when the
  token is missing, forged or expired); the flag is the page redirected to.
\<close>

definition unsubscribe :: "accounts \<Rightarrow> nat option \<Rightarrow> nt_state \<Rightarrow> bool \<times> nt_state" where
  "unsubscribe acc token_user s = (case token_user of
     None \<Rightarrow> (False, s)
   | Some uid \<Rightarrow> (case tbl_get u_id uid (ac_users acc) of
       None \<Rightarrow> (False, s)
     | Some u \<Rightarrow> (case get_or_create_pref uid s of (p, s') \<Rightarrow>
         (True, save_pref (fold (\<lambda>t q. case NOTIFICATION_TYPE_FIELD_MAP t of
              None \<Rightarrow> q | Some (_, email_field) \<Rightarrow> setattr email_field False q)
            mapped_types p) s'))))"

section \<open>Lemmas\<close>

interpretation prefs: repository np_id "tbl_get np_id" "tbl_save np_id" tbl_insert
    "tbl_remove np_id" next_id "tbl_wf np_id"
  by (rule tbl_repository)

interpretation notifs: repository n_id "tbl_get n_id" "tbl_save n_id" tbl_insert
    "tbl_remove n_id" next_id "tbl_wf n_id"
  by (rule tbl_repository)

definition nt_wf :: "nt_state \<Rightarrow> bool" where
  "nt_wf s \<longleftrightarrow> tbl_wf np_id (nt_prefs s) \<and> distinct (map np_user (rows (nt_prefs s)))
     \<and> tbl_wf n_id (nt_notifs s)"

lemma parse_ntype_key [simp]: "parse_ntype (ntype_key t) = Some t"
  by (cases t) (simp_all add: parse_ntype_def ntype_key_def NOTIFICATION_TYPES_def)

lemma parse_ntype_SomeD: "parse_ntype k = Some t \<Longrightarrow> ntype_key t = k"
  by (auto simp: parse_ntype_def find_Some_iff)

lemma pref_row_SomeD: "pref_row uid s = Some p \<Longrightarrow> p \<in> set (rows (nt_prefs s)) \<and> np_user p = uid"
  by (auto simp: pref_row_def find_Some_iff)

lemma pref_row_NoneD: "pref_row uid s = None \<Longrightarrow> uid \<notin> np_user ` set (rows (nt_prefs s))"
  by (auto simp: pref_row_def find_None_iff)

lemma get_or_create_pref_spec:
  assumes "get_or_create_pref uid s = (p, s')"
  shows "pref_row uid s' = Some p" "np_user p = uid"
    "nt_notifs s' = nt_notifs s" "nt_outbox s' = nt_outbox s" "nt_queue s' = nt_queue s"
    "nt_cache s' = nt_cache s" "p \<in> set (rows (nt_prefs s'))"
    "\<And>v. v \<noteq> uid \<Longrightarrow> pref_row v s' = pref_row v s"
    "pref_row uid s = None \<Longrightarrow> p = new_pref uid (next_id (nt_prefs s))"
    "pref_row uid s = Some q \<Longrightarrow> p = q \<and> s' = s"
proof -
  have app: "find P (xs @ ys) = (case find P xs of None \<Rightarrow> find P ys | Some x \<Rightarrow> Some x)"
    for P and xs ys :: "pref list" by (induction xs) auto
  show "pref_row uid s' = Some p" "np_user p = uid"
    "nt_notifs s' = nt_notifs s" "nt_outbox s' = nt_outbox s" "nt_queue s' = nt_queue s"
    "nt_cache s' = nt_cache s" "p \<in> set (rows (nt_prefs s'))"
    "\<And>v. v \<noteq> uid \<Longrightarrow> pref_row v s' = pref_row v s"
    "pref_row uid s = None \<Longrightarrow> p = new_pref uid (next_id (nt_prefs s))"
    "pref_row uid s = Some q \<Longrightarrow> p = q \<and> s' = s"
    using assms
    by (auto simp: get_or_create_pref_def split: option.splits dest: pref_row_SomeD)
       (auto simp: pref_row_def app new_pref_def split: option.splits)
qed

lemma get_or_create_pref_wf:
  "nt_wf s \<Longrightarrow> get_or_create_pref uid s = (p, s') \<Longrightarrow> nt_wf s'"
  using pref_row_NoneD[of uid s] prefs.wf_create[of "nt_prefs s" "new_pref uid"]
  by (auto simp: get_or_create_pref_def nt_wf_def new_pref_def split: option.splits)

lemma create_notification_wf: "nt_wf s \<Longrightarrow> nt_wf (create_notification now uid t title m l s)"
  using get_or_create_pref_wf[of s uid]
  by (auto simp: create_notification_def nt_wf_def new_notification_def split: prod.splits
      intro!: tbl_wf_insert)

lemma delay_email_wf [simp]: "nt_wf (delay_email uid t m s) = nt_wf s"
  by (simp add: nt_wf_def delay_email_def)

text \<open>The preferences a notification is checked against: the stored row or the defaults.\<close>

definition effective_pref :: "nat \<Rightarrow> nt_state \<Rightarrow> pref" where
  "effective_pref uid s = (case pref_row uid s of Some p \<Rightarrow> p
     | None \<Rightarrow> new_pref uid (next_id (nt_prefs s)))"

lemma get_or_create_effective: "fst (get_or_create_pref uid s) = effective_pref uid s"
  by (simp add: get_or_create_pref_def effective_pref_def split: option.splits)

lemma create_notification_rows:
  "rows (nt_notifs (create_notification now uid t title m l s)) =
     (if \<not> is_dnd_active now (effective_pref uid s) \<and> in_app_allowed (effective_pref uid s) t
      then rows (nt_notifs s) @
        [new_notification now uid t title m (case l of None \<Rightarrow> Str [] | Some x \<Rightarrow> x) (next_id (nt_notifs s))]
      else rows (nt_notifs s))"
  using get_or_create_effective[of uid s] get_or_create_pref_spec(3)[of uid s]
  by (cases "get_or_create_pref uid s") (auto simp: create_notification_def)

lemma getattr_setattr [simp]:
  "getattr (setattr f b p) g d = (if g = f then b else getattr p g d)"
proof -
  have "g \<noteq> f \<Longrightarrow> map_of (filter (\<lambda>kv. fst kv \<noteq> f) xs) g = map_of xs g" for xs :: "(string \<times> bool) list"
    by (induction xs) auto
  then show ?thesis by (simp add: getattr_def setattr_def)
qed

text \<open>An empty notification store for examples.\<close>

definition demo_nt :: nt_state where
  "demo_nt = \<lparr>nt_prefs = empty_table, nt_notifs = empty_table, nt_queue = [], nt_cache = [],
     nt_outbox = []\<rparr>"

end
