(* ===== verification/Accounts.thy ===== *)
theory Accounts
  imports Notifications
begin

text \<open>
  What the company endpoints and the login endpoints share of \<open>apps/users\<close>: the look-up of a user
  by e-mail, the tables of refresh, verification and reset tokens, and the queue of mail jobs.
\<close>

section \<open>E-mail addresses\<close>

text \<open>
  \<open>BaseUserManager.normalize_email\<close>: the part behind the last \<open>@\<close> goes to lower case. An address
  without one is returned as it is.
\<close>

definition normalize_email :: "string \<Rightarrow> string" where
  "normalize_email e =
     (let r = rev (strip e); at = (\<lambda>c. c \<noteq> CHR ''@''); rest = dropWhile at r
      in if rest = [] then e else rev rest @ lower (rev (takeWhile at r)))"

text \<open>The look-up \<open>iexact\<close>; a table of users is read newest first, as \<open>User.Meta.ordering\<close> says.\<close>

definition iexact :: "string \<Rightarrow> string \<Rightarrow> bool" where
  "iexact a b \<longleftrightarrow> lower a = lower b"

definition user_by_email :: "accounts \<Rightarrow> string \<Rightarrow> user option" where
  "user_by_email acc e = find (\<lambda>u. iexact (u_email u) e) (rev (rows (ac_users acc)))"

definition normalized_invite_email :: "string \<Rightarrow> string" where
  "normalized_invite_email e = normalize_email (strip e)"

definition save_user :: "user \<Rightarrow> accounts \<Rightarrow> accounts" where
  "save_user u acc = acc\<lparr>ac_users := tbl_save u_id u (ac_users acc)\<rparr>"

text \<open>
  \<open>UserManager.create_user\<close> followed by the insertion: the address is normalised, and the row must
  have an address no other row has and satisfy the check constraint of the table.
\<close>

definition new_user ::
  "string \<Rightarrow> string \<Rightarrow> string \<Rightarrow> string \<Rightarrow> string \<Rightarrow> role \<Rightarrow> nat option \<Rightarrow> nat \<Rightarrow> user" where
  "new_user email password first_name last_name phone r company i = \<lparr>u_id = i, u_email = normalize_email email,
     u_first_name = first_name, u_last_name = last_name, u_phone = phone, u_position = [], u_avatar = None,
     u_password = password, u_role = r, u_company = company, u_is_active = True, u_is_staff = False,
     u_is_email_verified = False, u_last_login = None, u_is_deleted = False, u_deleted_at = None\<rparr>"

definition user_integrity :: "accounts \<Rightarrow> user \<Rightarrow> bool" where
  "user_integrity acc u \<longleftrightarrow> \<not> list_ex (\<lambda>v. u_email v = u_email u \<and> u_id v \<noteq> u_id u) (rows (ac_users acc)) \<and>
     users_employee_admin_requires_company u"

definition add_user :: "(nat \<Rightarrow> user) \<Rightarrow> accounts \<Rightarrow> accounts" where
  "add_user mk acc = acc\<lparr>ac_users := tbl_insert mk (ac_users acc)\<rparr>"

section \<open>Character fields\<close>

text \<open>
  \<open>CharField\<close> of the serializers trims its value and checks blankness and length afterwards.
\<close>

definition char_field_error :: "string \<Rightarrow> bool \<Rightarrow> bool \<Rightarrow> nat \<Rightarrow> string option \<Rightarrow> api_error option" where
  "char_field_error field required allow_blank max_length v = (case v of
     None \<Rightarrow> require (\<not> required) (raise_validation_error field ''required'')
   | Some t \<Rightarrow> first_err [
       require (allow_blank \<or> strip t \<noteq> []) (raise_validation_error field ''blank''),
       require (length (strip t) \<le> max_length) (raise_validation_error field ''max_length'')])"

definition password_field_error :: "string \<Rightarrow> string option \<Rightarrow> api_error option" where
  "password_field_error field v = (case v of
     None \<Rightarrow> Some (raise_validation_error field ''required'')
   | Some t \<Rightarrow> first_err [
       require (strip t \<noteq> []) (raise_validation_error field ''blank''),
       require (length (strip t) \<ge> 8) (raise_validation_error field ''min_length'')])"

definition text_or :: "string \<Rightarrow> string option \<Rightarrow> string" where
  "text_or d v = (case v of None \<Rightarrow> d | Some t \<Rightarrow> strip t)"

section \<open>Tokens and mail jobs\<close>

text \<open>
  An outstanding refresh token, with the claims the code adds to it; the row of the blacklist is the
  flag. Verification and reset tokens are random identifiers.
\<close>

record refresh_token =
  rt_id :: nat
  rt_user :: nat
  rt_remember_me :: bool
  rt_session_created_at :: "datetime option"
  rt_expires_at :: datetime
  rt_blacklisted :: bool

record user_token =
  ut_id :: nat
  ut_user :: nat
  ut_token :: nat
  ut_expires_at :: datetime
  ut_is_used :: bool

datatype job = Invitation_mail nat | New_employee_joined nat | Verification_mail nat nat | Reset_mail nat

record auth_tables =
  au_refresh :: "refresh_token table"
  au_verifications :: "user_token table"
  au_resets :: "user_token table"
  au_jobs :: "job list"

definition token_expired :: "datetime \<Rightarrow> user_token \<Rightarrow> bool" where
  "token_expired now t \<longleftrightarrow> now > ut_expires_at t"

definition new_token :: "nat \<Rightarrow> nat \<Rightarrow> datetime \<Rightarrow> nat \<Rightarrow> user_token" where
  "new_token uid tok expires i = \<lparr>ut_id = i, ut_user = uid, ut_token = tok, ut_expires_at = expires, ut_is_used = False\<rparr>"

definition create_email_verification_token :: "datetime \<Rightarrow> nat \<Rightarrow> nat \<Rightarrow> bool \<Rightarrow> auth_tables \<Rightarrow> auth_tables" where
  "create_email_verification_token now tok uid invalidate_existing s =
     (let ts = (if invalidate_existing
           then tbl_update (\<lambda>t. ut_user t = uid \<and> \<not> ut_is_used t) (\<lambda>t. t\<lparr>ut_is_used := True\<rparr>) (au_verifications s)
           else au_verifications s)
      in s\<lparr>au_verifications := tbl_insert (new_token uid tok (now + hours 24)) ts\<rparr>)"

definition blacklist_user_tokens :: "nat \<Rightarrow> auth_tables \<Rightarrow> auth_tables" where
  "blacklist_user_tokens uid s = s\<lparr>au_refresh :=
     tbl_update (\<lambda>t. rt_user t = uid) (\<lambda>t. t\<lparr>rt_blacklisted := True\<rparr>) (au_refresh s)\<rparr>"

definition enqueue :: "job \<Rightarrow> auth_tables \<Rightarrow> auth_tables" where
  "enqueue j s = s\<lparr>au_jobs := au_jobs s @ [j]\<rparr>"

lemma blacklisted_are_dead:
  assumes "t \<in> set (rows (au_refresh (blacklist_user_tokens uid s)))" "rt_user t = uid"
  shows "rt_blacklisted t"
proof -
  from assms(1) have "t \<in> (\<lambda>r. if rt_user r = uid then r\<lparr>rt_blacklisted := True\<rparr> else r) ` set (rows (au_refresh s))"
    by (simp add: blacklist_user_tokens_def)
  then obtain r where r: "t = (if rt_user r = uid then r\<lparr>rt_blacklisted := True\<rparr> else r)"
    by (rule imageE)
  show ?thesis using assms(2) by (cases "rt_user r = uid") (simp_all add: r)
qed

lemma blacklist_frame:
  "au_verifications (blacklist_user_tokens uid s) = au_verifications s"
  "au_resets (blacklist_user_tokens uid s) = au_resets s"
  "au_jobs (blacklist_user_tokens uid s) = au_jobs s"
  by (simp_all add: blacklist_user_tokens_def)

text \<open>\<open>notify_new_employee\<close>, the job queued when somebody joined by invitation.\<close>

definition notify_new_employee :: "datetime \<Rightarrow> accounts \<Rightarrow> nat \<Rightarrow> nt_state \<Rightarrow> nt_state" where
  "notify_new_employee now acc uid nt = (case tbl_get u_id uid (ac_users acc) of
     None \<Rightarrow> nt
   | Some u \<Rightarrow> (case u_company u of
       None \<Rightarrow> nt
     | Some c \<Rightarrow> fold (\<lambda>a nt.
         (let nt1 = create_notification now (u_id a) New_employee (Fmt ''new_employee.title'' [Str (full_name u)])
               (Fmt ''new_employee.message'' [Str (full_name u)]) (Some (Str ''/team/manage'')) nt
          in if u_is_email_verified a
             then delay_email (u_id a) New_employee (Fmt ''new_employee.title'' [Str (full_name u)]) nt1 else nt1))
         (tbl_filter (\<lambda>a. u_company a = Some c \<and> u_role a = Company_admin \<and> u_is_active a) (ac_users acc)) nt))"

end
