(* ===== verification/Limits.thy ===== *)
theory Limits
  imports Notifications
begin

text \<open>
  The warnings of \<open>companies/limits.py\<close> that the boards, the storage and the members of a company
  share.
\<close>

section \<open>Limit warnings\<close>

text \<open>
  \<open>notify_company_admins_limit_thresholds\<close>; the percentage is compared exactly, where the source
  rounds it to a float.
\<close>

definition limit_thresholds :: "int \<Rightarrow> int \<Rightarrow> int list" where
  "limit_thresholds current limit =
     (if limit \<le> 0 then [] else filter (\<lambda>t. current * 100 \<ge> t * limit) [80, 95])"

definition warn_admin :: "datetime \<Rightarrow> nat \<Rightarrow> string \<Rightarrow> int \<Rightarrow> int \<Rightarrow> int \<Rightarrow> nat \<Rightarrow> nt_state \<Rightarrow> nt_state" where
  "warn_admin now company metric current limit threshold admin nt =
     (case should_notify now admin Announcement_company nt of (ok, nt') \<Rightarrow>
       (let title = Fmt ''system_limit_warning'' [Num threshold]
        in if \<not> ok then nt'
           else if list_ex (\<lambda>n. n_user n = admin \<and> n_type n = Announcement_company \<and> n_title n = title
                     \<and> \<not> n_is_read n) (rows (nt_notifs nt')) then nt'
           else nt'\<lparr>nt_notifs := tbl_insert (new_notification now admin Announcement_company title
                  (Fmt metric [Num threshold, Num current, Num limit]) (Fmt ''/companies'' [Num (int company)]))
                (nt_notifs nt')\<rparr>))"

definition notify_company_admins_limit_thresholds ::
  "datetime \<Rightarrow> accounts \<Rightarrow> nat \<Rightarrow> string \<Rightarrow> int \<Rightarrow> int \<Rightarrow> nt_state \<Rightarrow> nt_state" where
  "notify_company_admins_limit_thresholds now acc company metric current limit nt =
     (let admins = map u_id (tbl_filter (\<lambda>u. u_company u = Some company \<and> u_role u = Company_admin
            \<and> u_is_active u) (ac_users acc))
      in fold (\<lambda>threshold. fold (warn_admin now company metric current limit threshold) admins)
           (limit_thresholds current limit) nt)"

end
