(* ===== verification/BookingModel.thy ===== *)
theory BookingModel
  imports Notifications
begin

text \<open>
  The data of \<open>apps/bookings\<close>: the rows of \<open>bookings/models.py\<close>, the settings the
  module reads, its database state, and the schedule helpers of \<open>bookings/schedule.py\<close>.
\<close>

section \<open>Rows\<close>

datatype resource_type = Desk | Meeting_room | Parking | Capsule

datatype booking_status = Confirmed | Cancelled | Completed | No_show

text \<open>The equipment switches \<open>has_projector\<close>, \<open>has_tv\<close>, ... are kept under their API keys.\<close>

record resource =
  r_id :: nat
  r_name :: string
  r_type :: resource_type
  r_floor :: int
  r_floor_fk :: "nat option"
  r_zone :: string
  r_description :: string
  r_capacity :: int
  r_equipment :: "(string \<times> bool) list"
  r_min_duration_minutes :: int
  r_max_duration_minutes :: int
  r_advance_booking_days :: int
  r_min_cancel_minutes :: int
  r_available_days :: "int list"
  r_available_from :: daytime
  r_available_until :: daytime
  r_is_hot_desk :: bool
  r_assigned_company :: "nat option"
  r_is_vip :: bool
  r_capsule_zone :: string
  r_is_active :: bool

record booking =
  b_id :: nat
  b_resource :: nat
  b_user :: nat
  b_company :: "nat option"
  b_recurring :: "nat option"
  b_start :: datetime
  b_end :: datetime
  b_status :: booking_status
  b_priority :: int
  b_description :: string
  b_cancelled_by :: "nat option"
  b_cancel_reason :: msg
  b_reminder_sent :: bool
  b_checked_in_at :: "datetime option"
  b_qr_code :: "nat option"
  b_qr_image :: bool

record cancellation_audit =
  ca_id :: nat
  ca_booking :: nat
  ca_cancelled_by :: "nat option"
  ca_cancel_reason :: msg
  ca_cancelled_at :: datetime

datatype change_action = Time_updated | Participants_added | Participant_removed

datatype change_payload = Times datetime datetime | User_ids "nat list" | User_id nat

record change_audit =
  ch_id :: nat
  ch_booking :: nat
  ch_changed_by :: "nat option"
  ch_action :: change_action
  ch_payload :: change_payload
  ch_changed_at :: datetime

record participant =
  bp_id :: nat
  bp_booking :: nat
  bp_user :: nat

datatype recurrence = Weekly | Daily

record recurring_booking =
  rb_id :: nat
  rb_resource :: nat
  rb_user :: nat
  rb_company :: "nat option"
  rb_recurrence_type :: recurrence
  rb_day_of_week :: "int option"
  rb_start_time :: daytime
  rb_end_time :: daytime
  rb_is_active :: bool
  rb_valid_from :: date
  rb_valid_until :: "date option"

record resource_block =
  bl_id :: nat
  bl_resource :: nat
  bl_blocked_by :: "nat option"
  bl_start :: datetime
  bl_end :: datetime
  bl_reason :: string

text \<open>An entry of the access log (\<open>apps/access\<close>) made when a capsule QR code is read.\<close>

record booking_log =
  lg_id :: nat
  lg_booking :: "nat option"
  lg_user :: "nat option"
  lg_checked_by :: "nat option"

record settings =
  MAX_ACTIVE_BOOKINGS_PER_USER :: int
  PRIORITY_OVERRIDE_HOURS :: int
  REMINDER_MINUTES_BEFORE :: int
  NO_SHOW_MINUTES :: int
  SOON_AVAILABLE_MINUTES :: int
  UTC_OFFSET :: int

text \<open>The values of \<open>config/settings/base.py\<close> when the environment sets none.\<close>

definition default_settings :: settings where
  "default_settings = \<lparr>MAX_ACTIVE_BOOKINGS_PER_USER = 5, PRIORITY_OVERRIDE_HOURS = 2,
     REMINDER_MINUTES_BEFORE = 15, NO_SHOW_MINUTES = 15, SOON_AVAILABLE_MINUTES = 15,
     UTC_OFFSET = hours 5\<rparr>"

record bk_state =
  bk_acc :: accounts
  bk_resources :: "resource table"
  bk_bookings :: "booking table"
  bk_blocks :: "resource_block table"
  bk_participants :: "participant table"
  bk_recurring :: "recurring_booking table"
  bk_cancel_audits :: "cancellation_audit table"
  bk_change_audits :: "change_audit table"
  bk_logs :: "booking_log table"
  bk_nt :: nt_state

interpretation resources: repository r_id "tbl_get r_id" "tbl_save r_id" tbl_insert
    "tbl_remove r_id" next_id "tbl_wf r_id"
  by (rule tbl_repository)

interpretation bookings: repository b_id "tbl_get b_id" "tbl_save b_id" tbl_insert
    "tbl_remove b_id" next_id "tbl_wf b_id"
  by (rule tbl_repository)

interpretation blocks: repository bl_id "tbl_get bl_id" "tbl_save bl_id" tbl_insert
    "tbl_remove bl_id" next_id "tbl_wf bl_id"
  by (rule tbl_repository)

interpretation recurring: repository rb_id "tbl_get rb_id" "tbl_save rb_id" tbl_insert
    "tbl_remove rb_id" next_id "tbl_wf rb_id"
  by (rule tbl_repository)

definition all_bookings :: "bk_state \<Rightarrow> booking list" where
  "all_bookings s = rows (bk_bookings s)"

definition resource_of :: "bk_state \<Rightarrow> booking \<Rightarrow> resource option" where
  "resource_of s b = tbl_get r_id (b_resource b) (bk_resources s)"

definition has_type :: "bk_state \<Rightarrow> resource_type \<Rightarrow> booking \<Rightarrow> bool" where
  "has_type s rt b = (case resource_of s b of None \<Rightarrow> False | Some r \<Rightarrow> r_type r = rt)"

section \<open>State updates shared by the handlers\<close>

definition upd_bookings :: "(booking \<Rightarrow> bool) \<Rightarrow> (booking \<Rightarrow> booking) \<Rightarrow> bk_state \<Rightarrow> bk_state" where
  "upd_bookings P f s = s\<lparr>bk_bookings := tbl_update P f (bk_bookings s)\<rparr>"

definition upd_booking :: "nat \<Rightarrow> (booking \<Rightarrow> booking) \<Rightarrow> bk_state \<Rightarrow> bk_state" where
  "upd_booking k f = upd_bookings (\<lambda>b. b_id b = k) f"

definition notify_nt ::
  "datetime \<Rightarrow> nat \<Rightarrow> ntype \<Rightarrow> msg \<Rightarrow> msg \<Rightarrow> msg option \<Rightarrow> bk_state \<Rightarrow> bk_state" where
  "notify_nt now uid t title m link s = s\<lparr>bk_nt := create_notification now uid t title m link (bk_nt s)\<rparr>"

definition mail_nt :: "nat \<Rightarrow> ntype \<Rightarrow> msg \<Rightarrow> bk_state \<Rightarrow> bk_state" where
  "mail_nt uid t subject s = s\<lparr>bk_nt := delay_email uid t subject (bk_nt s)\<rparr>"

definition audit_cancel :: "datetime \<Rightarrow> user \<Rightarrow> msg \<Rightarrow> nat \<Rightarrow> bk_state \<Rightarrow> bk_state" where
  "audit_cancel now u reason k s = s\<lparr>bk_cancel_audits := tbl_insert
     (\<lambda>i. \<lparr>ca_id = i, ca_booking = k, ca_cancelled_by = Some (u_id u), ca_cancel_reason = reason,
           ca_cancelled_at = now\<rparr>) (bk_cancel_audits s)\<rparr>"

definition create_change_audit ::
  "datetime \<Rightarrow> user \<Rightarrow> nat \<Rightarrow> change_action \<Rightarrow> change_payload \<Rightarrow> bk_state \<Rightarrow> bk_state" where
  "create_change_audit now u k act payload s = s\<lparr>bk_change_audits := tbl_insert
     (\<lambda>i. \<lparr>ch_id = i, ch_booking = k, ch_changed_by = Some (u_id u), ch_action = act,
           ch_payload = payload, ch_changed_at = now\<rparr>) (bk_change_audits s)\<rparr>"

definition cancel_row :: "user \<Rightarrow> msg \<Rightarrow> booking \<Rightarrow> booking" where
  "cancel_row u reason b =
     b\<lparr>b_status := Cancelled, b_cancelled_by := Some (u_id u), b_cancel_reason := reason\<rparr>"

definition booking_link :: "nat \<Rightarrow> msg" where
  "booking_link k = Fmt ''/bookings/'' [Num (int k)]"

definition resource_name :: "bk_state \<Rightarrow> booking \<Rightarrow> string" where
  "resource_name s b = (case resource_of s b of None \<Rightarrow> [] | Some r \<Rightarrow> r_name r)"

section \<open>Schedule\<close>

definition is_soon_available :: "settings \<Rightarrow> datetime \<Rightarrow> datetime \<Rightarrow> bool" where
  "is_soon_available cfg end_time now \<longleftrightarrow>
     now < end_time \<and> end_time \<le> now + minutes (SOON_AVAILABLE_MINUTES cfg)"

datatype slot_status = Soon_available | Occupied

definition get_schedule_status :: "settings \<Rightarrow> booking \<Rightarrow> datetime \<Rightarrow> slot_status" where
  "get_schedule_status cfg b now =
     (if is_soon_available cfg (b_end b) now then Soon_available else Occupied)"

definition local_today :: "settings \<Rightarrow> datetime \<Rightarrow> date" where
  "local_today cfg now = local_date (UTC_OFFSET cfg) now"

definition day_range_aware :: "settings \<Rightarrow> date \<Rightarrow> datetime \<times> datetime" where
  "day_range_aware cfg d =
     (let start = make_aware (UTC_OFFSET cfg) d 0 in (start, start + days 1))"

definition seven_day_range_from_today :: "settings \<Rightarrow> datetime \<Rightarrow> datetime \<times> datetime" where
  "seven_day_range_from_today cfg now =
     (let start_d = local_today cfg now
      in (fst (day_range_aware cfg start_d), fst (day_range_aware cfg (start_d + 7))))"

definition week_range_for_date :: "settings \<Rightarrow> date \<Rightarrow> datetime \<times> datetime" where
  "week_range_for_date cfg anchor =
     (let monday = anchor - weekday anchor
      in (fst (day_range_aware cfg monday), fst (day_range_aware cfg (monday + 7))))"

record slot =
  sl_start :: datetime
  sl_end :: datetime
  sl_booking_id :: "nat option"
  sl_user_name :: "string option"

text \<open>\<open>order_by\<close> and \<open>list.sort\<close> are stable sorts.\<close>

definition busy_slots_for_resource :: "bk_state \<Rightarrow> nat \<Rightarrow> datetime \<Rightarrow> datetime \<Rightarrow> slot list" where
  "busy_slots_for_resource s k range_start range_end =
     (let bookings = sort_key b_start (tbl_filter (\<lambda>b. b_resource b = k \<and> b_status b = Confirmed
            \<and> b_start b < range_end \<and> b_end b > range_start) (bk_bookings s));
          blocks = sort_key bl_start (tbl_filter (\<lambda>bl. bl_resource bl = k
            \<and> bl_start bl < range_end \<and> bl_end bl > range_start) (bk_blocks s));
          out = map (\<lambda>b. \<lparr>sl_start = b_start b, sl_end = b_end b, sl_booking_id = Some (b_id b),
                   sl_user_name = map_option full_name (tbl_get u_id (b_user b) (ac_users (bk_acc s)))\<rparr>) bookings
              @ map (\<lambda>bl. \<lparr>sl_start = bl_start bl, sl_end = bl_end bl, sl_booking_id = None,
                   sl_user_name = None\<rparr>) blocks
      in sort_key sl_start out)"

section \<open>Well-formedness and the double booking invariant\<close>

definition bk_wf :: "bk_state \<Rightarrow> bool" where
  "bk_wf s \<longleftrightarrow> tbl_wf b_id (bk_bookings s) \<and> tbl_wf r_id (bk_resources s)
     \<and> tbl_wf bl_id (bk_blocks s) \<and> tbl_wf rb_id (bk_recurring s)"

text \<open>Two confirmed bookings claim the same resource at the same time.\<close>

definition clash :: "booking \<Rightarrow> booking \<Rightarrow> bool" where
  "clash a b \<longleftrightarrow> b_id a \<noteq> b_id b \<and> b_status a = Confirmed \<and> b_status b = Confirmed
     \<and> b_resource a = b_resource b \<and> overlaps (b_start a) (b_end a) (b_start b) (b_end b)"

definition blocked_by_block :: "booking \<Rightarrow> resource_block \<Rightarrow> bool" where
  "blocked_by_block b bl \<longleftrightarrow> b_status b = Confirmed \<and> bl_resource bl = b_resource b
     \<and> overlaps (b_start b) (b_end b) (bl_start bl) (bl_end bl)"

definition no_double_booking :: "bk_state \<Rightarrow> bool" where
  "no_double_booking s \<longleftrightarrow>
     (\<forall>a \<in> set (all_bookings s). \<forall>b \<in> set (all_bookings s). \<not> clash a b)"

definition no_blocked_booking :: "bk_state \<Rightarrow> bool" where
  "no_blocked_booking s \<longleftrightarrow>
     (\<forall>b \<in> set (all_bookings s). \<forall>bl \<in> set (rows (bk_blocks s)). \<not> blocked_by_block b bl)"

definition bk_inv :: "bk_state \<Rightarrow> bool" where
  "bk_inv s \<longleftrightarrow> bk_wf s \<and> no_double_booking s \<and> no_blocked_booking s"

lemma clash_sym: "clash a b \<longleftrightarrow> clash b a"
  by (auto simp: clash_def overlaps_sym)

end
