(* ===== verification/Crm.thy ===== *)
theory Crm
  imports Limits
begin

text \<open>
  Boards, columns and tasks of \<open>apps/crm\<close>: the rows of \<open>crm/models.py\<close>, the WIP check of
  \<open>crm/services.py\<close>, and the board and column endpoints of \<open>crm/views.py\<close>. The task endpoints
  are in \<open>Tasks\<close>.
\<close>

section \<open>Rows\<close>

record board =
  bo_id :: nat
  bo_company :: nat
  bo_name :: string
  bo_description :: string
  bo_is_archived :: bool
  bo_created_by :: "nat option"

record kcolumn =
  cl_id :: nat
  cl_board :: nat
  cl_name :: string
  cl_position :: int
  cl_wip_limit :: int

record label =
  lb_label_id :: nat
  lb_company :: nat
  lb_name :: string
  lb_color :: string

datatype priority = Low | Medium | High | Urgent

record task =
  tk_id :: nat
  tk_column :: nat
  tk_title :: string
  tk_description :: string
  tk_priority :: priority
  tk_position :: int
  tk_assignee :: "nat option"
  tk_created_by :: "nat option"
  tk_deadline :: "datetime option"
  tk_labels :: "nat list"
  tk_is_archived :: bool
  tk_is_deleted :: bool
  tk_deleted_at :: "datetime option"
  tk_created_at :: datetime

record task_history =
  th_id :: nat
  th_task :: nat
  th_user :: "nat option"
  th_action :: string
  th_field :: string
  th_old :: msg
  th_new :: msg

record crm_state =
  cr_acc :: accounts
  cr_boards :: "board table"
  cr_columns :: "kcolumn table"
  cr_labels :: "label table"
  cr_tasks :: "task table"
  cr_history :: "task_history table"
  cr_nt :: nt_state

interpretation boards: repository bo_id "tbl_get bo_id" "tbl_save bo_id" tbl_insert
    "tbl_remove bo_id" next_id "tbl_wf bo_id"
  by (rule tbl_repository)

interpretation columns: repository cl_id "tbl_get cl_id" "tbl_save cl_id" tbl_insert
    "tbl_remove cl_id" next_id "tbl_wf cl_id"
  by (rule tbl_repository)

interpretation tasks: repository tk_id "tbl_get tk_id" "tbl_save tk_id" tbl_insert
    "tbl_remove tk_id" next_id "tbl_wf tk_id"
  by (rule tbl_repository)

text \<open>Follow the references task - column - board - company.\<close>

definition column_of :: "crm_state \<Rightarrow> nat \<Rightarrow> kcolumn option" where
  "column_of s c = tbl_get cl_id c (cr_columns s)"

definition board_of :: "crm_state \<Rightarrow> nat \<Rightarrow> board option" where
  "board_of s b = tbl_get bo_id b (cr_boards s)"

definition board_of_task :: "crm_state \<Rightarrow> task \<Rightarrow> board option" where
  "board_of_task s t = (case column_of s (tk_column t) of
     None \<Rightarrow> None | Some c \<Rightarrow> board_of s (cl_board c))"

section \<open>WIP limits and positions\<close>

text \<open>\<open>Task.objects\<close> leaves soft-deleted rows out.\<close>

definition active_in :: "nat \<Rightarrow> task \<Rightarrow> bool" where
  "active_in c t \<longleftrightarrow> tk_column t = c \<and> \<not> tk_is_archived t \<and> \<not> tk_is_deleted t"

definition wip_exceeded :: api_error where
  "wip_exceeded = LocalizedError ''CRM_WIP_LIMIT_EXCEEDED'' ''crm.wip_limit_exceeded'' 400"

definition check_wip_limit :: "crm_state \<Rightarrow> kcolumn \<Rightarrow> int \<Rightarrow> nat option \<Rightarrow> api_error option" where
  "check_wip_limit s c count exclude =
     (if cl_wip_limit c = 0 then None
      else (let current = int (length (tbl_filter (\<lambda>t. active_in (cl_id c) t \<and> Some (tk_id t) \<noteq> exclude) (cr_tasks s)))
            in require (\<not> current + count > cl_wip_limit c) wip_exceeded))"

definition live_in :: "nat \<Rightarrow> task \<Rightarrow> bool" where
  "live_in c t \<longleftrightarrow> tk_column t = c \<and> \<not> tk_is_deleted t"

definition ordered_tasks :: "crm_state \<Rightarrow> nat \<Rightarrow> task list" where
  "ordered_tasks s c = sort_key tk_position (sort_key tk_created_at (tbl_filter (live_in c) (cr_tasks s)))"

definition index_of :: "nat \<Rightarrow> nat list \<Rightarrow> int" where
  "index_of k ks = int (length (takeWhile (\<lambda>x. x \<noteq> k) ks)) + 1"

definition normalize_positions :: "nat \<Rightarrow> crm_state \<Rightarrow> crm_state" where
  "normalize_positions c s = s\<lparr>cr_tasks := tbl_update (live_in c)
     (\<lambda>t. t\<lparr>tk_position := index_of (tk_id t) (map tk_id (ordered_tasks s c))\<rparr>) (cr_tasks s)\<rparr>"

section \<open>Boards\<close>

definition crm_permission :: "user \<Rightarrow> api_error option" where
  "crm_permission u = first_err [IsCompanyMember (Some u), IsEmailVerifiedOrSuperAdmin (Some u)]"

definition BOARD_TEMPLATES :: "string \<Rightarrow> string list option" where
  "BOARD_TEMPLATES t =
     (if t = ''basic'' then Some [''crm.default_column_todo'', ''crm.default_column_in_progress'',
          ''crm.default_column_done'']
      else if t = ''sales'' then Some [''crm.template.sales.col_1'', ''crm.template.sales.col_2'',
          ''crm.template.sales.col_3'', ''crm.template.sales.col_4'']
      else if t = ''recruitment'' then Some [''crm.template.recruitment.col_1'', ''crm.template.recruitment.col_2'',
          ''crm.template.recruitment.col_3'', ''crm.template.recruitment.col_4'', ''crm.template.recruitment.col_5'']
      else if t = ''project'' then Some [''crm.template.project.col_1'', ''crm.template.project.col_2'',
          ''crm.template.project.col_3'', ''crm.template.project.col_4'']
      else None)"

definition DEFAULT_TEMPLATE_ID :: string where
  "DEFAULT_TEMPLATE_ID = ''basic''"

definition template_columns :: "string option \<Rightarrow> string list" where
  "template_columns template_id =
     (let k = (case template_id of None \<Rightarrow> DEFAULT_TEMPLATE_ID | Some t \<Rightarrow> if t = [] then DEFAULT_TEMPLATE_ID else t)
      in case BOARD_TEMPLATES k of Some ks \<Rightarrow> ks
         | None \<Rightarrow> (case BOARD_TEMPLATES DEFAULT_TEMPLATE_ID of Some ks \<Rightarrow> ks | None \<Rightarrow> []))"

definition board_count :: "crm_state \<Rightarrow> nat \<Rightarrow> int" where
  "board_count s c = int (length (tbl_filter (\<lambda>b. bo_company b = c \<and> \<not> bo_is_archived b) (cr_boards s)))"

text \<open>\<open>get_queryset\<close>; \<open>include_archived\<close> and \<open>company_filter\<close> are query parameters.\<close>

definition board_queryset :: "crm_state \<Rightarrow> user \<Rightarrow> bool \<Rightarrow> nat option \<Rightarrow> board list" where
  "board_queryset s u include_archived company_filter =
     filter (\<lambda>b. include_archived \<or> \<not> bo_is_archived b)
       (if u_role u = Superadmin then
          filter (\<lambda>b. case company_filter of None \<Rightarrow> True | Some c \<Rightarrow> bo_company b = c) (rows (cr_boards s))
        else case u_company u of
          Some c \<Rightarrow> filter (\<lambda>b. bo_company b = c) (rows (cr_boards s)) | None \<Rightarrow> [])"

definition get_board :: "crm_state \<Rightarrow> user \<Rightarrow> bool \<Rightarrow> nat \<Rightarrow> api_error + board" where
  "get_board s u include_archived k = (case find (\<lambda>b. bo_id b = k) (board_queryset s u include_archived None) of
     None \<Rightarrow> Inl NotFound | Some b \<Rightarrow> Inr b)"

record board_request =
  bq_name :: "string option"
  bq_description :: "string option"
  bq_is_archived :: "bool option"
  bq_template_id :: "string option"

definition add_template_column :: "nat \<Rightarrow> nat \<times> string \<Rightarrow> crm_state \<Rightarrow> crm_state" where
  "add_template_column b ik s = (case ik of (i, key) \<Rightarrow> s\<lparr>cr_columns := tbl_insert
     (\<lambda>k. \<lparr>cl_id = k, cl_board = b, cl_name = key, cl_position = int i, cl_wip_limit = 0\<rparr>) (cr_columns s)\<rparr>)"

definition new_board :: "user \<Rightarrow> nat \<Rightarrow> string \<Rightarrow> board_request \<Rightarrow> nat \<Rightarrow> board" where
  "new_board u c name rq i = \<lparr>bo_id = i, bo_company = c, bo_name = name,
     bo_description = (case bq_description rq of None \<Rightarrow> [] | Some d \<Rightarrow> d),
     bo_is_archived = (case bq_is_archived rq of None \<Rightarrow> False | Some a \<Rightarrow> a),
     bo_created_by = Some (u_id u)\<rparr>"

text \<open>A user without a company (a superadmin) makes \<open>company.boards\<close> fail.\<close>

definition create_board :: "datetime \<Rightarrow> user \<Rightarrow> board_request \<Rightarrow> crm_state \<Rightarrow> api_error + crm_state" where
  "create_board now u rq s =
     (case crm_permission u of
        Some e \<Rightarrow> Inl e
      | None \<Rightarrow> (case company_of (cr_acc s) u of
          None \<Rightarrow> Inl ServerError
        | Some co \<Rightarrow> (case bq_name rq of
            None \<Rightarrow> Inl (if board_count s (co_id co) \<ge> co_max_boards co
                then raise_validation_error ''detail'' ''crm.board_limit_exceeded''
                else raise_validation_error ''name'' ''required'')
          | Some name \<Rightarrow> guarded
              (require (\<not> board_count s (co_id co) \<ge> co_max_boards co)
                (raise_validation_error ''detail'' ''crm.board_limit_exceeded''))
              (let b = next_id (cr_boards s);
                   s1 = s\<lparr>cr_boards := tbl_insert (new_board u (co_id co) name rq) (cr_boards s)\<rparr>;
                   s2 = fold (add_template_column b) (enumerate 0 (template_columns (bq_template_id rq))) s1
               in s2\<lparr>cr_nt := notify_company_admins_limit_thresholds now (cr_acc s) (co_id co) ''boards''
                    (board_count s (co_id co) + 1) (co_max_boards co) (cr_nt s2)\<rparr>))))"

text \<open>\<open>PATCH /boards/{id}\<close>: name, description and \<open>is_archived\<close> are writable.\<close>

definition patched_board :: "board_request \<Rightarrow> board \<Rightarrow> board" where
  "patched_board rq b = b\<lparr>
     bo_name := (case bq_name rq of None \<Rightarrow> bo_name b | Some n \<Rightarrow> n),
     bo_description := (case bq_description rq of None \<Rightarrow> bo_description b | Some d \<Rightarrow> d),
     bo_is_archived := (case bq_is_archived rq of None \<Rightarrow> bo_is_archived b | Some a \<Rightarrow> a)\<rparr>"

definition patch_board :: "user \<Rightarrow> bool \<Rightarrow> nat \<Rightarrow> board_request \<Rightarrow> crm_state \<Rightarrow> api_error + crm_state" where
  "patch_board u include_archived k rq s =
     (case crm_permission u of
        Some e \<Rightarrow> Inl e
      | None \<Rightarrow> (case get_board s u include_archived k of
          Inl e \<Rightarrow> Inl e
        | Inr b \<Rightarrow> Inr (s\<lparr>cr_boards := tbl_save bo_id (patched_board rq b) (cr_boards s)\<rparr>)))"

text \<open>A PUT takes the same serializer, which then asks for the name.\<close>

definition put_board :: "user \<Rightarrow> bool \<Rightarrow> nat \<Rightarrow> board_request \<Rightarrow> crm_state \<Rightarrow> api_error + crm_state" where
  "put_board u include_archived k rq s =
     (case crm_permission u of
        Some e \<Rightarrow> Inl e
      | None \<Rightarrow> (case get_board s u include_archived k of
          Inl e \<Rightarrow> Inl e
        | Inr b \<Rightarrow> (if bq_name rq = None then Inl (raise_validation_error ''name'' ''required'')
            else patch_board u include_archived k rq s)))"

lemma put_board_is_patch_board: "put_board u ia k rq s = Inr s' \<Longrightarrow> patch_board u ia k rq s = Inr s'"
  by (simp add: put_board_def split: option.splits sum.splits if_splits)

text \<open>Deleting columns takes their tasks (deleted ones too) and the history of these along.\<close>

definition delete_columns :: "(kcolumn \<Rightarrow> bool) \<Rightarrow> crm_state \<Rightarrow> crm_state" where
  "delete_columns P s =
     (let gone = map cl_id (tbl_filter P (cr_columns s));
          gone_tasks = map tk_id (tbl_filter (\<lambda>t. tk_column t \<in> set gone) (cr_tasks s))
      in s\<lparr>cr_columns := tbl_delete P (cr_columns s),
           cr_tasks := tbl_delete (\<lambda>t. tk_column t \<in> set gone) (cr_tasks s),
           cr_history := tbl_delete (\<lambda>h. th_task h \<in> set gone_tasks) (cr_history s)\<rparr>)"

definition destroy_board :: "user \<Rightarrow> bool \<Rightarrow> nat \<Rightarrow> crm_state \<Rightarrow> api_error + crm_state" where
  "destroy_board u include_archived k s =
     (case crm_permission u of
        Some e \<Rightarrow> Inl e
      | None \<Rightarrow> (case get_board s u include_archived k of
          Inl e \<Rightarrow> Inl e
        | Inr b \<Rightarrow> (let s1 = delete_columns (\<lambda>c. cl_board c = k) s
                    in Inr (s1\<lparr>cr_boards := tbl_delete (\<lambda>b. bo_id b = k) (cr_boards s1)\<rparr>))))"

definition own_board :: "crm_state \<Rightarrow> user \<Rightarrow> nat \<Rightarrow> board option" where
  "own_board s u k = (case board_of s k of
     None \<Rightarrow> None
   | Some b \<Rightarrow> (if u_role u = Superadmin \<or> u_company u = Some (bo_company b) then Some b else None))"

definition archive_board :: "user \<Rightarrow> nat \<Rightarrow> crm_state \<Rightarrow> api_error + crm_state" where
  "archive_board u k s =
     (case crm_permission u of
        Some e \<Rightarrow> Inl e
      | None \<Rightarrow> (case own_board s u k of
          None \<Rightarrow> Inl NotFound
        | Some b \<Rightarrow> Inr (s\<lparr>cr_boards := tbl_save bo_id (b\<lparr>bo_is_archived := True\<rparr>) (cr_boards s)\<rparr>)))"

definition unarchive_board :: "user \<Rightarrow> nat \<Rightarrow> crm_state \<Rightarrow> api_error + crm_state" where
  "unarchive_board u k s =
     (case crm_permission u of
        Some e \<Rightarrow> Inl e
      | None \<Rightarrow> (case own_board s u k of
          None \<Rightarrow> Inl NotFound
        | Some b \<Rightarrow>
          (if \<not> bo_is_archived b then Inr s
           else (case tbl_get co_id (bo_company b) (ac_companies (cr_acc s)) of
               None \<Rightarrow> Inl ServerError
             | Some co \<Rightarrow> guarded
                 (require (\<not> board_count s (bo_company b) \<ge> co_max_boards co)
                   (raise_validation_error ''detail'' ''crm.board_unarchive_limit''))
                 (s\<lparr>cr_boards := tbl_save bo_id (b\<lparr>bo_is_archived := False\<rparr>) (cr_boards s)\<rparr>)))))"

section \<open>Columns\<close>

definition get_board_or_403 :: "crm_state \<Rightarrow> user \<Rightarrow> nat \<Rightarrow> api_error + board" where
  "get_board_or_403 s u k = (case board_of s k of
     None \<Rightarrow> Inl NotFound
   | Some b \<Rightarrow> (if u_role u \<noteq> Superadmin \<and> u_company u \<noteq> Some (bo_company b)
       then Inl (PermissionDenied ''crm.board_access_denied'') else Inr b))"

definition board_columns :: "crm_state \<Rightarrow> nat \<Rightarrow> kcolumn list" where
  "board_columns s b = sort_key cl_position (tbl_filter (\<lambda>c. cl_board c = b) (cr_columns s))"

definition last_position :: "crm_state \<Rightarrow> nat \<Rightarrow> int" where
  "last_position s b = (case board_columns s b of [] \<Rightarrow> 0 | cs \<Rightarrow> cl_position (last cs))"

text \<open>A WIP limit sent as null cannot be stored.\<close>

definition create_column ::
  "user \<Rightarrow> nat \<Rightarrow> string \<Rightarrow> int option option \<Rightarrow> crm_state \<Rightarrow> api_error + crm_state" where
  "create_column u b name wip s =
     (case crm_permission u of
        Some e \<Rightarrow> Inl e
      | None \<Rightarrow> (case wip of
          Some None \<Rightarrow> (case get_board_or_403 s u b of Inl e \<Rightarrow> Inl e | Inr _ \<Rightarrow> Inl ServerError)
        | _ \<Rightarrow>
          (let w = (case wip of Some (Some w) \<Rightarrow> w | _ \<Rightarrow> 0)
           in if w < 0 then Inl (raise_validation_error ''wip_limit'' ''min_value'')
              else (case get_board_or_403 s u b of
                  Inl e \<Rightarrow> Inl e
                | Inr _ \<Rightarrow> Inr (s\<lparr>cr_columns := tbl_insert (\<lambda>k. \<lparr>cl_id = k, cl_board = b, cl_name = name,
                      cl_position = last_position s b + 1, cl_wip_limit = w\<rparr>) (cr_columns s)\<rparr>)))))"

record column_request =
  cq_name :: "string option"
  cq_wip_limit :: "int option option"
  cq_position :: "int option"

definition validate_wip_limit :: "crm_state \<Rightarrow> kcolumn \<Rightarrow> int option option \<Rightarrow> api_error option" where
  "validate_wip_limit s c wip = (case wip of
     None \<Rightarrow> None
   | Some None \<Rightarrow> Some ServerError
   | Some (Some w) \<Rightarrow>
      (if w < 0 then Some (raise_validation_error ''wip_limit'' ''min_value'')
       else if w = 0 then None
       else require (\<not> w < int (length (tbl_filter (active_in (cl_id c)) (cr_tasks s))))
         (raise_validation_error ''wip_limit'' ''crm.wip_limit_below_active_tasks'')))"

definition shift_columns :: "nat \<Rightarrow> nat \<Rightarrow> int \<Rightarrow> int \<Rightarrow> crm_state \<Rightarrow> crm_state" where
  "shift_columns b k old new s = s\<lparr>cr_columns :=
     (if old < new
      then tbl_update (\<lambda>c. cl_board c = b \<and> cl_position c > old \<and> cl_position c \<le> new \<and> cl_id c \<noteq> k)
             (\<lambda>c. c\<lparr>cl_position := cl_position c - 1\<rparr>) (cr_columns s)
      else tbl_update (\<lambda>c. cl_board c = b \<and> cl_position c \<ge> new \<and> cl_position c < old \<and> cl_id c \<noteq> k)
             (\<lambda>c. c\<lparr>cl_position := cl_position c + 1\<rparr>) (cr_columns s))\<rparr>"

definition patched_column :: "column_request \<Rightarrow> int \<Rightarrow> kcolumn \<Rightarrow> kcolumn" where
  "patched_column rq position c = c\<lparr>
     cl_name := (case cq_name rq of None \<Rightarrow> cl_name c | Some n \<Rightarrow> n),
     cl_wip_limit := (case cq_wip_limit rq of Some (Some w) \<Rightarrow> w | _ \<Rightarrow> cl_wip_limit c),
     cl_position := position\<rparr>"

definition perform_update_column :: "kcolumn \<Rightarrow> column_request \<Rightarrow> crm_state \<Rightarrow> crm_state" where
  "perform_update_column c rq s =
     (case cq_position rq of
        Some p \<Rightarrow>
          (if p \<noteq> cl_position c then
             (let siblings = tbl_filter (\<lambda>x. cl_board x = cl_board c \<and> cl_id x \<noteq> cl_id c) (cr_columns s);
                  new = max 1 (min p (int (length siblings) + 1));
                  s1 = shift_columns (cl_board c) (cl_id c) (cl_position c) new s
              in s1\<lparr>cr_columns := tbl_save cl_id (patched_column rq new c) (cr_columns s1)\<rparr>)
           else s\<lparr>cr_columns := tbl_save cl_id (patched_column rq (cl_position c) c) (cr_columns s)\<rparr>)
      | None \<Rightarrow> s\<lparr>cr_columns := tbl_save cl_id (patched_column rq (cl_position c) c) (cr_columns s)\<rparr>)"

definition update_column ::
  "user \<Rightarrow> nat \<Rightarrow> nat \<Rightarrow> column_request \<Rightarrow> crm_state \<Rightarrow> api_error + crm_state" where
  "update_column u b k rq s =
     (case crm_permission u of
        Some e \<Rightarrow> Inl e
      | None \<Rightarrow> (case get_board_or_403 s u b of
          Inl e \<Rightarrow> Inl e
        | Inr _ \<Rightarrow> (case find (\<lambda>c. cl_id c = k) (board_columns s b) of
            None \<Rightarrow> Inl NotFound
          | Some c \<Rightarrow> guarded (first_err
              [validate_wip_limit s c (cq_wip_limit rq),
               require (case cq_position rq of None \<Rightarrow> True | Some p \<Rightarrow> 1 \<le> p)
                 (raise_validation_error ''position'' ''min_value'')])
              (perform_update_column c rq s))))"

definition renumber_columns :: "nat \<Rightarrow> crm_state \<Rightarrow> crm_state" where
  "renumber_columns b s = s\<lparr>cr_columns := tbl_update (\<lambda>c. cl_board c = b)
     (\<lambda>c. c\<lparr>cl_position := index_of (cl_id c) (map cl_id (board_columns s b))\<rparr>) (cr_columns s)\<rparr>"

definition destroy_column :: "user \<Rightarrow> nat \<Rightarrow> nat \<Rightarrow> nat option \<Rightarrow> crm_state \<Rightarrow> api_error + crm_state" where
  "destroy_column u b k move_to s =
     (case crm_permission u of
        Some e \<Rightarrow> Inl e
      | None \<Rightarrow> (case get_board_or_403 s u b of
          Inl e \<Rightarrow> Inl e
        | Inr _ \<Rightarrow> (case find (\<lambda>c. cl_id c = k) (board_columns s b) of
            None \<Rightarrow> Inl NotFound
          | Some c \<Rightarrow> (case move_to of
              None \<Rightarrow> Inl (raise_validation_error ''move_to'' ''crm.move_to_required'')
            | Some m \<Rightarrow>
              (if length (board_columns s b) \<le> 1
                 then Inl (raise_validation_error ''detail'' ''crm.last_column_cannot_delete'')
               else (case find (\<lambda>c. cl_id c = m) (board_columns s b) of
                   None \<Rightarrow> Inl (raise_validation_error ''move_to'' ''crm.move_to_column_not_found'')
                 | Some target \<Rightarrow>
                   (let n = int (length (tbl_filter (active_in k) (cr_tasks s)))
                    in guarded (first_err
                         [require (m \<noteq> k) (raise_validation_error ''move_to'' ''crm.move_to_same_column''),
                          (if n > 0 then check_wip_limit s target n None else None)])
                       (renumber_columns b (delete_columns (\<lambda>c. cl_id c = k)
                         (s\<lparr>cr_tasks := tbl_update (live_in k) (\<lambda>t. t\<lparr>tk_column := m\<rparr>) (cr_tasks s)\<rparr>)))))))))) "

definition reorder_step :: "nat \<times> nat \<Rightarrow> crm_state \<Rightarrow> crm_state" where
  "reorder_step pk s = (case pk of (pos, k) \<Rightarrow> s\<lparr>cr_columns := tbl_update (\<lambda>c. cl_id c = k)
     (\<lambda>c. c\<lparr>cl_position := int pos\<rparr>) (cr_columns s)\<rparr>)"

definition reorder_columns :: "user \<Rightarrow> nat \<Rightarrow> nat list \<Rightarrow> crm_state \<Rightarrow> api_error + crm_state" where
  "reorder_columns u b column_ids s =
     (case crm_permission u of
        Some e \<Rightarrow> Inl e
      | None \<Rightarrow> (case get_board_or_403 s u b of
          Inl e \<Rightarrow> Inl e
        | Inr _ \<Rightarrow> guarded (first_err
            [require (column_ids \<noteq> []) (raise_validation_error ''column_ids'' ''crm.column_ids_empty''),
             require (set column_ids = set (map cl_id (board_columns s b)))
               (raise_validation_error ''column_ids'' ''crm.reorder_missing_columns'')])
            (fold reorder_step (enumerate 1 column_ids) s)))"

end
