(* ===== verification/Leaves.thy ===== *)
theory Leaves
  imports Notifications
begin

text \<open>
  Leave requests and leave balances of \<open>apps/hr\<close>: the rows of \<open>hr/models.py\<close>, the checks of
  \<open>LeaveRequestSerializer\<close>, the endpoints of \<open>LeaveRequestViewSet\<close>, and the invariant that ties
  the used days of a balance to the approved requests.
\<close>

section \<open>Rows\<close>

text \<open>The year of a date, computed as \<open>datetime.date\<close> computes it from the ordinal.\<close>

definition year_of :: "date \<Rightarrow> int" where
  "year_of d =
     (let n = d + 719162;
          n400 = n div 146097; n = n mod 146097;
          n100 = n div 36524; n = n mod 36524;
          n4 = n div 1461; n = n mod 1461;
          n1 = n div 365;
          year = n400 * 400 + n100 * 100 + n4 * 4 + n1 + 1
      in if n1 = 4 \<or> n100 = 4 then year - 1 else year)"

datatype leave_type = Vacation | Day_off | Sick_leave | Remote

datatype leave_status = Lr_pending | Lr_approved | Lr_rejected | Lr_cancelled

record leave =
  lv_id :: nat
  lv_user :: nat
  lv_company :: nat
  lv_type :: leave_type
  lv_status :: leave_status
  lv_start :: date
  lv_end :: date
  lv_comment :: string
  lv_assigned_reviewer :: "nat option"
  lv_reviewed_by :: "nat option"
  lv_review_comment :: string
  lv_reviewed_at :: "datetime option"

definition duration_days :: "leave \<Rightarrow> int" where
  "duration_days l = lv_end l - lv_start l + 1"

record balance =
  lb_id :: nat
  lb_user :: nat
  lb_year :: int
  lb_total :: int
  lb_used :: int

definition remaining_days :: "balance \<Rightarrow> int" where
  "remaining_days b = max (lb_total b - lb_used b) 0"

record company_settings =
  cs_id :: nat
  cs_company :: nat
  cs_vacation_days :: int
  cs_onboarding_enabled :: bool
  cs_onboarding_completed :: bool
  cs_brand_color :: string
  cs_task_categories :: "string list"
  cs_custom_labels :: "json list"

record hr_state =
  hr_acc :: accounts
  hr_settings :: "company_settings table"
  hr_leaves :: "leave table"
  hr_balances :: "balance table"
  hr_nt :: nt_state

definition leave_set :: "leave \<Rightarrow> hr_state \<Rightarrow> hr_state" where
  "leave_set l s = s\<lparr>hr_leaves := tbl_save lv_id l (hr_leaves s)\<rparr>"

section \<open>Balances\<close>

definition settings_of :: "hr_state \<Rightarrow> nat \<Rightarrow> company_settings option" where
  "settings_of s c = find (\<lambda>x. cs_company x = c) (rows (hr_settings s))"

definition default_total_days_for_user :: "hr_state \<Rightarrow> user \<Rightarrow> int" where
  "default_total_days_for_user s u = (case u_company u of
     None \<Rightarrow> 24
   | Some c \<Rightarrow> (case settings_of s c of None \<Rightarrow> 24 | Some x \<Rightarrow> cs_vacation_days x))"

definition balance_row :: "hr_state \<Rightarrow> nat \<Rightarrow> int \<Rightarrow> balance option" where
  "balance_row s uid year = find (\<lambda>b. lb_user b = uid \<and> lb_year b = year) (rows (hr_balances s))"

definition new_balance :: "hr_state \<Rightarrow> user \<Rightarrow> int \<Rightarrow> nat \<Rightarrow> balance" where
  "new_balance s u year i = \<lparr>lb_id = i, lb_user = u_id u, lb_year = year,
     lb_total = default_total_days_for_user s u, lb_used = 0\<rparr>"

definition get_or_create_balance :: "user \<Rightarrow> int \<Rightarrow> hr_state \<Rightarrow> balance \<times> hr_state" where
  "get_or_create_balance u year s = (case balance_row s (u_id u) year of
     Some b \<Rightarrow> (b, s)
   | None \<Rightarrow> (new_balance s u year (next_id (hr_balances s)),
       s\<lparr>hr_balances := tbl_insert (new_balance s u year) (hr_balances s)\<rparr>))"

definition save_balance :: "balance \<Rightarrow> hr_state \<Rightarrow> hr_state" where
  "save_balance b s = s\<lparr>hr_balances := tbl_save lb_id b (hr_balances s)\<rparr>"

section \<open>Validation of a request\<close>

definition is_active_admin_of :: "nat option \<Rightarrow> user \<Rightarrow> bool" where
  "is_active_admin_of c a \<longleftrightarrow> u_role a = Company_admin \<and> u_company a = c \<and> u_is_active a"

definition other_admins :: "hr_state \<Rightarrow> user \<Rightarrow> user list" where
  "other_admins s author =
     tbl_filter (\<lambda>a. is_active_admin_of (u_company author) a \<and> u_id a \<noteq> u_id author) (ac_users (hr_acc s))"

definition approved_overlap :: "hr_state \<Rightarrow> nat \<Rightarrow> date \<Rightarrow> date \<Rightarrow> nat option \<Rightarrow> bool" where
  "approved_overlap s uid st en exclude \<longleftrightarrow> list_ex (\<lambda>l. lv_user l = uid \<and> lv_status l = Lr_approved
     \<and> lv_start l \<le> en \<and> lv_end l \<ge> st \<and> Some (lv_id l) \<noteq> exclude) (rows (hr_leaves s))"

definition hr_error :: "string \<Rightarrow> string \<Rightarrow> api_error" where
  "hr_error field key = raise_validation_error field key"

text \<open>
  \<open>LeaveRequestSerializer.validate\<close> on the dates, the type and the reviewer that hold after the
  request; \<open>today\<close> is the local date, \<open>instance\<close> the id of the row that is updated.
\<close>

definition reviewer_errors :: "hr_state \<Rightarrow> user \<Rightarrow> nat option \<Rightarrow> api_error option" where
  "reviewer_errors s author assigned = first_err
     [require (u_role author = Company_admin \<longrightarrow> other_admins s author \<noteq> [])
        (hr_error ''non_field_errors'' ''hr.leave_no_other_admin''),
      require (u_role author = Company_admin \<longrightarrow> assigned \<noteq> None)
        (hr_error ''assigned_reviewer'' ''hr.leave_reviewer_required''),
      (case assigned of
         None \<Rightarrow> None
       | Some k \<Rightarrow> (case tbl_get u_id k (ac_users (hr_acc s)) of
           None \<Rightarrow> Some (hr_error ''assigned_reviewer'' ''does_not_exist'')
         | Some r \<Rightarrow> first_err
             [require (u_id r \<noteq> u_id author) (hr_error ''assigned_reviewer'' ''hr.leave_reviewer_is_author''),
              require (is_active_admin_of (u_company author) r)
                (hr_error ''assigned_reviewer'' ''hr.leave_reviewer_invalid'')]))]"

definition remaining_for :: "hr_state \<Rightarrow> user \<Rightarrow> int \<Rightarrow> int" where
  "remaining_for s u year = (case balance_row s (u_id u) year of
     None \<Rightarrow> max (default_total_days_for_user s u - 0) 0
   | Some b \<Rightarrow> max (lb_total b - lb_used b) 0)"

definition validate_leave ::
  "date \<Rightarrow> hr_state \<Rightarrow> user \<Rightarrow> nat option \<Rightarrow> leave_type \<Rightarrow> date \<Rightarrow> date \<Rightarrow> nat option \<Rightarrow> api_error option" where
  "validate_leave today s author inst lt st en assigned = first_err
     [reviewer_errors s author assigned,
      require (\<not> st > en) (hr_error ''start_date'' ''hr.start_date_after_end_date''),
      require (\<not> st < today) (hr_error ''start_date'' ''hr.start_date_in_past''),
      require (\<not> approved_overlap s (u_id author) st en inst)
        (hr_error ''non_field_errors'' ''hr.leave_dates_overlap''),
      require (lt \<in> {Vacation, Day_off} \<longrightarrow> \<not> en - st + 1 > remaining_for s author (year_of st))
        (hr_error ''non_field_errors'' ''hr.leave_balance_insufficient'')]"

section \<open>Endpoints\<close>

text \<open>\<open>get_queryset\<close>; the \<open>year\<close> parameter is parsed by the framework.\<close>

definition leave_queryset :: "hr_state \<Rightarrow> user \<Rightarrow> int option \<Rightarrow> api_error + leave list" where
  "leave_queryset s u year =
     (let qs = company_isolation (\<lambda>l. Some (lv_company l)) u (rows (hr_leaves s));
          qs = (if u_role u = Employee then filter (\<lambda>l. lv_user l = u_id u) qs else qs)
      in case year of
           None \<Rightarrow> Inr qs
         | Some y \<Rightarrow> guarded (require (\<not> (y < 1900 \<or> y > 3000)) (hr_error ''year'' ''hr.year_out_of_range''))
             (filter (\<lambda>l. year_of (lv_start l) = y) qs))"

definition get_leave :: "hr_state \<Rightarrow> user \<Rightarrow> int option \<Rightarrow> nat \<Rightarrow> api_error + leave" where
  "get_leave s u year k = (case leave_queryset s u year of
     Inl e \<Rightarrow> Inl e
   | Inr qs \<Rightarrow> (case find (\<lambda>l. lv_id l = k) qs of None \<Rightarrow> Inl NotFound | Some l \<Rightarrow> Inr l))"

record leave_request =
  lr_type :: "leave_type option"
  lr_start :: "date option"
  lr_end :: "date option"
  lr_comment :: "string option"
  lr_reviewer :: "nat option option"

definition new_leave :: "user \<Rightarrow> nat \<Rightarrow> leave_type \<Rightarrow> date \<Rightarrow> date \<Rightarrow> leave_request \<Rightarrow> nat \<Rightarrow> leave" where
  "new_leave u c lt st en rq i = \<lparr>lv_id = i, lv_user = u_id u, lv_company = c, lv_type = lt,
     lv_status = Lr_pending, lv_start = st, lv_end = en,
     lv_comment = (case lr_comment rq of None \<Rightarrow> [] | Some t \<Rightarrow> t),
     lv_assigned_reviewer = (case lr_reviewer rq of None \<Rightarrow> None | Some r \<Rightarrow> r),
     lv_reviewed_by = None, lv_review_comment = [], lv_reviewed_at = None\<rparr>"

definition notify_reviewer :: "datetime \<Rightarrow> user \<Rightarrow> user \<Rightarrow> hr_state \<Rightarrow> hr_state" where
  "notify_reviewer now u admin s = s\<lparr>hr_nt :=
     delay_email (u_id admin) Leave_review (Fmt ''leave_needs_review'' [])
       (create_notification now (u_id admin) Leave_review (Fmt ''leave_from'' [Str (full_name u)])
          (Fmt ''leave_submitted'' [Str (full_name u)]) (Some (Str ''/hr/leaves'')) (hr_nt s))\<rparr>"

definition reviewers_to_notify :: "hr_state \<Rightarrow> user \<Rightarrow> nat \<Rightarrow> nat option \<Rightarrow> user list" where
  "reviewers_to_notify s u c assigned = (case assigned of
     Some k \<Rightarrow> tbl_filter (\<lambda>a. u_id a = k \<and> u_is_active a) (ac_users (hr_acc s))
   | None \<Rightarrow> tbl_filter (\<lambda>a. is_active_admin_of (Some c) a \<and> u_id a \<noteq> u_id u) (ac_users (hr_acc s)))"

text \<open>A superadmin without a company passes the permission, but the row needs a company.\<close>

definition create_leave :: "int \<Rightarrow> datetime \<Rightarrow> user \<Rightarrow> leave_request \<Rightarrow> hr_state \<Rightarrow> api_error + hr_state" where
  "create_leave off now u rq s =
     (case IsCompanyMember (Some u) of
        Some e \<Rightarrow> Inl e
      | None \<Rightarrow> (case (lr_type rq, lr_start rq, lr_end rq) of
          (Some lt, Some st, Some en) \<Rightarrow>
            (let assigned = (case lr_reviewer rq of None \<Rightarrow> None | Some r \<Rightarrow> r)
             in case validate_leave (local_date off now) s u None lt st en assigned of
                  Some e \<Rightarrow> Inl e
                | None \<Rightarrow> (case u_company u of
                    None \<Rightarrow> Inl ServerError
                  | Some c \<Rightarrow> Inr (fold (notify_reviewer now u) (reviewers_to_notify s u c assigned)
                      (s\<lparr>hr_leaves := tbl_insert (new_leave u c lt st en rq) (hr_leaves s)\<rparr>))))
        | _ \<Rightarrow> Inl (hr_error ''leave_type'' ''required'')))"

definition patched_leave :: "leave_request \<Rightarrow> leave \<Rightarrow> leave" where
  "patched_leave rq l = l\<lparr>
     lv_type := (case lr_type rq of None \<Rightarrow> lv_type l | Some t \<Rightarrow> t),
     lv_start := (case lr_start rq of None \<Rightarrow> lv_start l | Some d \<Rightarrow> d),
     lv_end := (case lr_end rq of None \<Rightarrow> lv_end l | Some d \<Rightarrow> d),
     lv_comment := (case lr_comment rq of None \<Rightarrow> lv_comment l | Some t \<Rightarrow> t),
     lv_assigned_reviewer := (case lr_reviewer rq of None \<Rightarrow> lv_assigned_reviewer l | Some r \<Rightarrow> r)\<rparr>"

definition own_pending_error :: "user \<Rightarrow> leave \<Rightarrow> api_error option" where
  "own_pending_error u l = first_err
     [require (lv_user l = u_id u) (PermissionDenied ''hr.leave_edit_own_only''),
      require (lv_status l = Lr_pending) (PermissionDenied ''hr.leave_edit_pending_only'')]"

definition update_leave ::
  "int \<Rightarrow> datetime \<Rightarrow> user \<Rightarrow> int option \<Rightarrow> nat \<Rightarrow> leave_request \<Rightarrow> hr_state \<Rightarrow> api_error + hr_state" where
  "update_leave off now u year k rq s =
     (case IsCompanyMember (Some u) of
        Some e \<Rightarrow> Inl e
      | None \<Rightarrow> (case get_leave s u year k of
          Inl e \<Rightarrow> Inl e
        | Inr l \<Rightarrow>
            (let l' = patched_leave rq l
             in guarded (first_err [own_pending_error u l,
                  validate_leave (local_date off now) s u (Some k) (lv_type l') (lv_start l') (lv_end l')
                    (lv_assigned_reviewer l')])
                (leave_set l' s))))"

definition cancel_leave :: "user \<Rightarrow> int option \<Rightarrow> nat \<Rightarrow> hr_state \<Rightarrow> api_error + hr_state" where
  "cancel_leave u year k s =
     (case IsCompanyMember (Some u) of
        Some e \<Rightarrow> Inl e
      | None \<Rightarrow> (case get_leave s u year k of
          Inl e \<Rightarrow> Inl e
        | Inr l \<Rightarrow> guarded (own_pending_error u l) (leave_set (l\<lparr>lv_status := Lr_cancelled\<rparr>) s)))"

definition deducts :: "leave_type \<Rightarrow> bool" where
  "deducts lt \<longleftrightarrow> lt \<notin> {Sick_leave, Remote}"

text \<open>
  The review. The author row of a request always exists (the foreign key cascades), so its
  absence is a server error here.
\<close>

definition review_error :: "hr_state \<Rightarrow> user \<Rightarrow> user \<Rightarrow> leave \<Rightarrow> leave_status \<Rightarrow> api_error option" where
  "review_error s u author l new_status = first_err
     [require (lv_user l \<noteq> u_id u) (PermissionDenied ''hr.leave_review_self_forbidden''),
      require (case lv_assigned_reviewer l of None \<Rightarrow> True | Some r \<Rightarrow> r = u_id u)
        (PermissionDenied ''hr.leave_review_not_assigned''),
      require (new_status = Lr_approved \<longrightarrow>
          \<not> approved_overlap s (lv_user l) (lv_start l) (lv_end l) (Some (lv_id l)))
        (hr_error ''non_field_errors'' ''hr.leave_approve_overlap''),
      require (new_status = Lr_approved \<and> deducts (lv_type l) \<and> lv_status l \<noteq> Lr_approved \<longrightarrow>
          \<not> duration_days l > remaining_days (fst (get_or_create_balance author (year_of (lv_start l)) s)))
        (hr_error ''non_field_errors'' ''hr.leave_approve_balance_insufficient'')]"

definition charge_balance :: "user \<Rightarrow> leave \<Rightarrow> leave_status \<Rightarrow> leave_status \<Rightarrow> hr_state \<Rightarrow> hr_state" where
  "charge_balance author l old_status new_status s =
     (if \<not> deducts (lv_type l) then s
      else (case get_or_create_balance author (year_of (lv_start l)) s of (b, s') \<Rightarrow>
        (if old_status \<noteq> Lr_approved \<and> new_status = Lr_approved
           then save_balance (b\<lparr>lb_used := lb_used b + duration_days l\<rparr>) s'
         else if old_status = Lr_approved \<and> new_status \<noteq> Lr_approved
           then save_balance (b\<lparr>lb_used := max (lb_used b - duration_days l) 0\<rparr>) s'
         else s')))"

definition review_leave ::
  "datetime \<Rightarrow> user \<Rightarrow> int option \<Rightarrow> nat \<Rightarrow> leave_status \<Rightarrow> string \<Rightarrow> hr_state \<Rightarrow> api_error + hr_state" where
  "review_leave now u year k new_status comment s =
     (case first_err
        [require (u_role u = Company_admin) (PermissionDenied ''hr.review_admin_only''),
         require (new_status \<in> {Lr_approved, Lr_rejected}) (hr_error ''status'' ''invalid_choice'')] of
        Some e \<Rightarrow> Inl e
      | None \<Rightarrow> (case get_leave s u year k of
          Inl e \<Rightarrow> Inl e
        | Inr l \<Rightarrow> (case tbl_get u_id (lv_user l) (ac_users (hr_acc s)) of
            None \<Rightarrow> Inl ServerError
          | Some author \<Rightarrow>
              (let l' = l\<lparr>lv_status := new_status, lv_review_comment := comment,
                     lv_reviewed_by := Some (u_id u), lv_reviewed_at := Some now\<rparr>;
                   s1 = leave_set l' s;
                   s2 = s1\<lparr>hr_nt := create_notification now (lv_user l)
                          (if new_status = Lr_approved then Leave_approved else Leave_rejected)
                          (Fmt ''leave_reviewed'' []) (Str comment) (Some (Str ''/leave'')) (hr_nt s1)\<rparr>
               in guarded (review_error s u author l new_status)
                    (charge_balance author l (lv_status l) new_status s2)))))"

definition resolve_year :: "datetime \<Rightarrow> int option \<Rightarrow> api_error + int" where
  "resolve_year now year = (case year of
     None \<Rightarrow> Inr (year_of (local_date 0 now))
   | Some y \<Rightarrow> guarded (require (\<not> (y < 1900 \<or> y > 3000)) (hr_error ''year'' ''hr.year_out_of_range'')) y)"

definition show_balance :: "datetime \<Rightarrow> user \<Rightarrow> int option \<Rightarrow> hr_state \<Rightarrow> api_error + (balance \<times> hr_state)" where
  "show_balance now u year s =
     (case IsCompanyMember (Some u) of
        Some e \<Rightarrow> Inl e
      | None \<Rightarrow> (case resolve_year now year of
          Inl e \<Rightarrow> Inl e | Inr y \<Rightarrow> Inr (get_or_create_balance u y s)))"

definition set_balance :: "user \<Rightarrow> nat \<Rightarrow> int \<Rightarrow> int \<Rightarrow> hr_state \<Rightarrow> api_error + hr_state" where
  "set_balance u target_id year total_days s =
     (case first_err
        [IsCompanyAdmin (Some u),
         require (1900 \<le> year \<and> year \<le> 3000) (hr_error ''year'' ''invalid''),
         require (0 \<le> total_days) (hr_error ''total_days'' ''min_value'')] of
        Some e \<Rightarrow> Inl e
      | None \<Rightarrow> (case tbl_get u_id target_id (ac_users (hr_acc s)) of
          None \<Rightarrow> Inl (hr_error ''user_id'' ''hr.user_not_found'')
        | Some target \<Rightarrow>
            (if u_role u \<noteq> Superadmin \<and> u_company target \<noteq> u_company u
             then Inl (PermissionDenied ''hr.balance_own_company_only'')
             else (case get_or_create_balance target year s of (b, s') \<Rightarrow>
               Inr (save_balance (b\<lparr>lb_total := total_days\<rparr>) s')))))"

text \<open>The team view makes the missing rows.\<close>

definition team_balance :: "datetime \<Rightarrow> user \<Rightarrow> int option \<Rightarrow> hr_state \<Rightarrow> api_error + hr_state" where
  "team_balance now u year s =
     (case IsCompanyAdmin (Some u) of
        Some e \<Rightarrow> Inl e
      | None \<Rightarrow> (case resolve_year now year of
          Inl e \<Rightarrow> Inl e
        | Inr y \<Rightarrow> Inr (fold (\<lambda>m t. snd (get_or_create_balance m y t))
            (tbl_filter (\<lambda>m. u_role m = Employee \<and> (u_role u = Superadmin \<or> u_company m = u_company u))
              (ac_users (hr_acc s))) s)))"

text \<open>
  \<open>_settle_pending_leaves_on_reviewer_loss\<close>: run when the member \<open>target\<close> loses the company.
\<close>

definition settle_leave :: "hr_state \<Rightarrow> user \<Rightarrow> nat \<Rightarrow> leave \<Rightarrow> leave" where
  "settle_leave s target c l =
     (if list_ex (\<lambda>a. is_active_admin_of (Some c) a \<and> u_id a \<notin> {u_id target, lv_user l}) (rows (ac_users (hr_acc s)))
      then l\<lparr>lv_assigned_reviewer := None\<rparr>
      else l\<lparr>lv_status := Lr_cancelled, lv_assigned_reviewer := None\<rparr>)"

definition settle_pending_leaves :: "user \<Rightarrow> nat \<Rightarrow> hr_state \<Rightarrow> hr_state" where
  "settle_pending_leaves target c s = s\<lparr>hr_leaves := tbl_update
     (\<lambda>l. lv_assigned_reviewer l = Some (u_id target) \<and> lv_company l = c \<and> lv_status l = Lr_pending)
     (settle_leave s target c) (hr_leaves s)\<rparr>"

section \<open>Invariant\<close>

text \<open>
  Approved requests of a user never overlap, and the used days of a balance are the days of the
  approved requests that deduct and start in its year.
\<close>

definition charge :: "nat \<Rightarrow> int \<Rightarrow> leave \<Rightarrow> int" where
  "charge uid year l = (if lv_user l = uid \<and> lv_status l = Lr_approved \<and> deducts (lv_type l)
     \<and> year_of (lv_start l) = year then duration_days l else 0)"

definition spent :: "hr_state \<Rightarrow> nat \<Rightarrow> int \<Rightarrow> int" where
  "spent s uid year = sum_list (map (charge uid year) (rows (hr_leaves s)))"

definition used_days :: "hr_state \<Rightarrow> nat \<Rightarrow> int \<Rightarrow> int" where
  "used_days s uid year = (case balance_row s uid year of None \<Rightarrow> 0 | Some b \<Rightarrow> lb_used b)"

definition leaves_disjoint :: "leave \<Rightarrow> leave \<Rightarrow> bool" where
  "leaves_disjoint a b \<longleftrightarrow> \<not> (lv_user a = lv_user b \<and> lv_id a \<noteq> lv_id b \<and> lv_status a = Lr_approved
     \<and> lv_status b = Lr_approved \<and> lv_start a \<le> lv_end b \<and> lv_start b \<le> lv_end a)"

definition leave_wf :: "leave \<Rightarrow> bool" where
  "leave_wf l \<longleftrightarrow> lv_start l \<le> lv_end l"

definition hr_inv :: "hr_state \<Rightarrow> bool" where
  "hr_inv s \<longleftrightarrow> tbl_wf lv_id (hr_leaves s) \<and> tbl_wf lb_id (hr_balances s) \<and> tbl_wf u_id (ac_users (hr_acc s))
     \<and> distinct (map (\<lambda>b. (lb_user b, lb_year b)) (rows (hr_balances s)))
     \<and> list_all leave_wf (rows (hr_leaves s))
     \<and> (\<forall>a \<in> set (rows (hr_leaves s)). \<forall>b \<in> set (rows (hr_leaves s)). leaves_disjoint a b)
     \<and> (\<forall>uid year. used_days s uid year = spent s uid year)"

interpretation leaves: repository lv_id "tbl_get lv_id" "tbl_save lv_id" tbl_insert
    "tbl_remove lv_id" next_id "tbl_wf lv_id"
  by (rule tbl_repository)

interpretation balances: repository lb_id "tbl_get lb_id" "tbl_save lb_id" tbl_insert
    "tbl_remove lb_id" next_id "tbl_wf lb_id"
  by (rule tbl_repository)

lemma sum_list_replace:
  fixes f :: "'r \<Rightarrow> int"
  assumes "distinct (map key xs)" "r \<in> set xs" "key r' = key r"
  shows "sum_list (map f (map (\<lambda>x. if key x = key r' then r' else x) xs)) = sum_list (map f xs) - f r + f r'"
  using assms
proof (induction xs)
  case (Cons x xs)
  have same: "map (\<lambda>x. if key x = key r' then r' else x) ys = ys" if "key r \<notin> key ` set ys" for ys
    using that Cons.prems(3) by (induction ys) auto
  show ?case
  proof (cases "x = r")
    case True
    then show ?thesis using Cons.prems same[of xs] by simp
  next
    case False
    then have "key x \<noteq> key r" "r \<in> set xs" using Cons.prems by (auto simp: image_iff)
    then show ?thesis using Cons.IH Cons.prems by simp
  qed
qed simp

lemma rows_leave_set:
  "rows (hr_leaves (leave_set l s)) = map (\<lambda>x. if lv_id x = lv_id l then l else x) (rows (hr_leaves s))"
  by (simp add: leave_set_def tbl_save_def)

lemma leave_set_other [simp]:
  "hr_balances (leave_set l s) = hr_balances s" "hr_acc (leave_set l s) = hr_acc s"
  "hr_settings (leave_set l s) = hr_settings s" "hr_nt (leave_set l s) = hr_nt s"
  by (simp_all add: leave_set_def)

lemma balance_row_SomeD: "balance_row s uid y = Some b \<Longrightarrow> b \<in> set (rows (hr_balances s)) \<and> lb_user b = uid \<and> lb_year b = y"
  by (auto simp: balance_row_def find_Some_iff)

lemma balance_row_None_iff:
  "balance_row s uid y = None \<longleftrightarrow> (\<forall>b \<in> set (rows (hr_balances s)). \<not> (lb_user b = uid \<and> lb_year b = y))"
  by (auto simp: balance_row_def find_None_iff)

lemma get_leave_SomeD:
  assumes "get_leave s u year k = Inr l"
  shows "l \<in> set (rows (hr_leaves s)) \<and> lv_id l = k"
proof -
  obtain qs where qs: "leave_queryset s u year = Inr qs" "find (\<lambda>l. lv_id l = k) qs = Some l"
    using assms by (auto simp: get_leave_def split: sum.splits option.splits)
  have "set qs \<subseteq> set (rows (hr_leaves s))"
    using qs(1) by (auto simp: leave_queryset_def Let_def company_isolation_def split: option.splits if_splits)
  then show ?thesis using qs(2) by (auto simp: find_Some_iff)
qed

text \<open>Changing one request: what the invariant needs of the new row.\<close>

lemma spent_leave_set:
  assumes "hr_inv s" "l \<in> set (rows (hr_leaves s))" "lv_id l' = lv_id l"
  shows "spent (leave_set l' s) uid y = spent s uid y - charge uid y l + charge uid y l'"
  unfolding spent_def rows_leave_set
  using assms by (intro sum_list_replace) (auto simp: hr_inv_def tbl_wf_def)

lemma used_days_leave_set [simp]: "used_days (leave_set l s) uid y = used_days s uid y"
  by (simp add: used_days_def balance_row_def)

text \<open>Everything of the invariant but the balances.\<close>

definition hr_base :: "hr_state \<Rightarrow> bool" where
  "hr_base s \<longleftrightarrow> tbl_wf lv_id (hr_leaves s) \<and> tbl_wf lb_id (hr_balances s) \<and> tbl_wf u_id (ac_users (hr_acc s))
     \<and> distinct (map (\<lambda>b. (lb_user b, lb_year b)) (rows (hr_balances s)))
     \<and> list_all leave_wf (rows (hr_leaves s))
     \<and> (\<forall>a \<in> set (rows (hr_leaves s)). \<forall>b \<in> set (rows (hr_leaves s)). leaves_disjoint a b)"

lemma hr_inv_iff: "hr_inv s \<longleftrightarrow> hr_base s \<and> (\<forall>uid year. used_days s uid year = spent s uid year)"
  by (auto simp: hr_inv_def hr_base_def)

lemma leaves_disjoint_sym: "leaves_disjoint a b \<longleftrightarrow> leaves_disjoint b a"
  by (auto simp: leaves_disjoint_def)

lemma hr_base_leave_set:
  assumes "hr_base s" "leave_wf l"
    and "\<And>a. a \<in> set (rows (hr_leaves s)) \<Longrightarrow> lv_id a \<noteq> lv_id l \<Longrightarrow> leaves_disjoint a l"
  shows "hr_base (leave_set l s)"
proof -
  have "tbl_wf lv_id (hr_leaves (leave_set l s))"
    using assms(1) by (simp add: leave_set_def hr_base_def tbl_wf_save)
  moreover have "leaves_disjoint a b" if ab: "a \<in> set (rows (hr_leaves (leave_set l s)))"
    "b \<in> set (rows (hr_leaves (leave_set l s)))" for a b
  proof -
    have row: "x = l \<or> (x \<in> set (rows (hr_leaves s)) \<and> lv_id x \<noteq> lv_id l)"
      if "x \<in> set (rows (hr_leaves (leave_set l s)))" for x
      using that by (auto simp: rows_leave_set split: if_splits)
    consider "a = l" "b = l" | "a = l" "b \<in> set (rows (hr_leaves s))" "lv_id b \<noteq> lv_id l"
      | "b = l" "a \<in> set (rows (hr_leaves s))" "lv_id a \<noteq> lv_id l"
      | "a \<in> set (rows (hr_leaves s))" "b \<in> set (rows (hr_leaves s))"
      using row[OF ab(1)] row[OF ab(2)] by blast
    then show ?thesis
    proof cases
      case 1
      then show ?thesis by (simp add: leaves_disjoint_def)
    next
      case 2
      then show ?thesis using assms(3) leaves_disjoint_sym by blast
    next
      case 3
      then show ?thesis using assms(3) by blast
    next
      case 4
      then show ?thesis using assms(1) by (simp add: hr_base_def)
    qed
  qed
  moreover have "list_all leave_wf (rows (hr_leaves (leave_set l s)))"
    using assms(1,2) by (auto simp: rows_leave_set hr_base_def list_all_iff)
  ultimately show ?thesis using assms(1) by (simp add: hr_base_def)
qed

lemma not_approved_disjoint: "lv_status l \<noteq> Lr_approved \<Longrightarrow> leaves_disjoint a l"
  by (simp add: leaves_disjoint_def)

lemma not_approved_charge: "lv_status l \<noteq> Lr_approved \<Longrightarrow> charge uid y l = 0"
  by (simp add: charge_def)

text \<open>A change between requests that are not approved keeps the invariant.\<close>

lemma leave_set_inv:
  assumes "hr_inv s" "l \<in> set (rows (hr_leaves s))" "lv_id l' = lv_id l" "leave_wf l'"
    and "lv_status l \<noteq> Lr_approved" "lv_status l' \<noteq> Lr_approved"
  shows "hr_inv (leave_set l' s)"
  using assms hr_base_leave_set[of s l'] spent_leave_set[OF assms(1,2,3)]
  by (simp add: hr_inv_iff not_approved_disjoint not_approved_charge)

end
