(* ===== verification/Onboarding.thy ===== *)
theory Onboarding
  imports Core
begin

text \<open>
  Onboarding of \<open>apps/hr\<close>: templates with their steps, the assignment of a template to a user and the
  progress rows, the endpoints of \<open>hr/views.py\<close> on them, and the set-up of a user who joins by
  invitation (\<open>users/serializers.py\<close>).
\<close>

section \<open>Rows\<close>

record template =
  tp_id :: nat
  tp_company :: nat
  tp_title :: string
  tp_is_active :: bool
  tp_is_default :: bool
  tp_is_system :: bool

record ob_step =
  os_id :: nat
  os_template :: nat
  os_title :: string
  os_description :: string
  os_url :: string
  os_position :: int
  os_is_system :: bool

record progress =
  pg_id :: nat
  pg_user :: nat
  pg_step :: nat
  pg_is_completed :: bool
  pg_completed_at :: "datetime option"

record assignment =
  oa_id :: nat
  oa_user :: nat
  oa_template :: nat
  oa_assigned_by :: "nat option"
  oa_note :: string
  oa_created_at :: datetime

record ob_state =
  ob_acc :: accounts
  ob_templates :: "template table"
  ob_steps :: "ob_step table"
  ob_progress :: "progress table"
  ob_assignments :: "assignment table"

interpretation templates: repository tp_id "tbl_get tp_id" "tbl_save tp_id" tbl_insert
    "tbl_remove tp_id" next_id "tbl_wf tp_id"
  by (rule tbl_repository)

interpretation progresses: repository pg_id "tbl_get pg_id" "tbl_save pg_id" tbl_insert
    "tbl_remove pg_id" next_id "tbl_wf pg_id"
  by (rule tbl_repository)

text \<open>\<open>SYSTEM_STEPS\<close>: a key stands for the Russian title and description of each step.\<close>

definition SYSTEM_STEPS :: "(string \<times> string \<times> int) list" where
  "SYSTEM_STEPS = [(''fill_profile'', ''/profile'', 1), (''meet_team'', ''/team'', 2), (''study_boards'', ''/crm'', 3),
     (''book_desk'', ''/bookings'', 4), (''read_rules'', ''/rules'', 5),
     (''set_up_notifications'', ''/settings/notifications'', 6)]"

section \<open>Templates\<close>

text \<open>\<open>get_queryset\<close> outside the list action; \<open>company_param\<close> is the query parameter of a superadmin.\<close>

definition template_queryset :: "ob_state \<Rightarrow> user \<Rightarrow> template list" where
  "template_queryset s u = (if u_role u = Superadmin then rows (ob_templates s)
     else filter (\<lambda>t. Some (tp_company t) = u_company u) (rows (ob_templates s)))"

definition get_template :: "ob_state \<Rightarrow> user \<Rightarrow> nat \<Rightarrow> api_error + template" where
  "get_template s u k = (case find (\<lambda>t. tp_id t = k) (template_queryset s u) of
     None \<Rightarrow> Inl NotFound | Some t \<Rightarrow> Inr t)"

text \<open>Title, description and address of a custom step; the order a client sends is overwritten.\<close>

type_synonym step_data = "string \<times> string \<times> string"

definition add_step :: "nat \<Rightarrow> bool \<Rightarrow> step_data \<times> int \<Rightarrow> ob_state \<Rightarrow> ob_state" where
  "add_step t system dp s = (case dp of ((title, description, url), position) \<Rightarrow>
     s\<lparr>ob_steps := tbl_insert (\<lambda>i. \<lparr>os_id = i, os_template = t, os_title = title, os_description = description,
        os_url = url, os_position = position, os_is_system = system\<rparr>) (ob_steps s)\<rparr>)"

definition custom_steps :: "step_data list \<Rightarrow> (step_data \<times> int) list" where
  "custom_steps ds = map (\<lambda>(i, d). (d, int (length SYSTEM_STEPS) + 1 + int i)) (enumerate 0 ds)"

definition system_steps :: "(step_data \<times> int) list" where
  "system_steps = map (\<lambda>(title, url, position). ((title, [], url), position)) SYSTEM_STEPS"

definition create_template ::
  "user \<Rightarrow> nat option \<Rightarrow> string \<Rightarrow> bool option \<Rightarrow> step_data list \<Rightarrow> ob_state \<Rightarrow> api_error + ob_state" where
  "create_template u company_param title active steps s =
     (case IsCompanyAdmin (Some u) of
        Some e \<Rightarrow> Inl e
      | None \<Rightarrow> (case (if u_role u \<noteq> Superadmin then u_company u else company_param) of
          None \<Rightarrow> Inl (if u_role u \<noteq> Superadmin then ServerError else raise_validation_error ''company_id'' ''required'')
        | Some c \<Rightarrow>
          (if u_role u = Superadmin \<and> get_company (ob_acc s) c = None
             then Inl (raise_validation_error ''company_id'' ''not_found'')
           else (let k = next_id (ob_templates s);
                     s1 = s\<lparr>ob_templates := tbl_insert (\<lambda>i. \<lparr>tp_id = i, tp_company = c, tp_title = title,
                        tp_is_active = (case active of None \<Rightarrow> True | Some a \<Rightarrow> a), tp_is_default = False,
                        tp_is_system = False\<rparr>) (ob_templates s)\<rparr>
                 in Inr (fold (add_step k False) (custom_steps steps) (fold (add_step k True) system_steps s1))))))"

text \<open>Deleting steps deletes the progress on them.\<close>

definition delete_steps :: "(ob_step \<Rightarrow> bool) \<Rightarrow> ob_state \<Rightarrow> ob_state" where
  "delete_steps P s =
     (let gone = map os_id (tbl_filter P (ob_steps s))
      in s\<lparr>ob_steps := tbl_delete P (ob_steps s), ob_progress := tbl_delete (\<lambda>p. pg_step p \<in> set gone) (ob_progress s)\<rparr>)"

definition update_template ::
  "user \<Rightarrow> nat \<Rightarrow> string option \<Rightarrow> bool option \<Rightarrow> step_data list option \<Rightarrow> ob_state \<Rightarrow> api_error + ob_state" where
  "update_template u k title active steps s =
     (case IsCompanyAdmin (Some u) of
        Some e \<Rightarrow> Inl e
      | None \<Rightarrow> (case get_template s u k of
          Inl e \<Rightarrow> Inl e
        | Inr t \<Rightarrow>
          (let t' = t\<lparr>tp_title := (case title of None \<Rightarrow> tp_title t | Some x \<Rightarrow> x),
                      tp_is_active := (case active of None \<Rightarrow> tp_is_active t | Some x \<Rightarrow> x)\<rparr>;
               s1 = s\<lparr>ob_templates := tbl_save tp_id t' (ob_templates s)\<rparr>
           in Inr (case steps of
                None \<Rightarrow> s1
              | Some ds \<Rightarrow> fold (add_step k False) (custom_steps ds)
                  (delete_steps (\<lambda>x. os_template x = k \<and> \<not> os_is_system x) s1)))))"

text \<open>A PUT takes the same serializer, which then asks for the name and the steps.\<close>

definition put_template ::
  "user \<Rightarrow> nat \<Rightarrow> string option \<Rightarrow> bool option \<Rightarrow> step_data list option \<Rightarrow> ob_state \<Rightarrow> api_error + ob_state" where
  "put_template u k title active steps s =
     (case IsCompanyAdmin (Some u) of
        Some e \<Rightarrow> Inl e
      | None \<Rightarrow> (case get_template s u k of
          Inl e \<Rightarrow> Inl e
        | Inr t \<Rightarrow> (if title = None then Inl (raise_validation_error ''name'' ''required'')
            else if steps = None then Inl (raise_validation_error ''steps'' ''required'')
            else update_template u k title active steps s)))"

lemma put_template_is_update_template:
  "put_template u k title active steps s = Inr s' \<Longrightarrow> update_template u k title active steps s = Inr s'"
  by (simp add: put_template_def split: option.splits sum.splits if_splits)

text \<open>An assigned template is protected: the database error of its deletion is not handled.\<close>

definition destroy_template :: "user \<Rightarrow> nat \<Rightarrow> ob_state \<Rightarrow> api_error + ob_state" where
  "destroy_template u k s =
     (case IsCompanyAdmin (Some u) of
        Some e \<Rightarrow> Inl e
      | None \<Rightarrow> (case get_template s u k of
          Inl e \<Rightarrow> Inl e
        | Inr t \<Rightarrow>
          (if tbl_filter (\<lambda>a. oa_template a = k) (ob_assignments s) \<noteq> [] then Inl ServerError
           else (let s1 = delete_steps (\<lambda>x. os_template x = k) s
                 in Inr (s1\<lparr>ob_templates := tbl_delete (\<lambda>t. tp_id t = k) (ob_templates s1)\<rparr>)))))"

definition set_as_default :: "template \<Rightarrow> ob_state \<Rightarrow> ob_state" where
  "set_as_default t s =
     (let others = tbl_update (\<lambda>x. tp_company x = tp_company t \<and> tp_is_default x \<and> tp_id x \<noteq> tp_id t)
            (\<lambda>x. x\<lparr>tp_is_default := False\<rparr>) (ob_templates s)
      in s\<lparr>ob_templates := (if \<not> tp_is_default t then tbl_save tp_id (t\<lparr>tp_is_default := True\<rparr>) others else others)\<rparr>)"

definition set_default :: "user \<Rightarrow> nat \<Rightarrow> ob_state \<Rightarrow> api_error + ob_state" where
  "set_default u k s =
     (case IsCompanyAdmin (Some u) of
        Some e \<Rightarrow> Inl e
      | None \<Rightarrow> (case get_template s u k of Inl e \<Rightarrow> Inl e | Inr t \<Rightarrow> Inr (set_as_default t s)))"

section \<open>Progress\<close>

definition template_steps :: "ob_state \<Rightarrow> nat \<Rightarrow> ob_step list" where
  "template_steps s t = sort_key os_position (tbl_filter (\<lambda>x. os_template x = t) (ob_steps s))"

definition has_progress :: "ob_state \<Rightarrow> nat \<Rightarrow> nat \<Rightarrow> bool" where
  "has_progress s uid step \<longleftrightarrow> list_ex (\<lambda>p. pg_user p = uid \<and> pg_step p = step) (rows (ob_progress s))"

definition new_progress :: "nat \<Rightarrow> nat \<Rightarrow> nat \<Rightarrow> progress" where
  "new_progress uid step i = \<lparr>pg_id = i, pg_user = uid, pg_step = step, pg_is_completed = False, pg_completed_at = None\<rparr>"

definition get_or_create_progress :: "nat \<Rightarrow> nat \<Rightarrow> ob_state \<Rightarrow> ob_state" where
  "get_or_create_progress uid step s =
     (if has_progress s uid step then s
      else s\<lparr>ob_progress := tbl_insert (new_progress uid step) (ob_progress s)\<rparr>)"

definition initialize_progress_for_assignment :: "nat \<Rightarrow> nat \<Rightarrow> ob_state \<Rightarrow> ob_state" where
  "initialize_progress_for_assignment uid t s =
     fold (get_or_create_progress uid) (map os_id (template_steps s t)) s"

text \<open>Progress of a user on the steps of a template, in the order of the steps.\<close>

definition step_of :: "ob_state \<Rightarrow> progress \<Rightarrow> ob_step option" where
  "step_of s p = tbl_get os_id (pg_step p) (ob_steps s)"

definition progress_items :: "ob_state \<Rightarrow> nat \<Rightarrow> nat option \<Rightarrow> progress list" where
  "progress_items s uid t = sort_key (\<lambda>p. case step_of s p of None \<Rightarrow> 0 | Some x \<Rightarrow> os_position x)
     (tbl_filter (\<lambda>p. pg_user p = uid \<and>
        (case t of None \<Rightarrow> True | Some k \<Rightarrow> map_option os_template (step_of s p) = Some k)) (ob_progress s))"

section \<open>Steps\<close>

definition template_of :: "ob_state \<Rightarrow> nat \<Rightarrow> template option" where
  "template_of s k = tbl_get tp_id k (ob_templates s)"

definition get_step :: "ob_state \<Rightarrow> user \<Rightarrow> nat \<Rightarrow> nat \<Rightarrow> api_error + ob_step" where
  "get_step s u t k = (case find (\<lambda>x. os_id x = k) (filter (\<lambda>x. os_template x = t)
       (company_isolation (\<lambda>x. map_option tp_company (template_of s (os_template x))) u (rows (ob_steps s)))) of
     None \<Rightarrow> Inl NotFound | Some x \<Rightarrow> Inr x)"

definition system_step_error :: api_error where
  "system_step_error = LocalizedError ''SYSTEM_STEP_IMMUTABLE'' ''hr.onboarding_system_step_immutable'' 400"

text \<open>The guard looks at the template of the step.\<close>

definition guard_system_step :: "ob_state \<Rightarrow> ob_step \<Rightarrow> api_error option" where
  "guard_system_step s x = (case template_of s (os_template x) of
     None \<Rightarrow> None | Some t \<Rightarrow> require (\<not> tp_is_system t) system_step_error)"

definition create_step :: "user \<Rightarrow> nat \<Rightarrow> step_data \<Rightarrow> int \<Rightarrow> ob_state \<Rightarrow> api_error + ob_state" where
  "create_step u k d position s =
     (case IsCompanyAdmin (Some u) of
        Some e \<Rightarrow> Inl e
      | None \<Rightarrow> (case find (\<lambda>t. tp_id t = k \<and> Some (tp_company t) = u_company u) (rows (ob_templates s)) of
          None \<Rightarrow> Inl NotFound
        | Some t \<Rightarrow> guarded (require (\<not> tp_is_system t) system_step_error)
            (let s1 = add_step k False (d, position) s
             in fold (\<lambda>a. initialize_progress_for_assignment (oa_user a) k)
                  (tbl_filter (\<lambda>a. oa_template a = k) (ob_assignments s1)) s1)))"

definition patched_step :: "string option \<Rightarrow> string option \<Rightarrow> string option \<Rightarrow> int option \<Rightarrow> ob_step \<Rightarrow> ob_step" where
  "patched_step title description url position x = x\<lparr>
     os_title := (case title of None \<Rightarrow> os_title x | Some y \<Rightarrow> y),
     os_description := (case description of None \<Rightarrow> os_description x | Some y \<Rightarrow> y),
     os_url := (case url of None \<Rightarrow> os_url x | Some y \<Rightarrow> y),
     os_position := (case position of None \<Rightarrow> os_position x | Some y \<Rightarrow> y)\<rparr>"

definition update_step ::
  "user \<Rightarrow> nat \<Rightarrow> nat \<Rightarrow> string option \<Rightarrow> string option \<Rightarrow> string option \<Rightarrow> int option \<Rightarrow> ob_state \<Rightarrow> api_error + ob_state" where
  "update_step u t k title description url position s =
     (case IsCompanyAdmin (Some u) of
        Some e \<Rightarrow> Inl e
      | None \<Rightarrow> (case get_step s u t k of
          Inl e \<Rightarrow> Inl e
        | Inr x \<Rightarrow> guarded (guard_system_step s x)
            (s\<lparr>ob_steps := tbl_save os_id (patched_step title description url position x) (ob_steps s)\<rparr>)))"

definition destroy_step :: "user \<Rightarrow> nat \<Rightarrow> nat \<Rightarrow> ob_state \<Rightarrow> api_error + ob_state" where
  "destroy_step u t k s =
     (case IsCompanyAdmin (Some u) of
        Some e \<Rightarrow> Inl e
      | None \<Rightarrow> (case get_step s u t k of
          Inl e \<Rightarrow> Inl e
        | Inr x \<Rightarrow> guarded (guard_system_step s x) (delete_steps (\<lambda>y. os_id y = k) s)))"

section \<open>Assignments\<close>

definition assignment_of :: "ob_state \<Rightarrow> nat \<Rightarrow> assignment option" where
  "assignment_of s uid = find (\<lambda>a. oa_user a = uid) (rows (ob_assignments s))"

definition default_template :: "ob_state \<Rightarrow> nat \<Rightarrow> template option" where
  "default_template s c = find (\<lambda>t. tp_company t = c \<and> tp_is_default t \<and> tp_is_active t) (rows (ob_templates s))"

definition new_assignment :: "datetime \<Rightarrow> nat \<Rightarrow> nat \<Rightarrow> nat option \<Rightarrow> string \<Rightarrow> nat \<Rightarrow> assignment" where
  "new_assignment now uid t assigned_by note i = \<lparr>oa_id = i, oa_user = uid, oa_template = t,
     oa_assigned_by = assigned_by, oa_note = note, oa_created_at = now\<rparr>"

text \<open>\<open>update_or_create\<close> on the user, then the progress rows.\<close>

definition assign_template :: "datetime \<Rightarrow> nat \<Rightarrow> nat \<Rightarrow> nat option \<Rightarrow> string \<Rightarrow> ob_state \<Rightarrow> ob_state" where
  "assign_template now uid t assigned_by note s =
     initialize_progress_for_assignment uid t
       (case assignment_of s uid of
          Some a \<Rightarrow> s\<lparr>ob_assignments := tbl_save oa_id
             (a\<lparr>oa_template := t, oa_assigned_by := assigned_by, oa_note := note\<rparr>) (ob_assignments s)\<rparr>
        | None \<Rightarrow> s\<lparr>ob_assignments := tbl_insert (new_assignment now uid t assigned_by note) (ob_assignments s)\<rparr>)"

definition get_or_auto_assign_template :: "datetime \<Rightarrow> user \<Rightarrow> ob_state \<Rightarrow> nat option \<times> ob_state" where
  "get_or_auto_assign_template now u s = (case u_company u of
     None \<Rightarrow> (None, s)
   | Some c \<Rightarrow> (case assignment_of s (u_id u) of
       Some a \<Rightarrow> (Some (oa_template a), s)
     | None \<Rightarrow> (case default_template s c of
         None \<Rightarrow> (None, s)
       | Some t \<Rightarrow> (Some (tp_id t), assign_template now (u_id u) (tp_id t) None [] s))))"

text \<open>Whether a template is assigned, whether it is completed, and the steps with their state.\<close>

definition build_progress_response ::
  "datetime \<Rightarrow> user \<Rightarrow> ob_state \<Rightarrow> (bool \<times> bool \<times> (nat \<times> bool) list) \<times> ob_state" where
  "build_progress_response now u s = (case get_or_auto_assign_template now u s of
     (None, s') \<Rightarrow> ((False, True, []), s')
   | (Some t, s') \<Rightarrow>
       (let items = progress_items s' (u_id u) (Some t)
        in ((True, list_all pg_is_completed items, map (\<lambda>p. (pg_step p, pg_is_completed p)) items), s')))"

definition my_onboarding_assignment ::
  "datetime \<Rightarrow> user \<Rightarrow> ob_state \<Rightarrow> api_error + (nat \<times> nat \<times> nat \<times> (nat \<times> bool) list) option \<times> ob_state" where
  "my_onboarding_assignment now u s =
     (case IsCompanyMember (Some u) of
        Some e \<Rightarrow> Inl e
      | None \<Rightarrow> Inr (case get_or_auto_assign_template now u s of
          (None, s') \<Rightarrow> (None, s')
        | (Some t, s') \<Rightarrow>
            (let items = progress_items s' (u_id u) (Some t)
             in (Some (t, length (filter pg_is_completed items), length items,
                   map (\<lambda>p. (pg_step p, pg_is_completed p)) items), s'))))"

definition complete_onboarding_step :: "datetime \<Rightarrow> user \<Rightarrow> nat \<Rightarrow> ob_state \<Rightarrow> api_error + ob_state" where
  "complete_onboarding_step now u step s =
     (case find (\<lambda>p. pg_user p = u_id u \<and> pg_step p = step) (rows (ob_progress s)) of
        None \<Rightarrow> Inl NotFound
      | Some p \<Rightarrow> Inr (if \<not> pg_is_completed p
          then s\<lparr>ob_progress := tbl_save pg_id (p\<lparr>pg_is_completed := True, pg_completed_at := Some now\<rparr>) (ob_progress s)\<rparr>
          else s))"

definition onboarding_assignment_create ::
  "datetime \<Rightarrow> user \<Rightarrow> nat \<Rightarrow> nat \<Rightarrow> string \<Rightarrow> ob_state \<Rightarrow> api_error + ob_state" where
  "onboarding_assignment_create now u uid t note s =
     (case IsCompanyAdmin (Some u) of
        Some e \<Rightarrow> Inl e
      | None \<Rightarrow> (case tbl_get u_id uid (ac_users (ob_acc s)) of
          None \<Rightarrow> Inl (if u_role u = Superadmin then NotFound else PermissionDenied ''hr.assignment_user_not_in_company'')
        | Some target \<Rightarrow>
          (if u_role u \<noteq> Superadmin \<and> u_company target \<noteq> u_company u
             then Inl (PermissionDenied ''hr.assignment_user_not_in_company'')
           else (let c = (if u_role u = Superadmin then u_company target else u_company u)
                 in case find (\<lambda>x. tp_id x = t \<and> Some (tp_company x) = c \<and> tp_is_active x) (rows (ob_templates s)) of
                      None \<Rightarrow> Inl (PermissionDenied ''hr.assignment_template_not_found'')
                    | Some x \<Rightarrow> Inr (assign_template now uid t (Some (u_id u)) note s)))))"

text \<open>The count of completed and of all steps shown for a member: (template, completed, total).\<close>

definition progress_summary :: "ob_state \<Rightarrow> nat \<Rightarrow> nat option \<times> nat \<times> nat" where
  "progress_summary s uid = (case assignment_of s uid of
     None \<Rightarrow> (None, 0, 0)
   | Some a \<Rightarrow> (let items = progress_items s uid (Some (oa_template a))
               in (Some (oa_template a), length (filter pg_is_completed items), length items)))"

definition member_summary :: "ob_state \<Rightarrow> nat \<Rightarrow> nat \<Rightarrow> nat option \<times> nat \<times> nat" where
  "member_summary s c uid = (case assignment_of s uid of
     None \<Rightarrow> (map_option tp_id (default_template s c), 0, 0)
   | Some _ \<Rightarrow> progress_summary s uid)"

definition company_members :: "accounts \<Rightarrow> nat \<Rightarrow> user list" where
  "company_members acc c = tbl_filter (\<lambda>u. u_company u = Some c \<and> u_role u \<noteq> Superadmin) (ac_users acc)"

definition onboarding_team_progress :: "user \<Rightarrow> ob_state \<Rightarrow> api_error + (nat \<times> nat option \<times> nat \<times> nat) list" where
  "onboarding_team_progress u s =
     (case IsCompanyAdmin (Some u) of
        Some e \<Rightarrow> Inl e
      | None \<Rightarrow> Inr (case u_company u of
          None \<Rightarrow> []
        | Some c \<Rightarrow> map (\<lambda>m. (u_id m, member_summary s c (u_id m))) (company_members (ob_acc s) c)))"

definition onboarding_assignments_list ::
  "user \<Rightarrow> nat option \<Rightarrow> ob_state \<Rightarrow> api_error + (nat \<times> nat option \<times> nat \<times> nat) list" where
  "onboarding_assignments_list u company_param s =
     (case IsCompanyAdmin (Some u) of
        Some e \<Rightarrow> Inl e
      | None \<Rightarrow> Inr (case (if u_role u = Superadmin then company_param else u_company u) of
          None \<Rightarrow> []
        | Some c \<Rightarrow> (if u_role u = Superadmin \<and> get_company (ob_acc s) c = None then []
            else map (\<lambda>m. (u_id m, member_summary s c (u_id m))) (company_members (ob_acc s) c))))"

definition onboarding_assignment_detail ::
  "user \<Rightarrow> nat \<Rightarrow> ob_state \<Rightarrow> api_error + nat option \<times> nat \<times> nat" where
  "onboarding_assignment_detail u uid s =
     (case IsCompanyAdmin (Some u) of
        Some e \<Rightarrow> Inl e
      | None \<Rightarrow> (case tbl_get u_id uid (ac_users (ob_acc s)) of
          None \<Rightarrow> Inl (if u_role u = Superadmin then NotFound else PermissionDenied ''hr.assignment_user_not_in_company'')
        | Some m \<Rightarrow>
          (if u_role u \<noteq> Superadmin \<and> u_company m \<noteq> u_company u
             then Inl (PermissionDenied ''hr.assignment_user_not_in_company'')
           else Inr (progress_summary s uid))))"

text \<open>Without an assignment the progress on every step the user ever had is counted.\<close>

definition onboarding_team_member_progress ::
  "user \<Rightarrow> nat \<Rightarrow> ob_state \<Rightarrow> api_error + nat \<times> nat \<times> (nat \<times> bool) list" where
  "onboarding_team_member_progress u uid s =
     (case IsCompanyAdmin (Some u) of
        Some e \<Rightarrow> Inl e
      | None \<Rightarrow> (case u_company u of
          None \<Rightarrow> Inr (0, 0, [])
        | Some c \<Rightarrow> (case find (\<lambda>m. u_id m = uid) (company_members (ob_acc s) c) of
            None \<Rightarrow> Inl NotFound
          | Some m \<Rightarrow>
            (let items = progress_items s uid (map_option oa_template (assignment_of s uid))
             in Inr (length (filter pg_is_completed items), length items,
                  map (\<lambda>p. (pg_step p, pg_is_completed p)) items)))))"

section \<open>Joining users\<close>

text \<open>The template of \<open>initialize_user_onboarding_progress\<close> and of the invitation set-up.\<close>

definition joining_template :: "ob_state \<Rightarrow> nat \<Rightarrow> template option" where
  "joining_template s c = (case default_template s c of
     Some t \<Rightarrow> Some t
   | None \<Rightarrow> find (\<lambda>t. tp_company t = c \<and> tp_is_active t) (rows (ob_templates s)))"

definition initialize_user_onboarding_progress :: "user \<Rightarrow> ob_state \<Rightarrow> ob_state" where
  "initialize_user_onboarding_progress u s = (case u_company u of
     None \<Rightarrow> s
   | Some c \<Rightarrow> (case joining_template s c of
       None \<Rightarrow> s
     | Some t \<Rightarrow> initialize_progress_for_assignment (u_id u) (tp_id t) s))"

definition setup_onboarding_for_invite_user :: "datetime \<Rightarrow> nat \<Rightarrow> nat option \<Rightarrow> ob_state \<Rightarrow> ob_state" where
  "setup_onboarding_for_invite_user now uid company s = (case company of
     None \<Rightarrow> s
   | Some c \<Rightarrow> (case joining_template s c of
       None \<Rightarrow> s
     | Some t \<Rightarrow> assign_template now uid (tp_id t) None [] s))"

end
