(* ===== verification/CompanyModel.thy ===== *)
theory CompanyModel
  imports Accounts Limits BookingModel Crm Leaves Onboarding
begin

text \<open>
  \<open>apps/companies\<close>: the invitation rows of \<open>companies/models.py\<close>, the state the company endpoints
  work on, and the look-ups every endpoint starts with. The endpoints reach into other components
  (tasks, bookings, leave requests, onboarding), so the state holds the tables of these they touch.
\<close>

section \<open>Invitations\<close>

datatype inv_status = Iv_pending | Iv_accepted | Iv_expired | Iv_revoked

record invitation =
  iv_id :: nat
  iv_company :: "nat option"
  iv_email :: string
  iv_token :: nat
  iv_invited_by :: nat
  iv_role :: role
  iv_expires_at :: datetime
  iv_used_at :: "datetime option"
  iv_status :: inv_status

definition is_expired :: "datetime \<Rightarrow> invitation \<Rightarrow> bool" where
  "is_expired now i \<longleftrightarrow>
     (if iv_status i = Iv_expired then True else iv_status i = Iv_pending \<and> now > iv_expires_at i)"

definition is_used :: "invitation \<Rightarrow> bool" where
  "is_used i \<longleftrightarrow> iv_status i \<in> {Iv_accepted, Iv_revoked}"

definition is_valid :: "datetime \<Rightarrow> invitation \<Rightarrow> bool" where
  "is_valid now i \<longleftrightarrow> iv_status i = Iv_pending \<and> now \<le> iv_expires_at i"

text \<open>The setter of the old boolean column.\<close>

definition set_is_used :: "bool \<Rightarrow> invitation \<Rightarrow> invitation" where
  "set_is_used v i = (if v then (if iv_status i \<notin> {Iv_accepted, Iv_revoked} then i\<lparr>iv_status := Iv_revoked\<rparr> else i)
     else i\<lparr>iv_status := Iv_pending\<rparr>)"

text \<open>\<open>Invitation.save\<close> gives a new row 72 hours.\<close>

definition new_invitation ::
  "datetime \<Rightarrow> nat \<Rightarrow> nat option \<Rightarrow> string \<Rightarrow> nat \<Rightarrow> role \<Rightarrow> nat \<Rightarrow> invitation" where
  "new_invitation now tok company email invited_by r k = \<lparr>iv_id = k, iv_company = company, iv_email = email,
     iv_token = tok, iv_invited_by = invited_by, iv_role = r, iv_expires_at = now + hours 72,
     iv_used_at = None, iv_status = Iv_pending\<rparr>"

lemma valid_iff_open: "is_valid now i \<longleftrightarrow> \<not> is_used i \<and> \<not> is_expired now i"
  by (cases "iv_status i") (auto simp: is_valid_def is_used_def is_expired_def)

section \<open>State\<close>

text \<open>
  \<open>cp_floors\<close> are the keys of the floor table of \<open>apps/services\<close>, \<open>cp_ob\<close> holds the onboarding
  tables (its copy of the accounts is set whenever it is used).
\<close>

record cp_state =
  cp_acc :: accounts
  cp_settings :: "company_settings table"
  cp_invitations :: "invitation table"
  cp_auth :: auth_tables
  cp_leaves :: "leave table"
  cp_balances :: "balance table"
  cp_boards :: "board table"
  cp_columns :: "kcolumn table"
  cp_labels :: "label table"
  cp_tasks :: "task table"
  cp_bookings :: "booking table"
  cp_ob :: ob_state
  cp_floors :: "nat list"
  cp_nt :: nt_state

interpretation invitations: repository iv_id "tbl_get iv_id" "tbl_save iv_id" tbl_insert
    "tbl_remove iv_id" next_id "tbl_wf iv_id"
  by (rule tbl_repository)

definition hr_view :: "cp_state \<Rightarrow> hr_state" where
  "hr_view s = \<lparr>hr_acc = cp_acc s, hr_settings = cp_settings s, hr_leaves = cp_leaves s,
     hr_balances = cp_balances s, hr_nt = cp_nt s\<rparr>"

definition on_onboarding :: "(ob_state \<Rightarrow> ob_state) \<Rightarrow> cp_state \<Rightarrow> cp_state" where
  "on_onboarding f s = s\<lparr>cp_ob := f ((cp_ob s)\<lparr>ob_acc := cp_acc s\<rparr>)\<rparr>"

definition put_user :: "user \<Rightarrow> cp_state \<Rightarrow> cp_state" where
  "put_user u s = s\<lparr>cp_acc := save_user u (cp_acc s)\<rparr>"

definition put_company :: "company \<Rightarrow> cp_state \<Rightarrow> cp_state" where
  "put_company c s = s\<lparr>cp_acc := (cp_acc s)\<lparr>ac_companies := tbl_save co_id c (ac_companies (cp_acc s))\<rparr>\<rparr>"

definition put_invitation :: "invitation \<Rightarrow> cp_state \<Rightarrow> cp_state" where
  "put_invitation i s = s\<lparr>cp_invitations := tbl_save iv_id i (cp_invitations s)\<rparr>"

definition add_invitation :: "(nat \<Rightarrow> invitation) \<Rightarrow> cp_state \<Rightarrow> cp_state" where
  "add_invitation mk s = s\<lparr>cp_invitations := tbl_insert mk (cp_invitations s)\<rparr>"

definition queue_job :: "job \<Rightarrow> cp_state \<Rightarrow> cp_state" where
  "queue_job j s = s\<lparr>cp_auth := enqueue j (cp_auth s)\<rparr>"

section \<open>Look-ups\<close>

text \<open>\<open>CompanyViewSet.get_object\<close>, for requests without list filters.\<close>

definition company_queryset :: "cp_state \<Rightarrow> user \<Rightarrow> company list" where
  "company_queryset s u =
     (let live = filter (\<lambda>c. \<not> co_is_deleted c) (rows (ac_companies (cp_acc s)))
      in if u_role u = Superadmin then rev live
         else case u_company u of
           None \<Rightarrow> []
         | Some c \<Rightarrow> filter (\<lambda>x. co_id x = c) (rev live))"

definition get_company_object :: "cp_state \<Rightarrow> user \<Rightarrow> nat \<Rightarrow> api_error + company" where
  "get_company_object s u k = (case find (\<lambda>c. co_id c = k) (company_queryset s u) of
     None \<Rightarrow> Inl NotFound | Some c \<Rightarrow> Inr c)"

text \<open>\<open>get_object_or_404(User, pk=..., company=company)\<close>\<close>

definition get_member :: "cp_state \<Rightarrow> nat \<Rightarrow> nat \<Rightarrow> api_error + user" where
  "get_member s c k = (case find (\<lambda>u. u_id u = k \<and> u_company u = Some c) (rows (ac_users (cp_acc s))) of
     None \<Rightarrow> Inl NotFound | Some u \<Rightarrow> Inr u)"

text \<open>\<open>CompanySettings.objects.get_or_create(company=company)\<close>\<close>

definition default_company_settings :: "nat \<Rightarrow> nat \<Rightarrow> company_settings" where
  "default_company_settings c i = \<lparr>cs_id = i, cs_company = c, cs_vacation_days = 24, cs_onboarding_enabled = True,
     cs_onboarding_completed = False, cs_brand_color = [], cs_task_categories = [], cs_custom_labels = []\<rparr>"

definition get_or_create_settings :: "nat \<Rightarrow> cp_state \<Rightarrow> company_settings \<times> cp_state" where
  "get_or_create_settings c s = (case find (\<lambda>x. cs_company x = c) (rows (cp_settings s)) of
     Some x \<Rightarrow> (x, s)
   | None \<Rightarrow> (default_company_settings c (next_id (cp_settings s)),
       s\<lparr>cp_settings := tbl_insert (default_company_settings c) (cp_settings s)\<rparr>))"

definition put_settings :: "company_settings \<Rightarrow> cp_state \<Rightarrow> cp_state" where
  "put_settings x s = s\<lparr>cp_settings := tbl_save cs_id x (cp_settings s)\<rparr>"

lemma company_queryset_row:
  "c \<in> set (company_queryset s u) \<Longrightarrow> c \<in> set (rows (ac_companies (cp_acc s))) \<and> \<not> co_is_deleted c
     \<and> (u_role u \<noteq> Superadmin \<longrightarrow> u_company u = Some (co_id c))"
  by (auto simp: company_queryset_def Let_def split: option.splits if_splits)

lemma get_company_object_row:
  "get_company_object s u k = Inr c \<Longrightarrow> c \<in> set (rows (ac_companies (cp_acc s))) \<and> co_id c = k
     \<and> \<not> co_is_deleted c \<and> (u_role u \<noteq> Superadmin \<longrightarrow> u_company u = Some k)"
  by (auto simp: get_company_object_def split: option.splits dest!: find_row company_queryset_row)

lemma get_member_row:
  "get_member s c k = Inr u \<Longrightarrow> u \<in> set (rows (ac_users (cp_acc s))) \<and> u_id u = k \<and> u_company u = Some c"
  by (auto simp: get_member_def split: option.splits dest!: find_row)

end
