(* ===== verification/Invitations.thy ===== *)
theory Invitations
  imports CompanyModel
begin

text \<open>
  The invitations of \<open>apps/companies\<close>: who may be invited (\<open>invite_policy.py\<close>), the endpoints of
  \<open>InvitationViewSet\<close> and \<open>BuildingInvitationViewSet\<close>, the registration by invitation of
  \<open>users/serializers.py\<close>, and the periodic task that closes the stale ones.

  A fresh token (\<open>uuid4\<close>) is an argument of the operation that makes it; its column is unique.
\<close>

section \<open>Who may be invited\<close>

definition lookup_user_by_invite_email :: "accounts \<Rightarrow> string \<Rightarrow> user option" where
  "lookup_user_by_invite_email acc email =
     (let normalized = lower (strip email) in if normalized = [] then None else user_by_email acc normalized)"

definition email_blocks_new_company_invitation :: "accounts \<Rightarrow> string \<Rightarrow> nat \<Rightarrow> string option" where
  "email_blocks_new_company_invitation acc email c = (case lookup_user_by_invite_email acc email of
     None \<Rightarrow> None
   | Some u \<Rightarrow>
      (if u_role u = Guest then None
       else if u_company u = Some c \<and> u_is_active u then Some ''company.invite_email_already_member''
       else if u_company u = Some c \<and> \<not> u_is_active u then Some ''company.invite_email_member_deactivated''
       else if u_company u \<noteq> None \<and> u_company u \<noteq> Some c \<and> u_is_active u
         then Some ''company.invite_email_in_another_company''
       else None))"

definition existing_user_cannot_accept_invite_error :: "user \<Rightarrow> invitation \<Rightarrow> string option" where
  "existing_user_cannot_accept_invite_error u i =
     (if u_role u = Guest then None
      else if u_company u = iv_company i \<and> u_is_active u then Some ''users.email_already_registered''
      else if u_company u \<noteq> None \<and> u_company u \<noteq> iv_company i \<and> u_is_active u
        then Some ''company.invite_email_registered_other_org''
      else if u_company u = None \<and> u_is_active u then Some ''users.email_already_registered''
      else None)"

text \<open>The policy refuses exactly the active accounts that are not guests.\<close>

lemma accept_iff:
  "existing_user_cannot_accept_invite_error u i = None \<longleftrightarrow> u_role u = Guest \<or> \<not> u_is_active u"
  by (auto simp: existing_user_cannot_accept_invite_error_def)

section \<open>Listing\<close>

record invitation_filter =
  fl_status :: "string option"
  fl_is_used :: "string option"
  fl_is_expired :: "string option"

definition no_filter :: invitation_filter where
  "no_filter = \<lparr>fl_status = None, fl_is_used = None, fl_is_expired = None\<rparr>"

definition parse_status :: "string \<Rightarrow> inv_status option" where
  "parse_status t = (if t = ''pending'' then Some Iv_pending else if t = ''accepted'' then Some Iv_accepted
     else if t = ''expired'' then Some Iv_expired else if t = ''revoked'' then Some Iv_revoked else None)"

definition parse_bool_param :: "string option \<Rightarrow> string \<Rightarrow> api_error + bool option" where
  "parse_bool_param raw field = (case raw of
     None \<Rightarrow> Inr None
   | Some t \<Rightarrow> (let n = lower (strip t) in
       if n \<in> {''true'', ''1''} then Inr (Some True)
       else if n \<in> {''false'', ''0''} then Inr (Some False)
       else Inl (raise_validation_error field ''company.param_must_be_bool'')))"

definition by_flag :: "('a \<Rightarrow> bool) \<Rightarrow> bool option \<Rightarrow> 'a list \<Rightarrow> 'a list" where
  "by_flag P v xs = (case v of None \<Rightarrow> xs | Some b \<Rightarrow> filter (\<lambda>x. P x = b) xs)"

definition invitation_queryset ::
  "datetime \<Rightarrow> invitation_filter \<Rightarrow> nat option \<Rightarrow> cp_state \<Rightarrow> api_error + invitation list" where
  "invitation_queryset now f c s =
     (let own = filter (\<lambda>i. iv_company i = c) (rows (cp_invitations s));
          qs = (case Option.bind (fl_status f) parse_status of
             None \<Rightarrow> own | Some st \<Rightarrow> filter (\<lambda>i. iv_status i = st) own)
      in case parse_bool_param (fl_is_used f) ''is_used'' of
           Inl e \<Rightarrow> Inl e
         | Inr used \<Rightarrow> (case parse_bool_param (fl_is_expired f) ''is_expired'' of
             Inl e \<Rightarrow> Inl e
           | Inr expired \<Rightarrow> Inr (rev (by_flag (\<lambda>i. iv_status i = Iv_expired
                 \<or> (iv_status i = Iv_pending \<and> iv_expires_at i \<le> now)) expired (by_flag is_used used qs)))))"

definition invitation_company :: "cp_state \<Rightarrow> user \<Rightarrow> nat \<Rightarrow> api_error + company" where
  "invitation_company s u k = (case find (\<lambda>c. co_id c = k \<and> \<not> co_is_deleted c
        \<and> (u_role u = Superadmin \<or> u_company u = Some (co_id c))) (rows (ac_companies (cp_acc s))) of
     None \<Rightarrow> Inl NotFound | Some c \<Rightarrow> Inr c)"

text \<open>\<open>get_object\<close> of the two viewsets; \<open>None\<close> stands for the building.\<close>

definition get_invitation ::
  "datetime \<Rightarrow> invitation_filter \<Rightarrow> nat option \<Rightarrow> nat \<Rightarrow> cp_state \<Rightarrow> api_error + invitation" where
  "get_invitation now f c k s = (case invitation_queryset now f c s of
     Inl e \<Rightarrow> Inl e
   | Inr qs \<Rightarrow> (case find (\<lambda>i. iv_id i = k) qs of None \<Rightarrow> Inl NotFound | Some i \<Rightarrow> Inr i))"

section \<open>Invitations to a company\<close>

record invitation_request =
  iq_email :: "string option"
  iq_role :: "role option"

text \<open>An invitation to the same address that is still open; the address is compared without case.\<close>

definition active_invitation :: "cp_state \<Rightarrow> nat option \<Rightarrow> string \<Rightarrow> (datetime \<Rightarrow> bool) \<Rightarrow> bool" where
  "active_invitation s c email until \<longleftrightarrow> list_ex (\<lambda>i. iv_company i = c \<and> iexact (iv_email i) email
     \<and> iv_status i = Iv_pending \<and> until (iv_expires_at i)) (rows (cp_invitations s))"

definition validate_invite_email :: "datetime \<Rightarrow> company \<Rightarrow> string option \<Rightarrow> cp_state \<Rightarrow> api_error option" where
  "validate_invite_email now c v s = (case v of
     None \<Rightarrow> Some (raise_validation_error ''email'' ''required'')
   | Some t \<Rightarrow> (let email = lower (strip t) in
       case email_blocks_new_company_invitation (cp_acc s) email (co_id c) of
         Some key \<Rightarrow> Some (raise_validation_error ''email'' key)
       | None \<Rightarrow> require (\<not> active_invitation s (Some (co_id c)) email (\<lambda>e. e > now))
           (raise_validation_error ''email'' ''company.invite_active_for_email'')))"

definition validate_invite_role :: "user \<Rightarrow> role option \<Rightarrow> api_error option" where
  "validate_invite_role u v = (case v of
     None \<Rightarrow> Some (raise_validation_error ''role'' ''required'')
   | Some r \<Rightarrow> first_err [
       require (r \<in> {Employee, Company_admin}) (raise_validation_error ''role'' ''invalid_choice''),
       require (\<not> (r = Company_admin \<and> u_role u \<noteq> Superadmin))
         (raise_validation_error ''role'' ''company.role_superadmin_only'')])"

definition validate_invitation ::
  "datetime \<Rightarrow> user \<Rightarrow> company \<Rightarrow> string \<Rightarrow> role \<Rightarrow> cp_state \<Rightarrow> api_error option" where
  "validate_invitation now u c email r s = first_err [
     require (\<not> employee_count (cp_acc s) c \<ge> co_max_employees c)
       (raise_validation_error ''non_field_errors'' ''company.member_limit_exceeded''),
     require (\<not> active_invitation s (Some (co_id c)) (strip email) (\<lambda>e. e \<ge> now))
       (raise_validation_error ''email'' ''company.invite_active_for_email''),
     require (\<not> (u_role u = Company_admin \<and> r = Company_admin))
       (raise_validation_error ''role'' ''company.admin_cannot_invite_role'')]"

definition token_taken :: "cp_state \<Rightarrow> nat \<Rightarrow> bool" where
  "token_taken s tok \<longleftrightarrow> list_ex (\<lambda>i. iv_token i = tok) (rows (cp_invitations s))"

text \<open>The row, the note to the inviter and the mail job; a token that is taken breaks the unique constraint.\<close>

definition issue_invitation ::
  "datetime \<Rightarrow> nat \<Rightarrow> nat option \<Rightarrow> string \<Rightarrow> user \<Rightarrow> role \<Rightarrow> string \<Rightarrow> cp_state \<Rightarrow> cp_state" where
  "issue_invitation now tok c email u r note s =
     (let s1 = add_invitation (new_invitation now tok c email (u_id u) r) s
      in queue_job (Invitation_mail (next_id (cp_invitations s)))
           (s1\<lparr>cp_nt := create_notification now (u_id u) Invitation_any (Str ''invitation_sent'')
              (Fmt note [Str email]) (Some (Str ''/team/manage'')) (cp_nt s1)\<rparr>))"

definition create_invitation ::
  "datetime \<Rightarrow> nat \<Rightarrow> user \<Rightarrow> nat \<Rightarrow> invitation_request \<Rightarrow> cp_state \<Rightarrow> api_error + cp_state" where
  "create_invitation now tok u k rq s = (case IsCompanyAdmin (Some u) of
     Some e \<Rightarrow> Inl e
   | None \<Rightarrow> (case invitation_company s u k of
       Inl e \<Rightarrow> Inl e
     | Inr c \<Rightarrow>
        (if employee_count (cp_acc s) c \<ge> co_max_employees c
         then Inl (LocalizedError ''COMPANY_MEMBER_LIMIT_EXCEEDED'' ''company.member_limit_exceeded'' 400)
         else case first_err [validate_invite_email now c (iq_email rq) s, validate_invite_role u (iq_role rq)] of
           Some e \<Rightarrow> Inl e
         | None \<Rightarrow> (let email = lower (strip (the (iq_email rq))); r = the (iq_role rq) in
             case validate_invitation now u c email r s of
               Some e \<Rightarrow> Inl e
             | None \<Rightarrow> guarded (require (\<not> token_taken s tok) ServerError)
                 (let s1 = issue_invitation now tok (Some (co_id c)) email u r ''invitation_sent_to'' s
                  in s1\<lparr>cp_nt := notify_company_admins_limit_thresholds now (cp_acc s) (co_id c) ''employees''
                       (employee_count (cp_acc s) c) (co_max_employees c) (cp_nt s1)\<rparr>)))))"

section \<open>Invitations of building staff\<close>

definition validate_building_email :: "datetime \<Rightarrow> string option \<Rightarrow> cp_state \<Rightarrow> api_error option" where
  "validate_building_email now v s = (case v of
     None \<Rightarrow> Some (raise_validation_error ''email'' ''required'')
   | Some t \<Rightarrow> require (\<not> active_invitation s None (lower (strip t)) (\<lambda>e. e > now))
       (raise_validation_error ''email'' ''company.invite_active_for_email''))"

definition validate_building_role :: "role option \<Rightarrow> api_error option" where
  "validate_building_role v = (case v of
     None \<Rightarrow> Some (raise_validation_error ''role'' ''required'')
   | Some r \<Rightarrow> require (r \<in> {Reception, Service_manager}) (raise_validation_error ''role'' ''invalid_choice''))"

definition create_building_invitation ::
  "datetime \<Rightarrow> nat \<Rightarrow> user \<Rightarrow> invitation_request \<Rightarrow> cp_state \<Rightarrow> api_error + cp_state" where
  "create_building_invitation now tok u rq s = (case IsSuperAdmin (Some u) of
     Some e \<Rightarrow> Inl e
   | None \<Rightarrow> (case first_err [validate_building_email now (iq_email rq) s, validate_building_role (iq_role rq)] of
       Some e \<Rightarrow> Inl e
     | None \<Rightarrow> guarded (require (\<not> token_taken s tok) ServerError)
         (issue_invitation now tok None (lower (strip (the (iq_email rq)))) u (the (iq_role rq))
            ''invitation_sent_to_staff'' s)))"

section \<open>Revoking and resending\<close>

text \<open>Both viewsets have these actions; they differ in the permission and in the rows they see.\<close>

definition open_invitation ::
  "datetime \<Rightarrow> invitation_filter \<Rightarrow> user \<Rightarrow> nat option \<Rightarrow> nat \<Rightarrow> cp_state \<Rightarrow> api_error + invitation" where
  "open_invitation now f u c k s = (case c of
     Some cid \<Rightarrow> (case IsCompanyAdmin (Some u) of
         Some e \<Rightarrow> Inl e
       | None \<Rightarrow> (case invitation_company s u cid of
           Inl e \<Rightarrow> Inl e
         | Inr co \<Rightarrow> get_invitation now f (Some (co_id co)) k s))
   | None \<Rightarrow> (case IsSuperAdmin (Some u) of Some e \<Rightarrow> Inl e | None \<Rightarrow> get_invitation now f None k s))"

definition revoke_invitation ::
  "datetime \<Rightarrow> invitation_filter \<Rightarrow> user \<Rightarrow> nat option \<Rightarrow> nat \<Rightarrow> cp_state \<Rightarrow> api_error + cp_state" where
  "revoke_invitation now f u c k s = (case open_invitation now f u c k s of
     Inl e \<Rightarrow> Inl e
   | Inr i \<Rightarrow> Inr (put_invitation (i\<lparr>iv_status := Iv_revoked, iv_used_at := Some now\<rparr>) s))"

definition resend_invitation ::
  "datetime \<Rightarrow> nat \<Rightarrow> invitation_filter \<Rightarrow> user \<Rightarrow> nat option \<Rightarrow> nat \<Rightarrow> cp_state \<Rightarrow> api_error + cp_state" where
  "resend_invitation now tok f u c k s = (case open_invitation now f u c k s of
     Inl e \<Rightarrow> Inl e
   | Inr i \<Rightarrow> guarded (first_err [
         require (iv_status i = Iv_pending) (raise_validation_error ''detail'' ''company.invite_cannot_resend''),
         require (\<not> token_taken s tok) ServerError])
       (let s1 = put_invitation (i\<lparr>iv_status := Iv_revoked, iv_used_at := Some now, iv_expires_at := now\<rparr>) s
        in queue_job (Invitation_mail (next_id (cp_invitations s)))
             (add_invitation (new_invitation now tok (iv_company i) (iv_email i) (u_id u) (iv_role i)) s1)))"

section \<open>Registration\<close>

record registration_request =
  gq_token :: "nat option"
  gq_first_name :: "string option"
  gq_last_name :: "string option"
  gq_phone :: "string option"
  gq_password :: "string option"

definition registration_fields_error :: "registration_request \<Rightarrow> api_error option" where
  "registration_fields_error rq = first_err [
     require (gq_token rq \<noteq> None) (raise_validation_error ''token'' ''required''),
     char_field_error ''first_name'' True False 150 (gq_first_name rq),
     char_field_error ''last_name'' True False 150 (gq_last_name rq),
     char_field_error ''phone'' False True 20 (gq_phone rq),
     password_field_error ''password'' (gq_password rq)]"

definition invitation_by_token :: "cp_state \<Rightarrow> nat \<Rightarrow> invitation option" where
  "invitation_by_token s tok = find (\<lambda>i. iv_token i = tok) (rows (cp_invitations s))"

definition company_row :: "cp_state \<Rightarrow> nat \<Rightarrow> company option" where
  "company_row s c = tbl_get co_id c (ac_companies (cp_acc s))"

definition company_full :: "cp_state \<Rightarrow> invitation \<Rightarrow> bool" where
  "company_full s i \<longleftrightarrow> (case Option.bind (iv_company i) (company_row s) of
     None \<Rightarrow> False | Some c \<Rightarrow> is_employee_limit_reached (cp_acc s) c)"

definition accept_error :: "datetime \<Rightarrow> cp_state \<Rightarrow> invitation \<Rightarrow> api_error option" where
  "accept_error now s i = first_err [
     require (\<not> is_used i) (raise_validation_error ''token'' ''company.invite_already_used''),
     require (\<not> is_expired now i) (raise_validation_error ''token'' ''company.invite_expired''),
     (case user_by_email (cp_acc s) (normalized_invite_email (iv_email i)) of
        None \<Rightarrow> None
      | Some u \<Rightarrow> map_option (raise_validation_error ''email'') (existing_user_cannot_accept_invite_error u i)),
     require (\<not> company_full s i)
       (raise_validation_error ''non_field_errors'' ''company.member_limit_exceeded'')]"

text \<open>
  The user who joins: the row of that address brought up to date, or a new one. Both must satisfy
  the constraints of the table; a failed insertion is reported as a taken address, a failed update
  is not caught.
\<close>

definition rejoined :: "registration_request \<Rightarrow> invitation \<Rightarrow> user \<Rightarrow> user" where
  "rejoined rq i u = u\<lparr>u_first_name := text_or [] (gq_first_name rq), u_last_name := text_or [] (gq_last_name rq),
     u_phone := text_or [] (gq_phone rq), u_password := text_or [] (gq_password rq), u_company := iv_company i,
     u_role := iv_role i, u_is_active := True, u_is_email_verified := False\<rparr>"

definition joined :: "registration_request \<Rightarrow> invitation \<Rightarrow> nat \<Rightarrow> user" where
  "joined rq i = new_user (iv_email i) (text_or [] (gq_password rq)) (text_or [] (gq_first_name rq))
     (text_or [] (gq_last_name rq)) (text_or [] (gq_phone rq)) (iv_role i) (iv_company i)"

definition admit :: "registration_request \<Rightarrow> invitation \<Rightarrow> cp_state \<Rightarrow> api_error + (nat \<times> cp_state)" where
  "admit rq i s = (case user_by_email (cp_acc s) (normalized_invite_email (iv_email i)) of
     Some u \<Rightarrow> guarded (require (users_employee_admin_requires_company (rejoined rq i u)) ServerError)
       (u_id u, put_user (rejoined rq i u) s)
   | None \<Rightarrow> (let k = next_id (ac_users (cp_acc s)) in
       guarded (require (user_integrity (cp_acc s) (joined rq i k))
           (raise_validation_error ''email'' ''users.email_already_registered''))
         (k, s\<lparr>cp_acc := add_user (joined rq i) (cp_acc s)\<rparr>)))"

text \<open>\<open>register_by_invite\<close>: \<open>vtok\<close> is the verification token made for the new account.\<close>

definition register_by_invite ::
  "datetime \<Rightarrow> nat \<Rightarrow> registration_request \<Rightarrow> cp_state \<Rightarrow> api_error + cp_state" where
  "register_by_invite now vtok rq s = (case registration_fields_error rq of
     Some e \<Rightarrow> Inl e
   | None \<Rightarrow> (case invitation_by_token s (the (gq_token rq)) of
       None \<Rightarrow> Inl (raise_validation_error ''token'' ''auth.token_invalid'')
     | Some i \<Rightarrow> (case accept_error now s i of
         Some e \<Rightarrow> Inl e
       | None \<Rightarrow> (case admit rq i s of
           Inl e \<Rightarrow> Inl e
         | Inr (k, s1) \<Rightarrow>
            (let s2 = queue_job (New_employee_joined k)
                   (on_onboarding (setup_onboarding_for_invite_user now k (iv_company i)) s1);
                 s3 = put_invitation (i\<lparr>iv_status := Iv_accepted, iv_used_at := Some now\<rparr>) s2
             in Inr (queue_job (Verification_mail k vtok)
                  (s3\<lparr>cp_auth := create_email_verification_token now vtok k False (cp_auth s3)\<rparr>)))))))"

text \<open>\<open>GET\<close> on the same address: what the registration page shows, or why the link is dead.\<close>

definition show_invitation :: "datetime \<Rightarrow> nat \<Rightarrow> cp_state \<Rightarrow> api_error + (invitation \<times> bool)" where
  "show_invitation now tok s = (case invitation_by_token s tok of
     None \<Rightarrow> Inl (raise_validation_error ''detail'' ''users.invite_invalid_or_expired'')
   | Some i \<Rightarrow>
      (if is_used i \<or> is_expired now i
       then Inl (raise_validation_error ''detail'' ''users.invite_invalid_or_expired'')
       else case lookup_user_by_invite_email (cp_acc s) (iv_email i) of
         None \<Rightarrow> Inr (i, False)
       | Some u \<Rightarrow> (case existing_user_cannot_accept_invite_error u i of
           Some key \<Rightarrow> Inl (raise_validation_error ''email'' key)
         | None \<Rightarrow> Inr (i, u_role u = Guest))))"

section \<open>The periodic task\<close>

definition check_expired_invitations :: "datetime \<Rightarrow> cp_state \<Rightarrow> cp_state" where
  "check_expired_invitations now s = s\<lparr>cp_invitations := tbl_update
     (\<lambda>i. iv_status i = Iv_pending \<and> iv_expires_at i < now) (\<lambda>i. i\<lparr>iv_status := Iv_expired\<rparr>) (cp_invitations s)\<rparr>"

text \<open>The mail job reads the row when it runs.\<close>

definition send_invitation_email :: "cp_state \<Rightarrow> nat \<Rightarrow> (string \<times> nat) option" where
  "send_invitation_email s k =
     map_option (\<lambda>i. (iv_email i, iv_token i)) (tbl_get iv_id k (cp_invitations s))"

end
