(* ===== verification/Companies.thy ===== *)
theory Companies
  imports CompanyModel
begin

text \<open>
  \<open>CompanyViewSet\<close> of \<open>companies/views.py\<close> with the serializers it uses: creating, changing and
  deleting companies, their settings, activation in its three forms, the members of a company, the
  set-up wizard and the bulk actions.
\<close>

section \<open>Creating and changing a company\<close>

text \<open>Categories arrive as JSON; a floor is named by its key, \<open>Some None\<close> clears it.\<close>

record company_request =
  rq_name :: "string option"
  rq_description :: "string option"
  rq_logo :: "string option option"
  rq_floor :: "string option"
  rq_office_number :: "string option"
  rq_categories :: "json option"
  rq_plan :: "plan option"
  rq_max_employees :: "int option"
  rq_storage_limit :: "int option"
  rq_max_boards :: "int option"
  rq_floor_id :: "nat option option"

definition category_error :: "json \<Rightarrow> api_error option" where
  "category_error v = (case v of
     JStr t \<Rightarrow> first_err [
       require (strip t \<noteq> []) (raise_validation_error ''categories'' ''company.categories_item_must_be_string''),
       require (length t \<le> 50) (raise_validation_error ''categories'' ''company.categories_item_too_long'')]
   | _ \<Rightarrow> Some (raise_validation_error ''categories'' ''company.categories_item_must_be_string''))"

definition validate_categories :: "json \<Rightarrow> api_error option" where
  "validate_categories v = (case v of
     JList items \<Rightarrow> first_err (require (length items \<le> 10)
         (raise_validation_error ''categories'' ''company.categories_too_many'') # map category_error items)
   | _ \<Rightarrow> Some (raise_validation_error ''categories'' ''company.categories_must_be_list''))"

definition json_text :: "json \<Rightarrow> string" where
  "json_text v = (case v of JStr t \<Rightarrow> t | _ \<Rightarrow> [])"

definition categories_of :: "json \<Rightarrow> string list" where
  "categories_of v = (case v of JList items \<Rightarrow> map json_text items | _ \<Rightarrow> [])"

definition MAX_INT :: int where
  "MAX_INT = 2147483647"

definition positive_int_error :: "string \<Rightarrow> int option \<Rightarrow> api_error option" where
  "positive_int_error field v = (case v of None \<Rightarrow> None | Some n \<Rightarrow> first_err [
     require (n \<ge> 0) (raise_validation_error field ''min_value''),
     require (n \<le> MAX_INT) (raise_validation_error field ''max_value'')])"

definition floor_error :: "cp_state \<Rightarrow> nat option option \<Rightarrow> api_error option" where
  "floor_error s v = (case v of Some (Some f) \<Rightarrow>
       require (f \<in> set (cp_floors s)) (raise_validation_error ''floor_id'' ''does_not_exist'') | _ \<Rightarrow> None)"

definition or_else :: "'a \<Rightarrow> 'a option \<Rightarrow> 'a" where
  "or_else d v = (case v of None \<Rightarrow> d | Some x \<Rightarrow> x)"

text \<open>The fields of \<open>CompanyCreateSerializer\<close> and \<open>CompanyUpdateSerializer\<close>, in their order.\<close>

definition company_fields_error :: "bool \<Rightarrow> company_request \<Rightarrow> cp_state \<Rightarrow> api_error option" where
  "company_fields_error name_required rq s = first_err [
     char_field_error ''name'' name_required False 255 (rq_name rq),
     char_field_error ''floor'' False True 50 (rq_floor rq),
     char_field_error ''office_number'' False True 50 (rq_office_number rq),
     Option.bind (rq_categories rq) validate_categories,
     positive_int_error ''max_employees'' (rq_max_employees rq),
     positive_int_error ''max_boards'' (rq_max_boards rq),
     floor_error s (rq_floor_id rq)]"

text \<open>
  Creation: limits that are not sent come from the plan, then \<open>Company.save\<close> has its say, then the
  signal \<open>create_company_settings\<close> adds the settings.
\<close>

definition new_company :: "company_request \<Rightarrow> nat \<Rightarrow> company" where
  "new_company rq k =
     (let p = or_else Basic (rq_plan rq) in case plan_default_limits p of (employees, boards, storage) \<Rightarrow>
      company_save_new \<lparr>co_id = k, co_name = text_or [] (rq_name rq), co_description = text_or [] (rq_description rq),
        co_logo = or_else None (rq_logo rq), co_floor = text_or [] (rq_floor rq),
        co_floor_fk = or_else None (rq_floor_id rq), co_office_number = text_or [] (rq_office_number rq),
        co_categories = (case rq_categories rq of None \<Rightarrow> [] | Some v \<Rightarrow> categories_of v),
        co_plan = p, co_max_employees = or_else employees (rq_max_employees rq),
        co_storage_limit = or_else storage (rq_storage_limit rq), co_max_boards = or_else boards (rq_max_boards rq),
        co_is_active = True, co_working_hours_start = hours 9, co_working_hours_end = hours 18,
        co_is_deleted = False, co_deleted_at = None\<rparr>)"

definition create_company_settings :: "nat \<Rightarrow> cp_state \<Rightarrow> cp_state" where
  "create_company_settings c s = snd (get_or_create_settings c s)"

definition create_company :: "user \<Rightarrow> company_request \<Rightarrow> cp_state \<Rightarrow> api_error + cp_state" where
  "create_company u rq s =
     guarded (first_err [IsSuperAdmin (Some u), company_fields_error True rq s])
       (create_company_settings (next_id (ac_companies (cp_acc s)))
         (s\<lparr>cp_acc := (cp_acc s)\<lparr>ac_companies := tbl_insert (new_company rq) (ac_companies (cp_acc s))\<rparr>\<rparr>))"

text \<open>
  Changing: a superadmin writes all fields, a company admin only some, and the logo only with the
  premium plan. \<open>partial\<close> tells PATCH from PUT.
\<close>

definition admin_fields_error :: "bool \<Rightarrow> user \<Rightarrow> company_request \<Rightarrow> cp_state \<Rightarrow> api_error option" where
  "admin_fields_error name_required u rq s = first_err [
     char_field_error ''name'' name_required False 255 (rq_name rq),
     Option.bind (rq_categories rq) validate_categories,
     floor_error s (rq_floor_id rq),
     (if rq_logo rq = None then None
      else require (map_option co_plan (company_of (cp_acc s) u) = Some Premium)
        (PermissionDenied ''company.branding_premium_only''))]"

definition admin_patch :: "company_request \<Rightarrow> company \<Rightarrow> company" where
  "admin_patch rq c = c\<lparr>co_name := text_or (co_name c) (rq_name rq),
     co_description := text_or (co_description c) (rq_description rq),
     co_logo := or_else (co_logo c) (rq_logo rq),
     co_categories := (case rq_categories rq of None \<Rightarrow> co_categories c | Some v \<Rightarrow> categories_of v),
     co_floor_fk := or_else (co_floor_fk c) (rq_floor_id rq)\<rparr>"

definition superadmin_patch :: "company_request \<Rightarrow> company \<Rightarrow> company" where
  "superadmin_patch rq c = (admin_patch rq c)\<lparr>co_floor := text_or (co_floor c) (rq_floor rq),
     co_office_number := text_or (co_office_number c) (rq_office_number rq),
     co_plan := or_else (co_plan c) (rq_plan rq),
     co_max_employees := or_else (co_max_employees c) (rq_max_employees rq),
     co_storage_limit := or_else (co_storage_limit c) (rq_storage_limit rq),
     co_max_boards := or_else (co_max_boards c) (rq_max_boards rq)\<rparr>"

definition update_company :: "user \<Rightarrow> bool \<Rightarrow> nat \<Rightarrow> company_request \<Rightarrow> cp_state \<Rightarrow> api_error + cp_state" where
  "update_company u partial k rq s = (case IsCompanyAdmin (Some u) of
     Some e \<Rightarrow> Inl e
   | None \<Rightarrow> (case get_company_object s u k of
       Inl e \<Rightarrow> Inl e
     | Inr c \<Rightarrow>
        (if u_role u = Company_admin
         then guarded (admin_fields_error (\<not> partial) u rq s) (put_company (admin_patch rq c) s)
         else guarded (company_fields_error (\<not> partial) rq s) (put_company (superadmin_patch rq c) s))))"

section \<open>Deleting a company\<close>

text \<open>
  The database refuses the deletion when a member would be left without the company its role needs
  (the members' column is set to null), or when an onboarding assignment protects a template. The
  tables of the other components that hang on a company go with it.
\<close>

definition company_in_use :: "cp_state \<Rightarrow> nat \<Rightarrow> bool" where
  "company_in_use s k \<longleftrightarrow>
     list_ex (\<lambda>u. u_company u = Some k \<and> u_role u \<in> {Employee, Company_admin}) (rows (ac_users (cp_acc s))) \<or>
     list_ex (\<lambda>a. list_ex (\<lambda>t. tp_id t = oa_template a \<and> tp_company t = k) (rows (ob_templates (cp_ob s))))
       (rows (ob_assignments (cp_ob s)))"

definition erase_company :: "nat \<Rightarrow> cp_state \<Rightarrow> cp_state" where
  "erase_company k s =
     (let boards = map bo_id (tbl_filter (\<lambda>b. bo_company b = k) (cp_boards s));
          cols = map cl_id (tbl_filter (\<lambda>c. cl_board c \<in> set boards) (cp_columns s));
          templates = map tp_id (tbl_filter (\<lambda>t. tp_company t = k) (ob_templates (cp_ob s)));
          steps = map os_id (tbl_filter (\<lambda>x. os_template x \<in> set templates) (ob_steps (cp_ob s)))
      in s\<lparr>cp_acc := \<lparr>ac_users = tbl_update (\<lambda>u. u_company u = Some k) (\<lambda>u. u\<lparr>u_company := None\<rparr>) (ac_users (cp_acc s)),
             ac_companies = tbl_delete (\<lambda>c. co_id c = k) (ac_companies (cp_acc s))\<rparr>,
           cp_settings := tbl_delete (\<lambda>x. cs_company x = k) (cp_settings s),
           cp_invitations := tbl_delete (\<lambda>i. iv_company i = Some k) (cp_invitations s),
           cp_leaves := tbl_delete (\<lambda>l. lv_company l = k) (cp_leaves s),
           cp_boards := tbl_delete (\<lambda>b. bo_company b = k) (cp_boards s),
           cp_columns := tbl_delete (\<lambda>c. cl_board c \<in> set boards) (cp_columns s),
           cp_labels := tbl_delete (\<lambda>l. lb_company l = k) (cp_labels s),
           cp_tasks := tbl_delete (\<lambda>t. tk_column t \<in> set cols) (cp_tasks s),
           cp_bookings := tbl_update (\<lambda>b. b_company b = Some k) (\<lambda>b. b\<lparr>b_company := None\<rparr>) (cp_bookings s),
           cp_ob := (cp_ob s)\<lparr>ob_templates := tbl_delete (\<lambda>t. tp_company t = k) (ob_templates (cp_ob s)),
             ob_steps := tbl_delete (\<lambda>x. os_template x \<in> set templates) (ob_steps (cp_ob s)),
             ob_progress := tbl_delete (\<lambda>p. pg_step p \<in> set steps) (ob_progress (cp_ob s))\<rparr>\<rparr>)"

definition destroy_company :: "user \<Rightarrow> bool \<Rightarrow> nat \<Rightarrow> cp_state \<Rightarrow> api_error + cp_state" where
  "destroy_company u confirm k s = (case IsSuperAdmin (Some u) of
     Some e \<Rightarrow> Inl e
   | None \<Rightarrow>
      (if \<not> confirm then Inl (raise_validation_error ''non_field_errors'' ''company.confirm_required'')
       else case get_company_object s u k of
         Inl e \<Rightarrow> Inl e
       | Inr c \<Rightarrow> guarded (require (\<not> company_in_use s k) ServerError) (erase_company k s)))"

section \<open>Settings\<close>

text \<open>
  \<open>PATCH /companies/{id}/settings\<close>. Labels are stored as they come, so each is checked by hand:
  \<open>re.match\<close> with a final \<open>$\<close> lets a line feed through behind the colour. A colour of null
  is read as the blank one; the number of vacation days has no upper bound but that of its column.
\<close>

record settings_request =
  sq_task_categories :: "string list option"
  sq_custom_labels :: "(string \<times> json) list list option"
  sq_vacation_days :: "int option"
  sq_onboarding_enabled :: "bool option"
  sq_brand_color :: "string option"
  sq_working_hours :: "(daytime \<times> daytime) option"

definition hex_digit_char :: "char \<Rightarrow> bool" where
  "hex_digit_char c = (let n = (of_char c :: nat) in (48 \<le> n \<and> n \<le> 57) \<or> (65 \<le> n \<and> n \<le> 70) \<or> (97 \<le> n \<and> n \<le> 102))"

definition matches_hex_color :: "string \<Rightarrow> bool" where
  "matches_hex_color t \<longleftrightarrow> (case t of [] \<Rightarrow> False | c # cs \<Rightarrow> c = CHR ''#'' \<and> length (take 6 cs) = 6
     \<and> list_all hex_digit_char (take 6 cs) \<and> drop 6 cs \<in> {[], [CHR 0x0A]})"

definition label_ok :: "(string \<times> json) list \<Rightarrow> bool" where
  "label_ok item \<longleftrightarrow> (case map_of item ''name'' of Some (JStr n) \<Rightarrow> n \<noteq> [] | _ \<Rightarrow> False)
     \<and> (case map_of item ''color'' of Some (JStr c) \<Rightarrow> matches_hex_color c | _ \<Rightarrow> False)"

definition settings_fields_error :: "user \<Rightarrow> settings_request \<Rightarrow> cp_state \<Rightarrow> api_error option" where
  "settings_fields_error u rq s = first_err [
     (case sq_task_categories rq of None \<Rightarrow> None | Some ts \<Rightarrow> first_err [
        require (length ts \<le> 50) (raise_validation_error ''custom_task_categories'' ''max_length''),
        require (list_all (\<lambda>t. strip t \<noteq> [] \<and> length (strip t) \<le> 100) ts)
          (raise_validation_error ''custom_task_categories'' ''invalid'')]),
     (case sq_custom_labels rq of None \<Rightarrow> None | Some ls \<Rightarrow> first_err [
        require (length ls \<le> 30) (raise_validation_error ''custom_labels'' ''max_length''),
        require (list_all label_ok ls) (raise_validation_error ''custom_labels'' ''invalid'')]),
     (case sq_vacation_days rq of None \<Rightarrow> None | Some n \<Rightarrow>
        require (n \<ge> 0) (raise_validation_error ''vacation_days_per_year'' ''min_value'')),
     (case sq_brand_color rq of None \<Rightarrow> None | Some t \<Rightarrow>
        require (strip t = [] \<or> matches_hex_color (strip t))
          (raise_validation_error ''brand_primary_color'' ''company.hex_color_invalid'')),
     (case sq_working_hours rq of None \<Rightarrow> None | Some (st, en) \<Rightarrow>
        require (\<not> st \<ge> en) (raise_validation_error ''non_field_errors'' ''company.working_hours_start_after_end'')),
     (if sq_brand_color rq = None \<or> u_role u = Superadmin then None
      else require (map_option co_plan (company_of (cp_acc s) u) = Some Premium)
        (PermissionDenied ''company.branding_premium_only'')),
     (case sq_vacation_days rq of None \<Rightarrow> None | Some n \<Rightarrow> require (n \<le> MAX_INT) ServerError)]"

definition patched_settings :: "settings_request \<Rightarrow> company_settings \<Rightarrow> company_settings" where
  "patched_settings rq x = x\<lparr>
     cs_task_categories := (case sq_task_categories rq of None \<Rightarrow> cs_task_categories x | Some ts \<Rightarrow> map strip ts),
     cs_custom_labels := (case sq_custom_labels rq of None \<Rightarrow> cs_custom_labels x | Some ls \<Rightarrow> map JObj ls),
     cs_vacation_days := or_else (cs_vacation_days x) (sq_vacation_days rq),
     cs_onboarding_enabled := or_else (cs_onboarding_enabled x) (sq_onboarding_enabled rq),
     cs_brand_color := text_or (cs_brand_color x) (sq_brand_color rq)\<rparr>"

definition set_working_hours :: "(daytime \<times> daytime) option \<Rightarrow> company \<Rightarrow> cp_state \<Rightarrow> cp_state" where
  "set_working_hours v c s = (case v of
     None \<Rightarrow> s
   | Some (st, en) \<Rightarrow> put_company (c\<lparr>co_working_hours_start := st, co_working_hours_end := en\<rparr>) s)"

text \<open>New vacation days reach the balances of the members from this year on.\<close>

definition reset_balances :: "date \<Rightarrow> nat \<Rightarrow> int \<Rightarrow> cp_state \<Rightarrow> cp_state" where
  "reset_balances today c vacation s =
     (let members = map u_id (tbl_filter (\<lambda>u. u_company u = Some c) (ac_users (cp_acc s)))
      in s\<lparr>cp_balances := tbl_update (\<lambda>b. lb_user b \<in> set members \<and> lb_year b \<ge> year_of today)
             (\<lambda>b. b\<lparr>lb_total := vacation\<rparr>) (cp_balances s)\<rparr>)"

definition company_settings_get :: "user \<Rightarrow> nat \<Rightarrow> cp_state \<Rightarrow> api_error + (company_settings \<times> cp_state)" where
  "company_settings_get u k s = (case IsCompanyMember (Some u) of
     Some e \<Rightarrow> Inl e
   | None \<Rightarrow> (case get_company_object s u k of
       Inl e \<Rightarrow> Inl e | Inr c \<Rightarrow> Inr (get_or_create_settings (co_id c) s)))"

definition company_settings_patch ::
  "date \<Rightarrow> user \<Rightarrow> nat \<Rightarrow> settings_request \<Rightarrow> cp_state \<Rightarrow> api_error + cp_state" where
  "company_settings_patch today u k rq s = (case IsCompanyMember (Some u) of
     Some e \<Rightarrow> Inl e
   | None \<Rightarrow> (case get_company_object s u k of
       Inl e \<Rightarrow> Inl e
     | Inr c \<Rightarrow>
        (if u_role u = Employee then Inl (PermissionDenied ''company.settings_employees_forbidden'')
         else if u_role u = Company_admin \<and> u_company u \<noteq> Some k
           then Inl (PermissionDenied ''company.settings_own_company_only'')
         else case get_or_create_settings (co_id c) s of (x, s1) \<Rightarrow>
           guarded (settings_fields_error u rq s1)
             (let x' = patched_settings rq x;
                  s2 = set_working_hours (sq_working_hours rq) c (put_settings x' s1)
              in if cs_vacation_days x' \<noteq> cs_vacation_days x
                 then reset_balances today (co_id c) (cs_vacation_days x') s2 else s2))))"

end
