(* ===== verification/Members.thy ===== *)
theory Members
  imports Companies
begin

text \<open>
  The rest of \<open>CompanyViewSet\<close>: activation of a company, its members, its limits, the set-up wizard
  and the bulk actions.
\<close>

section \<open>Activation\<close>

definition set_members_active :: "nat \<Rightarrow> bool \<Rightarrow> accounts \<Rightarrow> accounts" where
  "set_members_active k v acc = acc\<lparr>ac_users :=
     tbl_update (\<lambda>u. u_company u = Some k) (\<lambda>u. u\<lparr>u_is_active := v\<rparr>) (ac_users acc)\<rparr>"

definition set_company_active :: "nat \<Rightarrow> bool \<Rightarrow> accounts \<Rightarrow> accounts" where
  "set_company_active k v acc = acc\<lparr>ac_companies :=
     tbl_update (\<lambda>c. co_id c = k) (\<lambda>c. c\<lparr>co_is_active := v\<rparr>) (ac_companies acc)\<rparr>"

definition deactivate_company :: "user \<Rightarrow> nat \<Rightarrow> cp_state \<Rightarrow> api_error + cp_state" where
  "deactivate_company u k s = (case IsSuperAdmin (Some u) of
     Some e \<Rightarrow> Inl e
   | None \<Rightarrow> (case get_company_object s u k of
       Inl e \<Rightarrow> Inl e
     | Inr c \<Rightarrow> Inr (s\<lparr>cp_acc := set_members_active k False (set_company_active k False (cp_acc s)),
         cp_bookings := tbl_update (\<lambda>b. b_company b = Some k \<and> b_status b = Confirmed)
           (\<lambda>b. b\<lparr>b_status := Cancelled\<rparr>) (cp_bookings s)\<rparr>)))"

definition activate_company :: "user \<Rightarrow> nat \<Rightarrow> cp_state \<Rightarrow> api_error + cp_state" where
  "activate_company u k s = (case IsSuperAdmin (Some u) of
     Some e \<Rightarrow> Inl e
   | None \<Rightarrow> (case get_company_object s u k of
       Inl e \<Rightarrow> Inl e
     | Inr c \<Rightarrow> Inr (s\<lparr>cp_acc := set_members_active k True (set_company_active k True (cp_acc s))\<rparr>)))"

section \<open>Members\<close>

definition company_error :: "string \<Rightarrow> string \<Rightarrow> api_error" where
  "company_error code key = LocalizedError code key 400"

definition settle_leaves :: "user \<Rightarrow> nat \<Rightarrow> cp_state \<Rightarrow> cp_state" where
  "settle_leaves target c s = s\<lparr>cp_leaves := hr_leaves (settle_pending_leaves target c (hr_view s))\<rparr>"

definition revoke_tokens :: "nat \<Rightarrow> cp_state \<Rightarrow> cp_state" where
  "revoke_tokens k s = s\<lparr>cp_auth := blacklist_user_tokens k (cp_auth s)\<rparr>"

text \<open>What the four member actions begin with: the permission, the company and the member.\<close>

definition member_of_company :: "user \<Rightarrow> nat \<Rightarrow> nat \<Rightarrow> cp_state \<Rightarrow> api_error + (company \<times> user)" where
  "member_of_company u k m s = (case IsCompanyAdmin (Some u) of
     Some e \<Rightarrow> Inl e
   | None \<Rightarrow> (case get_company_object s u k of
       Inl e \<Rightarrow> Inl e
     | Inr c \<Rightarrow> (case get_member s (co_id c) m of Inl e \<Rightarrow> Inl e | Inr t \<Rightarrow> Inr (c, t))))"

definition deactivate_member :: "user \<Rightarrow> nat \<Rightarrow> nat \<Rightarrow> cp_state \<Rightarrow> api_error + cp_state" where
  "deactivate_member u k m s = (case member_of_company u k m s of
     Inl e \<Rightarrow> Inl e
   | Inr (c, t) \<Rightarrow> guarded
       (require (u_id t \<noteq> u_id u)
          (company_error ''COMPANY_CANNOT_DEACTIVATE_SELF'' ''company.cannot_deactivate_self''))
       (revoke_tokens m (settle_leaves t (co_id c) (put_user (t\<lparr>u_is_active := False\<rparr>) s))))"

definition activate_member :: "user \<Rightarrow> nat \<Rightarrow> nat \<Rightarrow> cp_state \<Rightarrow> api_error + cp_state" where
  "activate_member u k m s = (case member_of_company u k m s of
     Inl e \<Rightarrow> Inl e
   | Inr (c, t) \<Rightarrow> Inr (put_user (t\<lparr>u_is_active := True\<rparr>) s))"

text \<open>\<open>reassign_to\<close> as the query sends it: absent, not a number, or a number.\<close>

definition reassign_target ::
  "nat \<Rightarrow> nat option option \<Rightarrow> cp_state \<Rightarrow> api_error + nat option" where
  "reassign_target c v s = (case v of
     None \<Rightarrow> Inr None
   | Some None \<Rightarrow> Inl (company_error ''COMPANY_REASSIGN_TO_INVALID'' ''company.reassign_to_invalid_id'')
   | Some (Some r) \<Rightarrow> (case find (\<lambda>x. u_id x = r \<and> u_company x = Some c \<and> u_is_active x) (rows (ac_users (cp_acc s))) of
       None \<Rightarrow> Inl (company_error ''COMPANY_REASSIGN_TO_NOT_ACTIVE'' ''company.reassign_to_not_active_member'')
     | Some x \<Rightarrow> Inr (Some (u_id x))))"

definition task_in_company :: "cp_state \<Rightarrow> nat \<Rightarrow> task \<Rightarrow> bool" where
  "task_in_company s c t \<longleftrightarrow> list_ex (\<lambda>cl. cl_id cl = tk_column t \<and>
     list_ex (\<lambda>b. bo_id b = cl_board cl \<and> bo_company b = c) (rows (cp_boards s))) (rows (cp_columns s))"

definition reassign_tasks :: "nat \<Rightarrow> nat \<Rightarrow> nat option \<Rightarrow> cp_state \<Rightarrow> cp_state" where
  "reassign_tasks c m r s = s\<lparr>cp_tasks := tbl_update
     (\<lambda>t. tk_assignee t = Some m \<and> \<not> tk_is_deleted t \<and> task_in_company s c t)
     (\<lambda>t. t\<lparr>tk_assignee := r\<rparr>) (cp_tasks s)\<rparr>"

definition stripped :: "user \<Rightarrow> user" where
  "stripped t = t\<lparr>u_company := None, u_is_active := False, u_role := Guest\<rparr>"

definition remove_member ::
  "user \<Rightarrow> nat \<Rightarrow> nat \<Rightarrow> nat option option \<Rightarrow> cp_state \<Rightarrow> api_error + cp_state" where
  "remove_member u k m v s = (case member_of_company u k m s of
     Inl e \<Rightarrow> Inl e
   | Inr (c, t) \<Rightarrow> (case first_err [
         require (u_id t \<noteq> u_id u) (company_error ''COMPANY_CANNOT_REMOVE_SELF'' ''company.cannot_remove_self''),
         require (\<not> (u_role t = Company_admin \<and> u_role u \<noteq> Superadmin))
           (company_error ''COMPANY_CANNOT_REMOVE_ADMIN'' ''company.cannot_remove_admin'')] of
       Some e \<Rightarrow> Inl e
     | None \<Rightarrow> (case reassign_target (co_id c) v s of
         Inl e \<Rightarrow> Inl e
       | Inr r \<Rightarrow> Inr (revoke_tokens m (put_user (stripped t)
           (settle_leaves t (co_id c) (reassign_tasks (co_id c) m r s)))))))"

text \<open>Active admins of a company; the guard of a demotion counts them.\<close>

definition active_admins :: "accounts \<Rightarrow> nat \<Rightarrow> user list" where
  "active_admins acc c =
     tbl_filter (\<lambda>u. u_company u = Some c \<and> u_role u = Company_admin \<and> u_is_active u) (ac_users acc)"

definition change_member_role ::
  "user \<Rightarrow> nat \<Rightarrow> nat \<Rightarrow> role option \<Rightarrow> cp_state \<Rightarrow> api_error + cp_state" where
  "change_member_role u k m v s = (case member_of_company u k m s of
     Inl e \<Rightarrow> Inl e
   | Inr (c, t) \<Rightarrow> (case first_err [
         require (u_id t \<noteq> u_id u)
           (company_error ''COMPANY_CANNOT_CHANGE_OWN_ROLE'' ''company.cannot_change_own_role''),
         require (u_role t \<notin> {Guest, Superadmin})
           (company_error ''COMPANY_CANNOT_CHANGE_ROLE_OF_GUEST_OR_SUPERADMIN''
             ''company.cannot_change_role_of_guest_or_superadmin''),
         (case v of
            None \<Rightarrow> Some (raise_validation_error ''role'' ''required'')
          | Some r \<Rightarrow> require (r \<in> {Company_admin, Employee}) (raise_validation_error ''role'' ''invalid_choice''))] of
       Some e \<Rightarrow> Inl e
     | None \<Rightarrow> (let r = the v in
         if u_role t = r then Inr s
         else guarded
           (require (\<not> (u_role t = Company_admin \<and> r = Employee \<and> u_role u \<noteq> Superadmin
               \<and> length (active_admins (cp_acc s) (co_id c)) \<le> 1))
             (company_error ''COMPANY_LAST_ADMIN_DEMOTION_FORBIDDEN'' ''company.last_admin_demotion_forbidden''))
           (put_user (t\<lparr>u_role := r\<rparr>) s))))"

text \<open>The roster: members and superadmins see it, a global superadmin is never on it.\<close>

definition company_roster :: "user \<Rightarrow> nat \<Rightarrow> cp_state \<Rightarrow> api_error + user list" where
  "company_roster u k s = (case IsCompanyMember (Some u) of
     Some e \<Rightarrow> Inl e
   | None \<Rightarrow>
      (if u_role u \<in> {Company_admin, Employee} \<and> u_company u \<noteq> Some k
       then Inl (PermissionDenied ''company.members_own_company_only'')
       else case get_company (cp_acc s) k of
         None \<Rightarrow> Inl NotFound
       | Some c \<Rightarrow> Inr (tbl_filter (\<lambda>m. u_company m = Some k \<and> u_role m \<noteq> Superadmin) (ac_users (cp_acc s)))))"

section \<open>The set-up wizard\<close>

definition company_for_onboarding :: "user \<Rightarrow> nat \<Rightarrow> cp_state \<Rightarrow> api_error + company" where
  "company_for_onboarding u k s =
     (if u_role u = Company_admin \<and> u_company u \<noteq> Some k
      then Inl (PermissionDenied ''company.onboarding_own_company_only'')
      else case get_company (cp_acc s) k of None \<Rightarrow> Inl NotFound | Some c \<Rightarrow> Inr c)"

text \<open>Logo, description, first board, first employee.\<close>

definition compute_onboarding_steps :: "company \<Rightarrow> cp_state \<Rightarrow> (string \<times> bool) list" where
  "compute_onboarding_steps c s =
    [(''upload_logo'', co_logo c \<noteq> None),
     (''fill_description'', co_description c \<noteq> []),
     (''create_first_board'', list_ex (\<lambda>b. bo_company b = co_id c) (rows (cp_boards s))),
     (''invite_first_employee'', list_ex (\<lambda>u. u_company u = Some (co_id c) \<and> u_role u = Employee)
        (rows (ac_users (cp_acc s))))]"

definition onboarding_status :: "user \<Rightarrow> nat \<Rightarrow> cp_state \<Rightarrow> api_error + (bool \<times> cp_state)" where
  "onboarding_status u k s = (case IsCompanyAdmin (Some u) of
     Some e \<Rightarrow> Inl e
   | None \<Rightarrow> (case company_for_onboarding u k s of
       Inl e \<Rightarrow> Inl e
     | Inr c \<Rightarrow> (case get_or_create_settings (co_id c) s of (x, s1) \<Rightarrow>
         (if list_all snd (compute_onboarding_steps c s) \<and> \<not> cs_onboarding_completed x
          then Inr (True, put_settings (x\<lparr>cs_onboarding_completed := True\<rparr>) s1)
          else Inr (cs_onboarding_completed x, s1)))))"

definition skip_onboarding :: "user \<Rightarrow> nat \<Rightarrow> cp_state \<Rightarrow> api_error + cp_state" where
  "skip_onboarding u k s = (case IsCompanyAdmin (Some u) of
     Some e \<Rightarrow> Inl e
   | None \<Rightarrow> (case company_for_onboarding u k s of
       Inl e \<Rightarrow> Inl e
     | Inr c \<Rightarrow> (case get_or_create_settings (co_id c) s of (x, s1) \<Rightarrow>
         Inr (put_settings (x\<lparr>cs_onboarding_completed := True\<rparr>) s1))))"

section \<open>Bulk actions\<close>

definition bulk_companies ::
  "(company \<Rightarrow> bool) \<Rightarrow> (company \<Rightarrow> company) \<Rightarrow> user \<Rightarrow> nat list \<Rightarrow> cp_state \<Rightarrow> api_error + (nat \<times> cp_state)" where
  "bulk_companies P f u ids s =
     (let listed = (\<lambda>c. co_id c \<in> set ids \<and> \<not> co_is_deleted c); cs = ac_companies (cp_acc s)
      in guarded (first_err [
          IsSuperAdmin (Some u),
          require (ids \<noteq> []) (raise_validation_error ''ids'' ''empty''),
          require (list_ex listed (rows cs)) NotFound])
        (length (tbl_filter (\<lambda>c. listed c \<and> P c) cs),
         s\<lparr>cp_acc := (cp_acc s)\<lparr>ac_companies := tbl_update (\<lambda>c. listed c \<and> P c) f cs\<rparr>\<rparr>))"

definition bulk_activate_companies :: "user \<Rightarrow> nat list \<Rightarrow> cp_state \<Rightarrow> api_error + (nat \<times> cp_state)" where
  "bulk_activate_companies = bulk_companies (\<lambda>c. \<not> co_is_active c) (\<lambda>c. c\<lparr>co_is_active := True\<rparr>)"

definition bulk_deactivate_companies :: "user \<Rightarrow> nat list \<Rightarrow> cp_state \<Rightarrow> api_error + (nat \<times> cp_state)" where
  "bulk_deactivate_companies = bulk_companies co_is_active (\<lambda>c. c\<lparr>co_is_active := False\<rparr>)"

definition bulk_delete_companies :: "datetime \<Rightarrow> user \<Rightarrow> nat list \<Rightarrow> cp_state \<Rightarrow> api_error + (nat \<times> cp_state)" where
  "bulk_delete_companies now = bulk_companies (\<lambda>c. True) (\<lambda>c. c\<lparr>co_is_deleted := True, co_deleted_at := Some now\<rparr>)"

end
