(* ===== verification/CompanySystem.thy ===== *)
theory CompanySystem
  imports Invitations Members
begin

text \<open>
  The operations of \<open>apps/companies\<close> as one system: what each of them does to the invitation and
  to the user table, the constraints of these tables as an invariant of every run, and the life
  cycle of an invitation as an abstract specification the operations implement.
\<close>

section \<open>Operations\<close>

datatype cp_op =
    Op_invite datetime nat user nat invitation_request
  | Op_invite_staff datetime nat user invitation_request
  | Op_revoke datetime invitation_filter user "nat option" nat
  | Op_resend datetime nat invitation_filter user "nat option" nat
  | Op_register datetime nat registration_request
  | Op_check_expired datetime
  | Op_create_company user company_request
  | Op_update_company user bool nat company_request
  | Op_destroy_company user bool nat
  | Op_read_settings user nat
  | Op_patch_settings date user nat settings_request
  | Op_deactivate_company user nat
  | Op_activate_company user nat
  | Op_deactivate_member user nat nat
  | Op_activate_member user nat nat
  | Op_remove_member user nat nat "nat option option"
  | Op_change_role user nat nat "role option"
  | Op_wizard user nat
  | Op_skip_wizard user nat
  | Op_bulk_activate user "nat list"
  | Op_bulk_deactivate user "nat list"
  | Op_bulk_delete datetime user "nat list"

definition exec_cp :: "cp_op \<Rightarrow> cp_state \<Rightarrow> api_error + cp_state" where
  "exec_cp x s = (case x of
     Op_invite now tok u k rq \<Rightarrow> create_invitation now tok u k rq s
   | Op_invite_staff now tok u rq \<Rightarrow> create_building_invitation now tok u rq s
   | Op_revoke now f u c k \<Rightarrow> revoke_invitation now f u c k s
   | Op_resend now tok f u c k \<Rightarrow> resend_invitation now tok f u c k s
   | Op_register now vtok rq \<Rightarrow> register_by_invite now vtok rq s
   | Op_check_expired now \<Rightarrow> Inr (check_expired_invitations now s)
   | Op_create_company u rq \<Rightarrow> create_company u rq s
   | Op_update_company u partial k rq \<Rightarrow> update_company u partial k rq s
   | Op_destroy_company u confirm k \<Rightarrow> destroy_company u confirm k s
   | Op_read_settings u k \<Rightarrow> map_sum id snd (company_settings_get u k s)
   | Op_patch_settings today u k rq \<Rightarrow> company_settings_patch today u k rq s
   | Op_deactivate_company u k \<Rightarrow> deactivate_company u k s
   | Op_activate_company u k \<Rightarrow> activate_company u k s
   | Op_deactivate_member u k m \<Rightarrow> deactivate_member u k m s
   | Op_activate_member u k m \<Rightarrow> activate_member u k m s
   | Op_remove_member u k m v \<Rightarrow> remove_member u k m v s
   | Op_change_role u k m r \<Rightarrow> change_member_role u k m r s
   | Op_wizard u k \<Rightarrow> map_sum id snd (onboarding_status u k s)
   | Op_skip_wizard u k \<Rightarrow> skip_onboarding u k s
   | Op_bulk_activate u ids \<Rightarrow> map_sum id snd (bulk_activate_companies u ids s)
   | Op_bulk_deactivate u ids \<Rightarrow> map_sum id snd (bulk_deactivate_companies u ids s)
   | Op_bulk_delete now u ids \<Rightarrow> map_sum id snd (bulk_delete_companies now u ids s))"

text \<open>Does the operation hand out this token?\<close>

definition issues :: "nat \<Rightarrow> cp_op \<Rightarrow> bool" where
  "issues tok x \<longleftrightarrow> (case x of Op_invite _ t _ _ _ \<Rightarrow> t = tok | Op_invite_staff _ t _ _ \<Rightarrow> t = tok
     | Op_resend _ t _ _ _ _ \<Rightarrow> t = tok | _ \<Rightarrow> False)"

section \<open>Frames\<close>

lemma put_user_frame [simp]:
  "cp_invitations (put_user u s) = cp_invitations s" "ac_users (cp_acc (put_user u s)) = tbl_save u_id u (ac_users (cp_acc s))"
  "ac_companies (cp_acc (put_user u s)) = ac_companies (cp_acc s)"
  by (simp_all add: put_user_def save_user_def)

lemma put_company_frame [simp]:
  "cp_invitations (put_company c s) = cp_invitations s" "ac_users (cp_acc (put_company c s)) = ac_users (cp_acc s)"
  by (simp_all add: put_company_def)

lemma invitation_frame [simp]:
  "cp_invitations (put_invitation i s) = tbl_save iv_id i (cp_invitations s)" "cp_acc (put_invitation i s) = cp_acc s"
  "cp_invitations (add_invitation mk s) = tbl_insert mk (cp_invitations s)" "cp_acc (add_invitation mk s) = cp_acc s"
  by (simp_all add: put_invitation_def add_invitation_def)

lemma side_frame [simp]:
  "cp_invitations (queue_job j s) = cp_invitations s" "cp_acc (queue_job j s) = cp_acc s"
  "cp_invitations (on_onboarding f s) = cp_invitations s" "cp_acc (on_onboarding f s) = cp_acc s"
  "cp_invitations (revoke_tokens k s) = cp_invitations s" "cp_acc (revoke_tokens k s) = cp_acc s"
  "cp_invitations (settle_leaves t c s) = cp_invitations s" "cp_acc (settle_leaves t c s) = cp_acc s"
  "cp_invitations (reassign_tasks c m r s) = cp_invitations s" "cp_acc (reassign_tasks c m r s) = cp_acc s"
  "cp_invitations (put_settings x s) = cp_invitations s" "cp_acc (put_settings x s) = cp_acc s"
  "cp_invitations (reset_balances d c n s) = cp_invitations s" "cp_acc (reset_balances d c n s) = cp_acc s"
  "cp_invitations (set_working_hours v co s) = cp_invitations s"
  "ac_users (cp_acc (set_working_hours v co s)) = ac_users (cp_acc s)"
  by (simp_all add: queue_job_def on_onboarding_def revoke_tokens_def settle_leaves_def reassign_tasks_def
      put_settings_def reset_balances_def set_working_hours_def split: option.splits prod.splits)

lemma settings_frame [simp]:
  "cp_invitations (snd (get_or_create_settings c s)) = cp_invitations s"
  "cp_acc (snd (get_or_create_settings c s)) = cp_acc s"
  by (simp_all add: get_or_create_settings_def split: option.splits)

lemma settings_frame_pair:
  "get_or_create_settings c s = (x, s1) \<Longrightarrow> cp_invitations s1 = cp_invitations s \<and> cp_acc s1 = cp_acc s"
  using settings_frame[of c s] by simp

section \<open>What the operations do to the two tables\<close>

text \<open>Operations that leave the invitations alone.\<close>

lemma create_company_effect:
  "create_company u rq s = Inr s' \<Longrightarrow> cp_invitations s' = cp_invitations s \<and> ac_users (cp_acc s') = ac_users (cp_acc s)"
  by (auto simp: create_company_def create_company_settings_def)

lemma update_company_effect:
  "update_company u p k rq s = Inr s' \<Longrightarrow> cp_invitations s' = cp_invitations s \<and> ac_users (cp_acc s') = ac_users (cp_acc s)"
  by (auto simp: update_company_def split: option.splits sum.splits if_splits)

lemma settings_patch_effect:
  "company_settings_patch d u k rq s = Inr s' \<Longrightarrow> cp_invitations s' = cp_invitations s \<and> ac_users (cp_acc s') = ac_users (cp_acc s)"
  by (auto simp: company_settings_patch_def Let_def split: option.splits sum.splits if_splits prod.splits
      dest!: settings_frame_pair)

lemma settings_get_effect:
  "map_sum id snd (company_settings_get u k s) = Inr s' \<Longrightarrow> cp_invitations s' = cp_invitations s \<and> cp_acc s' = cp_acc s"
  by (auto simp: company_settings_get_def split: option.splits sum.splits)

lemma wizard_effect:
  "map_sum id snd (onboarding_status u k s) = Inr s' \<Longrightarrow> cp_invitations s' = cp_invitations s \<and> cp_acc s' = cp_acc s"
  by (auto simp: onboarding_status_def split: option.splits sum.splits if_splits prod.splits
      dest!: settings_frame_pair)

lemma skip_effect:
  "skip_onboarding u k s = Inr s' \<Longrightarrow> cp_invitations s' = cp_invitations s \<and> cp_acc s' = cp_acc s"
  by (auto simp: skip_onboarding_def split: option.splits sum.splits if_splits prod.splits
      dest!: settings_frame_pair)

lemma bulk_effect:
  "map_sum id snd (bulk_companies P f u ids s) = Inr s' \<Longrightarrow>
   cp_invitations s' = cp_invitations s \<and> ac_users (cp_acc s') = ac_users (cp_acc s)"
  by (auto simp: bulk_companies_def Let_def guarded_def split: option.splits)

lemma company_active_effect:
  "deactivate_company u k s = Inr s' \<Longrightarrow> cp_invitations s' = cp_invitations s \<and>
     ac_users (cp_acc s') = tbl_update (\<lambda>u. u_company u = Some k) (\<lambda>u. u\<lparr>u_is_active := False\<rparr>) (ac_users (cp_acc s))"
  "activate_company u k s = Inr s' \<Longrightarrow> cp_invitations s' = cp_invitations s \<and>
     ac_users (cp_acc s') = tbl_update (\<lambda>u. u_company u = Some k) (\<lambda>u. u\<lparr>u_is_active := True\<rparr>) (ac_users (cp_acc s))"
  by (auto simp: deactivate_company_def activate_company_def set_members_active_def set_company_active_def
      split: option.splits sum.splits)

lemma member_of_company_row:
  assumes "member_of_company u k m s = Inr (c, t)"
  shows "get_company_object s u k = Inr c" "u_role u \<in> {Superadmin, Company_admin}"
    "t \<in> set (rows (ac_users (cp_acc s)))" "u_id t = m" "u_company t = Some k" "co_id c = k"
  using assms by (auto simp: member_of_company_def permission_defs split: option.splits sum.splits if_splits
      dest!: get_member_row dest: get_company_object_row)

text \<open>The four member actions write one user row that keeps its key and its address.\<close>

definition rewrites_user :: "cp_state \<Rightarrow> user \<Rightarrow> user \<Rightarrow> cp_state \<Rightarrow> bool" where
  "rewrites_user s t t' s' \<longleftrightarrow> t \<in> set (rows (ac_users (cp_acc s))) \<and> u_id t' = u_id t \<and> u_email t' = u_email t
     \<and> users_employee_admin_requires_company t'
     \<and> ac_users (cp_acc s') = tbl_save u_id t' (ac_users (cp_acc s)) \<and> cp_invitations s' = cp_invitations s"

lemma put_user_rewrites:
  assumes "member_of_company u k m s = Inr (c, t)" "u_id t' = u_id t" "u_email t' = u_email t"
    "users_employee_admin_requires_company t'"
    "ac_users (cp_acc s') = tbl_save u_id t' (ac_users (cp_acc s))" "cp_invitations s' = cp_invitations s"
  shows "rewrites_user s t t' s'"
  using assms member_of_company_row(3)[OF assms(1)] by (simp add: rewrites_user_def)

lemma deactivate_member_ok:
  assumes "deactivate_member u k m s = Inr s'"
  obtains c t where "member_of_company u k m s = Inr (c, t)" "u_id t \<noteq> u_id u"
    "s' = revoke_tokens m (settle_leaves t (co_id c) (put_user (t\<lparr>u_is_active := False\<rparr>) s))"
  using assms by (auto simp: deactivate_member_def split: sum.splits)

lemma activate_member_ok:
  assumes "activate_member u k m s = Inr s'"
  obtains c t where "member_of_company u k m s = Inr (c, t)" "s' = put_user (t\<lparr>u_is_active := True\<rparr>) s"
  using assms by (auto simp: activate_member_def split: sum.splits)

lemma remove_member_ok:
  assumes "remove_member u k m v s = Inr s'"
  obtains c t r where "member_of_company u k m s = Inr (c, t)" "u_id t \<noteq> u_id u"
    "u_role t = Company_admin \<Longrightarrow> u_role u = Superadmin" "reassign_target (co_id c) v s = Inr r"
    "s' = revoke_tokens m (put_user (stripped t) (settle_leaves t (co_id c) (reassign_tasks (co_id c) m r s)))"
  using assms by (auto simp: remove_member_def split: sum.splits option.splits)

lemma change_member_role_ok:
  assumes "change_member_role u k m v s = Inr s'"
  obtains c t r where "member_of_company u k m s = Inr (c, t)" "u_id t \<noteq> u_id u" "u_role t \<notin> {Guest, Superadmin}"
    "v = Some r" "r \<in> {Company_admin, Employee}"
    "s' = (if u_role t = r then s else put_user (t\<lparr>u_role := r\<rparr>) s)"
  using assms by (auto simp: change_member_role_def Let_def split: sum.splits option.splits if_splits)

lemma member_with_company:
  "member_of_company u k m s = Inr (c, t) \<Longrightarrow> u_company t' = u_company t \<Longrightarrow> users_employee_admin_requires_company t'"
  using member_of_company_row(5) by (simp add: users_employee_admin_requires_company_def)

lemma member_effects:
  "deactivate_member u k m s = Inr s' \<Longrightarrow> \<exists>t t'. rewrites_user s t t' s'"
  "activate_member u k m s = Inr s' \<Longrightarrow> \<exists>t t'. rewrites_user s t t' s'"
  "remove_member u k m v s = Inr s' \<Longrightarrow> \<exists>t t'. rewrites_user s t t' s'"
  "change_member_role u k m r s = Inr s' \<Longrightarrow> s' = s \<or> (\<exists>t t'. rewrites_user s t t' s')"
proof -
  assume "deactivate_member u k m s = Inr s'"
  then obtain c t where m: "member_of_company u k m s = Inr (c, t)"
    and s': "s' = revoke_tokens m (settle_leaves t (co_id c) (put_user (t\<lparr>u_is_active := False\<rparr>) s))"
    by (rule deactivate_member_ok)
  have "rewrites_user s t (t\<lparr>u_is_active := False\<rparr>) s'"
    by (rule put_user_rewrites[OF m]) (simp_all add: s' member_with_company[OF m])
  then show "\<exists>t t'. rewrites_user s t t' s'" by blast
next
  assume "activate_member u k m s = Inr s'"
  then obtain c t where m: "member_of_company u k m s = Inr (c, t)"
    and s': "s' = put_user (t\<lparr>u_is_active := True\<rparr>) s"
    by (rule activate_member_ok)
  have "rewrites_user s t (t\<lparr>u_is_active := True\<rparr>) s'"
    by (rule put_user_rewrites[OF m]) (simp_all add: s' member_with_company[OF m])
  then show "\<exists>t t'. rewrites_user s t t' s'" by blast
next
  assume "remove_member u k m v s = Inr s'"
  then obtain c t r where m: "member_of_company u k m s = Inr (c, t)"
    and s': "s' = revoke_tokens m (put_user (stripped t) (settle_leaves t (co_id c) (reassign_tasks (co_id c) m r s)))"
    by (rule remove_member_ok)
  have "rewrites_user s t (stripped t) s'"
    by (rule put_user_rewrites[OF m]) (simp_all add: s' stripped_def users_employee_admin_requires_company_def)
  then show "\<exists>t t'. rewrites_user s t t' s'" by blast
next
  assume "change_member_role u k m r s = Inr s'"
  then obtain c t r' where m: "member_of_company u k m s = Inr (c, t)"
    and s': "s' = (if u_role t = r' then s else put_user (t\<lparr>u_role := r'\<rparr>) s)"
    by (rule change_member_role_ok)
  show "s' = s \<or> (\<exists>t t'. rewrites_user s t t' s')"
  proof (cases "u_role t = r'")
    case False
    have "rewrites_user s t (t\<lparr>u_role := r'\<rparr>) s'"
      by (rule put_user_rewrites[OF m]) (use False in \<open>simp_all add: s' member_with_company[OF m]\<close>)
    then show ?thesis by blast
  qed (simp add: s')
qed

end
