(* ===== verification/Sessions.thy ===== *)
theory Sessions
  imports CompanySystem
begin

text \<open>
  The sessions of \<open>apps/users\<close>: \<open>session.py\<close> (idle and absolute expiry), \<open>jwt.py\<close> (issuing and
  rotating refresh tokens), \<open>authentication.py\<close> and \<open>middleware.py\<close>.

  A refresh token is presented by its identifier (\<open>jti\<close>); its claims are those of the row the
  library keeps for it, and a number without a row is a token that fails verification. An access
  token is the record of its claims. The library (\<open>simplejwt\<close>) checks expiry, checks the
  blacklist for refresh tokens only, and rotates a refresh token as its settings say.

  A request runs in one transaction (\<open>ATOMIC_REQUESTS\<close>). The expiry marks, the counter of resent
  mails and the history of reset requests are in the cache: an error rolls the tables back and
  leaves the cache.
\<close>

section \<open>Configuration and state\<close>

record session_config =
  IDLE_SESSION_TIMEOUT :: int
  ABSOLUTE_SESSION_TIMEOUT :: int
  ACCESS_TOKEN_LIFETIME :: int
  REFRESH_TOKEN_LIFETIME :: int
  REMEMBER_ME_LIFETIME :: int

type_synonym marks = "nat \<Rightarrow> datetime option"

text \<open>A cached mark is the instant it lapses; a counter has its value and that instant.\<close>

record us_state =
  us_cp :: cp_state
  us_idle :: marks
  us_absolute :: marks
  us_resend :: "nat \<Rightarrow> (nat \<times> datetime) option"
  us_reset_history :: "string \<Rightarrow> datetime list"

type_synonym 'a reply = "(api_error + 'a) \<times> us_state"

definition us_acc :: "us_state \<Rightarrow> accounts" where
  "us_acc s = cp_acc (us_cp s)"

definition us_auth :: "us_state \<Rightarrow> auth_tables" where
  "us_auth s = cp_auth (us_cp s)"

definition on_auth :: "(auth_tables \<Rightarrow> auth_tables) \<Rightarrow> us_state \<Rightarrow> us_state" where
  "on_auth f s = s\<lparr>us_cp := (us_cp s)\<lparr>cp_auth := f (us_auth s)\<rparr>\<rparr>"

definition write_user :: "user \<Rightarrow> us_state \<Rightarrow> us_state" where
  "write_user u s = s\<lparr>us_cp := put_user u (us_cp s)\<rparr>"

text \<open>The transaction around a request.\<close>

definition atomic :: "(us_state \<Rightarrow> 'a reply) \<Rightarrow> us_state \<Rightarrow> 'a reply" where
  "atomic f s = (case f s of
     (Inl e, s') \<Rightarrow> (Inl e, s'\<lparr>us_cp := us_cp s\<rparr>)
   | (Inr x, s') \<Rightarrow> (Inr x, s'))"

section \<open>Expiry\<close>

definition cached :: "datetime \<Rightarrow> marks \<Rightarrow> nat \<Rightarrow> bool" where
  "cached now m k \<longleftrightarrow> (case m k of None \<Rightarrow> False | Some lapse \<Rightarrow> now < lapse)"

definition whole_seconds :: "datetime \<Rightarrow> datetime" where
  "whole_seconds t = t div 1000000 * 1000000"

definition mark_lifetime :: "session_config \<Rightarrow> int" where
  "mark_lifetime cfg = max (whole_seconds (REFRESH_TOKEN_LIFETIME cfg)) (seconds 60)"

definition mark_idle_session_expired :: "datetime \<Rightarrow> session_config \<Rightarrow> nat \<Rightarrow> us_state \<Rightarrow> us_state" where
  "mark_idle_session_expired now cfg uid s = s\<lparr>us_idle := (us_idle s)(uid := Some (now + mark_lifetime cfg))\<rparr>"

definition mark_absolute_session_expired :: "datetime \<Rightarrow> session_config \<Rightarrow> nat \<Rightarrow> us_state \<Rightarrow> us_state" where
  "mark_absolute_session_expired now cfg uid s = s\<lparr>us_absolute := (us_absolute s)(uid := Some (now + mark_lifetime cfg))\<rparr>"

definition clear_session_markers :: "nat \<Rightarrow> us_state \<Rightarrow> us_state" where
  "clear_session_markers uid s = s\<lparr>us_idle := (us_idle s)(uid := None), us_absolute := (us_absolute s)(uid := None)\<rparr>"

definition is_absolute_session_expired :: "datetime \<Rightarrow> session_config \<Rightarrow> datetime option \<Rightarrow> bool" where
  "is_absolute_session_expired now cfg created =
     (if ABSOLUTE_SESSION_TIMEOUT cfg \<le> 0 then False
      else case created of None \<Rightarrow> False | Some t \<Rightarrow> now - t > ABSOLUTE_SESSION_TIMEOUT cfg)"

definition is_idle_session_expired :: "datetime \<Rightarrow> session_config \<Rightarrow> user \<Rightarrow> us_state \<Rightarrow> bool" where
  "is_idle_session_expired now cfg u s =
     (if IDLE_SESSION_TIMEOUT cfg \<le> 0 then False
      else if cached now (us_idle s) (u_id u) then True
      else case u_last_login u of None \<Rightarrow> False | Some t \<Rightarrow> now - t > IDLE_SESSION_TIMEOUT cfg)"

definition handle_idle_session_expiry :: "datetime \<Rightarrow> session_config \<Rightarrow> nat \<Rightarrow> us_state \<Rightarrow> us_state" where
  "handle_idle_session_expiry now cfg uid s = on_auth (blacklist_user_tokens uid) (mark_idle_session_expired now cfg uid s)"

definition handle_absolute_session_expiry :: "datetime \<Rightarrow> session_config \<Rightarrow> nat \<Rightarrow> us_state \<Rightarrow> us_state" where
  "handle_absolute_session_expiry now cfg uid s =
     on_auth (blacklist_user_tokens uid) (mark_absolute_session_expired now cfg uid s)"

definition SessionIdleTimeout :: api_error where
  "SessionIdleTimeout = LocalizedError ''SESSION_IDLE_TIMEOUT'' ''auth.session_idle_timeout'' 401"

definition SessionAbsoluteTimeout :: api_error where
  "SessionAbsoluteTimeout = LocalizedError ''SESSION_ABSOLUTE_TIMEOUT'' ''auth.session_absolute_timeout'' 401"

text \<open>
  The check \<open>IdleAwareJWTAuthentication.authenticate\<close> and the refresh serializer share: the
  absolute limit first, marks before claims.
\<close>

definition check_session :: "datetime \<Rightarrow> session_config \<Rightarrow> user \<Rightarrow> datetime option \<Rightarrow> us_state \<Rightarrow> unit reply" where
  "check_session now cfg u created s =
     (if cached now (us_absolute s) (u_id u) \<or> is_absolute_session_expired now cfg created
      then (Inl SessionAbsoluteTimeout, handle_absolute_session_expiry now cfg (u_id u) s)
      else if is_idle_session_expired now cfg u s
      then (Inl SessionIdleTimeout, handle_idle_session_expiry now cfg (u_id u) s)
      else (Inr (), s))"

section \<open>Access tokens\<close>

record access_token =
  at_user :: nat
  at_session_created_at :: "datetime option"
  at_expires_at :: datetime
  at_impersonated_by :: "nat option"

definition access_of :: "datetime \<Rightarrow> session_config \<Rightarrow> refresh_token \<Rightarrow> access_token" where
  "access_of now cfg r = \<lparr>at_user = rt_user r, at_session_created_at = rt_session_created_at r,
     at_expires_at = whole_seconds (now + ACCESS_TOKEN_LIFETIME cfg), at_impersonated_by = None\<rparr>"

definition authenticate :: "datetime \<Rightarrow> session_config \<Rightarrow> access_token \<Rightarrow> us_state \<Rightarrow> user reply" where
  "authenticate now cfg a s =
     (if at_expires_at a \<le> now then (Inl NotAuthenticated, s)
      else case tbl_get u_id (at_user a) (ac_users (us_acc s)) of
        None \<Rightarrow> (Inl NotAuthenticated, s)
      | Some u \<Rightarrow>
         (if \<not> u_is_active u then (Inl NotAuthenticated, s)
          else case check_session now cfg u (at_session_created_at a) s of
            (Inl e, s1) \<Rightarrow> (Inl e, s1)
          | (Inr _, s1) \<Rightarrow> (Inr u, s1)))"

definition touch_last_activity :: "datetime \<Rightarrow> nat \<Rightarrow> us_state \<Rightarrow> us_state" where
  "touch_last_activity now uid s = s\<lparr>us_cp := (us_cp s)\<lparr>cp_acc := (us_acc s)\<lparr>ac_users :=
     tbl_update (\<lambda>u. u_id u = uid) (\<lambda>u. u\<lparr>u_last_login := Some now\<rparr>) (ac_users (us_acc s))\<rparr>\<rparr>\<rparr>"

text \<open>
  A request with an access token: the view \<open>f\<close> gets the user, and the middleware notes the activity
  after a success, unless the path is one of the background ones (\<open>should_track_activity\<close>).
\<close>

definition request ::
  "datetime \<Rightarrow> session_config \<Rightarrow> access_token \<Rightarrow> bool \<Rightarrow> (user \<Rightarrow> us_state \<Rightarrow> 'a reply) \<Rightarrow> us_state \<Rightarrow> 'a reply" where
  "request now cfg a tracked f s =
     (case atomic (\<lambda>s. case authenticate now cfg a s of (Inl e, s1) \<Rightarrow> (Inl e, s1) | (Inr u, s1) \<Rightarrow> f u s1) s of
        (Inl e, s') \<Rightarrow> (Inl e, s')
      | (Inr x, s') \<Rightarrow> (Inr x, if tracked then touch_last_activity now (at_user a) s' else s'))"

section \<open>Refresh tokens\<close>

definition refresh_lifetime :: "session_config \<Rightarrow> bool \<Rightarrow> int" where
  "refresh_lifetime cfg remember_me = (if remember_me then REMEMBER_ME_LIFETIME cfg else REFRESH_TOKEN_LIFETIME cfg)"

definition new_refresh ::
  "nat \<Rightarrow> bool \<Rightarrow> datetime option \<Rightarrow> datetime \<Rightarrow> nat \<Rightarrow> refresh_token" where
  "new_refresh uid remember_me created expires i = \<lparr>rt_id = i, rt_user = uid, rt_remember_me = remember_me,
     rt_session_created_at = created, rt_expires_at = expires, rt_blacklisted = False\<rparr>"

definition add_refresh :: "(nat \<Rightarrow> refresh_token) \<Rightarrow> us_state \<Rightarrow> us_state" where
  "add_refresh mk = on_auth (\<lambda>t. t\<lparr>au_refresh := tbl_insert mk (au_refresh t)\<rparr>)"

definition next_refresh :: "us_state \<Rightarrow> nat" where
  "next_refresh s = next_id (au_refresh (us_auth s))"

text \<open>\<open>issue_refresh_token\<close>, followed by the access token of \<open>_get_tokens\<close>.\<close>

definition issue_refresh_token ::
  "datetime \<Rightarrow> session_config \<Rightarrow> nat \<Rightarrow> bool \<Rightarrow> us_state \<Rightarrow> (access_token \<times> nat) \<times> us_state" where
  "issue_refresh_token now cfg uid remember_me s =
     (let mk = new_refresh uid remember_me (Some (whole_seconds now))
            (whole_seconds (now + refresh_lifetime cfg remember_me))
      in ((access_of now cfg (mk (next_refresh s)), next_refresh s),
          add_refresh mk (clear_session_markers uid s)))"

definition refresh_row :: "us_state \<Rightarrow> nat \<Rightarrow> refresh_token option" where
  "refresh_row s j = tbl_get rt_id j (au_refresh (us_auth s))"

text \<open>Verification of a refresh token: its signature, its expiry, the blacklist.\<close>

definition verify_refresh :: "datetime \<Rightarrow> nat \<Rightarrow> us_state \<Rightarrow> refresh_token option" where
  "verify_refresh now j s = (case refresh_row s j of
     None \<Rightarrow> None
   | Some r \<Rightarrow> if rt_expires_at r \<le> now \<or> rt_blacklisted r then None else Some r)"

definition blacklist_token :: "nat \<Rightarrow> us_state \<Rightarrow> us_state" where
  "blacklist_token j = on_auth (\<lambda>t. t\<lparr>au_refresh :=
     tbl_update (\<lambda>r. rt_id r = j) (\<lambda>r. r\<lparr>rt_blacklisted := True\<rparr>) (au_refresh t)\<rparr>)"

text \<open>
  The rotation keeps the user, the choice to be remembered and the start of the session, if the
  token has one; a token without one gets the present instant, its access token does not.
\<close>

definition rotated :: "datetime \<Rightarrow> session_config \<Rightarrow> refresh_token \<Rightarrow> nat \<Rightarrow> refresh_token" where
  "rotated now cfg r = new_refresh (rt_user r) (rt_remember_me r)
     (Some (whole_seconds (case rt_session_created_at r of None \<Rightarrow> now | Some t \<Rightarrow> t)))
     (whole_seconds (now + refresh_lifetime cfg (rt_remember_me r)))"

definition rotate :: "datetime \<Rightarrow> session_config \<Rightarrow> refresh_token \<Rightarrow> us_state \<Rightarrow> (access_token \<times> nat) reply" where
  "rotate now cfg r s = (Inr (access_of now cfg r, next_refresh s),
     add_refresh (rotated now cfg r) (blacklist_token (rt_id r) s))"

text \<open>
  \<open>CookieTokenRefreshView\<close>: the token of the body goes before the cookie's. The check of the
  session is skipped when the user is gone; the new row then has no user to refer to.
\<close>

definition token_refresh ::
  "datetime \<Rightarrow> session_config \<Rightarrow> nat option \<Rightarrow> nat option \<Rightarrow> us_state \<Rightarrow> (access_token \<times> nat) reply" where
  "token_refresh now cfg body cookie = atomic (\<lambda>s. case (case body of None \<Rightarrow> cookie | Some j \<Rightarrow> Some j) of
     None \<Rightarrow> (Inl (raise_validation_error ''detail'' ''required''), s)
   | Some j \<Rightarrow> (case verify_refresh now j s of
       None \<Rightarrow> (Inl NotAuthenticated, s)
     | Some r \<Rightarrow> (case tbl_get u_id (rt_user r) (ac_users (us_acc s)) of
         None \<Rightarrow> (Inl ServerError, s)
       | Some u \<Rightarrow> (case check_session now cfg u (rt_session_created_at r) s of
           (Inl e, s1) \<Rightarrow> (Inl e, s1)
         | (Inr _, s1) \<Rightarrow> rotate now cfg r s1))))"

end
