(* ===== verification/Users.thy ===== *)
theory Users
  imports Sessions
begin

text \<open>
  The endpoints of \<open>apps/users/views.py\<close> with the serializers they use: registration, login and
  logout, verification of the address, the password, the profile, and the superadmin's actions on
  accounts. Fresh tokens (\<open>uuid4\<close>) are arguments of the operation that makes them; \<open>strong\<close>
  stands for \<open>validate_password\<close> with the validators of the settings, given the user where the
  code hands one over.
\<close>

section \<open>Registration and login\<close>

record register_request =
  sq_email :: "string option"
  sq_first_name :: "string option"
  sq_last_name :: "string option"
  sq_phone :: "string option"
  sq_password :: "string option"
  sq_password_confirm :: "string option"

definition email_field_error :: "string option \<Rightarrow> api_error option" where
  "email_field_error = char_field_error ''email'' True False 254"

definition email_is_free :: "accounts \<Rightarrow> string \<Rightarrow> bool" where
  "email_is_free acc e \<longleftrightarrow> \<not> list_ex (\<lambda>u. u_email u = e) (rows (ac_users acc))"

definition register_error :: "accounts \<Rightarrow> register_request \<Rightarrow> api_error option" where
  "register_error acc rq = first_err [
     email_field_error (sq_email rq),
     require (email_is_free acc (text_or [] (sq_email rq))) (raise_validation_error ''email'' ''unique''),
     char_field_error ''first_name'' True False 150 (sq_first_name rq),
     char_field_error ''last_name'' True False 150 (sq_last_name rq),
     char_field_error ''phone'' False True 20 (sq_phone rq),
     password_field_error ''password'' (sq_password rq),
     (case sq_password_confirm rq of
        None \<Rightarrow> Some (raise_validation_error ''password_confirm'' ''required'')
      | Some t \<Rightarrow> require (strip t \<noteq> []) (raise_validation_error ''password_confirm'' ''blank'')),
     require (text_or [] (sq_password rq) = text_or [] (sq_password_confirm rq))
       (raise_validation_error ''password_confirm'' ''auth.passwords_dont_match'')]"

definition registered :: "register_request \<Rightarrow> nat \<Rightarrow> user" where
  "registered rq = new_user (text_or [] (sq_email rq)) (text_or [] (sq_password rq)) (text_or [] (sq_first_name rq))
     (text_or [] (sq_last_name rq)) (text_or [] (sq_phone rq)) Guest None"

definition mail_verification :: "datetime \<Rightarrow> nat \<Rightarrow> nat \<Rightarrow> bool \<Rightarrow> us_state \<Rightarrow> us_state" where
  "mail_verification now vtok uid invalidate_existing = on_auth (\<lambda>t. enqueue (Verification_mail uid vtok)
     (create_email_verification_token now vtok uid invalidate_existing t))"

text \<open>The serializer compares the address as typed, the row has it normalised: the column is unique.\<close>

definition register ::
  "datetime \<Rightarrow> session_config \<Rightarrow> nat \<Rightarrow> register_request \<Rightarrow> us_state \<Rightarrow> (user \<times> access_token \<times> nat) reply" where
  "register now cfg vtok rq = atomic (\<lambda>s. case register_error (us_acc s) rq of
     Some e \<Rightarrow> (Inl e, s)
   | None \<Rightarrow> (let k = next_id (ac_users (us_acc s)); u = registered rq k in
       if \<not> user_integrity (us_acc s) u then (Inl ServerError, s)
       else (let s1 = s\<lparr>us_cp := (us_cp s)\<lparr>cp_acc := add_user (registered rq) (us_acc s)\<rparr>\<rparr>;
                 (ts, s2) = issue_refresh_token now cfg k False (mail_verification now vtok k False s1)
             in (Inr (u, ts), s2))))"

record login_request =
  lq_email :: "string option"
  lq_password :: "string option"
  lq_remember_me :: bool

definition login_fields_error :: "login_request \<Rightarrow> api_error option" where
  "login_fields_error rq = first_err [
     (case lq_email rq of None \<Rightarrow> Some (raise_validation_error ''email'' ''required'')
      | Some t \<Rightarrow> require (strip t \<noteq> []) (raise_validation_error ''email'' ''blank'')),
     (case lq_password rq of None \<Rightarrow> Some (raise_validation_error ''password'' ''required'')
      | Some t \<Rightarrow> require (strip t \<noteq> []) (raise_validation_error ''password'' ''blank''))]"

definition blocked_user :: "accounts \<Rightarrow> string \<Rightarrow> user option" where
  "blocked_user acc e = find (\<lambda>u. iexact (u_email u) e \<and> \<not> u_is_active u) (rev (rows (ac_users acc)))"

text \<open>The model backend looks the address up as it is and lets active accounts in only.\<close>

definition backend_authenticate :: "accounts \<Rightarrow> string \<Rightarrow> string \<Rightarrow> user option" where
  "backend_authenticate acc e p = (case find (\<lambda>u. u_email u = e) (rows (ac_users acc)) of
     None \<Rightarrow> None
   | Some u \<Rightarrow> if u_password u = p \<and> u_is_active u then Some u else None)"

text \<open>
  The error for an unverified address asks for status 403; it is raised while the serializer
  validates, which turns it into an error of the request, 400, with its code and text.
\<close>

definition validate_login :: "accounts \<Rightarrow> login_request \<Rightarrow> api_error + user" where
  "validate_login acc rq = (case login_fields_error rq of
     Some e \<Rightarrow> Inl e
   | None \<Rightarrow> (let email = text_or [] (lq_email rq); password = text_or [] (lq_password rq) in
       case blocked_user acc email of
         Some b \<Rightarrow> (if u_password b = password then Inl (PermissionDenied ''auth.account_blocked'')
           else (case backend_authenticate acc email password of
               None \<Rightarrow> Inl (raise_validation_error ''non_field_errors'' ''auth.invalid_credentials'')
             | Some u \<Rightarrow> if u_is_email_verified u then Inr u
                 else Inl (LocalizedError ''EMAIL_NOT_VERIFIED'' ''auth.email_not_verified'' 400)))
       | None \<Rightarrow> (case backend_authenticate acc email password of
               None \<Rightarrow> Inl (raise_validation_error ''non_field_errors'' ''auth.invalid_credentials'')
             | Some u \<Rightarrow> if u_is_email_verified u then Inr u
                 else Inl (LocalizedError ''EMAIL_NOT_VERIFIED'' ''auth.email_not_verified'' 400))))"

definition login ::
  "datetime \<Rightarrow> session_config \<Rightarrow> login_request \<Rightarrow> us_state \<Rightarrow> (user \<times> access_token \<times> nat) reply" where
  "login now cfg rq = atomic (\<lambda>s. case validate_login (us_acc s) rq of
     Inl e \<Rightarrow> (Inl e, s)
   | Inr u \<Rightarrow> (case issue_refresh_token now cfg (u_id u) (lq_remember_me rq) s of
       (ts, s1) \<Rightarrow> (Inr (u, ts), touch_last_activity now (u_id u) s1)))"

definition logout :: "datetime \<Rightarrow> nat option \<Rightarrow> nat option \<Rightarrow> us_state \<Rightarrow> unit reply" where
  "logout now body cookie = atomic (\<lambda>s. case (case body of None \<Rightarrow> cookie | Some j \<Rightarrow> Some j) of
     None \<Rightarrow> (Inl (raise_validation_error ''detail'' ''required''), s)
   | Some j \<Rightarrow> (case verify_refresh now j s of
       None \<Rightarrow> (Inl (raise_validation_error ''detail'' ''auth.token_invalid''), s)
     | Some r \<Rightarrow> (Inr (), blacklist_token (rt_id r) s)))"

section \<open>Verification of the address\<close>

definition token_row :: "nat \<Rightarrow> user_token table \<Rightarrow> user_token option" where
  "token_row tok t = find (\<lambda>r. ut_token r = tok) (rows t)"

definition set_user :: "nat \<Rightarrow> (user \<Rightarrow> user) \<Rightarrow> us_state \<Rightarrow> us_state" where
  "set_user uid f s = (case tbl_get u_id uid (ac_users (us_acc s)) of None \<Rightarrow> s | Some u \<Rightarrow> write_user (f u) s)"

definition verify_email :: "datetime \<Rightarrow> nat option \<Rightarrow> us_state \<Rightarrow> unit reply" where
  "verify_email now v = atomic (\<lambda>s. case v of
     None \<Rightarrow> (Inl (raise_validation_error ''token'' ''required''), s)
   | Some tok \<Rightarrow> (case token_row tok (au_verifications (us_auth s)) of
       None \<Rightarrow> (Inl NotFound, s)
     | Some t \<Rightarrow>
        (if ut_is_used t then (Inl (raise_validation_error ''detail'' ''auth.token_already_used''), s)
         else if token_expired now t then (Inl (raise_validation_error ''detail'' ''auth.token_expired''), s)
         else (Inr (), on_auth (\<lambda>a. a\<lparr>au_verifications := tbl_save ut_id (t\<lparr>ut_is_used := True\<rparr>) (au_verifications a)\<rparr>)
                (set_user (ut_user t) (\<lambda>u. u\<lparr>u_is_email_verified := True\<rparr>) s)))))"

text \<open>At most three mails in the ten minutes after the first; the counter is not touched by a rollback.\<close>

definition resend_count :: "datetime \<Rightarrow> nat \<Rightarrow> us_state \<Rightarrow> nat" where
  "resend_count now uid s = (case us_resend s uid of None \<Rightarrow> 0 | Some (n, lapse) \<Rightarrow> if now < lapse then n else 0)"

definition count_resend :: "datetime \<Rightarrow> nat \<Rightarrow> us_state \<Rightarrow> us_state" where
  "count_resend now uid s = s\<lparr>us_resend := (us_resend s)(uid :=
     (if resend_count now uid s = 0 then Some (1, now + seconds 600)
      else map_option (\<lambda>(n, lapse). (Suc n, lapse)) (us_resend s uid)))\<rparr>"

definition resend_verification_email :: "datetime \<Rightarrow> nat \<Rightarrow> user \<Rightarrow> us_state \<Rightarrow> unit reply" where
  "resend_verification_email now vtok u s =
     (if u_is_email_verified u then (Inl (PermissionDenied ''email already verified''), s)
      else if resend_count now (u_id u) s \<ge> 3
      then (Inl (LocalizedError ''429'' ''users.too_many_requests'' 429), s)
      else (Inr (), mail_verification now vtok (u_id u) True (count_resend now (u_id u) s)))"

section \<open>Passwords\<close>

text \<open>
  The throttle of the reset request: so many requests of one address in so long a window. The
  history is kept newest first.
\<close>

definition throttle_num :: nat where
  "throttle_num = 5"

definition throttle_duration :: int where
  "throttle_duration = minutes 15"

definition recent :: "datetime \<Rightarrow> datetime list \<Rightarrow> datetime list" where
  "recent now h = rev (dropWhile (\<lambda>t. t \<le> now - throttle_duration) (rev h))"

definition throttle_allows :: "datetime \<Rightarrow> datetime list \<Rightarrow> bool" where
  "throttle_allows now h \<longleftrightarrow> length (recent now h) < throttle_num"

definition throttle_next :: "datetime \<Rightarrow> datetime list \<Rightarrow> datetime list" where
  "throttle_next now h = (if throttle_allows now h then now # recent now h else h)"

definition reset_user :: "accounts \<Rightarrow> string \<Rightarrow> user option" where
  "reset_user acc e = find (\<lambda>u. u_email u = e \<and> u_is_active u) (rows (ac_users acc))"

definition password_reset_request :: "datetime \<Rightarrow> nat \<Rightarrow> string \<Rightarrow> string option \<Rightarrow> us_state \<Rightarrow> unit reply" where
  "password_reset_request now tok addr v = atomic (\<lambda>s0.
     if \<not> throttle_allows now (us_reset_history s0 addr)
     then (Inl (LocalizedError ''429'' ''throttled'' 429), s0)
     else (let s = s0\<lparr>us_reset_history := (us_reset_history s0)(addr := throttle_next now (us_reset_history s0 addr))\<rparr> in
       case v of
         None \<Rightarrow> (Inl (raise_validation_error ''email'' ''required''), s)
       | Some t \<Rightarrow>
          (if strip t = [] then (Inl (raise_validation_error ''email'' ''blank''), s)
           else case reset_user (us_acc s) (strip t) of
             None \<Rightarrow> (Inr (), s)
           | Some u \<Rightarrow> (Inr (), on_auth (\<lambda>a. enqueue (Reset_mail (next_id (au_resets a)))
               (a\<lparr>au_resets := tbl_insert (new_token (u_id u) tok (now + hours 1)) (au_resets a)\<rparr>)) s))))"

definition new_password_error :: "(string \<Rightarrow> bool) \<Rightarrow> string option \<Rightarrow> api_error option" where
  "new_password_error strong v = first_err [
     password_field_error ''new_password'' v,
     require (strong (text_or [] v)) (raise_validation_error ''new_password'' ''validate_password'')]"

definition revoke_sessions :: "nat \<Rightarrow> us_state \<Rightarrow> us_state" where
  "revoke_sessions uid = on_auth (blacklist_user_tokens uid)"

definition set_password :: "nat \<Rightarrow> string \<Rightarrow> us_state \<Rightarrow> us_state" where
  "set_password uid p = set_user uid (\<lambda>u. u\<lparr>u_password := p\<rparr>)"

definition reset_token_error :: "datetime \<Rightarrow> us_state \<Rightarrow> user_token \<Rightarrow> api_error option" where
  "reset_token_error now s t = (case tbl_get u_id (ut_user t) (ac_users (us_acc s)) of
     None \<Rightarrow> Some ServerError
   | Some u \<Rightarrow> first_err [
       require (u_is_active u) (LocalizedError ''TOKEN_INVALID'' ''auth.token_invalid'' 400),
       require (\<not> ut_is_used t) (LocalizedError ''TOKEN_ALREADY_USED'' ''auth.token_already_used'' 400),
       require (\<not> token_expired now t) (LocalizedError ''TOKEN_EXPIRED'' ''auth.token_expired'' 400)])"

definition password_reset_confirm ::
  "(user option \<Rightarrow> string \<Rightarrow> bool) \<Rightarrow> datetime \<Rightarrow> nat option \<Rightarrow> string option \<Rightarrow> us_state \<Rightarrow> unit reply" where
  "password_reset_confirm strong now v p = atomic (\<lambda>s. case v of
     None \<Rightarrow> (Inl (raise_validation_error ''token'' ''required''), s)
   | Some tok \<Rightarrow> (case new_password_error (strong None) p of
       Some e \<Rightarrow> (Inl e, s)
     | None \<Rightarrow> (case token_row tok (au_resets (us_auth s)) of
         None \<Rightarrow> (Inl (LocalizedError ''TOKEN_INVALID'' ''auth.token_invalid'' 400), s)
       | Some t \<Rightarrow> (case reset_token_error now s t of
           Some e \<Rightarrow> (Inl e, s)
         | None \<Rightarrow> (Inr (), revoke_sessions (ut_user t) (set_password (ut_user t) (text_or [] p)
             (on_auth (\<lambda>a. a\<lparr>au_resets := tbl_update (\<lambda>r. ut_token r = tok \<and> \<not> ut_is_used r)
                (\<lambda>r. r\<lparr>ut_is_used := True\<rparr>) (au_resets a)\<rparr>) s)))))))"

definition change_password ::
  "(user option \<Rightarrow> string \<Rightarrow> bool) \<Rightarrow> string option \<Rightarrow> string option \<Rightarrow> user \<Rightarrow> us_state \<Rightarrow> unit reply" where
  "change_password strong current p u s =
     (case first_err [
        (case current of
           None \<Rightarrow> Some (raise_validation_error ''current_password'' ''required'')
         | Some t \<Rightarrow> first_err [
             require (strip t \<noteq> []) (raise_validation_error ''current_password'' ''blank''),
             require (u_password u = strip t) (raise_validation_error ''current_password'' ''auth.current_password_wrong'')]),
        new_password_error (strong (Some u)) p] of
      Some e \<Rightarrow> (Inl e, s)
    | None \<Rightarrow> (Inr (), revoke_sessions (u_id u) (write_user (u\<lparr>u_password := text_or [] p\<rparr>) s)))"

section \<open>Profile\<close>

text \<open>An uploaded picture: its content type and size, and the name its storage gives the resized file.\<close>

record avatar_upload =
  av_content_type :: string
  av_size :: int
  av_stored_as :: string

record profile_request =
  fq_first_name :: "string option"
  fq_last_name :: "string option"
  fq_phone :: "string option"
  fq_position :: "string option"
  fq_avatar :: "avatar_upload option option"

definition avatar_error :: "avatar_upload option option \<Rightarrow> api_error option" where
  "avatar_error v = (case v of
     Some (Some a) \<Rightarrow> first_err [
       require (av_content_type a \<in> {''image/jpeg'', ''image/png'', ''image/webp''})
         (raise_validation_error ''avatar'' ''users.avatar_type_not_supported''),
       require (\<not> av_size a > 5 * 1024 * 1024) (raise_validation_error ''avatar'' ''users.avatar_too_large'')]
   | _ \<Rightarrow> None)"

definition profile_error :: "profile_request \<Rightarrow> api_error option" where
  "profile_error rq = first_err [
     char_field_error ''first_name'' False False 150 (fq_first_name rq),
     char_field_error ''last_name'' False False 150 (fq_last_name rq),
     char_field_error ''phone'' False True 20 (fq_phone rq),
     char_field_error ''position'' False True 100 (fq_position rq),
     avatar_error (fq_avatar rq)]"

definition with_profile :: "profile_request \<Rightarrow> user \<Rightarrow> user" where
  "with_profile rq u = u\<lparr>
     u_first_name := text_or (u_first_name u) (fq_first_name rq),
     u_last_name := text_or (u_last_name u) (fq_last_name rq),
     u_phone := text_or (u_phone u) (fq_phone rq),
     u_position := text_or (u_position u) (fq_position rq),
     u_avatar := (case fq_avatar rq of None \<Rightarrow> u_avatar u | Some v \<Rightarrow> map_option av_stored_as v)\<rparr>"

definition update_profile :: "profile_request \<Rightarrow> user \<Rightarrow> us_state \<Rightarrow> user reply" where
  "update_profile rq u s = (case profile_error rq of
     Some e \<Rightarrow> (Inl e, s)
   | None \<Rightarrow> (Inr (with_profile rq u), write_user (with_profile rq u) s))"

definition delete_avatar :: "user \<Rightarrow> us_state \<Rightarrow> user reply" where
  "delete_avatar u s = (Inr (u\<lparr>u_avatar := None\<rparr>), write_user (u\<lparr>u_avatar := None\<rparr>) s)"

definition delete_account :: "datetime \<Rightarrow> user \<Rightarrow> us_state \<Rightarrow> unit reply" where
  "delete_account now u s = (Inr (), revoke_sessions (u_id u)
     (write_user (u\<lparr>u_is_deleted := True, u_is_active := False, u_deleted_at := Some now\<rparr>) s))"

section \<open>Accounts, by a superadmin\<close>

definition superadmin_on :: "user \<Rightarrow> nat \<Rightarrow> (user \<Rightarrow> us_state \<Rightarrow> 'a reply) \<Rightarrow> us_state \<Rightarrow> 'a reply" where
  "superadmin_on u k f s = (case IsSuperAdmin (Some u) of
     Some e \<Rightarrow> (Inl e, s)
   | None \<Rightarrow> (case tbl_get u_id k (ac_users (us_acc s)) of None \<Rightarrow> (Inl NotFound, s) | Some t \<Rightarrow> f t s))"

text \<open>
  The tokens of an impersonation come from the library as they are: no start of the session, the
  default lifetime, no mark cleared; the claim with the superadmin is on the access token alone.
\<close>

definition impersonate_user ::
  "datetime \<Rightarrow> session_config \<Rightarrow> nat \<Rightarrow> user \<Rightarrow> us_state \<Rightarrow> (access_token \<times> nat) reply" where
  "impersonate_user now cfg k u = superadmin_on u k (\<lambda>t s.
     case first_err [
       require (u_id t \<noteq> u_id u) (raise_validation_error ''detail'' ''impersonate self''),
       require (u_role t \<noteq> Superadmin) (raise_validation_error ''detail'' ''impersonate superadmin''),
       require (u_is_active t) (raise_validation_error ''detail'' ''impersonate inactive'')] of
       Some e \<Rightarrow> (Inl e, s)
     | None \<Rightarrow> (let mk = new_refresh (u_id t) False None (whole_seconds (now + REFRESH_TOKEN_LIFETIME cfg)) in
         (Inr ((access_of now cfg (mk (next_refresh s)))\<lparr>at_impersonated_by := Some (u_id u)\<rparr>, next_refresh s),
          add_refresh mk s)))"

definition block_user :: "nat \<Rightarrow> user \<Rightarrow> us_state \<Rightarrow> unit reply" where
  "block_user k u = superadmin_on u k (\<lambda>t s. (Inr (), revoke_sessions (u_id t) (write_user (t\<lparr>u_is_active := False\<rparr>) s)))"

definition unblock_user :: "nat \<Rightarrow> user \<Rightarrow> us_state \<Rightarrow> unit reply" where
  "unblock_user k u = superadmin_on u k (\<lambda>t s. (Inr (), write_user (t\<lparr>u_is_active := True\<rparr>) s))"

end
