(* ===== verification/InvitationLifecycle.thy ===== *)
theory InvitationLifecycle
  imports CompanySystem
begin

text \<open>
  The life cycle of an invitation, as a specification on tokens, and the proof that every operation
  of \<open>apps/companies\<close> implements it; with it the constraints of the user and the invitation table.
\<close>

section \<open>Specification\<close>

text \<open>
  A token is open until an instant, or was used to join, withdrawn, or lapsed; an unknown token has no
  phase. A step is taken at an instant. Only an open token is joined with, and in time; a withdrawal
  closes a token whatever its phase; a token is issued for 72 hours; the deletion of a company forgets
  its tokens.
\<close>

datatype phase = Open datetime | Joined | Withdrawn | Lapsed

type_synonym phase_map = "nat \<Rightarrow> phase option"

definition lapse :: "datetime \<Rightarrow> phase \<Rightarrow> phase" where
  "lapse now p = (case p of Open e \<Rightarrow> if e < now then Lapsed else Open e | _ \<Rightarrow> p)"

lemma lapse_iff [simp]:
  "lapse now p = Joined \<longleftrightarrow> p = Joined" "lapse now p = Withdrawn \<longleftrightarrow> p = Withdrawn"
  "lapse now Joined = Joined" "lapse now Withdrawn = Withdrawn" "lapse now Lapsed = Lapsed"
  by (auto simp: lapse_def split: phase.splits)

lemma lapse_open: "lapse now p = Open e \<longleftrightarrow> p = Open e \<and> now \<le> e"
  by (auto simp: lapse_def split: phase.splits)

inductive lifecycle :: "datetime \<Rightarrow> phase_map \<Rightarrow> phase_map \<Rightarrow> bool" for now where
  stay: "lifecycle now p p"
| issue: "p t = None \<Longrightarrow> lifecycle now p (p(t \<mapsto> Open (now + hours 72)))"
| join: "p t = Some (Open e) \<Longrightarrow> now \<le> e \<Longrightarrow> lifecycle now p (p(t \<mapsto> Joined))"
| withdraw: "p t = Some x \<Longrightarrow> lifecycle now p (p(t \<mapsto> Withdrawn))"
| reissue: "p t = Some (Open e) \<Longrightarrow> p t' = None \<Longrightarrow>
    lifecycle now p (p(t \<mapsto> Withdrawn, t' \<mapsto> Open (now + hours 72)))"
| lapse: "lifecycle now p (\<lambda>t. map_option (lapse now) (p t))"
| forget: "lifecycle now p (p |` A)"

inductive_cases lifecycleE: "lifecycle now p q"

text \<open>What the specification promises by itself: who joined was invited, and in time.\<close>

lemma joined_was_open:
  "lifecycle now p q \<Longrightarrow> q t = Some Joined \<Longrightarrow> p t = Some Joined \<or> (\<exists>e. p t = Some (Open e) \<and> now \<le> e)"
  by (erule lifecycleE) (auto simp: restrict_map_def split: if_splits)

lemma closed_reopens_never:
  "lifecycle now p q \<Longrightarrow> p t = Some x \<Longrightarrow> x \<in> {Joined, Withdrawn, Lapsed} \<Longrightarrow>
   q t \<in> {None, Some x, Some Withdrawn}"
  by (erule lifecycleE) (auto simp: restrict_map_def split: if_splits)

section \<open>Abstraction\<close>

definition phase_of :: "invitation \<Rightarrow> phase" where
  "phase_of i = (case iv_status i of Iv_pending \<Rightarrow> Open (iv_expires_at i) | Iv_accepted \<Rightarrow> Joined
     | Iv_expired \<Rightarrow> Lapsed | Iv_revoked \<Rightarrow> Withdrawn)"

definition phases :: "cp_state \<Rightarrow> phase_map" where
  "phases s t = map_option phase_of (invitation_by_token s t)"

text \<open>The constraints of the two tables.\<close>

definition invitations_ok :: "invitation table \<Rightarrow> bool" where
  "invitations_ok t \<longleftrightarrow> tbl_wf iv_id t \<and> distinct (map iv_token (rows t))"

definition users_ok :: "user table \<Rightarrow> bool" where
  "users_ok t \<longleftrightarrow> tbl_wf u_id t \<and> distinct (map u_email (rows t)) \<and>
     list_all users_employee_admin_requires_company (rows t)"

definition cp_inv :: "cp_state \<Rightarrow> bool" where
  "cp_inv s \<longleftrightarrow> invitations_ok (cp_invitations s) \<and> users_ok (ac_users (cp_acc s))"

lemma phases_cong: "cp_invitations s' = cp_invitations s \<Longrightarrow> phases s' = phases s"
  by (simp add: phases_def[abs_def] invitation_by_token_def)

lemma phases_None: "phases s t = None \<longleftrightarrow> \<not> token_taken s t"
  by (auto simp: phases_def invitation_by_token_def token_taken_def find_None_iff list_ex_iff)

lemma find_map_key:
  "(\<And>x. x \<in> set xs \<Longrightarrow> key (f x) = key x) \<Longrightarrow>
   find (\<lambda>x. key x = k) (map f xs) = map_option f (find (\<lambda>x. key x = k) xs)"
  by (induction xs) auto

lemma issued:
  assumes "\<not> token_taken s tok" "cp_invitations s' = tbl_insert (new_invitation now tok c e uid r) (cp_invitations s)"
  shows "phases s' = (phases s)(tok \<mapsto> Open (now + hours 72))"
proof
  fix t
  have "invitation_by_token s tok = None"
    using assms(1) by (auto simp: invitation_by_token_def token_taken_def find_None_iff list_ex_iff)
  then show "phases s' t = ((phases s)(tok \<mapsto> Open (now + hours 72))) t"
    using assms(2) by (auto simp: phases_def invitation_by_token_def find_append new_invitation_def phase_of_def
        split: option.splits)
qed

lemma issued_ok:
  assumes "invitations_ok (cp_invitations s)" "\<not> token_taken s tok"
  shows "invitations_ok (tbl_insert (new_invitation now tok c e uid r) (cp_invitations s))"
  using assms unfolding invitations_ok_def
  by (auto simp: new_invitation_def token_taken_def list_ex_iff image_iff intro: tbl_wf_insert)

lemma rewritten:
  assumes ok: "invitations_ok (cp_invitations s)" and i: "i \<in> set (rows (cp_invitations s))"
    and i': "iv_id i' = iv_id i" "iv_token i' = iv_token i" and s': "cp_invitations s' = tbl_save iv_id i' (cp_invitations s)"
  shows "phases s' = (phases s)(iv_token i \<mapsto> phase_of i')" "phases s (iv_token i) = Some (phase_of i)"
    "invitations_ok (cp_invitations s')"
proof -
  let ?f = "\<lambda>x. if iv_id x = iv_id i' then i' else x"
  have same: "x = i" if "x \<in> set (rows (cp_invitations s))" "iv_id x = iv_id i" for x
    using ok that i by (auto simp: invitations_ok_def tbl_wf_def distinct_map inj_on_def)
  have key: "iv_token (?f x) = iv_token x" if "x \<in> set (rows (cp_invitations s))" for x
    using same[OF that] i' by auto
  have at: "invitation_by_token s (iv_token i) = Some i"
    using ok i by (simp add: invitation_by_token_def invitations_ok_def find_key_unique)
  then show "phases s (iv_token i) = Some (phase_of i)" by (simp add: phases_def)
  have by_token: "invitation_by_token s' t = map_option ?f (invitation_by_token s t)" for t
    unfolding invitation_by_token_def s' tbl_save_def rows_tbl 
    by (rule find_map_key[where key = iv_token and f = ?f]) (rule key)
  show "phases s' = (phases s)(iv_token i \<mapsto> phase_of i')"
  proof
    fix t
    show "phases s' t = ((phases s)(iv_token i \<mapsto> phase_of i')) t"
    proof (cases "t = iv_token i")
      case False
      have "?f x = x" if "invitation_by_token s t = Some x" for x
        using that False i' same find_row[of _ _ x] unfolding invitation_by_token_def by metis
      then have "map_option ?f (invitation_by_token s t) = invitation_by_token s t"
        by (cases "invitation_by_token s t") simp_all
      with False show ?thesis by (simp add: phases_def by_token)
    qed (use i' in \<open>simp add: phases_def by_token at\<close>)
  qed
  have "map iv_token (rows (cp_invitations s')) = map iv_token (rows (cp_invitations s))"
    using key by (simp add: s' tbl_save_def)
  with ok show "invitations_ok (cp_invitations s')"
    by (simp add: invitations_ok_def s' tbl_wf_save)
qed

section \<open>The operations on invitations\<close>

lemma open_invitation_row:
  "open_invitation now f u c k s = Inr i \<Longrightarrow> i \<in> set (rows (cp_invitations s))"
  by (auto simp: open_invitation_def get_invitation_def invitation_queryset_def by_flag_def Let_def
      split: option.splits sum.splits if_splits dest!: find_row)

lemma create_invitation_ok:
  assumes "create_invitation now tok u k rq s = Inr s'"
  shows "\<not> token_taken s tok \<and> cp_acc s' = cp_acc s \<and>
    (\<exists>c e r. cp_invitations s' = tbl_insert (new_invitation now tok c e (u_id u) r) (cp_invitations s))"
  using assms by (auto simp: create_invitation_def issue_invitation_def Let_def queue_job_def add_invitation_def
      split: option.splits sum.splits if_splits)

lemma create_building_invitation_ok:
  assumes "create_building_invitation now tok u rq s = Inr s'"
  shows "\<not> token_taken s tok \<and> cp_acc s' = cp_acc s \<and>
    (\<exists>c e r. cp_invitations s' = tbl_insert (new_invitation now tok c e (u_id u) r) (cp_invitations s))"
  using assms by (auto simp: create_building_invitation_def issue_invitation_def Let_def queue_job_def add_invitation_def
      split: option.splits)

lemma revoke_invitation_ok:
  assumes "revoke_invitation now f u c k s = Inr s'"
  obtains i where "i \<in> set (rows (cp_invitations s))"
    "s' = put_invitation (i\<lparr>iv_status := Iv_revoked, iv_used_at := Some now\<rparr>) s"
  using assms by (auto simp: revoke_invitation_def split: sum.splits dest: open_invitation_row)

lemma resend_invitation_ok:
  assumes "resend_invitation now tok f u c k s = Inr s'"
  obtains i where "i \<in> set (rows (cp_invitations s))" "iv_status i = Iv_pending" "\<not> token_taken s tok"
    "s' = queue_job (Invitation_mail (next_id (cp_invitations s)))
       (add_invitation (new_invitation now tok (iv_company i) (iv_email i) (u_id u) (iv_role i))
         (put_invitation (i\<lparr>iv_status := Iv_revoked, iv_used_at := Some now, iv_expires_at := now\<rparr>) s))"
  using assms by (auto simp: resend_invitation_def Let_def split: sum.splits dest: open_invitation_row)

lemma register_ok:
  assumes "register_by_invite now vtok rq s = Inr s'"
  obtains tok i k s1 where "gq_token rq = Some tok" "invitation_by_token s tok = Some i" "accept_error now s i = None"
    "admit rq i s = Inr (k, s1)"
    "cp_invitations s' = tbl_save iv_id (i\<lparr>iv_status := Iv_accepted, iv_used_at := Some now\<rparr>) (cp_invitations s1)"
    "cp_acc s' = cp_acc s1"
  using assms by (auto simp: register_by_invite_def registration_fields_error_def Let_def queue_job_def put_invitation_def
      on_onboarding_def split: option.splits sum.splits prod.splits)

lemma admit_frame: "admit rq i s = Inr (k, s1) \<Longrightarrow> cp_invitations s1 = cp_invitations s"
  by (auto simp: admit_def Let_def split: option.splits)


lemma erase_company_invitations:
  assumes "invitations_ok (cp_invitations s)"
  shows "phases (erase_company k s) = phases s |` {t. phases (erase_company k s) t \<noteq> None}"
    "invitations_ok (cp_invitations (erase_company k s))"
    "\<And>t y. phases (erase_company k s) t = Some y \<Longrightarrow> phases s t = Some y"
proof -
  let ?s = "erase_company k s"
  have rows': "cp_invitations ?s = tbl_delete (\<lambda>i. iv_company i = Some k) (cp_invitations s)"
    by (simp add: erase_company_def Let_def)
  have found: "invitation_by_token s t = Some i" if "invitation_by_token ?s t = Some i" for t i
  proof -
    have "i \<in> set (rows (cp_invitations s)) \<and> iv_token i = t"
      using that find_row unfolding invitation_by_token_def rows' by fastforce
    then show ?thesis
      using assms by (auto simp: invitation_by_token_def invitations_ok_def find_key_unique)
  qed
  show "\<And>t y. phases ?s t = Some y \<Longrightarrow> phases s t = Some y"
    by (auto simp: phases_def dest: found)
  show "phases ?s = phases s |` {t. phases ?s t \<noteq> None}"
  proof
    fix t
    show "phases ?s t = (phases s |` {t. phases ?s t \<noteq> None}) t"
      by (cases "invitation_by_token ?s t") (auto simp: phases_def restrict_map_def found)
  qed
  show "invitations_ok (cp_invitations ?s)"
    using assms unfolding invitations_ok_def rows'
    by (auto simp: tbl_wf_delete distinct_map inj_on_def)
qed

lemma check_expired_phases:
  assumes "invitations_ok (cp_invitations s)"
  shows "phases (check_expired_invitations now s) = (\<lambda>t. map_option (lapse now) (phases s t))"
    "invitations_ok (cp_invitations (check_expired_invitations now s))"
proof -
  let ?f = "\<lambda>i. if iv_status i = Iv_pending \<and> iv_expires_at i < now then i\<lparr>iv_status := Iv_expired\<rparr> else i"
  have "invitation_by_token (check_expired_invitations now s) t = map_option ?f (invitation_by_token s t)" for t
    using find_map_key[of "rows (cp_invitations s)" iv_token ?f t]
    by (simp add: invitation_by_token_def check_expired_invitations_def)
  moreover have "phase_of (?f i) = lapse now (phase_of i)" for i :: invitation
    by (cases "iv_status i") (simp_all add: phase_of_def lapse_def)
  ultimately show "phases (check_expired_invitations now s) = (\<lambda>t. map_option (lapse now) (phases s t))"
    by (simp add: phases_def[abs_def] option.map_comp comp_def)
  have "map iv_token (rows (tbl_update (\<lambda>i. iv_status i = Iv_pending \<and> iv_expires_at i < now)
      (\<lambda>i. i\<lparr>iv_status := Iv_expired\<rparr>) (cp_invitations s))) = map iv_token (rows (cp_invitations s))"
    by simp
  then show "invitations_ok (cp_invitations (check_expired_invitations now s))"
    using assms unfolding invitations_ok_def check_expired_invitations_def
    by (simp add: tbl_wf_update del: rows_tbl)
qed

section \<open>The operations on users\<close>

lemma users_okI:
  assumes "users_ok t" "tbl_wf u_id t'" "map u_email (rows t') = map u_email (rows t)"
    "\<And>u. u \<in> set (rows t') \<Longrightarrow> users_employee_admin_requires_company u"
  shows "users_ok t'"
  using assms unfolding users_ok_def by (simp add: list_all_iff)

lemma users_ok_row: "users_ok t \<Longrightarrow> u \<in> set (rows t) \<Longrightarrow> users_employee_admin_requires_company u"
  by (simp add: users_ok_def list_all_iff)

lemma users_ok_save:
  assumes ok: "users_ok t" and u: "u \<in> set (rows t)"
    and u': "u_id u' = u_id u" "u_email u' = u_email u" "users_employee_admin_requires_company u'"
  shows "users_ok (tbl_save u_id u' t)"
proof -
  have same: "x = u" if "x \<in> set (rows t)" "u_id x = u_id u" for x
    using ok that u by (auto simp: users_ok_def tbl_wf_def distinct_map inj_on_def)
  have email: "u_email (if u_id x = u_id u' then u' else x) = u_email x" if "x \<in> set (rows t)" for x
  proof (cases "u_id x = u_id u")
    case True
    with same[OF that] have "x = u" by simp
    with u' show ?thesis by simp
  qed (simp add: u')
  show ?thesis
  proof (rule users_okI[OF ok])
    show "tbl_wf u_id (tbl_save u_id u' t)" using ok by (simp add: users_ok_def tbl_wf_save)
    show "map u_email (rows (tbl_save u_id u' t)) = map u_email (rows t)"
      using email by (simp add: tbl_save_def)
    fix x assume "x \<in> set (rows (tbl_save u_id u' t))"
    then have "x = u' \<or> x \<in> set (rows t)" unfolding tbl_save_def rows_tbl by auto
    then show "users_employee_admin_requires_company x" using u'(3) users_ok_row[OF ok] by blast
  qed
qed

lemma users_ok_update:
  assumes ok: "users_ok t"
    and f: "\<And>u. u \<in> set (rows t) \<Longrightarrow> P u \<Longrightarrow> users_employee_admin_requires_company (f u)"
      "\<And>u. u_id (f u) = u_id u" "\<And>u. u_email (f u) = u_email u"
  shows "users_ok (tbl_update P f t)"
proof -
  show ?thesis
  proof (rule users_okI[OF ok])
    show "tbl_wf u_id (tbl_update P f t)" using ok f(2) by (simp add: users_ok_def tbl_wf_update)
    show "map u_email (rows (tbl_update P f t)) = map u_email (rows t)" using f(3) by simp
    fix x assume "x \<in> set (rows (tbl_update P f t))"
    then obtain y where "y \<in> set (rows t)" "x = (if P y then f y else y)"
      unfolding rows_tbl set_map by (rule imageE) blast
    then show "users_employee_admin_requires_company x" using f(1) users_ok_row[OF ok] by simp
  qed
qed

lemma users_ok_add:
  assumes ok: "users_ok (ac_users acc)" and mk: "\<And>k. u_id (mk k) = k"
    and new: "user_integrity acc (mk (next_id (ac_users acc)))"
  shows "users_ok (ac_users (add_user mk acc))"
proof -
  have fresh: "u_id u \<noteq> next_id (ac_users acc)" if "u \<in> set (rows (ac_users acc))" for u
    using ok that by (auto simp: users_ok_def tbl_wf_def list_all_iff)
  have "u_email (mk (next_id (ac_users acc))) \<notin> u_email ` set (rows (ac_users acc))"
    using new fresh mk by (auto simp: user_integrity_def list_ex_iff)
  with ok new mk show ?thesis
    unfolding users_ok_def add_user_def by (auto simp: tbl_wf_insert user_integrity_def)
qed

lemma admit_users_ok:
  assumes "admit rq i s = Inr (k, s1)" "users_ok (ac_users (cp_acc s))"
  shows "users_ok (ac_users (cp_acc s1))"
proof (cases "user_by_email (cp_acc s) (normalized_invite_email (iv_email i))")
  case None
  with assms show ?thesis
    by (auto simp: admit_def Let_def joined_def[abs_def] new_user_def intro!: users_ok_add)
next
  case (Some u)
  then have "u \<in> set (rows (ac_users (cp_acc s)))"
    by (auto simp: user_by_email_def dest: find_row)
  with Some assms show ?thesis
    by (auto simp: admit_def rejoined_def intro!: users_ok_save)
qed

lemma erase_company_users_ok:
  assumes "users_ok (ac_users (cp_acc s))" "\<not> company_in_use s k"
  shows "users_ok (ac_users (cp_acc (erase_company k s)))"
proof -
  have "users_ok (tbl_update (\<lambda>u. u_company u = Some k) (\<lambda>u. u\<lparr>u_company := None\<rparr>) (ac_users (cp_acc s)))"
    using assms(1)
    by (rule users_ok_update)
       (use assms(2) in \<open>auto simp: company_in_use_def list_ex_iff users_employee_admin_requires_company_def\<close>)
  then show ?thesis by (simp add: erase_company_def Let_def)
qed

lemma rewrites_user_ok:
  "rewrites_user s t t' s' \<Longrightarrow> users_ok (ac_users (cp_acc s)) \<Longrightarrow> users_ok (ac_users (cp_acc s'))"
  by (auto simp: rewrites_user_def intro: users_ok_save)

lemma destroy_company_ok:
  "destroy_company u confirm k s = Inr s' \<Longrightarrow> \<not> company_in_use s k \<and> s' = erase_company k s"
  by (auto simp: destroy_company_def split: option.splits sum.splits if_splits)

end
