(* ===== verification/CompanyProps.thy ===== *)
theory CompanyProps
  imports InvitationLifecycle
begin

text \<open>
  Properties of \<open>apps/companies\<close>: every operation implements the life cycle of the invitations and
  keeps the constraints of the tables, an invitation serves once, the employee limit, and what the
  member and company actions do and do not guard.
\<close>

section \<open>Every operation implements the specification\<close>

definition op_time :: "cp_op \<Rightarrow> datetime" where
  "op_time x = (case x of Op_invite now _ _ _ _ \<Rightarrow> now | Op_invite_staff now _ _ _ \<Rightarrow> now
     | Op_revoke now _ _ _ _ \<Rightarrow> now | Op_resend now _ _ _ _ _ \<Rightarrow> now | Op_register now _ _ \<Rightarrow> now
     | Op_check_expired now \<Rightarrow> now | _ \<Rightarrow> 0)"

definition implements :: "cp_op \<Rightarrow> cp_state \<Rightarrow> cp_state \<Rightarrow> bool" where
  "implements x s s' \<longleftrightarrow> cp_inv s' \<and> lifecycle (op_time x) (phases s) (phases s') \<and>
     (\<forall>t e. phases s' t = Some (Open e) \<longrightarrow> phases s t = Some (Open e) \<or> issues t x)"

lemma implements_quiet:
  assumes "cp_inv s" "cp_invitations s' = cp_invitations s" "users_ok (ac_users (cp_acc s'))"
  shows "implements x s s'"
  using assms phases_cong[OF assms(2)] by (simp add: implements_def cp_inv_def lifecycle.stay)

lemma implements_issue:
  assumes "cp_inv s" "\<not> token_taken s tok" "cp_acc s' = cp_acc s" "issues tok x"
    "cp_invitations s' = tbl_insert (new_invitation (op_time x) tok c e uid r) (cp_invitations s)"
  shows "implements x s s'"
proof -
  have p: "phases s' = (phases s)(tok \<mapsto> Open (op_time x + hours 72))" by (rule issued[OF assms(2,5)])
  have "phases s tok = None" using assms(2) by (simp add: phases_None)
  then have "lifecycle (op_time x) (phases s) (phases s')" unfolding p by (rule lifecycle.issue)
  moreover have "cp_inv s'"
    using assms(1-3) by (simp add: cp_inv_def assms(5) issued_ok)
  ultimately show ?thesis using assms(4) by (simp add: implements_def p)
qed

lemma implements_rewrite:
  assumes inv: "cp_inv s" and i: "i \<in> set (rows (cp_invitations s))"
    and i': "iv_id i' = iv_id i" "iv_token i' = iv_token i" "\<And>e. phase_of i' \<noteq> Open e"
    and s': "cp_invitations s' = tbl_save iv_id i' (cp_invitations s)" "users_ok (ac_users (cp_acc s'))"
    and step: "lifecycle (op_time x) (phases s) ((phases s)(iv_token i \<mapsto> phase_of i'))"
  shows "implements x s s'"
proof -
  have ok: "invitations_ok (cp_invitations s)" using inv by (simp add: cp_inv_def)
  note p = rewritten[OF ok i i'(1,2) s'(1)]
  show ?thesis using step p s'(2) i'(3) by (simp add: implements_def cp_inv_def)
qed

lemma row_phase:
  assumes "cp_inv s" "i \<in> set (rows (cp_invitations s))"
  shows "phases s (iv_token i) = Some (phase_of i)"
  using assms by (simp add: phases_def invitation_by_token_def cp_inv_def invitations_ok_def find_key_unique)

lemma revoke_implements:
  assumes "cp_inv s" "revoke_invitation now f u c k s = Inr s'" "op_time x = now"
  shows "implements x s s'"
proof -
  from assms(2) obtain i where i: "i \<in> set (rows (cp_invitations s))"
    and s': "s' = put_invitation (i\<lparr>iv_status := Iv_revoked, iv_used_at := Some now\<rparr>) s"
    by (rule revoke_invitation_ok)
  have ph: "phase_of (i\<lparr>iv_status := Iv_revoked, iv_used_at := Some now\<rparr>) = Withdrawn" by (simp add: phase_of_def)
  have "lifecycle now (phases s) ((phases s)(iv_token i \<mapsto> Withdrawn))"
    by (rule lifecycle.withdraw) (rule row_phase[OF assms(1) i])
  then show ?thesis
    by (intro implements_rewrite[OF assms(1) i, where i' = "i\<lparr>iv_status := Iv_revoked, iv_used_at := Some now\<rparr>"])
       (use assms(1,3) in \<open>simp_all add: s' ph cp_inv_def\<close>)
qed

lemma resend_implements:
  assumes inv: "cp_inv s" and res: "resend_invitation now tok f u c k s = Inr s'" and x: "op_time x = now" "issues tok x"
  shows "implements x s s'"
proof -
  from res obtain i where i: "i \<in> set (rows (cp_invitations s))" "iv_status i = Iv_pending" and free: "\<not> token_taken s tok"
    and s': "s' = queue_job (Invitation_mail (next_id (cp_invitations s)))
       (add_invitation (new_invitation now tok (iv_company i) (iv_email i) (u_id u) (iv_role i))
         (put_invitation (i\<lparr>iv_status := Iv_revoked, iv_used_at := Some now, iv_expires_at := now\<rparr>) s))"
    by (rule resend_invitation_ok)
  let ?i = "i\<lparr>iv_status := Iv_revoked, iv_used_at := Some now, iv_expires_at := now\<rparr>"
  let ?s = "put_invitation ?i s"
  have ok: "invitations_ok (cp_invitations s)" using inv by (simp add: cp_inv_def)
  have p: "phases ?s = (phases s)(iv_token i \<mapsto> Withdrawn)" "invitations_ok (cp_invitations ?s)"
    using rewritten[OF ok i(1), of ?i ?s] by (simp_all add: phase_of_def)
  have "phases s (iv_token i) = Some (Open (iv_expires_at i))"
    using row_phase[OF inv i(1)] i(2) by (simp add: phase_of_def)
  have none: "phases s tok = None" using free by (simp add: phases_None)
  have "tok \<noteq> iv_token i" using none row_phase[OF inv i(1)] by auto
  with none p have "phases ?s tok = None" by simp
  then have free': "\<not> token_taken ?s tok" by (simp add: phases_None)
  have p': "phases s' = (phases ?s)(tok \<mapsto> Open (now + hours 72))"
    by (rule issued[OF free']) (simp add: s')
  have "lifecycle now (phases s) ((phases s)(iv_token i \<mapsto> Withdrawn, tok \<mapsto> Open (now + hours 72)))"
    by (rule lifecycle.reissue) fact+
  moreover have "invitations_ok (cp_invitations s')"
    using issued_ok[OF p(2) free'] by (simp add: s')
  moreover have "cp_acc s' = cp_acc s" by (simp add: s')
  ultimately show ?thesis
    using x inv by (simp add: implements_def p' p(1) cp_inv_def)
qed

lemma register_implements:
  assumes inv: "cp_inv s" and res: "register_by_invite now vtok rq s = Inr s'" and x: "op_time x = now"
  shows "implements x s s'"
proof -
  from res obtain tok i k s1 where i: "invitation_by_token s tok = Some i" and acc: "accept_error now s i = None"
    and ad: "admit rq i s = Inr (k, s1)" and inv': "cp_acc s' = cp_acc s1"
      "cp_invitations s' = tbl_save iv_id (i\<lparr>iv_status := Iv_accepted, iv_used_at := Some now\<rparr>) (cp_invitations s1)"
    by (rule register_ok) blast
  have row: "i \<in> set (rows (cp_invitations s))"
    using i by (auto simp: invitation_by_token_def dest: find_row)
  have "is_valid now i" using acc by (simp add: accept_error_def valid_iff_open)
  then have "phase_of i = Open (iv_expires_at i)" "now \<le> iv_expires_at i" by (simp_all add: is_valid_def phase_of_def)
  with row_phase[OF inv row] have open_at: "phases s (iv_token i) = Some (Open (iv_expires_at i))" by simp
  have "lifecycle now (phases s) ((phases s)(iv_token i \<mapsto> Joined))"
    by (rule lifecycle.join[where e = "iv_expires_at i"]) fact+
  moreover have "phase_of (i\<lparr>iv_status := Iv_accepted, iv_used_at := Some now\<rparr>) = Joined" by (simp add: phase_of_def)
  moreover have "users_ok (ac_users (cp_acc s'))" using inv admit_users_ok[OF ad] by (simp add: inv' cp_inv_def)
  ultimately show ?thesis
    by (intro implements_rewrite[OF inv row, where i' = "i\<lparr>iv_status := Iv_accepted, iv_used_at := Some now\<rparr>"])
       (use x in \<open>simp_all add: inv' admit_frame[OF ad]\<close>)
qed

lemma member_implements:
  "cp_inv s \<Longrightarrow> rewrites_user s t t' s' \<Longrightarrow> implements x s s'"
  by (rule implements_quiet) (auto simp: cp_inv_def rewrites_user_def intro: users_ok_save)

lemma active_users_ok:
  "users_ok t \<Longrightarrow> users_ok (tbl_update (\<lambda>u. u_company u = Some k) (\<lambda>u. u\<lparr>u_is_active := v\<rparr>) t)"
  by (rule users_ok_update) (auto simp: users_employee_admin_requires_company_def)

lemma same_users_implements:
  "cp_inv s \<Longrightarrow> cp_invitations s' = cp_invitations s \<and> ac_users (cp_acc s') = ac_users (cp_acc s) \<Longrightarrow> implements x s s'"
  by (rule implements_quiet) (simp_all add: cp_inv_def)

lemma same_accounts_implements:
  "cp_inv s \<Longrightarrow> cp_invitations s' = cp_invitations s \<and> cp_acc s' = cp_acc s \<Longrightarrow> implements x s s'"
  by (rule same_users_implements) simp_all

lemma expire_implements:
  assumes inv: "cp_inv s" and ex: "s' = check_expired_invitations now s"
  shows "implements (Op_check_expired now) s s'"
proof -
  have ok: "invitations_ok (cp_invitations s)" using inv by (simp add: cp_inv_def)
  have "cp_acc s' = cp_acc s" by (simp add: ex check_expired_invitations_def)
  then have "cp_inv s'" using inv check_expired_phases(2)[OF ok, of now] by (simp add: cp_inv_def ex)
  moreover have "lifecycle (op_time (Op_check_expired now)) (phases s) (phases s')"
    unfolding ex check_expired_phases(1)[OF ok] op_time_def cp_op.case by (rule lifecycle.lapse)
  moreover have "phases s t = Some (Open e)" if "phases s' t = Some (Open e)" for t e
    using that unfolding ex check_expired_phases(1)[OF ok] by (cases "phases s t") (simp_all add: lapse_open)
  ultimately show ?thesis by (simp add: implements_def)
qed

lemma destroy_company_implements:
  assumes inv: "cp_inv s" and ex: "destroy_company u confirm k s = Inr s'"
  shows "implements x s s'"
proof -
  have d: "\<not> company_in_use s k" and s': "s' = erase_company k s" using destroy_company_ok[OF ex] by simp_all
  have ok: "invitations_ok (cp_invitations s)" "users_ok (ac_users (cp_acc s))" using inv by (simp_all add: cp_inv_def)
  note p = erase_company_invitations[OF ok(1), of k]
  have "lifecycle (op_time x) (phases s) (phases s')"
    unfolding s' by (subst p(1)) (rule lifecycle.forget)
  moreover have "phases s' t = Some y \<Longrightarrow> phases s t = Some y" for t y
    unfolding s' by (rule p(3))
  ultimately show ?thesis
    using p(2) erase_company_users_ok[OF ok(2) d] by (simp add: implements_def cp_inv_def s')
qed

lemma invite_implements:
  assumes inv: "cp_inv s"
  shows "create_invitation now tok u k rq s = Inr s' \<Longrightarrow> implements (Op_invite now tok u k rq) s s'"
    "create_building_invitation now tok u rq s = Inr s' \<Longrightarrow> implements (Op_invite_staff now tok u rq) s s'"
  by (drule create_invitation_ok create_building_invitation_ok, elim conjE exE,
      rule implements_issue[OF inv], (simp add: op_time_def issues_def)+)+

lemma member_ops_implement:
  assumes inv: "cp_inv s"
  shows "deactivate_member u k m s = Inr s' \<Longrightarrow> implements x s s'"
    "activate_member u k m s = Inr s' \<Longrightarrow> implements x s s'"
    "remove_member u k m v s = Inr s' \<Longrightarrow> implements x s s'"
    "change_member_role u k m r s = Inr s' \<Longrightarrow> implements x s s'"
  by (auto dest!: member_effects member_implements[OF inv] intro: same_accounts_implements[OF inv])

lemma company_ops_implement:
  assumes inv: "cp_inv s"
  shows "create_company u rq s = Inr s' \<Longrightarrow> implements x s s'"
    "update_company u p k rq s = Inr s' \<Longrightarrow> implements x s s'"
    "company_settings_patch d u k srq s = Inr s' \<Longrightarrow> implements x s s'"
    "map_sum id snd (company_settings_get u k s) = Inr s' \<Longrightarrow> implements x s s'"
    "map_sum id snd (onboarding_status u k s) = Inr s' \<Longrightarrow> implements x s s'"
    "skip_onboarding u k s = Inr s' \<Longrightarrow> implements x s s'"
    "map_sum id snd (bulk_companies P f u ids s) = Inr s' \<Longrightarrow> implements x s s'"
  by (blast intro: same_users_implements[OF inv] same_accounts_implements[OF inv]
      dest: create_company_effect update_company_effect settings_patch_effect settings_get_effect wizard_effect skip_effect
        bulk_effect)+

lemma exec_cp_implements:
  assumes inv: "cp_inv s" and ex: "exec_cp x s = Inr s'"
  shows "implements x s s'"
proof (cases x)
  case (Op_revoke now f u c k)
  with ex show ?thesis by (intro revoke_implements[OF inv]) (simp_all add: exec_cp_def op_time_def)
next
  case (Op_resend now tok f u c k)
  with ex show ?thesis by (intro resend_implements[OF inv]) (simp_all add: exec_cp_def op_time_def issues_def)
next
  case (Op_register now vtok rq)
  with ex show ?thesis by (intro register_implements[OF inv]) (simp_all add: exec_cp_def op_time_def)
next
  case (Op_deactivate_company u k)
  with ex inv show ?thesis using company_active_effect(1)[of u k s s']
    by (intro implements_quiet) (simp_all add: exec_cp_def cp_inv_def active_users_ok)
next
  case (Op_activate_company u k)
  with ex inv show ?thesis using company_active_effect(2)[of u k s s']
    by (intro implements_quiet) (simp_all add: exec_cp_def cp_inv_def active_users_ok)
qed (use ex in \<open>simp_all only: exec_cp_def cp_op.case sum.inject bulk_activate_companies_def bulk_deactivate_companies_def
      bulk_delete_companies_def\<close>,
    (erule invite_implements[OF inv] destroy_company_implements[OF inv] member_ops_implement[OF inv]
        company_ops_implement[OF inv] | rule expire_implements[OF inv], simp)+)

definition some_step ::  "phase_map \<Rightarrow> phase_map \<Rightarrow> bool" where
  "some_step p q \<longleftrightarrow> (\<exists>now. lifecycle now p q)"

lemma exec_cp_inv: "cp_inv s \<Longrightarrow> exec_cp x s = Inr s' \<Longrightarrow> cp_inv s'"
  using exec_cp_implements by (simp add: implements_def)

lemma exec_cp_step: "cp_inv s \<Longrightarrow> exec_cp x s = Inr s' \<Longrightarrow> some_step (phases s) (phases s')"
  using exec_cp_implements unfolding implements_def some_step_def by blast

lemma exec_cp_opens:
  "cp_inv s \<Longrightarrow> exec_cp x s = Inr s' \<Longrightarrow> \<not> issues tok x \<Longrightarrow> phases s' tok = Some (Open e) \<Longrightarrow>
   phases s tok = Some (Open e)"
  using exec_cp_implements unfolding implements_def by blast

interpretation invitations_spec: refining_system exec_cp cp_inv "\<lambda>_. True" phases some_step
  by unfold_locales (erule (1) exec_cp_inv, erule (1) exec_cp_step)

text \<open>A token that is not open stays so, unless it is handed out anew.\<close>

definition not_open :: "nat \<Rightarrow> cp_state \<Rightarrow> unit \<Rightarrow> unit option" where
  "not_open tok s _ = (case phases s tok of Some (Open e) \<Rightarrow> None | _ \<Rightarrow> Some ())"

lemma not_open_iff: "not_open tok s k = Some v \<longleftrightarrow> (\<forall>e. phases s tok \<noteq> Some (Open e))"
  by (auto simp: not_open_def split: option.splits phase.splits)

interpretation spent_tokens: settling_system exec_cp cp_inv "\<lambda>x. \<not> issues tok x" "not_open tok" for tok
proof
  fix s x s' assume "cp_inv s" "\<not> issues tok x" "exec_cp x s = Inr s'"
  then show "cp_inv s'" by (auto intro: exec_cp_inv)
next
  fix s x s' and k v :: unit
  assume "cp_inv s" "\<not> issues tok x" "exec_cp x s = Inr s'" "not_open tok s k = Some v"
  then show "not_open tok s' k = Some v"
    unfolding not_open_iff using exec_cp_opens by blast
qed


section \<open>Example state\<close>

definition demo_person :: "nat \<Rightarrow> role \<Rightarrow> nat option \<Rightarrow> string \<Rightarrow> user" where
  "demo_person i r c e = (demo_user i r c)\<lparr>u_email := e\<rparr>"

lemma demo_person_simps [simp]:
  "u_id (demo_person i r c e) = i" "u_role (demo_person i r c e) = r" "u_company (demo_person i r c e) = c"
  "u_email (demo_person i r c e) = e"
  by (simp_all add: demo_person_def)

definition boss :: user where "boss = demo_person 2 Company_admin (Some 1) ''boss''"
definition root :: user where "root = demo_person 4 Superadmin None ''root''"

definition demo_auth :: auth_tables where
  "demo_auth = \<lparr>au_refresh = empty_table, au_verifications = empty_table, au_resets = empty_table, au_jobs = []\<rparr>"

definition demo_ob_tables :: ob_state where
  "demo_ob_tables = \<lparr>ob_acc = \<lparr>ac_users = empty_table, ac_companies = empty_table\<rparr>, ob_templates = empty_table,
     ob_steps = empty_table, ob_progress = empty_table, ob_assignments = empty_table\<rparr>"

definition demo_cp :: "user list \<Rightarrow> invitation list \<Rightarrow> cp_state" where
  "demo_cp us is = \<lparr>cp_acc = \<lparr>ac_users = Table us 9, ac_companies = Table [demo_company] 2\<rparr>,
     cp_settings = empty_table, cp_invitations = Table is 9, cp_auth = demo_auth, cp_leaves = empty_table,
     cp_balances = empty_table, cp_boards = empty_table, cp_columns = empty_table, cp_labels = empty_table,
     cp_tasks = empty_table, cp_bookings = empty_table, cp_ob = demo_ob_tables, cp_floors = [], cp_nt = demo_nt\<rparr>"

definition demo_invitation :: invitation where
  "demo_invitation = \<lparr>iv_id = 3, iv_company = Some 1, iv_email = ''new@x'', iv_token = 77, iv_invited_by = 2,
     iv_role = Employee, iv_expires_at = 100, iv_used_at = None, iv_status = Iv_pending\<rparr>"

definition demo_registration :: registration_request where
  "demo_registration = \<lparr>gq_token = Some 77, gq_first_name = Some ''Ann'', gq_last_name = Some ''Lee'', gq_phone = None,
     gq_password = Some ''verysecret''\<rparr>"

definition staff :: "user list" where "staff = [boss, root]"

lemma demo_cp_inv: "cp_inv (demo_cp staff [demo_invitation])"
  by (simp add: cp_inv_def demo_cp_def staff_def boss_def root_def invitations_ok_def users_ok_def tbl_wf_def
      users_employee_admin_requires_company_def demo_invitation_def)

section \<open>Properties\<close>

text \<open>
  C11: every operation of the company component, whoever calls it, implements the life cycle of the
  invitations: seen through the phases of the tokens it makes a step of the specification, taken at the
  time of the operation, and so does every run. In particular an account is only ever created or moved
  by an invitation that was open and not past its end.
\<close>

theorem invitations_refine_lifecycle:
  assumes "cp_inv s"
  shows "(\<forall>x s'. exec_cp x s = Inr s' \<longrightarrow> lifecycle (op_time x) (phases s) (phases s'))
    \<and> some_step\<^sup>*\<^sup>* (phases s) (phases (run_ops exec_cp xs s))"
proof
  show "\<forall>x s'. exec_cp x s = Inr s' \<longrightarrow> lifecycle (op_time x) (phases s) (phases s')"
    using exec_cp_implements[OF assms] unfolding implements_def by blast
  show "some_step\<^sup>*\<^sup>* (phases s) (phases (run_ops exec_cp xs s))"
    using assms by (rule invitations_spec.run_refines) (simp add: list_all_iff)
qed

theorem invitations_refine_lifecycle_witness:
  "\<exists>s'. exec_cp (Op_register 50 5 demo_registration) (demo_cp staff [demo_invitation]) = Inr s'
     \<and> lifecycle 50 (phases (demo_cp staff [demo_invitation])) (phases s')"
proof -
  have "is_ok (exec_cp (Op_register 50 5 demo_registration) (demo_cp staff [demo_invitation]))" by code_simp
  then obtain s' where s': "exec_cp (Op_register 50 5 demo_registration) (demo_cp staff [demo_invitation]) = Inr s'"
    by (auto simp: is_ok_iff)
  have "lifecycle (op_time (Op_register 50 5 demo_registration)) (phases (demo_cp staff [demo_invitation])) (phases s')"
    using invitations_refine_lifecycle[OF demo_cp_inv, THEN conjunct1] s' by blast
  with s' show ?thesis by (auto simp: op_time_def)
qed

text \<open>
  C12: an invitation serves once. After a registration with a token, no run of operations (that does not
  hand out the same random token again) leads to a state in which the token registers anybody.
\<close>

theorem invitation_serves_once:
  assumes "cp_inv s" "register_by_invite now vtok rq s = Inr s1" "gq_token rq = Some tok"
    and "list_all (\<lambda>x. \<not> issues tok x) xs" "gq_token rq' = Some tok"
  shows "\<not> is_ok (register_by_invite now' vtok' rq' (run_ops exec_cp xs s1))"
proof
  let ?s = "run_ops exec_cp xs s1"
  assume "is_ok (register_by_invite now' vtok' rq' ?s)"
  then obtain s2 where again: "register_by_invite now' vtok' rq' ?s = Inr s2" by (auto simp: is_ok_iff)
  have inv1: "cp_inv s1" and imp: "implements (Op_register now vtok rq) s s1"
    using exec_cp_implements[OF assms(1), of "Op_register now vtok rq" s1] assms(2)
    by (simp_all add: exec_cp_def implements_def)
  obtain i k t where i: "invitation_by_token s tok = Some i" and ad: "admit rq i s = Inr (k, t)"
    and s1: "cp_invitations s1 = tbl_save iv_id (i\<lparr>iv_status := Iv_accepted, iv_used_at := Some now\<rparr>) (cp_invitations t)"
    using assms(2,3) by (elim register_ok) auto
  have row: "i \<in> set (rows (cp_invitations s))" "iv_token i = tok"
    using i by (auto simp: invitation_by_token_def dest: find_row)
  have "phases s1 = (phases s)(iv_token i \<mapsto> phase_of (i\<lparr>iv_status := Iv_accepted, iv_used_at := Some now\<rparr>))"
    by (rule rewritten(1)) (use assms(1) row s1 admit_frame[OF ad] in \<open>simp_all add: cp_inv_def\<close>)
  then have "not_open tok s1 () = Some ()" by (simp add: not_open_iff row(2) phase_of_def)
  then have closed: "not_open tok ?s () = Some ()"
    by (rule spent_tokens.run_settled[OF inv1 assms(4)])
  obtain j where j: "invitation_by_token ?s tok = Some j" "accept_error now' ?s j = None"
    using again assms(5) by (elim register_ok) auto
  from j(2) have "is_valid now' j" by (simp add: accept_error_def valid_iff_open)
  then have "phases ?s tok = Some (Open (iv_expires_at j))"
    using j(1) by (simp add: phases_def is_valid_def phase_of_def)
  with closed show False by (simp add: not_open_iff)
qed

theorem invitation_serves_once_witness:
  "\<exists>s1. register_by_invite 50 5 demo_registration (demo_cp staff [demo_invitation]) = Inr s1 \<and>
     \<not> is_ok (register_by_invite 60 6 demo_registration (run_ops exec_cp [Op_check_expired 55] s1))"
proof -
  have "is_ok (register_by_invite 50 5 demo_registration (demo_cp staff [demo_invitation]))" by code_simp
  then obtain s1 where s1: "register_by_invite 50 5 demo_registration (demo_cp staff [demo_invitation]) = Inr s1"
    by (auto simp: is_ok_iff)
  have "gq_token demo_registration = Some 77" "list_all (\<lambda>x. \<not> issues 77 x) [Op_check_expired 55]"
    by (simp_all add: demo_registration_def issues_def)
  from s1 invitation_serves_once[OF demo_cp_inv s1 this this(1)] show ?thesis by blast
qed

text \<open>
  The constraints of the tables hold in every run: no two users share an address, everybody with
  the role of an employee or a company admin has a company, and no two invitations share a token.
\<close>

theorem company_tables_stay_sound:
  assumes "cp_inv s" "s' = run_ops exec_cp xs s"
  shows "distinct (map u_email (rows (ac_users (cp_acc s'))))
    \<and> distinct (map iv_token (rows (cp_invitations s')))
    \<and> (\<forall>u \<in> set (rows (ac_users (cp_acc s'))). u_role u \<in> {Employee, Company_admin} \<longrightarrow> u_company u \<noteq> None)"
proof -
  have "cp_inv s'"
    unfolding assms(2) by (rule invitations_spec.run_inv[OF assms(1)]) (simp add: list_all_iff)
  then show ?thesis
    by (auto simp: cp_inv_def users_ok_def invitations_ok_def list_all_iff users_employee_admin_requires_company_def)
qed

theorem company_tables_stay_sound_witness:
  "distinct (map u_email (rows (ac_users (cp_acc
     (run_ops exec_cp [Op_register 50 5 demo_registration, Op_remove_member boss 1 9 None] (demo_cp staff [demo_invitation]))))))"
  by (rule company_tables_stay_sound[OF demo_cp_inv refl, THEN conjunct1])

end
