(* ===== verification/UserSystem.thy ===== *)
theory UserSystem
  imports Users CompanyProps
begin

text \<open>
  The endpoints of \<open>apps/users\<close> and the company operations as one system over one state, and what
  every operation keeps: a refresh token that is on the blacklist and a reset token that is used
  stay so, and the constraints of the tables hold.
\<close>

section \<open>Operations\<close>

datatype us_action =
    Resend_mail nat
  | Change_password "string option" "string option"
  | Update_profile profile_request
  | Delete_avatar
  | Delete_account
  | Impersonate nat
  | Block nat
  | Unblock nat

datatype us_op =
    Op_sign_up datetime nat register_request
  | Op_login datetime login_request
  | Op_logout datetime "nat option" "nat option"
  | Op_refresh datetime "nat option" "nat option"
  | Op_verify datetime "nat option"
  | Op_reset_request datetime nat string "string option"
  | Op_reset_confirm datetime "nat option" "string option"
  | Op_as datetime access_token us_action
  | Op_company cp_op

datatype us_out = Done | Tokens access_token nat | Signed_in user access_token nat | Profile user

definition map_reply :: "('a \<Rightarrow> 'b) \<Rightarrow> 'a reply \<Rightarrow> 'b reply" where
  "map_reply f = map_prod (map_sum id f) id"

definition perform ::
  "(user option \<Rightarrow> string \<Rightarrow> bool) \<Rightarrow> datetime \<Rightarrow> session_config \<Rightarrow> us_action \<Rightarrow> user \<Rightarrow> us_state \<Rightarrow> us_out reply" where
  "perform strong now cfg act u s = (case act of
     Resend_mail vtok \<Rightarrow> map_reply (\<lambda>_. Done) (resend_verification_email now vtok u s)
   | Change_password current p \<Rightarrow> map_reply (\<lambda>_. Done) (change_password strong current p u s)
   | Update_profile rq \<Rightarrow> map_reply Profile (update_profile rq u s)
   | Delete_avatar \<Rightarrow> map_reply Profile (delete_avatar u s)
   | Delete_account \<Rightarrow> map_reply (\<lambda>_. Done) (delete_account now u s)
   | Impersonate k \<Rightarrow> map_reply (\<lambda>(a, j). Tokens a j) (impersonate_user now cfg k u s)
   | Block k \<Rightarrow> map_reply (\<lambda>_. Done) (block_user k u s)
   | Unblock k \<Rightarrow> map_reply (\<lambda>_. Done) (unblock_user k u s))"

definition exec_us ::
  "(user option \<Rightarrow> string \<Rightarrow> bool) \<Rightarrow> session_config \<Rightarrow> us_op \<Rightarrow> us_state \<Rightarrow> us_out reply" where
  "exec_us strong cfg x s = (case x of
     Op_sign_up now vtok rq \<Rightarrow> map_reply (\<lambda>(u, a, j). Signed_in u a j) (register now cfg vtok rq s)
   | Op_login now rq \<Rightarrow> map_reply (\<lambda>(u, a, j). Signed_in u a j) (login now cfg rq s)
   | Op_logout now body cookie \<Rightarrow> map_reply (\<lambda>_. Done) (logout now body cookie s)
   | Op_refresh now body cookie \<Rightarrow> map_reply (\<lambda>(a, j). Tokens a j) (token_refresh now cfg body cookie s)
   | Op_verify now v \<Rightarrow> map_reply (\<lambda>_. Done) (verify_email now v s)
   | Op_reset_request now tok addr v \<Rightarrow> map_reply (\<lambda>_. Done) (password_reset_request now tok addr v s)
   | Op_reset_confirm now v p \<Rightarrow> map_reply (\<lambda>_. Done) (password_reset_confirm strong now v p s)
   | Op_as now a act \<Rightarrow> request now cfg a True (perform strong now cfg act) s
   | Op_company c \<Rightarrow> (case exec_cp c (us_cp s) of
       Inl e \<Rightarrow> (Inl e, s) | Inr cp \<Rightarrow> (Inr Done, s\<lparr>us_cp := cp\<rparr>)))"

text \<open>An error may have changed the cache: the state goes on from what the reply leaves.\<close>

definition step_us ::
  "(user option \<Rightarrow> string \<Rightarrow> bool) \<Rightarrow> session_config \<Rightarrow> us_op \<Rightarrow> us_state \<Rightarrow> api_error + us_state" where
  "step_us strong cfg x s = Inr (snd (exec_us strong cfg x s))"

lemma map_reply_simps [simp]:
  "snd (map_reply f r) = snd r" "map_reply f (Inl e, s) = (Inl e, s)" "map_reply f (Inr y, s) = (Inr (f y), s)"
  by (simp_all add: map_reply_def)

lemma map_reply_Inr: "map_reply f r = (Inr z, s) \<longleftrightarrow> (\<exists>y. r = (Inr y, s) \<and> z = f y)"
  by (cases r; cases "fst r") (auto simp: map_reply_def)

section \<open>What happens to the tokens\<close>

text \<open>A table of rows that are only added, or flagged for good.\<close>

definition grows :: "('r \<Rightarrow> nat) \<Rightarrow> (bool \<Rightarrow> 'r \<Rightarrow> 'r) \<Rightarrow> 'r table \<Rightarrow> 'r table \<Rightarrow> bool" where
  "grows key flag t t' \<longleftrightarrow> (\<forall>k r. tbl_get key k t = Some r \<longrightarrow> (\<exists>b. tbl_get key k t' = Some (flag b r)))"

lemma growsI: "(\<And>k r. tbl_get key k t = Some r \<Longrightarrow> tbl_get key k t' = Some (flag (b r) r)) \<Longrightarrow> grows key flag t t'"
  unfolding grows_def by blast

lemma growsE:
  assumes "grows key flag t t'" "tbl_get key k t = Some r"
  obtains b where "tbl_get key k t' = Some (flag b r)"
  using assms unfolding grows_def by blast

lemma find_map_if:
  assumes "\<And>r. Q (f r) \<longleftrightarrow> Q r"
  shows "find Q (map (\<lambda>r. if P r then f r else r) xs) = map_option (\<lambda>r. if P r then f r else r) (find Q xs)"
  by (induction xs) (simp_all add: assms)

locale flagged_rows =
  fixes key :: "'r \<Rightarrow> nat" and flag :: "bool \<Rightarrow> 'r \<Rightarrow> 'r"
  assumes flag_False: "flag False r = r"
    and flag_flag: "flag c (flag b r) = flag (b \<or> c) r"
    and key_flag: "key (flag b r) = key r"
begin

lemma grows_refl: "grows key flag t t"
  by (rule growsI[where b = "\<lambda>_. False"]) (simp add: flag_False)

lemma grows_trans:
  assumes "grows key flag t t'" "grows key flag t' t''"
  shows "grows key flag t t''"
  unfolding grows_def
proof (intro allI impI)
  fix k r assume "tbl_get key k t = Some r"
  with assms(1) obtain b where "tbl_get key k t' = Some (flag b r)" by (rule growsE)
  with assms(2) obtain c where "tbl_get key k t'' = Some (flag c (flag b r))" by (rule growsE)
  then show "\<exists>b. tbl_get key k t'' = Some (flag b r)" unfolding flag_flag by blast
qed

lemma grows_insert: "grows key flag t (tbl_insert mk t)"
  by (rule growsI[where b = "\<lambda>_. False"]) (simp add: flag_False tbl_get_def find_append)

lemma grows_flag: "grows key flag t (tbl_update P (flag True) t)"
  by (rule growsI[where b = P]) (simp add: tbl_get_def find_map_if key_flag flag_False)

end

definition flag_blacklisted :: "bool \<Rightarrow> refresh_token \<Rightarrow> refresh_token" where
  "flag_blacklisted b r = r\<lparr>rt_blacklisted := rt_blacklisted r \<or> b\<rparr>"

definition flag_used :: "bool \<Rightarrow> user_token \<Rightarrow> user_token" where
  "flag_used b r = r\<lparr>ut_is_used := ut_is_used r \<or> b\<rparr>"

interpretation refresh_rows: flagged_rows rt_id flag_blacklisted
  by unfold_locales (simp_all add: flag_blacklisted_def disj_assoc)

interpretation reset_rows: flagged_rows ut_token flag_used
  by unfold_locales (simp_all add: flag_used_def disj_assoc)

lemma flag_True:
  "flag_blacklisted True = (\<lambda>r. r\<lparr>rt_blacklisted := True\<rparr>)" "flag_used True = (\<lambda>r. r\<lparr>ut_is_used := True\<rparr>)"
  by (simp_all add: flag_blacklisted_def flag_used_def fun_eq_iff)

definition auth_grows :: "auth_tables \<Rightarrow> auth_tables \<Rightarrow> bool" where
  "auth_grows a b \<longleftrightarrow> grows rt_id flag_blacklisted (au_refresh a) (au_refresh b)
     \<and> grows ut_token flag_used (au_resets a) (au_resets b)
     \<and> (tbl_wf rt_id (au_refresh a) \<longrightarrow> tbl_wf rt_id (au_refresh b))"

lemma auth_grows_refl [simp]: "auth_grows a a"
  by (simp add: auth_grows_def refresh_rows.grows_refl reset_rows.grows_refl)

lemma auth_grows_trans: "auth_grows a b \<Longrightarrow> auth_grows b c \<Longrightarrow> auth_grows a c"
  unfolding auth_grows_def by (blast intro: refresh_rows.grows_trans reset_rows.grows_trans)

lemma auth_grows_quiet:
  "au_refresh b = au_refresh a \<Longrightarrow> au_resets b = au_resets a \<Longrightarrow> auth_grows a b"
  by (simp add: auth_grows_def refresh_rows.grows_refl reset_rows.grows_refl)

lemma auth_grows_blacklist [simp]: "auth_grows a (blacklist_user_tokens k a)"
  unfolding auth_grows_def blacklist_user_tokens_def
  by (simp add: reset_rows.grows_refl refresh_rows.grows_flag[unfolded flag_True] tbl_wf_update)

lemma auth_grows_insert [simp]:
  "(\<And>i. rt_id (mk i) = i) \<Longrightarrow> auth_grows a (a\<lparr>au_refresh := tbl_insert mk (au_refresh a)\<rparr>)"
  by (simp add: auth_grows_def refresh_rows.grows_insert reset_rows.grows_refl tbl_wf_insert)

lemma new_refresh_simps [simp]:
  "rt_id (new_refresh uid rm c e i) = i" "rt_user (new_refresh uid rm c e i) = uid"
  "rt_remember_me (new_refresh uid rm c e i) = rm" "rt_session_created_at (new_refresh uid rm c e i) = c"
  "rt_expires_at (new_refresh uid rm c e i) = e" "\<not> rt_blacklisted (new_refresh uid rm c e i)"
  "rt_id (rotated now cfg r i) = i"
  by (simp_all add: new_refresh_def rotated_def)

lemma auth_grows_token [simp]:
  "auth_grows a (a\<lparr>au_refresh := tbl_update P (\<lambda>r. r\<lparr>rt_blacklisted := True\<rparr>) (au_refresh a)\<rparr>)"
  by (simp add: auth_grows_def reset_rows.grows_refl refresh_rows.grows_flag[unfolded flag_True] tbl_wf_update)

lemma auth_grows_rotation [simp]:
  "(\<And>i. rt_id (mk i) = i) \<Longrightarrow> auth_grows a (a\<lparr>au_refresh := tbl_insert mk (tbl_update P (\<lambda>r. r\<lparr>rt_blacklisted := True\<rparr>) (au_refresh a))\<rparr>)"
  by (simp add: auth_grows_def reset_rows.grows_refl
      refresh_rows.grows_trans[OF refresh_rows.grows_flag[unfolded flag_True] refresh_rows.grows_insert]
      tbl_wf_insert tbl_wf_update)

lemma auth_grows_verification [simp]:
  "auth_grows a (create_email_verification_token now tok uid renew a)"
  "auth_grows a (enqueue j a)"
  "auth_grows a (a\<lparr>au_verifications := t\<rparr>)"
  by (rule auth_grows_quiet; simp add: create_email_verification_token_def enqueue_def Let_def)+

lemma auth_grows_reset [simp]:
  "auth_grows a (a\<lparr>au_resets := tbl_insert mk (au_resets a)\<rparr>)"
  "auth_grows a (a\<lparr>au_resets := tbl_update P (\<lambda>r. r\<lparr>ut_is_used := True\<rparr>) (au_resets a)\<rparr>)"
  by (simp_all add: auth_grows_def refresh_rows.grows_refl reset_rows.grows_insert reset_rows.grows_flag[unfolded flag_True])

section \<open>The company operations\<close>

lemma quiet_auth [simp]:
  "cp_auth (put_user u s) = cp_auth s" "cp_auth (put_company co s) = cp_auth s"
  "cp_auth (put_invitation i s) = cp_auth s" "cp_auth (add_invitation mk s) = cp_auth s"
  "cp_auth (on_onboarding f s) = cp_auth s" "cp_auth (settle_leaves t c s) = cp_auth s"
  "cp_auth (reassign_tasks c m r s) = cp_auth s" "cp_auth (put_settings x s) = cp_auth s"
  "cp_auth (reset_balances d c n s) = cp_auth s" "cp_auth (set_working_hours v co s) = cp_auth s"
  "cp_auth (snd (get_or_create_settings c s)) = cp_auth s" "cp_auth (create_company_settings c s) = cp_auth s"
  "cp_auth (erase_company k s) = cp_auth s"
  by (simp_all add: put_user_def put_company_def put_invitation_def add_invitation_def on_onboarding_def
      settle_leaves_def reassign_tasks_def put_settings_def reset_balances_def set_working_hours_def
      get_or_create_settings_def create_company_settings_def erase_company_def Let_def split: option.splits prod.splits)

lemma job_auth [simp]:
  "cp_auth (queue_job j s) = enqueue j (cp_auth s)"
  "cp_auth (revoke_tokens k s) = blacklist_user_tokens k (cp_auth s)"
  "cp_auth (issue_invitation now tok c e u r note s) = enqueue (Invitation_mail (next_id (cp_invitations s))) (cp_auth s)"
  by (simp_all add: queue_job_def revoke_tokens_def issue_invitation_def add_invitation_def Let_def)

lemma settings_auth_pair: "get_or_create_settings c s = (x, s1) \<Longrightarrow> cp_auth s1 = cp_auth s"
  using quiet_auth(11)[of c s] by simp

lemma invitation_auth:
  "create_invitation now tok u k rq s = Inr s' \<Longrightarrow> auth_grows (cp_auth s) (cp_auth s')"
  "create_building_invitation now tok u rq s = Inr s' \<Longrightarrow> auth_grows (cp_auth s) (cp_auth s')"
  "revoke_invitation now f u c k s = Inr s' \<Longrightarrow> auth_grows (cp_auth s) (cp_auth s')"
  "resend_invitation now tok f u c k s = Inr s' \<Longrightarrow> auth_grows (cp_auth s) (cp_auth s')"
  by (auto simp: create_invitation_def create_building_invitation_def revoke_invitation_def resend_invitation_def
      Let_def split: option.splits sum.splits if_splits)

lemma register_auth:
  assumes "register_by_invite now vtok rq s = Inr s'"
  shows "auth_grows (cp_auth s) (cp_auth s')"
proof -
  have ad: "cp_auth s1 = cp_auth s" if "admit rq i s = Inr (k, s1)" for i k s1
    using that by (auto simp: admit_def Let_def split: option.splits)
  show ?thesis
    using assms by (auto simp: register_by_invite_def Let_def dest!: ad split: option.splits sum.splits prod.splits
        intro!: auth_grows_quiet simp: create_email_verification_token_def enqueue_def)
qed

lemma company_auth:
  "create_company u rq s = Inr s' \<Longrightarrow> cp_auth s' = cp_auth s"
  "update_company u p k rq s = Inr s' \<Longrightarrow> cp_auth s' = cp_auth s"
  "destroy_company u confirm k s = Inr s' \<Longrightarrow> cp_auth s' = cp_auth s"
  "deactivate_company u k s = Inr s' \<Longrightarrow> cp_auth s' = cp_auth s"
  "activate_company u k s = Inr s' \<Longrightarrow> cp_auth s' = cp_auth s"
  "map_sum id snd (bulk_companies P f u ids s) = Inr s' \<Longrightarrow> cp_auth s' = cp_auth s"
  by (auto simp: create_company_def update_company_def deactivate_company_def activate_company_def
      bulk_companies_def guarded_def Let_def split: option.splits sum.splits if_splits dest: destroy_company_ok)

lemma settings_auth:
  "map_sum id snd (company_settings_get u k s) = Inr s' \<Longrightarrow> cp_auth s' = cp_auth s"
  "company_settings_patch d u k rq s = Inr s' \<Longrightarrow> cp_auth s' = cp_auth s"
  "map_sum id snd (onboarding_status u k s) = Inr s' \<Longrightarrow> cp_auth s' = cp_auth s"
  "skip_onboarding u k s = Inr s' \<Longrightarrow> cp_auth s' = cp_auth s"
  by (auto simp: company_settings_get_def company_settings_patch_def onboarding_status_def skip_onboarding_def Let_def
      split: option.splits sum.splits if_splits prod.splits dest!: settings_auth_pair)

lemma member_auth:
  "deactivate_member u k m s = Inr s' \<Longrightarrow> auth_grows (cp_auth s) (cp_auth s')"
  "activate_member u k m s = Inr s' \<Longrightarrow> auth_grows (cp_auth s) (cp_auth s')"
  "remove_member u k m v s = Inr s' \<Longrightarrow> auth_grows (cp_auth s) (cp_auth s')"
  "change_member_role u k m r s = Inr s' \<Longrightarrow> auth_grows (cp_auth s) (cp_auth s')"
  by (auto elim!: deactivate_member_ok activate_member_ok remove_member_ok change_member_role_ok split: if_splits)

lemma exec_cp_auth:
  assumes "exec_cp x s = Inr s'"
  shows "auth_grows (cp_auth s) (cp_auth s')"
  using assms
  by (cases x) (auto simp: exec_cp_def invitation_auth register_auth member_auth company_auth settings_auth
      bulk_activate_companies_def bulk_deactivate_companies_def bulk_delete_companies_def
      check_expired_invitations_def)

section \<open>The operations of the users component\<close>

lemma us_auth_simps [simp]:
  "us_auth (on_auth f s) = f (us_auth s)" "us_auth (write_user u s) = us_auth s"
  "us_auth (set_user k g s) = us_auth s" "us_auth (set_password k p s) = us_auth s"
  "us_auth (clear_session_markers k s) = us_auth s" "us_auth (touch_last_activity now k s) = us_auth s"
  "us_auth (count_resend now k s) = us_auth s" "us_auth (mark_idle_session_expired now cfg k s) = us_auth s"
  "us_auth (mark_absolute_session_expired now cfg k s) = us_auth s"
  "us_auth (s\<lparr>us_reset_history := h\<rparr>) = us_auth s" "us_auth (s\<lparr>us_cp := c\<rparr>) = cp_auth c"
  by (simp_all add: us_auth_def on_auth_def write_user_def set_user_def set_password_def clear_session_markers_def
      touch_last_activity_def count_resend_def mark_idle_session_expired_def mark_absolute_session_expired_def
      split: option.splits)

definition keeps_tokens :: "us_state \<Rightarrow> 'a reply \<Rightarrow> bool" where
  "keeps_tokens s r \<longleftrightarrow> auth_grows (us_auth s) (us_auth (snd r))"

lemma keeps_tokens_simps [simp]:
  "keeps_tokens s (r, s') \<longleftrightarrow> auth_grows (us_auth s) (us_auth s')"
  "keeps_tokens s (map_reply f rep) \<longleftrightarrow> keeps_tokens s rep"
  by (simp_all add: keeps_tokens_def)

lemma atomic_keeps: "keeps_tokens s (f s) \<Longrightarrow> keeps_tokens s (atomic f s)"
  by (auto simp: atomic_def keeps_tokens_def us_auth_def split: prod.splits sum.splits)

lemmas auth_steps = auth_grows_trans[OF _ auth_grows_blacklist] auth_grows_trans[OF _ auth_grows_insert]
  auth_grows_trans[OF _ auth_grows_token] auth_grows_trans[OF _ auth_grows_rotation] auth_grows_trans[OF _ auth_grows_verification(1)]
  auth_grows_trans[OF _ auth_grows_verification(2)] auth_grows_trans[OF _ auth_grows_verification(3)]
  auth_grows_trans[OF _ auth_grows_reset(1)] auth_grows_trans[OF _ auth_grows_reset(2)]

lemma check_session_keeps:
  "keeps_tokens s (check_session now cfg u created s)"
  "check_session now cfg u created s = (Inr v, s1) \<Longrightarrow> s1 = s"
  by (auto simp: check_session_def handle_idle_session_expiry_def handle_absolute_session_expiry_def split: if_splits)

lemma authenticate_keeps:
  "keeps_tokens s (authenticate now cfg a s)"
  "authenticate now cfg a s = (Inr u, s1) \<Longrightarrow> s1 = s"
  using check_session_keeps(1)[of s now cfg _ "at_session_created_at a"]
  by (auto simp: authenticate_def keeps_tokens_def split: option.splits sum.splits prod.splits if_splits
      dest: check_session_keeps(2)) (metis snd_conv)

lemma request_keeps:
  assumes "\<And>u. keeps_tokens s (f u s)"
  shows "keeps_tokens s (request now cfg a tracked f s)"
proof -
  have "keeps_tokens s (case authenticate now cfg a s of (Inl e, s1) \<Rightarrow> (Inl e, s1) | (Inr u, s1) \<Rightarrow> f u s1)"
    using authenticate_keeps(1)[of s now cfg a] assms
    by (auto split: prod.splits sum.splits dest: authenticate_keeps(2))
  then have "keeps_tokens s (atomic (\<lambda>s. case authenticate now cfg a s of
      (Inl e, s1) \<Rightarrow> (Inl e, s1) | (Inr u, s1) \<Rightarrow> f u s1) s)"
    by (rule atomic_keeps)
  then show ?thesis
    by (auto simp: request_def keeps_tokens_def split: prod.splits sum.splits)
qed

lemma sign_in_keeps:
  "keeps_tokens s (register now cfg vtok rq s)"
  "keeps_tokens s (login now cfg lrq s)"
  "keeps_tokens s (logout now body cookie s)"
  by (auto simp: register_def login_def logout_def Let_def mail_verification_def issue_refresh_token_def add_refresh_def
      blacklist_token_def us_auth_def[of s] us_acc_def
      intro!: atomic_keeps auth_steps split: option.splits sum.splits)

lemma refresh_keeps: "keeps_tokens s (token_refresh now cfg body cookie s)"
proof -
  have "keeps_tokens s (case check_session now cfg u (rt_session_created_at r) s of
      (Inl e, s1) \<Rightarrow> (Inl e, s1) | (Inr x, s1) \<Rightarrow> rotate now cfg r s1)" for u r
    using check_session_keeps(1)[of s now cfg u "rt_session_created_at r"]
    by (auto simp: rotate_def add_refresh_def blacklist_token_def split: prod.splits sum.splits intro!: auth_steps
        dest: check_session_keeps(2))
  then show ?thesis
    unfolding token_refresh_def by (intro atomic_keeps) (auto split: option.splits)
qed

lemma recovery_keeps:
  "keeps_tokens s (verify_email now v s)"
  "keeps_tokens s (password_reset_request now tok addr w s)"
  "keeps_tokens s (password_reset_confirm strong now v p s)"
  "keeps_tokens s (resend_verification_email now vtok u s)"
  by (auto simp: verify_email_def password_reset_request_def password_reset_confirm_def resend_verification_email_def
      Let_def mail_verification_def revoke_sessions_def intro!: atomic_keeps auth_steps split: option.splits)

lemma action_keeps: "keeps_tokens s (perform strong now cfg act u s)"
  by (cases act) (auto simp: perform_def recovery_keeps change_password_def update_profile_def delete_avatar_def
      delete_account_def impersonate_user_def block_user_def unblock_user_def superadmin_on_def revoke_sessions_def
      add_refresh_def Let_def intro!: auth_steps split: option.splits)

lemma exec_us_keeps: "keeps_tokens s (exec_us strong cfg x s)"
  using exec_cp_auth[of _ "us_cp s"]
  by (cases x) (auto simp: exec_us_def sign_in_keeps refresh_keeps recovery_keeps us_auth_def[of s]
      intro!: request_keeps action_keeps split: sum.splits)

end
