(* ===== verification/UserInv.thy ===== *)
theory UserInv
  imports UserSystem
begin

text \<open>
  The invariant of the joint system of users and companies, what a run settles for good, and the
  example state of the witnesses.
\<close>

section \<open>The invariant\<close>

definition us_inv :: "us_state \<Rightarrow> bool" where
  "us_inv s \<longleftrightarrow> cp_inv (us_cp s) \<and> tbl_wf rt_id (au_refresh (us_auth s))"

lemma cp_inv_users:
  "cp_inv c \<Longrightarrow> cp_invitations c' = cp_invitations c \<Longrightarrow> users_ok (ac_users (cp_acc c')) \<Longrightarrow> cp_inv c'"
  by (simp add: cp_inv_def)

lemma cp_inv_auth [simp]: "cp_inv (c\<lparr>cp_auth := a\<rparr>) \<longleftrightarrow> cp_inv c"
  by (simp add: cp_inv_def)

lemma us_cp_simps [simp]:
  "us_cp (on_auth f s) = (us_cp s)\<lparr>cp_auth := f (us_auth s)\<rparr>" "us_cp (write_user u s) = put_user u (us_cp s)"
  "us_cp (clear_session_markers k s) = us_cp s" "us_cp (count_resend now k s) = us_cp s"
  "us_cp (mark_idle_session_expired now cfg k s) = us_cp s"
  "us_cp (mark_absolute_session_expired now cfg k s) = us_cp s"
  by (simp_all add: on_auth_def write_user_def clear_session_markers_def count_resend_def
      mark_idle_session_expired_def mark_absolute_session_expired_def)

text \<open>Views that write one user row keep its key, its address and what the table asks of it.\<close>

definition same_constraints :: "user \<Rightarrow> user \<Rightarrow> bool" where
  "same_constraints u v \<longleftrightarrow> u_id v = u_id u \<and> u_email v = u_email u \<and> u_company v = u_company u \<and> u_role v = u_role u"

lemma same_constraintsD:
  "same_constraints u v \<Longrightarrow> users_employee_admin_requires_company u \<Longrightarrow> users_employee_admin_requires_company v"
  by (simp add: same_constraints_def users_employee_admin_requires_company_def)

lemma put_user_inv:
  assumes "cp_inv c" "u \<in> set (rows (ac_users (cp_acc c)))" "same_constraints u v"
  shows "cp_inv (put_user v c)"
proof (rule cp_inv_users[OF assms(1)])
  have "users_ok (ac_users (cp_acc c))" using assms(1) by (simp add: cp_inv_def)
  from users_ok_save[OF this assms(2), of v] assms(3) users_ok_row[OF this assms(2)]
  show "users_ok (ac_users (cp_acc (put_user v c)))"
    by (simp add: same_constraints_def same_constraintsD)
qed simp

lemma set_user_inv:
  assumes "cp_inv (us_cp s)" "\<And>u. same_constraints u (g u)"
  shows "cp_inv (us_cp (set_user k g s))"
  using assms put_user_inv[OF assms(1) _ assms(2)]
  by (auto simp: set_user_def us_acc_def split: option.splits dest!: tbl_get_SomeD)

lemma touch_inv:
  assumes "cp_inv (us_cp s)"
  shows "cp_inv (us_cp (touch_last_activity now k s))"
proof (rule cp_inv_users[OF assms])
  show "cp_invitations (us_cp (touch_last_activity now k s)) = cp_invitations (us_cp s)"
    by (simp add: touch_last_activity_def)
  have ok: "users_ok (ac_users (cp_acc (us_cp s)))" using assms by (simp add: cp_inv_def)
  have "users_ok (tbl_update (\<lambda>u. u_id u = k) (\<lambda>u. u\<lparr>u_last_login := Some now\<rparr>) (ac_users (cp_acc (us_cp s))))"
    by (rule users_ok_update[OF ok])
       (use users_ok_row[OF ok] in \<open>simp_all add: users_employee_admin_requires_company_def\<close>)
  then show "users_ok (ac_users (cp_acc (us_cp (touch_last_activity now k s))))"
    by (simp add: touch_last_activity_def us_acc_def)
qed

definition keeps_tables :: "us_state \<Rightarrow> 'a reply \<Rightarrow> bool" where
  "keeps_tables s r \<longleftrightarrow> (cp_inv (us_cp s) \<longrightarrow> cp_inv (us_cp (snd r)))"

lemma keeps_tables_simps [simp]:
  "keeps_tables s (map_reply f rep) \<longleftrightarrow> keeps_tables s rep"
  "keeps_tables s (r, s') \<longleftrightarrow> (cp_inv (us_cp s) \<longrightarrow> cp_inv (us_cp s'))"
  by (simp_all add: keeps_tables_def)

lemma atomic_tables: "keeps_tables s (f s) \<Longrightarrow> keeps_tables s (atomic f s)"
  by (auto simp: atomic_def keeps_tables_def split: prod.splits sum.splits)

lemma check_session_tables: "keeps_tables s (check_session now cfg u created s)"
  by (simp add: check_session_def handle_idle_session_expiry_def handle_absolute_session_expiry_def)

lemma authenticate_tables: "keeps_tables s (authenticate now cfg a s)"
  using check_session_tables[of s now cfg _ "at_session_created_at a"]
  by (auto simp: authenticate_def keeps_tables_def split: option.splits sum.splits prod.splits if_splits) (metis snd_conv)+

lemma authenticate_row:
  "authenticate now cfg a s = (Inr u, s1) \<Longrightarrow> s1 = s \<and> u \<in> set (rows (ac_users (us_acc s))) \<and> u_id u = at_user a
     \<and> u_is_active u"
  by (auto simp: authenticate_def split: option.splits if_splits prod.splits sum.splits
      dest: tbl_get_SomeD check_session_keeps(2))

lemma request_tables:
  assumes "\<And>u. u \<in> set (rows (ac_users (us_acc s))) \<Longrightarrow> keeps_tables s (f u s)"
  shows "keeps_tables s (request now cfg a tracked f s)"
proof -
  have "keeps_tables s (case authenticate now cfg a s of (Inl e, s1) \<Rightarrow> (Inl e, s1) | (Inr u, s1) \<Rightarrow> f u s1)"
    using authenticate_tables[of s now cfg a] assms
    by (auto split: prod.splits sum.splits dest: authenticate_row)
  then have "keeps_tables s (atomic (\<lambda>s. case authenticate now cfg a s of
      (Inl e, s1) \<Rightarrow> (Inl e, s1) | (Inr u, s1) \<Rightarrow> f u s1) s)"
    by (rule atomic_tables)
  then show ?thesis
    by (auto simp: request_def keeps_tables_def touch_inv split: prod.splits sum.splits)
qed

lemma register_tables: "keeps_tables s (register now cfg vtok rq s)"
proof -
  have "cp_inv ((us_cp s)\<lparr>cp_acc := add_user (registered rq) (us_acc s)\<rparr>)"
    if "cp_inv (us_cp s)" "user_integrity (us_acc s) (registered rq (next_id (ac_users (us_acc s))))"
  proof (rule cp_inv_users[OF that(1)])
    have "users_ok (ac_users (us_acc s))" using that(1) by (simp add: cp_inv_def us_acc_def)
    then have "users_ok (ac_users (add_user (registered rq) (us_acc s)))"
      by (rule users_ok_add) (use that(2) in \<open>simp_all add: registered_def new_user_def\<close>)
    then show "users_ok (ac_users (cp_acc ((us_cp s)\<lparr>cp_acc := add_user (registered rq) (us_acc s)\<rparr>)))" by simp
  qed simp
  then show ?thesis
    unfolding register_def
    by (intro atomic_tables) (auto simp: Let_def issue_refresh_token_def add_refresh_def mail_verification_def
        split: option.splits)
qed

lemma sign_in_tables:
  "keeps_tables s (login now cfg lrq s)"
  "keeps_tables s (logout now body cookie s)"
  by (auto simp: login_def logout_def issue_refresh_token_def add_refresh_def blacklist_token_def Let_def
      intro!: atomic_tables touch_inv split: option.splits sum.splits)

lemma refresh_tables: "keeps_tables s (token_refresh now cfg body cookie s)"
proof -
  have "keeps_tables s (case check_session now cfg u (rt_session_created_at r) s of
      (Inl e, s1) \<Rightarrow> (Inl e, s1) | (Inr x, s1) \<Rightarrow> rotate now cfg r s1)" for u r
    using check_session_tables[of s now cfg u "rt_session_created_at r"]
    by (auto simp: rotate_def add_refresh_def blacklist_token_def split: prod.splits sum.splits)
  then show ?thesis unfolding token_refresh_def by (intro atomic_tables) (auto split: option.splits)
qed

lemma recovery_tables:
  "keeps_tables s (verify_email now v s)"
  "keeps_tables s (password_reset_request now tok addr w s)"
  "keeps_tables s (password_reset_confirm strong now v p s)"
  "keeps_tables s (resend_verification_email now vtok u s)"
  by (auto simp: verify_email_def password_reset_request_def password_reset_confirm_def resend_verification_email_def
      Let_def mail_verification_def revoke_sessions_def set_password_def same_constraints_def
      intro!: atomic_tables set_user_inv split: option.splits)

lemma own_row_tables:
  assumes "u \<in> set (rows (ac_users (us_acc s)))"
  shows "keeps_tables s (change_password strong current p u s)" "keeps_tables s (update_profile rq u s)"
    "keeps_tables s (delete_avatar u s)" "keeps_tables s (delete_account now u s)"
  using assms
  by (auto simp: change_password_def update_profile_def delete_avatar_def delete_account_def revoke_sessions_def
      with_profile_def same_constraints_def us_acc_def intro!: put_user_inv[of _ u] split: option.splits)

lemma superadmin_tables:
  assumes "\<And>t. t \<in> set (rows (ac_users (us_acc s))) \<Longrightarrow> keeps_tables s (f t s)"
  shows "keeps_tables s (superadmin_on u k f s)"
  using assms by (auto simp: superadmin_on_def split: option.splits dest!: tbl_get_SomeD)

lemma admin_tables:
  "keeps_tables s (impersonate_user now cfg k u s)" "keeps_tables s (block_user k u s)" "keeps_tables s (unblock_user k u s)"
proof -
  show "keeps_tables s (impersonate_user now cfg k u s)" unfolding impersonate_user_def
    by (rule superadmin_tables) (simp add: Let_def add_refresh_def split: option.splits)
  show "keeps_tables s (block_user k u s)" unfolding block_user_def
    by (rule superadmin_tables) (auto simp: revoke_sessions_def us_acc_def same_constraints_def intro: put_user_inv)
  show "keeps_tables s (unblock_user k u s)" unfolding unblock_user_def
    by (rule superadmin_tables) (auto simp: us_acc_def same_constraints_def intro: put_user_inv)
qed

lemma exec_us_tables: "keeps_tables s (exec_us strong cfg x s)"
proof (cases x)
  case (Op_as now a act)
  have "keeps_tables s (perform strong now cfg act u s)" if "u \<in> set (rows (ac_users (us_acc s)))" for u
    using that by (cases act) (simp_all add: perform_def own_row_tables recovery_tables admin_tables)
  then show ?thesis by (simp add: Op_as exec_us_def request_tables)
qed (auto simp: exec_us_def register_tables sign_in_tables refresh_tables recovery_tables
      intro: exec_cp_inv split: sum.splits)

lemma step_us_inv: "us_inv s \<Longrightarrow> step_us strong cfg x s = Inr s' \<Longrightarrow> us_inv s'"
  using exec_us_tables[of s strong cfg x] exec_us_keeps[of s strong cfg x]
  by (auto simp: us_inv_def step_us_def keeps_tables_def keeps_tokens_def auth_grows_def)

section \<open>What is settled\<close>

datatype spent = Spent_refresh nat | Spent_reset nat

definition settled_token :: "us_state \<Rightarrow> spent \<Rightarrow> unit option" where
  "settled_token s k = (case k of
     Spent_refresh j \<Rightarrow> (case refresh_row s j of Some r \<Rightarrow> if rt_blacklisted r then Some () else None | None \<Rightarrow> None)
   | Spent_reset tok \<Rightarrow> (case token_row tok (au_resets (us_auth s)) of
       Some t \<Rightarrow> if ut_is_used t then Some () else None | None \<Rightarrow> None))"

lemma settled_grows:
  assumes "auth_grows (us_auth s) (us_auth s')" "settled_token s k = Some v"
  shows "settled_token s' k = Some v"
proof (cases k)
  case (Spent_refresh j)
  with assms(2) obtain r where r: "tbl_get rt_id j (au_refresh (us_auth s)) = Some r" "rt_blacklisted r"
    by (auto simp: settled_token_def refresh_row_def split: option.splits if_splits)
  from assms(1) have "grows rt_id flag_blacklisted (au_refresh (us_auth s)) (au_refresh (us_auth s'))"
    by (simp add: auth_grows_def)
  from this r(1) obtain b where "tbl_get rt_id j (au_refresh (us_auth s')) = Some (flag_blacklisted b r)"
    by (rule growsE)
  with r(2) show ?thesis by (simp add: Spent_refresh settled_token_def refresh_row_def flag_blacklisted_def)
next
  case (Spent_reset tok)
  with assms(2) obtain r where r: "tbl_get ut_token tok (au_resets (us_auth s)) = Some r" "ut_is_used r"
    by (auto simp: settled_token_def token_row_def tbl_get_def split: option.splits if_splits)
  from assms(1) have "grows ut_token flag_used (au_resets (us_auth s)) (au_resets (us_auth s'))"
    by (simp add: auth_grows_def)
  from this r(1) obtain b where "tbl_get ut_token tok (au_resets (us_auth s')) = Some (flag_used b r)"
    by (rule growsE)
  with r(2) show ?thesis by (simp add: Spent_reset settled_token_def token_row_def tbl_get_def flag_used_def)
qed

interpretation session_system: settling_system "step_us strong cfg" us_inv "\<lambda>_. True" settled_token
  for strong cfg
proof
  fix s x s' assume "us_inv s" "step_us strong cfg x s = Inr s'"
  then show "us_inv s'" by (rule step_us_inv)
next
  fix s x s' k v assume "step_us strong cfg x s = Inr s'" "settled_token s k = Some v"
  then show "settled_token s' k = Some v"
    using settled_grows[of s s' k v] exec_us_keeps[of s strong cfg x] by (auto simp: step_us_def keeps_tokens_def)
qed

abbreviation run_us :: "(user option \<Rightarrow> string \<Rightarrow> bool) \<Rightarrow> session_config \<Rightarrow> us_op list \<Rightarrow> us_state \<Rightarrow> us_state" where
  "run_us strong cfg \<equiv> run_ops (step_us strong cfg)"

lemma run_settled_us: "us_inv s \<Longrightarrow> settled_token s k = Some v \<Longrightarrow> settled_token (run_us strong cfg xs s) k = Some v"
  by (rule session_system.run_settled) (simp_all add: list_all_iff)

lemma run_inv_us: "us_inv s \<Longrightarrow> us_inv (run_us strong cfg xs s)"
  by (rule session_system.run_inv) (simp_all add: list_all_iff)

text \<open>Claims of a refresh token survive a run; only its flag may change.\<close>

lemma run_keeps_row:
  assumes "refresh_row s j = Some r"
  shows "\<exists>b. refresh_row (run_us strong cfg xs s) j = Some (flag_blacklisted b r)"
proof -
  have "auth_grows (us_auth s) (us_auth (run_us strong cfg xs s))" for s
  proof (induction xs arbitrary: s)
    case (Cons x xs)
    have "auth_grows (us_auth s) (us_auth (snd (exec_us strong cfg x s)))"
      using exec_us_keeps[of s strong cfg x] by (simp add: keeps_tokens_def)
    from auth_grows_trans[OF this Cons] show ?case by (simp add: step_us_def)
  qed simp
  then have "grows rt_id flag_blacklisted (au_refresh (us_auth s)) (au_refresh (us_auth (run_us strong cfg xs s)))"
    by (simp add: auth_grows_def)
  then show ?thesis using assms unfolding refresh_row_def by (blast elim: growsE)
qed

lemma blacklisted_refused:
  assumes "settled_token s (Spent_refresh j) = Some v"
  shows "token_refresh now cfg (Some j) cookie s = (Inl NotAuthenticated, s)"
  using assms by (auto simp: settled_token_def token_refresh_def verify_refresh_def atomic_def split: option.splits if_splits)

end
