(* ===== verification/SessionProps.thy ===== *)
theory SessionProps
  imports UserInv
begin

text \<open>
  Properties of the sessions: what ends one ends it for good, how long one lasts however often it
  is refreshed, and the places where the expiry of a session does not hold.
\<close>

section \<open>Example state\<close>

definition demo_cfg :: session_config where
  "demo_cfg = \<lparr>IDLE_SESSION_TIMEOUT = minutes 5, ABSOLUTE_SESSION_TIMEOUT = minutes 15,
     ACCESS_TOKEN_LIFETIME = minutes 60, REFRESH_TOKEN_LIFETIME = days 7, REMEMBER_ME_LIFETIME = days 30\<rparr>"

definition ann :: user where
  "ann = (demo_person 3 Employee (Some 1) ''ann@x'')\<lparr>u_password := ''secret12''\<rparr>"

definition any_strong :: "user option \<Rightarrow> string \<Rightarrow> bool" where
  "any_strong _ _ = True"

definition demo_us :: us_state where
  "demo_us = \<lparr>us_cp = demo_cp [boss, ann, root] [], us_idle = (\<lambda>_. None), us_absolute = (\<lambda>_. None),
     us_resend = (\<lambda>_. None), us_reset_history = (\<lambda>_. [])\<rparr>"

definition ann_logs_in :: login_request where
  "ann_logs_in = \<lparr>lq_email = Some ''ann@x'', lq_password = Some ''secret12'', lq_remember_me = False\<rparr>"

lemma demo_us_inv: "us_inv demo_us"
  by (simp add: us_inv_def demo_us_def demo_cp_def us_auth_def demo_auth_def cp_inv_def boss_def root_def ann_def
      invitations_ok_def users_ok_def tbl_wf_def users_employee_admin_requires_company_def)

lemma reply_ok: "is_ok (fst r) \<Longrightarrow> \<exists>x s. r = (Inr x, s)"
  by (cases r; cases "fst r") auto

section \<open>Ending a session\<close>

text \<open>Whose sessions an operation ends, when it succeeds.\<close>

definition revokes :: "us_op \<Rightarrow> us_state \<Rightarrow> nat \<Rightarrow> bool" where
  "revokes x s uid = (case x of
     Op_as _ a (Change_password _ _) \<Rightarrow> uid = at_user a
   | Op_as _ a Delete_account \<Rightarrow> uid = at_user a
   | Op_as _ a (Block k) \<Rightarrow> uid = k
   | Op_reset_confirm _ (Some tok) _ \<Rightarrow> map_option ut_user (token_row tok (au_resets (us_auth s))) = Some uid
   | Op_company (Op_deactivate_member _ _ m) \<Rightarrow> uid = m
   | Op_company (Op_remove_member _ _ m _) \<Rightarrow> uid = m
   | _ \<Rightarrow> False)"

definition no_live_session :: "us_state \<Rightarrow> nat \<Rightarrow> bool" where
  "no_live_session s uid \<longleftrightarrow> (\<forall>r \<in> set (rows (au_refresh (us_auth s))). rt_user r = uid \<longrightarrow> rt_blacklisted r)"

lemma revoked: "\<exists>a. us_auth s = blacklist_user_tokens uid a \<Longrightarrow> no_live_session s uid"
  unfolding no_live_session_def using blacklisted_are_dead by metis

lemma request_ok:
  assumes "request now cfg a tracked f s = (Inr x, s')"
  obtains u s1 where "authenticate now cfg a s = (Inr u, s)" "u_id u = at_user a" "f u s = (Inr x, s1)"
    "us_auth s' = us_auth s1"
proof -
  obtain u where u: "authenticate now cfg a s = (Inr u, s)" "u_id u = at_user a"
    using assms by (auto simp: request_def atomic_def split: prod.splits sum.splits dest!: authenticate_row)
  with assms obtain s1 where "f u s = (Inr x, s1)" "us_auth s' = us_auth s1"
    by (auto simp: request_def atomic_def split: prod.splits sum.splits if_splits)
  with u show ?thesis by (rule that)
qed

lemma revokes_sound:
  assumes "exec_us strong cfg x s = (Inr out, s1)" "revokes x s uid"
  shows "no_live_session s1 uid"
proof (cases x)
  case (Op_as now a act)
  with assms(1) have "request now cfg a True (perform strong now cfg act) s = (Inr out, s1)" by (simp add: exec_us_def)
  then obtain u s2 where u: "u_id u = at_user a" "perform strong now cfg act u s = (Inr out, s2)" "us_auth s1 = us_auth s2"
    by (rule request_ok)
  show ?thesis
  proof (cases act)
    case (Change_password current p)
    with u assms(2) show ?thesis
      by (intro revoked) (auto simp: Op_as perform_def revokes_def change_password_def revoke_sessions_def map_reply_Inr
          split: option.splits)
  next
    case Delete_account
    with u assms(2) show ?thesis
      by (intro revoked) (auto simp: Op_as perform_def revokes_def delete_account_def revoke_sessions_def)
  next
    case (Block k)
    with u assms(2) show ?thesis
      by (intro revoked) (auto simp: Op_as perform_def revokes_def block_user_def superadmin_on_def revoke_sessions_def
          map_reply_Inr dest!: tbl_get_SomeD split: option.splits)
  qed (use assms(2) in \<open>simp_all add: Op_as revokes_def\<close>)
next
  case (Op_reset_confirm now v p)
  with assms show ?thesis
    by (intro revoked) (auto simp: exec_us_def revokes_def password_reset_confirm_def atomic_def revoke_sessions_def
        map_reply_Inr split: option.splits)
next
  case (Op_company c)
  then obtain cp where cp: "exec_cp c (us_cp s) = Inr cp" "s1 = s\<lparr>us_cp := cp\<rparr>"
    using assms(1) by (auto simp: exec_us_def split: sum.splits)
  have "\<exists>a. cp_auth cp = blacklist_user_tokens uid a"
    using cp(1) assms(2) Op_company
    by (cases c) (auto simp: revokes_def exec_cp_def elim!: deactivate_member_ok remove_member_ok)
  then show ?thesis by (intro revoked) (simp add: cp(2))
qed (use assms(2) in \<open>simp_all add: revokes_def\<close>)

text \<open>
  C23: when a password is changed or reset, an account deleted or blocked, a member deactivated or
  removed, every refresh token that existed for this user is dead for good: after any further
  operations of the users and company components presenting it is answered 401 and changes nothing.
\<close>

theorem revocation_is_final:
  assumes "us_inv s" "exec_us strong cfg x s = (Inr out, s1)" "revokes x s uid"
    and "refresh_row s j = Some r" "rt_user r = uid" "s2 = run_us strong cfg xs s1"
  shows "token_refresh now cfg (Some j) cookie s2 = (Inl NotAuthenticated, s2)"
proof -
  have step: "step_us strong cfg x s = Inr s1" using assms(2) by (simp add: step_us_def)
  have inv: "us_inv s1" by (rule step_us_inv[OF assms(1) step])
  obtain b where b: "refresh_row s1 j = Some (flag_blacklisted b r)"
    using run_keeps_row[OF assms(4), of strong cfg "[x]"] step by auto
  then have "flag_blacklisted b r \<in> set (rows (au_refresh (us_auth s1)))"
    by (auto simp: refresh_row_def dest: tbl_get_SomeD)
  moreover have "rt_user (flag_blacklisted b r) = uid" using assms(5) by (simp add: flag_blacklisted_def)
  ultimately have "rt_blacklisted (flag_blacklisted b r)"
    using revokes_sound[OF assms(2,3)] unfolding no_live_session_def by blast
  with b have "settled_token s1 (Spent_refresh j) = Some ()" by (simp add: settled_token_def)
  from run_settled_us[OF inv this] show ?thesis unfolding assms(6) by (rule blacklisted_refused)
qed

definition ann_signed_in :: us_state where
  "ann_signed_in = snd (login (hours 1) demo_cfg ann_logs_in demo_us)"

definition ann_access :: access_token where
  "ann_access = \<lparr>at_user = 3, at_session_created_at = Some (hours 1), at_expires_at = hours 2, at_impersonated_by = None\<rparr>"

lemma ann_signed_in_inv: "us_inv ann_signed_in"
  unfolding ann_signed_in_def
  by (rule step_us_inv[OF demo_us_inv, of any_strong demo_cfg "Op_login (hours 1) ann_logs_in"])
     (simp add: step_us_def exec_us_def)

lemma ann_row: "map_option rt_user (refresh_row ann_signed_in 1) = Some 3"
  by code_simp

theorem revocation_is_final_witness:
  "\<exists>s1. snd (exec_us any_strong demo_cfg (Op_as (hours 1 + 5) ann_access Delete_account) ann_signed_in) = s1 \<and>
     token_refresh (hours 1 + 9) demo_cfg (Some 1) None s1 = (Inl NotAuthenticated, s1)"
proof -
  let ?x = "Op_as (hours 1 + 5) ann_access Delete_account"
  have "is_ok (fst (exec_us any_strong demo_cfg ?x ann_signed_in))" by code_simp
  then obtain out s1 where s1: "exec_us any_strong demo_cfg ?x ann_signed_in = (Inr out, s1)" by (auto dest: reply_ok)
  obtain r where r: "refresh_row ann_signed_in 1 = Some r" "rt_user r = 3" using ann_row by (auto simp: map_option_case split: option.splits)
  have "revokes ?x ann_signed_in 3" by (simp add: revokes_def ann_access_def)
  from revocation_is_final[OF ann_signed_in_inv s1 this r, of s1 "[]"] s1 show ?thesis by simp
qed

section \<open>Tokens serve once\<close>

lemma atomic_Inr: "atomic f s = (Inr x, s') \<longleftrightarrow> f s = (Inr x, s')"
  by (auto simp: atomic_def split: prod.splits sum.splits)

lemma token_refresh_ok:
  assumes "token_refresh now cfg (Some j) cookie s = (Inr (a, j'), s')"
  obtains r u where "verify_refresh now j s = Some r" "refresh_row s j = Some r" "rt_id r = j" "now < rt_expires_at r"
    "\<not> rt_blacklisted r" "tbl_get u_id (rt_user r) (ac_users (us_acc s)) = Some u"
    "check_session now cfg u (rt_session_created_at r) s = (Inr (), s)"
    "a = access_of now cfg r" "j' = next_refresh s"
    "s' = add_refresh (rotated now cfg r) (blacklist_token j s)"
proof -
  from assms obtain r u where r: "verify_refresh now j s = Some r" "tbl_get u_id (rt_user r) (ac_users (us_acc s)) = Some u"
    "check_session now cfg u (rt_session_created_at r) s = (Inr (), s)" "rotate now cfg r s = (Inr (a, j'), s')"
    by (auto simp: token_refresh_def atomic_Inr split: option.splits prod.splits sum.splits dest: check_session_keeps(2))
  from r(1) have v: "refresh_row s j = Some r" "now < rt_expires_at r" "\<not> rt_blacklisted r"
    by (auto simp: verify_refresh_def split: option.splits if_splits)
  moreover have "rt_id r = j" using v(1) by (auto simp: refresh_row_def dest: tbl_get_SomeD)
  ultimately show ?thesis using r by (intro that) (auto simp: rotate_def)
qed

lemma refresh_row_add:
  assumes "tbl_wf rt_id (au_refresh (us_auth s))" "\<And>i. rt_id (mk i) = i"
  shows "refresh_row (add_refresh mk s) j = (if j = next_refresh s then Some (mk j) else refresh_row s j)"
  using tbl_get_insert[OF assms] by (simp add: refresh_row_def add_refresh_def next_refresh_def)

lemma refresh_row_blacklist:
  "tbl_wf rt_id (au_refresh (us_auth s)) \<Longrightarrow>
   refresh_row (blacklist_token k s) j = map_option (\<lambda>r. if rt_id r = k then r\<lparr>rt_blacklisted := True\<rparr> else r) (refresh_row s j)"
  by (simp add: refresh_row_def blacklist_token_def tbl_get_update)

lemma next_refresh_blacklist [simp]: "next_refresh (blacklist_token k s) = next_refresh s"
  by (simp add: next_refresh_def blacklist_token_def)

lemma refresh_row_fresh:
  "tbl_wf rt_id (au_refresh (us_auth s)) \<Longrightarrow> refresh_row s j = Some r \<Longrightarrow> j \<noteq> next_refresh s"
  by (auto simp: refresh_row_def next_refresh_def tbl_wf_def list_all_iff dest!: tbl_get_SomeD)

text \<open>The two rows after a rotation.\<close>

lemma rotation_rows:
  assumes wf: "tbl_wf rt_id (au_refresh (us_auth s))" and ok: "token_refresh now cfg (Some j) cookie s = (Inr (a, j'), s')"
  shows "\<exists>r. refresh_row s j = Some r \<and> refresh_row s' j = Some (r\<lparr>rt_blacklisted := True\<rparr>)
    \<and> refresh_row s' j' = Some (rotated now cfg r j') \<and> j' = next_refresh s \<and> a = access_of now cfg r"
proof -
  from ok obtain r where r: "refresh_row s j = Some r" "rt_id r = j" "a = access_of now cfg r" "j' = next_refresh s"
    and s': "s' = add_refresh (rotated now cfg r) (blacklist_token j s)"
    by (rule token_refresh_ok)
  have wf': "tbl_wf rt_id (au_refresh (us_auth (blacklist_token j s)))"
    using wf by (simp add: blacklist_token_def tbl_wf_update)
  show ?thesis
    using r refresh_row_fresh[OF wf r(1)]
    by (auto simp: s' refresh_row_add[OF wf'] refresh_row_blacklist[OF wf])
qed

text \<open>
  C24: refresh and reset tokens serve once. After a refresh token was exchanged, the same token is
  refused in every later state, and its successor belongs to the same user, session start and choice
  to be remembered. After a reset token was used, no later request with it succeeds.
\<close>

theorem tokens_serve_once:
  assumes "us_inv s" "s2 = run_us strong cfg xs s1"
  shows "(token_refresh now cfg (Some j) cookie s = (Inr (a, j'), s1) \<longrightarrow>
      token_refresh now' cfg (Some j) cookie' s2 = (Inl NotAuthenticated, s2) \<and>
      (\<exists>r r'. refresh_row s j = Some r \<and> refresh_row s1 j' = Some r' \<and> rt_user r' = rt_user r \<and> at_user a = rt_user r
        \<and> rt_remember_me r' = rt_remember_me r \<and> \<not> rt_blacklisted r'))
    \<and> (password_reset_confirm strong now (Some tok) p s = (Inr (), s1) \<longrightarrow>
      \<not> is_ok (fst (password_reset_confirm strong now' (Some tok) p' s2)))"
proof (intro conjI impI)
  assume ok: "token_refresh now cfg (Some j) cookie s = (Inr (a, j'), s1)"
  have step: "step_us strong cfg (Op_refresh now (Some j) cookie) s = Inr s1" by (simp add: step_us_def exec_us_def ok)
  have inv: "us_inv s1" by (rule step_us_inv[OF assms(1) step])
  obtain r where r: "refresh_row s j = Some r" "refresh_row s1 j = Some (r\<lparr>rt_blacklisted := True\<rparr>)"
    "refresh_row s1 j' = Some (rotated now cfg r j')" "a = access_of now cfg r"
    using rotation_rows[OF _ ok] assms(1) unfolding us_inv_def by blast
  then have "settled_token s1 (Spent_refresh j) = Some ()" by (simp add: settled_token_def)
  from run_settled_us[OF inv this] show "token_refresh now' cfg (Some j) cookie' s2 = (Inl NotAuthenticated, s2)"
    unfolding assms(2) by (rule blacklisted_refused)
  show "\<exists>r r'. refresh_row s j = Some r \<and> refresh_row s1 j' = Some r' \<and> rt_user r' = rt_user r \<and> at_user a = rt_user r
        \<and> rt_remember_me r' = rt_remember_me r \<and> \<not> rt_blacklisted r'"
    using r by (simp add: rotated_def access_of_def)
next
  assume ok: "password_reset_confirm strong now (Some tok) p s = (Inr (), s1)"
  have step: "step_us strong cfg (Op_reset_confirm now (Some tok) p) s = Inr s1" by (simp add: step_us_def exec_us_def ok)
  have inv: "us_inv s1" by (rule step_us_inv[OF assms(1) step])
  obtain t where t: "token_row tok (au_resets (us_auth s)) = Some t"
    and s1: "au_resets (us_auth s1) = tbl_update (\<lambda>r. ut_token r = tok \<and> \<not> ut_is_used r)
      (\<lambda>r. r\<lparr>ut_is_used := True\<rparr>) (au_resets (us_auth s))"
    using ok by (auto simp: password_reset_confirm_def atomic_Inr revoke_sessions_def blacklist_user_tokens_def
        split: option.splits)
  have "token_row tok (au_resets (us_auth s1)) = map_option (\<lambda>r. if ut_token r = tok \<and> \<not> ut_is_used r
      then r\<lparr>ut_is_used := True\<rparr> else r) (token_row tok (au_resets (us_auth s)))"
    unfolding s1 token_row_def rows_tbl by (rule find_map_if) simp
  moreover have "ut_token t = tok" using t by (auto simp: token_row_def dest: find_row)
  ultimately have "settled_token s1 (Spent_reset tok) = Some ()" using t by (simp add: settled_token_def)
  from run_settled_us[OF inv this] have "settled_token s2 (Spent_reset tok) = Some ()" unfolding assms(2) .
  then obtain t' where "token_row tok (au_resets (us_auth s2)) = Some t'" "ut_is_used t'"
    by (auto simp: settled_token_def split: option.splits if_splits)
  then show "\<not> is_ok (fst (password_reset_confirm strong now' (Some tok) p' s2))"
    by (auto simp: password_reset_confirm_def atomic_def reset_token_error_def split: option.splits prod.splits)
qed

theorem tokens_serve_once_witness:
  "\<exists>a j' s1. token_refresh (hours 1 + 5) demo_cfg (Some 1) None ann_signed_in = (Inr (a, j'), s1)
     \<and> token_refresh (hours 1 + 9) demo_cfg (Some 1) None s1 = (Inl NotAuthenticated, s1)"
proof -
  have "is_ok (fst (token_refresh (hours 1 + 5) demo_cfg (Some 1) None ann_signed_in))" by code_simp
  then obtain a j' s1 where s1: "token_refresh (hours 1 + 5) demo_cfg (Some 1) None ann_signed_in = (Inr (a, j'), s1)"
    by (auto dest!: reply_ok)
  from tokens_serve_once[OF ann_signed_in_inv, of s1 any_strong demo_cfg "[]" s1, THEN conjunct1, THEN mp, OF _ s1] s1
  show ?thesis by auto
qed

end
