(* ===== verification/SessionExpiry.thy ===== *)
theory SessionExpiry
  imports SessionProps
begin

text \<open>
  The expiry of sessions: the absolute bound on a chain of refreshes, and the states in which an
  expired session comes back, a live one dies, or a limit is not applied at all.
\<close>

section \<open>The absolute limit\<close>

text \<open>
  A client that keeps refreshing: between two refreshes anything may happen, each refresh presents
  the token the previous one returned.
\<close>

fun follow ::
  "(user option \<Rightarrow> string \<Rightarrow> bool) \<Rightarrow> session_config \<Rightarrow> (us_op list \<times> datetime) list \<Rightarrow> access_token \<times> nat \<Rightarrow> us_state
   \<Rightarrow> ((access_token \<times> nat) \<times> us_state) option" where
  "follow strong cfg [] t s = Some (t, s)"
| "follow strong cfg ((xs, now) # hops) t s =
     (case token_refresh now cfg (Some (snd t)) None (run_us strong cfg xs s) of
        (Inl e, _) \<Rightarrow> None
      | (Inr t', s') \<Rightarrow> follow strong cfg hops t' s')"

text \<open>Both tokens of the client carry the start of the session.\<close>

definition started :: "datetime \<Rightarrow> access_token \<times> nat \<Rightarrow> us_state \<Rightarrow> bool" where
  "started c t s \<longleftrightarrow> at_session_created_at (fst t) = Some c \<and>
     (\<exists>r. refresh_row s (snd t) = Some r \<and> rt_session_created_at r = Some c)"

lemma whole_seconds_idem [simp]: "whole_seconds (whole_seconds t) = whole_seconds t"
  by (simp add: whole_seconds_def)

lemma started_run:
  assumes "started c t s" shows "started c t (run_us strong cfg xs s)"
proof -
  obtain r where r: "refresh_row s (snd t) = Some r" "rt_session_created_at r = Some c"
    using assms by (auto simp: started_def)
  obtain b where "refresh_row (run_us strong cfg xs s) (snd t) = Some (flag_blacklisted b r)"
    using run_keeps_row[OF r(1)] by blast
  with assms r(2) show ?thesis by (simp add: started_def flag_blacklisted_def)
qed

lemma started_refresh:
  assumes "us_inv s" "started c t s" "whole_seconds c = c"
    and ok: "token_refresh now cfg (Some (snd t)) None s = (Inr t', s')"
  shows "started c t' s'"
proof -
  obtain a' j' where t': "t' = (a', j')" by (cases t')
  obtain r where r: "refresh_row s (snd t) = Some r" "refresh_row s' j' = Some (rotated now cfg r j')"
    "a' = access_of now cfg r"
    using rotation_rows[OF _ ok[unfolded t']] assms(1) by (auto simp: us_inv_def)
  then have "rt_session_created_at r = Some c" using assms(2) by (simp add: started_def)
  with r assms(3) show ?thesis by (simp add: started_def t' access_of_def rotated_def)
qed

lemma follow_started:
  assumes "us_inv s" "started c t s" "whole_seconds c = c" "follow strong cfg hops t s = Some (t', s')"
  shows "started c t' s' \<and> us_inv s'"
  using assms
proof (induction hops arbitrary: t s)
  case (Cons h hops)
  obtain xs now where h: "h = (xs, now)" by (cases h)
  let ?s = "run_us strong cfg xs s"
  obtain t1 s1 where r: "token_refresh now cfg (Some (snd t)) None ?s = (Inr t1, s1)"
    and f: "follow strong cfg hops t1 s1 = Some (t', s')"
    using Cons.prems(4) by (auto simp: h split: prod.splits sum.splits)
  have "step_us strong cfg (Op_refresh now (Some (snd t)) None) ?s = Inr s1" by (simp add: step_us_def exec_us_def r)
  then have "us_inv s1" by (rule step_us_inv[OF run_inv_us[OF Cons.prems(1)]])
  moreover have "started c t1 s1"
    by (rule started_refresh[OF run_inv_us[OF Cons.prems(1)] started_run[OF Cons.prems(2)] Cons.prems(3) r])
  ultimately show ?case using Cons.IH Cons.prems(3) f by blast
qed simp

lemma issued_row:
  assumes "issue_refresh_token now cfg k rm s = (t, s')" "tbl_wf rt_id (au_refresh (us_auth s))"
  shows "fst t = access_of now cfg (the (refresh_row s' (snd t)))"
    "refresh_row s' (snd t) = Some (new_refresh k rm (Some (whole_seconds now))
       (whole_seconds (now + refresh_lifetime cfg rm)) (snd t))"
    "snd t = next_refresh s"
  using assms
  by (auto simp: issue_refresh_token_def Let_def refresh_row_add next_refresh_def)

lemma login_ok:
  assumes "login now cfg rq s = (Inr (u, t), s')"
  obtains s1 where "validate_login (us_acc s) rq = Inr u"
    "issue_refresh_token now cfg (u_id u) (lq_remember_me rq) s = (t, s1)" "s' = touch_last_activity now (u_id u) s1"
  using assms by (auto simp: login_def atomic_Inr split: sum.splits prod.splits)

lemma refresh_row_touch [simp]: "refresh_row (touch_last_activity now k s) j = refresh_row s j"
  by (simp add: refresh_row_def)

lemma login_started:
  assumes "us_inv s" "login now cfg rq s = (Inr (u, t), s')"
  shows "started (whole_seconds now) t s' \<and> us_inv s'"
proof -
  obtain s1 where i: "issue_refresh_token now cfg (u_id u) (lq_remember_me rq) s = (t, s1)"
    and s': "s' = touch_last_activity now (u_id u) s1"
    using assms(2) by (rule login_ok)
  have wf: "tbl_wf rt_id (au_refresh (us_auth s))" using assms(1) by (simp add: us_inv_def)
  have "step_us strong cfg (Op_login now rq) s = Inr s'" for strong
    by (cases t) (simp add: step_us_def exec_us_def assms(2))
  then have "us_inv s'" by (rule step_us_inv[OF assms(1)])
  with issued_row[OF i wf] show ?thesis by (simp add: started_def s' access_of_def)
qed

lemma session_checked:
  assumes "check_session now cfg u created s = (Inr v, s')"
  shows "\<not> is_absolute_session_expired now cfg created" "\<not> is_idle_session_expired now cfg u s"
    "\<not> cached now (us_absolute s) (u_id u)"
  using assms by (auto simp: check_session_def split: if_splits)

lemma whole_seconds_le: "whole_seconds t \<le> t"
  unfolding whole_seconds_def by presburger

text \<open>
  C25: the absolute limit bounds a session however often it is refreshed. If an access token, got at
  the end of any chain of refreshes that began with a login, is accepted later in any state of the
  system, or its refresh token is, then no more than the absolute timeout has passed since the login.
\<close>

theorem session_is_bounded:
  assumes "us_inv s" "ABSOLUTE_SESSION_TIMEOUT cfg > 0" "login t0 cfg rq s = (Inr (u, t), s0)"
    and "follow strong cfg hops t s0 = Some ((a, j), s1)" "s2 = run_us strong cfg xs s1"
    and "is_ok (fst (request now cfg a tracked f s2)) \<or> is_ok (fst (token_refresh now cfg (Some j) cookie s2))"
  shows "now \<le> t0 + ABSOLUTE_SESSION_TIMEOUT cfg"
proof -
  have s0: "started (whole_seconds t0) t s0" "us_inv s0" using login_started[OF assms(1,3)] by simp_all
  have "started (whole_seconds t0) (a, j) s2"
    unfolding assms(5) using follow_started[OF s0(2,1) _ assms(4)] by (intro started_run) simp
  then obtain r where a: "at_session_created_at a = Some (whole_seconds t0)"
    and r: "refresh_row s2 j = Some r" "rt_session_created_at r = Some (whole_seconds t0)"
    by (auto simp: started_def)
  have "\<not> is_absolute_session_expired now cfg (Some (whole_seconds t0))" using assms(6)
  proof
    assume "is_ok (fst (request now cfg a tracked f s2))"
    then obtain x s3 where "request now cfg a tracked f s2 = (Inr x, s3)" by (auto dest: reply_ok)
    then obtain v where "authenticate now cfg a s2 = (Inr v, s2)" by (rule request_ok)
    then show ?thesis
      by (auto simp: authenticate_def a split: if_splits option.splits prod.splits sum.splits dest: session_checked(1))
  next
    assume "is_ok (fst (token_refresh now cfg (Some j) cookie s2))"
    then obtain a' j' s3 where "token_refresh now cfg (Some j) cookie s2 = (Inr (a', j'), s3)" by (auto dest!: reply_ok)
    then obtain r' v where "refresh_row s2 j = Some r'" "check_session now cfg v (rt_session_created_at r') s2 = (Inr (), s2)"
      by (rule token_refresh_ok)
    with r show ?thesis by (auto dest: session_checked(1))
  qed
  then show ?thesis
    using assms(2) whole_seconds_le[of t0] by (simp add: is_absolute_session_expired_def)
qed

theorem session_is_bounded_witness:
  "\<exists>s0 t a j s1. login (hours 1) demo_cfg ann_logs_in demo_us = (Inr (ann, t), s0)
     \<and> follow any_strong demo_cfg [([], hours 1 + minutes 2)] t s0 = Some ((a, j), s1)
     \<and> is_ok (fst (request (hours 1 + minutes 4) demo_cfg a True (\<lambda>u s. (Inr (), s)) s1))
     \<and> hours 1 + minutes 4 \<le> hours 1 + ABSOLUTE_SESSION_TIMEOUT demo_cfg"
proof -
  have "is_ok (fst (login (hours 1) demo_cfg ann_logs_in demo_us))
      \<and> map_sum id fst (fst (login (hours 1) demo_cfg ann_logs_in demo_us)) = Inr ann" by code_simp
  then obtain t s0 where s0: "login (hours 1) demo_cfg ann_logs_in demo_us = (Inr (ann, t), s0)"
    by (auto dest!: reply_ok)
  have "(case login (hours 1) demo_cfg ann_logs_in demo_us of (Inr (u, t), s0) \<Rightarrow>
      (case follow any_strong demo_cfg [([], hours 1 + minutes 2)] t s0 of Some ((a, j), s1) \<Rightarrow>
        is_ok (fst (request (hours 1 + minutes 4) demo_cfg a True (\<lambda>u s. (Inr (), s)) s1)) | None \<Rightarrow> False)
      | _ \<Rightarrow> False)" by code_simp
  then obtain a j s1 where s1: "follow any_strong demo_cfg [([], hours 1 + minutes 2)] t s0 = Some ((a, j), s1)"
    and ok: "is_ok (fst (request (hours 1 + minutes 4) demo_cfg a True (\<lambda>u s. (Inr (), s)) s1))"
    by (simp only: s0) (auto split: option.splits prod.splits simp del: follow.simps)
  have "ABSOLUTE_SESSION_TIMEOUT demo_cfg > 0" by code_simp
  from session_is_bounded[OF demo_us_inv this s0 s1, of s1 "[]", OF _ disjI1[OF ok]] s0 s1 ok
  show ?thesis by auto
qed

section \<open>Idle expiry\<close>

lemma issued_keeps_row:
  assumes "issue_refresh_token now cfg k rm s = (t, s')" "tbl_wf rt_id (au_refresh (us_auth s))" "refresh_row s j = Some r"
  shows "refresh_row s' j = Some r"
proof -
  have "refresh_row (clear_session_markers k s) i = refresh_row s i" for i
    by (simp add: refresh_row_def)
  moreover have "next_refresh (clear_session_markers k s) = next_refresh s" by (simp add: next_refresh_def)
  ultimately show ?thesis
    using assms refresh_row_fresh[OF assms(2,3)]
    by (auto simp: issue_refresh_token_def Let_def refresh_row_add)
qed

text \<open>
  An expired idle session comes back. The request that finds the session idle is answered 401 and
  rolled back with the blacklisting it did; only the mark in the cache stays, and the next login of the
  user removes it. The old refresh token is then accepted again.
\<close>

theorem idle_session_comes_back:
  assumes inv: "us_inv s"
    and idle: "token_refresh t1 cfg (Some j) None s = (Inl SessionIdleTimeout, s1)"
    and again: "login t2 cfg rq s1 = (Inr (u, t), s2)"
    and r: "refresh_row s j = Some r" "rt_user r = u_id u" "t2 < rt_expires_at r"
    and young: "\<not> is_absolute_session_expired t2 cfg (rt_session_created_at r)"
  shows "\<exists>t' s3. token_refresh t2 cfg (Some j) None s2 = (Inr t', s3)"
proof -
  have live: "\<not> rt_blacklisted r" "us_cp s1 = us_cp s"
    using idle r(1) by (auto simp: token_refresh_def atomic_def verify_refresh_def SessionIdleTimeout_def
        split: option.splits if_splits prod.splits sum.splits)
  have auth: "us_auth s1 = us_auth s" "us_acc s1 = us_acc s" by (simp_all add: us_auth_def us_acc_def live(2))
  have wf: "tbl_wf rt_id (au_refresh (us_auth s1))" using inv by (simp add: us_inv_def auth)
  obtain s1' where v: "validate_login (us_acc s1) rq = Inr u"
    and i: "issue_refresh_token t2 cfg (u_id u) (lq_remember_me rq) s1 = (t, s1')"
    and s2: "s2 = touch_last_activity t2 (u_id u) s1'"
    using again by (rule login_ok)
  have "refresh_row s1 j = Some r" using r(1) by (simp add: refresh_row_def auth)
  then have "refresh_row s2 j = Some r" unfolding s2 refresh_row_touch by (rule issued_keeps_row[OF i wf])
  then have ver: "verify_refresh t2 j s2 = Some r" using r(3) live(1) by (simp add: verify_refresh_def)
  have acc: "us_acc s1' = us_acc s1"
    using i by (auto simp: issue_refresh_token_def Let_def add_refresh_def us_acc_def)
  have "u \<in> set (rows (ac_users (us_acc s1)))"
    using v by (auto simp: validate_login_def backend_authenticate_def Let_def split: option.splits if_splits dest!: find_row)
  then have row: "tbl_get u_id (u_id u) (ac_users (us_acc s1)) = Some u"
    using inv by (simp add: us_inv_def cp_inv_def users_ok_def us_acc_def live(2) tbl_get_row)
  have wfu: "tbl_wf u_id (ac_users (us_acc s1))"
    using inv by (simp add: us_inv_def cp_inv_def users_ok_def us_acc_def live(2))
  have get: "tbl_get u_id (rt_user r) (ac_users (us_acc s2)) = Some (u\<lparr>u_last_login := Some t2\<rparr>)"
    using tbl_get_update[OF wfu, of "\<lambda>v. u_id v = u_id u" "\<lambda>v. v\<lparr>u_last_login := Some t2\<rparr>" "u_id u"] row
    by (simp add: s2 touch_last_activity_def us_acc_def acc[unfolded us_acc_def] r(2))
  have marks: "us_idle s2 (u_id u) = None" "us_absolute s2 (u_id u) = None"
    using i by (auto simp: s2 touch_last_activity_def issue_refresh_token_def Let_def add_refresh_def on_auth_def
        clear_session_markers_def)
  have "check_session t2 cfg (u\<lparr>u_last_login := Some t2\<rparr>) (rt_session_created_at r) s2 = (Inr (), s2)"
    using young by (simp add: check_session_def cached_def marks is_idle_session_expired_def)
  with ver get show ?thesis by (simp add: token_refresh_def atomic_Inr rotate_def)
qed

theorem idle_session_comes_back_witness:
  "\<exists>s1 u t s2 t' s3. token_refresh (hours 1 + minutes 6) demo_cfg (Some 1) None ann_signed_in = (Inl SessionIdleTimeout, s1)
     \<and> login (hours 1 + minutes 7) demo_cfg ann_logs_in s1 = (Inr (u, t), s2)
     \<and> token_refresh (hours 1 + minutes 7) demo_cfg (Some 1) None s2 = (Inr t', s3)"
proof -
  have "fst (token_refresh (hours 1 + minutes 6) demo_cfg (Some 1) None ann_signed_in) = Inl SessionIdleTimeout" by code_simp
  then obtain s1 where s1: "token_refresh (hours 1 + minutes 6) demo_cfg (Some 1) None ann_signed_in = (Inl SessionIdleTimeout, s1)"
    by (cases "token_refresh (hours 1 + minutes 6) demo_cfg (Some 1) None ann_signed_in") auto
  have "(case token_refresh (hours 1 + minutes 6) demo_cfg (Some 1) None ann_signed_in of (x, s1) \<Rightarrow>
      map_sum id (\<lambda>(u, t). u_id u) (fst (login (hours 1 + minutes 7) demo_cfg ann_logs_in s1)) = Inr 3)" by code_simp
  then obtain u t s2 where s2: "login (hours 1 + minutes 7) demo_cfg ann_logs_in s1 = (Inr (u, t), s2)" "u_id u = 3"
    by (simp only: s1) (cases "login (hours 1 + minutes 7) demo_cfg ann_logs_in s1"; cases "fst (login (hours 1 + minutes 7) demo_cfg ann_logs_in s1)"; auto)
  have "(case refresh_row ann_signed_in 1 of None \<Rightarrow> False | Some r \<Rightarrow> rt_user r = 3 \<and> hours 1 + minutes 7 < rt_expires_at r
      \<and> \<not> is_absolute_session_expired (hours 1 + minutes 7) demo_cfg (rt_session_created_at r))" by code_simp
  then obtain r where r: "refresh_row ann_signed_in 1 = Some r" "rt_user r = 3" "hours 1 + minutes 7 < rt_expires_at r"
    "\<not> is_absolute_session_expired (hours 1 + minutes 7) demo_cfg (rt_session_created_at r)"
    by (auto split: option.splits)
  from idle_session_comes_back[OF ann_signed_in_inv s1 s2(1) r(1) _ r(3,4)] r(2) s2 s1 show ?thesis by auto
qed

end
