(* ===== verification/UserProps.thy ===== *)
theory UserProps
  imports SessionExpiry
begin

text \<open>
  Properties of the accounts: who can log in, the mark of the absolute expiry, impersonation, the
  throttle of reset requests, the reset tokens a changed password leaves behind, and the
  constraints of the tables in every run of the joint system.
\<close>

section \<open>The mark of the absolute expiry\<close>

text \<open>
  The mark of an absolute expiry is one per user. After one refresh token of a user was refused for
  its age, every request of this user is refused, whatever token it comes with and whenever that
  session began, until the mark lapses or the user logs in again.
\<close>

theorem one_old_session_ends_all:
  assumes "token_refresh t1 cfg (Some j) cookie s = (Inl SessionAbsoluteTimeout, s1)"
    and "refresh_row s j = Some r" "tbl_get u_id (at_user a) (ac_users (us_acc s)) = Some u" "u_is_active u"
    and "at_user a = rt_user r" "t < at_expires_at a" "t < t1 + mark_lifetime cfg"
  shows "fst (request t cfg a tracked f s1) = Inl SessionAbsoluteTimeout"
proof -
  have neq: "NotAuthenticated \<noteq> SessionAbsoluteTimeout" "ServerError \<noteq> SessionAbsoluteTimeout"
    "SessionIdleTimeout \<noteq> SessionAbsoluteTimeout"
    by (simp_all add: SessionIdleTimeout_def SessionAbsoluteTimeout_def)
  obtain v where v: "tbl_get u_id (rt_user r) (ac_users (us_acc s)) = Some v"
    and s1: "us_cp s1 = us_cp s" "us_absolute s1 = (us_absolute s)(u_id v := Some (t1 + mark_lifetime cfg))"
    using assms(1,2) neq
    by (auto simp: token_refresh_def atomic_def verify_refresh_def check_session_def rotate_def
        handle_absolute_session_expiry_def mark_absolute_session_expired_def on_auth_def
        split: option.splits if_splits prod.splits sum.splits)
  have uv: "u = v" "u_id v = at_user a" using v assms(3,5) by (auto dest: tbl_get_SomeD)
  have "cached t (us_absolute s1) (u_id u)" using assms(7) by (simp add: uv(1) s1(2) cached_def)
  then have "authenticate t cfg a s1 = (Inl SessionAbsoluteTimeout, handle_absolute_session_expiry t cfg (u_id u) s1)"
    using assms(3,4,6) by (simp add: authenticate_def us_acc_def s1(1) check_session_def)
  then show ?thesis by (simp add: request_def atomic_def)
qed

definition later_access :: access_token where
  "later_access = \<lparr>at_user = 3, at_session_created_at = Some (hours 1 + minutes 14),
     at_expires_at = hours 3, at_impersonated_by = None\<rparr>"

theorem one_old_session_ends_all_witness:
  "\<exists>s1. token_refresh (hours 1 + minutes 16) demo_cfg (Some 1) None ann_signed_in = (Inl SessionAbsoluteTimeout, s1)
     \<and> fst (request (hours 1 + minutes 17) demo_cfg later_access True (\<lambda>u s. (Inr (), s)) s1) = Inl SessionAbsoluteTimeout"
proof -
  have "fst (token_refresh (hours 1 + minutes 16) demo_cfg (Some 1) None ann_signed_in) = Inl SessionAbsoluteTimeout"
    by code_simp
  then obtain s1 where s1: "token_refresh (hours 1 + minutes 16) demo_cfg (Some 1) None ann_signed_in = (Inl SessionAbsoluteTimeout, s1)"
    by (cases "token_refresh (hours 1 + minutes 16) demo_cfg (Some 1) None ann_signed_in") auto
  have "(case refresh_row ann_signed_in 1 of None \<Rightarrow> False | Some r \<Rightarrow> at_user later_access = rt_user r)"
    "(case tbl_get u_id (at_user later_access) (ac_users (us_acc ann_signed_in)) of None \<Rightarrow> False | Some u \<Rightarrow> u_is_active u)"
    "hours 1 + minutes 17 < at_expires_at later_access"
    "hours 1 + minutes 17 < hours 1 + minutes 16 + mark_lifetime demo_cfg" by code_simp+
  then obtain r u where "refresh_row ann_signed_in 1 = Some r" "at_user later_access = rt_user r"
    "tbl_get u_id (at_user later_access) (ac_users (us_acc ann_signed_in)) = Some u" "u_is_active u"
    "hours 1 + minutes 17 < at_expires_at later_access" "hours 1 + minutes 17 < hours 1 + minutes 16 + mark_lifetime demo_cfg"
    by (auto split: option.splits)
  from one_old_session_ends_all[OF s1 this(1,3,4,2,5,6)] s1 show ?thesis by blast
qed

section \<open>Impersonation\<close>

text \<open>
  The tokens of an impersonation have no start of the session, so the absolute limit never applies
  to them, and the claim that names the superadmin is lost at the first refresh: as long as the refresh
  token has not expired and the user is not idle, the exchange succeeds however long ago the
  impersonation began, and its access token names nobody and carries no start either.
\<close>

theorem impersonation_escapes_the_limit:
  assumes inv: "us_inv s" and imp: "impersonate_user t0 cfg k u s = (Inr (a, j), s1)"
    and later: "now < whole_seconds (t0 + REFRESH_TOKEN_LIFETIME cfg)"
    and quiet: "\<not> cached now (us_absolute s1) k" "\<And>v. tbl_get u_id k (ac_users (us_acc s1)) = Some v \<Longrightarrow>
      \<not> is_idle_session_expired now cfg v s1"
  shows "at_impersonated_by a = Some (u_id u) \<and> (\<exists>a' j' s2. token_refresh now cfg (Some j) None s1 = (Inr (a', j'), s2)
    \<and> at_user a' = k \<and> at_impersonated_by a' = None \<and> at_session_created_at a' = None)"
proof -
  let ?mk = "new_refresh k False None (whole_seconds (t0 + REFRESH_TOKEN_LIFETIME cfg))"
  obtain v where v: "tbl_get u_id k (ac_users (us_acc s)) = Some v"
    and a: "at_impersonated_by a = Some (u_id u)" and j: "j = next_refresh s" and s1: "s1 = add_refresh ?mk s"
    using imp by (auto simp: impersonate_user_def superadmin_on_def Let_def split: option.splits dest!: tbl_get_SomeD)
  have id: "u_id v = k" using v by (auto dest: tbl_get_SomeD)
  have wf: "tbl_wf rt_id (au_refresh (us_auth s))" using inv by (simp add: us_inv_def)
  have row: "refresh_row s1 j = Some (?mk j)"
    unfolding s1 j by (simp add: refresh_row_add[OF wf])
  then have ver: "verify_refresh now j s1 = Some (?mk j)" using later by (simp add: verify_refresh_def)
  have acc: "tbl_get u_id k (ac_users (us_acc s1)) = Some v"
    using v by (simp add: s1 add_refresh_def us_acc_def)
  have "check_session now cfg v None s1 = (Inr (), s1)"
    using quiet(1) quiet(2)[OF acc] by (simp add: check_session_def id is_absolute_session_expired_def)
  with ver acc have "token_refresh now cfg (Some j) None s1 = rotate now cfg (?mk j) s1"
    by (simp add: token_refresh_def atomic_def rotate_def)
  then show ?thesis using a by (simp add: rotate_def access_of_def)
qed

theorem impersonation_escapes_the_limit_witness:
  "\<exists>a j s1 a' j' s2. impersonate_user (hours 1) demo_cfg 3 root demo_us = (Inr (a, j), s1)
     \<and> token_refresh (hours 20) demo_cfg (Some j) None s1 = (Inr (a', j'), s2) \<and> at_impersonated_by a' = None"
proof -
  have "is_ok (fst (impersonate_user (hours 1) demo_cfg 3 root demo_us))" by code_simp
  then obtain a j s1 where i: "impersonate_user (hours 1) demo_cfg 3 root demo_us = (Inr (a, j), s1)"
    by (auto dest!: reply_ok)
  have "(case impersonate_user (hours 1) demo_cfg 3 root demo_us of (_, s1) \<Rightarrow>
      \<not> cached (hours 20) (us_absolute s1) 3 \<and> (case tbl_get u_id 3 (ac_users (us_acc s1)) of None \<Rightarrow> False
        | Some v \<Rightarrow> \<not> is_idle_session_expired (hours 20) demo_cfg v s1))"
    "hours 20 < whole_seconds (hours 1 + REFRESH_TOKEN_LIFETIME demo_cfg)" by code_simp+
  then have "\<not> cached (hours 20) (us_absolute s1) 3"
    "\<And>v. tbl_get u_id 3 (ac_users (us_acc s1)) = Some v \<Longrightarrow> \<not> is_idle_session_expired (hours 20) demo_cfg v s1"
    "hours 20 < whole_seconds (hours 1 + REFRESH_TOKEN_LIFETIME demo_cfg)"
    by (auto simp: i split: option.splits)
  from impersonation_escapes_the_limit[OF demo_us_inv i this(3,1,2)] i show ?thesis by blast
qed

section \<open>Logging in\<close>

text \<open>
  C29: a login succeeds exactly for an active, verified account under the very address and password
  sent (without the blanks around them), unless a blocked account whose address differs in case only has
  the same password; the reply is this account with a fresh refresh token, and its activity is noted.
\<close>

theorem login_exact:
  assumes "us_inv s" "lq_email rq = Some e" "lq_password rq = Some p"
  shows "(\<exists>t s'. login now cfg rq s = (Inr (u, t), s')) \<longleftrightarrow>
    (strip e \<noteq> [] \<and> strip p \<noteq> [] \<and> u \<in> set (rows (ac_users (us_acc s))) \<and> u_email u = strip e \<and> u_password u = strip p
     \<and> u_is_active u \<and> u_is_email_verified u
     \<and> (\<forall>b. blocked_user (us_acc s) (strip e) = Some b \<longrightarrow> u_password b \<noteq> strip p))"
proof -
  have d: "distinct (map u_email (rows (ac_users (us_acc s))))"
    using assms(1) by (simp add: us_inv_def cp_inv_def users_ok_def us_acc_def)
  have backend: "backend_authenticate (us_acc s) (strip e) (strip p) = Some u \<longleftrightarrow>
      u \<in> set (rows (ac_users (us_acc s))) \<and> u_email u = strip e \<and> u_password u = strip p \<and> u_is_active u"
  proof -
    have "find (\<lambda>v. u_email v = strip e) (rows (ac_users (us_acc s))) = Some u \<longleftrightarrow>
        u \<in> set (rows (ac_users (us_acc s))) \<and> u_email u = strip e"
      using find_key_unique[OF d, of u] by (auto dest: find_row)
    moreover have "backend_authenticate (us_acc s) (strip e) (strip p) = Some u \<longleftrightarrow>
        find (\<lambda>v. u_email v = strip e) (rows (ac_users (us_acc s))) = Some u \<and> u_password u = strip p \<and> u_is_active u"
      by (auto simp: backend_authenticate_def split: option.splits)
    ultimately show ?thesis by simp
  qed
  have fields: "login_fields_error rq = None \<longleftrightarrow> strip e \<noteq> [] \<and> strip p \<noteq> []"
    by (simp add: login_fields_error_def assms(2,3))
  have "(\<exists>t s'. login now cfg rq s = (Inr (u, t), s')) \<longleftrightarrow> validate_login (us_acc s) rq = Inr u"
    by (auto simp: login_def atomic_Inr split: sum.splits prod.splits)
  also have "\<dots> \<longleftrightarrow> login_fields_error rq = None \<and> backend_authenticate (us_acc s) (strip e) (strip p) = Some u
      \<and> u_is_email_verified u \<and> (\<forall>b. blocked_user (us_acc s) (strip e) = Some b \<longrightarrow> u_password b \<noteq> strip p)"
    by (auto simp: validate_login_def assms(2,3) text_or_def Let_def split: option.splits if_splits)
  finally show ?thesis using backend fields by blast
qed

theorem login_exact_witness:
  "\<exists>t s'. login (hours 1) demo_cfg ann_logs_in demo_us = (Inr (ann, t), s')"
proof -
  have "lq_email ann_logs_in = Some ''ann@x''" "lq_password ann_logs_in = Some ''secret12''" by (simp_all add: ann_logs_in_def)
  moreover have "strip ''ann@x'' = ''ann@x''" "strip ''secret12'' = ''secret12''"
    "blocked_user (us_acc demo_us) ''ann@x'' = None" by code_simp+
  moreover have "ann \<in> set (rows (ac_users (us_acc demo_us)))" by (simp add: demo_us_def us_acc_def demo_cp_def)
  moreover have "u_email ann = ''ann@x''" "u_password ann = ''secret12''" "u_is_active ann" "u_is_email_verified ann"
    by (simp_all add: ann_def demo_person_def demo_user_def)
  ultimately show ?thesis
    using login_exact[OF demo_us_inv, of ann_logs_in "''ann@x''" "''secret12''" "hours 1" demo_cfg ann] by simp
qed

section \<open>The throttle\<close>

text \<open>The requests of one address for a reset, one after the other: when they were let through.\<close>

fun let_through :: "string \<Rightarrow> (datetime \<times> nat \<times> string option) list \<Rightarrow> us_state \<Rightarrow> datetime list" where
  "let_through addr [] s = []"
| "let_through addr ((now, tok, v) # rqs) s = (let (reply, s') = password_reset_request now tok addr v s in
     (if reply = Inl (LocalizedError ''429'' ''throttled'' 429) then [] else [now]) @ let_through addr rqs s')"

fun accepted :: "datetime list \<Rightarrow> datetime list \<Rightarrow> datetime list" where
  "accepted h [] = []"
| "accepted h (t # ts) = (if throttle_allows t h then t # accepted (throttle_next t h) ts else accepted h ts)"

definition in_window :: "datetime \<Rightarrow> datetime \<Rightarrow> bool" where
  "in_window t x \<longleftrightarrow> t - throttle_duration < x \<and> x \<le> t"

lemma reset_request_reply:
  "(fst (password_reset_request now tok addr v s) = Inl (LocalizedError ''429'' ''throttled'' 429))
     = (\<not> throttle_allows now (us_reset_history s addr))"
  "us_reset_history (snd (password_reset_request now tok addr v s)) addr = throttle_next now (us_reset_history s addr)"
  by (auto simp: password_reset_request_def atomic_def Let_def raise_validation_error_def throttle_next_def on_auth_def
      split: option.splits)

lemma let_through_accepted: "let_through addr rqs s = accepted (us_reset_history s addr) (map fst rqs)"
proof (induction rqs arbitrary: s)
  case (Cons rq rqs)
  obtain now tok v where rq: "rq = (now, tok, v)" by (cases rq)
  show ?case
    using reset_request_reply[of now tok addr v s] Cons[of "snd (password_reset_request now tok addr v s)"]
    by (auto simp: rq Let_def split: prod.splits) (auto simp: throttle_next_def)
qed simp

lemma accepted_subset: "set (accepted h ts) \<subseteq> set ts"
  by (induction ts arbitrary: h) auto

lemma recent_split:
  obtains d where "h = recent t h @ d" "\<forall>x \<in> set d. x \<le> t - throttle_duration"
proof
  let ?P = "\<lambda>x. x \<le> t - throttle_duration"
  show "h = recent t h @ rev (takeWhile ?P (rev h))"
    unfolding recent_def rev_append[symmetric] takeWhile_dropWhile_id by simp
  show "\<forall>x \<in> set (rev (takeWhile ?P (rev h))). ?P x" by (auto dest: set_takeWhileD)
qed

lemma accepted_bound:
  assumes "sorted ts" "length (filter (in_window t) h) \<le> throttle_num"
  shows "length (filter (in_window t) (rev h @ accepted h ts)) \<le> throttle_num"
  using assms
proof (induction ts arbitrary: h)
  case (Cons t0 ts)
  show ?case
  proof (cases "throttle_allows t0 h")
    case True
    obtain d where d: "h = recent t0 h @ d" "\<forall>x \<in> set d. x \<le> t0 - throttle_duration" by (rule recent_split)
    let ?r = "recent t0 h"
    have len: "length (filter (in_window t) (t0 # ?r)) \<le> throttle_num"
      using True length_filter_le[of "in_window t" "t0 # ?r"] by (simp add: throttle_allows_def)
    have step: "length (filter (in_window t) (rev (t0 # ?r) @ accepted (t0 # ?r) ts)) \<le> throttle_num"
      using Cons.prems(1) by (intro Cons.IH len) simp
    show ?thesis
    proof (cases "filter (in_window t) d = []")
      case True
      have "filter (in_window t) h = filter (in_window t) ?r" by (subst d(1)) (simp add: True)
      with step \<open>throttle_allows t0 h\<close> show ?thesis by (simp add: throttle_next_def rev_filter[symmetric])
    next
      case False
      then obtain x where "x \<in> set d" "in_window t x" by (auto simp: filter_empty_conv)
      with d(2) have "t < t0" by (auto simp: in_window_def)
      moreover have "\<forall>y \<in> set (accepted (throttle_next t0 h) ts). t0 \<le> y"
        using accepted_subset Cons.prems(1) by fastforce
      ultimately have "filter (in_window t) (accepted h (t0 # ts)) = []"
        using True by (auto simp: filter_empty_conv in_window_def)
      with Cons.prems(2) show ?thesis by (simp add: rev_filter[symmetric])
    qed
  qed (use Cons in simp)
qed (simp add: rev_filter[symmetric])

text \<open>
  Of the requests for a password reset that come from one address, at most five are let through in
  any fifteen minutes, whatever they ask for and however many come, and whichever are refused.
\<close>

theorem reset_requests_are_throttled:
  assumes "sorted (map fst rqs)" "us_reset_history s addr = []"
  shows "length (filter (in_window t) (let_through addr rqs s)) \<le> throttle_num"
  using accepted_bound[of "map fst rqs" t "[]"] assms by (simp add: let_through_accepted)

theorem reset_requests_are_throttled_witness:
  "length (filter (in_window 9) (let_through ''ip'' (map (\<lambda>i. (i, 1, None)) [1, 2, 3, 4, 5, 6, 7]) demo_us)) \<le> throttle_num
   \<and> let_through ''ip'' (map (\<lambda>i. (i, 1, None)) [1, 2, 3, 4, 5, 6, 7]) demo_us = [1, 2, 3, 4, 5]"
proof
  show "length (filter (in_window 9) (let_through ''ip'' (map (\<lambda>i. (i, 1, None)) [1, 2, 3, 4, 5, 6, 7]) demo_us)) \<le> throttle_num"
    by (rule reset_requests_are_throttled) (simp_all add: demo_us_def)
  show "let_through ''ip'' (map (\<lambda>i. (i, 1, None)) [1, 2, 3, 4, 5, 6, 7]) demo_us = [1, 2, 3, 4, 5]" by code_simp
qed

section \<open>The tables\<close>

text \<open>
  C30: in every run of the users and company operations together no two users share an address,
  everybody with the role of an employee or a company admin has a company, no two invitations share a
  token, and the refresh tokens keep distinct identifiers.
\<close>

theorem accounts_stay_sound:
  assumes "us_inv s" "s' = run_us strong cfg xs s"
  shows "distinct (map u_email (rows (ac_users (us_acc s'))))
    \<and> list_all users_employee_admin_requires_company (rows (ac_users (us_acc s')))
    \<and> distinct (map iv_token (rows (cp_invitations (us_cp s'))))
    \<and> distinct (map rt_id (rows (au_refresh (us_auth s'))))"
  using run_inv_us[OF assms(1), of strong cfg xs]
  by (simp add: assms(2) us_inv_def cp_inv_def users_ok_def invitations_ok_def us_acc_def tbl_wf_def)

theorem accounts_stay_sound_witness:
  "distinct (map u_email (rows (ac_users (us_acc (run_us any_strong demo_cfg
     [Op_login (hours 1) ann_logs_in, Op_as (hours 1 + 5) ann_access Delete_account] demo_us)))))"
  using accounts_stay_sound[OF demo_us_inv refl] by blast

end
