(* ===== verification/MemberProps.thy ===== *)
theory MemberProps
  imports CompanyProps
begin

text \<open>
  Members and companies: the employee limit, the removal of a member, what a company admin can and
  cannot do, and where two endpoints for the same thing differ.
\<close>

section \<open>Counting members\<close>

definition counts_in :: "nat \<Rightarrow> user \<Rightarrow> bool" where
  "counts_in k u \<longleftrightarrow> u_company u = Some k \<and> u_is_active u \<and> u_role u \<noteq> Superadmin"

lemma employee_count_filter:
  "employee_count acc c = int (length (filter (counts_in (co_id c)) (rows (ac_users acc))))"
  by (simp add: employee_count_def counts_in_def[abs_def] tbl_filter_def)

lemma employee_count_save:
  assumes "tbl_wf u_id (ac_users acc)" "t \<in> set (rows (ac_users acc))" "u_id t' = u_id t"
    "ac_users acc' = tbl_save u_id t' (ac_users acc)"
  shows "employee_count acc' c + (if counts_in (co_id c) t then 1 else 0)
    = employee_count acc c + (if counts_in (co_id c) t' then 1 else 0)"
proof -
  have "tbl_get u_id (u_id t') (ac_users acc) = Some t"
    using assms(1-3) by (simp add: tbl_get_row)
  from tbl_save_count[OF assms(1) this, of "counts_in (co_id c)"] show ?thesis
    unfolding employee_count_filter assms(4) by (simp split: if_splits)
qed

lemma company_row_iff:
  "tbl_wf co_id (ac_companies (cp_acc s)) \<Longrightarrow> c \<in> set (rows (ac_companies (cp_acc s))) \<Longrightarrow>
   company_row s (co_id c) = Some c"
  by (simp add: company_row_def tbl_get_row)

lemma admit_count:
  assumes ad: "admit rq i s = Inr (k, s1)" and wf: "tbl_wf u_id (ac_users (cp_acc s))"
  shows "employee_count (cp_acc s1) c \<le> employee_count (cp_acc s) c + (if iv_company i = Some (co_id c) then 1 else 0)"
proof (cases "user_by_email (cp_acc s) (normalized_invite_email (iv_email i))")
  case None
  with ad have "ac_users (cp_acc s1) = tbl_insert (joined rq i) (ac_users (cp_acc s))"
    by (auto simp: admit_def Let_def add_user_def)
  then show ?thesis
    by (simp add: employee_count_filter counts_in_def joined_def new_user_def)
next
  case (Some u)
  then have u: "u \<in> set (rows (ac_users (cp_acc s)))" by (auto simp: user_by_email_def dest: find_row)
  from Some ad have "ac_users (cp_acc s1) = tbl_save u_id (rejoined rq i u) (ac_users (cp_acc s))"
    by (auto simp: admit_def)
  from employee_count_save[OF wf u _ this, of c] show ?thesis
    by (simp add: rejoined_def counts_in_def split: if_splits)
qed

text \<open>
  C14: a registration by invitation never takes a company over its employee limit: no company has more
  active members afterwards than before or than its limit.
\<close>

theorem registration_keeps_employee_limit:
  assumes res: "register_by_invite now vtok rq s = Inr s'"
    and wf: "tbl_wf u_id (ac_users (cp_acc s))" "tbl_wf co_id (ac_companies (cp_acc s))"
    and c: "c \<in> set (rows (ac_companies (cp_acc s)))"
  shows "employee_count (cp_acc s') c \<le> max (employee_count (cp_acc s) c) (co_max_employees c)"
proof -
  obtain tok i k s1 where acc: "accept_error now s i = None" and ad: "admit rq i s = Inr (k, s1)"
    and s': "cp_acc s' = cp_acc s1"
    using res by (rule register_ok) blast
  have "employee_count (cp_acc s) c < co_max_employees c" if "iv_company i = Some (co_id c)"
    using acc that by (simp add: accept_error_def company_full_def company_row_iff[OF wf(2) c] is_employee_limit_reached_def)
  then show ?thesis using admit_count[OF ad wf(1), of c] by (fastforce simp: s' split: if_splits)
qed

theorem registration_keeps_employee_limit_witness:
  "\<exists>s'. register_by_invite 50 5 demo_registration (demo_cp staff [demo_invitation]) = Inr s'
     \<and> employee_count (cp_acc s') demo_company \<le> 10"
proof -
  let ?s = "demo_cp staff [demo_invitation]"
  have "is_ok (register_by_invite 50 5 demo_registration ?s)" by code_simp
  then obtain s' where s': "register_by_invite 50 5 demo_registration ?s = Inr s'" by (auto simp: is_ok_iff)
  have "tbl_wf u_id (ac_users (cp_acc ?s))" "tbl_wf co_id (ac_companies (cp_acc ?s))"
    "demo_company \<in> set (rows (ac_companies (cp_acc ?s)))"
    by (simp_all add: demo_cp_def staff_def boss_def root_def tbl_wf_def demo_company_def)
  from registration_keeps_employee_limit[OF s' this]
  have "employee_count (cp_acc s') demo_company \<le> max (employee_count (cp_acc ?s) demo_company) (co_max_employees demo_company)" .
  moreover have "max (employee_count (cp_acc ?s) demo_company) (co_max_employees demo_company) = 10" by code_simp
  ultimately show ?thesis using s' by auto
qed

text \<open>Activation does not look at the limit: it brings back a member whatever the count is.\<close>

lemma activation_ignores_the_limit:
  assumes m: "member_of_company u k m s = Inr (c, t)" and wf: "tbl_wf u_id (ac_users (cp_acc s))"
    and t: "\<not> u_is_active t" "u_role t \<noteq> Superadmin"
  shows "\<exists>s'. activate_member u k m s = Inr s' \<and> employee_count (cp_acc s') c = employee_count (cp_acc s) c + 1"
proof -
  note row = member_of_company_row[OF m]
  have "employee_count (cp_acc (put_user (t\<lparr>u_is_active := True\<rparr>) s)) c = employee_count (cp_acc s) c + 1"
    using employee_count_save[OF wf row(3), of "t\<lparr>u_is_active := True\<rparr>"] t row(5,6)
    by (simp add: counts_in_def split: if_splits)
  then show ?thesis by (simp add: activate_member_def m)
qed

section \<open>Removing a member\<close>

lemma reassign_target_ok:
  "reassign_target c v s = Inr r \<Longrightarrow> r = (case v of None \<Rightarrow> None | Some w \<Rightarrow> w) \<and> v \<noteq> Some None
     \<and> (\<forall>i. r = Some i \<longrightarrow> (\<exists>x \<in> set (rows (ac_users (cp_acc s))). u_id x = i \<and> u_company x = Some c \<and> u_is_active x))"
  by (auto simp: reassign_target_def split: option.splits dest!: find_row)

lemma remove_member_users:
  assumes "remove_member u k m v s = Inr s'" "tbl_wf u_id (ac_users (cp_acc s))"
  shows "rows (ac_users (cp_acc s')) = map (\<lambda>x. if u_id x = m then stripped x else x) (rows (ac_users (cp_acc s)))"
proof -
  obtain c t r where m: "member_of_company u k m s = Inr (c, t)"
    and s': "s' = revoke_tokens m (put_user (stripped t) (settle_leaves t (co_id c) (reassign_tasks (co_id c) m r s)))"
    using assms(1) by (rule remove_member_ok)
  note row = member_of_company_row[OF m]
  have users: "ac_users (cp_acc s') = tbl_save u_id (stripped t) (ac_users (cp_acc s))" by (simp add: s')
  have id: "u_id (stripped t) = m" using row(4) by (simp add: stripped_def)
  have "x = t" if "x \<in> set (rows (ac_users (cp_acc s)))" "u_id x = m" for x
    using assms(2) row(3,4) that by (auto simp: tbl_wf_def distinct_map inj_on_def)
  then show ?thesis unfolding users tbl_save_def rows_tbl id by auto
qed

lemma remove_member_tokens:
  assumes "remove_member u k m v s = Inr s'" "r \<in> set (rows (au_refresh (cp_auth s')))" "rt_user r = m"
  shows "rt_blacklisted r"
proof -
  obtain s1 where "s' = revoke_tokens m s1" using assms(1) by (rule remove_member_ok) blast
  with assms(2,3) show ?thesis by (intro blacklisted_are_dead) (simp_all add: revoke_tokens_def)
qed

lemma settle_leaves_rows:
  "rows (cp_leaves (settle_leaves t c s)) = map (\<lambda>l.
     if lv_assigned_reviewer l = Some (u_id t) \<and> lv_company l = c \<and> lv_status l = Lr_pending
     then (if \<exists>a \<in> set (rows (ac_users (cp_acc s))). u_company a = Some c \<and> u_role a = Company_admin \<and> u_is_active a
               \<and> u_id a \<noteq> u_id t \<and> u_id a \<noteq> lv_user l
           then l\<lparr>lv_assigned_reviewer := None\<rparr> else l\<lparr>lv_status := Lr_cancelled, lv_assigned_reviewer := None\<rparr>)
     else l) (rows (cp_leaves s))"
  by (auto simp: settle_leaves_def settle_pending_leaves_def settle_leave_def hr_view_def is_active_admin_of_def list_ex_iff)

text \<open>
  C15: removing a member leaves nothing of the member in the company. The account becomes a deactivated
  guest without a company; every session token of it is blacklisted; every pending leave request of the
  company that waited for its review waits for any admin who can step in, and is cancelled when there is
  none but the author; every live task of the company that was assigned to it goes to the active member
  the admin named, or to nobody. No other row of these tables changes and none is added or deleted.
\<close>

theorem removal_is_complete:
  assumes "remove_member u k m v s = Inr s'" "tbl_wf u_id (ac_users (cp_acc s))"
  shows "rows (ac_users (cp_acc s')) = map (\<lambda>x. if u_id x = m
           then x\<lparr>u_company := None, u_is_active := False, u_role := Guest\<rparr> else x) (rows (ac_users (cp_acc s)))
    \<and> rows (au_refresh (cp_auth s')) = map (\<lambda>r. if rt_user r = m then r\<lparr>rt_blacklisted := True\<rparr> else r)
        (rows (au_refresh (cp_auth s)))
    \<and> rows (cp_leaves s') = map (\<lambda>l.
        if lv_assigned_reviewer l = Some m \<and> lv_company l = k \<and> lv_status l = Lr_pending
        then (if \<exists>a \<in> set (rows (ac_users (cp_acc s))). u_company a = Some k \<and> u_role a = Company_admin \<and> u_is_active a
                  \<and> u_id a \<noteq> m \<and> u_id a \<noteq> lv_user l
              then l\<lparr>lv_assigned_reviewer := None\<rparr> else l\<lparr>lv_status := Lr_cancelled, lv_assigned_reviewer := None\<rparr>)
        else l) (rows (cp_leaves s))
    \<and> rows (cp_tasks s') = map (\<lambda>x. if tk_assignee x = Some m \<and> \<not> tk_is_deleted x \<and> task_in_company s k x
           then x\<lparr>tk_assignee := (case v of None \<Rightarrow> None | Some w \<Rightarrow> w)\<rparr> else x) (rows (cp_tasks s))
    \<and> (\<forall>i. v = Some (Some i) \<longrightarrow> (\<exists>x \<in> set (rows (ac_users (cp_acc s))). u_id x = i \<and> u_company x = Some k \<and> u_is_active x))
    \<and> (cp_boards s', cp_columns s', cp_labels s', cp_bookings s', cp_invitations s', cp_balances s', cp_settings s')
      = (cp_boards s, cp_columns s, cp_labels s, cp_bookings s, cp_invitations s, cp_balances s, cp_settings s)"
proof -
  obtain c t r where m: "member_of_company u k m s = Inr (c, t)" and r: "reassign_target (co_id c) v s = Inr r"
    and s': "s' = revoke_tokens m (put_user (stripped t) (settle_leaves t (co_id c) (reassign_tasks (co_id c) m r s)))"
    using assms(1) by (rule remove_member_ok)
  note row = member_of_company_row[OF m]
  note frame = revoke_tokens_def put_user_def reassign_tasks_def settle_leaves_def
  have tokens: "rows (au_refresh (cp_auth s')) = map (\<lambda>r. if rt_user r = m then r\<lparr>rt_blacklisted := True\<rparr> else r)
      (rows (au_refresh (cp_auth s)))"
    by (simp add: s' frame blacklist_user_tokens_def)
  have "cp_leaves s' = cp_leaves (settle_leaves t k (reassign_tasks k m r s))"
    by (simp add: s' row(6) revoke_tokens_def put_user_def)
  then have leaves: "rows (cp_leaves s') = rows (cp_leaves (settle_leaves t k (reassign_tasks k m r s)))" by simp
  have "cp_leaves (reassign_tasks k m r s) = cp_leaves s" "cp_acc (reassign_tasks k m r s) = cp_acc s"
    by (simp_all add: reassign_tasks_def)
  note leaves = leaves[unfolded settle_leaves_rows this row(4)]
  have tasks: "rows (cp_tasks s') = map (\<lambda>x. if tk_assignee x = Some m \<and> \<not> tk_is_deleted x \<and> task_in_company s k x
      then x\<lparr>tk_assignee := (case v of None \<Rightarrow> None | Some w \<Rightarrow> w)\<rparr> else x) (rows (cp_tasks s))"
    using reassign_target_ok[OF r] by (simp add: s' frame row(6))
  have target: "\<forall>i. v = Some (Some i) \<longrightarrow>
      (\<exists>x \<in> set (rows (ac_users (cp_acc s))). u_id x = i \<and> u_company x = Some k \<and> u_is_active x)"
    using reassign_target_ok[OF r] row(6) by auto
  show ?thesis
    by (intro conjI remove_member_users[OF assms, unfolded stripped_def] tokens leaves tasks target) (simp add: s' frame)
qed

definition worker :: user where "worker = demo_person 3 Employee (Some 1) ''worker''"

text \<open>
  Employee 3 has a session and a task, and two leave requests wait for it: of employee 5, whom the admin 2
  can review instead, and of the admin.
\<close>

definition busy_worker :: cp_state where
  "busy_worker = (demo_cp [boss, worker, root, demo_person 5 Employee (Some 1) ''five''] [])\<lparr>
     cp_auth := demo_auth\<lparr>au_refresh := Table [\<lparr>rt_id = 1, rt_user = 3, rt_remember_me = False, rt_session_created_at = None,
       rt_expires_at = 100, rt_blacklisted = False\<rparr>] 2\<rparr>,
     cp_boards := Table [\<lparr>bo_id = 1, bo_company = 1, bo_name = ''b'', bo_description = [], bo_is_archived = False, bo_created_by = None\<rparr>] 2,
     cp_columns := Table [\<lparr>cl_id = 1, cl_board = 1, cl_name = ''c'', cl_position = 1, cl_wip_limit = 0\<rparr>] 2,
     cp_tasks := Table [\<lparr>tk_id = 1, tk_column = 1, tk_title = ''t'', tk_description = [], tk_priority = Medium,
       tk_position = 1, tk_assignee = Some 3, tk_created_by = None, tk_deadline = None, tk_labels = [],
       tk_is_archived = False, tk_is_deleted = False, tk_deleted_at = None, tk_created_at = 0\<rparr>] 2,
     cp_leaves := Table (map (\<lambda>(i, a). \<lparr>lv_id = i, lv_user = a, lv_company = 1, lv_type = Vacation, lv_status = Lr_pending,
       lv_start = 10, lv_end = 12, lv_comment = [], lv_assigned_reviewer = Some 3, lv_reviewed_by = None,
       lv_review_comment = [], lv_reviewed_at = None\<rparr>) [(1, 5), (2, 2)]) 3\<rparr>"

theorem removal_is_complete_witness:
  "\<exists>s'. remove_member boss 1 3 (Some (Some 2)) busy_worker = Inr s'
     \<and> map rt_blacklisted (rows (au_refresh (cp_auth s'))) = [True]
     \<and> map tk_assignee (rows (cp_tasks s')) = [Some 2]
     \<and> map (\<lambda>l. (lv_status l, lv_assigned_reviewer l)) (rows (cp_leaves s')) = [(Lr_pending, None), (Lr_cancelled, None)]"
proof -
  have "is_ok (remove_member boss 1 3 (Some (Some 2)) busy_worker)" by code_simp
  then obtain s' where s': "remove_member boss 1 3 (Some (Some 2)) busy_worker = Inr s'" by (auto simp: is_ok_iff)
  have "tbl_wf u_id (ac_users (cp_acc busy_worker))"
    by (simp add: busy_worker_def demo_cp_def boss_def worker_def root_def tbl_wf_def)
  note effect = removal_is_complete[OF s' this]
  have "task_in_company busy_worker 1 (hd (rows (cp_tasks busy_worker)))" by code_simp
  then show ?thesis
    using s' effect
    by (simp add: busy_worker_def demo_cp_def boss_def worker_def root_def demo_person_def demo_user_def)
qed

section \<open>What a company admin can do\<close>

lemma member_of_company_admin:
  assumes "u_role u = Company_admin" "get_company_object s u k = Inr c" "tbl_wf u_id (ac_users (cp_acc s))"
    "t \<in> set (rows (ac_users (cp_acc s)))" "u_company t = Some k"
  shows "member_of_company u k (u_id t) s = Inr (c, t)"
proof -
  have "co_id c = k" using get_company_object_row[OF assms(2)] by simp
  moreover have "find (\<lambda>u. u_id u = u_id t \<and> u_company u = Some k) (rows (ac_users (cp_acc s))) = Some t"
  proof (cases "find (\<lambda>u. u_id u = u_id t \<and> u_company u = Some k) (rows (ac_users (cp_acc s)))")
    case None
    then show ?thesis using assms(4,5) by (auto simp: find_None_iff)
  next
    case (Some x)
    then have "x \<in> set (rows (ac_users (cp_acc s)))" "u_id x = u_id t" by (auto dest: find_row)
    then have "x = t" using assms(3,4) by (auto simp: tbl_wf_def distinct_map inj_on_def)
    with Some show ?thesis by simp
  qed
  ultimately show ?thesis
    using assms(1,2) by (simp add: member_of_company_def permission_defs get_member_def require_simps)
qed

text \<open>
  An admin of a company can strip a superadmin who is assigned to that company of the account:
  the removal only protects company admins, so the superadmin becomes a deactivated guest whose
  sessions are dead, while the endpoint that changes roles refuses to touch a superadmin.
\<close>

theorem company_admin_can_strip_a_superadmin:
  assumes "u_role u = Company_admin" "get_company_object s u k = Inr c" "tbl_wf u_id (ac_users (cp_acc s))"
    and t: "t \<in> set (rows (ac_users (cp_acc s)))" "u_role t = Superadmin" "u_company t = Some k" "u_id t \<noteq> u_id u"
  shows "\<exists>s'. remove_member u k (u_id t) None s = Inr s'
      \<and> t\<lparr>u_company := None, u_is_active := False, u_role := Guest\<rparr> \<in> set (rows (ac_users (cp_acc s')))
      \<and> (\<forall>r \<in> set (rows (au_refresh (cp_auth s'))). rt_user r = u_id t \<longrightarrow> rt_blacklisted r)
      \<and> (\<forall>r. \<not> is_ok (change_member_role u k (u_id t) r s))"
proof -
  have m: "member_of_company u k (u_id t) s = Inr (c, t)"
    by (rule member_of_company_admin) fact+
  have "\<not> is_ok (change_member_role u k (u_id t) r s)" for r
    using t(2,4) by (simp add: change_member_role_def m require_simps)
  moreover obtain s' where s': "remove_member u k (u_id t) None s = Inr s'"
    using t(2,4) by (simp add: remove_member_def m reassign_target_def require_simps)
  moreover have "stripped t \<in> set (rows (ac_users (cp_acc s')))"
    using remove_member_users[OF s' assms(3)] t(1) by force
  moreover have "\<forall>r \<in> set (rows (au_refresh (cp_auth s'))). rt_user r = u_id t \<longrightarrow> rt_blacklisted r"
    using remove_member_tokens[OF s'] by blast
  ultimately show ?thesis unfolding stripped_def by blast
qed


definition wanderer :: user where "wanderer = demo_person 5 Superadmin (Some 1) ''wanderer''"

theorem company_admin_can_strip_a_superadmin_witness:
  "\<exists>s'. remove_member boss 1 5 None (demo_cp [boss, wanderer] []) = Inr s'
     \<and> wanderer\<lparr>u_company := None, u_is_active := False, u_role := Guest\<rparr> \<in> set (rows (ac_users (cp_acc s')))"
proof -
  let ?s = "demo_cp [boss, wanderer] []"
  have "u_role boss = Company_admin" by (simp add: boss_def)
  moreover have "get_company_object ?s boss 1 = Inr demo_company" by code_simp
  moreover have "tbl_wf u_id (ac_users (cp_acc ?s))" by (simp add: demo_cp_def boss_def wanderer_def tbl_wf_def)
  moreover have "wanderer \<in> set (rows (ac_users (cp_acc ?s)))" by (simp add: demo_cp_def)
  moreover have "u_role wanderer = Superadmin" "u_company wanderer = Some 1" "u_id wanderer \<noteq> u_id boss"
    by (simp_all add: boss_def wanderer_def)
  ultimately have "\<exists>s'. remove_member boss 1 (u_id wanderer) None ?s = Inr s'
      \<and> wanderer\<lparr>u_company := None, u_is_active := False, u_role := Guest\<rparr> \<in> set (rows (ac_users (cp_acc s')))"
    using company_admin_can_strip_a_superadmin by blast
  then show ?thesis by (simp add: wanderer_def)
qed

text \<open>
  The guard against demoting the last admin never meets the last admin. Whenever it refuses a
  request of an active admin, the target is a deactivated account and the caller stays an active admin
  of the company anyway; and a superadmin, for whom it does not apply, can demote the only active admin.
\<close>

theorem last_admin_guard_misses:
  assumes "tbl_wf u_id (ac_users (cp_acc s))" "u \<in> set (rows (ac_users (cp_acc s)))" "u_is_active u"
    and "change_member_role u k m v s
      = Inl (LocalizedError ''COMPANY_LAST_ADMIN_DEMOTION_FORBIDDEN'' ''company.last_admin_demotion_forbidden'' 400)"
  shows "(\<exists>t \<in> set (rows (ac_users (cp_acc s))). u_id t = m \<and> \<not> u_is_active t)
    \<and> u \<in> set (active_admins (cp_acc s) k) \<and> u_id u \<noteq> m"
proof -
  obtain c t where m: "member_of_company u k m s = Inr (c, t)" and ne: "u_id t \<noteq> u_id u"
    and t: "u_role t = Company_admin" and few: "length (active_admins (cp_acc s) (co_id c)) \<le> 1"
    and u: "u_role u \<noteq> Superadmin"
  proof (cases "member_of_company u k m s")
    case (Inl e)
    with assms(4) have "e = LocalizedError ''COMPANY_LAST_ADMIN_DEMOTION_FORBIDDEN'' ''company.last_admin_demotion_forbidden'' 400"
      by (simp add: change_member_role_def)
    with Inl show ?thesis
      by (auto simp: member_of_company_def permission_defs denied_def get_company_object_def get_member_def
          require_def split: option.splits sum.splits if_splits)
  next
    case (Inr p)
    then obtain c t where p: "member_of_company u k m s = Inr (c, t)" by (cases p) simp
    have "u_id t \<noteq> u_id u \<and> u_role t = Company_admin \<and> length (active_admins (cp_acc s) (co_id c)) \<le> 1 \<and> u_role u \<noteq> Superadmin"
      using assms(4) unfolding change_member_role_def p
      by (auto simp: company_error_def raise_validation_error_def Let_def require_def split: option.splits if_splits)
    with p that show ?thesis by blast
  qed
  note row = member_of_company_row[OF m]
  have u': "u_role u = Company_admin" using row(2) u by simp
  have "u_company u = Some k" using get_company_object_row[OF row(1)] u by simp
  then have adm: "u \<in> set (active_admins (cp_acc s) k)" using assms(2,3) u' by (simp add: active_admins_def)
  have "\<not> u_is_active t"
  proof
    assume "u_is_active t"
    then have "t \<in> set (active_admins (cp_acc s) k)" using row(3,5) t by (simp add: active_admins_def)
    moreover have "t \<noteq> u" using ne by blast
    ultimately have "card {t, u} \<le> length (active_admins (cp_acc s) k)"
      using adm by (intro order_trans[OF card_mono card_length]) auto
    with few \<open>t \<noteq> u\<close> row(6) show False by simp
  qed
  then show ?thesis using row(3,4) adm ne by blast
qed

definition sleeper :: user where "sleeper = (demo_person 6 Company_admin (Some 1) ''sleeper'')\<lparr>u_is_active := False\<rparr>"

theorem last_admin_guard_misses_witness:
  "\<not> is_ok (change_member_role boss 1 6 (Some Employee) (demo_cp [boss, sleeper] []))
     \<and> boss \<in> set (active_admins (cp_acc (demo_cp [boss, sleeper] [])) 1)"
proof -
  let ?s = "demo_cp [boss, sleeper] []"
  have e: "change_member_role boss 1 6 (Some Employee) ?s
      = Inl (LocalizedError ''COMPANY_LAST_ADMIN_DEMOTION_FORBIDDEN'' ''company.last_admin_demotion_forbidden'' 400)"
    by code_simp
  have "tbl_wf u_id (ac_users (cp_acc ?s))" "boss \<in> set (rows (ac_users (cp_acc ?s)))" "u_is_active boss"
    by (simp_all add: demo_cp_def boss_def sleeper_def tbl_wf_def demo_person_def demo_user_def)
  from last_admin_guard_misses[OF this e] e show ?thesis by simp
qed

text \<open>A superadmin demotes the only active admin.\<close>

lemma superadmin_demotes_the_last_admin:
  "is_ok (change_member_role root 1 2 (Some Employee) (demo_cp staff []))"
  "active_admins (cp_acc (demo_cp staff [])) 1 = [boss]"
  by code_simp+

section \<open>Two ways to switch a company off\<close>

lemma ball_update:
  "(\<forall>r \<in> set (rows (tbl_update P f t)). Q r) \<longleftrightarrow> (\<forall>x \<in> set (rows t). if P x then Q (f x) else Q x)"
  unfolding rows_tbl set_map ball_simps by (simp add: if_distrib[of Q])

text \<open>
  Switching a company off one at a time also deactivates its members and cancels its confirmed
  bookings; doing it in bulk only changes the company, so its members keep their access and their bookings.
\<close>

theorem bulk_deactivation_keeps_the_members:
  assumes "deactivate_company u k s = Inr s1" "bulk_deactivate_companies u [k] s = Inr (n, s2)"
  shows "(\<forall>m \<in> set (rows (ac_users (cp_acc s1))). u_company m = Some k \<longrightarrow> \<not> u_is_active m)
    \<and> (\<forall>b \<in> set (rows (cp_bookings s1)). b_company b = Some k \<longrightarrow> b_status b \<noteq> Confirmed)
    \<and> ac_users (cp_acc s2) = ac_users (cp_acc s) \<and> cp_bookings s2 = cp_bookings s
    \<and> (\<forall>c \<in> set (rows (ac_companies (cp_acc s1))). co_id c = k \<longrightarrow> \<not> co_is_active c)
    \<and> (\<forall>c \<in> set (rows (ac_companies (cp_acc s2))). co_id c = k \<and> \<not> co_is_deleted c \<longrightarrow> \<not> co_is_active c)"
proof -
  have s1: "s1 = s\<lparr>cp_acc := set_members_active k False (set_company_active k False (cp_acc s)),
         cp_bookings := tbl_update (\<lambda>b. b_company b = Some k \<and> b_status b = Confirmed)
           (\<lambda>b. b\<lparr>b_status := Cancelled\<rparr>) (cp_bookings s)\<rparr>"
    using assms(1) by (auto simp: deactivate_company_def split: option.splits sum.splits)
  have s2: "s2 = s\<lparr>cp_acc := (cp_acc s)\<lparr>ac_companies := tbl_update (\<lambda>c. (co_id c \<in> set [k] \<and> \<not> co_is_deleted c)
        \<and> co_is_active c) (\<lambda>c. c\<lparr>co_is_active := False\<rparr>) (ac_companies (cp_acc s))\<rparr>\<rparr>"
    using assms(2) by (simp add: bulk_deactivate_companies_def bulk_companies_def Let_def)
  have acc: "ac_users (cp_acc s1) = tbl_update (\<lambda>u. u_company u = Some k) (\<lambda>u. u\<lparr>u_is_active := False\<rparr>) (ac_users (cp_acc s))"
    "ac_companies (cp_acc s1) = tbl_update (\<lambda>c. co_id c = k) (\<lambda>c. c\<lparr>co_is_active := False\<rparr>) (ac_companies (cp_acc s))"
    "cp_bookings s1 = tbl_update (\<lambda>b. b_company b = Some k \<and> b_status b = Confirmed)
       (\<lambda>b. b\<lparr>b_status := Cancelled\<rparr>) (cp_bookings s)"
    "ac_companies (cp_acc s2) = tbl_update (\<lambda>c. (co_id c \<in> set [k] \<and> \<not> co_is_deleted c) \<and> co_is_active c)
       (\<lambda>c. c\<lparr>co_is_active := False\<rparr>) (ac_companies (cp_acc s))"
    by (simp_all add: s1 s2 set_members_active_def set_company_active_def)
  have "\<forall>m \<in> set (rows (ac_users (cp_acc s1))). u_company m = Some k \<longrightarrow> \<not> u_is_active m"
    "\<forall>b \<in> set (rows (cp_bookings s1)). b_company b = Some k \<longrightarrow> b_status b \<noteq> Confirmed"
    "\<forall>c \<in> set (rows (ac_companies (cp_acc s1))). co_id c = k \<longrightarrow> \<not> co_is_active c"
    "\<forall>c \<in> set (rows (ac_companies (cp_acc s2))). co_id c = k \<and> \<not> co_is_deleted c \<longrightarrow> \<not> co_is_active c"
    unfolding acc ball_update by auto
  moreover have "ac_users (cp_acc s2) = ac_users (cp_acc s)" "cp_bookings s2 = cp_bookings s" by (simp_all add: s2)
  ultimately show ?thesis by blast
qed

theorem bulk_deactivation_keeps_the_members_witness:
  "\<exists>s2. bulk_deactivate_companies root [1] (demo_cp staff []) = Inr (1, s2)
     \<and> ac_users (cp_acc s2) = ac_users (cp_acc (demo_cp staff []))"
proof -
  have "is_ok (deactivate_company root 1 (demo_cp staff []))" by code_simp
  then obtain s1 where s1: "deactivate_company root 1 (demo_cp staff []) = Inr s1" by (auto simp: is_ok_iff)
  have "map_sum id fst (bulk_deactivate_companies root [1] (demo_cp staff [])) = Inr 1" by code_simp
  then obtain s2 where s2: "bulk_deactivate_companies root [1] (demo_cp staff []) = Inr (1, s2)"
    by (cases "bulk_deactivate_companies root [1] (demo_cp staff [])") auto
  from bulk_deactivation_keeps_the_members[OF s1 s2] s2 show ?thesis by blast
qed

section \<open>Limits of a new company\<close>

text \<open>
  A new company gets the limits of its plan where none are sent, the limits that are sent
  otherwise, except that a sent limit that happens to be the one of the basic plan is overwritten by
  the plan's; and the company has settings from the start.
\<close>

theorem new_company_limits:
  assumes "create_company u rq s = Inr s'" "plan_default_limits (or_else Basic (rq_plan rq)) = (pe, pb, ps)"
  shows "\<exists>c \<in> set (rows (ac_companies (cp_acc s'))). co_id c = next_id (ac_companies (cp_acc s))
    \<and> co_max_employees c = (if rq_max_employees rq \<in> {None, Some 10} then pe else the (rq_max_employees rq))
    \<and> co_max_boards c = (if rq_max_boards rq \<in> {None, Some 1} then pb else the (rq_max_boards rq))
    \<and> co_storage_limit c = (if rq_storage_limit rq \<in> {None, Some 5000} then ps else the (rq_storage_limit rq))
    \<and> (\<exists>x \<in> set (rows (cp_settings s')). cs_company x = co_id c)"
proof -
  let ?k = "next_id (ac_companies (cp_acc s))"
  let ?s = "s\<lparr>cp_acc := (cp_acc s)\<lparr>ac_companies := tbl_insert (new_company rq) (ac_companies (cp_acc s))\<rparr>\<rparr>"
  have s': "s' = create_company_settings ?k ?s" using assms(1) by (simp add: create_company_def)
  have "new_company rq ?k \<in> set (rows (ac_companies (cp_acc s')))"
    unfolding s' create_company_settings_def by simp
  moreover have "\<exists>x \<in> set (rows (cp_settings s')). cs_company x = ?k"
    unfolding s' create_company_settings_def get_or_create_settings_def
    by (auto simp: default_company_settings_def split: option.splits dest: find_row)
  moreover have "co_id (new_company rq ?k) = ?k" by (simp add: new_company_def company_save_new_def Let_def split: prod.splits)
  moreover have "co_max_employees (new_company rq ?k)
      = (if rq_max_employees rq \<in> {None, Some 10} then pe else the (rq_max_employees rq))"
    by (cases "rq_max_employees rq") (simp_all add: new_company_def company_save_new_def Let_def assms(2)
        plan_default_limits_def[of Basic] or_else_def[of pe])
  moreover have "co_max_boards (new_company rq ?k)
      = (if rq_max_boards rq \<in> {None, Some 1} then pb else the (rq_max_boards rq))"
    by (cases "rq_max_boards rq") (simp_all add: new_company_def company_save_new_def Let_def assms(2)
        plan_default_limits_def[of Basic] or_else_def[of pb])
  moreover have "co_storage_limit (new_company rq ?k)
      = (if rq_storage_limit rq \<in> {None, Some 5000} then ps else the (rq_storage_limit rq))"
    by (cases "rq_storage_limit rq") (simp_all add: new_company_def company_save_new_def Let_def assms(2)
        plan_default_limits_def[of Basic] or_else_def[of ps])
  ultimately show ?thesis by (intro bexI[where x = "new_company rq ?k"]) simp_all
qed

definition ten_on_premium :: company_request where
  "ten_on_premium = \<lparr>rq_name = Some ''Big'', rq_description = None, rq_logo = None, rq_floor = None,
     rq_office_number = None, rq_categories = None, rq_plan = Some Premium, rq_max_employees = Some 10,
     rq_storage_limit = None, rq_max_boards = None, rq_floor_id = None\<rparr>"

theorem new_company_limits_witness:
  "\<exists>s'. create_company root ten_on_premium (demo_cp staff []) = Inr s'
     \<and> (\<exists>c \<in> set (rows (ac_companies (cp_acc s'))). co_id c = 2 \<and> co_max_employees c = 9999)"
proof -
  have "is_ok (create_company root ten_on_premium (demo_cp staff []))" by code_simp
  then obtain s' where s': "create_company root ten_on_premium (demo_cp staff []) = Inr s'" by (auto simp: is_ok_iff)
  have "plan_default_limits (or_else Basic (rq_plan ten_on_premium)) = (9999, 9999, 100000)" by code_simp
  from new_company_limits[OF s' this] s' show ?thesis
    by (auto simp: ten_on_premium_def demo_cp_def)
qed

end
