(* ===== verification/AdminScope.thy ===== *)
theory AdminScope
  imports MemberProps
begin

text \<open>
  How far a company admin reaches: the operations of \<open>apps/companies\<close> a company admin may call change
  the own company only, and never its plan, its limits or its activation.
\<close>

section \<open>Who calls\<close>

definition cp_actor :: "cp_op \<Rightarrow> user option" where
  "cp_actor x = (case x of Op_invite _ _ u _ _ \<Rightarrow> Some u | Op_invite_staff _ _ u _ \<Rightarrow> Some u | Op_revoke _ _ u _ _ \<Rightarrow> Some u
     | Op_resend _ _ _ u _ _ \<Rightarrow> Some u | Op_register _ _ _ \<Rightarrow> None | Op_check_expired _ \<Rightarrow> None
     | Op_create_company u _ \<Rightarrow> Some u | Op_update_company u _ _ _ \<Rightarrow> Some u | Op_destroy_company u _ _ \<Rightarrow> Some u
     | Op_read_settings u _ \<Rightarrow> Some u | Op_patch_settings _ u _ _ \<Rightarrow> Some u | Op_deactivate_company u _ \<Rightarrow> Some u
     | Op_activate_company u _ \<Rightarrow> Some u | Op_deactivate_member u _ _ \<Rightarrow> Some u | Op_activate_member u _ _ \<Rightarrow> Some u
     | Op_remove_member u _ _ _ \<Rightarrow> Some u | Op_change_role u _ _ _ \<Rightarrow> Some u | Op_wizard u _ \<Rightarrow> Some u
     | Op_skip_wizard u _ \<Rightarrow> Some u | Op_bulk_activate u _ \<Rightarrow> Some u | Op_bulk_deactivate u _ \<Rightarrow> Some u
     | Op_bulk_delete _ u _ \<Rightarrow> Some u)"

definition same_terms :: "company \<Rightarrow> company \<Rightarrow> bool" where
  "same_terms c c' \<longleftrightarrow> co_id c' = co_id c \<and> co_plan c' = co_plan c \<and> co_max_employees c' = co_max_employees c
     \<and> co_storage_limit c' = co_storage_limit c \<and> co_max_boards c' = co_max_boards c \<and> co_is_active c' = co_is_active c
     \<and> co_is_deleted c' = co_is_deleted c"

definition confined :: "nat \<Rightarrow> cp_state \<Rightarrow> cp_state \<Rightarrow> bool" where
  "confined own s s' \<longleftrightarrow>
     (\<forall>c \<in> set (rows (ac_companies (cp_acc s))). \<exists>c' \<in> set (rows (ac_companies (cp_acc s'))).
        same_terms c c' \<and> (co_id c \<noteq> own \<longrightarrow> c' = c))
   \<and> (\<forall>m \<in> set (rows (ac_users (cp_acc s))). u_company m \<noteq> Some own \<longrightarrow> m \<in> set (rows (ac_users (cp_acc s'))))
   \<and> (\<forall>i \<in> set (rows (cp_invitations s)). iv_company i \<noteq> Some own \<longrightarrow> i \<in> set (rows (cp_invitations s')))"

lemma same_terms_refl [simp]: "same_terms c c"
  by (simp add: same_terms_def)

lemma saved_other: "x \<in> set (rows t) \<Longrightarrow> key x \<noteq> key r \<Longrightarrow> x \<in> set (rows (tbl_save key r t))"
  unfolding tbl_save_def rows_tbl set_map by (rule image_eqI[where x = x]) simp_all

lemma saved_row: "x \<in> set (rows t) \<Longrightarrow> key x = key r \<Longrightarrow> r \<in> set (rows (tbl_save key r t))"
  unfolding tbl_save_def rows_tbl set_map by (rule image_eqI[where x = x]) simp_all

lemma saved_unique: "tbl_wf key t \<Longrightarrow> x \<in> set (rows t) \<Longrightarrow> y \<in> set (rows t) \<Longrightarrow> key x = key y \<Longrightarrow> x = y"
  by (auto simp: tbl_wf_def distinct_map inj_on_def)

lemma confined_refl: "cp_acc s' = cp_acc s \<Longrightarrow> cp_invitations s' = cp_invitations s \<Longrightarrow> confined own s s'"
  unfolding confined_def using same_terms_refl by metis

lemma confined_user:
  assumes "tbl_wf u_id (ac_users (cp_acc s))" "rewrites_user s t t' s'" "u_company t = Some own"
    "ac_companies (cp_acc s') = ac_companies (cp_acc s)"
  shows "confined own s s'"
proof -
  have "m \<in> set (rows (ac_users (cp_acc s')))" if "m \<in> set (rows (ac_users (cp_acc s)))" "u_company m \<noteq> Some own" for m
  proof -
    have "u_id m \<noteq> u_id t'"
      using saved_unique[OF assms(1) that(1), of t] assms(2,3) that(2) by (auto simp: rewrites_user_def)
    then show ?thesis using assms(2) that(1) by (simp add: rewrites_user_def saved_other)
  qed
  then show ?thesis
    using assms(2,4) same_terms_refl unfolding confined_def rewrites_user_def by metis
qed

lemma confined_company:
  assumes wf: "tbl_wf co_id (ac_companies (cp_acc s))" and c: "c \<in> set (rows (ac_companies (cp_acc s)))" "co_id c = own"
    "same_terms c c'"
    and s': "ac_companies (cp_acc s') = tbl_save co_id c' (ac_companies (cp_acc s))"
      "ac_users (cp_acc s') = ac_users (cp_acc s)" "cp_invitations s' = cp_invitations s"
  shows "confined own s s'"
proof -
  have "\<exists>y' \<in> set (rows (ac_companies (cp_acc s'))). same_terms y y' \<and> (co_id y \<noteq> own \<longrightarrow> y' = y)"
    if y: "y \<in> set (rows (ac_companies (cp_acc s)))" for y
  proof (cases "co_id y = own")
    case True
    then have "y = c" using saved_unique[OF wf y c(1)] c(2) by simp
    moreover have "c' \<in> set (rows (ac_companies (cp_acc s')))"
      unfolding s' using c by (intro saved_row[OF c(1)]) (simp add: same_terms_def)
    ultimately show ?thesis using c True by blast
  next
    case False
    then have "y \<in> set (rows (ac_companies (cp_acc s')))"
      unfolding s' using y c by (intro saved_other) (simp_all add: same_terms_def)
    then show ?thesis by (intro bexI[where x = y]) simp_all
  qed
  then show ?thesis unfolding confined_def s'(2,3) by blast
qed

lemma confined_invitations:
  assumes "cp_acc s' = cp_acc s"
    and "\<And>i. i \<in> set (rows (cp_invitations s)) \<Longrightarrow> iv_company i \<noteq> Some own \<Longrightarrow> i \<in> set (rows (cp_invitations s'))"
  shows "confined own s s'"
  unfolding confined_def assms(1) using assms(2) same_terms_refl by metis

section \<open>The operations\<close>

lemma admin_only:
  "u_role u = Company_admin \<Longrightarrow> IsSuperAdmin (Some u) = Some denied"
  by (simp add: permission_defs require_simps)

lemma open_invitation_company:
  assumes "open_invitation now f u c k s = Inr i" "u_role u = Company_admin" "u_company u = Some own"
  shows "i \<in> set (rows (cp_invitations s)) \<and> iv_company i = Some own"
proof -
  obtain cid where c: "c = Some cid" using assms(1,2) by (cases c) (simp_all add: open_invitation_def admin_only)
  obtain co where co: "invitation_company s u cid = Inr co" and g: "get_invitation now f (Some (co_id co)) k s = Inr i"
    using assms(1) unfolding c by (auto simp: open_invitation_def split: option.splits sum.splits)
  have own: "co_id co = own"
    using co assms(2,3) by (auto simp: invitation_company_def split: option.splits dest!: find_row)
  obtain qs where qs: "invitation_queryset now f (Some own) s = Inr qs" "find (\<lambda>i. iv_id i = k) qs = Some i"
    using g by (auto simp: get_invitation_def own split: sum.splits option.splits)
  then have i: "i \<in> set qs" by (auto dest: find_row)
  have "\<forall>j \<in> set qs. j \<in> set (rows (cp_invitations s)) \<and> iv_company j = Some own"
    using qs(1) by (auto simp: invitation_queryset_def by_flag_def Let_def split: option.splits sum.splits)
  with i show ?thesis by blast
qed

lemma put_invitation_keeps:
  assumes "tbl_wf iv_id (cp_invitations s)" "i \<in> set (rows (cp_invitations s))" "iv_company i = Some own" "iv_id i' = iv_id i"
    "j \<in> set (rows (cp_invitations s))" "iv_company j \<noteq> Some own"
  shows "j \<in> set (rows (tbl_save iv_id i' (cp_invitations s)))"
proof (rule saved_other[OF assms(5)])
  show "iv_id j \<noteq> iv_id i'" using saved_unique[OF assms(1,5,2)] assms(3,4,6) by auto
qed

lemma update_company_admin:
  assumes "update_company u p k rq s = Inr s'" "u_role u = Company_admin"
  obtains c where "get_company_object s u k = Inr c" "s' = put_company (admin_patch rq c) s"
  using assms by (auto simp: update_company_def split: option.splits sum.splits)

lemma settings_patch_admin:
  assumes "company_settings_patch d u k rq s = Inr s'"
  obtains c s1 where "get_company_object s u k = Inr c" "cp_acc s1 = cp_acc s" "cp_invitations s1 = cp_invitations s"
    "cp_acc s' = cp_acc (set_working_hours (sq_working_hours rq) c s1)" "cp_invitations s' = cp_invitations s1"
proof -
  from assms obtain c where c: "get_company_object s u k = Inr c"
    by (auto simp: company_settings_patch_def split: option.splits sum.splits)
  obtain x s1 where g: "get_or_create_settings (co_id c) s = (x, s1)" by (cases "get_or_create_settings (co_id c) s")
  have "cp_acc (put_settings y s1) = cp_acc s \<and> cp_invitations (put_settings y s1) = cp_invitations s" for y
    using settings_frame_pair[OF g] by simp
  moreover have "cp_acc s' = cp_acc (set_working_hours (sq_working_hours rq) c (put_settings (patched_settings rq x) s1))"
    "cp_invitations s' = cp_invitations (put_settings (patched_settings rq x) s1)"
    using assms by (auto simp: company_settings_patch_def c g Let_def split: option.splits if_splits)
  ultimately show ?thesis using that[OF c, of "put_settings (patched_settings rq x) s1"] by blast
qed


lemma put_company_confined:
  assumes "tbl_wf co_id (ac_companies (cp_acc s))" "get_company_object s u k = Inr c" "u_role u = Company_admin"
    "u_company u = Some own" "same_terms c c'" "cp_acc s' = cp_acc (put_company c' s)" "cp_invitations s' = cp_invitations s"
  shows "confined own s s'"
proof -
  have c: "c \<in> set (rows (ac_companies (cp_acc s)))" "co_id c = own"
    using get_company_object_row[OF assms(2)] assms(3,4) by auto
  show ?thesis
    by (rule confined_company[OF assms(1) c assms(5)]) (simp_all add: assms(6,7) put_company_def)
qed

lemma member_confined:
  assumes "tbl_wf u_id (ac_users (cp_acc s))" "member_of_company u k m s = Inr (c, t)" "u_role u = Company_admin"
    "u_company u = Some own" "rewrites_user s t t' s'" "ac_companies (cp_acc s') = ac_companies (cp_acc s)"
  shows "confined own s s'"
proof -
  have "u_company t = Some own"
    using member_of_company_row(5)[OF assms(2)] get_company_object_row[OF member_of_company_row(1)[OF assms(2)]]
      assms(3,4) by simp
  with assms show ?thesis by (intro confined_user[of s t t' s']) simp_all
qed

lemma invite_confined: "create_invitation now tok u k rq s = Inr s' \<Longrightarrow> confined own s s'"
  by (drule create_invitation_ok, intro confined_invitations) auto

lemma revoke_confined:
  assumes "revoke_invitation now f u c k s = Inr s'" "u_role u = Company_admin" "u_company u = Some own"
    and wf: "tbl_wf iv_id (cp_invitations s)"
  shows "confined own s s'"
proof -
  from assms(1) obtain i where i: "open_invitation now f u c k s = Inr i"
    and s': "s' = put_invitation (i\<lparr>iv_status := Iv_revoked, iv_used_at := Some now\<rparr>) s"
    by (auto simp: revoke_invitation_def split: sum.splits)
  note row = open_invitation_company[OF i assms(2,3)]
  have "j \<in> set (rows (cp_invitations s'))" if "j \<in> set (rows (cp_invitations s))" "iv_company j \<noteq> Some own" for j
    using put_invitation_keeps[OF wf, of i own "i\<lparr>iv_status := Iv_revoked, iv_used_at := Some now\<rparr>" j] row that
    by (simp add: s')
  then show ?thesis by (intro confined_invitations) (simp_all add: s')
qed

lemma resend_confined:
  assumes "resend_invitation now tok f u c k s = Inr s'" "u_role u = Company_admin" "u_company u = Some own"
    and wf: "tbl_wf iv_id (cp_invitations s)"
  shows "confined own s s'"
proof -
  from assms(1) obtain i where i: "open_invitation now f u c k s = Inr i"
    and s': "cp_acc s' = cp_acc s" "set (rows (tbl_save iv_id
      (i\<lparr>iv_status := Iv_revoked, iv_used_at := Some now, iv_expires_at := now\<rparr>) (cp_invitations s)))
      \<subseteq> set (rows (cp_invitations s'))"
    by (auto simp: resend_invitation_def Let_def split: sum.splits)
  note row = open_invitation_company[OF i assms(2,3)]
  have "j \<in> set (rows (cp_invitations s'))" if "j \<in> set (rows (cp_invitations s))" "iv_company j \<noteq> Some own" for j
    using put_invitation_keeps[OF wf, of i own "i\<lparr>iv_status := Iv_revoked, iv_used_at := Some now, iv_expires_at := now\<rparr>" j]
      row that s'(2) by auto
  then show ?thesis by (rule confined_invitations[OF s'(1)])
qed

lemma company_edit_confined:
  assumes u: "u_role u = Company_admin" "u_company u = Some own" and wf: "tbl_wf co_id (ac_companies (cp_acc s))"
  shows "update_company u p k rq s = Inr s' \<Longrightarrow> confined own s s'"
    "company_settings_patch d u k srq s = Inr s' \<Longrightarrow> confined own s s'"
proof -
  note company = put_company_confined[OF wf _ u]
  show "confined own s s'" if "update_company u p k rq s = Inr s'"
  proof -
    from that obtain c where c: "get_company_object s u k = Inr c" "s' = put_company (admin_patch rq c) s"
      by (rule update_company_admin[OF _ u(1)])
    show ?thesis by (rule company[OF c(1)]) (simp_all add: c(2) same_terms_def admin_patch_def)
  qed
  show "confined own s s'" if patch: "company_settings_patch d u k srq s = Inr s'"
  proof -
    obtain c s1 where c: "get_company_object s u k = Inr c" "cp_acc s1 = cp_acc s" "cp_invitations s1 = cp_invitations s"
      "cp_acc s' = cp_acc (set_working_hours (sq_working_hours srq) c s1)" "cp_invitations s' = cp_invitations s1"
      by (rule settings_patch_admin[OF patch])
    show ?thesis
    proof (cases "sq_working_hours srq")
      case None
      with c show ?thesis by (intro confined_refl) (simp_all add: set_working_hours_def)
    next
      case (Some h)
      with c show ?thesis
        by (intro company[OF c(1), of "c\<lparr>co_working_hours_start := fst h, co_working_hours_end := snd h\<rparr>"])
           (simp_all add: set_working_hours_def same_terms_def put_company_def split: prod.splits)
    qed
  qed
qed

lemma member_edit_confined:
  assumes u: "u_role u = Company_admin" "u_company u = Some own" and wf: "tbl_wf u_id (ac_users (cp_acc s))"
  shows "deactivate_member u k m s = Inr s' \<Longrightarrow> confined own s s'"
    "activate_member u k m s = Inr s' \<Longrightarrow> confined own s s'"
    "remove_member u k m v s = Inr s' \<Longrightarrow> confined own s s'"
    "change_member_role u k m r s = Inr s' \<Longrightarrow> confined own s s'"
proof -
  note member = member_confined[OF wf _ u]
  show "confined own s s'" if "deactivate_member u k m s = Inr s'"
    using that
  proof (rule deactivate_member_ok)
    fix c t assume m: "member_of_company u k m s = Inr (c, t)"
      and s': "s' = revoke_tokens m (settle_leaves t (co_id c) (put_user (t\<lparr>u_is_active := False\<rparr>) s))"
    show ?thesis by (rule member[OF m put_user_rewrites[OF m]]) (simp_all add: s' member_with_company[OF m])
  qed
  show "confined own s s'" if "activate_member u k m s = Inr s'"
    using that
  proof (rule activate_member_ok)
    fix c t assume m: "member_of_company u k m s = Inr (c, t)" and s': "s' = put_user (t\<lparr>u_is_active := True\<rparr>) s"
    show ?thesis by (rule member[OF m put_user_rewrites[OF m]]) (simp_all add: s' member_with_company[OF m])
  qed
  show "confined own s s'" if "remove_member u k m v s = Inr s'"
    using that
  proof (rule remove_member_ok)
    fix c t r assume m: "member_of_company u k m s = Inr (c, t)"
      and s': "s' = revoke_tokens m (put_user (stripped t) (settle_leaves t (co_id c) (reassign_tasks (co_id c) m r s)))"
    show ?thesis
      by (rule member[OF m put_user_rewrites[OF m]])
         (simp_all add: s' stripped_def users_employee_admin_requires_company_def)
  qed
  show "confined own s s'" if "change_member_role u k m r s = Inr s'"
    using that
  proof (rule change_member_role_ok)
    fix c t r' assume m: "member_of_company u k m s = Inr (c, t)"
      and s': "s' = (if u_role t = r' then s else put_user (t\<lparr>u_role := r'\<rparr>) s)"
    have "confined own s (put_user (t\<lparr>u_role := r'\<rparr>) s)"
      by (rule member[OF m put_user_rewrites[OF m]]) (simp_all add: member_with_company[OF m])
    then show ?thesis by (simp add: s' confined_refl)
  qed
qed

lemma reads_confined:
  "map_sum id snd (company_settings_get u k s) = Inr s' \<Longrightarrow> confined own s s'"
  "map_sum id snd (onboarding_status u k s) = Inr s' \<Longrightarrow> confined own s s'"
  "skip_onboarding u k s = Inr s' \<Longrightarrow> confined own s s'"
  using settings_get_effect[of u k s s'] wizard_effect[of u k s s'] skip_effect[of u k s s'] by (auto intro: confined_refl)

text \<open>
  C13: a company admin reaches only the own company. No operation called by an admin of a company
  changes another company, a user who is not a member or an invitation to somewhere else, and none
  changes the plan, a limit, the activation or the deletion mark of any company.
\<close>

theorem company_admin_is_confined:
  assumes ex: "exec_cp x s = Inr s'" and u: "cp_actor x = Some u" "u_role u = Company_admin" "u_company u = Some own"
    and wf: "tbl_wf co_id (ac_companies (cp_acc s))" "tbl_wf u_id (ac_users (cp_acc s))" "tbl_wf iv_id (cp_invitations s)"
  shows "(\<forall>c \<in> set (rows (ac_companies (cp_acc s))). \<exists>c' \<in> set (rows (ac_companies (cp_acc s'))).
        same_terms c c' \<and> (co_id c \<noteq> own \<longrightarrow> c' = c))
   \<and> (\<forall>m \<in> set (rows (ac_users (cp_acc s))). u_company m \<noteq> Some own \<longrightarrow> m \<in> set (rows (ac_users (cp_acc s'))))
   \<and> (\<forall>i \<in> set (rows (cp_invitations s)). iv_company i \<noteq> Some own \<longrightarrow> i \<in> set (rows (cp_invitations s')))"
proof -
  have "confined own s s'"
  proof (cases x)
    case (Op_invite now tok a k rq)
    then show ?thesis using ex invite_confined by (simp add: exec_cp_def)
  next
    case (Op_revoke now f a c k)
    then show ?thesis using ex u wf revoke_confined[of now f u c k s s' own] by (simp add: exec_cp_def cp_actor_def)
  next
    case (Op_resend now tok f a c k)
    then show ?thesis using ex u wf resend_confined[of now tok f u c k s s' own] by (simp add: exec_cp_def cp_actor_def)
  next
    case (Op_update_company a p k rq)
    then show ?thesis using ex u wf company_edit_confined(1)[OF u(2,3) wf(1)] by (simp add: exec_cp_def cp_actor_def)
  next
    case (Op_patch_settings d a k rq)
    then show ?thesis using ex u wf company_edit_confined(2)[OF u(2,3) wf(1)] by (simp add: exec_cp_def cp_actor_def)
  next
    case (Op_deactivate_member a k m)
    then show ?thesis using ex u wf member_edit_confined(1)[OF u(2,3) wf(2)] by (simp add: exec_cp_def cp_actor_def)
  next
    case (Op_activate_member a k m)
    then show ?thesis using ex u wf member_edit_confined(2)[OF u(2,3) wf(2)] by (simp add: exec_cp_def cp_actor_def)
  next
    case (Op_remove_member a k m v)
    then show ?thesis using ex u wf member_edit_confined(3)[OF u(2,3) wf(2)] by (simp add: exec_cp_def cp_actor_def)
  next
    case (Op_change_role a k m r)
    then show ?thesis using ex u wf member_edit_confined(4)[OF u(2,3) wf(2)] by (simp add: exec_cp_def cp_actor_def)
  next
    case (Op_read_settings a k)
    then show ?thesis using ex u wf reads_confined(1) by (simp add: exec_cp_def cp_actor_def)
  next
    case (Op_wizard a k)
    then show ?thesis using ex u wf reads_confined(2) by (simp add: exec_cp_def cp_actor_def)
  next
    case (Op_skip_wizard a k)
    then show ?thesis using ex u wf reads_confined(3) by (simp add: exec_cp_def cp_actor_def)
  qed (use ex u in \<open>simp_all add: exec_cp_def cp_actor_def create_building_invitation_def create_company_def
        destroy_company_def deactivate_company_def activate_company_def bulk_activate_companies_def bulk_deactivate_companies_def
        bulk_delete_companies_def bulk_companies_def Let_def admin_only guarded_simps\<close>)
  then show ?thesis by (simp add: confined_def)
qed

theorem company_admin_is_confined_witness:
  "\<exists>s'. exec_cp (Op_remove_member boss 1 3 None) (demo_cp [boss, worker, root] []) = Inr s'
     \<and> root \<in> set (rows (ac_users (cp_acc s')))"
proof -
  let ?s = "demo_cp [boss, worker, root] []" and ?x = "Op_remove_member boss 1 3 None"
  have "is_ok (exec_cp ?x ?s)" by code_simp
  then obtain s' where s': "exec_cp ?x ?s = Inr s'" by (auto simp: is_ok_iff)
  have a: "cp_actor ?x = Some boss" "u_role boss = Company_admin" "u_company boss = Some 1"
    by (simp_all add: cp_actor_def boss_def)
  have "tbl_wf co_id (ac_companies (cp_acc ?s))" "tbl_wf u_id (ac_users (cp_acc ?s))" "tbl_wf iv_id (cp_invitations ?s)"
    by (simp_all add: demo_cp_def boss_def worker_def root_def tbl_wf_def demo_company_def)
  from company_admin_is_confined[OF s' a this, THEN conjunct2, THEN conjunct1]
  have "u_company root \<noteq> Some 1 \<Longrightarrow> root \<in> set (rows (ac_users (cp_acc ?s))) \<Longrightarrow> root \<in> set (rows (ac_users (cp_acc s')))"
    by blast
  with s' show ?thesis by (simp add: root_def demo_cp_def)
qed

end
