(* ===== verification/OnboardingProps.thy ===== *)
theory OnboardingProps
  imports Onboarding
begin

text \<open>
  What onboarding keeps: the rows of templates, steps, progress and assignments stay consistent in
  every run, and what editing the steps of a template does to the users who have it.
\<close>

section \<open>The invariant\<close>

definition one_default :: "template list \<Rightarrow> bool" where
  "one_default ts \<longleftrightarrow> (\<forall>a \<in> set ts. \<forall>b \<in> set ts.
     tp_is_default a \<and> tp_is_default b \<and> tp_company a = tp_company b \<longrightarrow> tp_id a = tp_id b)"

definition ob_inv :: "ob_state \<Rightarrow> bool" where
  "ob_inv s \<longleftrightarrow> tbl_wf tp_id (ob_templates s) \<and> tbl_wf os_id (ob_steps s) \<and> tbl_wf pg_id (ob_progress s)
     \<and> tbl_wf oa_id (ob_assignments s)
     \<and> distinct (map oa_user (rows (ob_assignments s)))
     \<and> distinct (map (\<lambda>p. (pg_user p, pg_step p)) (rows (ob_progress s)))
     \<and> one_default (rows (ob_templates s))
     \<and> pg_step ` set (rows (ob_progress s)) \<subseteq> os_id ` set (rows (ob_steps s))
     \<and> os_template ` set (rows (ob_steps s)) \<subseteq> tp_id ` set (rows (ob_templates s))
     \<and> oa_template ` set (rows (ob_assignments s)) \<subseteq> tp_id ` set (rows (ob_templates s))"

definition is_template :: "nat \<Rightarrow> ob_state \<Rightarrow> bool" where
  "is_template k s \<longleftrightarrow> k \<in> tp_id ` set (rows (ob_templates s))"

lemma get_template_row: "get_template s u k = Inr t \<Longrightarrow> t \<in> set (rows (ob_templates s)) \<and> tp_id t = k"
  by (auto simp: get_template_def template_queryset_def find_Some_iff split: option.splits if_splits
      dest: nth_mem)

subsection \<open>Steps\<close>

lemma add_step_keeps [simp]:
  "ob_templates (add_step k b dp s) = ob_templates s" "ob_progress (add_step k b dp s) = ob_progress s"
  "ob_assignments (add_step k b dp s) = ob_assignments s"
  by (auto simp: add_step_def split: prod.splits)

lemma fold_add_step_keeps [simp]:
  "ob_templates (fold (add_step k b) ds s) = ob_templates s" "ob_progress (fold (add_step k b) ds s) = ob_progress s"
  "ob_assignments (fold (add_step k b) ds s) = ob_assignments s"
  by (induction ds arbitrary: s) simp_all

lemma add_step_inv:
  assumes "ob_inv s" "is_template k s"
  shows "ob_inv (add_step k b dp s)"
proof -
  obtain ti de ur po where "dp = ((ti, de, ur), po)" by (cases dp) auto
  then show ?thesis
    using assms by (auto simp: add_step_def ob_inv_def is_template_def intro!: tbl_wf_insert)
qed

lemma add_steps_inv: "ob_inv s \<Longrightarrow> is_template k s \<Longrightarrow> ob_inv (fold (add_step k b) ds s)"
  by (rule conjunct1[of _ "is_template k (fold (add_step k b) ds s)"],
      rule fold_inv[where I = "\<lambda>s. ob_inv s \<and> is_template k s"])
     (simp_all add: add_step_inv, simp add: is_template_def)

lemma delete_steps_keeps [simp]:
  "ob_templates (delete_steps P s) = ob_templates s" "ob_assignments (delete_steps P s) = ob_assignments s"
  "ob_steps (delete_steps P s) = tbl_delete P (ob_steps s)"
  by (simp_all add: delete_steps_def Let_def)

lemma delete_steps_progress:
  "rows (ob_progress (delete_steps P s)) =
     filter (\<lambda>p. pg_step p \<notin> os_id ` {x \<in> set (rows (ob_steps s)). P x}) (rows (ob_progress s))"
  by (simp add: delete_steps_def Let_def)

lemma delete_steps_inv:
  assumes inv: "ob_inv s"
  shows "ob_inv (delete_steps P s)"
proof -
  have "pg_step p \<in> os_id ` {x \<in> set (rows (ob_steps s)). \<not> P x}"
    if p: "p \<in> set (rows (ob_progress s))"
      and free: "pg_step p \<notin> os_id ` {x \<in> set (rows (ob_steps s)). P x}" for p
  proof -
    have "pg_step p \<in> os_id ` set (rows (ob_steps s))" using inv p by (auto simp: ob_inv_def)
    then obtain x where x: "pg_step p = os_id x" "x \<in> set (rows (ob_steps s))" by (rule imageE)
    with free have "\<not> P x" by blast
    with x show ?thesis by blast
  qed
  then have fk: "pg_step ` set (rows (ob_progress (delete_steps P s))) \<subseteq> os_id ` set (rows (ob_steps (delete_steps P s)))"
    by (auto simp: delete_steps_progress)
  have wf: "tbl_wf pg_id (ob_progress (delete_steps P s))"
    using inv by (simp add: delete_steps_def Let_def ob_inv_def tbl_wf_delete)
  have "distinct (map (\<lambda>p. (pg_user p, pg_step p)) (rows (ob_progress (delete_steps P s))))"
    using inv by (simp add: delete_steps_progress ob_inv_def distinct_map_filter)
  then show ?thesis
    using inv fk wf by (auto simp: ob_inv_def tbl_wf_delete simp del: rows_tbl) auto
qed

subsection \<open>Progress\<close>

lemma progress_keeps [simp]:
  "ob_templates (get_or_create_progress uid x s) = ob_templates s"
  "ob_steps (get_or_create_progress uid x s) = ob_steps s"
  "ob_assignments (get_or_create_progress uid x s) = ob_assignments s"
  by (simp_all add: get_or_create_progress_def)

lemma fold_progress_keeps [simp]:
  "ob_templates (fold (get_or_create_progress uid) xs s) = ob_templates s"
  "ob_steps (fold (get_or_create_progress uid) xs s) = ob_steps s"
  "ob_assignments (fold (get_or_create_progress uid) xs s) = ob_assignments s"
  by (induction xs arbitrary: s) simp_all

lemma initialize_keeps [simp]:
  "ob_templates (initialize_progress_for_assignment uid t s) = ob_templates s"
  "ob_steps (initialize_progress_for_assignment uid t s) = ob_steps s"
  "ob_assignments (initialize_progress_for_assignment uid t s) = ob_assignments s"
  by (simp_all add: initialize_progress_for_assignment_def)

lemma get_or_create_progress_inv:
  assumes "ob_inv s" "x \<in> os_id ` set (rows (ob_steps s))"
  shows "ob_inv (get_or_create_progress uid x s)"
  using assms
  by (auto simp: get_or_create_progress_def has_progress_def list_ex_iff ob_inv_def new_progress_def
      intro!: tbl_wf_insert)

lemma template_steps_ids: "x \<in> set (template_steps s t) \<longleftrightarrow> x \<in> set (rows (ob_steps s)) \<and> os_template x = t"
  by (auto simp: template_steps_def)

lemma fold_progress_inv:
  "ob_inv s \<Longrightarrow> set xs \<subseteq> os_id ` set (rows (ob_steps s)) \<Longrightarrow> ob_inv (fold (get_or_create_progress uid) xs s)"
  by (induction xs arbitrary: s) (simp_all add: get_or_create_progress_inv)

lemma initialize_inv: "ob_inv s \<Longrightarrow> ob_inv (initialize_progress_for_assignment uid t s)"
  unfolding initialize_progress_for_assignment_def by (rule fold_progress_inv) (auto simp: template_steps_ids)

lemma assign_template_inv:
  assumes inv: "ob_inv s" and t: "is_template t s"
  shows "ob_inv (assign_template now uid t assigner note s)"
  unfolding assign_template_def
proof (rule initialize_inv)
  show "ob_inv (case assignment_of s uid of
      Some a \<Rightarrow> s\<lparr>ob_assignments := tbl_save oa_id
        (a\<lparr>oa_template := t, oa_assigned_by := assigner, oa_note := note\<rparr>) (ob_assignments s)\<rparr>
    | None \<Rightarrow> s\<lparr>ob_assignments := tbl_insert (new_assignment now uid t assigner note) (ob_assignments s)\<rparr>)"
  proof (cases "assignment_of s uid")
    case None
    then have "uid \<notin> oa_user ` set (rows (ob_assignments s))"
      by (auto simp: assignment_of_def find_None_iff)
    then show ?thesis
      using inv t by (auto simp: None ob_inv_def is_template_def new_assignment_def intro!: tbl_wf_insert)
  next
    case (Some a)
    have a: "a \<in> set (rows (ob_assignments s))" "oa_user a = uid"
      using Some find_row unfolding assignment_of_def by fastforce+
    have "x = a" if "x \<in> set (rows (ob_assignments s))" "oa_id x = oa_id a" for x
      using inv a(1) that by (auto simp: ob_inv_def tbl_wf_def distinct_map inj_on_def)
    then have "map oa_user (rows (tbl_save oa_id (a\<lparr>oa_template := t, oa_assigned_by := assigner, oa_note := note\<rparr>) (ob_assignments s)))
        = map oa_user (rows (ob_assignments s))"
      by (auto simp: tbl_save_def)
    then show ?thesis
      using inv t by (auto simp: Some ob_inv_def is_template_def tbl_wf_save) (auto simp: tbl_save_def split: if_splits)
  qed
qed

subsection \<open>Templates\<close>

lemma one_default_mono:
  assumes "one_default (rows T)"
    and "\<And>x. x \<in> set (rows T') \<Longrightarrow> \<exists>y \<in> set (rows T). tp_id y = tp_id x \<and> tp_company y = tp_company x
       \<and> (tp_is_default x \<longrightarrow> tp_is_default y)"
  shows "one_default (rows T')"
  using assms unfolding one_default_def by metis

lemma template_rows_inv:
  assumes "ob_inv s" "tbl_wf tp_id T" "one_default (rows T)" "tp_id ` set (rows (ob_templates s)) \<subseteq> tp_id ` set (rows T)"
  shows "ob_inv (s\<lparr>ob_templates := T\<rparr>)"
  using assms by (simp add: ob_inv_def) (meson subset_trans)

lemma save_template_inv:
  assumes inv: "ob_inv s" and t: "t \<in> set (rows (ob_templates s))"
    and t': "tp_id t' = tp_id t" "tp_company t' = tp_company t" "tp_is_default t' = tp_is_default t"
  shows "ob_inv (s\<lparr>ob_templates := tbl_save tp_id t' (ob_templates s)\<rparr>)"
proof (rule template_rows_inv[OF inv])
  show "one_default (rows (tbl_save tp_id t' (ob_templates s)))"
    by (rule one_default_mono[of "ob_templates s"])
       (use inv t t' in \<open>auto simp: tbl_save_def ob_inv_def split: if_splits\<close>)
qed (use inv in \<open>simp_all add: tbl_wf_save ob_inv_def save_ids\<close>)

lemma set_as_default_rows:
  assumes wf: "tbl_wf tp_id (ob_templates s)" and t: "t \<in> set (rows (ob_templates s))"
  shows "rows (ob_templates (set_as_default t s)) =
    map (\<lambda>x. x\<lparr>tp_is_default := (tp_id x = tp_id t \<or> tp_company x \<noteq> tp_company t \<and> tp_is_default x)\<rparr>)
      (rows (ob_templates s))"
proof -
  have "x = t" if "x \<in> set (rows (ob_templates s))" "tp_id x = tp_id t" for x
    using wf t that by (auto simp: tbl_wf_def distinct_map inj_on_def)
  note same = this
  have self: "x = x\<lparr>tp_is_default := b\<rparr>" if "tp_is_default x = b" for x :: template and b
    using that by (cases x) simp
  show ?thesis
  proof (cases "tp_is_default t")
    case True
    then show ?thesis
      by (simp add: set_as_default_def Let_def) (use same in \<open>force intro: self\<close>)
  next
    case False
    then show ?thesis
      by (simp add: set_as_default_def Let_def tbl_save_def) (use same in \<open>force intro: self\<close>)
  qed
qed

lemma set_as_default_inv:
  assumes inv: "ob_inv s" and t: "t \<in> set (rows (ob_templates s))"
  shows "ob_inv (set_as_default t s)"
proof -
  let ?T = "ob_templates (set_as_default t s)"
  note rows = set_as_default_rows[OF _ t]
  have wf: "tbl_wf tp_id (ob_templates s)" using inv by (simp add: ob_inv_def)
  have "set_as_default t s = s\<lparr>ob_templates := ?T\<rparr>" by (simp add: set_as_default_def Let_def)
  moreover have "ob_inv (s\<lparr>ob_templates := ?T\<rparr>)"
  proof (rule template_rows_inv[OF inv])
    show "tbl_wf tp_id ?T"
      using wf by (auto simp: set_as_default_def Let_def intro!: tbl_wf_save tbl_wf_update)
    show "one_default (rows ?T)"
      unfolding one_default_def
    proof (intro ballI impI, elim conjE)
      fix a b assume ab: "a \<in> set (rows ?T)" "b \<in> set (rows ?T)"
        and d: "tp_is_default a" "tp_is_default b" "tp_company a = tp_company b"
      obtain x where x: "x \<in> set (rows (ob_templates s))" "tp_id a = tp_id x" "tp_company a = tp_company x"
          "tp_is_default a \<longleftrightarrow> tp_id x = tp_id t \<or> tp_company x \<noteq> tp_company t \<and> tp_is_default x"
        using ab(1) unfolding rows[OF wf] by auto
      obtain y where y: "y \<in> set (rows (ob_templates s))" "tp_id b = tp_id y" "tp_company b = tp_company y"
          "tp_is_default b \<longleftrightarrow> tp_id y = tp_id t \<or> tp_company y \<noteq> tp_company t \<and> tp_is_default y"
        using ab(2) unfolding rows[OF wf] by auto
      have same: "z = t" if "z \<in> set (rows (ob_templates s))" "tp_id z = tp_id t" for z
        using wf t that by (auto simp: tbl_wf_def distinct_map inj_on_def)
      have one: "tp_id x = tp_id y" if "tp_is_default x" "tp_is_default y"
      proof -
        have "one_default (rows (ob_templates s))" using inv by (simp add: ob_inv_def)
        moreover have "tp_company x = tp_company y" using x(3) y(3) d(3) by simp
        ultimately show ?thesis using x(1) y(1) that unfolding one_default_def by blast
      qed
      have "tp_is_default x \<and> tp_is_default y \<or> tp_id x = tp_id t \<and> tp_id y = tp_id t"
      proof (cases "tp_company x = tp_company t")
        case True
        then show ?thesis using x(3,4) y(3,4) d by simp
      next
        case False
        then have "tp_id x \<noteq> tp_id t" "tp_id y \<noteq> tp_id t" using same[OF x(1)] same[OF y(1)] x(3) y(3) d(3) by auto
        then show ?thesis using x(4) y(4) d(1,2) by simp
      qed
      then have "tp_id x = tp_id y"
      proof (elim disjE conjE)
        assume "tp_is_default x" "tp_is_default y"
        then show ?thesis by (rule one)
      qed simp
      then show "tp_id a = tp_id b" by (simp only: x(2) y(2))
    qed
    show "tp_id ` set (rows (ob_templates s)) \<subseteq> tp_id ` set (rows ?T)"
      by (auto simp: rows[OF wf] image_image)
  qed
  ultimately show ?thesis by simp
qed

subsection \<open>Operations\<close>

lemma create_template_inv: "ob_inv s \<Longrightarrow> create_template u c title active ds s = Inr s' \<Longrightarrow> ob_inv s'"
proof -
  let ?mk = "\<lambda>c i. \<lparr>tp_id = i, tp_company = c, tp_title = title,
    tp_is_active = (case active of None \<Rightarrow> True | Some a \<Rightarrow> a), tp_is_default = False, tp_is_system = False\<rparr>"
  assume inv: "ob_inv s" and ok: "create_template u c title active ds s = Inr s'"
  have "\<exists>c'. s' = fold (add_step (next_id (ob_templates s)) False) (custom_steps ds)
      (fold (add_step (next_id (ob_templates s)) True) system_steps
        (s\<lparr>ob_templates := tbl_insert (?mk c') (ob_templates s)\<rparr>))"
  proof (cases "if u_role u \<noteq> Superadmin then u_company u else c")
    case None
    then show ?thesis using ok by (simp add: create_template_def split: option.splits)
  next
    case (Some c')
    show ?thesis
      using ok unfolding create_template_def Some Let_def option.case
      by (intro exI[of _ c']) (simp split: option.splits if_splits)
  qed
  then obtain c' where s': "s' = fold (add_step (next_id (ob_templates s)) False) (custom_steps ds)
      (fold (add_step (next_id (ob_templates s)) True) system_steps
        (s\<lparr>ob_templates := tbl_insert (?mk c') (ob_templates s)\<rparr>))" ..
  have "one_default (rows (ob_templates s) @ [t])" if "\<not> tp_is_default t" for t
    using inv that unfolding ob_inv_def one_default_def by (intro ballI) auto
  then have "one_default (rows (tbl_insert (?mk c') (ob_templates s)))" by simp
  then have "ob_inv (s\<lparr>ob_templates := tbl_insert (?mk c') (ob_templates s)\<rparr>)"
    by (intro template_rows_inv[OF inv]) (use inv in \<open>auto simp: ob_inv_def intro: tbl_wf_insert\<close>)
  then show ?thesis
    unfolding s' by (intro add_steps_inv) (simp_all add: is_template_def)
qed

lemma update_template_ok:
  assumes "update_template u k title active steps s = Inr s'"
  obtains t t' where "get_template s u k = Inr t"
    "tp_id t' = tp_id t" "tp_company t' = tp_company t" "tp_is_default t' = tp_is_default t"
    "s' = (case steps of None \<Rightarrow> s\<lparr>ob_templates := tbl_save tp_id t' (ob_templates s)\<rparr>
      | Some ds \<Rightarrow> fold (add_step k False) (custom_steps ds) (delete_steps (\<lambda>x. os_template x = k \<and> \<not> os_is_system x)
          (s\<lparr>ob_templates := tbl_save tp_id t' (ob_templates s)\<rparr>)))"
proof -
  from assms obtain t where t: "get_template s u k = Inr t"
    by (auto simp: update_template_def split: option.splits sum.splits)
  show thesis
    by (rule that[of t "t\<lparr>tp_title := (case title of None \<Rightarrow> tp_title t | Some x \<Rightarrow> x),
          tp_is_active := (case active of None \<Rightarrow> tp_is_active t | Some x \<Rightarrow> x)\<rparr>"])
       (use assms t in \<open>simp_all add: update_template_def Let_def split: option.splits\<close>)
qed

lemma update_template_inv:
  assumes inv: "ob_inv s" and ok: "update_template u k title active steps s = Inr s'"
  shows "ob_inv s'"
  using ok
proof (rule update_template_ok)
  fix t t' assume t: "get_template s u k = Inr t"
    and t': "tp_id t' = tp_id t" "tp_company t' = tp_company t" "tp_is_default t' = tp_is_default t"
    and s': "s' = (case steps of None \<Rightarrow> s\<lparr>ob_templates := tbl_save tp_id t' (ob_templates s)\<rparr>
      | Some ds \<Rightarrow> fold (add_step k False) (custom_steps ds) (delete_steps (\<lambda>x. os_template x = k \<and> \<not> os_is_system x)
          (s\<lparr>ob_templates := tbl_save tp_id t' (ob_templates s)\<rparr>)))"
  let ?s = "s\<lparr>ob_templates := tbl_save tp_id t' (ob_templates s)\<rparr>"
  have 1: "ob_inv ?s" by (rule save_template_inv[OF inv _ t']) (use get_template_row[OF t] in simp)
  have 2: "is_template k (delete_steps P ?s)" for P
    using get_template_row[OF t] by (auto simp: is_template_def save_ids)
  show ?thesis
    unfolding s' using 1 by (auto intro!: add_steps_inv delete_steps_inv 2 split: option.splits)
qed

lemma destroy_template_inv:
  assumes inv: "ob_inv s" and ok: "destroy_template u k s = Inr s'"
  shows "ob_inv s'"
proof -
  let ?d = "delete_steps (\<lambda>x. os_template x = k) s"
  have s': "s' = ?d\<lparr>ob_templates := tbl_delete (\<lambda>t. tp_id t = k) (ob_templates s)\<rparr>"
    and free: "\<forall>a \<in> set (rows (ob_assignments s)). oa_template a \<noteq> k"
    using ok by (auto simp: destroy_template_def tbl_filter_def filter_empty_conv Let_def
        split: option.splits sum.splits if_splits)
  have d: "ob_inv ?d" by (rule delete_steps_inv[OF inv])
  have other: "i \<in> tp_id ` {t \<in> set (rows (ob_templates s)). tp_id t \<noteq> k}"
    if "i \<in> tp_id ` set (rows (ob_templates s))" "i \<noteq> k" for i
    using that by auto
  have "one_default (rows (tbl_delete (\<lambda>t. tp_id t = k) (ob_templates s)))"
    using inv by (auto simp: ob_inv_def one_default_def)
  moreover have "os_template ` set (rows (ob_steps ?d)) \<subseteq> tp_id ` {t \<in> set (rows (ob_templates s)). tp_id t \<noteq> k}"
    using inv other by (auto simp: ob_inv_def)
  moreover have "oa_template ` set (rows (ob_assignments s)) \<subseteq> tp_id ` {t \<in> set (rows (ob_templates s)). tp_id t \<noteq> k}"
  proof (rule image_subsetI)
    fix a assume a: "a \<in> set (rows (ob_assignments s))"
    then have "oa_template a \<in> tp_id ` set (rows (ob_templates s))" using inv by (auto simp: ob_inv_def)
    then show "oa_template a \<in> tp_id ` {t \<in> set (rows (ob_templates s)). tp_id t \<noteq> k}"
      by (rule other) (use a free in blast)
  qed
  moreover have "tbl_wf tp_id (tbl_delete (\<lambda>t. tp_id t = k) (ob_templates s))"
    using inv by (simp add: ob_inv_def tbl_wf_delete)
  ultimately show ?thesis
    using d unfolding s' ob_inv_def by simp
qed

lemma save_step_inv:
  assumes inv: "ob_inv s" and x: "x \<in> set (rows (ob_steps s))" and y: "os_id y = os_id x" "os_template y = os_template x"
  shows "ob_inv (s\<lparr>ob_steps := tbl_save os_id y (ob_steps s)\<rparr>)"
proof -
  have "os_template ` set (rows (tbl_save os_id y (ob_steps s))) \<subseteq> tp_id ` set (rows (ob_templates s))"
    using inv x y by (auto simp: tbl_save_def ob_inv_def split: if_splits)
  then show ?thesis using inv by (simp add: ob_inv_def tbl_wf_save save_ids)
qed

lemma get_step_row: "get_step s u t k = Inr x \<Longrightarrow> x \<in> set (rows (ob_steps s)) \<and> os_id x = k \<and> os_template x = t"
  by (auto simp: get_step_def company_isolation_def split: option.splits if_splits dest!: find_row)

lemma create_step_ok:
  assumes "create_step u k d position s = Inr s'"
  obtains "is_template k s"
    "s' = fold (\<lambda>a. initialize_progress_for_assignment (oa_user a) k)
       (tbl_filter (\<lambda>a. oa_template a = k) (ob_assignments s)) (add_step k False (d, position) s)"
proof -
  from assms obtain t where t: "find (\<lambda>t. tp_id t = k \<and> Some (tp_company t) = u_company u) (rows (ob_templates s)) = Some t"
    and s': "s' = fold (\<lambda>a. initialize_progress_for_assignment (oa_user a) k)
       (tbl_filter (\<lambda>a. oa_template a = k) (ob_assignments s)) (add_step k False (d, position) s)"
    by (auto simp: create_step_def Let_def split: option.splits)
  from t have "is_template k s" by (auto simp: is_template_def dest!: find_row)
  then show thesis using s' by (rule that)
qed

lemma create_step_inv: "ob_inv s \<Longrightarrow> create_step u k d position s = Inr s' \<Longrightarrow> ob_inv s'"
  by (erule create_step_ok) (simp add: fold_inv initialize_inv add_step_inv)

lemma update_step_inv: "ob_inv s \<Longrightarrow> update_step u t k a b c d s = Inr s' \<Longrightarrow> ob_inv s'"
  by (auto simp: update_step_def patched_step_def split: option.splits sum.splits
      dest!: get_step_row intro!: save_step_inv)

lemma destroy_step_inv: "ob_inv s \<Longrightarrow> destroy_step u t k s = Inr s' \<Longrightarrow> ob_inv s'"
  by (auto simp: destroy_step_def delete_steps_inv split: option.splits sum.splits)

lemma default_template_row: "default_template s c = Some t \<Longrightarrow> is_template (tp_id t) s"
  by (auto simp: default_template_def is_template_def dest!: find_row)

lemma joining_template_row: "joining_template s c = Some t \<Longrightarrow> is_template (tp_id t) s"
  by (auto simp: joining_template_def is_template_def dest!: find_row split: option.splits
      dest: default_template_row[unfolded is_template_def])

lemma auto_assign_inv: "ob_inv s \<Longrightarrow> ob_inv (snd (get_or_auto_assign_template now u s))"
  by (auto simp: get_or_auto_assign_template_def split: option.splits
      intro!: assign_template_inv dest: default_template_row)

lemma save_progress_inv:
  assumes inv: "ob_inv s" and p: "p \<in> set (rows (ob_progress s))"
    and q: "pg_id q = pg_id p" "pg_user q = pg_user p" "pg_step q = pg_step p"
  shows "ob_inv (s\<lparr>ob_progress := tbl_save pg_id q (ob_progress s)\<rparr>)"
proof -
  have same: "x = p" if "x \<in> set (rows (ob_progress s))" "pg_id x = pg_id p" for x
    using inv p that by (auto simp: ob_inv_def tbl_wf_def distinct_map inj_on_def)
  then have "map (\<lambda>p. (pg_user p, pg_step p)) (rows (tbl_save pg_id q (ob_progress s)))
      = map (\<lambda>p. (pg_user p, pg_step p)) (rows (ob_progress s))"
    using q by (auto simp: tbl_save_def)
  moreover have "pg_step ` set (rows (tbl_save pg_id q (ob_progress s))) \<subseteq> os_id ` set (rows (ob_steps s))"
    using inv p q by (auto simp: tbl_save_def ob_inv_def split: if_splits)
  ultimately show ?thesis using inv by (simp add: ob_inv_def tbl_wf_save)
qed

lemma complete_step_inv: "ob_inv s \<Longrightarrow> complete_onboarding_step now u k s = Inr s' \<Longrightarrow> ob_inv s'"
  by (auto simp: complete_onboarding_step_def split: option.splits if_splits dest!: find_row intro!: save_progress_inv)

lemma assignment_create_inv: "ob_inv s \<Longrightarrow> onboarding_assignment_create now u uid t note s = Inr s' \<Longrightarrow> ob_inv s'"
  by (auto simp: onboarding_assignment_create_def Let_def is_template_def split: option.splits if_splits
      dest!: find_row intro!: assign_template_inv)

section \<open>The onboarding system\<close>

datatype ob_op =
    Op_create_template user "nat option" string "bool option" "step_data list"
  | Op_update_template user nat "string option" "bool option" "step_data list option"
  | Op_destroy_template user nat
  | Op_set_default user nat
  | Op_create_step user nat step_data int
  | Op_update_step user nat nat "string option" "string option" "string option" "int option"
  | Op_destroy_step user nat nat
  | Op_show_progress datetime user
  | Op_show_assignment datetime user
  | Op_complete_step datetime user nat
  | Op_assign datetime user nat nat string
  | Op_joined datetime nat "nat option"
  | Op_initialize user

definition exec_ob :: "ob_op \<Rightarrow> ob_state \<Rightarrow> api_error + ob_state" where
  "exec_ob x s = (case x of
     Op_create_template u c title active ds \<Rightarrow> create_template u c title active ds s
   | Op_update_template u k title active ds \<Rightarrow> update_template u k title active ds s
   | Op_destroy_template u k \<Rightarrow> destroy_template u k s
   | Op_set_default u k \<Rightarrow> set_default u k s
   | Op_create_step u k d position \<Rightarrow> create_step u k d position s
   | Op_update_step u t k title description url position \<Rightarrow> update_step u t k title description url position s
   | Op_destroy_step u t k \<Rightarrow> destroy_step u t k s
   | Op_show_progress now u \<Rightarrow> Inr (snd (build_progress_response now u s))
   | Op_show_assignment now u \<Rightarrow> map_sum id snd (my_onboarding_assignment now u s)
   | Op_complete_step now u k \<Rightarrow> complete_onboarding_step now u k s
   | Op_assign now u uid t note \<Rightarrow> onboarding_assignment_create now u uid t note s
   | Op_joined now uid c \<Rightarrow> Inr (setup_onboarding_for_invite_user now uid c s)
   | Op_initialize u \<Rightarrow> Inr (initialize_user_onboarding_progress u s))"

lemma set_default_inv: "ob_inv s \<Longrightarrow> set_default u k s = Inr s' \<Longrightarrow> ob_inv s'"
  by (auto simp: set_default_def split: option.splits sum.splits intro: set_as_default_inv dest: get_template_row)

lemma show_inv:
  "ob_inv s \<Longrightarrow> ob_inv (snd (build_progress_response now u s))"
  "ob_inv s \<Longrightarrow> map_sum id snd (my_onboarding_assignment now u s) = Inr s' \<Longrightarrow> ob_inv s'"
  using auto_assign_inv[of s now u]
  by (auto simp: build_progress_response_def my_onboarding_assignment_def Let_def split: prod.splits option.splits)

lemma joined_inv:
  "ob_inv s \<Longrightarrow> ob_inv (setup_onboarding_for_invite_user now uid c s)"
  "ob_inv s \<Longrightarrow> ob_inv (initialize_user_onboarding_progress u s)"
  by (auto simp: setup_onboarding_for_invite_user_def initialize_user_onboarding_progress_def initialize_inv
      split: option.splits intro!: assign_template_inv dest: joining_template_row)

lemma exec_ob_inv: "ob_inv s \<Longrightarrow> exec_ob x s = Inr s' \<Longrightarrow> ob_inv s'"
  by (cases x)
     (auto simp: exec_ob_def joined_inv show_inv
        dest: create_template_inv update_template_inv destroy_template_inv set_default_inv create_step_inv
          update_step_inv destroy_step_inv complete_step_inv assignment_create_inv show_inv)

interpretation onboarding: op_system exec_ob ob_inv "\<lambda>_. True"
  by unfold_locales (rule exec_ob_inv)

section \<open>Steps added, replaced and deleted\<close>

lemma add_step_new:
  "rows (ob_steps (add_step k b ((title, description, url), position) s)) = rows (ob_steps s) @
     [\<lparr>os_id = next_id (ob_steps s), os_template = k, os_title = title, os_description = description,
       os_url = url, os_position = position, os_is_system = b\<rparr>]"
  by (simp add: add_step_def)

definition step_content :: "ob_step \<Rightarrow> step_data \<times> int" where
  "step_content x = ((os_title x, os_description x, os_url x), os_position x)"

lemma add_steps_content:
  "\<exists>new. rows (ob_steps (fold (add_step k b) ds s)) = rows (ob_steps s) @ new \<and> map step_content new = ds
     \<and> (\<forall>x \<in> set new. os_template x = k \<and> os_is_system x = b \<and> os_id x \<ge> next_id (ob_steps s))"
proof (induction ds arbitrary: s)
  case (Cons d ds)
  obtain ti de ur po where d: "d = ((ti, de, ur), po)" by (cases d) auto
  let ?x = "\<lparr>os_id = next_id (ob_steps s), os_template = k, os_title = ti, os_description = de,
       os_url = ur, os_position = po, os_is_system = b\<rparr>"
  have ins: "ob_steps (add_step k b d s) = tbl_insert (\<lambda>i. ?x\<lparr>os_id := i\<rparr>) (ob_steps s)"
    by (simp add: d add_step_def)
  obtain new where new: "rows (ob_steps (fold (add_step k b) ds (add_step k b d s))) = rows (ob_steps (add_step k b d s)) @ new"
    "map step_content new = ds"
    "\<forall>x \<in> set new. os_template x = k \<and> os_is_system x = b \<and> os_id x \<ge> next_id (ob_steps (add_step k b d s))"
    using Cons[of "add_step k b d s"] by blast
  show ?case
    by (rule exI[of _ "?x # new"]) (use new in \<open>auto simp: ins[unfolded d] d step_content_def\<close>)
qed simp

lemma has_progress_get_or_create:
  "has_progress (get_or_create_progress uid x s) v y \<longleftrightarrow> has_progress s v y \<or> v = uid \<and> y = x"
  by (auto simp: get_or_create_progress_def has_progress_def new_progress_def list_ex_iff)

lemma has_progress_fold:
  "has_progress (fold (get_or_create_progress uid) xs s) v y \<longleftrightarrow> has_progress s v y \<or> v = uid \<and> y \<in> set xs"
  by (induction xs arbitrary: s) (auto simp: has_progress_get_or_create)

lemma has_progress_initialize:
  "has_progress (initialize_progress_for_assignment uid t s) v y \<longleftrightarrow>
     has_progress s v y \<or> v = uid \<and> (\<exists>x \<in> set (rows (ob_steps s)). os_template x = t \<and> os_id x = y)"
  by (auto simp: initialize_progress_for_assignment_def has_progress_fold template_steps_def)

lemma has_progress_fold_initialize:
  "has_progress (fold (\<lambda>a. initialize_progress_for_assignment (oa_user a) t) as s) v y \<longleftrightarrow>
     has_progress s v y \<or> v \<in> oa_user ` set as \<and> (\<exists>x \<in> set (rows (ob_steps s)). os_template x = t \<and> os_id x = y)"
  by (induction as arbitrary: s) (auto simp: has_progress_initialize)

text \<open>
  C10: in every run of the onboarding operations each user has at most one assignment, each user and
  step at most one progress row, each company at most one default template, and progress,
  steps and assignments never point to a step or a template that is gone.
\<close>

theorem onboarding_rows_consistent:
  assumes "ob_inv s" and "s' = run_ops exec_ob xs s"
  shows "distinct (map oa_user (rows (ob_assignments s')))
    \<and> distinct (map (\<lambda>p. (pg_user p, pg_step p)) (rows (ob_progress s')))
    \<and> (\<forall>a \<in> set (rows (ob_templates s')). \<forall>b \<in> set (rows (ob_templates s')).
         tp_is_default a \<and> tp_is_default b \<and> tp_company a = tp_company b \<longrightarrow> a = b)
    \<and> (\<forall>p \<in> set (rows (ob_progress s')). \<exists>x. step_of s' p = Some x \<and> template_of s' (os_template x) \<noteq> None)
    \<and> (\<forall>x \<in> set (rows (ob_steps s')). template_of s' (os_template x) \<noteq> None)
    \<and> (\<forall>a \<in> set (rows (ob_assignments s')). template_of s' (oa_template a) \<noteq> None)"
proof -
  have inv: "ob_inv s'"
    unfolding assms(2) by (rule onboarding.run_inv[OF assms(1)]) (simp add: list_all_iff)
  then have wf: "tbl_wf tp_id (ob_templates s')" "tbl_wf os_id (ob_steps s')" by (simp_all add: ob_inv_def)
  have eq: "a = b" if "a \<in> set (rows (ob_templates s'))" "b \<in> set (rows (ob_templates s'))" "tp_id a = tp_id b" for a b
    using wf(1) that by (auto simp: tbl_wf_def distinct_map inj_on_def)
  have template: "template_of s' k \<noteq> None \<longleftrightarrow> k \<in> tp_id ` set (rows (ob_templates s'))" for k
    by (simp add: template_of_def tbl_get_None_iff)
  have step: "\<exists>x. step_of s' p = Some x \<and> template_of s' (os_template x) \<noteq> None"
    if p: "p \<in> set (rows (ob_progress s'))" for p
  proof -
    have "pg_step p \<in> os_id ` set (rows (ob_steps s'))" using inv p by (auto simp: ob_inv_def)
    then obtain x where x: "pg_step p = os_id x" "x \<in> set (rows (ob_steps s'))" by (rule imageE)
    then have "os_template x \<in> tp_id ` set (rows (ob_templates s'))" using inv by (auto simp: ob_inv_def)
    with x show ?thesis unfolding template step_of_def by (simp add: tbl_get_row[OF wf(2)])
  qed
  have assigned: "template_of s' (oa_template a) \<noteq> None" if "a \<in> set (rows (ob_assignments s'))" for a
    unfolding template using inv that by (auto simp: ob_inv_def)
  have default: "a = b" if "a \<in> set (rows (ob_templates s'))" "b \<in> set (rows (ob_templates s'))"
      "tp_is_default a" "tp_is_default b" "tp_company a = tp_company b" for a b
  proof (rule eq[OF that(1,2)])
    have "one_default (rows (ob_templates s'))" using inv by (simp add: ob_inv_def)
    then show "tp_id a = tp_id b" using that unfolding one_default_def by blast
  qed
  have "distinct (map oa_user (rows (ob_assignments s')))"
    "distinct (map (\<lambda>p. (pg_user p, pg_step p)) (rows (ob_progress s')))"
    using inv by (simp_all add: ob_inv_def)
  moreover have "template_of s' (os_template x) \<noteq> None" if "x \<in> set (rows (ob_steps s'))" for x
    unfolding template using inv that by (auto simp: ob_inv_def)
  ultimately show ?thesis using assigned default step by blast
qed

text \<open>Admin 2 and employee 3 of company 1.\<close>

definition demo_ob :: ob_state where
  "demo_ob = \<lparr>ob_acc = \<lparr>ac_users = Table [demo_user 2 Company_admin (Some 1), demo_user 3 Employee (Some 1)] 4,
       ac_companies = Table [demo_company] 2\<rparr>,
     ob_templates = Table [\<lparr>tp_id = 1, tp_company = 1, tp_title = ''t'', tp_is_active = True,
       tp_is_default = True, tp_is_system = False\<rparr>] 2,
     ob_steps = Table [\<lparr>os_id = 1, os_template = 1, os_title = ''profile'', os_description = [], os_url = [],
         os_position = 1, os_is_system = True\<rparr>,
       \<lparr>os_id = 2, os_template = 1, os_title = ''badge'', os_description = [], os_url = [],
         os_position = 7, os_is_system = False\<rparr>] 3,
     ob_progress = Table [\<lparr>pg_id = 1, pg_user = 3, pg_step = 1, pg_is_completed = True, pg_completed_at = Some 0\<rparr>,
       \<lparr>pg_id = 2, pg_user = 3, pg_step = 2, pg_is_completed = True, pg_completed_at = Some 0\<rparr>] 3,
     ob_assignments = Table [\<lparr>oa_id = 1, oa_user = 3, oa_template = 1, oa_assigned_by = None, oa_note = [],
       oa_created_at = 0\<rparr>] 2\<rparr>"

lemma demo_ob_inv: "ob_inv demo_ob"
  by (simp add: ob_inv_def demo_ob_def tbl_wf_def one_default_def)

theorem onboarding_rows_consistent_witness:
  "distinct (map oa_user (rows (ob_assignments
     (run_ops exec_ob [Op_set_default (demo_user 2 Company_admin (Some 1)) 1] demo_ob))))"
  by (rule onboarding_rows_consistent[OF demo_ob_inv refl, THEN conjunct1])

lemma initialize_mono:
  "set (rows (ob_progress s)) \<subseteq> set (rows (ob_progress (initialize_progress_for_assignment uid t s)))"
proof -
  have "set (rows (ob_progress s)) \<subseteq> set (rows (ob_progress (fold (get_or_create_progress uid) xs s)))" for xs
    by (rule fold_inv[where I = "\<lambda>t. set (rows (ob_progress s)) \<subseteq> set (rows (ob_progress t))"])
       (auto simp: get_or_create_progress_def)
  then show ?thesis by (simp add: initialize_progress_for_assignment_def)
qed

text \<open>
  The two ways of giving a template a new custom step differ. Replacing the steps through the
  template's PATCH deletes the progress of every user on the old custom steps and gives nobody
  progress on the new ones, so users who have the template never see the new steps; the step
  endpoint keeps all progress and gives it to everyone who has the template.
\<close>

theorem replaced_steps_are_not_backfilled:
  assumes "ob_inv s"
    and patch: "update_template u k title active (Some ds) s = Inr s1"
    and post: "create_step v k d position s = Inr s2"
  shows "map step_content (filter (\<lambda>x. os_template x = k \<and> \<not> os_is_system x) (rows (ob_steps s1))) = custom_steps ds
    \<and> (\<forall>x \<in> set (rows (ob_steps s1)). os_template x = k \<and> \<not> os_is_system x \<longrightarrow> \<not> has_progress s1 uid (os_id x))
    \<and> set (rows (ob_progress s)) \<subseteq> set (rows (ob_progress s2))
    \<and> (\<forall>a \<in> set (rows (ob_assignments s)). \<forall>x \<in> set (rows (ob_steps s2)).
         oa_template a = k \<and> os_template x = k \<longrightarrow> has_progress s2 (oa_user a) (os_id x))"
proof -
  let ?P = "\<lambda>x. os_template x = k \<and> \<not> os_is_system x"
  let ?Q = "\<lambda>x. os_template x = k \<and> os_is_system x = False"
  obtain T where s1: "s1 = fold (add_step k False) (custom_steps ds) (delete_steps ?P (s\<lparr>ob_templates := T\<rparr>))"
    by (rule update_template_ok[OF patch]) auto
  let ?d = "delete_steps ?P (s\<lparr>ob_templates := T\<rparr>)"
  have steps: "rows (ob_steps ?d) = filter (\<lambda>x. \<not> ?P x) (rows (ob_steps s))" by simp
  obtain new where new: "rows (ob_steps s1) = rows (ob_steps ?d) @ new" "map step_content new = custom_steps ds"
      "\<forall>x \<in> set new. os_template x = k \<and> os_is_system x = False \<and> os_id x \<ge> next_id (ob_steps ?d)"
    using add_steps_content[of k False "custom_steps ds" ?d] unfolding s1 by blast
  have filter: "filter ?P (rows (ob_steps s1)) = new"
    using new(3) by (simp add: new(1) steps)
  have fresh: "\<not> has_progress s1 uid (os_id x)" if x: "x \<in> set new" for x
  proof
    assume "has_progress s1 uid (os_id x)"
    then obtain p where p: "p \<in> set (rows (ob_progress s))" "pg_step p = os_id x"
      by (auto simp: has_progress_def list_ex_iff s1 delete_steps_progress)
    have "pg_step p \<in> os_id ` set (rows (ob_steps s))" using assms(1) p(1) by (auto simp: ob_inv_def)
    then have "os_id x < next_id (ob_steps s)" using assms(1) unfolding p(2) by (auto simp: ob_inv_def tbl_wf_def list_all_iff)
    with new(3) x show False by auto
  qed
  have s2: "s2 = fold (\<lambda>a. initialize_progress_for_assignment (oa_user a) k)
       (tbl_filter (\<lambda>a. oa_template a = k) (ob_assignments s)) (add_step k False (d, position) s)"
    by (rule create_step_ok[OF post])
  have "ob_steps s2 = ob_steps (add_step k False (d, position) s)"
    unfolding s2 by (rule fold_inv[where I = "\<lambda>t. ob_steps t = ob_steps (add_step k False (d, position) s)"]) simp_all
  then have backfill: "has_progress s2 (oa_user a) (os_id x)"
    if "a \<in> set (rows (ob_assignments s))" "x \<in> set (rows (ob_steps s2))" "oa_template a = k" "os_template x = k" for a x
    using that unfolding s2 has_progress_fold_initialize by auto
  have kept: "set (rows (ob_progress s)) \<subseteq> set (rows (ob_progress s2))"
    unfolding s2
    by (rule fold_inv[where I = "\<lambda>t. set (rows (ob_progress s)) \<subseteq> set (rows (ob_progress t))"])
       (simp_all add: initialize_mono[THEN subset_trans[rotated]])
  have "x \<in> set new" if "x \<in> set (rows (ob_steps s1))" "os_template x = k" "\<not> os_is_system x" for x
    using that unfolding filter[symmetric] by simp
  then show ?thesis
    using filter new(2) fresh kept backfill by blast
qed

theorem replaced_steps_are_not_backfilled_witness:
  "\<exists>s1 s2. update_template (demo_user 2 Company_admin (Some 1)) 1 None None (Some [(''tour'', [], [])]) demo_ob = Inr s1
     \<and> create_step (demo_user 2 Company_admin (Some 1)) 1 (''tour'', [], []) 8 demo_ob = Inr s2
     \<and> (\<forall>x \<in> set (rows (ob_steps s1)). os_template x = 1 \<and> \<not> os_is_system x \<longrightarrow> \<not> has_progress s1 3 (os_id x))"
proof -
  let ?u = "demo_user 2 Company_admin (Some 1)"
  have "is_ok (update_template ?u 1 None None (Some [(''tour'', [], [])]) demo_ob)"
    "is_ok (create_step ?u 1 (''tour'', [], []) 8 demo_ob)"
    by code_simp+
  then obtain s1 s2 where ok: "update_template ?u 1 None None (Some [(''tour'', [], [])]) demo_ob = Inr s1"
      "create_step ?u 1 (''tour'', [], []) 8 demo_ob = Inr s2"
    by (auto simp: is_ok_iff)
  show ?thesis
    using ok replaced_steps_are_not_backfilled[OF demo_ob_inv ok, of 3] by blast
qed

text \<open>The steps every template starts with are not protected: only the template's own flag is.\<close>

lemma system_step_can_be_deleted:
  assumes "u_role u = Company_admin" "u_company u = Some (tp_company t)"
    and "template_of s (os_template x) = Some t" "\<not> tp_is_system t"
    and "x \<in> set (rows (ob_steps s))" "tbl_wf os_id (ob_steps s)"
  shows "destroy_step u (os_template x) (os_id x) s = Inr (delete_steps (\<lambda>y. os_id y = os_id x) s)"
proof -
  let ?visible = "filter (\<lambda>y. os_template y = os_template x)
    (filter (\<lambda>y. map_option tp_company (template_of s (os_template y)) = Some (tp_company t)) (rows (ob_steps s)))"
  have "distinct (map os_id ?visible)" "x \<in> set ?visible"
    using assms by (simp_all add: tbl_wf_def distinct_map_filter)
  then have "find (\<lambda>y. os_id y = os_id x) ?visible = Some x" by (rule find_key_unique)
  then have "get_step s u (os_template x) (os_id x) = Inr x"
    using assms(1,2) by (simp add: get_step_def company_isolation_def)
  then show ?thesis
    using assms by (simp add: destroy_step_def guard_system_step_def permission_defs guarded_simps require_simps)
qed

end
