(* ===== verification/StorageModel.thy ===== *)
theory StorageModel
  imports Limits
begin

text \<open>
  Files and folders of \<open>apps/storage\<close>: the rows of \<open>storage/models.py\<close>, who sees and who may change
  them (\<open>storage/views.py\<close>), the space they use (\<open>companies/limits.py\<close>), and the deletion of folder
  trees. The endpoints are in \<open>Storage\<close> and \<open>StorageTrash\<close>.

  Every uploaded content is an object of the storage service, of the size it was uploaded with; a
  row of \<open>File\<close> names its object. The service deletes what it is asked to delete: the failure of
  its three attempts, a server error, is not modelled.
\<close>

section \<open>Rows\<close>

datatype fscope = Personal_scope | Company_scope

datatype level = Level_view | Level_upload | Level_full

datatype share_level = Share_view | Share_download | Share_full

record folder =
  fo_id :: nat
  fo_name :: string
  fo_scope :: fscope
  fo_owner :: nat
  fo_company :: "nat option"
  fo_parent :: "nat option"
  fo_created_at :: datetime
  fo_is_deleted :: bool
  fo_deleted_at :: "datetime option"

record sfile =
  fi_id :: nat
  fi_name :: string
  fi_object :: "nat option"
  fi_size :: int
  fi_content_type :: string
  fi_folder :: "nat option"
  fi_owner :: nat
  fi_company :: "nat option"
  fi_created_at :: datetime
  fi_is_deleted :: bool
  fi_deleted_at :: "datetime option"

record folder_perm =
  fp_id :: nat
  fp_folder :: nat
  fp_user :: "nat option"
  fp_role :: "string option"
  fp_permission :: level
  fp_granted_by :: "nat option"

record share =
  sh_id :: nat
  sh_file :: nat
  sh_with :: nat
  sh_by :: nat
  sh_permission :: share_level
  sh_comment :: string

text \<open>An attachment of a task, with the company of the task's board.\<close>

record attachment =
  at_id :: nat
  at_company :: nat
  at_storage_file :: "nat option"
  at_has_file :: bool
  at_size :: int

text \<open>An object of the storage service: its key and its size.\<close>

type_synonym stored = "nat \<times> int"

record st_state =
  st_acc :: accounts
  st_folders :: "folder table"
  st_files :: "sfile table"
  st_perms :: "folder_perm table"
  st_shares :: "share table"
  st_attachments :: "attachment table"
  st_objects :: "stored table"
  st_nt :: nt_state

interpretation folders: repository fo_id "tbl_get fo_id" "tbl_save fo_id" tbl_insert
    "tbl_remove fo_id" next_id "tbl_wf fo_id"
  by (rule tbl_repository)

interpretation files: repository fi_id "tbl_get fi_id" "tbl_save fi_id" tbl_insert
    "tbl_remove fi_id" next_id "tbl_wf fi_id"
  by (rule tbl_repository)

interpretation shares: repository sh_id "tbl_get sh_id" "tbl_save sh_id" tbl_insert
    "tbl_remove sh_id" next_id "tbl_wf sh_id"
  by (rule tbl_repository)

definition role_str :: "role \<Rightarrow> string" where
  "role_str r = (case r of
     Superadmin \<Rightarrow> ''superadmin'' | Company_admin \<Rightarrow> ''company_admin'' | Employee \<Rightarrow> ''employee''
   | Reception \<Rightarrow> ''reception'' | Service_manager \<Rightarrow> ''service_manager'' | Guest \<Rightarrow> ''guest'')"

section \<open>Requests that may not return\<close>

text \<open>
  \<open>None\<close>: the worker never answers. Otherwise the error of the request or what it does.
\<close>

type_synonym 'a run = "(api_error + 'a) option"

definition then_run :: "'a run \<Rightarrow> ('a \<Rightarrow> 'b run) \<Rightarrow> 'b run" where
  "then_run m f = (case m of None \<Rightarrow> None | Some (Inl e) \<Rightarrow> Some (Inl e) | Some (Inr x) \<Rightarrow> f x)"

lemma then_run_simps [simp]:
  "then_run None f = None" "then_run (Some (Inl e)) f = Some (Inl e)" "then_run (Some (Inr x)) f = f x"
  by (simp_all add: then_run_def)

lemma then_run_ok [simp]:
  "then_run m f = Some (Inr y) \<longleftrightarrow> (\<exists>x. m = Some (Inr x) \<and> f x = Some (Inr y))"
  by (auto simp: then_run_def split: option.splits sum.splits)

definition answered :: "'a run \<Rightarrow> bool" where
  "answered m \<longleftrightarrow> m \<noteq> None"

lemma answered_simps [simp]: "answered (Some r)" "\<not> answered None"
  by (simp_all add: answered_def)

lemma answered_then: "answered m \<Longrightarrow> (\<And>x. m = Some (Inr x) \<Longrightarrow> answered (f x)) \<Longrightarrow> answered (then_run m f)"
  by (auto simp: then_run_def answered_def split: option.splits sum.splits)

section \<open>Access to folders\<close>

definition any_folder :: "st_state \<Rightarrow> nat \<Rightarrow> folder option" where
  "any_folder s k = tbl_get fo_id k (st_folders s)"

definition live_folder :: "st_state \<Rightarrow> nat \<Rightarrow> folder option" where
  "live_folder s k = find (\<lambda>f. fo_id f = k \<and> \<not> fo_is_deleted f) (rows (st_folders s))"

definition live_file :: "st_state \<Rightarrow> nat \<Rightarrow> sfile option" where
  "live_file s k = find (\<lambda>f. fi_id f = k \<and> \<not> fi_is_deleted f) (rows (st_files s))"

definition perms_of :: "st_state \<Rightarrow> nat \<Rightarrow> folder_perm list" where
  "perms_of s k = tbl_filter (\<lambda>p. fp_folder p = k) (st_perms s)"

text \<open>The entry of the user, else the entry of the role.\<close>

definition matching_level :: "user \<Rightarrow> folder_perm list \<Rightarrow> level option" where
  "matching_level u ps = (case find (\<lambda>p. fp_user p = Some (u_id u)) ps of
     Some p \<Rightarrow> Some (fp_permission p)
   | None \<Rightarrow> map_option fp_permission (find (\<lambda>p. fp_role p = Some (role_str (u_role u))) ps))"

text \<open>
  The walk up the parents. A permission on a folder ends it; a missing or deleted parent ends it
  with the level of an open folder. It is a loop of the source that nothing bounds.
\<close>

partial_function (option) walk_up :: "st_state \<Rightarrow> user \<Rightarrow> folder \<Rightarrow> level option option" where
  "walk_up s u f =
     (if perms_of s (fo_id f) \<noteq> [] then Some (matching_level u (perms_of s (fo_id f)))
      else case fo_parent f of
        None \<Rightarrow> Some (Some Level_upload)
      | Some p \<Rightarrow> (case live_folder s p of
          None \<Rightarrow> Some (Some Level_upload)
        | Some g \<Rightarrow> walk_up s u g))"

declare walk_up.simps [code]

definition folder_access_level :: "st_state \<Rightarrow> user \<Rightarrow> folder \<Rightarrow> level option option" where
  "folder_access_level s u f =
     (if u_role u = Superadmin then Some (Some Level_full)
      else if fo_scope f = Personal_scope
        then Some (if fo_owner f = u_id u then Some Level_full else None)
      else if u_company u = None \<or> fo_company f \<noteq> u_company u then Some None
      else if u_role u = Company_admin then Some (Some Level_full)
      else walk_up s u f)"

definition level_rank :: "level option \<Rightarrow> int" where
  "level_rank l = (case l of None \<Rightarrow> 0 | Some Level_view \<Rightarrow> 1 | Some Level_upload \<Rightarrow> 2 | Some Level_full \<Rightarrow> 3)"

definition share_rank :: "share_level \<Rightarrow> int" where
  "share_rank l = (case l of Share_view \<Rightarrow> 1 | Share_download \<Rightarrow> 2 | Share_full \<Rightarrow> 3)"

definition check_folder_permission :: "user \<Rightarrow> folder \<Rightarrow> api_error option" where
  "check_folder_permission u f =
     require (u_role u = Superadmin \<or> fo_owner f = u_id u
        \<or> (fo_scope f = Company_scope \<and> u_company u \<noteq> None \<and> fo_company f = u_company u
           \<and> u_role u = Company_admin))
       (PermissionDenied ''storage.folder_action_forbidden'')"

text \<open>The permission entries the queries of the views look at.\<close>

definition restricted_folder :: "st_state \<Rightarrow> user \<Rightarrow> nat \<Rightarrow> bool" where
  "restricted_folder s u k \<longleftrightarrow> perms_of s k \<noteq> [] \<and> (case any_folder s k of
     None \<Rightarrow> False | Some f \<Rightarrow> fo_company f = u_company u \<and> fo_scope f = Company_scope)"

definition permitted_folder :: "st_state \<Rightarrow> user \<Rightarrow> nat \<Rightarrow> bool" where
  "permitted_folder s u k \<longleftrightarrow> restricted_folder s u k \<and> list_ex (\<lambda>p. fp_user p = Some (u_id u)
     \<or> fp_role p = Some (role_str (u_role u))) (perms_of s k)"

text \<open>The rows of \<open>FolderViewSet.get_queryset\<close>, before the query parameters.\<close>

definition folder_visible :: "st_state \<Rightarrow> user \<Rightarrow> folder \<Rightarrow> bool" where
  "folder_visible s u f \<longleftrightarrow> \<not> fo_is_deleted f \<and>
     (if u_role u = Superadmin then True
      else if u_role u = Guest then fo_owner f = u_id u \<and> fo_scope f = Personal_scope
      else (fo_owner f = u_id u \<and> fo_scope f = Personal_scope)
         \<or> (fo_company f = u_company u \<and> fo_scope f = Company_scope
            \<and> (u_role u = Company_admin \<or> permitted_folder s u (fo_id f) \<or> \<not> restricted_folder s u (fo_id f))))"

section \<open>Access to files\<close>

definition folder_of_file :: "st_state \<Rightarrow> sfile \<Rightarrow> folder option" where
  "folder_of_file s f = (case fi_folder f of None \<Rightarrow> None | Some k \<Rightarrow> any_folder s k)"

definition file_in :: "st_state \<Rightarrow> fscope \<Rightarrow> sfile \<Rightarrow> bool" where
  "file_in s sc f \<longleftrightarrow> map_option fo_scope (folder_of_file s f) = Some sc"

definition shared_with_user :: "st_state \<Rightarrow> user \<Rightarrow> sfile \<Rightarrow> bool" where
  "shared_with_user s u f \<longleftrightarrow> list_ex (\<lambda>x. sh_file x = fi_id f \<and> sh_with x = u_id u) (rows (st_shares s))"

text \<open>A folder an employee has no entry for, though the folder has entries: only live folders count.\<close>

definition inaccessible_folder :: "st_state \<Rightarrow> user \<Rightarrow> nat \<Rightarrow> bool" where
  "inaccessible_folder s u k \<longleftrightarrow> live_folder s k \<noteq> None \<and> restricted_folder s u k \<and> \<not> permitted_folder s u k"

text \<open>The rows of \<open>FileViewSet.get_queryset\<close>, before the query parameters.\<close>

definition file_visible :: "st_state \<Rightarrow> user \<Rightarrow> sfile \<Rightarrow> bool" where
  "file_visible s u f \<longleftrightarrow> \<not> fi_is_deleted f \<and>
     (if u_role u = Superadmin then True
      else if u_role u = Guest then fi_owner f = u_id u
        \<and> (file_in s Personal_scope f \<or> (fi_folder f = None \<and> fi_company f = None))
      else (fi_company f = u_company u \<and> file_in s Company_scope f
            \<and> (u_role u = Company_admin \<or> (case fi_folder f of None \<Rightarrow> True | Some k \<Rightarrow> \<not> inaccessible_folder s u k)))
         \<or> (fi_company f = u_company u \<and> fi_folder f = None)
         \<or> (fi_owner f = u_id u \<and> (file_in s Personal_scope f \<or> fi_folder f = None))
         \<or> shared_with_user s u f)"

definition share_for_user :: "st_state \<Rightarrow> user \<Rightarrow> sfile \<Rightarrow> share option" where
  "share_for_user s u f = find (\<lambda>x. sh_file x = fi_id f \<and> sh_with x = u_id u) (rows (st_shares s))"

definition file_access_denied :: api_error where
  "file_access_denied = PermissionDenied ''storage.file_access_denied''"

definition file_action_forbidden :: api_error where
  "file_action_forbidden = PermissionDenied ''storage.file_action_forbidden''"

definition ensure_file_permission :: "st_state \<Rightarrow> user \<Rightarrow> sfile \<Rightarrow> share_level \<Rightarrow> unit run" where
  "ensure_file_permission s u f required =
     (if u_role u = Superadmin \<or> fi_owner f = u_id u then Some (Inr ())
      else case share_for_user s u f of
        Some x \<Rightarrow> Some (guarded (require (\<not> share_rank (sh_permission x) < share_rank required)
            file_action_forbidden) ())
      | None \<Rightarrow>
        (if u_company u \<noteq> None \<and> fi_company f = u_company u
            \<and> (folder_of_file s f = None \<or> file_in s Company_scope f)
         then (case folder_of_file s f of
             Some k \<Rightarrow> (case folder_access_level s u k of
                 None \<Rightarrow> None
               | Some None \<Rightarrow> Some (Inl file_access_denied)
               | Some (Some l) \<Rightarrow> Some (guarded (require
                   (if required = Share_full then level_rank (Some l) \<ge> level_rank (Some Level_full)
                    else level_rank (Some l) \<ge> level_rank (Some Level_view)) file_action_forbidden) ()))
           | None \<Rightarrow> Some (guarded (require (required \<noteq> Share_full \<or> u_role u = Company_admin)
               file_access_denied) ()))
         else Some (Inl file_access_denied)))"

section \<open>Space\<close>

definition owner_company :: "st_state \<Rightarrow> sfile \<Rightarrow> nat option" where
  "owner_company s f = (case tbl_get u_id (fi_owner f) (ac_users (st_acc s)) of
     None \<Rightarrow> None | Some u \<Rightarrow> u_company u)"

definition direct_attachment_bytes :: "st_state \<Rightarrow> nat \<Rightarrow> int" where
  "direct_attachment_bytes s c = sum_list (map at_size (tbl_filter
     (\<lambda>a. at_company a = c \<and> at_storage_file a = None \<and> at_has_file a) (st_attachments s)))"

definition get_company_storage_used_bytes :: "st_state \<Rightarrow> nat \<Rightarrow> int" where
  "get_company_storage_used_bytes s c =
     sum_list (map fi_size (tbl_filter (\<lambda>f. fi_company f = Some c
        \<or> (fi_company f = None \<and> owner_company s f = Some c)) (st_files s)))
     + direct_attachment_bytes s c"

definition get_guest_storage_used_bytes :: "st_state \<Rightarrow> nat \<Rightarrow> int" where
  "get_guest_storage_used_bytes s uid =
     sum_list (map fi_size (tbl_filter (\<lambda>f. fi_owner f = uid \<and> fi_company f = None) (st_files s)))"

text \<open>
  The limit of a company is a decimal number of gigabytes with three places: bytes and limit are
  compared in thousandths.
\<close>

definition gib :: int where
  "gib = 1024 * 1024 * 1024"

definition over_company_limit :: "company \<Rightarrow> int \<Rightarrow> bool" where
  "over_company_limit co bytes \<longleftrightarrow> bytes * 1000 > co_storage_limit co * gib"

text \<open>\<open>round(bytes / 1024 ** 3, 2)\<close> in hundredths: ties go to the even neighbour.\<close>

definition hundredths_of_gb :: "int \<Rightarrow> int" where
  "hundredths_of_gb bytes =
     (let q = bytes * 100 div gib; r = bytes * 100 mod gib
      in if 2 * r > gib \<or> (2 * r = gib \<and> odd q) then q + 1 else q)"

section \<open>Folder trees\<close>

fun fold_option :: "('a \<Rightarrow> 's \<Rightarrow> 's option) \<Rightarrow> 'a list \<Rightarrow> 's \<Rightarrow> 's option" where
  "fold_option f [] s = Some s"
| "fold_option f (x # xs) s = (case f x s of None \<Rightarrow> None | Some t \<Rightarrow> fold_option f xs t)"

definition delete_files_of :: "datetime \<Rightarrow> nat \<Rightarrow> st_state \<Rightarrow> st_state" where
  "delete_files_of now k s = s\<lparr>st_files := tbl_update (\<lambda>f. fi_folder f = Some k \<and> \<not> fi_is_deleted f)
     (\<lambda>f. f\<lparr>fi_is_deleted := True, fi_deleted_at := Some now\<rparr>) (st_files s)\<rparr>"

definition mark_folder_deleted :: "datetime \<Rightarrow> nat \<Rightarrow> st_state \<Rightarrow> st_state" where
  "mark_folder_deleted now k s = s\<lparr>st_folders := tbl_update (\<lambda>f. fo_id f = k)
     (\<lambda>f. f\<lparr>fo_is_deleted := True, fo_deleted_at := Some now\<rparr>) (st_folders s)\<rparr>"

definition live_children :: "st_state \<Rightarrow> nat \<Rightarrow> nat list" where
  "live_children s k = map fo_id (tbl_filter (\<lambda>f. fo_parent f = Some k \<and> \<not> fo_is_deleted f) (st_folders s))"

text \<open>
  \<open>_soft_delete_folder_recursive\<close> under a recursion limit of \<open>d\<close> calls; \<open>None\<close> is the
  \<open>RecursionError\<close>. One clock reading stands for the readings of the calls.
\<close>

primrec soft_delete_folder :: "nat \<Rightarrow> datetime \<Rightarrow> nat \<Rightarrow> st_state \<Rightarrow> st_state option" where
  "soft_delete_folder 0 = (\<lambda>now k s. None)"
| "soft_delete_folder (Suc d) = (\<lambda>now k s.
     (let s1 = delete_files_of now k s
      in map_option (mark_folder_deleted now k)
           (fold_option (soft_delete_folder d now) (live_children s1 k) s1)))"

text \<open>\<open>_collect_all_folder_files\<close>, under the same limit.\<close>

definition all_children :: "st_state \<Rightarrow> nat \<Rightarrow> nat list" where
  "all_children s k = map fo_id (tbl_filter (\<lambda>f. fo_parent f = Some k) (st_folders s))"

fun collect_option :: "('a \<Rightarrow> 'b list option) \<Rightarrow> 'a list \<Rightarrow> 'b list option" where
  "collect_option f [] = Some []"
| "collect_option f (x # xs) = (case f x of None \<Rightarrow> None | Some ys \<Rightarrow>
     map_option (\<lambda>zs. ys @ zs) (collect_option f xs))"

primrec collect_all_folder_files :: "nat \<Rightarrow> st_state \<Rightarrow> nat \<Rightarrow> sfile list option" where
  "collect_all_folder_files 0 = (\<lambda>s k. None)"
| "collect_all_folder_files (Suc d) = (\<lambda>s k.
     map_option (\<lambda>fs. tbl_filter (\<lambda>f. fi_folder f = Some k) (st_files s) @ fs)
       (collect_option (collect_all_folder_files d s) (all_children s k)))"

text \<open>Deleting a file row takes its shares along and empties the references of attachments.\<close>

definition remove_files :: "(sfile \<Rightarrow> bool) \<Rightarrow> st_state \<Rightarrow> st_state" where
  "remove_files P s =
     (let gone = map fi_id (tbl_filter P (st_files s))
      in s\<lparr>st_files := tbl_delete P (st_files s),
           st_shares := tbl_delete (\<lambda>x. sh_file x \<in> set gone) (st_shares s),
           st_attachments := tbl_update (\<lambda>a. case at_storage_file a of None \<Rightarrow> False | Some k \<Rightarrow> k \<in> set gone)
             (\<lambda>a. a\<lparr>at_storage_file := None\<rparr>) (st_attachments s)\<rparr>)"

text \<open>
  Deleting folder rows takes the folders below along, deleted or not, with their files and
  entries. As many rounds as there are folders reach every folder below.
\<close>

primrec folders_below :: "nat \<Rightarrow> folder list \<Rightarrow> nat list \<Rightarrow> nat list" where
  "folders_below 0 fs ks = ks"
| "folders_below (Suc n) fs ks = folders_below n fs (ks @ map fo_id (filter
     (\<lambda>f. fo_id f \<notin> set ks \<and> (case fo_parent f of None \<Rightarrow> False | Some p \<Rightarrow> p \<in> set ks)) fs))"

definition remove_folders :: "nat list \<Rightarrow> st_state \<Rightarrow> st_state" where
  "remove_folders ks s =
     (let gone = folders_below (length (rows (st_folders s))) (rows (st_folders s)) ks;
          s1 = remove_files (\<lambda>f. case fi_folder f of None \<Rightarrow> False | Some k \<Rightarrow> k \<in> set gone) s
      in s1\<lparr>st_folders := tbl_delete (\<lambda>f. fo_id f \<in> set gone) (st_folders s1),
            st_perms := tbl_delete (\<lambda>p. fp_folder p \<in> set gone) (st_perms s1)\<rparr>)"

definition delete_object :: "sfile \<Rightarrow> st_state \<Rightarrow> st_state" where
  "delete_object f s = (case fi_object f of
     None \<Rightarrow> s | Some k \<Rightarrow> s\<lparr>st_objects := tbl_delete (\<lambda>x. fst x = k) (st_objects s)\<rparr>)"

end
