(* ===== verification/Storage.thy ===== *)
theory Storage
  imports StorageModel
begin

text \<open>
  The folder, file and folder permission endpoints of \<open>storage/views.py\<close> with the validation of
  \<open>storage/serializers.py\<close>.
\<close>

section \<open>Parameters\<close>

text \<open>
  A reference in a query or a body: absent, empty, a key, or something that is no integer.
\<close>

datatype id_param = No_param | Null_param | Key_param nat | Bad_param

definition newest_first :: "('r \<Rightarrow> datetime) \<Rightarrow> 'r list \<Rightarrow> 'r list" where
  "newest_first created rs = sort_key (\<lambda>r. - created r) rs"

text \<open>The scope asked for; guests only have personal storage.\<close>

definition resolve_scope :: "user \<Rightarrow> bool option \<Rightarrow> fscope option \<Rightarrow> fscope" where
  "resolve_scope u is_company_shared requested =
     (if u_role u = Guest then Personal_scope
      else case is_company_shared of
        Some b \<Rightarrow> (if b then Company_scope else Personal_scope)
      | None \<Rightarrow> (case requested of Some sc \<Rightarrow> sc | None \<Rightarrow> Personal_scope))"

section \<open>Folders\<close>

definition folder_queryset ::
  "st_state \<Rightarrow> user \<Rightarrow> fscope option \<Rightarrow> id_param \<Rightarrow> api_error + folder list" where
  "folder_queryset s u sc parent =
     (let qs = filter (\<lambda>f. folder_visible s u f \<and> (sc = None \<or> sc = Some (fo_scope f))) (rows (st_folders s))
      in case parent of
           Bad_param \<Rightarrow> Inl (raise_validation_error ''parent_id'' ''storage.parent_id_invalid'')
         | No_param \<Rightarrow> Inr (newest_first fo_created_at qs)
         | Null_param \<Rightarrow> Inr (newest_first fo_created_at (filter (\<lambda>f. fo_parent f = None) qs))
         | Key_param k \<Rightarrow> Inr (newest_first fo_created_at (filter (\<lambda>f. fo_parent f = Some k) qs)))"

definition get_folder :: "st_state \<Rightarrow> user \<Rightarrow> nat \<Rightarrow> api_error + folder" where
  "get_folder s u k =
     (case IsGuestOrCompanyMember (Some u) of
        Some e \<Rightarrow> Inl e
      | None \<Rightarrow> (case find (\<lambda>f. fo_id f = k \<and> folder_visible s u f) (rows (st_folders s)) of
          None \<Rightarrow> Inl NotFound | Some f \<Rightarrow> Inr f))"

definition parent_error :: "string \<Rightarrow> api_error" where
  "parent_error key = raise_validation_error ''parent_id'' key"

definition resolve_parent :: "st_state \<Rightarrow> user \<Rightarrow> fscope \<Rightarrow> id_param \<Rightarrow> folder option run" where
  "resolve_parent s u sc parent =
     (case parent of
        No_param \<Rightarrow> Some (Inr None)
      | Null_param \<Rightarrow> Some (Inr None)
      | Bad_param \<Rightarrow> Some (Inl (parent_error ''storage.parent_id_not_integer''))
      | Key_param k \<Rightarrow> (case live_folder s k of
          None \<Rightarrow> Some (Inl (parent_error ''storage.parent_folder_not_found''))
        | Some p \<Rightarrow>
          (if sc = Personal_scope
           then Some (guarded (require (\<not> (fo_scope p \<noteq> Personal_scope \<or> fo_owner p \<noteq> u_id u))
                  (parent_error ''storage.personal_parent_inaccessible'')) (Some p))
           else if u_role u \<noteq> Superadmin \<and> (fo_scope p \<noteq> Company_scope \<or> fo_company p \<noteq> u_company u)
           then Some (Inl (parent_error ''storage.company_parent_inaccessible''))
           else if u_role u \<notin> {Superadmin, Company_admin}
           then (case folder_access_level s u p of
               None \<Rightarrow> None
             | Some l \<Rightarrow> Some (guarded (require (\<not> level_rank l < level_rank (Some Level_upload))
                 (parent_error ''storage.folder_upload_forbidden'')) (Some p)))
           else Some (Inr (Some p)))))"

definition new_folder :: "datetime \<Rightarrow> user \<Rightarrow> string \<Rightarrow> fscope \<Rightarrow> nat option \<Rightarrow> nat \<Rightarrow> folder" where
  "new_folder now u name sc parent i = \<lparr>fo_id = i, fo_name = name, fo_scope = sc, fo_owner = u_id u,
     fo_company = u_company u, fo_parent = parent, fo_created_at = now, fo_is_deleted = False,
     fo_deleted_at = None\<rparr>"

definition create_folder ::
  "datetime \<Rightarrow> user \<Rightarrow> string option \<Rightarrow> bool option \<Rightarrow> fscope option \<Rightarrow> id_param \<Rightarrow> st_state \<Rightarrow> st_state run" where
  "create_folder now u name is_company_shared requested parent s =
     (case IsGuestOrCompanyMember (Some u) of
        Some e \<Rightarrow> Some (Inl e)
      | None \<Rightarrow>
        (let sc = resolve_scope u is_company_shared requested
         in then_run (resolve_parent s u sc parent) (\<lambda>p.
              case name of
                None \<Rightarrow> Some (Inl (raise_validation_error ''name'' ''required''))
              | Some n \<Rightarrow> Some (Inr (s\<lparr>st_folders :=
                  tbl_insert (new_folder now u n sc (map_option fo_id p)) (st_folders s)\<rparr>)))))"

text \<open>
  PATCH writes the name, the scope and the parent; the parent is only looked up among the live
  folders.
\<close>

definition patch_folder ::
  "user \<Rightarrow> nat \<Rightarrow> string option \<Rightarrow> fscope option \<Rightarrow> nat option option \<Rightarrow> st_state \<Rightarrow> api_error + st_state" where
  "patch_folder u k name sc parent s =
     (case get_folder s u k of
        Inl e \<Rightarrow> Inl e
      | Inr f \<Rightarrow> guarded
          (case parent of
             Some (Some p) \<Rightarrow> require (live_folder s p \<noteq> None) (raise_validation_error ''parent'' ''does_not_exist'')
           | _ \<Rightarrow> None)
          (s\<lparr>st_folders := tbl_save fo_id (f\<lparr>
               fo_name := (case name of None \<Rightarrow> fo_name f | Some n \<Rightarrow> n),
               fo_scope := (case sc of None \<Rightarrow> fo_scope f | Some x \<Rightarrow> x),
               fo_parent := (case parent of None \<Rightarrow> fo_parent f | Some p \<Rightarrow> p)\<rparr>) (st_folders s)\<rparr>))"

text \<open>A PUT takes the same serializer, which then asks for the name.\<close>

definition put_folder ::
  "user \<Rightarrow> nat \<Rightarrow> string option \<Rightarrow> fscope option \<Rightarrow> nat option option \<Rightarrow> st_state \<Rightarrow> api_error + st_state" where
  "put_folder u k name sc parent s =
     (case get_folder s u k of
        Inl e \<Rightarrow> Inl e
      | Inr f \<Rightarrow> (if name = None then Inl (raise_validation_error ''name'' ''required'')
          else patch_folder u k name sc parent s))"

definition destroy_folder :: "nat \<Rightarrow> datetime \<Rightarrow> user \<Rightarrow> nat \<Rightarrow> st_state \<Rightarrow> api_error + st_state" where
  "destroy_folder limit now u k s =
     (case get_folder s u k of
        Inl e \<Rightarrow> Inl e
      | Inr f \<Rightarrow> (case soft_delete_folder limit now k s of None \<Rightarrow> Inl ServerError | Some t \<Rightarrow> Inr t))"

definition get_deleted_folder :: "st_state \<Rightarrow> user \<Rightarrow> nat \<Rightarrow> api_error + folder" where
  "get_deleted_folder s u k =
     (case IsGuestOrCompanyMember (Some u) of
        Some e \<Rightarrow> Inl e
      | None \<Rightarrow> (case find (\<lambda>f. fo_id f = k \<and> fo_is_deleted f) (rows (st_folders s)) of
          None \<Rightarrow> Inl NotFound
        | Some f \<Rightarrow> guarded (check_folder_permission u f) f))"

text \<open>A folder comes back with the files it holds itself.\<close>

definition restore_folder_row :: "nat \<Rightarrow> st_state \<Rightarrow> st_state" where
  "restore_folder_row k s = s\<lparr>
     st_folders := tbl_update (\<lambda>f. fo_id f = k) (\<lambda>f. f\<lparr>fo_is_deleted := False, fo_deleted_at := None\<rparr>) (st_folders s),
     st_files := tbl_update (\<lambda>f. fi_folder f = Some k \<and> fi_is_deleted f)
       (\<lambda>f. f\<lparr>fi_is_deleted := False, fi_deleted_at := None\<rparr>) (st_files s)\<rparr>"

definition restore_folder :: "user \<Rightarrow> nat \<Rightarrow> st_state \<Rightarrow> api_error + st_state" where
  "restore_folder u k s =
     (case get_deleted_folder s u k of Inl e \<Rightarrow> Inl e | Inr f \<Rightarrow> Inr (restore_folder_row k s))"

text \<open>The objects of the files below go first, then the rows.\<close>

definition destroy_tree :: "nat \<Rightarrow> nat \<Rightarrow> st_state \<Rightarrow> st_state option" where
  "destroy_tree limit k s = (case collect_all_folder_files limit s k of
     None \<Rightarrow> None | Some fs \<Rightarrow> Some (remove_folders [k] (fold delete_object fs s)))"

definition permanent_delete_folder :: "nat \<Rightarrow> user \<Rightarrow> nat \<Rightarrow> st_state \<Rightarrow> api_error + st_state" where
  "permanent_delete_folder limit u k s =
     (case get_deleted_folder s u k of
        Inl e \<Rightarrow> Inl e
      | Inr f \<Rightarrow> (case destroy_tree limit k s of None \<Rightarrow> Inl ServerError | Some t \<Rightarrow> Inr t))"

text \<open>The folders and files shown inside a folder.\<close>

definition retrieve_folder :: "user \<Rightarrow> nat \<Rightarrow> st_state \<Rightarrow> api_error + folder \<times> folder list \<times> sfile list" where
  "retrieve_folder u k s =
     (case get_folder s u k of
        Inl e \<Rightarrow> Inl e
      | Inr f \<Rightarrow>
        (let below = filter (\<lambda>x. fo_parent x = Some k \<and> \<not> fo_is_deleted x) (rows (st_folders s));
             inside = filter (\<lambda>x. fi_folder x = Some k \<and> \<not> fi_is_deleted x) (rows (st_files s))
         in Inr (f,
             (if fo_scope f = Personal_scope
                then filter (\<lambda>x. fo_scope x = Personal_scope \<and> fo_owner x = u_id u) below
              else if u_role u = Superadmin then filter (\<lambda>x. fo_scope x = Company_scope) below
              else filter (\<lambda>x. fo_scope x = Company_scope \<and> fo_company x = u_company u
                \<and> (u_role u = Company_admin \<or> perms_of s (fo_id x) = []
                  \<or> list_ex (\<lambda>p. fp_user p = Some (u_id u) \<or> fp_role p = Some (role_str (u_role u)))
                      (perms_of s (fo_id x)))) below),
             (if fo_scope f = Personal_scope then filter (\<lambda>x. fi_owner x = u_id u) inside
              else if u_role u = Superadmin then inside
              else filter (\<lambda>x. fi_company x = u_company u) inside))))"

section \<open>Folder permissions\<close>

text \<open>The database constraints of the entries: user or role, and one entry per folder and either.\<close>

definition user_xor_role :: "folder_perm \<Rightarrow> bool" where
  "user_xor_role p \<longleftrightarrow> (fp_user p \<noteq> None \<and> fp_role p = None) \<or> (fp_user p = None \<and> fp_role p \<noteq> None)"

definition perm_unique :: "st_state \<Rightarrow> folder_perm \<Rightarrow> bool" where
  "perm_unique s p \<longleftrightarrow> \<not> list_ex (\<lambda>q. fp_id q \<noteq> fp_id p \<and> fp_folder q = fp_folder p
     \<and> ((fp_user p \<noteq> None \<and> fp_user q = fp_user p) \<or> (fp_role p \<noteq> None \<and> fp_role q = fp_role p)))
     (rows (st_perms s))"

definition perm_user_error :: "st_state \<Rightarrow> folder option \<Rightarrow> nat option \<Rightarrow> api_error option" where
  "perm_user_error s folder user = (case user of
     None \<Rightarrow> None
   | Some k \<Rightarrow> (case tbl_get u_id k (ac_users (st_acc s)) of
       None \<Rightarrow> Some (raise_validation_error ''user'' ''does_not_exist'')
     | Some m \<Rightarrow> (case folder of
         None \<Rightarrow> None
       | Some f \<Rightarrow> require (\<not> (fo_company f \<noteq> None \<and> u_company m \<noteq> fo_company f))
           (raise_validation_error ''user'' ''storage.permission_wrong_company''))))"

text \<open>An empty role counts as none.\<close>

definition given_role :: "string option option \<Rightarrow> string option" where
  "given_role r = (case r of Some (Some x) \<Rightarrow> (if x = [] then None else Some x) | _ \<Rightarrow> None)"

definition admin_of_folders :: "user \<Rightarrow> api_error option" where
  "admin_of_folders u = require (u_role u \<in> {Superadmin, Company_admin})
     (PermissionDenied ''storage.folder_action_forbidden'')"

definition create_folder_permission ::
  "user \<Rightarrow> nat \<Rightarrow> nat option \<Rightarrow> string option option \<Rightarrow> level option \<Rightarrow> st_state \<Rightarrow> api_error + st_state" where
  "create_folder_permission u k user role level s =
     (case get_folder s u k of
        Inl e \<Rightarrow> Inl e
      | Inr f \<Rightarrow> (case first_err
            [admin_of_folders u,
             (case user of
                None \<Rightarrow> None
              | Some m \<Rightarrow> require (tbl_get u_id m (ac_users (st_acc s)) \<noteq> None)
                  (raise_validation_error ''user'' ''does_not_exist'')),
             require (\<not> (user = None \<and> given_role role = None))
               (raise_validation_error ''non_field_errors'' ''storage.permission_user_or_role_required''),
             require (\<not> (user \<noteq> None \<and> given_role role \<noteq> None))
               (raise_validation_error ''non_field_errors'' ''storage.permission_user_xor_role''),
             perm_user_error s (Some f) user] of
          Some e \<Rightarrow> Inl e
        | None \<Rightarrow>
          (let p = \<lparr>fp_id = next_id (st_perms s), fp_folder = k, fp_user = user, fp_role = given_role role,
                 fp_permission = (case level of None \<Rightarrow> Level_view | Some l \<Rightarrow> l), fp_granted_by = Some (u_id u)\<rparr>
           in guarded (require (perm_unique s p) ServerError)
                (s\<lparr>st_perms := tbl_insert (\<lambda>i. p\<lparr>fp_id := i\<rparr>) (st_perms s)\<rparr>))))"

definition list_folder_permissions :: "user \<Rightarrow> nat \<Rightarrow> st_state \<Rightarrow> api_error + folder_perm list" where
  "list_folder_permissions u k s =
     (case get_folder s u k of Inl e \<Rightarrow> Inl e | Inr f \<Rightarrow> guarded (admin_of_folders u) (perms_of s k))"

definition get_folder_perm :: "st_state \<Rightarrow> user \<Rightarrow> nat \<Rightarrow> api_error + folder_perm" where
  "get_folder_perm s u i =
     (case IsCompanyAdmin (Some u) of
        Some e \<Rightarrow> Inl e
      | None \<Rightarrow> (case tbl_get fp_id i (st_perms s) of
          None \<Rightarrow> Inl NotFound
        | Some p \<Rightarrow>
          (if u_role u = Superadmin \<or> Option.bind (any_folder s (fp_folder p)) fo_company = u_company u
             then Inr p else Inl NotFound)))"

text \<open>The role is written on every PATCH: none when the body has none.\<close>

definition patch_folder_permission ::
  "user \<Rightarrow> nat \<Rightarrow> nat option option \<Rightarrow> string option option \<Rightarrow> level option \<Rightarrow> st_state \<Rightarrow> api_error + st_state" where
  "patch_folder_permission u i user role level s =
     (case get_folder_perm s u i of
        Inl e \<Rightarrow> Inl e
      | Inr p \<Rightarrow> (case first_err
            [(case user of
                Some (Some m) \<Rightarrow> require (tbl_get u_id m (ac_users (st_acc s)) \<noteq> None)
                  (raise_validation_error ''user'' ''does_not_exist'')
              | _ \<Rightarrow> None),
             require (\<not> ((case user of Some (Some _) \<Rightarrow> True | _ \<Rightarrow> False) \<and> given_role role \<noteq> None))
               (raise_validation_error ''non_field_errors'' ''storage.permission_user_xor_role''),
             perm_user_error s (any_folder s (fp_folder p)) (case user of Some x \<Rightarrow> x | None \<Rightarrow> None)] of
          Some e \<Rightarrow> Inl e
        | None \<Rightarrow>
          (let q = p\<lparr>fp_user := (case user of None \<Rightarrow> fp_user p | Some x \<Rightarrow> x), fp_role := given_role role,
                 fp_permission := (case level of None \<Rightarrow> fp_permission p | Some l \<Rightarrow> l)\<rparr>
           in guarded (require (user_xor_role q \<and> perm_unique s q) ServerError)
                (s\<lparr>st_perms := tbl_save fp_id q (st_perms s)\<rparr>))))"

definition destroy_folder_permission :: "user \<Rightarrow> nat \<Rightarrow> st_state \<Rightarrow> api_error + st_state" where
  "destroy_folder_permission u i s =
     (case get_folder_perm s u i of
        Inl e \<Rightarrow> Inl e
      | Inr p \<Rightarrow> Inr (s\<lparr>st_perms := tbl_delete (\<lambda>q. fp_id q = i) (st_perms s)\<rparr>))"

end
