(* ===== verification/StorageFiles.thy ===== *)
theory StorageFiles
  imports Storage
begin

text \<open>
  The file and file share endpoints of \<open>storage/views.py\<close>.
\<close>

section \<open>Listing files\<close>

definition ARCHIVE_MIME_TYPES :: "string list" where
  "ARCHIVE_MIME_TYPES = [''application/zip'', ''application/x-rar-compressed'', ''application/x-rar'',
     ''application/x-7z-compressed'', ''application/gzip'', ''application/x-tar'', ''application/x-bzip2'']"

datatype file_category = Image | Media | Archive | Document | Other_file

definition starts_with :: "string \<Rightarrow> string \<Rightarrow> bool" where
  "starts_with prefix s \<longleftrightarrow> take (length prefix) s = prefix"

definition file_category_of :: "sfile \<Rightarrow> file_category" where
  "file_category_of f =
     (let t = fi_content_type f
      in if starts_with ''image/'' t then Image
         else if starts_with ''video/'' t then Media
         else if starts_with ''audio/'' t then Media
         else if t \<in> set ARCHIVE_MIME_TYPES then Archive
         else if starts_with ''application/'' t then Document
         else if starts_with ''text/'' t then Document
         else Other_file)"

definition file_queryset ::
  "st_state \<Rightarrow> user \<Rightarrow> fscope option \<Rightarrow> id_param \<Rightarrow> file_category option \<Rightarrow> api_error + sfile list" where
  "file_queryset s u sc folder category =
     (let qs = filter (\<lambda>f. file_visible s u f
            \<and> (case sc of
                 None \<Rightarrow> True
               | Some Company_scope \<Rightarrow> file_in s Company_scope f \<or> (fi_folder f = None \<and> fi_company f = u_company u)
               | Some Personal_scope \<Rightarrow> file_in s Personal_scope f \<or> (fi_folder f = None \<and> fi_company f = None))
            \<and> (category = None \<or> category = Some (file_category_of f))) (rows (st_files s))
      in case folder of
           Bad_param \<Rightarrow> Inl (raise_validation_error ''folder_id'' ''storage.folder_id_invalid'')
         | No_param \<Rightarrow> Inr (newest_first fi_created_at qs)
         | Null_param \<Rightarrow> Inr (newest_first fi_created_at (filter (\<lambda>f. fi_folder f = None) qs))
         | Key_param k \<Rightarrow> Inr (newest_first fi_created_at (filter (\<lambda>f. fi_folder f = Some k) qs)))"

definition get_file :: "st_state \<Rightarrow> user \<Rightarrow> nat \<Rightarrow> api_error + sfile" where
  "get_file s u k =
     (case IsGuestOrCompanyMember (Some u) of
        Some e \<Rightarrow> Inl e
      | None \<Rightarrow> (case find (\<lambda>f. fi_id f = k \<and> file_visible s u f) (rows (st_files s)) of
          None \<Rightarrow> Inl NotFound | Some f \<Rightarrow> Inr f))"

text \<open>The file, once the user is known to have the permission.\<close>

definition get_file_with :: "st_state \<Rightarrow> user \<Rightarrow> nat \<Rightarrow> share_level \<Rightarrow> sfile run" where
  "get_file_with s u k required =
     then_run (Some (get_file s u k)) (\<lambda>f. then_run (ensure_file_permission s u f required) (\<lambda>_. Some (Inr f)))"

section \<open>Uploading\<close>

definition folder_error :: "string \<Rightarrow> api_error" where
  "folder_error key = raise_validation_error ''folder_id'' key"

definition resolve_folder :: "st_state \<Rightarrow> user \<Rightarrow> id_param \<Rightarrow> folder option run" where
  "resolve_folder s u p =
     (case p of
        No_param \<Rightarrow> Some (Inr None)
      | Null_param \<Rightarrow> Some (Inr None)
      | Bad_param \<Rightarrow> Some (Inl (folder_error ''storage.folder_not_found''))
      | Key_param k \<Rightarrow> (case live_folder s k of
          None \<Rightarrow> Some (Inl (folder_error ''storage.folder_not_found''))
        | Some f \<Rightarrow>
          (if fo_scope f = Personal_scope \<and> fo_owner f \<noteq> u_id u
             then Some (Inl (folder_error ''storage.personal_folder_inaccessible''))
           else if fo_scope f = Company_scope \<and> u_role u \<noteq> Superadmin \<and> fo_company f \<noteq> u_company u
             then Some (Inl (folder_error ''storage.company_folder_inaccessible''))
           else if fo_scope f = Company_scope \<and> u_role u \<notin> {Superadmin, Company_admin}
             then (case folder_access_level s u f of
                 None \<Rightarrow> None
               | Some l \<Rightarrow> Some (guarded (require (\<not> level_rank l < level_rank (Some Level_upload))
                   (folder_error ''storage.folder_upload_forbidden'')) (Some f)))
           else Some (Inr (Some f)))))"

record upload =
  up_size :: int
  up_content_type :: string

text \<open>The reference the views read: \<open>folder_id\<close> if the body has it, else \<open>folder\<close>.\<close>

definition folder_param :: "id_param \<Rightarrow> id_param \<Rightarrow> id_param" where
  "folder_param folder_id folder = (if folder_id \<noteq> No_param then folder_id else folder)"

definition folder_field_error :: "st_state \<Rightarrow> string \<Rightarrow> id_param \<Rightarrow> api_error option" where
  "folder_field_error s field p = (case p of
     Key_param k \<Rightarrow> require (live_folder s k \<noteq> None) (raise_validation_error field ''does_not_exist'')
   | Bad_param \<Rightarrow> Some (raise_validation_error field ''incorrect_type'')
   | _ \<Rightarrow> None)"

definition storage_limit_exceeded :: api_error where
  "storage_limit_exceeded = LocalizedError ''STORAGE_LIMIT_EXCEEDED'' ''storage.limit_exceeded'' 400"

text \<open>\<open>guest_gb\<close> is \<open>GUEST_STORAGE_LIMIT_GB\<close> of the settings.\<close>

definition upload_error :: "int \<Rightarrow> st_state \<Rightarrow> user \<Rightarrow> upload option \<Rightarrow> api_error option" where
  "upload_error guest_gb s u up =
     (case up of
        None \<Rightarrow> Some (raise_validation_error ''detail'' ''File is required'')
      | Some b \<Rightarrow>
        (if up_size b > 100 * 1024 * 1024 then Some (raise_validation_error ''detail'' ''File size exceeds 100 MB'')
         else (case company_of (st_acc s) u of
             Some co \<Rightarrow> require (\<not> over_company_limit co (get_company_storage_used_bytes s (co_id co) + up_size b))
               storage_limit_exceeded
           | None \<Rightarrow> require (\<not> (u_role u = Guest
                \<and> get_guest_storage_used_bytes s (u_id u) + up_size b > guest_gb * gib)) storage_limit_exceeded)))"

definition new_file :: "datetime \<Rightarrow> user \<Rightarrow> string \<Rightarrow> upload \<Rightarrow> nat \<Rightarrow> nat option \<Rightarrow> nat option \<Rightarrow> nat \<Rightarrow> sfile" where
  "new_file now u name b obj folder company i = \<lparr>fi_id = i, fi_name = name, fi_object = Some obj,
     fi_size = up_size b, fi_content_type = up_content_type b, fi_folder = folder, fi_owner = u_id u,
     fi_company = company, fi_created_at = now, fi_is_deleted = False, fi_deleted_at = None\<rparr>"

definition store_object :: "int \<Rightarrow> st_state \<Rightarrow> nat \<times> st_state" where
  "store_object n s = (next_id (st_objects s), s\<lparr>st_objects := tbl_insert (\<lambda>k. (k, n)) (st_objects s)\<rparr>)"

text \<open>The company's administrators are warned with the space used in thousandths of a gigabyte.\<close>

definition warn_storage :: "datetime \<Rightarrow> company option \<Rightarrow> int \<Rightarrow> st_state \<Rightarrow> st_state" where
  "warn_storage now co bytes s = (case co of
     None \<Rightarrow> s
   | Some c \<Rightarrow> s\<lparr>st_nt := notify_company_admins_limit_thresholds now (st_acc s) (co_id c) ''storage''
       (10 * hundredths_of_gb bytes) (co_storage_limit c) (st_nt s)\<rparr>)"

text \<open>The scope of the folder, if there is one, decides whether the file belongs to the company.\<close>

definition upload_scope :: "user \<Rightarrow> bool option \<Rightarrow> fscope option \<Rightarrow> folder option \<Rightarrow> fscope" where
  "upload_scope u is_company_shared requested f = (case f of
     Some x \<Rightarrow> fo_scope x | None \<Rightarrow> resolve_scope u is_company_shared requested)"

definition file_company :: "user \<Rightarrow> fscope \<Rightarrow> nat option" where
  "file_company u sc = (if sc = Company_scope then u_company u else None)"

definition used_after :: "st_state \<Rightarrow> user \<Rightarrow> upload \<Rightarrow> int" where
  "used_after s u b = (case company_of (st_acc s) u of
     None \<Rightarrow> 0 | Some co \<Rightarrow> get_company_storage_used_bytes s (co_id co) + up_size b)"

definition create_file ::
  "int \<Rightarrow> datetime \<Rightarrow> user \<Rightarrow> string option \<Rightarrow> upload option \<Rightarrow> bool option \<Rightarrow> fscope option \<Rightarrow>
   id_param \<Rightarrow> id_param \<Rightarrow> st_state \<Rightarrow> st_state run" where
  "create_file guest_gb now u name up is_company_shared requested folder_id folder s =
     (case IsGuestOrCompanyMember (Some u) of
        Some e \<Rightarrow> Some (Inl e)
      | None \<Rightarrow> (case upload_error guest_gb s u up of
          Some e \<Rightarrow> Some (Inl e)
        | None \<Rightarrow> (case (name, up) of
            (Some n, Some b) \<Rightarrow>
              (case first_err [folder_field_error s ''folder'' folder, folder_field_error s ''folder_id'' folder_id] of
                 Some e \<Rightarrow> Some (Inl e)
               | None \<Rightarrow> then_run (resolve_folder s u (folder_param folder_id folder)) (\<lambda>f.
                   case store_object (up_size b) s of (obj, s1) \<Rightarrow>
                     Some (Inr (warn_storage now (company_of (st_acc s) u) (used_after s u b)
                       (s1\<lparr>st_files := tbl_insert (new_file now u n b obj (map_option fo_id f)
                          (file_company u (upload_scope u is_company_shared requested f))) (st_files s1)\<rparr>)))))
          | _ \<Rightarrow> Some (Inl (raise_validation_error ''name'' ''required'')))))"

section \<open>Changing files\<close>

text \<open>
  PATCH writes the name, the content and the folder; the folder is only looked up among the live
  ones (\<open>folder_id\<close> over \<open>folder\<close>), and the size stays what the first upload had.
\<close>

definition patch_file ::
  "user \<Rightarrow> nat \<Rightarrow> string option \<Rightarrow> upload option \<Rightarrow> id_param \<Rightarrow> id_param \<Rightarrow> st_state \<Rightarrow> st_state run" where
  "patch_file u k name up folder_id folder s =
     then_run (get_file_with s u k Share_full) (\<lambda>f.
       case first_err [folder_field_error s ''folder'' folder, folder_field_error s ''folder_id'' folder_id] of
         Some e \<Rightarrow> Some (Inl e)
       | None \<Rightarrow>
         (case (case up of None \<Rightarrow> (fi_object f, s)
                  | Some b \<Rightarrow> (case store_object (up_size b) s of (obj, s1) \<Rightarrow> (Some obj, s1))) of (obj, s1) \<Rightarrow>
            Some (Inr (s1\<lparr>st_files := tbl_save fi_id (f\<lparr>
              fi_name := (case name of None \<Rightarrow> fi_name f | Some n \<Rightarrow> n),
              fi_object := obj,
              fi_folder := (case folder_param folder_id folder of
                 Key_param x \<Rightarrow> Some x | Null_param \<Rightarrow> None | _ \<Rightarrow> fi_folder f)\<rparr>) (st_files s1)\<rparr>))))"

text \<open>\<open>update\<close> asks for the name and the file as well.\<close>

definition put_file ::
  "user \<Rightarrow> nat \<Rightarrow> string option \<Rightarrow> upload option \<Rightarrow> id_param \<Rightarrow> id_param \<Rightarrow> st_state \<Rightarrow> st_state run" where
  "put_file u k name up folder_id folder s =
     then_run (get_file_with s u k Share_full) (\<lambda>f.
       case first_err [require (name \<noteq> None) (raise_validation_error ''name'' ''required''),
                       require (up \<noteq> None) (raise_validation_error ''file'' ''required'')] of
         Some e \<Rightarrow> Some (Inl e)
       | None \<Rightarrow> patch_file u k name up folder_id folder s)"

definition trash_file :: "datetime \<Rightarrow> nat \<Rightarrow> st_state \<Rightarrow> st_state" where
  "trash_file now k s = s\<lparr>st_files := tbl_update (\<lambda>f. fi_id f = k)
     (\<lambda>f. f\<lparr>fi_is_deleted := True, fi_deleted_at := Some now\<rparr>) (st_files s)\<rparr>"

definition destroy_file :: "datetime \<Rightarrow> user \<Rightarrow> nat \<Rightarrow> st_state \<Rightarrow> st_state run" where
  "destroy_file now u k s =
     then_run (get_file_with s u k Share_full) (\<lambda>f. Some (Inr (trash_file now k s)))"

definition retrieve_file :: "user \<Rightarrow> nat \<Rightarrow> st_state \<Rightarrow> sfile run" where
  "retrieve_file u k s = get_file_with s u k Share_view"

text \<open>The download looks the file up among all live files.\<close>

definition download :: "user \<Rightarrow> nat \<Rightarrow> st_state \<Rightarrow> nat run" where
  "download u k s =
     (case IsGuestOrCompanyMember (Some u) of
        Some e \<Rightarrow> Some (Inl e)
      | None \<Rightarrow> (case live_file s k of
          None \<Rightarrow> Some (Inl NotFound)
        | Some f \<Rightarrow> then_run (ensure_file_permission s u f Share_download) (\<lambda>_.
            case fi_object f of None \<Rightarrow> Some (Inl NotFound) | Some obj \<Rightarrow> Some (Inr obj))))"

definition may_bulk_delete :: "st_state \<Rightarrow> user \<Rightarrow> sfile \<Rightarrow> bool option" where
  "may_bulk_delete s u f =
     (case (case folder_of_file s f of None \<Rightarrow> Some None | Some k \<Rightarrow> folder_access_level s u k) of
        None \<Rightarrow> None
      | Some l \<Rightarrow> Some (u_role u = Superadmin \<or> fi_owner f = u_id u
          \<or> (u_company u \<noteq> None \<and> fi_company f = u_company u \<and> u_role u = Company_admin)
          \<or> level_rank l \<ge> level_rank (Some Level_full)))"

fun check_bulk :: "st_state \<Rightarrow> user \<Rightarrow> sfile list \<Rightarrow> unit run" where
  "check_bulk s u [] = Some (Inr ())"
| "check_bulk s u (f # fs) = (case may_bulk_delete s u f of
     None \<Rightarrow> None
   | Some True \<Rightarrow> check_bulk s u fs
   | Some False \<Rightarrow> Some (Inl (PermissionDenied ''No permission to delete file'')))"

definition bulk_delete_files :: "datetime \<Rightarrow> user \<Rightarrow> nat list \<Rightarrow> st_state \<Rightarrow> st_state run" where
  "bulk_delete_files now u ids s =
     (case IsGuestOrCompanyMember (Some u) of
        Some e \<Rightarrow> Some (Inl e)
      | None \<Rightarrow>
        (if ids = [] then Some (Inl (raise_validation_error ''detail'' ''ids''))
         else (let P = (\<lambda>f. file_visible s u f \<and> fi_id f \<in> set ids)
               in then_run (check_bulk s u (newest_first fi_created_at (tbl_filter P (st_files s)))) (\<lambda>_.
                    Some (Inr (s\<lparr>st_files := tbl_update P
                      (\<lambda>f. f\<lparr>fi_is_deleted := True, fi_deleted_at := Some now\<rparr>) (st_files s)\<rparr>))))))"

text \<open>A move changes the folder only, not the company the file counts for.\<close>

definition move_file :: "user \<Rightarrow> nat \<Rightarrow> id_param \<Rightarrow> id_param \<Rightarrow> st_state \<Rightarrow> st_state run" where
  "move_file u k folder_id folder s =
     then_run (get_file_with s u k Share_full) (\<lambda>f.
       then_run (resolve_folder s u (folder_param folder_id folder)) (\<lambda>x.
         Some (Inr (s\<lparr>st_files := tbl_save fi_id (f\<lparr>fi_folder := map_option fo_id x\<rparr>) (st_files s)\<rparr>))))"

definition get_deleted_file :: "st_state \<Rightarrow> user \<Rightarrow> nat \<Rightarrow> sfile run" where
  "get_deleted_file s u k =
     (case IsGuestOrCompanyMember (Some u) of
        Some e \<Rightarrow> Some (Inl e)
      | None \<Rightarrow> (case find (\<lambda>f. fi_id f = k \<and> fi_is_deleted f) (rows (st_files s)) of
          None \<Rightarrow> Some (Inl NotFound)
        | Some f \<Rightarrow> then_run (ensure_file_permission s u f Share_full) (\<lambda>_. Some (Inr f))))"

definition restore_file_row :: "nat \<Rightarrow> st_state \<Rightarrow> st_state" where
  "restore_file_row k s = s\<lparr>st_files := tbl_update (\<lambda>f. fi_id f = k)
     (\<lambda>f. f\<lparr>fi_is_deleted := False, fi_deleted_at := None\<rparr>) (st_files s)\<rparr>"

definition restore_file :: "user \<Rightarrow> nat \<Rightarrow> st_state \<Rightarrow> st_state run" where
  "restore_file u k s = then_run (get_deleted_file s u k) (\<lambda>f. Some (Inr (restore_file_row k s)))"

text \<open>The object goes first, then the row.\<close>

definition destroy_file_row :: "sfile \<Rightarrow> st_state \<Rightarrow> st_state" where
  "destroy_file_row f s = remove_files (\<lambda>g. fi_id g = fi_id f) (delete_object f s)"

definition permanent_delete_file :: "user \<Rightarrow> nat \<Rightarrow> st_state \<Rightarrow> st_state run" where
  "permanent_delete_file u k s = then_run (get_deleted_file s u k) (\<lambda>f. Some (Inr (destroy_file_row f s)))"

definition list_file_shares :: "user \<Rightarrow> nat \<Rightarrow> st_state \<Rightarrow> api_error + share list" where
  "list_file_shares u k s =
     (case get_file s u k of
        Inl e \<Rightarrow> Inl e
      | Inr f \<Rightarrow> guarded (require (u_role u = Superadmin \<or> fi_owner f = u_id u)
          (PermissionDenied ''storage.recipients_owner_only''))
          (rev (tbl_filter (\<lambda>x. sh_file x = k) (st_shares s))))"

section \<open>Shares\<close>

text \<open>
  \<open>FileShareSerializer.validate\<close>: \<open>old\<close> is the share being changed, \<open>None\<close> on creation. Only a
  creation asks whether the file belongs to the user. Shares are listed newest first: their keys
  grow with their creation.
\<close>

definition validate_share :: "st_state \<Rightarrow> user \<Rightarrow> share option \<Rightarrow> sfile \<Rightarrow> user \<Rightarrow> api_error option" where
  "validate_share s u old f target =
     first_err
       [require (\<not> list_ex (\<lambda>x. sh_file x = fi_id f \<and> sh_with x = u_id target
             \<and> (case old of None \<Rightarrow> True | Some y \<Rightarrow> sh_id x \<noteq> sh_id y)) (rows (st_shares s)))
          (raise_validation_error ''non_field_errors'' ''unique''),
        require (\<not> (old = None \<and> fi_owner f \<noteq> u_id u)) (raise_validation_error ''file'' ''storage.share_owner_only''),
        require (\<not> u_company target \<noteq> u_company u) (raise_validation_error ''shared_with'' ''storage.share_wrong_company''),
        require ((if fi_company f \<noteq> None then fi_company f else u_company u) = u_company target)
          (raise_validation_error ''shared_with'' ''storage.share_cross_company'')]"

definition live_file_field :: "st_state \<Rightarrow> nat \<Rightarrow> api_error + sfile" where
  "live_file_field s k = (case live_file s k of
     None \<Rightarrow> Inl (raise_validation_error ''file'' ''does_not_exist'') | Some f \<Rightarrow> Inr f)"

definition user_field :: "st_state \<Rightarrow> nat \<Rightarrow> api_error + user" where
  "user_field s k = (case tbl_get u_id k (ac_users (st_acc s)) of
     None \<Rightarrow> Inl (raise_validation_error ''shared_with'' ''does_not_exist'') | Some t \<Rightarrow> Inr t)"

definition create_share ::
  "datetime \<Rightarrow> user \<Rightarrow> nat \<Rightarrow> nat \<Rightarrow> share_level option \<Rightarrow> string \<Rightarrow> st_state \<Rightarrow> api_error + st_state" where
  "create_share now u file target level comment s =
     (case IsCompanyMember (Some u) of
        Some e \<Rightarrow> Inl e
      | None \<Rightarrow> (case live_file_field s file of
          Inl e \<Rightarrow> Inl e
        | Inr f \<Rightarrow> (case user_field s target of
            Inl e \<Rightarrow> Inl e
          | Inr t \<Rightarrow> guarded (validate_share s u None f t)
              (s\<lparr>st_shares := tbl_insert (\<lambda>i. \<lparr>sh_id = i, sh_file = file, sh_with = target, sh_by = u_id u,
                   sh_permission = (case level of None \<Rightarrow> Share_view | Some l \<Rightarrow> l), sh_comment = comment\<rparr>) (st_shares s),
                 st_nt := create_notification now target Announcement_company (Fmt ''file_shared'' [])
                   (Fmt ''file_shared_by'' [Str (full_name u), Str (fi_name f)])
                   (Some (Fmt ''/files'' [Num (int file)])) (st_nt s)\<rparr>))))"

text \<open>
  A share can be changed and revoked by who granted it, while its file is not in the trash; with
  the query parameter \<open>shared_with_me\<close> by who received it.
\<close>

definition get_own_share :: "st_state \<Rightarrow> user \<Rightarrow> bool \<Rightarrow> nat \<Rightarrow> api_error + share" where
  "get_own_share s u shared_with_me i =
     (case IsCompanyMember (Some u) of
        Some e \<Rightarrow> Inl e
      | None \<Rightarrow> (case find (\<lambda>x. sh_id x = i \<and> (if shared_with_me then sh_with x else sh_by x) = u_id u
             \<and> live_file s (sh_file x) \<noteq> None) (rows (st_shares s)) of
          None \<Rightarrow> Inl NotFound | Some x \<Rightarrow> Inr x))"

definition patch_share ::
  "user \<Rightarrow> bool \<Rightarrow> nat \<Rightarrow> nat option \<Rightarrow> nat option \<Rightarrow> share_level option \<Rightarrow> string option \<Rightarrow> st_state \<Rightarrow>
   api_error + st_state" where
  "patch_share u me i file target level comment s =
     (case get_own_share s u me i of
        Inl e \<Rightarrow> Inl e
      | Inr x \<Rightarrow> (case live_file_field s (case file of None \<Rightarrow> sh_file x | Some k \<Rightarrow> k) of
          Inl e \<Rightarrow> Inl e
        | Inr f \<Rightarrow> (case user_field s (case target of None \<Rightarrow> sh_with x | Some k \<Rightarrow> k) of
            Inl e \<Rightarrow> Inl e
          | Inr t \<Rightarrow> guarded (validate_share s u (Some x) f t)
              (s\<lparr>st_shares := tbl_save sh_id (x\<lparr>sh_file := fi_id f, sh_with := u_id t,
                   sh_permission := (case level of None \<Rightarrow> sh_permission x | Some l \<Rightarrow> l),
                   sh_comment := (case comment of None \<Rightarrow> sh_comment x | Some c \<Rightarrow> c)\<rparr>) (st_shares s)\<rparr>))))"

definition destroy_share :: "user \<Rightarrow> bool \<Rightarrow> nat \<Rightarrow> st_state \<Rightarrow> api_error + st_state" where
  "destroy_share u me i s =
     (case get_own_share s u me i of
        Inl e \<Rightarrow> Inl e
      | Inr x \<Rightarrow> Inr (s\<lparr>st_shares := tbl_delete (\<lambda>y. sh_id y = i) (st_shares s)\<rparr>))"

definition list_shares :: "user \<Rightarrow> bool \<Rightarrow> st_state \<Rightarrow> api_error + share list" where
  "list_shares u shared_with_me s =
     guarded (IsCompanyMember (Some u))
       (rev (tbl_filter (\<lambda>x. (sh_with x = u_id u \<or> (\<not> shared_with_me \<and> sh_by x = u_id u))
          \<and> live_file s (sh_file x) \<noteq> None) (st_shares s)))"

end
