(* ===== verification/StorageTrash.thy ===== *)
theory StorageTrash
  imports StorageFiles
begin

text \<open>
  The trash of \<open>storage/views.py\<close>, the storage usage it reports, and the clean-up task of
  \<open>storage/tasks.py\<close>.
\<close>

section \<open>What a user may restore or destroy\<close>

text \<open>\<open>_get_accessible_deleted_files\<close> and \<open>_get_accessible_deleted_folders\<close>.\<close>

definition accessible_deleted_file :: "user \<Rightarrow> sfile \<Rightarrow> bool" where
  "accessible_deleted_file u f \<longleftrightarrow> fi_is_deleted f \<and>
     (if u_role u = Superadmin then True
      else if u_role u = Guest then fi_owner f = u_id u \<and> fi_company f = None
      else if u_role u = Company_admin then (fi_owner f = u_id u \<and> fi_company f = None)
        \<or> (u_company u \<noteq> None \<and> fi_company f = u_company u)
      else (fi_owner f = u_id u \<and> fi_company f = None)
        \<or> (u_company u \<noteq> None \<and> fi_owner f = u_id u \<and> fi_company f = u_company u))"

definition accessible_deleted_folder :: "user \<Rightarrow> folder \<Rightarrow> bool" where
  "accessible_deleted_folder u f \<longleftrightarrow> fo_is_deleted f \<and>
     (if u_role u = Superadmin then True
      else if u_role u = Guest then fo_owner f = u_id u \<and> fo_scope f = Personal_scope
      else if u_role u = Company_admin then (fo_owner f = u_id u \<and> fo_scope f = Personal_scope)
        \<or> (u_company u \<noteq> None \<and> fo_company f = u_company u \<and> fo_scope f = Company_scope)
      else (fo_owner f = u_id u \<and> fo_scope f = Personal_scope)
        \<or> (u_company u \<noteq> None \<and> fo_owner f = u_id u \<and> fo_scope f = Company_scope \<and> fo_company f = u_company u))"

text \<open>\<open>_build_trash_querysets\<close> with its scope parameter.\<close>

definition trash_file_shown :: "user \<Rightarrow> fscope option \<Rightarrow> sfile \<Rightarrow> bool" where
  "trash_file_shown u sc f \<longleftrightarrow>
     (if u_role u \<in> {Superadmin, Guest} then accessible_deleted_file u f
      else if sc = Some Personal_scope then fi_is_deleted f \<and> fi_owner f = u_id u \<and> fi_company f = None
      else if sc = Some Company_scope \<and> u_company u \<noteq> None
        then fi_is_deleted f \<and> fi_company f = u_company u \<and> (u_role u = Company_admin \<or> fi_owner f = u_id u)
      else accessible_deleted_file u f)"

definition trash_folder_shown :: "user \<Rightarrow> fscope option \<Rightarrow> folder \<Rightarrow> bool" where
  "trash_folder_shown u sc f \<longleftrightarrow>
     (if u_role u \<in> {Superadmin, Guest} then accessible_deleted_folder u f
      else if sc = Some Personal_scope then fo_is_deleted f \<and> fo_owner f = u_id u \<and> fo_scope f = Personal_scope
      else if sc = Some Company_scope \<and> u_company u \<noteq> None
        then fo_is_deleted f \<and> fo_scope f = Company_scope \<and> fo_company f = u_company u
          \<and> (u_role u = Company_admin \<or> fo_owner f = u_id u)
      else accessible_deleted_folder u f)"

section \<open>The trash\<close>

datatype trash_item = Trash_file sfile | Trash_folder folder nat

definition item_deleted_at :: "trash_item \<Rightarrow> datetime" where
  "item_deleted_at x = (case (case x of Trash_file f \<Rightarrow> fi_deleted_at f | Trash_folder f n \<Rightarrow> fo_deleted_at f) of
     None \<Rightarrow> 0 | Some t \<Rightarrow> t)"

text \<open>A folder is shown with the number of the files in it, deleted or not.\<close>

definition list_trash :: "user \<Rightarrow> fscope option \<Rightarrow> st_state \<Rightarrow> api_error + trash_item list" where
  "list_trash u sc s =
     guarded (IsGuestOrCompanyMember (Some u))
       (sort_key (\<lambda>x. - item_deleted_at x)
          (map Trash_file (tbl_filter (trash_file_shown u sc) (st_files s))
           @ map (\<lambda>f. Trash_folder f (length (tbl_filter (\<lambda>x. fi_folder x = Some (fo_id f)) (st_files s))))
               (tbl_filter (trash_folder_shown u sc) (st_folders s))))"

text \<open>A loop over folder rows that were read before: the ones gone meanwhile have no files left.\<close>

definition destroy_trees :: "nat \<Rightarrow> folder list \<Rightarrow> st_state \<Rightarrow> api_error + st_state" where
  "destroy_trees limit fs s = (case fold_option (\<lambda>f. destroy_tree limit (fo_id f)) fs s of
     None \<Rightarrow> Inl ServerError | Some t \<Rightarrow> Inr t)"

definition empty_trash :: "nat \<Rightarrow> user \<Rightarrow> fscope option \<Rightarrow> st_state \<Rightarrow> api_error + st_state" where
  "empty_trash limit u sc s =
     (case IsGuestOrCompanyMember (Some u) of
        Some e \<Rightarrow> Inl e
      | None \<Rightarrow>
        (let s1 = fold destroy_file_row (tbl_filter (trash_file_shown u sc) (st_files s)) s
         in destroy_trees limit (tbl_filter (trash_folder_shown u sc) (st_folders s1)) s1))"

definition bulk_ids_error :: "nat list \<Rightarrow> nat list \<Rightarrow> api_error option" where
  "bulk_ids_error files folders = require (\<not> (files = [] \<and> folders = []))
     (raise_validation_error ''non_field_errors'' ''storage.bulk_trash_ids_required'')"

text \<open>The restored folders are chosen after the files came back, which changes no folder.\<close>

definition bulk_restore ::
  "user \<Rightarrow> nat list \<Rightarrow> nat list \<Rightarrow> st_state \<Rightarrow> api_error + (nat \<times> nat) \<times> st_state" where
  "bulk_restore u files folders s =
     (case first_err [IsGuestOrCompanyMember (Some u), bulk_ids_error files folders] of
        Some e \<Rightarrow> Inl e
      | None \<Rightarrow>
        (let fs = tbl_filter (\<lambda>f. accessible_deleted_file u f \<and> fi_id f \<in> set files) (st_files s);
             s1 = fold (\<lambda>f. restore_file_row (fi_id f)) fs s;
             ds = tbl_filter (\<lambda>f. accessible_deleted_folder u f \<and> fo_id f \<in> set folders) (st_folders s1)
         in Inr ((length fs, length ds), fold (\<lambda>f. restore_folder_row (fo_id f)) ds s1)))"

definition bulk_destroy ::
  "nat \<Rightarrow> user \<Rightarrow> nat list \<Rightarrow> nat list \<Rightarrow> st_state \<Rightarrow> api_error + (nat \<times> nat) \<times> st_state" where
  "bulk_destroy limit u files folders s =
     (case first_err [IsGuestOrCompanyMember (Some u), bulk_ids_error files folders] of
        Some e \<Rightarrow> Inl e
      | None \<Rightarrow>
        (let fs = tbl_filter (\<lambda>f. accessible_deleted_file u f \<and> fi_id f \<in> set files) (st_files s);
             s1 = fold destroy_file_row fs s;
             ds = tbl_filter (\<lambda>f. accessible_deleted_folder u f \<and> fo_id f \<in> set folders) (st_folders s1)
         in (case destroy_trees limit ds s1 of
               Inl e \<Rightarrow> Inl e | Inr t \<Rightarrow> Inr ((length fs, length ds), t))))"

section \<open>The clean-up task\<close>

text \<open>
  Files deleted thirty days ago go with their objects. Then the folders deleted thirty days ago
  go, and the database takes along what is in and below them, without looking at it.
\<close>

definition cleanup_cutoff :: "datetime \<Rightarrow> datetime" where
  "cleanup_cutoff now = now - days 30"

definition stale :: "datetime \<Rightarrow> bool \<Rightarrow> datetime option \<Rightarrow> bool" where
  "stale now deleted at \<longleftrightarrow> deleted \<and> (case at of None \<Rightarrow> False | Some t \<Rightarrow> t \<le> cleanup_cutoff now)"

definition cleanup_deleted_files :: "datetime \<Rightarrow> st_state \<Rightarrow> st_state" where
  "cleanup_deleted_files now s =
     (let s1 = fold destroy_file_row (tbl_filter (\<lambda>f. stale now (fi_is_deleted f) (fi_deleted_at f)) (st_files s)) s
      in remove_folders (map fo_id (tbl_filter (\<lambda>f. stale now (fo_is_deleted f) (fo_deleted_at f)) (st_folders s1))) s1)"

section \<open>Usage\<close>

definition bytes_of :: "(sfile \<Rightarrow> bool) \<Rightarrow> st_state \<Rightarrow> int" where
  "bytes_of P s = sum_list (map fi_size (tbl_filter P (st_files s)))"

text \<open>Bytes per category of the live files.\<close>

definition compute_breakdown :: "(sfile \<Rightarrow> bool) \<Rightarrow> st_state \<Rightarrow> file_category \<Rightarrow> int" where
  "compute_breakdown P s c = bytes_of (\<lambda>f. P f \<and> \<not> fi_is_deleted f \<and> file_category_of f = c) s"

record usage =
  us_used :: int
  us_limit :: "int option"
  us_file_count :: nat
  us_trash :: int
  us_deletable :: int
  us_breakdown :: "file_category \<Rightarrow> int"

definition usage_of :: "(sfile \<Rightarrow> bool) \<Rightarrow> (sfile \<Rightarrow> bool) \<Rightarrow> int option \<Rightarrow> int \<Rightarrow> st_state \<Rightarrow> usage" where
  "usage_of P deletable limit extra s = \<lparr>us_used = bytes_of P s + extra, us_limit = limit,
     us_file_count = length (tbl_filter (\<lambda>f. P f \<and> \<not> fi_is_deleted f) (st_files s)),
     us_trash = bytes_of (\<lambda>f. P f \<and> fi_is_deleted f) s,
     us_deletable = bytes_of (\<lambda>f. P f \<and> fi_is_deleted f \<and> deletable f) s,
     us_breakdown = compute_breakdown P s\<rparr>"

definition storage_usage :: "int \<Rightarrow> user \<Rightarrow> st_state \<Rightarrow> api_error + usage \<times> usage option" where
  "storage_usage guest_gb u s =
     guarded (IsGuestOrCompanyMember (Some u))
       (let own = (\<lambda>f. fi_owner f = u_id u \<and> fi_company f = None)
        in if u_role u = Guest then (usage_of own (\<lambda>_. True) (Some (guest_gb * gib)) 0 s, None)
           else (case u_company u of
             None \<Rightarrow> (usage_of own (\<lambda>_. True) None 0 s, None)
           | Some c \<Rightarrow>
             (let limit = (case company_of (st_acc s) u of None \<Rightarrow> None | Some co \<Rightarrow> Some (co_storage_limit co * gib div 1000))
              in (usage_of (\<lambda>f. fi_company f = None \<and> owner_company s f = Some c) (\<lambda>f. fi_owner f = u_id u) limit 0 s,
                  Some (usage_of (\<lambda>f. fi_company f = Some c)
                    (\<lambda>f. u_role u \<in> {Superadmin, Company_admin} \<or> fi_owner f = u_id u) limit
                    (direct_attachment_bytes s c) s)))))"

end
