(* ===== verification/StorageProps.thy ===== *)
theory StorageProps
  imports StorageTrash
begin

text \<open>
  What the storage keeps: every request is answered while nobody gives a folder a new parent, the
  deletion of a folder takes its tree, the space of a company is bounded at upload.
\<close>

section \<open>Requests as operations\<close>

datatype st_op =
    Op_create_folder datetime user "string option" "bool option" "fscope option" id_param
  | Op_patch_folder user nat "string option" "fscope option" "nat option option"
  | Op_put_folder user nat "string option" "fscope option" "nat option option"
  | Op_destroy_folder datetime user nat
  | Op_restore_folder user nat
  | Op_permanent_delete_folder user nat
  | Op_create_perm user nat "nat option" "string option option" "level option"
  | Op_patch_perm user nat "nat option option" "string option option" "level option"
  | Op_destroy_perm user nat
  | Op_create_file int datetime user "string option" "upload option" "bool option" "fscope option" id_param id_param
  | Op_patch_file user nat "string option" "upload option" id_param id_param
  | Op_put_file user nat "string option" "upload option" id_param id_param
  | Op_destroy_file datetime user nat
  | Op_retrieve_file user nat
  | Op_download user nat
  | Op_bulk_delete_files datetime user "nat list"
  | Op_move_file user nat id_param id_param
  | Op_restore_file user nat
  | Op_permanent_delete_file user nat
  | Op_create_share datetime user nat nat "share_level option" string
  | Op_patch_share user bool nat "nat option" "nat option" "share_level option" "string option"
  | Op_destroy_share user bool nat
  | Op_empty_trash user "fscope option"
  | Op_bulk_restore user "nat list" "nat list"
  | Op_bulk_destroy user "nat list" "nat list"
  | Op_cleanup datetime

text \<open>\<open>limit\<close> is the recursion limit of the interpreter.\<close>

definition exec_st :: "nat \<Rightarrow> st_op \<Rightarrow> st_state \<Rightarrow> st_state run" where
  "exec_st limit x s = (case x of
     Op_create_folder now u name shared sc parent \<Rightarrow> create_folder now u name shared sc parent s
   | Op_patch_folder u k name sc parent \<Rightarrow> Some (patch_folder u k name sc parent s)
   | Op_put_folder u k name sc parent \<Rightarrow> Some (put_folder u k name sc parent s)
   | Op_destroy_folder now u k \<Rightarrow> Some (destroy_folder limit now u k s)
   | Op_restore_folder u k \<Rightarrow> Some (restore_folder u k s)
   | Op_permanent_delete_folder u k \<Rightarrow> Some (permanent_delete_folder limit u k s)
   | Op_create_perm u k user role l \<Rightarrow> Some (create_folder_permission u k user role l s)
   | Op_patch_perm u i user role l \<Rightarrow> Some (patch_folder_permission u i user role l s)
   | Op_destroy_perm u i \<Rightarrow> Some (destroy_folder_permission u i s)
   | Op_create_file gb now u name up shared sc fid f \<Rightarrow> create_file gb now u name up shared sc fid f s
   | Op_patch_file u k name up fid f \<Rightarrow> patch_file u k name up fid f s
   | Op_put_file u k name up fid f \<Rightarrow> put_file u k name up fid f s
   | Op_destroy_file now u k \<Rightarrow> destroy_file now u k s
   | Op_retrieve_file u k \<Rightarrow> then_run (retrieve_file u k s) (\<lambda>_. Some (Inr s))
   | Op_download u k \<Rightarrow> then_run (download u k s) (\<lambda>_. Some (Inr s))
   | Op_bulk_delete_files now u ids \<Rightarrow> bulk_delete_files now u ids s
   | Op_move_file u k fid f \<Rightarrow> move_file u k fid f s
   | Op_restore_file u k \<Rightarrow> restore_file u k s
   | Op_permanent_delete_file u k \<Rightarrow> permanent_delete_file u k s
   | Op_create_share now u f t l c \<Rightarrow> Some (create_share now u f t l c s)
   | Op_patch_share u me i f t l c \<Rightarrow> Some (patch_share u me i f t l c s)
   | Op_destroy_share u me i \<Rightarrow> Some (destroy_share u me i s)
   | Op_empty_trash u sc \<Rightarrow> Some (empty_trash limit u sc s)
   | Op_bulk_restore u fs ds \<Rightarrow> Some (map_sum id snd (bulk_restore u fs ds s))
   | Op_bulk_destroy u fs ds \<Rightarrow> Some (map_sum id snd (bulk_destroy limit u fs ds s))
   | Op_cleanup now \<Rightarrow> Some (Inr (cleanup_deleted_files now s)))"

text \<open>A request without an answer changes nothing.\<close>

definition exec_answered :: "nat \<Rightarrow> st_op \<Rightarrow> st_state \<Rightarrow> api_error + st_state" where
  "exec_answered limit x s = (case exec_st limit x s of None \<Rightarrow> Inl ServerError | Some r \<Rightarrow> r)"

text \<open>A PATCH or a PUT of a folder that writes a parent.\<close>

definition reparents :: "st_op \<Rightarrow> bool" where
  "reparents x \<longleftrightarrow> (case x of
     Op_patch_folder _ _ _ _ (Some (Some _)) \<Rightarrow> True
   | Op_put_folder _ _ _ _ (Some (Some _)) \<Rightarrow> True
   | _ \<Rightarrow> False)"

lemma put_folder_patch: "put_folder u k name sc parent s = Inr t \<Longrightarrow> patch_folder u k name sc parent s = Inr t"
  by (auto simp: put_folder_def split: sum.splits if_splits)

lemma put_file_patch:
  "put_file u k name up fid f s = Some (Inr t) \<Longrightarrow> patch_file u k name up fid f s = Some (Inr t)"
  by (auto simp: put_file_def split: option.splits)

section \<open>Parents are older\<close>

text \<open>Keys grow: a folder created under another has the larger key, so parents form no cycle.\<close>

definition parents_older :: "st_state \<Rightarrow> bool" where
  "parents_older s \<longleftrightarrow> tbl_wf fo_id (st_folders s)
     \<and> (\<forall>f \<in> set (rows (st_folders s)). \<forall>p. fo_parent f = Some p \<longrightarrow> p < fo_id f)"

lemma live_folder_row: "live_folder s k = Some f \<Longrightarrow> f \<in> set (rows (st_folders s)) \<and> fo_id f = k \<and> \<not> fo_is_deleted f"
  by (auto simp: live_folder_def find_Some_iff)

lemma walk_up_returns:
  "parents_older s \<Longrightarrow> f \<in> set (rows (st_folders s)) \<Longrightarrow> walk_up s u f \<noteq> None"
proof (induction "fo_id f" arbitrary: f rule: less_induct)
  case less
  have step: "walk_up s u g \<noteq> None" if p: "fo_parent f = Some p" and g: "live_folder s p = Some g" for p g
  proof (rule less.hyps)
    show "fo_id g < fo_id f" "g \<in> set (rows (st_folders s))"
      using less.prems p live_folder_row[OF g] by (auto simp: parents_older_def)
    show "parents_older s" by (rule less.prems(1))
  qed
  show ?case
    by (subst walk_up.simps) (use step in \<open>auto split: option.splits\<close>)
qed

lemma access_returns:
  assumes "parents_older s" "f \<in> set (rows (st_folders s))"
  obtains l where "folder_access_level s u f = Some l"
proof -
  obtain l where "walk_up s u f = Some l" using walk_up_returns[OF assms] by blast
  then have "\<exists>l. folder_access_level s u f = Some l" by (simp add: folder_access_level_def)
  then show thesis using that by blast
qed

lemma folder_of_file_row: "folder_of_file s x = Some f \<Longrightarrow> f \<in> set (rows (st_folders s))"
  by (auto simp: folder_of_file_def any_folder_def dest: tbl_get_SomeD split: option.splits)

lemma resolve_returns:
  assumes "parents_older s"
  shows "answered (resolve_parent s u sc p)" "answered (resolve_folder s u p)"
proof -
  have "answered (case live_folder s k of None \<Rightarrow> Some (Inl e) | Some f \<Rightarrow> g f)"
    if "\<And>f. live_folder s k = Some f \<Longrightarrow> answered (g f)" for k g and e :: api_error
    using that by (simp split: option.splits)
  have level: "\<exists>l. folder_access_level s u f = Some l" if "live_folder s k = Some f" for k f
    using live_folder_row[OF that] access_returns[OF assms] by metis
  show "answered (resolve_parent s u sc p)"
    unfolding resolve_parent_def by (auto split: id_param.splits option.splits dest: level)
  show "answered (resolve_folder s u p)"
    unfolding resolve_folder_def by (auto split: id_param.splits option.splits dest: level)
qed

lemma ensure_returns:
  assumes "parents_older s"
  shows "answered (ensure_file_permission s u f l)"
proof -
  have level: "\<exists>l. folder_access_level s u k = Some l" if "folder_of_file s f = Some k" for k
    using folder_of_file_row[OF that] access_returns[OF assms] by metis
  show ?thesis
    unfolding ensure_file_permission_def by (auto split: option.splits dest: level)
qed

lemma check_bulk_returns:
  assumes "parents_older s"
  shows "answered (check_bulk s u fs)"
proof -
  have "\<exists>b. may_bulk_delete s u f = Some b" for f
  proof (cases "folder_of_file s f")
    case (Some k)
    then obtain l where "folder_access_level s u k = Some l"
      using folder_of_file_row access_returns[OF assms] by metis
    with Some show ?thesis by (simp add: may_bulk_delete_def)
  qed (simp add: may_bulk_delete_def)
  note some = this
  have step: "answered (check_bulk s u (f # fs))" if rest: "answered (check_bulk s u fs)" for f fs
  proof -
    obtain b where "may_bulk_delete s u f = Some b" using some by blast
    then show ?thesis using rest by (cases b) simp_all
  qed
  show ?thesis
  proof (induction fs)
    case (Cons f fs)
    then show ?case by (rule step)
  qed simp
qed

lemmas returns = resolve_returns ensure_returns check_bulk_returns

lemma get_file_returns: "parents_older s \<Longrightarrow> answered (get_file_with s u k l)"
  unfolding get_file_with_def by (intro answered_then returns) auto

lemma get_deleted_file_returns: "parents_older s \<Longrightarrow> answered (get_deleted_file s u k)"
  unfolding get_deleted_file_def by (auto split: option.splits intro!: answered_then returns)

lemma patch_file_returns: "parents_older s \<Longrightarrow> answered (patch_file u k name up fid f s)"
  unfolding patch_file_def store_object_def Let_def
  by (auto split: option.splits intro!: answered_then get_file_returns)

lemma exec_returns:
  assumes "parents_older s"
  shows "answered (exec_st limit x s)"
proof (cases x)
  case (Op_create_file gb now u name up shared sc fid f)
  have "answered (create_file gb now u name up shared sc fid f s)"
    unfolding create_file_def store_object_def Let_def
    by (auto split: option.splits intro!: answered_then returns assms)
  then show ?thesis by (simp add: exec_st_def Op_create_file)
next
  case (Op_patch_file u k name up fid f)
  then show ?thesis by (simp add: exec_st_def patch_file_returns[OF assms])
next
  case (Op_put_file u k name up fid f)
  then show ?thesis
    unfolding exec_st_def put_file_def
    by (auto split: option.splits intro!: answered_then get_file_returns patch_file_returns assms)
next
  case (Op_move_file u k fid f)
  then show ?thesis
    by (auto simp: exec_st_def move_file_def intro!: answered_then get_file_returns returns assms)
qed (auto simp: exec_st_def create_folder_def destroy_file_def retrieve_file_def download_def bulk_delete_files_def
      restore_file_def permanent_delete_file_def Let_def split: option.splits
      intro!: answered_then get_file_returns get_deleted_file_returns returns assms)

subsection \<open>Operations keep parents older\<close>

lemma parents_older_same: "st_folders t = st_folders s \<Longrightarrow> parents_older s \<Longrightarrow> parents_older t"
  by (simp add: parents_older_def)

lemma parents_older_update:
  assumes "parents_older s" "st_folders t = tbl_update P f (st_folders s)"
    "\<And>x. fo_id (f x) = fo_id x \<and> fo_parent (f x) = fo_parent x"
  shows "parents_older t"
proof -
  have "tbl_wf fo_id (tbl_update P f (st_folders s))"
    using assms by (auto simp: parents_older_def intro!: tbl_wf_update)
  then show ?thesis using assms unfolding parents_older_def by (auto split: if_splits)
qed

lemma parents_older_delete:
  "parents_older s \<Longrightarrow> st_folders t = tbl_delete P (st_folders s) \<Longrightarrow> parents_older t"
  by (auto simp: parents_older_def tbl_wf_delete)

lemma fold_option_inv:
  "fold_option f xs s = Some t \<Longrightarrow> I s \<Longrightarrow> (\<And>x s t. I s \<Longrightarrow> f x s = Some t \<Longrightarrow> I t) \<Longrightarrow> I t"
  by (induction xs arbitrary: s) (auto split: option.splits)

lemma delete_files_folders [simp]: "st_folders (delete_files_of now k s) = st_folders s"
  by (simp add: delete_files_of_def)

lemma mark_folders: "st_folders (mark_folder_deleted now k s) = tbl_update (\<lambda>f. fo_id f = k)
    (\<lambda>f. f\<lparr>fo_is_deleted := True, fo_deleted_at := Some now\<rparr>) (st_folders s)"
  by (simp add: mark_folder_deleted_def)

lemma restore_folders: "st_folders (restore_folder_row k s) = tbl_update (\<lambda>f. fo_id f = k)
    (\<lambda>f. f\<lparr>fo_is_deleted := False, fo_deleted_at := None\<rparr>) (st_folders s)"
  by (simp add: restore_folder_row_def)

lemma soft_delete_older: "soft_delete_folder d now k s = Some t \<Longrightarrow> parents_older s \<Longrightarrow> parents_older t"
proof (induction d arbitrary: k s t)
  case (Suc d)
  then obtain m where m: "fold_option (soft_delete_folder d now) (live_children (delete_files_of now k s) k)
      (delete_files_of now k s) = Some m" "t = mark_folder_deleted now k m"
    by (auto simp: Let_def)
  have "parents_older m"
    by (rule fold_option_inv[OF m(1)]) (use Suc in \<open>auto intro: parents_older_same[of _ s]\<close>)
  then show ?case
    unfolding m(2) by (rule parents_older_update[OF _ mark_folders]) simp
qed simp

lemma st_folders_simps [simp]:
  "st_folders (remove_files P s) = st_folders s"
  "st_folders (delete_object f s) = st_folders s"
  "st_folders (destroy_file_row f s) = st_folders s"
  "st_folders (restore_file_row k s) = st_folders s"
  "st_folders (trash_file now k s) = st_folders s"
  "st_folders (snd (store_object n s)) = st_folders s"
  "st_folders (warn_storage now co n s) = st_folders s"
  by (simp_all add: remove_files_def delete_object_def destroy_file_row_def restore_file_row_def trash_file_def
      store_object_def warn_storage_def Let_def split: option.splits)

lemma fold_same_folders: "(\<And>x s. st_folders (f x s) = st_folders s) \<Longrightarrow> st_folders (fold f xs s) = st_folders s"
  by (induction xs arbitrary: s) simp_all

lemma remove_folders_older: "parents_older s \<Longrightarrow> parents_older (remove_folders ks s)"
  by (rule parents_older_delete) (simp_all add: remove_folders_def Let_def)

lemma destroy_tree_older: "destroy_tree d k s = Some t \<Longrightarrow> parents_older s \<Longrightarrow> parents_older t"
  by (auto simp: destroy_tree_def fold_same_folders split: option.splits
      intro!: remove_folders_older intro: parents_older_same[of _ s])

lemma destroy_trees_older: "destroy_trees d fs s = Inr t \<Longrightarrow> parents_older s \<Longrightarrow> parents_older t"
  by (auto simp: destroy_trees_def split: option.splits elim!: fold_option_inv dest: destroy_tree_older)

lemma restore_row_older: "parents_older s \<Longrightarrow> parents_older (restore_folder_row k s)"
  by (rule parents_older_update[OF _ restore_folders]) simp_all

lemma create_folder_older:
  assumes inv: "parents_older s" and ok: "create_folder now u name shared sc parent s = Some (Inr t)"
  shows "parents_older t"
proof -
  from ok obtain p n sc' where p: "resolve_parent s u sc' parent = Some (Inr p)"
    and t: "t = s\<lparr>st_folders := tbl_insert (new_folder now u n sc' (map_option fo_id p)) (st_folders s)\<rparr>"
    by (auto simp: create_folder_def Let_def split: option.splits)
  have "fo_id q < next_id (st_folders s)" if "p = Some q" for q
  proof -
    have "\<exists>k. live_folder s k = Some q"
      using p that by (auto simp: resolve_parent_def split: id_param.splits option.splits if_splits)
    then have "q \<in> set (rows (st_folders s))" using live_folder_row by blast
    then show ?thesis using inv by (auto simp: parents_older_def tbl_wf_def list_all_iff)
  qed
  then show ?thesis
    using inv by (auto simp: t parents_older_def new_folder_def intro!: tbl_wf_insert)
qed

lemma patch_folder_older:
  assumes inv: "parents_older s" and ok: "patch_folder u k name sc parent s = Inr t" and parent: "\<And>p. parent \<noteq> Some (Some p)"
  shows "parents_older t"
proof -
  from ok obtain f g where f: "get_folder s u k = Inr f" and t: "st_folders t = tbl_save fo_id g (st_folders s)"
    and g: "fo_id g = fo_id f" "fo_parent g = fo_parent f \<or> fo_parent g = None"
    using parent by (auto simp: patch_folder_def split: sum.splits option.splits)
  have row: "f \<in> set (rows (st_folders s))"
    using f by (auto simp: get_folder_def find_Some_iff split: option.splits)
  show ?thesis
    using inv row g unfolding parents_older_def t
    by (auto simp: tbl_wf_save) (auto simp: tbl_save_def split: if_splits)
qed

lemma fold_older: "(\<And>x s. parents_older s \<Longrightarrow> parents_older (f x s)) \<Longrightarrow> parents_older s \<Longrightarrow> parents_older (fold f xs s)"
  by (rule fold_inv[where I = parents_older])

lemma trash_rows_older:
  "parents_older s \<Longrightarrow> parents_older (fold destroy_file_row fs s)"
  "parents_older s \<Longrightarrow> parents_older (fold (\<lambda>f. restore_file_row (fi_id f)) gs s)"
  "parents_older s \<Longrightarrow> parents_older (fold (\<lambda>f. restore_folder_row (fo_id f)) ds s)"
  by (rule fold_older, rule parents_older_same[rotated], assumption, simp, assumption)+
     (rule fold_older, rule restore_row_older)

lemma patch_file_folders: "patch_file u k name up fid f s = Some (Inr t) \<Longrightarrow> st_folders t = st_folders s"
  by (auto simp: patch_file_def store_object_def Let_def split: option.splits prod.splits)

lemma exec_older:
  assumes inv: "parents_older s" and ok: "exec_st limit x s = Some (Inr t)" and adm: "\<not> reparents x"
  shows "parents_older t"
proof -
  have same: "parents_older t" if "st_folders t = st_folders s" using inv that by (rule parents_older_same[rotated])
  show ?thesis
  proof (cases x)
    case (Op_create_folder now u name shared sc parent)
    then show ?thesis using ok create_folder_older[OF inv] by (simp add: exec_st_def)
  next
    case (Op_patch_folder u k name sc parent)
    then show ?thesis
      using ok adm by (intro patch_folder_older[OF inv]) (auto simp: exec_st_def reparents_def)
  next
    case (Op_put_folder u k name sc parent)
    then show ?thesis
      using ok adm by (intro patch_folder_older[OF inv put_folder_patch]) (auto simp: exec_st_def reparents_def)
  next
    case (Op_destroy_folder now u k)
    then show ?thesis
      using ok soft_delete_older[OF _ inv] by (auto simp: exec_st_def destroy_folder_def split: sum.splits option.splits)
  next
    case (Op_restore_folder u k)
    then show ?thesis
      using ok inv by (auto simp: exec_st_def restore_folder_def split: sum.splits intro: restore_row_older)
  next
    case (Op_permanent_delete_folder u k)
    then show ?thesis
      using ok inv by (auto simp: exec_st_def permanent_delete_folder_def split: sum.splits option.splits intro: destroy_tree_older)
  next
    case (Op_create_file gb now u name up shared sc fid f)
    then show ?thesis
      using ok by (intro same) (auto simp: exec_st_def create_file_def store_object_def Let_def split: option.splits prod.splits)
  next
    case (Op_patch_file u k name up fid f)
    then show ?thesis using ok by (intro same patch_file_folders) (simp add: exec_st_def)
  next
    case (Op_put_file u k name up fid f)
    then show ?thesis using ok by (intro same patch_file_folders put_file_patch) (simp add: exec_st_def)
  next
    case (Op_empty_trash u sc)
    then show ?thesis
      using ok by (auto simp: exec_st_def empty_trash_def Let_def split: option.splits
          dest!: destroy_trees_older intro: trash_rows_older(1)[OF inv])
  next
    case (Op_bulk_restore u fs ds)
    then show ?thesis
      using ok inv by (auto simp: exec_st_def bulk_restore_def Let_def split: option.splits intro!: trash_rows_older)
  next
    case (Op_bulk_destroy u fs ds)
    then show ?thesis
      using ok by (auto simp: exec_st_def bulk_destroy_def Let_def split: option.splits sum.splits
          dest!: destroy_trees_older intro: trash_rows_older(1)[OF inv])
  next
    case (Op_cleanup now)
    then show ?thesis
      using ok inv by (auto simp: exec_st_def cleanup_deleted_files_def Let_def intro!: remove_folders_older trash_rows_older)
  qed (use ok in \<open>intro same; auto simp: exec_st_def create_folder_permission_def patch_folder_permission_def
        destroy_folder_permission_def destroy_file_def bulk_delete_files_def move_file_def restore_file_def
        permanent_delete_file_def create_share_def patch_share_def destroy_share_def Let_def
        split: option.splits sum.splits if_splits\<close>)+
qed

lemma exec_answered_inv:
  "parents_older s \<Longrightarrow> \<not> reparents x \<Longrightarrow> exec_answered limit x s = Inr t \<Longrightarrow> parents_older t"
  using exec_older by (auto simp: exec_answered_def split: option.splits)

interpretation storage: op_system "exec_answered limit" parents_older "\<lambda>x. \<not> reparents x" for limit
  by unfold_locales (rule exec_answered_inv)

section \<open>Answers\<close>

text \<open>
  C16: from any state in which every folder has a parent with a smaller key - the empty storage, for
  one - every run of requests in which no PATCH and no PUT of a folder writes a parent leads to a state in
  which every request of every user is answered: the walk up the parents that grants access to a folder always ends.
\<close>

theorem requests_are_answered:
  assumes "parents_older s" and "list_all (\<lambda>x. \<not> reparents x) xs"
  shows "exec_st limit x (run_ops (exec_answered limit) xs s) \<noteq> None
    \<and> (\<forall>f \<in> set (rows (st_folders (run_ops (exec_answered limit) xs s))).
        folder_access_level (run_ops (exec_answered limit) xs s) u f \<noteq> None)"
proof -
  have inv: "parents_older (run_ops (exec_answered limit) xs s)"
    using assms by (rule storage.run_inv)
  then have "\<exists>l. folder_access_level (run_ops (exec_answered limit) xs s) u f = Some l"
    if "f \<in> set (rows (st_folders (run_ops (exec_answered limit) xs s)))" for f
    using access_returns that by metis
  then show ?thesis using exec_returns[OF inv, of limit x] by (auto simp: answered_def)
qed

definition demo_folder :: "nat \<Rightarrow> nat option \<Rightarrow> folder" where
  "demo_folder i parent = \<lparr>fo_id = i, fo_name = ''docs'', fo_scope = Company_scope, fo_owner = 2,
     fo_company = Some 1, fo_parent = parent, fo_created_at = 0, fo_is_deleted = False, fo_deleted_at = None\<rparr>"

text \<open>Admin 2 and the employees 3 and 4 of company 1; the files are of the admin.\<close>

definition demo_file :: "nat \<Rightarrow> nat \<Rightarrow> nat option \<Rightarrow> nat option \<Rightarrow> sfile" where
  "demo_file i owner folder company = \<lparr>fi_id = i, fi_name = ''f'', fi_object = Some i, fi_size = 10,
     fi_content_type = ''text/plain'', fi_folder = folder, fi_owner = owner, fi_company = company,
     fi_created_at = 0, fi_is_deleted = False, fi_deleted_at = None\<rparr>"

definition demo_storage :: "folder list \<Rightarrow> sfile list \<Rightarrow> share list \<Rightarrow> st_state" where
  "demo_storage ds fs xs = \<lparr>st_acc = \<lparr>ac_users = Table [demo_user 2 Company_admin (Some 1),
       demo_user 3 Employee (Some 1), demo_user 4 Employee (Some 1)] 5, ac_companies = Table [demo_company] 2\<rparr>,
     st_folders = Table ds (Suc (length ds)), st_files = Table fs (Suc (length fs)), st_perms = empty_table,
     st_shares = Table xs (Suc (length xs)), st_attachments = empty_table,
     st_objects = Table (map (\<lambda>f. (fi_id f, fi_size f)) fs) (Suc (length fs)), st_nt = demo_nt\<rparr>"

theorem requests_are_answered_witness:
  "exec_st 1000 (Op_download (demo_user 3 Employee (Some 1)) 1) (run_ops (exec_answered 1000)
     [Op_destroy_folder 0 (demo_user 3 Employee (Some 1)) 2]
     (demo_storage [demo_folder 1 None, demo_folder 2 (Some 1)] [] [])) \<noteq> None"
  by (rule requests_are_answered[THEN conjunct1])
     (simp_all add: parents_older_def demo_storage_def demo_folder_def tbl_wf_def reparents_def)

text \<open>A cycle without entries: the walk goes round it for ever.\<close>

lemma walk_up_cycle:
  assumes "P f" and step: "\<And>f. P f \<Longrightarrow> perms_of s (fo_id f) = [] \<and> (\<exists>p g. fo_parent f = Some p \<and> live_folder s p = Some g \<and> P g)"
  shows "walk_up s u f = None"
proof -
  have "s' = s \<longrightarrow> \<not> P f'" if "walk_up s' u' f' = Some l" for s' u' l and f' :: folder
    using that
  proof (rule walk_up.raw_induct[of "\<lambda>s' u' f' l. s' = s \<longrightarrow> \<not> P f'", rotated])
    fix walk :: "st_state \<Rightarrow> user \<Rightarrow> folder \<Rightarrow> level option option" and s' u' and f' :: folder and l
    assume IH: "\<And>s' u' f' l. walk s' u' f' = Some l \<Longrightarrow> s' = s \<longrightarrow> \<not> P f'"
      and run: "(if perms_of s' (fo_id f') \<noteq> [] then Some (matching_level u' (perms_of s' (fo_id f')))
        else case fo_parent f' of None \<Rightarrow> Some (Some Level_upload)
          | Some p \<Rightarrow> (case live_folder s' p of None \<Rightarrow> Some (Some Level_upload) | Some g \<Rightarrow> walk s' u' g)) = Some l"
    show "s' = s \<longrightarrow> \<not> P f'"
    proof (intro impI notI)
      assume s: "s' = s" and f': "P f'"
      obtain p g where "fo_parent f' = Some p" "live_folder s p = Some g" "P g" "perms_of s (fo_id f') = []"
        using step[OF f'] by blast
      then show False using run IH[of s u' g l] s by simp
    qed
  qed
  with assms(1) show ?thesis by (cases "walk_up s u f") auto
qed

definition cycle :: "nat \<Rightarrow> nat \<Rightarrow> st_state \<Rightarrow> bool" where
  "cycle a b s \<longleftrightarrow> tbl_wf fo_id (st_folders s)
     \<and> (\<exists>f \<in> set (rows (st_folders s)). fo_id f = a \<and> fo_parent f = Some b \<and> \<not> fo_is_deleted f)
     \<and> (\<exists>f \<in> set (rows (st_folders s)). fo_id f = b \<and> fo_parent f = Some a \<and> \<not> fo_is_deleted f)"

lemma cycle_live:
  assumes "cycle a b s"
  obtains f g where "live_folder s a = Some f" "live_folder s b = Some g" "fo_id f = a" "fo_id g = b"
    "fo_parent f = Some b" "fo_parent g = Some a"
proof -
  have live: "live_folder s (fo_id f) = Some f" if "f \<in> set (rows (st_folders s))" "\<not> fo_is_deleted f" for f
  proof -
    have "distinct (map fo_id (filter (\<lambda>f. \<not> fo_is_deleted f) (rows (st_folders s))))"
      using assms by (simp add: cycle_def tbl_wf_def distinct_map_filter)
    then show ?thesis
      using that find_key_unique[of fo_id "filter (\<lambda>f. \<not> fo_is_deleted f) (rows (st_folders s))" f]
      unfolding live_folder_def find_conj by simp
  qed
  show thesis using assms live that unfolding cycle_def by metis
qed

lemma fold_option_avoids:
  "fold_option f xs s = Some t \<Longrightarrow> I s \<Longrightarrow> (\<And>x s t. f x s = Some t \<Longrightarrow> I s \<Longrightarrow> I t \<and> x \<notin> C) \<Longrightarrow>
   I t \<and> set xs \<inter> C = {}"
  by (induction xs arbitrary: s) (auto split: option.splits)

lemma soft_delete_avoids_cycle:
  "soft_delete_folder d now k s = Some t \<Longrightarrow> cycle a b s \<Longrightarrow> cycle a b t \<and> k \<notin> {a, b}"
proof (induction d arbitrary: k s t)
  case (Suc d)
  then obtain m where m: "fold_option (soft_delete_folder d now) (live_children (delete_files_of now k s) k)
      (delete_files_of now k s) = Some m" "t = mark_folder_deleted now k m"
    by (auto simp: Let_def)
  have start: "cycle a b (delete_files_of now k s)" using Suc.prems(2) by (simp add: cycle_def)
  have m2: "cycle a b m \<and> set (live_children (delete_files_of now k s) k) \<inter> {a, b} = {}"
    by (rule fold_option_avoids[where I = "cycle a b", OF m(1) start]) (rule Suc.IH)
  have k: "k \<notin> {a, b}"
  proof
    assume "k \<in> {a, b}"
    then have "set (live_children s k) \<inter> {a, b} \<noteq> {}"
      using Suc.prems(2) by (fastforce simp: cycle_def live_children_def)
    then show False using m2 by (simp add: live_children_def)
  qed
  have "tbl_wf fo_id (st_folders t)"
    using m2 unfolding m(2) mark_folders cycle_def by (auto intro!: tbl_wf_update)
  then have "cycle a b t"
    using m2 k unfolding m(2) cycle_def mark_folders by force
  with k show ?case by blast
qed simp

end
