(* ===== verification/StorageSafety.thy ===== *)
theory StorageSafety
  imports StorageProps
begin

text \<open>
  Behaviour of the storage over several requests: cycles of folders, deletion and restoration of
  trees, the limits of the space, shares and the clean-up.
\<close>

section \<open>Cycles of folders\<close>



section \<open>Shares\<close>

lemma find_map_save:
  assumes "\<And>y. y \<in> set xs \<Longrightarrow> \<not> P y \<Longrightarrow> \<not> Q y" "x \<in> set xs" "Q x'" "\<And>y. y \<in> set xs \<Longrightarrow> P y \<Longrightarrow> y = x" "P x"
  shows "find Q (map (\<lambda>y. if P y then x' else y) xs) = Some x'"
  using assms
proof (induction xs)
  case (Cons y ys)
  show ?case
  proof (cases "P y")
    case True
    then show ?thesis using Cons.prems(3) by simp
  next
    case False
    then have "x \<in> set ys" using Cons.prems(2,5) by auto
    then have "find Q (map (\<lambda>y. if P y then x' else y) ys) = Some x'"
      by (intro Cons.IH) (use Cons.prems in simp_all)
    with False Cons.prems(1) show ?thesis by simp
  qed
qed simp

text \<open>
  The owner check of shares is made on creation only. Whoever granted a share of any own file
  can turn it into a share of somebody else's personal file, which the recipient may then
  download, although sharing that file directly is refused and the recipient had no access.
\<close>

theorem share_can_be_repointed:
  assumes wf: "tbl_wf sh_id (st_shares s)"
    and x: "get_own_share s u me i = Inr x" "sh_permission x \<noteq> Share_view"
    and t: "tbl_get u_id (sh_with x) (ac_users (st_acc s)) = Some t" "u_company t = u_company u" "u_role t = Employee"
      "u_company t \<noteq> None"
    and f: "live_file s k = Some f" "fi_company f = None" "fi_owner f \<notin> {u_id u, u_id t}" "fi_object f = Some obj"
    and unshared: "\<not> list_ex (\<lambda>y. sh_file y = k \<and> sh_with y = u_id t) (rows (st_shares s))"
  shows "(\<forall>now level comment s''. create_share now u k (u_id t) level comment s \<noteq> Inr s'')
    \<and> download t k s = Some (Inl file_access_denied)
    \<and> (\<exists>s'. patch_share u me i (Some k) None None None s = Inr s' \<and> download t k s' = Some (Inr obj))"
proof -
  have k: "fi_id f = k" "live_file_field s k = Inr f"
    using f(1) find_row[OF f(1)[unfolded live_file_def]] by (simp_all add: live_file_field_def)
  have target: "user_field s (sh_with x) = Inr t" "u_id t = sh_with x"
    using t(1) tbl_get_SomeD[OF t(1)] by (simp_all add: user_field_def)
  have row: "x \<in> set (rows (st_shares s))" "sh_id x = i"     using x(1) by (auto simp: get_own_share_def find_Some_iff split: option.splits)
  have none: "share_for_user s t f = None"
    using unshared k by (simp add: share_for_user_def find_None_iff list_ex_iff)
  have allowed: "IsGuestOrCompanyMember (Some t) = None" using t(3,4) by (simp add: permission_defs)
  let ?x = "x\<lparr>sh_file := k, sh_with := u_id t\<rparr>"
  let ?s = "s\<lparr>st_shares := tbl_save sh_id ?x (st_shares s)\<rparr>"
  have "validate_share s u (Some x) f t = None"
    using unshared f(2) t(2) k by (auto simp: validate_share_def list_ex_iff)
  then have patch: "patch_share u me i (Some k) None None None s = Inr ?s"
    using x(1) k target by (simp add: patch_share_def guarded_simps)
  have "share_for_user ?s t f = Some ?x"
    unfolding share_for_user_def tbl_save_def
    by (simp, rule find_map_save[of _ _ _ x])
       (use unshared k row wf in \<open>auto simp: list_ex_iff tbl_wf_def distinct_map inj_on_def\<close>)
  moreover have "live_file ?s k = Some f" using f(1) by (simp add: live_file_def)
  moreover have "\<not> share_rank (sh_permission x) < share_rank Share_download"
    using x(2) by (cases "sh_permission x") (simp_all add: share_rank_def)
  ultimately have after: "download t k ?s = Some (Inr obj)"
    using f t(3) allowed by (simp add: download_def ensure_file_permission_def require_simps guarded_simps)
  have before: "download t k s = Some (Inl file_access_denied)"
    using f t(3,4) none allowed by (auto simp: download_def ensure_file_permission_def)
  have "validate_share s u None f t \<noteq> None"
    using f(3) by (simp add: validate_share_def)
  then have "create_share now u k (u_id t) level comment s \<noteq> Inr s''" for now level comment s''
    using k target by (auto simp: create_share_def split: option.splits)
  then show ?thesis using before after patch by blast
qed

text \<open>Employee 3 shares the own file 2 with employee 4 and points the share at file 1 of the admin.\<close>

theorem share_can_be_repointed_witness:
  "\<exists>s'. patch_share (demo_user 3 Employee (Some 1)) False 1 (Some 1) None None None
     (demo_storage [] [demo_file 1 2 None None, demo_file 2 3 None None]
       [\<lparr>sh_id = 1, sh_file = 2, sh_with = 4, sh_by = 3, sh_permission = Share_download, sh_comment = []\<rparr>]) = Inr s'
     \<and> download (demo_user 4 Employee (Some 1)) 1 s' = Some (Inr 1)"
proof -
  let ?x = "\<lparr>sh_id = 1, sh_file = 2, sh_with = 4, sh_by = 3, sh_permission = Share_download, sh_comment = []\<rparr>"
  let ?s = "demo_storage [] [demo_file 1 2 None None, demo_file 2 3 None None] [?x]"
  have "tbl_wf sh_id (st_shares ?s)" by (simp add: demo_storage_def tbl_wf_def)
  moreover have "get_own_share ?s (demo_user 3 Employee (Some 1)) False 1 = Inr ?x" by code_simp
  moreover have "tbl_get u_id (sh_with ?x) (ac_users (st_acc ?s)) = Some (demo_user 4 Employee (Some 1))" by code_simp
  moreover have "live_file ?s 1 = Some (demo_file 1 2 None None)" by code_simp
  moreover have "\<not> list_ex (\<lambda>y. sh_file y = 1 \<and> sh_with y = u_id (demo_user 4 Employee (Some 1))) (rows (st_shares ?s))"
    by code_simp
  ultimately show ?thesis
    using share_can_be_repointed[of ?s "demo_user 3 Employee (Some 1)" False 1 ?x "demo_user 4 Employee (Some 1)" 1
        "demo_file 1 2 None None" 1]
    by (simp add: demo_file_def)
qed

section \<open>Space\<close>

lemma used_same:
  "st_files t = st_files s \<Longrightarrow> st_acc t = st_acc s \<Longrightarrow> st_attachments t = st_attachments s \<Longrightarrow>
   get_company_storage_used_bytes t c = get_company_storage_used_bytes s c"
  by (simp add: get_company_storage_used_bytes_def direct_attachment_bytes_def owner_company_def)

lemma warn_storage_simps [simp]:
  "st_files (warn_storage now co n s) = st_files s" "st_acc (warn_storage now co n s) = st_acc s"
  "st_attachments (warn_storage now co n s) = st_attachments s" "st_objects (warn_storage now co n s) = st_objects s"
  by (simp_all add: warn_storage_def split: option.splits)

lemma create_file_ok:
  assumes "create_file gb now u name (Some b) shared sc fid f s = Some (Inr s')"
  obtains n folder company where "upload_error gb s u (Some b) = None"
    "company = u_company u \<or> company = None"
    "st_files s' = tbl_insert (new_file now u n b (next_id (st_objects s)) folder company) (st_files s)"
    "st_acc s' = st_acc s" "st_attachments s' = st_attachments s"
    "st_objects s' = tbl_insert (\<lambda>k. (k, up_size b)) (st_objects s)"
proof -
  from assms obtain n x where "upload_error gb s u (Some b) = None"
    and s': "s' = warn_storage now (company_of (st_acc s) u) (used_after s u b)
      (s\<lparr>st_objects := tbl_insert (\<lambda>k. (k, up_size b)) (st_objects s),
         st_files := tbl_insert (new_file now u n b (next_id (st_objects s)) (map_option fo_id x)
           (file_company u (upload_scope u shared sc x))) (st_files s)\<rparr>)"
    by (auto simp: create_file_def store_object_def split: option.splits)
  then show thesis by (intro that) (simp_all add: file_company_def)
qed

lemma map_filter_map:
  "(\<And>x. x \<in> set xs \<Longrightarrow> g (h x) = g x \<and> Q (h x) = Q' x) \<Longrightarrow> map g (filter Q (map h xs)) = map g (filter Q' xs)"
  by (induction xs) auto

text \<open>
  An upload that succeeds adds its size to what the company of the user has used, is at most 100 MB,
  and leaves the company within its limit. The content of a file can then be replaced through
  PATCH by one of any size: it is stored, and what the company has used stays the same.
\<close>

theorem upload_is_bounded_but_patch_is_not:
  assumes company: "company_of (st_acc s) u = Some co" "tbl_get u_id (u_id u) (ac_users (st_acc s)) = Some u"
    and upload: "create_file gb now u name (Some b) shared sc fid fld s = Some (Inr s1)"
    and fv: "get_file_with s v k Share_full = Some (Inr f)" "tbl_wf fi_id (st_files s)"
  shows "get_company_storage_used_bytes s1 (co_id co) = get_company_storage_used_bytes s (co_id co) + up_size b
    \<and> get_company_storage_used_bytes s1 (co_id co) * 1000 \<le> co_storage_limit co * gib
    \<and> up_size b \<le> 100 * 1024 * 1024
    \<and> (\<exists>s2. patch_file v k None (Some big) No_param No_param s = Some (Inr s2)
        \<and> (next_id (st_objects s), up_size big) \<in> set (rows (st_objects s2))
        \<and> map_option fi_object (live_file s2 k) = Some (Some (next_id (st_objects s)))
        \<and> get_company_storage_used_bytes s2 c = get_company_storage_used_bytes s c)"
proof -
  have uc: "u_company u = Some (co_id co)"
    using company(1) by (auto simp: company_of_def Option.bind_eq_Some_conv dest: tbl_get_SomeD split: bind_splits)
  obtain n folder cmp where up: "upload_error gb s u (Some b) = None" "cmp = u_company u \<or> cmp = None"
    "st_files s1 = tbl_insert (new_file now u n b (next_id (st_objects s)) folder cmp) (st_files s)"
    "st_acc s1 = st_acc s" "st_attachments s1 = st_attachments s"
    by (rule create_file_ok[OF upload]) blast
  have "get_company_storage_used_bytes s1 (co_id co) = get_company_storage_used_bytes s (co_id co) + up_size b"
    using up(2) uc company(2)
    by (auto simp: get_company_storage_used_bytes_def direct_attachment_bytes_def owner_company_def up tbl_filter_def new_file_def)
  moreover have "\<not> over_company_limit co (get_company_storage_used_bytes s (co_id co) + up_size b)"
    "up_size b \<le> 100 * 1024 * 1024"
    using up(1) company(1) by (auto simp: upload_error_def split: if_splits)
  moreover
  let ?f = "f\<lparr>fi_object := Some (next_id (st_objects s))\<rparr>"
  let ?s = "s\<lparr>st_objects := tbl_insert (\<lambda>k. (k, up_size big)) (st_objects s), st_files := tbl_save fi_id ?f (st_files s)\<rparr>"
  have "patch_file v k None (Some big) No_param No_param s = Some (Inr ?s)"
    using fv(1) by (simp add: patch_file_def folder_field_error_def store_object_def folder_param_def)
  moreover
  have row: "f \<in> set (rows (st_files s))" "fi_id f = k" "\<not> fi_is_deleted f"
    using fv(1) by (auto simp: get_file_with_def get_file_def file_visible_def split: option.splits dest: find_row)
  have same: "x = f" if "x \<in> set (rows (st_files s))" "fi_id x = k" for x
    using fv(2) row that by (auto simp: tbl_wf_def distinct_map inj_on_def)
  have "live_file ?s k = Some ?f"
    unfolding live_file_def tbl_save_def
    by (simp, rule find_map_save[of _ _ _ f]) (use row in \<open>simp_all add: same\<close>)
  moreover have "get_company_storage_used_bytes ?s c = get_company_storage_used_bytes s c"
  proof -
    have "map fi_size (filter Q (rows (st_files ?s))) = map fi_size (filter Q' (rows (st_files s)))"
      if "\<And>x. x \<in> set (rows (st_files s)) \<Longrightarrow> Q (if fi_id x = k then ?f else x) = Q' x" for Q Q'
      unfolding tbl_save_def
    proof (simp add: row(2), rule map_filter_map)
      fix x assume x: "x \<in> set (rows (st_files s))"
      show "fi_size (if fi_id x = k then ?f else x) = fi_size x \<and> Q (if fi_id x = k then ?f else x) = Q' x"
      proof (cases "fi_id x = k")
        case True
        then have "x = f" by (rule same[OF x])
        then show ?thesis using that[OF x] by simp
      qed (use that[OF x] in simp)
    qed
    note files = this
    let ?P = "\<lambda>f. fi_company f = Some c \<or> fi_company f = None \<and> owner_company s f = Some c"
    have "?P (if fi_id x = k then ?f else x) = ?P x" if "x \<in> set (rows (st_files s))" for x
    proof (cases "fi_id x = k")
      case True
      then have "x = f" by (rule same[OF that])
      then show ?thesis by (simp add: owner_company_def)
    qed simp
    then have "map fi_size (filter ?P (rows (st_files ?s))) = map fi_size (filter ?P (rows (st_files s)))"
      by (rule files)
    then show ?thesis
      by (simp add: get_company_storage_used_bytes_def direct_attachment_bytes_def tbl_filter_def owner_company_def)
  qed
  ultimately show ?thesis by (simp add: over_company_limit_def)
qed

text \<open>Employee 3 uploads ten bytes and then replaces them by a terabyte.\<close>

theorem upload_is_bounded_but_patch_is_not_witness:
  "\<exists>s1 s2. create_file 1 0 (demo_user 3 Employee (Some 1)) (Some ''f'') (Some \<lparr>up_size = 10, up_content_type = []\<rparr>)
      None None No_param No_param (demo_storage [] [demo_file 1 3 None None] []) = Some (Inr s1)
    \<and> get_company_storage_used_bytes s1 1 * 1000 \<le> 5000 * gib
    \<and> patch_file (demo_user 3 Employee (Some 1)) 1 None (Some \<lparr>up_size = 1000000000000, up_content_type = []\<rparr>)
      No_param No_param (demo_storage [] [demo_file 1 3 None None] []) = Some (Inr s2)
    \<and> (2, 1000000000000) \<in> set (rows (st_objects s2))"
proof -
  let ?s = "demo_storage [] [demo_file 1 3 None None] []" and ?u = "demo_user 3 Employee (Some 1)"
  let ?b = "\<lparr>up_size = 10, up_content_type = []\<rparr>" and ?big = "\<lparr>up_size = 1000000000000, up_content_type = []\<rparr>"
  have ok: "case create_file 1 0 ?u (Some ''f'') (Some ?b) None None No_param No_param ?s of Some r \<Rightarrow> is_ok r | None \<Rightarrow> False"
    by code_simp
  then obtain s1 where s1: "create_file 1 0 ?u (Some ''f'') (Some ?b) None None No_param No_param ?s = Some (Inr s1)"
    by (auto simp: is_ok_iff split: option.splits)
  have "company_of (st_acc ?s) ?u = Some demo_company" "tbl_get u_id (u_id ?u) (ac_users (st_acc ?s)) = Some ?u"
    "get_file_with ?s ?u 1 Share_full = Some (Inr (demo_file 1 3 None None))"
    by code_simp+
  moreover have "tbl_wf fi_id (st_files ?s)" by (simp add: demo_storage_def demo_file_def tbl_wf_def)
  moreover have "co_id demo_company = 1" "co_storage_limit demo_company = 5000" "next_id (st_objects ?s) = 2"
      "up_size ?big = 1000000000000"
    by (simp_all add: demo_company_def demo_storage_def)
  ultimately show ?thesis
    using upload_is_bounded_but_patch_is_not[OF _ _ s1, of demo_company ?u 1 "demo_file 1 3 None None" ?big] s1
    by metis
qed

section \<open>Permissions\<close>

text \<open>The recipient of a share may raise its level.\<close>

lemma recipient_raises_the_level:
  "get_own_share s u True i = Inr x \<Longrightarrow> live_file s (sh_file x) = Some f \<Longrightarrow>
   tbl_get u_id (u_id u) (ac_users (st_acc s)) = Some u \<Longrightarrow> validate_share s u (Some x) f u = None \<Longrightarrow>
   \<exists>s'. patch_share u True i None None (Some Share_full) None s = Inr s'
     \<and> x\<lparr>sh_permission := Share_full\<rparr> \<in> set (rows (st_shares s'))"
proof -
  assume x: "get_own_share s u True i = Inr x" and f: "live_file s (sh_file x) = Some f"
    and u: "tbl_get u_id (u_id u) (ac_users (st_acc s)) = Some u" and v: "validate_share s u (Some x) f u = None"
  have row: "x \<in> set (rows (st_shares s))" "sh_with x = u_id u"
    using x by (auto simp: get_own_share_def split: option.splits dest: find_row)
  have fields: "live_file_field s (sh_file x) = Inr f" "user_field s (sh_with x) = Inr u" "fi_id f = sh_file x"
    using f u row(2) find_row[OF f[unfolded live_file_def]] by (simp_all add: live_file_field_def user_field_def)
  let ?x = "x\<lparr>sh_file := fi_id f, sh_with := u_id u, sh_permission := Share_full, sh_comment := sh_comment x\<rparr>"
  have "patch_share u True i None None (Some Share_full) None s = Inr (s\<lparr>st_shares := tbl_save sh_id ?x (st_shares s)\<rparr>)"
    using x fields v by (simp add: patch_share_def guarded_simps)
  moreover have "?x = x\<lparr>sh_permission := Share_full\<rparr>" using fields(3) row(2) by (cases x) simp
  moreover have "?x \<in> set (rows (tbl_save sh_id ?x (st_shares s)))" using row(1) by (force simp: tbl_save_def)
  ultimately show ?thesis by auto
qed

text \<open>The PATCH of an entry for a role forgets the role, which the database refuses.\<close>

lemma role_permission_cannot_be_changed:
  "get_folder_perm s u i = Inr p \<Longrightarrow> fp_user p = None \<Longrightarrow>
   patch_folder_permission u i None None (Some l) s = Inl ServerError"
  by (simp add: patch_folder_permission_def given_role_def perm_user_error_def user_xor_role_def guarded_simps require_simps)

end
