(* ===== verification/StorageTrees.thy ===== *)
theory StorageTrees
  imports StorageSafety
begin

text \<open>
  Folder trees: what the deletion of a folder takes along, what its restoration brings back, and
  what the clean-up destroys.
\<close>

section \<open>Below a folder\<close>

text \<open>The folders a deletion of folder \<open>k\<close> reaches: itself, and the live folders below it.\<close>

inductive below :: "st_state \<Rightarrow> nat \<Rightarrow> nat \<Rightarrow> bool" for s k where
  below_refl: "below s k k"
| below_step: "below s k p \<Longrightarrow> f \<in> set (rows (st_folders s)) \<Longrightarrow> fo_parent f = Some p \<Longrightarrow> \<not> fo_is_deleted f \<Longrightarrow>
    below s k (fo_id f)"

inductive_cases below_cases: "below s k x"

lemma below_le: "parents_older s \<Longrightarrow> below s k x \<Longrightarrow> k \<le> x"
  by (rotate_tac, induction rule: below.induct) (fastforce simp: parents_older_def)+

lemma below_trans: "below s j x \<Longrightarrow> below s k j \<Longrightarrow> below s k x"
  by (induction rule: below.induct) (auto intro: below_step)

lemma same_row: "parents_older s \<Longrightarrow> f \<in> set (rows (st_folders s)) \<Longrightarrow> g \<in> set (rows (st_folders s)) \<Longrightarrow> fo_id f = fo_id g \<Longrightarrow> f = g"
  by (auto simp: parents_older_def tbl_wf_def distinct_map inj_on_def)

lemma below_linear:
  assumes "parents_older s"
  shows "below s a x \<Longrightarrow> below s b x \<Longrightarrow> below s a b \<or> below s b a"
proof (induction rule: below.induct)
  case (below_step p f)
  show ?case
  proof (cases "fo_id f = b")
    case True
    then show ?thesis using below.below_step[OF below_step.hyps] by simp
  next
    case False
    with below_step.prems obtain q g where g: "below s b q" "g \<in> set (rows (st_folders s))" "fo_parent g = Some q" "fo_id g = fo_id f"
      by (auto elim: below_cases)
    then have "g = f" using same_row[OF assms g(2) below_step.hyps(2)] by simp
    with g below_step.hyps(3) have "below s b p" by simp
    then show ?thesis by (rule below_step.IH)
  qed
qed simp

lemma live_children_iff:
  "x \<in> set (live_children s k) \<longleftrightarrow> (\<exists>f \<in> set (rows (st_folders s)). fo_id f = x \<and> fo_parent f = Some k \<and> \<not> fo_is_deleted f)"
  by (auto simp: live_children_def)

lemma below_children:
  "below s k x \<longleftrightarrow> x = k \<or> (\<exists>c \<in> set (live_children s k). below s c x)"
proof
  show "below s k x \<Longrightarrow> x = k \<or> (\<exists>c \<in> set (live_children s k). below s c x)"
  proof (induction rule: below.induct)
    case (below_step p f)
    then show ?case
      by (metis below.below_refl below.below_step live_children_iff)
  qed simp
  show "x = k \<or> (\<exists>c \<in> set (live_children s k). below s c x) \<Longrightarrow> below s k x"
    using below_step[OF below_refl, of _ s k] below_trans[of s _ x k] below_refl[of s k]
    by (auto simp: live_children_iff)
qed

text \<open>Two children of a folder have nothing below in common, and the folder is below neither.\<close>

lemma siblings_apart:
  assumes inv: "parents_older s" and c: "c \<in> set (live_children s k)" "d \<in> set (live_children s k)" "c \<noteq> d"
  shows "\<not> (below s c x \<and> below s d x)"
proof
  have up: "False" if ab: "below s a b" and a: "a \<in> set (live_children s k)" and b: "b \<in> set (live_children s k)" and ne: "a \<noteq> b" for a b
  proof -
    obtain f where f: "f \<in> set (rows (st_folders s))" "fo_id f = a" "fo_parent f = Some k"
      using a by (auto simp: live_children_iff)
    obtain g where g: "g \<in> set (rows (st_folders s))" "fo_id g = b" "fo_parent g = Some k"
      using b by (auto simp: live_children_iff)
    from ab ne obtain p h where h: "below s a p" "h \<in> set (rows (st_folders s))" "fo_parent h = Some p" "fo_id h = b"
      by (auto elim: below_cases)
    then have "h = g" using same_row[OF inv h(2) g(1)] g(2) by simp
    then have "below s a k" using h g(3) by simp
    then have "a \<le> k" by (rule below_le[OF inv])
    then show False using inv f by (fastforce simp: parents_older_def)
  qed
  assume "below s c x \<and> below s d x"
  then have "below s c d \<or> below s d c" using below_linear[OF inv] by blast
  then show False using up c by blast
qed

section \<open>Deletion of a tree\<close>

definition trashed_folder :: "datetime \<Rightarrow> folder \<Rightarrow> folder" where
  "trashed_folder now f = f\<lparr>fo_is_deleted := True, fo_deleted_at := Some now\<rparr>"

definition trashed_file :: "datetime \<Rightarrow> sfile \<Rightarrow> sfile" where
  "trashed_file now f = f\<lparr>fi_is_deleted := True, fi_deleted_at := Some now\<rparr>"

definition delete_all :: "datetime \<Rightarrow> (nat \<Rightarrow> bool) \<Rightarrow> st_state \<Rightarrow> st_state" where
  "delete_all now B s = s\<lparr>
     st_folders := tbl_update (\<lambda>f. B (fo_id f)) (trashed_folder now) (st_folders s),
     st_files := tbl_update (\<lambda>f. (\<exists>k. fi_folder f = Some k \<and> B k) \<and> \<not> fi_is_deleted f) (trashed_file now) (st_files s)\<rparr>"

lemma delete_all_folders: "st_folders (delete_all now B s) = tbl_update (\<lambda>f. B (fo_id f)) (trashed_folder now) (st_folders s)"
  by (simp add: delete_all_def)

lemma delete_all_older: "parents_older s \<Longrightarrow> parents_older (delete_all now B s)"
  by (rule parents_older_update[OF _ delete_all_folders]) (simp_all add: trashed_folder_def)

lemma tbl_update_compose:
  assumes "\<And>x. P x \<Longrightarrow> Q (f x) \<Longrightarrow> g (f x) = h x" "\<And>x. P x \<Longrightarrow> \<not> Q (f x) \<Longrightarrow> f x = h x" "\<And>x. \<not> P x \<Longrightarrow> Q x \<Longrightarrow> g x = h x"
    "\<And>x. R x \<longleftrightarrow> P x \<or> Q x"
  shows "tbl_update Q g (tbl_update P f t) = tbl_update R h t"
  using assms by (auto simp: tbl_update_def comp_def)

lemma delete_all_twice:
  "delete_all now C (delete_all now B s) = delete_all now (\<lambda>x. B x \<or> C x) s"
proof -
  have "tbl_update (\<lambda>f. C (fo_id f)) (trashed_folder now) (tbl_update (\<lambda>f. B (fo_id f)) (trashed_folder now) (st_folders s))
      = tbl_update (\<lambda>f. B (fo_id f) \<or> C (fo_id f)) (trashed_folder now) (st_folders s)"
    by (rule tbl_update_compose) (auto simp: trashed_folder_def)
  moreover have "tbl_update (\<lambda>f. (\<exists>k. fi_folder f = Some k \<and> C k) \<and> \<not> fi_is_deleted f) (trashed_file now)
       (tbl_update (\<lambda>f. (\<exists>k. fi_folder f = Some k \<and> B k) \<and> \<not> fi_is_deleted f) (trashed_file now) (st_files s))
      = tbl_update (\<lambda>f. (\<exists>k. fi_folder f = Some k \<and> (B k \<or> C k)) \<and> \<not> fi_is_deleted f) (trashed_file now) (st_files s)"
    by (rule tbl_update_compose) (auto simp: trashed_file_def)
  ultimately show ?thesis by (simp add: delete_all_def)
qed

lemma delete_all_none: "delete_all now (\<lambda>x. False) s = s"
  by (simp add: delete_all_def tbl_update_def)

lemma below_same: "st_folders s = st_folders t \<Longrightarrow> below s c x \<Longrightarrow> below t c x"
proof (rotate_tac, induction rule: below.induct)
  case (below_step p f)
  have "f \<in> set (rows (st_folders t))" using below_step.hyps(2) below_step.prems by simp
  with below_step show ?case by (intro below.below_step) simp_all
qed (rule below_refl)

lemma below_delete_all:
  assumes apart: "\<And>x. B x \<Longrightarrow> \<not> below s c x"
  shows "below (delete_all now B s) c x \<longleftrightarrow> below s c x"
proof
  show "below s c x \<Longrightarrow> below (delete_all now B s) c x"
  proof (induction rule: below.induct)
    case (below_step p f)
    then have "\<not> B (fo_id f)" using apart below.below_step by blast
    then have "f \<in> set (rows (st_folders (delete_all now B s)))"
      using below_step.hyps(2) by (force simp: delete_all_folders)
    then show ?case using below_step by (intro below.below_step)
  qed (rule below_refl)
  show "below (delete_all now B s) c x \<Longrightarrow> below s c x"
  proof (induction rule: below.induct)
    case (below_step p f)
    then obtain g where g: "g \<in> set (rows (st_folders s))" "f = (if B (fo_id g) then trashed_folder now g else g)"
      by (auto simp: delete_all_folders)
    have "\<not> B (fo_id g)"
    proof
      assume "B (fo_id g)"
      then have "fo_is_deleted f" using g(2) by (simp add: trashed_folder_def)
      then show False using below_step.hyps(4) by contradiction
    qed
    then have "f = g" using g(2) by simp
    with g(1) have "f \<in> set (rows (st_folders s))" by simp
    then show ?case using below_step by (intro below.below_step)
  qed (rule below_refl)
qed

lemma fold_children:
  assumes step: "\<And>c s t. parents_older s \<Longrightarrow> f c s = Some t \<Longrightarrow> t = delete_all now (below s c) s"
  shows "parents_older s \<Longrightarrow> distinct cs \<Longrightarrow>
    (\<And>c d x. c \<in> set cs \<Longrightarrow> d \<in> set cs \<Longrightarrow> c \<noteq> d \<Longrightarrow> below s c x \<Longrightarrow> \<not> below s d x) \<Longrightarrow>
    fold_option f cs s = Some t \<Longrightarrow> t = delete_all now (\<lambda>x. \<exists>c \<in> set cs. below s c x) s"
proof (induction cs arbitrary: s)
  case (Cons c cs)
  from Cons.prems(4) obtain m where m: "f c s = Some m" "fold_option f cs m = Some t" by (auto split: option.splits)
  have m': "m = delete_all now (below s c) s" by (rule step[OF Cons.prems(1) m(1)])
  have same: "below m d x \<longleftrightarrow> below s d x" if "d \<in> set cs" for d x
    unfolding m' using Cons.prems(2,3) that by (intro below_delete_all) auto
  have "t = delete_all now (\<lambda>x. \<exists>d \<in> set cs. below m d x) m"
  proof (rule Cons.IH[OF _ _ _ m(2)])
    show "parents_older m" unfolding m' by (rule delete_all_older[OF Cons.prems(1)])
    show "distinct cs" using Cons.prems(2) by simp
    show "\<not> below m b x" if "a \<in> set cs" "b \<in> set cs" "a \<noteq> b" "below m a x" for a b x
      using Cons.prems(3)[of a b x] that same by simp
  qed
  also have "\<dots> = delete_all now (\<lambda>x. \<exists>d \<in> set cs. below s d x) m"
  proof -
    have "(\<lambda>x. \<exists>d \<in> set cs. below m d x) = (\<lambda>x. \<exists>d \<in> set cs. below s d x)" using same by blast
    then show ?thesis by simp
  qed
  also have "\<dots> = delete_all now (\<lambda>x. \<exists>d \<in> set (c # cs). below s d x) s"
    unfolding m' delete_all_twice by simp
  finally show ?case .
qed (simp add: delete_all_none)

lemma soft_delete_exact:
  "parents_older s \<Longrightarrow> soft_delete_folder d now k s = Some t \<Longrightarrow> t = delete_all now (below s k) s"
proof (induction d arbitrary: k s t)
  case (Suc d)
  let ?s = "delete_files_of now k s" and ?cs = "live_children s k"
  have cs: "live_children ?s k = ?cs" by (simp add: live_children_def)
  from Suc.prems(2) obtain m where m: "fold_option (soft_delete_folder d now) ?cs ?s = Some m" "t = mark_folder_deleted now k m"
    by (auto simp: Let_def cs)
  have inv: "parents_older ?s" using Suc.prems(1) by (simp add: parents_older_def)
  have dist: "distinct ?cs"
    using Suc.prems(1) by (simp add: live_children_def parents_older_def tbl_wf_def tbl_filter_def distinct_map_filter)
  have below: "below ?s c x \<longleftrightarrow> below s c x" for c x
    using below_same[of "?s" s] below_same[of s "?s"] by auto
  have "m = delete_all now (\<lambda>x. \<exists>c \<in> set ?cs. below ?s c x) ?s"
  proof (rule fold_children[OF _ inv dist _ m(1)])
    show "t = delete_all now (below s c) s" if "parents_older s" "soft_delete_folder d now c s = Some t" for c s t
      using that by (rule Suc.IH)
    show "\<not> below ?s b x" if "a \<in> set ?cs" "b \<in> set ?cs" "a \<noteq> b" "below ?s a x" for a b x
      using siblings_apart[OF inv, of a k b x] that by (simp add: cs)
  qed
  then have m': "m = delete_all now (\<lambda>x. \<exists>c \<in> set ?cs. below s c x) ?s" by (simp add: below)
  have B: "below s k = (\<lambda>x. (\<exists>c \<in> set ?cs. below s c x) \<or> x = k)"
    by (rule ext) (simp only: below_children[of s k], simp only: disj_commute)
  let ?C = "\<lambda>x. \<exists>c \<in> set ?cs. below s c x"
  have "tbl_update (\<lambda>f. fo_id f = k) (trashed_folder now) (tbl_update (\<lambda>f. ?C (fo_id f)) (trashed_folder now) (st_folders s))
      = tbl_update (\<lambda>f. ?C (fo_id f) \<or> fo_id f = k) (trashed_folder now) (st_folders s)"
    by (rule tbl_update_compose) (auto simp: trashed_folder_def)
  moreover have "tbl_update (\<lambda>f. (\<exists>j. fi_folder f = Some j \<and> ?C j) \<and> \<not> fi_is_deleted f) (trashed_file now)
       (tbl_update (\<lambda>f. fi_folder f = Some k \<and> \<not> fi_is_deleted f) (trashed_file now) (st_files s))
      = tbl_update (\<lambda>f. (\<exists>j. fi_folder f = Some j \<and> (?C j \<or> j = k)) \<and> \<not> fi_is_deleted f) (trashed_file now) (st_files s)"
    by (rule tbl_update_compose) (auto simp: trashed_file_def)
  ultimately show ?case
    unfolding m(2) m' B
    by (simp add: delete_all_def mark_folder_deleted_def delete_files_of_def
        trashed_folder_def[abs_def] trashed_file_def[abs_def])
qed simp

lemma get_folder_row:
  "get_folder s u k = Inr f \<Longrightarrow> f \<in> set (rows (st_folders s)) \<and> fo_id f = k \<and> \<not> fo_is_deleted f"
  by (auto simp: get_folder_def folder_visible_def split: option.splits dest: find_row)

lemma ok_then_ok:
  assumes "case r of Inr x \<Rightarrow> is_ok (f x) | Inl _ \<Rightarrow> False"
  obtains x y where "r = Inr x" "f x = Inr y"
  using assms by (auto simp: is_ok_iff split: sum.splits)

text \<open>Deleting the live tree of a folder and restoring the folder: its folders, its files.\<close>

lemma restored_folders:
  assumes s1: "s1 = delete_all now (below s k) s" and s2: "s2 = restore_folder_row k s1"
    and f: "f \<in> set (rows (st_folders s2))" "below s k (fo_id f)"
  shows "fo_is_deleted f = (fo_id f \<noteq> k)"
proof -
  from f(1) obtain g where g: "g \<in> set (rows (st_folders s1))"
    "f = (if fo_id g = k then g\<lparr>fo_is_deleted := False, fo_deleted_at := None\<rparr> else g)"
    by (auto simp: s2 restore_folders)
  from g(1) have "g \<in> (\<lambda>h. if below s k (fo_id h) then trashed_folder now h else h) ` set (rows (st_folders s))"
    by (simp add: s1 delete_all_folders)
  then obtain h where h: "g = (if below s k (fo_id h) then trashed_folder now h else h)" by (rule imageE)
  have id: "fo_id g = fo_id f" "fo_id h = fo_id f" using g(2) h by (auto simp: trashed_folder_def split: if_splits)
  then have "fo_is_deleted g" using h f(2) by (simp add: trashed_folder_def)
  then have "fo_is_deleted (if fo_id g = k then g\<lparr>fo_is_deleted := False, fo_deleted_at := None\<rparr> else g) = (fo_id g \<noteq> k)"
    by simp
  then have "fo_is_deleted f = (fo_id g \<noteq> k)" unfolding g(2)[symmetric] .
  then show ?thesis unfolding id .
qed

lemma restored_files:
  assumes s1: "s1 = delete_all now (below s k) s" and s2: "s2 = restore_folder_row k s1"
    and f: "f \<in> set (rows (st_files s2))" "fi_folder f = Some d" "below s k d"
  shows "fi_is_deleted f = (d \<noteq> k)"
proof -
  from f(1) obtain g where g: "g \<in> set (rows (st_files s1))"
    "f = (if fi_folder g = Some k \<and> fi_is_deleted g then g\<lparr>fi_is_deleted := False, fi_deleted_at := None\<rparr> else g)"
    by (auto simp: s2 restore_folder_row_def)
  from g(1) have "g \<in> (\<lambda>h. if (\<exists>d. fi_folder h = Some d \<and> below s k d) \<and> \<not> fi_is_deleted h
      then trashed_file now h else h) ` set (rows (st_files s))"
    by (simp add: s1 delete_all_def)
  then obtain h where h: "g = (if (\<exists>d. fi_folder h = Some d \<and> below s k d) \<and> \<not> fi_is_deleted h
      then trashed_file now h else h)" by (rule imageE)
  have folder: "fi_folder g = Some d" "fi_folder h = Some d"
    using g(2) h f(2) by (auto simp: trashed_file_def split: if_splits)
  then have "fi_is_deleted g" using h f(3) by (auto simp: trashed_file_def)
  then show ?thesis using g(2) folder by auto
qed

lemma restoration_is_for_owners:
  assumes inv: "parents_older s" and s1: "s1 = delete_all now (below s k) s"
    and e: "u_role u = Employee" and f: "get_folder s u k = Inr f" and o: "fo_owner f \<noteq> u_id u"
  shows "\<not> is_ok (restore_folder u k s1)"
proof (cases "find (\<lambda>f. fo_id f = k \<and> fo_is_deleted f) (rows (st_folders s1))")
  case (Some g)
  then have g: "g \<in> set (rows (st_folders s1))" "fo_id g = k" using find_row[OF Some] by simp_all
  from g(1) have "g \<in> (\<lambda>h. if below s k (fo_id h) then trashed_folder now h else h) ` set (rows (st_folders s))"
    by (simp add: s1 delete_all_folders)
  then obtain h where h: "g = (if below s k (fo_id h) then trashed_folder now h else h)" "h \<in> set (rows (st_folders s))"
    by (rule imageE)
  then have "fo_id h = k" using g(2) by (simp add: trashed_folder_def split: if_splits)
  then have "h = f" using get_folder_row[OF f] same_row[OF inv h(2), of f] by simp
  then have "fo_owner g \<noteq> u_id u" using h(1) o by (simp add: trashed_folder_def)
  then show ?thesis
    using Some e by (simp add: restore_folder_def get_deleted_folder_def check_folder_permission_def require_simps
        guarded_simps split: option.splits)
qed (simp add: restore_folder_def get_deleted_folder_def split: option.splits)

text \<open>
  C18: the deletion of a folder, when it does not run into the recursion limit, marks exactly the
  folder, the live folders below it and the live files in them as deleted. The restoration of
  the folder brings back the folder and the files it holds itself: every folder below it
  stays in the trash, with its files. An employee may delete the folder of somebody else, but not
  restore it.
\<close>

theorem folder_deletion_and_restoration:
  assumes inv: "parents_older s" and del: "destroy_folder limit now u k s = Inr s1" and res: "restore_folder v k s1 = Inr s2"
  shows "rows (st_folders s1) = map (\<lambda>f. if below s k (fo_id f) then trashed_folder now f else f) (rows (st_folders s))
    \<and> rows (st_files s1) = map (\<lambda>f. if (\<exists>d. fi_folder f = Some d \<and> below s k d) \<and> \<not> fi_is_deleted f
        then trashed_file now f else f) (rows (st_files s))
    \<and> (\<forall>f \<in> set (rows (st_folders s2)). below s k (fo_id f) \<longrightarrow> fo_is_deleted f = (fo_id f \<noteq> k))
    \<and> (\<forall>f \<in> set (rows (st_files s2)). \<forall>d. fi_folder f = Some d \<and> below s k d \<longrightarrow> fi_is_deleted f = (d \<noteq> k))
    \<and> (\<forall>f. u_role u = Employee \<and> get_folder s u k = Inr f \<and> fo_owner f \<noteq> u_id u \<longrightarrow> \<not> is_ok (restore_folder u k s1))"
proof -
  from del have "soft_delete_folder limit now k s = Some s1"
    by (auto simp: destroy_folder_def split: sum.splits option.splits)
  then have s1: "s1 = delete_all now (below s k) s" by (rule soft_delete_exact[OF inv])
  have s2: "s2 = restore_folder_row k s1" using res by (auto simp: restore_folder_def split: sum.splits)
  show ?thesis
  proof (intro conjI)
    show "rows (st_folders s1) = map (\<lambda>f. if below s k (fo_id f) then trashed_folder now f else f) (rows (st_folders s))"
      by (simp add: s1 delete_all_folders)
    show "rows (st_files s1) = map (\<lambda>f. if (\<exists>d. fi_folder f = Some d \<and> below s k d) \<and> \<not> fi_is_deleted f
        then trashed_file now f else f) (rows (st_files s))"
      by (simp add: s1 delete_all_def)
  qed (use restored_folders[OF s1 s2] restored_files[OF s1 s2] restoration_is_for_owners[OF inv s1] in blast)+
qed

text \<open>Employee 3 deletes the admin's folder 1 with folder 2 below it, the admin restores it.\<close>

theorem folder_deletion_and_restoration_witness:
  "\<exists>s1 s2. destroy_folder 3 5 (demo_user 3 Employee (Some 1)) 1
      (demo_storage [demo_folder 1 None, demo_folder 2 (Some 1)] [demo_file 1 2 (Some 2) (Some 1)] []) = Inr s1
    \<and> restore_folder (demo_user 2 Company_admin (Some 1)) 1 s1 = Inr s2
    \<and> (\<forall>f \<in> set (rows (st_folders s2)). fo_id f = 2 \<longrightarrow> fo_is_deleted f)"
proof -
  let ?s = "demo_storage [demo_folder 1 None, demo_folder 2 (Some 1)] [demo_file 1 2 (Some 2) (Some 1)] []"
  let ?d = "destroy_folder 3 5 (demo_user 3 Employee (Some 1)) 1 ?s"
  have inv: "parents_older ?s" by (simp add: parents_older_def demo_storage_def demo_folder_def tbl_wf_def)
  have "case ?d of Inr s1 \<Rightarrow> is_ok (restore_folder (demo_user 2 Company_admin (Some 1)) 1 s1) | Inl _ \<Rightarrow> False"
    by code_simp
  then obtain s1 s2 where ok: "?d = Inr s1" "restore_folder (demo_user 2 Company_admin (Some 1)) 1 s1 = Inr s2"
    by (rule ok_then_ok)
  have "below ?s 1 (fo_id (demo_folder 2 (Some 1)))"
    by (rule below_step[OF below_refl]) (simp_all add: demo_storage_def demo_folder_def)
  then have b: "below ?s 1 2" by (simp add: demo_folder_def)
  have all: "\<forall>f \<in> set (rows (st_folders s2)). below ?s 1 (fo_id f) \<longrightarrow> fo_is_deleted f = (fo_id f \<noteq> 1)"
    using folder_deletion_and_restoration[OF inv ok] by (elim conjE) assumption
  have "fo_is_deleted f" if f: "f \<in> set (rows (st_folders s2))" "fo_id f = 2" for f
  proof -
    have "below ?s 1 (fo_id f)" unfolding f(2) by (rule b)
    then have "fo_is_deleted f = (fo_id f \<noteq> 1)" by (rule all[rule_format, OF f(1)])
    then show ?thesis unfolding f(2) by simp
  qed
  then show ?thesis using ok by blast
qed

section \<open>The clean-up\<close>

lemma folders_below_mono: "set ks \<subseteq> set (folders_below n fs ks)"
  by (induction n arbitrary: ks) (simp, force)

lemma remove_folders_files:
  "f \<in> set (rows (st_files (remove_folders ks s))) \<Longrightarrow> f \<in> set (rows (st_files s)) \<and> (\<forall>k \<in> set ks. fi_folder f \<noteq> Some k)"
  using folders_below_mono[of ks "length (rows (st_folders s))" "rows (st_folders s)"]
  by (auto simp: remove_folders_def remove_files_def Let_def split: option.splits)

lemma remove_folders_objects [simp]: "st_objects (remove_folders ks s) = st_objects s"
  by (simp add: remove_folders_def remove_files_def Let_def)

lemma destroy_row_files: "x \<in> set (rows (st_files (destroy_file_row f s))) \<Longrightarrow> x \<in> set (rows (st_files s))"
  by (auto simp: destroy_file_row_def remove_files_def delete_object_def Let_def split: option.splits)

lemma fold_destroy_files: "x \<in> set (rows (st_files (fold destroy_file_row fs s))) \<Longrightarrow> x \<in> set (rows (st_files s))"
  by (induction fs arbitrary: s) (auto dest: destroy_row_files)

lemma fold_destroy_objects:
  "o' \<in> set (rows (st_objects s)) \<Longrightarrow> \<forall>f \<in> set fs. fi_object f \<noteq> Some (fst o') \<Longrightarrow>
   o' \<in> set (rows (st_objects (fold destroy_file_row fs s)))"
  by (induction fs arbitrary: s)
     (auto simp: destroy_file_row_def remove_files_def delete_object_def Let_def split: option.splits)

text \<open>
  A file restored on its own, out of a folder that stays in the trash, is a live file again,
  and the clean-up destroys it thirty days after the deletion of the folder, live as it is, while
  its content stays in the storage service without any row that names it.
\<close>

theorem cleanup_destroys_a_restored_file:
  assumes wf: "tbl_wf fi_id (st_files s1)"
    and restored: "restore_file u i s = Some (Inr s1)"
    and f: "f \<in> set (rows (st_files s1))" "fi_id f = i" "fi_folder f = Some k" "fi_object f = Some obj"
    and folder: "g \<in> set (rows (st_folders s1))" "fo_id g = k" "fo_is_deleted g" "fo_deleted_at g = Some t" "t \<le> now - days 30"
    and own: "\<forall>h \<in> set (rows (st_files s1)). fi_object h = Some obj \<longrightarrow> h = f" "(obj, n) \<in> set (rows (st_objects s1))"
  shows "live_file s1 i = Some f
    \<and> (\<forall>h \<in> set (rows (st_files (cleanup_deleted_files now s1))). fi_id h \<noteq> i \<and> fi_object h \<noteq> Some obj)
    \<and> (obj, n) \<in> set (rows (st_objects (cleanup_deleted_files now s1)))"
proof -
  let ?stale = "tbl_filter (\<lambda>f. stale now (fi_is_deleted f) (fi_deleted_at f)) (st_files s1)"
  let ?s = "fold destroy_file_row ?stale s1"
  let ?ks = "map fo_id (tbl_filter (\<lambda>f. stale now (fo_is_deleted f) (fo_deleted_at f)) (st_folders ?s))"
  have clean: "cleanup_deleted_files now s1 = remove_folders ?ks ?s" by (simp add: cleanup_deleted_files_def Let_def)
  have same: "h = f" if "h \<in> set (rows (st_files s1))" "fi_id h = i" for h
    using wf f(1,2) that by (auto simp: tbl_wf_def distinct_map inj_on_def)
  have s1: "s1 = restore_file_row i s" using restored by (auto simp: restore_file_def)
  have live: "\<not> fi_is_deleted f"
  proof -
    have "f \<in> (\<lambda>x. if fi_id x = i then x\<lparr>fi_is_deleted := False, fi_deleted_at := None\<rparr> else x) ` set (rows (st_files s))"
      using f(1) unfolding s1 by (simp add: restore_file_row_def)
    then obtain x where "f = (if fi_id x = i then x\<lparr>fi_is_deleted := False, fi_deleted_at := None\<rparr> else x)" by (rule imageE)
    then show ?thesis using f(2) by (cases "fi_id x = i") simp_all
  qed
  have "live_file s1 i = Some f"
  proof (cases "live_file s1 i")
    case None
    then show ?thesis using f live by (auto simp: live_file_def find_None_iff)
  next
    case (Some h)
    then have "h \<in> set (rows (st_files s1))" "fi_id h = i" by (auto simp: live_file_def dest: find_row)
    then show ?thesis using same Some by simp
  qed
  moreover have "fi_id h \<noteq> i \<and> fi_object h \<noteq> Some obj" if h: "h \<in> set (rows (st_files (cleanup_deleted_files now s1)))" for h
  proof -
    have h': "h \<in> set (rows (st_files ?s))" "\<forall>k \<in> set ?ks. fi_folder h \<noteq> Some k"
      using remove_folders_files[of h ?ks ?s] h unfolding clean by blast+
    have "st_folders ?s = st_folders s1" by (rule fold_same_folders) simp
    then have "k \<in> set ?ks"
      using folder by (auto simp: stale_def cleanup_cutoff_def intro!: image_eqI[of _ _ g])
    then have "h \<noteq> f" using h'(2) f(3) by auto
    then show ?thesis using same own(1) fold_destroy_files[OF h'(1)] by blast
  qed
  moreover have "(obj, n) \<in> set (rows (st_objects ?s))"
  proof (rule fold_destroy_objects[OF own(2)])
    show "\<forall>h \<in> set ?stale. fi_object h \<noteq> Some (fst (obj, n))"
      using own(1) live by (auto simp: stale_def)
  qed
  ultimately show ?thesis unfolding clean by simp
qed

definition demo_trash :: st_state where
  "demo_trash = demo_storage [(demo_folder 1 None)\<lparr>fo_is_deleted := True, fo_deleted_at := Some 0\<rparr>]
     [(demo_file 1 3 (Some 1) (Some 1))\<lparr>fi_is_deleted := True, fi_deleted_at := Some 0\<rparr>] []"

theorem cleanup_destroys_a_restored_file_witness:
  "\<exists>s1. restore_file (demo_user 3 Employee (Some 1)) 1 demo_trash = Some (Inr s1)
    \<and> live_file s1 1 \<noteq> None \<and> live_file (cleanup_deleted_files (days 31) s1) 1 = None"
proof -
  let ?u = "demo_user 3 Employee (Some 1)" and ?f = "demo_file 1 3 (Some 1) (Some 1)"
  let ?s1 = "restore_file_row 1 demo_trash"
  have ok: "restore_file ?u 1 demo_trash = Some (Inr ?s1)"
    by (simp add: restore_file_def get_deleted_file_def demo_trash_def demo_storage_def demo_file_def
        ensure_file_permission_def permission_defs)
  let ?g = "(demo_folder 1 None)\<lparr>fo_is_deleted := True, fo_deleted_at := Some 0\<rparr>"
  have r: "tbl_wf fi_id (st_files ?s1)" "?f \<in> set (rows (st_files ?s1))" "(1, 10) \<in> set (rows (st_objects ?s1))"
    "\<forall>h \<in> set (rows (st_files ?s1)). fi_object h = Some 1 \<longrightarrow> h = ?f" "?g \<in> set (rows (st_folders ?s1))"
    by (simp_all add: restore_file_row_def demo_trash_def demo_storage_def demo_file_def tbl_wf_def)
  have v: "fi_id ?f = 1" "fi_folder ?f = Some 1" "fi_object ?f = Some 1" "fo_id ?g = 1" "fo_is_deleted ?g"
    "fo_deleted_at ?g = Some 0" "0 \<le> days 31 - days 30"
    by (simp_all add: demo_file_def demo_folder_def days_def usec_per_day_def)
  note c = cleanup_destroys_a_restored_file[OF r(1) ok r(2) v(1,2,3) r(5) v(4,5,6,7) r(4,3)]
  from c have "live_file (cleanup_deleted_files (days 31) ?s1) 1 = None"
    by (auto simp: live_file_def find_None_iff)
  with c ok show ?thesis by auto
qed

end
