(* ===== verification/BookingRules.thy ===== *)
theory BookingRules
  imports BookingModel
begin

text \<open>
  The booking rules of \<open>bookings/serializers.py\<close>: who may book what, opening hours,
  duration and lead time per resource type, conflicts with other bookings and blocks,
  the per-user limits, and the check that submitted times carry a time zone.
\<close>

definition plan_of :: "accounts \<Rightarrow> user \<Rightarrow> plan" where
  "plan_of acc u = (case company_of acc u of None \<Rightarrow> Basic | Some c \<Rightarrow> co_plan c)"

definition PLANS_WITH_ASSIGNED_RESOURCES :: "plan list" where
  "PLANS_WITH_ASSIGNED_RESOURCES = [Standard, Premium]"

definition plan_priority :: "plan \<Rightarrow> int" where
  "plan_priority p = (case p of Premium \<Rightarrow> 3 | Standard \<Rightarrow> 2 | Basic \<Rightarrow> 1)"

definition booking_priority :: "accounts \<Rightarrow> user \<Rightarrow> int" where
  "booking_priority acc u = (if u_role u = Superadmin then 3 else plan_priority (plan_of acc u))"

section \<open>Validators\<close>

definition validate_access :: "accounts \<Rightarrow> resource \<Rightarrow> user \<Rightarrow> api_error option" where
  "validate_access acc r u =
     (if is_superadmin u then None
      else first_err
        [require (r_assigned_company r = None \<or> r_assigned_company r = u_company u)
           (raise_validation_error ''resource_id'' ''booking.resource_wrong_company''),
         require (r_assigned_company r = None \<or> plan_of acc u \<in> set PLANS_WITH_ASSIGNED_RESOURCES)
           (raise_validation_error ''resource_id'' ''booking.resource_requires_premium'')])"

definition at_midnight :: "daytime \<Rightarrow> bool" where
  "at_midnight t \<longleftrightarrow> time_hour t = 0 \<and> time_minute t = 0"

definition available_weekdays :: "resource \<Rightarrow> int list" where
  "available_weekdays r = (if r_available_days r = [] then [0, 1, 2, 3, 4, 5, 6] else r_available_days r)"

definition validate_availability_window ::
  "settings \<Rightarrow> resource \<Rightarrow> datetime \<Rightarrow> datetime \<Rightarrow> api_error option" where
  "validate_availability_window cfg r start_time end_time =
     (let off = UTC_OFFSET cfg;
          ls = local_time off start_time; le = local_time off end_time;
          is_parking_whole_day = (r_type r = Parking \<and> at_midnight ls \<and> at_midnight le)
      in first_err
        [require (is_parking_whole_day \<or> local_date off start_time = local_date off end_time)
           (raise_validation_error ''detail'' ''booking.same_day_only''),
         require (weekday (local_date off start_time) \<in> set (available_weekdays r))
           (raise_validation_error ''detail'' ''booking.unavailable_day''),
         require (is_parking_whole_day \<or> \<not> (ls < r_available_from r \<or> le > r_available_until r))
           (raise_validation_error ''detail'' ''booking.outside_operating_hours'')])"

definition MEETING_ROOM_MIN_MINUTES :: int where "MEETING_ROOM_MIN_MINUTES = 30"
definition MEETING_ROOM_MAX_MINUTES :: int where "MEETING_ROOM_MAX_MINUTES = 240"
definition CAPSULE_MIN_MINUTES :: int where "CAPSULE_MIN_MINUTES = 60"
definition CAPSULE_MAX_MINUTES :: int where "CAPSULE_MAX_MINUTES = 480"

definition too_short :: api_error where
  "too_short = LocalizedError ''BOOKING_DURATION_TOO_SHORT'' ''booking.duration_too_short'' 400"

definition too_long :: api_error where
  "too_long = LocalizedError ''BOOKING_DURATION_TOO_LONG'' ''booking.duration_too_long'' 400"

definition duration_between :: "int \<Rightarrow> int \<Rightarrow> int \<Rightarrow> api_error option" where
  "duration_between lo hi duration =
     first_err [require (\<not> duration < minutes lo) too_short, require (\<not> duration > minutes hi) too_long]"

definition parking_whole_day :: "settings \<Rightarrow> datetime \<Rightarrow> datetime \<Rightarrow> bool" where
  "parking_whole_day cfg start_time end_time =
     (let off = UTC_OFFSET cfg; ls = local_time off start_time; le = local_time off end_time
      in at_midnight ls \<and> (time_hour le = 23 \<and> time_minute le = 59
           \<or> at_midnight le \<and> local_date off end_time > local_date off start_time))"

definition validate_type_specific_rules ::
  "settings \<Rightarrow> datetime \<Rightarrow> resource \<Rightarrow> datetime \<Rightarrow> datetime \<Rightarrow> api_error option" where
  "validate_type_specific_rules cfg now r start_time end_time =
     (let off = UTC_OFFSET cfg; duration = end_time - start_time;
          max_start_date = local_date off (now + days (r_advance_booking_days r))
      in first_err
        [require (\<not> local_date off start_time > max_start_date)
           (LocalizedError ''BOOKING_ADVANCE_DAYS_EXCEEDED'' ''booking.advance_days_exceeded'' 400),
         (case r_type r of
            Meeting_room \<Rightarrow> duration_between MEETING_ROOM_MIN_MINUTES MEETING_ROOM_MAX_MINUTES duration
          | Parking \<Rightarrow> require (parking_whole_day cfg start_time end_time)
              (LocalizedError ''BOOKING_PARKING_WHOLE_DAY_ONLY'' ''booking.parking_whole_day_only'' 400)
          | Capsule \<Rightarrow> duration_between CAPSULE_MIN_MINUTES CAPSULE_MAX_MINUTES duration
          | Desk \<Rightarrow> None)])"

definition validate_resource_duration_limits ::
  "resource \<Rightarrow> datetime \<Rightarrow> datetime \<Rightarrow> api_error option" where
  "validate_resource_duration_limits r start_time end_time =
     (if r_type r = Parking then None
      else first_err
        [require (\<not> (r_min_duration_minutes r \<noteq> 0
             \<and> end_time - start_time < minutes (r_min_duration_minutes r))) too_short,
         require (\<not> (r_max_duration_minutes r \<noteq> 0
             \<and> end_time - start_time > minutes (r_max_duration_minutes r))) too_long])"

definition active_count :: "datetime \<Rightarrow> bk_state \<Rightarrow> nat \<Rightarrow> int" where
  "active_count now s uid = int (length (tbl_filter
     (\<lambda>b. b_user b = uid \<and> b_status b = Confirmed \<and> b_end b > now) (bk_bookings s)))"

definition validate_user_active_limit ::
  "settings \<Rightarrow> datetime \<Rightarrow> bk_state \<Rightarrow> user \<Rightarrow> api_error option" where
  "validate_user_active_limit cfg now s u =
     require (\<not> active_count now s (u_id u) \<ge> MAX_ACTIVE_BOOKINGS_PER_USER cfg)
       (raise_validation_error ''detail'' ''booking.active_limit_exceeded'')"

section \<open>Conflicts\<close>

definition booking_conflict :: api_error where
  "booking_conflict = LocalizedError ''BOOKING_CONFLICT'' ''booking.conflict'' 409"

definition overlapping_bookings ::
  "bk_state \<Rightarrow> nat \<Rightarrow> datetime \<Rightarrow> datetime \<Rightarrow> nat option \<Rightarrow> booking list" where
  "overlapping_bookings s rid start_time end_time exclude =
     tbl_filter (\<lambda>b. b_resource b = rid \<and> b_status b = Confirmed
       \<and> b_start b < end_time \<and> b_end b > start_time \<and> Some (b_id b) \<noteq> exclude) (bk_bookings s)"

text \<open>
  \<open>_ensure_no_conflicts\<close>: an error, or the bookings to displace. A booking can be displaced
  by a user of higher priority as long as it starts after the override cutoff.
\<close>

definition displaceable_by :: "settings \<Rightarrow> datetime \<Rightarrow> accounts \<Rightarrow> user \<Rightarrow> booking \<Rightarrow> bool" where
  "displaceable_by cfg now acc u b \<longleftrightarrow>
     b_priority b < booking_priority acc u \<and> b_start b > now + hours (PRIORITY_OVERRIDE_HOURS cfg)"

definition ensure_no_conflicts ::
  "settings \<Rightarrow> datetime \<Rightarrow> bk_state \<Rightarrow> resource \<Rightarrow> datetime \<Rightarrow> datetime \<Rightarrow> nat option \<Rightarrow> user option
     \<Rightarrow> api_error + booking list" where
  "ensure_no_conflicts cfg now s r start_time end_time exclude user =
     (let overlap = overlapping_bookings s (r_id r) start_time end_time exclude;
          to_displace =
            (if overlap \<noteq> [] then
               (case user of
                  Some u \<Rightarrow>
                    (let displaceable = filter (displaceable_by cfg now (bk_acc s) u) overlap;
                         non_displaceable = filter (\<lambda>b. \<not> displaceable_by cfg now (bk_acc s) u b) overlap
                     in if non_displaceable \<noteq> [] \<or> displaceable = [] then Inl booking_conflict
                        else Inr displaceable)
                | None \<Rightarrow> Inl booking_conflict)
             else Inr [])
      in case to_displace of
           Inl e \<Rightarrow> Inl e
         | Inr ds \<Rightarrow>
             (if tbl_filter (\<lambda>bl. bl_resource bl = r_id r \<and> bl_start bl < end_time \<and> bl_end bl > start_time)
                  (bk_blocks s) \<noteq> []
              then Inl booking_conflict else Inr ds))"

definition ensure_no_user_desk_overlap ::
  "bk_state \<Rightarrow> user \<Rightarrow> resource \<Rightarrow> datetime \<Rightarrow> datetime \<Rightarrow> nat option \<Rightarrow> api_error option" where
  "ensure_no_user_desk_overlap s u r start_time end_time exclude =
     (if r_type r \<noteq> Desk then None
      else require (tbl_filter (\<lambda>b. b_user b = u_id u \<and> has_type s Desk b \<and> b_status b = Confirmed
             \<and> b_start b < end_time \<and> b_end b > start_time \<and> Some (b_id b) \<noteq> exclude) (bk_bookings s) = [])
        (LocalizedError ''BOOKING_DESK_USER_OVERLAP'' ''booking.desk_user_overlap'' 409))"

section \<open>Time zone check on the submitted text\<close>

definition after_last :: "char \<Rightarrow> string \<Rightarrow> string" where
  \<comment> \<open>\<open>s.split(c)[-1]\<close>\<close>
  "after_last c s = rev (takeWhile (\<lambda>x. x \<noteq> c) (rev s))"

definition check_timezone_aware :: "string \<Rightarrow> string \<Rightarrow> api_error option" where
  "check_timezone_aware field raw =
     (if raw = [] then None
      else if CHR ''T'' \<in> set raw \<or> (CHR '' '' \<in> set raw \<and> length raw > 10) then
        (let has_z = last raw \<in> {CHR ''Z'', CHR ''z''};
             time_part = (if CHR ''T'' \<in> set raw then after_last (CHR ''T'') raw
                          else after_last (CHR '' '') raw);
             has_offset = (CHR ''+'' \<in> set time_part
                           \<or> CHR ''-'' \<in> set time_part \<and> CHR '':'' \<in> set time_part)
         in require (has_z \<or> has_offset)
              (raise_validation_error field ''booking.datetime_must_be_timezone_aware''))
      else None)"

text \<open>\<open>validate_participant_ids\<close>\<close>

definition validate_participant_ids :: "accounts \<Rightarrow> nat list \<Rightarrow> api_error option" where
  "validate_participant_ids acc value =
     require (\<forall>uid \<in> set value. case tbl_get u_id uid (ac_users acc) of
         None \<Rightarrow> False | Some u \<Rightarrow> u_is_active u)
       (raise_validation_error ''participant_ids'' ''Users not found or inactive'')"

text \<open>\<open>ensure_capsule_booking_qr\<close> on the row; \<open>uuid\<close> is the value \<open>uuid4()\<close> draws.\<close>

definition ensure_capsule_booking_qr :: "resource_type \<Rightarrow> nat \<Rightarrow> booking \<Rightarrow> booking" where
  "ensure_capsule_booking_qr rt uuid b =
     (if rt \<noteq> Capsule then b
      else if b_status b \<noteq> Confirmed then b
      else b\<lparr>b_qr_code := (case b_qr_code b of None \<Rightarrow> Some uuid | Some q \<Rightarrow> Some q), b_qr_image := True\<rparr>)"

section \<open>Lemmas\<close>

lemma plan_priority_mono: "p \<le> q \<Longrightarrow> plan_priority p \<le> plan_priority q"
  by (cases p; cases q) (simp_all add: plan_priority_def less_eq_plan_def)

lemma booking_priority_bounds: "1 \<le> booking_priority acc u" "booking_priority acc u \<le> 3"
  by (auto simp: booking_priority_def plan_priority_def split: plan.split)

lemma in_overlapping_iff:
  "b \<in> set (overlapping_bookings s rid start_time end_time exclude) \<longleftrightarrow>
     b \<in> set (all_bookings s) \<and> b_resource b = rid \<and> b_status b = Confirmed
     \<and> overlaps (b_start b) (b_end b) start_time end_time \<and> Some (b_id b) \<noteq> exclude"
  by (auto simp: overlapping_bookings_def all_bookings_def overlaps_def)

text \<open>What a passed conflict check guarantees, whoever asks.\<close>

lemma ensure_no_conflicts_ok:
  assumes "ensure_no_conflicts cfg now s r st en exclude user = Inr ds"
  shows "ds = overlapping_bookings s (r_id r) st en exclude"
    and "\<And>b. b \<in> set ds \<Longrightarrow> \<exists>u. user = Some u \<and> displaceable_by cfg now (bk_acc s) u b"
    and "\<And>bl. bl \<in> set (rows (bk_blocks s)) \<Longrightarrow> bl_resource bl = r_id r \<Longrightarrow>
      \<not> overlaps (bl_start bl) (bl_end bl) st en"
    and "user = None \<Longrightarrow> ds = []"
proof -
  let ?ov = "overlapping_bookings s (r_id r) st en exclude"
  have ds: "ds = ?ov \<and> (\<forall>b \<in> set ds. \<exists>u. user = Some u \<and> displaceable_by cfg now (bk_acc s) u b)"
    using assms
    by (auto simp: ensure_no_conflicts_def Let_def filter_empty_conv filter_id_conv
        split: if_splits option.splits sum.splits)
  then show "ds = ?ov" "\<And>b. b \<in> set ds \<Longrightarrow> \<exists>u. user = Some u \<and> displaceable_by cfg now (bk_acc s) u b"
    by auto
  show "\<And>bl. bl \<in> set (rows (bk_blocks s)) \<Longrightarrow> bl_resource bl = r_id r \<Longrightarrow>
      \<not> overlaps (bl_start bl) (bl_end bl) st en"
    using assms by (auto simp: ensure_no_conflicts_def Let_def overlaps_def tbl_filter_def
        filter_empty_conv split: if_splits option.splits sum.splits)
  show "user = None \<Longrightarrow> ds = []"
    using ds by (cases ds) auto
qed

text \<open>The check in both directions: it succeeds exactly when nothing stands in the way.\<close>

lemma ensure_no_conflicts_iff:
  "ensure_no_conflicts cfg now s r st en exclude user = Inr ds \<longleftrightarrow>
     ds = overlapping_bookings s (r_id r) st en exclude
     \<and> (\<forall>b \<in> set ds. \<exists>u. user = Some u \<and> displaceable_by cfg now (bk_acc s) u b)
     \<and> (\<forall>bl \<in> set (rows (bk_blocks s)). bl_resource bl = r_id r \<longrightarrow>
          \<not> overlaps (bl_start bl) (bl_end bl) st en)" (is "_ \<longleftrightarrow> ?ok")
proof
  assume ?ok
  then show "ensure_no_conflicts cfg now s r st en exclude user = Inr ds"
    by (cases "overlapping_bookings s (r_id r) st en exclude"; cases user)
       (auto simp: ensure_no_conflicts_def Let_def tbl_filter_def overlaps_def filter_empty_conv)
next
  assume ok: "ensure_no_conflicts cfg now s r st en exclude user = Inr ds"
  show ?ok
    using ensure_no_conflicts_ok(1,2,3)[OF ok] by simp
qed

lemma ensure_no_conflicts_error:
  "ensure_no_conflicts cfg now s r st en exclude user = Inl e \<Longrightarrow> e = booking_conflict"
  by (auto simp: ensure_no_conflicts_def Let_def split: if_splits option.splits)

lemma qr_frame [simp]:
  "b_id (ensure_capsule_booking_qr rt q b) = b_id b"
  "b_resource (ensure_capsule_booking_qr rt q b) = b_resource b"
  "b_start (ensure_capsule_booking_qr rt q b) = b_start b"
  "b_end (ensure_capsule_booking_qr rt q b) = b_end b"
  "b_status (ensure_capsule_booking_qr rt q b) = b_status b"
  "b_user (ensure_capsule_booking_qr rt q b) = b_user b"
  "b_priority (ensure_capsule_booking_qr rt q b) = b_priority b"
  "b_company (ensure_capsule_booking_qr rt q b) = b_company b"
  by (simp_all add: ensure_capsule_booking_qr_def)

lemma capsule_has_qr:
  "rt = Capsule \<Longrightarrow> b_status b = Confirmed \<Longrightarrow> b_qr_code (ensure_capsule_booking_qr rt q b) \<noteq> None"
  by (simp add: ensure_capsule_booking_qr_def split: option.splits)

end
