(* ===== verification/Bookings.thy ===== *)
theory Bookings
  imports BookingRules
begin

text \<open>
  The booking endpoints of \<open>BookingViewSet\<close> (\<open>bookings/views.py\<close>) with the serializer
  code they run (\<open>bookings/serializers.py\<close>), and the periodic tasks on bookings of
  \<open>bookings/tasks.py\<close>. A request handler returns the error it raises or the new state:
  every request runs in one database transaction (\<open>ATOMIC_REQUESTS\<close>), so a raised error
  leaves the state as it was. \<open>now\<close> is the clock of the request.
\<close>

section \<open>Visibility\<close>

definition participates :: "bk_state \<Rightarrow> nat \<Rightarrow> nat \<Rightarrow> bool" where
  "participates s uid k \<longleftrightarrow>
     list_ex (\<lambda>p. bp_booking p = k \<and> bp_user p = uid) (rows (bk_participants s))"

definition booking_visible :: "bk_state \<Rightarrow> user \<Rightarrow> booking \<Rightarrow> bool" where
  "booking_visible s u b \<longleftrightarrow>
     (if u_role u = Superadmin then True
      else if u_role u = Guest then b_user b = u_id u \<or> participates s (u_id u) (b_id b)
      else case u_company u of
        None \<Rightarrow> False
      | Some c \<Rightarrow> b_company b = Some c \<or> participates s (u_id u) (b_id b))"

definition booking_queryset :: "bk_state \<Rightarrow> user \<Rightarrow> booking list" where
  "booking_queryset s u = tbl_filter (booking_visible s u) (bk_bookings s)"

definition get_object :: "bk_state \<Rightarrow> user \<Rightarrow> nat \<Rightarrow> api_error + booking" where
  "get_object s u k = (case find (\<lambda>b. b_id b = k) (booking_queryset s u) of
     None \<Rightarrow> Inl NotFound | Some b \<Rightarrow> Inr b)"

section \<open>Creation\<close>

record create_request =
  rq_resource :: "nat option"
  rq_resource_id :: "nat option"
  rq_start :: datetime
  rq_end :: datetime
  rq_raw_start :: string
  rq_raw_end :: string
  rq_description :: string
  rq_participant_ids :: "nat list"

definition resolve_resource :: "bk_state \<Rightarrow> create_request \<Rightarrow> api_error + resource" where
  "resolve_resource s rq = (case rq_resource rq of
     Some k \<Rightarrow> (case tbl_get r_id k (bk_resources s) of
         None \<Rightarrow> Inl (raise_validation_error ''resource'' ''does_not_exist'') | Some r \<Rightarrow> Inr r)
   | None \<Rightarrow> (case rq_resource_id rq of
         None \<Rightarrow> Inl (raise_validation_error ''resource_id'' ''booking.resource_id_required'')
       | Some k \<Rightarrow> (case tbl_get r_id k (bk_resources s) of
           None \<Rightarrow> Inl (raise_validation_error ''resource_id'' ''booking.resource_not_found'')
         | Some r \<Rightarrow> Inr r)))"

text \<open>
  \<open>is_valid\<close>: the field checks (a \<open>resource\<close> that does not exist, the participants), then
  \<open>validate\<close>. Field errors are reported together; the first one stands for them here.
\<close>

definition create_field_errors :: "bk_state \<Rightarrow> create_request \<Rightarrow> api_error option" where
  "create_field_errors s rq = first_err
     [(case rq_resource rq of None \<Rightarrow> None
       | Some k \<Rightarrow> require (tbl_get r_id k (bk_resources s) \<noteq> None)
           (raise_validation_error ''resource'' ''does_not_exist'')),
      validate_participant_ids (bk_acc s) (rq_participant_ids rq)]"

definition create_validate ::
  "settings \<Rightarrow> datetime \<Rightarrow> bk_state \<Rightarrow> create_request \<Rightarrow> api_error + resource" where
  "create_validate cfg now s rq =
     (case first_err [create_field_errors s rq,
          check_timezone_aware ''start_time'' (rq_raw_start rq),
          check_timezone_aware ''end_time'' (rq_raw_end rq)] of
        Some e \<Rightarrow> Inl e
      | None \<Rightarrow> (case resolve_resource s rq of
          Inl e \<Rightarrow> Inl e
        | Inr r \<Rightarrow> guarded (first_err
            [require (\<not> rq_start rq \<ge> rq_end rq)
               (raise_validation_error ''non_field_errors'' ''booking.start_time_before_end_time''),
             require (\<not> rq_start rq \<le> now)
               (raise_validation_error ''start_time'' ''booking.start_time_must_be_future''),
             validate_type_specific_rules cfg now r (rq_start rq) (rq_end rq)]) r))"

text \<open>The checks \<open>create\<close> makes with the resource row locked; the result is what to displace.\<close>

definition create_checks ::
  "settings \<Rightarrow> datetime \<Rightarrow> bk_state \<Rightarrow> user \<Rightarrow> resource \<Rightarrow> datetime \<Rightarrow> datetime \<Rightarrow> api_error + booking list" where
  "create_checks cfg now s u r st en =
     (case validate_access (bk_acc s) r u of
        Some e \<Rightarrow> Inl e
      | None \<Rightarrow> (case ensure_no_conflicts cfg now s r st en None (Some u) of
          Inl e \<Rightarrow> Inl e
        | Inr ds \<Rightarrow> guarded (first_err
            [ensure_no_user_desk_overlap s u r st en None,
             validate_availability_window cfg r st en,
             validate_resource_duration_limits r st en,
             validate_user_active_limit cfg now s u]) ds))"

definition new_booking ::
  "bk_state \<Rightarrow> user \<Rightarrow> resource \<Rightarrow> create_request \<Rightarrow> nat \<Rightarrow> booking" where
  "new_booking s u r rq i = \<lparr>b_id = i, b_resource = r_id r, b_user = u_id u,
     b_company = (if u_role u \<noteq> Guest
       then (case u_company u of Some c \<Rightarrow> Some c | None \<Rightarrow> r_assigned_company r) else None),
     b_recurring = None, b_start = rq_start rq, b_end = rq_end rq, b_status = Confirmed,
     b_priority = booking_priority (bk_acc s) u, b_description = rq_description rq,
     b_cancelled_by = None, b_cancel_reason = Str [], b_reminder_sent = False,
     b_checked_in_at = None, b_qr_code = None, b_qr_image = False\<rparr>"

definition displaced_reason :: msg where
  "displaced_reason = Str ''displaced_by_priority_booking''"

definition displace_booking :: "datetime \<Rightarrow> user \<Rightarrow> booking \<Rightarrow> bk_state \<Rightarrow> bk_state" where
  "displace_booking now u b s =
     notify_nt now (b_user b) Booking_cancelled (Fmt ''booking_cancelled'' [])
       (Fmt ''booking_displaced'' [Str (resource_name s b)]) (Some (booking_link (b_id b)))
       (upd_booking (b_id b) (cancel_row u displaced_reason) s)"

definition add_participant_row :: "nat \<Rightarrow> nat \<Rightarrow> bk_state \<Rightarrow> bk_state" where
  "add_participant_row k uid s = s\<lparr>bk_participants := tbl_insert
     (\<lambda>i. \<lparr>bp_id = i, bp_booking = k, bp_user = uid\<rparr>) (bk_participants s)\<rparr>"

definition invite_participant ::
  "datetime \<Rightarrow> user \<Rightarrow> resource \<Rightarrow> datetime \<Rightarrow> nat \<Rightarrow> nat \<Rightarrow> bk_state \<Rightarrow> bk_state" where
  "invite_participant now u r st k uid s = (case tbl_get u_id uid (ac_users (bk_acc s)) of
     None \<Rightarrow> s
   | Some p \<Rightarrow> mail_nt uid Booking_confirmed (Fmt ''added_to_meeting'' [Str (r_name r)])
       (notify_nt now uid Booking_confirmed (Fmt ''added_to_meeting'' [Str (r_name r)])
         (Fmt ''invited_to'' [Str (full_name u), Str (r_name r), At st])
         (Some (booking_link k)) s))"

text \<open>
  The writes of \<open>create\<close>. A participant listed twice breaks the unique constraint on
  \<open>(booking, user)\<close>: the database raises, which the API reports as a server error.
\<close>

definition perform_create ::
  "datetime \<Rightarrow> (nat \<Rightarrow> nat) \<Rightarrow> user \<Rightarrow> resource \<Rightarrow> create_request \<Rightarrow> booking list \<Rightarrow> bk_state \<Rightarrow> bk_state" where
  "perform_create now uuid u r rq ds s =
     (let k = next_id (bk_bookings s);
          s1 = s\<lparr>bk_bookings := tbl_insert
                 (\<lambda>i. ensure_capsule_booking_qr (r_type r) (uuid i) (new_booking s u r rq i)) (bk_bookings s)\<rparr>;
          s2 = fold (displace_booking now u) ds s1;
          s3 = notify_nt now (u_id u) Booking_confirmed (Fmt ''booking_confirmed'' [Str (r_name r)])
                 (Fmt ''interval'' [At (rq_start rq), At (rq_end rq)]) (Some (booking_link k)) s2;
          s4 = (if r_type r = Meeting_room \<and> rq_participant_ids rq \<noteq> []
                then fold (invite_participant now u r (rq_start rq) k) (rq_participant_ids rq)
                       (fold (add_participant_row k) (rq_participant_ids rq) s3)
                else s3)
      in mail_nt (u_id u) Booking_confirmed (Fmt ''your_booking_confirmed'' []) s4)"

definition create_booking ::
  "settings \<Rightarrow> datetime \<Rightarrow> (nat \<Rightarrow> nat) \<Rightarrow> user \<Rightarrow> create_request \<Rightarrow> bk_state \<Rightarrow> api_error + bk_state" where
  "create_booking cfg now uuid u rq s =
     (case IsGuestOrCompanyMember (Some u) of
        Some e \<Rightarrow> Inl e
      | None \<Rightarrow> (case create_validate cfg now s rq of
          Inl e \<Rightarrow> Inl e
        | Inr r \<Rightarrow> (case create_checks cfg now s u r (rq_start rq) (rq_end rq) of
            Inl e \<Rightarrow> Inl e
          | Inr ds \<Rightarrow> guarded
              (require (\<not> (r_type r = Meeting_room \<and> \<not> distinct (rq_participant_ids rq))) ServerError)
              (perform_create now uuid u r rq ds s))))"

section \<open>Changes\<close>

record patch_request =
  pq_start :: "datetime option"
  pq_end :: "datetime option"
  pq_raw_start :: string
  pq_raw_end :: string
  pq_resource :: "nat option"
  pq_status :: "booking_status option"
  pq_description :: "string option"
  pq_cancelled_by :: "nat option option"

text \<open>The columns \<open>BookingSerializer\<close> leaves writable.\<close>

definition apply_patch :: "patch_request \<Rightarrow> booking \<Rightarrow> booking" where
  "apply_patch pq b = b\<lparr>
     b_resource := (case pq_resource pq of None \<Rightarrow> b_resource b | Some r \<Rightarrow> r),
     b_start := (case pq_start pq of None \<Rightarrow> b_start b | Some t \<Rightarrow> t),
     b_end := (case pq_end pq of None \<Rightarrow> b_end b | Some t \<Rightarrow> t),
     b_status := (case pq_status pq of None \<Rightarrow> b_status b | Some st \<Rightarrow> st),
     b_description := (case pq_description pq of None \<Rightarrow> b_description b | Some d \<Rightarrow> d),
     b_cancelled_by := (case pq_cancelled_by pq of None \<Rightarrow> b_cancelled_by b | Some c \<Rightarrow> c)\<rparr>"

definition patch_field_errors :: "bk_state \<Rightarrow> patch_request \<Rightarrow> api_error option" where
  "patch_field_errors s pq = first_err
     [(case pq_resource pq of None \<Rightarrow> None
       | Some k \<Rightarrow> require (tbl_get r_id k (bk_resources s) \<noteq> None)
           (raise_validation_error ''resource'' ''does_not_exist'')),
      (case pq_cancelled_by pq of
         Some (Some k) \<Rightarrow> require (tbl_get u_id k (ac_users (bk_acc s)) \<noteq> None)
           (raise_validation_error ''cancelled_by'' ''does_not_exist'')
       | _ \<Rightarrow> None)]"

definition patch_times_checks ::
  "settings \<Rightarrow> datetime \<Rightarrow> bk_state \<Rightarrow> user \<Rightarrow> booking \<Rightarrow> patch_request \<Rightarrow> datetime \<Rightarrow> datetime
     \<Rightarrow> api_error option" where
  "patch_times_checks cfg now s u b pq st en =
     (case first_err
        [patch_field_errors s pq,
         require (\<not> st \<ge> en) (raise_validation_error ''detail'' ''booking.start_time_before_end_time''),
         check_timezone_aware ''start_time'' (pq_raw_start pq),
         check_timezone_aware ''end_time'' (pq_raw_end pq)] of
        Some e \<Rightarrow> Some e
      | None \<Rightarrow> (case tbl_get r_id (b_resource b) (bk_resources s) of
          None \<Rightarrow> Some ServerError
        | Some r \<Rightarrow> first_err
            [validate_availability_window cfg r st en,
             validate_type_specific_rules cfg now r st en,
             (case ensure_no_conflicts cfg now s r st en (Some (b_id b)) None of
                Inl e \<Rightarrow> Some e | Inr _ \<Rightarrow> None),
             ensure_no_user_desk_overlap s u r st en (Some (b_id b))]))"

definition partial_update ::
  "settings \<Rightarrow> datetime \<Rightarrow> user \<Rightarrow> nat \<Rightarrow> patch_request \<Rightarrow> bk_state \<Rightarrow> api_error + bk_state" where
  "partial_update cfg now u k pq s =
     (case IsGuestOrCompanyMember (Some u) of
        Some e \<Rightarrow> Inl e
      | None \<Rightarrow>
        (if pq_start pq = None \<and> pq_end pq = None then
           (case get_object s u k of
              Inl e \<Rightarrow> Inl e
            | Inr b \<Rightarrow> guarded (patch_field_errors s pq) (upd_booking k (apply_patch pq) s))
         else (case (pq_start pq, pq_end pq) of
             (Some st, Some en) \<Rightarrow>
               (case get_object s u k of
                  Inl e \<Rightarrow> Inl e
                | Inr b \<Rightarrow> guarded (patch_times_checks cfg now s u b pq st en)
                    (create_change_audit now u k Time_updated (Times st en)
                      (upd_booking k (apply_patch pq) s)))
           | _ \<Rightarrow> Inl (raise_validation_error ''detail'' ''booking.both_times_required''))))"

text \<open>\<open>DELETE\<close>: the row goes, rows that refer to it go with it or lose the reference.\<close>

definition delete_bookings :: "(booking \<Rightarrow> bool) \<Rightarrow> bk_state \<Rightarrow> bk_state" where
  "delete_bookings P s =
     (let gone = map b_id (tbl_filter P (bk_bookings s))
      in s\<lparr>bk_bookings := tbl_delete P (bk_bookings s),
           bk_participants := tbl_delete (\<lambda>p. bp_booking p \<in> set gone) (bk_participants s),
           bk_cancel_audits := tbl_delete (\<lambda>a. ca_booking a \<in> set gone) (bk_cancel_audits s),
           bk_change_audits := tbl_delete (\<lambda>a. ch_booking a \<in> set gone) (bk_change_audits s),
           bk_logs := tbl_update (\<lambda>l. \<exists>k \<in> set gone. lg_booking l = Some k)
             (\<lambda>l. l\<lparr>lg_booking := None\<rparr>) (bk_logs s)\<rparr>)"

definition destroy_booking :: "user \<Rightarrow> nat \<Rightarrow> bk_state \<Rightarrow> api_error + bk_state" where
  "destroy_booking u k s =
     (case IsGuestOrCompanyMember (Some u) of
        Some e \<Rightarrow> Inl e
      | None \<Rightarrow> (case get_object s u k of
          Inl e \<Rightarrow> Inl e
        | Inr b \<Rightarrow> Inr (delete_bookings (\<lambda>b. b_id b = k) s)))"

section \<open>Cancellation\<close>

definition cancel_booking ::
  "datetime \<Rightarrow> user \<Rightarrow> nat \<Rightarrow> string \<Rightarrow> bk_state \<Rightarrow> api_error + bk_state" where
  "cancel_booking now u k reason s =
     (case get_object s u k of
        Inl e \<Rightarrow> Inl e
      | Inr b \<Rightarrow> (case resource_of s b of
          None \<Rightarrow> Inl ServerError
        | Some r \<Rightarrow> guarded (first_err
            [require (IsOwnerOrAdmin (Some (b_user b)) (Some (b_company b)) u) denied,
             require (b_status b \<noteq> Cancelled)
               (raise_validation_error ''detail'' ''booking.already_cancelled''),
             require (\<not> b_start b \<le> now) (raise_validation_error ''detail'' ''booking.already_started''),
             require (\<not> b_start b - now < minutes (r_min_cancel_minutes r))
               (raise_validation_error ''detail'' ''booking.cancel_window_passed'')])
            (notify_nt now (b_user b) Booking_cancelled (Fmt ''booking_cancelled'' [Str (r_name r)])
               (if strip reason = [] then Fmt ''booking_cancelled.'' [] else Str (strip reason))
               (Some (booking_link k))
               (audit_cancel now u (Str reason) k
                 (upd_booking k (cancel_row u (Str reason)) s)))))"

definition admin_cancel ::
  "datetime \<Rightarrow> user \<Rightarrow> nat \<Rightarrow> string \<Rightarrow> bk_state \<Rightarrow> api_error + bk_state" where
  "admin_cancel now u k raw_reason s =
     (case IsCompanyAdmin (Some u) of
        Some e \<Rightarrow> Inl e
      | None \<Rightarrow> (case get_object s u k of
          Inl e \<Rightarrow> Inl e
        | Inr b \<Rightarrow>
            (let reason = strip raw_reason
             in guarded (require (reason \<noteq> []) (raise_validation_error ''reason'' ''booking.reason_required''))
                  (notify_nt now (b_user b) Booking_cancelled
                     (Fmt ''booking_cancelled_by_admin'' [Str (resource_name s b)]) (Str reason)
                     (Some (booking_link k))
                     (audit_cancel now u (Str reason) k
                       (upd_booking k (cancel_row u (Str reason)) s))))))"

text \<open>One turn of the bulk loop; the result collects the cancelled and the skipped ids.\<close>

definition bulk_cancel_one ::
  "datetime \<Rightarrow> user \<Rightarrow> nat list \<Rightarrow> string \<Rightarrow> nat \<Rightarrow> bk_state \<times> nat list \<times> nat list
     \<Rightarrow> bk_state \<times> nat list \<times> nat list" where
  "bulk_cancel_one now u accessible reason bid acc = (case acc of (s, cancelled_ids, skipped_ids) \<Rightarrow>
     (case (if bid \<in> set accessible then tbl_get b_id bid (bk_bookings s) else None) of
        None \<Rightarrow> (s, cancelled_ids, skipped_ids @ [bid])
      | Some b \<Rightarrow>
          (if b_status b = Cancelled then (s, cancelled_ids, skipped_ids @ [bid])
           else if b_start b \<le> now then (s, cancelled_ids, skipped_ids @ [bid])
           else if u_role u \<notin> {Superadmin, Company_admin} \<and> b_user b \<noteq> u_id u
             then (s, cancelled_ids, skipped_ids @ [bid])
           else
             (notify_nt now (b_user b) Booking_cancelled
                (Fmt ''booking_cancelled'' [Str (resource_name s b)])
                (if reason = [] then Fmt ''booking.bulk_cancelled'' [] else Str reason)
                (Some (booking_link bid))
                (audit_cancel now u (Str reason) bid
                  (upd_booking bid (cancel_row u (Str reason)) s)),
              cancelled_ids @ [bid], skipped_ids))))"

definition bulk_cancel ::
  "datetime \<Rightarrow> user \<Rightarrow> nat list \<Rightarrow> string \<Rightarrow> bk_state \<Rightarrow> api_error + (bk_state \<times> nat list \<times> nat list)" where
  "bulk_cancel now u booking_ids reason s =
     guarded (first_err
        [IsGuestOrCompanyMember (Some u),
         require (booking_ids \<noteq> [] \<and> length booking_ids \<le> 50 \<and> (\<forall>k \<in> set booking_ids. 1 \<le> k))
           (raise_validation_error ''booking_ids'' ''invalid'')])
       (let accessible = map b_id (filter (\<lambda>b. b_id b \<in> set booking_ids) (booking_queryset s u))
        in fold (bulk_cancel_one now u accessible reason) booking_ids (s, [], []))"

section \<open>Participants\<close>

definition ensure_participants_manage_permission :: "user \<Rightarrow> api_error option" where
  "ensure_participants_manage_permission u =
     require (is_superadmin u \<or> is_company_admin u) (PermissionDenied ''booking.participants_admin_only'')"

definition add_participants_step ::
  "datetime \<Rightarrow> nat \<Rightarrow> string \<Rightarrow> user \<Rightarrow> bk_state \<times> nat list \<Rightarrow> bk_state \<times> nat list" where
  "add_participants_step now k rname p acc = (case acc of (s, added_ids) \<Rightarrow>
     (if participates s (u_id p) k then (s, added_ids)
      else (notify_nt now (u_id p) Booking_confirmed (Fmt ''added_to_meeting'' [Str rname])
              (Fmt ''check_participants'' []) (Some (booking_link k)) (add_participant_row k (u_id p) s),
            added_ids @ [u_id p])))"

definition perform_add_participants ::
  "datetime \<Rightarrow> user \<Rightarrow> nat \<Rightarrow> string \<Rightarrow> user list \<Rightarrow> bk_state \<Rightarrow> bk_state" where
  "perform_add_participants now u k rname users s =
     (case fold (add_participants_step now k rname) users (s, []) of (s', added_ids) \<Rightarrow>
        fold (\<lambda>p t. if u_id p \<in> set added_ids
            then mail_nt (u_id p) Booking_confirmed (Fmt ''added_to_meeting'' [Str rname]) t else t)
          users
          (create_change_audit now u k Participants_added (User_ids added_ids) s'))"

definition add_participants ::
  "datetime \<Rightarrow> user \<Rightarrow> nat \<Rightarrow> nat list \<Rightarrow> bk_state \<Rightarrow> api_error + bk_state" where
  "add_participants now u k user_ids s =
     (case first_err [IsGuestOrCompanyMember (Some u), ensure_participants_manage_permission u] of
        Some e \<Rightarrow> Inl e
      | None \<Rightarrow> (case get_object s u k of
          Inl e \<Rightarrow> Inl e
        | Inr b \<Rightarrow>
            (let users = tbl_filter (\<lambda>p. u_id p \<in> set user_ids \<and> u_company p = b_company b)
                   (ac_users (bk_acc s));
                 rname = resource_name s b
             in guarded (first_err
                  [require (has_type s Meeting_room b)
                     (raise_validation_error ''detail'' ''booking.participants_meeting_room_only''),
                   require (user_ids \<noteq> []) (raise_validation_error ''user_ids'' ''booking.user_ids_empty''),
                   require (set user_ids \<subseteq> set (map u_id users))
                     (raise_validation_error ''user_ids'' ''booking.users_not_in_company'')])
                (perform_add_participants now u k rname users s))))"

definition remove_participant ::
  "datetime \<Rightarrow> user \<Rightarrow> nat \<Rightarrow> nat option \<Rightarrow> bk_state \<Rightarrow> api_error + bk_state" where
  "remove_participant now u k user_id s =
     (case first_err [IsGuestOrCompanyMember (Some u), ensure_participants_manage_permission u] of
        Some e \<Rightarrow> Inl e
      | None \<Rightarrow> (case get_object s u k of
          Inl e \<Rightarrow> Inl e
        | Inr b \<Rightarrow>
          (if \<not> has_type s Meeting_room b
             then Inl (raise_validation_error ''detail'' ''booking.participants_meeting_room_only'')
           else (case user_id of
               None \<Rightarrow> Inl (raise_validation_error ''user_id'' ''booking.user_id_must_be_integer'')
             | Some uid \<Rightarrow> guarded
                 (require (participates s uid k)
                   (raise_validation_error ''detail'' ''booking.participant_not_found''))
                 (create_change_audit now u k Participant_removed (User_id uid)
                   (s\<lparr>bk_participants := tbl_delete
                      (\<lambda>p. bp_booking p = k \<and> bp_user p = uid) (bk_participants s)\<rparr>))))))"

section \<open>Check-in\<close>

definition check_in :: "datetime \<Rightarrow> user \<Rightarrow> nat \<Rightarrow> bk_state \<Rightarrow> api_error + bk_state" where
  "check_in now u k s = (case get_object s u k of
     Inl e \<Rightarrow> Inl e
   | Inr b \<Rightarrow> guarded (first_err
       [require (IsOwnerOrSuperAdmin (Some (b_user b)) u) denied,
        require (\<not> now < b_start b) (raise_validation_error ''detail'' ''booking.checkin_before_start''),
        require (b_status b = Confirmed) (raise_validation_error ''detail'' ''booking.checkin_not_confirmed''),
        require (b_checked_in_at b = None) (raise_validation_error ''detail'' ''booking.already_checked_in'')])
       (upd_booking k (\<lambda>b. b\<lparr>b_checked_in_at := Some now\<rparr>) s))"

datatype qr_answer = Qr_valid | Qr_not_found | Qr_cancelled | Qr_completed | Qr_no_show
  | Qr_not_yet_active datetime | Qr_expired

definition validate_qr ::
  "datetime \<Rightarrow> user \<Rightarrow> nat \<Rightarrow> bk_state \<Rightarrow> api_error + (qr_answer \<times> bk_state)" where
  "validate_qr now u qr s = guarded (IsSuperAdminOrReception (Some u))
     (case find (\<lambda>b. b_qr_code b = Some qr) (rows (bk_bookings s)) of
        None \<Rightarrow> (Qr_not_found, s)
      | Some b \<Rightarrow>
        (if \<not> has_type s Capsule b then (Qr_not_found, s)
         else if b_status b = Cancelled then (Qr_cancelled, s)
         else if b_status b = Completed then (Qr_completed, s)
         else if b_status b = No_show then (Qr_no_show, s)
         else if b_status b \<noteq> Confirmed then (Qr_not_found, s)
         else if now < b_start b then (Qr_not_yet_active (b_start b), s)
         else if now > b_end b then (Qr_expired, s)
         else (Qr_valid,
           (if b_checked_in_at b = None
            then upd_booking (b_id b) (\<lambda>b. b\<lparr>b_checked_in_at := Some now\<rparr>) s else s)
           \<lparr>bk_logs := tbl_insert (\<lambda>i. \<lparr>lg_id = i, lg_booking = Some (b_id b), lg_user = Some (b_user b),
              lg_checked_by = Some (u_id u)\<rparr>) (bk_logs s)\<rparr>)))"

section \<open>My bookings\<close>

datatype my_status = Upcoming | Past | My_cancelled

text \<open>The filters of \<open>my_bookings\<close>; the dates are parsed by the framework.\<close>

definition my_bookings ::
  "datetime \<Rightarrow> user \<Rightarrow> my_status option \<Rightarrow> resource_type option \<Rightarrow> datetime option \<Rightarrow> datetime option
     \<Rightarrow> bk_state \<Rightarrow> booking list" where
  "my_bookings now u status rtype date_from date_to s =
     (let qs = tbl_filter (\<lambda>b. (b_user b = u_id u \<or> participates s (u_id u) (b_id b))
           \<and> (case status of None \<Rightarrow> True
              | Some Upcoming \<Rightarrow> b_status b = Confirmed \<and> b_start b > now
              | Some Past \<Rightarrow> b_status b \<noteq> Cancelled \<and> b_start b < now
              | Some My_cancelled \<Rightarrow> b_status b = Cancelled)
           \<and> (case rtype of None \<Rightarrow> True | Some rt \<Rightarrow> has_type s rt b)
           \<and> (case date_from of None \<Rightarrow> True | Some t \<Rightarrow> b_start b \<ge> t)
           \<and> (case date_to of None \<Rightarrow> True | Some t \<Rightarrow> b_start b \<le> t)) (bk_bookings s)
      in if status = Some Upcoming then sort_key b_start qs else sort_key (\<lambda>b. - b_start b) qs)"

section \<open>Periodic tasks\<close>

text \<open>
  \<open>send_booking_reminders\<close>: \<open>mail_ok\<close> says whether sending the mail of a booking raised no
  error (the loop catches it).
\<close>

definition reminder_due :: "settings \<Rightarrow> datetime \<Rightarrow> booking \<Rightarrow> bool" where
  "reminder_due cfg now b \<longleftrightarrow> b_status b = Confirmed \<and> \<not> b_reminder_sent b
     \<and> b_start b \<ge> now + minutes (REMINDER_MINUTES_BEFORE cfg - 5)
     \<and> b_start b \<le> now + minutes (REMINDER_MINUTES_BEFORE cfg) + seconds 150"

definition remind_one :: "settings \<Rightarrow> datetime \<Rightarrow> (nat \<Rightarrow> bool) \<Rightarrow> booking \<Rightarrow> bk_state \<Rightarrow> bk_state" where
  "remind_one cfg now mail_ok b s =
     (let s1 = notify_nt now (b_user b) Booking_reminder (Fmt ''reminder'' [Str (resource_name s b)])
                 (Fmt ''starts_in'' [Num (REMINDER_MINUTES_BEFORE cfg), At (b_start b)]) None s;
          p = effective_pref (b_user b) (bk_nt s1);
          email_enabled = getattr p ''booking_reminder_email'' True \<and> \<not> is_dnd_active now p;
          has_email = (case tbl_get u_id (b_user b) (ac_users (bk_acc s)) of
                         None \<Rightarrow> False | Some u \<Rightarrow> u_email u \<noteq> []);
          s2 = (if email_enabled \<and> has_email \<and> mail_ok (b_id b)
                then s1\<lparr>bk_nt := (bk_nt s1)\<lparr>nt_outbox := nt_outbox (bk_nt s1) @
                  [(b_user b, Booking_reminder, Fmt ''booking_reminder'' [Str (resource_name s b)])]\<rparr>\<rparr>
                else s1)
      in upd_booking (b_id b) (\<lambda>b. b\<lparr>b_reminder_sent := True\<rparr>) s2)"

definition send_booking_reminders ::
  "settings \<Rightarrow> datetime \<Rightarrow> (nat \<Rightarrow> bool) \<Rightarrow> bk_state \<Rightarrow> bk_state" where
  "send_booking_reminders cfg now mail_ok s =
     fold (remind_one cfg now mail_ok) (tbl_filter (reminder_due cfg now) (bk_bookings s)) s"

definition complete_one :: "datetime \<Rightarrow> booking \<Rightarrow> bk_state \<Rightarrow> bk_state" where
  "complete_one now b s =
     (let s1 = notify_nt now (b_user b) Booking_completed
                 (Fmt ''booking_completed'' [Str (resource_name s b)])
                 (Fmt ''ended'' [Str (resource_name s b), At (b_end b)]) (Some (booking_link (b_id b)))
                 (upd_booking (b_id b) (\<lambda>b. b\<lparr>b_status := Completed\<rparr>) s)
      in case tbl_get u_id (b_user b) (ac_users (bk_acc s)) of
           None \<Rightarrow> s1
         | Some u \<Rightarrow> (if u_email u \<noteq> []
             then mail_nt (b_user b) Booking_completed (Fmt ''default_subject'' []) s1 else s1))"

definition auto_complete_bookings :: "datetime \<Rightarrow> bk_state \<Rightarrow> bk_state" where
  "auto_complete_bookings now s =
     fold (complete_one now)
       (tbl_filter (\<lambda>b. b_status b = Confirmed \<and> b_end b < now) (bk_bookings s)) s"

text \<open>The one-off reminder to the owner and the participants (a set of users).\<close>

definition send_booking_reminder :: "datetime \<Rightarrow> nat \<Rightarrow> bk_state \<Rightarrow> bk_state" where
  "send_booking_reminder now k s = (case tbl_get b_id k (bk_bookings s) of
     None \<Rightarrow> s
   | Some b \<Rightarrow>
     (if b_status b \<noteq> Confirmed then s
      else fold (\<lambda>uid. notify_nt now uid Booking_reminder (Fmt ''reminder'' [Str (resource_name s b)])
               (Fmt ''starts_at'' [At (b_start b)]) (Some (booking_link k)))
             (remdups (b_user b # map bp_user (tbl_filter (\<lambda>p. bp_booking p = k) (bk_participants s)))) s))"

definition no_show_due :: "settings \<Rightarrow> datetime \<Rightarrow> bk_state \<Rightarrow> booking \<Rightarrow> bool" where
  "no_show_due cfg now s b \<longleftrightarrow> has_type s Meeting_room b \<and> b_status b = Confirmed
     \<and> b_start b \<le> now - minutes (NO_SHOW_MINUTES cfg) \<and> b_end b > now \<and> b_checked_in_at b = None"

definition mark_no_show_bookings :: "settings \<Rightarrow> datetime \<Rightarrow> bk_state \<Rightarrow> bk_state" where
  "mark_no_show_bookings cfg now s =
     upd_bookings (no_show_due cfg now s) (\<lambda>b. b\<lparr>b_status := No_show\<rparr>) s"

lemmas booking_handler_defs = create_booking_def partial_update_def destroy_booking_def
  cancel_booking_def admin_cancel_def bulk_cancel_def add_participants_def remove_participant_def
  check_in_def validate_qr_def send_booking_reminders_def auto_complete_bookings_def
  send_booking_reminder_def mark_no_show_bookings_def

end
