(* ===== verification/Resources.thy ===== *)
theory Resources
  imports Bookings
begin

text \<open>
  The resource endpoints of \<open>ResourceViewSet\<close> (\<open>bookings/views.py\<close>) and the resource
  serializers: the catalogue a user sees, creation and update with their validation, and the
  administrative operations that cancel bookings - deactivation and blocks.
\<close>

section \<open>Visibility\<close>

definition resource_visible :: "accounts \<Rightarrow> user \<Rightarrow> resource \<Rightarrow> bool" where
  "resource_visible acc u r \<longleftrightarrow>
     (if u_role u = Superadmin then True
      else r_is_active r \<and>
        (case company_of acc u of
           Some c \<Rightarrow> (if co_plan c \<in> set PLANS_WITH_ASSIGNED_RESOURCES
             then r_assigned_company r = None \<or> r_assigned_company r = Some (co_id c)
             else r_assigned_company r = None)
         | None \<Rightarrow> r_assigned_company r = None))"

definition get_resource :: "bk_state \<Rightarrow> user \<Rightarrow> nat \<Rightarrow> api_error + resource" where
  "get_resource s u k =
     (case find (\<lambda>r. r_id r = k) (tbl_filter (resource_visible (bk_acc s) u) (bk_resources s)) of
        None \<Rightarrow> Inl NotFound | Some r \<Rightarrow> Inr r)"

section \<open>Catalogue status\<close>

text \<open>\<open>ResourceListSerializer\<close> on the bookings and blocks active at the time of the listing.\<close>

datatype catalogue_status = Blocked | Busy | Free | Soon

definition active_bookings :: "datetime \<Rightarrow> bk_state \<Rightarrow> resource \<Rightarrow> booking list" where
  "active_bookings now s r = sort_key b_end (tbl_filter (\<lambda>b. b_resource b = r_id r
     \<and> b_status b = Confirmed \<and> b_start b \<le> now \<and> b_end b > now) (bk_bookings s))"

definition active_blocks :: "datetime \<Rightarrow> bk_state \<Rightarrow> resource \<Rightarrow> resource_block list" where
  "active_blocks now s r = sort_key bl_end (tbl_filter (\<lambda>b. bl_resource b = r_id r
     \<and> bl_start b \<le> now \<and> bl_end b > now) (bk_blocks s))"

definition availability_window :: "datetime \<Rightarrow> bk_state \<Rightarrow> resource \<Rightarrow> datetime option" where
  "availability_window now s r =
     (let ends = map bl_end (active_blocks now s r) @ map b_end (active_bookings now s r)
      in if ends = [] then None else Some (Max (set ends)))"

definition active_block :: "datetime \<Rightarrow> bk_state \<Rightarrow> resource \<Rightarrow> resource_block option" where
  "active_block now s r = (case active_blocks now s r of [] \<Rightarrow> None | b # _ \<Rightarrow> Some b)"

definition get_status :: "settings \<Rightarrow> datetime \<Rightarrow> bk_state \<Rightarrow> resource \<Rightarrow> catalogue_status" where
  "get_status cfg now s r =
     (if active_block now s r \<noteq> None then Blocked
      else if \<not> r_is_active r then Busy
      else case availability_window now s r of
          None \<Rightarrow> Free
        | Some e \<Rightarrow> (if is_soon_available cfg e now then Soon else Busy))"

definition get_reason :: "datetime \<Rightarrow> bk_state \<Rightarrow> resource \<Rightarrow> string option" where
  "get_reason now s r = map_option bl_reason (active_block now s r)"

definition get_available_at :: "settings \<Rightarrow> datetime \<Rightarrow> bk_state \<Rightarrow> resource \<Rightarrow> datetime option" where
  "get_available_at cfg now s r =
     (if active_block now s r \<noteq> None then None
      else case availability_window now s r of
          None \<Rightarrow> None
        | Some e \<Rightarrow> (if \<not> r_is_active r \<or> \<not> is_soon_available cfg e now then None else Some e))"

section \<open>Creation and update\<close>

definition EQUIPMENT_KEYS :: "string list" where
  "EQUIPMENT_KEYS = [''projector'', ''tv'', ''whiteboard'', ''video_conf'', ''monitor'', ''dock'',
     ''power_outlet'']"

definition set_key :: "string \<Rightarrow> bool \<Rightarrow> (string \<times> bool) list \<Rightarrow> (string \<times> bool) list" where
  "set_key k v m = map (\<lambda>kv. if fst kv = k then (k, v) else kv) m"

definition apply_equipment_to_resource :: "(string \<times> json) list \<Rightarrow> resource \<Rightarrow> resource" where
  "apply_equipment_to_resource data r = fold (\<lambda>kv r. case kv of
       (k, JBool v) \<Rightarrow> (if k \<in> set EQUIPMENT_KEYS
          then r\<lparr>r_equipment := set_key k v (r_equipment r)\<rparr> else r)
     | _ \<Rightarrow> r) data r"

text \<open>
  What a request says about a resource: \<open>None\<close> is a field left out. \<open>rr_equipment\<close>,
  \<open>rr_parking_type\<close> (\<open>Some True\<close> for vip) and \<open>rr_assigned_company\<close> may be sent as null.
  \<open>rr_floor_id\<close> is the row \<open>floor_id\<close> names, with its number; photos are left out.
\<close>

record resource_request =
  rr_type :: "resource_type option"
  rr_name :: "string option"
  rr_capacity :: "int option"
  rr_equipment :: "json option"
  rr_parking_type :: "bool option option"
  rr_capsule_zone :: "string option"
  rr_assigned_company :: "nat option option"
  rr_available_from :: "daytime option"
  rr_available_until :: "daytime option"
  rr_available_days :: "int list option"
  rr_min_duration_minutes :: "int option"
  rr_max_duration_minutes :: "int option"
  rr_advance_booking_days :: "int option"
  rr_min_cancel_minutes :: "int option"
  rr_is_active :: "bool option"
  rr_floor :: "int option"
  rr_floor_id :: "(nat \<times> int) option option"
  rr_zone :: "string option"
  rr_description :: "string option"
  rr_is_hot_desk :: "bool option"
  rr_has_monitor :: "bool option"
  rr_has_dock :: "bool option"
  rr_has_power_outlet :: "bool option"

definition validate_resource ::
  "accounts \<Rightarrow> resource option \<Rightarrow> resource_request \<Rightarrow> api_error option" where
  "validate_resource acc inst rr =
     (let rtype = (case rr_type rr of Some t \<Rightarrow> Some t | None \<Rightarrow> map_option r_type inst);
          from = (case rr_available_from rr of Some t \<Rightarrow> Some t | None \<Rightarrow> map_option r_available_from inst);
          until = (case rr_available_until rr of Some t \<Rightarrow> Some t | None \<Rightarrow> map_option r_available_until inst)
      in first_err
        [(case rr_assigned_company rr of
            Some (Some c) \<Rightarrow> require (get_company acc c \<noteq> None)
              (raise_validation_error ''assigned_company'' ''does_not_exist'')
          | _ \<Rightarrow> None),
         require (\<not> (rtype = Some Meeting_room \<and> inst = None \<and> rr_capacity rr = None))
           (raise_validation_error ''capacity'' ''booking.capacity_required_for_meeting_room''),
         require (\<not> (rtype = Some Meeting_room \<and> (case rr_capacity rr of Some c \<Rightarrow> c < 1 | None \<Rightarrow> False)))
           (raise_validation_error ''capacity'' ''booking.capacity_min_one''),
         require (\<not> (rtype = Some Parking \<and> inst = None \<and> rr_parking_type rr = None))
           (raise_validation_error ''parking_type'' ''booking.parking_type_required''),
         require (\<not> (rtype = Some Capsule \<and> inst = None
             \<and> pick (rr_capsule_zone rr) [] \<notin> {''quiet'', ''regular''}))
           (raise_validation_error ''capsule_zone'' ''booking.capsule_zone_invalid''),
         (case rr_equipment rr of
            None \<Rightarrow> None | Some JNull \<Rightarrow> None
          | Some (JObj _) \<Rightarrow> require (rtype = Some Meeting_room)
              (raise_validation_error ''equipment'' ''booking.equipment_meeting_room_only'')
          | Some _ \<Rightarrow> Some (raise_validation_error ''equipment'' ''booking.equipment_must_be_json'')),
         (case (from, until) of
            (Some a, Some b) \<Rightarrow> require (\<not> a \<ge> b)
              (raise_validation_error ''availability_start'' ''booking.availability_start_after_end'')
          | _ \<Rightarrow> None),
         (case rr_assigned_company rr of
            Some (Some c) \<Rightarrow> (case get_company acc c of
                None \<Rightarrow> None
              | Some co \<Rightarrow> require (co_plan co \<in> set PLANS_WITH_ASSIGNED_RESOURCES)
                  (raise_validation_error ''assigned_company'' ''booking.assigned_company_requires_premium''))
          | _ \<Rightarrow> None)])"

definition set_opt :: "string \<Rightarrow> bool option \<Rightarrow> (string \<times> bool) list \<Rightarrow> (string \<times> bool) list" where
  "set_opt k v m = (case v of None \<Rightarrow> m | Some b \<Rightarrow> set_key k b m)"

definition apply_resource_request :: "resource_request \<Rightarrow> resource \<Rightarrow> resource" where
  "apply_resource_request rr r = r\<lparr>
     r_type := pick (rr_type rr) (r_type r), r_name := pick (rr_name rr) (r_name r),
     r_capacity := pick (rr_capacity rr) (r_capacity r),
     r_is_vip := (case rr_parking_type rr of Some (Some v) \<Rightarrow> v | _ \<Rightarrow> r_is_vip r),
     r_capsule_zone := pick (rr_capsule_zone rr) (r_capsule_zone r),
     r_assigned_company := pick (rr_assigned_company rr) (r_assigned_company r),
     r_available_from := pick (rr_available_from rr) (r_available_from r),
     r_available_until := pick (rr_available_until rr) (r_available_until r),
     r_available_days := pick (rr_available_days rr) (r_available_days r),
     r_min_duration_minutes := pick (rr_min_duration_minutes rr) (r_min_duration_minutes r),
     r_max_duration_minutes := pick (rr_max_duration_minutes rr) (r_max_duration_minutes r),
     r_advance_booking_days := pick (rr_advance_booking_days rr) (r_advance_booking_days r),
     r_min_cancel_minutes := pick (rr_min_cancel_minutes rr) (r_min_cancel_minutes r),
     r_is_active := pick (rr_is_active rr) (r_is_active r),
     r_floor := (case rr_floor_id rr of Some (Some (_, n)) \<Rightarrow> n | _ \<Rightarrow> pick (rr_floor rr) (r_floor r)),
     r_floor_fk := pick (map_option (map_option fst) (rr_floor_id rr)) (r_floor_fk r),
     r_zone := pick (rr_zone rr) (r_zone r),
     r_description := pick (rr_description rr) (r_description r),
     r_is_hot_desk := pick (rr_is_hot_desk rr) (r_is_hot_desk r),
     r_equipment := set_opt ''monitor'' (rr_has_monitor rr) (set_opt ''dock'' (rr_has_dock rr)
       (set_opt ''power_outlet'' (rr_has_power_outlet rr) (r_equipment r)))\<rparr>"

definition sync_equipment :: "resource_request \<Rightarrow> resource \<Rightarrow> resource" where
  "sync_equipment rr r = (case rr_equipment rr of
     Some (JObj data) \<Rightarrow> (if r_type r = Meeting_room then apply_equipment_to_resource data r else r)
   | _ \<Rightarrow> r)"

text \<open>A resource with every field at its model default.\<close>

definition default_resource :: "nat \<Rightarrow> resource" where
  "default_resource i = \<lparr>r_id = i, r_name = [], r_type = Desk, r_floor = 1, r_floor_fk = None, r_zone = [],
     r_description = [], r_capacity = 1,
     r_equipment = [(''projector'', False), (''tv'', False), (''whiteboard'', False),
       (''video_conf'', False), (''monitor'', False), (''dock'', False), (''power_outlet'', True)],
     r_min_duration_minutes = 30, r_max_duration_minutes = 480, r_advance_booking_days = 14,
     r_min_cancel_minutes = 30, r_available_days = [], r_available_from = hours 8,
     r_available_until = hours 22, r_is_hot_desk = True, r_assigned_company = None, r_is_vip = False,
     r_capsule_zone = [], r_is_active = True\<rparr>"

definition new_resource :: "resource_request \<Rightarrow> nat \<Rightarrow> resource" where
  "new_resource rr i = sync_equipment rr (apply_resource_request rr (default_resource i))"

definition insert_resource :: "resource_request \<Rightarrow> bk_state \<Rightarrow> bk_state" where
  "insert_resource rr s = s\<lparr>bk_resources := tbl_insert (new_resource rr) (bk_resources s)\<rparr>"

definition create_resource :: "user \<Rightarrow> resource_request \<Rightarrow> bk_state \<Rightarrow> api_error + bk_state" where
  "create_resource u rr s = guarded (first_err
     [IsSuperAdmin (Some u),
      require (rr_type rr \<noteq> None) (raise_validation_error ''type'' ''required''),
      require (rr_name rr \<noteq> None) (raise_validation_error ''name'' ''required''),
      validate_resource (bk_acc s) None rr]) (insert_resource rr s)"

text \<open>\<open>bulk_create\<close>: \<open>count\<close> copies of a template, numbered from 1.\<close>

definition numbered_name :: "string \<Rightarrow> nat \<Rightarrow> (nat \<Rightarrow> string) \<Rightarrow> string" where
  "numbered_name prefix idx show_nat = prefix @ '' '' @ show_nat idx"

definition bulk_create_resources ::
  "(nat \<Rightarrow> string) \<Rightarrow> user \<Rightarrow> resource_request \<Rightarrow> nat \<Rightarrow> string \<Rightarrow> bk_state \<Rightarrow> api_error + bk_state" where
  "bulk_create_resources show_nat u rr count name_prefix s = guarded (first_err
     [IsSuperAdmin (Some u),
      require (1 \<le> count) (raise_validation_error ''count'' ''min_value''),
      require (rr_type rr \<noteq> None) (raise_validation_error ''type'' ''required''),
      validate_resource (bk_acc s) None rr])
     (fold (\<lambda>idx. insert_resource (rr\<lparr>rr_name := Some (numbered_name name_prefix idx show_nat)\<rparr>))
        [1..<count + 1] s)"

section \<open>Operations that cancel bookings\<close>

definition deactivated_reason :: msg where
  "deactivated_reason = Fmt ''resource_deactivated'' []"

definition cancel_future_one :: "datetime \<Rightarrow> user \<Rightarrow> resource \<Rightarrow> booking \<Rightarrow> bk_state \<Rightarrow> bk_state" where
  "cancel_future_one now u r b s =
     notify_nt now (b_user b) Booking_cancelled (Fmt ''booking_cancelled'' [Str (r_name r)])
       (Fmt ''resource_deactivated_by_admin'' []) None
       (upd_booking (b_id b) (cancel_row u deactivated_reason) s)"

definition future_bookings :: "datetime \<Rightarrow> bk_state \<Rightarrow> resource \<Rightarrow> booking list" where
  "future_bookings now s r =
     tbl_filter (\<lambda>b. b_resource b = r_id r \<and> b_end b > now \<and> b_status b = Confirmed) (bk_bookings s)"

definition cancel_future_bookings :: "datetime \<Rightarrow> user \<Rightarrow> resource \<Rightarrow> bk_state \<Rightarrow> bk_state" where
  "cancel_future_bookings now u r s = fold (cancel_future_one now u r) (future_bookings now s r) s"

definition set_resource :: "resource \<Rightarrow> bk_state \<Rightarrow> bk_state" where
  "set_resource r s = s\<lparr>bk_resources := tbl_save r_id r (bk_resources s)\<rparr>"

definition update_resource ::
  "datetime \<Rightarrow> user \<Rightarrow> nat \<Rightarrow> resource_request \<Rightarrow> bk_state \<Rightarrow> api_error + bk_state" where
  "update_resource now u k rr s =
     (case IsSuperAdmin (Some u) of
        Some e \<Rightarrow> Inl e
      | None \<Rightarrow> (case get_resource s u k of
          Inl e \<Rightarrow> Inl e
        | Inr r \<Rightarrow> guarded (validate_resource (bk_acc s) (Some r) rr)
            (let r' = sync_equipment rr (apply_resource_request rr r);
                 s' = set_resource r' s
             in if r_is_active r \<and> \<not> r_is_active r' then cancel_future_bookings now u r' s' else s')))"

text \<open>A PUT takes the same serializer, which then asks for the type and the name.\<close>

definition put_resource ::
  "datetime \<Rightarrow> user \<Rightarrow> nat \<Rightarrow> resource_request \<Rightarrow> bk_state \<Rightarrow> api_error + bk_state" where
  "put_resource now u k rr s =
     (case IsSuperAdmin (Some u) of
        Some e \<Rightarrow> Inl e
      | None \<Rightarrow> (case get_resource s u k of
          Inl e \<Rightarrow> Inl e
        | Inr r \<Rightarrow> (if rr_type rr = None then Inl (raise_validation_error ''type'' ''required'')
            else if rr_name rr = None then Inl (raise_validation_error ''name'' ''required'')
            else update_resource now u k rr s)))"

lemma put_resource_is_update_resource: "put_resource now u k rr s = Inr s' \<Longrightarrow> update_resource now u k rr s = Inr s'"
  by (simp add: put_resource_def split: option.splits sum.splits if_splits)

definition activate :: "user \<Rightarrow> nat \<Rightarrow> bk_state \<Rightarrow> api_error + bk_state" where
  "activate u k s =
     (case IsSuperAdmin (Some u) of
        Some e \<Rightarrow> Inl e
      | None \<Rightarrow> (case get_resource s u k of
          Inl e \<Rightarrow> Inl e
        | Inr r \<Rightarrow> Inr (set_resource (r\<lparr>r_is_active := True\<rparr>) s)))"

definition deactivate :: "datetime \<Rightarrow> user \<Rightarrow> nat \<Rightarrow> bk_state \<Rightarrow> api_error + bk_state" where
  "deactivate now u k s =
     (case IsSuperAdmin (Some u) of
        Some e \<Rightarrow> Inl e
      | None \<Rightarrow> (case get_resource s u k of
          Inl e \<Rightarrow> Inl e
        | Inr r \<Rightarrow>
          (if \<not> r_is_active r then Inr s
           else Inr (cancel_future_bookings now u r (set_resource (r\<lparr>r_is_active := False\<rparr>) s)))))"

definition cascade_resource :: "(resource \<Rightarrow> bool) \<Rightarrow> bk_state \<Rightarrow> bk_state" where
  \<comment> \<open>deleting resource rows deletes their bookings, blocks and recurring series; bookings of a
     deleted series lose the reference\<close>
  "cascade_resource P s =
     (let gone = map r_id (tbl_filter P (bk_resources s));
          series = map rb_id (tbl_filter (\<lambda>rb. rb_resource rb \<in> set gone) (bk_recurring s));
          s1 = upd_bookings (\<lambda>b. case b_recurring b of None \<Rightarrow> False | Some k \<Rightarrow> k \<in> set series)
                 (\<lambda>b. b\<lparr>b_recurring := None\<rparr>) (delete_bookings (\<lambda>b. b_resource b \<in> set gone) s)
      in s1\<lparr>bk_resources := tbl_delete P (bk_resources s1),
            bk_blocks := tbl_delete (\<lambda>bl. bl_resource bl \<in> set gone) (bk_blocks s1),
            bk_recurring := tbl_delete (\<lambda>rb. rb_resource rb \<in> set gone) (bk_recurring s1)\<rparr>)"

definition destroy_resource :: "datetime \<Rightarrow> user \<Rightarrow> nat \<Rightarrow> bk_state \<Rightarrow> api_error + bk_state" where
  "destroy_resource now u k s =
     (case IsSuperAdmin (Some u) of
        Some e \<Rightarrow> Inl e
      | None \<Rightarrow> (case get_resource s u k of
          Inl e \<Rightarrow> Inl e
        | Inr r \<Rightarrow> guarded (require (future_bookings now s r = [])
             (raise_validation_error ''detail'' ''booking.resource_has_future_bookings''))
            (cascade_resource (\<lambda>r. r_id r = k) s)))"

section \<open>Bulk operations\<close>

definition in_bulk_scope :: "user \<Rightarrow> resource \<Rightarrow> bool" where
  "in_bulk_scope u r \<longleftrightarrow> (if u_role u = Superadmin then True else r_assigned_company r = u_company u)"

definition bulk_guard :: "user \<Rightarrow> nat list \<Rightarrow> bk_state \<Rightarrow> api_error option" where
  "bulk_guard u ids s = first_err
     [IsCompanyAdmin (Some u),
      require (ids \<noteq> []) (raise_validation_error ''ids'' ''empty''),
      require (tbl_filter (\<lambda>r. in_bulk_scope u r \<and> r_id r \<in> set ids) (bk_resources s) \<noteq> []) NotFound]"

definition bulk_activate :: "user \<Rightarrow> nat list \<Rightarrow> bk_state \<Rightarrow> api_error + bk_state" where
  "bulk_activate u ids s = guarded (bulk_guard u ids s)
     (s\<lparr>bk_resources := tbl_update (\<lambda>r. in_bulk_scope u r \<and> r_id r \<in> set ids \<and> \<not> r_is_active r)
        (\<lambda>r. r\<lparr>r_is_active := True\<rparr>) (bk_resources s)\<rparr>)"

definition bulk_deactivate :: "user \<Rightarrow> nat list \<Rightarrow> bk_state \<Rightarrow> api_error + bk_state" where
  "bulk_deactivate u ids s = guarded (bulk_guard u ids s)
     (s\<lparr>bk_resources := tbl_update (\<lambda>r. in_bulk_scope u r \<and> r_id r \<in> set ids \<and> r_is_active r)
        (\<lambda>r. r\<lparr>r_is_active := False\<rparr>) (bk_resources s)\<rparr>)"

definition bulk_delete :: "user \<Rightarrow> nat list \<Rightarrow> bk_state \<Rightarrow> api_error + bk_state" where
  "bulk_delete u ids s = guarded (bulk_guard u ids s)
     (cascade_resource (\<lambda>r. in_bulk_scope u r \<and> r_id r \<in> set ids) s)"

section \<open>Blocks\<close>

definition cancel_for_block_one ::
  "datetime \<Rightarrow> user \<Rightarrow> resource \<Rightarrow> msg \<Rightarrow> booking \<Rightarrow> bk_state \<Rightarrow> bk_state" where
  "cancel_for_block_one now u r reason b s =
     notify_nt now (b_user b) Booking_cancelled (Fmt ''booking_cancelled'' [Str (r_name r)]) reason None
       (audit_cancel now u reason (b_id b) (upd_booking (b_id b) (cancel_row u reason) s))"

definition cancel_overlapping_bookings_for_block ::
  "datetime \<Rightarrow> user \<Rightarrow> resource \<Rightarrow> datetime \<Rightarrow> datetime \<Rightarrow> string \<Rightarrow> bk_state \<Rightarrow> bk_state" where
  "cancel_overlapping_bookings_for_block now u r st en reason s =
     fold (cancel_for_block_one now u r
         (Str (if reason = [] then ''Resource blocked by administrator'' else reason)))
       (overlapping_bookings s (r_id r) st en None) s"

definition block_resource ::
  "datetime \<Rightarrow> user \<Rightarrow> nat \<Rightarrow> datetime \<Rightarrow> datetime \<Rightarrow> string \<Rightarrow> bk_state \<Rightarrow> api_error + bk_state" where
  "block_resource now u k st en reason s =
     (case IsSuperAdmin (Some u) of
        Some e \<Rightarrow> Inl e
      | None \<Rightarrow> (case get_resource s u k of
          Inl e \<Rightarrow> Inl e
        | Inr r \<Rightarrow> guarded (require (\<not> st \<ge> en)
             (raise_validation_error ''detail'' ''booking.start_time_before_end_time''))
            (cancel_overlapping_bookings_for_block now u r st en reason
              (s\<lparr>bk_blocks := tbl_insert (\<lambda>i. \<lparr>bl_id = i, bl_resource = r_id r,
                  bl_blocked_by = Some (u_id u), bl_start = st, bl_end = en, bl_reason = reason\<rparr>)
                 (bk_blocks s)\<rparr>))))"

definition unblock :: "user \<Rightarrow> nat \<Rightarrow> nat \<Rightarrow> bk_state \<Rightarrow> api_error + bk_state" where
  "unblock u k block_id s =
     (case IsSuperAdmin (Some u) of
        Some e \<Rightarrow> Inl e
      | None \<Rightarrow> (case get_resource s u k of
          Inl e \<Rightarrow> Inl e
        | Inr r \<Rightarrow> guarded
            (require (tbl_filter (\<lambda>bl. bl_resource bl = r_id r \<and> bl_id bl = block_id) (bk_blocks s) \<noteq> [])
               NotFound)
            (s\<lparr>bk_blocks := tbl_delete (\<lambda>bl. bl_resource bl = r_id r \<and> bl_id bl = block_id)
                 (bk_blocks s)\<rparr>)))"

end
