(* ===== verification/Recurring.thy ===== *)
theory Recurring
  imports Resources
begin

text \<open>
  Recurring bookings: the serializer and viewset of \<open>RecurringBooking\<close> and the functions of
  \<open>bookings/tasks.py\<close> that turn a series into bookings.
\<close>

section \<open>Dates of a series\<close>

definition first_matching_weekday :: "int \<Rightarrow> date \<Rightarrow> date" where
  "first_matching_weekday day_of_week base_date =
     base_date + (day_of_week - weekday base_date) mod 7"

text \<open>The loop of \<open>_matching_dates\<close>: from \<open>current\<close> to \<open>end_date\<close> in steps of \<open>step\<close> days.\<close>

function dates_from :: "date \<Rightarrow> date \<Rightarrow> nat \<Rightarrow> date list" where
  "dates_from current end_date step =
     (if 0 < step \<and> current \<le> end_date
      then current # dates_from (current + int step) end_date step else [])"
  by pat_completeness auto
termination
  by (relation "measure (\<lambda>(c, e, k). nat (e + 1 - c))") auto

declare dates_from.simps [simp del]

text \<open>
  A weekly series without a day of the week cannot be stored (the serializer refuses it); the
  Python subtraction would raise a \<open>TypeError\<close>, here it yields no date.
\<close>

definition matching_dates :: "int option \<Rightarrow> date \<Rightarrow> date \<Rightarrow> recurrence \<Rightarrow> date list" where
  "matching_dates day_of_week start_date end_date rt = (case rt of
     Daily \<Rightarrow> dates_from start_date end_date 1
   | Weekly \<Rightarrow> (case day_of_week of
       None \<Rightarrow> []
     | Some dow \<Rightarrow> dates_from (start_date + (dow - weekday start_date) mod 7) end_date 7))"

definition combine_aware :: "settings \<Rightarrow> date \<Rightarrow> daytime \<Rightarrow> datetime" where
  "combine_aware cfg d t = make_aware (UTC_OFFSET cfg) d t"

definition recurring_has_creatable_occurrence ::
  "settings \<Rightarrow> datetime \<Rightarrow> int option \<Rightarrow> daytime \<Rightarrow> date \<Rightarrow> date \<Rightarrow> recurrence \<Rightarrow> bool" where
  "recurring_has_creatable_occurrence cfg now day_of_week end_time repeat_until base_date rt =
     (let valid_from = (case rt of
            Daily \<Rightarrow> base_date
          | Weekly \<Rightarrow> (case day_of_week of None \<Rightarrow> base_date
              | Some dow \<Rightarrow> first_matching_weekday dow base_date))
      in if valid_from > repeat_until then False
         else list_ex (\<lambda>d. combine_aware cfg d end_time > now)
                (matching_dates day_of_week valid_from repeat_until rt))"

section \<open>Creating the bookings of a series\<close>

definition recurring_booking_row ::
  "resource \<Rightarrow> recurring_booking \<Rightarrow> datetime \<Rightarrow> datetime \<Rightarrow> nat \<Rightarrow> booking" where
  "recurring_booking_row r rb st en i = \<lparr>b_id = i, b_resource = r_id r, b_user = rb_user rb,
     b_company = rb_company rb, b_recurring = Some (rb_id rb), b_start = st, b_end = en,
     b_status = Confirmed, b_priority = 1, b_description = [], b_cancelled_by = None,
     b_cancel_reason = Str [], b_reminder_sent = False, b_checked_in_at = None, b_qr_code = None,
     b_qr_image = False\<rparr>"

definition occurrence_exists ::
  "bk_state \<Rightarrow> resource \<Rightarrow> recurring_booking \<Rightarrow> datetime \<Rightarrow> datetime \<Rightarrow> bool" where
  "occurrence_exists s r rb st en \<longleftrightarrow> list_ex (\<lambda>b. b_resource b = r_id r \<and> b_user b = rb_user rb
     \<and> b_company b = rb_company rb \<and> b_recurring b = Some (rb_id rb) \<and> b_start b = st \<and> b_end b = en)
     (rows (bk_bookings s))"

text \<open>One turn of the loop: past dates are passed over, dates in conflict are reported.\<close>

definition create_occurrence ::
  "settings \<Rightarrow> datetime \<Rightarrow> (nat \<Rightarrow> nat) \<Rightarrow> resource \<Rightarrow> recurring_booking \<Rightarrow> date
     \<Rightarrow> bk_state \<times> date list \<Rightarrow> bk_state \<times> date list" where
  "create_occurrence cfg now uuid r rb d acc = (case acc of (s, skipped) \<Rightarrow>
     (let st = combine_aware cfg d (rb_start_time rb); en = combine_aware cfg d (rb_end_time rb)
      in if en \<le> now then (s, skipped)
         else (case ensure_no_conflicts cfg now s r st en None None of
             Inl e \<Rightarrow> (s, skipped @ [d])
           | Inr ds \<Rightarrow>
              (if occurrence_exists s r rb st en then (s, skipped)
               else (s\<lparr>bk_bookings := tbl_insert (\<lambda>i. ensure_capsule_booking_qr (r_type r) (uuid i)
                      (recurring_booking_row r rb st en i)) (bk_bookings s)\<rparr>, skipped)))))"

definition create_bookings_for_recurring ::
  "settings \<Rightarrow> datetime \<Rightarrow> (nat \<Rightarrow> nat) \<Rightarrow> recurring_booking \<Rightarrow> date \<Rightarrow> date \<Rightarrow> bk_state
     \<Rightarrow> bk_state \<times> date list" where
  "create_bookings_for_recurring cfg now uuid rb start_date end_date s =
     (if start_date > end_date then (s, [])
      else case tbl_get r_id (rb_resource rb) (bk_resources s) of
          None \<Rightarrow> (s, [])
        | Some r \<Rightarrow> fold (create_occurrence cfg now uuid r rb)
            (matching_dates (rb_day_of_week rb) start_date end_date (rb_recurrence_type rb)) (s, []))"

text \<open>The periodic task: active series that have not run out are extended by one period.\<close>

definition advance_days :: "recurrence \<Rightarrow> int" where
  "advance_days rt = (if rt = Daily then 1 else 7)"

definition extend_series ::
  "settings \<Rightarrow> datetime \<Rightarrow> (nat \<Rightarrow> nat) \<Rightarrow> recurring_booking \<Rightarrow> bk_state \<Rightarrow> bk_state" where
  "extend_series cfg now uuid rb s = (case rb_valid_until rb of
     None \<Rightarrow> s
   | Some until \<Rightarrow>
     (let next_period_end = until + advance_days (rb_recurrence_type rb);
          s' = fst (create_bookings_for_recurring cfg now uuid rb (until + 1) next_period_end s)
      in s'\<lparr>bk_recurring := tbl_save rb_id (rb\<lparr>rb_valid_until := Some next_period_end\<rparr>) (bk_recurring s')\<rparr>))"

definition generate_recurring_bookings ::
  "settings \<Rightarrow> datetime \<Rightarrow> (nat \<Rightarrow> nat) \<Rightarrow> bk_state \<Rightarrow> bk_state" where
  "generate_recurring_bookings cfg now uuid s =
     fold (extend_series cfg now uuid)
       (tbl_filter (\<lambda>rb. rb_is_active rb \<and>
          (case rb_valid_until rb of None \<Rightarrow> False | Some d \<Rightarrow> d \<ge> local_today cfg now)) (bk_recurring s)) s"

section \<open>The series endpoints\<close>

record recurring_request =
  rc_resource_id :: nat
  rc_recurrence_type :: recurrence
  rc_day_of_week :: "int option"
  rc_start_time :: daytime
  rc_end_time :: daytime
  rc_repeat_until :: date

definition duplicate_series :: "date \<Rightarrow> bk_state \<Rightarrow> resource \<Rightarrow> recurring_request \<Rightarrow> bool" where
  "duplicate_series today s r rc \<longleftrightarrow> list_ex (\<lambda>rb. rb_resource rb = r_id r \<and> rb_is_active rb
     \<and> rb_recurrence_type rb = rc_recurrence_type rc \<and> rb_start_time rb = rc_start_time rc
     \<and> rb_end_time rb = rc_end_time rc \<and> rb_valid_from rb \<le> rc_repeat_until rc
     \<and> (case rb_valid_until rb of None \<Rightarrow> True | Some d \<Rightarrow> d \<ge> today)
     \<and> (rc_recurrence_type rc = Weekly \<longrightarrow> rb_day_of_week rb = rc_day_of_week rc))
     (rows (bk_recurring s))"

definition validate_recurring ::
  "settings \<Rightarrow> datetime \<Rightarrow> bk_state \<Rightarrow> user \<Rightarrow> resource \<Rightarrow> recurring_request \<Rightarrow> api_error option" where
  "validate_recurring cfg now s u r rc =
     (let today = local_today cfg now; weekly = (rc_recurrence_type rc = Weekly)
      in first_err
        [require (\<not> rc_start_time rc \<ge> rc_end_time rc)
           (raise_validation_error ''end_time'' ''booking.start_time_before_end_time''),
         require (\<not> rc_repeat_until rc < today)
           (raise_validation_error ''repeat_until'' ''booking.repeat_until_in_past''),
         require (\<not> (weekly \<and> rc_day_of_week rc = None))
           (raise_validation_error ''day_of_week'' ''booking.day_of_week_required_for_weekly''),
         validate_access (bk_acc s) r u,
         require (\<not> weekly \<or> (case rc_day_of_week rc of None \<Rightarrow> False
             | Some dow \<Rightarrow> dow \<in> set (available_weekdays r)))
           (raise_validation_error ''day_of_week'' ''booking.unavailable_day''),
         require (\<not> (rc_start_time rc < r_available_from r \<or> rc_end_time rc > r_available_until r))
           (raise_validation_error ''detail'' ''booking.outside_operating_hours''),
         require (\<not> duplicate_series today s r rc)
           (raise_validation_error ''detail'' ''booking.recurring_slot_conflict''),
         require (recurring_has_creatable_occurrence cfg now (rc_day_of_week rc) (rc_end_time rc)
             (rc_repeat_until rc) today (rc_recurrence_type rc))
           (raise_validation_error ''repeat_until'' ''booking.recurring_no_creatable_dates'')])"

definition series_company :: "user \<Rightarrow> resource \<Rightarrow> nat option" where
  "series_company u r = (case u_company u of Some c \<Rightarrow> Some c | None \<Rightarrow> r_assigned_company r)"

definition new_series ::
  "settings \<Rightarrow> datetime \<Rightarrow> user \<Rightarrow> resource \<Rightarrow> recurring_request \<Rightarrow> nat \<Rightarrow> recurring_booking" where
  "new_series cfg now u r rc i =
     (let today = local_today cfg now;
          valid_from = (case (rc_recurrence_type rc, rc_day_of_week rc) of
              (Weekly, Some dow) \<Rightarrow> first_matching_weekday dow today | _ \<Rightarrow> today)
      in \<lparr>rb_id = i, rb_resource = r_id r, rb_user = u_id u, rb_company = series_company u r,
          rb_recurrence_type = rc_recurrence_type rc, rb_day_of_week = rc_day_of_week rc,
          rb_start_time = rc_start_time rc, rb_end_time = rc_end_time rc,
          rb_is_active = True, rb_valid_from = valid_from,
          rb_valid_until = Some (rc_repeat_until rc)\<rparr>)"

definition perform_create_recurring ::
  "settings \<Rightarrow> datetime \<Rightarrow> (nat \<Rightarrow> nat) \<Rightarrow> user \<Rightarrow> resource \<Rightarrow> recurring_request \<Rightarrow> bk_state
     \<Rightarrow> bk_state \<times> date list" where
  "perform_create_recurring cfg now uuid u r rc s =
     (let rb = new_series cfg now u r rc (next_id (bk_recurring s))
      in create_bookings_for_recurring cfg now uuid rb (rb_valid_from rb) (rc_repeat_until rc)
           (s\<lparr>bk_recurring := tbl_insert (new_series cfg now u r rc) (bk_recurring s)\<rparr>))"

definition create_recurring ::
  "settings \<Rightarrow> datetime \<Rightarrow> (nat \<Rightarrow> nat) \<Rightarrow> user \<Rightarrow> recurring_request \<Rightarrow> bk_state
     \<Rightarrow> api_error + (bk_state \<times> date list)" where
  "create_recurring cfg now uuid u rc s =
     (case first_err [IsGuestOrCompanyMember (Some u),
          require (case rc_day_of_week rc of None \<Rightarrow> True | Some d \<Rightarrow> 0 \<le> d \<and> d \<le> 6)
            (raise_validation_error ''day_of_week'' ''invalid'')] of
        Some e \<Rightarrow> Inl e
      | None \<Rightarrow> (case tbl_get r_id (rc_resource_id rc) (bk_resources s) of
          None \<Rightarrow> Inl (raise_validation_error ''resource_id'' ''booking.resource_not_found'')
        | Some r \<Rightarrow> guarded (first_err
            [validate_recurring cfg now s u r rc,
             require (\<not> (series_company u r = None \<and> \<not> is_superadmin u \<and> u_role u \<noteq> Guest))
               (raise_validation_error ''resource_id'' ''booking.resource_wrong_company'')])
            (perform_create_recurring cfg now uuid u r rc s)))"

definition may_destroy_series :: "accounts \<Rightarrow> user \<Rightarrow> recurring_booking \<Rightarrow> bool" where
  "may_destroy_series acc u rb \<longleftrightarrow>
     (if is_superadmin u then True
      else if is_company_admin u then
        rb_user rb = u_id u \<or>
        (rb_company rb = u_company u \<and>
         (case tbl_get u_id (rb_user rb) (ac_users acc) of
            None \<Rightarrow> False | Some o' \<Rightarrow> u_role o' = Employee))
      else rb_user rb = u_id u)"

definition destroy_recurring :: "datetime \<Rightarrow> user \<Rightarrow> nat \<Rightarrow> bk_state \<Rightarrow> api_error + bk_state" where
  "destroy_recurring now u k s =
     (case IsGuestOrCompanyMember (Some u) of
        Some e \<Rightarrow> Inl e
      | None \<Rightarrow> (case tbl_get rb_id k (bk_recurring s) of
          None \<Rightarrow> Inl NotFound
        | Some rb \<Rightarrow>
          (if \<not> may_destroy_series (bk_acc s) u rb then Inl NotFound
           else (let s1 = delete_bookings (\<lambda>b. b_recurring b = Some k \<and> b_start b > now) s;
                     s2 = upd_bookings (\<lambda>b. b_recurring b = Some k) (\<lambda>b. b\<lparr>b_recurring := None\<rparr>) s1
                 in Inr (s2\<lparr>bk_recurring := tbl_delete (\<lambda>rb. rb_id rb = k) (bk_recurring s2)\<rparr>)))))"

text \<open>
  The rows the generic endpoints of a series work on: company isolation first, then the
  user's own series and, for a company admin, those of the company's employees.
\<close>

definition recurring_queryset :: "bk_state \<Rightarrow> user \<Rightarrow> recurring_booking list" where
  "recurring_queryset s u =
     (let qs = company_isolation rb_company u (rows (bk_recurring s))
      in if is_superadmin u then qs
         else if u_role u = Guest then filter (\<lambda>rb. rb_user rb = u_id u) qs
         else if is_company_admin u then filter (\<lambda>rb. rb_user rb = u_id u \<or>
             (rb_company rb = u_company u \<and>
              (case tbl_get u_id (rb_user rb) (ac_users (bk_acc s)) of
                 None \<Rightarrow> False | Some o' \<Rightarrow> u_role o' = Employee))) qs
         else filter (\<lambda>rb. rb_user rb = u_id u) qs)"

record recurring_patch =
  rp_resource :: "nat option"
  rp_recurrence_type :: "recurrence option"
  rp_day_of_week :: "int option option"
  rp_start_time :: "daytime option"
  rp_end_time :: "daytime option"
  rp_is_active :: "bool option"
  rp_valid_from :: "date option"
  rp_valid_until :: "date option option"

definition apply_recurring_patch :: "recurring_patch \<Rightarrow> recurring_booking \<Rightarrow> recurring_booking" where
  "apply_recurring_patch rp rb = rb\<lparr>
     rb_resource := pick (rp_resource rp) (rb_resource rb),
     rb_recurrence_type := pick (rp_recurrence_type rp) (rb_recurrence_type rb),
     rb_day_of_week := pick (rp_day_of_week rp) (rb_day_of_week rb),
     rb_start_time := pick (rp_start_time rp) (rb_start_time rb),
     rb_end_time := pick (rp_end_time rp) (rb_end_time rb),
     rb_is_active := pick (rp_is_active rp) (rb_is_active rb),
     rb_valid_from := pick (rp_valid_from rp) (rb_valid_from rb),
     rb_valid_until := pick (rp_valid_until rp) (rb_valid_until rb)\<rparr>"

definition patch_recurring :: "user \<Rightarrow> nat \<Rightarrow> recurring_patch \<Rightarrow> bk_state \<Rightarrow> api_error + bk_state" where
  "patch_recurring u k rp s =
     (case IsGuestOrCompanyMember (Some u) of
        Some e \<Rightarrow> Inl e
      | None \<Rightarrow> (case find (\<lambda>rb. rb_id rb = k) (recurring_queryset s u) of
          None \<Rightarrow> Inl NotFound
        | Some rb \<Rightarrow> guarded
            (case rp_resource rp of None \<Rightarrow> None
             | Some r \<Rightarrow> require (tbl_get r_id r (bk_resources s) \<noteq> None)
                 (raise_validation_error ''resource'' ''does_not_exist''))
            (s\<lparr>bk_recurring := tbl_save rb_id (apply_recurring_patch rp rb) (bk_recurring s)\<rparr>)))"

end
