(* ===== verification/BookingInv.thy ===== *)
theory BookingInv
  imports Recurring
begin

text \<open>
  The booking module as one system of operations, and its safety invariant: no two confirmed
  bookings of a resource overlap and no confirmed booking overlaps a block of its resource.
\<close>

section \<open>Schedules\<close>

definition schedule_ok :: "booking list \<Rightarrow> resource_block list \<Rightarrow> bool" where
  "schedule_ok bs bls \<longleftrightarrow>
     (\<forall>a \<in> set bs. \<forall>b \<in> set bs. \<not> clash a b) \<and> (\<forall>b \<in> set bs. \<forall>bl \<in> set bls. \<not> blocked_by_block b bl)"

lemma bk_inv_iff:
  "bk_inv s \<longleftrightarrow> tbl_wf b_id (bk_bookings s) \<and> tbl_wf r_id (bk_resources s)
     \<and> tbl_wf bl_id (bk_blocks s) \<and> tbl_wf rb_id (bk_recurring s)
     \<and> schedule_ok (rows (bk_bookings s)) (rows (bk_blocks s))"
  by (auto simp: bk_inv_def bk_wf_def schedule_ok_def no_double_booking_def no_blocked_booking_def
      all_bookings_def)

text \<open>An update that confirms nothing and moves no confirmed booking.\<close>

definition tame :: "(booking \<Rightarrow> booking) \<Rightarrow> bool" where
  "tame f \<longleftrightarrow> (\<forall>b. b_id (f b) = b_id b \<and> (b_status (f b) = Confirmed \<longrightarrow> b_status b = Confirmed
     \<and> b_resource (f b) = b_resource b \<and> b_start (f b) = b_start b \<and> b_end (f b) = b_end b))"

lemma tame_intros [intro, simp]:
  "tame (cancel_row u m)"
  "tame (\<lambda>b. b\<lparr>b_status := Completed\<rparr>)"
  "tame (\<lambda>b. b\<lparr>b_status := No_show\<rparr>)"
  "tame (\<lambda>b. b\<lparr>b_checked_in_at := c\<rparr>)"
  "tame (\<lambda>b. b\<lparr>b_reminder_sent := True\<rparr>)"
  "tame (\<lambda>b. b\<lparr>b_recurring := x\<rparr>)"
  by (simp_all add: tame_def cancel_row_def)

lemma tame_if: "tame f \<Longrightarrow> tame (\<lambda>b. if P b then f b else b)"
  by (simp add: tame_def)

lemma tame_id: "tame f \<Longrightarrow> b_id (f b) = b_id b"
  by (simp add: tame_def)

lemma tame_confirmed:
  "tame f \<Longrightarrow> b_status (f b) = Confirmed \<Longrightarrow> b_status b = Confirmed
     \<and> b_resource (f b) = b_resource b \<and> b_start (f b) = b_start b \<and> b_end (f b) = b_end b"
  by (simp add: tame_def)

lemma tame_clash: "tame f \<Longrightarrow> clash (f a) (f b) \<Longrightarrow> clash a b"
  using tame_confirmed[of f a] tame_confirmed[of f b] by (auto simp: tame_id clash_def)

lemma tame_blocked: "tame f \<Longrightarrow> blocked_by_block (f b) bl \<Longrightarrow> blocked_by_block b bl"
  using tame_confirmed[of f b] by (auto simp: blocked_by_block_def)

lemma schedule_ok_map:
  "schedule_ok (map g bs) bls \<longleftrightarrow>
     (\<forall>a \<in> set bs. \<forall>b \<in> set bs. \<not> clash (g a) (g b))
     \<and> (\<forall>b \<in> set bs. \<forall>bl \<in> set bls. \<not> blocked_by_block (g b) bl)"
  by (simp add: schedule_ok_def)

lemma schedule_ok_tame:
  assumes "tame f" "schedule_ok bs bls"
  shows "schedule_ok (map f bs) bls"
  using assms(2) tame_clash[OF assms(1)] tame_blocked[OF assms(1)]
  unfolding schedule_ok_map unfolding schedule_ok_def by blast

lemma schedule_ok_sub:
  "schedule_ok bs bls \<Longrightarrow> set bs' \<subseteq> set bs \<Longrightarrow> set bls' \<subseteq> set bls \<Longrightarrow> schedule_ok bs' bls'"
  unfolding schedule_ok_def by blast

lemma schedule_ok_insert:
  assumes "schedule_ok bs bls"
    and "\<And>b. b \<in> set bs \<Longrightarrow> b_resource b = b_resource n \<Longrightarrow> b_status b = Confirmed \<Longrightarrow>
      b_id b \<noteq> b_id n \<Longrightarrow> \<not> overlaps (b_start b) (b_end b) (b_start n) (b_end n)"
    and "\<And>bl. bl \<in> set bls \<Longrightarrow> bl_resource bl = b_resource n \<Longrightarrow>
      \<not> overlaps (bl_start bl) (bl_end bl) (b_start n) (b_end n)"
  shows "schedule_ok (bs @ [n]) bls"
proof -
  have "\<not> clash b n" if "b \<in> set bs" for b
    using assms(2)[OF that] by (auto simp: clash_def)
  moreover have "\<not> clash n n" by (simp add: clash_def)
  moreover have "\<not> blocked_by_block n bl" if "bl \<in> set bls" for bl
    using assms(3)[OF that] by (auto simp: blocked_by_block_def overlaps_sym)
  ultimately show ?thesis
    using assms(1) by (auto simp: schedule_ok_def clash_sym)
qed

text \<open>Moving one booking to a free interval.\<close>

lemma schedule_ok_move:
  assumes ok: "schedule_ok bs bls" and id: "\<And>b. b_id (f b) = b_id b"
    and free: "\<And>a b. a \<in> set bs \<Longrightarrow> b \<in> set bs \<Longrightarrow> b_id a = k \<Longrightarrow> b_id b \<noteq> k \<Longrightarrow> \<not> clash (f a) b"
    and noblock: "\<And>a bl. a \<in> set bs \<Longrightarrow> b_id a = k \<Longrightarrow> bl \<in> set bls \<Longrightarrow> \<not> blocked_by_block (f a) bl"
  shows "schedule_ok (map (\<lambda>b. if b_id b = k then f b else b) bs) bls"
  unfolding schedule_ok_map
proof (intro conjI ballI)
  fix a b assume ab: "a \<in> set bs" "b \<in> set bs"
  show "\<not> clash (if b_id a = k then f a else a) (if b_id b = k then f b else b)"
  proof (cases "b_id a = k"; cases "b_id b = k")
    assume "b_id a = k" "b_id b = k"
    then show ?thesis by (simp add: clash_def id)
  next
    assume "b_id a \<noteq> k" "b_id b = k"
    then show ?thesis using free[OF ab(2) ab(1)] by (simp add: clash_sym)
  qed (use ok ab free in \<open>auto simp: schedule_ok_def\<close>)
next
  fix b bl assume "b \<in> set bs" "bl \<in> set bls"
  then show "\<not> blocked_by_block (if b_id b = k then f b else b) bl"
    using ok noblock[of b bl] by (simp add: schedule_ok_def)
qed

section \<open>Frames\<close>

lemma notify_frame [simp]:
  "bk_bookings (notify_nt now uid t a m l s) = bk_bookings s"
  "bk_resources (notify_nt now uid t a m l s) = bk_resources s"
  "bk_blocks (notify_nt now uid t a m l s) = bk_blocks s"
  "bk_recurring (notify_nt now uid t a m l s) = bk_recurring s"
  "bk_acc (notify_nt now uid t a m l s) = bk_acc s"
  "bk_participants (notify_nt now uid t a m l s) = bk_participants s"
  "bk_cancel_audits (notify_nt now uid t a m l s) = bk_cancel_audits s"
  by (simp_all add: notify_nt_def)

lemma mail_frame [simp]:
  "bk_bookings (mail_nt uid t a s) = bk_bookings s"
  "bk_resources (mail_nt uid t a s) = bk_resources s"
  "bk_blocks (mail_nt uid t a s) = bk_blocks s"
  "bk_recurring (mail_nt uid t a s) = bk_recurring s"
  "bk_acc (mail_nt uid t a s) = bk_acc s"
  "bk_participants (mail_nt uid t a s) = bk_participants s"
  "bk_cancel_audits (mail_nt uid t a s) = bk_cancel_audits s"
  by (simp_all add: mail_nt_def)

lemma audit_frame [simp]:
  "bk_bookings (audit_cancel now u r k s) = bk_bookings s"
  "bk_resources (audit_cancel now u r k s) = bk_resources s"
  "bk_blocks (audit_cancel now u r k s) = bk_blocks s"
  "bk_recurring (audit_cancel now u r k s) = bk_recurring s"
  "bk_acc (audit_cancel now u r k s) = bk_acc s"
  "bk_participants (audit_cancel now u r k s) = bk_participants s"
  "bk_bookings (create_change_audit now u k act p s) = bk_bookings s"
  "bk_resources (create_change_audit now u k act p s) = bk_resources s"
  "bk_blocks (create_change_audit now u k act p s) = bk_blocks s"
  "bk_recurring (create_change_audit now u k act p s) = bk_recurring s"
  by (simp_all add: audit_cancel_def create_change_audit_def)

lemma upd_frame [simp]:
  "bk_bookings (upd_bookings P f s) = tbl_update P f (bk_bookings s)"
  "bk_bookings (upd_booking k f s) = tbl_update (\<lambda>b. b_id b = k) f (bk_bookings s)"
  "bk_resources (upd_bookings P f s) = bk_resources s"
  "bk_resources (upd_booking k f s) = bk_resources s"
  "bk_blocks (upd_bookings P f s) = bk_blocks s"
  "bk_blocks (upd_booking k f s) = bk_blocks s"
  "bk_recurring (upd_bookings P f s) = bk_recurring s"
  "bk_recurring (upd_booking k f s) = bk_recurring s"
  "bk_acc (upd_bookings P f s) = bk_acc s"
  "bk_acc (upd_booking k f s) = bk_acc s"
  "bk_participants (upd_booking k f s) = bk_participants s"
  "bk_cancel_audits (upd_booking k f s) = bk_cancel_audits s"
  by (simp_all add: upd_bookings_def upd_booking_def)

text \<open>Two states with the same schedule tables.\<close>

definition same_core :: "bk_state \<Rightarrow> bk_state \<Rightarrow> bool" where
  "same_core s t \<longleftrightarrow> bk_bookings s = bk_bookings t \<and> bk_resources s = bk_resources t
     \<and> bk_blocks s = bk_blocks t \<and> bk_recurring s = bk_recurring t"

lemma same_core_inv: "same_core s t \<Longrightarrow> bk_inv s \<Longrightarrow> bk_inv t"
  by (simp add: same_core_def bk_inv_iff)

lemma same_core_refl [simp]: "same_core s s"
  by (simp add: same_core_def)

lemma same_core_trans: "same_core s t \<Longrightarrow> same_core t v \<Longrightarrow> same_core s v"
  by (simp add: same_core_def)

lemma same_core_fold:
  assumes "\<And>x t. same_core t (g x t)"
  shows "same_core s (fold g xs s)"
proof (induction xs arbitrary: s)
  case (Cons x xs)
  show ?case using same_core_trans[OF assms Cons.IH] by simp
qed simp

lemma bk_inv_upd:
  assumes "bk_inv s" "tame f"
  shows "bk_inv (upd_bookings P f s)"
proof -
  have "tbl_wf b_id (tbl_update P f (bk_bookings s))"
    using assms by (auto simp: bk_inv_iff tame_def intro!: tbl_wf_update)
  moreover have "schedule_ok (map (\<lambda>b. if P b then f b else b) (rows (bk_bookings s))) (rows (bk_blocks s))"
    using assms by (auto simp: bk_inv_iff intro!: schedule_ok_tame tame_if)
  ultimately show ?thesis
    using assms(1) by (simp add: bk_inv_iff)
qed

lemma bk_inv_upd_booking: "bk_inv s \<Longrightarrow> tame f \<Longrightarrow> bk_inv (upd_booking k f s)"
  unfolding upd_booking_def by (rule bk_inv_upd)

text \<open>The updates of the handlers around a tame one.\<close>

lemma bk_inv_notify [simp]: "bk_inv (notify_nt now uid t a m l s) = bk_inv s"
  by (simp add: bk_inv_iff)

lemma bk_inv_mail [simp]: "bk_inv (mail_nt uid t a s) = bk_inv s"
  by (simp add: bk_inv_iff)

lemma bk_inv_audit [simp]:
  "bk_inv (audit_cancel now u r k s) = bk_inv s"
  "bk_inv (create_change_audit now u k act p s) = bk_inv s"
  by (simp_all add: bk_inv_iff)

lemma tbl_update_twice:
  "(\<And>x. b_id (f x) = b_id x) \<Longrightarrow> (\<And>x. f (f x) = f x) \<Longrightarrow>
   tbl_update (\<lambda>x. b_id x \<in> B) f (tbl_update (\<lambda>x. b_id x = k) f t) =
   tbl_update (\<lambda>x. b_id x \<in> insert k B) f t"
  by (auto simp: tbl_update_def)

text \<open>A loop that applies the same change to each listed booking changes exactly those.\<close>

lemma fold_upd_exact:
  assumes step: "\<And>b s. bk_bookings (g b s) = tbl_update (\<lambda>x. b_id x = b_id b) f (bk_bookings s)"
    and f: "\<And>x. b_id (f x) = b_id x" "\<And>x. f (f x) = f x"
  shows "bk_bookings (fold g ds s) = tbl_update (\<lambda>x. b_id x \<in> b_id ` set ds) f (bk_bookings s)"
proof (induction ds arbitrary: s)
  case Nil
  show ?case by (simp add: tbl_update_def)
next
  case (Cons d ds)
  show ?case by (simp add: Cons.IH step tbl_update_twice[OF f])
qed

lemma fold_frame:
  assumes "\<And>b t. h (g b t) = h t"
  shows "h (fold g ds s) = h s"
  using assms by (induction ds arbitrary: s) auto

lemma cancel_row_simps [simp]:
  "b_id (cancel_row u m b) = b_id b"
  "b_status (cancel_row u m b) = Cancelled"
  "b_resource (cancel_row u m b) = b_resource b"
  "b_start (cancel_row u m b) = b_start b"
  "b_end (cancel_row u m b) = b_end b"
  "b_user (cancel_row u m b) = b_user b"
  "b_company (cancel_row u m b) = b_company b"
  "b_cancelled_by (cancel_row u m b) = Some (u_id u)"
  "b_cancel_reason (cancel_row u m b) = m"
  "cancel_row u m (cancel_row u m b) = cancel_row u m b"
  by (simp_all add: cancel_row_def)

end
