(* ===== verification/BookingSystem.thy ===== *)
theory BookingSystem
  imports BookingInv
begin

text \<open>
  The endpoints and tasks of the booking module as the operations of one system, each with
  the lemma that it keeps \<open>bk_inv\<close>, the interpretation of the operation-system interface, and
  the properties of the module.
\<close>

section \<open>Each operation keeps the invariant\<close>

lemma get_object_SomeD:
  "get_object s u k = Inr b \<Longrightarrow> b \<in> set (rows (bk_bookings s)) \<and> b_id b = k \<and> booking_visible s u b"
  by (auto simp: get_object_def booking_queryset_def find_Some_iff tbl_filter_def split: option.splits
      dest!: nth_mem)

lemma displace_bookings_eq:
  "bk_bookings (fold (displace_booking now u) ds s) =
     tbl_update (\<lambda>x. b_id x \<in> b_id ` set ds) (cancel_row u displaced_reason) (bk_bookings s)"
  by (rule fold_upd_exact) (simp_all add: displace_booking_def)

lemma displace_frame [simp]:
  "bk_resources (fold (displace_booking now u) ds s) = bk_resources s"
  "bk_blocks (fold (displace_booking now u) ds s) = bk_blocks s"
  "bk_recurring (fold (displace_booking now u) ds s) = bk_recurring s"
  "bk_acc (fold (displace_booking now u) ds s) = bk_acc s"
  by (rule fold_frame; simp add: displace_booking_def)+

lemma invite_core: "same_core s (invite_participant now u r st k uid s)"
  by (simp add: invite_participant_def same_core_def split: option.split)

lemma add_row_core: "same_core s (add_participant_row k uid s)"
  by (simp add: add_participant_row_def same_core_def)

text \<open>The booking table after a creation: the displaced rows cancelled, the new row added.\<close>

definition created_row ::
  "(nat \<Rightarrow> nat) \<Rightarrow> user \<Rightarrow> resource \<Rightarrow> create_request \<Rightarrow> bk_state \<Rightarrow> booking" where
  "created_row uuid u r rq s = ensure_capsule_booking_qr (r_type r) (uuid (next_id (bk_bookings s)))
     (new_booking s u r rq (next_id (bk_bookings s)))"

lemma created_row_simps [simp]:
  "b_id (created_row uuid u r rq s) = next_id (bk_bookings s)"
  "b_resource (created_row uuid u r rq s) = r_id r"
  "b_status (created_row uuid u r rq s) = Confirmed"
  "b_start (created_row uuid u r rq s) = rq_start rq"
  "b_end (created_row uuid u r rq s) = rq_end rq"
  "b_user (created_row uuid u r rq s) = u_id u"
  "b_priority (created_row uuid u r rq s) = booking_priority (bk_acc s) u"
  by (simp_all add: created_row_def new_booking_def)

lemma fresh_booking_id:
  "tbl_wf b_id t \<Longrightarrow> b \<in> set (rows t) \<Longrightarrow> b_id b < next_id t"
  by (simp add: tbl_wf_def list_all_iff)

lemma perform_create_core:
  "same_core (fold (displace_booking now u) ds
     (s\<lparr>bk_bookings := tbl_insert (\<lambda>i. ensure_capsule_booking_qr (r_type r) (uuid i)
        (new_booking s u r rq i)) (bk_bookings s)\<rparr>))
     (perform_create now uuid u r rq ds s)"
proof -
  have fold1: "same_core t (fold (invite_participant now u r st k) ps (fold (add_participant_row k) ps t))"
    for t st k ps
    using same_core_trans[OF same_core_fold[OF add_row_core] same_core_fold[OF invite_core]] .
  show ?thesis
    unfolding perform_create_def Let_def
    using fold1 by (auto simp: same_core_def)
qed

lemma perform_create_table:
  "bk_bookings (perform_create now uuid u r rq ds s) =
     tbl_update (\<lambda>x. b_id x \<in> b_id ` set ds) (cancel_row u displaced_reason)
       (tbl_insert (\<lambda>i. ensure_capsule_booking_qr (r_type r) (uuid i) (new_booking s u r rq i)) (bk_bookings s))"
  using perform_create_core[of now u ds r uuid s rq]
  unfolding same_core_def displace_bookings_eq by simp

lemma perform_create_bookings:
  assumes wf: "tbl_wf b_id (bk_bookings s)" and ds: "set ds \<subseteq> set (rows (bk_bookings s))"
  shows "rows (bk_bookings (perform_create now uuid u r rq ds s)) =
     map (\<lambda>x. if b_id x \<in> b_id ` set ds then cancel_row u displaced_reason x else x)
       (rows (bk_bookings s)) @ [created_row uuid u r rq s]"
proof -
  have "next_id (bk_bookings s) \<notin> b_id ` set ds"
    using ds fresh_booking_id[OF wf] by fastforce
  then show ?thesis
    unfolding perform_create_table rows_tbl map_append created_row_def[symmetric] by simp
qed

lemma perform_create_frame:
  "bk_resources (perform_create now uuid u r rq ds s) = bk_resources s"
  "bk_blocks (perform_create now uuid u r rq ds s) = bk_blocks s"
  "bk_recurring (perform_create now uuid u r rq ds s) = bk_recurring s"
  "next_id (bk_bookings (perform_create now uuid u r rq ds s)) = Suc (next_id (bk_bookings s))"
  using perform_create_core[of now u ds r uuid s rq]
  by (simp_all add: same_core_def perform_create_table)

lemma perform_create_wf:
  assumes wf: "tbl_wf b_id (bk_bookings s)"
  shows "tbl_wf b_id (bk_bookings (perform_create now uuid u r rq ds s))"
proof -
  have "tbl_wf b_id (tbl_insert (\<lambda>i. ensure_capsule_booking_qr (r_type r) (uuid i)
        (new_booking s u r rq i)) (bk_bookings s))"
    using wf by (rule tbl_wf_insert) (simp add: new_booking_def)
  then show ?thesis
    unfolding perform_create_table by (rule tbl_wf_update) simp
qed

text \<open>What a successful creation has checked.\<close>

lemma create_booking_OkD:
  assumes "create_booking cfg now uuid u rq s = Inr s'"
  obtains r ds where "create_validate cfg now s rq = Inr r"
    "create_checks cfg now s u r (rq_start rq) (rq_end rq) = Inr ds"
    "s' = perform_create now uuid u r rq ds s"
    "IsGuestOrCompanyMember (Some u) = None"
    "r_type r = Meeting_room \<longrightarrow> distinct (rq_participant_ids rq)"
  using assms by (auto simp: create_booking_def split: option.splits sum.splits)

lemma create_checks_OkD:
  assumes "create_checks cfg now s u r st en = Inr ds"
  shows "validate_access (bk_acc s) r u = None"
    "ensure_no_conflicts cfg now s r st en None (Some u) = Inr ds"
    "ensure_no_user_desk_overlap s u r st en None = None"
    "validate_availability_window cfg r st en = None"
    "validate_resource_duration_limits r st en = None"
    "validate_user_active_limit cfg now s u = None"
  using assms by (auto simp: create_checks_def split: option.splits sum.splits)

lemma create_booking_inv:
  assumes inv: "bk_inv s" and ok: "create_booking cfg now uuid u rq s = Inr s'"
  shows "bk_inv s'"
proof -
  obtain r ds where chk: "create_checks cfg now s u r (rq_start rq) (rq_end rq) = Inr ds"
    and s': "s' = perform_create now uuid u r rq ds s"
    using ok by (rule create_booking_OkD)
  note free = ensure_no_conflicts_ok[OF create_checks_OkD(2)[OF chk]]
  have wf: "tbl_wf b_id (bk_bookings s)" using inv by (simp add: bk_inv_iff)
  let ?f = "\<lambda>x. if b_id x \<in> b_id ` set ds then cancel_row u displaced_reason x else x"
  have sub: "set ds \<subseteq> set (rows (bk_bookings s))"
    unfolding free(1) by (auto simp: in_overlapping_iff all_bookings_def)
  have "schedule_ok (map ?f (rows (bk_bookings s)) @ [created_row uuid u r rq s]) (rows (bk_blocks s))"
  proof (rule schedule_ok_insert)
    show "schedule_ok (map ?f (rows (bk_bookings s))) (rows (bk_blocks s))"
      using inv by (intro schedule_ok_tame tame_if) (simp_all add: bk_inv_iff)
    fix b assume b: "b \<in> set (map ?f (rows (bk_bookings s)))"
      "b_resource b = b_resource (created_row uuid u r rq s)" "b_status b = Confirmed"
    then obtain c where c: "c \<in> set (rows (bk_bookings s))" "b = ?f c" by auto
    with b(3) have "b_id c \<notin> b_id ` set ds" "b = c" by (auto split: if_splits)
    then have "c \<notin> set (overlapping_bookings s (r_id r) (rq_start rq) (rq_end rq) None)"
      using free(1) by auto
    with b c(1) \<open>b = c\<close> show "\<not> overlaps (b_start b) (b_end b) (b_start (created_row uuid u r rq s))
        (b_end (created_row uuid u r rq s))"
      by (simp add: in_overlapping_iff all_bookings_def)
  next
    fix bl assume "bl \<in> set (rows (bk_blocks s))" "bl_resource bl = b_resource (created_row uuid u r rq s)"
    then show "\<not> overlaps (bl_start bl) (bl_end bl) (b_start (created_row uuid u r rq s))
        (b_end (created_row uuid u r rq s))"
      using free(3) by simp
  qed
  then show ?thesis
    using inv perform_create_wf[OF wf]
    by (simp add: s' bk_inv_iff perform_create_frame perform_create_bookings[OF wf sub])
qed

text \<open>
  A patch is safe when it does not touch the resource and does not set the status back to
  confirmed: these two columns are written without any conflict check.
\<close>

definition patch_safe :: "patch_request \<Rightarrow> bool" where
  "patch_safe pq \<longleftrightarrow> pq_resource pq = None \<and> pq_status pq \<noteq> Some Confirmed"

lemma apply_patch_id [simp]: "b_id (apply_patch pq b) = b_id b"
  by (simp add: apply_patch_def)

lemma patch_untimed_tame:
  "patch_safe pq \<Longrightarrow> pq_start pq = None \<Longrightarrow> pq_end pq = None \<Longrightarrow> tame (apply_patch pq)"
  by (auto simp: tame_def apply_patch_def patch_safe_def split: option.splits)

lemma patch_times_checks_OkD:
  assumes "patch_times_checks cfg now s u b pq st en = None"
  obtains r where "tbl_get r_id (b_resource b) (bk_resources s) = Some r"
    "ensure_no_conflicts cfg now s r st en (Some (b_id b)) None = Inr []"
    "validate_availability_window cfg r st en = None"
    "validate_type_specific_rules cfg now r st en = None" "st < en"
  using assms ensure_no_conflicts_ok(4)
  by (fastforce simp: patch_times_checks_def split: option.splits sum.splits)

lemma patch_times_inv:
  assumes inv: "bk_inv s" and safe: "patch_safe pq"
    and obj: "get_object s u k = Inr b"
    and t: "pq_start pq = Some st" "pq_end pq = Some en"
    and ok: "patch_times_checks cfg now s u b pq st en = None"
  shows "bk_inv (upd_booking k (apply_patch pq) s)"
proof -
  obtain r where r: "tbl_get r_id (b_resource b) (bk_resources s) = Some r"
    and free: "ensure_no_conflicts cfg now s r st en (Some (b_id b)) None = Inr []"
    using ok by (rule patch_times_checks_OkD)
  from r have rid: "r_id r = b_resource b" by (simp add: tbl_get_SomeD)
  from obj have b: "b \<in> set (rows (bk_bookings s))" "b_id b = k"
    by (auto dest: get_object_SomeD)
  have wf: "tbl_wf b_id (bk_bookings s)" using inv by (simp add: bk_inv_iff)
  have only: "a = b" if "a \<in> set (rows (bk_bookings s))" "b_id a = k" for a
    using that b tbl_get_row[OF wf] by (metis option.inject)
  have st: "b_start (apply_patch pq b) = st" "b_end (apply_patch pq b) = en"
    "b_resource (apply_patch pq b) = b_resource b"
    using t safe by (simp_all add: apply_patch_def patch_safe_def)
  have none: "overlapping_bookings s (b_resource b) st en (Some k) = []"
    using ensure_no_conflicts_ok(1)[OF free] b rid by simp
  have "schedule_ok (map (\<lambda>x. if b_id x = k then apply_patch pq x else x) (rows (bk_bookings s)))
      (rows (bk_blocks s))"
  proof (rule schedule_ok_move)
    show "schedule_ok (rows (bk_bookings s)) (rows (bk_blocks s))" using inv by (simp add: bk_inv_iff)
    fix a c assume a: "a \<in> set (rows (bk_bookings s))" "b_id a = k"
      and c: "c \<in> set (rows (bk_bookings s))" "b_id c \<noteq> k"
    have "a = b" by (rule only[OF a])
    show "\<not> clash (apply_patch pq a) c"
    proof
      assume "clash (apply_patch pq a) c"
      then have "c \<in> set (overlapping_bookings s (b_resource b) st en (Some k))"
        using st c overlaps_sym
        by (auto simp: clash_def \<open>a = b\<close> in_overlapping_iff all_bookings_def)
      with none show False by simp
    qed
  next
    fix a bl assume a: "a \<in> set (rows (bk_bookings s))" "b_id a = k" and bl: "bl \<in> set (rows (bk_blocks s))"
    have "a = b" by (rule only[OF a])
    show "\<not> blocked_by_block (apply_patch pq a) bl"
      using ensure_no_conflicts_ok(3)[OF free bl] st rid
      by (auto simp: blocked_by_block_def \<open>a = b\<close> overlaps_sym)
  qed simp
  moreover have "tbl_wf b_id (tbl_update (\<lambda>x. b_id x = k) (apply_patch pq) (bk_bookings s))"
    using wf by (rule tbl_wf_update) simp
  ultimately show ?thesis using inv by (simp add: bk_inv_iff)
qed

lemma partial_update_inv:
  assumes "bk_inv s" "patch_safe pq" "partial_update cfg now u k pq s = Inr s'"
  shows "bk_inv s'"
  using assms patch_times_inv[OF assms(1,2)]
  by (auto simp: partial_update_def split: option.splits sum.splits if_splits
      intro: bk_inv_upd_booking patch_untimed_tame)

lemma delete_bookings_inv: "bk_inv s \<Longrightarrow> bk_inv (delete_bookings P s)"
  by (auto simp: bk_inv_iff delete_bookings_def Let_def tbl_wf_delete elim: schedule_ok_sub)

lemma destroy_booking_inv: "bk_inv s \<Longrightarrow> destroy_booking u k s = Inr s' \<Longrightarrow> bk_inv s'"
  by (auto simp: destroy_booking_def split: option.splits sum.splits intro: delete_bookings_inv)

lemma cancel_booking_inv: "bk_inv s \<Longrightarrow> cancel_booking now u k reason s = Inr s' \<Longrightarrow> bk_inv s'"
  by (auto simp: cancel_booking_def split: option.splits sum.splits intro: bk_inv_upd_booking)

lemma admin_cancel_inv: "bk_inv s \<Longrightarrow> admin_cancel now u k reason s = Inr s' \<Longrightarrow> bk_inv s'"
  by (auto simp: admin_cancel_def Let_def split: option.splits sum.splits intro: bk_inv_upd_booking)

lemma bulk_cancel_one_inv:
  "bk_inv (fst acc) \<Longrightarrow> bk_inv (fst (bulk_cancel_one now u accessible reason bid acc))"
  by (auto simp: bulk_cancel_one_def split: prod.split option.split intro: bk_inv_upd_booking)

lemma bulk_cancel_inv:
  assumes "bk_inv s" "bulk_cancel now u ids reason s = Inr (s', c, k)"
  shows "bk_inv s'"
proof -
  let ?acc = "map b_id (filter (\<lambda>b. b_id b \<in> set ids) (booking_queryset s u))"
  have "bk_inv (fst (fold (bulk_cancel_one now u ?acc reason) ids (s, [], [])))"
    by (rule fold_invariant[where Q = "\<lambda>_. True"]) (use assms(1) in \<open>auto intro: bulk_cancel_one_inv\<close>)
  moreover have "fold (bulk_cancel_one now u ?acc reason) ids (s, [], []) = (s', c, k)"
    using assms(2) unfolding bulk_cancel_def Let_def guarded_Inr by (elim conjE) (rule sym)
  ultimately show ?thesis by simp
qed

lemma add_participants_core:
  "same_core (fst acc) (fst (fold (add_participants_step now k n) us acc))"
proof (induction us arbitrary: acc)
  case (Cons p us)
  have "same_core (fst acc) (fst (add_participants_step now k n p acc))"
    by (cases acc) (simp add: add_participants_step_def same_core_def add_participant_row_def)
  then show ?case using same_core_trans[OF _ Cons.IH] by simp
qed simp

lemma fold_mail_core:
  "same_core s (fold (\<lambda>p t. if P p then mail_nt (u_id p) ty m t else t) us s)"
  by (rule same_core_fold) (simp add: same_core_def)

lemma perform_add_participants_core: "same_core s (perform_add_participants now u k n us s)"
proof -
  obtain t ids where r: "fold (add_participants_step now k n) us (s, []) = (t, ids)"
    by (cases "fold (add_participants_step now k n) us (s, [])")
  then have "same_core s t"
    using add_participants_core[of "(s, [])" now k n us] by simp
  then have "same_core s (create_change_audit now u k Participants_added (User_ids ids) t)"
    by (simp add: same_core_def)
  then show ?thesis
    unfolding perform_add_participants_def r prod.case by (rule same_core_trans[OF _ fold_mail_core])
qed

lemma add_participants_inv:
  "bk_inv s \<Longrightarrow> add_participants now u k ids s = Inr s' \<Longrightarrow> bk_inv s'"
  by (auto simp: add_participants_def Let_def split: option.splits sum.splits
      intro: same_core_inv[OF perform_add_participants_core])

lemma remove_participant_inv:
  "bk_inv s \<Longrightarrow> remove_participant now u k uid s = Inr s' \<Longrightarrow> bk_inv s'"
  by (auto simp: remove_participant_def split: option.splits sum.splits if_splits)
     (simp add: bk_inv_iff)

lemma check_in_inv: "bk_inv s \<Longrightarrow> check_in now u k s = Inr s' \<Longrightarrow> bk_inv s'"
  by (auto simp: check_in_def split: sum.splits intro: bk_inv_upd_booking)

lemma validate_qr_inv: "bk_inv s \<Longrightarrow> validate_qr now u q s = Inr (a, s') \<Longrightarrow> bk_inv s'"
proof -
  have log: "bk_inv (t\<lparr>bk_logs := l\<rparr>) = bk_inv t" for t l by (simp add: bk_inv_iff)
  show "bk_inv s \<Longrightarrow> validate_qr now u q s = Inr (a, s') \<Longrightarrow> bk_inv s'"
    by (auto simp: validate_qr_def log bk_inv_upd_booking split: option.splits if_splits)
qed

lemma remind_one_inv: "bk_inv s \<Longrightarrow> bk_inv (remind_one cfg now ok b s)"
proof -
  have nt: "bk_inv (t\<lparr>bk_nt := x\<rparr>) = bk_inv t" for t x by (simp add: bk_inv_iff)
  show "bk_inv s \<Longrightarrow> ?thesis"
    by (simp add: remind_one_def Let_def bk_inv_upd_booking nt)
qed

lemma send_booking_reminders_inv: "bk_inv s \<Longrightarrow> bk_inv (send_booking_reminders cfg now ok s)"
  unfolding send_booking_reminders_def
  by (rule fold_invariant[where Q = "\<lambda>_. True"]) (auto intro: remind_one_inv)

lemma complete_one_inv: "bk_inv s \<Longrightarrow> bk_inv (complete_one now b s)"
  by (simp add: complete_one_def Let_def bk_inv_upd_booking split: option.split)

lemma auto_complete_inv: "bk_inv s \<Longrightarrow> bk_inv (auto_complete_bookings now s)"
  unfolding auto_complete_bookings_def
  by (rule fold_invariant[where Q = "\<lambda>_. True"]) (auto intro: complete_one_inv)

lemma send_booking_reminder_inv: "bk_inv s \<Longrightarrow> bk_inv (send_booking_reminder now k s)"
  by (auto simp: send_booking_reminder_def split: option.splits
      intro!: fold_invariant[where Q = "\<lambda>_. True" and P = bk_inv])

lemma mark_no_show_inv: "bk_inv s \<Longrightarrow> bk_inv (mark_no_show_bookings cfg now s)"
  by (simp add: mark_no_show_bookings_def bk_inv_upd)

text \<open>Resources.\<close>

lemma apply_equipment_id: "r_id (apply_equipment_to_resource data r) = r_id r"
  unfolding apply_equipment_to_resource_def
  by (rule fold_invariant[where Q = "\<lambda>_. True" and P = "\<lambda>x. r_id x = r_id r"])
     (auto split: prod.splits json.splits)

lemma resource_ids [simp]:
  "r_id (apply_resource_request rr r) = r_id r"
  "r_id (sync_equipment rr r) = r_id r"
  "r_id (new_resource rr i) = i"
  by (auto simp: apply_resource_request_def sync_equipment_def apply_equipment_id new_resource_def
      default_resource_def split: option.splits json.splits)

lemma insert_resource_inv: "bk_inv s \<Longrightarrow> bk_inv (insert_resource rr s)"
  by (auto simp: bk_inv_iff insert_resource_def intro!: tbl_wf_insert)

lemma set_resource_inv: "bk_inv s \<Longrightarrow> bk_inv (set_resource r s)"
  by (auto simp: bk_inv_iff set_resource_def intro: tbl_wf_save)

lemma cancel_future_inv: "bk_inv s \<Longrightarrow> bk_inv (cancel_future_bookings now u r s)"
  unfolding cancel_future_bookings_def
  by (rule fold_invariant[where Q = "\<lambda>_. True"]) (auto simp: cancel_future_one_def intro: bk_inv_upd_booking)

lemma create_resource_inv: "bk_inv s \<Longrightarrow> create_resource u rr s = Inr s' \<Longrightarrow> bk_inv s'"
  by (auto simp: create_resource_def intro: insert_resource_inv)

lemma bulk_create_resources_inv:
  "bk_inv s \<Longrightarrow> bulk_create_resources sh u rr n p s = Inr s' \<Longrightarrow> bk_inv s'"
  by (auto simp: bulk_create_resources_def intro: insert_resource_inv
      intro!: fold_invariant[where Q = "\<lambda>_. True" and P = bk_inv])

lemma update_resource_inv: "bk_inv s \<Longrightarrow> update_resource now u k rr s = Inr s' \<Longrightarrow> bk_inv s'"
  by (auto simp: update_resource_def Let_def split: option.splits sum.splits if_splits
      intro: cancel_future_inv set_resource_inv)

lemma activate_inv: "bk_inv s \<Longrightarrow> activate u k s = Inr s' \<Longrightarrow> bk_inv s'"
  by (auto simp: activate_def split: option.splits sum.splits intro: set_resource_inv)

lemma deactivate_inv: "bk_inv s \<Longrightarrow> deactivate now u k s = Inr s' \<Longrightarrow> bk_inv s'"
  by (auto simp: deactivate_def split: option.splits sum.splits if_splits
      intro: cancel_future_inv set_resource_inv)

lemma cascade_resource_inv:
  assumes "bk_inv s" shows "bk_inv (cascade_resource P s)"
proof -
  let ?gone = "map r_id (tbl_filter P (bk_resources s))"
  let ?t = "upd_bookings (\<lambda>b. case b_recurring b of None \<Rightarrow> False
      | Some k \<Rightarrow> k \<in> set (map rb_id (tbl_filter (\<lambda>rb. rb_resource rb \<in> set ?gone) (bk_recurring s))))
      (\<lambda>b. b\<lparr>b_recurring := None\<rparr>) (delete_bookings (\<lambda>b. b_resource b \<in> set ?gone) s)"
  have t: "bk_inv ?t" by (intro bk_inv_upd delete_bookings_inv assms) simp
  have "schedule_ok (rows (bk_bookings ?t)) (rows (tbl_delete (\<lambda>bl. bl_resource bl \<in> set ?gone) (bk_blocks ?t)))"
    using t unfolding bk_inv_iff by (elim conjE schedule_ok_sub) auto
  then show ?thesis
    using t unfolding cascade_resource_def Let_def bk_inv_iff by (simp add: tbl_wf_delete)
qed

lemma destroy_resource_inv: "bk_inv s \<Longrightarrow> destroy_resource now u k s = Inr s' \<Longrightarrow> bk_inv s'"
  by (auto simp: destroy_resource_def split: option.splits sum.splits intro: cascade_resource_inv)

lemma bulk_resources_inv:
  "bk_inv s \<Longrightarrow> bulk_activate u ids s = Inr s' \<Longrightarrow> bk_inv s'"
  "bk_inv s \<Longrightarrow> bulk_deactivate u ids s = Inr s' \<Longrightarrow> bk_inv s'"
  "bk_inv s \<Longrightarrow> bulk_delete u ids s = Inr s' \<Longrightarrow> bk_inv s'"
  by (auto simp: bulk_activate_def bulk_deactivate_def bulk_delete_def bk_inv_iff
      intro!: tbl_wf_update cascade_resource_inv[unfolded bk_inv_iff])

text \<open>Blocks: what overlaps the new block is cancelled.\<close>

lemma cancel_for_block_eq:
  "bk_bookings (fold (cancel_for_block_one now u r m) ds s) =
     tbl_update (\<lambda>x. b_id x \<in> b_id ` set ds) (cancel_row u m) (bk_bookings s)"
  by (rule fold_upd_exact) (simp_all add: cancel_for_block_one_def)

lemma cancel_for_block_frame:
  "bk_resources (fold (cancel_for_block_one now u r m) ds s) = bk_resources s"
  "bk_blocks (fold (cancel_for_block_one now u r m) ds s) = bk_blocks s"
  "bk_recurring (fold (cancel_for_block_one now u r m) ds s) = bk_recurring s"
  by (rule fold_frame; simp add: cancel_for_block_one_def)+

lemma schedule_ok_block:
  assumes "schedule_ok bs bls"
    and "\<And>b. b \<in> set bs \<Longrightarrow> \<not> blocked_by_block b bl"
  shows "schedule_ok bs (bls @ [bl])"
  using assms by (auto simp: schedule_ok_def)

lemma block_resource_inv:
  assumes inv: "bk_inv s" and ok: "block_resource now u k st en reason s = Inr s'"
  shows "bk_inv s'"
proof -
  obtain r where r: "get_resource s u k = Inr r"
    and s': "s' = cancel_overlapping_bookings_for_block now u r st en reason
      (s\<lparr>bk_blocks := tbl_insert (\<lambda>i. \<lparr>bl_id = i, bl_resource = r_id r, bl_blocked_by = Some (u_id u),
          bl_start = st, bl_end = en, bl_reason = reason\<rparr>) (bk_blocks s)\<rparr>)"
    using ok by (auto simp: block_resource_def split: option.splits sum.splits)
  let ?bl = "\<lparr>bl_id = next_id (bk_blocks s), bl_resource = r_id r, bl_blocked_by = Some (u_id u),
          bl_start = st, bl_end = en, bl_reason = reason\<rparr>"
  let ?m = "Str (if reason = [] then ''Resource blocked by administrator'' else reason)"
  let ?ov = "overlapping_bookings s (r_id r) st en None"
  let ?f = "\<lambda>x. if b_id x \<in> b_id ` set ?ov then cancel_row u ?m x else x"
  have ov: "overlapping_bookings (s\<lparr>bk_blocks := x\<rparr>) (r_id r) st en None = ?ov" for x
    by (simp add: overlapping_bookings_def)
  have "schedule_ok (map ?f (rows (bk_bookings s))) (rows (bk_blocks s) @ [?bl])"
  proof (rule schedule_ok_block)
    show "schedule_ok (map ?f (rows (bk_bookings s))) (rows (bk_blocks s))"
      using inv by (intro schedule_ok_tame tame_if) (simp_all add: bk_inv_iff)
    fix b assume "b \<in> set (map ?f (rows (bk_bookings s)))"
    then obtain c where c: "c \<in> set (rows (bk_bookings s))" "b = ?f c" by auto
    show "\<not> blocked_by_block b ?bl"
    proof
      assume blk: "blocked_by_block b ?bl"
      with c have bc: "b = c" "b_id c \<notin> b_id ` set ?ov"
        by (auto simp: blocked_by_block_def split: if_splits)
      have "c \<in> set ?ov"
        using blk c(1) unfolding bc(1) by (simp add: in_overlapping_iff all_bookings_def blocked_by_block_def)
      with bc(2) show False by blast
    qed
  qed
  moreover have "tbl_wf b_id (tbl_update (\<lambda>x. b_id x \<in> b_id ` set ?ov) (cancel_row u ?m) (bk_bookings s))"
    using inv by (intro tbl_wf_update) (simp_all add: bk_inv_iff)
  moreover have "tbl_wf bl_id (bk_blocks s)" "tbl_wf r_id (bk_resources s)" "tbl_wf rb_id (bk_recurring s)"
    using inv by (simp_all add: bk_inv_iff)
  ultimately show ?thesis
    unfolding s' cancel_overlapping_bookings_for_block_def bk_inv_iff cancel_for_block_eq cancel_for_block_frame ov
    by (auto intro!: tbl_wf_insert)
qed

lemma unblock_inv: "bk_inv s \<Longrightarrow> unblock u k bid s = Inr s' \<Longrightarrow> bk_inv s'"
  by (auto simp: unblock_def bk_inv_iff split: option.splits sum.splits
      intro!: tbl_wf_delete elim: schedule_ok_sub)

text \<open>Recurring series.\<close>

lemma create_occurrence_inv:
  assumes inv: "bk_inv (fst acc)"
  shows "bk_inv (fst (create_occurrence cfg now uuid r rb d acc))"
proof -
  obtain s sk where acc: "acc = (s, sk)" by (cases acc)
  let ?st = "combine_aware cfg d (rb_start_time rb)" let ?en = "combine_aware cfg d (rb_end_time rb)"
  have "bk_inv (s\<lparr>bk_bookings := tbl_insert (\<lambda>i. ensure_capsule_booking_qr (r_type r) (uuid i)
      (recurring_booking_row r rb ?st ?en i)) (bk_bookings s)\<rparr>)"
    if free: "ensure_no_conflicts cfg now s r ?st ?en None None = Inr ds" for ds
  proof -
    have none: "overlapping_bookings s (r_id r) ?st ?en None = []"
      using ensure_no_conflicts_ok(1,4)[OF free] by simp
    then have "\<not> overlaps (b_start b) (b_end b) ?st ?en"
      if "b \<in> set (rows (bk_bookings s))" "b_resource b = r_id r" "b_status b = Confirmed" for b
      using that in_overlapping_iff[of b s "r_id r" ?st ?en None] by (simp add: all_bookings_def)
    then have "schedule_ok (rows (bk_bookings s) @ [ensure_capsule_booking_qr (r_type r)
        (uuid (next_id (bk_bookings s))) (recurring_booking_row r rb ?st ?en (next_id (bk_bookings s)))])
        (rows (bk_blocks s))"
      using inv ensure_no_conflicts_ok(3)[OF free]
      by (intro schedule_ok_insert) (auto simp: acc bk_inv_iff recurring_booking_row_def)
    then show ?thesis
      using inv by (auto simp: acc bk_inv_iff recurring_booking_row_def intro!: tbl_wf_insert)
  qed
  with inv show ?thesis
    by (auto simp: acc create_occurrence_def Let_def split: sum.split)
qed

lemma create_bookings_for_recurring_inv:
  "bk_inv s \<Longrightarrow> bk_inv (fst (create_bookings_for_recurring cfg now uuid rb a b s))"
  by (auto simp: create_bookings_for_recurring_def split: option.splits
      intro!: fold_invariant[where Q = "\<lambda>_. True" and P = "\<lambda>x. bk_inv (fst x)"] create_occurrence_inv)

lemma bk_inv_recurring:
  "bk_inv s \<Longrightarrow> tbl_wf rb_id t \<Longrightarrow> bk_inv (s\<lparr>bk_recurring := t\<rparr>)"
  by (simp add: bk_inv_iff)

lemma bk_inv_recurringD: "bk_inv s \<Longrightarrow> tbl_wf rb_id (bk_recurring s)"
  by (simp add: bk_inv_iff)

lemma extend_series_inv: "bk_inv s \<Longrightarrow> bk_inv (extend_series cfg now uuid rb s)"
  using create_bookings_for_recurring_inv
  by (auto simp: extend_series_def Let_def split: option.split
      intro!: bk_inv_recurring tbl_wf_save bk_inv_recurringD)

lemma generate_recurring_inv: "bk_inv s \<Longrightarrow> bk_inv (generate_recurring_bookings cfg now uuid s)"
  unfolding generate_recurring_bookings_def
  by (rule fold_invariant[where Q = "\<lambda>_. True"]) (auto intro: extend_series_inv)

lemma perform_create_recurring_inv:
  "bk_inv s \<Longrightarrow> bk_inv (fst (perform_create_recurring cfg now uuid u r rc s))"
  unfolding perform_create_recurring_def Let_def
  by (intro create_bookings_for_recurring_inv bk_inv_recurring tbl_wf_insert)
     (auto simp: new_series_def Let_def dest: bk_inv_recurringD)

lemma create_recurring_inv:
  "bk_inv s \<Longrightarrow> create_recurring cfg now uuid u rc s = Inr p \<Longrightarrow> bk_inv (fst p)"
  by (auto simp: create_recurring_def split: option.splits intro: perform_create_recurring_inv)

lemma patch_recurring_inv: "bk_inv s \<Longrightarrow> patch_recurring u k rp s = Inr s' \<Longrightarrow> bk_inv s'"
  by (auto simp: patch_recurring_def split: option.splits
      intro!: bk_inv_recurring tbl_wf_save bk_inv_recurringD)

lemma destroy_recurring_inv: "bk_inv s \<Longrightarrow> destroy_recurring now u k s = Inr s' \<Longrightarrow> bk_inv s'"
  by (auto simp: destroy_recurring_def Let_def split: option.splits if_splits
      intro!: bk_inv_recurring tbl_wf_delete bk_inv_recurringD bk_inv_upd delete_bookings_inv)

end
