(* ===== verification/BookingProps.thy ===== *)
theory BookingProps
  imports BookingSystem "HOL-Library.Multiset"
begin

text \<open>
  The operations of the booking module as one system, the invariant for every run of it, and
  the properties of the module with their witnesses.
\<close>

section \<open>The system of operations\<close>

datatype bk_op =
    Op_create datetime "nat \<Rightarrow> nat" user create_request
  | Op_patch datetime user nat patch_request
  | Op_destroy user nat
  | Op_cancel datetime user nat string
  | Op_admin_cancel datetime user nat string
  | Op_bulk_cancel datetime user "nat list" string
  | Op_add_participants datetime user nat "nat list"
  | Op_remove_participant datetime user nat "nat option"
  | Op_check_in datetime user nat
  | Op_validate_qr datetime user nat
  | Op_reminders datetime "nat \<Rightarrow> bool"
  | Op_auto_complete datetime
  | Op_reminder datetime nat
  | Op_no_show datetime
  | Op_create_resource user resource_request
  | Op_bulk_create "nat \<Rightarrow> string" user resource_request nat string
  | Op_update_resource datetime user nat resource_request
  | Op_activate user nat
  | Op_deactivate datetime user nat
  | Op_destroy_resource datetime user nat
  | Op_bulk_activate user "nat list"
  | Op_bulk_deactivate user "nat list"
  | Op_bulk_delete user "nat list"
  | Op_block datetime user nat datetime datetime string
  | Op_unblock user nat nat
  | Op_create_recurring datetime "nat \<Rightarrow> nat" user recurring_request
  | Op_patch_recurring user nat recurring_patch
  | Op_destroy_recurring datetime user nat
  | Op_generate_recurring datetime "nat \<Rightarrow> nat"

fun exec_bk :: "settings \<Rightarrow> bk_op \<Rightarrow> bk_state \<Rightarrow> api_error + bk_state" where
  "exec_bk cfg (Op_create now uuid u rq) s = create_booking cfg now uuid u rq s"
| "exec_bk cfg (Op_patch now u k pq) s = partial_update cfg now u k pq s"
| "exec_bk cfg (Op_destroy u k) s = destroy_booking u k s"
| "exec_bk cfg (Op_cancel now u k reason) s = cancel_booking now u k reason s"
| "exec_bk cfg (Op_admin_cancel now u k reason) s = admin_cancel now u k reason s"
| "exec_bk cfg (Op_bulk_cancel now u ids reason) s = map_sum id fst (bulk_cancel now u ids reason s)"
| "exec_bk cfg (Op_add_participants now u k ids) s = add_participants now u k ids s"
| "exec_bk cfg (Op_remove_participant now u k uid) s = remove_participant now u k uid s"
| "exec_bk cfg (Op_check_in now u k) s = check_in now u k s"
| "exec_bk cfg (Op_validate_qr now u q) s = map_sum id snd (validate_qr now u q s)"
| "exec_bk cfg (Op_reminders now ok) s = Inr (send_booking_reminders cfg now ok s)"
| "exec_bk cfg (Op_auto_complete now) s = Inr (auto_complete_bookings now s)"
| "exec_bk cfg (Op_reminder now k) s = Inr (send_booking_reminder now k s)"
| "exec_bk cfg (Op_no_show now) s = Inr (mark_no_show_bookings cfg now s)"
| "exec_bk cfg (Op_create_resource u rr) s = create_resource u rr s"
| "exec_bk cfg (Op_bulk_create sh u rr n p) s = bulk_create_resources sh u rr n p s"
| "exec_bk cfg (Op_update_resource now u k rr) s = update_resource now u k rr s"
| "exec_bk cfg (Op_activate u k) s = activate u k s"
| "exec_bk cfg (Op_deactivate now u k) s = deactivate now u k s"
| "exec_bk cfg (Op_destroy_resource now u k) s = destroy_resource now u k s"
| "exec_bk cfg (Op_bulk_activate u ids) s = bulk_activate u ids s"
| "exec_bk cfg (Op_bulk_deactivate u ids) s = bulk_deactivate u ids s"
| "exec_bk cfg (Op_bulk_delete u ids) s = bulk_delete u ids s"
| "exec_bk cfg (Op_block now u k st en reason) s = block_resource now u k st en reason s"
| "exec_bk cfg (Op_unblock u k bid) s = unblock u k bid s"
| "exec_bk cfg (Op_create_recurring now uuid u rc) s = map_sum id fst (create_recurring cfg now uuid u rc s)"
| "exec_bk cfg (Op_patch_recurring u k rp) s = patch_recurring u k rp s"
| "exec_bk cfg (Op_destroy_recurring now u k) s = destroy_recurring now u k s"
| "exec_bk cfg (Op_generate_recurring now uuid) s = Inr (generate_recurring_bookings cfg now uuid s)"

definition op_safe :: "bk_op \<Rightarrow> bool" where
  "op_safe x = (case x of Op_patch now u k pq \<Rightarrow> patch_safe pq | _ \<Rightarrow> True)"

lemma map_sum_Inr_iff: "map_sum f g r = Inr y \<longleftrightarrow> (\<exists>x. r = Inr x \<and> y = g x)"
  by (cases r) auto

lemmas bk_inv_ops = create_booking_inv destroy_booking_inv cancel_booking_inv admin_cancel_inv
  add_participants_inv remove_participant_inv check_in_inv send_booking_reminders_inv
  auto_complete_inv send_booking_reminder_inv mark_no_show_inv create_resource_inv
  bulk_create_resources_inv update_resource_inv activate_inv deactivate_inv destroy_resource_inv
  bulk_resources_inv block_resource_inv unblock_inv patch_recurring_inv destroy_recurring_inv
  generate_recurring_inv

lemma exec_bk_inv:
  assumes "bk_inv s" "op_safe x" "exec_bk cfg x s = Inr s'"
  shows "bk_inv s'"
proof (cases x)
  case (Op_patch now u k pq)
  then show ?thesis using assms partial_update_inv by (simp add: op_safe_def)
next
  case (Op_bulk_cancel now u ids reason)
  then show ?thesis using assms bulk_cancel_inv by (auto simp: map_sum_Inr_iff)
next
  case (Op_validate_qr now u q)
  then show ?thesis using assms validate_qr_inv by (auto simp: map_sum_Inr_iff)
next
  case (Op_create_recurring now uuid u rc)
  then show ?thesis using assms create_recurring_inv by (auto simp: map_sum_Inr_iff)
qed (use assms in \<open>auto intro: bk_inv_ops\<close>)

interpretation bk: op_system "exec_bk cfg" bk_inv op_safe for cfg
  by unfold_locales (rule exec_bk_inv)

section \<open>A concrete centre for the witnesses\<close>

definition demo_booking :: "nat \<Rightarrow> nat \<Rightarrow> booking_status \<Rightarrow> datetime \<Rightarrow> datetime \<Rightarrow> int \<Rightarrow> booking" where
  "demo_booking i uid st a b p = \<lparr>b_id = i, b_resource = 1, b_user = uid, b_company = Some 1,
     b_recurring = None, b_start = a, b_end = b, b_status = st, b_priority = p, b_description = [],
     b_cancelled_by = None, b_cancel_reason = Str [], b_reminder_sent = False,
     b_checked_in_at = None, b_qr_code = None, b_qr_image = False\<rparr>"

text \<open>One desk, an employee (1) and a guest (2), and the given bookings.\<close>

definition demo_state :: "resource \<Rightarrow> booking list \<Rightarrow> bk_state" where
  "demo_state r bs = \<lparr>bk_acc = \<lparr>ac_users = Table [demo_user 1 Employee (Some 1), demo_user 2 Guest None] 3,
       ac_companies = Table [demo_company] 2\<rparr>,
     bk_resources = Table [r] 2, bk_bookings = Table bs (Suc (length bs)), bk_blocks = empty_table,
     bk_participants = empty_table, bk_recurring = empty_table, bk_cancel_audits = empty_table,
     bk_change_audits = empty_table, bk_logs = empty_table, bk_nt = demo_nt\<rparr>"

definition status_patch :: "booking_status option \<Rightarrow> patch_request" where
  "status_patch st = \<lparr>pq_start = None, pq_end = None, pq_raw_start = [], pq_raw_end = [],
     pq_resource = None, pq_status = st, pq_description = None, pq_cancelled_by = None\<rparr>"

definition demo_create :: "datetime \<Rightarrow> datetime \<Rightarrow> create_request" where
  "demo_create st en = \<lparr>rq_resource = None, rq_resource_id = Some 1, rq_start = st, rq_end = en,
     rq_raw_start = ''2026-01-05T10:00:00Z'', rq_raw_end = ''2026-01-05T11:00:00Z'',
     rq_description = [], rq_participant_ids = []\<rparr>"

lemmas demo_defs = demo_company_def demo_user_def demo_nt_def demo_booking_def demo_state_def
  status_patch_def demo_create_def default_resource_def default_settings_def time_units

lemma demo_inv: "bk_inv (demo_state (default_resource 1) [])"
  by (simp add: bk_inv_iff demo_state_def tbl_wf_def schedule_ok_def default_resource_def empty_table_def)

section \<open>Safety\<close>

text \<open>
  C1: whatever sequence of requests and periodic tasks is run from a sound state, as long as no
  generic PATCH rewrites the resource or sets a status back to confirmed, no two confirmed
  bookings of a resource overlap and no confirmed booking lies on a block of its resource.
  Requests that fail are part of the sequence: they leave the state as it is.
\<close>

theorem no_double_booking_in_any_run:
  assumes "bk_inv s" "list_all op_safe ops"
  shows "no_double_booking (run_ops (exec_bk cfg) ops s) \<and> no_blocked_booking (run_ops (exec_bk cfg) ops s)"
  using bk.run_inv[OF assms] by (simp add: bk_inv_def)

theorem no_double_booking_in_any_run_witness:
  "no_double_booking (run_ops (exec_bk default_settings)
     [Op_create 0 id (demo_user 1 Employee (Some 1)) (demo_create (hours 4) (hours 5)),
      Op_no_show (hours 6), Op_patch 0 (demo_user 1 Employee (Some 1)) 1 (status_patch None)]
     (demo_state (default_resource 1) []))"
proof -
  have "list_all op_safe
     [Op_create 0 id (demo_user 1 Employee (Some 1)) (demo_create (hours 4) (hours 5)),
      Op_no_show (hours 6), Op_patch 0 (demo_user 1 Employee (Some 1)) 1 (status_patch None)]"
    by (simp add: op_safe_def patch_safe_def status_patch_def)
  from no_double_booking_in_any_run[OF demo_inv this, of default_settings] show ?thesis by simp
qed

text \<open>
  C2: the exception is real. A user who sees a cancelled booking whose slot has since been taken
  by another confirmed booking can PATCH its status back to confirmed: the request succeeds and
  the resource is double booked, because the generic update runs no conflict check.
\<close>

theorem patch_can_double_book:
  assumes "tbl_wf b_id (bk_bookings s)"
    and "IsGuestOrCompanyMember (Some u) = None"
    and "a \<in> set (all_bookings s)" "booking_visible s u a" "b_status a = Cancelled"
    and "b \<in> set (all_bookings s)" "b_id b \<noteq> b_id a" "b_status b = Confirmed"
      "b_resource b = b_resource a" "overlaps (b_start a) (b_end a) (b_start b) (b_end b)"
  shows "\<exists>s'. partial_update cfg now u (b_id a) (status_patch (Some Confirmed)) s = Inr s'
    \<and> \<not> no_double_booking s'"
proof -
  let ?pq = "status_patch (Some Confirmed)"
  have "find (\<lambda>x. b_id x = b_id a) (filter (booking_visible s u) (rows (bk_bookings s))) = Some a"
    using assms(1,3,4)
    by (intro find_key_unique) (auto simp: all_bookings_def tbl_wf_def distinct_map inj_on_def)
  then have obj: "get_object s u (b_id a) = Inr a"
    by (simp add: get_object_def booking_queryset_def tbl_filter_def)
  let ?s' = "upd_booking (b_id a) (apply_patch ?pq) s"
  have run: "partial_update cfg now u (b_id a) ?pq s = Inr ?s'"
    using assms(2) obj by (simp add: partial_update_def status_patch_def patch_field_errors_def)
  have "apply_patch ?pq a \<in> set (all_bookings ?s')" "b \<in> set (all_bookings ?s')"
    using assms(3,6,7) by (force simp: all_bookings_def)+
  moreover have "clash (apply_patch ?pq a) b"
    using assms by (auto simp: clash_def apply_patch_def status_patch_def)
  ultimately show ?thesis using run by (auto simp: no_double_booking_def)
qed

theorem patch_can_double_book_witness:
  "\<exists>s'. partial_update default_settings 0 (demo_user 1 Employee (Some 1)) 1 (status_patch (Some Confirmed))
     (demo_state (default_resource 1) [demo_booking 1 1 Cancelled (hours 4) (hours 6) 1,
        demo_booking 2 2 Confirmed (hours 5) (hours 7) 1]) = Inr s' \<and> \<not> no_double_booking s'"
  using patch_can_double_book[of "demo_state (default_resource 1)
      [demo_booking 1 1 Cancelled (hours 4) (hours 6) 1, demo_booking 2 2 Confirmed (hours 5) (hours 7) 1]"
      "demo_user 1 Employee (Some 1)" "demo_booking 1 1 Cancelled (hours 4) (hours 6) 1"
      "demo_booking 2 2 Confirmed (hours 5) (hours 7) 1" default_settings 0]
  by (simp add: demo_defs all_bookings_def tbl_wf_def permission_defs booking_visible_def overlaps_def)

section \<open>Creation\<close>

text \<open>
  C3: a booking is only made when every rule holds: the slot lies in the future and within the
  lead time, in the opening hours and on an open day of the resource (a parking space is booked
  for whole days), its length is within the limits of the resource, the user may use the
  resource, a desk user holds no other desk then, and the user is below the active limit. The
  new row is confirmed, carries the user's priority, and is the last row of the table. No conflict is
  left: no other confirmed booking and no block of the resource overlaps it any more.
\<close>

theorem create_booking_sound:
  assumes "bk_inv s" "create_booking cfg now uuid u rq s = Inr s'"
  shows "\<exists>r. r \<in> set (rows (bk_resources s))
    \<and> now < rq_start rq \<and> rq_start rq < rq_end rq
    \<and> local_date (UTC_OFFSET cfg) (rq_start rq)
        \<le> local_date (UTC_OFFSET cfg) (now + days (r_advance_booking_days r))
    \<and> validate_access (bk_acc s) r u = None
    \<and> weekday (local_date (UTC_OFFSET cfg) (rq_start rq)) \<in> set (available_weekdays r)
    \<and> (r_type r \<noteq> Parking \<longrightarrow> local_date (UTC_OFFSET cfg) (rq_start rq) = local_date (UTC_OFFSET cfg) (rq_end rq)
         \<and> r_available_from r \<le> local_time (UTC_OFFSET cfg) (rq_start rq)
         \<and> local_time (UTC_OFFSET cfg) (rq_end rq) \<le> r_available_until r
         \<and> (r_min_duration_minutes r \<noteq> 0 \<longrightarrow> minutes (r_min_duration_minutes r) \<le> rq_end rq - rq_start rq)
         \<and> (r_max_duration_minutes r \<noteq> 0 \<longrightarrow> rq_end rq - rq_start rq \<le> minutes (r_max_duration_minutes r)))
    \<and> (r_type r = Parking \<longrightarrow> parking_whole_day cfg (rq_start rq) (rq_end rq))
    \<and> (r_type r = Meeting_room \<longrightarrow> minutes 30 \<le> rq_end rq - rq_start rq \<and> rq_end rq - rq_start rq \<le> minutes 240)
    \<and> (r_type r = Capsule \<longrightarrow> minutes 60 \<le> rq_end rq - rq_start rq \<and> rq_end rq - rq_start rq \<le> minutes 480)
    \<and> (r_type r = Desk \<longrightarrow> (\<forall>b \<in> set (all_bookings s). b_user b = u_id u \<and> has_type s Desk b
         \<and> b_status b = Confirmed \<longrightarrow> \<not> overlaps (b_start b) (b_end b) (rq_start rq) (rq_end rq)))
    \<and> active_count now s (u_id u) < MAX_ACTIVE_BOOKINGS_PER_USER cfg
    \<and> last (all_bookings s') = created_row uuid u r rq s
    \<and> (\<forall>b \<in> set (all_bookings s'). b_resource b = r_id r \<and> b_status b = Confirmed
         \<and> overlaps (b_start b) (b_end b) (rq_start rq) (rq_end rq) \<longrightarrow> b = created_row uuid u r rq s)
    \<and> (\<forall>bl \<in> set (rows (bk_blocks s)). bl_resource bl = r_id r \<longrightarrow>
         \<not> overlaps (bl_start bl) (bl_end bl) (rq_start rq) (rq_end rq))"
proof -
  obtain r ds where v: "create_validate cfg now s rq = Inr r"
    and chk: "create_checks cfg now s u r (rq_start rq) (rq_end rq) = Inr ds"
    and s': "s' = perform_create now uuid u r rq ds s"
    using assms(2) by (rule create_booking_OkD)
  have wf: "tbl_wf b_id (bk_bookings s)" using assms(1) by (simp add: bk_inv_iff)
  have r: "r \<in> set (rows (bk_resources s))"
    using v by (auto simp: create_validate_def resolve_resource_def split: option.splits sum.splits
        dest: tbl_get_SomeD)
  have rules: "rq_start rq < rq_end rq" "now < rq_start rq"
    "validate_type_specific_rules cfg now r (rq_start rq) (rq_end rq) = None"
    using v by (auto simp: create_validate_def split: option.splits sum.splits)
  note c = create_checks_OkD[OF chk]
  have sub: "set ds \<subseteq> set (rows (bk_bookings s))"
    using ensure_no_conflicts_ok(1)[OF c(2)] by (auto simp: in_overlapping_iff all_bookings_def)
  then have last: "last (all_bookings s') = created_row uuid u r rq s"
    by (simp add: s' all_bookings_def perform_create_bookings[OF wf])
  have mem: "created_row uuid u r rq s \<in> set (all_bookings s')"
    by (simp add: s' all_bookings_def perform_create_bookings[OF wf sub])
  have inv: "bk_inv s'" by (rule create_booking_inv[OF assms])
  have alone: "\<forall>b \<in> set (all_bookings s'). b_resource b = r_id r \<and> b_status b = Confirmed
       \<and> overlaps (b_start b) (b_end b) (rq_start rq) (rq_end rq) \<longrightarrow> b = created_row uuid u r rq s"
  proof (intro ballI impI)
    fix b assume b: "b \<in> set (all_bookings s')" "b_resource b = r_id r \<and> b_status b = Confirmed
       \<and> overlaps (b_start b) (b_end b) (rq_start rq) (rq_end rq)"
    have "\<not> clash b (created_row uuid u r rq s)"
      using inv mem b(1) by (simp add: bk_inv_def no_double_booking_def)
    then have "b_id b = b_id (created_row uuid u r rq s)" using b(2) by (simp add: clash_def)
    moreover have "inj_on b_id (set (all_bookings s'))"
      using inv by (simp add: bk_inv_iff tbl_wf_def all_bookings_def distinct_map)
    ultimately show "b = created_row uuid u r rq s" using mem b(1) by (auto simp only: inj_on_def)
  qed
  note unblocked = ensure_no_conflicts_ok(3)[OF c(2)]
  have desk: "\<forall>b \<in> set (all_bookings s). b_user b = u_id u \<and> has_type s Desk b
       \<and> b_status b = Confirmed \<longrightarrow> \<not> overlaps (b_start b) (b_end b) (rq_start rq) (rq_end rq)"
    if "r_type r = Desk"
    using c(3) that by (auto simp: ensure_no_user_desk_overlap_def tbl_filter_def filter_empty_conv
        overlaps_def all_bookings_def)
  show ?thesis
    using r rules c(1,4,5,6) desk last alone unblocked
    by (intro exI[of _ r])
       (auto simp: validate_type_specific_rules_def validate_availability_window_def Let_def
         validate_resource_duration_limits_def validate_user_active_limit_def duration_between_def
         MEETING_ROOM_MIN_MINUTES_def MEETING_ROOM_MAX_MINUTES_def CAPSULE_MIN_MINUTES_def
         CAPSULE_MAX_MINUTES_def split: if_splits)
qed

lemma demo_create_runs:
  "is_ok (create_booking default_settings 0 id (demo_user 1 Employee (Some 1)) (demo_create (hours 4) (hours 5))
     (demo_state (default_resource 1) [demo_booking 1 2 Confirmed (hours 4) (hours 6) 1]))"
  by code_simp

theorem create_booking_sound_witness:
  "\<exists>s'. create_booking default_settings 0 id (demo_user 1 Employee (Some 1)) (demo_create (hours 4) (hours 5))
     (demo_state (default_resource 1) [demo_booking 1 2 Confirmed (hours 4) (hours 6) 1]) = Inr s'
   \<and> active_count 0 (demo_state (default_resource 1) [demo_booking 1 2 Confirmed (hours 4) (hours 6) 1]) 1 < 5
   \<and> demo_booking 1 2 Confirmed (hours 4) (hours 6) 1 \<notin> set (all_bookings s')"
proof -
  let ?s = "demo_state (default_resource 1) [demo_booking 1 2 Confirmed (hours 4) (hours 6) 1]"
  have inv: "bk_inv ?s"
    by (simp add: bk_inv_iff demo_defs tbl_wf_def schedule_ok_def empty_table_def clash_def)
  obtain s' where ok: "create_booking default_settings 0 id (demo_user 1 Employee (Some 1))
      (demo_create (hours 4) (hours 5)) ?s = Inr s'"
    using demo_create_runs by (auto simp: is_ok_iff)
  show ?thesis
  proof (intro exI[of _ s'] conjI ok)
    let ?b = "demo_booking 1 2 Confirmed (hours 4) (hours 6) 1"
    obtain r where r: "r \<in> set (rows (bk_resources ?s))"
        "active_count 0 ?s (u_id (demo_user 1 Employee (Some 1))) < MAX_ACTIVE_BOOKINGS_PER_USER default_settings"
        "\<forall>b \<in> set (all_bookings s'). b_resource b = r_id r \<and> b_status b = Confirmed
           \<and> overlaps (b_start b) (b_end b) (rq_start (demo_create (hours 4) (hours 5))) (rq_end (demo_create (hours 4) (hours 5)))
           \<longrightarrow> b = created_row id (demo_user 1 Employee (Some 1)) r (demo_create (hours 4) (hours 5)) ?s"
      using create_booking_sound[OF inv ok] by (elim exE conjE)
    show "active_count 0 ?s 1 < 5" using r(2) by (simp add: demo_user_def default_settings_def)
    have "b_id ?b \<noteq> b_id (created_row id (demo_user 1 Employee (Some 1)) r (demo_create (hours 4) (hours 5)) ?s)"
      by (simp add: demo_booking_def demo_state_def)
    moreover have "b_resource ?b = r_id r" using r(1) by (simp add: demo_state_def demo_booking_def default_resource_def)
    moreover have "b_status ?b = Confirmed" "overlaps (b_start ?b) (b_end ?b)
        (rq_start (demo_create (hours 4) (hours 5))) (rq_end (demo_create (hours 4) (hours 5)))" by code_simp+
    ultimately show "?b \<notin> set (all_bookings s')" using r(3) by (metis (no_types))
  qed
qed

text \<open>
  C4: a creation touches no booking but those it displaces. The displaced bookings are exactly
  the confirmed bookings of the resource that overlap the new one; each has a lower priority
  than the requester and starts more than the override period from now; they end up cancelled
  by the requester with the displacement reason, and nothing else changes.
\<close>

theorem create_booking_displaces_exactly:
  assumes "bk_inv s" "create_booking cfg now uuid u rq s = Inr s'"
  shows "\<exists>r ds. ds = overlapping_bookings s (r_id r) (rq_start rq) (rq_end rq) None
    \<and> all_bookings s' =
        map (\<lambda>x. if x \<in> set ds then cancel_row u displaced_reason x else x) (all_bookings s)
        @ [created_row uuid u r rq s]
    \<and> (\<forall>b \<in> set ds. b_priority b < booking_priority (bk_acc s) u
         \<and> b_start b > now + hours (PRIORITY_OVERRIDE_HOURS cfg))"
proof -
  obtain r ds where chk: "create_checks cfg now s u r (rq_start rq) (rq_end rq) = Inr ds"
    and s': "s' = perform_create now uuid u r rq ds s"
    using assms(2) by (rule create_booking_OkD)
  note free = ensure_no_conflicts_ok[OF create_checks_OkD(2)[OF chk]]
  have wf: "tbl_wf b_id (bk_bookings s)" using assms(1) by (simp add: bk_inv_iff)
  have sub: "set ds \<subseteq> set (rows (bk_bookings s))"
    unfolding free(1) by (auto simp: in_overlapping_iff all_bookings_def)
  have same: "b_id x \<in> b_id ` set ds \<longleftrightarrow> x \<in> set ds" if "x \<in> set (rows (bk_bookings s))" for x
  proof
    assume "b_id x \<in> b_id ` set ds"
    then obtain y where "y \<in> set ds" "b_id y = b_id x" by auto
    with sub that wf have "x = y" by (auto simp: tbl_wf_def distinct_map dest: inj_onD)
    with \<open>y \<in> set ds\<close> show "x \<in> set ds" by simp
  qed simp
  then have "all_bookings s' =
        map (\<lambda>x. if x \<in> set ds then cancel_row u displaced_reason x else x) (all_bookings s)
        @ [created_row uuid u r rq s]"
    by (simp add: s' all_bookings_def perform_create_bookings[OF wf sub])
  with free(1,2) show ?thesis
    by (intro exI[of _ r] exI[of _ ds]) (auto simp: displaceable_by_def)
qed

theorem create_booking_displaces_exactly_witness:
  "\<exists>s' c. create_booking default_settings 0 id (demo_user 1 Employee (Some 1)) (demo_create (hours 4) (hours 5))
     (demo_state (default_resource 1) [demo_booking 1 2 Confirmed (hours 4) (hours 6) 1]) = Inr s'
   \<and> all_bookings s' = [cancel_row (demo_user 1 Employee (Some 1)) displaced_reason
       (demo_booking 1 2 Confirmed (hours 4) (hours 6) 1), c]"
proof -
  let ?s = "demo_state (default_resource 1) [demo_booking 1 2 Confirmed (hours 4) (hours 6) 1]"
  have inv: "bk_inv ?s"
    by (simp add: bk_inv_iff demo_defs tbl_wf_def schedule_ok_def empty_table_def clash_def)
  obtain s' where ok: "create_booking default_settings 0 id (demo_user 1 Employee (Some 1))
      (demo_create (hours 4) (hours 5)) ?s = Inr s'"
    using demo_create_runs by (auto simp: is_ok_iff)
  have rid: "\<exists>x. x \<in> set (rows (bk_resources ?s)) \<and> r_id x = 1" by (simp add: demo_state_def default_resource_def)
  have conf: "list_all (\<lambda>b. b_status b = Cancelled \<or> b_id b = 2)
     (case create_booking default_settings 0 id (demo_user 1 Employee (Some 1))
      (demo_create (hours 4) (hours 5)) ?s of Inr t \<Rightarrow> rows (bk_bookings t) | Inl _ \<Rightarrow> [])"
    by code_simp
  obtain r ds where e: "all_bookings s' = map (\<lambda>x. if x \<in> set ds
        then cancel_row (demo_user 1 Employee (Some 1)) displaced_reason x else x) (all_bookings ?s)
        @ [created_row id (demo_user 1 Employee (Some 1)) r (demo_create (hours 4) (hours 5)) ?s]"
    using create_booking_displaces_exactly[OF inv ok] by blast
  have "demo_booking 1 2 Confirmed (hours 4) (hours 6) 1 \<in> set ds"
  proof (rule ccontr)
    assume "demo_booking 1 2 Confirmed (hours 4) (hours 6) 1 \<notin> set ds"
    then have "demo_booking 1 2 Confirmed (hours 4) (hours 6) 1 \<in> set (all_bookings s')"
      unfolding e by (simp add: all_bookings_def demo_state_def)
    then show False using conf ok by (auto simp: list_all_iff all_bookings_def demo_booking_def)
  qed
  then have "all_bookings s' = [cancel_row (demo_user 1 Employee (Some 1)) displaced_reason
       (demo_booking 1 2 Confirmed (hours 4) (hours 6) 1),
       created_row id (demo_user 1 Employee (Some 1)) r (demo_create (hours 4) (hours 5)) ?s]"
    unfolding e by (simp add: all_bookings_def demo_state_def)
  with ok show ?thesis by blast
qed

text \<open>
  A booking is safe from displacement when nobody outranks it or its start is near: a
  creation by any user leaves a booking of the top priority, or one that starts within the
  override period, exactly as it was.
\<close>

theorem protected_booking_survives_creation:
  assumes "bk_inv s" "create_booking cfg now uuid u rq s = Inr s'"
    and "b \<in> set (all_bookings s)"
    and "b_priority b \<ge> 3 \<or> b_start b \<le> now + hours (PRIORITY_OVERRIDE_HOURS cfg)"
  shows "b \<in> set (all_bookings s')"
proof -
  obtain r ds where ds: "all_bookings s' =
      map (\<lambda>x. if x \<in> set ds then cancel_row u displaced_reason x else x) (all_bookings s)
      @ [created_row uuid u r rq s]"
    "\<forall>b \<in> set ds. b_priority b < booking_priority (bk_acc s) u
       \<and> b_start b > now + hours (PRIORITY_OVERRIDE_HOURS cfg)"
    using create_booking_displaces_exactly[OF assms(1,2)] by blast
  have "b \<notin> set ds"
    using ds(2) assms(4) booking_priority_bounds(2)[of "bk_acc s" u] by force
  then show ?thesis using assms(3) ds(1) by force
qed

theorem protected_booking_survives_creation_witness:
  "\<exists>s'. create_booking default_settings 0 id (demo_user 1 Employee (Some 1)) (demo_create (hours 4) (hours 5))
     (demo_state (default_resource 1) [demo_booking 1 2 Confirmed (hours 7) (hours 8) 3]) = Inr s'
   \<and> demo_booking 1 2 Confirmed (hours 7) (hours 8) 3 \<in> set (all_bookings s')"
proof -
  let ?s = "demo_state (default_resource 1) [demo_booking 1 2 Confirmed (hours 7) (hours 8) 3]"
  have inv: "bk_inv ?s"
    by (simp add: bk_inv_iff demo_defs tbl_wf_def schedule_ok_def empty_table_def clash_def)
  have "is_ok (create_booking default_settings 0 id (demo_user 1 Employee (Some 1))
      (demo_create (hours 4) (hours 5)) ?s)"
    by code_simp
  then obtain s' where ok: "create_booking default_settings 0 id (demo_user 1 Employee (Some 1))
      (demo_create (hours 4) (hours 5)) ?s = Inr s'"
    by (auto simp: is_ok_iff)
  have "demo_booking 1 2 Confirmed (hours 7) (hours 8) 3 \<in> set (all_bookings ?s)"
    by (simp add: all_bookings_def demo_state_def)
  from protected_booking_survives_creation[OF inv ok this] ok show ?thesis
    by (auto simp: demo_booking_def)
qed

lemma length_filter_cancel:
  "length (filter (\<lambda>b. P b \<and> b_status b = Confirmed)
     (map (\<lambda>x. if Q x then cancel_row u m x else x) bs))
   \<le> length (filter (\<lambda>b. P b \<and> b_status b = Confirmed) bs)"
  by (induction bs) auto

text \<open>
  The active limit is kept: after a successful creation the user holds at most the configured
  number of confirmed bookings that have not ended.
\<close>

theorem create_booking_keeps_active_limit:
  assumes "bk_inv s" "create_booking cfg now uuid u rq s = Inr s'"
  shows "active_count now s' (u_id u) \<le> MAX_ACTIVE_BOOKINGS_PER_USER cfg"
proof -
  obtain r ds where ds: "all_bookings s' =
      map (\<lambda>x. if x \<in> set ds then cancel_row u displaced_reason x else x) (all_bookings s)
      @ [created_row uuid u r rq s]"
    using create_booking_displaces_exactly[OF assms] by blast
  obtain r' ds' where chk: "create_checks cfg now s u r' (rq_start rq) (rq_end rq) = Inr ds'"
    using assms(2) by (rule create_booking_OkD)
  have "active_count now s (u_id u) < MAX_ACTIVE_BOOKINGS_PER_USER cfg"
    using create_checks_OkD(6)[OF chk] by (simp add: validate_user_active_limit_def)
  moreover have "active_count now s' (u_id u) \<le> active_count now s (u_id u) + 1"
  proof -
    let ?P = "\<lambda>b. b_user b = u_id u \<and> b_end b > now"
    have "active_count now t (u_id u) = int (length (filter (\<lambda>b. ?P b \<and> b_status b = Confirmed) (all_bookings t)))" for t
      by (simp add: active_count_def tbl_filter_def all_bookings_def conj_commute conj_left_commute)
    then show ?thesis
      using length_filter_cancel[of ?P "\<lambda>x. x \<in> set ds" u displaced_reason "all_bookings s"]
      by (simp add: ds)
  qed
  ultimately show ?thesis by simp
qed

theorem create_booking_keeps_active_limit_witness:
  "\<exists>s'. create_booking default_settings 0 id (demo_user 1 Employee (Some 1)) (demo_create (hours 4) (hours 5))
     (demo_state (default_resource 1) [demo_booking 1 2 Confirmed (hours 4) (hours 6) 1]) = Inr s'
   \<and> active_count 0 s' 1 \<le> 5"
proof -
  let ?s = "demo_state (default_resource 1) [demo_booking 1 2 Confirmed (hours 4) (hours 6) 1]"
  have inv: "bk_inv ?s"
    by (simp add: bk_inv_iff demo_defs tbl_wf_def schedule_ok_def empty_table_def clash_def)
  obtain s' where ok: "create_booking default_settings 0 id (demo_user 1 Employee (Some 1))
      (demo_create (hours 4) (hours 5)) ?s = Inr s'"
    using demo_create_runs by (auto simp: is_ok_iff)
  show ?thesis
    using create_booking_keeps_active_limit[OF inv ok] ok by (auto simp: demo_user_def default_settings_def)
qed

section \<open>Cancellation\<close>

text \<open>
  A cancellation that succeeds was allowed: the user is the owner, an admin of the booking's
  company or a superadmin, the booking had not started and the notice period of its resource was
  kept. It changes that booking alone, leaves one audit record, and can not be repeated by anyone.
\<close>

theorem cancel_booking_effect:
  assumes "bk_inv s" "cancel_booking now u k reason s = Inr s'"
  shows "\<exists>b r. b \<in> set (all_bookings s) \<and> b_id b = k \<and> resource_of s b = Some r
    \<and> (u_role u = Superadmin \<or> b_user b = u_id u \<or> u_role u = Company_admin \<and> b_company b = u_company u)
    \<and> b_status b \<noteq> Cancelled \<and> now < b_start b \<and> b_start b \<ge> now + minutes (r_min_cancel_minutes r)
    \<and> all_bookings s' =
        map (\<lambda>x. if b_id x = k then cancel_row u (Str reason) x else x) (all_bookings s)
    \<and> (\<exists>a. rows (bk_cancel_audits s') = rows (bk_cancel_audits s) @ [a] \<and> ca_booking a = k
         \<and> ca_cancelled_by a = Some (u_id u) \<and> ca_cancelled_at a = now)
    \<and> (\<forall>now' u' reason'. \<not> is_ok (cancel_booking now' u' k reason' s'))"
proof -
  obtain b r where b: "get_object s u k = Inr b" "resource_of s b = Some r"
    and perm: "IsOwnerOrAdmin (Some (b_user b)) (Some (b_company b)) u"
    and cond: "b_status b \<noteq> Cancelled" "now < b_start b" "b_start b \<ge> now + minutes (r_min_cancel_minutes r)"
    and s': "all_bookings s' = map (\<lambda>x. if b_id x = k then cancel_row u (Str reason) x else x) (all_bookings s)"
      "rows (bk_cancel_audits s') = rows (bk_cancel_audits s) @ [\<lparr>ca_id = next_id (bk_cancel_audits s),
         ca_booking = k, ca_cancelled_by = Some (u_id u), ca_cancel_reason = Str reason, ca_cancelled_at = now\<rparr>]"
    using assms(2)
    by (auto simp: cancel_booking_def all_bookings_def audit_cancel_def split: option.splits sum.splits)
  have again: "\<not> is_ok (cancel_booking now' u' k reason' s')" for now' u' reason'
  proof
    assume "is_ok (cancel_booking now' u' k reason' s')"
    then obtain c where "get_object s' u' k = Inr c" "b_status c \<noteq> Cancelled"
      by (auto simp: is_ok_def cancel_booking_def guarded_def split: option.splits sum.splits)
    then have "c \<in> set (all_bookings s')" "b_id c = k" "b_status c \<noteq> Cancelled"
      using get_object_SomeD[of s' u' k c] by (simp_all add: all_bookings_def)
    moreover from this(1) obtain x where "c = (if b_id x = k then cancel_row u (Str reason) x else x)"
      unfolding s'(1) set_map by (elim imageE)
    ultimately show False by (cases "b_id x = k") simp_all
  qed
  from b(1) have "b \<in> set (all_bookings s)" "b_id b = k"
    by (auto simp: all_bookings_def dest: get_object_SomeD)
  then show ?thesis
    using b(2) perm cond s' again
    by (intro exI[of _ b] exI[of _ r]) (auto simp: IsOwnerOrAdmin_def split: if_splits)
qed

theorem cancel_booking_effect_witness:
  "\<exists>s'. cancel_booking 0 (demo_user 1 Employee (Some 1)) 1 ''late''
     (demo_state (default_resource 1) [demo_booking 1 1 Confirmed (hours 7) (hours 8) 3]) = Inr s'
   \<and> \<not> is_ok (cancel_booking 5 (demo_user 9 Superadmin None) 1 [] s')"
proof -
  let ?s = "demo_state (default_resource 1) [demo_booking 1 1 Confirmed (hours 7) (hours 8) 3]"
  have inv: "bk_inv ?s"
    by (simp add: bk_inv_iff demo_defs tbl_wf_def schedule_ok_def empty_table_def clash_def)
  have "is_ok (cancel_booking 0 (demo_user 1 Employee (Some 1)) 1 ''late'' ?s)" by code_simp
  then obtain s' where ok: "cancel_booking 0 (demo_user 1 Employee (Some 1)) 1 ''late'' ?s = Inr s'"
    by (auto simp: is_ok_iff)
  from cancel_booking_effect[OF inv ok] ok show ?thesis by blast
qed

text \<open>
  The ownership rule of cancellation does not reach deletion: for a booking of the user's
  company that belongs to somebody else, an employee is refused the cancellation, but DELETE
  removes the booking.
\<close>

theorem employee_may_delete_but_not_cancel:
  assumes "tbl_wf b_id (bk_bookings s)" "u_role u = Employee" "u_company u = Some c"
    and "b \<in> set (all_bookings s)" "b_company b = Some c" "b_user b \<noteq> u_id u" "resource_of s b \<noteq> None"
  shows "cancel_booking now u (b_id b) reason s = Inl denied
    \<and> (\<exists>s'. destroy_booking u (b_id b) s = Inr s' \<and> all_bookings s' = filter (\<lambda>x. b_id x \<noteq> b_id b) (all_bookings s))"
proof -
  have "find (\<lambda>x. b_id x = b_id b) (filter (booking_visible s u) (rows (bk_bookings s))) = Some b"
    using assms
    by (intro find_key_unique) (auto simp: all_bookings_def tbl_wf_def distinct_map inj_on_def booking_visible_def)
  then have obj: "get_object s u (b_id b) = Inr b"
    by (simp add: get_object_def booking_queryset_def tbl_filter_def)
  have "\<not> IsOwnerOrAdmin (Some (b_user b)) (Some (b_company b)) u"
    using assms by (simp add: IsOwnerOrAdmin_def)
  then have "cancel_booking now u (b_id b) reason s = Inl denied"
    using obj assms(7) by (auto simp: cancel_booking_def require_simps)
  moreover have "destroy_booking u (b_id b) s = Inr (delete_bookings (\<lambda>x. b_id x = b_id b) s)"
    using obj assms(2,3) by (simp add: destroy_booking_def permission_defs)
  ultimately show ?thesis by (simp add: delete_bookings_def Let_def all_bookings_def)
qed

theorem employee_may_delete_but_not_cancel_witness:
  "cancel_booking 0 (demo_user 7 Employee (Some 1)) 1 []
     (demo_state (default_resource 1) [demo_booking 1 2 Confirmed (hours 7) (hours 8) 3]) = Inl denied"
  using employee_may_delete_but_not_cancel[of "demo_state (default_resource 1)
      [demo_booking 1 2 Confirmed (hours 7) (hours 8) 3]" "demo_user 7 Employee (Some 1)" 1
      "demo_booking 1 2 Confirmed (hours 7) (hours 8) 3" 0 "[]"]
  by (simp add: demo_defs tbl_wf_def all_bookings_def resource_of_def tbl_get_def)

definition bulk_loop_inv ::
  "datetime \<Rightarrow> user \<Rightarrow> nat list \<Rightarrow> string \<Rightarrow> bk_state \<Rightarrow> bk_state \<times> nat list \<times> nat list \<Rightarrow> bool" where
  "bulk_loop_inv now u accessible reason s0 acc = (case acc of (s, c, k) \<Rightarrow>
     all_bookings s = map (\<lambda>x. if b_id x \<in> set c then cancel_row u (Str reason) x else x) (all_bookings s0)
     \<and> distinct c
     \<and> (\<forall>i \<in> set c. i \<in> set accessible \<and> (\<exists>b \<in> set (all_bookings s0). b_id b = i \<and> b_status b \<noteq> Cancelled
          \<and> now < b_start b \<and> (u_role u \<in> {Superadmin, Company_admin} \<or> b_user b = u_id u))))"

lemma bulk_cancel_step:
  assumes "bulk_loop_inv now u accessible reason s0 acc"
  shows "bulk_loop_inv now u accessible reason s0 (bulk_cancel_one now u accessible reason bid acc)
    \<and> mset (fst (snd (bulk_cancel_one now u accessible reason bid acc)))
      + mset (snd (snd (bulk_cancel_one now u accessible reason bid acc)))
      = mset (fst (snd acc)) + mset (snd (snd acc)) + {#bid#}"
proof -
  obtain s c k where acc: "acc = (s, c, k)" by (cases acc)
  have rows: "all_bookings s = map (\<lambda>x. if b_id x \<in> set c then cancel_row u (Str reason) x else x) (all_bookings s0)"
    using assms by (simp add: bulk_loop_inv_def acc)
  show ?thesis
  proof (cases "if bid \<in> set accessible then tbl_get b_id bid (bk_bookings s) else None")
    case None
    then show ?thesis using assms by (simp add: bulk_cancel_one_def acc bulk_loop_inv_def)
  next
    case (Some b)
    then have acc_in: "bid \<in> set accessible" and b: "b \<in> set (all_bookings s)" "b_id b = bid"
      by (auto simp: all_bookings_def split: if_splits dest: tbl_get_SomeD)
    then obtain x where x: "x \<in> set (all_bookings s0)" "b = (if b_id x \<in> set c then cancel_row u (Str reason) x else x)"
      unfolding rows by auto
    then have idx: "b_id x = bid" using b(2) by (auto split: if_splits)
    show ?thesis
    proof (cases "b_status b = Cancelled \<or> b_start b \<le> now
        \<or> u_role u \<notin> {Superadmin, Company_admin} \<and> b_user b \<noteq> u_id u")
      case True
      with Some assms show ?thesis by (auto simp: bulk_cancel_one_def acc bulk_loop_inv_def)
    next
      case False
      then have fresh: "bid \<notin> set c" using x(2) idx by auto
      with x idx have "b = x" by simp
      have "all_bookings (fst (bulk_cancel_one now u accessible reason bid acc)) =
          map (\<lambda>y. if b_id y = bid then cancel_row u (Str reason) y else y) (all_bookings s)"
        using Some False by (auto simp: bulk_cancel_one_def acc all_bookings_def)
      also have "\<dots> = map (\<lambda>y. if b_id y \<in> set (c @ [bid]) then cancel_row u (Str reason) y else y) (all_bookings s0)"
        unfolding rows by simp
      finally show ?thesis
        using Some False assms fresh acc_in x(1) idx \<open>b = x\<close>
        by (auto simp: bulk_cancel_one_def acc bulk_loop_inv_def)
    qed
  qed
qed

lemma bulk_cancel_loop:
  assumes "bulk_loop_inv now u accessible reason s0 acc"
    and "fold (bulk_cancel_one now u accessible reason) ids acc = (s', c', k')"
  shows "bulk_loop_inv now u accessible reason s0 (s', c', k')
    \<and> mset c' + mset k' = mset (fst (snd acc)) + mset (snd (snd acc)) + mset ids"
  using assms
proof (induction ids arbitrary: acc)
  case (Cons i ids)
  show ?case
    using Cons.IH[of "bulk_cancel_one now u accessible reason i acc"] Cons.prems
      bulk_cancel_step[OF Cons.prems(1), of i] by simp
qed simp

text \<open>
  A bulk cancellation accounts for every id it was given, once in \<open>cancelled\<close> or in
  \<open>skipped\<close>; it cancels exactly the bookings in \<open>cancelled\<close>, each of which the user can see,
  had not started and was not cancelled, and which are the user's own unless the user is an admin.
\<close>

theorem bulk_cancel_exact:
  assumes "bulk_cancel now u ids reason s = Inr (s', cancelled, skipped)"
  shows "mset cancelled + mset skipped = mset ids \<and> distinct cancelled
    \<and> all_bookings s' = map (\<lambda>x. if b_id x \<in> set cancelled then cancel_row u (Str reason) x else x) (all_bookings s)
    \<and> (\<forall>i \<in> set cancelled. \<exists>b \<in> set (all_bookings s). b_id b = i \<and> b_status b \<noteq> Cancelled
         \<and> now < b_start b \<and> (u_role u \<in> {Superadmin, Company_admin} \<or> b_user b = u_id u))
    \<and> set cancelled \<subseteq> b_id ` {b \<in> set (all_bookings s). booking_visible s u b}"
proof -
  let ?acc = "map b_id (filter (\<lambda>b. b_id b \<in> set ids) (booking_queryset s u))"
  have run: "fold (bulk_cancel_one now u ?acc reason) ids (s, [], []) = (s', cancelled, skipped)"
    using assms unfolding bulk_cancel_def Let_def guarded_Inr by (elim conjE) (rule sym)
  have "bulk_loop_inv now u ?acc reason s (s, [], [])"
    by (simp add: bulk_loop_inv_def)
  from bulk_cancel_loop[OF this run] show ?thesis
    by (fastforce simp: bulk_loop_inv_def booking_queryset_def all_bookings_def tbl_filter_def)
qed

theorem bulk_cancel_exact_witness:
  "\<exists>s' c k. bulk_cancel 0 (demo_user 1 Employee (Some 1)) [1, 1, 2, 5] []
     (demo_state (default_resource 1) [demo_booking 1 1 Confirmed (hours 7) (hours 8) 3,
        demo_booking 2 2 Confirmed (hours 9) (hours 10) 1]) = Inr (s', c, k)
   \<and> mset c + mset k = {#1, 1, 2, 5#}"
proof -
  have "is_ok (bulk_cancel 0 (demo_user 1 Employee (Some 1)) [1, 1, 2, 5] []
     (demo_state (default_resource 1) [demo_booking 1 1 Confirmed (hours 7) (hours 8) 3,
        demo_booking 2 2 Confirmed (hours 9) (hours 10) 1]))"
    by code_simp
  then obtain s' c k where ok: "bulk_cancel 0 (demo_user 1 Employee (Some 1)) [1, 1, 2, 5] []
     (demo_state (default_resource 1) [demo_booking 1 1 Confirmed (hours 7) (hours 8) 3,
        demo_booking 2 2 Confirmed (hours 9) (hours 10) 1]) = Inr (s', c, k)"
    by (auto simp: is_ok_iff)
  from bulk_cancel_exact[OF ok] ok show ?thesis by auto
qed

section \<open>Periodic tasks\<close>

lemma auto_complete_rows:
  assumes "tbl_wf b_id (bk_bookings s)"
  shows "all_bookings (auto_complete_bookings now s) =
    map (\<lambda>b. if b_status b = Confirmed \<and> b_end b < now then b\<lparr>b_status := Completed\<rparr> else b) (all_bookings s)"
proof -
  let ?due = "tbl_filter (\<lambda>b. b_status b = Confirmed \<and> b_end b < now) (bk_bookings s)"
  have "bk_bookings (auto_complete_bookings now s) =
      tbl_update (\<lambda>x. b_id x \<in> b_id ` set ?due) (\<lambda>b. b\<lparr>b_status := Completed\<rparr>) (bk_bookings s)"
    unfolding auto_complete_bookings_def
    by (rule fold_upd_exact) (simp_all add: complete_one_def Let_def split: option.split)
  moreover have "b_id x \<in> b_id ` set ?due \<longleftrightarrow> b_status x = Confirmed \<and> b_end x < now"
    if "x \<in> set (all_bookings s)" for x
    using that assms by (auto simp: all_bookings_def tbl_wf_def distinct_map dest: inj_onD)
  ultimately show ?thesis by (simp add: all_bookings_def cong: map_cong)
qed

lemma auto_complete_resources: "bk_resources (auto_complete_bookings now s) = bk_resources s"
  unfolding auto_complete_bookings_def
  by (rule fold_frame) (simp add: complete_one_def Let_def split: option.split)

lemma mark_no_show_rows:
  "all_bookings (mark_no_show_bookings cfg now s) =
     map (\<lambda>b. if no_show_due cfg now s b then b\<lparr>b_status := No_show\<rparr> else b) (all_bookings s)"
  by (simp add: mark_no_show_bookings_def all_bookings_def)

text \<open>What the two sweeps do one after the other, at the instants \<open>t1\<close> and \<open>t2\<close>.\<close>

lemma complete_then_no_show:
  assumes "tbl_wf b_id (bk_bookings s)" "t1 \<le> t2"
  shows "all_bookings (mark_no_show_bookings cfg t2 (auto_complete_bookings t1 s)) =
    map (\<lambda>b. if b_status b = Confirmed \<and> b_end b < t1 then b\<lparr>b_status := Completed\<rparr>
      else if no_show_due cfg t2 s b then b\<lparr>b_status := No_show\<rparr> else b) (all_bookings s)"
proof -
  have "no_show_due cfg t2 (auto_complete_bookings t1 s) b = no_show_due cfg t2 s b" for b
    by (simp add: no_show_due_def has_type_def resource_of_def auto_complete_resources)
  then show ?thesis
    unfolding mark_no_show_rows auto_complete_rows[OF assms(1)] by (auto simp: no_show_due_def)
qed

lemma no_show_then_complete:
  assumes "tbl_wf b_id (bk_bookings s)"
  shows "all_bookings (auto_complete_bookings t2 (mark_no_show_bookings cfg t1 s)) =
    map (\<lambda>b. if no_show_due cfg t1 s b then b\<lparr>b_status := No_show\<rparr>
      else if b_status b = Confirmed \<and> b_end b < t2 then b\<lparr>b_status := Completed\<rparr> else b) (all_bookings s)"
proof -
  have "tbl_wf b_id (bk_bookings (mark_no_show_bookings cfg t1 s))"
    unfolding mark_no_show_bookings_def upd_frame by (rule tbl_wf_update[OF assms]) simp
  then show ?thesis
    unfolding auto_complete_rows[OF \<open>tbl_wf b_id (bk_bookings (mark_no_show_bookings cfg t1 s))\<close>] mark_no_show_rows
    by auto
qed

text \<open>
  C5: the two sweeps over confirmed bookings, run one after the other at the instants \<open>t1\<close> and \<open>t2\<close>,
  leave the same bookings in either order exactly when nothing falls due in between: no confirmed booking
  ends from \<open>t1\<close> to \<open>t2\<close>, and of the others the same ones count as no-show at both instants. At one and the
  same instant the order never matters: completion takes the bookings that have ended, no-show detection
  those that still run.
\<close>

theorem completion_and_no_show_commute:
  assumes "tbl_wf b_id (bk_bookings s)" "t1 \<le> t2"
  shows "all_bookings (mark_no_show_bookings cfg t2 (auto_complete_bookings t1 s))
       = all_bookings (auto_complete_bookings t2 (mark_no_show_bookings cfg t1 s))
    \<longleftrightarrow> (\<forall>b \<in> set (all_bookings s). b_status b = Confirmed \<longrightarrow> \<not> (t1 \<le> b_end b \<and> b_end b < t2)
          \<and> (t2 \<le> b_end b \<longrightarrow> (no_show_due cfg t1 s b \<longleftrightarrow> no_show_due cfg t2 s b)))"
proof -
  have status: "b\<lparr>b_status := st\<rparr> = b \<longleftrightarrow> b_status b = st" "b = b\<lparr>b_status := st\<rparr> \<longleftrightarrow> b_status b = st"
    "b\<lparr>b_status := st\<rparr> = b\<lparr>b_status := st'\<rparr> \<longleftrightarrow> st = st'" for b st st'
    by (cases b; auto)+
  show ?thesis
    unfolding complete_then_no_show[OF assms] no_show_then_complete[OF assms(1)] map_eq_conv
    using assms(2) by (intro ball_cong refl) (auto simp: status no_show_due_def)
qed

lemma sweeps_commute_at_one_instant:
  assumes "tbl_wf b_id (bk_bookings s)"
  shows "all_bookings (mark_no_show_bookings cfg now (auto_complete_bookings now s))
       = all_bookings (auto_complete_bookings now (mark_no_show_bookings cfg now s))"
  unfolding complete_then_no_show[OF assms order_refl] no_show_then_complete[OF assms]
  by (auto simp: no_show_due_def)

text \<open>
  A meeting room booked from seven to ten whose people never came is a no-show at eight and five minutes
  later in either order; if it ends in between, the order matters.
\<close>

theorem completion_and_no_show_commute_witness:
  "let r = (default_resource 1)\<lparr>r_type := Meeting_room\<rparr>; b = demo_booking 1 1 Confirmed (hours 7) (hours 10) 3;
       late = demo_booking 1 1 Confirmed (hours 7) (hours 8) 3
   in all_bookings (mark_no_show_bookings default_settings (hours 8 + minutes 5) (auto_complete_bookings (hours 8) (demo_state r [b])))
        = all_bookings (auto_complete_bookings (hours 8 + minutes 5) (mark_no_show_bookings default_settings (hours 8) (demo_state r [b])))
      \<and> all_bookings (mark_no_show_bookings default_settings (hours 8) (demo_state r [b])) = [b\<lparr>b_status := No_show\<rparr>]
      \<and> all_bookings (mark_no_show_bookings default_settings (hours 8 + minutes 5) (auto_complete_bookings (hours 7 + minutes 58) (demo_state r [late])))
        \<noteq> all_bookings (auto_complete_bookings (hours 8 + minutes 5) (mark_no_show_bookings default_settings (hours 7 + minutes 58) (demo_state r [late])))"
proof -
  let ?r = "(default_resource 1)\<lparr>r_type := Meeting_room\<rparr>"
  let ?s = "demo_state ?r [demo_booking 1 1 Confirmed (hours 7) (hours 10) 3]"
  let ?t = "demo_state ?r [demo_booking 1 1 Confirmed (hours 7) (hours 8) 3]"
  have wf: "tbl_wf b_id (bk_bookings ?s)" "tbl_wf b_id (bk_bookings ?t)" by (simp_all add: demo_defs tbl_wf_def)
  have order: "hours 8 \<le> hours 8 + minutes 5" "hours 7 + minutes 58 \<le> hours 8 + minutes 5" by code_simp+
  have rows: "all_bookings ?s = [demo_booking 1 1 Confirmed (hours 7) (hours 10) 3]"
    "all_bookings ?t = [demo_booking 1 1 Confirmed (hours 7) (hours 8) 3]"
    by (simp_all add: all_bookings_def demo_state_def)
  have due: "no_show_due default_settings (hours 8) ?s (demo_booking 1 1 Confirmed (hours 7) (hours 10) 3)"
    "no_show_due default_settings (hours 8 + minutes 5) ?s (demo_booking 1 1 Confirmed (hours 7) (hours 10) 3)"
    by code_simp+
  have ends: "\<not> b_end (demo_booking 1 1 Confirmed (hours 7) (hours 10) 3) < hours 8 + minutes 5"
    "hours 7 + minutes 58 \<le> b_end (demo_booking 1 1 Confirmed (hours 7) (hours 8) 3)"
    "b_end (demo_booking 1 1 Confirmed (hours 7) (hours 8) 3) < hours 8 + minutes 5"
    "b_status (demo_booking 1 1 Confirmed (hours 7) (hours 8) 3) = Confirmed" by code_simp+
  have "all_bookings (mark_no_show_bookings default_settings (hours 8) ?s)
      = [(demo_booking 1 1 Confirmed (hours 7) (hours 10) 3)\<lparr>b_status := No_show\<rparr>]"
    unfolding mark_no_show_rows rows using due by simp
  moreover note completion_and_no_show_commute[OF wf(1) order(1), of default_settings, unfolded rows]
    completion_and_no_show_commute[OF wf(2) order(2), of default_settings, unfolded rows]
  ultimately show ?thesis unfolding Let_def using due ends by simp
qed

end
