(* ===== verification/BookingCalendar.thy ===== *)
theory BookingCalendar
  imports BookingProps
begin

text \<open>
  Properties of the calendar parts of the booking module: the dates of a recurring series, the
  growth of a series under the periodic task, the schedule of a resource, the blocks, and the
  reading of capsule QR codes.
\<close>

section \<open>Dates of a series\<close>

lemma mod_shift: "(d - (c + k)) mod k = (d - c) mod (k::int)"
  by (simp add: diff_diff_add[symmetric])

lemma next_multiple:
  assumes "0 < (k::int)" "c < d" "(d - c) mod k = 0"
  shows "c + k \<le> d"
proof -
  have "k dvd d - c" using assms(3) by (rule dvd_eq_mod_eq_0[THEN iffD2])
  then have "k \<le> d - c" using assms(2) by (intro zdvd_imp_le) simp_all
  then show ?thesis by simp
qed

lemma dates_from_iff:
  "0 < k \<Longrightarrow> d \<in> set (dates_from c e k) \<longleftrightarrow> c \<le> d \<and> d \<le> e \<and> (d - c) mod int k = 0"
proof (induction c e k rule: dates_from.induct)
  case (1 c e k)
  show ?case
  proof (cases "c \<le> e")
    case True
    have IH: "d \<in> set (dates_from (c + int k) e k) \<longleftrightarrow>
        c + int k \<le> d \<and> d \<le> e \<and> (d - c) mod int k = 0"
      using "1.IH" "1.prems" True by (simp add: mod_shift)
    have "d \<in> set (dates_from c e k) \<longleftrightarrow> d = c \<or> d \<in> set (dates_from (c + int k) e k)"
      using "1.prems" True by (simp add: dates_from.simps[of c e k] del: dates_from.simps)
    also have "\<dots> \<longleftrightarrow> c \<le> d \<and> d \<le> e \<and> (d - c) mod int k = 0"
      unfolding IH using True "1.prems" next_multiple[of "int k" c d] by (cases "d = c") auto
    finally show ?thesis .
  next
    case False
    then show ?thesis by (simp add: dates_from.simps[of c e k] del: dates_from.simps)
  qed
qed

lemma dates_from_sorted: "sorted_wrt (<) (dates_from c e k)"
proof (induction c e k rule: dates_from.induct)
  case (1 c e k)
  show ?case
    using "1.IH" dates_from_iff[of k _ "c + int k" e]
    by (auto simp: dates_from.simps[of c e k])
qed

lemma first_weekday:
  assumes "0 \<le> w" "w < 7"
  shows "weekday (b + (w - weekday b) mod 7) = w"
proof -
  have "(b + 3 + ((w - (b + 3) mod 7) mod 7)) mod 7 = (b + 3 + (w - (b + 3))) mod 7"
    by (simp only: mod_add_right_eq mod_diff_right_eq)
  then show ?thesis using assms by (simp add: weekday_def algebra_simps)
qed

lemma same_weekday_iff: "(d - c) mod 7 = 0 \<longleftrightarrow> weekday d = weekday c"
  unfolding weekday_def by (simp add: mod_eq_dvd_iff flip: dvd_eq_mod_eq_0)

text \<open>
  C6: the dates of a series between two dates are exactly the matching days in between, in
  order and without repetition: every day for a daily series, the days of its weekday for a
  weekly one. The series starts on the first such weekday, at most six days ahead.
\<close>

theorem matching_dates_correct:
  assumes "rt = Weekly \<longrightarrow> (\<exists>w. dow = Some w \<and> 0 \<le> w \<and> w < 7)"
  shows "sorted_wrt (<) (matching_dates dow a b rt)
    \<and> set (matching_dates dow a b rt) =
        {d. a \<le> d \<and> d \<le> b \<and> (rt = Weekly \<longrightarrow> dow = Some (weekday d))}
    \<and> (rt = Weekly \<longrightarrow> a \<le> first_matching_weekday (the dow) a
         \<and> first_matching_weekday (the dow) a < a + 7
         \<and> weekday (first_matching_weekday (the dow) a) = the dow)"
proof (cases rt)
  case Daily
  then show ?thesis
    by (auto simp: matching_dates_def dates_from_sorted dates_from_iff)
next
  case Weekly
  then obtain w where w: "dow = Some w" "0 \<le> w" "w < 7" using assms by blast
  let ?f = "a + (w - weekday a) mod 7"
  have f: "weekday ?f = w" by (rule first_weekday[OF w(2,3)])
  have bound: "0 \<le> (w - weekday a) mod 7" "(w - weekday a) mod 7 < 7" by simp_all
  have reach: "?f \<le> d" if "a \<le> d" "weekday d = w" for d
  proof -
    have "(d - ?f) mod 7 = 0" using f that(2) same_weekday_iff[of d ?f] by simp
    moreover have "d - ?f > -7" using that(1) bound(2) by linarith
    ultimately show ?thesis by presburger
  qed
  have "set (matching_dates dow a b rt) = {d. a \<le> d \<and> d \<le> b \<and> weekday d = w}"
    using f bound reach
    by (auto simp: matching_dates_def Weekly w(1) dates_from_iff same_weekday_iff)
  then show ?thesis
    using f bound
    by (auto simp: Weekly w(1) matching_dates_def dates_from_sorted first_matching_weekday_def)
qed

theorem matching_dates_correct_witness:
  "set (matching_dates (Some 0) 20000 20020 Weekly) =
     {d. 20000 \<le> d \<and> d \<le> 20020 \<and> (Weekly = Weekly \<longrightarrow> Some 0 = Some (weekday d))}"
  using matching_dates_correct[of Weekly "Some 0" 20000 20020] by simp

section \<open>Growth of a series\<close>

lemma create_occurrence_recurring:
  "bk_recurring (fst (create_occurrence cfg now uuid r rb d acc)) = bk_recurring (fst acc)"
  by (cases acc) (simp add: create_occurrence_def Let_def split: sum.split)

lemma create_bookings_recurring:
  "bk_recurring (fst (create_bookings_for_recurring cfg now uuid rb a b s)) = bk_recurring s"
proof -
  have "bk_recurring (fst (fold (create_occurrence cfg now uuid r rb) ds acc)) = bk_recurring (fst acc)" for r ds acc
    by (induction ds arbitrary: acc) (auto simp: create_occurrence_recurring)
  then show ?thesis
    by (simp add: create_bookings_for_recurring_def split: option.split)
qed

definition extended :: "recurring_booking \<Rightarrow> recurring_booking" where
  "extended rb = rb\<lparr>rb_valid_until := map_option (\<lambda>d. d + advance_days (rb_recurrence_type rb)) (rb_valid_until rb)\<rparr>"

lemma extended_simps [simp]:
  "rb_id (extended rb) = rb_id rb"
  "rb_is_active (extended rb) = rb_is_active rb"
  "rb_recurrence_type (extended rb) = rb_recurrence_type rb"
  by (simp_all add: extended_def)

lemma extend_series_recurring:
  "rb_valid_until rb \<noteq> None \<Longrightarrow>
   bk_recurring (extend_series cfg now uuid rb s) = tbl_save rb_id (extended rb) (bk_recurring s)"
  by (auto simp: extend_series_def extended_def Let_def create_bookings_recurring)

lemma extend_all_get:
  assumes "tbl_wf rb_id (bk_recurring s)" "distinct (map rb_id rbs)"
    and "\<forall>rb \<in> set rbs. rb_valid_until rb \<noteq> None \<and> tbl_get rb_id (rb_id rb) (bk_recurring s) \<noteq> None"
  shows "tbl_get rb_id k (bk_recurring (fold (extend_series cfg now uuid) rbs s)) =
    (case find (\<lambda>rb. rb_id rb = k) rbs of Some rb \<Rightarrow> Some (extended rb)
     | None \<Rightarrow> tbl_get rb_id k (bk_recurring s))"
  using assms
proof (induction rbs arbitrary: s)
  case (Cons rb rbs)
  let ?s = "extend_series cfg now uuid rb s"
  have rec: "bk_recurring ?s = tbl_save rb_id (extended rb) (bk_recurring s)"
    using Cons.prems(3) by (simp add: extend_series_recurring)
  have get: "tbl_get rb_id j (bk_recurring ?s) =
      (if j = rb_id rb then Some (extended rb) else tbl_get rb_id j (bk_recurring s))" for j
    using recurring.get_save[OF Cons.prems(1), of "extended rb" j] Cons.prems(3) by (simp add: rec)
  have "tbl_wf rb_id (bk_recurring ?s)"
    unfolding rec by (rule tbl_wf_save[OF Cons.prems(1)])
  moreover have "distinct (map rb_id rbs)" using Cons.prems(2) by simp
  moreover have "\<forall>x \<in> set rbs. rb_valid_until x \<noteq> None \<and> tbl_get rb_id (rb_id x) (bk_recurring ?s) \<noteq> None"
    using Cons.prems(3) get by simp
  ultimately have IH: "tbl_get rb_id k (bk_recurring (fold (extend_series cfg now uuid) rbs ?s)) =
      (case find (\<lambda>x. rb_id x = k) rbs of Some x \<Rightarrow> Some (extended x) | None \<Rightarrow> tbl_get rb_id k (bk_recurring ?s))"
    by (rule Cons.IH)
  show ?case
  proof (cases "rb_id rb = k")
    case True
    then have "find (\<lambda>x. rb_id x = k) rbs = None"
      using Cons.prems(2) by (simp add: find_None_iff) (metis image_eqI)
    then show ?thesis using IH True by (simp add: get)
  next
    case False
    then show ?thesis using IH by (simp add: get split: option.split)
  qed
qed simp

lemma generate_extends:
  assumes wf: "tbl_wf rb_id (bk_recurring s)"
    and rb: "tbl_get rb_id k (bk_recurring s) = Some rb"
    and act: "rb_is_active rb" "rb_valid_until rb = Some d" "local_today cfg now \<le> d"
  shows "tbl_get rb_id k (bk_recurring (generate_recurring_bookings cfg now uuid s)) = Some (extended rb)
    \<and> tbl_wf rb_id (bk_recurring (generate_recurring_bookings cfg now uuid s))"
proof -
  let ?P = "\<lambda>rb. rb_is_active rb \<and> (case rb_valid_until rb of None \<Rightarrow> False | Some d \<Rightarrow> d \<ge> local_today cfg now)"
  let ?rbs = "tbl_filter ?P (bk_recurring s)"
  have dist: "distinct (map rb_id ?rbs)"
    using wf by (auto simp: tbl_wf_def tbl_filter_def distinct_map inj_on_def)
  have ex: "\<forall>rb \<in> set ?rbs. rb_valid_until rb \<noteq> None \<and> tbl_get rb_id (rb_id rb) (bk_recurring s) \<noteq> None"
    using tbl_get_row[OF wf] by (auto split: option.splits)
  have "rb \<in> set ?rbs" "rb_id rb = k"
    using tbl_get_SomeD[OF rb] act by auto
  then have "find (\<lambda>rb. rb_id rb = k) ?rbs = Some rb"
    using find_key_unique[OF dist, of rb] by simp
  then have "tbl_get rb_id k (bk_recurring (generate_recurring_bookings cfg now uuid s)) = Some (extended rb)"
    unfolding generate_recurring_bookings_def using extend_all_get[OF wf dist ex] by simp
  moreover have "tbl_wf rb_id (bk_recurring (fold (extend_series cfg now uuid) xs t))"
    if "tbl_wf rb_id (bk_recurring t)" for xs t
    using that
  proof (induction xs arbitrary: t)
    case (Cons x xs)
    have "tbl_wf rb_id (bk_recurring (extend_series cfg now uuid x t))"
      using Cons.prems tbl_wf_save[OF Cons.prems, of "extended x"]
      by (cases "rb_valid_until x") (simp_all add: extend_series_recurring, simp add: extend_series_def)
    then show ?case using Cons.IH by simp
  qed simp
  ultimately show ?thesis using wf by (simp add: generate_recurring_bookings_def)
qed

text \<open>
  The end of a series is not respected by the periodic task: each run moves the end of every
  active series that has not run out one period ahead, so after any number of runs on a day the
  series still has not run out. The date the user gave as \<open>repeat_until\<close> only marks where the
  task goes on.
\<close>

theorem series_outlives_repeat_until:
  assumes "tbl_wf rb_id (bk_recurring s)" "tbl_get rb_id k (bk_recurring s) = Some rb"
    and "rb_is_active rb" "rb_valid_until rb = Some d" "local_today cfg now \<le> d"
  shows "\<exists>rb'. tbl_get rb_id k (bk_recurring ((generate_recurring_bookings cfg now uuid ^^ n) s)) = Some rb'
    \<and> rb_is_active rb' \<and> rb_valid_until rb' = Some (d + int n * advance_days (rb_recurrence_type rb))"
proof -
  have "\<exists>rb'. tbl_get rb_id k (bk_recurring ((generate_recurring_bookings cfg now uuid ^^ n) s)) = Some rb'
    \<and> tbl_wf rb_id (bk_recurring ((generate_recurring_bookings cfg now uuid ^^ n) s))
    \<and> rb_is_active rb' \<and> rb_recurrence_type rb' = rb_recurrence_type rb
    \<and> rb_valid_until rb' = Some (d + int n * advance_days (rb_recurrence_type rb))"
  proof (induction n)
    case 0
    then show ?case using assms by simp
  next
    case (Suc n)
    then obtain rb' where rb': "tbl_get rb_id k (bk_recurring ((generate_recurring_bookings cfg now uuid ^^ n) s)) = Some rb'"
      "tbl_wf rb_id (bk_recurring ((generate_recurring_bookings cfg now uuid ^^ n) s))"
      "rb_is_active rb'" "rb_recurrence_type rb' = rb_recurrence_type rb"
      "rb_valid_until rb' = Some (d + int n * advance_days (rb_recurrence_type rb))" by blast
    have "0 \<le> int n * advance_days (rb_recurrence_type rb)" by (simp add: advance_days_def)
    then have "local_today cfg now \<le> d + int n * advance_days (rb_recurrence_type rb)"
      using assms(5) by linarith
    from generate_extends[OF rb'(2,1,3,5) this, of uuid] show ?case
      using rb'(3,4,5) by (auto simp: extended_def algebra_simps)
  qed
  then show ?thesis by blast
qed

definition demo_series :: recurring_booking where
  "demo_series = \<lparr>rb_id = 1, rb_resource = 1, rb_user = 1, rb_company = Some 1,
     rb_recurrence_type = Weekly, rb_day_of_week = Some 0, rb_start_time = hours 10,
     rb_end_time = hours 11, rb_is_active = True, rb_valid_from = 0, rb_valid_until = Some 4\<rparr>"

theorem series_outlives_repeat_until_witness:
  "\<exists>rb'. tbl_get rb_id 1 (bk_recurring ((generate_recurring_bookings default_settings 0 id ^^ 3)
       ((demo_state (default_resource 1) [])\<lparr>bk_recurring := Table [demo_series] 2\<rparr>))) = Some rb'
    \<and> rb_is_active rb' \<and> rb_valid_until rb' = Some (4 + int 3 * advance_days Weekly)"
  using series_outlives_repeat_until[of "(demo_state (default_resource 1) [])\<lparr>bk_recurring := Table [demo_series] 2\<rparr>"
      1 demo_series 4 default_settings 0 3 id]
  by (simp add: demo_series_def tbl_wf_def tbl_get_def local_today_def local_date_def default_settings_def time_units)

section \<open>Schedule of a resource\<close>

lemma busy_slots_set:
  "sl \<in> set (busy_slots_for_resource s k a b) \<longleftrightarrow>
     (\<exists>x \<in> set (all_bookings s). b_resource x = k \<and> b_status x = Confirmed \<and> overlaps (b_start x) (b_end x) a b
        \<and> sl = \<lparr>sl_start = b_start x, sl_end = b_end x, sl_booking_id = Some (b_id x),
             sl_user_name = map_option full_name (tbl_get u_id (b_user x) (ac_users (bk_acc s)))\<rparr>)
   \<or> (\<exists>x \<in> set (rows (bk_blocks s)). bl_resource x = k \<and> overlaps (bl_start x) (bl_end x) a b
        \<and> sl = \<lparr>sl_start = bl_start x, sl_end = bl_end x, sl_booking_id = None, sl_user_name = None\<rparr>)"
  unfolding busy_slots_for_resource_def Let_def set_sort set_append set_map set_tbl_filter
    overlaps_def all_bookings_def image_iff Bex_def Un_iff mem_Collect_eq
  by (intro disj_cong refl) blast+

text \<open>
  The busy slots of a resource in a range are in order of their start; a slot with a booking
  id stands for a confirmed booking of the resource that overlaps the range, every other slot for
  a block, and every such booking and block has its slot.
\<close>

theorem busy_slots_sorted_complete:
  "sorted (map sl_start (busy_slots_for_resource s k a b))
   \<and> {(sl_start sl, sl_end sl, sl_booking_id sl) | sl. sl \<in> set (busy_slots_for_resource s k a b)}
     = {(b_start x, b_end x, Some (b_id x)) | x. x \<in> set (all_bookings s) \<and> b_resource x = k
          \<and> b_status x = Confirmed \<and> overlaps (b_start x) (b_end x) a b}
       \<union> {(bl_start x, bl_end x, None) | x. x \<in> set (rows (bk_blocks s)) \<and> bl_resource x = k
          \<and> overlaps (bl_start x) (bl_end x) a b}" (is "?S \<and> ?L = ?R")
proof
  show ?S by (simp add: busy_slots_for_resource_def Let_def)
  show "?L = ?R"
  proof (intro equalityI subsetI)
    fix t assume "t \<in> ?L"
    then obtain sl where "t = (sl_start sl, sl_end sl, sl_booking_id sl)"
      "sl \<in> set (busy_slots_for_resource s k a b)" by blast
    then show "t \<in> ?R" unfolding busy_slots_set by (elim disjE bexE conjE) auto
  next
    fix t assume "t \<in> ?R"
    then show "t \<in> ?L"
    proof (elim UnE CollectE exE conjE)
      fix x assume "t = (b_start x, b_end x, Some (b_id x))" "x \<in> set (all_bookings s)" "b_resource x = k"
        "b_status x = Confirmed" "overlaps (b_start x) (b_end x) a b"
      then show ?thesis
        by (intro CollectI exI[of _ "\<lparr>sl_start = b_start x, sl_end = b_end x, sl_booking_id = Some (b_id x),
             sl_user_name = map_option full_name (tbl_get u_id (b_user x) (ac_users (bk_acc s)))\<rparr>"])
          (simp add: busy_slots_set, blast)
    next
      fix x assume "t = (bl_start x, bl_end x, None)" "x \<in> set (rows (bk_blocks s))" "bl_resource x = k"
        "overlaps (bl_start x) (bl_end x) a b"
      then show ?thesis
        by (intro CollectI exI[of _ "\<lparr>sl_start = bl_start x, sl_end = bl_end x, sl_booking_id = None, sl_user_name = None\<rparr>"])
          (simp add: busy_slots_set, blast)
    qed
  qed
qed

section \<open>Blocks\<close>

text \<open>
  Blocking a resource cancels the confirmed bookings that overlap the block and no others,
  notes each in the cancellation audit, and keeps the invariant.
\<close>

theorem block_resource_effect:
  assumes "bk_inv s" "block_resource now u k st en reason s = Inr s'"
  shows "\<exists>r. get_resource s u k = Inr r \<and> st < en
    \<and> all_bookings s' = map (\<lambda>x. if b_resource x = r_id r \<and> b_status x = Confirmed
           \<and> overlaps (b_start x) (b_end x) st en
         then cancel_row u (Str (if reason = [] then ''Resource blocked by administrator'' else reason)) x
         else x) (all_bookings s)
    \<and> bk_inv s'"
proof -
  obtain r where r: "get_resource s u k = Inr r" "st < en"
    and s': "s' = cancel_overlapping_bookings_for_block now u r st en reason
      (s\<lparr>bk_blocks := tbl_insert (\<lambda>i. \<lparr>bl_id = i, bl_resource = r_id r, bl_blocked_by = Some (u_id u),
          bl_start = st, bl_end = en, bl_reason = reason\<rparr>) (bk_blocks s)\<rparr>)"
    using assms(2) by (auto simp: block_resource_def split: option.splits sum.splits)
  let ?ov = "overlapping_bookings s (r_id r) st en None"
  have wf: "tbl_wf b_id (bk_bookings s)" using assms(1) by (simp add: bk_inv_iff)
  have ov: "overlapping_bookings (s\<lparr>bk_blocks := x\<rparr>) (r_id r) st en None = ?ov" for x
    by (simp add: overlapping_bookings_def)
  have "b_id x \<in> b_id ` set ?ov \<longleftrightarrow> x \<in> set ?ov" if "x \<in> set (all_bookings s)" for x
    using that wf by (auto simp: in_overlapping_iff all_bookings_def tbl_wf_def distinct_map dest: inj_onD)
  then have "all_bookings s' = map (\<lambda>x. if b_resource x = r_id r \<and> b_status x = Confirmed
           \<and> overlaps (b_start x) (b_end x) st en
         then cancel_row u (Str (if reason = [] then ''Resource blocked by administrator'' else reason)) x
         else x) (all_bookings s)"
    unfolding s' cancel_overlapping_bookings_for_block_def all_bookings_def cancel_for_block_eq ov
    by (auto simp: in_overlapping_iff all_bookings_def)
  then show ?thesis using r block_resource_inv[OF assms] by blast
qed

theorem block_resource_effect_witness:
  "\<exists>s'. block_resource 0 (demo_user 9 Superadmin None) 1 (hours 5) (hours 6) []
     (demo_state (default_resource 1) [demo_booking 1 2 Confirmed (hours 4) (hours 6) 1]) = Inr s' \<and> bk_inv s'"
proof -
  let ?s = "demo_state (default_resource 1) [demo_booking 1 2 Confirmed (hours 4) (hours 6) 1]"
  have inv: "bk_inv ?s"
    by (simp add: bk_inv_iff demo_defs tbl_wf_def schedule_ok_def empty_table_def clash_def)
  have "is_ok (block_resource 0 (demo_user 9 Superadmin None) 1 (hours 5) (hours 6) [] ?s)" by code_simp
  then obtain s' where ok: "block_resource 0 (demo_user 9 Superadmin None) 1 (hours 5) (hours 6) [] ?s = Inr s'"
    by (auto simp: is_ok_iff)
  from block_resource_effect[OF inv ok] ok show ?thesis by blast
qed

section \<open>Recurring series of guests\<close>

text \<open>
  A guest has no company, so the company isolation empties the list of series before the
  guest's own branch filters it: a guest who made a series never sees it, can not change it, and
  yet can delete it, because deletion looks the row up without the isolation.
\<close>

theorem guest_series_invisible:
  assumes "u_role u = Guest" "u_company u = None"
    and "tbl_get rb_id k (bk_recurring s) = Some rb" "rb_user rb = u_id u"
  shows "recurring_queryset s u = [] \<and> patch_recurring u k rp s = Inl NotFound
    \<and> is_ok (destroy_recurring now u k s)"
  using assms isolation.scope_no_company[of u rb_company "rows (bk_recurring s)"]
  by (simp add: recurring_queryset_def patch_recurring_def destroy_recurring_def permission_defs
      may_destroy_series_def is_superadmin_def is_company_admin_def Let_def)

theorem guest_series_invisible_witness:
  "recurring_queryset ((demo_state (default_resource 1) [])\<lparr>bk_recurring := Table [demo_series\<lparr>rb_user := 2\<rparr>] 2\<rparr>)
     (demo_user 2 Guest None) = []"
  using guest_series_invisible[of "demo_user 2 Guest None" 1
      "(demo_state (default_resource 1) [])\<lparr>bk_recurring := Table [demo_series\<lparr>rb_user := 2\<rparr>] 2\<rparr>"
      "demo_series\<lparr>rb_user := 2\<rparr>"]
  by (simp add: demo_user_def demo_series_def tbl_get_def)

end
