(* ===== verification/ServiceModel.thy ===== *)
theory ServiceModel
  imports Resources Accounts
begin

text \<open>
  The data of \<open>apps/services\<close>: floors and the points of their plans, service requests and
  announcements (\<open>services/models.py\<close>), over the tables of the bookings component, which the
  plan of a floor shows.
\<close>

section \<open>Rows\<close>

text \<open>\<open>fl_company\<close> is the column a floor has for legacy data; the endpoints leave it null.\<close>

record floor =
  fl_id :: nat
  fl_number :: int
  fl_name :: string
  fl_plan_image :: "string option"
  fl_company :: "nat option"

datatype point_type = Pt_desk | Pt_meeting_room | Pt_parking | Pt_capsule | Pt_toilet | Pt_kitchen | Pt_elevator
  | Pt_exit | Pt_office | Pt_other

text \<open>Coordinates and sizes are in thousandths of a percent of the plan.\<close>

record map_point =
  mp_id :: nat
  mp_floor :: nat
  mp_type :: point_type
  mp_label :: string
  mp_x :: int
  mp_y :: int
  mp_width :: "int option"
  mp_height :: "int option"
  mp_resource :: "nat option"
  mp_company :: "nat option"

datatype request_type = Cleaning | Repair | Supplies | General

datatype request_status = Rs_new | Rs_accepted | Rs_in_progress | Rs_completed

datatype urgency = Low | Medium | High | Normal | Urgent

record service_request =
  sr_id :: nat
  sr_created_by :: "nat option"
  sr_company :: "nat option"
  sr_type :: request_type
  sr_status :: request_status
  sr_urgency :: urgency
  sr_floor :: "nat option"
  sr_location :: string
  sr_description :: string
  sr_photo :: "string option"
  sr_assigned_to :: "nat option"
  sr_rating :: "int option"
  sr_completed_at :: "datetime option"

datatype category = Cat_info | Cat_important | Cat_event

text \<open>The column \<open>scope\<close> is computed from the company at every save.\<close>

record announcement =
  an_id :: nat
  an_company :: "nat option"
  an_author :: "nat option"
  an_title :: string
  an_body :: string
  an_category :: category
  an_image :: "string option"
  an_is_pinned :: bool
  an_notify_email :: bool

datatype scope = Building | Company_feed

definition an_scope :: "announcement \<Rightarrow> scope" where
  "an_scope a = (if an_company a = None then Building else Company_feed)"

record announcement_read =
  ar_id :: nat
  ar_announcement :: nat
  ar_user :: nat

text \<open>Queued tasks, and the mails that go out without the notification task.\<close>

datatype sv_job = Announcement_emails nat | Announcement_subscribers nat

record sv_state =
  sv_bk :: bk_state
  sv_floors :: "floor table"
  sv_points :: "map_point table"
  sv_requests :: "service_request table"
  sv_announcements :: "announcement table"
  sv_reads :: "announcement_read table"
  sv_jobs :: "sv_job list"
  sv_mails :: "(string \<times> string) list"

definition sv_acc :: "sv_state \<Rightarrow> accounts" where
  "sv_acc s = bk_acc (sv_bk s)"

definition sv_nt :: "sv_state \<Rightarrow> nt_state" where
  "sv_nt s = bk_nt (sv_bk s)"

definition on_bk :: "(bk_state \<Rightarrow> bk_state) \<Rightarrow> sv_state \<Rightarrow> sv_state" where
  "on_bk f s = s\<lparr>sv_bk := f (sv_bk s)\<rparr>"

interpretation floors: repository fl_id "tbl_get fl_id" "tbl_save fl_id" tbl_insert
    "tbl_remove fl_id" next_id "tbl_wf fl_id"
  by (rule tbl_repository)

interpretation points: repository mp_id "tbl_get mp_id" "tbl_save mp_id" tbl_insert
    "tbl_remove mp_id" next_id "tbl_wf mp_id"
  by (rule tbl_repository)

interpretation requests: repository sr_id "tbl_get sr_id" "tbl_save sr_id" tbl_insert
    "tbl_remove sr_id" next_id "tbl_wf sr_id"
  by (rule tbl_repository)

interpretation announcements: repository an_id "tbl_get an_id" "tbl_save an_id" tbl_insert
    "tbl_remove an_id" next_id "tbl_wf an_id"
  by (rule tbl_repository)

definition find_row_by :: "('r \<Rightarrow> bool) \<Rightarrow> 'r list \<Rightarrow> api_error + 'r" where
  "find_row_by P xs = (case find P xs of None \<Rightarrow> Inl NotFound | Some x \<Rightarrow> Inr x)"

text \<open>\<open>Floor.objects\<close> reads the floors by number.\<close>

definition floors_in_order :: "sv_state \<Rightarrow> floor list" where
  "floors_in_order s = sort_key fl_number (rows (sv_floors s))"

end
