(* ===== verification/Building.thy ===== *)
theory Building
  imports ServiceModel
begin

text \<open>
  The plan of the building: \<open>FloorViewSet\<close> and \<open>MapPointViewSet\<close> of \<open>services/views.py\<close>, the
  status a point shows, and the occupancy of a floor (\<open>services/utils.py\<close>).
\<close>

section \<open>Occupancy\<close>

definition total_resources :: "bk_state \<Rightarrow> nat \<Rightarrow> int" where
  "total_resources s k = int (length (tbl_filter (\<lambda>r. r_floor_fk r = Some k \<and> r_is_active r) (bk_resources s)))"

definition booked_now :: "datetime \<Rightarrow> bk_state \<Rightarrow> nat \<Rightarrow> int" where
  "booked_now now s k = int (length (tbl_filter (\<lambda>b. b_status b = Confirmed \<and> b_start b \<le> now \<and> b_end b \<ge> now
     \<and> list_ex (\<lambda>r. r_id r = b_resource b \<and> r_floor_fk r = Some k \<and> r_is_active r) (rows (bk_resources s))) (bk_bookings s)))"

text \<open>The cast of the database rounds to the nearest integer, a half to the even one.\<close>

definition round_half_even :: "int \<Rightarrow> int \<Rightarrow> int" where
  "round_half_even n d = (let q = n div d; r = 2 * (n mod d) in
     if r < d then q else if r > d then q + 1 else if even q then q else q + 1)"

definition occupancy_pct :: "datetime \<Rightarrow> bk_state \<Rightarrow> nat \<Rightarrow> int" where
  "occupancy_pct now s k = (let t = total_resources s k in
     if t = 0 then 0 else round_half_even (100 * booked_now now s k) t)"

section \<open>Floors\<close>

definition floor_visible :: "user \<Rightarrow> floor \<Rightarrow> bool" where
  "floor_visible u f \<longleftrightarrow>
     (if u_role u = Superadmin then True
      else case u_company u of
          Some c \<Rightarrow> fl_company f = None \<or> fl_company f = Some c
        | None \<Rightarrow> fl_company f = None)"

definition get_floor :: "sv_state \<Rightarrow> user \<Rightarrow> nat \<Rightarrow> api_error + floor" where
  "get_floor s u k = find_row_by (\<lambda>f. fl_id f = k) (filter (floor_visible u) (floors_in_order s))"

record floor_request =
  qf_number :: "int option"
  qf_name :: "string option"
  qf_plan_image :: "string option option"

definition floor_fields_error :: "bool \<Rightarrow> floor_request \<Rightarrow> api_error option" where
  "floor_fields_error partial rq = first_err [
     (case qf_number rq of
        None \<Rightarrow> require partial (raise_validation_error ''number'' ''required'')
      | Some n \<Rightarrow> require (n \<ge> 0) (raise_validation_error ''number'' ''min_value'')),
     char_field_error ''name'' False True 100 (qf_name rq)]"

definition create_floor :: "user \<Rightarrow> floor_request \<Rightarrow> sv_state \<Rightarrow> api_error + sv_state" where
  "create_floor u rq s = guarded (first_err [IsSuperAdmin (Some u), floor_fields_error False rq])
     (s\<lparr>sv_floors := tbl_insert (\<lambda>i. \<lparr>fl_id = i, fl_number = pick (qf_number rq) 0, fl_name = text_or [] (qf_name rq),
          fl_plan_image = pick (qf_plan_image rq) None, fl_company = None\<rparr>) (sv_floors s)\<rparr>)"

definition update_floor :: "user \<Rightarrow> bool \<Rightarrow> nat \<Rightarrow> floor_request \<Rightarrow> sv_state \<Rightarrow> api_error + sv_state" where
  "update_floor u partial k rq s = (case IsSuperAdmin (Some u) of
     Some e \<Rightarrow> Inl e
   | None \<Rightarrow> (case get_floor s u k of
       Inl e \<Rightarrow> Inl e
     | Inr f \<Rightarrow> guarded (floor_fields_error partial rq)
         (s\<lparr>sv_floors := tbl_save fl_id (f\<lparr>fl_number := pick (qf_number rq) (fl_number f),
              fl_name := text_or (fl_name f) (qf_name rq),
              fl_plan_image := pick (qf_plan_image rq) (fl_plan_image f)\<rparr>) (sv_floors s)\<rparr>)))"

text \<open>
  Deleting a floor deletes its points, then the resources those points or the floor refer to, and
  every resource that has the number of the floor. Rows that refer to the floor or to a deleted
  resource by a nullable column lose the reference.
\<close>

definition floor_resource :: "sv_state \<Rightarrow> floor \<Rightarrow> resource \<Rightarrow> bool" where
  "floor_resource s f r \<longleftrightarrow> list_ex (\<lambda>p. mp_floor p = fl_id f \<and> mp_resource p = Some (r_id r)) (rows (sv_points s))
     \<or> r_floor_fk r = Some (fl_id f) \<or> r_floor r = fl_number f"

definition unlink_points :: "(nat \<Rightarrow> bool) \<Rightarrow> map_point table \<Rightarrow> map_point table" where
  "unlink_points gone = tbl_update (\<lambda>p. case mp_resource p of None \<Rightarrow> False | Some k \<Rightarrow> gone k) (\<lambda>p. p\<lparr>mp_resource := None\<rparr>)"

definition destroy_floor :: "user \<Rightarrow> nat \<Rightarrow> sv_state \<Rightarrow> api_error + sv_state" where
  "destroy_floor u k s = (case IsSuperAdmin (Some u) of
     Some e \<Rightarrow> Inl e
   | None \<Rightarrow> (case get_floor s u k of
       Inl e \<Rightarrow> Inl e
     | Inr f \<Rightarrow>
        (let gone = map r_id (tbl_filter (floor_resource s f) (bk_resources (sv_bk s)));
             bk = cascade_resource (\<lambda>r. r_id r \<in> set gone) (sv_bk s)
         in Inr (s\<lparr>
           sv_bk := bk\<lparr>bk_acc := (bk_acc bk)\<lparr>ac_companies := tbl_update (\<lambda>c. co_floor_fk c = Some k)
             (\<lambda>c. c\<lparr>co_floor_fk := None\<rparr>) (ac_companies (bk_acc bk))\<rparr>\<rparr>,
           sv_floors := tbl_delete (\<lambda>x. fl_id x = k) (sv_floors s),
           sv_points := unlink_points (\<lambda>i. i \<in> set gone) (tbl_delete (\<lambda>p. mp_floor p = k) (sv_points s)),
           sv_requests := tbl_update (\<lambda>x. sr_floor x = Some k) (\<lambda>x. x\<lparr>sr_floor := None\<rparr>) (sv_requests s)\<rparr>))))"

section \<open>Points\<close>

definition RESOURCE_POINT_TYPES :: "point_type set" where
  "RESOURCE_POINT_TYPES = {Pt_desk, Pt_meeting_room, Pt_parking, Pt_capsule}"

text \<open>A company with the premium plan keeps its points, and the points of its resources, to itself.\<close>

definition open_to :: "accounts \<Rightarrow> user \<Rightarrow> nat option \<Rightarrow> bool" where
  "open_to acc u company \<longleftrightarrow> (case company of
     None \<Rightarrow> True
   | Some c \<Rightarrow> (case tbl_get co_id c (ac_companies acc) of
       None \<Rightarrow> False
     | Some co \<Rightarrow> co_plan co \<in> {Basic, Standard} \<or> (co_plan co = Premium \<and> u_company u = Some c)))"

definition point_visible :: "sv_state \<Rightarrow> user \<Rightarrow> map_point \<Rightarrow> bool" where
  "point_visible s u p \<longleftrightarrow>
     (if u_role u = Superadmin then True
      else open_to (sv_acc s) u (mp_company p) \<and>
        (case mp_resource p of
           None \<Rightarrow> True
         | Some k \<Rightarrow> (case tbl_get r_id k (bk_resources (sv_bk s)) of
             None \<Rightarrow> False
           | Some r \<Rightarrow> open_to (sv_acc s) u (r_assigned_company r))))"

definition get_point :: "sv_state \<Rightarrow> user \<Rightarrow> nat \<Rightarrow> api_error + map_point" where
  "get_point s u k = find_row_by (\<lambda>p. mp_id p = k) (tbl_filter (point_visible s u) (sv_points s))"

datatype point_state = Ps_free | Ps_soon_available | Ps_occupied | Ps_blocked

definition SOON_AVAILABLE_WINDOW :: int where
  "SOON_AVAILABLE_WINDOW = minutes 30"

text \<open>What a point shows at a time: its state, and when it comes free.\<close>

definition first_ending :: "('a \<Rightarrow> datetime) \<Rightarrow> 'a list \<Rightarrow> 'a option" where
  "first_ending e xs = (case sort_key e xs of [] \<Rightarrow> None | x # _ \<Rightarrow> Some x)"

definition status_payload :: "datetime \<Rightarrow> sv_state \<Rightarrow> map_point \<Rightarrow> (point_state option \<times> datetime option)" where
  "status_payload now s p = (case mp_resource p of
     None \<Rightarrow> (None, None)
   | Some k \<Rightarrow>
      (if mp_type p \<notin> RESOURCE_POINT_TYPES then (None, None)
       else case first_ending bl_end (tbl_filter (\<lambda>b. bl_resource b = k \<and> bl_start b \<le> now \<and> bl_end b > now)
              (bk_blocks (sv_bk s))) of
         Some b \<Rightarrow> (Some Ps_blocked, Some (bl_end b))
       | None \<Rightarrow> (case first_ending b_end (tbl_filter (\<lambda>b. b_resource b = k \<and> b_status b = Confirmed
              \<and> b_start b \<le> now \<and> b_end b > now) (bk_bookings (sv_bk s))) of
           None \<Rightarrow> (Some Ps_free, None)
         | Some b \<Rightarrow> (if b_end b \<le> now + SOON_AVAILABLE_WINDOW then (Some Ps_soon_available, Some (b_end b))
             else (Some Ps_occupied, Some (b_end b))))))"

text \<open>The list of a floor's points: the detail of a floor, and its map at a time.\<close>

definition retrieve_floor :: "datetime \<Rightarrow> user \<Rightarrow> nat \<Rightarrow> sv_state \<Rightarrow> api_error + (map_point \<times> point_state option) list" where
  "retrieve_floor now u k s = (case IsGuestOrCompanyMember (Some u) of
     Some e \<Rightarrow> Inl e
   | None \<Rightarrow> (case get_floor s u k of
       Inl e \<Rightarrow> Inl e
     | Inr f \<Rightarrow> Inr (map (\<lambda>p. (p, fst (status_payload now s p)))
         (tbl_filter (\<lambda>p. mp_floor p = fl_id f) (sv_points s)))))"

definition floor_map :: "datetime \<Rightarrow> user \<Rightarrow> nat \<Rightarrow> sv_state \<Rightarrow> api_error + (map_point \<times> point_state option) list" where
  "floor_map at_time u k s = (case IsGuestOrCompanyMember (Some u) of
     Some e \<Rightarrow> Inl e
   | None \<Rightarrow> (case get_floor s u k of
       Inl e \<Rightarrow> Inl e
     | Inr f \<Rightarrow> Inr (map (\<lambda>p. (p, fst (status_payload at_time s p)))
         (tbl_filter (\<lambda>p. mp_floor p = fl_id f \<and> point_visible s u p) (sv_points s)))))"

record point_request =
  qp_floor :: "nat option"
  qp_type :: "point_type option"
  qp_label :: "string option"
  qp_x :: "int option"
  qp_y :: "int option"
  qp_width :: "int option option"
  qp_height :: "int option option"
  qp_resource :: "nat option option"
  qp_company :: "nat option option"

definition in_plan :: "int option \<Rightarrow> bool" where
  "in_plan v \<longleftrightarrow> (case v of None \<Rightarrow> True | Some n \<Rightarrow> 0 \<le> n \<and> n \<le> 100000)"

definition apply_point :: "point_request \<Rightarrow> map_point \<Rightarrow> map_point" where
  "apply_point rq p = p\<lparr>mp_floor := pick (qp_floor rq) (mp_floor p), mp_type := pick (qp_type rq) (mp_type p),
     mp_label := text_or (mp_label p) (qp_label rq), mp_x := pick (qp_x rq) (mp_x p), mp_y := pick (qp_y rq) (mp_y p),
     mp_width := pick (qp_width rq) (mp_width p), mp_height := pick (qp_height rq) (mp_height p),
     mp_resource := pick (qp_resource rq) (mp_resource p), mp_company := pick (qp_company rq) (mp_company p)\<rparr>"

definition point_fields_error :: "bool \<Rightarrow> sv_state \<Rightarrow> point_request \<Rightarrow> api_error option" where
  "point_fields_error partial s rq = first_err [
     (case qp_floor rq of
        None \<Rightarrow> require partial (raise_validation_error ''floor'' ''required'')
      | Some k \<Rightarrow> require (tbl_get fl_id k (sv_floors s) \<noteq> None) (raise_validation_error ''floor'' ''does_not_exist'')),
     require (partial \<or> qp_type rq \<noteq> None) (raise_validation_error ''point_type'' ''required''),
     char_field_error ''label'' False True 255 (qp_label rq),
     require (partial \<or> qp_x rq \<noteq> None) (raise_validation_error ''x'' ''required''),
     require (partial \<or> qp_y rq \<noteq> None) (raise_validation_error ''y'' ''required''),
     (case qp_resource rq of
        Some (Some k) \<Rightarrow> require (tbl_get r_id k (bk_resources (sv_bk s)) \<noteq> None) (raise_validation_error ''resource'' ''does_not_exist'')
      | _ \<Rightarrow> None),
     (case qp_company rq of
        Some (Some k) \<Rightarrow> require (get_company (sv_acc s) k \<noteq> None) (raise_validation_error ''company'' ''does_not_exist'')
      | _ \<Rightarrow> None)]"

text \<open>\<open>validate\<close> looks at the row as it would be after the request.\<close>

definition validate_point :: "sv_state \<Rightarrow> map_point \<Rightarrow> api_error option" where
  "validate_point s p = first_err [
     require (in_plan (Some (mp_x p))) (raise_validation_error ''x'' ''services.coordinate_out_of_range''),
     require (in_plan (Some (mp_y p))) (raise_validation_error ''y'' ''services.coordinate_out_of_range''),
     require (in_plan (mp_width p)) (raise_validation_error ''width'' ''services.coordinate_out_of_range''),
     require (in_plan (mp_height p)) (raise_validation_error ''height'' ''services.coordinate_out_of_range''),
     require (mp_type p \<in> RESOURCE_POINT_TYPES \<longrightarrow> mp_resource p \<noteq> None)
       (raise_validation_error ''resource'' ''services.resource_required_for_type''),
     require (mp_type p = Pt_office \<longrightarrow> mp_company p \<noteq> None)
       (raise_validation_error ''company'' ''services.company_required_for_office''),
     (case Option.bind (mp_resource p) (\<lambda>k. tbl_get r_id k (bk_resources (sv_bk s))) of
        None \<Rightarrow> None
      | Some r \<Rightarrow> require (r_floor_fk r \<in> {None, Some (mp_floor p)})
          (raise_validation_error ''resource'' ''services.resource_floor_mismatch''))]"

definition blank_point :: "nat \<Rightarrow> map_point" where
  "blank_point i = \<lparr>mp_id = i, mp_floor = 0, mp_type = Pt_other, mp_label = [], mp_x = 0, mp_y = 0, mp_width = None,
     mp_height = None, mp_resource = None, mp_company = None\<rparr>"

definition create_point :: "user \<Rightarrow> point_request \<Rightarrow> sv_state \<Rightarrow> api_error + sv_state" where
  "create_point u rq s = guarded (first_err [IsSuperAdmin (Some u), point_fields_error False s rq,
       validate_point s (apply_point rq (blank_point 0))])
     (s\<lparr>sv_points := tbl_insert (\<lambda>i. apply_point rq (blank_point i)) (sv_points s)\<rparr>)"

definition update_point :: "user \<Rightarrow> bool \<Rightarrow> nat \<Rightarrow> point_request \<Rightarrow> sv_state \<Rightarrow> api_error + sv_state" where
  "update_point u partial k rq s = (case IsSuperAdmin (Some u) of
     Some e \<Rightarrow> Inl e
   | None \<Rightarrow> (case get_point s u k of
       Inl e \<Rightarrow> Inl e
     | Inr p \<Rightarrow> guarded (first_err [point_fields_error partial s rq, validate_point s (apply_point rq p)])
         (s\<lparr>sv_points := tbl_save mp_id (apply_point rq p) (sv_points s)\<rparr>)))"

definition destroy_point :: "user \<Rightarrow> nat \<Rightarrow> sv_state \<Rightarrow> api_error + sv_state" where
  "destroy_point u k s = (case IsSuperAdmin (Some u) of
     Some e \<Rightarrow> Inl e
   | None \<Rightarrow> (case get_point s u k of
       Inl e \<Rightarrow> Inl e
     | Inr p \<Rightarrow> Inr (s\<lparr>sv_points := tbl_delete (\<lambda>x. mp_id x = k) (sv_points s)\<rparr>)))"

text \<open>The search reads the label of the point or the name of its resource, without case.\<close>

definition icontains :: "string \<Rightarrow> string \<Rightarrow> bool" where
  "icontains t q \<longleftrightarrow> list_ex (\<lambda>i. take (length q) (drop i (lower t)) = lower q) [0..<length t + 1]"

definition search_points :: "user \<Rightarrow> string \<Rightarrow> sv_state \<Rightarrow> api_error + map_point list" where
  "search_points u q s =
     (if strip q = [] then Inl (raise_validation_error ''detail'' ''q_required'')
      else Inr (tbl_filter (\<lambda>p. point_visible s u p \<and> (icontains (mp_label p) (strip q) \<or>
        (case Option.bind (mp_resource p) (\<lambda>k. tbl_get r_id k (bk_resources (sv_bk s))) of
           None \<Rightarrow> False | Some r \<Rightarrow> icontains (r_name r) (strip q)))) (sv_points s)))"

end
