(* ===== verification/ServiceRequests.thy ===== *)
theory ServiceRequests
  imports Building
begin

text \<open>
  \<open>ServiceRequestViewSet\<close> of \<open>services/views.py\<close> with its serializers: making a request, the quick
  cleaning, the status and the assignee, and the rating.
\<close>

section \<open>Who sees what\<close>

definition request_visible :: "user \<Rightarrow> service_request \<Rightarrow> bool" where
  "request_visible u q \<longleftrightarrow>
     (if u_role u \<in> {Superadmin, Service_manager} then True
      else if u_role u = Company_admin \<and> u_company u \<noteq> None then sr_company q = u_company u
      else sr_created_by q = Some (u_id u))"

definition get_request :: "sv_state \<Rightarrow> user \<Rightarrow> nat \<Rightarrow> api_error + service_request" where
  "get_request s u k = find_row_by (\<lambda>q. sr_id q = k) (tbl_filter (request_visible u) (sv_requests s))"

definition retrieve_request :: "user \<Rightarrow> nat \<Rightarrow> sv_state \<Rightarrow> api_error + service_request" where
  "retrieve_request u k s =
     (if IsGuestOrCompanyMember (Some u) = None \<or> IsServiceManager (Some u) = None then get_request s u k
      else Inl denied)"

definition notify_service_managers_new_request ::
  "datetime \<Rightarrow> user \<Rightarrow> request_type \<Rightarrow> sv_state \<Rightarrow> sv_state" where
  "notify_service_managers_new_request now u t s = fold (\<lambda>m. on_bk (notify_nt now (u_id m) Service_request_update
       (Fmt ''service_request.new.title'' []) (Fmt ''service_request.new.message'' [Str (full_name u)])
       (Some (Str ''/service-requests''))))
     (tbl_filter (\<lambda>m. u_role m = Service_manager \<and> u_is_active m) (ac_users (sv_acc s))) s"

section \<open>Making and editing\<close>

text \<open>\<open>rating\<close> is a writable field of the serializer; a floor is sent by its key or its number.\<close>

record request_body =
  qq_type :: "request_type option"
  qq_urgency :: "urgency option"
  qq_floor :: "nat option option"
  qq_location :: "string option"
  qq_description :: "string option"
  qq_photo :: "string option option"
  qq_rating :: "int option option"

definition floor_by_key_or_number :: "sv_state \<Rightarrow> nat \<Rightarrow> floor option" where
  "floor_by_key_or_number s n = (case tbl_get fl_id n (sv_floors s) of
     Some f \<Rightarrow> Some f
   | None \<Rightarrow> find (\<lambda>f. fl_number f = int n) (floors_in_order s))"

definition body_floor :: "sv_state \<Rightarrow> request_body \<Rightarrow> nat option option" where
  "body_floor s rq = (case qq_floor rq of
     None \<Rightarrow> None
   | Some None \<Rightarrow> Some None
   | Some (Some n) \<Rightarrow> Some (map_option fl_id (floor_by_key_or_number s n)))"

definition request_fields_error :: "bool \<Rightarrow> sv_state \<Rightarrow> request_body \<Rightarrow> api_error option" where
  "request_fields_error partial s rq = first_err [
     require (partial \<or> qq_type rq \<noteq> None) (raise_validation_error ''request_type'' ''required''),
     (case qq_floor rq of
        Some (Some n) \<Rightarrow> require (floor_by_key_or_number s n \<noteq> None) (raise_validation_error ''floor'' ''does_not_exist'')
      | _ \<Rightarrow> None),
     char_field_error ''location'' False True 255 (qq_location rq),
     (case qq_rating rq of
        Some (Some r) \<Rightarrow> require (r \<ge> 0) (raise_validation_error ''rating'' ''min_value'')
      | _ \<Rightarrow> None)]"

definition request_required_error :: "request_body \<Rightarrow> api_error option" where
  "request_required_error rq = first_err [
     require (qq_floor rq \<notin> {None, Some None}) (raise_validation_error ''floor'' ''services.field_required''),
     require (qq_location rq \<notin> {None, Some []}) (raise_validation_error ''location'' ''services.field_required''),
     require (qq_description rq \<notin> {None, Some []}) (raise_validation_error ''description'' ''services.field_required''),
     require (qq_urgency rq \<noteq> None) (raise_validation_error ''urgency'' ''services.field_required'')]"

definition apply_request :: "sv_state \<Rightarrow> request_body \<Rightarrow> service_request \<Rightarrow> service_request" where
  "apply_request s rq q = q\<lparr>sr_type := pick (qq_type rq) (sr_type q), sr_urgency := pick (qq_urgency rq) (sr_urgency q),
     sr_floor := pick (body_floor s rq) (sr_floor q), sr_location := text_or (sr_location q) (qq_location rq),
     sr_description := text_or (sr_description q) (qq_description rq), sr_photo := pick (qq_photo rq) (sr_photo q),
     sr_rating := pick (qq_rating rq) (sr_rating q)\<rparr>"

definition blank_request :: "user \<Rightarrow> nat \<Rightarrow> service_request" where
  "blank_request u i = \<lparr>sr_id = i, sr_created_by = Some (u_id u), sr_company = u_company u, sr_type = General,
     sr_status = Rs_new, sr_urgency = Low, sr_floor = None, sr_location = [], sr_description = [], sr_photo = None,
     sr_assigned_to = None, sr_rating = None, sr_completed_at = None\<rparr>"

definition add_request :: "(nat \<Rightarrow> service_request) \<Rightarrow> sv_state \<Rightarrow> sv_state" where
  "add_request mk s = s\<lparr>sv_requests := tbl_insert mk (sv_requests s)\<rparr>"

definition put_request :: "service_request \<Rightarrow> sv_state \<Rightarrow> sv_state" where
  "put_request q s = s\<lparr>sv_requests := tbl_save sr_id q (sv_requests s)\<rparr>"

definition create_service_request :: "datetime \<Rightarrow> user \<Rightarrow> request_body \<Rightarrow> sv_state \<Rightarrow> api_error + sv_state" where
  "create_service_request now u rq s = guarded
     (first_err [IsGuestOrCompanyMember (Some u), request_fields_error False s rq, request_required_error rq])
     (notify_service_managers_new_request now u (the (qq_type rq))
        (add_request (\<lambda>i. apply_request s rq (blank_request u i)) s))"

definition update_request :: "user \<Rightarrow> nat \<Rightarrow> request_body \<Rightarrow> sv_state \<Rightarrow> api_error + sv_state" where
  "update_request u k rq s = (case IsGuestOrCompanyMember (Some u) of
     Some e \<Rightarrow> Inl e
   | None \<Rightarrow> (case get_request s u k of
       Inl e \<Rightarrow> Inl e
     | Inr q \<Rightarrow> guarded (request_fields_error True s rq) (put_request (apply_request s rq q) s)))"

text \<open>
  The quick cleaning: a floor by its key, or the floor of the user's latest booking; the other fields
  are not validated, a location that is too long is refused by the column.
\<close>

definition last_booking :: "sv_state \<Rightarrow> user \<Rightarrow> booking option" where
  "last_booking s u = (case rev (sort_key b_start
       (tbl_filter (\<lambda>b. b_user b = u_id u \<and> b_company b = u_company u) (bk_bookings (sv_bk s)))) of
     [] \<Rightarrow> None | b # _ \<Rightarrow> Some b)"

definition floor_of_resource :: "sv_state \<Rightarrow> resource \<Rightarrow> floor option" where
  "floor_of_resource s r =
     (if r_floor r = 0 then None
      else case Option.bind (r_floor_fk r) (\<lambda>k. tbl_get fl_id k (sv_floors s)) of
        Some f \<Rightarrow> Some f
      | None \<Rightarrow> find (\<lambda>f. fl_number f = r_floor r) (floors_in_order s))"

definition cleaning_floor :: "sv_state \<Rightarrow> user \<Rightarrow> nat option \<Rightarrow> api_error + floor" where
  "cleaning_floor s u v = (case v of
     Some k \<Rightarrow> (case tbl_get fl_id k (sv_floors s) of
         None \<Rightarrow> Inl (raise_validation_error ''detail'' ''floor_not_found'') | Some f \<Rightarrow> Inr f)
   | None \<Rightarrow> (case Option.bind (Option.bind (last_booking s u) (resource_of (sv_bk s))) (floor_of_resource s) of
         None \<Rightarrow> Inl (raise_validation_error ''detail'' ''floor_unknown'') | Some f \<Rightarrow> Inr f))"

definition quick_cleaning ::
  "datetime \<Rightarrow> user \<Rightarrow> nat option \<Rightarrow> string option \<Rightarrow> string option \<Rightarrow> sv_state \<Rightarrow> api_error + sv_state" where
  "quick_cleaning now u v location description s = (case IsGuestOrCompanyMember (Some u) of
     Some e \<Rightarrow> Inl e
   | None \<Rightarrow> (case cleaning_floor s u v of
       Inl e \<Rightarrow> Inl e
     | Inr f \<Rightarrow> guarded (require (length (pick location []) \<le> 255) ServerError)
         (notify_service_managers_new_request now u Cleaning
            (add_request (\<lambda>i. (blank_request u i)\<lparr>sr_type := Cleaning, sr_floor := Some (fl_id f),
               sr_location := pick location [], sr_description := pick description ''Quick cleaning request''\<rparr>) s))))"

section \<open>Status and assignee\<close>

definition next_status :: "request_status \<Rightarrow> request_status option" where
  "next_status st = (case st of
     Rs_new \<Rightarrow> Some Rs_accepted | Rs_accepted \<Rightarrow> Some Rs_in_progress | Rs_in_progress \<Rightarrow> Some Rs_completed
   | Rs_completed \<Rightarrow> None)"

text \<open>What the body says; an absent field is \<open>None\<close>, the last two may be null.\<close>

record status_body =
  qs_status :: "request_status option"
  qs_assigned_to :: "nat option option"
  qs_completed_at :: "datetime option option"

definition status_fields_error :: "sv_state \<Rightarrow> service_request \<Rightarrow> status_body \<Rightarrow> api_error option" where
  "status_fields_error s q rq = first_err [
     require (qs_status rq \<noteq> None \<or> qs_assigned_to rq \<noteq> None) (raise_validation_error ''status'' ''required''),
     (case qs_status rq of
        None \<Rightarrow> None
      | Some st \<Rightarrow> require (st = sr_status q \<or> next_status (sr_status q) = Some st)
          (raise_validation_error ''status'' ''services.invalid_status_transition'')),
     (case qs_assigned_to rq of
        Some (Some k) \<Rightarrow> require (list_ex (\<lambda>u. u_id u = k \<and> u_is_active u) (rows (ac_users (sv_acc s))))
          (raise_validation_error ''assigned_to'' ''does_not_exist'')
      | _ \<Rightarrow> None),
     require (qs_completed_at rq = None \<or> sr_status q = Rs_in_progress)
       (raise_validation_error ''non_field_errors'' ''services.completion_info_only_when_in_progress'')]"

text \<open>The assignee after the request, if the request sets one: a service manager takes it over.\<close>

definition new_assignee :: "user \<Rightarrow> status_body \<Rightarrow> nat option option" where
  "new_assignee u rq = (if u_role u = Superadmin then qs_assigned_to rq
     else if u_role u = Service_manager then Some (Some (u_id u)) else None)"

definition final_status :: "user \<Rightarrow> service_request \<Rightarrow> status_body \<Rightarrow> request_status" where
  "final_status u q rq = (case qs_status rq of
     Some st \<Rightarrow> st
   | None \<Rightarrow> (case pick (new_assignee u rq) (sr_assigned_to q) of
       None \<Rightarrow> sr_status q
     | Some a \<Rightarrow> if a = u_id u then Rs_in_progress else Rs_accepted))"

text \<open>A time of completion that is sent is written; completing without one stamps the present.\<close>

definition final_completed_at :: "datetime \<Rightarrow> user \<Rightarrow> service_request \<Rightarrow> status_body \<Rightarrow> datetime option" where
  "final_completed_at now u q rq =
     (if final_status u q rq = Rs_completed \<and> qs_completed_at rq \<in> {None, Some None} \<and> sr_completed_at q = None
      then Some now else pick (qs_completed_at rq) (sr_completed_at q))"

definition with_status :: "datetime \<Rightarrow> user \<Rightarrow> status_body \<Rightarrow> service_request \<Rightarrow> service_request" where
  "with_status now u rq q = q\<lparr>sr_status := final_status u q rq,
     sr_assigned_to := pick (new_assignee u rq) (sr_assigned_to q),
     sr_completed_at := final_completed_at now u q rq\<rparr>"

definition notify_creator :: "datetime \<Rightarrow> service_request \<Rightarrow> sv_state \<Rightarrow> sv_state" where
  "notify_creator now q s = (case sr_created_by q of
     None \<Rightarrow> s
   | Some k \<Rightarrow> on_bk (notify_nt now k Service_request_update (Fmt ''service_request.update.title'' [])
       (Fmt ''service_request.update.message'' []) (Some (Str ''/service-requests/''))) s)"

definition update_status :: "datetime \<Rightarrow> user \<Rightarrow> nat \<Rightarrow> status_body \<Rightarrow> sv_state \<Rightarrow> api_error + sv_state" where
  "update_status now u k rq s = (case IsServiceRequestManager (Some u) of
     Some e \<Rightarrow> Inl e
   | None \<Rightarrow> (case get_request s u k of
       Inl e \<Rightarrow> Inl e
     | Inr q \<Rightarrow> guarded (first_err [
           status_fields_error s q rq,
           require (\<not> (new_assignee u rq \<noteq> None \<and> sr_status q = Rs_in_progress \<and> new_assignee u rq \<noteq> Some (sr_assigned_to q)))
             (raise_validation_error ''non_field_errors'' ''services.assignee_locked_in_progress'')])
         (let s1 = put_request (with_status now u rq q) s
          in if sr_status (with_status now u rq q) \<noteq> sr_status q then notify_creator now q s1 else s1)))"

text \<open>The other endpoint for the assignee; leaving the field out is let through.\<close>

definition active_requests_of :: "sv_state \<Rightarrow> nat \<Rightarrow> nat \<Rightarrow> service_request list" where
  "active_requests_of s a k =
     tbl_filter (\<lambda>x. sr_assigned_to x = Some a \<and> sr_status x \<noteq> Rs_completed \<and> sr_id x \<noteq> k) (sv_requests s)"

definition executor_error :: "user \<Rightarrow> service_request \<Rightarrow> user \<Rightarrow> sv_state \<Rightarrow> api_error option" where
  "executor_error u q a s = first_err [
     require (u_is_active a) (raise_validation_error ''assigned_to'' ''services.assignee_inactive''),
     require (u_role a \<noteq> Guest) (raise_validation_error ''assigned_to'' ''services.assignee_invalid_role''),
     require (\<not> (u_role u = Service_manager \<and> sr_assigned_to q \<notin> {None, Some (u_id a)}))
       (raise_validation_error ''assigned_to'' ''services.service_manager_request_already_taken''),
     require (\<not> (u_role a = Service_manager \<and> active_requests_of s (u_id a) (sr_id q) \<noteq> []))
       (raise_validation_error ''assigned_to'' ''services.service_manager_already_active'')]"

definition assign :: "user \<Rightarrow> nat \<Rightarrow> nat option option \<Rightarrow> sv_state \<Rightarrow> api_error + sv_state" where
  "assign u k v s = (case IsServiceRequestManager (Some u) of
     Some e \<Rightarrow> Inl e
   | None \<Rightarrow> (case get_request s u k of
       Inl e \<Rightarrow> Inl e
     | Inr q \<Rightarrow> (case v of
         None \<Rightarrow> Inr s
       | Some None \<Rightarrow> Inr (put_request (q\<lparr>sr_assigned_to := None\<rparr>) s)
       | Some (Some a) \<Rightarrow> (case tbl_get u_id a (ac_users (sv_acc s)) of
           None \<Rightarrow> Inl (raise_validation_error ''assigned_to'' ''does_not_exist'')
         | Some t \<Rightarrow> guarded (executor_error u q t s) (put_request (q\<lparr>sr_assigned_to := Some a\<rparr>) s)))))"

section \<open>Rating\<close>

definition rate :: "user \<Rightarrow> nat \<Rightarrow> int option \<Rightarrow> sv_state \<Rightarrow> api_error + sv_state" where
  "rate u k v s = (case IsGuestOrCompanyMember (Some u) of
     Some e \<Rightarrow> Inl e
   | None \<Rightarrow> (case get_request s u k of
       Inl e \<Rightarrow> Inl e
     | Inr q \<Rightarrow> guarded (first_err [
           require (sr_created_by q = Some (u_id u)) (PermissionDenied ''rate_own_only''),
           require (sr_status q = Rs_completed) (raise_validation_error ''detail'' ''rate_after_completion''),
           require (sr_rating q = None) (raise_validation_error ''detail'' ''rated_already''),
           (case v of
              None \<Rightarrow> Some (raise_validation_error ''rating'' ''required'')
            | Some r \<Rightarrow> require (1 \<le> r \<and> r \<le> 5) (raise_validation_error ''rating'' ''range''))])
         (put_request (q\<lparr>sr_rating := v\<rparr>) s)))"

end
