(* ===== verification/Announcements.thy ===== *)
theory Announcements
  imports ServiceRequests
begin

text \<open>
  \<open>AnnouncementViewSet\<close> of \<open>services/views.py\<close>, its serializer, and the tasks of
  \<open>services/tasks.py\<close> and \<open>notifications/tasks.py\<close> that tell people about an announcement.
\<close>

section \<open>The feed\<close>

definition announcement_visible :: "user \<Rightarrow> announcement \<Rightarrow> bool" where
  "announcement_visible u a \<longleftrightarrow>
     (if u_role u = Superadmin then True
      else if u_role u = Guest then an_company a = None
      else case u_company u of
          Some c \<Rightarrow> an_company a = None \<or> an_company a = Some c
        | None \<Rightarrow> an_company a = None)"

definition get_announcement :: "sv_state \<Rightarrow> user \<Rightarrow> nat \<Rightarrow> api_error + announcement" where
  "get_announcement s u k = find_row_by (\<lambda>a. an_id a = k) (tbl_filter (announcement_visible u) (sv_announcements s))"

record announcement_request =
  qa_company :: "nat option option"
  qa_title :: "string option"
  qa_text :: "string option"
  qa_category :: "category option"
  qa_image :: "string option option"
  qa_is_pinned :: "bool option"
  qa_notify_email :: "bool option"

definition announcement_fields_error :: "bool \<Rightarrow> sv_state \<Rightarrow> announcement_request \<Rightarrow> api_error option" where
  "announcement_fields_error partial s rq = first_err [
     (case qa_company rq of
        Some (Some c) \<Rightarrow> require (get_company (sv_acc s) c \<noteq> None) (raise_validation_error ''company_id'' ''does_not_exist'')
      | _ \<Rightarrow> None),
     char_field_error ''title'' (\<not> partial) False 255 (qa_title rq),
     (case qa_text rq of
        None \<Rightarrow> require partial (raise_validation_error ''text'' ''required'')
      | Some t \<Rightarrow> require (strip t \<noteq> []) (raise_validation_error ''text'' ''blank''))]"

definition apply_announcement :: "announcement_request \<Rightarrow> announcement \<Rightarrow> announcement" where
  "apply_announcement rq a = a\<lparr>an_company := pick (qa_company rq) (an_company a), an_title := text_or (an_title a) (qa_title rq),
     an_body := text_or (an_body a) (qa_text rq), an_category := pick (qa_category rq) (an_category a),
     an_image := pick (qa_image rq) (an_image a), an_is_pinned := pick (qa_is_pinned rq) (an_is_pinned a),
     an_notify_email := pick (qa_notify_email rq) (an_notify_email a)\<rparr>"

definition new_announcement :: "user \<Rightarrow> announcement_request \<Rightarrow> nat \<Rightarrow> announcement" where
  "new_announcement u rq i = (apply_announcement rq \<lparr>an_id = i, an_company = None, an_author = Some (u_id u), an_title = [],
       an_body = [], an_category = Cat_info, an_image = None, an_is_pinned = False, an_notify_email = False\<rparr>)
     \<lparr>an_company := (if u_role u = Superadmin then pick (qa_company rq) None else u_company u)\<rparr>"

definition create_announcement :: "user \<Rightarrow> announcement_request \<Rightarrow> sv_state \<Rightarrow> api_error + sv_state" where
  "create_announcement u rq s = guarded
     (first_err [IsCompanyAdminOrReadOnly POST (Some u), announcement_fields_error False s rq])
     (let k = next_id (sv_announcements s); a = new_announcement u rq k
      in s\<lparr>sv_announcements := tbl_insert (new_announcement u rq) (sv_announcements s),
           sv_jobs := sv_jobs s @ (if an_is_pinned a \<and> an_notify_email a then [Announcement_emails k] else [])
             @ [Announcement_subscribers k]\<rparr>)"

text \<open>An update writes what is sent, the company included.\<close>

definition update_announcement ::
  "user \<Rightarrow> bool \<Rightarrow> nat \<Rightarrow> announcement_request \<Rightarrow> sv_state \<Rightarrow> api_error + sv_state" where
  "update_announcement u partial k rq s =
     (case IsCompanyAdminOrReadOnly (if partial then PATCH else PUT) (Some u) of
        Some e \<Rightarrow> Inl e
      | None \<Rightarrow> (case get_announcement s u k of
          Inl e \<Rightarrow> Inl e
        | Inr a \<Rightarrow> guarded (announcement_fields_error partial s rq)
            (s\<lparr>sv_announcements := tbl_save an_id (apply_announcement rq a) (sv_announcements s)\<rparr>)))"

definition destroy_announcement :: "user \<Rightarrow> nat \<Rightarrow> sv_state \<Rightarrow> api_error + sv_state" where
  "destroy_announcement u k s = (case get_announcement s u k of
     Inl e \<Rightarrow> Inl e
   | Inr a \<Rightarrow> guarded (require (IsOwnerOrSuperAdmin (an_author a) u) denied)
       (s\<lparr>sv_announcements := tbl_delete (\<lambda>x. an_id x = k) (sv_announcements s),
          sv_reads := tbl_delete (\<lambda>r. ar_announcement r = k) (sv_reads s)\<rparr>))"

section \<open>Read marks\<close>

definition has_read :: "nat \<Rightarrow> nat \<Rightarrow> sv_state \<Rightarrow> bool" where
  "has_read uid k s \<longleftrightarrow> list_ex (\<lambda>r. ar_announcement r = k \<and> ar_user r = uid) (rows (sv_reads s))"

definition add_read :: "nat \<Rightarrow> nat \<Rightarrow> sv_state \<Rightarrow> sv_state" where
  "add_read uid k s = s\<lparr>sv_reads := tbl_insert (\<lambda>i. \<lparr>ar_id = i, ar_announcement = k, ar_user = uid\<rparr>) (sv_reads s)\<rparr>"

definition mark_announcement_read :: "user \<Rightarrow> nat \<Rightarrow> sv_state \<Rightarrow> api_error + sv_state" where
  "mark_announcement_read u k s = (case get_announcement s u k of
     Inl e \<Rightarrow> Inl e
   | Inr a \<Rightarrow> Inr (if has_read (u_id u) k s then s else add_read (u_id u) k s))"

definition read_all :: "user \<Rightarrow> sv_state \<Rightarrow> sv_state" where
  "read_all u s = fold (\<lambda>k s'. add_read (u_id u) k s')
     (filter (\<lambda>k. \<not> has_read (u_id u) k s) (map an_id (tbl_filter (announcement_visible u) (sv_announcements s)))) s"

definition read_count :: "nat \<Rightarrow> sv_state \<Rightarrow> nat" where
  "read_count k s = length (tbl_filter (\<lambda>r. ar_announcement r = k) (sv_reads s))"

section \<open>Telling people\<close>

text \<open>The in-app notifications of a new announcement: its title and the first 500 characters of its text.\<close>

definition announcement_text :: "announcement \<Rightarrow> msg" where
  "announcement_text a =
     (let headline = strip (an_title a); preview = take 500 (strip (an_body a));
          parts = filter (\<lambda>t. t \<noteq> []) [headline, preview]
      in case parts of
           [] \<Rightarrow> Fmt ''announcement.default'' []
         | [t] \<Rightarrow> Str t
         | _ \<Rightarrow> Str (headline @ [CHR 0x0A, CHR 0x0A] @ preview))"

definition subscribers :: "accounts \<Rightarrow> announcement \<Rightarrow> user list" where
  "subscribers acc a = tbl_filter (\<lambda>u. u_is_active u \<and> an_author a \<noteq> Some (u_id u) \<and>
     (case an_company a of
        Some c \<Rightarrow> u_company u = Some c
      | None \<Rightarrow> u_role u \<in> {Superadmin, Company_admin, Employee, Reception})) (ac_users acc)"

definition notify_announcement_subscribers :: "datetime \<Rightarrow> nat \<Rightarrow> sv_state \<Rightarrow> sv_state" where
  "notify_announcement_subscribers now k s = (case tbl_get an_id k (sv_announcements s) of
     None \<Rightarrow> s
   | Some a \<Rightarrow> fold (\<lambda>u. on_bk (notify_nt now (u_id u) Announcement_any (Fmt ''announcement.title'' [])
         (announcement_text a) (Some (Str ''/announcements/'')))) (subscribers (sv_acc s) a) s)"

text \<open>
  The mails: for a company through the notification task, which looks at the preferences when it runs;
  for the building straight to everybody.
\<close>

definition mail_recipients :: "accounts \<Rightarrow> nat option \<Rightarrow> user list" where
  "mail_recipients acc c = tbl_filter (\<lambda>u. u_is_active u \<and> u_is_email_verified u \<and> (c = None \<or> u_company u = c)) (ac_users acc)"

definition send_bulk_email :: "nat \<Rightarrow> sv_state \<Rightarrow> sv_state" where
  "send_bulk_email k s = (case tbl_get an_id k (sv_announcements s) of
     None \<Rightarrow> s
   | Some a \<Rightarrow>
      (if \<not> an_notify_email a \<or> an_company a = None then s
       else fold (\<lambda>u. on_bk (mail_nt (u_id u) Announcement_company (Str (an_title a))))
              (mail_recipients (sv_acc s) (an_company a)) s))"

definition send_announcement_emails :: "nat \<Rightarrow> sv_state \<Rightarrow> sv_state" where
  "send_announcement_emails k s = (case tbl_get an_id k (sv_announcements s) of
     None \<Rightarrow> s
   | Some a \<Rightarrow>
      (if \<not> an_notify_email a then s
       else if an_company a \<noteq> None then send_bulk_email k s
       else s\<lparr>sv_mails := sv_mails s @ map (\<lambda>u. (u_email u, an_title a)) (mail_recipients (sv_acc s) None)\<rparr>))"

definition run_sv_job :: "datetime \<Rightarrow> sv_job \<Rightarrow> sv_state \<Rightarrow> sv_state" where
  "run_sv_job now j s = (case j of
     Announcement_emails k \<Rightarrow> send_announcement_emails k s
   | Announcement_subscribers k \<Rightarrow> notify_announcement_subscribers now k s)"

end
