(* ===== verification/ServiceProps.thy ===== *)
theory ServiceProps
  imports Announcements BookingProps
begin

text \<open>
  Properties of the plan of the building: the occupancy of a floor under the booking invariant, and what
  deleting a floor destroys. Those of the requests and the announcements are in \<open>RequestProps\<close>.
\<close>

section \<open>Occupancy\<close>

lemma length_le_by_key:
  assumes "distinct (map f xs)" "f ` set xs \<subseteq> g ` set ys"
  shows "length xs \<le> length ys"
proof -
  have "length xs = card (f ` set xs)" using assms(1) distinct_card[of "map f xs"] by simp
  also have "\<dots> \<le> card (g ` set ys)" by (rule card_mono) (use assms(2) in auto)
  also have "\<dots> \<le> length ys" using card_length[of "map g ys"] by simp
  finally show ?thesis .
qed

lemma booked_le_total:
  assumes inv: "bk_inv s" and off: "\<And>b. b \<in> set (all_bookings s) \<Longrightarrow> b_status b = Confirmed \<Longrightarrow> b_end b \<noteq> now"
  shows "booked_now now s k \<le> total_resources s k"
proof -
  let ?bs = "tbl_filter (\<lambda>b. b_status b = Confirmed \<and> b_start b \<le> now \<and> b_end b \<ge> now
     \<and> list_ex (\<lambda>r. r_id r = b_resource b \<and> r_floor_fk r = Some k \<and> r_is_active r) (rows (bk_resources s))) (bk_bookings s)"
  let ?rs = "tbl_filter (\<lambda>r. r_floor_fk r = Some k \<and> r_is_active r) (bk_resources s)"
  have wf: "distinct (map b_id (all_bookings s))"
    using inv by (simp add: bk_inv_def bk_wf_def tbl_wf_def all_bookings_def)
  have one: "a = b" if "a \<in> set ?bs" "b \<in> set ?bs" "b_resource a = b_resource b" for a b
  proof (rule ccontr)
    assume "a \<noteq> b"
    have in_all: "a \<in> set (all_bookings s)" "b \<in> set (all_bookings s)" using that by (auto simp: all_bookings_def)
    then have "b_id a \<noteq> b_id b" using wf \<open>a \<noteq> b\<close> by (auto simp: distinct_map inj_on_def)
    moreover have "b_end a > now" "b_end b > now"
      using that off[OF in_all(1)] off[OF in_all(2)] by (auto simp: order.order_iff_strict)
    ultimately have "clash a b" using that by (auto simp: clash_def overlaps_def)
    with inv in_all show False by (auto simp: bk_inv_def no_double_booking_def)
  qed
  have "distinct ?bs" using wf by (simp add: tbl_filter_def all_bookings_def distinct_map)
  then have "distinct (map b_resource ?bs)" using one by (auto simp: distinct_map inj_on_def simp del: set_tbl_filter)
  moreover have "b_resource ` set ?bs \<subseteq> r_id ` set ?rs"
    by (auto simp: list_ex_iff) (metis (mono_tags, lifting) image_eqI mem_Collect_eq)
  ultimately have "length ?bs \<le> length ?rs" by (rule length_le_by_key)
  then show ?thesis by (simp add: booked_now_def total_resources_def)
qed

lemma round_half_even_bounds:
  assumes "0 \<le> n" "n \<le> 100 * d" "0 < d"
  shows "0 \<le> round_half_even n d" "round_half_even n d \<le> 100"
proof -
  have q: "0 \<le> n div d" using assms by (simp add: pos_imp_zdiv_nonneg_iff)
  then show "0 \<le> round_half_even n d" by (auto simp: round_half_even_def Let_def)
  have "n div d \<le> 100" using assms(2,3) zdiv_mono1[of n "100 * d" d] by simp
  moreover have "n mod d = 0" if "n div d = 100"
  proof -
    have "100 * d + n mod d = n" using div_mult_mod_eq[of n d] that by simp
    with assms(2) pos_mod_sign[OF assms(3), of n] show ?thesis by linarith
  qed
  moreover from calculation have "n div d = 100 \<or> n div d \<le> 99" by linarith
  ultimately show "round_half_even n d \<le> 100"
    using assms(3) by (auto simp: round_half_even_def Let_def)
qed

text \<open>
  The occupancy of a floor is a percentage: in every run of the booking operations from a sound
  state, at a time at which no confirmed booking ends, it lies between 0 and 100. (At the very end of a
  booking the count takes it in together with its successor.)
\<close>

theorem occupancy_is_a_percentage:
  assumes "bk_inv s0" "list_all op_safe ops" "s = run_ops (exec_bk cfg) ops s0"
    and "\<And>b. b \<in> set (all_bookings s) \<Longrightarrow> b_status b = Confirmed \<Longrightarrow> b_end b \<noteq> now"
  shows "0 \<le> occupancy_pct now s k \<and> occupancy_pct now s k \<le> 100"
proof (cases "total_resources s k = 0")
  case False
  have inv: "bk_inv s" unfolding assms(3) by (rule bk.run_inv[OF assms(1,2)])
  have "booked_now now s k \<le> total_resources s k" by (rule booked_le_total[OF inv assms(4)])
  moreover have "0 \<le> booked_now now s k" "0 < total_resources s k"
    using False by (simp_all add: booked_now_def total_resources_def)
  ultimately show ?thesis
    using round_half_even_bounds[of "100 * booked_now now s k" "total_resources s k"] False
    by (simp add: occupancy_pct_def Let_def)
qed (simp add: occupancy_pct_def)

definition floor_desk :: resource where
  "floor_desk = (default_resource 1)\<lparr>r_floor_fk := Some 7\<rparr>"

lemma floor_desk_inv: "bk_inv (demo_state floor_desk [])"
  by (simp add: bk_inv_iff demo_state_def tbl_wf_def schedule_ok_def floor_desk_def default_resource_def empty_table_def)

theorem occupancy_is_a_percentage_witness:
  "occupancy_pct (hours 4 + 5) (run_ops (exec_bk default_settings)
     [Op_create 0 id (demo_user 1 Employee (Some 1)) (demo_create (hours 4) (hours 5))] (demo_state floor_desk [])) 7 \<le> 100"
proof -
  let ?s = "run_ops (exec_bk default_settings)
     [Op_create 0 id (demo_user 1 Employee (Some 1)) (demo_create (hours 4) (hours 5))] (demo_state floor_desk [])"
  have "list_all (\<lambda>b. b_end b \<noteq> hours 4 + 5) (all_bookings ?s)" by code_simp
  then have off: "\<And>b. b \<in> set (all_bookings ?s) \<Longrightarrow> b_status b = Confirmed \<Longrightarrow> b_end b \<noteq> hours 4 + 5"
    by (simp only: list_all_iff) blast
  have safe: "list_all op_safe [Op_create 0 id (demo_user 1 Employee (Some 1)) (demo_create (hours 4) (hours 5))]"
    by (simp add: op_safe_def)
  show ?thesis by (rule conjunct2[OF occupancy_is_a_percentage[OF floor_desk_inv safe refl off]])
qed

lemma occupancy_over_100:
  "occupancy_pct (hours 5) (demo_state floor_desk [demo_booking 1 2 Confirmed (hours 4) (hours 5) 0,
     demo_booking 2 2 Confirmed (hours 5) (hours 6) 0]) 7 = 200"
  by code_simp

section \<open>Deleting a floor\<close>

lemma rows_find_row_by: "find_row_by P xs = Inr x \<Longrightarrow> x \<in> set xs \<and> P x"
  by (auto simp: find_row_by_def split: option.splits dest: find_row)

lemma get_floor_row: "get_floor s u k = Inr f \<Longrightarrow> f \<in> set (rows (sv_floors s)) \<and> fl_id f = k"
  by (auto simp: get_floor_def floors_in_order_def dest!: rows_find_row_by)

lemma cascade_rows:
  "rows (bk_resources (cascade_resource P s)) = filter (\<lambda>r. \<not> P r) (rows (bk_resources s))"
  "map b_id (rows (bk_bookings (cascade_resource P s))) = map b_id (filter (\<lambda>b. b_resource b \<notin>
     r_id ` {x \<in> set (rows (bk_resources s)). P x}) (rows (bk_bookings s)))"
  by (simp_all add: cascade_resource_def Let_def upd_bookings_def delete_bookings_def comp_def if_distrib[of b_id])

definition doomed :: "sv_state \<Rightarrow> floor \<Rightarrow> nat set" where
  "doomed s f = r_id ` {x \<in> set (rows (bk_resources (sv_bk s))). floor_resource s f x}"

lemma destroy_floor_ok:
  assumes "destroy_floor u k s = Inr s'"
  obtains f where "get_floor s u k = Inr f" "u_role u = Superadmin"
    "rows (bk_resources (sv_bk s')) = filter (\<lambda>r. r_id r \<notin> doomed s f) (rows (bk_resources (sv_bk s)))"
    "map b_id (rows (bk_bookings (sv_bk s'))) = map b_id (filter (\<lambda>b. b_resource b \<notin> doomed s f) (rows (bk_bookings (sv_bk s))))"
    "rows (sv_floors s') = filter (\<lambda>x. fl_id x \<noteq> k) (rows (sv_floors s))"
proof -
  obtain f where f: "get_floor s u k = Inr f" "u_role u = Superadmin"
    using assms by (auto simp: destroy_floor_def permission_defs split: option.splits sum.splits if_splits)
  have perm: "IsSuperAdmin (Some u) = None" using f(2) by (simp add: permission_defs)
  let ?gone = "map r_id (tbl_filter (floor_resource s f) (bk_resources (sv_bk s)))"
  have gone: "set ?gone = doomed s f" by (simp add: doomed_def)
  have ids: "r_id ` {x \<in> set (rows (bk_resources (sv_bk s))). r_id x \<in> doomed s f} = doomed s f"
    by (auto simp: doomed_def)
  have "rows (bk_resources (sv_bk s')) = rows (bk_resources (cascade_resource (\<lambda>r. r_id r \<in> set ?gone) (sv_bk s)))"
    "rows (bk_bookings (sv_bk s')) = rows (bk_bookings (cascade_resource (\<lambda>r. r_id r \<in> set ?gone) (sv_bk s)))"
    "rows (sv_floors s') = filter (\<lambda>x. fl_id x \<noteq> k) (rows (sv_floors s))"
    using assms by (auto simp: destroy_floor_def perm f(1) Let_def)
  then show ?thesis using f by (intro that) (simp_all only: gone cascade_rows ids)
qed

text \<open>
  C32: deleting a floor destroys every resource with its number, with all bookings of these, whatever
  floor the resource belongs to: the resources of another floor that has the same number go too, and
  nothing asks for bookings to come, as the deletion of a resource does.
\<close>

theorem floor_deletion_takes_namesakes:
  assumes "destroy_floor u k s = Inr s'" "f \<in> set (rows (sv_floors s))" "fl_id f = k" "tbl_wf fl_id (sv_floors s)"
    and "r \<in> set (rows (bk_resources (sv_bk s)))" "r_floor_fk r = Some other" "other \<noteq> k" "r_floor r = fl_number f"
  shows "(\<forall>x \<in> set (rows (bk_resources (sv_bk s'))). r_id x \<noteq> r_id r)
    \<and> (\<forall>b \<in> set (rows (bk_bookings (sv_bk s))). b_resource b = r_id r \<longrightarrow> tbl_wf b_id (bk_bookings (sv_bk s)) \<longrightarrow>
         b_id b \<notin> b_id ` set (rows (bk_bookings (sv_bk s'))))
    \<and> (\<forall>g \<in> set (rows (sv_floors s)). fl_id g \<noteq> k \<longrightarrow> g \<in> set (rows (sv_floors s')))"
proof -
  obtain f' where f': "get_floor s u k = Inr f'"
    and res: "rows (bk_resources (sv_bk s')) = filter (\<lambda>r. r_id r \<notin> doomed s f') (rows (bk_resources (sv_bk s)))"
    and bks: "map b_id (rows (bk_bookings (sv_bk s'))) = map b_id (filter (\<lambda>b. b_resource b \<notin> doomed s f')
       (rows (bk_bookings (sv_bk s))))"
    and fls: "rows (sv_floors s') = filter (\<lambda>x. fl_id x \<noteq> k) (rows (sv_floors s))"
    using assms(1) by (rule destroy_floor_ok)
  have "f' = f"
    using get_floor_row[OF f'] tbl_get_row[OF assms(4), of f] tbl_get_row[OF assms(4), of f'] assms(2,3) by simp
  then have gone: "r_id r \<in> doomed s f'"
    using assms(5,8) by (simp add: doomed_def floor_resource_def)
  have "b_id b \<notin> b_id ` set (rows (bk_bookings (sv_bk s')))"
    if "b \<in> set (rows (bk_bookings (sv_bk s)))" "b_resource b = r_id r" "tbl_wf b_id (bk_bookings (sv_bk s))" for b
  proof
    assume "b_id b \<in> b_id ` set (rows (bk_bookings (sv_bk s')))"
    then have "b_id b \<in> set (map b_id (rows (bk_bookings (sv_bk s'))))" by simp
    then obtain c where c: "c \<in> set (rows (bk_bookings (sv_bk s)))" "b_id c = b_id b"
      "b_resource c \<notin> doomed s f'"
      unfolding bks by auto
    then have "c = b" using that(1,3) by (auto simp: tbl_wf_def distinct_map inj_on_def)
    with c(3) gone that(2) show False by simp
  qed
  moreover have "\<forall>x \<in> set (rows (bk_resources (sv_bk s'))). r_id x \<noteq> r_id r"
    unfolding res using gone by auto
  ultimately show ?thesis unfolding fls by simp
qed

definition demo_floor :: "nat \<Rightarrow> int \<Rightarrow> floor" where
  "demo_floor i n = \<lparr>fl_id = i, fl_number = n, fl_name = [], fl_plan_image = None, fl_company = None\<rparr>"

definition demo_sv :: "bk_state \<Rightarrow> map_point list \<Rightarrow> service_request list \<Rightarrow> announcement list \<Rightarrow> sv_state" where
  "demo_sv bk ps qs as = \<lparr>sv_bk = bk, sv_floors = Table [demo_floor 3 1, demo_floor 7 1] 9, sv_points = Table ps 9,
     sv_requests = Table qs 9, sv_announcements = Table as 9, sv_reads = empty_table, sv_jobs = [], sv_mails = []\<rparr>"

theorem floor_deletion_takes_namesakes_witness:
  "\<exists>s'. destroy_floor (demo_user 4 Superadmin None) 3
       (demo_sv (demo_state floor_desk [demo_booking 1 2 Confirmed (hours 4) (hours 5) 0]) [] [] []) = Inr s'
     \<and> (\<forall>x \<in> set (rows (bk_resources (sv_bk s'))). r_id x \<noteq> 1)"
proof -
  let ?s = "demo_sv (demo_state floor_desk [demo_booking 1 2 Confirmed (hours 4) (hours 5) 0]) [] [] []"
  have "is_ok (destroy_floor (demo_user 4 Superadmin None) 3 ?s)" by code_simp
  then obtain s' where s': "destroy_floor (demo_user 4 Superadmin None) 3 ?s = Inr s'" by (auto simp: is_ok_iff)
  have "demo_floor 3 1 \<in> set (rows (sv_floors ?s))" "fl_id (demo_floor 3 1) = 3" "tbl_wf fl_id (sv_floors ?s)"
    "floor_desk \<in> set (rows (bk_resources (sv_bk ?s)))" "r_floor_fk floor_desk = Some 7" "(7::nat) \<noteq> 3"
    "r_floor floor_desk = fl_number (demo_floor 3 1)" "r_id floor_desk = 1"
    by (simp_all add: demo_sv_def demo_floor_def demo_state_def floor_desk_def default_resource_def tbl_wf_def)
  from floor_deletion_takes_namesakes[OF s' this(1-7)] this(8) s' show ?thesis by auto
qed

end
