(* ===== verification/NotificationPrefs.thy ===== *)
theory NotificationPrefs
  imports Notifications
begin

text \<open>
  The preference endpoint (\<open>notification_preferences\<close> in \<open>notifications/views.py\<close> with
  \<open>NotificationPreferenceDictSerializer\<close>) and the properties of the notification module:
  round trip of the preferences, Do-Not-Disturb, unsubscription and mail de-duplication.
\<close>

section \<open>Reading a submitted preference dictionary\<close>

definition preference_key :: "string \<Rightarrow> ntype option" where
  "preference_key k = (case parse_ntype k of
     None \<Rightarrow> None
   | Some t \<Rightarrow> (if NOTIFICATION_TYPE_FIELD_MAP t = None then None else Some t))"

definition read_only_keys :: "string list" where
  "read_only_keys = [''dnd_enabled'', ''dnd_until'']"

definition submitted_bool :: "string \<Rightarrow> (string \<times> json) list \<Rightarrow> api_error + bool option" where
  "submitted_bool key prefs = (case map_of prefs key of
     None \<Rightarrow> Inr None
   | Some (JBool b) \<Rightarrow> Inr (Some b)
   | Some _ \<Rightarrow> Inl (raise_validation_error key ''Must be a boolean.''))"

text \<open>A validated entry: the type with the in-app and the mail choice, where submitted.\<close>

type_synonym pref_entry = "ntype \<times> bool option \<times> bool option"

definition validate_entry :: "ntype \<Rightarrow> json \<Rightarrow> api_error + pref_entry" where
  "validate_entry t v = (case v of
     JObj prefs \<Rightarrow>
       (if \<not> set (map fst prefs) \<subseteq> {''in_app'', ''email''}
          then Inl (raise_validation_error (ntype_key t) ''Unknown keys'')
        else (case submitted_bool ''in_app'' prefs of
            Inl e \<Rightarrow> Inl e
          | Inr in_app \<Rightarrow>
            (if t \<notin> set EMAIL_ENABLED_TYPES then Inr (t, in_app, None)
             else (case submitted_bool ''email'' prefs of
                 Inl e \<Rightarrow> Inl e
               | Inr email \<Rightarrow> Inr (t, in_app, email)))))
   | _ \<Rightarrow> Inl (raise_validation_error (ntype_key t) ''Expected a dict''))"

fun validate_entries :: "(ntype \<times> json) list \<Rightarrow> api_error + pref_entry list" where
  "validate_entries [] = Inr []"
| "validate_entries ((t, v) # kvs) = (case validate_entry t v of
     Inl e \<Rightarrow> Inl e
   | Inr x \<Rightarrow> (case validate_entries kvs of Inl e \<Rightarrow> Inl e | Inr xs \<Rightarrow> Inr (x # xs)))"

definition to_internal_value :: "role \<Rightarrow> json \<Rightarrow> api_error + pref_entry list" where
  "to_internal_value r v = (case v of
     JObj data \<Rightarrow>
       (if set (map fst data) \<inter> set read_only_keys \<noteq> {}
          then Inl (raise_validation_error ''non_field_errors'' ''read-only'')
        else if \<exists>k \<in> set (map fst data). preference_key k = None
          then Inl (raise_validation_error ''non_field_errors'' ''Unknown notification type(s)'')
        else validate_entries
          (filter (\<lambda>(t, _). t \<in> set (get_allowed_types_for_role r))
            (map (\<lambda>(k, v). (the (preference_key k), v)) data)))
   | _ \<Rightarrow> Inl (raise_validation_error ''non_field_errors'' ''Expected a dict''))"

section \<open>Writing and showing the preferences\<close>

definition set_choice :: "string \<Rightarrow> bool option \<Rightarrow> pref \<Rightarrow> pref" where
  "set_choice f c p = (case c of None \<Rightarrow> p | Some b \<Rightarrow> setattr f b p)"

definition apply_entry :: "pref_entry \<Rightarrow> pref \<Rightarrow> pref" where
  "apply_entry x p = (case x of (t, in_app, email) \<Rightarrow>
     (case NOTIFICATION_TYPE_FIELD_MAP t of
        None \<Rightarrow> p
      | Some (in_app_field, email_field) \<Rightarrow>
          set_choice email_field email (set_choice in_app_field in_app p)))"

definition patch_preferences :: "user \<Rightarrow> json \<Rightarrow> nt_state \<Rightarrow> api_error + nt_state" where
  "patch_preferences u v s = (case get_or_create_pref (u_id u) s of (p, s') \<Rightarrow>
     (case to_internal_value (u_role u) v of
        Inl e \<Rightarrow> Inl e
      | Inr xs \<Rightarrow> Inr (save_pref (fold apply_entry xs p) s')))"

definition to_representation :: "role \<Rightarrow> pref \<Rightarrow> (ntype \<times> bool \<times> bool option) list" where
  "to_representation r p = map (\<lambda>t. case NOTIFICATION_TYPE_FIELD_MAP t of
       None \<Rightarrow> (t, False, None)
     | Some (in_app_field, email_field) \<Rightarrow> (t, getattr p in_app_field True,
         if t \<in> set EMAIL_ENABLED_TYPES then Some (getattr p email_field True) else None))
     (get_allowed_types_for_role r)"

definition get_preferences ::
  "user \<Rightarrow> nt_state \<Rightarrow> (ntype \<times> bool \<times> bool option) list \<times> nt_state" where
  "get_preferences u s = (case get_or_create_pref (u_id u) s of (p, s') \<Rightarrow>
     (to_representation (u_role u) p, s'))"

text \<open>\<open>DELETE /notifications/{id}\<close>\<close>

definition destroy_notification :: "user \<Rightarrow> nat \<Rightarrow> nt_state \<Rightarrow> api_error + nt_state" where
  "destroy_notification u k s =
     (case find (\<lambda>n. n_id n = k) (tbl_filter (\<lambda>n. n_user n = u_id u) (nt_notifs s)) of
        None \<Rightarrow> Inl NotFound
      | Some n \<Rightarrow> Inr (s\<lparr>nt_notifs := tbl_delete (\<lambda>n. n_id n = k) (nt_notifs s)\<rparr>))"

section \<open>The columns of the types\<close>

lemma mem_NOTIFICATION_TYPES [simp]: "t \<in> set NOTIFICATION_TYPES"
  by (cases t) (simp_all add: NOTIFICATION_TYPES_def)

definition columns_distinct :: "ntype \<Rightarrow> ntype \<Rightarrow> bool" where
  "columns_distinct t t' \<longleftrightarrow>
     (case (NOTIFICATION_TYPE_FIELD_MAP t, NOTIFICATION_TYPE_FIELD_MAP t') of
        (Some (a, b), Some (a', b')) \<Rightarrow> (a = a' \<longrightarrow> t = t') \<and> (b = b' \<longrightarrow> t = t') \<and> a \<noteq> b' \<and> b \<noteq> a'
      | _ \<Rightarrow> True)"

lemma columns_distinct_all: "list_all (\<lambda>t. list_all (columns_distinct t) NOTIFICATION_TYPES) NOTIFICATION_TYPES"
  by code_simp

lemma columns_injective:
  assumes "NOTIFICATION_TYPE_FIELD_MAP t = Some (a, b)" "NOTIFICATION_TYPE_FIELD_MAP t' = Some (a', b')"
  shows "a = a' \<longleftrightarrow> t = t'" "b = b' \<longleftrightarrow> t = t'" "a \<noteq> b'" "b \<noteq> a'"
  using columns_distinct_all assms mem_NOTIFICATION_TYPES[of t] mem_NOTIFICATION_TYPES[of t']
  unfolding list_all_iff by (fastforce simp: columns_distinct_def)+

definition touches :: "string \<Rightarrow> pref_entry \<Rightarrow> bool" where
  "touches f x = (case x of (t, in_app, email) \<Rightarrow> (case NOTIFICATION_TYPE_FIELD_MAP t of
     None \<Rightarrow> False
   | Some (a, b) \<Rightarrow> (f = a \<and> in_app \<noteq> None) \<or> (f = b \<and> email \<noteq> None)))"

lemma set_choice_user [simp]: "np_user (set_choice f c p) = np_user p" "np_id (set_choice f c p) = np_id p"
  by (simp_all add: set_choice_def setattr_def split: option.split)

lemma apply_entry_ids [simp]: "np_user (apply_entry x p) = np_user p" "np_id (apply_entry x p) = np_id p"
  by (simp_all add: apply_entry_def split: prod.split option.split)

lemma fold_apply_entry_ids [simp]:
  "np_user (fold apply_entry xs p) = np_user p" "np_id (fold apply_entry xs p) = np_id p"
  by (induction xs arbitrary: p) simp_all

lemma getattr_set_choice:
  "getattr (set_choice f c p) g d = (if g = f \<and> c \<noteq> None then the c else getattr p g d)"
  by (simp add: set_choice_def split: option.split)

lemma apply_entry_untouched: "\<not> touches f x \<Longrightarrow> getattr (apply_entry x p) f d = getattr p f d"
  by (auto simp: touches_def apply_entry_def getattr_set_choice split: option.splits prod.splits)

lemma fold_apply_untouched:
  "\<forall>x \<in> set xs. \<not> touches f x \<Longrightarrow> getattr (fold apply_entry xs p) f d = getattr p f d"
  by (induction xs arbitrary: p) (auto simp: apply_entry_untouched)

lemma fold_apply_entry:
  assumes "distinct (map fst xs)" "(t, in_app, email) \<in> set xs"
    and "NOTIFICATION_TYPE_FIELD_MAP t = Some (a, b)"
  shows "getattr (fold apply_entry xs p) a d = (case in_app of Some c \<Rightarrow> c | None \<Rightarrow> getattr p a d)"
    and "getattr (fold apply_entry xs p) b d = (case email of Some c \<Rightarrow> c | None \<Rightarrow> getattr p b d)"
proof -
  from assms(2) obtain ys zs where xs: "xs = ys @ (t, in_app, email) # zs" by (auto dest: split_list)
  have other: "\<not> touches a x \<and> \<not> touches b x" if "x \<in> set (ys @ zs)" for x
  proof (cases x)
    case (fields t' ia em)
    have "t' \<noteq> t" using that assms(1) xs fields by force
    then show ?thesis
      using columns_injective[OF assms(3)] fields
      by (auto simp: touches_def split: option.splits)
  qed
  have at: "getattr (apply_entry (t, in_app, email) q) a d = (case in_app of Some c \<Rightarrow> c | None \<Rightarrow> getattr q a d)"
    "getattr (apply_entry (t, in_app, email) q) b d = (case email of Some c \<Rightarrow> c | None \<Rightarrow> getattr q b d)" for q
    using columns_injective(3)[OF assms(3,3)] columns_injective(4)[OF assms(3,3)]
    by (auto simp: apply_entry_def assms(3) getattr_set_choice split: option.splits)
  show "getattr (fold apply_entry xs p) a d = (case in_app of Some c \<Rightarrow> c | None \<Rightarrow> getattr p a d)"
    "getattr (fold apply_entry xs p) b d = (case email of Some c \<Rightarrow> c | None \<Rightarrow> getattr p b d)"
    unfolding xs by (simp_all add: fold_apply_untouched other at split: option.split)
qed

lemma pref_row_save:
  assumes "nt_wf s" "pref_row uid s = Some p" "np_id q = np_id p" "np_user q = uid"
  shows "pref_row v (save_pref q s) = (if v = uid then Some q else pref_row v s)"
proof -
  have p: "p \<in> set (rows (nt_prefs s))" "np_user p = uid"
    using pref_row_SomeD[OF assms(2)] by auto
  have ids: "distinct (map np_id (rows (nt_prefs s)))"
    using assms(1) by (simp add: nt_wf_def tbl_wf_def)
  have same: "np_id x = np_id p \<longleftrightarrow> x = p" if "x \<in> set (rows (nt_prefs s))" for x
    using that p(1) ids by (auto simp: distinct_map inj_on_def)
  have users: "x = p" if "x \<in> set (rows (nt_prefs s))" "np_user x = uid" for x
    using that p assms(1) by (auto simp: nt_wf_def distinct_map inj_on_def)
  have "find (\<lambda>x. np_user x = v) (map (\<lambda>x. if np_id x = np_id p then q else x) xs) =
      (if v = uid then (if p \<in> set xs then Some q else None) else find (\<lambda>x. np_user x = v) xs)"
    if "set xs \<subseteq> set (rows (nt_prefs s))" for xs
    using that by (induction xs) (use same users p(2) assms(4) in auto)
  from this[of "rows (nt_prefs s)"] show ?thesis
    using p(1) assms(3) by (simp add: pref_row_def save_pref_def tbl_save_def tbl_update_def)
qed

text \<open>A preference record written for a user: the row the user had, or a new one, changed by \<open>f\<close>.\<close>

lemma pref_row_rewrite:
  assumes "nt_wf s" "get_or_create_pref uid s = (p, s')" "\<And>p. np_id (f p) = np_id p" "\<And>p. np_user (f p) = np_user p"
  shows "pref_row uid (save_pref (f p) s') = Some (f p)" "p = effective_pref uid s"
    "v \<noteq> uid \<Longrightarrow> pref_row v (save_pref (f p) s') = pref_row v s"
  using pref_row_save[OF get_or_create_pref_wf[OF assms(1,2)] get_or_create_pref_spec(1)[OF assms(2)], of "f p"]
    get_or_create_pref_spec[OF assms(2)] assms(3,4) get_or_create_effective[of uid s] assms(2)
  by auto

lemma effective_of_row: "pref_row uid s = Some p \<Longrightarrow> effective_pref uid s = p"
  by (simp add: effective_pref_def)

lemma patch_preferences_effective:
  assumes "nt_wf s" "patch_preferences u v s = Inr s'"
  shows "\<exists>xs. to_internal_value (u_role u) v = Inr xs
    \<and> effective_pref (u_id u) s' = fold apply_entry xs (effective_pref (u_id u) s)"
  using assms(2) pref_row_rewrite[OF assms(1)]
  by (auto simp: patch_preferences_def effective_of_row split: prod.splits sum.splits)

lemma validate_entry_type: "validate_entry t v = Inr x \<Longrightarrow> fst x = t"
  by (auto simp: validate_entry_def split: json.splits if_splits sum.splits)

lemma validate_entries_types: "validate_entries kvs = Inr xs \<Longrightarrow> map fst xs = map fst kvs"
  by (induction kvs arbitrary: xs rule: validate_entries.induct)
     (auto split: sum.splits dest: validate_entry_type)

lemma validate_entries_mem:
  "validate_entries kvs = Inr xs \<Longrightarrow> (t, v) \<in> set kvs \<Longrightarrow> \<exists>x \<in> set xs. validate_entry t v = Inr x"
  by (induction kvs arbitrary: xs rule: validate_entries.induct) (fastforce split: sum.splits)+

lemma validate_entries_email:
  "validate_entries kvs = Inr xs \<Longrightarrow> (t, ia, em) \<in> set xs \<Longrightarrow> em \<noteq> None \<Longrightarrow> t \<in> set EMAIL_ENABLED_TYPES"
proof (induction kvs arbitrary: xs rule: validate_entries.induct)
  case (2 t' v kvs)
  have "validate_entry t' v = Inr (t, ia, em) \<Longrightarrow> t \<in> set EMAIL_ENABLED_TYPES"
    using "2.prems"(3) by (auto simp: validate_entry_def split: json.splits if_splits sum.splits)
  then show ?case using 2 by (fastforce split: sum.splits)
qed simp

lemma preference_key_SomeD: "preference_key k = Some t \<Longrightarrow> ntype_key t = k \<and> NOTIFICATION_TYPE_FIELD_MAP t \<noteq> None"
  by (auto simp: preference_key_def dest: parse_ntype_SomeD split: option.splits if_splits)

lemma to_internal_value_JObj:
  assumes "to_internal_value r (JObj data) = Inr xs"
  shows "\<forall>k \<in> fst ` set data. preference_key k \<noteq> None"
    and "validate_entries (filter (\<lambda>(t, _). t \<in> set (get_allowed_types_for_role r))
            (map (\<lambda>(k, v). (the (preference_key k), v)) data)) = Inr xs"
  using assms by (auto simp: to_internal_value_def split: if_splits)

lemma to_internal_value_distinct:
  assumes "distinct (map fst data)" "to_internal_value r (JObj data) = Inr xs"
  shows "distinct (map fst xs)"
proof -
  note d = to_internal_value_JObj[OF assms(2)]
  have inj: "inj_on (\<lambda>k. the (preference_key k)) (set (map fst data))"
  proof (rule inj_onI)
    fix k k' assume "k \<in> set (map fst data)" "k' \<in> set (map fst data)"
      "the (preference_key k) = the (preference_key k')"
    moreover from this d(1) obtain t t' where "preference_key k = Some t" "preference_key k' = Some t'"
      by fastforce
    ultimately show "k = k'" using preference_key_SomeD[of k t] preference_key_SomeD[of k' t'] by simp
  qed
  have "map fst (map (\<lambda>(k, v). (the (preference_key k), v)) data) = map (\<lambda>k. the (preference_key k)) (map fst data)"
    by (simp add: split_beta)
  then have "distinct (map fst (map (\<lambda>(k, v). (the (preference_key k), v)) data))"
    using assms(1) inj by (simp only: distinct_map)
  then show ?thesis
    unfolding validate_entries_types[OF d(2)] by (rule distinct_map_filter)
qed

section \<open>Properties\<close>

text \<open>What a submitted entry does to the columns of its type.\<close>

lemma submitted_columns:
  assumes "nt_wf s" "distinct (map fst data)" "patch_preferences u (JObj data) s = Inr s'"
    and "(ntype_key t, JObj e) \<in> set data" "t \<in> set (get_allowed_types_for_role (u_role u))"
    and "NOTIFICATION_TYPE_FIELD_MAP t = Some (a, b)"
  shows "getattr (effective_pref (u_id u) s') a d = (case map_of e ''in_app'' of
            Some (JBool c) \<Rightarrow> c | _ \<Rightarrow> getattr (effective_pref (u_id u) s) a d)
    \<and> getattr (effective_pref (u_id u) s') b d = (case (t \<in> set EMAIL_ENABLED_TYPES, map_of e ''email'') of
            (True, Some (JBool c)) \<Rightarrow> c | _ \<Rightarrow> getattr (effective_pref (u_id u) s) b d)"
proof -
  obtain xs where xs: "to_internal_value (u_role u) (JObj data) = Inr xs"
    "effective_pref (u_id u) s' = fold apply_entry xs (effective_pref (u_id u) s)"
    using patch_preferences_effective[OF assms(1,3)] by blast
  have key: "preference_key (ntype_key t) = Some t"
    using assms(6) by (simp add: preference_key_def)
  have "(t, JObj e) \<in> set (filter (\<lambda>(t, _). t \<in> set (get_allowed_types_for_role (u_role u)))
            (map (\<lambda>(k, v). (the (preference_key k), v)) data))"
    using assms(4,5) key by force
  from validate_entries_mem[OF to_internal_value_JObj(2)[OF xs(1)] this]
  obtain x where x: "x \<in> set xs" "validate_entry t (JObj e) = Inr x" by blast
  obtain ia em where v: "x = (t, ia, em)" "submitted_bool ''in_app'' e = Inr ia"
    "if t \<in> set EMAIL_ENABLED_TYPES then submitted_bool ''email'' e = Inr em else em = None"
    using x(2) by (auto simp: validate_entry_def split: if_splits sum.splits)
  note eff = fold_apply_entry[OF to_internal_value_distinct[OF assms(2) xs(1)] x(1)[unfolded v(1)] assms(6)]
  have "getattr (effective_pref (u_id u) s') a d = (case map_of e ''in_app'' of
            Some (JBool c) \<Rightarrow> c | _ \<Rightarrow> getattr (effective_pref (u_id u) s) a d)"
    using v(2) unfolding xs(2) eff(1)
    by (auto simp: submitted_bool_def split: option.splits json.splits)
  moreover have "getattr (effective_pref (u_id u) s') b d = (case (t \<in> set EMAIL_ENABLED_TYPES, map_of e ''email'') of
            (True, Some (JBool c)) \<Rightarrow> c | _ \<Rightarrow> getattr (effective_pref (u_id u) s) b d)"
    using v(3) unfolding xs(2) eff(2)
    by (cases "t \<in> set EMAIL_ENABLED_TYPES")
       (auto simp: submitted_bool_def split: option.splits json.splits)
  ultimately show ?thesis by blast
qed


lemma unsubmitted_columns:
  assumes "nt_wf s" "patch_preferences u (JObj data) s = Inr s'" "map_of data (ntype_key t) = None"
    and "NOTIFICATION_TYPE_FIELD_MAP t = Some (a, b)"
  shows "getattr (effective_pref (u_id u) s') a d = getattr (effective_pref (u_id u) s) a d
    \<and> getattr (effective_pref (u_id u) s') b d = getattr (effective_pref (u_id u) s) b d"
proof -
  obtain xs where xs: "to_internal_value (u_role u) (JObj data) = Inr xs"
    "effective_pref (u_id u) s' = fold apply_entry xs (effective_pref (u_id u) s)"
    using patch_preferences_effective[OF assms(1,2)] by blast
  note v = to_internal_value_JObj[OF xs(1)]
  have "\<not> touches a x \<and> \<not> touches b x" if x: "x \<in> set xs" for x
  proof -
    have "fst x \<in> set (map fst xs)" using x by simp
    then obtain k where k: "k \<in> fst ` set data" "fst x = the (preference_key k)"
      unfolding validate_entries_types[OF v(2)] by force
    then obtain t' where t': "preference_key k = Some t'" using v(1) by force
    then have "t' \<noteq> t" using preference_key_SomeD[OF t'] k(1) assms(3) by (auto simp: map_of_eq_None_iff)
    then show ?thesis
      using k(2) t' columns_injective[OF assms(4)] by (cases x) (auto simp: touches_def split: option.splits)
  qed
  then show ?thesis unfolding xs(2) by (simp add: fold_apply_untouched)
qed

lemma get_preferences_shows: "fst (get_preferences u s) = to_representation (u_role u) (effective_pref (u_id u) s)"
  using get_or_create_effective[of "u_id u" s] by (auto simp: get_preferences_def split: prod.splits)

text \<open>
  What is shown of a type once the dictionary has been accepted: the choices of its entry, where it has
  one, over what was shown before. A type without mail shows no mail choice, whatever was sent for it.
\<close>

definition chosen :: "string \<Rightarrow> (string \<times> json) list \<Rightarrow> bool \<Rightarrow> bool" where
  "chosen key e old = (case map_of e key of Some (JBool c) \<Rightarrow> c | _ \<Rightarrow> old)"

definition overwritten :: "(string \<times> json) list \<Rightarrow> ntype \<times> bool \<times> bool option \<Rightarrow> ntype \<times> bool \<times> bool option" where
  "overwritten data x = (case x of (t, in_app, email) \<Rightarrow>
     (case map_of data (ntype_key t) of
        Some (JObj e) \<Rightarrow> (t, chosen ''in_app'' e in_app, map_option (chosen ''email'' e) email)
      | _ \<Rightarrow> x))"

text \<open>
  C7: what a user submits to the preference endpoint is what the endpoint then shows: a GET after an
  accepted PATCH answers the list of the GET before it, in the same order, with every submitted in-app
  choice in place, and every submitted mail choice of a type that has one. What was not submitted shows
  its old value.
\<close>

theorem preferences_roundtrip:
  assumes "nt_wf s" "distinct (map fst data)" "patch_preferences u (JObj data) s = Inr s'"
  shows "fst (get_preferences u s') = map (overwritten data) (fst (get_preferences u s))"
proof -
  obtain xs where "to_internal_value (u_role u) (JObj data) = Inr xs"
    using patch_preferences_effective[OF assms(1,3)] by blast
  note v = to_internal_value_JObj[OF this]
  have shown: "map_of data (ntype_key t) = Some e \<Longrightarrow> \<exists>o'. e = JObj o' \<and> NOTIFICATION_TYPE_FIELD_MAP t \<noteq> None"
    if t: "t \<in> set (get_allowed_types_for_role (u_role u))" for t e
  proof -
    assume "map_of data (ntype_key t) = Some e"
    then have e: "(ntype_key t, e) \<in> set data" by (rule map_of_SomeD)
    then obtain t' where "preference_key (ntype_key t) = Some t'" using v(1) by force
    with preference_key_SomeD[OF this] have key: "preference_key (ntype_key t) = Some t" "NOTIFICATION_TYPE_FIELD_MAP t \<noteq> None"
      by (auto simp: preference_key_def split: if_splits)
    have "(t, e) \<in> set (filter (\<lambda>(t, _). t \<in> set (get_allowed_types_for_role (u_role u)))
            (map (\<lambda>(k, v). (the (preference_key k), v)) data))"
      using e t key(1) by force
    from validate_entries_mem[OF v(2) this] show ?thesis using key(2) by (cases e) (auto simp: validate_entry_def)
  qed
  have row: "(case NOTIFICATION_TYPE_FIELD_MAP t of None \<Rightarrow> (t, False, None)
       | Some (a, b) \<Rightarrow> (t, getattr (effective_pref (u_id u) s') a True,
           if t \<in> set EMAIL_ENABLED_TYPES then Some (getattr (effective_pref (u_id u) s') b True) else None))
     = overwritten data (case NOTIFICATION_TYPE_FIELD_MAP t of None \<Rightarrow> (t, False, None)
       | Some (a, b) \<Rightarrow> (t, getattr (effective_pref (u_id u) s) a True,
           if t \<in> set EMAIL_ENABLED_TYPES then Some (getattr (effective_pref (u_id u) s) b True) else None))"
    if t: "t \<in> set (get_allowed_types_for_role (u_role u))" for t
  proof (cases "map_of data (ntype_key t)")
    case None
    then show ?thesis
      using unsubmitted_columns[OF assms(1,3) None] by (auto simp: overwritten_def split: option.split)
  next
    case (Some e)
    then obtain o' a b where o': "e = JObj o'" "NOTIFICATION_TYPE_FIELD_MAP t = Some (a, b)"
      using shown[OF t] by fastforce
    then have "(ntype_key t, JObj o') \<in> set data" using Some by (auto dest: map_of_SomeD)
    from submitted_columns[OF assms this t o'(2), of True] show ?thesis
      using Some o' by (simp add: overwritten_def chosen_def)
  qed
  show ?thesis unfolding get_preferences_shows to_representation_def using row by simp
qed

lemma demo_nt_wf: "nt_wf demo_nt"
  by (simp add: nt_wf_def demo_nt_def)

text \<open>
  The choices of two types are sent: the mail of a task is switched off and shown so, the mail of a
  reminder is accepted and not shown, because the type has no mail choice.
\<close>

theorem preferences_roundtrip_witness:
  "\<exists>s'. patch_preferences (demo_user 1 Employee (Some 1))
      (JObj [(''task_assigned'', JObj [(''email'', JBool False)]), (''booking_reminder'', JObj [(''email'', JBool False)])])
      demo_nt = Inr s'
    \<and> (Task_assigned, True, Some False) \<in> set (fst (get_preferences (demo_user 1 Employee (Some 1)) s'))
    \<and> (Booking_reminder, True, None) \<in> set (fst (get_preferences (demo_user 1 Employee (Some 1)) s'))"
proof -
  let ?u = "demo_user 1 Employee (Some 1)"
  let ?d = "[(''task_assigned'', JObj [(''email'', JBool False)]), (''booking_reminder'', JObj [(''email'', JBool False)])]"
  have "is_ok (patch_preferences ?u (JObj ?d) demo_nt)" by code_simp
  then obtain s' where ok: "patch_preferences ?u (JObj ?d) demo_nt = Inr s'" by (auto simp: is_ok_iff)
  have "fst (get_preferences ?u s') = map (overwritten ?d) (fst (get_preferences ?u demo_nt))"
    by (rule preferences_roundtrip[OF demo_nt_wf _ ok]) simp
  moreover have "list_ex (\<lambda>x. x = (Task_assigned, True, Some False)) (map (overwritten ?d) (fst (get_preferences ?u demo_nt)))"
    "list_ex (\<lambda>x. x = (Booking_reminder, True, None)) (map (overwritten ?d) (fst (get_preferences ?u demo_nt)))"
    by code_simp+
  ultimately show ?thesis using ok by (simp add: list_ex_iff)
qed

text \<open>
  The mail choice of a reminder, a cancellation or any other type outside
  \<open>EMAIL_ENABLED_TYPES\<close> is accepted by the preference endpoint and ignored, for every role and
  body: the column keeps its value. \<open>{"booking_reminder": {"email": false}}\<close> is the example the
  serializer gives; the reminder task does send mail by that column.
\<close>

theorem mail_choice_ignored:
  assumes "nt_wf s" "t \<notin> set EMAIL_ENABLED_TYPES" "NOTIFICATION_TYPE_FIELD_MAP t = Some (a, b)"
    and "patch_preferences u v s = Inr s'"
  shows "getattr (effective_pref (u_id u) s') b d = getattr (effective_pref (u_id u) s) b d"
proof -
  obtain xs where xs: "to_internal_value (u_role u) v = Inr xs"
    "effective_pref (u_id u) s' = fold apply_entry xs (effective_pref (u_id u) s)"
    using patch_preferences_effective[OF assms(1,4)] by blast
  have "\<not> touches b x" if x: "x \<in> set xs" for x
  proof (cases x)
    case (fields t' ia em)
    have "em \<noteq> None \<Longrightarrow> t' \<in> set EMAIL_ENABLED_TYPES"
      using x xs(1) fields by (auto simp: to_internal_value_def split: json.splits if_splits dest: validate_entries_email)
    then show ?thesis
      using assms(2) fields columns_injective[OF assms(3)]
      by (cases em) (auto simp: touches_def split: option.splits)
  qed
  then show ?thesis unfolding xs(2) by (simp add: fold_apply_untouched)
qed

theorem mail_choice_ignored_witness:
  "\<exists>s'. patch_preferences (demo_user 1 Employee (Some 1))
      (JObj [(''booking_reminder'', JObj [(''email'', JBool False)])]) demo_nt = Inr s'
    \<and> getattr (effective_pref 1 s') ''booking_reminder_email'' False"
proof -
  let ?u = "demo_user 1 Employee (Some 1)"
  let ?v = "JObj [(''booking_reminder'', JObj [(''email'', JBool False)])]"
  have "is_ok (patch_preferences ?u ?v demo_nt)" by code_simp
  then obtain s' where ok: "patch_preferences ?u ?v demo_nt = Inr s'" by (auto simp: is_ok_iff)
  have map: "NOTIFICATION_TYPE_FIELD_MAP Booking_reminder = Some (''booking_reminder_in_app'', ''booking_reminder_email'')"
    by (simp add: NOTIFICATION_TYPE_FIELD_MAP_def)
  have no: "Booking_reminder \<notin> set EMAIL_ENABLED_TYPES" by code_simp
  have "getattr (effective_pref 1 demo_nt) ''booking_reminder_email'' False" by code_simp
  with mail_choice_ignored[OF demo_nt_wf no map ok, of False] ok show ?thesis
    by (auto simp: demo_user_def)
qed

lemma fold_clear_mail:
  "set ts \<subseteq> set mapped_types \<Longrightarrow>
   getattr (fold (\<lambda>t q. case NOTIFICATION_TYPE_FIELD_MAP t of
       None \<Rightarrow> q | Some (_, email_field) \<Rightarrow> setattr email_field False q) ts p) f d =
   (if \<exists>t \<in> set ts. map_option snd (NOTIFICATION_TYPE_FIELD_MAP t) = Some f then False else getattr p f d)"
  by (induction ts arbitrary: p) (auto simp: mapped_types_def split: option.splits)

lemma fold_clear_mail_ids:
  "np_id (fold (\<lambda>t q. case NOTIFICATION_TYPE_FIELD_MAP t of
       None \<Rightarrow> q | Some (_, email_field) \<Rightarrow> setattr email_field False q) ts p) = np_id p"
  "np_user (fold (\<lambda>t q. case NOTIFICATION_TYPE_FIELD_MAP t of
       None \<Rightarrow> q | Some (_, email_field) \<Rightarrow> setattr email_field False q) ts p) = np_user p"
  by (induction ts arbitrary: p) (auto simp: setattr_def split: option.split)

definition mail_column_mapped :: "ntype \<Rightarrow> bool" where
  "mail_column_mapped t \<longleftrightarrow> (case PREF_FIELD_MAP t of
     None \<Rightarrow> t = System
   | Some f \<Rightarrow> \<exists>t' \<in> set mapped_types. map_option snd (NOTIFICATION_TYPE_FIELD_MAP t') = Some f)"

lemma mail_column_mapped_all: "list_all mail_column_mapped NOTIFICATION_TYPES"
  by code_simp

text \<open>
  After the unsubscribe link has been followed the mail task sends the user nothing, whatever
  the type, the time or the subject - except mails of the type \<open>system\<close>, which no preference
  covers. Rows of other users are not touched.
\<close>

theorem unsubscribe_silences_mail:
  assumes "nt_wf s" "unsubscribe acc (Some uid) s = (True, s')" "t \<noteq> System"
  shows "nt_outbox (send_notification_email acc now sent (uid, t, subject) s') = nt_outbox s'
    \<and> (\<forall>v. v \<noteq> uid \<longrightarrow> pref_row v s' = pref_row v s)"
proof -
  obtain p s1 where g: "get_or_create_pref uid s = (p, s1)" by (cases "get_or_create_pref uid s")
  let ?f = "\<lambda>p. fold (\<lambda>t q. case NOTIFICATION_TYPE_FIELD_MAP t of
       None \<Rightarrow> q | Some (_, email_field) \<Rightarrow> setattr email_field False q) mapped_types p"
  have s': "s' = save_pref (?f p) s1"
    using assms(2) g by (auto simp: unsubscribe_def split: option.splits)
  note row = pref_row_rewrite[OF assms(1) g, of ?f, OF fold_clear_mail_ids]
  have others: "pref_row v s' = pref_row v s" if "v \<noteq> uid" for v
    unfolding s' using that by (rule row(3))
  have pref: "pref_row uid s' = Some (?f p)" unfolding s' by (rule row(1))
  have "mail_column_mapped t"
    using mail_column_mapped_all mem_NOTIFICATION_TYPES[of t] by (simp add: list_all_iff)
  then have "\<not> check_preference uid t s'"
    using assms(3) by (auto simp: check_preference_def pref mail_column_mapped_def fold_clear_mail split: option.splits)
  then show ?thesis
    using others by (simp add: send_notification_email_def check_dnd_def get_or_create_pref_def pref split: option.split)
qed

definition demo_accounts :: accounts where
  "demo_accounts = \<lparr>ac_users = Table [demo_user 2 Employee (Some 1)] 3, ac_companies = Table [demo_company] 2\<rparr>"

theorem unsubscribe_silences_mail_witness:
  "nt_outbox (send_notification_email demo_accounts 0 True (2, Task_assigned, Str ''x'')
     (snd (unsubscribe demo_accounts (Some 2) demo_nt))) = []
   \<and> nt_outbox (send_notification_email demo_accounts 0 True (2, System, Str ''x'')
     (snd (unsubscribe demo_accounts (Some 2) demo_nt))) = [(2, System, Str ''x'')]"
proof -
  have "fst (unsubscribe demo_accounts (Some 2) demo_nt)" by code_simp
  then have "unsubscribe demo_accounts (Some 2) demo_nt = (True, snd (unsubscribe demo_accounts (Some 2) demo_nt))"
    by (metis prod.collapse)
  from unsubscribe_silences_mail[OF demo_nt_wf this, of Task_assigned 0 True "Str ''x''"]
  have "nt_outbox (send_notification_email demo_accounts 0 True (2, Task_assigned, Str ''x'')
      (snd (unsubscribe demo_accounts (Some 2) demo_nt))) = nt_outbox (snd (unsubscribe demo_accounts (Some 2) demo_nt))"
    by simp
  moreover have "nt_outbox (snd (unsubscribe demo_accounts (Some 2) demo_nt)) = []" by code_simp
  moreover have "nt_outbox (send_notification_email demo_accounts 0 True (2, System, Str ''x'')
     (snd (unsubscribe demo_accounts (Some 2) demo_nt))) = [(2, System, Str ''x'')]" by code_simp
  ultimately show ?thesis by simp
qed

section \<open>De-duplication and Do-Not-Disturb\<close>

lemma check_dnd_frame:
  "check_dnd now uid s = (b, s') \<Longrightarrow> nt_cache s' = nt_cache s \<and> nt_outbox s' = nt_outbox s"
  by (cases "get_or_create_pref uid s")
     (auto simp: check_dnd_def dest: get_or_create_pref_spec(4,6))

text \<open>One run of the mail task either leaves outbox and cache alone or sends its mail.\<close>

lemma send_notification_email_cases:
  obtains "nt_outbox (send_notification_email acc now sent m s) = nt_outbox s"
      "nt_cache (send_notification_email acc now sent m s) = nt_cache s"
  | "nt_outbox (send_notification_email acc now sent m s) = nt_outbox s @ [m]"
      "nt_cache (send_notification_email acc now sent m s) = (m, now + EMAIL_DEDUP_TTL) # nt_cache s"
      "\<not> cache_get now m s"
proof -
  obtain uid t subject where m: "m = (uid, t, subject)" by (cases m)
  obtain ok s1 where dnd: "check_dnd now uid s = (ok, s1)" by (cases "check_dnd now uid s")
  note frame = check_dnd_frame[OF dnd]
  show thesis
  proof (cases "tbl_get u_id uid (ac_users acc) \<noteq> None \<and> ok \<and> check_preference uid t s1 \<and> \<not> cache_get now m s1 \<and> sent")
    case True
    then show thesis
      using that(2) frame by (auto simp: send_notification_email_def m dnd cache_get_def)
  next
    case False
    then show thesis
      using that(1) frame by (auto simp: send_notification_email_def m dnd split: option.split)
  qed
qed

definition run_mail_task :: "accounts \<Rightarrow> datetime \<times> bool \<times> mail \<Rightarrow> nt_state \<Rightarrow> nt_state" where
  "run_mail_task acc job s = (case job of (now, sent, m) \<Rightarrow> send_notification_email acc now sent m s)"

lemma cached_mail_not_resent:
  "map_of (nt_cache s) m = Some expiry \<Longrightarrow> \<forall>(now, _, _) \<in> set jobs. now < expiry \<Longrightarrow>
   count_list (nt_outbox (fold (run_mail_task acc) jobs s)) m = count_list (nt_outbox s) m"
proof (induction jobs arbitrary: s)
  case (Cons job jobs)
  obtain now sent m' where job: "job = (now, sent, m')" by (cases job)
  let ?s = "run_mail_task acc job s"
  have now: "now < expiry" using Cons.prems(2) job by auto
  have "map_of (nt_cache ?s) m = Some expiry \<and> count_list (nt_outbox ?s) m = count_list (nt_outbox s) m"
    by (rule send_notification_email_cases[of acc now sent m' s])
      (use Cons.prems(1) now in \<open>auto simp: run_mail_task_def job cache_get_def\<close>)
  then show ?case using Cons.IH[of ?s] Cons.prems(2) by simp
qed simp

text \<open>
  Once a mail (recipient, type, subject) has gone out, no run of the mail task within the next
  \<open>EMAIL_DEDUP_TTL\<close> sends the same mail again, whatever else is sent in between.
\<close>

theorem mail_sent_once_within_ttl:
  assumes "nt_outbox (send_notification_email acc t0 sent m s) \<noteq> nt_outbox s"
    and "\<forall>(now, _, _) \<in> set jobs. now < t0 + EMAIL_DEDUP_TTL"
  shows "count_list (nt_outbox (fold (run_mail_task acc) jobs (send_notification_email acc t0 sent m s))) m
    = count_list (nt_outbox s) m + 1"
proof -
  let ?s = "send_notification_email acc t0 sent m s"
  have "nt_outbox ?s = nt_outbox s @ [m]" "map_of (nt_cache ?s) m = Some (t0 + EMAIL_DEDUP_TTL)"
    by (rule send_notification_email_cases[of acc t0 sent m s]; use assms(1) in simp)+
  with cached_mail_not_resent[of ?s m "t0 + EMAIL_DEDUP_TTL" jobs acc] assms(2) show ?thesis by simp
qed

theorem mail_sent_once_within_ttl_witness:
  "count_list (nt_outbox (fold (run_mail_task demo_accounts) [(1, True, (2, System, Str ''x''))]
     (send_notification_email demo_accounts 0 True (2, System, Str ''x'') demo_nt))) (2, System, Str ''x'') = 1"
proof -
  have sent: "nt_outbox (send_notification_email demo_accounts 0 True (2, System, Str ''x'') demo_nt) = [(2, System, Str ''x'')]"
    by code_simp
  have empty: "nt_outbox demo_nt = []" by (simp add: demo_nt_def)
  have "nt_outbox (send_notification_email demo_accounts 0 True (2, System, Str ''x'') demo_nt) \<noteq> nt_outbox demo_nt"
    by (simp add: sent empty)
  from mail_sent_once_within_ttl[OF this, of "[(1, True, (2, System, Str ''x''))]"]
  show ?thesis by (simp add: EMAIL_DEDUP_TTL_def seconds_def empty)
qed

text \<open>
  Do-Not-Disturb with an end: after the endpoint has stored it, a notification of any type is
  dropped before that instant and created from it on exactly when the user's in-app choice (and the
  plain switch) allows it; the choices themselves are not changed. Without an end it is always dropped.
\<close>

theorem do_not_disturb_window:
  assumes "nt_wf s" "do_not_disturb now u True until s = Inr s'"
  shows "length (rows (nt_notifs (create_notification t (u_id u) ty a m l s'))) =
    length (rows (nt_notifs s)) +
      (if \<not> np_do_not_disturb (effective_pref (u_id u) s) \<and> in_app_allowed (effective_pref (u_id u) s) ty
          \<and> (case until of None \<Rightarrow> False | Some e \<Rightarrow> e \<le> t)
       then 1 else 0)"
proof -
  obtain p s1 where g: "get_or_create_pref (u_id u) s = (p, s1)" by (cases "get_or_create_pref (u_id u) s")
  have s': "s' = save_pref (p\<lparr>np_dnd_enabled := True, np_dnd_until := until\<rparr>) s1"
    using assms(2) g by (auto simp: do_not_disturb_def dnd_validate_def split: option.splits if_splits)
  note row = pref_row_rewrite[OF assms(1) g, of "\<lambda>p. p\<lparr>np_dnd_enabled := True, np_dnd_until := until\<rparr>", simplified]
  have "effective_pref (u_id u) s' = p\<lparr>np_dnd_enabled := True, np_dnd_until := until\<rparr>"
    unfolding s' by (rule effective_of_row[OF row(1)])
  moreover have "nt_notifs s' = nt_notifs s"
    using get_or_create_pref_spec(3)[OF g] by (simp add: s' save_pref_def)
  moreover have "in_app_allowed (p\<lparr>np_dnd_enabled := True, np_dnd_until := until\<rparr>) ty = in_app_allowed p ty"
    by (simp add: in_app_allowed_def getattr_def split: option.split)
  ultimately show ?thesis
    by (auto simp: create_notification_rows is_dnd_active_def row(2)[symmetric] split: option.splits)
qed

theorem do_not_disturb_window_witness:
  "\<exists>s'. do_not_disturb 0 (demo_user 2 Employee (Some 1)) True (Some 10) demo_nt = Inr s'
    \<and> length (rows (nt_notifs (create_notification 5 2 System (Str []) (Str []) None s'))) = 0
    \<and> length (rows (nt_notifs (create_notification 10 2 System (Str []) (Str []) None s'))) = 1"
proof -
  let ?u = "demo_user 2 Employee (Some 1)"
  have "is_ok (do_not_disturb 0 ?u True (Some 10) demo_nt)" by code_simp
  then obtain s' where ok: "do_not_disturb 0 ?u True (Some 10) demo_nt = Inr s'" by (auto simp: is_ok_iff)
  have allowed: "in_app_allowed (effective_pref 2 demo_nt) System" by code_simp
  have plain: "\<not> np_do_not_disturb (effective_pref 2 demo_nt)" by code_simp
  have uid: "u_id ?u = 2" by (simp add: demo_user_def)
  have none: "rows (nt_notifs demo_nt) = []" by code_simp
  show ?thesis
    using ok do_not_disturb_window[OF demo_nt_wf ok, of 5 System "Str []" "Str []" None]
      do_not_disturb_window[OF demo_nt_wf ok, of 10 System "Str []" "Str []" None]
    by (simp add: uid none allowed plain)
qed

end
