(* ===== verification/RequestProps.thy ===== *)
theory RequestProps
  imports ServiceProps NotificationPrefs
begin

text \<open>
  Properties of the services component: which points a person gets to see, how a service request
  moves and what its guards do not cover, and the feed of announcements with its read marks.
\<close>

section \<open>Private points\<close>

text \<open>
  The point of a company with the premium plan, or of a resource assigned to one, is kept from the
  members of other companies by the map, the list and the search of points, but not by the detail of the
  floor, which lists every point with the state it is in.
\<close>

theorem floor_detail_shows_private_points:
  assumes "IsGuestOrCompanyMember (Some u) = None" "u_role u \<noteq> Superadmin" "get_floor s u k = Inr f"
    and "p \<in> set (rows (sv_points s))" "mp_floor p = k" "mp_company p = Some c"
    and "tbl_get co_id c (ac_companies (sv_acc s)) = Some co" "co_plan co = Premium" "u_company u \<noteq> Some c"
  shows "(\<exists>ps. floor_map now u k s = Inr ps \<and> p \<notin> fst ` set ps)
    \<and> (\<forall>q ps. search_points u q s = Inr ps \<longrightarrow> p \<notin> set ps)
    \<and> (\<exists>ps. retrieve_floor now u k s = Inr ps \<and> (p, fst (status_payload now s p)) \<in> set ps)"
proof -
  have hidden: "\<not> point_visible s u p"
    using assms(2,6-9) by (simp add: point_visible_def open_to_def)
  have "fl_id f = k" using get_floor_row[OF assms(3)] by simp
  then have "floor_map now u k s = Inr (map (\<lambda>p. (p, fst (status_payload now s p)))
      (tbl_filter (\<lambda>p. mp_floor p = k \<and> point_visible s u p) (sv_points s)))"
    "retrieve_floor now u k s = Inr (map (\<lambda>p. (p, fst (status_payload now s p)))
      (tbl_filter (\<lambda>p. mp_floor p = k) (sv_points s)))"
    by (simp_all add: floor_map_def retrieve_floor_def assms(1,3))
  moreover have "p \<notin> set ps" if "search_points u q s = Inr ps" for q ps
    using that hidden by (auto simp: search_points_def split: if_splits)
  moreover have "p \<notin> fst ` set (map (\<lambda>p. (p, fst (status_payload now s p)))
      (tbl_filter (\<lambda>p. mp_floor p = k \<and> point_visible s u p) (sv_points s)))"
    using hidden by (simp add: image_image)
  moreover have "(p, fst (status_payload now s p)) \<in> set (map (\<lambda>p. (p, fst (status_payload now s p)))
      (tbl_filter (\<lambda>p. mp_floor p = k) (sv_points s)))"
    using assms(4,5) by simp
  ultimately show ?thesis by blast
qed

definition office_point :: map_point where
  "office_point = \<lparr>mp_id = 2, mp_floor = 3, mp_type = Pt_office, mp_label = ''Acme'', mp_x = 1000, mp_y = 1000,
     mp_width = None, mp_height = None, mp_resource = None, mp_company = Some 1\<rparr>"

definition office_sv :: sv_state where
  "office_sv = demo_sv (demo_state floor_desk []) [office_point] [] []"

theorem floor_detail_shows_private_points_witness:
  "\<exists>ps. retrieve_floor 0 (demo_user 2 Guest None) 3 office_sv = Inr ps
     \<and> (office_point, fst (status_payload 0 office_sv office_point)) \<in> set ps"
proof -
  have "IsGuestOrCompanyMember (Some (demo_user 2 Guest None)) = None" "u_role (demo_user 2 Guest None) \<noteq> Superadmin"
    "get_floor office_sv (demo_user 2 Guest None) 3 = Inr (demo_floor 3 1)"
    "tbl_get co_id 1 (ac_companies (sv_acc office_sv)) = Some demo_company"
    "co_plan demo_company = Premium" "u_company (demo_user 2 Guest None) \<noteq> Some 1" by code_simp+
  moreover have "office_point \<in> set (rows (sv_points office_sv))" "mp_floor office_point = 3" "mp_company office_point = Some 1"
    by (simp_all add: office_sv_def demo_sv_def office_point_def)
  ultimately show ?thesis
    using floor_detail_shows_private_points[of "demo_user 2 Guest None" office_sv 3 "demo_floor 3 1" office_point 1 demo_company 0]
    by blast
qed

section \<open>Service requests\<close>

lemma get_request_row:
  "get_request s u k = Inr q \<Longrightarrow> q \<in> set (rows (sv_requests s)) \<and> sr_id q = k \<and> request_visible u q"
  by (auto simp: get_request_def dest!: rows_find_row_by)

lemma requests_on_bk [simp]: "sv_requests (on_bk f s) = sv_requests s"
  by (simp add: on_bk_def)

lemma requests_notify_creator [simp]: "sv_requests (notify_creator now q s) = sv_requests s"
  by (simp add: notify_creator_def split: option.splits)



definition demo_request :: "request_status \<Rightarrow> nat option \<Rightarrow> service_request" where
  "demo_request st a = (blank_request (demo_user 2 Guest None) 5)\<lparr>sr_status := st, sr_assigned_to := a\<rparr>"

definition request_sv :: "service_request list \<Rightarrow> sv_state" where
  "request_sv qs = demo_sv (demo_state floor_desk []) [] qs []"




text \<open>
  A completed request is not final, and the guards of the other endpoint for the assignee do not
  hold here: a service manager who names an assignee (any active account) takes a completed request
  back into progress for themselves, whoever completed it and however many requests the manager has in
  progress, and the time of completion and the rating stay.
\<close>

theorem completed_request_is_reopened:
  assumes wf: "tbl_wf sr_id (sv_requests s)" and u: "u_role u = Service_manager"
    and q: "q \<in> set (rows (sv_requests s))" "sr_status q = Rs_completed"
    and a: "a \<in> set (rows (ac_users (sv_acc s)))" "u_is_active a"
    and rq: "rq = \<lparr>qs_status = None, qs_assigned_to = Some (Some (u_id a)), qs_completed_at = None\<rparr>"
  shows "\<exists>s'. update_status now u (sr_id q) rq s = Inr s' \<and> tbl_get sr_id (sr_id q) (sv_requests s')
    = Some (q\<lparr>sr_status := Rs_in_progress, sr_assigned_to := Some (u_id u)\<rparr>)"
proof -
  have "find (\<lambda>x. sr_id x = sr_id q) (filter (request_visible u) (rows (sv_requests s))) = Some q"
    using wf q(1) u by (intro find_key_unique) (auto simp: tbl_wf_def distinct_map inj_on_def request_visible_def)
  then have get: "get_request s u (sr_id q) = Inr q"
    by (simp add: get_request_def find_row_by_def tbl_filter_def)
  have "list_ex (\<lambda>v. u_id v = u_id a \<and> u_is_active v) (rows (ac_users (sv_acc s)))"
    using a by (auto simp: list_ex_iff)
  then have fields: "status_fields_error s q rq = None" by (simp add: status_fields_error_def rq)
  have ws: "with_status now u rq q = q\<lparr>sr_status := Rs_in_progress, sr_assigned_to := Some (u_id u)\<rparr>"
    using u by (simp add: with_status_def final_status_def new_assignee_def final_completed_at_def rq pick_def)
  have perm: "IsServiceRequestManager (Some u) = None" using u by (simp add: permission_defs)
  let ?s = "put_request (with_status now u rq q) s"
  let ?s' = "if sr_status (with_status now u rq q) \<noteq> sr_status q then notify_creator now q ?s else ?s"
  have "update_status now u (sr_id q) rq s = Inr ?s'"
    unfolding update_status_def perm get option.case sum.case Let_def using fields q(2) by simp
  then obtain s' where s': "update_status now u (sr_id q) rq s = Inr s'"
    "sv_requests s' = tbl_save sr_id (with_status now u rq q) (sv_requests s)"
    by (simp add: put_request_def)
  moreover have "tbl_get sr_id (sr_id q) (sv_requests s') = Some (with_status now u rq q)"
    using requests.get_save_same[OF wf, of "with_status now u rq q"] tbl_get_row[OF wf q(1)]
    by (simp add: s'(2) ws)
  ultimately show ?thesis by (simp add: ws)
qed

theorem completed_request_is_reopened_witness:
  "\<exists>s'. update_status 9 (demo_user 6 Service_manager None) 5
       \<lparr>qs_status = None, qs_assigned_to = Some (Some 2), qs_completed_at = None\<rparr>
       (request_sv [demo_request Rs_completed (Some 3)]) = Inr s'
     \<and> tbl_get sr_id 5 (sv_requests s') = Some (demo_request Rs_in_progress (Some 6))"
proof -
  have "tbl_wf sr_id (sv_requests (request_sv [demo_request Rs_completed (Some 3)]))"
    "demo_request Rs_completed (Some 3) \<in> set (rows (sv_requests (request_sv [demo_request Rs_completed (Some 3)])))"
    "sr_status (demo_request Rs_completed (Some 3)) = Rs_completed" "sr_id (demo_request Rs_completed (Some 3)) = 5"
    "demo_user 2 Guest None \<in> set (rows (ac_users (sv_acc (request_sv [demo_request Rs_completed (Some 3)]))))"
    "u_is_active (demo_user 2 Guest None)"
    by (simp_all add: request_sv_def demo_sv_def tbl_wf_def demo_request_def blank_request_def demo_state_def sv_acc_def demo_user_def)
  from completed_request_is_reopened[OF this(1) _ this(2,3,5,6) refl, of "demo_user 6 Service_manager None" 9] this(4)
  show ?thesis by (simp add: demo_request_def)
qed

text \<open>The endpoint for the assignee does keep a service manager to one open request.\<close>

lemma assign_keeps_one_open:
  assumes "assign u k (Some (Some a)) s = Inr s'" "tbl_get u_id a (ac_users (sv_acc s)) = Some t" "u_role t = Service_manager"
    and "x \<in> set (rows (sv_requests s))" "sr_assigned_to x = Some a" "sr_status x \<noteq> Rs_completed"
  shows "sr_id x = k"
proof -
  have "u_id t = a" using assms(2) by (auto dest: tbl_get_SomeD)
  with assms show ?thesis
    by (auto simp: assign_def executor_error_def active_requests_of_def tbl_filter_def filter_empty_conv
        split: option.splits sum.splits dest!: get_request_row)
qed

text \<open>
  The rating endpoint wants a completed request without a rating and a number from one to five. The
  update of a request writes any rating: a creator rates a request nobody has taken yet, with a number
  out of range, and again as often as they like.
\<close>

theorem rating_is_writable:
  assumes wf: "tbl_wf sr_id (sv_requests s)" and u: "IsGuestOrCompanyMember (Some u) = None" "u_role u \<in> {Employee, Guest}"
    and q: "q \<in> set (rows (sv_requests s))" "sr_created_by q = Some (u_id u)" and r: "0 \<le> r"
    and rq: "rq = \<lparr>qq_type = None, qq_urgency = None, qq_floor = None, qq_location = None, qq_description = None,
       qq_photo = None, qq_rating = Some (Some r)\<rparr>"
  shows "\<exists>s'. update_request u (sr_id q) rq s = Inr s'
    \<and> tbl_get sr_id (sr_id q) (sv_requests s') = Some (q\<lparr>sr_rating := Some r\<rparr>)"
proof -
  have "find (\<lambda>x. sr_id x = sr_id q) (filter (request_visible u) (rows (sv_requests s))) = Some q"
    using wf q u by (intro find_key_unique) (auto simp: tbl_wf_def distinct_map inj_on_def request_visible_def)
  then have get: "get_request s u (sr_id q) = Inr q"
    by (simp add: get_request_def find_row_by_def tbl_filter_def)
  have ar: "apply_request s rq q = q\<lparr>sr_rating := Some r\<rparr>"
    by (simp add: apply_request_def rq pick_def text_or_def body_floor_def)
  have "request_fields_error True s rq = None" using r by (simp add: request_fields_error_def char_field_error_def rq)
  then have "update_request u (sr_id q) rq s = Inr (put_request (q\<lparr>sr_rating := Some r\<rparr>) s)"
    by (simp add: update_request_def u(1) get ar guarded_def)
  moreover have "tbl_get sr_id (sr_id q) (tbl_save sr_id (q\<lparr>sr_rating := Some r\<rparr>) (sv_requests s)) = Some (q\<lparr>sr_rating := Some r\<rparr>)"
    using requests.get_save_same[OF wf, of "q\<lparr>sr_rating := Some r\<rparr>"] tbl_get_row[OF wf q(1)] by simp
  ultimately show ?thesis by (simp add: put_request_def)
qed

theorem rating_is_writable_witness:
  "\<exists>s'. update_request (demo_user 2 Guest None) 5 \<lparr>qq_type = None, qq_urgency = None, qq_floor = None, qq_location = None,
       qq_description = None, qq_photo = None, qq_rating = Some (Some 77)\<rparr> (request_sv [demo_request Rs_new None]) = Inr s'
     \<and> tbl_get sr_id 5 (sv_requests s') = Some ((demo_request Rs_new None)\<lparr>sr_rating := Some 77\<rparr>)"
proof -
  have "tbl_wf sr_id (sv_requests (request_sv [demo_request Rs_new None]))"
    "IsGuestOrCompanyMember (Some (demo_user 2 Guest None)) = None" "u_role (demo_user 2 Guest None) \<in> {Employee, Guest}"
    "demo_request Rs_new None \<in> set (rows (sv_requests (request_sv [demo_request Rs_new None])))"
    "sr_created_by (demo_request Rs_new None) = Some (u_id (demo_user 2 Guest None))" "sr_id (demo_request Rs_new None) = 5"
    by (simp_all add: request_sv_def demo_sv_def tbl_wf_def demo_request_def blank_request_def permission_defs)
  from rating_is_writable[OF this(1-5) _ refl, of 77] this(6) show ?thesis by simp
qed

section \<open>Announcements\<close>

text \<open>
  The feed shows a person the announcements of the building and of the own company. What an admin
  of a company may see the admin may rewrite: also an announcement of the building, whose text, title
  and company become what is sent; only its deletion asks for its author.
\<close>

theorem company_admin_rewrites_the_building_feed:
  assumes wf: "tbl_wf an_id (sv_announcements s)" and u: "u_role u = Company_admin"
    and a: "a \<in> set (rows (sv_announcements s))" "an_company a = None" "an_author a \<noteq> Some (u_id u)"
    and ok: "announcement_fields_error True s rq = None"
  shows "(\<exists>s'. update_announcement u True (an_id a) rq s = Inr s'
      \<and> tbl_get an_id (an_id a) (sv_announcements s') = Some (apply_announcement rq a))
    \<and> destroy_announcement u (an_id a) s = Inl denied"
proof -
  have vis: "announcement_visible u a" using u a(2) by (simp add: announcement_visible_def split: option.splits)
  then have "find (\<lambda>x. an_id x = an_id a) (filter (announcement_visible u) (rows (sv_announcements s))) = Some a"
    using wf a(1) by (intro find_key_unique) (auto simp: tbl_wf_def distinct_map inj_on_def)
  then have get: "get_announcement s u (an_id a) = Inr a"
    by (simp add: get_announcement_def find_row_by_def tbl_filter_def)
  have "IsCompanyAdminOrReadOnly PATCH (Some u) = None" using u by (simp add: permission_defs)
  then have "update_announcement u True (an_id a) rq s
      = Inr (s\<lparr>sv_announcements := tbl_save an_id (apply_announcement rq a) (sv_announcements s)\<rparr>)"
    by (simp add: update_announcement_def get ok guarded_def)
  moreover have "an_id (apply_announcement rq a) = an_id a" by (simp add: apply_announcement_def)
  then have "tbl_get an_id (an_id a) (tbl_save an_id (apply_announcement rq a) (sv_announcements s)) = Some (apply_announcement rq a)"
    using announcements.get_save_same[OF wf, of "apply_announcement rq a"] tbl_get_row[OF wf a(1)] by simp
  moreover have "destroy_announcement u (an_id a) s = Inl denied"
    using u a(3) by (simp add: destroy_announcement_def get IsOwnerOrSuperAdmin_def)
  ultimately show ?thesis by simp
qed

definition building_news :: announcement where
  "building_news = \<lparr>an_id = 6, an_company = None, an_author = Some 4, an_title = ''News'', an_body = ''Text'',
     an_category = Cat_info, an_image = None, an_is_pinned = False, an_notify_email = True\<rparr>"

definition news_sv :: sv_state where
  "news_sv = demo_sv (demo_state floor_desk []) [] [] [building_news]"

definition rewrite_it :: announcement_request where
  "rewrite_it = \<lparr>qa_company = None, qa_title = None, qa_text = Some ''Other'', qa_category = None, qa_image = None,
     qa_is_pinned = None, qa_notify_email = None\<rparr>"

theorem company_admin_rewrites_the_building_feed_witness:
  "\<exists>s'. update_announcement (demo_user 2 Company_admin (Some 1)) True 6 rewrite_it news_sv = Inr s'
     \<and> tbl_get an_id 6 (sv_announcements s') = Some (apply_announcement rewrite_it building_news)"
proof -
  have "tbl_wf an_id (sv_announcements news_sv)" "building_news \<in> set (rows (sv_announcements news_sv))"
    "an_company building_news = None" "an_author building_news \<noteq> Some (u_id (demo_user 2 Company_admin (Some 1)))"
    "u_role (demo_user 2 Company_admin (Some 1)) = Company_admin" "an_id building_news = 6"
    by (simp_all add: news_sv_def demo_sv_def building_news_def tbl_wf_def)
  moreover have "announcement_fields_error True news_sv rewrite_it = None" by code_simp
  ultimately show ?thesis
    using company_admin_rewrites_the_building_feed[of news_sv "demo_user 2 Company_admin (Some 1)" building_news rewrite_it] by auto
qed

text \<open>Marking everything as read.\<close>

lemma add_read_simps [simp]:
  "has_read uid k (add_read v j s) \<longleftrightarrow> has_read uid k s \<or> (v = uid \<and> j = k)"
  "sv_announcements (add_read v j s) = sv_announcements s"
  by (auto simp: has_read_def add_read_def)

lemma fold_add_read:
  "has_read uid k (fold (add_read v) ks s) \<longleftrightarrow> has_read uid k s \<or> (v = uid \<and> k \<in> set ks)"
  "sv_announcements (fold (add_read v) ks s) = sv_announcements s"
  by (induction ks arbitrary: s) auto

definition reads_distinct :: "sv_state \<Rightarrow> bool" where
  "reads_distinct s \<longleftrightarrow> distinct (map (\<lambda>r. (ar_announcement r, ar_user r)) (rows (sv_reads s)))"

lemma add_read_distinct: "reads_distinct s \<Longrightarrow> \<not> has_read uid k s \<Longrightarrow> reads_distinct (add_read uid k s)"
  by (auto simp: reads_distinct_def add_read_def has_read_def list_ex_iff)

lemma fold_add_read_distinct:
  "reads_distinct s \<Longrightarrow> distinct ks \<Longrightarrow> (\<And>k. k \<in> set ks \<Longrightarrow> \<not> has_read uid k s) \<Longrightarrow> reads_distinct (fold (add_read uid) ks s)"
proof (induction ks arbitrary: s)
  case (Cons k ks)
  have "reads_distinct (add_read uid k s)" using Cons.prems by (intro add_read_distinct) simp_all
  then have "reads_distinct (fold (add_read uid) ks (add_read uid k s))"
    using Cons.prems by (intro Cons.IH) auto
  then show ?case by simp
qed simp

text \<open>
  Marking the feed as read leaves exactly the announcements the user sees marked besides those
  already marked, one mark each, and doing it again changes nothing.
\<close>

theorem read_all_marks_the_feed:
  assumes "reads_distinct s" "tbl_wf an_id (sv_announcements s)"
  shows "(\<forall>uid k. has_read uid k (read_all u s) \<longleftrightarrow> has_read uid k s \<or>
       (uid = u_id u \<and> (\<exists>a \<in> set (rows (sv_announcements s)). an_id a = k \<and> announcement_visible u a)))
    \<and> reads_distinct (read_all u s) \<and> read_all u (read_all u s) = read_all u s"
proof -
  let ?feed = "map an_id (tbl_filter (announcement_visible u) (sv_announcements s))"
  let ?ks = "filter (\<lambda>k. \<not> has_read (u_id u) k s) ?feed"
  have r: "read_all u s = fold (add_read (u_id u)) ?ks s" by (simp add: read_all_def)
  have marks: "has_read uid k (read_all u s) \<longleftrightarrow> has_read uid k s \<or>
       (uid = u_id u \<and> (\<exists>a \<in> set (rows (sv_announcements s)). an_id a = k \<and> announcement_visible u a))" for uid k
    unfolding r by (auto simp: fold_add_read)
  have "distinct ?feed" using assms(2) by (auto simp: tbl_wf_def tbl_filter_def distinct_map intro: inj_on_subset)
  then have d: "reads_distinct (read_all u s)"
    unfolding r by (intro fold_add_read_distinct[OF assms(1)]) auto
  have "sv_announcements (read_all u s) = sv_announcements s" unfolding r by (simp add: fold_add_read)
  then have "filter (\<lambda>k. \<not> has_read (u_id u) k (read_all u s))
      (map an_id (tbl_filter (announcement_visible u) (sv_announcements (read_all u s)))) = []"
    by (auto simp: filter_empty_conv marks)
  then have "read_all u (read_all u s) = read_all u s" by (subst read_all_def) simp
  with marks d show ?thesis by blast
qed

theorem read_all_marks_the_feed_witness:
  "has_read 2 6 (read_all (demo_user 2 Guest None) news_sv)"
proof -
  have "reads_distinct news_sv" "tbl_wf an_id (sv_announcements news_sv)"
    "building_news \<in> set (rows (sv_announcements news_sv))" "announcement_visible (demo_user 2 Guest None) building_news"
    "an_id building_news = 6"
    by (simp_all add: news_sv_def demo_sv_def reads_distinct_def tbl_wf_def building_news_def announcement_visible_def)
  with read_all_marks_the_feed[OF this(1,2), of "demo_user 2 Guest None"] show ?thesis by auto
qed

text \<open>
  The mail of an announcement of the building goes to every active, verified account: it does not look
  at the preferences, so also to one that has unsubscribed from all mail.
\<close>

theorem building_mail_ignores_preferences:
  assumes "tbl_get an_id k (sv_announcements s) = Some a" "an_company a = None" "an_notify_email a"
    and "u \<in> set (rows (ac_users (sv_acc s)))" "u_is_active u" "u_is_email_verified u"
  shows "(u_email u, an_title a) \<in> set (sv_mails (send_announcement_emails k s))"
  using assms by (auto simp: send_announcement_emails_def mail_recipients_def)

theorem building_mail_ignores_preferences_witness:
  "(''u'', ''News'') \<in> set (sv_mails (send_announcement_emails 6 news_sv))"
proof -
  have "tbl_get an_id 6 (sv_announcements news_sv) = Some building_news" "an_company building_news = None"
    "an_notify_email building_news" "demo_user 2 Guest None \<in> set (rows (ac_users (sv_acc news_sv)))"
    "u_is_active (demo_user 2 Guest None)" "u_is_email_verified (demo_user 2 Guest None)"
    "u_email (demo_user 2 Guest None) = ''u''" "an_title building_news = ''News''"
    by (simp_all add: news_sv_def demo_sv_def building_news_def demo_state_def sv_acc_def demo_user_def tbl_get_def)
  from building_mail_ignores_preferences[OF this(1-6)] this(7,8) show ?thesis by simp
qed

end
