(* ===== verification/LeaveProps.thy ===== *)
theory LeaveProps
  imports Leaves
begin

text \<open>
  Every operation on leave requests and balances keeps the invariant of \<open>Leaves\<close>, and the
  properties of the leave module.
\<close>

section \<open>Preservation\<close>

lemma hr_inv_nt [simp]: "hr_inv (s\<lparr>hr_nt := x\<rparr>) = hr_inv s"
  by (simp add: hr_inv_def used_days_def spent_def balance_row_def)

lemma fold_notify_nt: "\<exists>x. fold (notify_reviewer now u) admins s = s\<lparr>hr_nt := x\<rparr>"
proof (induction admins arbitrary: s)
  case Nil
  show ?case by (intro exI[of _ "hr_nt s"]) simp
next
  case (Cons a admins)
  show ?case using Cons.IH[of "notify_reviewer now u a s"] by (auto simp: notify_reviewer_def)
qed

lemma hr_inv_fold_notify [simp]: "hr_inv (fold (notify_reviewer now u) admins s) = hr_inv s"
  using fold_notify_nt[of now u admins s] by auto

lemma validate_leave_ok:
  assumes "validate_leave today s author inst lt st en assigned = None"
  shows "st \<le> en" "today \<le> st" "\<not> approved_overlap s (u_id author) st en inst"
    "lt \<in> {Vacation, Day_off} \<Longrightarrow> en - st + 1 \<le> remaining_for s author (year_of st)"
    "reviewer_errors s author assigned = None"
  using assms by (auto simp: validate_leave_def)

lemma create_leave_inv:
  assumes inv: "hr_inv s" and ok: "create_leave off now u rq s = Inr s'"
  shows "hr_inv s'"
proof -
  obtain lt st en c where c: "lr_type rq = Some lt" "lr_start rq = Some st" "lr_end rq = Some en"
    "validate_leave (local_date off now) s u None lt st en (case lr_reviewer rq of None \<Rightarrow> None | Some r \<Rightarrow> r) = None"
    and s': "s' = fold (notify_reviewer now u) (reviewers_to_notify s u c (case lr_reviewer rq of None \<Rightarrow> None | Some r \<Rightarrow> r))
      (s\<lparr>hr_leaves := tbl_insert (new_leave u c lt st en rq) (hr_leaves s)\<rparr>)"
    using ok by (auto simp: create_leave_def Let_def split: option.splits)
  let ?n = "new_leave u c lt st en rq (next_id (hr_leaves s))"
  have pending: "lv_status ?n = Lr_pending" "leave_wf ?n" "lv_id ?n = next_id (hr_leaves s)"
    using validate_leave_ok(1)[OF c(4)] by (simp_all add: new_leave_def leave_wf_def)
  have "hr_inv (s\<lparr>hr_leaves := tbl_insert (new_leave u c lt st en rq) (hr_leaves s)\<rparr>)"
    using inv pending not_approved_disjoint[of ?n] leaves_disjoint_sym[of ?n]
    by (auto simp: hr_inv_def used_days_def spent_def balance_row_def not_approved_charge new_leave_def
        intro!: tbl_wf_insert)
  then show ?thesis unfolding s' by simp
qed

lemma own_pending_ok: "own_pending_error u l = None \<longleftrightarrow> lv_user l = u_id u \<and> lv_status l = Lr_pending"
  by (auto simp: own_pending_error_def)

lemma update_leave_inv:
  assumes inv: "hr_inv s" and ok: "update_leave off now u year k rq s = Inr s'"
  shows "hr_inv s'"
proof -
  obtain l where l: "get_leave s u year k = Inr l" "own_pending_error u l = None"
    "validate_leave (local_date off now) s u (Some k) (lv_type (patched_leave rq l)) (lv_start (patched_leave rq l))
       (lv_end (patched_leave rq l)) (lv_assigned_reviewer (patched_leave rq l)) = None"
    "s' = leave_set (patched_leave rq l) s"
    using ok by (auto simp: update_leave_def Let_def split: option.splits sum.splits)
  then show ?thesis
    using inv get_leave_SomeD[OF l(1)] validate_leave_ok(1)[OF l(3)]
    by (auto simp: own_pending_ok patched_leave_def leave_wf_def intro!: leave_set_inv[of s l])
qed

lemma cancel_leave_inv:
  assumes inv: "hr_inv s" and ok: "cancel_leave u year k s = Inr s'"
  shows "hr_inv s'"
proof -
  obtain l where l: "get_leave s u year k = Inr l" "own_pending_error u l = None"
    "s' = leave_set (l\<lparr>lv_status := Lr_cancelled\<rparr>) s"
    using ok by (auto simp: cancel_leave_def split: option.splits sum.splits)
  have "leave_wf l" using inv get_leave_SomeD[OF l(1)] by (auto simp: hr_inv_def list_all_iff)
  then show ?thesis
    using inv get_leave_SomeD[OF l(1)] l(2)
    unfolding l(3) by (intro leave_set_inv[of s l]) (auto simp: own_pending_ok leave_wf_def)
qed

lemma settle_pending_inv:
  assumes inv: "hr_inv s"
  shows "hr_inv (settle_pending_leaves target c s)"
proof -
  let ?P = "\<lambda>l. lv_assigned_reviewer l = Some (u_id target) \<and> lv_company l = c \<and> lv_status l = Lr_pending"
  let ?f = "\<lambda>l. if ?P l then settle_leave s target c l else l"
  have f: "lv_id (?f l) = lv_id l" "lv_user (?f l) = lv_user l" "lv_start (?f l) = lv_start l" "lv_end (?f l) = lv_end l"
    "lv_status (?f l) = Lr_approved \<longleftrightarrow> lv_status l = Lr_approved" for l
    by (auto simp: settle_leave_def)
  have "charge uid y (?f l) = charge uid y l" for uid y l
    by (auto simp: charge_def settle_leave_def)
  then have "spent (settle_pending_leaves target c s) uid y = spent s uid y" for uid y
    by (simp add: spent_def settle_pending_leaves_def o_def)
  moreover have rows: "rows (hr_leaves (settle_pending_leaves target c s)) = map ?f (rows (hr_leaves s))"
    by (simp add: settle_pending_leaves_def)
  moreover have "leaves_disjoint (?f a) (?f b) = leaves_disjoint a b" for a b
    unfolding leaves_disjoint_def f ..
  then have "\<forall>a \<in> set (map ?f (rows (hr_leaves s))). \<forall>b \<in> set (map ?f (rows (hr_leaves s))). leaves_disjoint a b"
    using inv unfolding hr_inv_def set_map ball_simps(9) by blast
  moreover have "list_all leave_wf (map ?f (rows (hr_leaves s)))"
    using inv unfolding hr_inv_def list_all_iff set_map ball_simps(9) leave_wf_def f by blast
  moreover have "tbl_wf lv_id (hr_leaves (settle_pending_leaves target c s))"
    unfolding settle_pending_leaves_def using inv
    by (auto simp: hr_inv_def settle_leave_def intro!: tbl_wf_update)
  moreover have "hr_balances (settle_pending_leaves target c s) = hr_balances s"
    "hr_acc (settle_pending_leaves target c s) = hr_acc s"
    by (simp_all add: settle_pending_leaves_def)
  ultimately show ?thesis
    using inv unfolding hr_inv_def used_days_def balance_row_def by simp
qed

text \<open>Balances: the row made on demand, and a row written back.\<close>

lemma get_or_create_balance_spec:
  assumes "hr_base s" "get_or_create_balance u y s = (b, s')"
  shows "hr_base s'" "balance_row s' (u_id u) y = Some b" "hr_leaves s' = hr_leaves s" "hr_acc s' = hr_acc s"
    "\<And>uid year. used_days s' uid year = used_days s uid year" "lb_user b = u_id u" "lb_year b = y"
    "b \<in> set (rows (hr_balances s'))"
proof -
  have app: "find P (xs @ ys) = (case find P xs of None \<Rightarrow> find P ys | Some x \<Rightarrow> Some x)"
    for P and xs ys :: "balance list" by (induction xs) auto
  have *: "hr_base s' \<and> balance_row s' (u_id u) y = Some b \<and> hr_leaves s' = hr_leaves s \<and> hr_acc s' = hr_acc s
    \<and> (\<forall>uid year. used_days s' uid year = used_days s uid year)"
  proof (cases "balance_row s (u_id u) y")
    case (Some b')
    then show ?thesis using assms by (auto simp: get_or_create_balance_def)
  next
    case None
    let ?n = "new_balance s u y (next_id (hr_balances s))"
    have s': "b = ?n" "s' = s\<lparr>hr_balances := tbl_insert (new_balance s u y) (hr_balances s)\<rparr>"
      using assms(2) None by (auto simp: get_or_create_balance_def)
    have row: "balance_row s' uid year = (case balance_row s uid year of Some r \<Rightarrow> Some r
        | None \<Rightarrow> if uid = u_id u \<and> year = y then Some ?n else None)" for uid year
      by (auto simp: s' balance_row_def app new_balance_def split: option.splits)
    have "hr_base s'"
      using assms(1) None by (auto simp: hr_base_def s' new_balance_def balance_row_None_iff intro!: tbl_wf_insert)
    moreover have "used_days s' uid year = used_days s uid year" for uid year
      by (auto simp: used_days_def row new_balance_def split: option.splits)
    ultimately show ?thesis using row[of "u_id u" y] None by (simp add: s')
  qed
  then show "hr_base s'" "balance_row s' (u_id u) y = Some b" "hr_leaves s' = hr_leaves s" "hr_acc s' = hr_acc s"
    "\<And>uid year. used_days s' uid year = used_days s uid year" by auto
  show "lb_user b = u_id u" "lb_year b = y" "b \<in> set (rows (hr_balances s'))"
    using * balance_row_SomeD by blast+
qed

lemma find_map_replace:
  "Q b' = Q b \<Longrightarrow> find Q (map (\<lambda>x. if x = b then b' else x) xs) = map_option (\<lambda>x. if x = b then b' else x) (find Q xs)"
  by (induction xs) auto

lemma save_balance_spec:
  assumes "hr_base s" "balance_row s uid y = Some b" "lb_id b' = lb_id b" "lb_user b' = uid" "lb_year b' = y"
  shows "hr_base (save_balance b' s)"
    and "used_days (save_balance b' s) v z = (if v = uid \<and> z = y then lb_used b' else used_days s v z)"
    and "balance_row (save_balance b' s) uid y = Some b'"
proof -
  note b = balance_row_SomeD[OF assms(2)]
  have same: "lb_id x = lb_id b' \<longleftrightarrow> x = b" if "x \<in> set (rows (hr_balances s))" for x
    using that b assms(1,3) by (auto simp: hr_base_def tbl_wf_def distinct_map inj_on_def)
  have keys: "map (\<lambda>b. (lb_user b, lb_year b)) (rows (hr_balances (save_balance b' s)))
      = map (\<lambda>b. (lb_user b, lb_year b)) (rows (hr_balances s))"
    using same b assms(4,5) by (simp add: save_balance_def tbl_save_def)
  show "hr_base (save_balance b' s)"
    using assms(1) keys by (simp add: hr_base_def save_balance_def tbl_wf_save)
  have map: "map (\<lambda>x. if lb_id x = lb_id b' then b' else x) (rows (hr_balances s))
      = map (\<lambda>x. if x = b then b' else x) (rows (hr_balances s))"
    using same by (intro map_cong) auto
  have row: "balance_row (save_balance b' s) v z = map_option (\<lambda>x. if x = b then b' else x) (balance_row s v z)" for v z
    unfolding balance_row_def save_balance_def tbl_save_def
    using b assms(4,5) by (simp add: map find_map_replace)
  then show "balance_row (save_balance b' s) uid y = Some b'" using assms(2) by simp
  note row
  moreover have "balance_row s v z = Some b \<Longrightarrow> v = uid \<and> z = y"
    using b balance_row_SomeD[of s v z b] by blast
  ultimately show "used_days (save_balance b' s) v z = (if v = uid \<and> z = y then lb_used b' else used_days s v z)"
    using assms(2) by (cases "balance_row s v z") (auto simp: used_days_def)
qed

lemma spent_cong: "hr_leaves s' = hr_leaves s \<Longrightarrow> spent s' uid y = spent s uid y"
  by (simp add: spent_def)

lemma get_or_create_balance_inv: "hr_inv s \<Longrightarrow> hr_inv (snd (get_or_create_balance u y s))"
  using get_or_create_balance_spec[of s u y "fst (get_or_create_balance u y s)" "snd (get_or_create_balance u y s)"]
  by (simp add: hr_inv_iff spent_def)

lemma set_balance_inv:
  assumes inv: "hr_inv s" and ok: "set_balance u tid year n s = Inr s'"
  shows "hr_inv s'"
proof -
  obtain target b s1 where t: "get_or_create_balance target year s = (b, s1)" "s' = save_balance (b\<lparr>lb_total := n\<rparr>) s1"
    using ok by (auto simp: set_balance_def split: option.splits if_splits prod.splits)
  note g = get_or_create_balance_spec[OF _ t(1)]
  have base: "hr_base s" using inv by (simp add: hr_inv_iff)
  have used: "used_days s1 (u_id target) year = lb_used b"
    using g(2)[OF base] by (simp add: used_days_def)
  show ?thesis
    using inv save_balance_spec[OF g(1)[OF base] g(2)[OF base], of "b\<lparr>lb_total := n\<rparr>"] g(3,5,6,7)[OF base] used
    by (auto simp: hr_inv_iff t(2) spent_def save_balance_def)
qed

section \<open>Review\<close>

lemma charge_le_spent:
  assumes "list_all leave_wf (rows (hr_leaves s))" "l \<in> set (rows (hr_leaves s))"
  shows "charge uid y l \<le> spent s uid y"
proof -
  have "list_all leave_wf xs \<Longrightarrow> 0 \<le> sum_list (map (charge uid y) xs)
      \<and> (l \<in> set xs \<longrightarrow> charge uid y l \<le> sum_list (map (charge uid y) xs))" for xs
    by (induction xs) (auto simp: charge_def duration_days_def leave_wf_def)
  then show ?thesis using assms by (simp add: spent_def)
qed

text \<open>What a successful review did.\<close>

lemma review_leave_ok:
  assumes "review_leave now u year k st comment s = Inr s'"
  obtains l author where "get_leave s u year k = Inr l"
    "tbl_get u_id (lv_user l) (ac_users (hr_acc s)) = Some author"
    "u_role u = Company_admin" "st \<in> {Lr_approved, Lr_rejected}" "review_error s u author l st = None"
    "s' = charge_balance author l (lv_status l) st
       ((leave_set (l\<lparr>lv_status := st, lv_review_comment := comment, lv_reviewed_by := Some (u_id u),
           lv_reviewed_at := Some now\<rparr>) s)
         \<lparr>hr_nt := create_notification now (lv_user l) (if st = Lr_approved then Leave_approved else Leave_rejected)
             (Fmt ''leave_reviewed'' []) (Str comment) (Some (Str ''/leave'')) (hr_nt s)\<rparr>)"
  using assms
  by (auto simp: review_leave_def Let_def split: option.splits sum.splits)

lemma charge_balance_spec:
  assumes "hr_base s" "u_id author = lv_user l"
  shows "hr_base (charge_balance author l old new s)" "hr_leaves (charge_balance author l old new s) = hr_leaves s"
    and "used_days (charge_balance author l old new s) uid y = used_days s uid y +
      (if deducts (lv_type l) \<and> uid = lv_user l \<and> y = year_of (lv_start l) then
         (if old \<noteq> Lr_approved \<and> new = Lr_approved then duration_days l
          else if old = Lr_approved \<and> new \<noteq> Lr_approved
            then max (used_days s uid y - duration_days l) 0 - used_days s uid y
          else 0)
       else 0)"
proof -
  obtain b s1 where g: "get_or_create_balance author (year_of (lv_start l)) s = (b, s1)"
    by (cases "get_or_create_balance author (year_of (lv_start l)) s")
  note spec = get_or_create_balance_spec[OF assms(1) g]
  have b: "used_days s (lv_user l) (year_of (lv_start l)) = lb_used b"
    using spec(2,5) assms(2) by (metis used_days_def option.simps(5))
  have save: "hr_base (save_balance (b\<lparr>lb_used := n\<rparr>) s1)"
    "used_days (save_balance (b\<lparr>lb_used := n\<rparr>) s1) v z =
      (if v = lv_user l \<and> z = year_of (lv_start l) then n else used_days s v z)" for n v z
    using save_balance_spec[OF spec(1,2), of "b\<lparr>lb_used := n\<rparr>"] spec(5,6,7) assms(2) by auto
  have frame: "hr_leaves (save_balance x s1) = hr_leaves s" for x
    using spec(3) by (simp add: save_balance_def)
  show "hr_base (charge_balance author l old new s)" "hr_leaves (charge_balance author l old new s) = hr_leaves s"
    using assms(1) spec(1,3) save(1) frame by (auto simp: charge_balance_def g)
  show "used_days (charge_balance author l old new s) uid y = used_days s uid y +
      (if deducts (lv_type l) \<and> uid = lv_user l \<and> y = year_of (lv_start l) then
         (if old \<noteq> Lr_approved \<and> new = Lr_approved then duration_days l
          else if old = Lr_approved \<and> new \<noteq> Lr_approved
            then max (used_days s uid y - duration_days l) 0 - used_days s uid y
          else 0)
       else 0)"
    using spec(5) b save(2) by (simp add: charge_balance_def g)
qed

lemma approved_overlap_iff:
  "approved_overlap s uid st en exclude \<longleftrightarrow> (\<exists>l \<in> set (rows (hr_leaves s)). lv_user l = uid
     \<and> lv_status l = Lr_approved \<and> lv_start l \<le> en \<and> st \<le> lv_end l \<and> Some (lv_id l) \<noteq> exclude)"
  by (auto simp: approved_overlap_def list_ex_iff)

lemma reviewed_base:
  assumes "hr_base s" "l \<in> set (rows (hr_leaves s))" "review_error s u author l st = None"
    and "lv_id l' = lv_id l" "lv_user l' = lv_user l" "lv_start l' = lv_start l" "lv_end l' = lv_end l" "lv_status l' = st"
  shows "hr_base ((leave_set l' s)\<lparr>hr_nt := nt\<rparr>)"
proof -
  have "st = Lr_approved \<Longrightarrow> \<not> approved_overlap s (lv_user l) (lv_start l) (lv_end l) (Some (lv_id l))"
    using assms(3) by (simp add: review_error_def)
  then have "leaves_disjoint a l'" if "a \<in> set (rows (hr_leaves s))" "lv_id a \<noteq> lv_id l'" for a
    using that assms(4-8) by (auto simp: leaves_disjoint_def approved_overlap_iff)
  moreover have "leave_wf l'"
    using assms(1,2,6,7) by (auto simp: hr_base_def list_all_iff leave_wf_def)
  ultimately have "hr_base (leave_set l' s)" using hr_base_leave_set[OF assms(1)] by blast
  then show ?thesis by (simp add: hr_base_def)
qed

lemma review_leave_inv:
  assumes inv: "hr_inv s" and ok: "review_leave now u year k st comment s = Inr s'"
  shows "hr_inv s'"
proof -
  from ok obtain l author where l: "get_leave s u year k = Inr l"
    "tbl_get u_id (lv_user l) (ac_users (hr_acc s)) = Some author"
    "review_error s u author l st = None"
    and s': "s' = charge_balance author l (lv_status l) st
       ((leave_set (l\<lparr>lv_status := st, lv_review_comment := comment, lv_reviewed_by := Some (u_id u),
           lv_reviewed_at := Some now\<rparr>) s)
         \<lparr>hr_nt := create_notification now (lv_user l) (if st = Lr_approved then Leave_approved else Leave_rejected)
             (Fmt ''leave_reviewed'' []) (Str comment) (Some (Str ''/leave'')) (hr_nt s)\<rparr>)"
    by (rule review_leave_ok)
  let ?l' = "l\<lparr>lv_status := st, lv_review_comment := comment, lv_reviewed_by := Some (u_id u), lv_reviewed_at := Some now\<rparr>"
  obtain nt where s'2: "s' = charge_balance author l (lv_status l) st ((leave_set ?l' s)\<lparr>hr_nt := nt\<rparr>)"
    using s' by blast
  let ?t = "(leave_set ?l' s)\<lparr>hr_nt := nt\<rparr>"
  have row: "l \<in> set (rows (hr_leaves s))" "lv_id l = k" using get_leave_SomeD[OF l(1)] by auto
  have author: "u_id author = lv_user l" using tbl_get_SomeD[OF l(2)] by simp
  have base: "hr_base s" and wf: "leave_wf l"
    using inv row(1) by (auto simp: hr_inv_iff hr_base_def list_all_iff)
  have t: "hr_base ?t" "rows (hr_leaves ?t) = rows (hr_leaves (leave_set ?l' s))"
    using reviewed_base[OF base row(1) l(3), of ?l'] by simp_all
  have used: "used_days ?t uid y = spent s uid y" for uid y
    using inv by (simp add: hr_inv_iff used_days_def balance_row_def)
  have spent: "spent ?t uid y = spent s uid y - charge uid y l + charge uid y ?l'" for uid y
    using spent_leave_set[OF inv row(1), of ?l'] by (simp add: spent_def t(2))
  note c = charge_balance_spec[OF t(1) author, of "lv_status l" st]
  have "used_days s' uid y = spent s' uid y" for uid y
    using charge_le_spent[of s l uid y] base row(1) spent[of uid y] c(2)
    by (auto simp: s'2 c(3) used spent_def hr_base_def charge_def duration_days_def)
  then show ?thesis using c(1) by (simp add: hr_inv_iff s'2)
qed

section \<open>The leave system\<close>

datatype hr_op =
    Op_create_leave int datetime user leave_request
  | Op_update_leave int datetime user "int option" nat leave_request
  | Op_cancel_leave user "int option" nat
  | Op_review_leave datetime user "int option" nat leave_status string
  | Op_show_balance datetime user "int option"
  | Op_set_balance user nat int int
  | Op_team_balance datetime user "int option"
  | Op_settle user nat

definition exec_hr :: "hr_op \<Rightarrow> hr_state \<Rightarrow> api_error + hr_state" where
  "exec_hr x s = (case x of
     Op_create_leave off now u rq \<Rightarrow> create_leave off now u rq s
   | Op_update_leave off now u year k rq \<Rightarrow> update_leave off now u year k rq s
   | Op_cancel_leave u year k \<Rightarrow> cancel_leave u year k s
   | Op_review_leave now u year k st comment \<Rightarrow> review_leave now u year k st comment s
   | Op_show_balance now u year \<Rightarrow> map_sum id snd (show_balance now u year s)
   | Op_set_balance u tid year n \<Rightarrow> set_balance u tid year n s
   | Op_team_balance now u year \<Rightarrow> team_balance now u year s
   | Op_settle target c \<Rightarrow> Inr (settle_pending_leaves target c s))"

lemma fold_balance_inv: "hr_inv s \<Longrightarrow> hr_inv (fold (\<lambda>m t. snd (get_or_create_balance m y t)) ms s)"
  by (induction ms arbitrary: s) (simp_all add: get_or_create_balance_inv)

lemma exec_hr_inv: "hr_inv s \<Longrightarrow> exec_hr x s = Inr s' \<Longrightarrow> hr_inv s'"
  by (cases x)
     (auto simp: exec_hr_def show_balance_def team_balance_def fold_balance_inv get_or_create_balance_inv
        settle_pending_inv split: option.splits sum.splits
        dest: create_leave_inv update_leave_inv cancel_leave_inv review_leave_inv set_balance_inv)

interpretation hr: op_system exec_hr hr_inv "\<lambda>_. True"
  by unfold_locales (rule exec_hr_inv)

section \<open>Properties\<close>

text \<open>
  C8: in every run of the leave operations the approved requests of a user never overlap, and the
  used days of every balance are exactly the days of the user's approved vacation and day-off
  requests that start in its year - through approvals, approvals taken back, edits and cancellations.
\<close>

theorem leave_books_balance:
  assumes "hr_inv s" and "s' = run_ops exec_hr xs s"
  shows "(\<forall>uid year. used_days s' uid year =
      sum_list (map duration_days (filter (\<lambda>l. lv_user l = uid \<and> lv_status l = Lr_approved
        \<and> deducts (lv_type l) \<and> year_of (lv_start l) = year) (rows (hr_leaves s')))))
    \<and> (\<forall>a \<in> set (rows (hr_leaves s')). \<forall>b \<in> set (rows (hr_leaves s')).
        lv_user a = lv_user b \<and> lv_status a = Lr_approved \<and> lv_status b = Lr_approved
        \<and> lv_start a \<le> lv_end b \<and> lv_start b \<le> lv_end a \<longrightarrow> a = b)"
proof -
  have inv: "hr_inv s'"
    unfolding assms(2) by (rule hr.run_inv[OF assms(1)]) (simp add: list_all_iff)
  have sum: "sum_list (map (charge uid year) ls) = sum_list (map duration_days (filter (\<lambda>l. lv_user l = uid
      \<and> lv_status l = Lr_approved \<and> deducts (lv_type l) \<and> year_of (lv_start l) = year) ls))" for uid year ls
    by (induction ls) (auto simp: charge_def)
  have "a = b" if "a \<in> set (rows (hr_leaves s'))" "b \<in> set (rows (hr_leaves s'))" "lv_id a = lv_id b" for a b
    using that inv by (auto simp: hr_inv_def tbl_wf_def distinct_map inj_on_def)
  then show ?thesis
    using inv unfolding hr_inv_def spent_def sum leaves_disjoint_def by blast
qed

definition demo_leave :: "nat \<Rightarrow> nat \<Rightarrow> leave_status \<Rightarrow> date \<Rightarrow> date \<Rightarrow> leave" where
  "demo_leave i uid st a b = \<lparr>lv_id = i, lv_user = uid, lv_company = 1, lv_type = Vacation, lv_status = st,
     lv_start = a, lv_end = b, lv_comment = [], lv_assigned_reviewer = None, lv_reviewed_by = None,
     lv_review_comment = [], lv_reviewed_at = None\<rparr>"

text \<open>Employees 1 and 4 and admins 2 and 3 of company 1.\<close>

definition demo_hr :: "leave list \<Rightarrow> hr_state" where
  "demo_hr ls = \<lparr>hr_acc = \<lparr>ac_users = Table [demo_user 1 Employee (Some 1), demo_user 2 Company_admin (Some 1),
       demo_user 3 Company_admin (Some 1), demo_user 4 Employee (Some 1)] 5, ac_companies = Table [demo_company] 2\<rparr>,
     hr_settings = empty_table, hr_leaves = Table ls (Suc (length ls)), hr_balances = empty_table, hr_nt = demo_nt\<rparr>"

lemma demo_hr_inv:
  "hr_inv (demo_hr [])" "a \<le> b \<Longrightarrow> st \<noteq> Lr_approved \<Longrightarrow> hr_inv (demo_hr [demo_leave 1 1 st a b])"
  by (auto simp: hr_inv_def demo_hr_def tbl_wf_def used_days_def spent_def balance_row_def
      not_approved_charge not_approved_disjoint demo_leave_def leave_wf_def charge_def leaves_disjoint_def)

theorem leave_books_balance_witness:
  "\<forall>uid year. used_days (run_ops exec_hr [Op_review_leave 0 (demo_user 2 Company_admin (Some 1)) None 1 Lr_approved []]
       (demo_hr [demo_leave 1 1 Lr_pending 20000 20004])) uid year =
     sum_list (map duration_days (filter (\<lambda>l. lv_user l = uid \<and> lv_status l = Lr_approved
        \<and> deducts (lv_type l) \<and> year_of (lv_start l) = year) (rows (hr_leaves
     (run_ops exec_hr [Op_review_leave 0 (demo_user 2 Company_admin (Some 1)) None 1 Lr_approved []]
       (demo_hr [demo_leave 1 1 Lr_pending 20000 20004])))))) "
  by (rule leave_books_balance[OF demo_hr_inv(2) refl, THEN conjunct1]) simp_all

text \<open>
  C9: a company admin's review of a visible request succeeds exactly when the request is not the
  admin's own, no other admin is assigned, and - for an approval - no approved request of the
  author overlaps and the remaining days of the year suffice when the request is newly approved.
  The status the request has before plays no other part.
\<close>

theorem review_exact:
  assumes "u_role u = Company_admin" "get_leave s u None k = Inr l"
    and "tbl_get u_id (lv_user l) (ac_users (hr_acc s)) = Some author"
  shows "(is_ok (review_leave now u None k Lr_rejected comment s) \<longleftrightarrow>
      lv_user l \<noteq> u_id u \<and> lv_assigned_reviewer l \<in> {None, Some (u_id u)})
    \<and> (is_ok (review_leave now u None k Lr_approved comment s) \<longleftrightarrow>
      lv_user l \<noteq> u_id u \<and> lv_assigned_reviewer l \<in> {None, Some (u_id u)}
      \<and> (\<forall>l' \<in> set (rows (hr_leaves s)). lv_user l' = lv_user l \<and> lv_status l' = Lr_approved
          \<and> lv_id l' \<noteq> k \<longrightarrow> lv_end l' < lv_start l \<or> lv_end l < lv_start l')
      \<and> (deducts (lv_type l) \<and> lv_status l \<noteq> Lr_approved \<longrightarrow>
           duration_days l \<le> remaining_for s author (year_of (lv_start l))))"
proof -
  have k: "lv_id l = k" using get_leave_SomeD[OF assms(2)] by simp
  have ok: "is_ok (review_leave now u None k st comment s) \<longleftrightarrow>
      st \<in> {Lr_approved, Lr_rejected} \<and> review_error s u author l st = None" for st
    using assms by (cases st) (auto simp: review_leave_def Let_def is_ok_def guarded_def require_simps split: option.split)
  have remaining: "remaining_days (fst (get_or_create_balance author y s)) = remaining_for s author y" for y
    by (simp add: remaining_for_def get_or_create_balance_def new_balance_def remaining_days_def split: option.split)
  have overlap: "\<not> approved_overlap s (lv_user l) (lv_start l) (lv_end l) (Some k) \<longleftrightarrow>
      (\<forall>l' \<in> set (rows (hr_leaves s)). lv_user l' = lv_user l \<and> lv_status l' = Lr_approved
          \<and> lv_id l' \<noteq> k \<longrightarrow> lv_end l' < lv_start l \<or> lv_end l < lv_start l')"
    unfolding approved_overlap_iff by (auto simp: not_le)
  have reviewer: "(case lv_assigned_reviewer l of None \<Rightarrow> True | Some r \<Rightarrow> r = u_id u) \<longleftrightarrow>
      lv_assigned_reviewer l \<in> {None, Some (u_id u)}"
    by (auto split: option.split)
  show ?thesis
    unfolding ok review_error_def first_err_None_iff k remaining reviewer
    using overlap by (auto simp: not_less)
qed

theorem review_exact_witness:
  "is_ok (review_leave 0 (demo_user 2 Company_admin (Some 1)) None 1 Lr_rejected []
     (demo_hr [demo_leave 1 1 Lr_pending 20000 20004]))"
proof -
  let ?s = "demo_hr [demo_leave 1 1 Lr_pending 20000 20004]"
  let ?l = "demo_leave 1 1 Lr_pending 20000 20004"
  have "get_leave ?s (demo_user 2 Company_admin (Some 1)) None 1 = Inr ?l" by code_simp
  moreover have "tbl_get u_id (lv_user ?l) (ac_users (hr_acc ?s)) = Some (demo_user 1 Employee (Some 1))" by code_simp
  ultimately show ?thesis
    using review_exact[of "demo_user 2 Company_admin (Some 1)" ?s 1 ?l "demo_user 1 Employee (Some 1)" 0 "[]"]
    by (simp add: demo_leave_def)
qed

text \<open>
  Approving a request that deducts days, when it was not approved before, never takes the
  balance of its year above the total.
\<close>

theorem approval_within_balance:
  assumes "hr_inv s" "review_leave now u None k Lr_approved comment s = Inr s'"
    and "get_leave s u None k = Inr l" "deducts (lv_type l)" "lv_status l \<noteq> Lr_approved"
  shows "\<exists>b. balance_row s' (lv_user l) (year_of (lv_start l)) = Some b \<and> lb_used b \<le> lb_total b
    \<and> lb_used b = used_days s (lv_user l) (year_of (lv_start l)) + duration_days l"
proof -
  from assms(2) obtain l1 author where r: "get_leave s u None k = Inr l1"
    "tbl_get u_id (lv_user l1) (ac_users (hr_acc s)) = Some author" "review_error s u author l1 Lr_approved = None"
    and s': "s' = charge_balance author l1 (lv_status l1) Lr_approved
       ((leave_set (l1\<lparr>lv_status := Lr_approved, lv_review_comment := comment, lv_reviewed_by := Some (u_id u),
           lv_reviewed_at := Some now\<rparr>) s)
         \<lparr>hr_nt := create_notification now (lv_user l1) (if Lr_approved = Lr_approved then Leave_approved else Leave_rejected)
             (Fmt ''leave_reviewed'' []) (Str comment) (Some (Str ''/leave'')) (hr_nt s)\<rparr>)"
    by (rule review_leave_ok)
  have l: "l1 = l" using r(1) assms(3) by simp
  let ?y = "year_of (lv_start l)"
  let ?t = "(leave_set (l\<lparr>lv_status := Lr_approved, lv_review_comment := comment, lv_reviewed_by := Some (u_id u),
           lv_reviewed_at := Some now\<rparr>) s)
         \<lparr>hr_nt := create_notification now (lv_user l) Leave_approved
             (Fmt ''leave_reviewed'' []) (Str comment) (Some (Str ''/leave'')) (hr_nt s)\<rparr>"
  have author: "u_id author = lv_user l" using tbl_get_SomeD[OF r(2)] l by simp
  have wf: "leave_wf l" using assms(1) get_leave_SomeD[OF assms(3)] by (auto simp: hr_inv_def list_all_iff)
  have tb: "balance_row ?t uid y = balance_row s uid y" "hr_balances ?t = hr_balances s"
    "hr_acc ?t = hr_acc s" "hr_settings ?t = hr_settings s" for uid y
    by (simp_all add: balance_row_def)
  obtain b s1 where g: "get_or_create_balance author ?y ?t = (b, s1)"
    by (cases "get_or_create_balance author ?y ?t")
  have b: "fst (get_or_create_balance author ?y s) = b"
    using g tb by (auto simp: get_or_create_balance_def new_balance_def default_total_days_for_user_def
        settings_of_def split: option.splits)
  have rem: "duration_days l \<le> lb_total b - lb_used b"
    using r(3) wf assms(4,5) unfolding l b[symmetric]
    by (auto simp: review_error_def remaining_days_def duration_days_def leave_wf_def)
  have s'2: "s' = save_balance (b\<lparr>lb_used := lb_used b + duration_days l\<rparr>) s1"
    using s' assms(4,5) g by (simp add: l charge_balance_def)
  have "hr_base s" using assms(1) by (simp add: hr_inv_iff)
  then have base: "hr_base ?t"
    using get_leave_SomeD[OF assms(3)] r(3) unfolding l
    by (intro reviewed_base[of s l u author Lr_approved]) auto
  note spec = get_or_create_balance_spec[OF base g]
  have used: "used_days s (lv_user l) ?y = lb_used b"
    using spec(2) spec(5)[of "lv_user l" ?y] author by (simp add: used_days_def tb(1))
  have row: "balance_row s' (lv_user l) ?y = Some (b\<lparr>lb_used := lb_used b + duration_days l\<rparr>)"
    unfolding s'2 using spec(1,2,6,7) author by (intro save_balance_spec(3)) auto
  show ?thesis using row rem used by simp
qed

theorem approval_within_balance_witness:
  "\<exists>s' b. review_leave 0 (demo_user 2 Company_admin (Some 1)) None 1 Lr_approved []
       (demo_hr [demo_leave 1 1 Lr_pending 20000 20004]) = Inr s'
     \<and> balance_row s' 1 (year_of 20000) = Some b \<and> lb_used b \<le> lb_total b"
proof -
  let ?s = "demo_hr [demo_leave 1 1 Lr_pending 20000 20004]"
  let ?u = "demo_user 2 Company_admin (Some 1)"
  have "is_ok (review_leave 0 ?u None 1 Lr_approved [] ?s)" by code_simp
  then obtain s' where ok: "review_leave 0 ?u None 1 Lr_approved [] ?s = Inr s'" by (auto simp: is_ok_iff)
  have "get_leave ?s ?u None 1 = Inr (demo_leave 1 1 Lr_pending 20000 20004)" by code_simp
  from approval_within_balance[OF demo_hr_inv(2) ok this] show ?thesis
    using ok by (auto simp: demo_leave_def deducts_def)
qed

text \<open>
  Cancelling does not close a request: after its author has cancelled it, an admin of the company
  who may review it can still approve it under the same conditions as a pending one, and the
  approval books the days.
\<close>

theorem cancelled_leave_approvable:
  assumes "hr_inv s" "cancel_leave u None k s = Inr s1" "tbl_get lv_id k (hr_leaves s) = Some l"
    and "u_role a = Company_admin" "u_company a = Some (lv_company l)" "u_id a \<noteq> lv_user l"
    and "lv_assigned_reviewer l = None" "lv_type l = Sick_leave"
    and "tbl_get u_id (lv_user l) (ac_users (hr_acc s)) = Some author"
    and "\<not> approved_overlap s (lv_user l) (lv_start l) (lv_end l) (Some k)"
  shows "tbl_get lv_id k (hr_leaves s1) = Some (l\<lparr>lv_status := Lr_cancelled\<rparr>)
    \<and> (\<exists>s2. review_leave now a None k Lr_approved comment s1 = Inr s2
        \<and> map_option lv_status (tbl_get lv_id k (hr_leaves s2)) = Some Lr_approved)"
proof -
  let ?l1 = "l\<lparr>lv_status := Lr_cancelled\<rparr>"
  have wf: "tbl_wf lv_id (hr_leaves s)" using assms(1) by (simp add: hr_inv_def)
  obtain l' where l': "get_leave s u None k = Inr l'" "s1 = leave_set (l'\<lparr>lv_status := Lr_cancelled\<rparr>) s"
    using assms(2) by (auto simp: cancel_leave_def split: option.splits sum.splits)
  have "tbl_get lv_id k (hr_leaves s) = Some l'"
    using get_leave_SomeD[OF l'(1)] tbl_get_row[OF wf, of l'] by blast
  then have s1: "s1 = leave_set ?l1 s" using l'(2) assms(3) by simp
  have inv1: "hr_inv s1" by (rule cancel_leave_inv[OF assms(1,2)])
  then have wf1: "tbl_wf lv_id (hr_leaves s1)" by (simp add: hr_inv_def)
  have lid: "lv_id l = k" using tbl_get_SomeD[OF assms(3)] by simp
  have get1: "tbl_get lv_id k (hr_leaves s1) = Some ?l1"
    using leaves.get_save_same[OF wf, of ?l1] assms(3) lid by (simp add: s1 leave_set_def)
  have row1: "?l1 \<in> set (rows (hr_leaves s1))" using tbl_get_SomeD[OF get1] by simp
  have "find (\<lambda>x. lv_id x = k) (filter (\<lambda>x. lv_company x = lv_company l) (rows (hr_leaves s1))) = Some ?l1"
    using find_key_unique[of lv_id "filter (\<lambda>x. lv_company x = lv_company l) (rows (hr_leaves s1))" ?l1]
      row1 wf1 lid by (auto simp: tbl_wf_def distinct_map_filter)
  then have vis: "get_leave s1 a None k = Inr ?l1"
    using assms(4,5) by (simp add: get_leave_def leave_queryset_def company_isolation_def)
  have author: "tbl_get u_id (lv_user ?l1) (ac_users (hr_acc s1)) = Some author"
    using assms(9) by (simp add: s1)
  have free: "lv_end l'' < lv_start l \<or> lv_end l < lv_start l''"
    if "l'' \<in> set (rows (hr_leaves s1))" "lv_user l'' = lv_user l" "lv_status l'' = Lr_approved" "lv_id l'' \<noteq> k" for l''
    using that assms(10) lid by (force simp: s1 rows_leave_set approved_overlap_iff not_le)
  have "is_ok (review_leave now a None k Lr_approved comment s1)"
    using review_exact[OF assms(4) vis author, of now comment] assms(6,7,8) free
    by (simp add: deducts_def)
  then obtain s2 where s2: "review_leave now a None k Lr_approved comment s1 = Inr s2" by (auto simp: is_ok_iff)
  then obtain nt where "hr_leaves s2 = hr_leaves ((leave_set (?l1\<lparr>lv_status := Lr_approved, lv_review_comment := comment,
      lv_reviewed_by := Some (u_id a), lv_reviewed_at := Some now\<rparr>) s1)\<lparr>hr_nt := nt\<rparr>)"
    by (rule review_leave_ok) (use vis assms(8) in \<open>auto simp: charge_balance_def deducts_def\<close>)
  then have "tbl_get lv_id k (hr_leaves s2) = Some (?l1\<lparr>lv_status := Lr_approved, lv_review_comment := comment,
      lv_reviewed_by := Some (u_id a), lv_reviewed_at := Some now\<rparr>)"
    using leaves.get_save_same[OF wf1, of "?l1\<lparr>lv_status := Lr_approved, lv_review_comment := comment,
      lv_reviewed_by := Some (u_id a), lv_reviewed_at := Some now\<rparr>"] get1 lid by (simp add: leave_set_def)
  then show ?thesis using get1 s2 by auto
qed

theorem cancelled_leave_approvable_witness:
  "\<exists>s1 s2. cancel_leave (demo_user 1 Employee (Some 1)) None 1
      (demo_hr [(demo_leave 1 1 Lr_pending 20000 20004)\<lparr>lv_type := Sick_leave\<rparr>]) = Inr s1
    \<and> review_leave 0 (demo_user 2 Company_admin (Some 1)) None 1 Lr_approved [] s1 = Inr s2
    \<and> map_option lv_status (tbl_get lv_id 1 (hr_leaves s2)) = Some Lr_approved"
proof -
  let ?l = "(demo_leave 1 1 Lr_pending 20000 20004)\<lparr>lv_type := Sick_leave\<rparr>"
  let ?s = "demo_hr [?l]"
  have inv: "hr_inv ?s"
    by (auto simp: hr_inv_def demo_hr_def tbl_wf_def used_days_def spent_def balance_row_def
        not_approved_charge not_approved_disjoint demo_leave_def leave_wf_def charge_def leaves_disjoint_def)
  have "is_ok (cancel_leave (demo_user 1 Employee (Some 1)) None 1 ?s)" by code_simp
  then obtain s1 where ok: "cancel_leave (demo_user 1 Employee (Some 1)) None 1 ?s = Inr s1" by (auto simp: is_ok_iff)
  have get: "tbl_get lv_id 1 (hr_leaves ?s) = Some ?l" "\<not> approved_overlap ?s (lv_user ?l) (lv_start ?l) (lv_end ?l) (Some 1)"
    "tbl_get u_id (lv_user ?l) (ac_users (hr_acc ?s)) = Some (demo_user 1 Employee (Some 1))" by code_simp+
  from cancelled_leave_approvable[OF inv ok get(1), of "demo_user 2 Company_admin (Some 1)"] get(2,3) ok
  show ?thesis by (auto simp: demo_leave_def)
qed

end
