(* ===== verification/Tasks.thy ===== *)
theory Tasks
  imports Crm
begin

text \<open>
  Tasks and labels of \<open>apps/crm\<close>: \<open>TaskSerializer.validate\<close>, the endpoints of \<open>TaskViewSet\<close>
  and \<open>LabelViewSet\<close>, and the deadline reminders of \<open>crm/tasks.py\<close>.
\<close>

section \<open>Requests\<close>

text \<open>What the serializer fields return; \<open>None\<close> is a field that was not sent.\<close>

record task_request =
  tq_board :: "nat option"
  tq_column :: "nat option"
  tq_title :: "string option"
  tq_description :: "string option"
  tq_priority :: "priority option"
  tq_assignee :: "nat option option"
  tq_deadline :: "datetime option option"
  tq_labels :: "nat list option"

text \<open>\<open>get_object\<close>; \<open>archived\<close> says whether the action reads \<open>Task.all_objects\<close>.\<close>

definition task_visible :: "crm_state \<Rightarrow> user \<Rightarrow> bool \<Rightarrow> task \<Rightarrow> bool" where
  "task_visible s u archived t \<longleftrightarrow> (archived \<or> \<not> tk_is_deleted t) \<and>
     (u_role u = Superadmin \<or>
      (case (u_company u, board_of_task s t) of (Some c, Some b) \<Rightarrow> bo_company b = c | _ \<Rightarrow> False))"

definition get_task :: "crm_state \<Rightarrow> user \<Rightarrow> bool \<Rightarrow> nat \<Rightarrow> api_error + task" where
  "get_task s u archived k = (case tbl_get tk_id k (cr_tasks s) of
     None \<Rightarrow> Inl NotFound
   | Some t \<Rightarrow> (if task_visible s u archived t then Inr t else Inl NotFound))"

section \<open>Validation\<close>

text \<open>The related objects a request names exist.\<close>

definition task_field_errors :: "crm_state \<Rightarrow> bool \<Rightarrow> task_request \<Rightarrow> api_error option" where
  "task_field_errors s partial rq = first_err
     [require (partial \<or> tq_column rq \<noteq> None) (raise_validation_error ''column_id'' ''required''),
      require (partial \<or> tq_board rq \<noteq> None) (raise_validation_error ''board_id'' ''required''),
      require (partial \<or> tq_title rq \<noteq> None) (raise_validation_error ''title'' ''required''),
      require (case tq_column rq of None \<Rightarrow> True | Some c \<Rightarrow> column_of s c \<noteq> None)
        (raise_validation_error ''column_id'' ''does_not_exist''),
      require (case tq_assignee rq of Some (Some a) \<Rightarrow> tbl_get u_id a (ac_users (cr_acc s)) \<noteq> None | _ \<Rightarrow> True)
        (raise_validation_error ''assignee_id'' ''does_not_exist''),
      require (case tq_labels rq of None \<Rightarrow> True
          | Some ls \<Rightarrow> list_all (\<lambda>l. tbl_get lb_label_id l (cr_labels s) \<noteq> None) ls)
        (raise_validation_error ''label_ids'' ''does_not_exist'')]"

text \<open>\<open>_validated_board_id\<close> and \<open>_board_company_id\<close>.\<close>

definition own_company :: "user \<Rightarrow> nat option" where
  "own_company u = (if u_role u = Superadmin then None else u_company u)"

definition validated_board :: "crm_state \<Rightarrow> user \<Rightarrow> task option \<Rightarrow> task_request \<Rightarrow> api_error + board" where
  "validated_board s u inst rq = (case tq_board rq of
     Some b \<Rightarrow> (case board_of s b of
         None \<Rightarrow> Inl (raise_validation_error ''board_id'' ''crm.board_not_found'')
       | Some bo \<Rightarrow> (if own_company u = None \<or> own_company u = Some (bo_company bo) then Inr bo
           else Inl (raise_validation_error ''board_id'' ''crm.board_not_found'')))
   | None \<Rightarrow> (case inst of
         None \<Rightarrow> Inl (raise_validation_error ''board_id'' ''crm.board_id_required'')
       | Some t \<Rightarrow> (case board_of_task s t of None \<Rightarrow> Inl ServerError | Some bo \<Rightarrow> Inr bo)))"

definition assignee_error :: "crm_state \<Rightarrow> user \<Rightarrow> board \<Rightarrow> task_request \<Rightarrow> api_error option" where
  "assignee_error s u bo rq = (case tq_assignee rq of
     Some (Some a) \<Rightarrow>
       (let target = (case own_company u of Some c \<Rightarrow> c | None \<Rightarrow> bo_company bo)
        in require (map_option u_company (tbl_get u_id a (ac_users (cr_acc s))) = Some (Some target))
             (raise_validation_error ''assignee_id'' ''crm.assignee_wrong_company''))
   | _ \<Rightarrow> None)"

definition labels_error :: "crm_state \<Rightarrow> user \<Rightarrow> task_request \<Rightarrow> api_error option" where
  "labels_error s u rq = (case (tq_labels rq, own_company u) of
     (Some ls, Some c) \<Rightarrow> require (list_all (\<lambda>l. map_option lb_company (tbl_get lb_label_id l (cr_labels s)) = Some c) ls)
        (raise_validation_error ''label_ids'' ''crm.labels_wrong_company'')
   | _ \<Rightarrow> None)"

definition task_wip_error :: "crm_state \<Rightarrow> task option \<Rightarrow> task_request \<Rightarrow> api_error option" where
  "task_wip_error s inst rq = (case tq_column rq of
     None \<Rightarrow> None
   | Some k \<Rightarrow> (case column_of s k of
       None \<Rightarrow> None
     | Some c \<Rightarrow> (case inst of
         None \<Rightarrow> check_wip_limit s c 1 None
       | Some t \<Rightarrow> (if k \<noteq> tk_column t then check_wip_limit s c 1 (Some (tk_id t)) else None))))"

definition validate_task :: "crm_state \<Rightarrow> user \<Rightarrow> bool \<Rightarrow> task option \<Rightarrow> task_request \<Rightarrow> api_error option" where
  "validate_task s u partial inst rq = (case task_field_errors s partial rq of
     Some e \<Rightarrow> Some e
   | None \<Rightarrow> (case validated_board s u inst rq of
       Inl e \<Rightarrow> Some e
     | Inr bo \<Rightarrow> first_err
         [require (case tq_column rq of None \<Rightarrow> True | Some k \<Rightarrow> map_option cl_board (column_of s k) = Some (bo_id bo))
            (raise_validation_error ''column_id'' ''crm.column_wrong_board''),
          assignee_error s u bo rq,
          labels_error s u rq,
          task_wip_error s inst rq]))"

section \<open>Notifications\<close>

definition task_link :: "nat \<Rightarrow> msg" where
  "task_link k = Fmt ''/crm/tasks/'' [Num (int k)]"

text \<open>The assignment notice: in-app for everyone, by mail when someone else assigns the task.\<close>

definition notify_assignee :: "datetime \<Rightarrow> user \<Rightarrow> nat \<Rightarrow> task \<Rightarrow> nt_state \<Rightarrow> nt_state" where
  "notify_assignee now u assignee t nt =
     (let nt1 = create_notification now assignee Task_assigned (Fmt ''task_assigned'' []) (Str (tk_title t))
                  (Some (task_link (tk_id t))) nt
      in if assignee \<noteq> u_id u then delay_email assignee Task_assigned (Fmt ''task_assigned'' []) nt1 else nt1)"

definition recipient_for_deadline :: "task \<Rightarrow> nat option" where
  "recipient_for_deadline t = (case tk_assignee t of Some a \<Rightarrow> Some a | None \<Rightarrow> tk_created_by t)"

text \<open>\<open>done\<close> is the name of the final column, a Russian word in the source.\<close>

definition is_done_column :: "string \<Rightarrow> crm_state \<Rightarrow> task \<Rightarrow> bool" where
  "is_done_column done s t = (case column_of s (tk_column t) of None \<Rightarrow> False | Some c \<Rightarrow> cl_name c = done)"

definition notified_today :: "int \<Rightarrow> datetime \<Rightarrow> nat \<Rightarrow> ntype \<Rightarrow> nat \<Rightarrow> nt_state \<Rightarrow> bool" where
  "notified_today off now uid nty k nt \<longleftrightarrow> list_ex (\<lambda>n. n_user n = uid \<and> n_type n = nty \<and> n_url n = task_link k
     \<and> local_date off (n_created_at n) = local_date off now) (rows (nt_notifs nt))"

definition maybe_notify_deadline_tomorrow_once ::
  "int \<Rightarrow> datetime \<Rightarrow> string \<Rightarrow> bool \<Rightarrow> bool \<Rightarrow> crm_state \<Rightarrow> task \<Rightarrow> nt_state \<Rightarrow> nt_state" where
  "maybe_notify_deadline_tomorrow_once off now done skip_if_in_done_column skip_dedup s t nt =
     (case tk_deadline t of
        None \<Rightarrow> nt
      | Some d \<Rightarrow>
        (if skip_if_in_done_column \<and> is_done_column done s t then nt
         else if local_date off d \<noteq> local_date off now + 1 then nt
         else (case recipient_for_deadline t of
             None \<Rightarrow> nt
           | Some uid \<Rightarrow>
             (if \<not> skip_dedup \<and> notified_today off now uid Task_deadline (tk_id t) nt then nt
              else delay_email uid Task_deadline (Fmt ''task_deadline_mail'' [])
                (create_notification now uid Task_deadline (Fmt ''task_deadline'' [Str (tk_title t)])
                   (Fmt ''task_deadline_at'' [At d]) (Some (task_link (tk_id t))) nt)))))"

definition deadline_tasks :: "crm_state \<Rightarrow> task list" where
  "deadline_tasks s = tbl_filter (\<lambda>t. \<not> tk_is_deleted t \<and> \<not> tk_is_archived t \<and> tk_deadline t \<noteq> None) (cr_tasks s)"

definition notify_deadline_approaching :: "int \<Rightarrow> datetime \<Rightarrow> string \<Rightarrow> crm_state \<Rightarrow> crm_state" where
  "notify_deadline_approaching off now done s =
     s\<lparr>cr_nt := fold (maybe_notify_deadline_tomorrow_once off now done True False s) (deadline_tasks s) (cr_nt s)\<rparr>"

definition notify_overdue ::
  "int \<Rightarrow> datetime \<Rightarrow> string \<Rightarrow> crm_state \<Rightarrow> task \<Rightarrow> nt_state \<Rightarrow> nt_state" where
  "notify_overdue off now done s t nt =
     (if is_done_column done s t then nt
      else case tk_deadline t of
        None \<Rightarrow> nt
      | Some d \<Rightarrow>
        (if local_date off d \<ge> local_date off now then nt
         else (case recipient_for_deadline t of
             None \<Rightarrow> nt
           | Some uid \<Rightarrow>
             (if notified_today off now uid Task_deadline_overdue (tk_id t) nt then nt
              else delay_email uid Task_deadline_overdue (Fmt ''task_overdue_mail'' [])
                (create_notification now uid Task_deadline_overdue (Fmt ''task_overdue'' [Str (tk_title t)])
                   (Fmt ''task_overdue_at'' [At d]) (Some (task_link (tk_id t))) nt)))))"

definition notify_deadline_overdue :: "int \<Rightarrow> datetime \<Rightarrow> string \<Rightarrow> crm_state \<Rightarrow> crm_state" where
  "notify_deadline_overdue off now done s =
     s\<lparr>cr_nt := fold (notify_overdue off now done s) (deadline_tasks s) (cr_nt s)\<rparr>"

section \<open>Create\<close>

definition new_task :: "datetime \<Rightarrow> user \<Rightarrow> nat \<Rightarrow> string \<Rightarrow> task_request \<Rightarrow> nat \<Rightarrow> task" where
  "new_task now u c title rq k = \<lparr>tk_id = k, tk_column = c, tk_title = title,
     tk_description = (case tq_description rq of None \<Rightarrow> [] | Some d \<Rightarrow> d),
     tk_priority = (case tq_priority rq of None \<Rightarrow> Medium | Some p \<Rightarrow> p),
     tk_position = 0,
     tk_assignee = (case tq_assignee rq of None \<Rightarrow> None | Some a \<Rightarrow> a),
     tk_created_by = Some (u_id u),
     tk_deadline = (case tq_deadline rq of None \<Rightarrow> None | Some d \<Rightarrow> d),
     tk_labels = (case tq_labels rq of None \<Rightarrow> [] | Some ls \<Rightarrow> remdups ls),
     tk_is_archived = False, tk_is_deleted = False, tk_deleted_at = None, tk_created_at = now\<rparr>"

definition create_task ::
  "int \<Rightarrow> datetime \<Rightarrow> string \<Rightarrow> user \<Rightarrow> task_request \<Rightarrow> crm_state \<Rightarrow> api_error + crm_state" where
  "create_task off now done u rq s =
     (case crm_permission u of
        Some e \<Rightarrow> Inl e
      | None \<Rightarrow> (case validate_task s u False None rq of
          Some e \<Rightarrow> Inl e
        | None \<Rightarrow> (case (tq_column rq, tq_title rq) of
            (Some c, Some title) \<Rightarrow>
              (let k = next_id (cr_tasks s);
                   t = new_task now u c title rq k;
                   s1 = normalize_positions c (s\<lparr>cr_tasks := tbl_insert (new_task now u c title rq) (cr_tasks s)\<rparr>);
                   nt = (case tk_assignee t of None \<Rightarrow> cr_nt s1 | Some a \<Rightarrow> notify_assignee now u a t (cr_nt s1))
               in Inr (s1\<lparr>cr_nt := maybe_notify_deadline_tomorrow_once off now done False False s1 t nt\<rparr>))
          | _ \<Rightarrow> Inl ServerError)))"

section \<open>Update\<close>

definition patched_task :: "task_request \<Rightarrow> task \<Rightarrow> task" where
  "patched_task rq t = t\<lparr>
     tk_column := (case tq_column rq of None \<Rightarrow> tk_column t | Some c \<Rightarrow> c),
     tk_title := (case tq_title rq of None \<Rightarrow> tk_title t | Some x \<Rightarrow> x),
     tk_description := (case tq_description rq of None \<Rightarrow> tk_description t | Some x \<Rightarrow> x),
     tk_priority := (case tq_priority rq of None \<Rightarrow> tk_priority t | Some x \<Rightarrow> x),
     tk_assignee := (case tq_assignee rq of None \<Rightarrow> tk_assignee t | Some x \<Rightarrow> x),
     tk_deadline := (case tq_deadline rq of None \<Rightarrow> tk_deadline t | Some x \<Rightarrow> x),
     tk_labels := (case tq_labels rq of None \<Rightarrow> tk_labels t | Some ls \<Rightarrow> remdups ls)\<rparr>"

definition priority_key :: "priority \<Rightarrow> string" where
  "priority_key p = (case p of Low \<Rightarrow> ''low'' | Medium \<Rightarrow> ''medium'' | High \<Rightarrow> ''high'' | Urgent \<Rightarrow> ''urgent'')"

text \<open>\<open>dt.date().isoformat()\<close> of the stored instant, which is in UTC.\<close>

definition deadline_str :: "datetime option \<Rightarrow> msg" where
  "deadline_str d = (case d of None \<Rightarrow> Str [] | Some t \<Rightarrow> Fmt ''isoformat'' [Num (local_date 0 t)])"

definition assignee_name :: "crm_state \<Rightarrow> task \<Rightarrow> string" where
  "assignee_name s t = (case tk_assignee t of None \<Rightarrow> []
   | Some a \<Rightarrow> (case tbl_get u_id a (ac_users (cr_acc s)) of None \<Rightarrow> [] | Some u \<Rightarrow> full_name u))"

definition column_name :: "crm_state \<Rightarrow> nat \<Rightarrow> string" where
  "column_name s c = (case column_of s c of None \<Rightarrow> [] | Some x \<Rightarrow> cl_name x)"

text \<open>The tracked fields the request sent, with their shown value.\<close>

definition tracked_fields :: "crm_state \<Rightarrow> task_request \<Rightarrow> (string \<times> (task \<Rightarrow> msg)) list" where
  "tracked_fields s rq = map snd (filter fst
     [(tq_title rq \<noteq> None, ''title'', \<lambda>t. Str (tk_title t)),
      (tq_description rq \<noteq> None, ''description'', \<lambda>t. Str (tk_description t)),
      (tq_priority rq \<noteq> None, ''priority'', \<lambda>t. Str (priority_key (tk_priority t))),
      (tq_deadline rq \<noteq> None, ''deadline'', \<lambda>t. deadline_str (tk_deadline t)),
      (tq_assignee rq \<noteq> None, ''assignee'', \<lambda>t. Str (assignee_name s t)),
      (tq_column rq \<noteq> None, ''column'', \<lambda>t. Str (column_name s (tk_column t)))])"

text \<open>\<open>json.dumps\<close> of a label: every character outside the printable ASCII range is escaped.\<close>

definition hex_digit :: "nat \<Rightarrow> char" where
  "hex_digit n = (if n < 10 then char_of (48 + n) else char_of (87 + n))"

definition json_char :: "char \<Rightarrow> string" where
  "json_char c = (let n = (of_char c :: nat) in
     if n = 34 \<or> n = 92 then [CHR 0x5C, c]
     else if n = 10 then CHR 0x5C # ''n'' else if n = 13 then CHR 0x5C # ''r''
     else if n = 9 then CHR 0x5C # ''t'' else if n = 8 then CHR 0x5C # ''b''
     else if n = 12 then CHR 0x5C # ''f''
     else if 32 \<le> n \<and> n \<le> 126 then [c]
     else CHR 0x5C # ''u00'' @ [hex_digit (n div 16), hex_digit (n mod 16)])"

definition json_string :: "string \<Rightarrow> string" where
  "json_string s = CHR 0x22 # concat (map json_char s) @ [CHR 0x22]"

definition label_info :: "crm_state \<Rightarrow> nat \<Rightarrow> msg" where
  "label_info s l = (case tbl_get lb_label_id l (cr_labels s) of
     None \<Rightarrow> Fmt ''str'' [Num (int l)]
   | Some lb \<Rightarrow> Str (CHR 0x7B # json_string ''name'' @ '': '' @ json_string (lb_name lb) @ '', '' @
       json_string ''color'' @ '': '' @ json_string (lb_color lb) @ [CHR 0x7D]))"

text \<open>\<open>old_value\<close> and \<open>new_value\<close> hold 255 characters; the other shown values are shorter.\<close>

definition history_value_fits :: "msg \<Rightarrow> bool" where
  "history_value_fits m = (case m of Str x \<Rightarrow> length x \<le> 255 | _ \<Rightarrow> True)"

type_synonym history_entry = "string \<times> string \<times> msg \<times> msg"

definition history_entries :: "crm_state \<Rightarrow> task_request \<Rightarrow> task \<Rightarrow> task \<Rightarrow> history_entry list" where
  "history_entries s rq old new =
     map (\<lambda>(f, show). (''updated'', f, show old, show new))
       (filter (\<lambda>(f, show). show old \<noteq> show new) (tracked_fields s rq))
     @ (case tq_labels rq of
          None \<Rightarrow> []
        | Some _ \<Rightarrow>
            map (\<lambda>l. (''label_added'', [], Str [], label_info s l)) (filter (\<lambda>l. l \<notin> set (tk_labels old)) (tk_labels new))
            @ map (\<lambda>l. (''label_removed'', [], label_info s l, Str [])) (filter (\<lambda>l. l \<notin> set (tk_labels new)) (tk_labels old)))"

definition add_history :: "user \<Rightarrow> nat \<Rightarrow> history_entry \<Rightarrow> crm_state \<Rightarrow> crm_state" where
  "add_history u k e s = (case e of (action, field, old, new) \<Rightarrow> s\<lparr>cr_history := tbl_insert
     (\<lambda>i. \<lparr>th_id = i, th_task = k, th_user = Some (u_id u), th_action = action, th_field = field, th_old = old,
           th_new = new\<rparr>) (cr_history s)\<rparr>)"

definition entry_fits :: "history_entry \<Rightarrow> bool" where
  "entry_fits e = (case e of (_, _, old, new) \<Rightarrow> history_value_fits old \<and> history_value_fits new)"

definition write_history :: "user \<Rightarrow> nat \<Rightarrow> history_entry list \<Rightarrow> crm_state \<Rightarrow> api_error + crm_state" where
  "write_history u k es s = guarded (require (list_all entry_fits es) ServerError) (fold (add_history u k) es s)"

text \<open>\<open>partial\<close> distinguishes PATCH from PUT.\<close>

definition update_task ::
  "int \<Rightarrow> datetime \<Rightarrow> string \<Rightarrow> user \<Rightarrow> bool \<Rightarrow> nat \<Rightarrow> task_request \<Rightarrow> crm_state \<Rightarrow> api_error + crm_state" where
  "update_task off now done u partial k rq s =
     (case crm_permission u of
        Some e \<Rightarrow> Inl e
      | None \<Rightarrow> (case get_task s u True k of
          Inl e \<Rightarrow> Inl e
        | Inr old \<Rightarrow> (case validate_task s u partial (Some old) rq of
            Some e \<Rightarrow> Inl e
          | None \<Rightarrow>
            (let new = patched_task rq old;
                 s1 = s\<lparr>cr_tasks := tbl_save tk_id new (cr_tasks s)\<rparr>;
                 nt = (case tk_assignee new of
                     Some a \<Rightarrow> if tk_assignee new \<noteq> tk_assignee old then notify_assignee now u a new (cr_nt s1) else cr_nt s1
                   | None \<Rightarrow> cr_nt s1);
                 date_changed = (tq_deadline rq \<noteq> None \<and> deadline_str (tk_deadline old) \<noteq> deadline_str (tk_deadline new))
             in case write_history u k (history_entries s rq old new) s1 of
                  Inl e \<Rightarrow> Inl e
                | Inr s2 \<Rightarrow> Inr (s2\<lparr>cr_nt := maybe_notify_deadline_tomorrow_once off now done False date_changed s2 new nt\<rparr>)))))"

section \<open>Delete, move, archive\<close>

definition task_delete :: "datetime \<Rightarrow> task \<Rightarrow> task" where
  "task_delete now t = t\<lparr>tk_is_deleted := True, tk_deleted_at := Some now\<rparr>"

definition save_task :: "task \<Rightarrow> crm_state \<Rightarrow> crm_state" where
  "save_task t s = s\<lparr>cr_tasks := tbl_save tk_id t (cr_tasks s)\<rparr>"

definition destroy_task :: "datetime \<Rightarrow> user \<Rightarrow> nat \<Rightarrow> crm_state \<Rightarrow> api_error + crm_state" where
  "destroy_task now u k s =
     (case crm_permission u of
        Some e \<Rightarrow> Inl e
      | None \<Rightarrow> (case get_task s u False k of
          Inl e \<Rightarrow> Inl e
        | Inr t \<Rightarrow> Inr (normalize_positions (tk_column t) (save_task (task_delete now t) s))))"

definition last_task_position :: "crm_state \<Rightarrow> nat \<Rightarrow> nat \<Rightarrow> int" where
  "last_task_position s c k =
     (case map tk_position (tbl_filter (\<lambda>t. live_in c t \<and> tk_id t \<noteq> k) (cr_tasks s)) of
        [] \<Rightarrow> 0 | ps \<Rightarrow> fold max ps 0)"

definition move_recipients :: "user \<Rightarrow> task \<Rightarrow> nat list" where
  "move_recipients u t = remdups
     (filter (\<lambda>a. a \<noteq> u_id u) ((case tk_assignee t of None \<Rightarrow> [] | Some a \<Rightarrow> [a])
        @ (case tk_created_by t of None \<Rightarrow> [] | Some a \<Rightarrow> [a])))"

definition notify_moved :: "datetime \<Rightarrow> user \<Rightarrow> string \<Rightarrow> string \<Rightarrow> task \<Rightarrow> nt_state \<Rightarrow> nt_state" where
  "notify_moved now u from_name to_name t nt = fold (\<lambda>a. create_notification now a Task_moved
     (Fmt ''task_moved'' []) (Fmt ''task_moved'' [Str (tk_title t), Str from_name, Str to_name])
     (Some (task_link (tk_id t)))) (move_recipients u t) nt"

definition move_error :: "crm_state \<Rightarrow> user \<Rightarrow> task \<Rightarrow> kcolumn \<Rightarrow> api_error option" where
  "move_error s u t c = first_err
     [require (map_option cl_board (column_of s (tk_column t)) = Some (cl_board c))
        (raise_validation_error ''column_id'' ''crm.column_wrong_task_board''),
      require (u_role u = Superadmin \<or> map_option bo_company (board_of s (cl_board c)) = u_company u)
        (raise_validation_error ''column_id'' ''crm.column_wrong_company''),
      check_wip_limit s c 1 (Some (tk_id t))]"

definition move_task ::
  "datetime \<Rightarrow> user \<Rightarrow> nat \<Rightarrow> nat \<Rightarrow> int option \<Rightarrow> crm_state \<Rightarrow> api_error + crm_state" where
  "move_task now u k c order s =
     (case crm_permission u of
        Some e \<Rightarrow> Inl e
      | None \<Rightarrow> (case get_task s u False k of
          Inl e \<Rightarrow> Inl e
        | Inr t \<Rightarrow> (case column_of s c of
            None \<Rightarrow> Inl (raise_validation_error ''column_id'' ''does_not_exist'')
          | Some target \<Rightarrow>
            (case first_err [require (case order of None \<Rightarrow> True | Some p \<Rightarrow> 1 \<le> p)
                               (raise_validation_error ''order'' ''min_value''), move_error s u t target] of
               Some e \<Rightarrow> Inl e
             | None \<Rightarrow>
               (let position = (case order of Some p \<Rightarrow> p | None \<Rightarrow> last_task_position s c k + 1);
                    t1 = t\<lparr>tk_column := c, tk_position := position\<rparr>;
                    s1 = normalize_positions c (normalize_positions (tk_column t) (save_task t1 s));
                    from_name = column_name s (tk_column t)
                in case write_history u k [(''moved'', [], Str from_name, Str (cl_name target))] s1 of
                     Inl e \<Rightarrow> Inl e
                   | Inr s2 \<Rightarrow> Inr (if tk_column t \<noteq> c
                       then s2\<lparr>cr_nt := notify_moved now u from_name (cl_name target) t1 (cr_nt s2)\<rparr>
                       else s2))))))"

definition archive_task :: "datetime \<Rightarrow> user \<Rightarrow> nat \<Rightarrow> crm_state \<Rightarrow> api_error + crm_state" where
  "archive_task now u k s =
     (case crm_permission u of
        Some e \<Rightarrow> Inl e
      | None \<Rightarrow> (case get_task s u False k of
          Inl e \<Rightarrow> Inl e
        | Inr t \<Rightarrow> write_history u k [(''archived'', [], Str ''False'', Str ''True'')]
            (normalize_positions (tk_column t) (save_task ((task_delete now t)\<lparr>tk_is_archived := True\<rparr>) s))))"

definition unarchive_task :: "user \<Rightarrow> nat \<Rightarrow> crm_state \<Rightarrow> api_error + crm_state" where
  "unarchive_task u k s =
     (case crm_permission u of
        Some e \<Rightarrow> Inl e
      | None \<Rightarrow> (case get_task s u True k of
          Inl e \<Rightarrow> Inl e
        | Inr t \<Rightarrow>
          (if \<not> tk_is_archived t then Inl (raise_validation_error ''detail'' ''crm.task_not_archived'')
           else (case column_of s (tk_column t) of
               None \<Rightarrow> Inl ServerError
             | Some c \<Rightarrow> (case check_wip_limit s c 1 (Some k) of
                 Some e \<Rightarrow> Inl e
               | None \<Rightarrow> write_history u k [(''unarchived'', [], Str ''True'', Str ''False'')]
                   (normalize_positions (tk_column t)
                     (save_task (t\<lparr>tk_is_deleted := False, tk_deleted_at := None, tk_is_archived := False\<rparr>) s)))))))"

section \<open>Labels\<close>

text \<open>\<open>company_param\<close> is the query parameter a superadmin names the company with.\<close>

definition duplicate_label :: "crm_state \<Rightarrow> user \<Rightarrow> nat option \<Rightarrow> nat option \<Rightarrow> string \<Rightarrow> bool" where
  "duplicate_label s u company_param inst name =
     (case (if u_role u = Superadmin then company_param else u_company u) of
        None \<Rightarrow> False
      | Some c \<Rightarrow> list_ex (\<lambda>l. lb_company l = c \<and> lower (lb_name l) = lower name \<and> Some (lb_label_id l) \<noteq> inst)
          (rows (cr_labels s)))"

definition is_hex :: "char \<Rightarrow> bool" where
  "is_hex c = (let n = (of_char c :: nat) in
     (48 \<le> n \<and> n \<le> 57) \<or> (65 \<le> n \<and> n \<le> 70) \<or> (97 \<le> n \<and> n \<le> 102))"

text \<open>\<open>re.match\<close> with a final \<open>$\<close> lets a trailing newline through, but seven characters are the maximum.\<close>

definition valid_color :: "string \<Rightarrow> bool" where
  "valid_color x \<longleftrightarrow> length x = 7 \<and> x ! 0 = CHR ''#'' \<and> list_all is_hex (tl x)"

definition same_label :: "crm_state \<Rightarrow> nat \<Rightarrow> nat option \<Rightarrow> string \<Rightarrow> bool" where
  "same_label s c inst name \<longleftrightarrow>
     list_ex (\<lambda>l. lb_company l = c \<and> lb_name l = name \<and> Some (lb_label_id l) \<noteq> inst) (rows (cr_labels s))"

text \<open>\<open>same_label\<close> is the unique constraint of the table.\<close>

definition create_label ::
  "user \<Rightarrow> nat option \<Rightarrow> string \<Rightarrow> string option \<Rightarrow> crm_state \<Rightarrow> api_error + crm_state" where
  "create_label u company_param name color s =
     (case crm_permission u of
        Some e \<Rightarrow> Inl e
      | None \<Rightarrow> (case first_err
          [require (case color of None \<Rightarrow> True | Some x \<Rightarrow> valid_color x)
             (raise_validation_error ''color'' ''crm.label_color_invalid''),
           require (\<not> duplicate_label s u company_param None name)
             (raise_validation_error ''name'' ''crm.label_name_duplicate'')] of
          Some e \<Rightarrow> Inl e
        | None \<Rightarrow> (case (if u_role u = Superadmin then company_param else u_company u) of
            None \<Rightarrow> Inl (raise_validation_error ''company_id'' ''required'')
          | Some c \<Rightarrow>
            (if u_role u = Superadmin \<and> get_company (cr_acc s) c = None
               then Inl (raise_validation_error ''company_id'' ''not_found'')
             else guarded (require (\<not> same_label s c None name) ServerError)
               (s\<lparr>cr_labels := tbl_insert (\<lambda>i. \<lparr>lb_label_id = i, lb_company = c, lb_name = name,
                   lb_color = (case color of None \<Rightarrow> ''#6366f1'' | Some x \<Rightarrow> lower x)\<rparr>) (cr_labels s)\<rparr>)))))"

definition label_permission :: "user \<Rightarrow> api_error option" where
  "label_permission u = first_err [IsCompanyAdmin (Some u), IsEmailVerifiedOrSuperAdmin (Some u)]"

definition get_label :: "crm_state \<Rightarrow> user \<Rightarrow> nat \<Rightarrow> label option" where
  "get_label s u k = find (\<lambda>l. lb_label_id l = k) (company_isolation (\<lambda>l. Some (lb_company l)) u (rows (cr_labels s)))"

definition update_label ::
  "user \<Rightarrow> nat option \<Rightarrow> nat \<Rightarrow> string option \<Rightarrow> string option \<Rightarrow> crm_state \<Rightarrow> api_error + crm_state" where
  "update_label u company_param k name color s =
     (case label_permission u of
        Some e \<Rightarrow> Inl e
      | None \<Rightarrow> (case get_label s u k of
          None \<Rightarrow> Inl NotFound
        | Some l \<Rightarrow>
          (let name' = (case name of None \<Rightarrow> lb_name l | Some x \<Rightarrow> x)
           in guarded (first_err
             [require (case color of None \<Rightarrow> True | Some x \<Rightarrow> valid_color x)
                (raise_validation_error ''color'' ''crm.label_color_invalid''),
              require (\<not> duplicate_label s u company_param (Some k) name')
                (raise_validation_error ''name'' ''crm.label_name_duplicate''),
              require (\<not> same_label s (lb_company l) (Some k) name') ServerError])
             (s\<lparr>cr_labels := tbl_save lb_label_id (l\<lparr>lb_name := name',
                 lb_color := (case color of None \<Rightarrow> lb_color l | Some x \<Rightarrow> lower x)\<rparr>) (cr_labels s)\<rparr>))))"

definition destroy_label :: "user \<Rightarrow> nat \<Rightarrow> crm_state \<Rightarrow> api_error + crm_state" where
  "destroy_label u k s =
     (case label_permission u of
        Some e \<Rightarrow> Inl e
      | None \<Rightarrow> (case get_label s u k of
          None \<Rightarrow> Inl NotFound
        | Some l \<Rightarrow> Inr (s\<lparr>cr_labels := tbl_delete (\<lambda>x. lb_label_id x = k) (cr_labels s),
              cr_tasks := tbl_update (\<lambda>t. k \<in> set (tk_labels t))
                (\<lambda>t. t\<lparr>tk_labels := filter (\<lambda>x. x \<noteq> k) (tk_labels t)\<rparr>) (cr_tasks s)\<rparr>)))"

interpretation labels: repository lb_label_id "tbl_get lb_label_id" "tbl_save lb_label_id" tbl_insert
    "tbl_remove lb_label_id" next_id "tbl_wf lb_label_id"
  by (rule tbl_repository)

end
