(* ===== verification/CrmInv.thy ===== *)
theory CrmInv
  imports Tasks
begin

text \<open>
  The invariant of the board component: keys are unique, columns and tasks hang on existing rows, and
  no column holds more active tasks than its WIP limit. Every operation keeps it.
\<close>

section \<open>Counting active tasks\<close>

definition wip_count :: "task table \<Rightarrow> nat \<Rightarrow> int" where
  "wip_count T c = int (length (filter (active_in c) (rows T)))"

definition wip_except :: "task table \<Rightarrow> nat \<Rightarrow> nat \<Rightarrow> int" where
  "wip_except T c k = int (length (filter (\<lambda>t. active_in c t \<and> tk_id t \<noteq> k) (rows T)))"

lemma wip_count_update:
  "(\<And>t. P t \<Longrightarrow> active_in c (f t) = active_in c t) \<Longrightarrow> wip_count (tbl_update P f T) c = wip_count T c"
proof -
  assume f: "\<And>t. P t \<Longrightarrow> active_in c (f t) = active_in c t"
  have "length (filter (active_in c) (map (\<lambda>t. if P t then f t else t) xs)) = length (filter (active_in c) xs)" for xs
    using f by (induction xs) auto
  then show ?thesis by (simp add: wip_count_def)
qed

lemma wip_count_insert:
  "wip_count (tbl_insert mk T) c = wip_count T c + (if active_in c (mk (next_id T)) then 1 else 0)"
  by (simp add: wip_count_def)

lemma wip_count_delete: "wip_count (tbl_delete P T) c \<le> wip_count T c"
  by (simp add: wip_count_def filter_filter) (simp add: length_filter_conv_card, rule card_mono, auto)

lemma wip_except_le: "wip_except T c k \<le> wip_count T c"
  by (simp add: wip_except_def wip_count_def length_filter_conv_card, rule card_mono, auto)

lemma wip_count_save:
  assumes "tbl_wf tk_id T" "tbl_get tk_id (tk_id t) T = Some old"
  shows "wip_count (tbl_save tk_id t T) c = wip_except T c (tk_id t) + (if active_in c t then 1 else 0)"
proof -
  have "distinct (map tk_id xs) \<Longrightarrow> old \<in> set xs \<Longrightarrow> tk_id old = tk_id t \<Longrightarrow>
    length (filter (active_in c) (map (\<lambda>x. if tk_id x = tk_id t then t else x) xs))
    = length (filter (\<lambda>x. active_in c x \<and> tk_id x \<noteq> tk_id t) xs) + (if active_in c t then 1 else 0)" for xs
  proof (induction xs)
    case (Cons x xs)
    show ?case
    proof (cases "tk_id x = tk_id t")
      case True
      then have "tk_id y \<noteq> tk_id t" if "y \<in> set xs" for y
        using Cons.prems(1) that by (metis True distinct.simps(2) image_eqI list.set_map list.simps(9))
      then have "map (\<lambda>x. if tk_id x = tk_id t then t else x) xs = xs"
        "filter (\<lambda>x. active_in c x \<and> tk_id x \<noteq> tk_id t) xs = filter (active_in c) xs"
        by (simp_all add: map_idI cong: filter_cong)
      with True show ?thesis by simp
    qed (use Cons in auto)
  qed simp
  then show ?thesis
    using assms tbl_get_SomeD[OF assms(2)]
    by (simp add: wip_count_def wip_except_def tbl_save_def tbl_wf_def)
qed

lemma active_save_bound:
  assumes "tbl_wf tk_id T" "tbl_get tk_id (tk_id t) T = Some old"
    and "active_in c t \<Longrightarrow> active_in c old \<or> wip_except T c (tk_id t) + 1 \<le> n" "wip_count T c \<le> n"
  shows "wip_count (tbl_save tk_id t T) c \<le> n"
proof (cases "active_in c t \<and> active_in c old")
  case True
  have "wip_count (tbl_save tk_id old T) c = wip_except T c (tk_id t) + 1"
    using wip_count_save[OF assms(1), of old] assms(2) True tbl_get_SomeD[OF assms(2)] by simp
  moreover have "tbl_save tk_id old T = T"
  proof -
    have "x = old" if "x \<in> set (rows T)" "tk_id x = tk_id old" for x
      using assms(1) that tbl_get_SomeD[OF assms(2)] by (auto simp: tbl_wf_def distinct_map inj_on_def)
    then have "map (\<lambda>x. if tk_id x = tk_id old then old else x) (rows T) = rows T"
      by (intro map_idI) auto
    then show ?thesis by (cases T) (simp add: tbl_save_def tbl_update_def)
  qed
  ultimately show ?thesis using wip_count_save[OF assms(1,2), of c] True assms(4) by simp
next
  case False
  then show ?thesis
    using wip_count_save[OF assms(1,2), of c] wip_except_le[of T c "tk_id t"] assms(3,4) by auto
qed

lemma check_wip_limit_ok:
  "check_wip_limit s c n None = None \<longleftrightarrow>
     cl_wip_limit c = 0 \<or> wip_count (cr_tasks s) (cl_id c) + n \<le> cl_wip_limit c"
  "check_wip_limit s c n (Some k) = None \<longleftrightarrow>
     cl_wip_limit c = 0 \<or> wip_except (cr_tasks s) (cl_id c) k + n \<le> cl_wip_limit c"
  by (auto simp: check_wip_limit_def wip_count_def wip_except_def tbl_filter_def Let_def not_less)

section \<open>The invariant\<close>

definition wip_ok :: "kcolumn table \<Rightarrow> task table \<Rightarrow> bool" where
  "wip_ok C T \<longleftrightarrow> (\<forall>c \<in> set (rows C). cl_wip_limit c = 0 \<or> wip_count T (cl_id c) \<le> cl_wip_limit c)"

definition crm_inv :: "crm_state \<Rightarrow> bool" where
  "crm_inv s \<longleftrightarrow> tbl_wf bo_id (cr_boards s) \<and> tbl_wf cl_id (cr_columns s) \<and> tbl_wf tk_id (cr_tasks s)
     \<and> (\<forall>c \<in> set (rows (cr_columns s)). cl_board c \<in> bo_id ` set (rows (cr_boards s)))
     \<and> (\<forall>t \<in> set (rows (cr_tasks s)). tk_column t \<in> cl_id ` set (rows (cr_columns s)))
     \<and> wip_ok (cr_columns s) (cr_tasks s)"

lemma crm_invI:
  assumes "tbl_wf bo_id (cr_boards s)" "tbl_wf cl_id (cr_columns s)" "tbl_wf tk_id (cr_tasks s)"
    "\<And>c. c \<in> set (rows (cr_columns s)) \<Longrightarrow> cl_board c \<in> bo_id ` set (rows (cr_boards s))"
    "\<And>t. t \<in> set (rows (cr_tasks s)) \<Longrightarrow> tk_column t \<in> cl_id ` set (rows (cr_columns s))"
    "wip_ok (cr_columns s) (cr_tasks s)"
  shows "crm_inv s"
  using assms by (auto simp: crm_inv_def)

lemma crm_inv_frame [simp]:
  "crm_inv (s\<lparr>cr_nt := x\<rparr>) = crm_inv s" "crm_inv (s\<lparr>cr_history := h\<rparr>) = crm_inv s"
  "crm_inv (s\<lparr>cr_labels := l\<rparr>) = crm_inv s"
  by (simp_all add: crm_inv_def)

lemma column_of_SomeD: "column_of s c = Some x \<Longrightarrow> x \<in> set (rows (cr_columns s)) \<and> cl_id x = c"
  by (auto simp: column_of_def dest: tbl_get_SomeD)

lemma column_of_row: "crm_inv s \<Longrightarrow> x \<in> set (rows (cr_columns s)) \<Longrightarrow> column_of s (cl_id x) = Some x"
  by (auto simp: crm_inv_def column_of_def tbl_get_row)

lemma board_of_SomeD: "board_of s c = Some x \<Longrightarrow> x \<in> set (rows (cr_boards s)) \<and> bo_id x = c"
  by (auto simp: board_of_def dest: tbl_get_SomeD)

lemma board_of_row: "crm_inv s \<Longrightarrow> x \<in> set (rows (cr_boards s)) \<Longrightarrow> board_of s (bo_id x) = Some x"
  by (auto simp: crm_inv_def board_of_def tbl_get_row)

lemma get_task_SomeD:
  "get_task s u a k = Inr t \<Longrightarrow> tbl_get tk_id k (cr_tasks s) = Some t \<and> tk_id t = k \<and> t \<in> set (rows (cr_tasks s))
     \<and> task_visible s u a t"
  by (auto simp: get_task_def split: option.splits if_splits dest: tbl_get_SomeD)

subsection \<open>Building blocks\<close>

lemma update_tasks_inv:
  assumes "crm_inv s" "\<And>t. P t \<Longrightarrow> tk_id (f t) = tk_id t \<and> tk_column (f t) = tk_column t
     \<and> tk_is_archived (f t) = tk_is_archived t \<and> tk_is_deleted (f t) = tk_is_deleted t"
  shows "crm_inv (s\<lparr>cr_tasks := tbl_update P f (cr_tasks s)\<rparr>)"
proof -
  have "wip_count (tbl_update P f (cr_tasks s)) c = wip_count (cr_tasks s) c" for c
    using assms(2) by (intro wip_count_update) (simp add: active_in_def)
  then show ?thesis
    using assms by (intro crm_invI) (auto simp: crm_inv_def wip_ok_def intro!: tbl_wf_update)
qed

lemma normalize_positions_inv: "crm_inv s \<Longrightarrow> crm_inv (normalize_positions c s)"
  unfolding normalize_positions_def by (rule update_tasks_inv) auto

lemma save_task_inv:
  assumes inv: "crm_inv s" and old: "tbl_get tk_id (tk_id t) (cr_tasks s) = Some old"
    and col: "tk_column t \<in> cl_id ` set (rows (cr_columns s))"
    and wip: "\<And>c. column_of s (tk_column t) = Some c \<Longrightarrow> active_in (tk_column t) t \<Longrightarrow>
      active_in (tk_column t) old \<or> check_wip_limit s c 1 (Some (tk_id t)) = None"
  shows "crm_inv (s\<lparr>cr_tasks := tbl_save tk_id t (cr_tasks s)\<rparr>)"
proof (rule crm_invI; simp)
  have wf: "tbl_wf tk_id (cr_tasks s)" using inv by (simp add: crm_inv_def)
  show "wip_ok (cr_columns s) (tbl_save tk_id t (cr_tasks s))"
    unfolding wip_ok_def
  proof (intro ballI)
    fix c assume c: "c \<in> set (rows (cr_columns s))"
    show "cl_wip_limit c = 0 \<or> wip_count (tbl_save tk_id t (cr_tasks s)) (cl_id c) \<le> cl_wip_limit c"
    proof (cases "cl_wip_limit c = 0")
      case False
      have "wip_count (cr_tasks s) (cl_id c) \<le> cl_wip_limit c"
        using inv c False by (auto simp: crm_inv_def wip_ok_def)
      moreover have "active_in (cl_id c) t \<Longrightarrow> active_in (cl_id c) old \<or>
          wip_except (cr_tasks s) (cl_id c) (tk_id t) + 1 \<le> cl_wip_limit c"
        using wip[of c] column_of_row[OF inv c] False by (auto simp: active_in_def check_wip_limit_ok)
      ultimately show ?thesis using active_save_bound[OF wf old] by blast
    qed simp
  qed
  show "tk_column x \<in> cl_id ` set (rows (cr_columns s))" if "x \<in> set (rows (tbl_save tk_id t (cr_tasks s)))" for x
    using that inv col by (auto simp: tbl_save_def crm_inv_def split: if_splits)
qed (use inv in \<open>auto simp: crm_inv_def tbl_wf_save\<close>)

lemma delete_columns_simps [simp]:
  "cr_boards (delete_columns P s) = cr_boards s"
  "cr_columns (delete_columns P s) = tbl_delete P (cr_columns s)"
  "cr_labels (delete_columns P s) = cr_labels s"
  by (simp_all add: delete_columns_def Let_def)

lemma delete_columns_tasks:
  "cr_tasks (delete_columns P s) =
     tbl_delete (\<lambda>t. \<exists>c \<in> set (rows (cr_columns s)). P c \<and> tk_column t = cl_id c) (cr_tasks s)"
  proof -
  have eq: "(\<lambda>t. tk_column t \<in> set (map cl_id (tbl_filter P (cr_columns s)))) =
      (\<lambda>t. \<exists>c \<in> set (rows (cr_columns s)). P c \<and> tk_column t = cl_id c)"
    by (intro ext) (auto simp: image_iff)
  have tasks: "cr_tasks (delete_columns P s) =
      tbl_delete (\<lambda>t. tk_column t \<in> set (map cl_id (tbl_filter P (cr_columns s)))) (cr_tasks s)"
    by (simp add: delete_columns_def Let_def)
  show ?thesis unfolding tasks eq ..
qed

lemma delete_columns_inv: "crm_inv s \<Longrightarrow> crm_inv (delete_columns P s)"
proof -
  assume inv: "crm_inv s"
  have wip: "wip_ok (tbl_delete P (cr_columns s)) (tbl_delete Q (cr_tasks s))" for Q
    unfolding wip_ok_def
  proof (intro ballI)
    fix c assume "c \<in> set (rows (tbl_delete P (cr_columns s)))"
    then have "cl_wip_limit c = 0 \<or> wip_count (cr_tasks s) (cl_id c) \<le> cl_wip_limit c"
      using inv by (auto simp: crm_inv_def wip_ok_def)
    then show "cl_wip_limit c = 0 \<or> wip_count (tbl_delete Q (cr_tasks s)) (cl_id c) \<le> cl_wip_limit c"
      using wip_count_delete[of Q "cr_tasks s" "cl_id c"] by linarith
  qed
  have fk: "\<forall>t \<in> set (rows (cr_tasks s)). tk_column t \<in> cl_id ` set (rows (cr_columns s))"
    using inv by (simp add: crm_inv_def)
  have kept: "tk_column t \<in> cl_id ` {c \<in> set (rows (cr_columns s)). \<not> P c}"
    if mem: "t \<in> set (rows (cr_tasks s))"
      and free: "\<forall>c \<in> set (rows (cr_columns s)). P c \<longrightarrow> tk_column t \<noteq> cl_id c" for t
  proof -
    obtain c where c: "tk_column t = cl_id c" "c \<in> set (rows (cr_columns s))"
      using bspec[OF fk mem] by (rule imageE)
    then have "\<not> P c" using free by blast
    with c show ?thesis by (intro image_eqI[where x = c]) simp_all
  qed
  show ?thesis
  proof (rule crm_invI)
    show "cl_board c \<in> bo_id ` set (rows (cr_boards (delete_columns P s)))"
      if "c \<in> set (rows (cr_columns (delete_columns P s)))" for c
      using inv that by (simp add: crm_inv_def)
    show "tk_column t \<in> cl_id ` set (rows (cr_columns (delete_columns P s)))"
      if "t \<in> set (rows (cr_tasks (delete_columns P s)))" for t
      using kept[of t] that by (simp add: delete_columns_tasks)
  qed (use inv in \<open>simp_all add: delete_columns_tasks wip tbl_wf_delete crm_inv_def\<close>)
qed

lemma column_rows_inv:
  assumes inv: "crm_inv s" and wf: "tbl_wf cl_id C"
    and ids: "cl_id ` set (rows C) \<supseteq> cl_id ` set (rows (cr_columns s))"
    and boards: "\<And>c. c \<in> set (rows C) \<Longrightarrow> cl_board c \<in> bo_id ` set (rows (cr_boards s))"
    and wip: "wip_ok C (cr_tasks s)"
  shows "crm_inv (s\<lparr>cr_columns := C\<rparr>)"
  using inv wf boards wip subsetD[OF ids] by (intro crm_invI) (simp_all add: crm_inv_def)

lemma update_columns_inv:
  assumes inv: "crm_inv s" and f: "\<And>c. P c \<Longrightarrow> cl_id (f c) = cl_id c \<and> cl_board (f c) = cl_board c
     \<and> cl_wip_limit (f c) = cl_wip_limit c"
  shows "crm_inv (s\<lparr>cr_columns := tbl_update P f (cr_columns s)\<rparr>)"
proof (rule column_rows_inv[OF inv])
  show "tbl_wf cl_id (tbl_update P f (cr_columns s))"
    using inv f by (auto simp: crm_inv_def intro!: tbl_wf_update)
  show "cl_id ` set (rows (cr_columns s)) \<subseteq> cl_id ` set (rows (tbl_update P f (cr_columns s)))"
    using f image_update[of P cl_id f "cr_columns s"] by simp
  show "cl_board c \<in> bo_id ` set (rows (cr_boards s))" if row: "c \<in> set (rows (tbl_update P f (cr_columns s)))" for c
  proof -
    obtain c0 where "c0 \<in> set (rows (cr_columns s))" "cl_board c = cl_board c0"
      using row f by (auto split: if_splits)
    then show ?thesis using inv by (simp add: crm_inv_def)
  qed
  show "wip_ok (tbl_update P f (cr_columns s)) (cr_tasks s)"
    unfolding wip_ok_def
  proof (intro ballI)
    fix c assume "c \<in> set (rows (tbl_update P f (cr_columns s)))"
    then obtain c0 where "c0 \<in> set (rows (cr_columns s))" "cl_id c = cl_id c0" "cl_wip_limit c = cl_wip_limit c0"
      using f by (auto split: if_splits)
    then show "cl_wip_limit c = 0 \<or> wip_count (cr_tasks s) (cl_id c) \<le> cl_wip_limit c"
      using inv by (simp add: crm_inv_def wip_ok_def)
  qed
qed

lemma insert_column_inv:
  assumes inv: "crm_inv s" and mk: "\<And>i. cl_id (mk i) = i"
    and board: "cl_board (mk (next_id (cr_columns s))) \<in> bo_id ` set (rows (cr_boards s))"
    and wip: "cl_wip_limit (mk (next_id (cr_columns s))) \<ge> 0"
  shows "crm_inv (s\<lparr>cr_columns := tbl_insert mk (cr_columns s)\<rparr>)"
proof (rule column_rows_inv[OF inv])
  have "wip_count (cr_tasks s) (next_id (cr_columns s)) = 0"
  proof -
    have "tk_column t \<noteq> next_id (cr_columns s)" if "t \<in> set (rows (cr_tasks s))" for t
      using inv that by (fastforce simp: crm_inv_def tbl_wf_def list_all_iff)
    then show ?thesis by (auto simp: wip_count_def filter_empty_conv active_in_def)
  qed
  then show "wip_ok (tbl_insert mk (cr_columns s)) (cr_tasks s)"
    using inv wip by (auto simp: wip_ok_def crm_inv_def mk)
qed (use inv mk board in \<open>auto simp: crm_inv_def intro!: tbl_wf_insert\<close>)

lemma save_column_inv:
  assumes inv: "crm_inv s" and old: "tbl_get cl_id (cl_id c) (cr_columns s) = Some c0"
    and board: "cl_board c = cl_board c0"
    and wip: "cl_wip_limit c = 0 \<or> wip_count (cr_tasks s) (cl_id c) \<le> cl_wip_limit c"
  shows "crm_inv (s\<lparr>cr_columns := tbl_save cl_id c (cr_columns s)\<rparr>)"
proof (rule column_rows_inv[OF inv])
  have row: "c0 \<in> set (rows (cr_columns s))" "cl_id c0 = cl_id c" using tbl_get_SomeD[OF old] by auto
  show "tbl_wf cl_id (tbl_save cl_id c (cr_columns s))" using inv by (simp add: crm_inv_def tbl_wf_save)
  show "cl_id ` set (rows (cr_columns s)) \<subseteq> cl_id ` set (rows (tbl_save cl_id c (cr_columns s)))"
    using image_update[of "\<lambda>x. cl_id x = cl_id c" cl_id "\<lambda>_. c" "cr_columns s"] by (simp add: tbl_save_def)
  show "cl_board x \<in> bo_id ` set (rows (cr_boards s))" if "x \<in> set (rows (tbl_save cl_id c (cr_columns s)))" for x
    using that inv row board by (auto simp: tbl_save_def crm_inv_def split: if_splits)
  show "wip_ok (tbl_save cl_id c (cr_columns s)) (cr_tasks s)"
    using inv wip by (auto simp: tbl_save_def wip_ok_def crm_inv_def split: if_splits)
qed

lemma board_rows_inv:
  assumes inv: "crm_inv s" and wf: "tbl_wf bo_id B" and ids: "bo_id ` set (rows (cr_boards s)) \<subseteq> bo_id ` set (rows B)"
  shows "crm_inv (s\<lparr>cr_boards := B\<rparr>)"
  using inv wf subsetD[OF ids] by (intro crm_invI) (simp_all add: crm_inv_def)

lemma save_board_inv: "crm_inv s \<Longrightarrow> crm_inv (s\<lparr>cr_boards := tbl_save bo_id b (cr_boards s)\<rparr>)"
  by (rule board_rows_inv) (simp_all add: save_ids crm_inv_def tbl_wf_save)

section \<open>Every operation keeps the invariant\<close>

subsection \<open>Boards\<close>

lemma add_template_column_inv:
  assumes "crm_inv s \<and> b \<in> bo_id ` set (rows (cr_boards s))"
  shows "crm_inv (add_template_column b ik s) \<and> b \<in> bo_id ` set (rows (cr_boards (add_template_column b ik s)))"
proof -
  obtain i key where ik: "ik = (i, key)" by (cases ik)
  show ?thesis
    unfolding ik add_template_column_def prod.case
    using assms by (auto intro!: insert_column_inv)
qed

lemma create_board_inv:
  assumes inv: "crm_inv s" and ok: "create_board now u rq s = Inr s'"
  shows "crm_inv s'"
proof -
  obtain co name where c: "crm_permission u = None" "company_of (cr_acc s) u = Some co" "bq_name rq = Some name"
    "\<not> co_max_boards co \<le> board_count s (co_id co)"
    using ok by (auto simp: create_board_def split: option.splits if_splits)
  have s': "s' = (fold (add_template_column (next_id (cr_boards s)))
         (enumerate 0 (template_columns (bq_template_id rq)))
         (s\<lparr>cr_boards := tbl_insert (new_board u (co_id co) name rq) (cr_boards s)\<rparr>))\<lparr>cr_nt := cr_nt s'\<rparr>"
    using ok c by (auto simp: create_board_def Let_def)
  let ?s1 = "s\<lparr>cr_boards := tbl_insert (new_board u (co_id co) name rq) (cr_boards s)\<rparr>"
  have mk: "\<And>i. bo_id (new_board u (co_id co) name rq i) = i" by (simp add: new_board_def)
  have "crm_inv ?s1"
    by (rule board_rows_inv[OF inv]) (use inv mk in \<open>auto simp: crm_inv_def intro!: tbl_wf_insert\<close>)
  then have "crm_inv ?s1 \<and> next_id (cr_boards s) \<in> bo_id ` set (rows (cr_boards ?s1))"
    using mk by auto
  then have "crm_inv (fold (add_template_column (next_id (cr_boards s))) (enumerate 0 (template_columns (bq_template_id rq))) ?s1)"
    using fold_inv[of "\<lambda>s'. crm_inv s' \<and> next_id (cr_boards s) \<in> bo_id ` set (rows (cr_boards s'))" ?s1
        "add_template_column (next_id (cr_boards s))"] add_template_column_inv by blast
  then show ?thesis using s' by (metis crm_inv_frame(1))
qed

lemma destroy_board_inv:
  assumes inv: "crm_inv s" and ok: "destroy_board u ia k s = Inr s'"
  shows "crm_inv s'"
proof -
  let ?s1 = "delete_columns (\<lambda>c. cl_board c = k) s"
  have s': "s' = ?s1\<lparr>cr_boards := tbl_delete (\<lambda>b. bo_id b = k) (cr_boards ?s1)\<rparr>"
    using ok by (auto simp: destroy_board_def Let_def split: option.splits sum.splits)
  have inv1: "crm_inv ?s1" by (rule delete_columns_inv[OF inv])
  have "cl_board c \<in> bo_id ` set (rows (tbl_delete (\<lambda>b. bo_id b = k) (cr_boards s)))"
    if col: "c \<in> set (rows (cr_columns s))" "cl_board c \<noteq> k" for c
  proof -
    have "\<forall>c \<in> set (rows (cr_columns s)). cl_board c \<in> bo_id ` set (rows (cr_boards s))"
      using inv by (simp add: crm_inv_def)
    then obtain b where "b \<in> set (rows (cr_boards s))" "cl_board c = bo_id b" using col(1) by blast
    then show ?thesis using col(2) by auto
  qed
  then show ?thesis
    using inv1 unfolding s' by (intro crm_invI) (simp_all add: crm_inv_def tbl_wf_delete)
qed

lemma board_ops_inv:
  assumes "crm_inv s"
  shows "patch_board u ia k rq s = Inr s' \<Longrightarrow> crm_inv s'" "archive_board u k s = Inr s' \<Longrightarrow> crm_inv s'"
    "unarchive_board u k s = Inr s' \<Longrightarrow> crm_inv s'"
  using assms by (auto simp: patch_board_def archive_board_def unarchive_board_def save_board_inv
      split: option.splits sum.splits if_splits)

subsection \<open>Columns\<close>

lemma get_board_or_403_SomeD:
  "get_board_or_403 s u b = Inr bo \<Longrightarrow> board_of s b = Some bo \<and> bo \<in> set (rows (cr_boards s)) \<and> bo_id bo = b
     \<and> (u_role u = Superadmin \<or> u_company u = Some (bo_company bo))"
  by (auto simp: get_board_or_403_def split: option.splits if_splits dest: board_of_SomeD)

lemma set_board_columns: "set (board_columns s b) = {c \<in> set (rows (cr_columns s)). cl_board c = b}"
  by (simp add: board_columns_def)

lemma find_SomeD: "find P xs = Some x \<Longrightarrow> x \<in> set xs \<and> P x"
  by (auto simp: find_Some_iff)

lemma board_column_SomeD:
  "find (\<lambda>c. cl_id c = k) (board_columns s b) = Some c \<Longrightarrow>
     c \<in> set (rows (cr_columns s)) \<and> cl_id c = k \<and> cl_board c = b"
  using find_SomeD[of "\<lambda>c. cl_id c = k" "board_columns s b" c] by (simp add: set_board_columns)

lemma board_column_get:
  "crm_inv s \<Longrightarrow> find (\<lambda>c. cl_id c = k) (board_columns s b) = Some c \<Longrightarrow> tbl_get cl_id k (cr_columns s) = Some c"
  using board_column_SomeD[of k s b c] tbl_get_row[of cl_id "cr_columns s" c] by (simp add: crm_inv_def)

lemma create_column_inv:
  assumes inv: "crm_inv s" and ok: "create_column u b name wip s = Inr s'"
  shows "crm_inv s'"
proof -
  obtain bo w where bo: "get_board_or_403 s u b = Inr bo" "0 \<le> w"
    and s': "s' = s\<lparr>cr_columns := tbl_insert (\<lambda>k. \<lparr>cl_id = k, cl_board = b, cl_name = name,
                      cl_position = last_position s b + 1, cl_wip_limit = w\<rparr>) (cr_columns s)\<rparr>"
    using ok by (auto simp: create_column_def Let_def not_less split: option.splits sum.splits if_splits)
  show ?thesis
    unfolding s' using get_board_or_403_SomeD[OF bo(1)] bo(2) by (intro insert_column_inv[OF inv]) auto
qed

lemma shift_columns_inv: "crm_inv s \<Longrightarrow> crm_inv (shift_columns b k old new s)"
  by (cases "old < new") (simp_all add: shift_columns_def update_columns_inv)

lemma validate_wip_limit_ok:
  assumes "validate_wip_limit s c (cq_wip_limit rq) = None"
    and "cl_wip_limit c = 0 \<or> wip_count (cr_tasks s) (cl_id c) \<le> cl_wip_limit c"
  shows "cl_wip_limit (patched_column rq p c) = 0
     \<or> wip_count (cr_tasks s) (cl_id c) \<le> cl_wip_limit (patched_column rq p c)"
  using assms
  by (auto simp: validate_wip_limit_def patched_column_def wip_count_def tbl_filter_def not_less
      split: option.splits if_splits)

lemma update_column_inv:
  assumes inv: "crm_inv s" and ok: "update_column u b k rq s = Inr s'"
  shows "crm_inv s'"
proof -
  obtain c where c: "find (\<lambda>c. cl_id c = k) (board_columns s b) = Some c"
      "validate_wip_limit s c (cq_wip_limit rq) = None" "s' = perform_update_column c rq s"
    using ok by (auto simp: update_column_def split: option.splits sum.splits)
  note row = board_column_SomeD[OF c(1)]
  have wip: "cl_wip_limit (patched_column rq p c) = 0
      \<or> wip_count (cr_tasks s) (cl_id c) \<le> cl_wip_limit (patched_column rq p c)" for p
    by (rule validate_wip_limit_ok[OF c(2)]) (use inv row in \<open>auto simp: crm_inv_def wip_ok_def\<close>)
  have ids: "cl_id (patched_column rq p c) = cl_id c" "cl_board (patched_column rq p c) = cl_board c" for p
    by (simp_all add: patched_column_def)
  have save: "crm_inv (s1\<lparr>cr_columns := tbl_save cl_id (patched_column rq p c) (cr_columns s1)\<rparr>)"
    if "crm_inv s1" "cr_tasks s1 = cr_tasks s" "tbl_get cl_id (cl_id c) (cr_columns s1) = Some c1" "cl_board c1 = cl_board c"
    for p s1 c1
    using save_column_inv[OF that(1), of "patched_column rq p c" c1] that wip[of p] ids by simp
  have get: "tbl_get cl_id (cl_id c) (cr_columns s) = Some c"
    using board_column_get[OF inv c(1)] row by simp
  have shift: "tbl_get cl_id (cl_id c) (cr_columns (shift_columns (cl_board c) (cl_id c) old new s)) = Some c"
    "cr_tasks (shift_columns (cl_board c) (cl_id c) old new s) = cr_tasks s" for old new
    using inv get by (auto simp: shift_columns_def crm_inv_def tbl_get_update)
  show ?thesis
    unfolding c(3) perform_update_column_def Let_def
    using save[OF inv _ get] save[OF shift_columns_inv[OF inv] shift(2) shift(1)]
    by (auto split: option.split)
qed

lemma wip_count_mono:
  "(\<And>t. P t \<Longrightarrow> active_in c (f t) \<Longrightarrow> active_in c t) \<Longrightarrow> wip_count (tbl_update P f T) c \<le> wip_count T c"
proof -
  assume f: "\<And>t. P t \<Longrightarrow> active_in c (f t) \<Longrightarrow> active_in c t"
  have "length (filter (active_in c) (map (\<lambda>t. if P t then f t else t) xs)) \<le> length (filter (active_in c) xs)" for xs
    by (induction xs) (auto dest: f)
  then show ?thesis by (simp add: wip_count_def)
qed

lemma wip_count_move:
  assumes "m \<noteq> k"
  shows "wip_count (tbl_update (live_in k) (\<lambda>t. t\<lparr>tk_column := m\<rparr>) T) m = wip_count T m + wip_count T k"
proof -
  have "length (filter (active_in m) (map (\<lambda>t. if live_in k t then t\<lparr>tk_column := m\<rparr> else t) xs))
      = length (filter (active_in m) xs) + length (filter (active_in k) xs)" for xs
    using assms by (induction xs) (auto simp: active_in_def live_in_def)
  then show ?thesis by (simp add: wip_count_def)
qed

lemma move_all_inv:
  assumes inv: "crm_inv s" and m: "column_of s m = Some target" "m \<noteq> k"
    and wip: "wip_count (cr_tasks s) k > 0 \<Longrightarrow> check_wip_limit s target (wip_count (cr_tasks s) k) None = None"
  shows "crm_inv (s\<lparr>cr_tasks := tbl_update (live_in k) (\<lambda>t. t\<lparr>tk_column := m\<rparr>) (cr_tasks s)\<rparr>)"
proof (rule crm_invI; simp?)
  let ?T = "tbl_update (live_in k) (\<lambda>t. t\<lparr>tk_column := m\<rparr>) (cr_tasks s)"
  note target = column_of_SomeD[OF m(1)]
  show "tbl_wf tk_id ?T" using inv by (auto simp: crm_inv_def intro!: tbl_wf_update)
  show "tk_column t \<in> cl_id ` set (rows (cr_columns s))"
    if "t \<in> (\<lambda>t. t\<lparr>tk_column := m\<rparr>) ` (set (rows (cr_tasks s)) \<inter> Collect (live_in k)) \<or> t \<in> set (rows (cr_tasks s)) \<and> \<not> live_in k t" for t
    using that inv target by (auto simp: crm_inv_def)
  show "wip_ok (cr_columns s) ?T"
    unfolding wip_ok_def
  proof (intro ballI)
    fix c assume c: "c \<in> set (rows (cr_columns s))"
    then have old: "cl_wip_limit c = 0 \<or> wip_count (cr_tasks s) (cl_id c) \<le> cl_wip_limit c"
      using inv by (simp add: crm_inv_def wip_ok_def)
    show "cl_wip_limit c = 0 \<or> wip_count ?T (cl_id c) \<le> cl_wip_limit c"
    proof (cases "cl_id c = m")
      case True
      then have "c = target" using column_of_row[OF inv c] m(1) by simp
      moreover have "wip_count (cr_tasks s) k \<ge> 0" by (simp add: wip_count_def)
      ultimately show ?thesis
        using old wip wip_count_move[OF m(2), of "cr_tasks s"] True
        by (cases "wip_count (cr_tasks s) k = 0") (auto simp: check_wip_limit_ok)
    next
      case False
      then have "wip_count ?T (cl_id c) \<le> wip_count (cr_tasks s) (cl_id c)"
        by (intro wip_count_mono) (auto simp: active_in_def)
      then show ?thesis using old by auto
    qed
  qed
qed (use inv in \<open>auto simp: crm_inv_def\<close>)

lemma renumber_columns_inv: "crm_inv s \<Longrightarrow> crm_inv (renumber_columns b s)"
  unfolding renumber_columns_def by (rule update_columns_inv) auto

lemma destroy_column_ok:
  assumes "destroy_column u b k mv s = Inr s'"
  obtains bo c m target where "get_board_or_403 s u b = Inr bo" "find (\<lambda>c. cl_id c = k) (board_columns s b) = Some c"
    "mv = Some m" "find (\<lambda>c. cl_id c = m) (board_columns s b) = Some target" "m \<noteq> k" "crm_permission u = None"
    "wip_count (cr_tasks s) k > 0 \<Longrightarrow> check_wip_limit s target (wip_count (cr_tasks s) k) None = None"
    "s' = renumber_columns b (delete_columns (\<lambda>c. cl_id c = k)
       (s\<lparr>cr_tasks := tbl_update (live_in k) (\<lambda>t. t\<lparr>tk_column := m\<rparr>) (cr_tasks s)\<rparr>))"
  using assms
  by (auto simp: destroy_column_def Let_def wip_count_def tbl_filter_def split: option.splits sum.splits if_splits)

lemma destroy_column_inv:
  assumes inv: "crm_inv s" and ok: "destroy_column u b k mv s = Inr s'"
  shows "crm_inv s'"
  using ok
proof (rule destroy_column_ok)
  fix bo c m target
  assume m: "find (\<lambda>c. cl_id c = m) (board_columns s b) = Some target" "m \<noteq> k"
    and wip: "wip_count (cr_tasks s) k > 0 \<Longrightarrow> check_wip_limit s target (wip_count (cr_tasks s) k) None = None"
    and s': "s' = renumber_columns b (delete_columns (\<lambda>c. cl_id c = k)
       (s\<lparr>cr_tasks := tbl_update (live_in k) (\<lambda>t. t\<lparr>tk_column := m\<rparr>) (cr_tasks s)\<rparr>))"
  have "column_of s m = Some target" using board_column_get[OF inv m(1)] by (simp add: column_of_def)
  from move_all_inv[OF inv this m(2) wip] show ?thesis
    unfolding s' by (intro renumber_columns_inv delete_columns_inv)
qed

lemma reorder_columns_inv:
  assumes inv: "crm_inv s" and ok: "reorder_columns u b ids s = Inr s'"
  shows "crm_inv s'"
proof -
  have "s' = fold reorder_step (enumerate 1 ids) s"
    using ok by (auto simp: reorder_columns_def split: option.splits sum.splits)
  moreover have "crm_inv s1 \<Longrightarrow> crm_inv (reorder_step pk s1)" for pk s1
    by (cases pk) (simp add: reorder_step_def update_columns_inv)
  ultimately show ?thesis using inv fold_inv[of crm_inv s reorder_step] by blast
qed

subsection \<open>Tasks\<close>

lemma fold_add_history:
  "\<exists>h. fold (add_history u k) es s = s\<lparr>cr_history := h\<rparr>"
proof (induction es arbitrary: s)
  case Nil
  show ?case by (intro exI[of _ "cr_history s"]) simp
next
  case (Cons e es)
  show ?case using Cons.IH[of "add_history u k e s"] by (cases e) (auto simp: add_history_def)
qed

lemma write_history_frame:
  assumes "write_history u k es s = Inr s'"
  obtains h where "s' = s\<lparr>cr_history := h\<rparr>" "list_all entry_fits es"
  using assms fold_add_history[of u k es s] by (auto simp: write_history_def)

lemma validate_task_ok:
  assumes "validate_task s u partial inst rq = None"
  obtains bo where "validated_board s u inst rq = Inr bo" "task_field_errors s partial rq = None"
    "\<And>k. tq_column rq = Some k \<Longrightarrow> map_option cl_board (column_of s k) = Some (bo_id bo)"
    "assignee_error s u bo rq = None" "labels_error s u rq = None" "task_wip_error s inst rq = None"
  using assms by (auto simp: validate_task_def split: option.splits sum.splits)

lemma validate_task_column:
  assumes "validate_task s u partial inst rq = None" "tq_column rq = Some k"
  obtains x where "column_of s k = Some x" "task_wip_error s inst rq = None"
  using assms(1) by (rule validate_task_ok) (use assms(2) that in fastforce)

lemma insert_task_inv:
  assumes inv: "crm_inv s" and mk: "\<And>i. tk_id (mk i) = i"
    and col: "column_of s (tk_column (mk (next_id (cr_tasks s)))) = Some c"
    and wip: "check_wip_limit s c 1 None = None"
  shows "crm_inv (s\<lparr>cr_tasks := tbl_insert mk (cr_tasks s)\<rparr>)"
proof (rule crm_invI; simp?)
  let ?n = "mk (next_id (cr_tasks s))"
  show "tbl_wf tk_id (tbl_insert mk (cr_tasks s))" using inv mk by (auto simp: crm_inv_def intro!: tbl_wf_insert)
  show "tk_column t \<in> cl_id ` set (rows (cr_columns s))" if "t = ?n \<or> t \<in> set (rows (cr_tasks s))" for t
  proof -
    have "tk_column ?n \<in> cl_id ` set (rows (cr_columns s))" using column_of_SomeD[OF col] by (metis imageI)
    then show ?thesis using that inv by (auto simp: crm_inv_def)
  qed
  show "wip_ok (cr_columns s) (tbl_insert mk (cr_tasks s))"
    unfolding wip_ok_def wip_count_insert
  proof (intro ballI)
    fix d assume d: "d \<in> set (rows (cr_columns s))"
    show "cl_wip_limit d = 0 \<or> wip_count (cr_tasks s) (cl_id d) + (if active_in (cl_id d) ?n then 1 else 0) \<le> cl_wip_limit d"
    proof (cases "tk_column ?n = cl_id d")
      case True
      then have "d = c" using column_of_row[OF inv d] col by simp
      then show ?thesis using wip by (auto simp: check_wip_limit_ok)
    next
      case False
      then have "\<not> active_in (cl_id d) ?n" by (simp add: active_in_def)
      then show ?thesis using inv d by (simp add: crm_inv_def wip_ok_def)
    qed
  qed
qed (use inv in \<open>auto simp: crm_inv_def\<close>)

lemma create_task_ok:
  assumes "create_task off now done u rq s = Inr s'"
  obtains c title where "crm_permission u = None" "validate_task s u False None rq = None"
    "tq_column rq = Some c" "tq_title rq = Some title"
    "s' = (normalize_positions c (s\<lparr>cr_tasks := tbl_insert (new_task now u c title rq) (cr_tasks s)\<rparr>))\<lparr>cr_nt := cr_nt s'\<rparr>"
  using assms by (auto simp: create_task_def Let_def split: option.splits)

lemma task_wip_error_ok:
  assumes "task_wip_error s inst rq = None" "tq_column rq = Some k" "column_of s k = Some c"
  shows "inst = None \<Longrightarrow> check_wip_limit s c 1 None = None"
    "inst = Some t \<Longrightarrow> k \<noteq> tk_column t \<Longrightarrow> check_wip_limit s c 1 (Some (tk_id t)) = None"
  using assms by (auto simp: task_wip_error_def)

lemma create_task_inv:
  assumes inv: "crm_inv s" and ok: "create_task off now done u rq s = Inr s'"
  shows "crm_inv s'"
  using ok
proof (rule create_task_ok)
  fix c title
  assume valid: "validate_task s u False None rq = None" and c: "tq_column rq = Some c"
    and s': "s' = (normalize_positions c (s\<lparr>cr_tasks := tbl_insert (new_task now u c title rq) (cr_tasks s)\<rparr>))
      \<lparr>cr_nt := cr_nt s'\<rparr>"
  obtain col where col: "column_of s c = Some col" "task_wip_error s None rq = None"
    by (rule validate_task_column[OF valid c])
  have "crm_inv (s\<lparr>cr_tasks := tbl_insert (new_task now u c title rq) (cr_tasks s)\<rparr>)"
    by (rule insert_task_inv[OF inv, where c = col]) (use col task_wip_error_ok(1)[OF col(2) c col(1)] in \<open>simp_all add: new_task_def\<close>)
  then have "crm_inv ((normalize_positions c (s\<lparr>cr_tasks := tbl_insert (new_task now u c title rq) (cr_tasks s)\<rparr>))
      \<lparr>cr_nt := cr_nt s'\<rparr>)"
    by (simp add: normalize_positions_inv)
  then show ?thesis using s' by simp
qed

lemma update_task_ok:
  assumes "update_task off now done u partial k rq s = Inr s'"
  obtains old h where "crm_permission u = None" "get_task s u True k = Inr old" "validate_task s u partial (Some old) rq = None"
    "list_all entry_fits (history_entries s rq old (patched_task rq old))"
    "s' = s\<lparr>cr_tasks := tbl_save tk_id (patched_task rq old) (cr_tasks s), cr_history := h, cr_nt := cr_nt s'\<rparr>"
    "fold (add_history u k) (history_entries s rq old (patched_task rq old))
       (s\<lparr>cr_tasks := tbl_save tk_id (patched_task rq old) (cr_tasks s)\<rparr>)
     = s\<lparr>cr_tasks := tbl_save tk_id (patched_task rq old) (cr_tasks s), cr_history := h\<rparr>"
proof -
  obtain old s2 nt where old: "crm_permission u = None" "get_task s u True k = Inr old" "validate_task s u partial (Some old) rq = None"
    "write_history u k (history_entries s rq old (patched_task rq old))
       (s\<lparr>cr_tasks := tbl_save tk_id (patched_task rq old) (cr_tasks s)\<rparr>) = Inr s2" "s' = s2\<lparr>cr_nt := nt\<rparr>"
    using assms by (auto simp: update_task_def Let_def split: option.splits sum.splits)
  from old(4) obtain h where h: "s2 = s\<lparr>cr_tasks := tbl_save tk_id (patched_task rq old) (cr_tasks s), cr_history := h\<rparr>"
    "list_all entry_fits (history_entries s rq old (patched_task rq old))"
    by (rule write_history_frame) auto
  show ?thesis using old h by (intro that[of old h]) (auto simp: write_history_def)
qed

lemma patched_task_keeps [simp]:
  "tk_id (patched_task rq t) = tk_id t" "tk_position (patched_task rq t) = tk_position t"
  "tk_is_archived (patched_task rq t) = tk_is_archived t" "tk_is_deleted (patched_task rq t) = tk_is_deleted t"
  "tk_created_at (patched_task rq t) = tk_created_at t"
  by (simp_all add: patched_task_def)

lemma update_task_inv:
  assumes inv: "crm_inv s" and ok: "update_task off now done u partial k rq s = Inr s'"
  shows "crm_inv s'"
  using ok
proof (rule update_task_ok)
  fix old h
  assume old: "get_task s u True k = Inr old" and valid: "validate_task s u partial (Some old) rq = None"
    and s': "s' = s\<lparr>cr_tasks := tbl_save tk_id (patched_task rq old) (cr_tasks s), cr_history := h, cr_nt := cr_nt s'\<rparr>"
  note get = get_task_SomeD[OF old]
  let ?new = "patched_task rq old"
  have "crm_inv (s\<lparr>cr_tasks := tbl_save tk_id ?new (cr_tasks s)\<rparr>)"
  proof (rule save_task_inv[OF inv])
    show "tbl_get tk_id (tk_id ?new) (cr_tasks s) = Some old" using get by simp
    show "tk_column ?new \<in> cl_id ` set (rows (cr_columns s))"
    proof (cases "tq_column rq")
      case None
      then show ?thesis using inv get by (simp add: patched_task_def crm_inv_def)
    next
      case (Some c)
      obtain x where "column_of s c = Some x" by (rule validate_task_column[OF valid Some])
      then show ?thesis using column_of_SomeD[of s c x] Some by (auto simp: patched_task_def)
    qed
    show "active_in (tk_column ?new) old \<or> check_wip_limit s c 1 (Some (tk_id ?new)) = None"
      if "column_of s (tk_column ?new) = Some c" "active_in (tk_column ?new) ?new" for c
    proof (cases "tk_column ?new = tk_column old")
      case True
      then show ?thesis using that by (simp add: active_in_def)
    next
      case False
      then obtain k where "tq_column rq = Some k" "tk_column ?new = k" "k \<noteq> tk_column old"
        by (auto simp: patched_task_def split: option.splits)
      then show ?thesis using validate_task_column[OF valid] task_wip_error_ok(2)[of s "Some old" rq k c old] that
        by (metis patched_task_keeps(1))
    qed
  qed
  then have "crm_inv (s\<lparr>cr_tasks := tbl_save tk_id ?new (cr_tasks s), cr_history := h, cr_nt := cr_nt s'\<rparr>)" by simp
  then show ?thesis using s' by simp
qed

lemma save_task_def2: "save_task t s = s\<lparr>cr_tasks := tbl_save tk_id t (cr_tasks s)\<rparr>"
  by (simp add: save_task_def)

lemma save_hidden_inv:
  assumes inv: "crm_inv s" and old: "tbl_get tk_id (tk_id t) (cr_tasks s) = Some old"
    and t: "tk_column t = tk_column old" "active_in (tk_column t) t \<Longrightarrow> active_in (tk_column t) old"
  shows "crm_inv (save_task t s)"
  unfolding save_task_def
proof (rule save_task_inv[OF inv old])
  show "tk_column t \<in> cl_id ` set (rows (cr_columns s))"
    using inv tbl_get_SomeD[OF old] t(1) by (simp add: crm_inv_def)
qed (use t(2) in blast)

lemma destroy_task_ok:
  assumes "destroy_task now u k s = Inr s'"
  obtains t where "crm_permission u = None" "get_task s u False k = Inr t"
    "s' = normalize_positions (tk_column t) (save_task (task_delete now t) s)"
  using assms by (auto simp: destroy_task_def split: option.splits sum.splits)

lemma destroy_task_inv:
  assumes inv: "crm_inv s" and ok: "destroy_task now u k s = Inr s'"
  shows "crm_inv s'"
proof -
  from ok obtain t where t: "get_task s u False k = Inr t"
    "s' = normalize_positions (tk_column t) (save_task (task_delete now t) s)" by (rule destroy_task_ok)
  have "crm_inv (save_task (task_delete now t) s)"
    by (rule save_hidden_inv[OF inv]) (use get_task_SomeD[OF t(1)] in \<open>auto simp: task_delete_def active_in_def\<close>)
  then show ?thesis by (simp add: t(2) normalize_positions_inv)
qed

lemma archive_task_ok:
  assumes "archive_task now u k s = Inr s'"
  obtains t h where "crm_permission u = None" "get_task s u False k = Inr t"
    "s' = (normalize_positions (tk_column t) (save_task ((task_delete now t)\<lparr>tk_is_archived := True\<rparr>) s))\<lparr>cr_history := h\<rparr>"
    "s' = add_history u k (''archived'', [], Str ''False'', Str ''True'')
       (normalize_positions (tk_column t) (save_task ((task_delete now t)\<lparr>tk_is_archived := True\<rparr>) s))"
  using assms by (auto simp: archive_task_def write_history_def add_history_def split: option.splits sum.splits)

lemma archive_task_inv:
  assumes inv: "crm_inv s" and ok: "archive_task now u k s = Inr s'"
  shows "crm_inv s'"
proof -
  from ok obtain t h where t: "get_task s u False k = Inr t"
    "s' = (normalize_positions (tk_column t) (save_task ((task_delete now t)\<lparr>tk_is_archived := True\<rparr>) s))\<lparr>cr_history := h\<rparr>"
    by (rule archive_task_ok)
  have "crm_inv (save_task ((task_delete now t)\<lparr>tk_is_archived := True\<rparr>) s)"
    by (rule save_hidden_inv[OF inv]) (use get_task_SomeD[OF t(1)] in \<open>auto simp: task_delete_def active_in_def\<close>)
  then show ?thesis by (simp add: t(2) normalize_positions_inv)
qed

definition unarchived :: "task \<Rightarrow> task" where
  "unarchived t = t\<lparr>tk_is_deleted := False, tk_deleted_at := None, tk_is_archived := False\<rparr>"

lemma unarchive_task_ok:
  assumes "unarchive_task u k s = Inr s'"
  obtains t c h where "crm_permission u = None" "get_task s u True k = Inr t" "tk_is_archived t"
    "column_of s (tk_column t) = Some c" "check_wip_limit s c 1 (Some k) = None"
    "s' = (normalize_positions (tk_column t) (save_task (unarchived t) s))\<lparr>cr_history := h\<rparr>"
    "s' = add_history u k (''unarchived'', [], Str ''True'', Str ''False'')
       (normalize_positions (tk_column t) (save_task (unarchived t) s))"
  using assms
  by (auto simp: unarchive_task_def write_history_def add_history_def unarchived_def
      split: option.splits sum.splits if_splits)

lemma unarchive_task_inv:
  assumes inv: "crm_inv s" and ok: "unarchive_task u k s = Inr s'"
  shows "crm_inv s'"
proof -
  from ok obtain t c h where t: "get_task s u True k = Inr t" "column_of s (tk_column t) = Some c"
    "check_wip_limit s c 1 (Some k) = None"
    "s' = (normalize_positions (tk_column t) (save_task (unarchived t) s))\<lparr>cr_history := h\<rparr>"
    by (rule unarchive_task_ok)
  note get = get_task_SomeD[OF t(1)]
  have "crm_inv (save_task (unarchived t) s)"
    unfolding save_task_def
  proof (rule save_task_inv[OF inv])
    show "tbl_get tk_id (tk_id (unarchived t)) (cr_tasks s) = Some t" using get by (simp add: unarchived_def)
    show "tk_column (unarchived t) \<in> cl_id ` set (rows (cr_columns s))"
      using inv get by (simp add: crm_inv_def unarchived_def)
    show "active_in (tk_column (unarchived t)) t \<or> check_wip_limit s c' 1 (Some (tk_id (unarchived t))) = None"
      if "column_of s (tk_column (unarchived t)) = Some c'" for c'
      using that t(2,3) get by (simp add: unarchived_def)
  qed
  then show ?thesis by (simp add: t(4) normalize_positions_inv)
qed

definition move_position :: "crm_state \<Rightarrow> nat \<Rightarrow> nat \<Rightarrow> int option \<Rightarrow> int" where
  "move_position s c k order = (case order of Some p \<Rightarrow> p | None \<Rightarrow> last_task_position s c k + 1)"

lemma move_task_ok:
  assumes "move_task now u k c order s = Inr s'"
  obtains t target h where "crm_permission u = None" "get_task s u False k = Inr t" "column_of s c = Some target"
    "move_error s u t target = None" "case order of None \<Rightarrow> True | Some p \<Rightarrow> 1 \<le> p"
    "s' = (normalize_positions c (normalize_positions (tk_column t)
       (save_task (t\<lparr>tk_column := c, tk_position := move_position s c k order\<rparr>) s)))\<lparr>cr_history := h, cr_nt := cr_nt s'\<rparr>"
proof -
  obtain t target where t: "crm_permission u = None" "get_task s u False k = Inr t" "column_of s c = Some target"
    "move_error s u t target = None" "case order of None \<Rightarrow> True | Some p \<Rightarrow> 1 \<le> p"
    using assms by (auto simp: move_task_def split: option.splits sum.splits)
  let ?s1 = "normalize_positions c (normalize_positions (tk_column t)
      (save_task (t\<lparr>tk_column := c, tk_position := move_position s c k order\<rparr>) s))"
  obtain s2 where s2: "write_history u k [(''moved'', [], Str (column_name s (tk_column t)), Str (cl_name target))] ?s1 = Inr s2"
    "s' = s2\<lparr>cr_nt := cr_nt s'\<rparr>"
    using assms t by (auto simp: move_task_def Let_def move_position_def split: option.splits sum.splits if_splits)
  from s2(1) obtain h where "s2 = ?s1\<lparr>cr_history := h\<rparr>" by (rule write_history_frame)
  then show ?thesis using t s2(2) by (intro that[of t target h]) simp_all
qed

lemma move_task_inv:
  assumes inv: "crm_inv s" and ok: "move_task now u k c order s = Inr s'"
  shows "crm_inv s'"
proof -
  from ok obtain t target h where t: "get_task s u False k = Inr t" "column_of s c = Some target"
    "move_error s u t target = None"
    and s': "s' = (normalize_positions c (normalize_positions (tk_column t)
       (save_task (t\<lparr>tk_column := c, tk_position := move_position s c k order\<rparr>) s)))\<lparr>cr_history := h, cr_nt := cr_nt s'\<rparr>"
    by (rule move_task_ok)
  note get = get_task_SomeD[OF t(1)]
  let ?t1 = "t\<lparr>tk_column := c, tk_position := move_position s c k order\<rparr>"
  have "crm_inv (save_task ?t1 s)"
    unfolding save_task_def
  proof (rule save_task_inv[OF inv])
    show "tbl_get tk_id (tk_id ?t1) (cr_tasks s) = Some t" using get by simp
    show "tk_column ?t1 \<in> cl_id ` set (rows (cr_columns s))" using column_of_SomeD[OF t(2)] by auto
    show "active_in (tk_column ?t1) t \<or> check_wip_limit s c' 1 (Some (tk_id ?t1)) = None"
      if "column_of s (tk_column ?t1) = Some c'" for c'
      using that t(2,3) by (simp add: move_error_def)
  qed
  then have "crm_inv ((normalize_positions c (normalize_positions (tk_column t) (save_task ?t1 s)))
      \<lparr>cr_history := h, cr_nt := cr_nt s'\<rparr>)"
    by (simp add: normalize_positions_inv)
  then show ?thesis using s' by simp
qed

subsection \<open>Labels and reminders\<close>

lemma label_ops_inv:
  assumes "crm_inv s"
  shows "create_label u cp name color s = Inr s' \<Longrightarrow> crm_inv s'"
    "update_label u cp k name' color s = Inr s' \<Longrightarrow> crm_inv s'"
    "destroy_label u k s = Inr s' \<Longrightarrow> crm_inv s'"
proof -
  show "create_label u cp name color s = Inr s' \<Longrightarrow> crm_inv s'"
    using assms by (auto simp: create_label_def split: option.splits if_splits)
  show "update_label u cp k name' color s = Inr s' \<Longrightarrow> crm_inv s'"
    using assms by (auto simp: update_label_def Let_def split: option.splits)
  assume "destroy_label u k s = Inr s'"
  then have s': "s' = (s\<lparr>cr_tasks := tbl_update (\<lambda>t. k \<in> set (tk_labels t))
                (\<lambda>t. t\<lparr>tk_labels := filter (\<lambda>x. x \<noteq> k) (tk_labels t)\<rparr>) (cr_tasks s)\<rparr>)
                \<lparr>cr_labels := tbl_delete (\<lambda>x. lb_label_id x = k) (cr_labels s)\<rparr>"
    by (auto simp: destroy_label_def split: option.splits)
  show "crm_inv s'" unfolding s' crm_inv_frame by (rule update_tasks_inv[OF assms]) auto
qed

section \<open>The board system\<close>

datatype crm_op =
    Op_create_board datetime user board_request
  | Op_patch_board user bool nat board_request
  | Op_destroy_board user bool nat
  | Op_archive_board user nat
  | Op_unarchive_board user nat
  | Op_create_column user nat string "int option option"
  | Op_update_column user nat nat column_request
  | Op_destroy_column user nat nat "nat option"
  | Op_reorder_columns user nat "nat list"
  | Op_create_task int datetime string user task_request
  | Op_update_task int datetime string user bool nat task_request
  | Op_destroy_task datetime user nat
  | Op_move_task datetime user nat nat "int option"
  | Op_archive_task datetime user nat
  | Op_unarchive_task user nat
  | Op_create_label user "nat option" string "string option"
  | Op_update_label user "nat option" nat "string option" "string option"
  | Op_destroy_label user nat
  | Op_deadline_approaching int datetime string
  | Op_deadline_overdue int datetime string

primrec exec_crm :: "crm_op \<Rightarrow> crm_state \<Rightarrow> api_error + crm_state" where
  "exec_crm (Op_create_board now u rq) s = create_board now u rq s"
| "exec_crm (Op_patch_board u ia k rq) s = patch_board u ia k rq s"
| "exec_crm (Op_destroy_board u ia k) s = destroy_board u ia k s"
| "exec_crm (Op_archive_board u k) s = archive_board u k s"
| "exec_crm (Op_unarchive_board u k) s = unarchive_board u k s"
| "exec_crm (Op_create_column u b name wip) s = create_column u b name wip s"
| "exec_crm (Op_update_column u b k rq) s = update_column u b k rq s"
| "exec_crm (Op_destroy_column u b k mv) s = destroy_column u b k mv s"
| "exec_crm (Op_reorder_columns u b ids) s = reorder_columns u b ids s"
| "exec_crm (Op_create_task off now done u rq) s = create_task off now done u rq s"
| "exec_crm (Op_update_task off now done u partial k rq) s = update_task off now done u partial k rq s"
| "exec_crm (Op_destroy_task now u k) s = destroy_task now u k s"
| "exec_crm (Op_move_task now u k c order) s = move_task now u k c order s"
| "exec_crm (Op_archive_task now u k) s = archive_task now u k s"
| "exec_crm (Op_unarchive_task u k) s = unarchive_task u k s"
| "exec_crm (Op_create_label u cp name color) s = create_label u cp name color s"
| "exec_crm (Op_update_label u cp k name color) s = update_label u cp k name color s"
| "exec_crm (Op_destroy_label u k) s = destroy_label u k s"
| "exec_crm (Op_deadline_approaching off now done) s = Inr (notify_deadline_approaching off now done s)"
| "exec_crm (Op_deadline_overdue off now done) s = Inr (notify_deadline_overdue off now done s)"

lemma exec_crm_inv:
  assumes inv: "crm_inv s" and ok: "exec_crm x s = Inr s'"
  shows "crm_inv s'"
proof -
  note ops = create_board_inv[OF inv] board_ops_inv[OF inv] destroy_board_inv[OF inv] create_column_inv[OF inv]
    update_column_inv[OF inv] destroy_column_inv[OF inv] reorder_columns_inv[OF inv] create_task_inv[OF inv]
    update_task_inv[OF inv] destroy_task_inv[OF inv] move_task_inv[OF inv] archive_task_inv[OF inv]
    unarchive_task_inv[OF inv] label_ops_inv[OF inv]
  show ?thesis
    using ok inv
    by (cases x) (auto dest: ops simp: notify_deadline_approaching_def notify_deadline_overdue_def)
qed

interpretation crm: op_system exec_crm crm_inv "\<lambda>_. True"
  by unfold_locales (rule exec_crm_inv)

end
