(* ===== verification/CrmOrder.thy ===== *)
theory CrmOrder
  imports CrmInv "HOL-Library.Multiset"
begin

text \<open>
  The order of the tasks of a column: tasks are shown by position, then by creation time, and
  \<open>_normalize_positions\<close> numbers them 1, 2, 3, ... in that order.
\<close>

section \<open>Stable sorting\<close>

lemma insort_key_map: "insort_key k (f x) (map f ys) = map f (insort_key (\<lambda>x. k (f x)) x ys)"
  by (induction ys) auto

lemma sort_key_map: "sort_key k (map f xs) = map f (sort_key (\<lambda>x. k (f x)) xs)"
  by (induction xs) (simp_all add: insort_key_map)

lemma sort_key_cong: "(\<And>x. x \<in> set xs \<Longrightarrow> k x = k' x) \<Longrightarrow> sort_key k xs = sort_key k' xs"
proof (induction xs)
  case (Cons x xs)
  have "insort_key k x ys = insort_key k' x ys" if "\<forall>y \<in> insert x (set ys). k y = k' y" for ys
    using that by (induction ys) auto
  then show ?case using Cons by simp
qed simp

text \<open>Sorted by one key and, within it, by another.\<close>

lemma sorted_wrt_two_keys:
  fixes f :: "'a \<Rightarrow> 'k::linorder" and g :: "'a \<Rightarrow> 'l::linorder"
  assumes "sorted (map f xs)" "\<And>k. sorted (map g (filter (\<lambda>x. f x = k) xs))"
  shows "sorted_wrt (\<lambda>x y. f x < f y \<or> f x = f y \<and> g x \<le> g y) xs"
  using assms
proof (induction xs)
  case (Cons x xs)
  have "sorted (map g (filter (\<lambda>x. f x = k) xs))" for k
    using Cons.prems(2)[of k] by (cases "f x = k") auto
  then have "sorted_wrt (\<lambda>x y. f x < f y \<or> f x = f y \<and> g x \<le> g y) xs"
    using Cons.IH Cons.prems(1) by simp
  moreover have "f x < f y \<or> f x = f y \<and> g x \<le> g y" if "y \<in> set xs" for y
  proof (cases "f x = f y")
    case True
    then show ?thesis using Cons.prems(2)[of "f x"] that by simp
  next
    case False
    moreover have "f x \<le> f y" using Cons.prems(1) that by simp
    ultimately show ?thesis by (simp add: less_le)
  qed
  ultimately show ?case by simp
qed simp

lemma sort_two_keys:
  fixes f :: "'a \<Rightarrow> 'k::linorder" and g :: "'a \<Rightarrow> 'l::linorder"
  shows "sorted_wrt (\<lambda>x y. f x < f y \<or> f x = f y \<and> g x \<le> g y) (sort_key f (sort_key g xs))"
proof (rule sorted_wrt_two_keys)
  fix k
  have "filter (\<lambda>x. f x = k) (sort_key f (sort_key g xs)) = sort_key g (filter (\<lambda>x. f x = k) xs)"
    by (simp add: sort_key_stable filter_sort)
  then show "sorted (map g (filter (\<lambda>x. f x = k) (sort_key f (sort_key g xs))))" by simp
qed simp

lemma sort_key_insert_least:
  fixes f :: "'a \<Rightarrow> 'k::linorder" and g :: "'a \<Rightarrow> 'l::linorder"
  assumes "\<And>x. x \<in> set xs \<Longrightarrow> f n < f x"
  shows "sort_key f (sort_key g (xs @ [n])) = n # sort_key f (sort_key g xs)"
proof (rule properties_for_sort_key)
  show "mset (n # sort_key f (sort_key g xs)) = mset (sort_key g (xs @ [n]))" by simp
  show "sorted (map f (n # sort_key f (sort_key g xs)))" using assms by (auto intro: less_imp_le)
  fix k assume k: "k \<in> set (n # sort_key f (sort_key g xs))"
  have eq: "filter (\<lambda>x. f k = f x) ys = filter (\<lambda>x. f x = f k) ys" for ys by (intro filter_cong) auto
  show "filter (\<lambda>x. f k = f x) (n # sort_key f (sort_key g xs)) = filter (\<lambda>x. f k = f x) (sort_key g (xs @ [n]))"
  proof (cases "k = n")
    case True
    have "filter (\<lambda>x. f x = f n) xs = []" by (metis (mono_tags) filter_False assms less_irrefl)
    then show ?thesis unfolding eq using True by (simp add: sort_key_stable filter_sort)
  next
    case False
    then have "f n \<noteq> f k" using k assms[of k] by auto
    then show ?thesis unfolding eq by (simp add: sort_key_stable filter_sort)
  qed
qed

section \<open>Numbering\<close>

lemma index_of_nth:
  "distinct xs \<Longrightarrow> i < length xs \<Longrightarrow> index_of (xs ! i) xs = int i + 1"
proof -
  assume d: "distinct xs" and i: "i < length xs"
  have "takeWhile (\<lambda>x. x \<noteq> xs ! i) xs = take i xs"
    by (rule takeWhile_eq_take_P_nth) (use d i in \<open>auto simp: nth_eq_iff_index_eq\<close>)
  then show ?thesis using i by (simp add: index_of_def)
qed

lemma map_index_of: "distinct (map key ts) \<Longrightarrow> map (\<lambda>t. index_of (key t) (map key ts)) ts = map (\<lambda>i. int i + 1) [0..<length ts]"
  by (rule nth_equalityI) (use index_of_nth[of "map key ts"] in auto)

lemma index_of_less:
  assumes "distinct (map key ts)" "sorted_wrt R ts" "a \<in> set ts" "b \<in> set ts" "\<not> R b a" "a \<noteq> b"
  shows "index_of (key a) (map key ts) < index_of (key b) (map key ts)"
proof -
  obtain i j where ij: "i < length ts" "j < length ts" "a = ts ! i" "b = ts ! j"
    using assms(3,4) by (auto simp: in_set_conv_nth)
  have "i < j"
  proof (rule ccontr)
    assume "\<not> i < j"
    then have "j < i" using ij assms(6) by (metis linorder_neqE_nat)
    then show False using assms(2,5) ij by (simp add: sorted_wrt_iff_nth_less)
  qed
  then show ?thesis using index_of_nth[OF assms(1), of i] index_of_nth[OF assms(1), of j] ij by simp
qed

text \<open>The tasks of a column in the order they are shown.\<close>

lemma set_ordered_tasks: "set (ordered_tasks s c) = {t \<in> set (rows (cr_tasks s)). live_in c t}"
  by (simp add: ordered_tasks_def)

lemma ordered_tasks_distinct: "tbl_wf tk_id (cr_tasks s) \<Longrightarrow> distinct (map tk_id (ordered_tasks s c))"
proof -
  assume "tbl_wf tk_id (cr_tasks s)"
  then have "distinct (map tk_id (tbl_filter (live_in c) (cr_tasks s)))"
    by (simp add: tbl_wf_def tbl_filter_def distinct_map_filter)
  moreover have "mset (map tk_id (ordered_tasks s c)) = mset (map tk_id (tbl_filter (live_in c) (cr_tasks s)))"
    by (simp add: ordered_tasks_def)
  ultimately show ?thesis by (metis mset_eq_imp_distinct_iff)
qed

lemma ordered_tasks_sorted:
  "sorted_wrt (\<lambda>a b. tk_position a < tk_position b \<or> tk_position a = tk_position b \<and> tk_created_at a \<le> tk_created_at b)
     (ordered_tasks s c)"
  unfolding ordered_tasks_def by (rule sort_two_keys)

lemma ordered_tasks_cong:
  "tbl_filter (live_in c) (cr_tasks s') = tbl_filter (live_in c) (cr_tasks s) \<Longrightarrow> ordered_tasks s' c = ordered_tasks s c"
  by (simp add: ordered_tasks_def)

lemma ordered_tasks_frame [simp]:
  "ordered_tasks (s\<lparr>cr_nt := x\<rparr>) c = ordered_tasks s c"
  "ordered_tasks (s\<lparr>cr_history := h\<rparr>) c = ordered_tasks s c"
  by (simp_all add: ordered_tasks_def)

lemma normalize_positions_correct:
  assumes "tbl_wf tk_id (cr_tasks s)"
  shows "ordered_tasks (normalize_positions c s) c =
      map (\<lambda>t. t\<lparr>tk_position := index_of (tk_id t) (map tk_id (ordered_tasks s c))\<rparr>) (ordered_tasks s c)"
    and "map tk_id (ordered_tasks (normalize_positions c s) c) = map tk_id (ordered_tasks s c)"
    and "map tk_position (ordered_tasks (normalize_positions c s) c) = map (\<lambda>i. int i + 1) [0..<length (ordered_tasks s c)]"
proof -
  let ?O = "ordered_tasks s c"
  let ?ix = "\<lambda>t. index_of (tk_id t) (map tk_id ?O)"
  let ?f = "\<lambda>t. t\<lparr>tk_position := ?ix t\<rparr>"
  let ?M = "sort_key tk_created_at (tbl_filter (live_in c) (cr_tasks s))"
  have d: "distinct (map tk_id ?O)" by (rule ordered_tasks_distinct[OF assms])
  have live: "filter (live_in c) (map (\<lambda>t. if live_in c t then ?f t else t) xs) = map ?f (filter (live_in c) xs)" for xs
    by (induction xs) (auto simp: live_in_def)
  have idx: "map ?ix ?O = map (\<lambda>i. int i + 1) [0..<length ?O]"
    using map_index_of[OF d] .
  have "sorted (map ?ix ?O)" unfolding idx by (auto simp: sorted_iff_nth_mono)
  moreover have "inj_on ?ix (set ?M)"
  proof -
    have "distinct (map ?ix ?O)" unfolding idx by (simp add: distinct_map inj_on_def)
    then have "inj_on ?ix (set ?O)" by (simp only: distinct_map)
    then show ?thesis by (simp add: ordered_tasks_def)
  qed
  moreover have "mset ?M = mset ?O" by (simp add: ordered_tasks_def)
  ultimately have sort: "sort_key ?ix ?M = ?O" by (rule_tac sort_key_inj_key_eq)
  have rows: "tbl_filter (live_in c) (cr_tasks (normalize_positions c s)) = map ?f (filter (live_in c) (rows (cr_tasks s)))"
    using live by (simp add: normalize_positions_def tbl_filter_def)
  have "ordered_tasks (normalize_positions c s) c = sort_key tk_position (sort_key tk_created_at (map ?f (filter (live_in c) (rows (cr_tasks s)))))"
    by (subst ordered_tasks_def) (simp only: rows)
  also have "\<dots> = map ?f (sort_key ?ix ?M)"
    by (simp add: sort_key_map tbl_filter_def)
  finally show eq: "ordered_tasks (normalize_positions c s) c = map ?f ?O" using sort by simp
  then show "map tk_id (ordered_tasks (normalize_positions c s) c) = map tk_id ?O" by simp
  show "map tk_position (ordered_tasks (normalize_positions c s) c) = map (\<lambda>i. int i + 1) [0..<length ?O]"
    unfolding eq using idx by (simp add: comp_def)
qed

lemma normalize_other_column:
  assumes "c \<noteq> d"
  shows "tbl_filter (live_in d) (cr_tasks (normalize_positions c s)) = tbl_filter (live_in d) (cr_tasks s)"
proof -
  have "filter (live_in d) (map (\<lambda>t. if live_in c t then t\<lparr>tk_position := p t\<rparr> else t) xs) = filter (live_in d) xs" for p xs
    using assms by (induction xs) (auto simp: live_in_def)
  then show ?thesis by (simp add: tbl_filter_def normalize_positions_def)
qed

lemma ordered_normalize_other: "c \<noteq> d \<Longrightarrow> ordered_tasks (normalize_positions c s) d = ordered_tasks s d"
  by (intro ordered_tasks_cong normalize_other_column)

end
