(* ===== verification/CrmProps.thy ===== *)
theory CrmProps
  imports CrmOrder
begin

text \<open>
  The properties of the board component: WIP limits in every run, isolation of the companies, where a
  new or moved task lands, what deleting a column destroys, the board limit, and the history of an
  update.
\<close>

section \<open>Example state\<close>

definition demo_board :: "nat \<Rightarrow> nat \<Rightarrow> board" where
  "demo_board i c = \<lparr>bo_id = i, bo_company = c, bo_name = ''Board'', bo_description = [], bo_is_archived = False,
     bo_created_by = None\<rparr>"

definition demo_column :: "nat \<Rightarrow> nat \<Rightarrow> int \<Rightarrow> int \<Rightarrow> kcolumn" where
  "demo_column i b p w = \<lparr>cl_id = i, cl_board = b, cl_name = ''Col'', cl_position = p, cl_wip_limit = w\<rparr>"

definition demo_task :: "nat \<Rightarrow> nat \<Rightarrow> int \<Rightarrow> task" where
  "demo_task i c p = \<lparr>tk_id = i, tk_column = c, tk_title = ''Task'', tk_description = [], tk_priority = Medium,
     tk_position = p, tk_assignee = None, tk_created_by = None, tk_deadline = None, tk_labels = [],
     tk_is_archived = False, tk_is_deleted = False, tk_deleted_at = None, tk_created_at = int i\<rparr>"

definition demo_crm :: "task list \<Rightarrow> crm_state" where
  "demo_crm ts = \<lparr>
     cr_acc = \<lparr>ac_users = Table [demo_user 2 Employee (Some 1), demo_user 3 Employee (Some 2)] 4,
               ac_companies = Table [demo_company, demo_company\<lparr>co_id := 2\<rparr>] 3\<rparr>,
     cr_boards = Table [demo_board 1 1, demo_board 2 2] 3,
     cr_columns = Table [demo_column 1 1 1 3, demo_column 2 1 2 0, demo_column 3 2 1 0] 4,
     cr_labels = empty_table, cr_tasks = Table ts 10, cr_history = empty_table, cr_nt = demo_nt\<rparr>"

lemma demo_crm_inv:
  assumes "distinct (map tk_id ts)" "\<forall>t \<in> set ts. tk_id t < 10 \<and> tk_column t \<in> {1, 2, 3}"
    "length (filter (active_in 1) ts) \<le> 3"
  shows "crm_inv (demo_crm ts)"
  using assms
  by (auto simp: crm_inv_def demo_crm_def demo_board_def demo_column_def tbl_wf_def wip_ok_def wip_count_def
      list_all_iff)

definition demo_task_request :: "nat option \<Rightarrow> nat option \<Rightarrow> string option \<Rightarrow> task_request" where
  "demo_task_request b c title = \<lparr>tq_board = b, tq_column = c, tq_title = title, tq_description = None,
     tq_priority = None, tq_assignee = None, tq_deadline = None, tq_labels = None\<rparr>"

section \<open>WIP limits\<close>

text \<open>
  C19: whatever boards, columns, tasks and labels are created, changed, moved, archived, restored and
  deleted, in any order and by anyone, no column ever holds more active tasks than its WIP limit.
\<close>

theorem wip_limits_hold_in_any_run:
  assumes "crm_inv s" "c \<in> set (rows (cr_columns (run_ops exec_crm xs s)))" "cl_wip_limit c \<noteq> 0"
  shows "int (length (tbl_filter (active_in (cl_id c)) (cr_tasks (run_ops exec_crm xs s)))) \<le> cl_wip_limit c"
proof -
  have "crm_inv (run_ops exec_crm xs s)" using crm.run_inv[OF assms(1), of xs] by (simp add: list_all_iff)
  then show ?thesis using assms(2,3) by (auto simp: crm_inv_def wip_ok_def wip_count_def tbl_filter_def)
qed

theorem wip_limits_hold_in_any_run_witness:
  "int (length (tbl_filter (active_in 1) (cr_tasks (run_ops exec_crm
      [Op_create_task 0 100 ''Done'' (demo_user 2 Employee (Some 1)) (demo_task_request (Some 1) (Some 1) (Some ''A'')),
       Op_create_task 0 101 ''Done'' (demo_user 2 Employee (Some 1)) (demo_task_request (Some 1) (Some 1) (Some ''B''))]
      (demo_crm [demo_task 5 1 1, demo_task 6 1 2]))))) \<le> 3"
proof -
  let ?s = "run_ops exec_crm
      [Op_create_task 0 100 ''Done'' (demo_user 2 Employee (Some 1)) (demo_task_request (Some 1) (Some 1) (Some ''A'')),
       Op_create_task 0 101 ''Done'' (demo_user 2 Employee (Some 1)) (demo_task_request (Some 1) (Some 1) (Some ''B''))]
      (demo_crm [demo_task 5 1 1, demo_task 6 1 2])"
  have inv: "crm_inv (demo_crm [demo_task 5 1 1, demo_task 6 1 2])"
    by (rule demo_crm_inv) (auto simp: demo_task_def)
  have "cr_columns ?s = Table [demo_column 1 1 1 3, demo_column 2 1 2 0, demo_column 3 2 1 0] 4" by code_simp
  then have col: "demo_column 1 1 1 3 \<in> set (rows (cr_columns ?s))" by (metis list.set_intros(1) table.sel(1))
  have ids: "cl_id (demo_column 1 1 1 3) = 1" "cl_wip_limit (demo_column 1 1 1 3) = 3" by (simp_all add: demo_column_def)
  show ?thesis using wip_limits_hold_in_any_run[OF inv col] unfolding ids by simp
qed

section \<open>Where tasks land\<close>

lemma created_task_facts:
  assumes inv: "crm_inv s" and ok: "create_task off now done u rq s = Inr s'"
  obtains c title where "tq_column rq = Some c"
    "ordered_tasks s' c = map (\<lambda>t. t\<lparr>tk_position := index_of (tk_id t)
        (map tk_id (ordered_tasks (s\<lparr>cr_tasks := tbl_insert (new_task now u c title rq) (cr_tasks s)\<rparr>) c))\<rparr>)
      (ordered_tasks (s\<lparr>cr_tasks := tbl_insert (new_task now u c title rq) (cr_tasks s)\<rparr>) c)"
    "map tk_id (ordered_tasks s' c)
      = map tk_id (ordered_tasks (s\<lparr>cr_tasks := tbl_insert (new_task now u c title rq) (cr_tasks s)\<rparr>) c)"
    "map tk_position (ordered_tasks s' c) = map (\<lambda>i. int i + 1) [0..<length (ordered_tasks s' c)]"
  using ok
proof (rule create_task_ok)
  fix c title
  let ?s1 = "s\<lparr>cr_tasks := tbl_insert (new_task now u c title rq) (cr_tasks s)\<rparr>"
  assume c: "tq_column rq = Some c"
    and s': "s' = (normalize_positions c ?s1)\<lparr>cr_nt := cr_nt s'\<rparr>"
  have wf: "tbl_wf tk_id (cr_tasks ?s1)"
    using inv by (auto simp: crm_inv_def new_task_def intro!: tbl_wf_insert)
  have "ordered_tasks s' c = ordered_tasks (normalize_positions c ?s1) c"
    by (subst s') simp
  then show thesis
    using normalize_positions_correct[OF wf, of c] c by (intro that[of c title]) simp_all
qed

text \<open>
  A created task becomes the first of its column, before all the tasks that are there; the others
  keep their order and the positions are 1, 2, 3, ... (the comment in \<open>perform_create\<close> says that it
  is put at the end).
\<close>

theorem created_task_goes_first:
  assumes "crm_inv s" "create_task off now done u rq s = Inr s'" "tq_column rq = Some c"
    and "\<forall>t \<in> set (rows (cr_tasks s)). live_in c t \<longrightarrow> 1 \<le> tk_position t"
  shows "map tk_id (ordered_tasks s' c) = next_id (cr_tasks s) # map tk_id (ordered_tasks s c)
    \<and> map tk_position (ordered_tasks s' c) = map (\<lambda>i. int i + 1) [0..<length (ordered_tasks s' c)]"
proof -
  from created_task_facts[OF assms(1,2)] obtain c' title where c': "tq_column rq = Some c'"
    and t': "map tk_id (ordered_tasks s' c')
      = map tk_id (ordered_tasks (s\<lparr>cr_tasks := tbl_insert (new_task now u c' title rq) (cr_tasks s)\<rparr>) c')"
    "map tk_position (ordered_tasks s' c') = map (\<lambda>i. int i + 1) [0..<length (ordered_tasks s' c')]" .
  have "c' = c" using c' assms(3) by simp
  note t = t'[unfolded this]
  let ?n = "new_task now u c title rq (next_id (cr_tasks s))"
  have n: "live_in c ?n" "tk_position ?n = 0" "tk_id ?n = next_id (cr_tasks s)"
    by (simp_all add: new_task_def live_in_def)
  have "sort_key tk_position (sort_key tk_created_at (tbl_filter (live_in c) (cr_tasks s) @ [?n]))
      = ?n # ordered_tasks s c"
    unfolding ordered_tasks_def by (rule sort_key_insert_least) (use assms(4) n in auto)
  then have "ordered_tasks (s\<lparr>cr_tasks := tbl_insert (new_task now u c title rq) (cr_tasks s)\<rparr>) c = ?n # ordered_tasks s c"
    using n(1) by (simp add: ordered_tasks_def tbl_filter_def)
  then show ?thesis using t n(3) by simp
qed

theorem created_task_goes_first_witness:
  "\<exists>s'. create_task 0 100 ''Done'' (demo_user 2 Employee (Some 1)) (demo_task_request (Some 1) (Some 1) (Some ''A''))
      (demo_crm [demo_task 5 1 1, demo_task 6 1 2]) = Inr s'
    \<and> map tk_id (ordered_tasks s' 1) = [10, 5, 6]"
proof -
  let ?s = "demo_crm [demo_task 5 1 1, demo_task 6 1 2]"
  let ?rq = "demo_task_request (Some 1) (Some 1) (Some ''A'')"
  have inv: "crm_inv ?s" by (rule demo_crm_inv) (auto simp: demo_task_def)
  have "is_ok (create_task 0 100 ''Done'' (demo_user 2 Employee (Some 1)) ?rq ?s)" by code_simp
  then obtain s' where ok: "create_task 0 100 ''Done'' (demo_user 2 Employee (Some 1)) ?rq ?s = Inr s'" by (auto simp: is_ok_iff)
  have col: "tq_column ?rq = Some 1" by (simp add: demo_task_request_def)
  have pos: "\<forall>t \<in> set (rows (cr_tasks ?s)). live_in 1 t \<longrightarrow> 1 \<le> tk_position t"
    by (simp add: demo_crm_def demo_task_def)
  have "map tk_id (ordered_tasks ?s 1) = [5, 6]" "next_id (cr_tasks ?s) = 10" by code_simp+
  then show ?thesis
    using created_task_goes_first[OF inv ok col pos] ok by simp
qed

text \<open>A move writes one row and numbers two columns.\<close>

lemma save_task_others:
  "tk_id t = k \<Longrightarrow> filter (\<lambda>x. tk_id x \<noteq> k) (ordered_tasks (save_task t s) d) = filter (\<lambda>x. tk_id x \<noteq> k) (ordered_tasks s d)"
proof -
  assume k: "tk_id t = k"
  have rows: "filter (\<lambda>x. tk_id x \<noteq> k) (filter (live_in d) (map (\<lambda>x. if tk_id x = k then t else x) xs))
      = filter (\<lambda>x. tk_id x \<noteq> k) (filter (live_in d) xs)" for xs
    using k by (induction xs) auto
  show ?thesis
    using rows k by (simp add: ordered_tasks_def filter_sort save_task_def tbl_save_def tbl_filter_def)
qed

lemma set_ordered_save:
  assumes "tbl_wf tk_id (cr_tasks s)" "tbl_get tk_id (tk_id t) (cr_tasks s) = Some old"
  shows "t \<in> set (ordered_tasks (save_task t s) d) \<longleftrightarrow> live_in d t"
    and "x \<in> set (ordered_tasks (save_task t s) d) \<Longrightarrow> tk_id x = tk_id t \<Longrightarrow> x = t"
    and "x \<in> set (ordered_tasks s d) \<Longrightarrow> tk_id x \<noteq> tk_id t \<Longrightarrow> x \<in> set (ordered_tasks (save_task t s) d)"
  using tbl_get_SomeD[OF assms(2)]
  by (auto simp: set_ordered_tasks save_task_def tbl_save_def split: if_splits)

lemma move_task_facts:
  assumes inv: "crm_inv s" and ok: "move_task now u k c order s = Inr s'"
    and t: "tbl_get tk_id k (cr_tasks s) = Some t"
  defines "t1 \<equiv> t\<lparr>tk_column := c, tk_position := move_position s c k order\<rparr>"
  shows "d \<in> {c, tk_column t} \<Longrightarrow> map tk_id (ordered_tasks s' d) = map tk_id (ordered_tasks (save_task t1 s) d)"
    and "d \<in> {c, tk_column t} \<Longrightarrow>
      map tk_position (ordered_tasks s' d) = map (\<lambda>i. int i + 1) [0..<length (ordered_tasks s' d)]"
    and "live_in (tk_column t) t" "tk_id t = k"
proof -
  obtain t' h where t': "get_task s u False k = Inr t'"
    and s': "s' = (normalize_positions c (normalize_positions (tk_column t')
       (save_task (t'\<lparr>tk_column := c, tk_position := move_position s c k order\<rparr>) s)))\<lparr>cr_history := h, cr_nt := cr_nt s'\<rparr>"
    using ok by (rule move_task_ok)
  have same: "t' = t" using get_task_SomeD[OF t'] t by simp
  let ?s1 = "save_task t1 s"
  let ?s2 = "normalize_positions (tk_column t) ?s1"
  have wf1: "tbl_wf tk_id (cr_tasks ?s1)" using inv by (simp add: crm_inv_def save_task_def tbl_wf_save)
  have wf2: "tbl_wf tk_id (cr_tasks ?s2)"
    using wf1 by (auto simp: normalize_positions_def intro!: tbl_wf_update)
  have ord: "ordered_tasks s' d = ordered_tasks (normalize_positions c ?s2) d" for d
    by (subst s') (simp add: same t1_def)
  note n1 = normalize_positions_correct[OF wf1, of "tk_column t"]
  note n2 = normalize_positions_correct[OF wf2, of c]
  have len: "length (ordered_tasks (normalize_positions e s0) e) = length (ordered_tasks s0 e)"
    if "tbl_wf tk_id (cr_tasks s0)" for e s0
    using normalize_positions_correct(1)[OF that, of e] by simp
  show "map tk_id (ordered_tasks s' d) = map tk_id (ordered_tasks (save_task t1 s) d)" if "d \<in> {c, tk_column t}"
    using that n1(2) n2(2) ordered_normalize_other[of c d ?s2] ordered_normalize_other[of "tk_column t" d ?s1]
    by (cases "c = tk_column t") (auto simp: ord)
  show "map tk_position (ordered_tasks s' d) = map (\<lambda>i. int i + 1) [0..<length (ordered_tasks s' d)]"
    if "d \<in> {c, tk_column t}"
  proof (cases "d = c")
    case True
    then show ?thesis using n2(3) len[OF wf2, of c] by (simp add: ord)
  next
    case False
    then show ?thesis
      using that n1(3) ordered_normalize_other[of c d ?s2] len[OF wf1, of "tk_column t"] by (simp add: ord)
  qed
  show "live_in (tk_column t) t" "tk_id t = k"
    using get_task_SomeD[OF t'] same by (auto simp: task_visible_def live_in_def)
qed

text \<open>
  C21: a move puts the task into the target column, takes it out of its old column, keeps the order of
  all the other tasks of the two columns, and leaves both numbered 1, 2, 3, ...
\<close>

theorem move_keeps_the_order_of_the_others:
  assumes "crm_inv s" "move_task now u k c order s = Inr s'" "tbl_get tk_id k (cr_tasks s) = Some t"
    and "d \<in> {c, tk_column t}"
  shows "filter (\<lambda>i. i \<noteq> k) (map tk_id (ordered_tasks s' d)) = filter (\<lambda>i. i \<noteq> k) (map tk_id (ordered_tasks s d))
    \<and> (k \<in> set (map tk_id (ordered_tasks s' d)) \<longleftrightarrow> d = c)
    \<and> map tk_position (ordered_tasks s' d) = map (\<lambda>i. int i + 1) [0..<length (ordered_tasks s' d)]"
proof -
  let ?t1 = "t\<lparr>tk_column := c, tk_position := move_position s c k order\<rparr>"
  note f = move_task_facts[OF assms(1-3)]
  have wf: "tbl_wf tk_id (cr_tasks s)" using assms(1) by (simp add: crm_inv_def)
  have k1: "tk_id ?t1 = k" using f(4) by simp
  have fm: "filter (\<lambda>i. i \<noteq> k) (map tk_id xs) = map tk_id (filter (\<lambda>x. tk_id x \<noteq> k) xs)" for xs
    by (induction xs) auto
  have "tbl_get tk_id (tk_id ?t1) (cr_tasks s) = Some t" using assms(3) k1 by simp
  note set1 = set_ordered_save[OF wf this, where d = d]
  have "k \<in> set (map tk_id (ordered_tasks (save_task ?t1 s) d)) \<longleftrightarrow> ?t1 \<in> set (ordered_tasks (save_task ?t1 s) d)"
    (is "?L \<longleftrightarrow> ?R")
  proof
    assume ?L
    then obtain x where "x \<in> set (ordered_tasks (save_task ?t1 s) d)" "tk_id x = k" by (auto simp: image_iff)
    moreover from this have "x = ?t1" using set1(2) k1 by simp
    ultimately show ?R by simp
  next
    assume ?R
    then show ?L using k1 by (metis imageI set_map)
  qed
  also have "\<dots> \<longleftrightarrow> d = c" using set1(1) f(3) by (auto simp: live_in_def)
  finally show ?thesis
    using f(1)[OF assms(4)] f(2)[OF assms(4)] save_task_others[OF k1, of s d] by (simp add: fm)
qed

theorem move_keeps_the_order_of_the_others_witness:
  "\<exists>s'. move_task 100 (demo_user 2 Employee (Some 1)) 7 1 (Some 2) (demo_crm [demo_task 5 1 1, demo_task 6 1 2, demo_task 7 2 1]) = Inr s'
    \<and> filter (\<lambda>i. i \<noteq> 7) (map tk_id (ordered_tasks s' 1)) = [5, 6]"
proof -
  let ?s = "demo_crm [demo_task 5 1 1, demo_task 6 1 2, demo_task 7 2 1]"
  have inv: "crm_inv ?s" by (rule demo_crm_inv) (auto simp: demo_task_def active_in_def)
  have "is_ok (move_task 100 (demo_user 2 Employee (Some 1)) 7 1 (Some 2) ?s)" by code_simp
  then obtain s' where ok: "move_task 100 (demo_user 2 Employee (Some 1)) 7 1 (Some 2) ?s = Inr s'" by (auto simp: is_ok_iff)
  have get: "tbl_get tk_id 7 (cr_tasks ?s) = Some (demo_task 7 2 1)" "map tk_id (ordered_tasks ?s 1) = [5, 6]" by code_simp+
  show ?thesis using move_keeps_the_order_of_the_others[OF inv ok get(1), of 1] ok get(2) by simp
qed

text \<open>
  Where a move with an explicit order lands: before exactly the tasks with a larger position, or
  with the same position and a later creation time. A task that is younger than the one holding the
  requested position therefore lands after it, one place below the place asked for.
\<close>

theorem move_lands_by_position_then_age:
  assumes "crm_inv s" "move_task now u k c (Some p) s = Inr s'" "tbl_get tk_id k (cr_tasks s) = Some t"
    and "x \<in> set (ordered_tasks s c)" "tk_id x \<noteq> k" "tk_created_at x \<noteq> tk_created_at t"
  shows "index_of k (map tk_id (ordered_tasks s' c)) < index_of (tk_id x) (map tk_id (ordered_tasks s' c))
    \<longleftrightarrow> p < tk_position x \<or> p = tk_position x \<and> tk_created_at t < tk_created_at x"
proof -
  let ?t1 = "t\<lparr>tk_column := c, tk_position := p\<rparr>"
  have pos: "move_position s c k (Some p) = p" by (simp add: move_position_def)
  note f = move_task_facts[OF assms(1-3), unfolded pos]
  have wf: "tbl_wf tk_id (cr_tasks s)" using assms(1) by (simp add: crm_inv_def)
  have k1: "tk_id ?t1 = k" using f(4) by simp
  have get: "tbl_get tk_id (tk_id ?t1) (cr_tasks s) = Some t" using assms(3) k1 by simp
  let ?O = "ordered_tasks (save_task ?t1 s) c"
  have mem: "?t1 \<in> set ?O" "x \<in> set ?O"
    using set_ordered_save[OF wf get] f(3) assms(4,5) k1 by (auto simp: live_in_def)
  have d: "distinct (map tk_id ?O)"
    using wf by (intro ordered_tasks_distinct) (simp add: save_task_def tbl_wf_save)
  note less = index_of_less[OF d ordered_tasks_sorted[of "save_task ?t1 s" c]]
  have ne: "x \<noteq> ?t1" using assms(5) k1 by auto
  have ids: "map tk_id (ordered_tasks s' c) = map tk_id ?O" using f(1)[of c] by simp
  show ?thesis
  proof (cases "p < tk_position x \<or> p = tk_position x \<and> tk_created_at t < tk_created_at x")
    case True
    then have "index_of (tk_id ?t1) (map tk_id ?O) < index_of (tk_id x) (map tk_id ?O)"
      using ne by (intro less[OF mem]) auto
    then show ?thesis using True k1 by (simp add: ids)
  next
    case False
    then have "index_of (tk_id x) (map tk_id ?O) < index_of (tk_id ?t1) (map tk_id ?O)"
      using ne assms(6) by (intro less[OF mem(2,1)]) auto
    then show ?thesis using False k1 by (simp add: ids)
  qed
qed

theorem move_lands_by_position_then_age_witness:
  "\<exists>s'. move_task 100 (demo_user 2 Employee (Some 1)) 7 1 (Some 1) (demo_crm [demo_task 5 1 1, demo_task 6 1 2, demo_task 7 2 1]) = Inr s'
    \<and> \<not> index_of 7 (map tk_id (ordered_tasks s' 1)) < index_of 5 (map tk_id (ordered_tasks s' 1))"
proof -
  let ?s = "demo_crm [demo_task 5 1 1, demo_task 6 1 2, demo_task 7 2 1]"
  have inv: "crm_inv ?s" by (rule demo_crm_inv) (auto simp: demo_task_def active_in_def)
  have "is_ok (move_task 100 (demo_user 2 Employee (Some 1)) 7 1 (Some 1) ?s)" by code_simp
  then obtain s' where ok: "move_task 100 (demo_user 2 Employee (Some 1)) 7 1 (Some 1) ?s = Inr s'" by (auto simp: is_ok_iff)
  have get: "tbl_get tk_id 7 (cr_tasks ?s) = Some (demo_task 7 2 1)" by code_simp
  have "demo_task 5 1 1 \<in> set (ordered_tasks ?s 1)"
    by (simp add: set_ordered_tasks demo_crm_def live_in_def demo_task_def)
  from move_lands_by_position_then_age[OF inv ok get this] show ?thesis using ok by (simp add: demo_task_def)
qed

section \<open>Columns and boards\<close>

text \<open>
  Deleting a column hands its live tasks to the column named in the request, unchanged but for
  their column, and destroys its archived and deleted tasks with their history; no other task changes.
\<close>

theorem column_deletion_effect:
  assumes "crm_inv s" "destroy_column u b k (Some m) s = Inr s'"
  shows "rows (cr_tasks s') = map (\<lambda>t. if live_in k t then t\<lparr>tk_column := m\<rparr> else t)
      (filter (\<lambda>t. tk_column t \<noteq> k \<or> live_in k t) (rows (cr_tasks s)))
    \<and> k \<notin> cl_id ` set (rows (cr_columns s')) \<and> m \<noteq> k"
  using assms(2)
proof (rule destroy_column_ok)
  fix bo c m' target
  assume mk: "Some m = Some m'" "m' \<noteq> k" and c: "find (\<lambda>c. cl_id c = k) (board_columns s b) = Some c"
    and s': "s' = renumber_columns b (delete_columns (\<lambda>c. cl_id c = k)
       (s\<lparr>cr_tasks := tbl_update (live_in k) (\<lambda>t. t\<lparr>tk_column := m'\<rparr>) (cr_tasks s)\<rparr>))"
  have m: "m' = m" "m \<noteq> k" using mk by simp_all
  have ex: "(\<exists>c \<in> set (rows (cr_columns s)). cl_id c = k \<and> tk_column t = cl_id c) \<longleftrightarrow> tk_column t = k" for t
    using board_column_SomeD[OF c] by auto
  have "filter (\<lambda>t. tk_column t \<noteq> k) (map (\<lambda>t. if live_in k t then t\<lparr>tk_column := m\<rparr> else t) xs)
      = map (\<lambda>t. if live_in k t then t\<lparr>tk_column := m\<rparr> else t) (filter (\<lambda>t. tk_column t \<noteq> k \<or> live_in k t) xs)" for xs
    using m(2) by (induction xs) auto
  then have tasks: "rows (cr_tasks s') = map (\<lambda>t. if live_in k t then t\<lparr>tk_column := m\<rparr> else t)
      (filter (\<lambda>t. tk_column t \<noteq> k \<or> live_in k t) (rows (cr_tasks s)))"
    using m(1) by (simp add: s' renumber_columns_def delete_columns_tasks ex)
  have "cl_id ` set (rows (cr_columns (renumber_columns b s1))) = cl_id ` set (rows (cr_columns s1))" for s1
    unfolding renumber_columns_def by (simp del: rows_tbl) (rule image_update, simp)
  then have "k \<notin> cl_id ` set (rows (cr_columns s'))" by (auto simp: s')
  then show ?thesis using tasks m(2) by blast
qed

theorem column_deletion_effect_witness:
  "\<exists>s'. destroy_column (demo_user 2 Employee (Some 1)) 1 2 (Some 1)
      (demo_crm [demo_task 5 2 1, (demo_task 6 2 2)\<lparr>tk_is_deleted := True, tk_is_archived := True\<rparr>]) = Inr s'
    \<and> rows (cr_tasks s') = [demo_task 5 1 1]"
proof -
  let ?s = "demo_crm [demo_task 5 2 1, (demo_task 6 2 2)\<lparr>tk_is_deleted := True, tk_is_archived := True\<rparr>]"
  have inv: "crm_inv ?s" by (rule demo_crm_inv) (auto simp: demo_task_def active_in_def)
  have "is_ok (destroy_column (demo_user 2 Employee (Some 1)) 1 2 (Some 1) ?s)" by code_simp
  then obtain s' where ok: "destroy_column (demo_user 2 Employee (Some 1)) 1 2 (Some 1) ?s = Inr s'" by (auto simp: is_ok_iff)
  have "rows (cr_tasks ?s) = [demo_task 5 2 1, (demo_task 6 2 2)\<lparr>tk_is_deleted := True, tk_is_archived := True\<rparr>]"
    by (simp add: demo_crm_def)
  then show ?thesis using column_deletion_effect[OF inv ok] ok by (simp add: live_in_def demo_task_def)
qed

text \<open>
  The board limit can be passed: for a company at its limit the unarchive endpoint refuses an
  archived board, but a PATCH that only writes \<open>is_archived\<close> brings it back and the company has one
  active board more than its plan allows.
\<close>

theorem patch_passes_the_board_limit:
  assumes "crm_inv s" "crm_permission u = None" "get_board s u True k = Inr b" "bo_is_archived b"
    and "tbl_get co_id (bo_company b) (ac_companies (cr_acc s)) = Some co"
    and "board_count s (bo_company b) = co_max_boards co"
  shows "unarchive_board u k s = Inl (raise_validation_error ''detail'' ''crm.board_unarchive_limit'')
    \<and> (\<exists>s'. patch_board u True k \<lparr>bq_name = None, bq_description = None, bq_is_archived = Some False,
           bq_template_id = None\<rparr> s = Inr s' \<and> board_count s' (bo_company b) = co_max_boards co + 1)"
proof -
  let ?rq = "\<lparr>bq_name = None, bq_description = None, bq_is_archived = Some False, bq_template_id = None\<rparr>"
  have wf: "tbl_wf bo_id (cr_boards s)" using assms(1) by (simp add: crm_inv_def)
  have "find (\<lambda>b. bo_id b = k) (board_queryset s u True None) = Some b"
    using assms(3) by (auto simp: get_board_def split: option.splits)
  then have b: "b \<in> set (rows (cr_boards s))" "bo_id b = k" "u_role u = Superadmin \<or> u_company u = Some (bo_company b)"
    using find_SomeD[of "\<lambda>b. bo_id b = k" "board_queryset s u True None" b]
    by (auto simp: board_queryset_def split: if_splits option.splits)
  have get: "tbl_get bo_id k (cr_boards s) = Some b" using tbl_get_row[OF wf b(1)] b(2) by simp
  have "own_board s u k = Some b" using get b(3) by (auto simp: own_board_def board_of_def)
  then have refused: "unarchive_board u k s = Inl (raise_validation_error ''detail'' ''crm.board_unarchive_limit'')"
    using assms(2,4,5,6) by (simp add: unarchive_board_def)
  let ?b' = "patched_board ?rq b"
  let ?P = "\<lambda>x. bo_company x = bo_company b \<and> \<not> bo_is_archived x"
  have new: "?P ?b'" "bo_id ?b' = k" using b(2) by (simp_all add: patched_board_def)
  have "length (filter ?P (rows (tbl_save bo_id ?b' (cr_boards s)))) = length (filter ?P (rows (cr_boards s))) + 1"
    using tbl_save_count[OF wf, of ?b' b ?P] get new assms(4) by simp
  then have "board_count (s\<lparr>cr_boards := tbl_save bo_id ?b' (cr_boards s)\<rparr>) (bo_company b) = co_max_boards co + 1"
    using assms(6) by (simp add: board_count_def tbl_filter_def)
  moreover have "patch_board u True k ?rq s = Inr (s\<lparr>cr_boards := tbl_save bo_id ?b' (cr_boards s)\<rparr>)"
    using assms(2,3) by (simp add: patch_board_def)
  ultimately show ?thesis using refused by blast
qed

theorem patch_passes_the_board_limit_witness:
  "\<exists>s'. patch_board (demo_user 2 Employee (Some 1)) True 9 \<lparr>bq_name = None, bq_description = None,
      bq_is_archived = Some False, bq_template_id = None\<rparr>
      ((demo_crm [])\<lparr>cr_boards := Table [demo_board 1 1, demo_board 2 2, (demo_board 9 1)\<lparr>bo_is_archived := True\<rparr>] 10\<rparr>) = Inr s'
    \<and> board_count s' 1 = 2"
proof -
  let ?b = "(demo_board 9 1)\<lparr>bo_is_archived := True\<rparr>"
  let ?s = "(demo_crm [])\<lparr>cr_boards := Table [demo_board 1 1, demo_board 2 2, ?b] 10\<rparr>"
  have inv: "crm_inv ?s"
    by (auto simp: crm_inv_def demo_crm_def demo_board_def demo_column_def tbl_wf_def wip_ok_def wip_count_def)
  have pre: "crm_permission (demo_user 2 Employee (Some 1)) = None"
    "get_board ?s (demo_user 2 Employee (Some 1)) True 9 = Inr ?b"
    "tbl_get co_id (bo_company ?b) (ac_companies (cr_acc ?s)) = Some demo_company"
    "board_count ?s (bo_company ?b) = co_max_boards demo_company" "bo_is_archived ?b" by code_simp+
  have vals: "bo_company ?b = 1" "co_max_boards demo_company = 1" by (simp_all add: demo_board_def demo_company_def)
  show ?thesis using patch_passes_the_board_limit[OF inv pre(1,2,5,3,4)] vals by auto
qed

section \<open>History\<close>

definition entry_of :: "task_history \<Rightarrow> history_entry" where
  "entry_of h = (th_action h, th_field h, th_old h, th_new h)"

lemma history_rows:
  "map entry_of (rows (cr_history (fold (add_history u k) es s))) = map entry_of (rows (cr_history s)) @ es"
  "cr_tasks (fold (add_history u k) es s) = cr_tasks s"
  by (induction es arbitrary: s) (auto simp: add_history_def entry_of_def)

text \<open>
  A valid update stores the task and adds one history row for exactly each tracked field the
  request sent whose shown value changed, and one for each label added or removed; if a shown value is
  longer than the 255 characters of the history columns (a title may have 500), the whole update fails
  with a server error.
\<close>

theorem update_writes_history:
  assumes "crm_permission u = None" "get_task s u True k = Inr old" "validate_task s u partial (Some old) rq = None"
  shows "if list_all entry_fits (history_entries s rq old (patched_task rq old))
    then \<exists>s'. update_task off now done u partial k rq s = Inr s'
       \<and> cr_tasks s' = tbl_save tk_id (patched_task rq old) (cr_tasks s)
       \<and> map entry_of (rows (cr_history s')) = map entry_of (rows (cr_history s)) @ history_entries s rq old (patched_task rq old)
    else update_task off now done u partial k rq s = Inl ServerError"
  using assms history_rows[of u k "history_entries s rq old (patched_task rq old)"
      "s\<lparr>cr_tasks := tbl_save tk_id (patched_task rq old) (cr_tasks s)\<rparr>"]
  by (auto simp: update_task_def write_history_def guarded_def require_def Let_def)

theorem update_writes_history_witness:
  "update_task 0 100 ''Done'' (demo_user 2 Employee (Some 1)) True 5
     (demo_task_request None None (Some (replicate 256 CHR ''a''))) (demo_crm [demo_task 5 1 1]) = Inl ServerError
   \<and> (\<exists>s'. update_task 0 100 ''Done'' (demo_user 2 Employee (Some 1)) True 5
     (demo_task_request None None (Some ''New'')) (demo_crm [demo_task 5 1 1]) = Inr s'
     \<and> map entry_of (rows (cr_history s')) = [(''updated'', ''title'', Str ''Task'', Str ''New'')])"
proof -
  let ?u = "demo_user 2 Employee (Some 1)"
  let ?s = "demo_crm [demo_task 5 1 1]"
  let ?long = "demo_task_request None None (Some (replicate 256 CHR ''a''))"
  let ?short = "demo_task_request None None (Some ''New'')"
  have pre: "crm_permission ?u = None" "get_task ?s ?u True 5 = Inr (demo_task 5 1 1)"
    "validate_task ?s ?u True (Some (demo_task 5 1 1)) ?long = None"
    "validate_task ?s ?u True (Some (demo_task 5 1 1)) ?short = None" by code_simp+
  have "\<not> list_all entry_fits (history_entries ?s ?long (demo_task 5 1 1) (patched_task ?long (demo_task 5 1 1)))"
    "list_all entry_fits (history_entries ?s ?short (demo_task 5 1 1) (patched_task ?short (demo_task 5 1 1)))"
    "history_entries ?s ?short (demo_task 5 1 1) (patched_task ?short (demo_task 5 1 1))
      = [(''updated'', ''title'', Str ''Task'', Str ''New'')]"
    "map entry_of (rows (cr_history ?s)) = []" by code_simp+
  then show ?thesis
    using update_writes_history[OF pre(1,2,3), of 0 100 "''Done''"] update_writes_history[OF pre(1,2,4), of 0 100 "''Done''"]
    by auto
qed

end
