(* ===== verification/CrmIsolation.thy ===== *)
theory CrmIsolation
  imports CrmProps
begin

text \<open>
  No operation on boards, columns, tasks or labels by a member of one company touches the rows of
  another company.
\<close>

section \<open>Isolation of the companies\<close>

text \<open>What belongs to company \<open>c\<close>: its boards, their columns, the tasks of these, and its labels.\<close>

definition company_boards :: "crm_state \<Rightarrow> nat \<Rightarrow> board list" where
  "company_boards s c = filter (\<lambda>b. bo_company b = c) (rows (cr_boards s))"

definition company_columns :: "crm_state \<Rightarrow> nat \<Rightarrow> kcolumn list" where
  "company_columns s c = filter (\<lambda>x. cl_board x \<in> bo_id ` set (company_boards s c)) (rows (cr_columns s))"

definition company_tasks :: "crm_state \<Rightarrow> nat \<Rightarrow> task list" where
  "company_tasks s c = filter (\<lambda>t. tk_column t \<in> cl_id ` set (company_columns s c)) (rows (cr_tasks s))"

definition company_labels :: "crm_state \<Rightarrow> nat \<Rightarrow> label list" where
  "company_labels s c = filter (\<lambda>l. lb_company l = c) (rows (cr_labels s))"

definition company_view :: "crm_state \<Rightarrow> nat \<Rightarrow> board list \<times> kcolumn list \<times> task list \<times> label list" where
  "company_view s c = (company_boards s c, company_columns s c, company_tasks s c, company_labels s c)"

primrec crm_actor :: "crm_op \<Rightarrow> user option" where
  "crm_actor (Op_create_board now u rq) = Some u"
| "crm_actor (Op_patch_board u ia k rq) = Some u"
| "crm_actor (Op_destroy_board u ia k) = Some u"
| "crm_actor (Op_archive_board u k) = Some u"
| "crm_actor (Op_unarchive_board u k) = Some u"
| "crm_actor (Op_create_column u b name wip) = Some u"
| "crm_actor (Op_update_column u b k rq) = Some u"
| "crm_actor (Op_destroy_column u b k mv) = Some u"
| "crm_actor (Op_reorder_columns u b ids) = Some u"
| "crm_actor (Op_create_task off now done u rq) = Some u"
| "crm_actor (Op_update_task off now done u partial k rq) = Some u"
| "crm_actor (Op_destroy_task now u k) = Some u"
| "crm_actor (Op_move_task now u k c order) = Some u"
| "crm_actor (Op_archive_task now u k) = Some u"
| "crm_actor (Op_unarchive_task u k) = Some u"
| "crm_actor (Op_create_label u cp name color) = Some u"
| "crm_actor (Op_update_label u cp k name color) = Some u"
| "crm_actor (Op_destroy_label u k) = Some u"
| "crm_actor (Op_deadline_approaching off now done) = None"
| "crm_actor (Op_deadline_overdue off now done) = None"

lemma filter_update:
  "(\<And>r. r \<in> set xs \<Longrightarrow> P r \<Longrightarrow> \<not> Q r \<and> \<not> Q (f r)) \<Longrightarrow> filter Q (map (\<lambda>r. if P r then f r else r) xs) = filter Q xs"
  by (induction xs) auto

lemma filter_delete:
  "(\<And>r. r \<in> set xs \<Longrightarrow> P r \<Longrightarrow> \<not> Q r) \<Longrightarrow> filter Q (filter (\<lambda>r. \<not> P r) xs) = filter Q xs"
  by (induction xs) auto

text \<open>Boards and columns of other companies than \<open>c\<close>.\<close>

definition foreign_board :: "crm_state \<Rightarrow> nat \<Rightarrow> nat \<Rightarrow> bool" where
  "foreign_board s c b \<longleftrightarrow> b \<notin> bo_id ` set (company_boards s c)"

definition foreign_column :: "crm_state \<Rightarrow> nat \<Rightarrow> nat \<Rightarrow> bool" where
  "foreign_column s c k \<longleftrightarrow> k \<notin> cl_id ` set (company_columns s c)"

lemma foreign_cong:
  "company_view s' c = company_view s c \<Longrightarrow> foreign_board s' c = foreign_board s c"
  "company_view s' c = company_view s c \<Longrightarrow> foreign_column s' c = foreign_column s c"
  by (auto simp: company_view_def foreign_board_def foreign_column_def fun_eq_iff)

lemma foreign_boardI:
  assumes "crm_inv s" "board_of s b = Some bo" "bo_company bo \<noteq> c"
  shows "foreign_board s c b"
  unfolding foreign_board_def
proof
  assume "b \<in> bo_id ` set (company_boards s c)"
  then obtain y where y: "y \<in> set (rows (cr_boards s))" "bo_company y = c" "b = bo_id y"
    unfolding company_boards_def by (auto elim: imageE)
  have "board_of s b = Some y" unfolding y(3) by (rule board_of_row[OF assms(1) y(1)])
  then show False using assms(2,3) y(2) by simp
qed

lemma foreign_columnI:
  assumes "crm_inv s" "column_of s k = Some x" "foreign_board s c (cl_board x)"
  shows "foreign_column s c k"
  unfolding foreign_column_def
proof
  assume "k \<in> cl_id ` set (company_columns s c)"
  then obtain y where y: "y \<in> set (rows (cr_columns s))" "cl_board y \<in> bo_id ` set (company_boards s c)" "k = cl_id y"
    unfolding company_columns_def by (auto elim: imageE)
  have "column_of s k = Some y" unfolding y(3) by (rule column_of_row[OF assms(1) y(1)])
  then show False using assms(2,3) y(2) by (simp add: foreign_board_def)
qed

lemma foreign_column_row:
  "crm_inv s \<Longrightarrow> x \<in> set (rows (cr_columns s)) \<Longrightarrow> foreign_board s c (cl_board x) \<Longrightarrow> foreign_column s c (cl_id x)"
  using column_of_row[of s x] foreign_columnI by blast

lemma view_frame [simp]:
  "company_view (s\<lparr>cr_nt := x\<rparr>) c = company_view s c" "company_view (s\<lparr>cr_history := h\<rparr>) c = company_view s c"
  by (simp_all add: company_view_def company_boards_def company_columns_def company_tasks_def company_labels_def)

lemma view_update_tasks:
  assumes "\<And>t. t \<in> set (rows (cr_tasks s)) \<Longrightarrow> P t \<Longrightarrow> foreign_column s c (tk_column t) \<and> foreign_column s c (tk_column (f t))"
  shows "company_view (s\<lparr>cr_tasks := tbl_update P f (cr_tasks s)\<rparr>) c = company_view s c"
proof -
  have "filter (\<lambda>t. tk_column t \<in> cl_id ` set (company_columns s c)) (map (\<lambda>r. if P r then f r else r) (rows (cr_tasks s)))
      = filter (\<lambda>t. tk_column t \<in> cl_id ` set (company_columns s c)) (rows (cr_tasks s))"
    by (rule filter_update) (use assms in \<open>auto simp: foreign_column_def\<close>)
  then show ?thesis
    by (simp add: company_view_def company_boards_def company_columns_def company_tasks_def company_labels_def)
qed

lemma view_save_task:
  assumes "crm_inv s" "tbl_get tk_id (tk_id t) (cr_tasks s) = Some old"
    "foreign_column s c (tk_column old)" "foreign_column s c (tk_column t)"
  shows "company_view (s\<lparr>cr_tasks := tbl_save tk_id t (cr_tasks s)\<rparr>) c = company_view s c"
  unfolding tbl_save_def
proof (rule view_update_tasks)
  fix x assume "x \<in> set (rows (cr_tasks s))" "tk_id x = tk_id t"
  then have "x = old" using assms(1,2) tbl_get_row[of tk_id "cr_tasks s" x] by (simp add: crm_inv_def)
  then show "foreign_column s c (tk_column x) \<and> foreign_column s c (tk_column t)" using assms(3,4) by simp
qed

lemma view_normalize: "foreign_column s c d \<Longrightarrow> company_view (normalize_positions d s) c = company_view s c"
  unfolding normalize_positions_def by (rule view_update_tasks) (simp add: live_in_def)

lemma view_insert_task:
  "foreign_column s c (tk_column (mk (next_id (cr_tasks s)))) \<Longrightarrow>
   company_view (s\<lparr>cr_tasks := tbl_insert mk (cr_tasks s)\<rparr>) c = company_view s c"
  by (simp add: company_view_def company_boards_def company_columns_def company_tasks_def company_labels_def foreign_column_def)

lemma view_columns:
  assumes "filter (\<lambda>x. cl_board x \<in> bo_id ` set (company_boards s c)) (rows C) = company_columns s c"
  shows "company_view (s\<lparr>cr_columns := C\<rparr>) c = company_view s c"
  using assms
  by (simp add: company_view_def company_boards_def company_columns_def company_tasks_def company_labels_def)

lemma view_update_columns:
  assumes "\<And>x. x \<in> set (rows (cr_columns s)) \<Longrightarrow> P x \<Longrightarrow> foreign_board s c (cl_board x) \<and> foreign_board s c (cl_board (f x))"
  shows "company_view (s\<lparr>cr_columns := tbl_update P f (cr_columns s)\<rparr>) c = company_view s c"
proof (rule view_columns)
  have "filter (\<lambda>x. cl_board x \<in> bo_id ` set (company_boards s c)) (map (\<lambda>r. if P r then f r else r) (rows (cr_columns s)))
      = filter (\<lambda>x. cl_board x \<in> bo_id ` set (company_boards s c)) (rows (cr_columns s))"
    by (rule filter_update) (use assms in \<open>auto simp: foreign_board_def\<close>)
  then show "filter (\<lambda>x. cl_board x \<in> bo_id ` set (company_boards s c)) (rows (tbl_update P f (cr_columns s)))
      = company_columns s c"
    by (simp add: company_columns_def)
qed

lemma view_insert_column:
  "foreign_board s c (cl_board (mk (next_id (cr_columns s)))) \<Longrightarrow>
   company_view (s\<lparr>cr_columns := tbl_insert mk (cr_columns s)\<rparr>) c = company_view s c"
  by (rule view_columns) (simp add: company_columns_def foreign_board_def)

lemma view_delete_columns:
  assumes inv: "crm_inv s" and P: "\<And>x. x \<in> set (rows (cr_columns s)) \<Longrightarrow> P x \<Longrightarrow> foreign_board s c (cl_board x)"
  shows "company_view (delete_columns P s) c = company_view s c"
proof -
  let ?CB = "bo_id ` set (company_boards s c)"
  have boards: "company_boards (delete_columns P s) c = company_boards s c" by (simp add: company_boards_def)
  have "filter (\<lambda>x. cl_board x \<in> ?CB) (filter (\<lambda>x. \<not> P x) (rows (cr_columns s))) = filter (\<lambda>x. cl_board x \<in> ?CB) (rows (cr_columns s))"
    by (rule filter_delete) (use P in \<open>auto simp: foreign_board_def\<close>)
  then have columns: "company_columns (delete_columns P s) c = company_columns s c"
    by (simp add: company_columns_def boards)
  let ?CC = "cl_id ` set (company_columns s c)"
  have "filter (\<lambda>t. tk_column t \<in> ?CC) (filter (\<lambda>t. \<not> (\<exists>x \<in> set (rows (cr_columns s)). P x \<and> tk_column t = cl_id x)) (rows (cr_tasks s)))
      = filter (\<lambda>t. tk_column t \<in> ?CC) (rows (cr_tasks s))"
  proof (rule filter_delete)
    fix t assume "\<exists>x \<in> set (rows (cr_columns s)). P x \<and> tk_column t = cl_id x"
    then obtain x where "x \<in> set (rows (cr_columns s))" "P x" "tk_column t = cl_id x" by blast
    then show "tk_column t \<notin> ?CC" using foreign_column_row[OF inv, of x c] P by (simp add: foreign_column_def)
  qed
  then have "company_tasks (delete_columns P s) c = company_tasks s c"
    by (simp add: company_tasks_def columns delete_columns_tasks)
  then show ?thesis by (simp add: company_view_def boards columns company_labels_def)
qed

lemma view_boards:
  assumes "filter (\<lambda>b. bo_company b = c) (rows B) = company_boards s c"
  shows "company_view (s\<lparr>cr_boards := B\<rparr>) c = company_view s c"
  using assms
  by (simp add: company_view_def company_boards_def company_columns_def company_tasks_def company_labels_def)

lemma view_save_board:
  assumes "crm_inv s" "board_of s (bo_id b) = Some old" "bo_company old \<noteq> c" "bo_company b \<noteq> c"
  shows "company_view (s\<lparr>cr_boards := tbl_save bo_id b (cr_boards s)\<rparr>) c = company_view s c"
proof (rule view_boards)
  have "filter (\<lambda>b. bo_company b = c) (map (\<lambda>r. if bo_id r = bo_id b then b else r) (rows (cr_boards s)))
      = filter (\<lambda>b. bo_company b = c) (rows (cr_boards s))"
    by (rule filter_update) (use assms board_of_row[OF assms(1)] in force)
  then show "filter (\<lambda>b. bo_company b = c) (rows (tbl_save bo_id b (cr_boards s))) = company_boards s c"
    by (simp add: tbl_save_def company_boards_def)
qed

lemma view_labels:
  assumes "filter (\<lambda>l. lb_company l = c) (rows L) = company_labels s c"
  shows "company_view (s\<lparr>cr_labels := L\<rparr>) c = company_view s c"
  using assms
  by (simp add: company_view_def company_boards_def company_columns_def company_tasks_def company_labels_def)

subsection \<open>Each operation stays outside\<close>

definition outsider :: "user \<Rightarrow> nat \<Rightarrow> bool" where
  "outsider u c \<longleftrightarrow> u_role u \<noteq> Superadmin \<and> u_company u \<noteq> None \<and> u_company u \<noteq> Some c"

lemma own_task_foreign:
  assumes "crm_inv s" "outsider u c" "get_task s u a k = Inr t"
  shows "foreign_column s c (tk_column t)"
proof -
  have "task_visible s u a t" using get_task_SomeD[OF assms(3)] by simp
  then obtain d b x where "u_company u = Some d" "column_of s (tk_column t) = Some x" "board_of s (cl_board x) = Some b"
    "bo_company b = d"
    using assms(2) by (auto simp: task_visible_def outsider_def board_of_task_def split: option.splits)
  then show ?thesis using assms(1,2) foreign_columnI[of s "tk_column t" x c] foreign_boardI[of s "cl_board x" b c]
    by (auto simp: outsider_def)
qed

lemma own_board_foreign:
  assumes "crm_inv s" "outsider u c" "get_board_or_403 s u b = Inr bo"
  shows "foreign_board s c b"
  using assms(2) get_board_or_403_SomeD[OF assms(3)] foreign_boardI[OF assms(1), of b bo c]
  by (auto simp: outsider_def)

lemma validated_column_foreign:
  assumes inv: "crm_inv s" and out: "outsider u c" and valid: "validate_task s u partial inst rq = None"
    and col: "tq_column rq = Some k" and inst: "\<And>t. inst = Some t \<Longrightarrow> get_task s u a j = Inr t"
  shows "foreign_column s c k"
  using valid
proof (rule validate_task_ok)
  fix bo
  assume bo: "validated_board s u inst rq = Inr bo"
    and board: "\<And>k. tq_column rq = Some k \<Longrightarrow> map_option cl_board (column_of s k) = Some (bo_id bo)"
  obtain x where x: "column_of s k = Some x" "cl_board x = bo_id bo" using board[OF col] by auto
  have row: "board_of s (bo_id bo) = Some bo \<and> bo_company bo \<noteq> c"
  proof (cases "tq_board rq")
    case (Some b)
    then have "board_of s b = Some bo" "own_company u = None \<or> own_company u = Some (bo_company bo)"
      using bo by (auto simp: validated_board_def split: option.splits if_splits)
    then show ?thesis
      using out board_of_SomeD[of s b bo] by (auto simp: own_company_def outsider_def)
  next
    case None
    then obtain t where t: "inst = Some t" "board_of_task s t = Some bo"
      using bo by (auto simp: validated_board_def split: option.splits)
    have "task_visible s u a t" using get_task_SomeD[OF inst[OF t(1)]] by simp
    then show ?thesis
      using out t(2) board_of_SomeD[of s _ bo]
      by (auto simp: task_visible_def outsider_def board_of_task_def split: option.splits)
  qed
  then show ?thesis using x foreign_columnI[OF inv x(1), of c] foreign_boardI[OF inv, of "bo_id bo" bo c] by simp
qed

lemma create_task_view:
  assumes inv: "crm_inv s" and out: "outsider u c" and ok: "create_task off now done u rq s = Inr s'"
  shows "company_view s' c = company_view s c"
  using ok
proof (rule create_task_ok)
  fix k title
  let ?s1 = "s\<lparr>cr_tasks := tbl_insert (new_task now u k title rq) (cr_tasks s)\<rparr>"
  assume valid: "validate_task s u False None rq = None" and col: "tq_column rq = Some k"
    and s': "s' = (normalize_positions k ?s1)\<lparr>cr_nt := cr_nt s'\<rparr>"
  have k: "foreign_column s c k" by (rule validated_column_foreign[OF inv out valid col]) simp
  then have v1: "company_view ?s1 c = company_view s c" by (intro view_insert_task) (simp add: new_task_def)
  then have "foreign_column ?s1 c k" using k foreign_cong(2)[OF v1] by simp
  then have "company_view (normalize_positions k ?s1) c = company_view s c" using v1 by (simp add: view_normalize)
  then show ?thesis by (subst s') simp
qed

lemma update_task_view:
  assumes inv: "crm_inv s" and out: "outsider u c" and ok: "update_task off now done u partial k rq s = Inr s'"
  shows "company_view s' c = company_view s c"
  using ok
proof (rule update_task_ok)
  fix old h
  assume old: "get_task s u True k = Inr old" and valid: "validate_task s u partial (Some old) rq = None"
    and s': "s' = s\<lparr>cr_tasks := tbl_save tk_id (patched_task rq old) (cr_tasks s), cr_history := h, cr_nt := cr_nt s'\<rparr>"
  have get: "tbl_get tk_id (tk_id (patched_task rq old)) (cr_tasks s) = Some old" using get_task_SomeD[OF old] by simp
  have f: "foreign_column s c (tk_column old)" by (rule own_task_foreign[OF inv out old])
  have "foreign_column s c (tk_column (patched_task rq old))"
    using f validated_column_foreign[OF inv out valid, of _ True k] old by (auto simp: patched_task_def split: option.split)
  then have "company_view (s\<lparr>cr_tasks := tbl_save tk_id (patched_task rq old) (cr_tasks s)\<rparr>) c = company_view s c"
    by (rule view_save_task[OF inv get f])
  then show ?thesis by (subst s') simp
qed

lemma save_normalize_view:
  assumes "crm_inv s" "tbl_get tk_id (tk_id t) (cr_tasks s) = Some old"
    "foreign_column s c (tk_column old)" "foreign_column s c (tk_column t)" "foreign_column s c d"
  shows "company_view (normalize_positions d (save_task t s)) c = company_view s c"
proof -
  have v: "company_view (save_task t s) c = company_view s c"
    using view_save_task[OF assms(1-4)] by (simp add: save_task_def)
  then show ?thesis using view_normalize[of "save_task t s" c d] foreign_cong(2)[OF v] assms(5) by simp
qed

lemma hide_tasks_view:
  assumes inv: "crm_inv s" and out: "outsider u c"
  shows "destroy_task now u k s = Inr s' \<Longrightarrow> company_view s' c = company_view s c"
    and "archive_task now u k s = Inr s' \<Longrightarrow> company_view s' c = company_view s c"
    and "unarchive_task u k s = Inr s' \<Longrightarrow> company_view s' c = company_view s c"
proof -
  have *: "company_view (normalize_positions (tk_column t) (save_task t' s)) c = company_view s c"
    if "get_task s u a k = Inr t" "tk_id t' = tk_id t" "tk_column t' = tk_column t" for t t' a
    using own_task_foreign[OF inv out that(1)] get_task_SomeD[OF that(1)] that(2,3)
    by (intro save_normalize_view[OF inv, where old = t]) auto
  show "company_view s' c = company_view s c" if "destroy_task now u k s = Inr s'"
    using that by (rule destroy_task_ok) (use * in \<open>simp add: task_delete_def\<close>)
  show "company_view s' c = company_view s c" if "archive_task now u k s = Inr s'"
    using that by (rule archive_task_ok) (use * in \<open>simp add: task_delete_def\<close>)
  show "company_view s' c = company_view s c" if "unarchive_task u k s = Inr s'"
    using that by (rule unarchive_task_ok) (use * in \<open>simp add: unarchived_def\<close>)
qed

lemma move_task_view:
  assumes inv: "crm_inv s" and out: "outsider u c" and ok: "move_task now u k d order s = Inr s'"
  shows "company_view s' c = company_view s c"
  using ok
proof (rule move_task_ok)
  fix t :: task and target :: kcolumn and h
  let ?t1 = "t\<lparr>tk_column := d, tk_position := move_position s d k order\<rparr>"
  assume t: "get_task s u False k = Inr t" and target: "column_of s d = Some target" and valid: "move_error s u t target = None"
    and s': "s' = (normalize_positions d (normalize_positions (tk_column t) (save_task ?t1 s)))
      \<lparr>cr_history := h, cr_nt := cr_nt s'\<rparr>"
  have f: "foreign_column s c (tk_column t)" by (rule own_task_foreign[OF inv out t])
  obtain bo where "board_of s (cl_board target) = Some bo" "bo_company bo \<noteq> c"
    using valid out by (auto simp: move_error_def outsider_def)
  then have fd: "foreign_column s c d"
    using foreign_boardI[OF inv, of "cl_board target" bo c] foreign_columnI[OF inv target] by simp
  have v: "company_view (normalize_positions (tk_column t) (save_task ?t1 s)) c = company_view s c"
    using get_task_SomeD[OF t] f fd by (intro save_normalize_view[OF inv, where old = t]) auto
  then have "company_view (normalize_positions d (normalize_positions (tk_column t) (save_task ?t1 s))) c = company_view s c"
    using view_normalize foreign_cong(2)[OF v] fd by simp
  then show ?thesis by (subst s') simp
qed

lemma save_own_board_view:
  assumes "crm_inv s" "outsider u c" "board_of s k = Some b" "u_company u = Some (bo_company b)"
    "bo_id b' = bo_id b" "bo_company b' = bo_company b"
  shows "company_view (s\<lparr>cr_boards := tbl_save bo_id b' (cr_boards s)\<rparr>) c = company_view s c"
  using assms board_of_SomeD[OF assms(3)]
  by (intro view_save_board[where old = b]) (auto simp: outsider_def)

lemma get_board_SomeD:
  assumes "crm_inv s" "outsider u c" "get_board s u ia k = Inr b"
  shows "board_of s k = Some b" "u_company u = Some (bo_company b)"
proof -
  have "find (\<lambda>b. bo_id b = k) (board_queryset s u ia None) = Some b"
    using assms(3) by (auto simp: get_board_def split: option.splits)
  then have b: "b \<in> set (board_queryset s u ia None)" "bo_id b = k"
    using find_SomeD[of "\<lambda>b. bo_id b = k" "board_queryset s u ia None" b] by simp_all
  then show "u_company u = Some (bo_company b)" "board_of s k = Some b"
    using assms(2) board_of_row[OF assms(1), of b]
    by (auto simp: board_queryset_def outsider_def split: option.splits)
qed

lemma add_template_column_view:
  assumes "company_view s0 c = company_view s c \<and> foreign_board s0 c b"
  shows "company_view (add_template_column b ik s0) c = company_view s c \<and> foreign_board (add_template_column b ik s0) c b"
proof -
  obtain i key where ik: "ik = (i, key)" by (cases ik)
  have v: "company_view (add_template_column b ik s0) c = company_view s0 c"
    unfolding ik add_template_column_def prod.case using assms by (intro view_insert_column) simp
  then show ?thesis using assms foreign_cong(1)[OF v] by simp
qed

lemma create_board_view:
  assumes inv: "crm_inv s" and out: "outsider u c" and ok: "create_board now u rq s = Inr s'"
  shows "company_view s' c = company_view s c"
proof -
  obtain co name where co: "crm_permission u = None" "company_of (cr_acc s) u = Some co" "bq_name rq = Some name"
    "\<not> co_max_boards co \<le> board_count s (co_id co)"
    using ok by (auto simp: create_board_def split: option.splits if_splits)
  let ?s1 = "s\<lparr>cr_boards := tbl_insert (new_board u (co_id co) name rq) (cr_boards s)\<rparr>"
  let ?b = "next_id (cr_boards s)"
  have s': "s' = (fold (add_template_column ?b) (enumerate 0 (template_columns (bq_template_id rq))) ?s1)\<lparr>cr_nt := cr_nt s'\<rparr>"
    using ok co by (auto simp: create_board_def Let_def)
  have own: "co_id co \<noteq> c"
    using co(2) out by (auto simp: company_of_def outsider_def dest: tbl_get_SomeD split: bind_splits)
  then have v1: "company_view ?s1 c = company_view s c"
    by (intro view_boards) (simp add: company_boards_def new_board_def)
  have "foreign_board s c ?b"
    using inv by (auto simp: foreign_board_def company_boards_def crm_inv_def tbl_wf_def list_all_iff)
  then have "company_view ?s1 c = company_view s c \<and> foreign_board ?s1 c ?b"
    using v1 foreign_cong(1)[OF v1] by simp
  then have "company_view (fold (add_template_column ?b) (enumerate 0 (template_columns (bq_template_id rq))) ?s1) c = company_view s c"
    using fold_inv[of "\<lambda>s0. company_view s0 c = company_view s c \<and> foreign_board s0 c ?b" ?s1 "add_template_column ?b"]
      add_template_column_view by blast
  then show ?thesis by (subst s') simp
qed

lemma destroy_board_view:
  assumes inv: "crm_inv s" and out: "outsider u c" and ok: "destroy_board u ia k s = Inr s'"
  shows "company_view s' c = company_view s c"
proof -
  let ?s1 = "delete_columns (\<lambda>c. cl_board c = k) s"
  obtain b where b: "get_board s u ia k = Inr b"
    "s' = ?s1\<lparr>cr_boards := tbl_delete (\<lambda>b. bo_id b = k) (cr_boards ?s1)\<rparr>"
    using ok by (auto simp: destroy_board_def Let_def split: option.splits sum.splits)
  note own = get_board_SomeD[OF inv out b(1)]
  have k: "foreign_board s c k" using foreign_boardI[OF inv own(1), of c] own(2) out by (auto simp: outsider_def)
  then have v1: "company_view ?s1 c = company_view s c" by (intro view_delete_columns[OF inv]) simp
  have "filter (\<lambda>b. bo_company b = c) (filter (\<lambda>b. \<not> bo_id b = k) (rows (cr_boards s))) = filter (\<lambda>b. bo_company b = c) (rows (cr_boards s))"
    by (rule filter_delete) (use k in \<open>auto simp: foreign_board_def company_boards_def\<close>)
  then have "company_view (?s1\<lparr>cr_boards := tbl_delete (\<lambda>b. bo_id b = k) (cr_boards ?s1)\<rparr>) c = company_view ?s1 c"
    by (intro view_boards) (simp add: company_boards_def)
  then show ?thesis using v1 b(2) by simp
qed

lemma board_ops_view:
  assumes inv: "crm_inv s" and out: "outsider u c"
  shows "patch_board u ia k rq s = Inr s' \<Longrightarrow> company_view s' c = company_view s c"
    and "archive_board u k s = Inr s' \<Longrightarrow> company_view s' c = company_view s c"
    and "unarchive_board u k s = Inr s' \<Longrightarrow> company_view s' c = company_view s c"
proof -
  have *: "company_view (s\<lparr>cr_boards := tbl_save bo_id (b\<lparr>bo_is_archived := x\<rparr>) (cr_boards s)\<rparr>) c = company_view s c"
    if "own_board s u k = Some b" for b x
    using that out
    by (intro save_own_board_view[OF inv out, of k b]) (auto simp: own_board_def outsider_def split: option.splits if_splits)
  show "archive_board u k s = Inr s' \<Longrightarrow> company_view s' c = company_view s c"
    using * by (auto simp: archive_board_def split: option.splits)
  show "unarchive_board u k s = Inr s' \<Longrightarrow> company_view s' c = company_view s c"
    using * by (auto simp: unarchive_board_def split: option.splits if_splits)
  assume "patch_board u ia k rq s = Inr s'"
  then obtain b where b: "get_board s u ia k = Inr b" "s' = s\<lparr>cr_boards := tbl_save bo_id (patched_board rq b) (cr_boards s)\<rparr>"
    by (auto simp: patch_board_def split: option.splits sum.splits)
  show "company_view s' c = company_view s c"
    unfolding b(2) by (rule save_own_board_view[OF inv out get_board_SomeD[OF inv out b(1)]]) (simp_all add: patched_board_def)
qed

lemma same_column:
  "crm_inv s \<Longrightarrow> x \<in> set (rows (cr_columns s)) \<Longrightarrow> y \<in> set (rows (cr_columns s)) \<Longrightarrow> cl_id x = cl_id y \<Longrightarrow> x = y"
  by (metis column_of_row option.inject)

lemma create_column_view:
  assumes inv: "crm_inv s" and out: "outsider u c" and ok: "create_column u b name wip s = Inr s'"
  shows "company_view s' c = company_view s c"
proof -
  obtain bo w where bo: "get_board_or_403 s u b = Inr bo"
    and s': "s' = s\<lparr>cr_columns := tbl_insert (\<lambda>k. \<lparr>cl_id = k, cl_board = b, cl_name = name,
                      cl_position = last_position s b + 1, cl_wip_limit = w\<rparr>) (cr_columns s)\<rparr>"
    using ok by (auto simp: create_column_def Let_def split: option.splits sum.splits if_splits)
  show ?thesis unfolding s' using own_board_foreign[OF inv out bo] by (intro view_insert_column) simp
qed

lemma update_column_view:
  assumes inv: "crm_inv s" and out: "outsider u c" and ok: "update_column u b k rq s = Inr s'"
  shows "company_view s' c = company_view s c"
proof -
  obtain bo x where x: "get_board_or_403 s u b = Inr bo" "find (\<lambda>x. cl_id x = k) (board_columns s b) = Some x"
    "s' = perform_update_column x rq s"
    using ok by (auto simp: update_column_def split: option.splits sum.splits)
  have b: "foreign_board s c b" by (rule own_board_foreign[OF inv out x(1)])
  note row = board_column_SomeD[OF x(2)]
  have save: "company_view (s1\<lparr>cr_columns := tbl_save cl_id (patched_column rq p x) (cr_columns s1)\<rparr>) c = company_view s c"
    if "company_view s1 c = company_view s c" "\<forall>y \<in> set (rows (cr_columns s1)). cl_id y = cl_id x \<longrightarrow> cl_board y = b" for p s1
    unfolding tbl_save_def that(1)[symmetric]
    by (rule view_update_columns) (use that b row foreign_cong(1)[OF that(1)] in \<open>auto simp: patched_column_def\<close>)
  have same: "\<forall>y \<in> set (rows (cr_columns s)). cl_id y = cl_id x \<longrightarrow> cl_board y = b"
  proof (intro ballI impI)
    fix y assume "y \<in> set (rows (cr_columns s))" "cl_id y = cl_id x"
    then have "x = y" using row by (intro same_column[OF inv]) simp_all
    then show "cl_board y = b" using row by simp
  qed
  have shift: "company_view (shift_columns b k' old new s) c = company_view s c" for k' old new
    using b by (auto simp: shift_columns_def intro!: view_update_columns)
  have shifted: "\<forall>y \<in> set (rows (cr_columns (shift_columns b k' old new s))). cl_id y = cl_id x \<longrightarrow> cl_board y = b" for k' old new
    using same by (auto simp: shift_columns_def)
  show ?thesis
    unfolding x(3) perform_update_column_def Let_def
    using save[OF refl same] save[OF shift shifted] row by (auto split: option.split)
qed

lemma destroy_column_view:
  assumes inv: "crm_inv s" and out: "outsider u c" and ok: "destroy_column u b k mv s = Inr s'"
  shows "company_view s' c = company_view s c"
  using ok
proof (rule destroy_column_ok)
  fix bo x m target
  let ?s1 = "s\<lparr>cr_tasks := tbl_update (live_in k) (\<lambda>t. t\<lparr>tk_column := m\<rparr>) (cr_tasks s)\<rparr>"
  let ?s2 = "delete_columns (\<lambda>c. cl_id c = k) ?s1"
  assume bo: "get_board_or_403 s u b = Inr bo" and x: "find (\<lambda>c. cl_id c = k) (board_columns s b) = Some x"
    and m: "find (\<lambda>c. cl_id c = m) (board_columns s b) = Some target" "m \<noteq> k"
    and wip: "wip_count (cr_tasks s) k > 0 \<Longrightarrow> check_wip_limit s target (wip_count (cr_tasks s) k) None = None"
    and s': "s' = renumber_columns b ?s2"
  have b: "foreign_board s c b" by (rule own_board_foreign[OF inv out bo])
  have target: "column_of s m = Some target" using board_column_get[OF inv m(1)] by (simp add: column_of_def)
  have f: "foreign_column s c k" "foreign_column s c m"
    using foreign_column_row[OF inv, of _ c] b board_column_SomeD[OF x] board_column_SomeD[OF m(1)] by metis+
  have v1: "company_view ?s1 c = company_view s c"
    by (rule view_update_tasks) (use f in \<open>simp add: live_in_def\<close>)
  have "crm_inv ?s1" by (rule move_all_inv[OF inv target m(2) wip])
  then have v2: "company_view ?s2 c = company_view s c"
    unfolding v1[symmetric]
  proof (rule view_delete_columns)
    fix y assume "y \<in> set (rows (cr_columns ?s1))" "cl_id y = k"
    then have "cl_board y = b" using board_column_SomeD[OF x] same_column[OF inv, of x y] by simp
    then show "foreign_board ?s1 c (cl_board y)" using b foreign_cong(1)[OF v1] by simp
  qed
  have "company_view (renumber_columns b ?s2) c = company_view ?s2 c"
    unfolding renumber_columns_def
    by (rule view_update_columns) (use b foreign_cong(1)[OF v2] in simp)
  then show ?thesis using s' v2 by simp
qed

lemma reorder_columns_view:
  assumes inv: "crm_inv s" and out: "outsider u c" and ok: "reorder_columns u b ids s = Inr s'"
  shows "company_view s' c = company_view s c"
proof -
  obtain bo where bo: "get_board_or_403 s u b = Inr bo" "set ids = set (map cl_id (board_columns s b))"
    "s' = fold reorder_step (enumerate 1 ids) s"
    using ok by (auto simp: reorder_columns_def split: option.splits sum.splits)
  have b: "foreign_board s c b" by (rule own_board_foreign[OF inv out bo(1)])
  have own: "cl_board y = b" if y: "y \<in> set (rows (cr_columns s))" "cl_id y \<in> set ids" for y
  proof -
    have "cl_id y \<in> cl_id ` set (board_columns s b)" using y(2) bo(2) by simp
    then obtain z where z: "z \<in> set (board_columns s b)" "cl_id z = cl_id y" by (auto elim: imageE)
    then have "z = y" using y(1) by (intro same_column[OF inv]) (simp_all add: set_board_columns)
    then show ?thesis using z(1) by (simp add: set_board_columns)
  qed
  have "company_view (fold reorder_step ps s0) c = company_view s c"
    if "company_view s0 c = company_view s c" "snd ` set ps \<subseteq> set ids"
      "\<forall>y \<in> set (rows (cr_columns s0)). cl_id y \<in> set ids \<longrightarrow> cl_board y = b" for ps s0
    using that
  proof (induction ps arbitrary: s0)
    case (Cons pk ps)
    obtain pos k where pk: "pk = (pos, k)" by (cases pk)
    have "company_view (reorder_step pk s0) c = company_view s0 c"
      unfolding pk reorder_step_def prod.case
      by (rule view_update_columns) (use Cons.prems b pk foreign_cong(1)[OF Cons.prems(1)] in force)
    moreover have "\<forall>y \<in> set (rows (cr_columns (reorder_step pk s0))). cl_id y \<in> set ids \<longrightarrow> cl_board y = b"
      using Cons.prems(3) by (auto simp: pk reorder_step_def)
    ultimately show ?case using Cons by simp
  qed simp
  moreover have "snd ` set (enumerate 1 ids) \<subseteq> set ids" by (metis map_snd_enumerate set_map order_refl)
  ultimately show ?thesis using own bo(3) by blast
qed

text \<open>Labels. A superadmin may attach a label to a task of another company than the label's.\<close>

lemma get_label_SomeD:
  assumes "outsider u c" "get_label s u k = Some l"
  shows "l \<in> set (rows (cr_labels s)) \<and> lb_label_id l = k \<and> lb_company l \<noteq> c \<and> u_company u = Some (lb_company l)"
  using assms find_SomeD[of "\<lambda>l. lb_label_id l = k" "company_isolation (\<lambda>l. Some (lb_company l)) u (rows (cr_labels s))" l]
  by (auto simp: get_label_def company_isolation_def outsider_def split: option.splits)

lemma label_ops_view:
  assumes inv: "crm_inv s" and wf: "tbl_wf lb_label_id (cr_labels s)" and out: "outsider u c"
  shows "create_label u cp name color s = Inr s' \<Longrightarrow> company_view s' c = company_view s c"
    and "update_label u cp k name' color s = Inr s' \<Longrightarrow> company_view s' c = company_view s c"
    and "destroy_label u k s = Inr s' \<Longrightarrow> company_view s' c = (company_boards s c, company_columns s c,
        map (\<lambda>t. t\<lparr>tk_labels := filter (\<lambda>l. l \<noteq> k) (tk_labels t)\<rparr>) (company_tasks s c), company_labels s c)"
proof -
  have same: "y = l" if "y \<in> set (rows (cr_labels s))" "l \<in> set (rows (cr_labels s))" "lb_label_id y = lb_label_id l" for y l
    using wf that by (auto simp: tbl_wf_def distinct_map inj_on_def)
  show "company_view s' c = company_view s c" if "create_label u cp name color s = Inr s'"
    using that out
    by (auto simp: create_label_def outsider_def company_labels_def intro!: view_labels split: option.splits if_splits)
  show "company_view s' c = company_view s c" if "update_label u cp k name' color s = Inr s'"
  proof -
    obtain l n col where l: "get_label s u k = Some l"
      and s': "s' = s\<lparr>cr_labels := tbl_save lb_label_id (l\<lparr>lb_name := n, lb_color := col\<rparr>) (cr_labels s)\<rparr>"
      using \<open>update_label u cp k name' color s = Inr s'\<close> by (auto simp: update_label_def Let_def split: option.splits)
    note row = get_label_SomeD[OF out l]
    have "filter (\<lambda>l. lb_company l = c) (map (\<lambda>r. if lb_label_id r = lb_label_id l then l\<lparr>lb_name := n, lb_color := col\<rparr> else r) (rows (cr_labels s)))
        = filter (\<lambda>l. lb_company l = c) (rows (cr_labels s))"
      by (rule filter_update) (use row same in auto)
    then show ?thesis unfolding s' by (intro view_labels) (simp add: tbl_save_def company_labels_def)
  qed
  show "company_view s' c = (company_boards s c, company_columns s c,
      map (\<lambda>t. t\<lparr>tk_labels := filter (\<lambda>l. l \<noteq> k) (tk_labels t)\<rparr>) (company_tasks s c), company_labels s c)"
    if "destroy_label u k s = Inr s'"
  proof -
    let ?f = "\<lambda>t. t\<lparr>tk_labels := filter (\<lambda>x. x \<noteq> k) (tk_labels t)\<rparr>"
    obtain l where l: "get_label s u k = Some l"
      and s': "s' = s\<lparr>cr_tasks := tbl_update (\<lambda>t. k \<in> set (tk_labels t)) ?f (cr_tasks s),
          cr_labels := tbl_delete (\<lambda>x. lb_label_id x = k) (cr_labels s)\<rparr>"
      using \<open>destroy_label u k s = Inr s'\<close> by (auto simp: destroy_label_def split: option.splits)
    note row = get_label_SomeD[OF out l]
    have keep: "?f t = t" if "k \<notin> set (tk_labels t)" for t :: task
      using that by (cases t) (auto simp: filter_id_conv)
    have tasks: "rows (tbl_update (\<lambda>t. k \<in> set (tk_labels t)) ?f (cr_tasks s)) = map ?f (rows (cr_tasks s))"
      unfolding rows_tbl by (rule map_cong[OF refl]) (use keep in simp)
    have "filter (\<lambda>l. lb_company l = c) (filter (\<lambda>x. \<not> lb_label_id x = k) (rows (cr_labels s)))
        = filter (\<lambda>l. lb_company l = c) (rows (cr_labels s))"
      by (rule filter_delete) (use row same in auto)
    then show ?thesis
      unfolding s' company_view_def company_boards_def company_columns_def company_tasks_def company_labels_def
      by (simp add: tasks filter_map comp_def del: rows_tbl(1))
  qed
qed

subsection \<open>Isolation\<close>

text \<open>
  C20: companies are isolated: whatever operation a member of one company who is no superadmin performs on
  boards, columns, tasks or labels, every board, column, task and label of any other company stays exactly
  as it is. The one thing that can reach over is a label of the own company that a superadmin has attached
  to a task of the other one: deleting the label takes it off that task, and off nothing else.
\<close>

theorem other_companies_untouched:
  assumes "crm_inv s" "tbl_wf lb_label_id (cr_labels s)"
    and "crm_actor x = Some u" "u_role u \<noteq> Superadmin" "u_company u = Some d" "d \<noteq> c"
    and "exec_crm x s = Inr s'"
  shows "company_view s' c = (company_boards s c, company_columns s c,
      (case x of Op_destroy_label _ k \<Rightarrow> map (\<lambda>t. t\<lparr>tk_labels := filter (\<lambda>l. l \<noteq> k) (tk_labels t)\<rparr>) (company_tasks s c)
         | _ \<Rightarrow> company_tasks s c), company_labels s c)
    \<and> (\<forall>k. x = Op_destroy_label u k \<longrightarrow> (\<exists>l \<in> set (rows (cr_labels s)). lb_label_id l = k \<and> lb_company l = d))"
proof -
  have out: "outsider u c" using assms(4-6) by (simp add: outsider_def)
  note inv = assms(1)
  note ops = create_board_view[OF inv out] board_ops_view[OF inv out] destroy_board_view[OF inv out]
    create_column_view[OF inv out] update_column_view[OF inv out] destroy_column_view[OF inv out]
    reorder_columns_view[OF inv out] create_task_view[OF inv out] update_task_view[OF inv out]
    hide_tasks_view[OF inv out] move_task_view[OF inv out] label_ops_view[OF inv assms(2) out]
  have "\<exists>l \<in> set (rows (cr_labels s)). lb_label_id l = k \<and> lb_company l = d" if x: "x = Op_destroy_label u k" for k
  proof -
    obtain l where "get_label s u k = Some l"
      using x assms(7) by (auto simp: destroy_label_def split: option.splits)
    then show ?thesis using get_label_SomeD[OF out] assms(5) by fastforce
  qed
  moreover have "company_view s' c = company_view s c" if "\<nexists>k. x = Op_destroy_label u k"
    using assms(3,7) that by (cases x) (auto dest: ops)
  moreover have "company_view s' c = (company_boards s c, company_columns s c,
      map (\<lambda>t. t\<lparr>tk_labels := filter (\<lambda>l. l \<noteq> k) (tk_labels t)\<rparr>) (company_tasks s c), company_labels s c)"
    if "x = Op_destroy_label u k" for k
    using assms(7) that by (auto dest: ops)
  ultimately show ?thesis using assms(3) by (cases x) (simp_all add: company_view_def)
qed

text \<open>
  An employee of company 1 deletes a column, and its admin a label of company 1 that a superadmin attached to
  the task of company 2.
\<close>

theorem other_companies_untouched_witness:
  "let s = (demo_crm [demo_task 5 2 1, (demo_task 6 3 1)\<lparr>tk_labels := [1, 2]\<rparr>])\<lparr>cr_labels := Table
       [\<lparr>lb_label_id = 1, lb_company = 1, lb_name = ''own'', lb_color = ''#000000''\<rparr>,
        \<lparr>lb_label_id = 2, lb_company = 2, lb_name = ''other'', lb_color = ''#000000''\<rparr>] 3\<rparr>
   in (\<exists>s'. exec_crm (Op_destroy_column (demo_user 2 Employee (Some 1)) 1 2 (Some 1)) s = Inr s'
         \<and> company_tasks s' 2 = company_tasks s 2)
    \<and> (\<exists>s'. exec_crm (Op_destroy_label (demo_user 2 Company_admin (Some 1)) 1) s = Inr s'
         \<and> map tk_labels (company_tasks s' 2) = [[2]])"
proof -
  let ?s = "(demo_crm [demo_task 5 2 1, (demo_task 6 3 1)\<lparr>tk_labels := [1, 2]\<rparr>])\<lparr>cr_labels := Table
       [\<lparr>lb_label_id = 1, lb_company = 1, lb_name = ''own'', lb_color = ''#000000''\<rparr>,
        \<lparr>lb_label_id = 2, lb_company = 2, lb_name = ''other'', lb_color = ''#000000''\<rparr>] 3\<rparr>"
  let ?u = "demo_user 2 Employee (Some 1)" and ?a = "demo_user 2 Company_admin (Some 1)"
  let ?x = "Op_destroy_column ?u 1 2 (Some 1)" and ?y = "Op_destroy_label ?a 1"
  have inv: "crm_inv ?s"
    by (auto simp: crm_inv_def demo_crm_def demo_board_def demo_column_def demo_task_def tbl_wf_def wip_ok_def wip_count_def
      active_in_def list_all_iff)
  have labels: "tbl_wf lb_label_id (cr_labels ?s)" by (simp add: tbl_wf_def)
  have "is_ok (exec_crm ?x ?s)" "is_ok (exec_crm ?y ?s)" by code_simp+
  then obtain s1 s2 where ok: "exec_crm ?x ?s = Inr s1" "exec_crm ?y ?s = Inr s2" by (auto simp: is_ok_iff)
  have "map tk_labels (company_tasks ?s 2) = [[1, 2]]" by code_simp
  then show ?thesis
    using other_companies_untouched[OF inv labels, of ?x ?u 1 2 s1] other_companies_untouched[OF inv labels, of ?y ?a 1 2 s2] ok
    by (auto simp: Let_def company_view_def map_eq_Cons_conv)
qed

end
