(* ===== verification/CrmDetails.thy ===== *)
theory CrmDetails
  imports Tasks StorageFiles Accounts
begin

text \<open>
  What hangs on a task (\<open>crm/views.py\<close>): comments, checklists with their items, and attachments, and the
  reading views of a task. The files an attachment may point at are those of the storage component.
\<close>

section \<open>Rows\<close>

record comment =
  cm_id :: nat
  cm_task :: nat
  cm_author :: "nat option"
  cm_text :: string
  cm_created_at :: datetime

record checklist =
  ck_id :: nat
  ck_task :: nat
  ck_title :: string

record checklist_item =
  it_id :: nat
  it_checklist :: nat
  it_text :: string
  it_is_done :: bool
  it_position :: int

text \<open>\<open>ta_object\<close> is the content that was uploaded with the attachment itself.\<close>

record task_attachment =
  ta_id :: nat
  ta_task :: nat
  ta_object :: "nat option"
  ta_storage_file :: "nat option"
  ta_filename :: string
  ta_size :: int
  ta_mime :: string
  ta_uploaded_by :: "nat option"

record cd_state =
  cd_crm :: crm_state
  cd_st :: st_state
  cd_comments :: "comment table"
  cd_checklists :: "checklist table"
  cd_items :: "checklist_item table"
  cd_attachments :: "task_attachment table"

interpretation comments: repository cm_id "tbl_get cm_id" "tbl_save cm_id" tbl_insert
    "tbl_remove cm_id" next_id "tbl_wf cm_id"
  by (rule tbl_repository)

interpretation checklists: repository ck_id "tbl_get ck_id" "tbl_save ck_id" tbl_insert
    "tbl_remove ck_id" next_id "tbl_wf ck_id"
  by (rule tbl_repository)

interpretation items: repository it_id "tbl_get it_id" "tbl_save it_id" tbl_insert
    "tbl_remove it_id" next_id "tbl_wf it_id"
  by (rule tbl_repository)

interpretation attachments: repository ta_id "tbl_get ta_id" "tbl_save ta_id" tbl_insert
    "tbl_remove ta_id" next_id "tbl_wf ta_id"
  by (rule tbl_repository)

section \<open>The task behind a request\<close>

definition in_company :: "crm_state \<Rightarrow> user \<Rightarrow> task \<Rightarrow> bool" where
  "in_company s u t \<longleftrightarrow> u_role u = Superadmin \<or> map_option bo_company (board_of_task s t) = u_company u"

text \<open>Archived and deleted tasks are found too.\<close>

definition get_task_or_403 :: "crm_state \<Rightarrow> user \<Rightarrow> nat \<Rightarrow> api_error + task" where
  "get_task_or_403 s u k = (case tbl_get tk_id k (cr_tasks s) of
     None \<Rightarrow> Inl NotFound
   | Some t \<Rightarrow> (if in_company s u t then Inr t else Inl (PermissionDenied ''crm.task_access_denied'')))"

definition on_task :: "cd_state \<Rightarrow> user \<Rightarrow> nat \<Rightarrow> (task \<Rightarrow> api_error + 'a) \<Rightarrow> api_error + 'a" where
  "on_task s u k f = (case crm_permission u of
     Some e \<Rightarrow> Inl e
   | None \<Rightarrow> (case get_task_or_403 (cd_crm s) u k of Inl e \<Rightarrow> Inl e | Inr t \<Rightarrow> f t))"

section \<open>Comments\<close>

definition comments_of :: "cd_state \<Rightarrow> nat \<Rightarrow> comment list" where
  "comments_of s k = tbl_filter (\<lambda>c. cm_task c = k) (cd_comments s)"

definition list_comments :: "user \<Rightarrow> nat \<Rightarrow> cd_state \<Rightarrow> api_error + comment list" where
  "list_comments u k s = on_task s u k (\<lambda>t. Inr (comments_of s k))"

definition comment_error :: "bool \<Rightarrow> string option \<Rightarrow> api_error option" where
  "comment_error partial v = (case v of
     None \<Rightarrow> require partial (raise_validation_error ''text'' ''required'')
   | Some t \<Rightarrow> require (strip t \<noteq> []) (raise_validation_error ''text'' ''blank''))"

definition comment_recipients :: "nat \<Rightarrow> task \<Rightarrow> nat list" where
  "comment_recipients author t =
     (let first = (case tk_assignee t of None \<Rightarrow> [] | Some a \<Rightarrow> if a = author then [] else [a])
      in first @ (case tk_created_by t of None \<Rightarrow> [] | Some a \<Rightarrow> if a = author \<or> a \<in> set first then [] else [a]))"

definition notify_task_participants :: "datetime \<Rightarrow> nat \<Rightarrow> task \<Rightarrow> nt_state \<Rightarrow> nt_state" where
  "notify_task_participants now author t = fold (\<lambda>a. create_notification now a Task_comment (Fmt ''task_comment.title'' [])
     (Str (tk_title t)) (Some (task_link (tk_id t)))) (comment_recipients author t)"

definition create_comment :: "datetime \<Rightarrow> user \<Rightarrow> nat \<Rightarrow> string option \<Rightarrow> cd_state \<Rightarrow> api_error + cd_state" where
  "create_comment now u k v s = (case crm_permission u of
     Some e \<Rightarrow> Inl e
   | None \<Rightarrow> (case comment_error False v of
       Some e \<Rightarrow> Inl e
     | None \<Rightarrow> (case get_task_or_403 (cd_crm s) u k of
         Inl e \<Rightarrow> Inl e
       | Inr t \<Rightarrow> Inr (s\<lparr>
           cd_comments := tbl_insert (\<lambda>i. \<lparr>cm_id = i, cm_task = k, cm_author = Some (u_id u), cm_text = text_or [] v,
             cm_created_at = now\<rparr>) (cd_comments s),
           cd_crm := (cd_crm s)\<lparr>cr_nt := notify_task_participants now (u_id u) t (cr_nt (cd_crm s))\<rparr>\<rparr>))))"

definition get_comment :: "cd_state \<Rightarrow> user \<Rightarrow> nat \<Rightarrow> nat \<Rightarrow> api_error + comment" where
  "get_comment s u k i = on_task s u k (\<lambda>t. case find (\<lambda>c. cm_id c = i) (comments_of s k) of
     None \<Rightarrow> Inl NotFound | Some c \<Rightarrow> Inr c)"

definition update_comment :: "user \<Rightarrow> nat \<Rightarrow> nat \<Rightarrow> string option \<Rightarrow> cd_state \<Rightarrow> api_error + cd_state" where
  "update_comment u k i v s = (case get_comment s u k i of
     Inl e \<Rightarrow> Inl e
   | Inr c \<Rightarrow> guarded (first_err [require (IsOwnerOrSuperAdmin (cm_author c) u) denied, comment_error True v])
       (s\<lparr>cd_comments := tbl_save cm_id (c\<lparr>cm_text := text_or (cm_text c) v\<rparr>) (cd_comments s)\<rparr>))"

text \<open>The company of a comment is that of the board of its task.\<close>

definition comment_company :: "cd_state \<Rightarrow> comment \<Rightarrow> nat option" where
  "comment_company s c = map_option bo_company
     (Option.bind (tbl_get tk_id (cm_task c) (cr_tasks (cd_crm s))) (board_of_task (cd_crm s)))"

definition destroy_comment :: "user \<Rightarrow> nat \<Rightarrow> nat \<Rightarrow> cd_state \<Rightarrow> api_error + cd_state" where
  "destroy_comment u k i s = (case get_comment s u k i of
     Inl e \<Rightarrow> Inl e
   | Inr c \<Rightarrow> guarded (require (IsOwnerOrAdmin (cm_author c) (Some (comment_company s c)) u) denied)
       (s\<lparr>cd_comments := tbl_delete (\<lambda>x. cm_id x = i) (cd_comments s)\<rparr>))"

section \<open>Checklists\<close>

definition checklist_title_error :: "bool \<Rightarrow> string option \<Rightarrow> api_error option" where
  "checklist_title_error partial = char_field_error ''title'' (\<not> partial) False 255"

definition items_of :: "cd_state \<Rightarrow> nat \<Rightarrow> checklist_item list" where
  "items_of s c = sort_key it_position (tbl_filter (\<lambda>i. it_checklist i = c) (cd_items s))"

definition checklist_progress :: "cd_state \<Rightarrow> nat \<Rightarrow> nat \<times> nat" where
  "checklist_progress s c = (let its = items_of s c in (length its, length (filter it_is_done its)))"

definition list_checklists :: "user \<Rightarrow> nat \<Rightarrow> cd_state \<Rightarrow> api_error + (checklist \<times> checklist_item list) list" where
  "list_checklists u k s = on_task s u k (\<lambda>t.
     Inr (map (\<lambda>c. (c, items_of s (ck_id c))) (tbl_filter (\<lambda>c. ck_task c = k) (cd_checklists s))))"

definition create_checklist :: "user \<Rightarrow> nat \<Rightarrow> string option \<Rightarrow> cd_state \<Rightarrow> api_error + cd_state" where
  "create_checklist u k v s = on_task s u k (\<lambda>t. guarded (checklist_title_error False v)
     (s\<lparr>cd_checklists := tbl_insert (\<lambda>i. \<lparr>ck_id = i, ck_task = k, ck_title = text_or [] v\<rparr>) (cd_checklists s)\<rparr>))"

definition checklist_in_company :: "cd_state \<Rightarrow> user \<Rightarrow> checklist \<Rightarrow> bool" where
  "checklist_in_company s u c \<longleftrightarrow> u_role u = Superadmin \<or> map_option bo_company
     (Option.bind (tbl_get tk_id (ck_task c) (cr_tasks (cd_crm s))) (board_of_task (cd_crm s))) = u_company u"

definition on_checklist :: "cd_state \<Rightarrow> user \<Rightarrow> nat \<Rightarrow> (checklist \<Rightarrow> api_error + 'a) \<Rightarrow> api_error + 'a" where
  "on_checklist s u k f = (case crm_permission u of
     Some e \<Rightarrow> Inl e
   | None \<Rightarrow> (case tbl_get ck_id k (cd_checklists s) of
       None \<Rightarrow> Inl NotFound
     | Some c \<Rightarrow> (if checklist_in_company s u c then f c else Inl (PermissionDenied ''crm.checklist_access_denied''))))"

definition update_checklist :: "user \<Rightarrow> nat \<Rightarrow> string option \<Rightarrow> cd_state \<Rightarrow> api_error + cd_state" where
  "update_checklist u k v s = on_checklist s u k (\<lambda>c. guarded (checklist_title_error True v)
     (s\<lparr>cd_checklists := tbl_save ck_id (c\<lparr>ck_title := text_or (ck_title c) v\<rparr>) (cd_checklists s)\<rparr>))"

definition destroy_checklist :: "user \<Rightarrow> nat \<Rightarrow> cd_state \<Rightarrow> api_error + cd_state" where
  "destroy_checklist u k s = on_checklist s u k (\<lambda>c. Inr (s\<lparr>
     cd_checklists := tbl_delete (\<lambda>x. ck_id x = k) (cd_checklists s),
     cd_items := tbl_delete (\<lambda>x. it_checklist x = k) (cd_items s)\<rparr>))"

section \<open>Items\<close>

record item_request =
  iq_text :: "string option"
  iq_is_completed :: "bool option"
  iq_order :: "int option"

definition item_fields_error :: "bool \<Rightarrow> item_request \<Rightarrow> api_error option" where
  "item_fields_error partial rq = first_err [
     char_field_error ''text'' (\<not> partial) False 500 (iq_text rq),
     (case iq_order rq of None \<Rightarrow> None | Some p \<Rightarrow> require (1 \<le> p) (raise_validation_error ''order'' ''min_value''))]"

text \<open>\<open>next_position\<close>: one behind the last, wherever the body wants it.\<close>

definition next_position :: "cd_state \<Rightarrow> nat \<Rightarrow> int" where
  "next_position s c = (case map it_position (items_of s c) of [] \<Rightarrow> 0 | ps \<Rightarrow> last ps) + 1"

definition create_item :: "user \<Rightarrow> nat \<Rightarrow> item_request \<Rightarrow> cd_state \<Rightarrow> api_error + cd_state" where
  "create_item u k rq s = on_checklist s u k (\<lambda>c. guarded (item_fields_error False rq)
     (s\<lparr>cd_items := tbl_insert (\<lambda>i. \<lparr>it_id = i, it_checklist = k, it_text = text_or [] (iq_text rq),
        it_is_done = pick (iq_is_completed rq) False, it_position = next_position s k\<rparr>) (cd_items s)\<rparr>))"

definition item_in_company :: "cd_state \<Rightarrow> user \<Rightarrow> checklist_item \<Rightarrow> bool" where
  "item_in_company s u i \<longleftrightarrow> u_role u = Superadmin \<or>
     (case tbl_get ck_id (it_checklist i) (cd_checklists s) of None \<Rightarrow> False | Some c \<Rightarrow> checklist_in_company s u c)"

definition on_item :: "cd_state \<Rightarrow> user \<Rightarrow> nat \<Rightarrow> (checklist_item \<Rightarrow> api_error + 'a) \<Rightarrow> api_error + 'a" where
  "on_item s u k f = (case crm_permission u of
     Some e \<Rightarrow> Inl e
   | None \<Rightarrow> (case tbl_get it_id k (cd_items s) of
       None \<Rightarrow> Inl NotFound
     | Some i \<Rightarrow> (if item_in_company s u i then f i else Inl (PermissionDenied ''crm.checklist_item_access_denied''))))"

definition patched_item :: "item_request \<Rightarrow> checklist_item \<Rightarrow> checklist_item" where
  "patched_item rq i = i\<lparr>it_text := text_or (it_text i) (iq_text rq), it_is_done := pick (iq_is_completed rq) (it_is_done i),
     it_position := pick (iq_order rq) (it_position i)\<rparr>"

definition update_item :: "user \<Rightarrow> nat \<Rightarrow> item_request \<Rightarrow> cd_state \<Rightarrow> api_error + cd_state" where
  "update_item u k rq s = on_item s u k (\<lambda>i. guarded (item_fields_error True rq)
     (s\<lparr>cd_items := tbl_save it_id (patched_item rq i) (cd_items s)\<rparr>))"

text \<open>The remaining items of the checklist are numbered from one.\<close>

definition renumber_items :: "nat \<Rightarrow> cd_state \<Rightarrow> cd_state" where
  "renumber_items c s = s\<lparr>cd_items := tbl_update (\<lambda>i. it_checklist i = c)
     (\<lambda>i. i\<lparr>it_position := index_of (it_id i) (map it_id (items_of s c))\<rparr>) (cd_items s)\<rparr>"

definition destroy_item :: "user \<Rightarrow> nat \<Rightarrow> cd_state \<Rightarrow> api_error + cd_state" where
  "destroy_item u k s = on_item s u k (\<lambda>i. Inr (renumber_items (it_checklist i)
     (s\<lparr>cd_items := tbl_delete (\<lambda>x. it_id x = k) (cd_items s)\<rparr>)))"

section \<open>Attachments\<close>

text \<open>\<open>os.path.splitext\<close>: the leading dots belong to the name.\<close>

definition file_extension :: "string \<Rightarrow> string" where
  "file_extension name = (let base = dropWhile (\<lambda>c. c = CHR ''.'') name
     in if CHR ''.'' \<in> set base then CHR ''.'' # rev (takeWhile (\<lambda>c. c \<noteq> CHR ''.'') (rev base)) else [])"

definition ALLOWED_MIME_TYPES :: "string list" where
  "ALLOWED_MIME_TYPES = [''application/pdf'', ''application/msword'',
     ''application/vnd.openxmlformats-officedocument.wordprocessingml.document'', ''application/vnd.ms-excel'',
     ''application/vnd.openxmlformats-officedocument.spreadsheetml.sheet'', ''application/vnd.ms-powerpoint'',
     ''application/vnd.openxmlformats-officedocument.presentationml.presentation'',
     ''image/png'', ''image/jpeg'', ''image/gif'']"

definition ALLOWED_EXTENSIONS :: "string list" where
  "ALLOWED_EXTENSIONS = [''.pdf'', ''.doc'', ''.docx'', ''.xls'', ''.xlsx'', ''.ppt'', ''.pptx'', ''.png'', ''.jpg'', ''.jpeg'', ''.gif'']"

definition MAX_ATTACHMENT_SIZE :: int where
  "MAX_ATTACHMENT_SIZE = 50 * 1024 * 1024"

definition type_supported :: "string \<Rightarrow> string \<Rightarrow> bool" where
  "type_supported mime name \<longleftrightarrow> (let ext = lower (file_extension name) in
     if mime = ''application/octet-stream'' then ext \<in> set ALLOWED_EXTENSIONS
     else mime \<in> set ALLOWED_MIME_TYPES \<or> ext \<in> set ALLOWED_EXTENSIONS)"

text \<open>A request uploads a content, with its name, or names a file of the storage (zero names none).\<close>

record attachment_request =
  aq_file :: "(string \<times> upload) option"
  aq_storage_file :: "nat option"

definition attachment_error :: "attachment_request \<Rightarrow> api_error option" where
  "attachment_error rq = (let named = aq_storage_file rq \<notin> {None, Some 0} in first_err [
     (case aq_file rq of None \<Rightarrow> None | Some (_, b) \<Rightarrow> require (up_size b > 0) (raise_validation_error ''file'' ''empty'')),
     require (aq_file rq \<noteq> None \<or> named) (raise_validation_error ''non_field_errors'' ''crm.attachment_file_or_storage_required''),
     require (\<not> (aq_file rq \<noteq> None \<and> named)) (raise_validation_error ''non_field_errors'' ''crm.attachment_file_xor_storage''),
     (case aq_file rq of
        None \<Rightarrow> None
      | Some (name, b) \<Rightarrow> first_err [
          require (\<not> up_size b > MAX_ATTACHMENT_SIZE) (raise_validation_error ''file'' ''storage.file_too_large''),
          require (type_supported (up_content_type b) name) (raise_validation_error ''file'' ''crm.file_type_not_supported'')])])"

text \<open>
  The space a company uses counts the uploaded attachments of the tasks of its boards: the state of the
  storage as \<open>get_company_storage_used_bytes\<close> reads it.
\<close>

definition task_company :: "crm_state \<Rightarrow> nat \<Rightarrow> nat" where
  "task_company s k = (case Option.bind (tbl_get tk_id k (cr_tasks s)) (board_of_task s) of None \<Rightarrow> 0 | Some b \<Rightarrow> bo_company b)"

definition attachment_space :: "crm_state \<Rightarrow> task_attachment \<Rightarrow> attachment" where
  "attachment_space s a = \<lparr>at_id = ta_id a, at_company = task_company s (ta_task a), at_storage_file = ta_storage_file a,
     at_has_file = (ta_object a \<noteq> None), at_size = ta_size a\<rparr>"

definition storage_view :: "cd_state \<Rightarrow> st_state" where
  "storage_view s = (cd_st s)\<lparr>st_acc := cr_acc (cd_crm s),
     st_attachments := Table (map (attachment_space (cd_crm s)) (rows (cd_attachments s))) (next_id (cd_attachments s))\<rparr>"

definition used_bytes :: "cd_state \<Rightarrow> nat \<Rightarrow> int" where
  "used_bytes s c = get_company_storage_used_bytes (storage_view s) c"

definition add_attachment :: "(nat \<Rightarrow> task_attachment) \<Rightarrow> cd_state \<Rightarrow> cd_state" where
  "add_attachment mk s = s\<lparr>cd_attachments := tbl_insert mk (cd_attachments s)\<rparr>"

definition uploaded_attachment :: "user \<Rightarrow> nat \<Rightarrow> string \<Rightarrow> upload \<Rightarrow> nat \<Rightarrow> nat \<Rightarrow> task_attachment" where
  "uploaded_attachment u k name b obj i = \<lparr>ta_id = i, ta_task = k, ta_object = Some obj, ta_storage_file = None,
     ta_filename = name, ta_size = up_size b, ta_mime = up_content_type b, ta_uploaded_by = Some (u_id u)\<rparr>"

definition upload_attachment ::
  "datetime \<Rightarrow> user \<Rightarrow> nat \<Rightarrow> string \<Rightarrow> upload \<Rightarrow> cd_state \<Rightarrow> api_error + cd_state" where
  "upload_attachment now u k name b s =
     (let co = company_of (cr_acc (cd_crm s)) u;
          used = (case co of None \<Rightarrow> 0 | Some c \<Rightarrow> used_bytes s (co_id c));
          (obj, st) = store_object (up_size b) (cd_st s);
          s1 = add_attachment (uploaded_attachment u k name b obj) (s\<lparr>cd_st := st\<rparr>)
      in case co of
           None \<Rightarrow> Inr s1
         | Some c \<Rightarrow> guarded (require (\<not> over_company_limit c (used + up_size b)) storage_limit_exceeded)
             (s1\<lparr>cd_crm := (cd_crm s1)\<lparr>cr_nt := notify_company_admins_limit_thresholds now (cr_acc (cd_crm s)) (co_id c)
                ''storage'' (10 * hundredths_of_gb (used + up_size b)) (co_storage_limit c) (cr_nt (cd_crm s1))\<rparr>\<rparr>))"

text \<open>A file of the storage is looked up by its company alone.\<close>

definition attachable_file :: "cd_state \<Rightarrow> user \<Rightarrow> nat \<Rightarrow> sfile option" where
  "attachable_file s u k = (case live_file (cd_st s) k of
     None \<Rightarrow> None
   | Some f \<Rightarrow> if u_role u = Superadmin \<or> fi_company f = u_company u then Some f else None)"

definition link_attachment :: "user \<Rightarrow> nat \<Rightarrow> nat \<Rightarrow> cd_state \<Rightarrow> api_error + cd_state" where
  "link_attachment u k j s = (case attachable_file s u j of
     None \<Rightarrow> Inl NotFound
   | Some f \<Rightarrow> Inr (add_attachment (\<lambda>i. \<lparr>ta_id = i, ta_task = k, ta_object = None, ta_storage_file = Some j,
       ta_filename = fi_name f, ta_size = fi_size f, ta_mime = fi_content_type f, ta_uploaded_by = Some (u_id u)\<rparr>) s))"

definition create_attachment ::
  "datetime \<Rightarrow> user \<Rightarrow> nat \<Rightarrow> attachment_request \<Rightarrow> cd_state \<Rightarrow> api_error + cd_state" where
  "create_attachment now u k rq s = on_task s u k (\<lambda>t. case attachment_error rq of
     Some e \<Rightarrow> Inl e
   | None \<Rightarrow> (case aq_file rq of
       Some (name, b) \<Rightarrow> upload_attachment now u k name b s
     | None \<Rightarrow> link_attachment u k (the (aq_storage_file rq)) s))"

definition get_attachment :: "cd_state \<Rightarrow> nat \<Rightarrow> nat \<Rightarrow> task_attachment option" where
  "get_attachment s k i = find (\<lambda>a. ta_id a = i \<and> ta_task a = k) (rows (cd_attachments s))"

definition list_attachments :: "user \<Rightarrow> nat \<Rightarrow> cd_state \<Rightarrow> api_error + task_attachment list" where
  "list_attachments u k s = on_task s u k (\<lambda>t. Inr (tbl_filter (\<lambda>a. ta_task a = k) (cd_attachments s)))"

text \<open>The object a download hands out; the address is made by the storage service.\<close>

definition download_attachment :: "user \<Rightarrow> nat \<Rightarrow> nat \<Rightarrow> cd_state \<Rightarrow> api_error + nat" where
  "download_attachment u k i s = on_task s u k (\<lambda>t. case get_attachment s k i of
     None \<Rightarrow> Inl NotFound
   | Some a \<Rightarrow> (case (case ta_storage_file a of
         Some j \<Rightarrow> Option.bind (tbl_get fi_id j (st_files (cd_st s))) fi_object
       | None \<Rightarrow> ta_object a) of
       None \<Rightarrow> Inl NotFound | Some obj \<Rightarrow> Inr obj))"

definition destroy_attachment :: "user \<Rightarrow> nat \<Rightarrow> nat \<Rightarrow> cd_state \<Rightarrow> api_error + cd_state" where
  "destroy_attachment u k i s = (case crm_permission u of
     Some e \<Rightarrow> Inl e
   | None \<Rightarrow> (case get_attachment s k i of
       None \<Rightarrow> Inl NotFound
     | Some a \<Rightarrow> guarded (require (ta_uploaded_by a = Some (u_id u) \<or> u_role u = Superadmin
            \<or> (u_role u = Company_admin \<and> Some (task_company (cd_crm s) k) = u_company u))
          (PermissionDenied ''crm.attachment_delete_forbidden''))
        (s\<lparr>cd_attachments := tbl_delete (\<lambda>x. ta_id x = i) (cd_attachments s),
           cd_st := (case (ta_storage_file a, ta_object a) of
             (None, Some obj) \<Rightarrow> (cd_st s)\<lparr>st_objects := tbl_delete (\<lambda>o'. fst o' = obj) (st_objects (cd_st s))\<rparr>
           | _ \<Rightarrow> cd_st s)\<rparr>)))"

section \<open>Reading tasks\<close>

text \<open>The history of a task, newest first, and the last ten entries the detail of the task shows.\<close>

definition task_log :: "crm_state \<Rightarrow> nat \<Rightarrow> task_history list" where
  "task_log s k = rev (tbl_filter (\<lambda>h. th_task h = k) (cr_history s))"

definition task_history_view :: "user \<Rightarrow> nat \<Rightarrow> crm_state \<Rightarrow> api_error + task_history list" where
  "task_history_view u k s = (case crm_permission u of
     Some e \<Rightarrow> Inl e
   | None \<Rightarrow> (case get_task s u True k of Inl e \<Rightarrow> Inl e | Inr t \<Rightarrow> Inr (task_log s k)))"

definition retrieve_task :: "user \<Rightarrow> nat \<Rightarrow> crm_state \<Rightarrow> api_error + task \<times> task_history list" where
  "retrieve_task u k s = (case crm_permission u of
     Some e \<Rightarrow> Inl e
   | None \<Rightarrow> (case get_task s u True k of Inl e \<Rightarrow> Inl e | Inr t \<Rightarrow> Inr (t, take 10 (task_log s k))))"

text \<open>The tasks of a user, newest first, by board and the boards by name; fifty of a board are shown.\<close>

definition TASK_LIMIT :: nat where
  "TASK_LIMIT = 50"

definition my_open_tasks :: "user \<Rightarrow> crm_state \<Rightarrow> (board \<times> task) list" where
  "my_open_tasks u s = List.map_filter (\<lambda>t. case board_of_task s t of
       None \<Rightarrow> None
     | Some b \<Rightarrow> if tk_assignee t = Some (u_id u) \<and> \<not> tk_is_deleted t \<and> \<not> tk_is_archived t \<and> \<not> bo_is_archived b
           \<and> (u_role u = Superadmin \<or> Some (bo_company b) = u_company u)
         then Some (b, t) else None)
     (rev (sort_key tk_created_at (rows (cr_tasks s))))"

record task_group =
  tg_board :: nat
  tg_name :: string
  tg_tasks :: "task list"
  tg_total :: nat
  tg_has_more :: bool

fun string_less_eq :: "string \<Rightarrow> string \<Rightarrow> bool" where
  "string_less_eq [] y = True"
| "string_less_eq (a # x) [] = False"
| "string_less_eq (a # x) (b # y) \<longleftrightarrow> (of_char a :: nat) < of_char b \<or> (a = b \<and> string_less_eq x y)"

fun insert_board :: "board \<Rightarrow> board list \<Rightarrow> board list" where
  "insert_board b [] = [b]"
| "insert_board b (c # cs) = (if string_less_eq (bo_name b) (bo_name c) then b # c # cs else c # insert_board b cs)"

definition task_group_of :: "(board \<times> task) list \<Rightarrow> board \<Rightarrow> task_group" where
  "task_group_of ts b = (let mine = map snd (filter (\<lambda>(c, _). bo_id c = bo_id b) ts)
     in \<lparr>tg_board = bo_id b, tg_name = bo_name b, tg_tasks = take TASK_LIMIT mine, tg_total = length mine,
         tg_has_more = length mine > TASK_LIMIT\<rparr>)"

definition my_tasks :: "user \<Rightarrow> crm_state \<Rightarrow> api_error + task_group list" where
  "my_tasks u s = (case crm_permission u of
     Some e \<Rightarrow> Inl e
   | None \<Rightarrow> (let ts = my_open_tasks u s
       in Inr (map (task_group_of ts) (foldr insert_board (rev (remdups (rev (map fst ts)))) []))))"

end
