(* ===== verification/CrmDetailProps.thy ===== *)
theory CrmDetailProps
  imports CrmDetails CrmOrder
begin

text \<open>
  Properties of what hangs on a task: the order of the items of a checklist, the space an attachment
  takes, and whom a file of the storage reaches through an attachment.
\<close>

section \<open>The order of a checklist\<close>

lemma items_of_distinct: "tbl_wf it_id (cd_items s) \<Longrightarrow> distinct (map it_id (items_of s c))"
proof -
  assume "tbl_wf it_id (cd_items s)"
  then have "distinct (map it_id (tbl_filter (\<lambda>i. it_checklist i = c) (cd_items s)))"
    by (simp add: tbl_wf_def tbl_filter_def distinct_map_filter)
  moreover have "mset (map it_id (items_of s c)) = mset (map it_id (tbl_filter (\<lambda>i. it_checklist i = c) (cd_items s)))"
    by (simp add: items_of_def)
  ultimately show ?thesis by (metis mset_eq_imp_distinct_iff)
qed

text \<open>Numbering the items keeps their order.\<close>

lemma renumbered_items:
  assumes "tbl_wf it_id (cd_items s)"
  shows "map it_id (items_of (renumber_items c s) c) = map it_id (items_of s c)"
    and "map it_position (items_of (renumber_items c s) c) = map (\<lambda>i. int i + 1) [0..<length (items_of s c)]"
    and "d \<noteq> c \<Longrightarrow> items_of (renumber_items c s) d = items_of s d"
proof -
  let ?O = "items_of s c" and ?M = "tbl_filter (\<lambda>i. it_checklist i = c) (cd_items s)"
  let ?ix = "\<lambda>t. index_of (it_id t) (map it_id ?O)"
  let ?f = "\<lambda>t. t\<lparr>it_position := ?ix t\<rparr>"
  have d: "distinct (map it_id ?O)" by (rule items_of_distinct[OF assms])
  have idx: "map ?ix ?O = map (\<lambda>i. int i + 1) [0..<length ?O]" using map_index_of[OF d] .
  have "sorted (map ?ix ?O)" unfolding idx by (auto simp: sorted_iff_nth_mono)
  moreover have "inj_on ?ix (set ?M)"
  proof -
    have "distinct (map ?ix ?O)" unfolding idx by (simp add: distinct_map inj_on_def)
    then have "inj_on ?ix (set ?O)" by (simp only: distinct_map)
    then show ?thesis by (simp add: items_of_def)
  qed
  moreover have "mset ?M = mset ?O" by (simp add: items_of_def)
  ultimately have sort: "sort_key ?ix ?M = ?O" by (rule_tac sort_key_inj_key_eq)
  have same: "filter (\<lambda>i. it_checklist i = e) (map (\<lambda>r. if it_checklist r = c then ?f r else r) xs)
      = (if e = c then map ?f (filter (\<lambda>i. it_checklist i = c) xs) else filter (\<lambda>i. it_checklist i = e) xs)" for e xs
    by (induction xs) auto
  have rows: "tbl_filter (\<lambda>i. it_checklist i = c) (cd_items (renumber_items c s)) = map ?f ?M"
    using same[of c] by (simp add: renumber_items_def tbl_filter_def)
  have "items_of (renumber_items c s) c = sort_key it_position (map ?f ?M)"
    by (subst items_of_def) (simp only: rows)
  also have "\<dots> = map ?f (sort_key ?ix ?M)" by (simp add: sort_key_map)
  finally have eq: "items_of (renumber_items c s) c = map ?f ?O" using sort by simp
  show "map it_id (items_of (renumber_items c s) c) = map it_id ?O" by (simp add: eq)
  show "map it_position (items_of (renumber_items c s) c) = map (\<lambda>i. int i + 1) [0..<length ?O]"
    unfolding eq using idx by (simp add: comp_def)
  assume d: "d \<noteq> c"
  have "tbl_filter (\<lambda>i. it_checklist i = d) (cd_items (renumber_items c s)) = tbl_filter (\<lambda>i. it_checklist i = d) (cd_items s)"
    using same[of d "rows (cd_items s)"] d by (simp add: renumber_items_def tbl_filter_def)
  then show "items_of (renumber_items c s) d = items_of s d" by (simp only: items_of_def)
qed

lemma items_after_delete:
  "items_of (s\<lparr>cd_items := tbl_delete (\<lambda>x. it_id x = k) (cd_items s)\<rparr>) c = filter (\<lambda>x. it_id x \<noteq> k) (items_of s c)"
proof -
  have "filter P (filter Q xs) = filter Q (filter P xs)" for P Q and xs :: "checklist_item list" by (induction xs) auto
  then show ?thesis by (simp add: items_of_def tbl_filter_def filter_sort del: filter_filter)
qed

text \<open>
  Deleting an item of a checklist leaves the other items in the order they had, numbers them from
  one without a gap, and touches no other checklist.
\<close>

theorem item_deletion_renumbers:
  assumes wf: "tbl_wf it_id (cd_items s)" and ok: "destroy_item u k s = Inr s'" and i: "tbl_get it_id k (cd_items s) = Some i"
  shows "map it_id (items_of s' (it_checklist i)) = filter (\<lambda>x. x \<noteq> k) (map it_id (items_of s (it_checklist i)))
    \<and> map it_position (items_of s' (it_checklist i)) = map (\<lambda>n. int n + 1) [0..<length (items_of s' (it_checklist i))]
    \<and> (\<forall>d. d \<noteq> it_checklist i \<longrightarrow> items_of s' d = items_of s d)"
proof -
  let ?s1 = "s\<lparr>cd_items := tbl_delete (\<lambda>x. it_id x = k) (cd_items s)\<rparr>"
  have s': "s' = renumber_items (it_checklist i) ?s1"
    using ok i by (auto simp: destroy_item_def on_item_def split: option.splits if_splits)
  have wf1: "tbl_wf it_id (cd_items ?s1)" using wf by (simp add: tbl_wf_delete)
  note num = renumbered_items[OF wf1, where c = "it_checklist i"]
  have row: "i \<in> set (rows (cd_items s))" "it_id i = k" using i by (auto dest: tbl_get_SomeD)
  have other: "filter (\<lambda>x. it_id x \<noteq> k) (items_of s d) = items_of s d" if "d \<noteq> it_checklist i" for d
  proof (rule filter_True, rule ballI)
    fix x assume "x \<in> set (items_of s d)"
    then have x: "x \<in> set (rows (cd_items s))" "it_checklist x = d" by (auto simp: items_of_def)
    show "it_id x \<noteq> k"
    proof
      assume "it_id x = k"
      then have "x = i" using wf x(1) row by (auto simp: tbl_wf_def distinct_map inj_on_def)
      then show False using x(2) that by simp
    qed
  qed
  have "length (items_of s' (it_checklist i)) = length (items_of ?s1 (it_checklist i))"
    using arg_cong[OF num(1), of length] by (simp add: s')
  then show ?thesis
    using num(1,2) num(3) by (auto simp: s' items_after_delete filter_map comp_def other)
qed

definition small_crm :: crm_state where
  "small_crm = \<lparr>cr_acc = \<lparr>ac_users = Table [demo_user 2 Employee (Some 1), demo_user 3 Company_admin (Some 1)] 4,
       ac_companies = Table [demo_company] 2\<rparr>,
     cr_boards = Table [\<lparr>bo_id = 5, bo_company = 1, bo_name = ''b'', bo_description = [], bo_is_archived = False, bo_created_by = None\<rparr>] 6,
     cr_columns = Table [\<lparr>cl_id = 6, cl_board = 5, cl_name = ''todo'', cl_position = 0, cl_wip_limit = 0\<rparr>] 7,
     cr_labels = empty_table,
     cr_tasks = Table [\<lparr>tk_id = 7, tk_column = 6, tk_title = ''t'', tk_description = [], tk_priority = Low, tk_position = 1,
       tk_assignee = Some 2, tk_created_by = Some 3, tk_deadline = None, tk_labels = [], tk_is_archived = False,
       tk_is_deleted = False, tk_deleted_at = None, tk_created_at = 0\<rparr>] 8,
     cr_history = empty_table,
     cr_nt = \<lparr>nt_prefs = empty_table, nt_notifs = empty_table, nt_queue = [], nt_cache = [], nt_outbox = []\<rparr>\<rparr>"

text \<open>A company folder that only the admin may enter, with a file of the admin.\<close>

definition small_st :: st_state where
  "small_st = \<lparr>st_acc = cr_acc small_crm,
     st_folders = Table [\<lparr>fo_id = 2, fo_name = ''hr'', fo_scope = Company_scope, fo_owner = 3, fo_company = Some 1,
       fo_parent = None, fo_created_at = 0, fo_is_deleted = False, fo_deleted_at = None\<rparr>] 3,
     st_files = Table [\<lparr>fi_id = 4, fi_name = ''pay.pdf'', fi_object = Some 9, fi_size = 10, fi_content_type = ''application/pdf'',
       fi_folder = Some 2, fi_owner = 3, fi_company = Some 1, fi_created_at = 0, fi_is_deleted = False, fi_deleted_at = None\<rparr>] 5,
     st_perms = Table [\<lparr>fp_id = 1, fp_folder = 2, fp_user = None, fp_role = Some ''company_admin'',
       fp_permission = Level_full, fp_granted_by = Some 3\<rparr>] 2,
     st_shares = empty_table, st_attachments = empty_table, st_objects = Table [(9, 10)] 10, st_nt = cr_nt small_crm\<rparr>"

definition small_item :: "nat \<Rightarrow> int \<Rightarrow> checklist_item" where
  "small_item i p = \<lparr>it_id = i, it_checklist = 3, it_text = ''x'', it_is_done = False, it_position = p\<rparr>"

definition small_cd :: cd_state where
  "small_cd = \<lparr>cd_crm = small_crm, cd_st = small_st, cd_comments = empty_table,
     cd_checklists = Table [\<lparr>ck_id = 3, ck_task = 7, ck_title = ''c''\<rparr>] 4,
     cd_items = Table [small_item 1 3, small_item 2 7, small_item 3 2] 4, cd_attachments = empty_table\<rparr>"

theorem item_deletion_renumbers_witness:
  "\<exists>s'. destroy_item (demo_user 2 Employee (Some 1)) 1 small_cd = Inr s' \<and> map it_id (items_of s' 3) = [3, 2]"
proof -
  have "is_ok (destroy_item (demo_user 2 Employee (Some 1)) 1 small_cd)" by code_simp
  then obtain s' where ok: "destroy_item (demo_user 2 Employee (Some 1)) 1 small_cd = Inr s'" by (auto simp: is_ok_iff)
  have "tbl_wf it_id (cd_items small_cd)" "tbl_get it_id 1 (cd_items small_cd) = Some (small_item 1 3)"
    "map it_id (items_of small_cd 3) = [3, 1, 2]" "it_checklist (small_item 1 3) = 3"
    by (simp_all add: small_cd_def small_item_def tbl_wf_def tbl_get_def items_of_def tbl_filter_def)
  with item_deletion_renumbers[OF this(1) ok this(2)] ok show ?thesis by simp
qed

text \<open>A new item comes last.\<close>

lemma next_position_behind: "i \<in> set (items_of s c) \<Longrightarrow> it_position i < next_position s c"
proof -
  assume i: "i \<in> set (items_of s c)"
  let ?ps = "map it_position (items_of s c)"
  have "sorted ?ps" by (simp add: items_of_def)
  moreover have "it_position i \<in> set ?ps" using i by simp
  ultimately have "it_position i \<le> last ?ps"
    by (metis append_butlast_last_id dual_order.refl empty_iff empty_set sorted_append Un_iff list.set(1) list.set_intros(1) set_append singletonD list.simps(15))
  moreover have "next_position s c = last ?ps + 1"
    using i by (cases ?ps) (auto simp: next_position_def)
  ultimately show ?thesis by simp
qed

section \<open>Space\<close>

lemma board_of_task_nt [simp]: "board_of_task (s\<lparr>cr_nt := x\<rparr>) = board_of_task s"
  by (rule ext) (simp add: board_of_task_def column_of_def board_of_def split: option.splits)

lemma task_company_nt [simp]: "task_company (s\<lparr>cr_nt := x\<rparr>) k = task_company s k"
  by (simp add: task_company_def)

lemma attachment_space_nt [simp]: "attachment_space (s\<lparr>cr_nt := x\<rparr>) = attachment_space s"
  by (rule ext) (simp add: attachment_space_def)

lemma used_bytes_added:
  assumes "cd_crm s' = (cd_crm s)\<lparr>cr_nt := x\<rparr>" "st_files (cd_st s') = st_files (cd_st s)"
    and "rows (cd_attachments s') = rows (cd_attachments s) @ [a]" "ta_storage_file a = None" "ta_object a \<noteq> None"
  shows "used_bytes s' c = used_bytes s c + (if task_company (cd_crm s) (ta_task a) = c then ta_size a else 0)"
  using assms
  by (simp add: used_bytes_def storage_view_def get_company_storage_used_bytes_def direct_attachment_bytes_def tbl_filter_def
      owner_company_def attachment_space_def)

lemma upload_ok:
  assumes "create_attachment now u k \<lparr>aq_file = Some (name, b), aq_storage_file = None\<rparr> s = Inr s'"
    and c: "company_of (cr_acc (cd_crm s)) u = Some c"
  shows "\<exists>t x obj. get_task_or_403 (cd_crm s) u k = Inr t \<and> \<not> over_company_limit c (used_bytes s (co_id c) + up_size b)
    \<and> cd_crm s' = (cd_crm s)\<lparr>cr_nt := x\<rparr> \<and> st_files (cd_st s') = st_files (cd_st s)
    \<and> rows (cd_attachments s') = rows (cd_attachments s) @ [uploaded_attachment u k name b obj (next_id (cd_attachments s))]"
proof -
  obtain t where "get_task_or_403 (cd_crm s) u k = Inr t" "upload_attachment now u k name b s = Inr s'"
    using assms(1) by (auto simp: create_attachment_def on_task_def split: option.splits sum.splits)
  then show ?thesis
    using c by (auto simp: upload_attachment_def Let_def store_object_def add_attachment_def intro!: exI)
qed

text \<open>
  An uploaded attachment counts against the space of the company like a file: after the upload by a
  member of the company the space used has grown by the size of the content and is within the limit,
  and no other company's has changed.
\<close>

theorem attachments_stay_within_the_limit:
  assumes u: "u_role u \<noteq> Superadmin" and c: "company_of (cr_acc (cd_crm s)) u = Some c"
    and ok: "create_attachment now u k \<lparr>aq_file = Some (name, b), aq_storage_file = None\<rparr> s = Inr s'"
  shows "used_bytes s' (co_id c) = used_bytes s (co_id c) + up_size b
    \<and> used_bytes s' (co_id c) * 1000 \<le> co_storage_limit c * gib
    \<and> (\<forall>d. d \<noteq> co_id c \<longrightarrow> used_bytes s' d = used_bytes s d)"
proof -
  obtain t x obj where t: "get_task_or_403 (cd_crm s) u k = Inr t"
    and lim: "\<not> over_company_limit c (used_bytes s (co_id c) + up_size b)"
    and s': "cd_crm s' = (cd_crm s)\<lparr>cr_nt := x\<rparr>" "st_files (cd_st s') = st_files (cd_st s)"
      "rows (cd_attachments s') = rows (cd_attachments s) @ [uploaded_attachment u k name b obj (next_id (cd_attachments s))]"
    using upload_ok[OF ok c] by blast
  have uc: "u_company u = Some (co_id c)"
    using c by (auto simp: company_of_def bind_eq_Some_conv dest: tbl_get_SomeD)
  have "tbl_get tk_id k (cr_tasks (cd_crm s)) = Some t" "in_company (cd_crm s) u t"
    using t by (auto simp: get_task_or_403_def split: option.splits if_splits)
  then have "task_company (cd_crm s) k = co_id c"
    using u uc by (auto simp: in_company_def task_company_def split: option.splits)
  then have used: "used_bytes s' d = used_bytes s d + (if d = co_id c then up_size b else 0)" for d
    using used_bytes_added[OF s'(1,2,3), of d] by (simp add: uploaded_attachment_def eq_commute)
  show ?thesis using lim by (simp add: used over_company_limit_def)
qed

theorem attachments_stay_within_the_limit_witness:
  "\<exists>s'. create_attachment 0 (demo_user 2 Employee (Some 1)) 7 \<lparr>aq_file = Some (''a.pdf'', \<lparr>up_size = 500, up_content_type = ''application/pdf''\<rparr>),
       aq_storage_file = None\<rparr> small_cd = Inr s' \<and> used_bytes s' 1 = used_bytes small_cd 1 + 500"
proof -
  let ?b = "\<lparr>up_size = 500, up_content_type = ''application/pdf''\<rparr>"
  have "is_ok (create_attachment 0 (demo_user 2 Employee (Some 1)) 7 \<lparr>aq_file = Some (''a.pdf'', ?b), aq_storage_file = None\<rparr> small_cd)"
    by code_simp
  then obtain s' where ok: "create_attachment 0 (demo_user 2 Employee (Some 1)) 7 \<lparr>aq_file = Some (''a.pdf'', ?b), aq_storage_file = None\<rparr> small_cd = Inr s'"
    by (auto simp: is_ok_iff)
  have "u_role (demo_user 2 Employee (Some 1)) \<noteq> Superadmin"
    "company_of (cr_acc (cd_crm small_cd)) (demo_user 2 Employee (Some 1)) = Some demo_company" "co_id demo_company = 1" by code_simp+
  from attachments_stay_within_the_limit[OF this(1,2) ok] this(3) ok show ?thesis by auto
qed

section \<open>Files behind an attachment\<close>

text \<open>
  C22: the permissions of folders do not reach the attachments: a member of the company whom the storage
  refuses to hand a file attaches it to a task, with no more than its key, and downloads it from there.
\<close>

theorem attachment_bypasses_folder_permissions:
  assumes u: "crm_permission u = None" and t: "get_task_or_403 (cd_crm s) u k = Inr t" and j: "j \<noteq> 0"
    and wf: "tbl_wf fi_id (st_files (cd_st s))" and f: "live_file (cd_st s) j = Some f" "fi_company f = u_company u" "fi_object f = Some obj"
    and fresh: "tbl_wf ta_id (cd_attachments s)"
    and refused: "download u j (storage_view s) = Some (Inl e)"
  shows "\<exists>s' i. create_attachment now u k \<lparr>aq_file = None, aq_storage_file = Some j\<rparr> s = Inr s'
    \<and> download u j (storage_view s) = Some (Inl e) \<and> download_attachment u k i s' = Inr obj"
proof -
  let ?i = "next_id (cd_attachments s)"
  let ?mk = "\<lambda>i. \<lparr>ta_id = i, ta_task = k, ta_object = None, ta_storage_file = Some j,
       ta_filename = fi_name f, ta_size = fi_size f, ta_mime = fi_content_type f, ta_uploaded_by = Some (u_id u)\<rparr>"
  let ?s' = "add_attachment ?mk s"
  have ok: "create_attachment now u k \<lparr>aq_file = None, aq_storage_file = Some j\<rparr> s = Inr ?s'"
    using u t f(1,2) j by (simp add: create_attachment_def on_task_def attachment_error_def Let_def link_attachment_def attachable_file_def require_simps)
  have row: "f \<in> set (rows (st_files (cd_st s)))" "fi_id f = j" using f(1) by (auto simp: live_file_def find_Some_iff)
  then have "tbl_get fi_id j (st_files (cd_st s)) = Some f" using wf by (auto simp: tbl_get_row)
  moreover have "find (\<lambda>a. ta_id a = ?i \<and> ta_task a = k) (rows (cd_attachments s)) = None"
    using fresh by (auto simp: find_None_iff tbl_wf_def list_all_iff)
  ultimately have down: "download_attachment u k ?i ?s' = Inr obj"
    using u t f(3) by (simp add: download_attachment_def on_task_def get_attachment_def add_attachment_def find_append)
  show ?thesis using ok down refused by auto
qed

theorem attachment_bypasses_folder_permissions_witness:
  "\<exists>s' i. create_attachment 0 (demo_user 2 Employee (Some 1)) 7 \<lparr>aq_file = None, aq_storage_file = Some 4\<rparr> small_cd = Inr s'
     \<and> download_attachment (demo_user 2 Employee (Some 1)) 7 i s' = Inr 9"
proof -
  let ?u = "demo_user 2 Employee (Some 1)"
  have "is_ok (get_task_or_403 (cd_crm small_cd) ?u 7)" by code_simp
  then obtain t where t: "get_task_or_403 (cd_crm small_cd) ?u 7 = Inr t" by (auto simp: is_ok_iff)
  obtain f where f: "live_file (cd_st small_cd) 4 = Some f" "fi_company f = u_company ?u" "fi_object f = Some 9"
    by (simp add: small_cd_def small_st_def live_file_def demo_user_def)
  have "crm_permission ?u = None" "(4::nat) \<noteq> 0" by code_simp+
  moreover have "tbl_wf fi_id (st_files (cd_st small_cd))" "tbl_wf ta_id (cd_attachments small_cd)"
    by (simp_all add: small_cd_def small_st_def tbl_wf_def empty_table_def)
  moreover have "download ?u 4 (storage_view small_cd) = Some (Inl file_access_denied)" by code_simp
  ultimately show ?thesis using attachment_bypasses_folder_permissions[OF _ t _ _ f] by blast
qed

end
