(* ===== verification/Access.thy ===== *)
theory Access
  imports Accounts
begin

text \<open>
  \<open>apps/access\<close>: guest passes and the log of entries. A pass is made by a member or a guest, mailed to
  the visitor with its QR code, scanned at the reception, resent and revoked by an admin, and expires.
\<close>

section \<open>Rows\<close>

datatype pass_status = Ap_active | Ap_used | Ap_expired | Ap_revoked

datatype pass_usage = Single | Multi

text \<open>\<open>gp_qr_code\<close> is the random identifier of the pass, \<open>gp_qr_image\<close> says that its picture is stored.\<close>

record guest_pass =
  gp_id :: nat
  gp_created_by :: nat
  gp_company :: "nat option"
  gp_guest_name :: string
  gp_guest_email :: string
  gp_guest_phone :: string
  gp_visit_purpose :: string
  gp_qr_code :: nat
  gp_qr_image :: bool
  gp_status :: pass_status
  gp_usage_type :: pass_usage
  gp_times_used :: nat
  gp_resend_attempts :: nat
  gp_resend_window :: "datetime option"
  gp_valid_from :: datetime
  gp_valid_until :: datetime

datatype entry_method = By_qr | By_hand

record access_log =
  al_id :: nat
  al_guest_pass :: "nat option"
  al_user :: "nat option"
  al_checked_by :: "nat option"
  al_entry_point :: string
  al_method :: entry_method
  al_is_entry :: bool
  al_created_at :: datetime

text \<open>The queued tasks of the component, and the mails with a pass that went out.\<close>

datatype pass_job = Pass_mail nat | Entry_mail nat

text \<open>\<open>gs_cache\<close> holds the counters of the resend limit with their expiry.\<close>

record gs_state =
  gs_acc :: accounts
  gs_nt :: nt_state
  gs_passes :: "guest_pass table"
  gs_logs :: "access_log table"
  gs_cache :: "(nat \<times> nat \<times> datetime) list"
  gs_jobs :: "pass_job list"
  gs_mails :: "(string \<times> nat) list"

interpretation passes: repository gp_id "tbl_get gp_id" "tbl_save gp_id" tbl_insert
    "tbl_remove gp_id" next_id "tbl_wf gp_id"
  by (rule tbl_repository)

interpretation entries: repository al_id "tbl_get al_id" "tbl_save al_id" tbl_insert
    "tbl_remove al_id" next_id "tbl_wf al_id"
  by (rule tbl_repository)

definition put_pass :: "guest_pass \<Rightarrow> gs_state \<Rightarrow> gs_state" where
  "put_pass p s = s\<lparr>gs_passes := tbl_save gp_id p (gs_passes s)\<rparr>"

definition queue_pass_job :: "pass_job \<Rightarrow> gs_state \<Rightarrow> gs_state" where
  "queue_pass_job j s = s\<lparr>gs_jobs := gs_jobs s @ [j]\<rparr>"

definition pass_is_expired :: "datetime \<Rightarrow> guest_pass \<Rightarrow> bool" where
  "pass_is_expired now p \<longleftrightarrow> now > gp_valid_until p"

definition pass_is_valid :: "datetime \<Rightarrow> guest_pass \<Rightarrow> bool" where
  "pass_is_valid now p \<longleftrightarrow>
     (if gp_status p \<noteq> Ap_active then False
      else if now < gp_valid_from p then False
      else if now > gp_valid_until p then False
      else if gp_usage_type p = Single \<and> gp_times_used p > 0 then False
      else True)"

section \<open>Making a pass\<close>

text \<open>The fields of the request after parsing; an absent field is \<open>None\<close>.\<close>

record pass_request =
  pq_guest_name :: "string option"
  pq_guest_email :: "string option"
  pq_guest_phone :: "string option"
  pq_purpose :: "string option"
  pq_valid_from :: "datetime option"
  pq_valid_until :: "datetime option"
  pq_is_single_use :: "bool option"

definition pass_fields_error :: "pass_request \<Rightarrow> api_error option" where
  "pass_fields_error rq = first_err [
     char_field_error ''guest_name'' True False 255 (pq_guest_name rq),
     char_field_error ''guest_email'' True False 254 (pq_guest_email rq),
     char_field_error ''guest_phone'' False True 20 (pq_guest_phone rq),
     (case pq_purpose rq of
        None \<Rightarrow> Some (raise_validation_error ''purpose'' ''required'')
      | Some t \<Rightarrow> require (strip t \<noteq> []) (raise_validation_error ''purpose'' ''blank'')),
     require (pq_valid_until rq \<noteq> None) (raise_validation_error ''valid_until'' ''required''),
     require (pq_is_single_use rq \<noteq> None) (raise_validation_error ''is_single_use'' ''required'')]"

definition PLANS_WITHOUT_GUEST_LIMIT :: "plan set" where
  "PLANS_WITHOUT_GUEST_LIMIT = {Standard, Premium}"

definition active_passes :: "gs_state \<Rightarrow> (guest_pass \<Rightarrow> bool) \<Rightarrow> nat" where
  "active_passes s P = length (tbl_filter (\<lambda>p. gp_status p = Ap_active \<and> P p) (gs_passes s))"

definition own_passes :: "user \<Rightarrow> guest_pass \<Rightarrow> bool" where
  "own_passes u p \<longleftrightarrow> gp_created_by p = u_id u"

definition passes_of_guest :: "nat option \<Rightarrow> string \<Rightarrow> guest_pass \<Rightarrow> bool" where
  "passes_of_guest company email p \<longleftrightarrow> gp_company p = company \<and> gp_guest_email p = email"

text \<open>A guest has two active passes at most; an employee two for an address, on the basic plan.\<close>

definition company_plan :: "accounts \<Rightarrow> user \<Rightarrow> plan" where
  "company_plan acc u = (case company_of acc u of None \<Rightarrow> Basic | Some c \<Rightarrow> co_plan c)"

definition pass_limit_error :: "gs_state \<Rightarrow> user \<Rightarrow> string \<Rightarrow> api_error option" where
  "pass_limit_error s u email =
     (if u_role u = Guest then
        require (active_passes s (own_passes u) < 2)
          (raise_validation_error ''non_field_errors'' ''access.guest_max_passes_reached'')
      else if u_role u \<notin> {Superadmin, Company_admin, Service_manager, Reception} then
        require (company_plan (gs_acc s) u \<in> PLANS_WITHOUT_GUEST_LIMIT
            \<or> active_passes s (passes_of_guest (u_company u) email) < 2)
          (raise_validation_error ''guest_email'' ''access.guest_max_passes_reached'')
      else None)"

definition validate_pass :: "datetime \<Rightarrow> gs_state \<Rightarrow> user \<Rightarrow> pass_request \<Rightarrow> api_error option" where
  "validate_pass now s u rq =
     (let valid_from = pick (pq_valid_from rq) now; valid_until = the (pq_valid_until rq);
          email = text_or [] (pq_guest_email rq)
      in first_err [
        require (\<not> valid_from < now - seconds 60) (raise_validation_error ''valid_from'' ''access.valid_from_in_past''),
        require (\<not> valid_until \<le> valid_from)
          (raise_validation_error ''valid_until'' ''access.valid_until_before_valid_from''),
        require (\<not> valid_until > valid_from + days 30) (raise_validation_error ''valid_until'' ''access.valid_until_too_far''),
        require (\<not> (pq_is_single_use rq \<noteq> Some True \<and> valid_until > valid_from + days 1))
          (raise_validation_error ''valid_until'' ''access.multi_use_max_one_day''),
        require (\<not> lower (strip email) = lower (strip (u_email u)))
          (raise_validation_error ''guest_email'' ''access.cannot_create_for_self''),
        (case user_by_email (gs_acc s) (strip email) of
           None \<Rightarrow> None
         | Some v \<Rightarrow> require (u_role v = Guest) (raise_validation_error ''guest_email'' ''access.cannot_create_for_employee'')),
        pass_limit_error s u email])"

definition new_pass :: "datetime \<Rightarrow> nat \<Rightarrow> user \<Rightarrow> pass_request \<Rightarrow> nat \<Rightarrow> guest_pass" where
  "new_pass now qr u rq i = \<lparr>gp_id = i, gp_created_by = u_id u, gp_company = u_company u,
     gp_guest_name = text_or [] (pq_guest_name rq), gp_guest_email = text_or [] (pq_guest_email rq),
     gp_guest_phone = text_or [] (pq_guest_phone rq), gp_visit_purpose = text_or [] (pq_purpose rq),
     gp_qr_code = qr, gp_qr_image = False, gp_status = Ap_active,
     gp_usage_type = (if pq_is_single_use rq = Some True then Single else Multi), gp_times_used = 0,
     gp_resend_attempts = 0, gp_resend_window = None, gp_valid_from = pick (pq_valid_from rq) now,
     gp_valid_until = the (pq_valid_until rq)\<rparr>"

text \<open>\<open>generate_guest_pass_qr_image\<close> stores the picture and writes its column only.\<close>

definition generate_guest_pass_qr_image :: "nat \<Rightarrow> gs_state \<Rightarrow> gs_state" where
  "generate_guest_pass_qr_image k s = s\<lparr>gs_passes :=
     tbl_update (\<lambda>p. gp_id p = k) (\<lambda>p. p\<lparr>gp_qr_image := True\<rparr>) (gs_passes s)\<rparr>"

text \<open>\<open>qr\<close> is the random identifier drawn for the pass: the column is unique.\<close>

definition create_pass :: "datetime \<Rightarrow> nat \<Rightarrow> user \<Rightarrow> pass_request \<Rightarrow> gs_state \<Rightarrow> api_error + gs_state" where
  "create_pass now qr u rq s = guarded
     (first_err [IsGuestOrCompanyMember (Some u), pass_fields_error rq, validate_pass now s u rq,
        require (\<not> list_ex (\<lambda>p. gp_qr_code p = qr) (rows (gs_passes s))) ServerError])
     (let k = next_id (gs_passes s)
      in queue_pass_job (Pass_mail k) (generate_guest_pass_qr_image k
           (s\<lparr>gs_passes := tbl_insert (new_pass now qr u rq) (gs_passes s)\<rparr>)))"

section \<open>Who sees what\<close>

definition pass_queryset :: "gs_state \<Rightarrow> user \<Rightarrow> guest_pass list" where
  "pass_queryset s u =
     (if u_role u = Guest then tbl_filter (own_passes u) (gs_passes s)
      else let qs = company_isolation gp_company u (rows (gs_passes s))
        in if u_role u = Superadmin then qs
           else if u_role u = Company_admin then filter (\<lambda>p. gp_company p = u_company u) qs
           else filter (own_passes u) qs)"

definition get_pass :: "gs_state \<Rightarrow> user \<Rightarrow> nat \<Rightarrow> api_error + guest_pass" where
  "get_pass s u k = (case find (\<lambda>p. gp_id p = k) (pass_queryset s u) of None \<Rightarrow> Inl NotFound | Some p \<Rightarrow> Inr p)"

definition retrieve_pass :: "user \<Rightarrow> nat \<Rightarrow> gs_state \<Rightarrow> api_error + guest_pass" where
  "retrieve_pass u k s = (case IsGuestOrCompanyMember (Some u) of Some e \<Rightarrow> Inl e | None \<Rightarrow> get_pass s u k)"

text \<open>The log of a pass, newest first; a table is in the order its rows were added.\<close>

definition logs_of :: "gs_state \<Rightarrow> nat \<Rightarrow> access_log list" where
  "logs_of s k = rev (tbl_filter (\<lambda>l. al_guest_pass l = Some k) (gs_logs s))"

definition last_log :: "gs_state \<Rightarrow> nat \<Rightarrow> access_log option" where
  "last_log s k = (case logs_of s k of [] \<Rightarrow> None | l # _ \<Rightarrow> Some l)"

definition validations :: "user \<Rightarrow> nat \<Rightarrow> gs_state \<Rightarrow> api_error + nat \<times> access_log list" where
  "validations u k s = (case IsGuestOrCompanyMember (Some u) of
     Some e \<Rightarrow> Inl e
   | None \<Rightarrow> (case get_pass s u k of Inl e \<Rightarrow> Inl e | Inr p \<Rightarrow> Inr (gp_times_used p, logs_of s (gp_id p))))"

section \<open>Revoking and resending\<close>

definition revoke_pass :: "user \<Rightarrow> nat \<Rightarrow> gs_state \<Rightarrow> api_error + gs_state" where
  "revoke_pass u k s = (case IsCompanyAdmin (Some u) of
     Some e \<Rightarrow> Inl e
   | None \<Rightarrow> (case get_pass s u k of
       Inl e \<Rightarrow> Inl e
     | Inr p \<Rightarrow> guarded (require (gp_status p \<notin> {Ap_used, Ap_expired})
           (LocalizedError ''PASS_CANNOT_REVOKE'' ''access.pass_cannot_revoke'' 400))
         (put_pass (p\<lparr>gp_status := Ap_revoked\<rparr>) s)))"

text \<open>
  The counter in the cache: it is added with an hour to live, or incremented with the life it has. When
  the cache cannot be reached (\<open>cache_up\<close> is false) there is no count.
\<close>

definition cache_count :: "datetime \<Rightarrow> nat \<Rightarrow> gs_state \<Rightarrow> (nat \<times> datetime) option" where
  "cache_count now k s = (case map_of (gs_cache s) k of
     Some (n, expiry) \<Rightarrow> if now < expiry then Some (n, expiry) else None
   | None \<Rightarrow> None)"

definition count_attempt :: "datetime \<Rightarrow> bool \<Rightarrow> nat \<Rightarrow> gs_state \<Rightarrow> nat option \<times> gs_state" where
  "count_attempt now cache_up k s =
     (if \<not> cache_up then (None, s)
      else let (n, expiry) = (case cache_count now k s of None \<Rightarrow> (1, now + hours 1) | Some (n, expiry) \<Rightarrow> (Suc n, expiry))
        in (Some n, s\<lparr>gs_cache := (k, n, expiry) # filter (\<lambda>c. fst c \<noteq> k) (gs_cache s)\<rparr>))"

text \<open>The window of the row: a new one begins when the old one began more than an hour ago.\<close>

definition roll_window :: "datetime \<Rightarrow> guest_pass \<Rightarrow> guest_pass" where
  "roll_window now p = (case gp_resend_window p of
     Some w \<Rightarrow> if w < now - hours 1 then p\<lparr>gp_resend_window := Some now, gp_resend_attempts := 0\<rparr> else p
   | None \<Rightarrow> p\<lparr>gp_resend_window := Some now, gp_resend_attempts := 0\<rparr>)"

definition over_resend_limit :: "guest_pass \<Rightarrow> nat option \<Rightarrow> bool" where
  "over_resend_limit p cache_attempts \<longleftrightarrow>
     gp_resend_attempts p \<ge> 3 \<or> (case cache_attempts of None \<Rightarrow> False | Some n \<Rightarrow> n > 3)"

text \<open>A refused request keeps what it wrote to the cache.\<close>

definition resend_pass ::
  "datetime \<Rightarrow> bool \<Rightarrow> user \<Rightarrow> nat \<Rightarrow> gs_state \<Rightarrow> (api_error + unit) \<times> gs_state" where
  "resend_pass now cache_up u k s = (case IsCompanyAdmin (Some u) of
     Some e \<Rightarrow> (Inl e, s)
   | None \<Rightarrow> (case get_pass s u k of
       Inl e \<Rightarrow> (Inl e, s)
     | Inr p \<Rightarrow>
        (if gp_status p \<noteq> Ap_active
         then (Inl (LocalizedError ''RESEND_STATUS_INVALID'' ''access.resend_status_invalid'' 400), s)
         else case count_attempt now cache_up k s of (attempts, s1) \<Rightarrow>
           (let q = roll_window now p in
            if over_resend_limit q attempts
            then (Inl (LocalizedError ''RESEND_RATE_LIMIT_EXCEEDED'' ''access.resend_rate_limit_exceeded'' 429), s1)
            else (Inr (), queue_pass_job (Pass_mail k)
                   (put_pass (q\<lparr>gp_resend_attempts := Suc (gp_resend_attempts q)\<rparr>) s1))))))"

section \<open>At the reception\<close>

text \<open>What the scanner is told.\<close>

datatype scan = Not_known | Not_yet_active datetime | Out_of_date | Withdrawn | Already_used | Admitted

definition pass_by_qr :: "nat \<Rightarrow> gs_state \<Rightarrow> guest_pass option" where
  "pass_by_qr qr s = find (\<lambda>p. gp_qr_code p = qr) (rows (gs_passes s))"

definition scan_answer :: "datetime \<Rightarrow> guest_pass \<Rightarrow> scan" where
  "scan_answer now p =
     (if now < gp_valid_from p then Not_yet_active (gp_valid_from p)
      else if gp_valid_until p < now then Out_of_date
      else if gp_status p = Ap_revoked then Withdrawn
      else if gp_status p = Ap_used \<or> (gp_usage_type p = Single \<and> gp_times_used p > 0) then Already_used
      else if gp_status p \<noteq> Ap_active then Not_known
      else Admitted)"

definition used_once_more :: "guest_pass \<Rightarrow> guest_pass" where
  "used_once_more p = p\<lparr>gp_times_used := Suc (gp_times_used p),
     gp_status := (if gp_usage_type p = Single then Ap_used else gp_status p)\<rparr>"

definition entry_log :: "datetime \<Rightarrow> nat \<Rightarrow> nat \<Rightarrow> nat \<Rightarrow> access_log" where
  "entry_log now k by_whom i = \<lparr>al_id = i, al_guest_pass = Some k, al_user = None, al_checked_by = Some by_whom,
     al_entry_point = [], al_method = By_qr, al_is_entry = True, al_created_at = now\<rparr>"

text \<open>The admission writes the whole row as it was read.\<close>

definition admit_guest :: "datetime \<Rightarrow> user \<Rightarrow> guest_pass \<Rightarrow> gs_state \<Rightarrow> gs_state" where
  "admit_guest now u p s = (let s1 = put_pass (used_once_more p) s in
     queue_pass_job (Entry_mail (gp_id p)) (s1\<lparr>
       gs_logs := tbl_insert (entry_log now (gp_id p) (u_id u)) (gs_logs s1),
       gs_nt := create_notification now (gp_created_by p) Guest_validated (Fmt ''guest_validated.title'' [])
         (Fmt ''guest_validated.message'' [Str (gp_guest_name p), Str (gp_visit_purpose p), At now])
         (Some (Str ''/access/'')) (gs_nt s1)\<rparr>))"

definition validate_pass_qr :: "datetime \<Rightarrow> user \<Rightarrow> nat option \<Rightarrow> gs_state \<Rightarrow> api_error + scan \<times> gs_state" where
  "validate_pass_qr now u v s = (case IsSuperAdminOrReception (Some u) of
     Some e \<Rightarrow> Inl e
   | None \<Rightarrow> (case v of
       None \<Rightarrow> Inl (raise_validation_error ''qr_code'' ''invalid'')
     | Some qr \<Rightarrow> (case pass_by_qr qr s of
         None \<Rightarrow> Inr (Not_known, s)
       | Some p \<Rightarrow> Inr (scan_answer now p, if scan_answer now p = Admitted then admit_guest now u p s else s))))"

text \<open>The public address of the picture: it is made again when it is missing.\<close>

definition guest_pass_qr_image :: "nat \<Rightarrow> gs_state \<Rightarrow> api_error + nat \<times> gs_state" where
  "guest_pass_qr_image qr s = (case pass_by_qr qr s of
     None \<Rightarrow> Inl NotFound
   | Some p \<Rightarrow>
      (if gp_status p \<in> {Ap_revoked, Ap_expired} then Inl NotFound
       else Inr (qr, if gp_qr_image p then s else generate_guest_pass_qr_image (gp_id p) s)))"

section \<open>The log\<close>

text \<open>The log of a company: the entries with its passes.\<close>

definition log_queryset :: "gs_state \<Rightarrow> user \<Rightarrow> access_log list" where
  "log_queryset s u =
     (if u_role u = Superadmin then rows (gs_logs s)
      else tbl_filter (\<lambda>l. Option.bind (Option.bind (al_guest_pass l) (\<lambda>k. tbl_get gp_id k (gs_passes s))) gp_company
             = u_company u) (gs_logs s))"

text \<open>
  The view also takes \<open>POST\<close>: every column but the key and the time is a field of the serializer. The
  keys that are sent must name a row.
\<close>

record log_request =
  lq_guest_pass :: "nat option option"
  lq_user :: "nat option option"
  lq_checked_by :: "nat option option"
  lq_entry_point :: "string option"
  lq_method :: "entry_method option"
  lq_is_entry :: "bool option"

definition known_key :: "('r \<Rightarrow> nat) \<Rightarrow> 'r table \<Rightarrow> string \<Rightarrow> nat option option \<Rightarrow> api_error option" where
  "known_key key t field v = (case v of
     Some (Some k) \<Rightarrow> require (tbl_get key k t \<noteq> None) (raise_validation_error field ''does_not_exist'')
   | _ \<Rightarrow> None)"

definition log_fields_error :: "gs_state \<Rightarrow> log_request \<Rightarrow> api_error option" where
  "log_fields_error s rq = first_err [
     known_key gp_id (gs_passes s) ''guest_pass'' (lq_guest_pass rq),
     known_key u_id (ac_users (gs_acc s)) ''user'' (lq_user rq),
     known_key u_id (ac_users (gs_acc s)) ''checked_by'' (lq_checked_by rq),
     char_field_error ''entry_point'' False True 100 (lq_entry_point rq)]"

definition posted_log :: "datetime \<Rightarrow> log_request \<Rightarrow> nat \<Rightarrow> access_log" where
  "posted_log now rq i = \<lparr>al_id = i, al_guest_pass = pick (lq_guest_pass rq) None, al_user = pick (lq_user rq) None,
     al_checked_by = pick (lq_checked_by rq) None, al_entry_point = text_or [] (lq_entry_point rq),
     al_method = pick (lq_method rq) By_hand, al_is_entry = pick (lq_is_entry rq) True, al_created_at = now\<rparr>"

definition create_log :: "datetime \<Rightarrow> user \<Rightarrow> log_request \<Rightarrow> gs_state \<Rightarrow> api_error + gs_state" where
  "create_log now u rq s = guarded (first_err [IsCompanyAdmin (Some u), log_fields_error s rq])
     (s\<lparr>gs_logs := tbl_insert (posted_log now rq) (gs_logs s)\<rparr>)"

section \<open>Exports\<close>

definition name_of :: "accounts \<Rightarrow> nat option \<Rightarrow> string" where
  "name_of acc v = (case Option.bind v (\<lambda>k. tbl_get u_id k (ac_users acc)) of None \<Rightarrow> [] | Some u \<Rightarrow> full_name u)"

definition company_name :: "accounts \<Rightarrow> nat option \<Rightarrow> string" where
  "company_name acc v = (case Option.bind v (\<lambda>k. tbl_get co_id k (ac_companies acc)) of None \<Rightarrow> [] | Some c \<Rightarrow> co_name c)"

definition status_text :: "pass_status \<Rightarrow> string" where
  "status_text st = (case st of
     Ap_active \<Rightarrow> ''active'' | Ap_used \<Rightarrow> ''used'' | Ap_expired \<Rightarrow> ''expired'' | Ap_revoked \<Rightarrow> ''revoked'')"

definition method_text :: "entry_method \<Rightarrow> string" where
  "method_text m = (case m of By_qr \<Rightarrow> ''qr'' | By_hand \<Rightarrow> ''manual'')"

text \<open>The cells of a row, before the writer of the standard library puts them into a line.\<close>

definition pass_cells :: "gs_state \<Rightarrow> guest_pass \<Rightarrow> msg list" where
  "pass_cells s p = (let acc = gs_acc s; last = last_log s (gp_id p) in
     [Num (int (gp_id p)), Str (gp_guest_name p), Str (gp_guest_email p), Str (gp_guest_phone p), Str (gp_visit_purpose p),
      Str (name_of acc (Some (gp_created_by p))), Str (company_name acc (gp_company p)), Str (status_text (gp_status p)),
      At (gp_valid_from p), At (gp_valid_until p), Num (int (gp_times_used p)),
      Str (name_of acc (Option.bind last al_checked_by)),
      (case last of None \<Rightarrow> Str [] | Some l \<Rightarrow> At (al_created_at l)),
      (case last of None \<Rightarrow> Str [] | Some l \<Rightarrow> Str (method_text (al_method l)))])"

definition export_passes :: "user \<Rightarrow> gs_state \<Rightarrow> api_error + msg list list" where
  "export_passes u s = (case IsCompanyAdmin (Some u) of
     Some e \<Rightarrow> Inl e
   | None \<Rightarrow> Inr (map (pass_cells s) (rev (pass_queryset s u))))"

definition log_cells :: "gs_state \<Rightarrow> access_log \<Rightarrow> msg list" where
  "log_cells s l = (let acc = gs_acc s; gp = Option.bind (al_guest_pass l) (\<lambda>k. tbl_get gp_id k (gs_passes s)) in
     (case gp of
        None \<Rightarrow> [Str [], Str [], Str [], Str []]
      | Some p \<Rightarrow> [Str (gp_guest_name p), Str (gp_guest_email p), Str (company_name acc (gp_company p)),
          Str (name_of acc (Some (gp_created_by p)))])
     @ [Str (name_of acc (al_checked_by l)), At (al_created_at l), Str (method_text (al_method l))])"

definition export_logs :: "user \<Rightarrow> gs_state \<Rightarrow> api_error + msg list list" where
  "export_logs u s = (case IsCompanyAdmin (Some u) of
     Some e \<Rightarrow> Inl e
   | None \<Rightarrow> Inr (map (log_cells s) (rev (log_queryset s u))))"

section \<open>Tasks\<close>

definition send_guest_pass_email :: "nat \<Rightarrow> gs_state \<Rightarrow> gs_state" where
  "send_guest_pass_email k s = (case tbl_get gp_id k (gs_passes s) of
     None \<Rightarrow> s
   | Some p \<Rightarrow> (let s1 = (if gp_qr_image p then s else generate_guest_pass_qr_image k s)
       in s1\<lparr>gs_mails := gs_mails s1 @ [(gp_guest_email p, gp_qr_code p)]\<rparr>))"

definition notify_pass_creator_on_entry :: "nat \<Rightarrow> gs_state \<Rightarrow> gs_state" where
  "notify_pass_creator_on_entry k s = (case tbl_get gp_id k (gs_passes s) of
     None \<Rightarrow> s
   | Some p \<Rightarrow> s\<lparr>gs_nt := delay_email (gp_created_by p) Guest_validated (Fmt ''guest_validated.subject'' []) (gs_nt s)\<rparr>)"

definition run_pass_job :: "pass_job \<Rightarrow> gs_state \<Rightarrow> gs_state" where
  "run_pass_job j s = (case j of Pass_mail k \<Rightarrow> send_guest_pass_email k s | Entry_mail k \<Rightarrow> notify_pass_creator_on_entry k s)"

definition expire_guest_passes :: "datetime \<Rightarrow> gs_state \<Rightarrow> gs_state" where
  "expire_guest_passes now s = s\<lparr>gs_passes :=
     tbl_update (\<lambda>p. gp_status p = Ap_active \<and> gp_valid_until p < now) (\<lambda>p. p\<lparr>gp_status := Ap_expired\<rparr>) (gs_passes s)\<rparr>"

text \<open>The reminder of a pass carries a marker with its key; one a day is enough.\<close>

definition expiring_message :: "guest_pass \<Rightarrow> msg" where
  "expiring_message p = Fmt ''guest_pass_expiring.message'' [At (gp_valid_until p), Num (int (gp_id p))]"

definition has_marker :: "nat \<Rightarrow> msg \<Rightarrow> bool" where
  "has_marker k m \<longleftrightarrow> (case m of Fmt _ [_, Num i] \<Rightarrow> i = int k | _ \<Rightarrow> False)"

definition reminded_today :: "int \<Rightarrow> datetime \<Rightarrow> guest_pass \<Rightarrow> nt_state \<Rightarrow> bool" where
  "reminded_today off now p nt \<longleftrightarrow> list_ex (\<lambda>n. n_user n = gp_created_by p \<and> n_type n = Guest_pass_expiring
     \<and> local_date off (n_created_at n) = local_date off now \<and> has_marker (gp_id p) (n_body n)) (rows (nt_notifs nt))"

definition expiring_soon :: "datetime \<Rightarrow> guest_pass \<Rightarrow> bool" where
  "expiring_soon now p \<longleftrightarrow> gp_status p = Ap_active \<and> gp_valid_until p > now \<and> gp_valid_until p \<le> now + hours 24"

definition remind_creator :: "int \<Rightarrow> datetime \<Rightarrow> guest_pass \<Rightarrow> nt_state \<Rightarrow> nt_state" where
  "remind_creator off now p nt =
     (if reminded_today off now p nt then nt
      else create_notification now (gp_created_by p) Guest_pass_expiring
        (Fmt ''guest_pass_expiring.title'' [Str (gp_guest_name p)]) (expiring_message p) (Some (Str ''/access/'')) nt)"

definition notify_guest_passes_expiring_soon :: "int \<Rightarrow> datetime \<Rightarrow> gs_state \<Rightarrow> gs_state" where
  "notify_guest_passes_expiring_soon off now s =
     s\<lparr>gs_nt := fold (remind_creator off now) (tbl_filter (expiring_soon now) (gs_passes s)) (gs_nt s)\<rparr>"

end
