(* ===== verification/AccessSystem.thy ===== *)
theory AccessSystem
  imports Access
begin

text \<open>
  The life of a guest pass as a step relation, the operations of the component as steps of every pass,
  and what every operation keeps of the tables.
\<close>

section \<open>Operations\<close>

datatype gs_op =
    Op_create_pass datetime nat user pass_request
  | Op_revoke_pass user nat
  | Op_resend_pass datetime bool user nat
  | Op_scan datetime user "nat option"
  | Op_picture nat
  | Op_post_log datetime user log_request
  | Op_pass_job pass_job
  | Op_expire datetime
  | Op_remind int datetime

definition keep_gs :: "gs_state \<Rightarrow> (api_error + gs_state) \<Rightarrow> gs_state" where
  "keep_gs s r = (case r of Inl _ \<Rightarrow> s | Inr s' \<Rightarrow> s')"

definition exec_gs :: "gs_op \<Rightarrow> gs_state \<Rightarrow> gs_state" where
  "exec_gs op s = (case op of
     Op_create_pass now qr u rq \<Rightarrow> keep_gs s (create_pass now qr u rq s)
   | Op_revoke_pass u k \<Rightarrow> keep_gs s (revoke_pass u k s)
   | Op_resend_pass now up u k \<Rightarrow> snd (resend_pass now up u k s)
   | Op_scan now u v \<Rightarrow> keep_gs s (map_sum id snd (validate_pass_qr now u v s))
   | Op_picture qr \<Rightarrow> keep_gs s (map_sum id snd (guest_pass_qr_image qr s))
   | Op_post_log now u rq \<Rightarrow> keep_gs s (create_log now u rq s)
   | Op_pass_job j \<Rightarrow> run_pass_job j s
   | Op_expire now \<Rightarrow> expire_guest_passes now s
   | Op_remind off now \<Rightarrow> notify_guest_passes_expiring_soon off now s)"

definition run_gs :: "gs_op list \<Rightarrow> gs_state \<Rightarrow> gs_state" where
  "run_gs ops s = fold exec_gs ops s"

lemma run_gs_simps [simp]: "run_gs [] s = s" "run_gs (op # ops) s = run_gs ops (exec_gs op s)"
  by (simp_all add: run_gs_def)

text \<open>Whether an operation let somebody in with the code, and how often a run did.\<close>

definition lets_in :: "nat \<Rightarrow> gs_op \<Rightarrow> gs_state \<Rightarrow> bool" where
  "lets_in qr op s \<longleftrightarrow> (case op of
     Op_scan now u (Some q) \<Rightarrow> q = qr \<and> (case validate_pass_qr now u (Some q) s of Inr (Admitted, _) \<Rightarrow> True | _ \<Rightarrow> False)
   | _ \<Rightarrow> False)"

fun admissions :: "nat \<Rightarrow> gs_op list \<Rightarrow> gs_state \<Rightarrow> nat" where
  "admissions qr [] s = 0"
| "admissions qr (op # ops) s = (if lets_in qr op s then 1 else 0) + admissions qr ops (exec_gs op s)"

section \<open>The life of a pass\<close>

definition same_pass :: "guest_pass \<Rightarrow> guest_pass \<Rightarrow> bool" where
  "same_pass p p' \<longleftrightarrow> gp_id p' = gp_id p \<and> gp_qr_code p' = gp_qr_code p \<and> gp_usage_type p' = gp_usage_type p
     \<and> gp_created_by p' = gp_created_by p \<and> gp_company p' = gp_company p \<and> gp_guest_email p' = gp_guest_email p
     \<and> gp_valid_from p' = gp_valid_from p \<and> gp_valid_until p' = gp_valid_until p"

text \<open>The flag says that the step let the guest in.\<close>

inductive moves :: "guest_pass \<Rightarrow> bool \<Rightarrow> guest_pass \<Rightarrow> bool" where
  stays: "same_pass p p' \<Longrightarrow> gp_status p' = gp_status p \<Longrightarrow> gp_times_used p' = gp_times_used p \<Longrightarrow> moves p False p'"
| lapses: "same_pass p p' \<Longrightarrow> gp_status p = Ap_active \<Longrightarrow> gp_status p' \<in> {Ap_revoked, Ap_expired} \<Longrightarrow>
    gp_times_used p' = gp_times_used p \<Longrightarrow> moves p False p'"
| enters: "same_pass p p' \<Longrightarrow> gp_status p = Ap_active \<Longrightarrow> gp_usage_type p = Single \<longrightarrow> gp_times_used p = 0 \<Longrightarrow>
    gp_status p' = (if gp_usage_type p = Single then Ap_used else Ap_active) \<Longrightarrow>
    gp_times_used p' = Suc (gp_times_used p) \<Longrightarrow> moves p True p'"

inductive_cases entersE: "moves p True p'"
inductive_simps moves_from_closed: "moves p b p'"

definition pass_ok :: "guest_pass \<Rightarrow> bool" where
  "pass_ok p \<longleftrightarrow> gp_usage_type p = Single \<longrightarrow> gp_times_used p \<le> 1"

definition gs_inv :: "gs_state \<Rightarrow> bool" where
  "gs_inv s \<longleftrightarrow> tbl_wf gp_id (gs_passes s) \<and> distinct (map gp_qr_code (rows (gs_passes s)))
     \<and> (\<forall>p \<in> set (rows (gs_passes s)). pass_ok p)"

lemma same_pass_refl [simp]: "same_pass p p"
  by (simp add: same_pass_def)

lemma same_pass_trans: "same_pass p q \<Longrightarrow> same_pass q r \<Longrightarrow> same_pass p r"
  by (simp add: same_pass_def)

lemma moves_refl [simp]: "moves p False p"
  by (rule stays) simp_all

lemma moves_same: "moves p b p' \<Longrightarrow> same_pass p p'"
  by (auto elim: moves.cases)

lemma moves_count: "moves p b p' \<Longrightarrow> gp_times_used p' = gp_times_used p + (if b then 1 else 0)"
  by (auto elim: moves.cases)

lemma moves_closed: "moves p b p' \<Longrightarrow> gp_status p \<noteq> Ap_active \<Longrightarrow> gp_status p' = gp_status p \<and> \<not> b"
  by (auto elim: moves.cases)

lemma moves_ok: "moves p b p' \<Longrightarrow> pass_ok p \<Longrightarrow> pass_ok p'"
  by (auto simp: pass_ok_def same_pass_def elim!: moves.cases)

text \<open>
  What every operation does to the table of passes: each row makes a step, its flag says whether the
  operation was its admission, and a new row may come behind them.
\<close>

definition steps_passes :: "(guest_pass \<Rightarrow> bool) \<Rightarrow> gs_state \<Rightarrow> gs_state \<Rightarrow> bool" where
  "steps_passes F s s' \<longleftrightarrow> (\<exists>f. rows (gs_passes s') = map f (rows (gs_passes s)) \<and>
     next_id (gs_passes s') = next_id (gs_passes s) \<and> (\<forall>p \<in> set (rows (gs_passes s)). moves p (F p) (f p)))"

lemma steps_same_passes: "gs_passes s' = gs_passes s \<Longrightarrow> steps_passes (\<lambda>_. False) s s'"
  unfolding steps_passes_def by (rule exI[of _ id]) simp

lemma steps_update:
  assumes "gs_passes s' = tbl_update P g (gs_passes s)"
    and "\<And>p. p \<in> set (rows (gs_passes s)) \<Longrightarrow> P p \<Longrightarrow> moves p (F p) (g p)"
    and "\<And>p. p \<in> set (rows (gs_passes s)) \<Longrightarrow> \<not> P p \<Longrightarrow> \<not> F p"
  shows "steps_passes F s s'"
  unfolding steps_passes_def
  by (rule exI[of _ "\<lambda>p. if P p then g p else p"]) (use assms in \<open>auto simp: assms(1)\<close>)

lemma row_unique:
  "gs_inv s \<Longrightarrow> p \<in> set (rows (gs_passes s)) \<Longrightarrow> q \<in> set (rows (gs_passes s)) \<Longrightarrow> gp_id p = gp_id q \<Longrightarrow> p = q"
  by (auto simp: gs_inv_def tbl_wf_def distinct_map inj_on_def)

lemma qr_unique:
  "gs_inv s \<Longrightarrow> p \<in> set (rows (gs_passes s)) \<Longrightarrow> q \<in> set (rows (gs_passes s)) \<Longrightarrow> gp_qr_code p = gp_qr_code q \<Longrightarrow> p = q"
  by (auto simp: gs_inv_def distinct_map inj_on_def)

lemma steps_save:
  assumes inv: "gs_inv s" and p: "p \<in> set (rows (gs_passes s))" and q: "gp_id q = gp_id p"
    and step: "moves p b q" and s': "gs_passes s' = tbl_save gp_id q (gs_passes s)"
  shows "steps_passes (\<lambda>r. b \<and> gp_id r = gp_id p) s s'"
proof (rule steps_update[OF s'[unfolded tbl_save_def]])
  fix r assume r: "r \<in> set (rows (gs_passes s))" "gp_id r = gp_id q"
  then have "r = p" using row_unique[OF inv r(1) p] q by simp
  then show "moves r (b \<and> gp_id r = gp_id p) q" using step by simp
qed (simp add: q)

lemma pass_queryset_sub: "p \<in> set (pass_queryset s u) \<Longrightarrow> p \<in> set (rows (gs_passes s))"
  by (auto simp: pass_queryset_def Let_def company_isolation_def split: if_splits option.splits)

lemma get_pass_row: "get_pass s u k = Inr p \<Longrightarrow> p \<in> set (rows (gs_passes s)) \<and> gp_id p = k"
  by (auto simp: get_pass_def find_Some_iff split: option.splits dest!: pass_queryset_sub[OF nth_mem])

lemma pass_by_qr_row: "pass_by_qr qr s = Some p \<Longrightarrow> p \<in> set (rows (gs_passes s)) \<and> gp_qr_code p = qr"
  by (auto simp: pass_by_qr_def find_Some_iff)

lemma pass_by_qr_iff:
  "gs_inv s \<Longrightarrow> pass_by_qr qr s = Some p \<longleftrightarrow> p \<in> set (rows (gs_passes s)) \<and> gp_qr_code p = qr"
proof
  assume inv: "gs_inv s" and p: "p \<in> set (rows (gs_passes s)) \<and> gp_qr_code p = qr"
  then have "find (\<lambda>p. gp_qr_code p = qr) (rows (gs_passes s)) \<noteq> None" by (auto simp: find_None_iff)
  then obtain q where "pass_by_qr qr s = Some q" by (auto simp: pass_by_qr_def)
  then show "pass_by_qr qr s = Some p" using qr_unique[OF inv] p pass_by_qr_row by fastforce
qed (rule pass_by_qr_row)

section \<open>Every operation makes steps\<close>

lemma passes_simps [simp]:
  "gs_passes (queue_pass_job j s) = gs_passes s"
  "gs_passes (put_pass p s) = tbl_save gp_id p (gs_passes s)"
  "gs_passes (snd (count_attempt now up k s)) = gs_passes s"
  by (simp_all add: queue_pass_job_def put_pass_def count_attempt_def Let_def split: prod.splits)

lemma picture_steps: "steps_passes (\<lambda>_. False) s (generate_guest_pass_qr_image k s)"
  by (rule steps_update[of _ "\<lambda>p. gp_id p = k" "\<lambda>p. p\<lparr>gp_qr_image := True\<rparr>"])
     (auto simp: generate_guest_pass_qr_image_def same_pass_def intro!: stays)

lemma expire_steps: "steps_passes (\<lambda>_. False) s (expire_guest_passes now s)"
  by (rule steps_update[of _ "\<lambda>p. gp_status p = Ap_active \<and> gp_valid_until p < now" "\<lambda>p. p\<lparr>gp_status := Ap_expired\<rparr>"])
     (auto simp: expire_guest_passes_def same_pass_def intro!: lapses)

lemma job_steps: "steps_passes (\<lambda>_. False) s (run_pass_job j s)"
proof (cases j)
  case (Pass_mail k)
  have "gs_passes (send_guest_pass_email k s) = gs_passes s
      \<or> gs_passes (send_guest_pass_email k s) = gs_passes (generate_guest_pass_qr_image k s)"
    by (simp add: send_guest_pass_email_def Let_def split: option.splits)
  then show ?thesis using picture_steps[of s k] steps_same_passes[of "send_guest_pass_email k s" s]
    by (auto simp: Pass_mail run_pass_job_def steps_passes_def)
qed (auto simp: run_pass_job_def notify_pass_creator_on_entry_def intro!: steps_same_passes split: option.splits)

lemma revoke_pass_ok:
  assumes "revoke_pass u k s = Inr s'"
  obtains p where "get_pass s u k = Inr p" "gp_status p \<in> {Ap_active, Ap_revoked}" "s' = put_pass (p\<lparr>gp_status := Ap_revoked\<rparr>) s"
proof -
  from assms obtain p where p: "get_pass s u k = Inr p" "gp_status p \<notin> {Ap_used, Ap_expired}"
    "s' = put_pass (p\<lparr>gp_status := Ap_revoked\<rparr>) s"
    by (auto simp: revoke_pass_def split: option.splits sum.splits)
  moreover have "gp_status p \<in> {Ap_active, Ap_revoked}" using p(2) by (cases "gp_status p") auto
  ultimately show thesis using that by blast
qed

lemma revoke_steps:
  assumes "gs_inv s" "revoke_pass u k s = Inr s'"
  shows "steps_passes (\<lambda>_. False) s s'"
proof -
  obtain p where p: "get_pass s u k = Inr p" "gp_status p \<in> {Ap_active, Ap_revoked}"
    and s': "s' = put_pass (p\<lparr>gp_status := Ap_revoked\<rparr>) s"
    using revoke_pass_ok[OF assms(2)] by metis
  have "moves p False (p\<lparr>gp_status := Ap_revoked\<rparr>)"
    using p(2) by (auto simp: same_pass_def intro: stays lapses)
  from steps_save[OF assms(1) _ _ this, of s'] get_pass_row[OF p(1)] show ?thesis by (simp add: s')
qed

lemma resend_pass_cases:
  obtains "gs_passes (snd (resend_pass now up u k s)) = gs_passes s" "fst (resend_pass now up u k s) \<noteq> Inr ()"
  | p where "fst (resend_pass now up u k s) = Inr ()" "get_pass s u k = Inr p" "gp_status p = Ap_active"
      "gp_resend_attempts (roll_window now p) < 3"
      "gs_passes (snd (resend_pass now up u k s)) = tbl_save gp_id ((roll_window now p)\<lparr>gp_resend_attempts :=
         Suc (gp_resend_attempts (roll_window now p))\<rparr>) (gs_passes s)"
proof (cases "fst (resend_pass now up u k s) = Inr ()")
  case True
  then obtain p where p: "get_pass s u k = Inr p" "IsCompanyAdmin (Some u) = None" "gp_status p = Ap_active"
    by (auto simp: resend_pass_def split: option.splits sum.splits if_splits)
  obtain n s1 where c: "count_attempt now up k s = (n, s1)" by (cases "count_attempt now up k s") auto
  have "gs_passes s1 = gs_passes s" using passes_simps(3)[of now up k s] c by simp
  with True p c that(2)[of p] show thesis
    by (auto simp: resend_pass_def Let_def over_resend_limit_def split: if_splits)
next
  case False
  have count: "\<And>n s1. count_attempt now up k s = (n, s1) \<Longrightarrow> gs_passes s1 = gs_passes s"
    using passes_simps(3)[of now up k s] by simp
  from False have "gs_passes (snd (resend_pass now up u k s)) = gs_passes s"
    by (auto simp: resend_pass_def Let_def count split: option.splits sum.splits prod.splits if_splits)
  with False show thesis using that(1) by blast
qed

lemma roll_window_same [simp]:
  "same_pass p (roll_window now p)" "gp_status (roll_window now p) = gp_status p"
  "gp_times_used (roll_window now p) = gp_times_used p" "gp_id (roll_window now p) = gp_id p"
  by (auto simp: roll_window_def same_pass_def split: option.splits)

lemma resend_steps:
  assumes "gs_inv s"
  shows "steps_passes (\<lambda>_. False) s (snd (resend_pass now up u k s))"
proof (cases rule: resend_pass_cases[of now up u k s])
  case (2 p)
  let ?q = "(roll_window now p)\<lparr>gp_resend_attempts := Suc (gp_resend_attempts (roll_window now p))\<rparr>"
  have "moves p False ?q"
    using roll_window_same(1)[of p now] by (intro stays) (simp_all add: same_pass_def)
  from steps_save[OF assms _ _ this 2(5)] get_pass_row[OF 2(2)] show ?thesis by simp
qed (rule steps_same_passes)

lemma admit_passes [simp]: "gs_passes (admit_guest now u p s) = tbl_save gp_id (used_once_more p) (gs_passes s)"
  by (simp add: admit_guest_def Let_def)

lemma admitted_moves: "scan_answer now p = Admitted \<Longrightarrow> moves p True (used_once_more p)"
  by (rule enters) (auto simp: scan_answer_def used_once_more_def same_pass_def split: if_splits)

lemma scan_steps:
  assumes inv: "gs_inv s" and ok: "validate_pass_qr now u (Some qr) s = Inr (a, s')"
  shows "steps_passes (\<lambda>p. a = Admitted \<and> gp_qr_code p = qr) s s'"
proof (cases "a = Admitted")
  case True
  with ok obtain p where p: "pass_by_qr qr s = Some p" "scan_answer now p = Admitted" "s' = admit_guest now u p s"
    by (auto simp: validate_pass_qr_def split: option.splits if_splits)
  note row = pass_by_qr_row[OF p(1)]
  have "steps_passes (\<lambda>r. True \<and> gp_id r = gp_id p) s s'"
    by (rule steps_save[OF inv _ _ admitted_moves[OF p(2)]]) (simp_all add: row p(3) used_once_more_def)
  moreover have "\<forall>r \<in> set (rows (gs_passes s)). gp_id r = gp_id p \<longleftrightarrow> gp_qr_code r = qr"
    using row row_unique[OF inv] qr_unique[OF inv] by blast
  ultimately show ?thesis using True by (auto simp: steps_passes_def)
next
  case False
  with ok have "s' = s" by (auto simp: validate_pass_qr_def split: option.splits if_splits)
  with False show ?thesis by (simp add: steps_same_passes)
qed

text \<open>A creation appends a fresh active pass.\<close>

lemma create_pass_ok:
  assumes "create_pass now qr u rq s = Inr s'"
  shows "validate_pass now s u rq = None" "IsGuestOrCompanyMember (Some u) = None"
    "\<forall>p \<in> set (rows (gs_passes s)). gp_qr_code p \<noteq> qr"
    "gs_passes s' = tbl_update (\<lambda>p. gp_id p = next_id (gs_passes s)) (\<lambda>p. p\<lparr>gp_qr_image := True\<rparr>)
       (tbl_insert (new_pass now qr u rq) (gs_passes s))"
  using assms
  by (auto simp: create_pass_def Let_def generate_guest_pass_qr_image_def list_ex_iff)

lemma create_rows:
  assumes inv: "gs_inv s" and ok: "create_pass now qr u rq s = Inr s'"
  shows "rows (gs_passes s') = rows (gs_passes s) @ [(new_pass now qr u rq (next_id (gs_passes s)))\<lparr>gp_qr_image := True\<rparr>]"
    "next_id (gs_passes s') = Suc (next_id (gs_passes s))"
proof -
  have "\<forall>p \<in> set (rows (gs_passes s)). gp_id p \<noteq> next_id (gs_passes s)"
    using inv by (auto simp: gs_inv_def tbl_wf_def list_all_iff)
  then have "map (\<lambda>p. if gp_id p = next_id (gs_passes s) then p\<lparr>gp_qr_image := True\<rparr> else p) (rows (gs_passes s)) = rows (gs_passes s)"
    by (intro map_idI) simp
  then show "rows (gs_passes s') = rows (gs_passes s) @ [(new_pass now qr u rq (next_id (gs_passes s)))\<lparr>gp_qr_image := True\<rparr>]"
    by (simp add: create_pass_ok(4)[OF ok] new_pass_def)
  show "next_id (gs_passes s') = Suc (next_id (gs_passes s))" by (simp add: create_pass_ok(4)[OF ok])
qed

section \<open>The invariant, and the passes of a run\<close>

lemma steps_inv: "gs_inv s \<Longrightarrow> steps_passes F s s' \<Longrightarrow> gs_inv s'"
proof -
  assume inv: "gs_inv s" and st: "steps_passes F s s'"
  from st obtain f where f: "rows (gs_passes s') = map f (rows (gs_passes s))" "next_id (gs_passes s') = next_id (gs_passes s)"
    and mv: "\<forall>p \<in> set (rows (gs_passes s)). moves p (F p) (f p)"
    by (auto simp: steps_passes_def)
  have same: "\<forall>p \<in> set (rows (gs_passes s)). gp_id (f p) = gp_id p \<and> gp_qr_code (f p) = gp_qr_code p"
    using mv moves_same by (fastforce simp: same_pass_def)
  then have ids: "map gp_id (rows (gs_passes s')) = map gp_id (rows (gs_passes s))"
    and qrs: "map gp_qr_code (rows (gs_passes s')) = map gp_qr_code (rows (gs_passes s))"
    by (simp_all add: f(1))
  have "list_all (\<lambda>r. gp_id r < next_id (gs_passes s')) (rows (gs_passes s'))"
    using inv same by (auto simp: gs_inv_def tbl_wf_def list_all_iff f)
  moreover have "\<forall>p \<in> set (rows (gs_passes s')). pass_ok p"
    using inv mv moves_ok by (fastforce simp: f(1) gs_inv_def)
  ultimately show "gs_inv s'" using inv ids qrs by (simp add: gs_inv_def tbl_wf_def)
qed

lemma create_inv:
  assumes inv: "gs_inv s" and ok: "create_pass now qr u rq s = Inr s'"
  shows "gs_inv s'"
proof -
  have "\<forall>p \<in> set (rows (gs_passes s)). gp_qr_code p \<noteq> qr" using create_pass_ok(3)[OF ok] .
  moreover have "\<forall>p \<in> set (rows (gs_passes s)). gp_id p < next_id (gs_passes s)"
    using inv by (auto simp: gs_inv_def tbl_wf_def list_all_iff)
  ultimately show ?thesis
    using inv by (auto simp: gs_inv_def tbl_wf_def create_rows[OF inv ok] new_pass_def pass_ok_def list_all_iff less_Suc_eq)
qed

lemma exec_gs_step:
  assumes inv: "gs_inv s"
  shows "steps_passes (\<lambda>p. lets_in (gp_qr_code p) op s) s (exec_gs op s)
    \<or> (\<exists>now qr u rq. op = Op_create_pass now qr u rq \<and> create_pass now qr u rq s = Inr (exec_gs op s))"
proof (cases op)
  case (Op_create_pass now qr u rq)
  then show ?thesis
    by (cases "create_pass now qr u rq s") (auto simp: exec_gs_def keep_gs_def lets_in_def intro: steps_same_passes)
next
  case (Op_revoke_pass u k)
  then show ?thesis using revoke_steps[OF inv, of u k]
    by (cases "revoke_pass u k s") (auto simp: exec_gs_def keep_gs_def lets_in_def intro: steps_same_passes)
next
  case (Op_resend_pass now up u k)
  then show ?thesis using resend_steps[OF inv] by (simp add: exec_gs_def lets_in_def)
next
  case (Op_scan now u v)
  show ?thesis
  proof (cases "\<exists>qr a s'. v = Some qr \<and> validate_pass_qr now u v s = Inr (a, s')")
    case True
    then obtain qr a s' where v: "v = Some qr" "validate_pass_qr now u (Some qr) s = Inr (a, s')" by blast
    have "lets_in q op s \<longleftrightarrow> a = Admitted \<and> q = qr" for q
      using v by (cases a) (auto simp: Op_scan lets_in_def)
    then show ?thesis using scan_steps[OF inv v(2)] v by (simp add: Op_scan exec_gs_def keep_gs_def)
  next
    case False
    have "keep_gs s (map_sum id snd (validate_pass_qr now u v s)) = s"
      using False by (cases v) (auto simp: keep_gs_def validate_pass_qr_def split: sum.splits option.splits)
    moreover have "\<not> lets_in q op s" for q
      using False by (auto simp: Op_scan lets_in_def split: option.splits sum.splits)
    ultimately show ?thesis by (simp add: Op_scan exec_gs_def steps_same_passes)
  qed
next
  case (Op_picture qr)
  have "keep_gs s (map_sum id snd (guest_pass_qr_image qr s)) = s
      \<or> (\<exists>k. keep_gs s (map_sum id snd (guest_pass_qr_image qr s)) = generate_guest_pass_qr_image k s)"
    by (auto simp: keep_gs_def guest_pass_qr_image_def split: option.splits)
  then show ?thesis using picture_steps steps_same_passes[of s s] by (auto simp: Op_picture exec_gs_def lets_in_def)
next
  case (Op_post_log now u rq)
  have "gs_passes (keep_gs s (create_log now u rq s)) = gs_passes s"
    by (auto simp: keep_gs_def create_log_def guarded_def split: option.splits)
  then show ?thesis by (simp add: Op_post_log exec_gs_def lets_in_def steps_same_passes)
next
  case (Op_pass_job j)
  then show ?thesis by (simp add: exec_gs_def lets_in_def job_steps)
next
  case (Op_expire now)
  then show ?thesis by (simp add: exec_gs_def lets_in_def expire_steps)
next
  case (Op_remind off now)
  then show ?thesis by (simp add: exec_gs_def lets_in_def notify_guest_passes_expiring_soon_def steps_same_passes)
qed

lemma exec_gs_inv: "gs_inv s \<Longrightarrow> gs_inv (exec_gs op s)"
  using exec_gs_step[of s op] steps_inv create_inv by blast

text \<open>Every pass that is there makes a step.\<close>

lemma exec_gs_moves:
  assumes "gs_inv s" "p \<in> set (rows (gs_passes s))"
  shows "\<exists>p' \<in> set (rows (gs_passes (exec_gs op s))). moves p (lets_in (gp_qr_code p) op s) p'"
  using exec_gs_step[OF assms(1), of op]
proof
  assume "steps_passes (\<lambda>p. lets_in (gp_qr_code p) op s) s (exec_gs op s)"
  then show ?thesis using assms(2) by (auto simp: steps_passes_def)
next
  assume "\<exists>now qr u rq. op = Op_create_pass now qr u rq \<and> create_pass now qr u rq s = Inr (exec_gs op s)"
  then obtain now qr u rq where c: "op = Op_create_pass now qr u rq" "create_pass now qr u rq s = Inr (exec_gs op s)" by blast
  then have "p \<in> set (rows (gs_passes (exec_gs op s)))" using create_rows(1)[OF assms(1) c(2)] assms(2) by simp
  then show ?thesis by (auto simp: c(1) lets_in_def intro!: bexI[of _ p])
qed

end
