(* ===== verification/AccessProps.thy ===== *)
theory AccessProps
  imports AccessSystem
begin

text \<open>
  Properties of the guest passes: how often a pass lets somebody in, what two readers at once do to it,
  how often it is mailed, how many passes a guest holds, and what the log of entries is worth.
\<close>

section \<open>The life of a pass\<close>

lemma run_gs_life:
  "gs_inv s \<Longrightarrow> p \<in> set (rows (gs_passes s)) \<Longrightarrow>
   gs_inv (run_gs ops s) \<and> (\<exists>p' \<in> set (rows (gs_passes (run_gs ops s))). same_pass p p'
     \<and> gp_times_used p' = gp_times_used p + admissions (gp_qr_code p) ops s
     \<and> (gp_status p \<noteq> Ap_active \<longrightarrow> gp_status p' = gp_status p \<and> admissions (gp_qr_code p) ops s = 0))"
proof (induction ops arbitrary: s p)
  case (Cons op ops)
  obtain q where q: "q \<in> set (rows (gs_passes (exec_gs op s)))" and mv: "moves p (lets_in (gp_qr_code p) op s) q"
    using exec_gs_moves[OF Cons.prems] by blast
  have code: "gp_qr_code q = gp_qr_code p" using moves_same[OF mv] by (simp add: same_pass_def)
  obtain p' where p': "p' \<in> set (rows (gs_passes (run_gs ops (exec_gs op s))))" "same_pass q p'"
    "gp_times_used p' = gp_times_used q + admissions (gp_qr_code p) ops (exec_gs op s)"
    "gp_status q \<noteq> Ap_active \<longrightarrow> gp_status p' = gp_status q \<and> admissions (gp_qr_code p) ops (exec_gs op s) = 0"
    and inv: "gs_inv (run_gs ops (exec_gs op s))"
    using Cons.IH[OF exec_gs_inv[OF Cons.prems(1)] q] unfolding code by blast
  have "same_pass p p'" using moves_same[OF mv] p'(2) by (rule same_pass_trans)
  moreover have "gp_times_used p' = gp_times_used p + admissions (gp_qr_code p) (op # ops) s"
    using moves_count[OF mv] p'(3) by simp
  moreover have "gp_status p \<noteq> Ap_active \<longrightarrow> gp_status p' = gp_status p \<and> admissions (gp_qr_code p) (op # ops) s = 0"
    using moves_closed[OF mv] p'(4) by simp
  ultimately show ?case using p'(1) inv by auto
qed (auto intro!: bexI)

text \<open>
  C26: in every run of the component's operations a pass counts exactly the people its code let in; a
  single-use pass lets one person in over its whole life; and a pass that was used up, revoked or has
  expired keeps that status and lets nobody in any more.
\<close>

theorem passes_admit_within_their_use:
  assumes "gs_inv s" "p \<in> set (rows (gs_passes s))"
  shows "\<exists>p'. tbl_get gp_id (gp_id p) (gs_passes (run_gs ops s)) = Some p' \<and> gp_qr_code p' = gp_qr_code p
    \<and> gp_times_used p' = gp_times_used p + admissions (gp_qr_code p) ops s
    \<and> (gp_usage_type p = Single \<longrightarrow> gp_times_used p + admissions (gp_qr_code p) ops s \<le> 1)
    \<and> (gp_status p \<noteq> Ap_active \<longrightarrow> gp_status p' = gp_status p \<and> admissions (gp_qr_code p) ops s = 0)"
proof -
  obtain p' where inv: "gs_inv (run_gs ops s)" and p': "p' \<in> set (rows (gs_passes (run_gs ops s)))" "same_pass p p'"
    "gp_times_used p' = gp_times_used p + admissions (gp_qr_code p) ops s"
    "gp_status p \<noteq> Ap_active \<longrightarrow> gp_status p' = gp_status p \<and> admissions (gp_qr_code p) ops s = 0"
    using run_gs_life[OF assms] by blast
  have "tbl_get gp_id (gp_id p') (gs_passes (run_gs ops s)) = Some p'"
    using inv p'(1) by (simp add: gs_inv_def tbl_get_row)
  moreover have "pass_ok p'" using inv p'(1) by (simp add: gs_inv_def)
  ultimately show ?thesis using p' by (auto simp: same_pass_def pass_ok_def)
qed

definition visitor_pass :: "pass_usage \<Rightarrow> guest_pass" where
  "visitor_pass use = \<lparr>gp_id = 1, gp_created_by = 3, gp_company = Some 1, gp_guest_name = ''Ann'', gp_guest_email = ''a@x.org'',
     gp_guest_phone = [], gp_visit_purpose = ''visit'', gp_qr_code = 77, gp_qr_image = True, gp_status = Ap_active,
     gp_usage_type = use, gp_times_used = 0, gp_resend_attempts = 0, gp_resend_window = None, gp_valid_from = 0,
     gp_valid_until = hours 10\<rparr>"

definition desk_gs :: "pass_usage \<Rightarrow> gs_state" where
  "desk_gs use = \<lparr>gs_acc = \<lparr>ac_users = Table [demo_user 2 Reception None, demo_user 3 Employee (Some 1),
       demo_user 4 Company_admin (Some 2)] 5, ac_companies = Table [demo_company] 2\<rparr>,
     gs_nt = \<lparr>nt_prefs = empty_table, nt_notifs = empty_table, nt_queue = [], nt_cache = [], nt_outbox = []\<rparr>,
     gs_passes = Table [visitor_pass use] 2, gs_logs = empty_table, gs_cache = [], gs_jobs = [], gs_mails = []\<rparr>"

lemma desk_gs_inv: "gs_inv (desk_gs use)" "visitor_pass use \<in> set (rows (gs_passes (desk_gs use)))"
  "gp_id (visitor_pass use) = 1" "gp_qr_code (visitor_pass use) = 77" "gp_times_used (visitor_pass use) = 0"
  "gp_usage_type (visitor_pass use) = use"
  by (simp_all add: gs_inv_def desk_gs_def visitor_pass_def tbl_wf_def pass_ok_def)

theorem passes_admit_within_their_use_witness:
  "admissions 77 [Op_scan 5 (demo_user 2 Reception None) (Some 77), Op_scan 6 (demo_user 2 Reception None) (Some 77),
     Op_expire (hours 11)] (desk_gs Single) \<le> 1"
  using passes_admit_within_their_use[OF desk_gs_inv(1,2), of Single "[Op_scan 5 (demo_user 2 Reception None) (Some 77),
     Op_scan 6 (demo_user 2 Reception None) (Some 77), Op_expire (hours 11)]"]
  by (auto simp: desk_gs_inv)

section \<open>Two readers at once\<close>

text \<open>
  The row is read, looked at, and written as a whole without a lock. A reader at a desk is a request
  between its read and its write; other requests may come in between.
\<close>

type_synonym readers = "nat \<Rightarrow> (datetime \<times> user \<times> guest_pass) option"

inductive desk_step :: "gs_state \<times> readers \<Rightarrow> gs_state \<times> readers \<Rightarrow> bool" where
  reads: "IsSuperAdminOrReception (Some u) = None \<Longrightarrow> pass_by_qr qr s = Some p \<Longrightarrow> scan_answer now p = Admitted \<Longrightarrow>
    w d = None \<Longrightarrow> desk_step (s, w) (s, w(d \<mapsto> (now, u, p)))"
| writes: "w d = Some (now, u, p) \<Longrightarrow> desk_step (s, w) (admit_guest now u p s, w(d := None))"
| other: "desk_step (s, w) (exec_gs op s, w)"

lemma save_twice:
  assumes "gs_inv s" "p \<in> set (rows (gs_passes s))" "gp_id q = gp_id p" "gp_id r = gp_id p"
  shows "tbl_get gp_id (gp_id p) (tbl_save gp_id q (tbl_save gp_id r (gs_passes s))) = Some q"
proof -
  have "tbl_wf gp_id (gs_passes s)" "tbl_get gp_id (gp_id p) (gs_passes s) = Some p"
    using assms(1,2) by (simp_all add: gs_inv_def tbl_get_row)
  with assms(3,4) show ?thesis using passes.save_overwrites[of "gs_passes s" r q "gp_id p"] by (simp add: passes.get_save)
qed

text \<open>A reader nobody comes between is the operation of the view.\<close>

lemma alone_is_the_view:
  assumes "IsSuperAdminOrReception (Some u) = None" "pass_by_qr qr s = Some p" "scan_answer now p = Admitted"
  shows "desk_step\<^sup>*\<^sup>* (s, Map.empty) (exec_gs (Op_scan now u (Some qr)) s, Map.empty)"
proof -
  have "desk_step (s, Map.empty) (s, Map.empty(0 \<mapsto> (now, u, p)))" by (rule reads) (use assms in auto)
  moreover have "desk_step (s, Map.empty(0 \<mapsto> (now, u, p))) (admit_guest now u p s, (Map.empty(0 \<mapsto> (now, u, p)))(0 := None))"
    by (rule writes) simp
  moreover have "exec_gs (Op_scan now u (Some qr)) s = admit_guest now u p s"
    using assms by (simp add: exec_gs_def keep_gs_def validate_pass_qr_def)
  ultimately show ?thesis by (simp add: rtranclp.intros converse_rtranclp_into_rtranclp)
qed

lemma admit_logs: "logs_of (admit_guest now u p s) (gp_id p)
    = entry_log now (gp_id p) (u_id u) (next_id (gs_logs s)) # logs_of s (gp_id p)"
  by (simp add: admit_guest_def Let_def logs_of_def queue_pass_job_def tbl_filter_def entry_log_def put_pass_def)

text \<open>
  C27: two readers at once both let a visitor in with one single-use pass: both read the row before either
  writes it. The log then has two entries, while the pass counts one.
\<close>

theorem overlapping_scans_admit_twice:
  assumes inv: "gs_inv s" and p: "p \<in> set (rows (gs_passes s))" "gp_usage_type p = Single"
    and now: "scan_answer now p = Admitted" and u: "IsSuperAdminOrReception (Some u) = None"
  shows "\<exists>s'. desk_step\<^sup>*\<^sup>* (s, Map.empty) (s', Map.empty)
    \<and> length (logs_of s' (gp_id p)) = length (logs_of s (gp_id p)) + 2
    \<and> (\<exists>p'. tbl_get gp_id (gp_id p) (gs_passes s') = Some p' \<and> gp_times_used p' = Suc 0 \<and> gp_status p' = Ap_used)"
proof -
  let ?r = "(now, u, p)" and ?s1 = "admit_guest now u p s"
  have read: "pass_by_qr (gp_qr_code p) s = Some p" using pass_by_qr_iff[OF inv] p(1) by simp
  let ?w1 = "Map.empty(0 \<mapsto> ?r)" and ?w2 = "Map.empty(0 \<mapsto> ?r, 1 \<mapsto> ?r)"
  have st1: "desk_step (s, Map.empty) (s, ?w1)" by (rule reads[OF u read now]) simp
  have st2: "desk_step (s, ?w1) (s, ?w2)" by (rule reads[OF u read now]) simp
  have st3: "desk_step (s, ?w2) (?s1, ?w2(0 := None))" by (rule writes) simp
  have st4: "desk_step (?s1, ?w2(0 := None)) (admit_guest now u p ?s1, ?w2(0 := None, 1 := None))" by (rule writes) simp
  have empty: "?w2(0 := None, 1 := None) = Map.empty" by auto
  have steps: "desk_step\<^sup>*\<^sup>* (s, Map.empty) (admit_guest now u p ?s1, Map.empty)"
    by (rule converse_rtranclp_into_rtranclp, rule st1, rule converse_rtranclp_into_rtranclp, rule st2,
        rule converse_rtranclp_into_rtranclp, rule st3, rule r_into_rtranclp, rule st4[unfolded empty])
  have used: "gp_times_used p = 0" "gp_status p = Ap_active" using now p(2) by (auto simp: scan_answer_def split: if_splits)
  have "tbl_get gp_id (gp_id p) (gs_passes (admit_guest now u p ?s1)) = Some (used_once_more p)"
    using save_twice[OF inv p(1)] by (simp add: used_once_more_def)
  moreover have "gp_times_used (used_once_more p) = Suc 0" "gp_status (used_once_more p) = Ap_used"
    using used p(2) by (simp_all add: used_once_more_def)
  moreover have "length (logs_of (admit_guest now u p ?s1) (gp_id p)) = length (logs_of s (gp_id p)) + 2"
    by (simp add: admit_logs)
  ultimately show ?thesis using steps by blast
qed

theorem overlapping_scans_admit_twice_witness:
  "\<exists>s'. desk_step\<^sup>*\<^sup>* (desk_gs Single, Map.empty) (s', Map.empty) \<and> length (logs_of s' 1) = 2"
proof -
  have "scan_answer 5 (visitor_pass Single) = Admitted" "IsSuperAdminOrReception (Some (demo_user 2 Reception None)) = None"
    by code_simp+
  from overlapping_scans_admit_twice[OF desk_gs_inv(1,2) _ this] show ?thesis
    by (auto simp: desk_gs_inv desk_gs_def logs_of_def tbl_filter_def)
qed

text \<open>
  In the same way a revocation is lost: the admission of a pass that may be used more than once, read
  before the revocation and written behind it, makes the pass active again.
\<close>

theorem scan_undoes_revocation:
  assumes inv: "gs_inv s" and p: "p \<in> set (rows (gs_passes s))" "gp_usage_type p = Multi"
    and now: "scan_answer now p = Admitted" and u: "IsSuperAdminOrReception (Some u) = None" and a: "u_role a = Superadmin"
  shows "\<exists>s1 w s2. desk_step\<^sup>*\<^sup>* (s, Map.empty) (s1, w) \<and> revoke_pass a (gp_id p) s1 = Inr s2
    \<and> (\<exists>s' p'. desk_step\<^sup>*\<^sup>* (s2, w) (s', Map.empty)
      \<and> tbl_get gp_id (gp_id p) (gs_passes s') = Some p' \<and> gp_status p' = Ap_active)"
proof -
  let ?r = "(now, u, p)" and ?s2 = "put_pass (p\<lparr>gp_status := Ap_revoked\<rparr>) s"
  have act: "gp_status p = Ap_active" using now by (auto simp: scan_answer_def split: if_splits)
  have "desk_step (s, Map.empty) (s, Map.empty(0 \<mapsto> ?r))"
    by (rule reads[OF u _ now, of "gp_qr_code p"]) (use pass_by_qr_iff[OF inv] p(1) in auto)
  then have c1: "desk_step\<^sup>*\<^sup>* (s, Map.empty) (s, Map.empty(0 \<mapsto> ?r))" by blast
  have "find (\<lambda>x. gp_id x = gp_id p) (rows (gs_passes s)) = Some p"
    using inv p(1) by (simp add: gs_inv_def tbl_get_row flip: tbl_get_def)
  then have "get_pass s a (gp_id p) = Inr p"
    using a by (simp add: get_pass_def pass_queryset_def Let_def company_isolation_def)
  then have c2: "revoke_pass a (gp_id p) s = Inr ?s2"
    using a act by (simp add: revoke_pass_def permission_defs require_simps)
  have "desk_step (?s2, Map.empty(0 \<mapsto> ?r)) (admit_guest now u p ?s2, (Map.empty(0 \<mapsto> ?r))(0 := None))"
    by (rule writes) simp
  then have c3: "desk_step\<^sup>*\<^sup>* (?s2, Map.empty(0 \<mapsto> ?r)) (admit_guest now u p ?s2, Map.empty)" by simp
  have "tbl_get gp_id (gp_id p) (gs_passes (admit_guest now u p ?s2)) = Some (used_once_more p)"
    using save_twice[OF inv p(1)] by (simp add: used_once_more_def)
  moreover have "gp_status (used_once_more p) = Ap_active" using p(2) act by (simp add: used_once_more_def)
  ultimately show ?thesis using c1 c2 c3 by blast
qed

theorem scan_undoes_revocation_witness:
  "\<exists>s1 w s2. desk_step\<^sup>*\<^sup>* (desk_gs Multi, Map.empty) (s1, w) \<and> revoke_pass (demo_user 9 Superadmin None) 1 s1 = Inr s2
    \<and> (\<exists>s' p'. desk_step\<^sup>*\<^sup>* (s2, w) (s', Map.empty) \<and> tbl_get gp_id 1 (gs_passes s') = Some p' \<and> gp_status p' = Ap_active)"
proof -
  have "scan_answer 5 (visitor_pass Multi) = Admitted" "IsSuperAdminOrReception (Some (demo_user 2 Reception None)) = None"
    "u_role (demo_user 9 Superadmin None) = Superadmin" by code_simp+
  from scan_undoes_revocation[OF desk_gs_inv(1,2) _ this] show ?thesis by (simp only: desk_gs_inv)
qed

section \<open>The passes a guest holds\<close>

definition made_by_guest :: "nat \<Rightarrow> gs_op \<Rightarrow> bool" where
  "made_by_guest g op \<longleftrightarrow> (case op of Op_create_pass now qr u rq \<Rightarrow> u_id u = g \<longrightarrow> u_role u = Guest | _ \<Rightarrow> True)"

definition held :: "nat \<Rightarrow> gs_state \<Rightarrow> nat" where
  "held g s = length (filter (\<lambda>p. gp_status p = Ap_active \<and> gp_created_by p = g) (rows (gs_passes s)))"

lemma length_filter_map_le:
  "(\<And>x. x \<in> set xs \<Longrightarrow> P (f x) \<Longrightarrow> P x) \<Longrightarrow> length (filter P (map f xs)) \<le> length (filter P xs)"
  by (induction xs) auto

lemma moves_active: "moves p b p' \<Longrightarrow> gp_status p' = Ap_active \<Longrightarrow> gp_status p = Ap_active"
  by (auto elim: moves.cases)

lemma steps_held:
  assumes "steps_passes F s s'"
  shows "held g s' \<le> held g s"
proof -
  obtain f where f: "rows (gs_passes s') = map f (rows (gs_passes s))" "\<forall>p \<in> set (rows (gs_passes s)). moves p (F p) (f p)"
    using assms by (auto simp: steps_passes_def)
  have "gp_status p = Ap_active \<and> gp_created_by p = g"
    if "p \<in> set (rows (gs_passes s))" "gp_status (f p) = Ap_active \<and> gp_created_by (f p) = g" for p
  proof -
    have mv: "moves p (F p) (f p)" using f(2) that(1) by blast
    show ?thesis using moves_active[OF mv] moves_same[OF mv] that(2) by (simp add: same_pass_def)
  qed
  then show ?thesis unfolding held_def f(1) by (rule length_filter_map_le)
qed

lemma exec_gs_held:
  assumes inv: "gs_inv s" and g: "made_by_guest g op" and le: "held g s \<le> 2"
  shows "held g (exec_gs op s) \<le> 2"
  using exec_gs_step[OF inv, of op]
proof
  assume "\<exists>now qr u rq. op = Op_create_pass now qr u rq \<and> create_pass now qr u rq s = Inr (exec_gs op s)"
  then obtain now qr u rq where c: "op = Op_create_pass now qr u rq" "create_pass now qr u rq s = Inr (exec_gs op s)" by blast
  have "held g s < 2" if "u_id u = g"
    using create_pass_ok(1)[OF c(2)] g that
    by (simp add: c(1) made_by_guest_def validate_pass_def Let_def pass_limit_error_def active_passes_def tbl_filter_def
        own_passes_def held_def)
  then show ?thesis using le by (auto simp: held_def create_rows(1)[OF inv c(2)] new_pass_def)
qed (use steps_held le order_trans in blast)

text \<open>
  In every run in which the requests of a person are those of a guest, the person has at most two
  active passes at any time.
\<close>

theorem guests_hold_two_passes:
  assumes "gs_inv s" "held g s \<le> 2" "\<forall>op \<in> set ops. made_by_guest g op"
  shows "held g (run_gs ops s) \<le> 2"
  using assms
proof (induction ops arbitrary: s)
  case (Cons op ops)
  have "held g (run_gs ops (exec_gs op s)) \<le> 2"
    by (rule Cons.IH[OF exec_gs_inv[OF Cons.prems(1)] exec_gs_held[OF Cons.prems(1) _ Cons.prems(2)]])
       (use Cons.prems(3) in simp_all)
  then show ?case by simp
qed simp

definition ask_pass :: "string \<Rightarrow> pass_request" where
  "ask_pass email = \<lparr>pq_guest_name = Some ''Bob'', pq_guest_email = Some email, pq_guest_phone = None, pq_purpose = Some ''x'',
     pq_valid_from = None, pq_valid_until = Some (hours 5), pq_is_single_use = Some True\<rparr>"

theorem guests_hold_two_passes_witness:
  "held 8 (run_gs [Op_create_pass 1 5 (demo_user 8 Guest None) (ask_pass ''b@x.org''),
      Op_create_pass 2 6 (demo_user 8 Guest None) (ask_pass ''b@x.org''),
      Op_create_pass 3 7 (demo_user 8 Guest None) (ask_pass ''c@x.org'')] (desk_gs Single)) \<le> 2"
proof -
  have "held 8 (desk_gs Single) \<le> 2" by code_simp
  then show ?thesis
    by (rule guests_hold_two_passes[OF desk_gs_inv(1)]) (simp add: made_by_guest_def demo_user_def)
qed

text \<open>
  The limit of an employee counts the active passes of the very address: the same address in another
  case is let through however many there are.
\<close>

theorem address_case_escapes_the_limit:
  assumes u: "u_role u = Employee" and free: "\<forall>p \<in> set (rows (gs_passes s)). gp_guest_email p \<noteq> email"
  shows "pass_limit_error s u email = None"
  using assms by (simp add: pass_limit_error_def active_passes_def passes_of_guest_def tbl_filter_def filter_empty_conv)

section \<open>The log of entries\<close>

text \<open>
  The log can be written by hand from outside: the admin of any company posts an entry with the pass
  of another company, as if somebody of the reception had scanned it, and the entry is the last one that
  pass shows, although its count stays as it was.
\<close>

theorem access_log_can_be_forged:
  assumes u: "u_role u = Company_admin" and p: "tbl_get gp_id k (gs_passes s) = Some p"
    and v: "tbl_get u_id r (ac_users (gs_acc s)) \<noteq> None"
    and rq: "rq = \<lparr>lq_guest_pass = Some (Some k), lq_user = None, lq_checked_by = Some (Some r), lq_entry_point = None,
       lq_method = Some By_qr, lq_is_entry = None\<rparr>"
  shows "\<exists>s'. create_log now u rq s = Inr s'
    \<and> last_log s' k = Some (entry_log now k r (next_id (gs_logs s))) \<and> gs_passes s' = gs_passes s"
proof -
  have "log_fields_error s rq = None"
    using p v by (simp add: log_fields_error_def rq known_key_def char_field_error_def)
  then have ok: "create_log now u rq s = Inr (s\<lparr>gs_logs := tbl_insert (posted_log now rq) (gs_logs s)\<rparr>)"
    using u by (simp add: create_log_def permission_defs)
  have "posted_log now rq i = entry_log now k r i" for i
    by (simp add: posted_log_def rq pick_def entry_log_def text_or_def)
  then have "last_log (s\<lparr>gs_logs := tbl_insert (posted_log now rq) (gs_logs s)\<rparr>) k
      = Some (entry_log now k r (next_id (gs_logs s)))"
    by (simp add: last_log_def logs_of_def tbl_filter_def entry_log_def)
  then show ?thesis using ok by auto
qed

theorem access_log_can_be_forged_witness:
  "\<exists>s'. create_log 9 (demo_user 4 Company_admin (Some 2)) \<lparr>lq_guest_pass = Some (Some 1), lq_user = None,
       lq_checked_by = Some (Some 2), lq_entry_point = None, lq_method = Some By_qr, lq_is_entry = None\<rparr> (desk_gs Single) = Inr s'
     \<and> last_log s' 1 = Some (entry_log 9 1 2 1)"
proof -
  have "tbl_get gp_id 1 (gs_passes (desk_gs Single)) = Some (visitor_pass Single)"
    "tbl_get u_id 2 (ac_users (gs_acc (desk_gs Single))) \<noteq> None" "next_id (gs_logs (desk_gs Single)) = 1"
    "u_role (demo_user 4 Company_admin (Some 2)) = Company_admin"
    by (simp_all add: desk_gs_def visitor_pass_def demo_user_def tbl_get_def empty_table_def)
  from access_log_can_be_forged[OF this(4,1,2) refl, of 9] this(3) show ?thesis by auto
qed

section \<open>Reminders\<close>

text \<open>
  The reminders of a day that a creator has of a pass. However often the task runs, it does not send a
  second one.
\<close>

definition reminders :: "int \<Rightarrow> date \<Rightarrow> nat \<Rightarrow> nat \<Rightarrow> nt_state \<Rightarrow> nat" where
  "reminders off day g k nt = length (filter (\<lambda>n. n_user n = g \<and> n_type n = Guest_pass_expiring
     \<and> local_date off (n_created_at n) = day \<and> has_marker k (n_body n)) (rows (nt_notifs nt)))"

lemma remind_creator_once:
  assumes "reminders off day g k nt \<le> 1"
  shows "reminders off day g k (remind_creator off now p nt) \<le> 1"
proof (cases "reminded_today off now p nt")
  case False
  let ?n = "new_notification now (gp_created_by p) Guest_pass_expiring (Fmt ''guest_pass_expiring.title'' [Str (gp_guest_name p)])
     (expiring_message p) (Str ''/access/'') (next_id (nt_notifs nt))"
  have rows: "rows (nt_notifs (remind_creator off now p nt)) \<in> {rows (nt_notifs nt), rows (nt_notifs nt) @ [?n]}"
    using False by (simp add: remind_creator_def create_notification_rows)
  have none: "reminders off day g k nt = 0" if "gp_created_by p = g" "gp_id p = k" "local_date off now = day"
    using False that by (auto simp: reminders_def reminded_today_def filter_empty_conv list_ex_iff)
  have mark: "has_marker k (expiring_message p) \<longleftrightarrow> gp_id p = k" by (auto simp: has_marker_def expiring_message_def)
  have "reminders off day g k (remind_creator off now p nt)
      \<le> reminders off day g k nt + (if gp_created_by p = g \<and> gp_id p = k \<and> local_date off now = day then 1 else 0)"
    using rows by (auto simp: reminders_def new_notification_def mark)
  then show ?thesis using none assms by (auto split: if_splits)
qed (use assms in \<open>simp add: remind_creator_def\<close>)

lemma task_reminds_once:
  "reminders off day g k (gs_nt s) \<le> 1 \<Longrightarrow>
   reminders off day g k (gs_nt (notify_guest_passes_expiring_soon off now s)) \<le> 1"
  unfolding notify_guest_passes_expiring_soon_def
  using fold_inv[of "\<lambda>nt. reminders off day g k nt \<le> 1" _ "remind_creator off now"] remind_creator_once by simp

end
