(* ===== verification/ResendLimit.thy ===== *)
theory ResendLimit
  imports AccessProps
begin

text \<open>
  The limit on the mails of a pass: three in a window of an hour that begins with its first mail. Over
  any hour, wherever it begins, this means six at most.
\<close>

section \<open>The mails of a run\<close>

text \<open>The times a pass was asked to be sent again, and those at which it was.\<close>

definition asks :: "nat \<Rightarrow> gs_op \<Rightarrow> datetime list" where
  "asks k op = (case op of Op_resend_pass now up u j \<Rightarrow> if j = k then [now] else [] | _ \<Rightarrow> [])"

definition sends :: "nat \<Rightarrow> gs_op \<Rightarrow> gs_state \<Rightarrow> datetime list" where
  "sends k op s = (case op of
     Op_resend_pass now up u j \<Rightarrow> if j = k \<and> fst (resend_pass now up u j s) = Inr () then [now] else []
   | _ \<Rightarrow> [])"

fun resent :: "nat \<Rightarrow> gs_op list \<Rightarrow> gs_state \<Rightarrow> datetime list" where
  "resent k [] s = []"
| "resent k (op # ops) s = sends k op s @ resent k ops (exec_gs op s)"

definition in_hour :: "datetime \<Rightarrow> datetime list \<Rightarrow> nat" where
  "in_hour x ts = length (filter (\<lambda>t. x \<le> t \<and> t \<le> x + hours 1) ts)"

section \<open>Windows of an hour\<close>

text \<open>
  \<open>earlier\<close> are the mails of past windows, \<open>now\<close> those of the window that began at \<open>w\<close>.
\<close>

definition windowed :: "datetime \<Rightarrow> nat \<Rightarrow> datetime list \<Rightarrow> bool" where
  "windowed w n ts \<longleftrightarrow> (\<exists>earlier this. ts = earlier @ this \<and> w \<in> set this \<and> (\<forall>t \<in> set this. w \<le> t \<and> t \<le> w + hours 1)
     \<and> (\<forall>t \<in> set earlier. t < w) \<and> length this \<le> 3 \<and> length this \<le> n
     \<and> length (filter (\<lambda>t. w - hours 1 \<le> t) earlier) \<le> 3)"

definition counted :: "datetime option \<Rightarrow> nat \<Rightarrow> datetime list \<Rightarrow> bool" where
  "counted window n ts \<longleftrightarrow> (case window of None \<Rightarrow> ts = [] | Some w \<Rightarrow> windowed w n ts) \<and> (\<forall>x. in_hour x ts \<le> 6)"

lemma in_hour_append [simp]: "in_hour x (ts @ us) = in_hour x ts + in_hour x us"
  by (simp add: in_hour_def)

lemma in_hour_le_length: "in_hour x ts \<le> length ts"
  by (simp add: in_hour_def)

lemma in_hour_le_recent:
  "w - hours 1 \<le> x \<Longrightarrow> in_hour x ts \<le> length (filter (\<lambda>t. w - hours 1 \<le> t) ts)"
  by (induction ts) (auto simp: in_hour_def)

lemma in_hour_before: "\<forall>t \<in> set ts. x + hours 1 < t \<Longrightarrow> in_hour x ts = 0"
  by (auto simp: in_hour_def filter_empty_conv)

lemma windowed_hour:
  assumes "ts = earlier @ this" "\<forall>t \<in> set this. w \<le> t" "length this \<le> 3"
    and "length (filter (\<lambda>t. w - hours 1 \<le> t) earlier) \<le> 3" "in_hour x earlier \<le> 6"
  shows "in_hour x ts \<le> 6"
proof (cases "w - hours 1 \<le> x")
  case True
  then have "in_hour x earlier \<le> 3" using assms(4) in_hour_le_recent[of w x earlier] by simp
  moreover have "in_hour x this \<le> 3" using in_hour_le_length[of x this] assms(3) by simp
  ultimately show ?thesis using assms(1) by simp
next
  case False
  then have "in_hour x this = 0" using assms(2) by (intro in_hour_before) fastforce
  then show ?thesis using assms(1,5) by simp
qed

lemma counted_first: "counted (Some t) (Suc n) [t]"
proof -
  have "windowed t (Suc n) [t]"
    unfolding windowed_def by (intro exI[of _ "[]"] exI[of _ "[t]"]) (simp add: hours_def)
  then show ?thesis by (simp add: counted_def in_hour_def)
qed

text \<open>A mail in the window of the row, and one that begins a new window.\<close>

lemma counted_more:
  assumes c: "counted (Some w) n ts" and n: "n < 3" and t: "w \<le> t" "t \<le> w + hours 1"
  shows "counted (Some w) (Suc n) (ts @ [t])"
proof -
  obtain earlier this where p: "ts = earlier @ this" "w \<in> set this" "\<forall>t \<in> set this. w \<le> t \<and> t \<le> w + hours 1"
    "\<forall>t \<in> set earlier. t < w" "length this \<le> n" "length (filter (\<lambda>t. w - hours 1 \<le> t) earlier) \<le> 3"
    using c by (auto simp: counted_def windowed_def)
  have split: "ts @ [t] = earlier @ (this @ [t])" using p(1) by simp
  have "windowed w (Suc n) (ts @ [t])"
    unfolding windowed_def split
    by (intro exI[of _ earlier] exI[of _ "this @ [t]"] conjI) (use p n t in auto)
  moreover have "in_hour x (ts @ [t]) \<le> 6" for x
  proof (rule windowed_hour[OF split _ _ p(6)])
    have "in_hour x ts \<le> 6" using c by (simp add: counted_def)
    then show "in_hour x earlier \<le> 6" by (simp add: p(1))
  qed (use p n t in auto)
  ultimately show ?thesis by (simp add: counted_def)
qed

lemma counted_new:
  assumes c: "counted (Some w) n ts" and t: "w < t - hours 1"
  shows "counted (Some t) (Suc m) (ts @ [t])"
proof -
  obtain earlier this where p: "ts = earlier @ this" "\<forall>t \<in> set earlier. t < w" "\<forall>t \<in> set this. w \<le> t \<and> t \<le> w + hours 1"
    "length this \<le> 3"
    using c by (auto simp: counted_def windowed_def)
  have before: "\<forall>u \<in> set ts. u < t" using p(1-3) t by (fastforce simp: hours_def)
  have recent: "length (filter (\<lambda>u. t - hours 1 \<le> u) ts) \<le> 3"
  proof -
    have "filter (\<lambda>u. t - hours 1 \<le> u) earlier = []" using p(2) t by (fastforce simp: filter_empty_conv)
    then show ?thesis using le_trans[OF length_filter_le p(4)] by (simp add: p(1))
  qed
  have "windowed t (Suc m) (ts @ [t])"
    unfolding windowed_def
    by (intro exI[of _ ts] exI[of _ "[t]"] conjI) (use before recent in \<open>auto simp: hours_def\<close>)
  moreover have "in_hour x (ts @ [t]) \<le> 6" for x
    by (rule windowed_hour[OF refl _ _ recent]) (use c in \<open>auto simp: counted_def\<close>)
  ultimately show ?thesis by (simp add: counted_def)
qed

section \<open>The columns of the window\<close>

text \<open>Only the resending writes them.\<close>

definition same_window :: "guest_pass \<Rightarrow> guest_pass \<Rightarrow> bool" where
  "same_window p q \<longleftrightarrow> gp_resend_window q = gp_resend_window p \<and> gp_resend_attempts q = gp_resend_attempts p"

definition keeps_windows :: "gs_state \<Rightarrow> gs_state \<Rightarrow> bool" where
  "keeps_windows s s' \<longleftrightarrow> (\<forall>k p. tbl_get gp_id k (gs_passes s) = Some p \<longrightarrow>
     (\<exists>q. tbl_get gp_id k (gs_passes s') = Some q \<and> same_window p q))"

lemma keeps_same: "gs_passes s' = gs_passes s \<Longrightarrow> keeps_windows s s'"
  by (simp add: keeps_windows_def same_window_def)

lemma keeps_update:
  assumes inv: "gs_inv s" and s': "gs_passes s' = tbl_update P g (gs_passes s)"
    and key: "\<And>r. P r \<Longrightarrow> gp_id (g r) = gp_id r"
    and same: "\<And>r. r \<in> set (rows (gs_passes s)) \<Longrightarrow> P r \<Longrightarrow> same_window r (g r)"
  shows "keeps_windows s s'"
  unfolding keeps_windows_def
proof (intro allI impI)
  fix k p assume p: "tbl_get gp_id k (gs_passes s) = Some p"
  then have "p \<in> set (rows (gs_passes s))" by (auto dest: tbl_get_SomeD)
  with same have "same_window p (if P p then g p else p)" by (simp add: same_window_def)
  moreover have "tbl_get gp_id k (gs_passes s') = Some (if P p then g p else p)"
    using inv key p by (simp add: s' gs_inv_def tbl_get_update)
  ultimately show "\<exists>q. tbl_get gp_id k (gs_passes s') = Some q \<and> same_window p q" by blast
qed

lemma keeps_save:
  assumes "gs_inv s" "p \<in> set (rows (gs_passes s))" "gp_id q = gp_id p" "same_window p q"
    and "gs_passes s' = tbl_save gp_id q (gs_passes s)"
  shows "keeps_windows s s'"
proof (rule keeps_update[OF assms(1) assms(5)[unfolded tbl_save_def]])
  fix r assume r: "r \<in> set (rows (gs_passes s))" "gp_id r = gp_id q"
  then have "r = p" using row_unique[OF assms(1) r(1) assms(2)] assms(3) by simp
  then show "same_window r q" using assms(4) by simp
qed simp

lemma keeps_picture: "gs_inv s \<Longrightarrow> keeps_windows s (generate_guest_pass_qr_image k s)"
  by (rule keeps_update[where P = "\<lambda>p. gp_id p = k" and g = "\<lambda>p. p\<lparr>gp_qr_image := True\<rparr>"])
     (simp_all add: generate_guest_pass_qr_image_def same_window_def)

lemma keeps_create:
  assumes inv: "gs_inv s" and ok: "create_pass now qr u rq s = Inr s'"
  shows "keeps_windows s s'"
proof -
  have "tbl_get gp_id k (gs_passes s') = Some p" if "tbl_get gp_id k (gs_passes s) = Some p" for k p
    using that by (simp add: tbl_get_def create_rows(1)[OF inv ok] find_append)
  then show ?thesis by (simp add: keeps_windows_def same_window_def)
qed

lemma exec_keeps_windows:
  assumes inv: "gs_inv s" and op: "asks k op = []" "\<And>now up u j. op \<noteq> Op_resend_pass now up u j"
  shows "keeps_windows s (exec_gs op s)"
proof (cases op)
  case (Op_create_pass now qr u rq)
  then show ?thesis using keeps_create[OF inv, of now qr u rq]
    by (cases "create_pass now qr u rq s") (auto simp: exec_gs_def keep_gs_def keeps_same)
next
  case (Op_revoke_pass u j)
  show ?thesis
  proof (cases "revoke_pass u j s")
    case (Inr s')
    obtain p where p: "get_pass s u j = Inr p" "s' = put_pass (p\<lparr>gp_status := Ap_revoked\<rparr>) s"
      using revoke_pass_ok[OF Inr] by metis
    have "keeps_windows s s'"
      by (rule keeps_save[OF inv, of p "p\<lparr>gp_status := Ap_revoked\<rparr>"])
         (use get_pass_row[OF p(1)] in \<open>simp_all add: p(2) same_window_def\<close>)
    then show ?thesis by (simp add: Op_revoke_pass exec_gs_def keep_gs_def Inr)
  qed (simp add: Op_revoke_pass exec_gs_def keep_gs_def keeps_same)
next
  case (Op_scan now u v)
  have "exec_gs op s = s \<or> (\<exists>p \<in> set (rows (gs_passes s)). exec_gs op s = admit_guest now u p s)"
    by (auto simp: Op_scan exec_gs_def keep_gs_def validate_pass_qr_def split: option.splits dest: pass_by_qr_row)
  then show ?thesis
  proof
    assume "\<exists>p \<in> set (rows (gs_passes s)). exec_gs op s = admit_guest now u p s"
    then obtain p where p: "p \<in> set (rows (gs_passes s))" "exec_gs op s = admit_guest now u p s" by blast
    show ?thesis
      by (rule keeps_save[OF inv p(1), of "used_once_more p"]) (simp_all add: p(2) used_once_more_def same_window_def)
  qed (simp add: keeps_same)
next
  case (Op_picture qr)
  have "exec_gs op s = s \<or> (\<exists>j. exec_gs op s = generate_guest_pass_qr_image j s)"
    by (auto simp: Op_picture exec_gs_def keep_gs_def guest_pass_qr_image_def split: option.splits)
  then show ?thesis using keeps_picture[OF inv] keeps_same[of s s] by auto
next
  case (Op_pass_job job)
  have "gs_passes (exec_gs op s) = gs_passes s \<or> (\<exists>j. gs_passes (exec_gs op s) = gs_passes (generate_guest_pass_qr_image j s))"
    by (cases job) (auto simp: Op_pass_job exec_gs_def run_pass_job_def send_guest_pass_email_def Let_def
      notify_pass_creator_on_entry_def split: option.splits)
  then show ?thesis using keeps_picture[OF inv] keeps_same[of "exec_gs op s" s] by (auto simp: keeps_windows_def)
next
  case (Op_expire now)
  show ?thesis
    by (rule keeps_update[OF inv, where P = "\<lambda>p. gp_status p = Ap_active \<and> gp_valid_until p < now"
         and g = "\<lambda>p. p\<lparr>gp_status := Ap_expired\<rparr>"])
       (simp_all add: Op_expire exec_gs_def expire_guest_passes_def same_window_def)
qed (use op in \<open>auto simp: exec_gs_def keep_gs_def create_log_def guarded_def notify_guest_passes_expiring_soon_def
      intro!: keeps_same split: option.splits\<close>)

section \<open>The limit\<close>

definition count_ok :: "nat \<Rightarrow> gs_state \<Rightarrow> datetime list \<Rightarrow> bool" where
  "count_ok k s ts \<longleftrightarrow> (\<exists>p. tbl_get gp_id k (gs_passes s) = Some p \<and> counted (gp_resend_window p) (gp_resend_attempts p) ts)"

lemma roll_window_cases:
  obtains "gp_resend_window p = None" "gp_resend_window (roll_window t p) = Some t" "gp_resend_attempts (roll_window t p) = 0"
  | w where "gp_resend_window p = Some w" "w < t - hours 1" "gp_resend_window (roll_window t p) = Some t"
      "gp_resend_attempts (roll_window t p) = 0"
  | w where "gp_resend_window p = Some w" "t \<le> w + hours 1" "roll_window t p = p"
proof (cases "gp_resend_window p")
  case (Some w)
  then show thesis using that(2,3)[of w] by (cases "w < t - hours 1") (auto simp: roll_window_def)
next
  case None
  show thesis by (rule that(1)) (simp_all add: None roll_window_def)
qed

text \<open>One more mail: what was counted is counted still.\<close>

lemma resend_counted:
  assumes inv: "gs_inv s" and c: "count_ok k s ts" and later: "\<forall>u \<in> set ts. u \<le> t"
    and ok: "fst (resend_pass t up u k s) = Inr ()"
  shows "count_ok k (snd (resend_pass t up u k s)) (ts @ [t])"
proof (cases rule: resend_pass_cases[of t up u k s])
  case (2 p)
  let ?q = "roll_window t p"
  let ?q' = "?q\<lparr>gp_resend_attempts := Suc (gp_resend_attempts ?q)\<rparr>"
  have row: "p \<in> set (rows (gs_passes s))" "gp_id p = k" using get_pass_row[OF 2(2)] by simp_all
  then have get: "tbl_get gp_id k (gs_passes s) = Some p" using inv by (auto simp: gs_inv_def tbl_get_row)
  then have cnt: "counted (gp_resend_window p) (gp_resend_attempts p) ts" using c by (simp add: count_ok_def)
  have "counted (gp_resend_window ?q') (gp_resend_attempts ?q') (ts @ [t])"
  proof (cases rule: roll_window_cases[of p t])
    case 1
    then show ?thesis using cnt counted_first[of t 0] by (simp add: counted_def)
  next
    case (2 w)
    then show ?thesis using counted_new[of w _ ts t] cnt by simp
  next
    case (3 w)
    have "w \<in> set ts" using cnt 3(1) by (auto simp: counted_def windowed_def)
    then show ?thesis
      using counted_more[of w "gp_resend_attempts p" ts t] cnt 3 2(4) later by simp
  qed
  moreover have "tbl_get gp_id k (gs_passes (snd (resend_pass t up u k s))) = Some ?q'"
    using inv get row passes.get_save_same[of "gs_passes s" ?q'] by (simp add: 2(5) gs_inv_def)
  ultimately show ?thesis by (auto simp: count_ok_def)
qed (use ok in simp)

lemma other_counted:
  assumes inv: "gs_inv s" and c: "count_ok k s ts" and no: "sends k op s = []"
  shows "count_ok k (exec_gs op s) ts"
proof (cases "\<exists>now up u j. op = Op_resend_pass now up u j")
  case True
  then obtain now up u j where op: "op = Op_resend_pass now up u j" by blast
  have "tbl_get gp_id k (gs_passes (exec_gs op s)) = tbl_get gp_id k (gs_passes s)"
  proof (cases rule: resend_pass_cases[of now up u j s])
    case 1
    then show ?thesis by (simp add: op exec_gs_def)
  next
    case (2 p)
    then have "j \<noteq> k" using no by (auto simp: op sends_def)
    then show ?thesis
      using inv get_pass_row[OF 2(2)] passes.get_save_other[of "gs_passes s" "(roll_window now p)\<lparr>gp_resend_attempts :=
         Suc (gp_resend_attempts (roll_window now p))\<rparr>" k]
      by (auto simp: op exec_gs_def 2(5) gs_inv_def tbl_get_row)
  qed
  then show ?thesis using c by (simp add: count_ok_def)
next
  case False
  then have "keeps_windows s (exec_gs op s)"
    by (intro exec_keeps_windows[OF inv, of k]) (auto simp: asks_def split: gs_op.splits)
  then show ?thesis using c by (fastforce simp: count_ok_def keeps_windows_def same_window_def)
qed

lemma resent_counted:
  "gs_inv s \<Longrightarrow> count_ok k s ts \<Longrightarrow> sorted (concat (map (asks k) ops)) \<Longrightarrow>
   \<forall>u \<in> set ts. \<forall>t \<in> set (concat (map (asks k) ops)). u \<le> t \<Longrightarrow> count_ok k (run_gs ops s) (ts @ resent k ops s)"
proof (induction ops arbitrary: s ts)
  case (Cons op ops)
  note inv = exec_gs_inv[OF Cons.prems(1), of op]
  have rest: "sorted (concat (map (asks k) ops))" using Cons.prems(3) by (simp add: sorted_append)
  show ?case
  proof (cases "sends k op s = []")
    case True
    then have "count_ok k (run_gs ops (exec_gs op s)) (ts @ resent k ops (exec_gs op s))"
      using Cons.IH[OF inv other_counted[OF Cons.prems(1,2) True] rest] Cons.prems(4) by auto
    then show ?thesis by (simp add: True)
  next
    case False
    then obtain t up u where op: "op = Op_resend_pass t up u k" "fst (resend_pass t up u k s) = Inr ()"
      by (auto simp: sends_def split: gs_op.splits if_splits)
    then have ask: "asks k op = [t]" "sends k op s = [t]" by (simp_all add: asks_def sends_def)
    have "count_ok k (exec_gs op s) (ts @ [t])"
      using resend_counted[OF Cons.prems(1,2) _ op(2)] Cons.prems(4) ask(1) by (simp add: op(1) exec_gs_def)
    then have "count_ok k (run_gs ops (exec_gs op s)) ((ts @ [t]) @ resent k ops (exec_gs op s))"
      by (rule Cons.IH[OF inv _ rest]) (use Cons.prems(3,4) ask(1) in \<open>auto simp: sorted_append\<close>)
    then show ?thesis by (simp add: ask(2))
  qed
qed simp

text \<open>
  C28: whatever else happens to it, and however the cache behaves, a pass is mailed again at most six times
  in any hour: three times in the window that began with the first mail, three in the next.
\<close>

theorem resends_are_bounded:
  assumes "gs_inv s" "tbl_get gp_id k (gs_passes s) = Some p" "gp_resend_window p = None"
    and "sorted (concat (map (asks k) ops))"
  shows "length (filter (\<lambda>t. x \<le> t \<and> t \<le> x + hours 1) (resent k ops s)) \<le> 6"
proof -
  have "count_ok k s []" using assms(2,3) by (simp add: count_ok_def counted_def in_hour_def)
  from resent_counted[OF assms(1) this assms(4)] have "count_ok k (run_gs ops s) (resent k ops s)" by simp
  then show ?thesis by (auto simp: count_ok_def counted_def in_hour_def)
qed

theorem resends_are_bounded_witness:
  "length (filter (\<lambda>t. 0 \<le> t \<and> t \<le> 0 + hours 1) (resent 1 (map (\<lambda>t. Op_resend_pass t True (demo_user 9 Superadmin None) 1)
     [10, 20, 30, 40, 50, 60, 70, 80]) (desk_gs Single))) \<le> 6"
proof -
  have "tbl_get gp_id 1 (gs_passes (desk_gs Single)) = Some (visitor_pass Single)" "gp_resend_window (visitor_pass Single) = None"
    by (simp_all add: desk_gs_def visitor_pass_def tbl_get_def)
  then show ?thesis by (rule resends_are_bounded[OF desk_gs_inv(1)]) (simp add: asks_def)
qed

end
