(* ===== verification/Queries.thy ===== *)
theory Queries
  imports Core
begin

text \<open>
  Query parameters and the texts in them, shared by the read-only views: parameters that may be missing
  or malformed, the chain of checks of a view, and \<open>str.lower\<close>, \<open>str.split\<close> and \<open>str.join\<close>.
\<close>

section \<open>Parameters\<close>

text \<open>A query parameter: not sent (or empty), not of its type, or a value.\<close>

datatype 'a param = Missing | Malformed | Given 'a

definition optional :: "'a param \<Rightarrow> api_error \<Rightarrow> api_error + 'a option" where
  "optional v e = (case v of Missing \<Rightarrow> Inr None | Malformed \<Rightarrow> Inl e | Given x \<Rightarrow> Inr (Some x))"

definition bind_err :: "api_error + 'a \<Rightarrow> ('a \<Rightarrow> api_error + 'b) \<Rightarrow> api_error + 'b" where
  "bind_err r f = (case r of Inl e \<Rightarrow> Inl e | Inr x \<Rightarrow> f x)"

lemma bind_err_Inr [simp]: "bind_err r f = Inr y \<longleftrightarrow> (\<exists>x. r = Inr x \<and> f x = Inr y)"
  by (cases r) (simp_all add: bind_err_def)

section \<open>Texts\<close>

text \<open>
  \<open>str.lower\<close> on UTF-8: the letters of ASCII and the Cyrillic capitals from U+0400 to U+042F, and the
  Kelvin sign, which becomes \<open>k\<close>. Other capitals stay: none of them lowers to a letter of a status.
\<close>

fun lower_bytes :: "nat list \<Rightarrow> nat list" where
  "lower_bytes (a # b # cs) =
     (if a = 208 \<and> 128 \<le> b \<and> b \<le> 143 then 209 # (b + 16) # lower_bytes cs
      else if a = 208 \<and> 144 \<le> b \<and> b \<le> 159 then 208 # (b + 32) # lower_bytes cs
      else if a = 208 \<and> 160 \<le> b \<and> b \<le> 175 then 209 # (b - 32) # lower_bytes cs
      else if a = 226 \<and> b = 132 \<and> take 1 cs = [170] then 107 # lower_bytes (drop 1 cs)
      else (if 65 \<le> a \<and> a \<le> 90 then a + 32 else a) # lower_bytes (b # cs))"
| "lower_bytes [a] = [if 65 \<le> a \<and> a \<le> 90 then a + 32 else a]"
| "lower_bytes [] = []"

definition lower_text :: "string \<Rightarrow> string" where
  "lower_text s = map char_of (lower_bytes (map of_char s))"

text \<open>\<open>str.split\<close> and \<open>' '.join\<close>.\<close>

fun split_words :: "string \<Rightarrow> string \<Rightarrow> string list" where
  "split_words w [] = (if w = [] then [] else [rev w])"
| "split_words w (c # cs) =
     (if is_space c then (if w = [] then split_words [] cs else rev w # split_words [] cs) else split_words (c # w) cs)"

fun join_words :: "string list \<Rightarrow> string" where
  "join_words [] = []"
| "join_words [w] = w"
| "join_words (w # v # ws) = w @ '' '' @ join_words (v # ws)"

end
