(* ===== verification/Overview.thy ===== *)
theory Overview
  imports Queries Tasks Leaves Bookings Access "HOL-Library.Product_Lexorder"
begin

text \<open>
  The views that read several components at once: the calendar, the directory and the activity of a
  company (\<open>companies/views.py\<close>), and the activity of a user (\<open>users/views.py\<close>).
\<close>

section \<open>State and parameters\<close>

record ov_state =
  ov_acc :: accounts
  ov_bk :: bk_state
  ov_crm :: crm_state
  ov_hr :: hr_state
  ov_gs :: gs_state

definition required_date :: "date param \<Rightarrow> string \<Rightarrow> api_error + date" where
  "required_date v field = (case v of
     Missing \<Rightarrow> Inl (raise_validation_error field ''company.date_param_required'')
   | Malformed \<Rightarrow> Inl (raise_validation_error field ''company.date_format_invalid'')
   | Given d \<Rightarrow> Inr d)"

definition parse_bool_query_param :: "string option \<Rightarrow> string \<Rightarrow> api_error + bool option" where
  "parse_bool_query_param raw field = (case raw of
     None \<Rightarrow> Inr None
   | Some t \<Rightarrow> (if t = [] then Inr None
       else if lower (strip t) \<in> {''true'', ''1''} then Inr (Some True)
       else if lower (strip t) \<in> {''false'', ''0''} then Inr (Some False)
       else Inl (raise_validation_error field ''company.param_must_be_bool'')))"

text \<open>\<open>off\<close> is the offset of the current time zone from UTC.\<close>

definition day_bounds :: "int \<Rightarrow> date \<Rightarrow> datetime \<times> datetime" where
  "day_bounds off d = (make_aware off d 0, make_aware off (d + 1) 0)"

section \<open>The calendar\<close>

datatype event_type = Ev_booking | Ev_guest_visit | Ev_leave | Ev_task_deadline

text \<open>
  The bounds of a leave are rendered in the current time zone, every other instant comes from the
  database and is rendered in UTC: \<open>ev_offset\<close> is the offset of the rendering.
\<close>

record event =
  ev_type :: event_type
  ev_title :: msg
  ev_start :: datetime
  ev_end :: datetime
  ev_offset :: int
  ev_user :: nat
  ev_ref :: "nat option"

definition type_rank :: "event_type \<Rightarrow> nat" where
  "type_rank t = (case t of Ev_booking \<Rightarrow> 0 | Ev_guest_visit \<Rightarrow> 1 | Ev_leave \<Rightarrow> 2 | Ev_task_deadline \<Rightarrow> 3)"

text \<open>\<open>isoformat\<close> texts are compared: the wall clock of the rendering first, then its offset.\<close>

definition sort_text :: "event \<Rightarrow> (int \<times> int) \<times> (int \<times> int) \<times> nat" where
  "sort_text e = ((ev_start e + ev_offset e, ev_offset e), (ev_end e + ev_offset e, ev_offset e), type_rank (ev_type e))"

definition for_user :: "nat option \<Rightarrow> nat \<Rightarrow> bool" where
  "for_user v uid \<longleftrightarrow> (case v of None \<Rightarrow> True | Some k \<Rightarrow> uid = k)"

definition booking_events :: "ov_state \<Rightarrow> nat \<Rightarrow> datetime \<Rightarrow> datetime \<Rightarrow> nat option \<Rightarrow> event list" where
  "booking_events s c a b v = map (\<lambda>x. \<lparr>ev_type = Ev_booking, ev_title = Str (case resource_of (ov_bk s) x of
       None \<Rightarrow> [] | Some r \<Rightarrow> r_name r), ev_start = b_start x, ev_end = b_end x, ev_offset = 0, ev_user = b_user x, ev_ref = None\<rparr>)
     (tbl_filter (\<lambda>x. b_company x = Some c \<and> b_status x = Confirmed \<and> b_start x < b \<and> b_end x > a \<and> for_user v (b_user x))
       (bk_bookings (ov_bk s)))"

definition in_company_board :: "crm_state \<Rightarrow> nat \<Rightarrow> task \<Rightarrow> bool" where
  "in_company_board s c t \<longleftrightarrow> map_option bo_company (board_of_task s t) = Some c"

text \<open>A deadline is shown for the assignee, or for the author when there is none.\<close>

definition deadline_event :: "crm_state \<Rightarrow> task \<Rightarrow> event option" where
  "deadline_event s t = (case (tk_deadline t, (case tk_assignee t of Some a \<Rightarrow> Some a | None \<Rightarrow> tk_created_by t)) of
     (Some d, Some k) \<Rightarrow> Some \<lparr>ev_type = Ev_task_deadline, ev_title = Str (tk_title t), ev_start = d, ev_end = d, ev_offset = 0,
         ev_user = k, ev_ref = Some (tk_id t)\<rparr>
   | _ \<Rightarrow> None)"

definition deadline_events :: "ov_state \<Rightarrow> nat \<Rightarrow> datetime \<Rightarrow> datetime \<Rightarrow> nat option \<Rightarrow> event list" where
  "deadline_events s c a b v = List.map_filter (deadline_event (ov_crm s))
     (tbl_filter (\<lambda>t. in_company_board (ov_crm s) c t \<and> \<not> tk_is_deleted t \<and> \<not> tk_is_archived t
        \<and> (case tk_deadline t of None \<Rightarrow> False | Some d \<Rightarrow> a \<le> d \<and> d < b)
        \<and> (case v of None \<Rightarrow> True | Some k \<Rightarrow> tk_assignee t = Some k)) (cr_tasks (ov_crm s)))"

definition leave_type_text :: "leave_type \<Rightarrow> string" where
  "leave_type_text t = (case t of Vacation \<Rightarrow> ''vacation'' | Day_off \<Rightarrow> ''day_off'' | Sick_leave \<Rightarrow> ''sick_leave'' | Remote \<Rightarrow> ''remote'')"

text \<open>The name and the type, a dash between them.\<close>

definition leave_title :: "accounts \<Rightarrow> leave \<Rightarrow> msg" where
  "leave_title acc l = Fmt ''name_dash_type'' [Str (case tbl_get u_id (lv_user l) (ac_users acc) of None \<Rightarrow> [] | Some u \<Rightarrow> full_name u),
     Str (leave_type_text (lv_type l))]"

definition leave_events :: "int \<Rightarrow> ov_state \<Rightarrow> nat \<Rightarrow> date \<Rightarrow> date \<Rightarrow> nat option \<Rightarrow> event list" where
  "leave_events off s c from until v = map (\<lambda>l. \<lparr>ev_type = Ev_leave, ev_title = leave_title (ov_acc s) l,
       ev_start = fst (day_bounds off (lv_start l)), ev_end = snd (day_bounds off (lv_end l)), ev_offset = off,
       ev_user = lv_user l, ev_ref = None\<rparr>)
     (tbl_filter (\<lambda>l. lv_company l = c \<and> lv_status l = Lr_approved \<and> lv_start l \<le> until \<and> lv_end l \<ge> from \<and> for_user v (lv_user l))
       (hr_leaves (ov_hr s)))"

definition visit_events :: "ov_state \<Rightarrow> nat \<Rightarrow> datetime \<Rightarrow> datetime \<Rightarrow> nat option \<Rightarrow> event list" where
  "visit_events s c a b v = map (\<lambda>p. \<lparr>ev_type = Ev_guest_visit, ev_title = Str (gp_guest_name p), ev_start = gp_valid_from p,
       ev_end = gp_valid_until p, ev_offset = 0, ev_user = gp_created_by p, ev_ref = Some (gp_id p)\<rparr>)
     (tbl_filter (\<lambda>p. gp_company p = Some c \<and> a \<le> gp_valid_from p \<and> gp_valid_from p < b \<and> for_user v (gp_created_by p))
       (gs_passes (ov_gs s)))"

definition company_calendar_events ::
  "int \<Rightarrow> ov_state \<Rightarrow> nat \<Rightarrow> date \<Rightarrow> date \<Rightarrow> nat option \<Rightarrow> event_type option \<Rightarrow> event list" where
  "company_calendar_events off s c from until v et =
     (let a = fst (day_bounds off from); b = snd (day_bounds off until); wanted = (\<lambda>t. et \<in> {None, Some t})
      in sort_key sort_text (
        (if wanted Ev_booking then booking_events s c a b v else [])
        @ (if wanted Ev_task_deadline then deadline_events s c a b v else [])
        @ (if wanted Ev_leave then leave_events off s c from until v else [])
        @ (if wanted Ev_guest_visit then visit_events s c a b v else [])))"

text \<open>The company of a request: a member asks for the own one only.\<close>

definition resolve_company :: "string \<Rightarrow> ov_state \<Rightarrow> user \<Rightarrow> nat \<Rightarrow> api_error + company" where
  "resolve_company refusal s u c =
     (if u_role u \<in> {Company_admin, Employee} \<and> u_company u \<noteq> Some c then Inl (PermissionDenied refusal)
      else case get_company (ov_acc s) c of None \<Rightarrow> Inl NotFound | Some co \<Rightarrow> Inr co)"

text \<open>An employee sees the own events only, whatever the request says.\<close>

definition resolve_calendar_user_id :: "user \<Rightarrow> nat option \<Rightarrow> bool option \<Rightarrow> nat option" where
  "resolve_calendar_user_id u user_id my_only =
     (if u_role u = Employee then Some (u_id u) else if my_only = Some True then Some (u_id u) else user_id)"

record calendar_request =
  kq_from :: "date param"
  kq_until :: "date param"
  kq_user :: "nat param"
  kq_type :: "event_type param"
  kq_my :: "string option"

definition calendar :: "int \<Rightarrow> user \<Rightarrow> nat \<Rightarrow> calendar_request \<Rightarrow> ov_state \<Rightarrow> api_error + event list" where
  "calendar off u c rq s = (case IsCompanyMember (Some u) of
     Some e \<Rightarrow> Inl e
   | None \<Rightarrow> bind_err (resolve_company ''company.own_calendar_only'' s u c) (\<lambda>co.
       bind_err (required_date (kq_from rq) ''date_from'') (\<lambda>from.
       bind_err (required_date (kq_until rq) ''date_to'') (\<lambda>until.
       if from > until then Inl (raise_validation_error ''detail'' ''company.date_from_after_date_to'')
       else bind_err (optional (kq_user rq) (raise_validation_error ''user_id'' ''company.user_id_must_be_integer'')) (\<lambda>v.
       bind_err (optional (kq_type rq) (raise_validation_error ''event_type'' ''company.event_type_invalid'')) (\<lambda>et.
       bind_err (parse_bool_query_param (kq_my rq) ''my'') (\<lambda>my.
         Inr (company_calendar_events off s (co_id co) from until (resolve_calendar_user_id u v my) et))))))))"

definition calendar_busy ::
  "int \<Rightarrow> user \<Rightarrow> nat \<Rightarrow> nat param \<Rightarrow> date param \<Rightarrow> ov_state \<Rightarrow> api_error + (datetime \<times> datetime \<times> event_type) list" where
  "calendar_busy off u c v d s = (case IsCompanyMember (Some u) of
     Some e \<Rightarrow> Inl e
   | None \<Rightarrow> bind_err (resolve_company ''company.own_calendar_only'' s u c) (\<lambda>co.
       bind_err (case v of
           Missing \<Rightarrow> Inl (raise_validation_error ''user_id'' ''company.user_id_required'')
         | Malformed \<Rightarrow> Inl (raise_validation_error ''user_id'' ''company.user_id_must_be_integer'')
         | Given k \<Rightarrow> (if u_role u = Employee then Inr (u_id u)
             else guarded (require (list_ex (\<lambda>x. u_id x = k \<and> u_company x = Some (co_id co)) (rows (ac_users (ov_acc s))))
               (raise_validation_error ''user_id'' ''company.user_not_in_company'')) k)) (\<lambda>k.
       bind_err (required_date d ''date'') (\<lambda>day.
         Inr (map (\<lambda>e. (ev_start e, ev_end e, ev_type e)) (company_calendar_events off s (co_id co) day day (Some k) None))))))"

section \<open>The directory and the activity of a member\<close>

definition directory :: "user \<Rightarrow> nat \<Rightarrow> ov_state \<Rightarrow> api_error + user list" where
  "directory u c s = (case IsCompanyMember (Some u) of
     Some e \<Rightarrow> Inl e
   | None \<Rightarrow> bind_err (resolve_company ''company.catalog_own_company_only'' s u c) (\<lambda>co.
       Inr (rev (tbl_filter (\<lambda>m. u_company m = Some (co_id co) \<and> u_role m \<noteq> Superadmin) (ac_users (ov_acc s))))))"

definition member_in :: "ov_state \<Rightarrow> nat \<Rightarrow> nat \<Rightarrow> api_error + user" where
  "member_in s c k = (case find (\<lambda>m. u_id m = k \<and> u_company m = Some c) (rows (ac_users (ov_acc s))) of
     None \<Rightarrow> Inl NotFound | Some m \<Rightarrow> Inr m)"

text \<open>\<open>Task.objects\<close> hides what is soft-deleted, an archived task among it.\<close>

definition assigned_tasks :: "ov_state \<Rightarrow> nat \<Rightarrow> nat \<Rightarrow> task list" where
  "assigned_tasks s c k = tbl_filter (\<lambda>t. tk_assignee t = Some k \<and> \<not> tk_is_deleted t \<and> in_company_board (ov_crm s) c t)
     (cr_tasks (ov_crm s))"

record member_activity =
  ma_last_login :: "datetime option"
  ma_active_tasks :: nat
  ma_completed_tasks :: nat
  ma_bookings :: nat

definition bookings_between :: "ov_state \<Rightarrow> nat \<Rightarrow> nat \<Rightarrow> (datetime \<Rightarrow> bool) \<Rightarrow> nat" where
  "bookings_between s c k P = length (tbl_filter (\<lambda>b. b_user b = k \<and> b_company b = Some c \<and> P (b_start b)) (bk_bookings (ov_bk s)))"

text \<open>The figure called the bookings of the last thirty days is that of the next thirty.\<close>

definition directory_profile :: "datetime \<Rightarrow> user \<Rightarrow> nat \<Rightarrow> nat \<Rightarrow> ov_state \<Rightarrow> api_error + user \<times> nat \<times> nat" where
  "directory_profile now u c k s = (case IsCompanyMember (Some u) of
     Some e \<Rightarrow> Inl e
   | None \<Rightarrow> bind_err (resolve_company ''company.catalog_own_company_only'' s u c) (\<lambda>co.
       bind_err (member_in s (co_id co) k) (\<lambda>m.
         Inr (m, length (assigned_tasks s (co_id co) k),
           bookings_between s (co_id co) k (\<lambda>t. now \<le> t \<and> t \<le> now + days 30)))))"

definition member_activity_view :: "datetime \<Rightarrow> user \<Rightarrow> nat \<Rightarrow> nat \<Rightarrow> ov_state \<Rightarrow> api_error + member_activity" where
  "member_activity_view now u c k s = (case IsCompanyAdmin (Some u) of
     Some e \<Rightarrow> Inl e
   | None \<Rightarrow> bind_err (resolve_company ''company.members_own_company_only'' s u c) (\<lambda>co.
       bind_err (member_in s (co_id co) k) (\<lambda>m.
         Inr \<lparr>ma_last_login = u_last_login m,
           ma_active_tasks = length (filter (\<lambda>t. \<not> tk_is_archived t) (assigned_tasks s (co_id co) k)),
           ma_completed_tasks = length (filter tk_is_archived (assigned_tasks s (co_id co) k)),
           ma_bookings = bookings_between s (co_id co) k (\<lambda>t. now - days 30 \<le> t)\<rparr>)))"

text \<open>The building staff, newest first; a role that does not exist selects nobody.\<close>

definition building_staff :: "user \<Rightarrow> role param \<Rightarrow> bool option \<Rightarrow> ov_state \<Rightarrow> api_error + user list" where
  "building_staff u r active s = guarded (IsSuperAdmin (Some u))
     (rev (tbl_filter (\<lambda>m. u_role m \<in> {Reception, Service_manager}
        \<and> (case r of Missing \<Rightarrow> True | Malformed \<Rightarrow> False | Given x \<Rightarrow> u_role m = x)
        \<and> (active = None \<or> active = Some (u_is_active m))) (ac_users (ov_acc s))))"

section \<open>The activity of the user\<close>

definition ACTIVITY_LIMIT :: nat where
  "ACTIVITY_LIMIT = 5"

definition own_booking :: "ov_state \<Rightarrow> user \<Rightarrow> booking \<Rightarrow> bool" where
  "own_booking s u b \<longleftrightarrow> b_user b = u_id u
     \<or> list_ex (\<lambda>p. bp_booking p = b_id b \<and> bp_user p = u_id u) (rows (bk_participants (ov_bk s)))"

definition recent_bookings :: "ov_state \<Rightarrow> user \<Rightarrow> booking list" where
  "recent_bookings s u = take ACTIVITY_LIMIT (rev (sort_key b_start (tbl_filter (own_booking s u) (bk_bookings (ov_bk s)))))"

definition recent_tasks :: "ov_state \<Rightarrow> user \<Rightarrow> task list" where
  "recent_tasks s u =
     (if u_role u \<in> {Superadmin, Company_admin, Employee}
      then take ACTIVITY_LIMIT (rev (sort_key tk_created_at (tbl_filter (\<lambda>t. tk_assignee t = Some (u_id u)
        \<and> \<not> tk_is_deleted t \<and> \<not> tk_is_archived t) (cr_tasks (ov_crm s)))))
      else [])"

definition recent_passes :: "ov_state \<Rightarrow> user \<Rightarrow> guest_pass list" where
  "recent_passes s u =
     (if u_role u = Company_admin \<and> u_company u \<noteq> None
      then take ACTIVITY_LIMIT (rev (tbl_filter (\<lambda>p. gp_company p = u_company u) (gs_passes (ov_gs s))))
      else if u_role u \<in> {Superadmin, Company_admin, Employee, Guest}
      then take ACTIVITY_LIMIT (rev (tbl_filter (own_passes u) (gs_passes (ov_gs s))))
      else [])"

definition me_activity :: "user \<Rightarrow> ov_state \<Rightarrow> booking list \<times> task list \<times> guest_pass list" where
  "me_activity u s = (recent_bookings s u, recent_tasks s u, recent_passes s u)"

end
