(* ===== verification/Tally.thy ===== *)
theory Tally
  imports Prelude Leaves "HOL-Library.Multiset"
begin

text \<open>
  Counting: the dictionaries the analytics count in (\<open>d[k] = d.get(k, 0) + 1\<close>, and the grouped
  counts of the database), and the weeks of the ISO calendar that registrations are counted by.
\<close>

section \<open>Counts by key\<close>

fun bump :: "'k \<Rightarrow> ('k \<times> nat) list \<Rightarrow> ('k \<times> nat) list" where
  "bump k [] = [(k, 1)]"
| "bump k ((x, n) # d) = (if x = k then (x, n + 1) # d else (x, n) # bump k d)"

definition tally :: "'k list \<Rightarrow> ('k \<times> nat) list" where
  "tally ks = fold bump ks []"

lemma keys_bump: "set (map fst (bump k d)) = insert k (set (map fst d))"
  by (induction k d rule: bump.induct) auto

lemma distinct_bump: "distinct (map fst d) \<Longrightarrow> distinct (map fst (bump k d))"
proof (induction k d rule: bump.induct)
  case (2 k x n d)
  then show ?case using keys_bump[of k d] by auto
qed simp

lemma total_bump: "sum_list (map snd (bump k d)) = Suc (sum_list (map snd d))"
  by (induction k d rule: bump.induct) auto

lemma map_of_bump: "map_of (bump k d) = (map_of d)(k \<mapsto> (case map_of d k of None \<Rightarrow> 1 | Some n \<Rightarrow> n + 1))"
  by (induction k d rule: bump.induct) (auto simp: fun_eq_iff)

lemma fold_bump_distinct: "distinct (map fst d) \<Longrightarrow> distinct (map fst (fold bump ks d))"
  by (induction ks arbitrary: d) (simp_all add: distinct_bump)

lemma fold_bump_total: "sum_list (map snd (fold bump ks d)) = length ks + sum_list (map snd d)"
  by (induction ks arbitrary: d) (simp_all add: total_bump)

lemma fold_bump_keys: "set (map fst (fold bump ks d)) = set ks \<union> set (map fst d)"
  by (induction ks arbitrary: d) (simp_all only: fold_simps comp_apply keys_bump list.set, auto)

lemma fold_bump_count:
  "map_of (fold bump ks d) k = (if k \<in> set ks then Some (count_list ks k + (case map_of d k of None \<Rightarrow> 0 | Some n \<Rightarrow> n))
     else map_of d k)"
  by (induction ks arbitrary: d) (auto simp: map_of_bump count_list_0_iff split: option.splits)

lemma tally_distinct: "distinct (map fst (tally ks))"
  by (simp add: tally_def fold_bump_distinct)

lemma tally_total: "sum_list (map snd (tally ks)) = length ks"
  by (simp add: tally_def fold_bump_total)

lemma tally_keys: "set (map fst (tally ks)) = set ks"
  by (simp only: tally_def fold_bump_keys list.map list.set Un_empty_right)

lemma tally_count: "map_of (tally ks) k = (if k \<in> set ks then Some (count_list ks k) else None)"
  by (simp add: tally_def fold_bump_count)

lemma tally_iff: "(k, n) \<in> set (tally ks) \<longleftrightarrow> k \<in> set ks \<and> n = count_list ks k"
  by (simp add: map_of_eq_Some_iff[OF tally_distinct, symmetric] tally_count) auto

lemmas tally_laws = tally_distinct tally_total tally_keys tally_iff

text \<open>Sorting the counts by any key keeps the laws.\<close>

lemma total_sort_key: "sum_list (map g (sort_key f d)) = (sum_list (map g d) :: nat)"
  by (metis mset_map mset_sort sum_mset_sum_list)

lemma distinct_sort_key: "distinct (map g d) \<Longrightarrow> distinct (map g (sort_key f d))"
  by (metis distinct_map distinct_sort set_sort)

lemma count_list_filter: "count_list (map f xs) k = length (filter (\<lambda>x. f x = k) xs)"
  by (induction xs) auto

section \<open>Weeks\<close>

text \<open>The number of the day in its year, from zero, computed from the same ordinal as the year.\<close>

definition day_of_year :: "date \<Rightarrow> int" where
  "day_of_year d =
     (let n = d + 719162;
          n = n mod 146097;
          n100 = n div 36524; n = n mod 36524;
          n = n mod 1461;
          n1 = n div 365
      in if n1 = 4 \<or> n100 = 4 then 365 else n mod 365)"

text \<open>\<open>isocalendar\<close>: the year and the week of the Thursday of the week.\<close>

definition iso_week :: "date \<Rightarrow> int \<times> int" where
  "iso_week d = (let t = d - weekday d + 3 in (year_of t, day_of_year t div 7 + 1))"

text \<open>The ordinal of a day is that of the first day of its year and the day in the year.\<close>

definition year_start :: "int \<Rightarrow> int" where
  "year_start y = (let p = y - 1 in p * 365 + p div 4 - p div 100 + p div 400)"

lemma year_start_blocks:
  assumes "0 \<le> b" "b \<le> 3" "0 \<le> c" "c \<le> 24" "0 \<le> e" "e \<le> 3"
  shows "year_start (a * 400 + b * 100 + c * 4 + e + 1) = a * 146097 + b * 36524 + c * 1461 + e * 365"
proof -
  have "(a * 400 + b * 100 + c * 4 + e) div 4 = a * 100 + b * 25 + c"
    by (rule int_div_pos_eq[where r = e]) (use assms in auto)
  moreover have "(a * 400 + b * 100 + c * 4 + e) div 100 = a * 4 + b"
    by (rule int_div_pos_eq[where r = "c * 4 + e"]) (use assms in auto)
  moreover have "(a * 400 + b * 100 + c * 4 + e) div 400 = a"
    by (rule int_div_pos_eq[where r = "b * 100 + c * 4 + e"]) (use assms in auto)
  ultimately show ?thesis by (simp add: year_start_def Let_def)
qed

lemma year_split: "d + 719162 = year_start (year_of d) + day_of_year d \<and> 0 \<le> day_of_year d \<and> day_of_year d \<le> 365"
proof -
  define n a n1 b n2 c n3 e r where defs: "n = d + 719162" "a = n div 146097" "n1 = n mod 146097"
    "b = n1 div 36524" "n2 = n1 mod 36524" "c = n2 div 1461" "n3 = n2 mod 1461" "e = n3 div 365" "r = n3 mod 365"
  have n: "n = a * 146097 + n1" "n1 = b * 36524 + n2" "n2 = c * 1461 + n3" "n3 = e * 365 + r"
    by (simp_all only: defs(2-9) div_mult_mod_eq)
  have m: "0 \<le> n1" "n1 < 146097" "0 \<le> n2" "n2 < 36524" "0 \<le> n3" "n3 < 1461" "0 \<le> r" "r < 365"
    by (simp_all add: defs(3,5,7,9))
  have bounds: "0 \<le> b" "b \<le> 4" "0 \<le> c" "c \<le> 24" "0 \<le> e" "e \<le> 4"
    using n m by linarith+
  have y: "year_of d = (if e = 4 \<or> b = 4 then a * 400 + b * 100 + c * 4 + e else a * 400 + b * 100 + c * 4 + e + 1)"
    by (simp add: year_of_def Let_def defs)
  have doy: "day_of_year d = (if e = 4 \<or> b = 4 then 365 else r)"
    by (simp add: day_of_year_def Let_def defs)
  consider "b = 4" | "e = 4" "b \<le> 3" | "e \<le> 3" "b \<le> 3" using bounds by linarith
  then show ?thesis
  proof cases
    case 1
    then have "c = 0" "e = 0" "r = 0" using n m bounds by linarith+
    then show ?thesis
      using 1 n year_start_blocks[of 3 24 3 a] y doy by (simp add: defs(1) add.commute)
  next
    case 2
    then have "r = 0" using n m by linarith
    then show ?thesis using 2 n year_start_blocks[of b c 3 a] y doy bounds by (simp add: defs(1) ac_simps)
  next
    case 3
    then show ?thesis using n m year_start_blocks[of b c e a] y doy bounds by (simp add: defs(1))
  qed
qed

lemma same_residue:
  assumes "(s + 3) mod 7 = (3::int)" "(t + 3) mod 7 = 3" "s + k = y + a" "t + k = y + b" "a div 7 = b div 7"
  shows "s = t"
proof -
  define p q where "p = (s + 3) div 7" "q = (t + 3) div 7"
  then have "s = 7 * p" "t = 7 * q"
    using div_mult_mod_eq[of "s + 3" 7] div_mult_mod_eq[of "t + 3" 7] assms(1,2) by simp_all
  moreover have "a - b < 7" "b - a < 7"
    using div_mult_mod_eq[of a 7] div_mult_mod_eq[of b 7] assms(5)
      pos_mod_bound[of 7 a] pos_mod_sign[of 7 a] pos_mod_bound[of 7 b] pos_mod_sign[of 7 b] by linarith+
  ultimately have "p = q" "s = 7 * p" "t = 7 * q" using assms(3,4) by linarith+
  then show ?thesis by simp
qed

lemma same_thursday:
  assumes "weekday s = 3" "weekday t = 3" "year_of s = year_of t" "day_of_year s div 7 = day_of_year t div 7"
  shows "s = t"
  using same_residue[of s t 719162 "year_start (year_of t)" "day_of_year s" "day_of_year t"]
    assms year_split[of s] year_split[of t] by (simp add: weekday_def)

lemma iso_week_iff: "iso_week d = iso_week e \<longleftrightarrow> d - weekday d = e - weekday e"
proof
  have thursday: "weekday (x - weekday x + 3) = 3" for x unfolding weekday_def by presburger
  assume "iso_week d = iso_week e"
  then show "d - weekday d = e - weekday e"
    using same_thursday[OF thursday thursday, of d e] by (simp add: iso_week_def Let_def)
qed (simp add: iso_week_def Let_def)

end
