(* ===== verification/Analytics.thy ===== *)
theory Analytics
  imports Overview Tally StorageModel Building "HOL-Library.List_Lexorder" "HOL-Library.Char_ord"
begin

text \<open>
  The analytics (\<open>analytics/views.py\<close>): the dashboard of the building, the one of a company, the use
  of the resources, and the tables of their exports. Everything here only reads.
\<close>

section \<open>State and query\<close>

text \<open>
  \<open>an_joined\<close> and \<open>an_requested\<close> are the columns \<open>date_joined\<close> of the users and \<open>created_at\<close> of the
  service requests, which no other component reads.
\<close>

record an_state =
  an_ov :: ov_state
  an_sv :: sv_state
  an_st :: st_state
  an_joined :: "nat \<Rightarrow> datetime"
  an_requested :: "nat \<Rightarrow> datetime"

datatype period = P7d | P30d | P90d | Custom

text \<open>
  A date sent as a text: none, one that has not the form of a date, one that has the form of a date
  that does not exist (\<open>parse_date\<close> raises on it), or a date.
\<close>

datatype date_text = No_date | No_date_form | No_such_date | Date date

record period_query =
  pd_period :: "period param"
  pd_from :: date_text
  pd_to :: date_text

definition period_days :: "period \<Rightarrow> int" where
  "period_days p = (case p of P7d \<Rightarrow> 7 | P30d \<Rightarrow> 30 | P90d \<Rightarrow> 90 | Custom \<Rightarrow> 0)"

definition custom_period :: "date_text \<Rightarrow> date_text \<Rightarrow> api_error + period \<times> date \<times> date" where
  "custom_period f t =
     (if f = No_date \<or> t = No_date then Inl (raise_validation_error ''detail'' ''analytics.custom_period_dates_required'')
      else if f = No_such_date \<or> t = No_such_date then Inl ServerError
      else case f of
        Date a \<Rightarrow> (case t of
          Date b \<Rightarrow> (if a > b then Inl (raise_validation_error ''detail'' ''analytics.date_from_after_date_to'')
                   else Inr (Custom, a, b))
        | _ \<Rightarrow> Inl (raise_validation_error ''date_to'' ''analytics.invalid_date''))
      | _ \<Rightarrow> Inl (raise_validation_error ''date_from'' ''analytics.invalid_date''))"

definition resolve_period :: "date \<Rightarrow> period_query \<Rightarrow> api_error + period \<times> date \<times> date" where
  "resolve_period today q = (case pd_period q of
     Malformed \<Rightarrow> Inl (raise_validation_error ''period'' ''analytics.invalid_period'')
   | Given Custom \<Rightarrow> custom_period (pd_from q) (pd_to q)
   | Given p \<Rightarrow> Inr (p, today - (period_days p - 1), today)
   | Missing \<Rightarrow> Inr (P30d, today - (period_days P30d - 1), today))"

definition int_param :: "string \<Rightarrow> 'a param \<Rightarrow> api_error + 'a option" where
  "int_param name v = optional v (raise_validation_error name ''analytics.must_be_integer'')"

text \<open>From the first to the last microsecond of a day.\<close>

definition local_day_bounds :: "int \<Rightarrow> date \<Rightarrow> datetime \<times> datetime" where
  "local_day_bounds off d = (make_aware off d 0, make_aware off d (usec_per_day - 1))"

definition period_bounds :: "int \<Rightarrow> date \<Rightarrow> date \<Rightarrow> datetime \<times> datetime" where
  "period_bounds off d1 d2 = (fst (local_day_bounds off d1), snd (local_day_bounds off d2))"

definition within :: "datetime \<times> datetime \<Rightarrow> datetime \<Rightarrow> bool" where
  "within ab t \<longleftrightarrow> fst ab \<le> t \<and> t \<le> snd ab"

text \<open>A filter that is not sent lets everything through.\<close>

definition scoped :: "'a option \<Rightarrow> 'a option \<Rightarrow> bool" where
  "scoped c x \<longleftrightarrow> c = None \<or> x = c"

section \<open>The names of columns\<close>

datatype task_state = St_todo | St_in_progress | St_done

definition utf8 :: "nat list \<Rightarrow> string" where
  "utf8 = map char_of"

definition todo_names :: "string list" where
  "todo_names = [''to do'',
     utf8 [208, 186, 32, 208, 178, 209, 139, 208, 191, 208, 190, 208, 187, 208, 189, 208, 181, 208, 189, 208, 184, 209, 142]]"

definition in_progress_names :: "string list" where
  "in_progress_names = [''in progress'', utf8 [208, 178, 32, 209, 128, 208, 176, 208, 177, 208, 190, 209, 130, 208, 181]]"

definition done_names :: "string list" where
  "done_names = [utf8 [208, 179, 208, 190, 209, 130, 208, 190, 208, 178, 208, 190],
     utf8 [209, 129, 208, 180, 208, 181, 208, 187, 208, 176, 208, 189, 208, 190],
     utf8 [208, 183, 208, 176, 208, 178, 208, 181, 209, 128, 209, 136, 208, 181, 208, 189, 208, 190]]"

definition normalized_name :: "string \<Rightarrow> string" where
  "normalized_name s = join_words (split_words []
     (map (\<lambda>c. if c = CHR ''_'' \<or> c = CHR ''-'' then CHR '' '' else c) (lower_text (strip s))))"

definition normalize_column_status :: "string \<Rightarrow> task_state option" where
  "normalize_column_status s =
     (let n = normalized_name s; compact = filter (\<lambda>c. c \<noteq> CHR '' '') n in
      if compact \<in> {''todo'', ''backlog'', ''new''} \<or> n \<in> set todo_names then Some St_todo
      else if compact \<in> {''inprogress'', ''progress'', ''wip'', ''doing''} \<or> n \<in> set in_progress_names then Some St_in_progress
      else if compact \<in> {''done'', ''complete'', ''completed''} \<or> n \<in> set done_names then Some St_done
      else None)"

section \<open>The figures of the building\<close>

definition counted_bookings :: "bk_state \<Rightarrow> nat option \<Rightarrow> resource_type option \<Rightarrow> datetime \<times> datetime \<Rightarrow> booking list" where
  "counted_bookings s c rt ab = tbl_filter (\<lambda>b. b_status b \<in> {Confirmed, Completed} \<and> within ab (b_start b)
     \<and> scoped c (b_company b) \<and> scoped rt (map_option r_type (resource_of s b))) (bk_bookings s)"

record utilization_row =
  ut_date :: date
  ut_desk :: nat
  ut_room :: nat
  ut_parking :: nat
  ut_capsule :: nat

definition count_type :: "bk_state \<Rightarrow> resource_type \<Rightarrow> booking list \<Rightarrow> nat" where
  "count_type s rt bs = length (filter (has_type s rt) bs)"

definition utilization_of :: "int \<Rightarrow> bk_state \<Rightarrow> booking list \<Rightarrow> date \<Rightarrow> utilization_row" where
  "utilization_of off s bs d = (let xs = filter (\<lambda>b. local_date off (b_start b) = d) bs in
     \<lparr>ut_date = d, ut_desk = count_type s Desk xs, ut_room = count_type s Meeting_room xs,
      ut_parking = count_type s Parking xs, ut_capsule = count_type s Capsule xs\<rparr>)"

definition resource_utilization :: "int \<Rightarrow> bk_state \<Rightarrow> booking list \<Rightarrow> utilization_row list" where
  "resource_utilization off s bs =
     map (utilization_of off s bs) (sort (remdups (map (\<lambda>b. local_date off (b_start b)) bs)))"

definition hour_of :: "int \<Rightarrow> datetime \<Rightarrow> int" where
  "hour_of off t = local_time off t div hours 1"

definition peak_hours :: "int \<Rightarrow> booking list \<Rightarrow> ((int \<times> int) \<times> nat) list" where
  "peak_hours off bs = sort (tally (map (\<lambda>b. (weekday (local_date off (b_start b)), hour_of off (b_start b))) bs))"

definition new_registrations :: "int \<Rightarrow> datetime list \<Rightarrow> ((int \<times> int) \<times> nat) list" where
  "new_registrations off ts = sort (tally (map (\<lambda>t. iso_week (local_date off t)) ts))"

definition request_type_rank :: "request_type \<Rightarrow> nat" where
  "request_type_rank t = (case t of Cleaning \<Rightarrow> 0 | General \<Rightarrow> 1 | Repair \<Rightarrow> 2 | Supplies \<Rightarrow> 3)"

definition requests_by_type :: "service_request list \<Rightarrow> (request_type \<times> nat) list" where
  "requests_by_type rs = sort_key (\<lambda>(t, n). request_type_rank t) (tally (map sr_type rs))"

text \<open>The greatest counts first, and the smaller key first among equal ones.\<close>

definition top_five :: "nat list \<Rightarrow> (nat \<times> nat) list" where
  "top_five ks = take 5 (sort_key (\<lambda>(k, n). (- int n, k)) (tally ks))"

definition top_resources :: "booking list \<Rightarrow> (nat \<times> nat) list" where
  "top_resources bs = top_five (map b_resource bs)"

definition top_companies :: "booking list \<Rightarrow> (nat \<times> nat) list" where
  "top_companies bs = top_five (List.map_filter b_company bs)"

text \<open>The percentage in hundredths, computed exactly.\<close>

definition utilization_percent :: "int \<Rightarrow> nat \<Rightarrow> int" where
  "utilization_percent capacity n = round_half_even (10000 * int n) capacity"

definition low_utilization :: "int \<Rightarrow> booking list \<Rightarrow> (nat \<times> nat \<times> int) list" where
  "low_utilization capacity bs = filter (\<lambda>(k, n, p). p < 2000)
     (map (\<lambda>(k, n). (k, n, utilization_percent capacity n)) (sort (tally (map b_resource bs))))"

record overview_figures =
  vw_total_companies :: nat
  vw_active_companies :: nat
  vw_total_users :: nat
  vw_active_users_7d :: nat
  vw_bookings_today :: nat
  vw_guests_today :: nat
  vw_open_service_requests :: nat

record dashboard =
  db_period :: period
  db_from :: date
  db_to :: date
  db_overview :: overview_figures
  db_resource_utilization :: "utilization_row list"
  db_peak_hours :: "((int \<times> int) \<times> nat) list"
  db_new_registrations :: "((int \<times> int) \<times> nat) list"
  db_requests_by_type :: "(request_type \<times> nat) list"
  db_top_resources :: "(nat \<times> nat) list"
  db_top_companies :: "(nat \<times> nat) list"
  db_low_utilization :: "(nat \<times> nat \<times> int) list"

definition pass_company :: "gs_state \<Rightarrow> access_log \<Rightarrow> nat option" where
  "pass_company s l = Option.bind (Option.bind (al_guest_pass l) (\<lambda>k. tbl_get gp_id k (gs_passes s))) gp_company"

definition guest_entries :: "gs_state \<Rightarrow> nat option \<Rightarrow> datetime \<times> datetime \<Rightarrow> access_log list" where
  "guest_entries s c ab = tbl_filter (\<lambda>l. al_is_entry l \<and> within ab (al_created_at l) \<and> scoped c (pass_company s l)) (gs_logs s)"

definition logged_in_since :: "datetime \<Rightarrow> user \<Rightarrow> bool" where
  "logged_in_since t u \<longleftrightarrow> (case u_last_login u of None \<Rightarrow> False | Some l \<Rightarrow> t \<le> l)"

definition overview_figures_of :: "int \<Rightarrow> datetime \<Rightarrow> nat option \<Rightarrow> resource_type option \<Rightarrow> an_state \<Rightarrow> overview_figures" where
  "overview_figures_of off now c rt s =
     (let acc = ov_acc (an_ov s); day = local_day_bounds off (local_date off now);
          companies = tbl_filter (\<lambda>x. \<not> co_is_deleted x \<and> scoped c (Some (co_id x))) (ac_companies acc);
          users = tbl_filter (\<lambda>u. scoped c (u_company u)) (ac_users acc)
      in \<lparr>vw_total_companies = length companies, vw_active_companies = length (filter co_is_active companies),
          vw_total_users = length users, vw_active_users_7d = length (filter (logged_in_since (now - days 7)) users),
          vw_bookings_today = length (counted_bookings (ov_bk (an_ov s)) c rt day),
          vw_guests_today = length (guest_entries (ov_gs (an_ov s)) c day),
          vw_open_service_requests = length (tbl_filter (\<lambda>r. sr_status r \<noteq> Rs_completed \<and> scoped c (sr_company r))
            (sv_requests (an_sv s)))\<rparr>)"

definition registrations :: "nat option \<Rightarrow> datetime \<times> datetime \<Rightarrow> an_state \<Rightarrow> datetime list" where
  "registrations c ab s = map (\<lambda>u. an_joined s (u_id u))
     (tbl_filter (\<lambda>u. within ab (an_joined s (u_id u)) \<and> scoped c (u_company u)) (ac_users (ov_acc (an_ov s))))"

definition dashboard_of ::
  "int \<Rightarrow> datetime \<Rightarrow> nat option \<Rightarrow> resource_type option \<Rightarrow> period \<times> date \<times> date \<Rightarrow> an_state \<Rightarrow> dashboard" where
  "dashboard_of off now c rt p s =
     (let d1 = fst (snd p); d2 = snd (snd p); ab = period_bounds off d1 d2; bk = ov_bk (an_ov s);
          bs = counted_bookings bk c rt ab
      in \<lparr>db_period = fst p, db_from = d1, db_to = d2, db_overview = overview_figures_of off now c rt s,
          db_resource_utilization = resource_utilization off bk bs, db_peak_hours = peak_hours off bs,
          db_new_registrations = new_registrations off (registrations c ab s),
          db_requests_by_type = requests_by_type (tbl_filter (\<lambda>r. within ab (an_requested s (sr_id r)) \<and> scoped c (sr_company r))
            (sv_requests (an_sv s))),
          db_top_resources = top_resources bs, db_top_companies = top_companies bs,
          db_low_utilization = low_utilization (max (d2 - d1 + 1) 1) bs\<rparr>)"

record dashboard_query = period_query +
  dq_company :: "nat param"
  dq_type :: "resource_type param"

definition company_exists :: "an_state \<Rightarrow> nat option \<Rightarrow> api_error option" where
  "company_exists s c = (case c of None \<Rightarrow> None
     | Some k \<Rightarrow> require (get_company (ov_acc (an_ov s)) k \<noteq> None) NotFound)"

definition superadmin_payload :: "int \<Rightarrow> datetime \<Rightarrow> dashboard_query \<Rightarrow> an_state \<Rightarrow> api_error + dashboard" where
  "superadmin_payload off now q s =
     bind_err (resolve_period (local_date off now) (period_query.truncate q)) (\<lambda>p.
     bind_err (int_param ''company_id'' (dq_company q)) (\<lambda>c.
     bind_err (guarded (company_exists s c) ()) (\<lambda>_.
     bind_err (optional (dq_type q) (raise_validation_error ''resource_type'' ''Invalid resource_type.'')) (\<lambda>rt.
       Inr (dashboard_of off now c rt p s)))))"

definition superadmin_dashboard :: "int \<Rightarrow> datetime \<Rightarrow> user \<Rightarrow> dashboard_query \<Rightarrow> an_state \<Rightarrow> api_error + dashboard" where
  "superadmin_dashboard off now u q s = (case IsSuperAdmin (Some u) of
     Some e \<Rightarrow> Inl e | None \<Rightarrow> superadmin_payload off now q s)"

end
