(* ===== verification/Dashboards.thy ===== *)
theory Dashboards
  imports Analytics
begin

text \<open>
  The views of \<open>core/views.py\<close>: the health check, the calendar of absences and the dashboard, which
  is another one for every role. They only read.
\<close>

section \<open>State\<close>

text \<open>
  \<open>ds_founded\<close> and \<open>ds_touched\<close> are the columns \<open>created_at\<close> of the companies and \<open>updated_at\<close> of
  the service requests, which no other component reads.
\<close>

record ds_state =
  ds_an :: an_state
  ds_nt :: nt_state
  ds_founded :: "nat \<Rightarrow> datetime"
  ds_touched :: "nat \<Rightarrow> datetime"

abbreviation ds_bk :: "ds_state \<Rightarrow> bk_state" where
  "ds_bk s \<equiv> ov_bk (an_ov (ds_an s))"

abbreviation ds_acc :: "ds_state \<Rightarrow> accounts" where
  "ds_acc s \<equiv> ov_acc (an_ov (ds_an s))"

abbreviation ds_crm :: "ds_state \<Rightarrow> crm_state" where
  "ds_crm s \<equiv> ov_crm (an_ov (ds_an s))"

abbreviation ds_sv :: "ds_state \<Rightarrow> sv_state" where
  "ds_sv s \<equiv> an_sv (ds_an s)"

section \<open>Health and absences\<close>

definition health_check :: "bool \<Rightarrow> bool \<Rightarrow> nat \<times> string" where
  "health_check db_ok redis_ok = (if db_ok \<and> redis_ok then (200, ''healthy'') else (503, ''unhealthy''))"

text \<open>An absence as it is shown to everybody in the company, with its type and the comment of its author.\<close>

record absence =
  ab_leave :: nat
  ab_start :: date
  ab_end :: date
  ab_user :: nat
  ab_type :: leave_type
  ab_comment :: string

definition absence_of :: "leave \<Rightarrow> absence" where
  "absence_of l = \<lparr>ab_leave = lv_id l, ab_start = lv_start l, ab_end = lv_end l, ab_user = lv_user l,
     ab_type = lv_type l, ab_comment = lv_comment l\<rparr>"

text \<open>A date that does not exist makes the parser raise.\<close>

definition optional_date :: "string \<Rightarrow> date_text \<Rightarrow> api_error + date option" where
  "optional_date field v = (case v of
     No_date \<Rightarrow> Inr None
   | No_date_form \<Rightarrow> Inl (ValidationError field ''Invalid date format. Use YYYY-MM-DD.'')
   | No_such_date \<Rightarrow> Inl ServerError
   | Date d \<Rightarrow> Inr (Some d))"

definition calendar_events :: "user \<Rightarrow> date_text \<Rightarrow> date_text \<Rightarrow> hr_state \<Rightarrow> api_error + absence list" where
  "calendar_events u df dt s = (case IsCompanyMember (Some u) of
     Some e \<Rightarrow> Inl e
   | None \<Rightarrow> bind_err (optional_date ''date_from'' df) (\<lambda>a. bind_err (optional_date ''date_to'' dt) (\<lambda>b.
       Inr (map absence_of (sort_key (\<lambda>l. (lv_start l, lv_id l)) (tbl_filter (\<lambda>l. lv_status l = Lr_approved
         \<and> (u_role u = Superadmin \<or> Some (lv_company l) = u_company u)
         \<and> (case a of None \<Rightarrow> True | Some d \<Rightarrow> d \<le> lv_end l)
         \<and> (case b of None \<Rightarrow> True | Some d \<Rightarrow> lv_start l \<le> d)) (hr_leaves s)))))))"

section \<open>Shared parts\<close>

definition day_bounds_offset :: "int \<Rightarrow> datetime \<Rightarrow> int \<Rightarrow> datetime \<times> datetime" where
  "day_bounds_offset off now n = local_day_bounds off (local_date off now + n)"

abbreviation today_bounds :: "int \<Rightarrow> datetime \<Rightarrow> datetime \<times> datetime" where
  "today_bounds off now \<equiv> day_bounds_offset off now 0"

definition bookings_of_day :: "bk_state \<Rightarrow> (booking \<Rightarrow> bool) \<Rightarrow> datetime \<times> datetime \<Rightarrow> booking list" where
  "bookings_of_day s P ab = tbl_filter (\<lambda>b. P b \<and> within ab (b_start b)) (bk_bookings s)"

definition is_confirmed :: "booking \<Rightarrow> bool" where
  "is_confirmed b \<longleftrightarrow> b_status b = Confirmed"

text \<open>The newest announcements, the pinned ones first.\<close>

definition announcement_feed :: "sv_state \<Rightarrow> (announcement \<Rightarrow> bool) \<Rightarrow> announcement list" where
  "announcement_feed s P = take 5 (sort_key (\<lambda>a. if an_is_pinned a then 0 else 1 :: nat) (rev (tbl_filter P (sv_announcements s))))"

record floor_load =
  fd_floor :: floor
  fd_total :: int
  fd_occupied :: int
  fd_pct :: int

definition floor_load_of :: "datetime \<Rightarrow> bk_state \<Rightarrow> floor \<Rightarrow> floor_load" where
  "floor_load_of now s f = \<lparr>fd_floor = f, fd_total = total_resources s (fl_id f),
     fd_occupied = booked_now now s (fl_id f), fd_pct = occupancy_pct now s (fl_id f)\<rparr>"

definition floor_load :: "datetime \<Rightarrow> sv_state \<Rightarrow> bk_state \<Rightarrow> floor_load list" where
  "floor_load now v s = map (floor_load_of now s) (sort_key fl_number (rows (sv_floors v)))"

text \<open>
  A task of the user: the date shown and the mark of being overdue are computed from the date of the
  deadline in UTC, the selection from its date in the current time zone.
\<close>

record my_task =
  my_row :: task
  my_board :: string
  my_due_date :: "date option"
  my_is_overdue :: bool

definition my_tasks_for_user :: "int \<Rightarrow> datetime \<Rightarrow> user \<Rightarrow> crm_state \<Rightarrow> task list" where
  "my_tasks_for_user off now u s = take 5 (sort_key (\<lambda>t. case tk_deadline t of None \<Rightarrow> (1 :: nat, 0) | Some d \<Rightarrow> (0, d))
     (tbl_filter (\<lambda>t. tk_assignee t = Some (u_id u) \<and> \<not> tk_is_archived t \<and> \<not> tk_is_deleted t
        \<and> (case tk_deadline t of None \<Rightarrow> True | Some d \<Rightarrow> local_date off d = local_date off now)) (cr_tasks s)))"

definition my_task_of :: "int \<Rightarrow> datetime \<Rightarrow> crm_state \<Rightarrow> task \<Rightarrow> my_task" where
  "my_task_of off now s t = \<lparr>my_row = t,
     my_board = (case board_of_task s t of None \<Rightarrow> [] | Some b \<Rightarrow> bo_name b),
     my_due_date = map_option (local_date 0) (tk_deadline t),
     my_is_overdue = (case tk_deadline t of None \<Rightarrow> False | Some d \<Rightarrow> local_date 0 d < local_date off now)\<rparr>"

definition my_task_list :: "int \<Rightarrow> datetime \<Rightarrow> user \<Rightarrow> crm_state \<Rightarrow> my_task list" where
  "my_task_list off now u s = map (my_task_of off now s) (my_tasks_for_user off now u s)"

section \<open>The dashboard of the superadmin\<close>

record superadmin_widgets =
  sw_total_companies :: nat
  sw_total_users :: nat
  sw_bookings_today :: nat
  sw_recent_events :: "booking list"
  sw_bookings_recent :: "booking list"
  sw_announcements_recent :: "announcement list"
  sw_bookings_week_delta :: int
  sw_space_load_pct :: int
  sw_open_service_requests :: nat
  sw_service_requests_closed_today :: nat
  sw_new_companies_last_7d :: nat
  sw_floor_load :: "floor_load list"

text \<open>No booking has the status \<open>checked_in\<close>, which the source also asks for.\<close>

definition occupied_resources :: "datetime \<Rightarrow> bk_state \<Rightarrow> nat" where
  "occupied_resources now s = length (remdups (map b_resource (tbl_filter (\<lambda>b. is_confirmed b \<and> b_start b \<le> now \<and> now \<le> b_end b)
     (bk_bookings s))))"

definition space_load_pct :: "datetime \<Rightarrow> bk_state \<Rightarrow> int" where
  "space_load_pct now s = (let total = int (length (tbl_filter r_is_active (bk_resources s))) in
     if total > 0 then round_half_even (100 * int (occupied_resources now s)) total else 0)"

definition superadmin_widgets_of :: "int \<Rightarrow> datetime \<Rightarrow> ds_state \<Rightarrow> superadmin_widgets" where
  "superadmin_widgets_of off now s =
     (let bk = ds_bk s; sv = ds_sv s; today = today_bounds off now;
          live = tbl_filter (\<lambda>c. \<not> co_is_deleted c) (ac_companies (ds_acc s));
          confirmed_today = length (bookings_of_day bk is_confirmed today)
      in \<lparr>sw_total_companies = length live, sw_total_users = length (tbl_filter u_is_active (ac_users (ds_acc s))),
          sw_bookings_today = confirmed_today,
          sw_recent_events = take 10 (rev (rows (bk_bookings bk))),
          sw_bookings_recent = take 5 (sort_key b_start (bookings_of_day bk (\<lambda>_. True) today)),
          sw_announcements_recent = take 3 (rev (tbl_filter (\<lambda>a. an_company a = None) (sv_announcements sv))),
          sw_bookings_week_delta = int confirmed_today
            - int (length (bookings_of_day bk is_confirmed (day_bounds_offset off now (- 7)))),
          sw_space_load_pct = space_load_pct now bk,
          sw_open_service_requests = length (tbl_filter (\<lambda>r. sr_status r \<noteq> Rs_completed) (sv_requests sv)),
          sw_service_requests_closed_today = length (tbl_filter (\<lambda>r. sr_status r = Rs_completed
            \<and> local_date off (ds_touched s (sr_id r)) = local_date off now) (sv_requests sv)),
          sw_new_companies_last_7d = length (filter (\<lambda>c. now - days 7 \<le> ds_founded s (co_id c)) live),
          sw_floor_load = floor_load now sv bk\<rparr>)"

section \<open>The dashboard of a company admin\<close>

record admin_widgets =
  aw_employee_count :: nat
  aw_active_tasks :: nat
  aw_bookings_today :: nat
  aw_announcement_feed :: "announcement list"
  aw_pending_leaves :: "leave list"
  aw_active_passes :: "guest_pass list"
  aw_bookings_recent :: "booking list"
  aw_free_resources_now :: nat
  aw_team_bookings_today :: "booking list"
  aw_my_tasks :: "my_task list"

text \<open>The resources that are busy are looked for among the bookings of the own company.\<close>

definition free_resources_now :: "datetime \<Rightarrow> nat option \<Rightarrow> bk_state \<Rightarrow> resource list" where
  "free_resources_now now c s = (let busy = map b_resource (tbl_filter (\<lambda>b. b_company b = c \<and> is_confirmed b
       \<and> b_start b \<le> now \<and> now \<le> b_end b) (bk_bookings s))
     in tbl_filter (\<lambda>r. r_is_active r \<and> r_id r \<notin> set busy) (bk_resources s))"

definition admin_widgets_of :: "int \<Rightarrow> datetime \<Rightarrow> user \<Rightarrow> ds_state \<Rightarrow> admin_widgets" where
  "admin_widgets_of off now u s =
     (let c = u_company u; bk = ds_bk s; crm = ds_crm s; ov = an_ov (ds_an s);
          day = bookings_of_day bk (\<lambda>b. b_company b = c) (today_bounds off now)
      in \<lparr>aw_employee_count = length (tbl_filter (\<lambda>x. u_company x = c \<and> u_is_active x) (ac_users (ds_acc s))),
          aw_active_tasks = length (tbl_filter (\<lambda>t. map_option bo_company (board_of_task crm t) = c
            \<and> \<not> tk_is_archived t \<and> \<not> tk_is_deleted t) (cr_tasks crm)),
          aw_bookings_today = length (filter is_confirmed day),
          aw_announcement_feed = announcement_feed (ds_sv s) (\<lambda>a. an_company a = c \<or> an_company a = None),
          aw_pending_leaves = tbl_filter (\<lambda>l. Some (lv_company l) = c \<and> lv_status l = Lr_pending) (hr_leaves (ov_hr ov)),
          aw_active_passes = tbl_filter (\<lambda>p. gp_company p = c \<and> gp_status p = Ap_active) (gs_passes (ov_gs ov)),
          aw_bookings_recent = take 5 (sort_key b_start day),
          aw_free_resources_now = length (free_resources_now now c bk),
          aw_team_bookings_today = take 10 (sort_key b_start day),
          aw_my_tasks = my_task_list off now u crm\<rparr>)"

section \<open>The dashboards of employees and guests\<close>

record employee_widgets =
  ew_my_tasks_today :: nat
  ew_my_bookings_today :: nat
  ew_announcement_feed :: "announcement list"
  ew_unread_notifications :: nat
  ew_bookings_recent :: "booking list"
  ew_my_upcoming_bookings :: "booking list"
  ew_my_tasks :: "my_task list"
  ew_boards_count :: nat

definition employee_widgets_of :: "int \<Rightarrow> datetime \<Rightarrow> user \<Rightarrow> ds_state \<Rightarrow> employee_widgets" where
  "employee_widgets_of off now u s =
     (let bk = ds_bk s; crm = ds_crm s; ts = my_task_list off now u crm;
          day = bookings_of_day bk (\<lambda>b. b_user b = u_id u) (today_bounds off now)
      in \<lparr>ew_my_tasks_today = length (tbl_filter (\<lambda>t. tk_assignee t = Some (u_id u) \<and> \<not> tk_is_archived t \<and> \<not> tk_is_deleted t
            \<and> (case board_of_task crm t of None \<Rightarrow> False | Some b \<Rightarrow> \<not> bo_is_archived b)
            \<and> map_option (local_date off) (tk_deadline t) = Some (local_date off now)) (cr_tasks crm)),
          ew_my_bookings_today = length (filter is_confirmed day),
          ew_announcement_feed = announcement_feed (ds_sv s) (\<lambda>a. an_company a = u_company u \<or> an_company a = None),
          ew_unread_notifications = length (tbl_filter (\<lambda>n. n_user n = u_id u \<and> \<not> n_is_read n) (nt_notifs (ds_nt s))),
          ew_bookings_recent = take 5 (sort_key b_start day),
          ew_my_upcoming_bookings = take 5 (sort_key b_start (filter is_confirmed day)),
          ew_my_tasks = ts, ew_boards_count = length (remdups (map my_board ts))\<rparr>)"

record guest_widgets =
  gw_my_bookings_today :: nat
  gw_available_desks :: nat
  gw_available_rooms :: nat
  gw_announcements :: "announcement list"

definition active_of_type :: "resource_type \<Rightarrow> bk_state \<Rightarrow> nat" where
  "active_of_type rt s = length (tbl_filter (\<lambda>r. r_type r = rt \<and> r_is_active r) (bk_resources s))"

definition guest_widgets_of :: "int \<Rightarrow> datetime \<Rightarrow> user \<Rightarrow> ds_state \<Rightarrow> guest_widgets" where
  "guest_widgets_of off now u s = \<lparr>
     gw_my_bookings_today = length (bookings_of_day (ds_bk s) (\<lambda>b. b_user b = u_id u \<and> is_confirmed b) (today_bounds off now)),
     gw_available_desks = active_of_type Desk (ds_bk s), gw_available_rooms = active_of_type Meeting_room (ds_bk s),
     gw_announcements = announcement_feed (ds_sv s) (\<lambda>a. an_company a = None)\<rparr>"

datatype widgets =
    For_superadmin superadmin_widgets
  | For_company_admin admin_widgets
  | For_employee employee_widgets
  | For_guest guest_widgets

definition role_dashboard :: "int \<Rightarrow> datetime \<Rightarrow> user \<Rightarrow> ds_state \<Rightarrow> role \<times> widgets" where
  "role_dashboard off now u s = (u_role u, (case u_role u of
     Superadmin \<Rightarrow> For_superadmin (superadmin_widgets_of off now s)
   | Company_admin \<Rightarrow> For_company_admin (admin_widgets_of off now u s)
   | Employee \<Rightarrow> For_employee (employee_widgets_of off now u s)
   | _ \<Rightarrow> For_guest (guest_widgets_of off now u s)))"

end
