(* ===== verification/OverviewProps.thy ===== *)
theory OverviewProps
  imports Overview CrmProps BookingProps LeaveProps
begin

text \<open>
  What the calendar of a company shows and to whom, the order it shows it in, and what the activity
  of a member counts.
\<close>

section \<open>A building for the witnesses\<close>

definition demo_ov :: "bk_state \<Rightarrow> leave list \<Rightarrow> task list \<Rightarrow> ov_state" where
  "demo_ov b ls ts = \<lparr>ov_acc = \<lparr>ac_users = Table [demo_user 2 Employee (Some 1), demo_user 4 Company_admin (Some 1)] 5,
       ac_companies = Table [demo_company] 2\<rparr>,
     ov_bk = b, ov_crm = demo_crm ts, ov_hr = demo_hr ls,
     ov_gs = \<lparr>gs_acc = \<lparr>ac_users = empty_table, ac_companies = empty_table\<rparr>, gs_nt = demo_nt, gs_passes = empty_table,
       gs_logs = empty_table, gs_cache = [], gs_jobs = [], gs_mails = []\<rparr>\<rparr>"

definition ask_days :: "date \<Rightarrow> date \<Rightarrow> calendar_request" where
  "ask_days a b = \<lparr>kq_from = Given a, kq_until = Given b, kq_user = Missing, kq_type = Missing, kq_my = None\<rparr>"

section \<open>The calendar\<close>

lemma calendar_ok:
  assumes "calendar off u c rq s = Inr es"
  obtains d1 d2 v et where "kq_from rq = Given d1" "kq_until rq = Given d2" "d1 \<le> d2"
    "u_role u \<in> {Company_admin, Employee} \<longrightarrow> u_company u = Some c"
    "u_role u = Employee \<longrightarrow> v = Some (u_id u)"
    "kq_type rq = Missing \<longrightarrow> et = None"
    "es = company_calendar_events off s c d1 d2 v et"
proof -
  from assms obtain co d1 d2 w et my where r: "resolve_company ''company.own_calendar_only'' s u c = Inr co"
    "required_date (kq_from rq) ''date_from'' = Inr d1" "required_date (kq_until rq) ''date_to'' = Inr d2"
    "\<not> d1 > d2"
    "optional (kq_type rq) (raise_validation_error ''event_type'' ''company.event_type_invalid'') = Inr et"
    "es = company_calendar_events off s (co_id co) d1 d2 (resolve_calendar_user_id u w my) et"
    by (auto simp: calendar_def split: option.splits if_splits)
  have "co_id co = c" using r(1)
    by (auto simp: resolve_company_def get_company_def find_Some_iff split: if_splits option.splits)
  with r show ?thesis
    by (intro that[of d1 d2 "resolve_calendar_user_id u w my" et])
       (auto simp: required_date_def optional_def resolve_company_def resolve_calendar_user_id_def
         split: param.splits if_splits)
qed

lemma events_sorted: "sorted (map sort_text (company_calendar_events off s c d1 d2 v et))"
  by (simp add: company_calendar_events_def Let_def)

lemma set_events:
  "set (company_calendar_events off s c d1 d2 v et) =
     (let a = fst (day_bounds off d1); b = snd (day_bounds off d2) in
      (if et \<in> {None, Some Ev_booking} then set (booking_events s c a b v) else {})
      \<union> (if et \<in> {None, Some Ev_task_deadline} then set (deadline_events s c a b v) else {})
      \<union> (if et \<in> {None, Some Ev_leave} then set (leave_events off s c d1 d2 v) else {})
      \<union> (if et \<in> {None, Some Ev_guest_visit} then set (visit_events s c a b v) else {}))"
  by (simp add: company_calendar_events_def Let_def Un_assoc)

lemma set_map_filter: "y \<in> set (List.map_filter f xs) \<longleftrightarrow> (\<exists>x \<in> set xs. f x = Some y)"
  by (induction xs) (auto simp: List.map_filter_def split: option.splits)

lemma deadline_eventD:
  "deadline_event s t = Some e \<Longrightarrow> tk_deadline t = Some (ev_start e) \<and> ev_offset e = 0 \<and> ev_type e = Ev_task_deadline
     \<and> (\<forall>k. tk_assignee t = Some k \<longrightarrow> ev_user e = k)"
  by (auto simp: deadline_event_def split: option.splits)

text \<open>What every event of the calendar satisfies, component by component.\<close>

lemma booking_eventD:
  "e \<in> set (booking_events s c a b v) \<Longrightarrow> ev_start e < b \<and> for_user v (ev_user e) \<and> ev_offset e = 0 \<and> ev_type e = Ev_booking"
  by (auto simp: booking_events_def)

lemma deadline_eventsD:
  "e \<in> set (deadline_events s c a b v) \<Longrightarrow> ev_start e < b \<and> for_user v (ev_user e) \<and> ev_offset e = 0
     \<and> ev_type e = Ev_task_deadline"
  by (auto simp: deadline_events_def set_map_filter for_user_def dest!: deadline_eventD split: option.splits)

lemma visit_eventD:
  "e \<in> set (visit_events s c a b v) \<Longrightarrow> ev_start e < b \<and> for_user v (ev_user e) \<and> ev_offset e = 0 \<and> ev_type e = Ev_guest_visit"
  by (auto simp: visit_events_def)

lemma leave_eventD:
  "e \<in> set (leave_events off s c d1 d2 v) \<Longrightarrow> ev_start e < snd (day_bounds off d2) \<and> for_user v (ev_user e)
     \<and> ev_offset e = off \<and> ev_type e = Ev_leave"
  by (auto simp: leave_events_def day_bounds_def make_aware_def usec_per_day_def)

lemmas eventD = booking_eventD deadline_eventsD visit_eventD leave_eventD

lemma calendar_event:
  assumes "e \<in> set (company_calendar_events off s c d1 d2 v et)"
  shows "ev_start e < snd (day_bounds off d2) \<and> for_user v (ev_user e) \<and> ev_offset e = (if ev_type e = Ev_leave then off else 0)"
  using assms by (auto simp: set_events Let_def dest!: eventD split: if_splits)

text \<open>
  The calendar of a company is private and complete for its members: they are answered
  about their own company, an employee is shown the own events only and every confirmed booking
  of the own that overlaps the days asked for.
\<close>

theorem calendar_is_private:
  assumes cal: "calendar off u c rq s = Inr es" and member: "u_role u = Employee"
  shows "u_company u = Some c \<and> sorted (map sort_text es) \<and> (\<forall>e \<in> set es. ev_user e = u_id u)
     \<and> (\<forall>d1 d2 x. kq_from rq = Given d1 \<and> kq_until rq = Given d2 \<and> kq_type rq = Missing
          \<and> x \<in> set (rows (bk_bookings (ov_bk s))) \<and> b_company x = Some c \<and> b_user x = u_id u \<and> b_status x = Confirmed
          \<and> b_start x < make_aware off (d2 + 1) 0 \<and> make_aware off d1 0 < b_end x
          \<longrightarrow> (\<exists>e \<in> set es. ev_type e = Ev_booking \<and> ev_start e = b_start x \<and> ev_end e = b_end x))"
  using cal
proof (rule calendar_ok)
  fix d1 d2 v et
  assume r: "kq_from rq = Given d1" "kq_until rq = Given d2"
    "u_role u \<in> {Company_admin, Employee} \<longrightarrow> u_company u = Some c" "u_role u = Employee \<longrightarrow> v = Some (u_id u)"
    "kq_type rq = Missing \<longrightarrow> et = None" "es = company_calendar_events off s c d1 d2 v et"
  have v: "v = Some (u_id u)" using r(4) member by simp
  have "\<forall>e \<in> set es. ev_user e = u_id u"
    using calendar_event[of _ off s c d1 d2 v et] r(6) v by (auto simp: for_user_def)
  moreover have "\<exists>e \<in> set es. ev_type e = Ev_booking \<and> ev_start e = b_start x \<and> ev_end e = b_end x"
    if x: "kq_type rq = Missing" "x \<in> set (rows (bk_bookings (ov_bk s)))" "b_company x = Some c" "b_user x = u_id u"
      "b_status x = Confirmed" "b_start x < make_aware off (d2 + 1) 0" "make_aware off d1 0 < b_end x" for x
  proof -
    have "\<exists>e \<in> set (booking_events s c (make_aware off d1 0) (make_aware off (d2 + 1) 0) v).
        ev_type e = Ev_booking \<and> ev_start e = b_start x \<and> ev_end e = b_end x"
      using x v by (fastforce simp: booking_events_def for_user_def)
    then show ?thesis using r(5,6) x(1) by (auto simp: set_events day_bounds_def Let_def)
  qed
  ultimately show ?thesis using r member events_sorted[of off s c d1 d2 v et] by fastforce
qed

theorem calendar_is_private_witness:
  "\<exists>es. calendar 0 (demo_user 2 Employee (Some 1)) 1 (ask_days 20 20)
       (demo_ov (demo_state (default_resource 1) [demo_booking 1 2 Confirmed (days 20 + hours 9) (days 20 + hours 10) 0]) [] []) = Inr es
     \<and> (\<exists>e \<in> set es. ev_type e = Ev_booking \<and> ev_user e = 2 \<and> ev_start e = days 20 + hours 9)"
proof -
  let ?x = "demo_booking 1 2 Confirmed (days 20 + hours 9) (days 20 + hours 10) 0"
  let ?u = "demo_user 2 Employee (Some 1)"
  let ?s = "demo_ov (demo_state (default_resource 1) [?x]) [] []"
  have "is_ok (calendar 0 ?u 1 (ask_days 20 20) ?s)" by code_simp
  then obtain es where es: "calendar 0 ?u 1 (ask_days 20 20) ?s = Inr es" by (auto simp: is_ok_iff)
  have "\<exists>e \<in> set es. ev_type e = Ev_booking \<and> ev_start e = b_start ?x \<and> ev_end e = b_end ?x"
    using calendar_is_private[OF es] by (auto simp: ask_days_def demo_ov_def demo_state_def demo_booking_def make_aware_def time_units)
  then show ?thesis using es calendar_is_private[OF es] by (auto simp: demo_booking_def)
qed

text \<open>
  The list is sorted by the texts of the bounds, and a leave is rendered in the local time zone
  while everything else is rendered in UTC: what starts less than the offset after a leave is
  listed before it.
\<close>

theorem calendar_is_not_chronological:
  assumes cal: "calendar off u c rq s = Inr es" and ij: "i < length es" "j < length es"
    and kinds: "ev_type (es ! i) = Ev_leave" "ev_type (es ! j) \<noteq> Ev_leave"
    and later: "ev_start (es ! i) < ev_start (es ! j)" "ev_start (es ! j) < ev_start (es ! i) + off"
  shows "j < i"
  using cal
proof (rule calendar_ok)
  fix d1 d2 v et assume es: "es = company_calendar_events off s c d1 d2 v et"
  have off: "ev_offset (es ! k) = (if ev_type (es ! k) = Ev_leave then off else 0)" if "k < length es" for k
    using calendar_event[of "es ! k" off s c d1 d2 v et] that es nth_mem by blast
  have "sort_text (es ! j) < sort_text (es ! i)"
    using later off[OF ij(1)] off[OF ij(2)] kinds by (simp add: sort_text_def)
  moreover have "sort_text (es ! i) \<le> sort_text (es ! j)" if "i \<le> j"
    using sorted_nth_mono[OF events_sorted[of off s c d1 d2 v et] that] ij es by simp
  ultimately show ?thesis by (metis leD linorder_not_le)
qed

text \<open>
  At UTC+5, a leave of the day 20 is listed after a booking of its second hour.
\<close>

theorem calendar_is_not_chronological_witness:
  "\<exists>es i j. calendar (hours 5) (demo_user 4 Company_admin (Some 1)) 1 (ask_days 20 20)
       (demo_ov (demo_state (default_resource 1) [demo_booking 1 2 Confirmed (days 20 - hours 4) (days 20 - hours 3) 0])
         [demo_leave 1 1 Lr_approved 20 20] []) = Inr es
     \<and> ev_start (es ! i) < ev_start (es ! j) \<and> j < i"
proof -
  let ?r = "calendar (hours 5) (demo_user 4 Company_admin (Some 1)) 1 (ask_days 20 20)
       (demo_ov (demo_state (default_resource 1) [demo_booking 1 2 Confirmed (days 20 - hours 4) (days 20 - hours 3) 0])
         [demo_leave 1 1 Lr_approved 20 20] [])"
  have "case ?r of Inl e \<Rightarrow> False | Inr es \<Rightarrow> length es = 2 \<and> ev_type (es ! 1) = Ev_leave \<and> ev_type (es ! 0) = Ev_booking
      \<and> ev_start (es ! 1) < ev_start (es ! 0) \<and> ev_start (es ! 0) < ev_start (es ! 1) + hours 5"
    by code_simp
  then obtain es where es: "?r = Inr es" "length es = 2" "ev_type (es ! 1) = Ev_leave" "ev_type (es ! 0) \<noteq> Ev_leave"
      "ev_start (es ! 1) < ev_start (es ! 0)" "ev_start (es ! 0) < ev_start (es ! 1) + hours 5"
    by (auto split: sum.splits)
  have "0 < (1::nat)" by (rule calendar_is_not_chronological[OF es(1) _ _ es(3,4,5,6)]) (simp_all add: es(2))
  then show ?thesis using es(1,5) by blast
qed

section \<open>The tasks of a member\<close>

text \<open>Archiving deletes softly, and no operation shows an archived task again without unarchiving it.\<close>

definition archived_hidden :: "task table \<Rightarrow> bool" where
  "archived_hidden T \<longleftrightarrow> (\<forall>t \<in> set (rows T). tk_is_archived t \<longrightarrow> tk_is_deleted t)"

lemma archived_hidden_table:
  "archived_hidden T \<Longrightarrow> archived_hidden (tbl_delete P T)"
  "archived_hidden T \<Longrightarrow> (\<And>i. \<not> tk_is_archived (mk i)) \<Longrightarrow> archived_hidden (tbl_insert mk T)"
  "archived_hidden T \<Longrightarrow> (tk_is_archived t \<longrightarrow> tk_is_deleted t) \<Longrightarrow> archived_hidden (tbl_save tk_id t T)"
  by (auto simp: archived_hidden_def tbl_save_def)

lemma archived_hidden_update:
  "archived_hidden T \<Longrightarrow> (\<And>t. tk_is_archived (f t) = tk_is_archived t \<and> tk_is_deleted (f t) = tk_is_deleted t)
     \<Longrightarrow> archived_hidden (tbl_update P f T)"
  by (auto simp: archived_hidden_def)

lemma archived_hidden_normalize:
  "archived_hidden (cr_tasks s) \<Longrightarrow> archived_hidden (cr_tasks (normalize_positions c s))"
  by (simp add: normalize_positions_def archived_hidden_update)

lemma archived_hidden_get:
  "archived_hidden (cr_tasks s) \<Longrightarrow> get_task s u a k = Inr t \<Longrightarrow> tk_is_archived t \<Longrightarrow> tk_is_deleted t"
  by (auto simp: archived_hidden_def dest: get_task_SomeD)

lemma archived_hidden_save:
  "archived_hidden (cr_tasks s) \<Longrightarrow> (tk_is_archived t \<longrightarrow> tk_is_deleted t) \<Longrightarrow> archived_hidden (cr_tasks (save_task t s))"
  by (simp add: save_task_def archived_hidden_table)

lemma fold_add_template_column_tasks [simp]:
  "cr_tasks (fold (add_template_column b) xs s) = cr_tasks s"
  by (induction xs arbitrary: s) (auto simp: add_template_column_def split: prod.splits)

lemma fold_reorder_step_tasks [simp]: "cr_tasks (fold reorder_step xs s) = cr_tasks s"
  by (induction xs arbitrary: s) (auto simp: reorder_step_def split: prod.splits)

lemma tasks_of_frame: "s' = t\<lparr>cr_nt := cr_nt s'\<rparr> \<Longrightarrow> cr_tasks s' = cr_tasks t"
  by (metis crm_state.ext_inject crm_state.surjective crm_state.update_convs(7))

lemma board_and_column_ops_keep_tasks:
  "create_board now u rq s = Inr s' \<Longrightarrow> cr_tasks s' = cr_tasks s"
  "patch_board u ia k rq s = Inr s' \<Longrightarrow> cr_tasks s' = cr_tasks s"
  "archive_board u k s = Inr s' \<Longrightarrow> cr_tasks s' = cr_tasks s"
  "unarchive_board u k s = Inr s' \<Longrightarrow> cr_tasks s' = cr_tasks s"
  "create_column u b name wip s = Inr s' \<Longrightarrow> cr_tasks s' = cr_tasks s"
  "update_column u b k crq s = Inr s' \<Longrightarrow> cr_tasks s' = cr_tasks s"
  "reorder_columns u b ids s = Inr s' \<Longrightarrow> cr_tasks s' = cr_tasks s"
  "create_label u cp lname color s = Inr s' \<Longrightarrow> cr_tasks s' = cr_tasks s"
  "update_label u cp k lname' color s = Inr s' \<Longrightarrow> cr_tasks s' = cr_tasks s"
  by (auto simp: create_board_def patch_board_def archive_board_def unarchive_board_def create_column_def
      update_column_def perform_update_column_def shift_columns_def reorder_columns_def create_label_def update_label_def Let_def
      split: option.splits sum.splits if_splits)

lemma delete_columns_hidden:
  "archived_hidden (cr_tasks s) \<Longrightarrow> archived_hidden (cr_tasks (delete_columns P s))"
  by (auto simp: delete_columns_tasks archived_hidden_def)

lemma task_ops_keep_archived_hidden:
  assumes h: "archived_hidden (cr_tasks s)"
  shows "create_task off now done u rq s = Inr s' \<Longrightarrow> archived_hidden (cr_tasks s')"
    "update_task off now done u partial k rq s = Inr s' \<Longrightarrow> archived_hidden (cr_tasks s')"
    "destroy_task now u k s = Inr s' \<Longrightarrow> archived_hidden (cr_tasks s')"
    "move_task now u k c order s = Inr s' \<Longrightarrow> archived_hidden (cr_tasks s')"
    "archive_task now u k s = Inr s' \<Longrightarrow> archived_hidden (cr_tasks s')"
    "unarchive_task u k s = Inr s' \<Longrightarrow> archived_hidden (cr_tasks s')"
proof -
  note keep = archived_hidden_normalize archived_hidden_save[OF h] archived_hidden_get[OF h]
  have new: "archived_hidden (tbl_insert (new_task now u c title rq) (cr_tasks s))" for c title
    by (rule archived_hidden_table(2)[OF h]) (simp add: new_task_def)
  show "archived_hidden (cr_tasks s')" if "create_task off now done u rq s = Inr s'"
    using that by (rule create_task_ok) (drule tasks_of_frame, simp add: keep new)
  show "archived_hidden (cr_tasks s')" if "update_task off now done u partial k rq s = Inr s'"
    using that by (rule update_task_ok) (drule tasks_of_frame, simp add: keep archived_hidden_table(3)[OF h])
  show "archived_hidden (cr_tasks s')" if "destroy_task now u k s = Inr s'"
    using that by (rule destroy_task_ok) (simp add: keep task_delete_def)
  show "archived_hidden (cr_tasks s')" if "move_task now u k c order s = Inr s'"
    using that by (rule move_task_ok) (drule tasks_of_frame, simp add: keep)
  show "archived_hidden (cr_tasks s')" if "archive_task now u k s = Inr s'"
    using that by (rule archive_task_ok) (simp add: keep task_delete_def)
  show "archived_hidden (cr_tasks s')" if "unarchive_task u k s = Inr s'"
    using that by (rule unarchive_task_ok) (simp add: keep unarchived_def)
qed

lemma removals_keep_archived_hidden:
  assumes h: "archived_hidden (cr_tasks s)"
  shows "destroy_board u ia k s = Inr s' \<Longrightarrow> archived_hidden (cr_tasks s')"
    "destroy_column u b k mv s = Inr s' \<Longrightarrow> archived_hidden (cr_tasks s')"
    "destroy_label u k s = Inr s' \<Longrightarrow> archived_hidden (cr_tasks s')"
proof -
  show "archived_hidden (cr_tasks s')" if "destroy_board u ia k s = Inr s'"
    using that h by (auto simp: destroy_board_def Let_def delete_columns_hidden split: option.splits sum.splits)
  show "archived_hidden (cr_tasks s')" if "destroy_column u b k mv s = Inr s'"
    using that by (rule destroy_column_ok)
      (simp add: renumber_columns_def delete_columns_hidden archived_hidden_update[OF h])
  show "archived_hidden (cr_tasks s')" if "destroy_label u k s = Inr s'"
    using that h by (auto simp: destroy_label_def archived_hidden_def split: option.splits)
qed

lemma exec_crm_archived_hidden:
  assumes h: "archived_hidden (cr_tasks s)" and ok: "exec_crm x s = Inr s'"
  shows "archived_hidden (cr_tasks s')"
proof -
  note ops = task_ops_keep_archived_hidden[OF h] removals_keep_archived_hidden[OF h]
  have same: "archived_hidden (cr_tasks s'')" if "cr_tasks s'' = cr_tasks s" for s'' using that h by simp
  show ?thesis
    using ok
    by (cases x) (auto simp: notify_deadline_approaching_def notify_deadline_overdue_def h
        dest: ops dest!: board_and_column_ops_keep_tasks intro: same)
qed

interpretation archive: op_system exec_crm "\<lambda>s. archived_hidden (cr_tasks s)" "\<lambda>_. True"
  by unfold_locales (rule exec_crm_archived_hidden)

lemma member_activity_ok:
  "member_activity_view now u c k s = Inr a \<Longrightarrow>
     ma_completed_tasks a = length (filter tk_is_archived (assigned_tasks s c k))
     \<and> ma_active_tasks a = length (filter (\<lambda>t. \<not> tk_is_archived t) (assigned_tasks s c k))"
  by (auto simp: member_activity_view_def resolve_company_def get_company_def find_Some_iff split: option.splits if_splits)

text \<open>
  The completed tasks of a member are counted among the tasks that are not deleted, and archiving
  deletes: after any run of operations the count is zero, however many tasks were archived.
\<close>

theorem completed_tasks_are_never_counted:
  assumes start: "\<And>t. t \<in> set (rows (cr_tasks (ov_crm s))) \<Longrightarrow> tk_is_archived t \<Longrightarrow> tk_is_deleted t"
    and view: "member_activity_view now u c k (s\<lparr>ov_crm := run_ops exec_crm xs (ov_crm s)\<rparr>) = Inr a"
  shows "ma_completed_tasks a = 0"
proof -
  have "archived_hidden (cr_tasks (ov_crm s))" using start by (simp add: archived_hidden_def)
  then have "archived_hidden (cr_tasks (run_ops exec_crm xs (ov_crm s)))"
    by (rule archive.run_inv) (simp add: list_all_iff)
  then show ?thesis
    using member_activity_ok[OF view] by (auto simp: assigned_tasks_def archived_hidden_def filter_empty_conv)
qed

text \<open>The member archives the task assigned to them, and it is counted nowhere.\<close>

theorem completed_tasks_are_never_counted_witness:
  "\<exists>a. member_activity_view 9 (demo_user 4 Company_admin (Some 1)) 1 2
      ((demo_ov (demo_state (default_resource 1) []) [] [(demo_task 5 1 1)\<lparr>tk_assignee := Some 2\<rparr>])
        \<lparr>ov_crm := run_ops exec_crm [Op_archive_task 8 (demo_user 2 Employee (Some 1)) 5]
          (demo_crm [(demo_task 5 1 1)\<lparr>tk_assignee := Some 2\<rparr>])\<rparr>) = Inr a
    \<and> ma_completed_tasks a = 0"
proof -
  let ?s = "demo_ov (demo_state (default_resource 1) []) [] [(demo_task 5 1 1)\<lparr>tk_assignee := Some 2\<rparr>]"
  let ?xs = "[Op_archive_task 8 (demo_user 2 Employee (Some 1)) 5]"
  have "is_ok (member_activity_view 9 (demo_user 4 Company_admin (Some 1)) 1 2 (?s\<lparr>ov_crm := run_ops exec_crm ?xs (ov_crm ?s)\<rparr>))"
    by code_simp
  then obtain a where a: "member_activity_view 9 (demo_user 4 Company_admin (Some 1)) 1 2
      (?s\<lparr>ov_crm := run_ops exec_crm ?xs (ov_crm ?s)\<rparr>) = Inr a" by (auto simp: is_ok_iff)
  have "ma_completed_tasks a = 0"
    by (rule completed_tasks_are_never_counted[OF _ a]) (simp add: demo_ov_def demo_crm_def demo_task_def)
  moreover have "ov_crm ?s = demo_crm [(demo_task 5 1 1)\<lparr>tk_assignee := Some 2\<rparr>]" by (simp add: demo_ov_def)
  ultimately show ?thesis using a by simp
qed

end
