(* ===== verification/CompanyAnalytics.thy ===== *)
theory CompanyAnalytics
  imports Analytics
begin

text \<open>
  The second half of \<open>analytics/views.py\<close>: the dashboard of a company, the use of the resources and
  the tables of the exports.
\<close>

section \<open>The dashboard of a company\<close>

record column_count =
  cc_column :: nat
  cc_name :: string
  cc_board_name :: string
  cc_count :: nat

record employee_row =
  ey_user :: user
  ey_bookings :: nat
  ey_tasks :: nat

record company_figures =
  cf_total_employees :: nat
  cf_active_7d :: nat
  cf_bookings :: nat
  cf_storage_used :: int
  cf_storage_limit :: int
  cf_tasks_total :: nat
  cf_by_column :: "column_count list"
  cf_guest_visits :: nat
  cf_employees :: "employee_row list"
  cf_pending_leaves :: "leave list"
  cf_active_passes :: "guest_pass list"

definition period_tasks :: "crm_state \<Rightarrow> nat \<Rightarrow> datetime \<times> datetime \<Rightarrow> task list" where
  "period_tasks s c ab = tbl_filter (\<lambda>t. (case board_of_task s t of None \<Rightarrow> False | Some b \<Rightarrow> bo_company b = c \<and> \<not> bo_is_archived b)
     \<and> \<not> tk_is_deleted t \<and> \<not> tk_is_archived t \<and> within ab (tk_created_at t)) (cr_tasks s)"

definition column_count_of :: "crm_state \<Rightarrow> nat \<times> nat \<Rightarrow> column_count" where
  "column_count_of s kn = (case kn of (k, n) \<Rightarrow> \<lparr>cc_column = k,
     cc_name = (case column_of s k of None \<Rightarrow> [] | Some x \<Rightarrow> cl_name x),
     cc_board_name = (case Option.bind (column_of s k) (\<lambda>x. board_of s (cl_board x)) of None \<Rightarrow> [] | Some b \<Rightarrow> bo_name b),
     cc_count = n\<rparr>)"

definition column_sort_key :: "crm_state \<Rightarrow> column_count \<Rightarrow> string \<times> int \<times> nat" where
  "column_sort_key s x = (lower_text (cc_board_name x),
     (case column_of s (cc_column x) of None \<Rightarrow> 0 | Some k \<Rightarrow> cl_position k), cc_column x)"

definition tasks_by_column :: "crm_state \<Rightarrow> task list \<Rightarrow> column_count list" where
  "tasks_by_column s ts = sort_key (column_sort_key s) (map (column_count_of s) (tally (map tk_column ts)))"

definition company_employees :: "accounts \<Rightarrow> nat \<Rightarrow> user list" where
  "company_employees acc c = tbl_filter (\<lambda>u. u_company u = Some c \<and> u_is_active u \<and> u_role u \<noteq> Superadmin) (ac_users acc)"

text \<open>All bookings of the company, the cancelled ones among them.\<close>

definition company_bookings :: "bk_state \<Rightarrow> nat \<Rightarrow> datetime \<times> datetime \<Rightarrow> booking list" where
  "company_bookings s c ab = tbl_filter (\<lambda>b. b_company b = Some c \<and> within ab (b_start b)) (bk_bookings s)"

definition task_is_active :: "crm_state \<Rightarrow> task \<Rightarrow> bool" where
  "task_is_active s t \<longleftrightarrow> normalize_column_status (case column_of s (tk_column t) of None \<Rightarrow> [] | Some k \<Rightarrow> cl_name k) \<noteq> Some St_done"

definition employee_row_of :: "crm_state \<Rightarrow> booking list \<Rightarrow> task list \<Rightarrow> user \<Rightarrow> employee_row" where
  "employee_row_of s bs ts u = \<lparr>ey_user = u,
     ey_bookings = pick (map_of (tally (map b_user bs)) (u_id u)) 0,
     ey_tasks = pick (map_of (tally (List.map_filter tk_assignee (filter (task_is_active s) ts))) (u_id u)) 0\<rparr>"

definition analytics_bounds :: "int \<Rightarrow> datetime \<Rightarrow> (date \<times> date) option \<Rightarrow> datetime \<times> datetime" where
  "analytics_bounds off now dates = (case dates of
     Some (d1, d2) \<Rightarrow> period_bounds off d1 d2
   | None \<Rightarrow> (now - days 30, now))"

definition company_analytics :: "int \<Rightarrow> datetime \<Rightarrow> company \<Rightarrow> (date \<times> date) option \<Rightarrow> an_state \<Rightarrow> company_figures" where
  "company_analytics off now co dates s =
     (let c = co_id co; ab = analytics_bounds off now dates; crm = ov_crm (an_ov s);
          es = company_employees (ov_acc (an_ov s)) c;
          ts = period_tasks crm c ab; bs = company_bookings (ov_bk (an_ov s)) c ab
      in \<lparr>cf_total_employees = length es, cf_active_7d = length (filter (logged_in_since (now - days 7)) es),
          cf_bookings = length bs,
          cf_storage_used = get_company_storage_used_bytes (an_st s) c,
          cf_storage_limit = co_storage_limit co * gib div 1000,
          cf_tasks_total = length ts, cf_by_column = tasks_by_column crm ts,
          cf_guest_visits = length (guest_entries (ov_gs (an_ov s)) (Some c) ab),
          cf_employees = map (employee_row_of crm (filter (\<lambda>b. b_user b \<in> set (map u_id es)) bs)
            (filter (\<lambda>t. list_ex (\<lambda>u. tk_assignee t = Some (u_id u)) es) ts)) es,
          cf_pending_leaves = tbl_filter (\<lambda>l. lv_company l = c \<and> lv_status l = Lr_pending) (hr_leaves (ov_hr (an_ov s))),
          cf_active_passes = tbl_filter (\<lambda>p. gp_company p = Some c \<and> gp_status p = Ap_active) (gs_passes (ov_gs (an_ov s)))\<rparr>)"

text \<open>The refusal of a user without a company is an answer of its own, not one of the error renderer.\<close>

definition company_dashboard ::
  "int \<Rightarrow> datetime \<Rightarrow> user \<Rightarrow> period_query \<Rightarrow> an_state \<Rightarrow> api_error + company_figures" where
  "company_dashboard off now u q s = (case IsCompanyAdmin (Some u) of
     Some e \<Rightarrow> Inl e
   | None \<Rightarrow> (case company_of (ov_acc (an_ov s)) u of
       None \<Rightarrow> Inl (ValidationError ''detail'' ''No company'')
     | Some co \<Rightarrow> bind_err (resolve_period (local_date off now) q) (\<lambda>p.
         Inr (company_analytics off now co (Some (snd p)) s))))"

section \<open>The use of the resources\<close>

record usage_row =
  uw_resource :: nat
  uw_total :: nat
  uw_avg_minutes :: int
  uw_total_minutes :: int
  uw_peak_hour :: "int option"
  uw_peak_count :: nat

record usage_query = period_query +
  uq_resource :: "nat param"
  uq_floor :: "int param"
  uq_company :: "nat param"

definition usage_bookings ::
  "bk_state \<Rightarrow> nat option \<Rightarrow> int option \<Rightarrow> nat option \<Rightarrow> datetime \<times> datetime \<Rightarrow> booking list" where
  "usage_bookings s r fl c ab = tbl_filter (\<lambda>b. b_status b \<in> {Confirmed, Completed} \<and> within ab (b_start b)
     \<and> scoped r (Some (b_resource b)) \<and> scoped fl (map_option r_floor (resource_of s b)) \<and> scoped c (b_company b)) (bk_bookings s)"

definition duration_of :: "booking \<Rightarrow> int" where
  "duration_of b = b_end b - b_start b"

text \<open>\<open>max\<close> by count, and by the earlier hour among equal counts.\<close>

definition busiest :: "(int \<times> nat) list \<Rightarrow> (int \<times> nat) option" where
  "busiest hs = (if hs = [] then None else Some (hd (sort_key (\<lambda>(h, n). (- int n, h)) hs)))"

text \<open>Minutes are in hundredths, computed exactly.\<close>

definition usage_row_of :: "int \<Rightarrow> booking list \<Rightarrow> nat \<times> nat \<Rightarrow> usage_row" where
  "usage_row_of off bs kn = (let k = fst kn; n = snd kn; xs = filter (\<lambda>b. b_resource b = k) bs;
       total = sum_list (map duration_of xs); peak = busiest (tally (map (\<lambda>b. hour_of off (b_start b)) xs))
     in \<lparr>uw_resource = k, uw_total = n,
         uw_avg_minutes = round_half_even (100 * total) (minutes 1 * int n),
         uw_total_minutes = round_half_even (100 * total) (minutes 1),
         uw_peak_hour = map_option fst peak, uw_peak_count = (case peak of None \<Rightarrow> 0 | Some p \<Rightarrow> snd p)\<rparr>)"

definition resource_rows :: "int \<Rightarrow> booking list \<Rightarrow> usage_row list" where
  "resource_rows off bs = map (usage_row_of off bs) (sort_key (\<lambda>(k, n). (- int n, k)) (tally (map b_resource bs)))"

definition resource_usage ::
  "int \<Rightarrow> datetime \<Rightarrow> user \<Rightarrow> usage_query \<Rightarrow> an_state \<Rightarrow> api_error + (period \<times> date \<times> date) \<times> usage_row list" where
  "resource_usage off now u q s = (case IsSuperAdmin (Some u) of
     Some e \<Rightarrow> Inl e
   | None \<Rightarrow>
     bind_err (resolve_period (local_date off now) (period_query.truncate q)) (\<lambda>p.
     bind_err (int_param ''resource_id'' (uq_resource q)) (\<lambda>r.
     bind_err (int_param ''floor'' (uq_floor q)) (\<lambda>fl.
     bind_err (int_param ''company_id'' (uq_company q)) (\<lambda>c.
     bind_err (guarded (company_exists s c) ()) (\<lambda>_.
     bind_err (guarded (case r of None \<Rightarrow> None
         | Some k \<Rightarrow> require (tbl_get r_id k (bk_resources (ov_bk (an_ov s))) \<noteq> None) NotFound) ()) (\<lambda>_.
       Inr (p, resource_rows off (usage_bookings (ov_bk (an_ov s)) r fl c (period_bounds off (fst (snd p)) (snd (snd p))))))))))))"

section \<open>Exports\<close>

text \<open>
  The cells of the tables: headings are keys of the translations. The name of the file of a company
  carries a slug of the company's name, which is left out, as are the layout and the headings of the PDF.
\<close>

datatype export_format = As_csv | As_pdf

definition period_text :: "period \<Rightarrow> string" where
  "period_text p = (case p of P7d \<Rightarrow> ''7d'' | P30d \<Rightarrow> ''30d'' | P90d \<Rightarrow> ''90d'' | Custom \<Rightarrow> ''custom'')"

definition day_cell :: "date \<Rightarrow> msg" where
  "day_cell d = Fmt ''iso_date'' [Num d]"

definition count_cell :: "nat \<Rightarrow> msg" where
  "count_cell n = Num (int n)"

definition overview_headers :: "msg list" where
  "overview_headers = map (\<lambda>k. Fmt k []) [''analytics.csv.period'', ''analytics.csv.date_from'', ''analytics.csv.date_to'',
     ''analytics.csv.total_companies'', ''analytics.csv.active_companies'', ''analytics.csv.total_users'',
     ''analytics.csv.active_users_7d'', ''analytics.csv.bookings_today'', ''analytics.csv.guests_today'',
     ''analytics.csv.open_service_requests'']"

definition overview_cells :: "dashboard \<Rightarrow> msg list" where
  "overview_cells d = (let v = db_overview d in
     [Str (period_text (db_period d)), day_cell (db_from d), day_cell (db_to d), count_cell (vw_total_companies v),
      count_cell (vw_active_companies v), count_cell (vw_total_users v), count_cell (vw_active_users_7d v),
      count_cell (vw_bookings_today v), count_cell (vw_guests_today v), count_cell (vw_open_service_requests v)])"

definition rows_superadmin_csv :: "dashboard \<Rightarrow> msg list list" where
  "rows_superadmin_csv d = [overview_headers, overview_cells d]"

definition superadmin_pdf_table :: "dashboard \<Rightarrow> msg list list" where
  "superadmin_pdf_table d = [overview_headers, overview_cells d]"

definition summary_headers :: "msg list" where
  "summary_headers = map (\<lambda>k. Fmt k []) [''analytics.csv.total_employees'', ''analytics.csv.active_7d'',
     ''analytics.csv.bookings_month'', ''analytics.csv.storage_used'', ''analytics.csv.storage_limit'',
     ''analytics.csv.crm_total'', ''analytics.csv.guest_visits_month'']"

definition employee_headers :: "msg list" where
  "employee_headers = map (\<lambda>k. Fmt k []) [''analytics.csv.full_name'', ''analytics.csv.booking_count_30d'',
     ''analytics.csv.task_count_active'', ''analytics.csv.last_login'']"

definition employee_cells :: "msg \<Rightarrow> employee_row \<Rightarrow> msg list" where
  "employee_cells never e = [Str (full_name (ey_user e)), count_cell (ey_bookings e), count_cell (ey_tasks e),
     (case u_last_login (ey_user e) of None \<Rightarrow> never | Some t \<Rightarrow> At t)]"

definition rows_company_csv :: "company_figures \<Rightarrow> msg list list" where
  "rows_company_csv f = [summary_headers,
     [count_cell (cf_total_employees f), count_cell (cf_active_7d f), count_cell (cf_bookings f), Num (cf_storage_used f),
      Num (cf_storage_limit f), count_cell (cf_tasks_total f), count_cell (cf_guest_visits f)],
     [], employee_headers] @ map (employee_cells (Str [])) (cf_employees f)"

definition summary_cells :: "company_figures \<Rightarrow> msg list" where
  "summary_cells f = [count_cell (cf_total_employees f), count_cell (cf_active_7d f), count_cell (cf_bookings f),
     Fmt ''hundredths_of_hundredths'' [Num (hundredths_of_gb (cf_storage_used f)), Num (hundredths_of_gb (cf_storage_limit f))],
     count_cell (cf_tasks_total f), count_cell (cf_guest_visits f)]"

definition company_pdf_summary :: "company_figures \<Rightarrow> msg list list" where
  "company_pdf_summary f = [map (\<lambda>k. Fmt k []) [''analytics.csv.total_employees'', ''analytics.csv.active_7d'',
     ''analytics.csv.bookings_month'', ''Storage (GB)'', ''analytics.csv.crm_total'', ''analytics.csv.guest_visits_month''],
     summary_cells f]"

definition company_pdf_employees :: "company_figures \<Rightarrow> msg list list" where
  "company_pdf_employees f = employee_headers # map (employee_cells (Fmt ''dash'' [])) (cf_employees f)"

definition requested_format :: "export_format param \<Rightarrow> api_error + export_format" where
  "requested_format v = (case v of Given x \<Rightarrow> Inr x
     | _ \<Rightarrow> Inl (raise_validation_error ''format'' ''Invalid or missing format.''))"

definition export_superadmin ::
  "int \<Rightarrow> datetime \<Rightarrow> user \<Rightarrow> export_format param \<Rightarrow> dashboard_query \<Rightarrow> an_state \<Rightarrow> api_error + msg \<times> msg list list list" where
  "export_superadmin off now u fmt q s = (case IsSuperAdmin (Some u) of
     Some e \<Rightarrow> Inl e
   | None \<Rightarrow> bind_err (requested_format fmt) (\<lambda>x.
       bind_err (superadmin_payload off now q s) (\<lambda>d.
         Inr (Fmt ''analytics-superadmin'' [Str (period_text (db_period d))],
           (case x of As_csv \<Rightarrow> [rows_superadmin_csv d] | As_pdf \<Rightarrow> [superadmin_pdf_table d])))))"

definition export_company ::
  "int \<Rightarrow> datetime \<Rightarrow> user \<Rightarrow> export_format param \<Rightarrow> period_query \<Rightarrow> an_state \<Rightarrow> api_error + msg \<times> msg list list list" where
  "export_company off now u fmt q s = (case IsCompanyAdmin (Some u) of
     Some e \<Rightarrow> Inl e
   | None \<Rightarrow> bind_err (requested_format fmt) (\<lambda>x.
       (case company_of (ov_acc (an_ov s)) u of
          None \<Rightarrow> Inl (ValidationError ''detail'' ''No company'')
        | Some co \<Rightarrow> bind_err (resolve_period (local_date off now) q) (\<lambda>p.
            let f = company_analytics off now co (Some (snd p)) s in
            Inr (Fmt ''analytics-company'' [Str (period_text (fst p))],
              (case x of As_csv \<Rightarrow> [rows_company_csv f] | As_pdf \<Rightarrow> [company_pdf_summary f, company_pdf_employees f]))))))"

end
