(* ===== verification/AnalyticsProps.thy ===== *)
theory AnalyticsProps
  imports CompanyAnalytics OverviewProps ServiceProps StorageProps
begin

text \<open>
  The figures of the analytics agree with the rows they count and with each other: periods, sums of
  the charts, weeks of registrations, rankings and peak hours.
\<close>

section \<open>Periods\<close>

lemma resolve_period_ok:
  "resolve_period today q = Inr (p, d1, d2) \<Longrightarrow> d1 \<le> d2 \<and> (p \<noteq> Custom \<longrightarrow> d2 = today \<and> d2 - d1 + 1 = period_days p)"
  by (auto simp: resolve_period_def custom_period_def period_days_def split: param.splits period.splits date_text.splits if_splits)

text \<open>
  A custom period is refused with a message for the dates that are missing, malformed or in the wrong
  order; a date that does not exist is not: the parser raises and the request ends in a server error.
\<close>

theorem custom_period_errors:
  "resolve_period today \<lparr>pd_period = Given Custom, pd_from = f, pd_to = t\<rparr> = Inl ServerError
     \<longleftrightarrow> f \<noteq> No_date \<and> t \<noteq> No_date \<and> (f = No_such_date \<or> t = No_such_date)"
  by (cases f; cases t) (auto simp: resolve_period_def custom_period_def raise_validation_error_def)

section \<open>The charts of the building\<close>

lemma sum_by_key:
  "finite D \<Longrightarrow> f ` set xs \<subseteq> D \<Longrightarrow> (\<Sum>d \<in> D. length (filter (\<lambda>x. f x = d) xs)) = length xs"
proof (induction xs)
  case (Cons a xs)
  have "length (filter (\<lambda>x. f x = d) (a # xs)) = (if f a = d then 1 else 0) + length (filter (\<lambda>x. f x = d) xs)" for d
    by simp
  then show ?case using Cons by (simp add: sum.distrib del: filter.simps)
qed simp

lemma sum_by_day:
  "distinct ds \<Longrightarrow> f ` set xs \<subseteq> set ds \<Longrightarrow> sum_list (map (\<lambda>d. length (filter (\<lambda>x. f x = d) xs)) ds) = length xs"
  by (simp add: sum_list_distinct_conv_sum_set sum_by_key)

lemma one_type:
  "(\<And>b. b \<in> set bs \<Longrightarrow> resource_of s b \<noteq> None) \<Longrightarrow>
     count_type s Desk bs + count_type s Meeting_room bs + count_type s Parking bs + count_type s Capsule bs = length bs"
proof (induction bs)
  case (Cons b bs)
  then obtain r where "resource_of s b = Some r" by force
  then show ?case using Cons by (cases "r_type r") (simp_all add: count_type_def has_type_def)
qed (simp add: count_type_def)

definition utilization_total :: "utilization_row \<Rightarrow> nat" where
  "utilization_total r = ut_desk r + ut_room r + ut_parking r + ut_capsule r"

lemma resource_utilization_total:
  assumes "\<And>b. b \<in> set bs \<Longrightarrow> resource_of s b \<noteq> None"
  shows "sum_list (map utilization_total (resource_utilization off s bs)) = length bs"
proof -
  let ?f = "\<lambda>b. local_date off (b_start b)"
  have "utilization_total (utilization_of off s bs d) = length (filter (\<lambda>b. ?f b = d) bs)" for d
    using one_type[of "filter (\<lambda>b. ?f b = d) bs" s] assms
    by (simp add: utilization_total_def utilization_of_def Let_def)
  then show ?thesis
    using sum_by_day[of "sort (remdups (map ?f bs))" ?f bs] by (simp add: resource_utilization_def comp_def)
qed

lemma peak_hours_total: "sum_list (map snd (peak_hours off bs)) = length bs"
  by (simp add: peak_hours_def total_sort_key[where f = "\<lambda>x. x"] tally_total)

lemma new_registrations_total: "sum_list (map snd (new_registrations off ts)) = length ts"
  by (simp add: new_registrations_def total_sort_key[where f = "\<lambda>x. x"] tally_total)

definition param_value :: "'a param \<Rightarrow> 'a option" where
  "param_value v = (case v of Given x \<Rightarrow> Some x | _ \<Rightarrow> None)"

lemma optional_ok: "optional v e = Inr x \<Longrightarrow> x = param_value v"
  by (auto simp: optional_def param_value_def split: param.splits)

lemma superadmin_dashboard_ok:
  assumes "superadmin_dashboard off now u q s = Inr d"
  obtains p d1 d2 where "resolve_period (local_date off now) (period_query.truncate q) = Inr (p, d1, d2)"
    "d = dashboard_of off now (param_value (dq_company q)) (param_value (dq_type q)) (p, d1, d2) s"
    "db_from d = d1" "db_to d = d2"
  using assms
  by (auto simp: superadmin_dashboard_def superadmin_payload_def int_param_def dashboard_of_def Let_def
      dest!: optional_ok split: option.splits)

lemma days_of_instant:
  fixes c :: int
  assumes "0 < c"
  shows "d * c \<le> x \<longleftrightarrow> d \<le> x div c" and "x \<le> d * c + (c - 1) \<longleftrightarrow> x div c \<le> d"
proof -
  have *: "d * c \<le> x \<longleftrightarrow> d \<le> x div c" for d
  proof
    assume "d * c \<le> x"
    then have "d * c div c \<le> x div c" using assms by (rule zdiv_mono1)
    then show "d \<le> x div c" using assms by simp
  next
    assume "d \<le> x div c"
    then have "d * c \<le> x div c * c" using assms by simp
    moreover have "x div c * c \<le> x" using div_mult_mod_eq[of x c] pos_mod_sign[OF assms, of x] by linarith
    ultimately show "d * c \<le> x" by linarith
  qed
  show "d * c \<le> x \<longleftrightarrow> d \<le> x div c" by (rule *)
  show "x \<le> d * c + (c - 1) \<longleftrightarrow> x div c \<le> d"
    using *[of "d + 1"] by (auto simp: distrib_right)
qed

text \<open>The period of a dashboard, from the first instant of its first day to the last of its last day.\<close>

lemma within_period: "within (period_bounds off d1 d2) t \<longleftrightarrow> d1 \<le> local_date off t \<and> local_date off t \<le> d2"
proof -
  have "0 < usec_per_day" by (simp add: usec_per_day_def)
  from days_of_instant(1)[OF this, of d1 "t + off"] days_of_instant(2)[OF this, of "t + off" d2] show ?thesis
    by (auto simp: within_def period_bounds_def local_day_bounds_def make_aware_def local_date_def)
qed

definition chart_cell :: "utilization_row \<Rightarrow> resource_type \<Rightarrow> nat" where
  "chart_cell r rt = (case rt of Desk \<Rightarrow> ut_desk r | Meeting_room \<Rightarrow> ut_room r | Parking \<Rightarrow> ut_parking r | Capsule \<Rightarrow> ut_capsule r)"

lemma chart_cell_of:
  "chart_cell (utilization_of off s bs d) rt
     = length (filter (\<lambda>b. local_date off (b_start b) = d \<and> map_option r_type (resource_of s b) = Some rt) bs)"
proof -
  have "has_type s rt b \<longleftrightarrow> map_option r_type (resource_of s b) = Some rt" for rt b
    by (auto simp: has_type_def split: option.splits)
  then show ?thesis
    by (cases rt) (simp_all add: chart_cell_def utilization_of_def count_type_def Let_def conj_commute)
qed

text \<open>
  Registrations are counted by calendar week: two of them are in one row exactly when the same Monday
  starts their weeks, also around the turn of the year.
\<close>

theorem registrations_are_counted_by_week:
  "(k, n) \<in> set (new_registrations off ts) \<longleftrightarrow>
     (\<exists>t \<in> set ts. k = iso_week (local_date off t)
        \<and> n = length (filter (\<lambda>x. local_date off x - weekday (local_date off x) = local_date off t - weekday (local_date off t)) ts))"
proof -
  let ?g = "\<lambda>x. iso_week (local_date off x)"
  have "(k, n) \<in> set (new_registrations off ts) \<longleftrightarrow> k \<in> ?g ` set ts \<and> n = length (filter (\<lambda>x. ?g x = k) ts)"
    by (simp add: new_registrations_def tally_iff count_list_filter)
  also have "\<dots> \<longleftrightarrow> (\<exists>t \<in> set ts. k = ?g t \<and> n = length (filter (\<lambda>x. ?g x = ?g t) ts))" by blast
  finally show ?thesis by (simp only: iso_week_iff)
qed

text \<open>
  C33: The charts of the building dashboard are exact. The bookings that count are the confirmed and
  completed ones that start, by the local calendar, on a day of the period, of the company and the resource
  type that were asked for. The chart of the days has one row for every day with such a booking, in order,
  whose columns count the bookings of that day by the type of the resource; the chart of the hours has one
  row for every weekday and local hour bookings start in, with their number; the chart of the registrations
  one row for every week people joined in, with the number of those who joined between the same Monday and
  Sunday. Every booking and every registration is counted exactly once in each.
\<close>

theorem charts_count_every_row_once:
  assumes ok: "superadmin_dashboard off now u q s = Inr d"
    and rows: "\<And>b. b \<in> set (rows (bk_bookings (ov_bk (an_ov s)))) \<Longrightarrow> resource_of (ov_bk (an_ov s)) b \<noteq> None"
  defines "bs \<equiv> filter (\<lambda>b. b_status b \<in> {Confirmed, Completed}
        \<and> db_from d \<le> local_date off (b_start b) \<and> local_date off (b_start b) \<le> db_to d
        \<and> scoped (param_value (dq_company q)) (b_company b)
        \<and> scoped (param_value (dq_type q)) (map_option r_type (resource_of (ov_bk (an_ov s)) b)))
      (rows (bk_bookings (ov_bk (an_ov s))))"
    and "ts \<equiv> filter (\<lambda>t. db_from d \<le> local_date off t \<and> local_date off t \<le> db_to d)
      (map (\<lambda>u. an_joined s (u_id u)) (filter (\<lambda>u. scoped (param_value (dq_company q)) (u_company u))
        (rows (ac_users (ov_acc (an_ov s))))))"
  shows "sorted (map ut_date (db_resource_utilization d)) \<and> distinct (map ut_date (db_resource_utilization d))
    \<and> ut_date ` set (db_resource_utilization d) = (\<lambda>b. local_date off (b_start b)) ` set bs
    \<and> (\<forall>r \<in> set (db_resource_utilization d). \<forall>rt. chart_cell r rt
        = length (filter (\<lambda>b. local_date off (b_start b) = ut_date r
            \<and> map_option r_type (resource_of (ov_bk (an_ov s)) b) = Some rt) bs))
    \<and> sum_list (map utilization_total (db_resource_utilization d)) = length bs
    \<and> sorted (db_peak_hours d) \<and> distinct (map fst (db_peak_hours d))
    \<and> (\<forall>w h n. ((w, h), n) \<in> set (db_peak_hours d) \<longleftrightarrow>
        0 < n \<and> n = length (filter (\<lambda>b. weekday (local_date off (b_start b)) = w
          \<and> local_time off (b_start b) div hours 1 = h) bs))
    \<and> sum_list (map snd (db_peak_hours d)) = length bs
    \<and> (\<forall>k n. (k, n) \<in> set (db_new_registrations d) \<longleftrightarrow> (\<exists>t \<in> set ts. k = iso_week (local_date off t)
        \<and> n = length (filter (\<lambda>x. local_date off x - weekday (local_date off x) = local_date off t - weekday (local_date off t)) ts)))
    \<and> sum_list (map snd (db_new_registrations d)) = length ts"
proof -
  let ?bk = "ov_bk (an_ov s)"
  from ok obtain p d1 d2 where
    d: "d = dashboard_of off now (param_value (dq_company q)) (param_value (dq_type q)) (p, d1, d2) s"
    and dates: "db_from d = d1" "db_to d = d2"
    by (rule superadmin_dashboard_ok)
  have bs: "counted_bookings ?bk (param_value (dq_company q)) (param_value (dq_type q)) (period_bounds off d1 d2) = bs"
    unfolding bs_def dates counted_bookings_def tbl_filter_def within_period by (rule filter_cong) auto
  have ts: "registrations (param_value (dq_company q)) (period_bounds off d1 d2) s = ts"
    unfolding ts_def dates registrations_def tbl_filter_def within_period filter_map
    by (simp add: comp_def conj_commute)
  have parts: "db_resource_utilization d = resource_utilization off ?bk bs" "db_peak_hours d = peak_hours off bs"
    "db_new_registrations d = new_registrations off ts"
    by (simp_all add: d dashboard_of_def Let_def bs ts)
  have known: "resource_of ?bk b \<noteq> None" if "b \<in> set bs" for b using rows that by (simp add: bs_def)
  have days: "map ut_date (resource_utilization off ?bk bs) = sort (remdups (map (\<lambda>b. local_date off (b_start b)) bs))"
    by (simp add: resource_utilization_def utilization_of_def Let_def comp_def)
  have cells: "chart_cell r rt = length (filter (\<lambda>b. local_date off (b_start b) = ut_date r
      \<and> map_option r_type (resource_of ?bk b) = Some rt) bs)" if r: "r \<in> set (resource_utilization off ?bk bs)" for r rt
  proof -
    obtain x where "r = utilization_of off ?bk bs x" using r by (auto simp: resource_utilization_def)
    then show ?thesis by (simp add: chart_cell_of) (simp add: utilization_of_def Let_def)
  qed
  have "ut_date ` set (resource_utilization off ?bk bs) = (\<lambda>b. local_date off (b_start b)) ` set bs"
    using arg_cong[OF days, of set] by simp
  moreover have "((w, h), n) \<in> set (peak_hours off bs) \<longleftrightarrow> 0 < n \<and> n = length (filter (\<lambda>b. weekday (local_date off (b_start b)) = w
      \<and> local_time off (b_start b) div hours 1 = h) bs)" for w h n
    by (auto simp: peak_hours_def tally_iff count_list_filter hour_of_def filter_empty_conv)
  moreover have "sorted (peak_hours off bs)" "distinct (map fst (peak_hours off bs))"
    using distinct_sort_key[OF tally_distinct, of "\<lambda>x. x"] by (simp_all add: peak_hours_def)
  ultimately show ?thesis
    unfolding parts days
    using resource_utilization_total[OF known] cells registrations_are_counted_by_week[of _ _ off ts]
    by (simp add: peak_hours_total new_registrations_total)
qed

section \<open>Rankings\<close>

lemma sorted_take_drop:
  "sorted (map f xs) \<Longrightarrow> x \<in> set (take n xs) \<Longrightarrow> y \<in> set (drop n xs) \<Longrightarrow> f x \<le> f y"
  using sorted_append[of "map f (take n xs)" "map f (drop n xs)"] by (simp flip: map_append)

lemma top_five_ranks:
  assumes x: "(k, n) \<in> set (top_five ks)" and y: "j \<in> set ks" "j \<notin> fst ` set (top_five ks)"
  shows "n = count_list ks k \<and> (count_list ks j < n \<or> count_list ks j = n \<and> k < j)"
proof -
  let ?L = "sort_key (\<lambda>(k, n). (- int n, k)) (tally ks)"
  have set_L: "set ?L = set (tally ks)" by simp
  have k: "n = count_list ks k"
    using x in_set_takeD[of "(k, n)" 5 ?L] by (simp add: top_five_def tally_iff)
  have "(j, count_list ks j) \<in> set ?L" using y(1) by (simp add: tally_iff)
  moreover have "(j, count_list ks j) \<notin> set (take 5 ?L)" using y(2) by (force simp: top_five_def)
  ultimately have "(j, count_list ks j) \<in> set (drop 5 ?L)"
    using set_append[of "take 5 ?L" "drop 5 ?L"] by simp
  then have "(- int n, k) \<le> (- int (count_list ks j), j)"
    using sorted_take_drop[of "\<lambda>(k, n). (- int n, k)" ?L "(k, n)" 5 "(j, count_list ks j)"] x by (simp add: top_five_def)
  moreover have "k \<noteq> j" using x y(2) by force
  ultimately show ?thesis using k by auto
qed

text \<open>
  The ranking of the resources holds the five most booked ones: each with its number of bookings, no
  fewer than any resource that is left out, the smaller id first among equals.
\<close>

theorem top_resources_are_the_most_booked:
  "length (top_resources bs) = min 5 (card (b_resource ` set bs)) \<and> distinct (map fst (top_resources bs))
   \<and> (\<forall>(k, n) \<in> set (top_resources bs). n = length (filter (\<lambda>b. b_resource b = k) bs)
        \<and> (\<forall>b \<in> set bs. b_resource b \<notin> fst ` set (top_resources bs) \<longrightarrow>
             length (filter (\<lambda>x. b_resource x = b_resource b) bs) < n
             \<or> length (filter (\<lambda>x. b_resource x = b_resource b) bs) = n \<and> k < b_resource b))"
proof -
  let ?ks = "map b_resource bs"
  have "card (set (map fst (tally ?ks))) = length (tally ?ks)"
    using distinct_card[OF tally_distinct, of ?ks] by simp
  then have "length (tally ?ks) = card (b_resource ` set bs)" unfolding tally_keys by simp
  then have len: "length (top_resources bs) = min 5 (card (b_resource ` set bs))"
    by (simp add: top_resources_def top_five_def)
  have "distinct (map fst (top_resources bs))"
    using distinct_take[OF distinct_sort_key[OF tally_distinct[of ?ks]], of 5 "\<lambda>(k, n). (- int n, k)"]
    by (simp add: top_resources_def top_five_def take_map)
  moreover have "n = length (filter (\<lambda>b. b_resource b = k) bs)" if "(k, n) \<in> set (top_resources bs)" for k n
    using in_set_takeD[of "(k, n)" 5] that by (fastforce simp: top_resources_def top_five_def tally_iff count_list_filter)
  ultimately show ?thesis
    using len top_five_ranks[of _ _ ?ks] by (fastforce simp: top_resources_def count_list_filter)
qed

text \<open>
  The resources of low utilisation are sought among those that were booked: one that nobody booked in
  the period is never listed.
\<close>

theorem idle_resources_are_not_reported:
  assumes ok: "superadmin_dashboard off now u q s = Inr d"
  shows "(k, n, p) \<in> set (db_low_utilization d) \<longleftrightarrow>
     n = length (filter (\<lambda>b. b_resource b = k) (counted_bookings (ov_bk (an_ov s)) (param_value (dq_company q))
           (param_value (dq_type q)) (period_bounds off (db_from d) (db_to d))))
     \<and> 0 < n \<and> p = utilization_percent (db_to d - db_from d + 1) n \<and> p < 2000"
  using ok
proof (rule superadmin_dashboard_ok)
  fix r d1 d2
  assume d: "d = dashboard_of off now (param_value (dq_company q)) (param_value (dq_type q)) (r, d1, d2) s"
    and dates: "db_from d = d1" "db_to d = d2"
    and period: "resolve_period (local_date off now) (period_query.truncate q) = Inr (r, d1, d2)"
  let ?bs = "counted_bookings (ov_bk (an_ov s)) (param_value (dq_company q)) (param_value (dq_type q)) (period_bounds off d1 d2)"
  have "max (d2 - d1 + 1) 1 = d2 - d1 + 1" using resolve_period_ok[OF period] by simp
  then have low: "db_low_utilization d = low_utilization (d2 - d1 + 1) ?bs"
    by (simp add: d dashboard_of_def Let_def)
  have pos: "k \<in> b_resource ` set bs \<longleftrightarrow> 0 < length (filter (\<lambda>b. b_resource b = k) bs)" for bs
    by (auto simp: filter_empty_conv)
  show ?thesis
    unfolding low dates low_utilization_def by (auto simp: tally_iff count_list_filter pos[of ?bs])
qed

section \<open>The use of the resources\<close>

lemma busiest_is_max:
  assumes "busiest hs = Some (h, n)"
  shows "(h, n) \<in> set hs \<and> (\<forall>(h', n') \<in> set hs. n' < n \<or> n' = n \<and> h \<le> h')"
proof -
  let ?L = "sort_key (\<lambda>(h, n). (- int n, h)) hs"
  have L: "?L \<noteq> []" "hd ?L = (h, n)"
    using assms by (auto simp: busiest_def split: if_splits) (metis length_0_conv length_sort)
  then obtain ys where ys: "?L = (h, n) # ys" by (cases ?L) auto
  have set_L: "set hs = set ((h, n) # ys)" using ys set_sort[of "\<lambda>(h, n). (- int n, h)" hs] by simp
  have "sorted (map (\<lambda>(h, n). (- int n, h)) ((h, n) # ys))"
    using sorted_sort_key[of "\<lambda>(h, n). (- int n, h)" hs] ys by simp
  then show ?thesis by (auto simp: set_L)
qed

definition starting_at :: "int \<Rightarrow> int \<Rightarrow> booking list \<Rightarrow> nat" where
  "starting_at off h bs = length (filter (\<lambda>b. hour_of off (b_start b) = h) bs)"

lemma hour_range: "0 \<le> hour_of off t \<and> hour_of off t < 24"
  using local_time_bounds[of off t] by (auto simp: hour_of_def hours_def usec_per_day_def)

lemma usage_row_peak:
  assumes row: "r = usage_row_of off bs (k, n)" and some: "k \<in> b_resource ` set bs"
  defines "xs \<equiv> filter (\<lambda>b. b_resource b = k) bs"
  shows "\<exists>h. uw_peak_hour r = Some h \<and> 0 \<le> h \<and> h < 24 \<and> uw_peak_count r = starting_at off h xs
     \<and> (\<forall>h'. starting_at off h' xs < starting_at off h xs \<or> starting_at off h' xs = starting_at off h xs \<and> h \<le> h')"
proof -
  let ?hs = "tally (map (\<lambda>b. hour_of off (b_start b)) xs)"
  have "xs \<noteq> []" using some by (auto simp: xs_def filter_empty_conv)
  then have "?hs \<noteq> []" using tally_keys[of "map (\<lambda>b. hour_of off (b_start b)) xs"] by auto
  then obtain h m where best: "busiest ?hs = Some (h, m)" by (cases "busiest ?hs") (auto simp: busiest_def)
  note max = busiest_is_max[OF best]
  have m: "m = starting_at off h xs" "0 \<le> h" "h < 24" "0 < m"
    using max hour_range by (auto simp: tally_iff count_list_filter starting_at_def filter_empty_conv)
  have "starting_at off h' xs < m \<or> starting_at off h' xs = m \<and> h \<le> h'" for h'
  proof (cases "starting_at off h' xs = 0")
    case False
    then have "(h', starting_at off h' xs) \<in> set ?hs"
      by (auto simp: tally_iff count_list_filter starting_at_def filter_empty_conv)
    then show ?thesis using max by auto
  qed (use m in simp)
  then show ?thesis
    using m best by (simp add: row usage_row_of_def Let_def xs_def)
qed

text \<open>
  C35: The rows of the use of the resources: one for every booked resource, together they count every
  booking, and the peak hour of a row is the hour most of its bookings start in, the earliest of
  them when several are.
\<close>

theorem resource_rows_are_exact:
  assumes ok: "resource_usage off now u q s = Inr ((p, d1, d2), rs)"
  defines "bs \<equiv> usage_bookings (ov_bk (an_ov s)) (param_value (uq_resource q)) (param_value (uq_floor q))
      (param_value (uq_company q)) (period_bounds off d1 d2)"
  shows "d1 \<le> d2 \<and> distinct (map uw_resource rs) \<and> uw_resource ` set rs = b_resource ` set bs
     \<and> sum_list (map uw_total rs) = length bs
     \<and> (\<forall>r \<in> set rs. uw_total r = length (filter (\<lambda>b. b_resource b = uw_resource r) bs)
         \<and> (\<exists>h. uw_peak_hour r = Some h \<and> 0 \<le> h \<and> h < 24
              \<and> uw_peak_count r = starting_at off h (filter (\<lambda>b. b_resource b = uw_resource r) bs)
              \<and> (\<forall>h'. starting_at off h' (filter (\<lambda>b. b_resource b = uw_resource r) bs) < uw_peak_count r
                   \<or> starting_at off h' (filter (\<lambda>b. b_resource b = uw_resource r) bs) = uw_peak_count r \<and> h \<le> h')))"
proof -
  have rs: "rs = resource_rows off bs" and period: "resolve_period (local_date off now) (period_query.truncate q) = Inr (p, d1, d2)"
    using ok by (auto simp: resource_usage_def int_param_def bs_def dest!: optional_ok split: option.splits)
  let ?T = "sort_key (\<lambda>(k, n). (- int n, k)) (tally (map b_resource bs))"
  have id: "uw_resource (usage_row_of off bs kn) = fst kn" "uw_total (usage_row_of off bs kn) = snd kn" for kn
    by (simp_all add: usage_row_of_def Let_def)
  have "map uw_resource rs = map fst ?T" "map uw_total rs = map snd ?T"
    by (simp_all add: rs resource_rows_def comp_def id)
  moreover have "set (map fst ?T) = b_resource ` set bs"
    using tally_keys[of "map b_resource bs"] by simp
  ultimately have sums: "distinct (map uw_resource rs)" "set (map uw_resource rs) = b_resource ` set bs"
    "sum_list (map uw_total rs) = length bs"
    using distinct_sort_key[OF tally_distinct[of "map b_resource bs"], of "\<lambda>(k, n). (- int n, k)"]
    by (simp_all add: total_sort_key tally_total)
  have "uw_total r = length (filter (\<lambda>b. b_resource b = uw_resource r) bs) \<and>
      (\<exists>k n. r = usage_row_of off bs (k, n) \<and> uw_resource r = k \<and> k \<in> b_resource ` set bs)" if "r \<in> set rs" for r
  proof -
    from that obtain k n where "r = usage_row_of off bs (k, n)" "(k, n) \<in> set (tally (map b_resource bs))"
      by (auto simp: rs resource_rows_def)
    then show ?thesis by (auto simp: tally_iff count_list_filter id)
  qed
  then show ?thesis
    using sums resolve_period_ok[OF period] usage_row_peak[of _ off bs] by fastforce
qed

section \<open>The dashboard of a company\<close>

lemma tasks_by_column_total: "sum_list (map cc_count (tasks_by_column s ts)) = length ts"
proof -
  have "map cc_count (map (column_count_of s) d) = map snd d" for d
    by (auto simp: column_count_of_def split: prod.split)
  then show ?thesis by (simp only: tasks_by_column_def total_sort_key tally_total length_map)
qed

lemma company_dashboard_ok:
  assumes "company_dashboard off now u q s = Inr f"
  obtains co p d1 d2 where "company_of (ov_acc (an_ov s)) u = Some co" "u_role u \<in> {Superadmin, Company_admin}"
    "resolve_period (local_date off now) q = Inr (p, d1, d2)" "f = company_analytics off now co (Some (d1, d2)) s"
  using assms by (auto simp: company_dashboard_def IsCompanyAdmin_def authenticated_def require_def split: option.splits if_splits)

text \<open>
  The tasks of the columns add up to the tasks of the company, and what the dashboard shows of people
  is of the own company only.
\<close>

theorem company_dashboard_adds_up:
  assumes ok: "company_dashboard off now u q s = Inr f"
  shows "sum_list (map cc_count (cf_by_column f)) = cf_tasks_total f
     \<and> length (cf_employees f) = cf_total_employees f
     \<and> (\<forall>e \<in> set (cf_employees f). u_company (ey_user e) = u_company u \<and> u_is_active (ey_user e))
     \<and> (\<forall>l \<in> set (cf_pending_leaves f). Some (lv_company l) = u_company u)
     \<and> (\<forall>g \<in> set (cf_active_passes f). gp_company g = u_company u)"
  using ok
proof (rule company_dashboard_ok)
  fix co p d1 d2
  assume co: "company_of (ov_acc (an_ov s)) u = Some co" and f: "f = company_analytics off now co (Some (d1, d2)) s"
  have "u_company u = Some (co_id co)"
    using co by (auto simp: company_of_def bind_eq_Some_conv dest: tbl_get_SomeD)
  then show ?thesis
    by (auto simp: f company_analytics_def Let_def tasks_by_column_total employee_row_of_def company_employees_def)
qed

section \<open>Witnesses\<close>

text \<open>A desk that an employee booked twice in the morning of the day 20 and once at noon.\<close>

definition demo_an :: an_state where
  "demo_an = (let b = demo_state (default_resource 1) [
       demo_booking 1 2 Completed (days 20 + hours 9) (days 20 + hours 10) 0,
       demo_booking 2 2 Confirmed (days 20 + hours 12) (days 20 + hours 13) 0,
       demo_booking 3 2 Confirmed (days 21 + hours 9) (days 21 + hours 10) 0] in
     \<lparr>an_ov = demo_ov b [demo_leave 1 4 Lr_pending 20 20] [demo_task 5 1 1],
      an_sv = demo_sv b [] [] [], an_st = demo_storage [] [] [], an_joined = (\<lambda>_. days 20), an_requested = (\<lambda>_. 0)\<rparr>)"

definition all_figures :: dashboard_query where
  "all_figures = \<lparr>pd_period = Given P7d, pd_from = No_date, pd_to = No_date, dq_company = Missing, dq_type = Missing\<rparr>"

definition all_resources :: usage_query where
  "all_resources = \<lparr>pd_period = Missing, pd_from = No_date, pd_to = No_date, uq_resource = Missing, uq_floor = Missing,
     uq_company = Missing\<rparr>"

theorem charts_count_every_row_once_witness:
  "\<exists>d. superadmin_dashboard 0 (days 22) (demo_user 9 Superadmin None) all_figures demo_an = Inr d
     \<and> sorted (map ut_date (db_resource_utilization d)) \<and> (\<forall>w h n. ((w, h), n) \<in> set (db_peak_hours d) \<longrightarrow> 0 < n)
     \<and> ((2, 9), 1) \<in> set (db_peak_hours d) \<and> map ut_date (db_resource_utilization d) = [20, 21]"
proof -
  have "is_ok (superadmin_dashboard 0 (days 22) (demo_user 9 Superadmin None) all_figures demo_an)" by code_simp
  then obtain d where d: "superadmin_dashboard 0 (days 22) (demo_user 9 Superadmin None) all_figures demo_an = Inr d"
    by (auto simp: is_ok_iff)
  have "list_all (\<lambda>b. resource_of (ov_bk (an_ov demo_an)) b \<noteq> None) (rows (bk_bookings (ov_bk (an_ov demo_an))))" by code_simp
  then have "\<And>b. b \<in> set (rows (bk_bookings (ov_bk (an_ov demo_an)))) \<Longrightarrow> resource_of (ov_bk (an_ov demo_an)) b \<noteq> None"
    by (simp add: list_all_iff)
  note exact = charts_count_every_row_once[OF d this]
  have "case superadmin_dashboard 0 (days 22) (demo_user 9 Superadmin None) all_figures demo_an of Inl _ \<Rightarrow> False
      | Inr d \<Rightarrow> list_ex (\<lambda>x. x = ((2, 9), 1)) (db_peak_hours d) \<and> map ut_date (db_resource_utilization d) = [20, 21]"
    by code_simp
  then have "((2, 9), 1) \<in> set (db_peak_hours d)" "map ut_date (db_resource_utilization d) = [20, 21]"
    using d by (auto simp: list_ex_iff)
  moreover have "sorted (map ut_date (db_resource_utilization d))" by (rule exact[THEN conjunct1])
  moreover have "\<forall>w h n. ((w, h), n) \<in> set (db_peak_hours d) \<longrightarrow> 0 < n" using exact by meson
  ultimately show ?thesis using d by (intro exI[of _ d] conjI)
qed

theorem top_resources_are_the_most_booked_witness:
  "let bs = rows (bk_bookings (ov_bk (an_ov demo_an))) in (1, 3) \<in> set (top_resources bs)
     \<and> length (filter (\<lambda>b. b_resource b = 1) bs) = 3"
proof -
  let ?bs = "rows (bk_bookings (ov_bk (an_ov demo_an)))"
  have "list_ex (\<lambda>x. x = (1, 3)) (top_resources ?bs)" by code_simp
  then have first: "(1, 3) \<in> set (top_resources ?bs)" unfolding list_ex_iff by blast
  have "\<forall>(k, n) \<in> set (top_resources ?bs). n = length (filter (\<lambda>b. b_resource b = k) ?bs)"
    using top_resources_are_the_most_booked[of ?bs] by blast
  from bspec[OF this first] first show ?thesis by (simp add: Let_def)
qed

theorem idle_resources_are_not_reported_witness:
  "\<exists>d. superadmin_dashboard 0 (days 22) (demo_user 9 Superadmin None) all_figures demo_an = Inr d
     \<and> (\<forall>n p. (2, n, p) \<notin> set (db_low_utilization d))"
proof -
  have "is_ok (superadmin_dashboard 0 (days 22) (demo_user 9 Superadmin None) all_figures demo_an)" by code_simp
  then obtain d where d: "superadmin_dashboard 0 (days 22) (demo_user 9 Superadmin None) all_figures demo_an = Inr d"
    by (auto simp: is_ok_iff)
  have "list_all (\<lambda>b. b_resource b \<noteq> 2) (rows (bk_bookings (ov_bk (an_ov demo_an))))" by code_simp
  then show ?thesis using idle_resources_are_not_reported[OF d] d
    by (auto simp: list_all_iff counted_bookings_def filter_empty_conv)
qed

theorem resource_rows_are_exact_witness:
  "\<exists>d1 d2 r. resource_usage 0 (days 22) (demo_user 9 Superadmin None) all_resources demo_an = Inr ((P30d, d1, d2), [r])
     \<and> uw_peak_hour r = Some 9 \<and> uw_total r = 3 \<and> uw_resource r = 1 \<and> d1 \<le> d2"
proof -
  let ?r = "resource_usage 0 (days 22) (demo_user 9 Superadmin None) all_resources demo_an"
  have "case ?r of Inl _ \<Rightarrow> False | Inr ((p, d), rs) \<Rightarrow> p = P30d \<and> length rs = 1
      \<and> map uw_resource rs = [1] \<and> map uw_peak_hour rs = [Some 9] \<and> map uw_total rs = [3]"
    by code_simp
  then obtain d1 d2 r where r: "?r = Inr ((P30d, d1, d2), [r])" "uw_peak_hour r = Some 9" "uw_total r = 3" "uw_resource r = 1"
    by (auto split: sum.splits simp: length_Suc_conv)
  then show ?thesis using resource_rows_are_exact[OF r(1)] by blast
qed

theorem company_dashboard_adds_up_witness:
  "\<exists>f. company_dashboard 0 (days 22) (demo_user 4 Company_admin (Some 1)) (period_query.truncate all_figures) demo_an = Inr f
     \<and> (\<forall>e \<in> set (cf_employees f). u_company (ey_user e) = Some 1)"
proof -
  have "is_ok (company_dashboard 0 (days 22) (demo_user 4 Company_admin (Some 1)) (period_query.truncate all_figures) demo_an)"
    by code_simp
  then obtain f where f: "company_dashboard 0 (days 22) (demo_user 4 Company_admin (Some 1)) (period_query.truncate all_figures)
      demo_an = Inr f"
    by (auto simp: is_ok_iff)
  then show ?thesis using company_dashboard_adds_up[OF f] by auto
qed

end
