(* ===== verification/DashboardProps.thy ===== *)
theory DashboardProps
  imports Dashboards OverviewProps AnalyticsProps
begin

text \<open>
  What the dashboards show and what they do not: deadlines and the zone they are compared in, the
  resources counted as free, the load of the building, and the absences of colleagues.
\<close>

section \<open>Deadlines\<close>

lemma utc_date_before:
  assumes "0 \<le> off" "off < usec_per_day"
  shows "local_date 0 d < local_date off d \<longleftrightarrow> local_time off d < off"
proof -
  define q r where "q = (d + off) div usec_per_day" "r = (d + off) mod usec_per_day"
  have pos: "0 < usec_per_day" by (simp add: usec_per_day_def)
  have d: "d + off = q * usec_per_day + r" "0 \<le> r" "r < usec_per_day"
    unfolding q_r_def using pos by (simp_all add: div_mult_mod_eq)
  have "d div usec_per_day = (if r < off then q - 1 else q)"
    by (rule int_div_pos_eq[where r = "if r < off then r - off + usec_per_day else r - off"])
       (use d assms in \<open>auto simp: algebra_simps\<close>)
  then show ?thesis by (simp add: local_date_def local_time_def flip: q_r_def)
qed

lemma my_tasksD:
  "m \<in> set (my_task_list off now u s) \<Longrightarrow> m = my_task_of off now s (my_row m)
     \<and> tk_assignee (my_row m) = Some (u_id u) \<and> \<not> tk_is_archived (my_row m)
     \<and> (\<forall>d. tk_deadline (my_row m) = Some d \<longrightarrow> local_date off d = local_date off now)"
  by (auto simp: my_task_list_def my_tasks_for_user_def my_task_of_def dest!: in_set_takeD)

text \<open>
  A task of the dashboard is due today or has no deadline: one whose day has passed is not listed. East
  of Greenwich, the mark of being overdue has nothing to do with the time: it is on the tasks due in the
  hours of the day before the offset, and the date shown for them is the one of the day before.
\<close>

theorem overdue_marks_the_small_hours:
  assumes m: "m \<in> set (my_task_list off now u s)" and off: "0 \<le> off" "off < usec_per_day"
  shows "(my_is_overdue m \<longleftrightarrow> (\<exists>d. tk_deadline (my_row m) = Some d \<and> local_time off d < off))
    \<and> (\<forall>d. tk_deadline (my_row m) = Some d \<longrightarrow> local_date off d = local_date off now
         \<and> (my_is_overdue m \<longleftrightarrow> my_due_date m \<noteq> Some (local_date off now)))"
proof -
  obtain t where t: "my_row m = t" "m = my_task_of off now s t" using my_tasksD[OF m] by blast
  show ?thesis
  proof (cases "tk_deadline t")
    case (Some d)
    have today: "local_date off d = local_date off now" using my_tasksD[OF m] t(1) Some by blast
    have "local_date 0 d \<le> local_date off d"
      using off(1) by (simp add: local_date_def usec_per_day_def zdiv_mono1)
    then show ?thesis
      using utc_date_before[OF off, of d] today Some t by (auto simp: my_task_of_def)
  qed (use t in \<open>simp add: my_task_of_def\<close>)
qed

text \<open>At UTC+5, at one o'clock of the day 21: a task due at four is marked as overdue.\<close>

theorem overdue_marks_the_small_hours_witness:
  "\<exists>m \<in> set (my_task_list (hours 5) (days 20 + hours 20) (demo_user 2 Employee (Some 1))
       (demo_crm [(demo_task 5 1 1)\<lparr>tk_assignee := Some 2, tk_deadline := Some (days 20 + hours 23)\<rparr>])).
     my_is_overdue m \<and> tk_deadline (my_row m) = Some (days 20 + hours 23) \<and> days 20 + hours 20 < days 20 + hours 23"
proof -
  let ?u = "demo_user 2 Employee (Some 1)"
  let ?s = "demo_crm [(demo_task 5 1 1)\<lparr>tk_assignee := Some 2, tk_deadline := Some (days 20 + hours 23)\<rparr>]"
  have "list_ex (\<lambda>m. tk_deadline (my_row m) = Some (days 20 + hours 23)) (my_task_list (hours 5) (days 20 + hours 20) ?u ?s)"
    by code_simp
  then obtain m where m: "m \<in> set (my_task_list (hours 5) (days 20 + hours 20) ?u ?s)"
      "tk_deadline (my_row m) = Some (days 20 + hours 23)"
    by (auto simp: list_ex_iff)
  have "0 \<le> hours 5" "hours 5 < usec_per_day" "local_time (hours 5) (days 20 + hours 23) < hours 5"
      "days 20 + hours 20 < days 20 + hours 23" by code_simp+
  then show ?thesis using overdue_marks_the_small_hours[OF m(1)] m by blast
qed

section \<open>Resources\<close>

text \<open>
  The admin of a company is told that a resource is free while another company sits in it: only the
  bookings of the own company are looked at.
\<close>

theorem busy_resource_is_counted_free:
  assumes booked: "b \<in> set (rows (bk_bookings s))" "b_status b = Confirmed" "b_start b < now" "now < b_end b"
    and other: "b_company b \<noteq> c"
    and resource: "r \<in> set (rows (bk_resources s))" "r_id r = b_resource b" "r_is_active r"
    and no_overlap: "\<And>x. x \<in> set (rows (bk_bookings s)) \<Longrightarrow> b_resource x = b_resource b \<Longrightarrow> b_status x = Confirmed
      \<Longrightarrow> b_start x < b_end b \<Longrightarrow> b_start b < b_end x \<Longrightarrow> x = b"
  shows "r \<in> set (free_resources_now now c s)"
proof -
  have "\<not> (b_company x = c \<and> b_status x = Confirmed \<and> b_start x \<le> now \<and> now \<le> b_end x)"
    if "x \<in> set (rows (bk_bookings s))" "b_resource x = b_resource b" for x
  proof
    assume x: "b_company x = c \<and> b_status x = Confirmed \<and> b_start x \<le> now \<and> now \<le> b_end x"
    then have "x = b" using no_overlap[OF that] booked(3,4) by simp
    then show False using x other by simp
  qed
  then show ?thesis
    using resource by (auto simp: free_resources_now_def Let_def is_confirmed_def)
qed

theorem busy_resource_is_counted_free_witness:
  "default_resource 1 \<in> set (free_resources_now (hours 4) (Some 2)
     (demo_state (default_resource 1) [demo_booking 1 2 Confirmed (hours 3) (hours 5) 0]))"
  by (rule busy_resource_is_counted_free[where b = "demo_booking 1 2 Confirmed (hours 3) (hours 5) 0"])
     (simp_all add: demo_state_def demo_booking_def default_resource_def hours_def)

section \<open>Absences\<close>

text \<open>
  The leave endpoints hide the requests of colleagues from an employee; the calendar of absences shows
  the approved ones of the whole company, with their type and the comment for the reviewer.
\<close>

theorem absences_disclose_comments:
  assumes u: "u_role u = Employee" "u_company u = Some (lv_company l)"
    and l: "l \<in> set (rows (hr_leaves s))" "lv_status l = Lr_approved" "lv_user l \<noteq> u_id u"
    and wf: "tbl_wf lv_id (hr_leaves s)"
  shows "get_leave s u None (lv_id l) = Inl NotFound
    \<and> (\<exists>es. calendar_events u No_date No_date s = Inr es
        \<and> (\<exists>e \<in> set es. ab_leave e = lv_id l \<and> ab_user e = lv_user l \<and> ab_type e = lv_type l \<and> ab_comment e = lv_comment l))"
proof -
  have sub: "set (company_isolation (\<lambda>l. Some (lv_company l)) u (rows (hr_leaves s))) \<subseteq> set (rows (hr_leaves s))"
    by (rule isolation.scope_sub)
  have foreign: "lv_user x \<noteq> u_id u" if "x \<in> set (rows (hr_leaves s))" "lv_id x = lv_id l" for x
  proof -
    have "Some x = Some l"
      using tbl_get_row[OF wf that(1)] tbl_get_row[OF wf l(1)] unfolding that(2) by (rule trans[OF sym])
    then show ?thesis using l(3) by simp
  qed
  have hidden: "find (\<lambda>x. lv_id x = lv_id l) (filter (\<lambda>x. lv_user x = u_id u)
      (company_isolation (\<lambda>l. Some (lv_company l)) u (rows (hr_leaves s)))) = None"
    unfolding find_None_iff using sub foreign by auto
  have "get_leave s u None (lv_id l) = Inl NotFound"
    using hidden u by (simp add: get_leave_def leave_queryset_def Let_def)
  moreover have "\<exists>es. calendar_events u No_date No_date s = Inr es \<and> absence_of l \<in> set es"
    using u l(1,2) by (auto simp: calendar_events_def optional_date_def IsCompanyMember_def authenticated_def)
  moreover have "ab_leave (absence_of l) = lv_id l \<and> ab_user (absence_of l) = lv_user l \<and> ab_type (absence_of l) = lv_type l
      \<and> ab_comment (absence_of l) = lv_comment l"
    by (simp add: absence_of_def)
  ultimately show ?thesis by blast
qed

theorem absences_disclose_comments_witness:
  "\<exists>es. calendar_events (demo_user 7 Employee (Some 1)) No_date No_date
       (demo_hr [(demo_leave 1 4 Lr_approved 20 20)\<lparr>lv_comment := ''surgery''\<rparr>]) = Inr es
     \<and> (\<exists>e \<in> set es. ab_user e = 4 \<and> ab_comment e = ''surgery'')"
proof -
  let ?l = "(demo_leave 1 4 Lr_approved 20 20)\<lparr>lv_comment := ''surgery''\<rparr>"
  have "u_role (demo_user 7 Employee (Some 1)) = Employee" "u_company (demo_user 7 Employee (Some 1)) = Some (lv_company ?l)"
    "?l \<in> set (rows (hr_leaves (demo_hr [?l])))" "lv_status ?l = Lr_approved" "lv_user ?l \<noteq> u_id (demo_user 7 Employee (Some 1))"
    "tbl_wf lv_id (hr_leaves (demo_hr [?l]))"
    by (simp_all add: demo_hr_def demo_leave_def tbl_wf_def)
  then show ?thesis using absences_disclose_comments[of "demo_user 7 Employee (Some 1)" ?l "demo_hr [?l]"]
    by (auto simp: demo_leave_def)
qed

text \<open>
  The load of the building counts the bookings of every resource, and only the resources that are
  active: it passes one hundred when resources are switched off while they are booked.
\<close>

theorem space_load_passes_hundred:
  assumes "set (map b_resource (tbl_filter (\<lambda>b. is_confirmed b \<and> b_start b \<le> now \<and> now \<le> b_end b) (bk_bookings s))) = K"
    and "length (tbl_filter r_is_active (bk_resources s)) = n" "0 < n"
  shows "space_load_pct now s = round_half_even (100 * int (card K)) (int n)
    \<and> (card K \<ge> 2 * n \<longrightarrow> space_load_pct now s \<ge> 200)"
proof -
  have occ: "occupied_resources now s = card K"
    using assms(1) by (simp only: occupied_resources_def length_remdups_card_conv)
  have "200 \<le> round_half_even (100 * int (card K)) (int n)" if "card K \<ge> 2 * n"
  proof -
    have "200 * int n \<le> 100 * int (card K)" using that by simp
    then have "200 * int n div int n \<le> 100 * int (card K) div int n" by (rule zdiv_mono1) (use assms(3) in simp)
    then have "200 \<le> 100 * int (card K) div int n" using assms(3) by simp
    then show ?thesis by (simp add: round_half_even_def Let_def)
  qed
  then show ?thesis using assms(2,3) occ by (simp add: space_load_pct_def Let_def)
qed

end
