(* ===== verification/Errors.thy ===== *)
theory Errors
  imports Core
begin

text \<open>
  The rendering of errors (\<open>core/exceptions.py\<close>) and the translation of messages (\<open>core/i18n.py\<close>):
  what a client is answered when a view or a serializer raises. The error values of the other theories
  name the refusal only; views that return a response directly do not come here.
\<close>

section \<open>Messages\<close>

text \<open>A locale file: the templates of the keys.\<close>

type_synonym locale_file = "(string \<times> string) list"

definition get_lang :: "string option \<Rightarrow> string \<Rightarrow> string" where
  "get_lang query accept =
     (if query = Some ''ru'' then ''ru'' else if query = Some ''en'' then ''en''
      else if take 2 accept = ''en'' then ''en'' else ''ru'')"

text \<open>
  \<open>str.format\<close> with named fields, the only construct the locale files use: a field that is not given
  raises \<open>KeyError\<close>.
\<close>

function format_text :: "(string \<times> string) list \<Rightarrow> string \<Rightarrow> string option" where
  "format_text ps [] = Some []"
| "format_text ps (c # cs) =
     (if c = CHR ''{'' then
        (case map_of ps (takeWhile (\<lambda>x. x \<noteq> CHR ''}'') cs) of
           None \<Rightarrow> None
         | Some v \<Rightarrow> map_option ((@) v) (format_text ps (drop 1 (dropWhile (\<lambda>x. x \<noteq> CHR ''}'') cs))))
      else map_option ((#) c) (format_text ps cs))"
  by pat_completeness auto
termination
  by (relation "measure (\<lambda>(ps, cs). length cs)") (auto simp: less_Suc_eq_le length_dropWhile_le intro: le_trans[OF diff_le_self])

definition translate :: "locale_file \<Rightarrow> string \<Rightarrow> (string \<times> string) list \<Rightarrow> string" where
  "translate messages k ps =
     (let template = (case map_of messages k of Some t \<Rightarrow> t
        | None \<Rightarrow> (case map_of messages ''common.server_error'' of Some t \<Rightarrow> t | None \<Rightarrow> k))
      in if ps = [] then template else pick (format_text ps template) template)"

section \<open>Details\<close>

text \<open>The detail of a validation error, its leaves turned to texts by the framework.\<close>

datatype detail = Text string | Items "detail list" | Fields "(string \<times> detail) list"

definition truthy :: "detail \<Rightarrow> bool" where
  "truthy d = (case d of Text s \<Rightarrow> s \<noteq> [] | Items xs \<Rightarrow> xs \<noteq> [] | Fields fs \<Rightarrow> fs \<noteq> [])"

definition is_marker :: "(string \<times> detail) list \<Rightarrow> bool" where
  "is_marker fs = (case map_of fs ''_i18n'' of None \<Rightarrow> False | Some v \<Rightarrow> truthy v)"

text \<open>A marker, as \<open>raise_validation_error\<close> writes it.\<close>

definition marker :: "string \<Rightarrow> (string \<times> string) list \<Rightarrow> detail" where
  "marker k ps = Fields [(''_i18n'', Text ''True''), (''key'', Text k), (''params'', Fields (map (\<lambda>(x, v). (x, Text v)) ps))]"

text \<open>\<open>repr\<close> stands for Python's text of a nested structure.\<close>

definition str_of :: "(detail \<Rightarrow> string) \<Rightarrow> detail \<Rightarrow> string" where
  "str_of repr d = (case d of Text s \<Rightarrow> s | _ \<Rightarrow> repr d)"

text \<open>The parameters of a marker that is the whole detail: whatever is no mapping counts as none.\<close>

definition params_of :: "(detail \<Rightarrow> string) \<Rightarrow> detail option \<Rightarrow> (string \<times> string) list" where
  "params_of repr d = (case d of
     Some (Fields fs) \<Rightarrow> map (\<lambda>kv. (fst kv, str_of repr (snd kv))) fs
   | _ \<Rightarrow> [])"

text \<open>
  A nested marker. A key that is not a text (a marker that was wrapped again) makes the look-up raise, and
  parameters that are no mapping make the call raise.
\<close>

definition render_marker :: "(detail \<Rightarrow> string) \<Rightarrow> locale_file \<Rightarrow> (string \<times> detail) list \<Rightarrow> string option" where
  "render_marker repr m fs =
     Option.bind (case map_of fs ''key'' of None \<Rightarrow> Some ''common.validation_error'' | Some (Text k) \<Rightarrow> Some k | Some _ \<Rightarrow> None)
       (\<lambda>k. case map_of fs ''params'' of
          None \<Rightarrow> Some (translate m k [])
        | Some (Fields ps) \<Rightarrow> Some (translate m k (params_of repr (Some (Fields ps))))
        | Some _ \<Rightarrow> None)"

fun serialise :: "(detail \<Rightarrow> string) \<Rightarrow> locale_file \<Rightarrow> detail \<Rightarrow> detail option" where
  "serialise repr m (Text s) = Some (Text s)"
| "serialise repr m (Items xs) = map_option Items (those (map (serialise repr m) xs))"
| "serialise repr m (Fields fs) =
     (if is_marker fs then map_option Text (render_marker repr m fs)
      else map_option Fields (those (map (\<lambda>kv. map_option (Pair (fst kv)) (serialise repr m (snd kv))) fs)))"

definition serialise_fields ::
  "(detail \<Rightarrow> string) \<Rightarrow> locale_file \<Rightarrow> (string \<times> detail) list \<Rightarrow> (string \<times> detail) list option" where
  "serialise_fields repr m fs = those (map (\<lambda>kv. map_option (Pair (fst kv)) (serialise repr m (snd kv))) fs)"

definition message_in :: "(detail \<Rightarrow> string) \<Rightarrow> detail \<Rightarrow> string option" where
  "message_in repr d = (case d of
     Items (Text s # _) \<Rightarrow> Some s
   | Items (Items (x # _) # _) \<Rightarrow> Some (str_of repr x)
   | Text s \<Rightarrow> (if s = [] then None else Some s)
   | _ \<Rightarrow> None)"

fun first_some :: "'a option list \<Rightarrow> 'a option" where
  "first_some [] = None"
| "first_some (None # xs) = first_some xs"
| "first_some (Some x # xs) = Some x"

definition extract_first_message :: "(detail \<Rightarrow> string) \<Rightarrow> (string \<times> detail) list \<Rightarrow> string" where
  "extract_first_message repr fs = pick (first_some
     (Option.bind (map_of fs ''non_field_errors'') (message_in repr)
      # map (\<lambda>kv. message_in repr (snd kv)) (filter (\<lambda>kv. fst kv \<noteq> ''non_field_errors'') fs))) []"

section \<open>Responses\<close>

text \<open>What is raised; \<open>Exc_other\<close> is any other exception.\<close>

datatype exc =
    Exc_localized string string "(string \<times> string) list" nat
  | Exc_absolute_timeout
  | Exc_idle_timeout
  | Exc_unauthenticated
  | Exc_permission_denied detail
  | Exc_not_found
  | Exc_validation detail
  | Exc_other

record error_response =
  er_status :: nat
  er_code :: string
  er_message :: string
  er_details :: detail

definition build_error_response :: "string \<Rightarrow> string \<Rightarrow> detail \<Rightarrow> nat \<Rightarrow> error_response" where
  "build_error_response code message details status =
     \<lparr>er_status = status, er_code = code, er_message = message, er_details = details\<rparr>"

text \<open>
  \<open>denial\<close> is the framework's own text of a denial in the language of the request, \<open>status\<close> the status
  the framework answers.
\<close>

definition denied_response :: "string \<Rightarrow> locale_file \<Rightarrow> nat \<Rightarrow> detail \<Rightarrow> error_response" where
  "denied_response denial m status d = build_error_response ''PERMISSION_DENIED''
     (case d of Text s \<Rightarrow> (if s \<noteq> denial \<and> s \<noteq> [] then s else translate m ''common.permission_denied'' [])
        | _ \<Rightarrow> translate m ''common.permission_denied'' [])
     (case d of Fields fs \<Rightarrow> Fields fs | Text s \<Rightarrow> Fields [(''detail'', Text s)] | _ \<Rightarrow> Fields []) status"

text \<open>
  A key or a code is a text or the list the framework wrapped it in; an empty structure counts as a missing
  one. A key that is a mapping makes the look-up raise.
\<close>

definition unwrap :: "(detail \<Rightarrow> string) \<Rightarrow> string \<Rightarrow> detail option \<Rightarrow> string" where
  "unwrap repr dflt d = (case d of
     None \<Rightarrow> dflt
   | Some (Items []) \<Rightarrow> []
   | Some (Items (x # _)) \<Rightarrow> str_of repr x
   | Some (Fields []) \<Rightarrow> []
   | Some x \<Rightarrow> str_of repr x)"

definition or_text :: "string \<Rightarrow> string \<Rightarrow> string" where
  "or_text s t = (if s = [] then t else s)"

definition is_mapping :: "detail option \<Rightarrow> bool" where
  "is_mapping d = (case d of Some (Fields (_ # _)) \<Rightarrow> True | _ \<Rightarrow> False)"

definition marker_response ::
  "(detail \<Rightarrow> string) \<Rightarrow> locale_file \<Rightarrow> nat \<Rightarrow> (string \<times> detail) list \<Rightarrow> error_response option" where
  "marker_response repr m status fs =
     (if is_mapping (map_of fs ''key'') then None
      else Some (build_error_response
        (or_text (unwrap repr ''VALIDATION_ERROR'' (map_of fs ''code'')) ''VALIDATION_ERROR'')
        (translate m (or_text (unwrap repr ''common.validation_error'' (map_of fs ''key'')) ''common.validation_error'')
           (params_of repr (map_of fs ''params''))) (Fields []) status))"

definition validation_response ::
  "(detail \<Rightarrow> string) \<Rightarrow> locale_file \<Rightarrow> nat \<Rightarrow> detail \<Rightarrow> error_response option" where
  "validation_response repr m status d =
     (let envelope = (\<lambda>details. build_error_response ''VALIDATION_ERROR''
            (or_text (extract_first_message repr details) (translate m ''common.validation_error'' [])) (Fields details) status)
      in case d of
        Fields fs \<Rightarrow> (if is_marker fs then marker_response repr m status fs else map_option envelope (serialise_fields repr m fs))
      | Items xs \<Rightarrow> map_option (\<lambda>y. envelope [(''non_field_errors'', y)]) (serialise repr m (Items xs))
      | Text s \<Rightarrow> Some (envelope [(''detail'', Text s)]))"

definition other_response ::
  "(detail \<Rightarrow> string) \<Rightarrow> locale_file \<Rightarrow> nat \<Rightarrow> detail \<Rightarrow> error_response option" where
  "other_response repr m status d =
     (let envelope = (\<lambda>details. build_error_response ''SERVER_ERROR'' (translate m ''common.server_error'' []) (Fields details) status)
      in case d of
        Fields fs \<Rightarrow> map_option envelope (serialise_fields repr m fs)
      | Text s \<Rightarrow> Some (envelope [(''detail'', Text s)])
      | Items _ \<Rightarrow> Some (envelope []))"

text \<open>
  \<open>response\<close> is what \<open>exception_handler\<close> of the framework answers the exception with, its status and its
  data, and \<open>None\<close> for an exception the framework does not know. The result is \<open>None\<close> when the handler
  itself raises.
\<close>

definition custom_exception_handler ::
  "(detail \<Rightarrow> string) \<Rightarrow> string \<Rightarrow> locale_file \<Rightarrow> (nat \<times> detail) option \<Rightarrow> exc \<Rightarrow> error_response option" where
  "custom_exception_handler repr denial m response x =
     (let answer = (\<lambda>code k. build_error_response code (translate m k []) (Fields []))
      in case x of
       Exc_localized code k ps status \<Rightarrow> Some (build_error_response code (translate m k ps) (Fields []) status)
     | _ \<Rightarrow> (case response of
         None \<Rightarrow> Some (answer ''SERVER_ERROR'' ''common.server_error'' 500)
       | Some (status, data) \<Rightarrow> (case x of
           Exc_absolute_timeout \<Rightarrow> Some (answer ''SESSION_ABSOLUTE_TIMEOUT'' ''auth.session_absolute_timeout'' status)
         | Exc_idle_timeout \<Rightarrow> Some (answer ''SESSION_IDLE_TIMEOUT'' ''auth.session_idle_timeout'' status)
         | Exc_unauthenticated \<Rightarrow> Some (answer ''UNAUTHENTICATED'' ''common.unauthenticated'' status)
         | Exc_permission_denied d \<Rightarrow> Some (denied_response denial m status d)
         | Exc_not_found \<Rightarrow> Some (answer ''NOT_FOUND'' ''common.not_found'' status)
         | Exc_validation d \<Rightarrow> validation_response repr m status d
         | _ \<Rightarrow> other_response repr m status data)))"

section \<open>Rendering\<close>






















section \<open>What clients are answered\<close>

lemma marker_is_marker [simp]: "is_marker [(''_i18n'', Text ''True''), k, p] \<longleftrightarrow> True"
  by (simp add: is_marker_def truthy_def)

lemma params_of_texts [simp]: "params_of repr (Some (Fields (map (\<lambda>(x, v). (x, Text v)) ps))) = ps"
  by (induction ps) (auto simp: params_of_def str_of_def)

lemma serialise_marker: "serialise repr m (marker k ps) = Some (Text (translate m k ps))"
  by (simp add: marker_def render_marker_def)

text \<open>What every call of \<open>raise_validation_error\<close> is answered.\<close>

lemma raised_validation_errors_are_shown:
  assumes "field \<noteq> ''_i18n''"
  shows "custom_exception_handler repr denial m (Some (status, data)) (Exc_validation (Fields [(field, Items [marker k ps])]))
     = Some (build_error_response ''VALIDATION_ERROR'' (or_text (translate m k ps) (translate m ''common.validation_error'' []))
         (Fields [(field, Items [Text (translate m k ps)])]) status)"
proof -
  have "is_marker [(field, Items [marker k ps])] \<longleftrightarrow> False" using assms by (simp add: is_marker_def)
  moreover have "serialise_fields repr m [(field, Items [marker k ps])] = Some [(field, Items [Text (translate m k ps)])]"
    by (simp add: serialise_fields_def serialise_marker)
  moreover have "extract_first_message repr [(field, Items [Text t])] = t" for t
    by (cases "field = ''non_field_errors''") (simp_all add: extract_first_message_def message_in_def pick_def)
  ultimately show ?thesis by (simp add: custom_exception_handler_def validation_response_def Let_def)
qed

text \<open>
  \<open>get_object_or_404\<close>, with which the views look rows up, raises \<open>Http404\<close>. The framework answers it
  with 404 and a text, but it is none of the exceptions the handler asks for.
\<close>

lemma unfound_rows_are_server_errors:
  "custom_exception_handler repr denial m (Some (404, Fields [(''detail'', Text t)])) Exc_other
   = Some (build_error_response ''SERVER_ERROR'' (translate m ''common.server_error'' []) (Fields [(''detail'', Text t)]) 404)"
  by (simp add: custom_exception_handler_def other_response_def serialise_fields_def Let_def)






text \<open>
  The message of the answer is the first one of \<open>non_field_errors\<close> and else of the first field in the
  order of the serializer, not in alphabetical order.
\<close>

lemma first_message_follows_the_serializer:
  "extract_first_message repr [(''b'', Items [Text ''B'']), (''a'', Items [Text ''A''])] = ''B''"
  "extract_first_message repr [(''b'', Items [Text ''B'']), (''non_field_errors'', Items [Text ''N''])] = ''N''"
  by (simp_all add: extract_first_message_def message_in_def pick_def)
end
