(* ===== verification/ResourceSearch.thy ===== *)
theory ResourceSearch
  imports Queries Resources "HOL-Library.Sublist" "HOL-Library.Product_Lexorder" "HOL-Library.List_Lexorder" "HOL-Library.Char_ord"
begin

text \<open>
  Searching the catalogue: the filters of \<open>bookings/filters.py\<close>, the schedule of a resource and the
  search for participants (\<open>bookings/views.py\<close>).
\<close>

section \<open>The filters of the catalogue\<close>

text \<open>
  \<open>_fix_tz_plus\<close>: a plus sign that the query string decoded as a space before a final \<open>HH:MM\<close>.
\<close>

definition is_digit :: "char \<Rightarrow> bool" where
  "is_digit c \<longleftrightarrow> 48 \<le> (of_char c :: nat) \<and> (of_char c :: nat) \<le> 57"

definition is_offset :: "string \<Rightarrow> bool" where
  "is_offset t = (case t of [a, b, c, d, e] \<Rightarrow> is_digit a \<and> is_digit b \<and> c = CHR '':'' \<and> is_digit d \<and> is_digit e | _ \<Rightarrow> False)"

definition fix_tz_plus :: "string \<Rightarrow> string" where
  "fix_tz_plus s = (let n = length s - 6; t = drop n s in
     if 6 \<le> length s \<and> hd t = CHR '' '' \<and> is_offset (tl t) then take n s @ CHR ''+'' # tl t else s)"

text \<open>\<open>parse\<close> stands for \<open>parse_datetime\<close> of the framework.\<close>

definition parse_interval :: "(string \<Rightarrow> datetime option) \<Rightarrow> string option \<Rightarrow> string option \<Rightarrow> (datetime \<times> datetime) option" where
  "parse_interval parse f t = (case (f, t) of
     (Some a, Some b) \<Rightarrow> (if a = [] \<or> b = [] then None
        else (case (parse (fix_tz_plus a), parse (fix_tz_plus b)) of (Some x, Some y) \<Rightarrow> Some (x, y) | _ \<Rightarrow> None))
   | _ \<Rightarrow> None)"

text \<open>The weekdays a range of dates touches.\<close>

definition requested_days :: "int \<Rightarrow> datetime \<Rightarrow> datetime \<Rightarrow> int list" where
  "requested_days off st en = (let d = local_date off st in
     map (\<lambda>i. weekday (d + int i)) [0..<nat (local_date off en - d + 1)])"

definition is_free :: "bk_state \<Rightarrow> resource \<Rightarrow> datetime \<Rightarrow> datetime \<Rightarrow> bool" where
  "is_free s r st en \<longleftrightarrow>
     tbl_filter (\<lambda>b. b_resource b = r_id r \<and> b_status b = Confirmed \<and> b_start b < en \<and> b_end b > st) (bk_bookings s) = []
     \<and> tbl_filter (\<lambda>bl. bl_resource bl = r_id r \<and> bl_start bl < en \<and> bl_end bl > st) (bk_blocks s) = []"

definition open_on :: "int \<Rightarrow> resource \<Rightarrow> datetime \<Rightarrow> datetime \<Rightarrow> bool" where
  "open_on off r st en \<longleftrightarrow>
     (r_available_days r = [] \<or> list_all (\<lambda>d. d \<in> set (r_available_days r)) (requested_days off st en))
     \<and> (local_date off st = local_date off en \<longrightarrow>
          r_available_from r \<le> local_time off st \<and> local_time off en \<le> r_available_until r)"

definition filter_free_interval :: "int \<Rightarrow> bk_state \<Rightarrow> (datetime \<times> datetime) option \<Rightarrow> resource list \<Rightarrow> resource list" where
  "filter_free_interval off s iv rs = (case iv of
     None \<Rightarrow> rs
   | Some (st, en) \<Rightarrow> (if st \<ge> en then [] else filter (\<lambda>r. is_free s r st en \<and> open_on off r st en) rs))"

text \<open>Words that are no equipment are ignored.\<close>

definition equipment_token :: "string \<Rightarrow> string" where
  "equipment_token w = map (\<lambda>c. if c = CHR ''-'' then CHR ''_'' else c) (lower_text w)"

definition has_equipment :: "string \<Rightarrow> resource \<Rightarrow> bool" where
  "has_equipment k r \<longleftrightarrow> map_of (r_equipment r) k = Some True"

definition filter_equipment :: "string \<Rightarrow> resource list \<Rightarrow> resource list" where
  "filter_equipment v rs =
     (let tokens = map equipment_token (split_words [] (map (\<lambda>c. if c = CHR '','' then CHR '' '' else c) v))
      in filter (\<lambda>r. list_all (\<lambda>k. k \<in> set EQUIPMENT_KEYS \<longrightarrow> has_equipment k r) tokens) rs)"

record catalogue_query =
  cg_type :: "resource_type param"
  cg_floor :: "int option"
  cg_floor_id :: "nat option"
  cg_capacity_min :: "int option"
  cg_capacity_max :: "int option"
  cg_equipment :: string
  cg_projector :: "bool option"
  cg_tv :: "bool option"
  cg_video_conf :: "bool option"
  cg_active :: "bool option"
  cg_company :: "nat option"
  cg_interval :: "(datetime \<times> datetime) option"

definition wants :: "bool option \<Rightarrow> bool \<Rightarrow> bool" where
  "wants v x \<longleftrightarrow> v = None \<or> v = Some x"

definition field_filters :: "catalogue_query \<Rightarrow> resource \<Rightarrow> bool" where
  "field_filters q r \<longleftrightarrow>
     (case cg_type q of Missing \<Rightarrow> True | Malformed \<Rightarrow> False | Given t \<Rightarrow> r_type r = t)
     \<and> (cg_floor q = None \<or> cg_floor q = Some (r_floor r))
     \<and> (cg_floor_id q = None \<or> cg_floor_id q = r_floor_fk r)
     \<and> (case cg_capacity_min q of None \<Rightarrow> True | Some n \<Rightarrow> n \<le> r_capacity r)
     \<and> (case cg_capacity_max q of None \<Rightarrow> True | Some n \<Rightarrow> r_capacity r \<le> n)
     \<and> wants (cg_projector q) (has_equipment ''projector'' r) \<and> wants (cg_tv q) (has_equipment ''tv'' r)
     \<and> wants (cg_video_conf q) (has_equipment ''video_conf'' r) \<and> wants (cg_active q) (r_is_active r)
     \<and> (cg_company q = None \<or> cg_company q = r_assigned_company r)"

definition search_catalogue :: "int \<Rightarrow> user \<Rightarrow> catalogue_query \<Rightarrow> bk_state \<Rightarrow> resource list" where
  "search_catalogue off u q s = filter_free_interval off s (cg_interval q) (filter_equipment (cg_equipment q)
     (filter (field_filters q) (tbl_filter (resource_visible (bk_acc s) u) (bk_resources s))))"

section \<open>The schedule of a resource\<close>

text \<open>The end of a day is its last microsecond and one second.\<close>

definition schedule_bounds :: "int \<Rightarrow> date \<Rightarrow> datetime \<times> datetime" where
  "schedule_bounds off d = (make_aware off d 0, make_aware off d (usec_per_day - 1) + seconds 1)"

definition schedule_of_week :: "settings \<Rightarrow> bk_state \<Rightarrow> resource \<Rightarrow> date \<Rightarrow> booking list" where
  "schedule_of_week cfg s r anchor = (let ab = week_range_for_date cfg anchor in
     sort_key b_start (tbl_filter (\<lambda>b. b_resource b = r_id r \<and> b_status b = Confirmed
       \<and> fst ab \<le> b_start b \<and> b_start b < snd ab) (bk_bookings s)))"

definition schedule_of_day :: "settings \<Rightarrow> bk_state \<Rightarrow> resource \<Rightarrow> date \<Rightarrow> booking list" where
  "schedule_of_day cfg s r d = (let ab = schedule_bounds (UTC_OFFSET cfg) d in
     sort_key b_start (tbl_filter (\<lambda>b. b_resource b = r_id r \<and> b_status b = Confirmed
       \<and> b_start b < snd ab \<and> fst ab < b_end b) (bk_bookings s)))"

definition schedule ::
  "settings \<Rightarrow> datetime \<Rightarrow> user \<Rightarrow> nat \<Rightarrow> date param \<Rightarrow> date param \<Rightarrow> bk_state \<Rightarrow> api_error + (booking \<times> slot_status) list" where
  "schedule cfg now u k week day s = bind_err (get_resource s u k) (\<lambda>r.
     let show = map (\<lambda>b. (b, get_schedule_status cfg b now)) in
     case week of
       Malformed \<Rightarrow> Inl (ValidationError ''detail'' ''booking.invalid_week_format'')
     | Given d \<Rightarrow> Inr (show (schedule_of_week cfg s r d))
     | Missing \<Rightarrow> (case day of
         Malformed \<Rightarrow> Inl (ValidationError ''detail'' ''booking.invalid_date_format'')
       | Given d \<Rightarrow> Inr (show (schedule_of_day cfg s r d))
       | Missing \<Rightarrow> Inr (show (schedule_of_day cfg s r (local_today cfg now)))))"

section \<open>The search for participants\<close>

definition icontains :: "string \<Rightarrow> string \<Rightarrow> bool" where
  "icontains q t \<longleftrightarrow> sublist (lower_text q) (lower_text t)"

text \<open>\<open>coll\<close> is the sort key of the collation of the database.\<close>

definition search_members :: "(string \<Rightarrow> string) \<Rightarrow> user \<Rightarrow> string \<Rightarrow> accounts \<Rightarrow> api_error + user list" where
  "search_members coll u q acc = guarded (IsCompanyMember (Some u))
     (take 20 (sort_key (\<lambda>m. (coll (u_first_name m), coll (u_last_name m)))
       (tbl_filter (\<lambda>m. u_is_active m \<and> u_id m \<noteq> u_id u \<and> u_role m \<noteq> Superadmin
          \<and> (strip q = [] \<or> icontains (strip q) (u_first_name m) \<or> icontains (strip q) (u_last_name m)
             \<or> icontains (strip q) (u_email m))) (ac_users acc))))"

end
