(* ===== verification/SearchProps.thy ===== *)
theory SearchProps
  imports ResourceSearch BookingProps
begin

text \<open>
  The search of the catalogue against the rules of booking, the schedule of a day, and whom the search
  for participants shows.
\<close>

section \<open>Free resources\<close>

lemma requested_single_day:
  "local_date off st = local_date off en \<Longrightarrow> requested_days off st en = [weekday (local_date off st)]"
  by (simp add: requested_days_def)

lemma requested_two_days:
  "local_date off en = local_date off st + 1 \<Longrightarrow>
     requested_days off st en = [weekday (local_date off st), weekday (local_date off st + 1)]"
  by (simp add: requested_days_def Let_def numeral_2_eq_2)

lemma weekdays_complete: "weekday d \<in> set [0, 1, 2, 3, 4, 5, 6]"
  using weekday_bounds[of d] by auto

lemma is_free_iff: "is_free s r st en \<longleftrightarrow> ensure_no_conflicts cfg now s r st en None None = Inr []"
  by (auto simp: is_free_def ensure_no_conflicts_def overlapping_bookings_def Let_def tbl_filter_def)

lemma requested_days_iff:
  "local_date off st \<le> local_date off en \<Longrightarrow>
     list_all P (requested_days off st en) \<longleftrightarrow> (\<forall>d. local_date off st \<le> d \<and> d \<le> local_date off en \<longrightarrow> P (weekday d))"
proof -
  let ?a = "local_date off st" and ?b = "local_date off en"
  assume "?a \<le> ?b"
  have "(\<lambda>i. ?a + int i) ` {0..<nat (?b - ?a + 1)} = {d. ?a \<le> d \<and> d \<le> ?b}"
  proof (intro equalityI subsetI)
    fix d assume "d \<in> {d. ?a \<le> d \<and> d \<le> ?b}"
    then have "d = ?a + int (nat (d - ?a))" "nat (d - ?a) \<in> {0..<nat (?b - ?a + 1)}" by auto
    then show "d \<in> (\<lambda>i. ?a + int i) ` {0..<nat (?b - ?a + 1)}" by blast
  qed auto
  moreover have "set (requested_days off st en) = weekday ` ((\<lambda>i. ?a + int i) ` {0..<nat (?b - ?a + 1)})"
    by (simp add: requested_days_def Let_def image_image)
  ultimately have "set (requested_days off st en) = weekday ` {d. ?a \<le> d \<and> d \<le> ?b}" by simp
  then show ?thesis by (auto simp: list_all_iff)
qed

lemma open_day_iff: "r_available_days r = [] \<or> weekday d \<in> set (r_available_days r) \<longleftrightarrow> weekday d \<in> set (available_weekdays r)"
  using weekdays_complete[of d] by (simp add: available_weekdays_def)

lemma open_days_iff:
  "r_available_days r = [] \<or> (\<forall>d. P d \<longrightarrow> weekday d \<in> set (r_available_days r)) \<longleftrightarrow>
     (\<forall>d. P d \<longrightarrow> weekday d \<in> set (available_weekdays r))"
  using weekdays_complete by (simp add: available_weekdays_def)

text \<open>
  C34: The search and the creation agree. A resource is found for an interval of one local day (for a
  parking place, one that does not end in the first minute of the day) exactly when a booking of that
  interval passes the opening hours and meets no conflict. The one difference is a parking place taken
  from midnight to midnight: the booking asks whether it is open on the first day only, the search whether
  it is open on every day up to and including the one the interval ends on.
\<close>

theorem search_agrees_with_booking:
  assumes iv: "st < en"
  shows "(local_date (UTC_OFFSET cfg) st = local_date (UTC_OFFSET cfg) en
      \<and> \<not> (r_type r = Parking \<and> at_midnight (local_time (UTC_OFFSET cfg) en)) \<longrightarrow>
      (r \<in> set (filter_free_interval (UTC_OFFSET cfg) s (Some (st, en)) rs) \<longleftrightarrow>
        r \<in> set rs \<and> validate_availability_window cfg r st en = None
        \<and> ensure_no_conflicts cfg now s r st en None None = Inr []))
    \<and> (r_type r = Parking \<and> local_time (UTC_OFFSET cfg) st = 0 \<and> local_time (UTC_OFFSET cfg) en = 0 \<longrightarrow>
      (validate_availability_window cfg r st en = None
        \<longleftrightarrow> weekday (local_date (UTC_OFFSET cfg) st) \<in> set (available_weekdays r))
      \<and> (r \<in> set (filter_free_interval (UTC_OFFSET cfg) s (Some (st, en)) rs) \<longleftrightarrow>
        r \<in> set rs \<and> ensure_no_conflicts cfg now s r st en None None = Inr []
        \<and> (\<forall>d. local_date (UTC_OFFSET cfg) st \<le> d \<and> d \<le> local_date (UTC_OFFSET cfg) en
             \<longrightarrow> weekday d \<in> set (available_weekdays r))))"
proof (intro conjI impI)
  let ?off = "UTC_OFFSET cfg"
  assume h: "local_date ?off st = local_date ?off en \<and> \<not> (r_type r = Parking \<and> at_midnight (local_time ?off en))"
  have "open_on ?off r st en \<longleftrightarrow> validate_availability_window cfg r st en = None"
    using h open_day_iff[of r "local_date ?off en"]
    by (auto simp: open_on_def requested_single_day validate_availability_window_def Let_def require_simps split: if_splits)
  then show "r \<in> set (filter_free_interval ?off s (Some (st, en)) rs) \<longleftrightarrow> r \<in> set rs
      \<and> validate_availability_window cfg r st en = None \<and> ensure_no_conflicts cfg now s r st en None None = Inr []"
    using iv by (auto simp: filter_free_interval_def is_free_iff[of s r st en cfg now])
next
  let ?off = "UTC_OFFSET cfg"
  assume h: "r_type r = Parking \<and> local_time ?off st = 0 \<and> local_time ?off en = 0"
  then show "validate_availability_window cfg r st en = None \<longleftrightarrow> weekday (local_date ?off st) \<in> set (available_weekdays r)"
    by (simp add: validate_availability_window_def Let_def at_midnight_def time_hour_def time_minute_def require_simps)
  have le: "local_date ?off st \<le> local_date ?off en" using iv by (intro local_date_mono) simp
  have "local_date ?off st \<noteq> local_date ?off en"
    using h iv make_aware_local[of ?off st] make_aware_local[of ?off en] by fastforce
  then have "open_on ?off r st en \<longleftrightarrow> (\<forall>d. local_date ?off st \<le> d \<and> d \<le> local_date ?off en
      \<longrightarrow> weekday d \<in> set (available_weekdays r))"
    unfolding open_on_def requested_days_iff[OF le] open_days_iff by simp
  then show "r \<in> set (filter_free_interval ?off s (Some (st, en)) rs) \<longleftrightarrow> r \<in> set rs
      \<and> ensure_no_conflicts cfg now s r st en None None = Inr []
      \<and> (\<forall>d. local_date ?off st \<le> d \<and> d \<le> local_date ?off en \<longrightarrow> weekday d \<in> set (available_weekdays r))"
    using iv by (auto simp: filter_free_interval_def is_free_iff[of s r st en cfg now])
qed

theorem search_agrees_with_booking_witness:
  "ensure_no_conflicts (default_settings\<lparr>UTC_OFFSET := 0\<rparr>) 0 (demo_state (default_resource 1) []) (default_resource 1) (hours 10) (hours 11) None None
     = Inr []
   \<and> (let r = (default_resource 1)\<lparr>r_type := Parking, r_available_days := [0, 1, 2, 3, 4]\<rparr>
      in r \<notin> set (filter_free_interval 0 (demo_state r []) (Some (days 1, days 2)) [r]))"
proof -
  let ?c = "default_settings\<lparr>UTC_OFFSET := 0\<rparr>"
  let ?r = "default_resource 1" and ?s = "demo_state (default_resource 1) []"
  let ?p = "(default_resource 1)\<lparr>r_type := Parking, r_available_days := [0, 1, 2, 3, 4]\<rparr>"
  have "list_ex (\<lambda>x. x = ?r) (filter_free_interval (UTC_OFFSET ?c) ?s (Some (hours 10, hours 11)) [?r])" by code_simp
  then have found: "?r \<in> set (filter_free_interval (UTC_OFFSET ?c) ?s (Some (hours 10, hours 11)) [?r])"
    by (simp add: list_ex_iff)
  have "local_date (UTC_OFFSET ?c) (hours 10) = local_date (UTC_OFFSET ?c) (hours 11)" "hours 10 < hours 11" "r_type ?r \<noteq> Parking"
    by code_simp+
  with search_agrees_with_booking[of "hours 10" "hours 11" ?c ?r ?s "[?r]" 0] found
  have "ensure_no_conflicts ?c 0 ?s ?r (hours 10) (hours 11) None None = Inr []" by blast
  moreover have "days 1 < days 2" "local_time (UTC_OFFSET ?c) (days 1) = 0" "local_time (UTC_OFFSET ?c) (days 2) = 0"
    "local_date (UTC_OFFSET ?c) (days 1) = 1" "local_date (UTC_OFFSET ?c) (days 2) = 2" "r_type ?p = Parking"
    "weekday 2 \<notin> set (available_weekdays ?p)" "UTC_OFFSET ?c = 0" by code_simp+
  then have "?p \<notin> set (filter_free_interval 0 (demo_state ?p []) (Some (days 1, days 2)) [?p])"
    using search_agrees_with_booking[of "days 1" "days 2" ?c ?p "demo_state ?p []" "[?p]" 0] by auto
  ultimately show ?thesis by (simp add: Let_def)
qed

text \<open>
  A parking place is booked by whole days, from midnight to midnight. The search also asks for the
  day the interval ends on: a place that is closed the day after is bookable and not found.
\<close>

theorem last_open_day_is_not_found:
  assumes r: "r_type r = Parking" "weekday d \<in> set (r_available_days r)" "weekday (d + 1) \<notin> set (r_available_days r)"
  shows "validate_availability_window cfg r (make_aware (UTC_OFFSET cfg) d 0) (make_aware (UTC_OFFSET cfg) (d + 1) 0) = None
    \<and> r \<notin> set (filter_free_interval (UTC_OFFSET cfg) s
        (Some (make_aware (UTC_OFFSET cfg) d 0, make_aware (UTC_OFFSET cfg) (d + 1) 0)) rs)"
proof -
  have pos: "0 < usec_per_day" by (simp add: usec_per_day_def)
  have midnight: "local_date (UTC_OFFSET cfg) (make_aware (UTC_OFFSET cfg) x 0) = x"
    "local_time (UTC_OFFSET cfg) (make_aware (UTC_OFFSET cfg) x 0) = 0" for x
    using pos by simp_all
  have "r_available_days r \<noteq> []" using r(2) by auto
  then have "\<not> open_on (UTC_OFFSET cfg) r (make_aware (UTC_OFFSET cfg) d 0) (make_aware (UTC_OFFSET cfg) (d + 1) 0)"
    using r(3) requested_two_days[of "UTC_OFFSET cfg" "make_aware (UTC_OFFSET cfg) (d + 1) 0" "make_aware (UTC_OFFSET cfg) d 0"]
    by (simp add: open_on_def midnight)
  moreover have "validate_availability_window cfg r (make_aware (UTC_OFFSET cfg) d 0) (make_aware (UTC_OFFSET cfg) (d + 1) 0) = None"
    using r(1,2) by (auto simp: validate_availability_window_def Let_def midnight at_midnight_def time_hour_def time_minute_def available_weekdays_def
        require_simps)
  ultimately show ?thesis by (simp add: filter_free_interval_def)
qed

theorem last_open_day_is_not_found_witness:
  "let r = (default_resource 1)\<lparr>r_type := Parking, r_available_days := [0, 1, 2, 3, 4]\<rparr> in
   validate_availability_window (default_settings\<lparr>UTC_OFFSET := 0\<rparr>) r (make_aware 0 1 0) (make_aware 0 2 0) = None
   \<and> r \<notin> set (filter_free_interval 0 (demo_state r []) (Some (make_aware 0 1 0, make_aware 0 2 0)) [r])"
  using last_open_day_is_not_found[of "(default_resource 1)\<lparr>r_type := Parking, r_available_days := [0, 1, 2, 3, 4]\<rparr>" 1
      "default_settings\<lparr>UTC_OFFSET := 0\<rparr>"]
  by (simp add: Let_def weekday_def)

section \<open>The schedule of a day\<close>

text \<open>
  The schedule of a day holds the confirmed bookings of the resource that reach into it, and also those
  that start in the first second of the next day, on the stroke of midnight.
\<close>

theorem schedule_runs_past_midnight:
  "b \<in> set (schedule_of_day cfg s r d) \<longleftrightarrow>
     b \<in> set (rows (bk_bookings s)) \<and> b_resource b = r_id r \<and> b_status b = Confirmed
     \<and> make_aware (UTC_OFFSET cfg) d 0 < b_end b
     \<and> b_start b < make_aware (UTC_OFFSET cfg) (d + 1) 0 + (seconds 1 - 1)"
  by (auto simp: schedule_of_day_def schedule_bounds_def Let_def make_aware_def usec_per_day_def seconds_def)

lemma midnight_booking_is_on_both_days:
  assumes "b \<in> set (rows (bk_bookings s))" "b_resource b = r_id r" "b_status b = Confirmed"
    "b_start b = make_aware (UTC_OFFSET cfg) (d + 1) 0" "b_start b < b_end b"
  shows "b \<in> set (schedule_of_day cfg s r d) \<and> b \<in> set (schedule_of_day cfg s r (d + 1))"
  using assms by (auto simp: schedule_runs_past_midnight make_aware_def seconds_def usec_per_day_def)

section \<open>Texts\<close>

text \<open>
  A plus sign lost before a zone offset is restored, and a text that has kept it is left alone.
\<close>

theorem lost_plus_is_restored:
  assumes "is_offset z"
  shows "fix_tz_plus (t @ '' '' @ z) = t @ ''+'' @ z \<and> fix_tz_plus (t @ ''+'' @ z) = t @ ''+'' @ z"
proof -
  have "length z = 5" using assms by (auto simp: is_offset_def split: list.splits)
  then show ?thesis using assms by (simp add: fix_tz_plus_def Let_def)
qed

theorem lost_plus_is_restored_witness:
  "fix_tz_plus ''2026-05-30T19:14:00 05:00'' = ''2026-05-30T19:14:00+05:00''"
proof -
  have "is_offset ''05:00''" by code_simp
  from lost_plus_is_restored[OF this, of "''2026-05-30T19:14:00''"] show ?thesis by simp
qed

section \<open>Participants\<close>

text \<open>
  The search for participants is not limited to a company: a member of one company finds the people of
  every other one, with their addresses.
\<close>

theorem members_of_other_companies_are_found:
  assumes u: "IsCompanyMember (Some u) = None"
    and m: "m \<in> set (rows (ac_users acc))" "u_is_active m" "u_id m \<noteq> u_id u" "u_role m \<noteq> Superadmin"
      "u_company m \<noteq> u_company u" "icontains (strip q) (u_email m)"
    and few: "length (tbl_filter (\<lambda>x. icontains (strip q) (u_first_name x) \<or> icontains (strip q) (u_last_name x)
      \<or> icontains (strip q) (u_email x)) (ac_users acc)) \<le> 20" "strip q \<noteq> []"
  shows "\<exists>ms. search_members coll u q acc = Inr ms \<and> m \<in> set ms"
proof -
  let ?P = "\<lambda>x. icontains (strip q) (u_first_name x) \<or> icontains (strip q) (u_last_name x) \<or> icontains (strip q) (u_email x)"
  let ?xs = "tbl_filter (\<lambda>m. u_is_active m \<and> u_id m \<noteq> u_id u \<and> u_role m \<noteq> Superadmin \<and> (strip q = [] \<or> ?P m)) (ac_users acc)"
  have "?xs = filter (\<lambda>m. u_is_active m \<and> u_id m \<noteq> u_id u \<and> u_role m \<noteq> Superadmin) (tbl_filter ?P (ac_users acc))"
    using few(2) by (simp add: tbl_filter_def conj_ac cong: conj_cong)
  then have "length ?xs \<le> 20" using le_trans[OF length_filter_le few(1)] by simp
  then have "take 20 (sort_key (\<lambda>m. (coll (u_first_name m), coll (u_last_name m))) ?xs)
      = sort_key (\<lambda>m. (coll (u_first_name m), coll (u_last_name m))) ?xs" by simp
  moreover have "m \<in> set ?xs" using m by simp
  ultimately show ?thesis using u by (simp add: search_members_def del: take_all_iff)
qed

theorem members_of_other_companies_are_found_witness:
  "\<exists>ms. search_members id (demo_user 7 Employee (Some 1)) ''u''
       \<lparr>ac_users = Table [demo_user 7 Employee (Some 1), demo_user 8 Employee (Some 2)] 9, ac_companies = empty_table\<rparr> = Inr ms
     \<and> demo_user 8 Employee (Some 2) \<in> set ms"
proof (rule members_of_other_companies_are_found)
  show "IsCompanyMember (Some (demo_user 7 Employee (Some 1))) = None" by code_simp
  show "icontains (strip ''u'') (u_email (demo_user 8 Employee (Some 2)))" by code_simp
  show "strip ''u'' \<noteq> []" by code_simp
qed (simp_all add: demo_user_def tbl_filter_def)

end
