(* ===== verification/Erasure.thy ===== *)
theory Erasure
  imports Announcements CrmDetails Onboarding Access Users
begin

text \<open>
  The permanent deletion of a user (\<open>UserDetailView\<close> of \<open>users/views.py\<close>). The row goes with
  \<open>Model.delete\<close>, which follows the \<open>on_delete\<close> rule of every column that refers to a user: \<open>CASCADE\<close>
  deletes the row, and what hangs on it, \<open>SET_NULL\<close> empties the column. Each component has its part of
  the cascade here, on its own tables; the tables two components share are treated alike in both.

  The contents of files are objects of the storage service and no rows: the cascade leaves them. The
  token library keeps the rows of the tokens of a deleted user (the user of the row is emptied, the
  claims of the token are not in the database), so only the blacklisting of the view changes them.
\<close>

section \<open>References\<close>

definition unlink :: "(nat \<Rightarrow> bool) \<Rightarrow> nat option \<Rightarrow> nat option" where
  "unlink P x = (case x of None \<Rightarrow> None | Some k \<Rightarrow> if P k then None else Some k)"

definition each :: "('r \<Rightarrow> 'r) \<Rightarrow> 'r table \<Rightarrow> 'r table" where
  "each f t = tbl_update (\<lambda>_. True) f t"

lemma rows_each [simp]: "rows (each f t) = map f (rows t)" "next_id (each f t) = next_id t"
  by (simp_all add: each_def)

lemma unlink_simps [simp]: "unlink P x = Some k \<longleftrightarrow> x = Some k \<and> \<not> P k" "unlink P None = None"
  by (auto simp: unlink_def split: option.splits)

section \<open>Accounts, notifications and sessions\<close>

definition erase_accounts :: "nat \<Rightarrow> accounts \<Rightarrow> accounts" where
  "erase_accounts k s = s\<lparr>ac_users := tbl_delete (\<lambda>u. u_id u = k) (ac_users s)\<rparr>"

definition erase_notifications :: "nat \<Rightarrow> nt_state \<Rightarrow> nt_state" where
  "erase_notifications k s = s\<lparr>nt_prefs := tbl_delete (\<lambda>p. np_user p = k) (nt_prefs s),
     nt_notifs := tbl_delete (\<lambda>n. n_user n = k) (nt_notifs s)\<rparr>"

definition erase_tokens :: "nat \<Rightarrow> auth_tables \<Rightarrow> auth_tables" where
  "erase_tokens k s = s\<lparr>au_verifications := tbl_delete (\<lambda>t. ut_user t = k) (au_verifications s),
     au_resets := tbl_delete (\<lambda>t. ut_user t = k) (au_resets s)\<rparr>"

definition erase_invitations :: "nat \<Rightarrow> invitation table \<Rightarrow> invitation table" where
  "erase_invitations k = tbl_delete (\<lambda>i. iv_invited_by i = k)"

section \<open>Bookings\<close>

definition series_of :: "nat \<Rightarrow> recurring_booking table \<Rightarrow> nat list" where
  "series_of k t = map rb_id (tbl_filter (\<lambda>rb. rb_user rb = k) t)"

text \<open>The first argument holds the series of the user, whose bookings by others lose the reference.\<close>

definition erase_bookings :: "nat list \<Rightarrow> nat \<Rightarrow> booking table \<Rightarrow> booking table" where
  "erase_bookings series k t =
     each (\<lambda>b. b\<lparr>b_cancelled_by := unlink (\<lambda>i. i = k) (b_cancelled_by b),
                 b_recurring := unlink (\<lambda>i. i \<in> set series) (b_recurring b)\<rparr>)
       (tbl_delete (\<lambda>b. b_user b = k) t)"

definition erase_bk :: "nat \<Rightarrow> bk_state \<Rightarrow> bk_state" where
  "erase_bk k s =
     (let gone = map b_id (tbl_filter (\<lambda>b. b_user b = k) (bk_bookings s))
      in s\<lparr>bk_acc := erase_accounts k (bk_acc s), bk_nt := erase_notifications k (bk_nt s),
           bk_bookings := erase_bookings (series_of k (bk_recurring s)) k (bk_bookings s),
           bk_recurring := tbl_delete (\<lambda>rb. rb_user rb = k) (bk_recurring s),
           bk_participants := tbl_delete (\<lambda>p. bp_user p = k \<or> bp_booking p \<in> set gone) (bk_participants s),
           bk_blocks := each (\<lambda>x. x\<lparr>bl_blocked_by := unlink (\<lambda>i. i = k) (bl_blocked_by x)\<rparr>) (bk_blocks s),
           bk_cancel_audits := each (\<lambda>x. x\<lparr>ca_cancelled_by := unlink (\<lambda>i. i = k) (ca_cancelled_by x)\<rparr>)
             (tbl_delete (\<lambda>x. ca_booking x \<in> set gone) (bk_cancel_audits s)),
           bk_change_audits := each (\<lambda>x. x\<lparr>ch_changed_by := unlink (\<lambda>i. i = k) (ch_changed_by x)\<rparr>)
             (tbl_delete (\<lambda>x. ch_booking x \<in> set gone) (bk_change_audits s)),
           bk_logs := each (\<lambda>x. x\<lparr>lg_booking := unlink (\<lambda>i. i \<in> set gone) (lg_booking x),
             lg_user := unlink (\<lambda>i. i = k) (lg_user x), lg_checked_by := unlink (\<lambda>i. i = k) (lg_checked_by x)\<rparr>)
             (bk_logs s)\<rparr>)"

section \<open>Boards and storage\<close>

definition erase_boards :: "nat \<Rightarrow> board table \<Rightarrow> board table" where
  "erase_boards k = each (\<lambda>b. b\<lparr>bo_created_by := unlink (\<lambda>i. i = k) (bo_created_by b)\<rparr>)"

definition erase_tasks :: "nat \<Rightarrow> task table \<Rightarrow> task table" where
  "erase_tasks k = each (\<lambda>t. t\<lparr>tk_assignee := unlink (\<lambda>i. i = k) (tk_assignee t),
     tk_created_by := unlink (\<lambda>i. i = k) (tk_created_by t)\<rparr>)"

definition erase_crm :: "nat \<Rightarrow> crm_state \<Rightarrow> crm_state" where
  "erase_crm k s = s\<lparr>cr_acc := erase_accounts k (cr_acc s), cr_nt := erase_notifications k (cr_nt s),
     cr_boards := erase_boards k (cr_boards s), cr_tasks := erase_tasks k (cr_tasks s),
     cr_history := each (\<lambda>h. h\<lparr>th_user := unlink (\<lambda>i. i = k) (th_user h)\<rparr>) (cr_history s)\<rparr>"

text \<open>
  A folder of the user goes with everything below it, whoever owns that; a file goes with its shares.
\<close>

definition erase_st :: "nat \<Rightarrow> st_state \<Rightarrow> st_state" where
  "erase_st k s =
     (let s1 = remove_folders (map fo_id (tbl_filter (\<lambda>f. fo_owner f = k) (st_folders s)))
                 (remove_files (\<lambda>f. fi_owner f = k) s)
      in s1\<lparr>st_acc := erase_accounts k (st_acc s), st_nt := erase_notifications k (st_nt s),
            st_perms := each (\<lambda>p. p\<lparr>fp_granted_by := unlink (\<lambda>i. i = k) (fp_granted_by p)\<rparr>)
              (tbl_delete (\<lambda>p. fp_user p = Some k) (st_perms s1)),
            st_shares := tbl_delete (\<lambda>x. sh_with x = k \<or> sh_by x = k) (st_shares s1)\<rparr>)"

definition files_gone :: "st_state \<Rightarrow> st_state \<Rightarrow> nat list" where
  "files_gone s s' = filter (\<lambda>i. i \<notin> set (map fi_id (rows (st_files s')))) (map fi_id (rows (st_files s)))"

definition erase_cd :: "nat \<Rightarrow> cd_state \<Rightarrow> cd_state" where
  "erase_cd k s =
     (let st = erase_st k (cd_st s); gone = files_gone (cd_st s) st
      in s\<lparr>cd_crm := erase_crm k (cd_crm s), cd_st := st,
           cd_comments := each (\<lambda>c. c\<lparr>cm_author := unlink (\<lambda>i. i = k) (cm_author c)\<rparr>) (cd_comments s),
           cd_attachments := each (\<lambda>a. a\<lparr>ta_storage_file := unlink (\<lambda>i. i \<in> set gone) (ta_storage_file a),
             ta_uploaded_by := unlink (\<lambda>i. i = k) (ta_uploaded_by a)\<rparr>) (cd_attachments s)\<rparr>)"

section \<open>Leave requests and onboarding\<close>

definition erase_leaves :: "nat \<Rightarrow> leave table \<Rightarrow> leave table" where
  "erase_leaves k t = each (\<lambda>l. l\<lparr>lv_assigned_reviewer := unlink (\<lambda>i. i = k) (lv_assigned_reviewer l),
     lv_reviewed_by := unlink (\<lambda>i. i = k) (lv_reviewed_by l)\<rparr>) (tbl_delete (\<lambda>l. lv_user l = k) t)"

definition erase_balances :: "nat \<Rightarrow> balance table \<Rightarrow> balance table" where
  "erase_balances k = tbl_delete (\<lambda>b. lb_user b = k)"

definition erase_hr :: "nat \<Rightarrow> hr_state \<Rightarrow> hr_state" where
  "erase_hr k s = s\<lparr>hr_acc := erase_accounts k (hr_acc s), hr_nt := erase_notifications k (hr_nt s),
     hr_leaves := erase_leaves k (hr_leaves s), hr_balances := erase_balances k (hr_balances s)\<rparr>"

definition erase_ob :: "nat \<Rightarrow> ob_state \<Rightarrow> ob_state" where
  "erase_ob k s = s\<lparr>ob_acc := erase_accounts k (ob_acc s),
     ob_progress := tbl_delete (\<lambda>p. pg_user p = k) (ob_progress s),
     ob_assignments := each (\<lambda>a. a\<lparr>oa_assigned_by := unlink (\<lambda>i. i = k) (oa_assigned_by a)\<rparr>)
       (tbl_delete (\<lambda>a. oa_user a = k) (ob_assignments s))\<rparr>"

section \<open>Passes and services\<close>

definition erase_gs :: "nat \<Rightarrow> gs_state \<Rightarrow> gs_state" where
  "erase_gs k s =
     (let gone = map gp_id (tbl_filter (\<lambda>p. gp_created_by p = k) (gs_passes s))
      in s\<lparr>gs_acc := erase_accounts k (gs_acc s), gs_nt := erase_notifications k (gs_nt s),
           gs_passes := tbl_delete (\<lambda>p. gp_created_by p = k) (gs_passes s),
           gs_logs := each (\<lambda>x. x\<lparr>al_guest_pass := unlink (\<lambda>i. i \<in> set gone) (al_guest_pass x),
             al_user := unlink (\<lambda>i. i = k) (al_user x), al_checked_by := unlink (\<lambda>i. i = k) (al_checked_by x)\<rparr>)
             (gs_logs s)\<rparr>)"

definition erase_sv :: "nat \<Rightarrow> sv_state \<Rightarrow> sv_state" where
  "erase_sv k s = s\<lparr>sv_bk := erase_bk k (sv_bk s),
     sv_requests := each (\<lambda>r. r\<lparr>sr_assigned_to := unlink (\<lambda>i. i = k) (sr_assigned_to r)\<rparr>)
       (tbl_delete (\<lambda>r. sr_created_by r = Some k) (sv_requests s)),
     sv_announcements := each (\<lambda>a. a\<lparr>an_author := unlink (\<lambda>i. i = k) (an_author a)\<rparr>) (sv_announcements s),
     sv_reads := tbl_delete (\<lambda>r. ar_user r = k) (sv_reads s)\<rparr>"

section \<open>The whole database\<close>

definition erase_cp :: "nat list \<Rightarrow> nat \<Rightarrow> cp_state \<Rightarrow> cp_state" where
  "erase_cp series k s = s\<lparr>cp_acc := erase_accounts k (cp_acc s), cp_nt := erase_notifications k (cp_nt s),
     cp_invitations := erase_invitations k (cp_invitations s), cp_auth := erase_tokens k (cp_auth s),
     cp_leaves := erase_leaves k (cp_leaves s), cp_balances := erase_balances k (cp_balances s),
     cp_boards := erase_boards k (cp_boards s), cp_tasks := erase_tasks k (cp_tasks s),
     cp_bookings := erase_bookings series k (cp_bookings s), cp_ob := erase_ob k (cp_ob s)\<rparr>"

record db_state =
  db_us :: us_state
  db_sv :: sv_state
  db_cd :: cd_state
  db_hr :: hr_state
  db_gs :: gs_state

definition erase_user :: "nat \<Rightarrow> db_state \<Rightarrow> db_state" where
  "erase_user k s = \<lparr>
     db_us = (db_us s)\<lparr>us_cp := erase_cp (series_of k (bk_recurring (sv_bk (db_sv s)))) k (us_cp (db_us s))\<rparr>,
     db_sv = erase_sv k (db_sv s), db_cd = erase_cd k (db_cd s), db_hr = erase_hr k (db_hr s),
     db_gs = erase_gs k (db_gs s)\<rparr>"

text \<open>\<open>perform_destroy\<close>: not oneself, not a superadmin; the sessions end, then the row goes.\<close>

definition destroy_user :: "nat \<Rightarrow> user \<Rightarrow> db_state \<Rightarrow> api_error + db_state" where
  "destroy_user k u s = (case IsSuperAdmin (Some u) of
     Some e \<Rightarrow> Inl e
   | None \<Rightarrow> (case tbl_get u_id k (ac_users (us_acc (db_us s))) of
       None \<Rightarrow> Inl NotFound
     | Some t \<Rightarrow> guarded (first_err [
           require (u_id t \<noteq> u_id u) (raise_validation_error ''detail'' ''delete self''),
           require (u_role t \<noteq> Superadmin) (raise_validation_error ''detail'' ''delete superadmin'')])
         (erase_user k (s\<lparr>db_us := revoke_sessions k (db_us s)\<rparr>))))"

text \<open>\<open>RetrieveDestroyAPIView.get\<close>: the account with the number of its bookings and tasks.\<close>

definition user_detail :: "nat \<Rightarrow> user \<Rightarrow> db_state \<Rightarrow> api_error + user \<times> nat \<times> nat" where
  "user_detail k u s = (case IsSuperAdmin (Some u) of
     Some e \<Rightarrow> Inl e
   | None \<Rightarrow> (case tbl_get u_id k (ac_users (us_acc (db_us s))) of
       None \<Rightarrow> Inl NotFound
     | Some t \<Rightarrow> Inr (t, length (tbl_filter (\<lambda>b. b_user b = k) (bk_bookings (sv_bk (db_sv s)))),
         length (tbl_filter (\<lambda>t. tk_assignee t = Some k) (cr_tasks (cd_crm (db_cd s)))))))"

end
