(* ===== verification/ErasureProps.thy ===== *)
theory ErasureProps
  imports Erasure BookingProps LeaveProps CrmProps OnboardingProps AccessSystem SessionProps ServiceProps StorageTrees
begin

text \<open>
  The permanent deletion of a user: no row of the database refers to the user afterwards, the invariants
  of the components survive, and what of other people goes with the user.
\<close>

section \<open>The columns that refer to a user\<close>

definition refs :: "('r \<Rightarrow> nat option) \<Rightarrow> 'r table \<Rightarrow> nat list" where
  "refs f t = concat (map (\<lambda>r. case f r of None \<Rightarrow> [] | Some k \<Rightarrow> [k]) (rows t))"

lemma set_refs [simp]: "k \<in> set (refs f t) \<longleftrightarrow> (\<exists>r \<in> set (rows t). f r = Some k)"
  by (auto simp: refs_def eq_commute[of "Some k"] split: option.splits)

definition users_in_bk :: "bk_state \<Rightarrow> nat list" where
  "users_in_bk s = refs (Some \<circ> u_id) (ac_users (bk_acc s)) @ refs (Some \<circ> b_user) (bk_bookings s)
     @ refs b_cancelled_by (bk_bookings s) @ refs (Some \<circ> rb_user) (bk_recurring s)
     @ refs (Some \<circ> bp_user) (bk_participants s) @ refs bl_blocked_by (bk_blocks s)
     @ refs ca_cancelled_by (bk_cancel_audits s) @ refs ch_changed_by (bk_change_audits s)
     @ refs lg_user (bk_logs s) @ refs lg_checked_by (bk_logs s)"

definition users_in_nt :: "nt_state \<Rightarrow> nat list" where
  "users_in_nt s = refs (Some \<circ> np_user) (nt_prefs s) @ refs (Some \<circ> n_user) (nt_notifs s)"

definition users_in_crm :: "crm_state \<Rightarrow> nat list" where
  "users_in_crm s = refs bo_created_by (cr_boards s) @ refs tk_assignee (cr_tasks s) @ refs tk_created_by (cr_tasks s)
     @ refs th_user (cr_history s)"

definition users_in_st :: "st_state \<Rightarrow> nat list" where
  "users_in_st s = refs (Some \<circ> fo_owner) (st_folders s) @ refs (Some \<circ> fi_owner) (st_files s)
     @ refs fp_user (st_perms s) @ refs fp_granted_by (st_perms s) @ refs (Some \<circ> sh_with) (st_shares s)
     @ refs (Some \<circ> sh_by) (st_shares s)"

definition users_in_cd :: "cd_state \<Rightarrow> nat list" where
  "users_in_cd s = users_in_crm (cd_crm s) @ users_in_st (cd_st s) @ refs cm_author (cd_comments s)
     @ refs ta_uploaded_by (cd_attachments s)"

definition users_in_hr :: "leave table \<Rightarrow> balance table \<Rightarrow> nat list" where
  "users_in_hr ls bs = refs (Some \<circ> lv_user) ls @ refs lv_assigned_reviewer ls @ refs lv_reviewed_by ls
     @ refs (Some \<circ> lb_user) bs"

definition users_in_ob :: "ob_state \<Rightarrow> nat list" where
  "users_in_ob s = refs (Some \<circ> pg_user) (ob_progress s) @ refs (Some \<circ> oa_user) (ob_assignments s)
     @ refs oa_assigned_by (ob_assignments s)"

definition users_in_gs :: "gs_state \<Rightarrow> nat list" where
  "users_in_gs s = refs (Some \<circ> gp_created_by) (gs_passes s) @ refs al_user (gs_logs s) @ refs al_checked_by (gs_logs s)"

definition users_in_sv :: "sv_state \<Rightarrow> nat list" where
  "users_in_sv s = users_in_bk (sv_bk s) @ users_in_nt (bk_nt (sv_bk s)) @ refs sr_created_by (sv_requests s)
     @ refs sr_assigned_to (sv_requests s) @ refs an_author (sv_announcements s) @ refs (Some \<circ> ar_user) (sv_reads s)"

definition users_in_cp :: "cp_state \<Rightarrow> nat list" where
  "users_in_cp s = refs (Some \<circ> u_id) (ac_users (cp_acc s)) @ refs (Some \<circ> iv_invited_by) (cp_invitations s)
     @ refs (Some \<circ> ut_user) (au_verifications (cp_auth s)) @ refs (Some \<circ> ut_user) (au_resets (cp_auth s))
     @ users_in_hr (cp_leaves s) (cp_balances s) @ users_in_ob (cp_ob s) @ users_in_nt (cp_nt s)
     @ refs b_cancelled_by (cp_bookings s) @ refs tk_assignee (cp_tasks s)"

definition users_in :: "db_state \<Rightarrow> nat list" where
  "users_in s = users_in_cp (us_cp (db_us s)) @ users_in_sv (db_sv s) @ users_in_cd (db_cd s)
     @ users_in_hr (hr_leaves (db_hr s)) (hr_balances (db_hr s)) @ users_in_gs (db_gs s)"

lemmas erase_defs = erase_accounts_def erase_notifications_def erase_tokens_def erase_invitations_def
  erase_bookings_def erase_boards_def erase_tasks_def erase_leaves_def erase_balances_def

lemma erase_bk_clean: "k \<notin> set (users_in_bk (erase_bk k s))"
  by (auto simp: users_in_bk_def erase_bk_def erase_defs Let_def)

lemma erase_nt_clean: "k \<notin> set (users_in_nt (erase_notifications k s))"
  by (auto simp: users_in_nt_def erase_defs)

lemma erase_crm_clean: "k \<notin> set (users_in_crm (erase_crm k s))"
  by (auto simp: users_in_crm_def erase_crm_def erase_defs)

lemma erase_hr_clean: "k \<notin> set (users_in_hr (erase_leaves k ls) (erase_balances k bs))"
  by (auto simp: users_in_hr_def erase_defs)

lemma erase_ob_clean: "k \<notin> set (users_in_ob (erase_ob k s))"
  by (auto simp: users_in_ob_def erase_ob_def)

lemma erase_gs_clean: "k \<notin> set (users_in_gs (erase_gs k s))"
  by (auto simp: users_in_gs_def erase_gs_def Let_def)

lemma erase_sv_clean: "k \<notin> set (users_in_sv (erase_sv k s))"
  using erase_bk_clean[of k "sv_bk s"] erase_nt_clean[of k "bk_nt (sv_bk s)"]
  by (auto simp: users_in_sv_def erase_sv_def) (auto simp: erase_bk_def Let_def)

lemma erase_cp_clean: "k \<notin> set (users_in_cp (erase_cp series k s))"
  using erase_hr_clean[of k "cp_leaves s" "cp_balances s"] erase_ob_clean[of k "cp_ob s"] erase_nt_clean[of k "cp_nt s"]
  by (auto simp: users_in_cp_def erase_cp_def) (auto simp: erase_defs)

section \<open>Folders\<close>

definition closed_below :: "folder list \<Rightarrow> nat list \<Rightarrow> bool" where
  "closed_below fs ks \<longleftrightarrow> (\<forall>f \<in> set fs. \<forall>p. fo_parent f = Some p \<longrightarrow> p \<in> set ks \<longrightarrow> fo_id f \<in> set ks)"

lemma length_filter_strict:
  assumes "\<And>x. P x \<Longrightarrow> Q x" "x \<in> set xs" "Q x" "\<not> P x"
  shows "length (filter P xs) < length (filter Q xs)"
proof -
  have "filter P xs = filter P (filter Q xs)" using assms(1) by (simp add: conj_absorb cong: conj_cong) (metis assms(1))
  then show ?thesis using length_filter_less[of x "filter Q xs" P] assms by simp
qed

lemma folders_below_fix:
  assumes "closed_below fs ks" shows "folders_below n fs ks = ks"
proof -
  have "filter (\<lambda>f. fo_id f \<notin> set ks \<and> (case fo_parent f of None \<Rightarrow> False | Some p \<Rightarrow> p \<in> set ks)) fs = []"
    using assms by (auto simp: closed_below_def filter_empty_conv split: option.splits)
  then show ?thesis by (induction n) simp_all
qed

text \<open>As many rounds as there are folders outside of the list reach every folder below it.\<close>

lemma folders_below_closed:
  "length (filter (\<lambda>f. fo_id f \<notin> set ks) fs) \<le> n \<Longrightarrow> closed_below fs (folders_below n fs ks)"
proof (induction n arbitrary: ks)
  case 0
  then show ?case by (auto simp: closed_below_def filter_empty_conv)
next
  case (Suc n)
  let ?new = "map fo_id (filter (\<lambda>f. fo_id f \<notin> set ks \<and> (case fo_parent f of None \<Rightarrow> False | Some p \<Rightarrow> p \<in> set ks)) fs)"
  show ?case
  proof (cases "?new = []")
    case True
    then have "closed_below fs ks"
      by (auto simp: closed_below_def filter_empty_conv split: option.splits)
    then show ?thesis by (simp add: folders_below_fix del: folders_below.simps(2))
  next
    case False
    then obtain f where f: "f \<in> set fs" "fo_id f \<notin> set ks" "fo_id f \<in> set ?new"
      by (auto simp: filter_empty_conv)
    have "length (filter (\<lambda>f. fo_id f \<notin> set (ks @ ?new)) fs) < length (filter (\<lambda>f. fo_id f \<notin> set ks) fs)"
      using f by (intro length_filter_strict) auto
    then show ?thesis using Suc by simp
  qed
qed

inductive under :: "folder list \<Rightarrow> nat \<Rightarrow> nat \<Rightarrow> bool" for fs k where
  under_refl: "under fs k k"
| under_step: "under fs k p \<Longrightarrow> f \<in> set fs \<Longrightarrow> fo_parent f = Some p \<Longrightarrow> under fs k (fo_id f)"

lemma under_reached:
  assumes "under fs k x" "k \<in> set ks" shows "x \<in> set (folders_below (length fs) fs ks)"
  using assms
proof (induction rule: under.induct)
  case under_refl
  then show ?case using folders_below_mono by blast
next
  case (under_step p f)
  moreover have "closed_below fs (folders_below (length fs) fs ks)"
    by (rule folders_below_closed) simp
  ultimately show ?case by (auto simp: closed_below_def)
qed

lemma remove_folders_under:
  assumes "d \<in> set ks" "under (rows (st_folders s)) d x" "f \<in> set (rows (st_files (remove_folders ks s)))"
  shows "fi_folder f \<noteq> Some x"
  using assms under_reached[OF assms(2,1)] by (auto simp: remove_folders_def remove_files_def Let_def)

lemma remove_files_frame [simp]:
  "st_folders (remove_files P s) = st_folders s" "st_objects (remove_files P s) = st_objects s"
  "st_perms (remove_files P s) = st_perms s"
  by (simp_all add: remove_files_def Let_def)

lemma remove_folders_shrinks:
  "f \<in> set (rows (st_folders (remove_folders ks s))) \<Longrightarrow> f \<in> set (rows (st_folders s)) \<and> fo_id f \<notin> set ks"
  using folders_below_mono[of ks "length (rows (st_folders s))" "rows (st_folders s)"]
  by (auto simp: remove_folders_def Let_def)

lemma erase_st_clean: "k \<notin> set (users_in_st (erase_st k s))"
proof -
  let ?ks = "map fo_id (tbl_filter (\<lambda>f. fo_owner f = k) (st_folders s))"
  let ?s = "remove_folders ?ks (remove_files (\<lambda>f. fi_owner f = k) s)"
  have folders: "fo_owner f \<noteq> k" if "f \<in> set (rows (st_folders ?s))" for f
    using remove_folders_shrinks[OF that] by auto
  have files: "fi_owner f \<noteq> k" if "f \<in> set (rows (st_files ?s))" for f
    using remove_folders_files[OF that] by (simp add: remove_files_def Let_def)
  have "st_folders (erase_st k s) = st_folders ?s" "st_files (erase_st k s) = st_files ?s"
    by (simp_all add: erase_st_def Let_def)
  then have "k \<notin> set (refs (Some \<circ> fo_owner) (st_folders (erase_st k s)))" "k \<notin> set (refs (Some \<circ> fi_owner) (st_files (erase_st k s)))"
    unfolding set_refs comp_apply option.inject by (metis folders, metis files)
  moreover have "k \<notin> set (refs fp_user (st_perms (erase_st k s)))" "k \<notin> set (refs fp_granted_by (st_perms (erase_st k s)))"
    "k \<notin> set (refs (Some \<circ> sh_with) (st_shares (erase_st k s)))" "k \<notin> set (refs (Some \<circ> sh_by) (st_shares (erase_st k s)))"
    by (simp_all add: erase_st_def Let_def)
  ultimately show ?thesis unfolding users_in_st_def set_append Un_iff by iprover
qed

lemma erase_cd_clean: "k \<notin> set (users_in_cd (erase_cd k s))"
  using erase_crm_clean[of k "cd_crm s"] erase_st_clean[of k "cd_st s"]
  by (auto simp: users_in_cd_def erase_cd_def Let_def)

section \<open>The invariants of the components\<close>

lemma each_wf: "(\<And>r. key (f r) = key r) \<Longrightarrow> tbl_wf key t \<Longrightarrow> tbl_wf key (each f t)"
  by (simp add: each_def tbl_wf_update)

lemma erase_bk_inv:
  assumes "bk_inv s" shows "bk_inv (erase_bk k s)"
proof -
  let ?series = "series_of k (bk_recurring s)"
  let ?f = "\<lambda>b. b\<lparr>b_cancelled_by := unlink (\<lambda>i. i = k) (b_cancelled_by b),
      b_recurring := unlink (\<lambda>i. i \<in> set ?series) (b_recurring b)\<rparr>"
  have "schedule_ok (filter (\<lambda>b. b_user b \<noteq> k) (rows (bk_bookings s))) (rows (bk_blocks s))"
    using assms unfolding bk_inv_iff by (elim conjE schedule_ok_sub) auto
  then have "schedule_ok (map ?f (filter (\<lambda>b. b_user b \<noteq> k) (rows (bk_bookings s)))) (rows (bk_blocks s))"
    by (rule schedule_ok_tame[rotated]) (simp add: tame_def)
  then have "schedule_ok (rows (bk_bookings (erase_bk k s))) (rows (bk_blocks (erase_bk k s)))"
    by (simp add: schedule_ok_def erase_bk_def erase_bookings_def Let_def blocked_by_block_def)
  then show ?thesis
    using assms unfolding bk_inv_iff
    by (simp add: erase_bk_def erase_bookings_def Let_def each_wf tbl_wf_delete)
qed

lemma find_filter_same: "(\<And>x. P x \<Longrightarrow> Q x) \<Longrightarrow> find P (filter Q xs) = find P xs"
  by (induction xs) auto

lemma used_after_erasure: "used_days (erase_hr k s) uid year = (if uid = k then 0 else used_days s uid year)"
proof (cases "uid = k")
  case True
  then have "balance_row (erase_hr k s) uid year = None"
    by (simp add: balance_row_def erase_hr_def erase_balances_def find_None_iff)
  with True show ?thesis by (simp add: used_days_def)
next
  case False
  then have "find (\<lambda>b. lb_user b = uid \<and> lb_year b = year) (filter (\<lambda>b. lb_user b \<noteq> k) (rows (hr_balances s)))
      = find (\<lambda>b. lb_user b = uid \<and> lb_year b = year) (rows (hr_balances s))"
    by (intro find_filter_same) simp
  then have "balance_row (erase_hr k s) uid year = balance_row s uid year"
    by (simp add: balance_row_def erase_hr_def erase_balances_def)
  with False show ?thesis by (simp add: used_days_def)
qed

lemma spent_after_erasure: "spent (erase_hr k s) uid year = (if uid = k then 0 else spent s uid year)"
proof -
  have charge_other: "charge uid year l = 0" if "lv_user l \<noteq> uid" for l
    using that by (simp add: charge_def)
  have "sum_list (map (charge uid year) (map f (filter (\<lambda>l. lv_user l \<noteq> k) ls)))
      = (if uid = k then 0 else sum_list (map (charge uid year) ls))"
    if f: "\<And>l. charge uid year (f l) = charge uid year l" for f ls
    by (cases "k = uid"; induction ls) (simp_all add: f charge_other)
  then show ?thesis by (simp add: spent_def erase_hr_def erase_leaves_def charge_def duration_days_def)
qed

lemma erase_hr_inv:
  assumes "hr_inv s" shows "hr_inv (erase_hr k s)"
proof -
  have "distinct (map (\<lambda>b. (lb_user b, lb_year b)) (rows (hr_balances (erase_hr k s))))"
    using assms by (simp add: hr_inv_def erase_hr_def erase_balances_def distinct_map_filter)
  moreover have "tbl_wf lv_id (hr_leaves (erase_hr k s))" "tbl_wf lb_id (hr_balances (erase_hr k s))"
    "tbl_wf u_id (ac_users (hr_acc (erase_hr k s)))"
    using assms by (simp_all add: hr_inv_def erase_hr_def erase_leaves_def erase_balances_def erase_accounts_def each_wf tbl_wf_delete)
  moreover have "list_all leave_wf (rows (hr_leaves (erase_hr k s)))"
    "\<forall>a \<in> set (rows (hr_leaves (erase_hr k s))). \<forall>b \<in> set (rows (hr_leaves (erase_hr k s))). leaves_disjoint a b"
    using assms by (simp_all add: hr_inv_def erase_hr_def erase_leaves_def list_all_iff leave_wf_def leaves_disjoint_def)
  moreover have "\<forall>uid year. used_days (erase_hr k s) uid year = spent (erase_hr k s) uid year"
    using assms by (simp add: hr_inv_def used_after_erasure spent_after_erasure)
  ultimately show ?thesis unfolding hr_inv_def by blast
qed

lemma erase_crm_inv:
  assumes "crm_inv s" shows "crm_inv (erase_crm k s)"
proof -
  have "wip_count (erase_tasks k (cr_tasks s)) c = wip_count (cr_tasks s) c" for c
    by (simp add: wip_count_def erase_tasks_def filter_map comp_def active_in_def[abs_def])
  then show ?thesis
    using assms
    by (simp add: crm_inv_def wip_ok_def erase_crm_def erase_boards_def erase_tasks_def each_wf image_image)
qed

lemma erase_ob_inv: "ob_inv s \<Longrightarrow> ob_inv (erase_ob k s)"
  by (auto simp: ob_inv_def erase_ob_def each_wf tbl_wf_delete comp_def distinct_map_filter image_subset_iff)

lemma erase_gs_inv: "gs_inv s \<Longrightarrow> gs_inv (erase_gs k s)"
  by (simp add: gs_inv_def erase_gs_def Let_def tbl_wf_delete distinct_map_filter)

lemma erase_us_inv:
  assumes "us_inv s"
  shows "us_inv ((revoke_sessions k s)\<lparr>us_cp := erase_cp series k (us_cp (revoke_sessions k s))\<rparr>)"
  using assms
  by (auto simp: us_inv_def cp_inv_def invitations_ok_def users_ok_def us_auth_def revoke_sessions_def on_auth_def
      blacklist_user_tokens_def erase_cp_def erase_accounts_def erase_invitations_def erase_tokens_def
      tbl_wf_delete tbl_wf_update distinct_map_filter list_all_iff)

section \<open>The deletion\<close>

lemma destroy_user_ok:
  assumes "destroy_user k u s = Inr s'"
  shows "s' = erase_user k (s\<lparr>db_us := revoke_sessions k (db_us s)\<rparr>)" "u_role u = Superadmin" "k \<noteq> u_id u"
    "\<exists>t \<in> set (rows (ac_users (us_acc (db_us s)))). u_id t = k \<and> u_role t \<noteq> Superadmin"
  using assms
  by (auto simp: destroy_user_def require_simps IsSuperAdmin_def authenticated_def dest!: tbl_get_SomeD split: option.splits if_splits)

text \<open>
  C37: a superadmin deletes a user for good: afterwards no row of any table refers to the user, and
  everything the components keep still holds: no double booking, the balances of leave, the WIP limits,
  the rows of onboarding, the counts of the passes, the distinct addresses and tokens.
\<close>

theorem user_deletion_is_complete:
  assumes ok: "destroy_user k u s = Inr s'"
    and "bk_inv (sv_bk (db_sv s))" "hr_inv (db_hr s)" "crm_inv (cd_crm (db_cd s))" "ob_inv (cp_ob (us_cp (db_us s)))"
      "gs_inv (db_gs s)" "us_inv (db_us s)"
  shows "k \<notin> set (users_in s') \<and> bk_inv (sv_bk (db_sv s')) \<and> hr_inv (db_hr s') \<and> crm_inv (cd_crm (db_cd s'))
     \<and> ob_inv (cp_ob (us_cp (db_us s'))) \<and> gs_inv (db_gs s') \<and> us_inv (db_us s')"
proof -
  have s': "db_sv s' = erase_sv k (db_sv s)" "db_cd s' = erase_cd k (db_cd s)" "db_hr s' = erase_hr k (db_hr s)"
    "db_gs s' = erase_gs k (db_gs s)"
    "us_cp (db_us s') = erase_cp (series_of k (bk_recurring (sv_bk (db_sv s)))) k (us_cp (revoke_sessions k (db_us s)))"
    "db_us s' = (revoke_sessions k (db_us s))\<lparr>us_cp :=
       erase_cp (series_of k (bk_recurring (sv_bk (db_sv s)))) k (us_cp (revoke_sessions k (db_us s)))\<rparr>"
    by (simp_all add: destroy_user_ok(1)[OF ok] erase_user_def)
  have "hr_leaves (db_hr s') = erase_leaves k (hr_leaves (db_hr s))" "hr_balances (db_hr s') = erase_balances k (hr_balances (db_hr s))"
    by (simp_all add: s' erase_hr_def)
  then have "k \<notin> set (users_in s')"
    unfolding users_in_def s'(1,2,4,5) set_append Un_iff
    using erase_cp_clean erase_sv_clean erase_cd_clean erase_hr_clean erase_gs_clean by metis
  moreover have "bk_inv (sv_bk (db_sv s'))" using erase_bk_inv[OF assms(2)] by (simp add: s' erase_sv_def)
  moreover have "hr_inv (db_hr s')" using erase_hr_inv[OF assms(3)] by (simp add: s')
  moreover have "crm_inv (cd_crm (db_cd s'))" using erase_crm_inv[OF assms(4)] by (simp add: s' erase_cd_def Let_def)
  moreover have "ob_inv (cp_ob (us_cp (db_us s')))"
    using erase_ob_inv[OF assms(5)] by (simp add: s' erase_cp_def revoke_sessions_def on_auth_def)
  moreover have "gs_inv (db_gs s')" using erase_gs_inv[OF assms(6)] by (simp add: s')
  moreover have "us_inv (db_us s')" unfolding s'(6) by (rule erase_us_inv[OF assms(7)])
  ultimately show ?thesis by blast
qed

definition demo_cd :: "sfile list \<Rightarrow> task_attachment list \<Rightarrow> cd_state" where
  "demo_cd fs as = \<lparr>cd_crm = demo_crm [(demo_task 5 1 1)\<lparr>tk_assignee := Some 2\<rparr>],
     cd_st = demo_storage [demo_folder 1 None, (demo_folder 2 (Some 1))\<lparr>fo_owner := 3\<rparr>] fs [],
     cd_comments = empty_table, cd_checklists = empty_table, cd_items = empty_table, cd_attachments = Table as 9\<rparr>"

definition demo_db :: "sfile list \<Rightarrow> task_attachment list \<Rightarrow> db_state" where
  "demo_db fs as = \<lparr>db_us = demo_us,
     db_sv = demo_sv (demo_state (default_resource 1) [demo_booking 1 2 Confirmed (hours 4) (hours 5) 0]) [] [] [],
     db_cd = demo_cd fs as, db_hr = demo_hr [demo_leave 1 2 Lr_pending 3 5],
     db_gs = \<lparr>gs_acc = \<lparr>ac_users = empty_table, ac_companies = empty_table\<rparr>, gs_nt = demo_nt, gs_passes = empty_table,
       gs_logs = empty_table, gs_cache = [], gs_jobs = [], gs_mails = []\<rparr>\<rparr>"

theorem user_deletion_is_complete_witness:
  "\<exists>s'. destroy_user 2 (demo_user 4 Superadmin None) (demo_db [] []) = Inr s' \<and> 2 \<in> set (users_in (demo_db [] []))
     \<and> 2 \<notin> set (users_in s') \<and> bk_inv (sv_bk (db_sv s'))"
proof -
  let ?s = "demo_db [] []"
  have "is_ok (destroy_user 2 (demo_user 4 Superadmin None) ?s)" by code_simp
  then obtain s' where s': "destroy_user 2 (demo_user 4 Superadmin None) ?s = Inr s'" by (auto simp: is_ok_iff)
  have "bk_inv (sv_bk (db_sv ?s))"
    by (simp add: demo_db_def demo_sv_def bk_inv_iff demo_defs tbl_wf_def schedule_ok_def empty_table_def clash_def)
  moreover have "hr_inv (db_hr ?s)"
    by (auto simp: demo_db_def hr_inv_def demo_hr_def tbl_wf_def used_days_def spent_def balance_row_def demo_leave_def
        leave_wf_def charge_def leaves_disjoint_def)
  moreover have "crm_inv (cd_crm (db_cd ?s))"
    unfolding demo_db_def demo_cd_def by (simp add: demo_crm_inv demo_task_def active_in_def)
  moreover have "ob_inv (cp_ob (us_cp (db_us ?s)))"
    by (simp add: demo_db_def demo_us_def demo_cp_def demo_ob_tables_def ob_inv_def one_default_def)
  moreover have "gs_inv (db_gs ?s)" by (simp add: demo_db_def gs_inv_def)
  moreover have "us_inv (db_us ?s)" by (simp add: demo_db_def demo_us_inv)
  ultimately have "2 \<notin> set (users_in s') \<and> bk_inv (sv_bk (db_sv s'))" using user_deletion_is_complete[OF s'] by blast
  moreover have "list_ex (\<lambda>i. i = 2) (users_in ?s)" by code_simp
  ultimately show ?thesis using s' by (auto simp: list_ex_iff)
qed

lemma erase_st_files:
  assumes "d \<in> set (rows (st_folders s))" "fo_owner d = k" "under (rows (st_folders s)) (fo_id d) x"
    "f \<in> set (rows (st_files (erase_st k s)))"
  shows "f \<in> set (rows (st_files s))" "fi_folder f \<noteq> Some x"
proof -
  let ?ks = "map fo_id (tbl_filter (\<lambda>f. fo_owner f = k) (st_folders s))"
  let ?s1 = "remove_files (\<lambda>f. fi_owner f = k) s"
  have f: "f \<in> set (rows (st_files (remove_folders ?ks ?s1)))"
    using assms(4) by (simp add: erase_st_def Let_def)
  have "f \<in> set (rows (st_files ?s1))" using remove_folders_files[OF f] by blast
  then show "f \<in> set (rows (st_files s))" by (simp add: remove_files_def Let_def)
  have "fo_id d \<in> set ?ks" using assms(1,2) by auto
  then show "fi_folder f \<noteq> Some x"
    by (rule remove_folders_under[OF _ _ f]) (simp add: assms(3))
qed

lemma erase_st_objects: "st_objects (erase_st k s) = st_objects s"
  by (simp add: erase_st_def Let_def)

text \<open>
  C38: the folders of the deleted user go with everything in and below them: a file that a colleague
  put there is gone, with the links from the tasks it was attached to, and its content stays in the
  storage service without a row that names it.
\<close>

theorem deletion_takes_the_files_of_others:
  assumes ok: "destroy_user k u s = Inr s'"
    and d: "d \<in> set (rows (st_folders (cd_st (db_cd s))))" "fo_owner d = k"
      "under (rows (st_folders (cd_st (db_cd s)))) (fo_id d) x"
    and f: "f \<in> set (rows (st_files (cd_st (db_cd s))))" "fi_folder f = Some x"
    and wf: "tbl_wf fi_id (st_files (cd_st (db_cd s)))"
  shows "fi_id f \<notin> fi_id ` set (rows (st_files (cd_st (db_cd s'))))
    \<and> (\<forall>a \<in> set (rows (cd_attachments (db_cd s'))). ta_storage_file a \<noteq> Some (fi_id f))
    \<and> st_objects (cd_st (db_cd s')) = st_objects (cd_st (db_cd s))"
proof -
  let ?st = "cd_st (db_cd s)"
  have cd: "db_cd s' = erase_cd k (db_cd s)" by (simp add: destroy_user_ok(1)[OF ok] erase_user_def)
  then have st: "cd_st (db_cd s') = erase_st k ?st" by (simp add: erase_cd_def Let_def)
  have gone: "fi_id f \<notin> fi_id ` set (rows (st_files (erase_st k ?st)))"
  proof
    assume "fi_id f \<in> fi_id ` set (rows (st_files (erase_st k ?st)))"
    then obtain g where g: "g \<in> set (rows (st_files (erase_st k ?st)))" "fi_id g = fi_id f" by auto
    then have "Some g = Some f"
      using tbl_get_row[OF wf erase_st_files(1)[OF d g(1)]] tbl_get_row[OF wf f(1)] by (simp only:)
    then show False using erase_st_files(2)[OF d g(1)] f(2) by simp
  qed
  then have "fi_id f \<in> set (files_gone ?st (erase_st k ?st))"
    using imageI[OF f(1), of fi_id] by (simp add: files_gone_def)
  then have "\<forall>a \<in> set (rows (cd_attachments (db_cd s'))). ta_storage_file a \<noteq> Some (fi_id f)"
    unfolding cd by (simp add: erase_cd_def Let_def)
  then show ?thesis using gone unfolding st erase_st_objects by blast
qed

text \<open>Employee 3 keeps a file in the subfolder of admin 2's folder; admin 2 is deleted.\<close>

theorem deletion_takes_the_files_of_others_witness:
  "\<exists>s'. destroy_user 2 (demo_user 4 Superadmin None) (demo_db [demo_file 1 3 (Some 2) (Some 1)] []) = Inr s'
     \<and> 1 \<notin> fi_id ` set (rows (st_files (cd_st (db_cd s'))))"
proof -
  let ?s = "demo_db [demo_file 1 3 (Some 2) (Some 1)] []"
  have "is_ok (destroy_user 2 (demo_user 4 Superadmin None) ?s)" by code_simp
  then obtain s' where s': "destroy_user 2 (demo_user 4 Superadmin None) ?s = Inr s'" by (auto simp: is_ok_iff)
  have d: "demo_folder 1 None \<in> set (rows (st_folders (cd_st (db_cd ?s))))" "fo_owner (demo_folder 1 None) = 2"
    by (simp_all add: demo_db_def demo_cd_def demo_storage_def demo_folder_def)
  have "(demo_folder 2 (Some 1))\<lparr>fo_owner := 3\<rparr> \<in> set (rows (st_folders (cd_st (db_cd ?s))))"
    by (simp add: demo_db_def demo_cd_def demo_storage_def)
  from under_step[OF under_refl this, of 1]
  have x: "under (rows (st_folders (cd_st (db_cd ?s)))) (fo_id (demo_folder 1 None)) 2"
    by (simp add: demo_folder_def)
  have f: "demo_file 1 3 (Some 2) (Some 1) \<in> set (rows (st_files (cd_st (db_cd ?s))))"
    "fi_folder (demo_file 1 3 (Some 2) (Some 1)) = Some 2" "tbl_wf fi_id (st_files (cd_st (db_cd ?s)))"
    by (simp_all add: demo_db_def demo_cd_def demo_storage_def demo_file_def tbl_wf_def)
  have id: "fi_id (demo_file 1 3 (Some 2) (Some 1)) = 1" by (simp add: demo_file_def)
  show ?thesis using deletion_takes_the_files_of_others[OF s' d x f] s' unfolding id by blast
qed

end
