(* ===== verification/TaskLists.thy ===== *)
theory TaskLists
  imports Tasks ResourceSearch
begin

text \<open>
  The lists of tasks (\<open>crm/views.py\<close>, \<open>crm/filters.py\<close>): \<open>TaskViewSet.list\<close> with \<open>TaskFilter\<close>, and the
  page of a board (\<open>BoardViewSet.retrieve\<close>) in its two forms, the columns with their tasks and the list.
  The cutting into pages is left out.
\<close>

section \<open>The filters\<close>

text \<open>
  A filter that was not sent, or whose value is malformed, filters nothing. \<open>tf_archived\<close> is the
  parameter as it was sent: its presence, its value in lower case and the boolean the framework reads in
  it (the argument \<open>parse\<close>) are three different things. \<open>tf_ordering\<close> holds the stripped parts of the
  parameter between its commas.
\<close>

record task_filter =
  tf_board :: "nat option"
  tf_column :: "nat option"
  tf_assignee :: "nat option"
  tf_priority :: string
  tf_labels :: "nat list"
  tf_from :: "date option"
  tf_until :: "date option"
  tf_deadline :: string
  tf_search :: string
  tf_archived :: "string option"
  tf_ordering :: "string list"

definition no_task_filter :: task_filter where
  "no_task_filter = \<lparr>tf_board = None, tf_column = None, tf_assignee = None, tf_priority = [], tf_labels = [],
     tf_from = None, tf_until = None, tf_deadline = [], tf_search = [], tf_archived = None, tf_ordering = []\<rparr>"

definition given :: "'a option \<Rightarrow> ('a \<Rightarrow> bool) \<Rightarrow> bool" where
  "given v P = (case v of None \<Rightarrow> True | Some x \<Rightarrow> P x)"

definition deadline_date :: "int \<Rightarrow> task \<Rightarrow> date option" where
  "deadline_date off t = map_option (local_date off) (tk_deadline t)"

definition due :: "int \<Rightarrow> task \<Rightarrow> (date \<Rightarrow> bool) \<Rightarrow> bool" where
  "due off t P = (case deadline_date off t of None \<Rightarrow> False | Some d \<Rightarrow> P d)"

definition filter_deadline :: "int \<Rightarrow> datetime \<Rightarrow> string \<Rightarrow> task \<Rightarrow> bool" where
  "filter_deadline off now v t =
     (let today = local_date off now
      in if v = ''overdue'' then due off t (\<lambda>d. d < today) \<and> \<not> tk_is_archived t
         else if v = ''today'' then due off t (\<lambda>d. d = today)
         else if v = ''this_week'' then due off t (\<lambda>d. today \<le> d \<and> d \<le> today + 7)
         else True)"

definition task_matches ::
  "int \<Rightarrow> datetime \<Rightarrow> (string \<Rightarrow> bool option) \<Rightarrow> crm_state \<Rightarrow> task_filter \<Rightarrow> task \<Rightarrow> bool" where
  "task_matches off now parse s q t \<longleftrightarrow>
     given (tf_board q) (\<lambda>b. map_option cl_board (column_of s (tk_column t)) = Some b)
     \<and> given (tf_column q) (\<lambda>c. tk_column t = c)
     \<and> given (tf_assignee q) (\<lambda>a. tk_assignee t = Some a)
     \<and> (tf_priority q = [] \<or> priority_key (tk_priority t) = tf_priority q)
     \<and> (tf_labels q = [] \<or> list_ex (\<lambda>l. l \<in> set (tf_labels q)) (tk_labels t))
     \<and> given (tf_from q) (\<lambda>d1. due off t (\<lambda>d. d1 \<le> d))
     \<and> given (tf_until q) (\<lambda>d2. due off t (\<lambda>d. d \<le> d2))
     \<and> filter_deadline off now (tf_deadline q) t
     \<and> (tf_search q = [] \<or> icontains (tf_search q) (tk_title t))
     \<and> given (Option.bind (tf_archived q) parse) (\<lambda>b. tk_is_archived t = b)"

section \<open>The order\<close>

text \<open>
  The priority is a text in the database and is ordered as one. A null comes last in ascending order
  and first in descending order.
\<close>

definition priority_rank :: "priority \<Rightarrow> int" where
  "priority_rank p = (case p of High \<Rightarrow> 0 | Low \<Rightarrow> 1 | Medium \<Rightarrow> 2 | Urgent \<Rightarrow> 3)"

definition field_key :: "string \<Rightarrow> task \<Rightarrow> int \<times> int" where
  "field_key f t =
     (if f = ''priority'' then (0, priority_rank (tk_priority t))
      else if f = ''deadline'' then (case tk_deadline t of None \<Rightarrow> (1, 0) | Some d \<Rightarrow> (0, d))
      else (0, tk_created_at t))"

definition ordering_fields :: "string list" where
  "ordering_fields = [''priority'', ''deadline'', ''created_at'']"

definition term_key :: "string \<Rightarrow> task \<Rightarrow> int \<times> int" where
  "term_key w t = (if take 1 w = ''-'' then (let (a, b) = field_key (drop 1 w) t in (- a, - b)) else field_key w t)"

definition valid_term :: "string \<Rightarrow> bool" where
  "valid_term w \<longleftrightarrow> (if take 1 w = ''-'' then drop 1 w else w) \<in> set ordering_fields"

text \<open>\<open>OrderingFilter\<close>: the valid terms of the parameter, or the default of the view.\<close>

definition get_ordering :: "string \<Rightarrow> string list \<Rightarrow> string list" where
  "get_ordering fallback ws = (let vs = filter valid_term ws in if vs = [] then [fallback] else vs)"

definition order_tasks :: "string list \<Rightarrow> task list \<Rightarrow> task list" where
  "order_tasks ws ts = fold (\<lambda>w. sort_key (term_key w)) (rev ws) ts"

section \<open>The list of tasks\<close>

text \<open>
  \<open>TaskViewSet.list\<close>: \<open>all_objects\<close> only if the parameter reads \<open>true\<close> in lower case; the archived
  tasks are left out only if the parameter is missing.
\<close>

definition want_archived :: "task_filter \<Rightarrow> bool" where
  "want_archived q \<longleftrightarrow> (case tf_archived q of None \<Rightarrow> False | Some v \<Rightarrow> lower_text v = ''true'')"

definition list_tasks ::
  "int \<Rightarrow> datetime \<Rightarrow> (string \<Rightarrow> bool option) \<Rightarrow> user \<Rightarrow> task_filter \<Rightarrow> crm_state \<Rightarrow> api_error + task list" where
  "list_tasks off now parse u q s = (case crm_permission u of
     Some e \<Rightarrow> Inl e
   | None \<Rightarrow> Inr (order_tasks (get_ordering ''-created_at'' (tf_ordering q))
       (tbl_filter (\<lambda>t. task_visible s u (want_archived q) t \<and> task_matches off now parse s q t
          \<and> (tf_archived q = None \<longrightarrow> \<not> tk_is_archived t)) (cr_tasks s))))"

section \<open>The page of a board\<close>

record board_column =
  bc_column :: kcolumn
  bc_tasks :: "task list"
  bc_count :: nat

datatype board_page = Kanban board "board_column list" | Task_list "task list"

definition kanban_columns :: "crm_state \<Rightarrow> nat \<Rightarrow> board_column list" where
  "kanban_columns s k = map (\<lambda>c. \<lparr>bc_column = c, bc_tasks = ordered_tasks s (cl_id c),
       bc_count = length (ordered_tasks s (cl_id c))\<rparr>) (board_columns s k)"

text \<open>\<open>SearchFilter\<close>: every word of the parameter, a comma counting as a space, is in the title.\<close>

definition search_terms :: "string \<Rightarrow> string list" where
  "search_terms v = split_words [] (map (\<lambda>c. if c = CHR '','' then CHR '' '' else c) v)"

definition search_filter :: "string \<Rightarrow> task \<Rightarrow> bool" where
  "search_filter v t \<longleftrightarrow> list_all (\<lambda>w. icontains w (tk_title t)) (search_terms v)"

definition board_list ::
  "int \<Rightarrow> datetime \<Rightarrow> (string \<Rightarrow> bool option) \<Rightarrow> nat \<Rightarrow> task_filter \<Rightarrow> crm_state \<Rightarrow> task list" where
  "board_list off now parse k q s = order_tasks (get_ordering ''created_at'' (tf_ordering q))
     (tbl_filter (\<lambda>t. \<not> tk_is_deleted t \<and> map_option cl_board (column_of s (tk_column t)) = Some k
        \<and> task_matches off now parse s q t \<and> (tf_archived q = None \<longrightarrow> \<not> tk_is_archived t)
        \<and> search_filter (tf_search q) t) (cr_tasks s))"

definition retrieve_board ::
  "int \<Rightarrow> datetime \<Rightarrow> (string \<Rightarrow> bool option) \<Rightarrow> user \<Rightarrow> bool \<Rightarrow> nat \<Rightarrow> string \<Rightarrow> task_filter \<Rightarrow> crm_state
    \<Rightarrow> api_error + board_page" where
  "retrieve_board off now parse u include_archived k view_mode q s = (case crm_permission u of
     Some e \<Rightarrow> Inl e
   | None \<Rightarrow> (case get_board s u include_archived k of
       Inl e \<Rightarrow> Inl e
     | Inr b \<Rightarrow> Inr (if view_mode = ''list'' then Task_list (board_list off now parse (bo_id b) q s)
         else Kanban b (kanban_columns s (bo_id b)))))"

text \<open>\<open>BoardViewSet.list\<close>: each board with the number of its columns and of its live tasks.\<close>

definition list_boards :: "user \<Rightarrow> bool \<Rightarrow> nat option \<Rightarrow> crm_state \<Rightarrow> api_error + (board \<times> nat \<times> nat) list" where
  "list_boards u include_archived company_filter s = (case crm_permission u of
     Some e \<Rightarrow> Inl e
   | None \<Rightarrow> Inr (map (\<lambda>b. (b, length (tbl_filter (\<lambda>c. cl_board c = bo_id b) (cr_columns s)),
         length (tbl_filter (\<lambda>t. \<not> tk_is_deleted t
           \<and> map_option cl_board (column_of s (tk_column t)) = Some (bo_id b)) (cr_tasks s))))
       (board_queryset s u include_archived company_filter)))"

end
