(* ===== verification/TaskListProps.thy ===== *)
theory TaskListProps
  imports TaskLists OverviewProps CrmProps
begin

text \<open>
  The lists of tasks: the three views of a board show the same tasks, the archive of a board is empty,
  what the spelling of a parameter reveals, and the order by priority.
\<close>

section \<open>The order\<close>

lemma mset_order_tasks: "mset (order_tasks ws ts) = mset ts"
proof -
  have "mset (fold (\<lambda>w. sort_key (term_key w)) vs ts) = mset ts" for vs
    by (induction vs arbitrary: ts) simp_all
  then show ?thesis by (simp add: order_tasks_def)
qed

lemma set_order_tasks [simp]: "set (order_tasks ws ts) = set ts"
  by (metis mset_order_tasks set_mset_mset)

lemma sorted_order_tasks: "sorted (map (term_key w) (order_tasks (w # ws) ts))"
  by (simp add: order_tasks_def)

lemma list_tasks_set:
  assumes "list_tasks off now parse u q s = Inr ts"
  shows "set ts = {t \<in> set (rows (cr_tasks s)). task_visible s u (want_archived q) t \<and> task_matches off now parse s q t
     \<and> (tf_archived q = None \<longrightarrow> \<not> tk_is_archived t)}"
  using assms by (auto simp: list_tasks_def split: option.splits)

lemma board_list_set:
  "set (board_list off now parse k q s) = {t \<in> set (rows (cr_tasks s)). \<not> tk_is_deleted t
     \<and> map_option cl_board (column_of s (tk_column t)) = Some k \<and> task_matches off now parse s q t
     \<and> (tf_archived q = None \<longrightarrow> \<not> tk_is_archived t) \<and> search_filter (tf_search q) t}"
  by (auto simp: board_list_def)

lemma no_filter_matches [simp]: "task_matches off now parse s no_task_filter t"
  by (simp add: task_matches_def no_task_filter_def given_def filter_deadline_def Let_def)

lemma board_filter_matches [simp]:
  "task_matches off now parse s (no_task_filter\<lparr>tf_board := Some k\<rparr>) t
     \<longleftrightarrow> map_option cl_board (column_of s (tk_column t)) = Some k"
  by (simp add: task_matches_def no_task_filter_def given_def filter_deadline_def Let_def)

text \<open>The order by priority is the one of the texts: urgent tasks come last, behind the low ones.\<close>

theorem priority_order_is_alphabetical:
  assumes "list_tasks off now parse u (q\<lparr>tf_ordering := [''priority'']\<rparr>) s = Inr ts"
  shows "sorted (map (\<lambda>t. priority_rank (tk_priority t)) ts)"
proof -
  have "get_ordering ''-created_at'' [''priority''] = [''priority'']"
    by (simp add: get_ordering_def valid_term_def ordering_fields_def)
  then obtain xs where "ts = order_tasks [''priority''] xs"
    using assms by (auto simp: list_tasks_def split: option.splits)
  then have "sorted (map (term_key ''priority'') ts)" by (simp only: sorted_order_tasks)
  then show ?thesis
    unfolding sorted_map by (rule sorted_wrt_mono_rel[rotated]) (simp add: term_key_def field_key_def)
qed

definition ask_priority :: task_filter where
  "ask_priority = no_task_filter\<lparr>tf_ordering := [''priority'']\<rparr>"

theorem priority_order_is_alphabetical_witness:
  "\<exists>ts. list_tasks 0 0 (\<lambda>_. None) (demo_user 2 Employee (Some 1)) (no_task_filter\<lparr>tf_ordering := [''priority'']\<rparr>)
       (demo_crm [(demo_task 5 1 1)\<lparr>tk_priority := Urgent\<rparr>, (demo_task 6 1 2)\<lparr>tk_priority := Low\<rparr>]) = Inr ts
     \<and> sorted (map (\<lambda>t. priority_rank (tk_priority t)) ts)"
proof -
  have "is_ok (list_tasks 0 0 (\<lambda>_. None) (demo_user 2 Employee (Some 1)) (no_task_filter\<lparr>tf_ordering := [''priority'']\<rparr>)
      (demo_crm [(demo_task 5 1 1)\<lparr>tk_priority := Urgent\<rparr>, (demo_task 6 1 2)\<lparr>tk_priority := Low\<rparr>]))" by code_simp
  then show ?thesis using priority_order_is_alphabetical by (auto simp: is_ok_iff)
qed

section \<open>The views of a board\<close>

lemma get_board_row:
  assumes "get_board s u ia k = Inr b"
  shows "b \<in> set (rows (cr_boards s))" "bo_id b = k" "u_role u = Superadmin \<or> u_company u = Some (bo_company b)"
  using assms
  by (auto simp: get_board_def board_queryset_def split: option.splits if_splits dest!: find_row)

lemma on_board_visible:
  assumes inv: "crm_inv s" and b: "get_board s u ia k = Inr b"
    and t: "map_option cl_board (column_of s (tk_column t)) = Some k"
  shows "task_visible s u False t \<longleftrightarrow> \<not> tk_is_deleted t"
proof -
  have "board_of s k = Some b" using board_of_row[OF inv get_board_row(1)[OF b]] get_board_row(2)[OF b] by simp
  then have "board_of_task s t = Some b" using t by (auto simp: board_of_task_def)
  then show ?thesis using get_board_row(3)[OF b] by (auto simp: task_visible_def)
qed

lemma kanban_tasks:
  assumes "crm_inv s"
  shows "set (concat (map bc_tasks (kanban_columns s k))) = {t \<in> set (rows (cr_tasks s)). \<not> tk_is_deleted t
     \<and> map_option cl_board (column_of s (tk_column t)) = Some k}"
proof -
  have on: "(\<exists>c \<in> set (rows (cr_columns s)). cl_board c = k \<and> cl_id c = tk_column t)
      \<longleftrightarrow> map_option cl_board (column_of s (tk_column t)) = Some k" for t
  proof
    assume "\<exists>c \<in> set (rows (cr_columns s)). cl_board c = k \<and> cl_id c = tk_column t"
    then obtain c where "c \<in> set (rows (cr_columns s))" "cl_board c = k" "cl_id c = tk_column t" by blast
    then show "map_option cl_board (column_of s (tk_column t)) = Some k" using column_of_row[OF assms] by force
  qed (auto dest: column_of_SomeD)
  have "set (concat (map bc_tasks (kanban_columns s k))) = {t \<in> set (rows (cr_tasks s)). \<not> tk_is_deleted t
     \<and> (\<exists>c \<in> set (rows (cr_columns s)). cl_board c = k \<and> cl_id c = tk_column t)}"
    by (auto simp: kanban_columns_def set_board_columns set_ordered_tasks live_in_def)
  then show ?thesis unfolding on .
qed

text \<open>
  C39: after any run of operations the three views of a board show the same tasks: the columns, the
  list of the board, and the list of all tasks filtered by the board; the two lists show each of them
  the same number of times.
\<close>

theorem views_of_a_board_agree:
  assumes inv: "crm_inv s0" and hidden: "\<And>t. t \<in> set (rows (cr_tasks s0)) \<Longrightarrow> tk_is_archived t \<Longrightarrow> tk_is_deleted t"
    and s: "s = run_ops exec_crm xs s0"
    and u: "crm_permission u = None" and b: "get_board s u ia k = Inr b"
  shows "\<exists>ts cs ls. retrieve_board off now parse u ia k ''list'' no_task_filter s = Inr (Task_list ts)
     \<and> retrieve_board off now parse u ia k ''kanban'' no_task_filter s = Inr (Kanban b cs)
     \<and> list_tasks off now parse u (no_task_filter\<lparr>tf_board := Some k\<rparr>) s = Inr ls
     \<and> mset ts = mset ls \<and> set (concat (map bc_tasks cs)) = set ts"
proof -
  have inv': "crm_inv s" unfolding s by (rule crm.run_inv[OF inv]) (simp add: list_all_iff)
  have "archived_hidden (cr_tasks s0)" using hidden by (simp add: archived_hidden_def)
  then have hid: "archived_hidden (cr_tasks s)"
    unfolding s by (rule archive.run_inv) (simp add: list_all_iff)
  let ?on = "\<lambda>t. \<not> tk_is_deleted t \<and> map_option cl_board (column_of s (tk_column t)) = Some k"
  let ?ts = "tbl_filter ?on (cr_tasks s)"
  have none: "tf_archived no_task_filter = None" "tf_search no_task_filter = []" "search_filter [] t" for t
    by (simp_all add: no_task_filter_def search_filter_def search_terms_def)
  have live: "\<not> tk_is_archived t" if "t \<in> set (rows (cr_tasks s))" "\<not> tk_is_deleted t" for t
    using hid that by (auto simp: archived_hidden_def)
  have eq1: "tbl_filter (\<lambda>t. \<not> tk_is_deleted t \<and> map_option cl_board (column_of s (tk_column t)) = Some k
      \<and> task_matches off now parse s no_task_filter t \<and> (tf_archived no_task_filter = None \<longrightarrow> \<not> tk_is_archived t)
      \<and> search_filter (tf_search no_task_filter) t) (cr_tasks s) = ?ts"
    unfolding tbl_filter_def by (rule filter_cong) (auto simp: none live)
  have eq2: "tbl_filter (\<lambda>t. task_visible s u (want_archived (no_task_filter\<lparr>tf_board := Some k\<rparr>)) t
      \<and> task_matches off now parse s (no_task_filter\<lparr>tf_board := Some k\<rparr>) t
      \<and> (tf_archived (no_task_filter\<lparr>tf_board := Some k\<rparr>) = None \<longrightarrow> \<not> tk_is_archived t)) (cr_tasks s) = ?ts"
    unfolding tbl_filter_def
    by (rule filter_cong) (auto simp: none live want_archived_def on_board_visible[OF inv' b])
  have "mset (board_list off now parse k no_task_filter s) = mset ?ts"
    unfolding board_list_def mset_order_tasks eq1 ..
  moreover obtain ls where ls: "list_tasks off now parse u (no_task_filter\<lparr>tf_board := Some k\<rparr>) s = Inr ls" "mset ls = mset ?ts"
    unfolding list_tasks_def u eq2 by (simp add: mset_order_tasks)
  moreover have "set (concat (map bc_tasks (kanban_columns s k))) = set ?ts"
    unfolding kanban_tasks[OF inv'] by auto
  moreover have "set (board_list off now parse k no_task_filter s) = set ?ts"
    unfolding board_list_def set_order_tasks eq1 ..
  moreover have "retrieve_board off now parse u ia k ''list'' no_task_filter s = Inr (Task_list (board_list off now parse k no_task_filter s))"
    "retrieve_board off now parse u ia k ''kanban'' no_task_filter s = Inr (Kanban b (kanban_columns s k))"
    using get_board_row(2)[OF b] by (simp_all add: retrieve_board_def u b)
  ultimately show ?thesis by (metis (no_types))
qed

theorem views_of_a_board_agree_witness:
  "\<exists>ts cs. retrieve_board 0 9 (\<lambda>_. None) (demo_user 2 Employee (Some 1)) False 1 ''list'' no_task_filter
       (run_ops exec_crm [Op_archive_task 8 (demo_user 2 Employee (Some 1)) 5] (demo_crm [demo_task 5 1 1, demo_task 6 1 2]))
       = Inr (Task_list ts)
     \<and> retrieve_board 0 9 (\<lambda>_. None) (demo_user 2 Employee (Some 1)) False 1 ''kanban'' no_task_filter
       (run_ops exec_crm [Op_archive_task 8 (demo_user 2 Employee (Some 1)) 5] (demo_crm [demo_task 5 1 1, demo_task 6 1 2]))
       = Inr (Kanban (demo_board 1 1) cs)
     \<and> set (concat (map bc_tasks cs)) = set ts"
proof -
  let ?start = "demo_crm [demo_task 5 1 1, demo_task 6 1 2]" and ?u = "demo_user 2 Employee (Some 1)"
  let ?s = "run_ops exec_crm [Op_archive_task 8 ?u 5] ?start"
  have inv: "crm_inv ?start" by (rule demo_crm_inv) (simp_all add: demo_task_def active_in_def)
  have hidden: "tk_is_deleted t" if "t \<in> set (rows (cr_tasks ?start))" "tk_is_archived t" for t
    using that by (auto simp: demo_crm_def demo_task_def)
  have pre: "crm_permission ?u = None" "get_board ?s ?u False 1 = Inr (demo_board 1 1)" by code_simp+
  show ?thesis using views_of_a_board_agree[OF inv hidden refl pre] by blast
qed

section \<open>The archive\<close>

text \<open>
  The list of a board reads the live tasks even when the archived ones are asked for, and archiving
  deletes: after any run the archive of a board is empty, while the list of all tasks, asked in the
  same way, holds every archived task the user may see.
\<close>

theorem board_archive_is_empty:
  assumes hidden: "\<And>t. t \<in> set (rows (cr_tasks s0)) \<Longrightarrow> tk_is_archived t \<Longrightarrow> tk_is_deleted t"
    and s: "s = run_ops exec_crm xs s0"
    and page: "retrieve_board off now parse u ia k ''list'' q s = Inr (Task_list ts)"
    and all: "list_tasks off now parse u q s = Inr ls"
    and asked: "tf_archived q = Some v" "parse v = Some True" "lower_text v = ''true''"
  shows "ts = [] \<and> {t \<in> set (rows (cr_tasks s)). tk_is_archived t \<and> task_visible s u True t
      \<and> task_matches off now parse s q t} = set ls"
proof -
  have "archived_hidden (cr_tasks s0)" using hidden by (simp add: archived_hidden_def)
  then have hid: "archived_hidden (cr_tasks s)"
    unfolding s by (rule archive.run_inv) (simp add: list_all_iff)
  have arch: "tk_is_archived t" if "task_matches off now parse s q t" for t
    using that asked by (simp add: task_matches_def given_def)
  obtain b where "ts = board_list off now parse b q s"
    using page by (auto simp: retrieve_board_def split: option.splits sum.splits)
  then have "set ts = {}"
    using hid arch by (auto simp: board_list_set archived_hidden_def)
  moreover have "set ls = {t \<in> set (rows (cr_tasks s)). tk_is_archived t \<and> task_visible s u True t
      \<and> task_matches off now parse s q t}"
    unfolding list_tasks_set[OF all] using asked arch by (auto simp: want_archived_def)
  ultimately show ?thesis by simp
qed

definition read_true :: "string \<Rightarrow> bool option" where
  "read_true v = (if v = ''true'' then Some True else None)"

theorem board_archive_is_empty_witness:
  "\<exists>ls. list_tasks 0 9 read_true (demo_user 2 Employee (Some 1)) (no_task_filter\<lparr>tf_archived := Some ''true''\<rparr>)
       (run_ops exec_crm [Op_archive_task 8 (demo_user 2 Employee (Some 1)) 5] (demo_crm [demo_task 5 1 1])) = Inr ls
     \<and> ls \<noteq> []
     \<and> retrieve_board 0 9 read_true (demo_user 2 Employee (Some 1)) False 1 ''list'' (no_task_filter\<lparr>tf_archived := Some ''true''\<rparr>)
       (run_ops exec_crm [Op_archive_task 8 (demo_user 2 Employee (Some 1)) 5] (demo_crm [demo_task 5 1 1])) = Inr (Task_list [])"
proof -
  let ?start = "demo_crm [demo_task 5 1 1]" and ?u = "demo_user 2 Employee (Some 1)"
  let ?s = "run_ops exec_crm [Op_archive_task 8 ?u 5] ?start" and ?q = "no_task_filter\<lparr>tf_archived := Some ''true''\<rparr>"
  have hidden: "tk_is_deleted t" if "t \<in> set (rows (cr_tasks ?start))" "tk_is_archived t" for t
    using that by (auto simp: demo_crm_def demo_task_def)
  have "case list_tasks 0 9 read_true ?u ?q ?s of Inr (x # _) \<Rightarrow> True | _ \<Rightarrow> False" by code_simp
  then obtain ls where ls: "list_tasks 0 9 read_true ?u ?q ?s = Inr ls" "ls \<noteq> []"
    by (auto split: sum.splits list.splits)
  have "case retrieve_board 0 9 read_true ?u False 1 ''list'' ?q ?s of Inr (Task_list ts) \<Rightarrow> True | _ \<Rightarrow> False" by code_simp
  then obtain ts where ts: "retrieve_board 0 9 read_true ?u False 1 ''list'' ?q ?s = Inr (Task_list ts)"
    by (auto split: sum.splits board_page.splits)
  have q: "tf_archived ?q = Some ''true''" "read_true ''true'' = Some True" "lower_text ''true'' = ''true''"
    by (simp_all add: no_task_filter_def read_true_def) code_simp
  show ?thesis using board_archive_is_empty[OF hidden refl ts ls(1) q] ts ls by auto
qed

text \<open>
  A value that reads \<open>true\<close> in lower case and that the filter does not understand (\<open>TRUE\<close>) lifts the
  restriction to the live tasks without putting the filter in its place: the list holds the deleted
  tasks too.
\<close>

theorem capital_letters_list_the_deleted:
  assumes ok: "list_tasks off now parse u (no_task_filter\<lparr>tf_archived := Some v\<rparr>) s = Inr ts"
    and v: "lower_text v = ''true''" "parse v = None"
    and t: "t \<in> set (rows (cr_tasks s))" "task_visible s u True t"
  shows "t \<in> set ts"
proof -
  have "task_matches off now parse s (no_task_filter\<lparr>tf_archived := Some v\<rparr>) t"
    using v by (simp add: task_matches_def no_task_filter_def given_def filter_deadline_def Let_def)
  then show ?thesis using t v unfolding list_tasks_set[OF ok] by (simp add: want_archived_def)
qed

theorem capital_letters_list_the_deleted_witness:
  "\<exists>ts. list_tasks 0 9 read_true (demo_user 2 Employee (Some 1)) (no_task_filter\<lparr>tf_archived := Some ''TRUE''\<rparr>)
       (demo_crm [(demo_task 5 1 1)\<lparr>tk_is_deleted := True\<rparr>]) = Inr ts
     \<and> (demo_task 5 1 1)\<lparr>tk_is_deleted := True\<rparr> \<in> set ts"
proof -
  let ?s = "demo_crm [(demo_task 5 1 1)\<lparr>tk_is_deleted := True\<rparr>]" and ?u = "demo_user 2 Employee (Some 1)"
  have "is_ok (list_tasks 0 9 read_true ?u (no_task_filter\<lparr>tf_archived := Some ''TRUE''\<rparr>) ?s)" by code_simp
  then obtain ts where ts: "list_tasks 0 9 read_true ?u (no_task_filter\<lparr>tf_archived := Some ''TRUE''\<rparr>) ?s = Inr ts"
    by (auto simp: is_ok_iff)
  have "lower_text ''TRUE'' = ''true''" "read_true ''TRUE'' = None" by code_simp+
  moreover have "(demo_task 5 1 1)\<lparr>tk_is_deleted := True\<rparr> \<in> set (rows (cr_tasks ?s))" by (simp add: demo_crm_def)
  moreover have "task_visible ?s ?u True ((demo_task 5 1 1)\<lparr>tk_is_deleted := True\<rparr>)" by code_simp
  ultimately show ?thesis using capital_letters_list_the_deleted[OF ts] ts by blast
qed

end
