(* ===== verification/CompanyPages.thy ===== *)
theory CompanyPages
  imports Analytics Onboarding ResourceSearch
begin

text \<open>
  The pages of a company (\<open>companies/views.py\<close>, \<open>companies/serializers.py\<close>, \<open>companies/filters.py\<close>): the
  detail of a company with its figures, its limits, the list of its members; the list of all users
  (\<open>users/views.py\<close>); and the mark of a finished onboarding that login and profile carry
  (\<open>users/serializers.py\<close>). They only read; the cutting into pages is left out.
\<close>

section \<open>Months\<close>

text \<open>The days of a year on which its months begin, from zero.\<close>

definition is_leap :: "int \<Rightarrow> bool" where
  "is_leap y \<longleftrightarrow> y mod 4 = 0 \<and> (y mod 100 \<noteq> 0 \<or> y mod 400 = 0)"

definition month_starts :: "bool \<Rightarrow> int list" where
  "month_starts leap = (if leap then [0, 31, 60, 91, 121, 152, 182, 213, 244, 274, 305, 335]
     else [0, 31, 59, 90, 120, 151, 181, 212, 243, 273, 304, 334])"

definition day_of_month :: "date \<Rightarrow> int" where
  "day_of_month d = (let n = day_of_year d
     in n - last (filter (\<lambda>m. m \<le> n) (month_starts (is_leap (year_of d)))) + 1)"

text \<open>\<open>now.replace(day=1, hour=0, ...)\<close>: \<open>timezone.now()\<close> is in UTC, so the month begins in UTC.\<close>

definition month_start :: "datetime \<Rightarrow> datetime" where
  "month_start now = (let d = local_date 0 now in days (d - day_of_month d + 1))"

section \<open>The detail of a company\<close>

definition company_admin_of :: "(nat \<Rightarrow> datetime) \<Rightarrow> accounts \<Rightarrow> nat \<Rightarrow> user option" where
  "company_admin_of joined acc k =
     (case sort_key (\<lambda>m. - joined (u_id m)) (tbl_filter (\<lambda>m. u_company m = Some k \<and> u_role m = Company_admin
        \<and> u_is_active m) (ac_users acc)) of [] \<Rightarrow> None | m # _ \<Rightarrow> Some m)"

record quick_stats =
  qs_bookings_this_month :: nat
  qs_active_tasks :: nat
  qs_guests_this_month :: nat

definition on_open_board :: "crm_state \<Rightarrow> nat \<Rightarrow> task \<Rightarrow> bool" where
  "on_open_board s k t \<longleftrightarrow> (case board_of_task s t of None \<Rightarrow> False | Some b \<Rightarrow> bo_company b = k \<and> \<not> bo_is_archived b)"

definition get_quick_stats :: "datetime \<Rightarrow> nat \<Rightarrow> ov_state \<Rightarrow> quick_stats" where
  "get_quick_stats now k s = \<lparr>
     qs_bookings_this_month = length (tbl_filter (\<lambda>b. b_company b = Some k \<and> month_start now \<le> b_start b) (bk_bookings (ov_bk s))),
     qs_active_tasks = length (tbl_filter (\<lambda>t. on_open_board (ov_crm s) k t \<and> \<not> tk_is_deleted t \<and> \<not> tk_is_archived t)
       (cr_tasks (ov_crm s))),
     qs_guests_this_month = length (tbl_filter (\<lambda>l. al_is_entry l \<and> pass_company (ov_gs s) l = Some k
       \<and> month_start now \<le> al_created_at l) (gs_logs (ov_gs s)))\<rparr>"

text \<open>\<open>get_object\<close> on \<open>CompanyViewSet.get_queryset\<close>.\<close>

definition company_for :: "accounts \<Rightarrow> user \<Rightarrow> nat \<Rightarrow> api_error + company" where
  "company_for acc u k = (case IsCompanyMember (Some u) of
     Some e \<Rightarrow> Inl e
   | None \<Rightarrow> (if u_role u = Superadmin \<or> u_company u = Some k
       then (case get_company acc k of None \<Rightarrow> Inl NotFound | Some c \<Rightarrow> Inr c) else Inl NotFound))"

record company_detail =
  cd_company :: company
  cd_admin :: "user option"
  cd_employees :: int
  cd_storage_used :: int
  cd_onboarding_completed :: bool
  cd_stats :: quick_stats

definition settings_flag :: "company_settings table \<Rightarrow> nat \<Rightarrow> bool" where
  "settings_flag t k = (case find (\<lambda>x. cs_company x = k) (rows t) of None \<Rightarrow> False | Some x \<Rightarrow> cs_onboarding_completed x)"

definition retrieve_company :: "datetime \<Rightarrow> user \<Rightarrow> nat \<Rightarrow> an_state \<Rightarrow> api_error + company_detail" where
  "retrieve_company now u k s = bind_err (company_for (ov_acc (an_ov s)) u k) (\<lambda>c. Inr \<lparr>
     cd_company = c, cd_admin = company_admin_of (an_joined s) (ov_acc (an_ov s)) k,
     cd_employees = employee_count (ov_acc (an_ov s)) c,
     cd_storage_used = get_company_storage_used_bytes (an_st s) k,
     cd_onboarding_completed = settings_flag (hr_settings (ov_hr (an_ov s))) k,
     cd_stats = get_quick_stats now k (an_ov s)\<rparr>)"

section \<open>The limits\<close>

text \<open>Gigabytes to four places, a half rounded up; the limit of the space is in thousandths.\<close>

record company_limits =
  li_employees :: "int \<times> int"
  li_boards :: "int \<times> int"
  li_used_gb :: int
  li_used_bytes :: int
  li_limit_gb :: int

definition gb_in_ten_thousandths :: "int \<Rightarrow> int" where
  "gb_in_ten_thousandths n = (n * 10000 + 2 ^ 29) div 2 ^ 30"

definition limits :: "user \<Rightarrow> nat \<Rightarrow> an_state \<Rightarrow> api_error + company_limits" where
  "limits u k s = bind_err (company_for (ov_acc (an_ov s)) u k) (\<lambda>c.
     let used = get_company_storage_used_bytes (an_st s) k
     in Inr \<lparr>li_employees = (employee_count (ov_acc (an_ov s)) c, co_max_employees c),
          li_boards = (board_count (ov_crm (an_ov s)) k, co_max_boards c),
          li_used_gb = gb_in_ten_thousandths used, li_used_bytes = used, li_limit_gb = co_storage_limit c\<rparr>)"

section \<open>Members and users\<close>

record member_query =
  mq_role :: "role option"
  mq_company :: "nat option"
  mq_is_active :: "bool option"
  mq_search :: string
  mq_ordering :: string

definition person_matches :: "member_query \<Rightarrow> user \<Rightarrow> bool" where
  "person_matches q m \<longleftrightarrow> (case mq_role q of None \<Rightarrow> True | Some r \<Rightarrow> u_role m = r)
     \<and> (case mq_is_active q of None \<Rightarrow> True | Some b \<Rightarrow> u_is_active m = b)"

definition named :: "string \<Rightarrow> user \<Rightarrow> bool" where
  "named w m \<longleftrightarrow> icontains w (u_email m) \<or> icontains w (u_first_name m) \<or> icontains w (u_last_name m)"

text \<open>A null \<open>last_login\<close> comes last in ascending order and first in descending order.\<close>

definition login_key :: "user \<Rightarrow> int \<times> int" where
  "login_key m = (case u_last_login m of None \<Rightarrow> (1, 0) | Some t \<Rightarrow> (0, t))"

definition order_members :: "(string \<Rightarrow> string) \<Rightarrow> (nat \<Rightarrow> datetime) \<Rightarrow> string \<Rightarrow> user list \<Rightarrow> user list" where
  "order_members coll joined w ms =
     (if w = ''date_joined'' then sort_key (joined \<circ> u_id) ms
      else if w = ''last_login'' then sort_key login_key ms
      else if w = ''-last_login'' then sort_key (\<lambda>m. (- fst (login_key m), - snd (login_key m))) ms
      else if w = ''full_name'' then sort_key (\<lambda>m. (coll (u_first_name m), coll (u_last_name m))) ms
      else if w = ''-full_name'' then rev (sort_key (\<lambda>m. (coll (u_first_name m), coll (u_last_name m))) ms)
      else sort_key (\<lambda>m. - joined (u_id m)) ms)"

definition members ::
  "(string \<Rightarrow> string) \<Rightarrow> (nat \<Rightarrow> datetime) \<Rightarrow> user \<Rightarrow> nat \<Rightarrow> member_query \<Rightarrow> accounts \<Rightarrow> api_error + user list" where
  "members coll joined u k q acc = (case IsCompanyMember (Some u) of
     Some e \<Rightarrow> Inl e
   | None \<Rightarrow>
      (if u_role u \<in> {Company_admin, Employee} \<and> u_company u \<noteq> Some k
       then Inl (PermissionDenied ''company.members_own_company_only'')
       else case get_company acc k of
         None \<Rightarrow> Inl NotFound
       | Some c \<Rightarrow> Inr (order_members coll joined (mq_ordering q)
           (tbl_filter (\<lambda>m. u_company m = Some (co_id c) \<and> u_role m \<noteq> Superadmin \<and> person_matches q m
              \<and> (mq_search q = [] \<or> named (mq_search q) m)) (ac_users acc)))))"

text \<open>
  \<open>UserListView\<close>; the search takes every word of its parameter on its own. The parameter of the order
  is one field.
\<close>

definition search_words :: "string \<Rightarrow> string list" where
  "search_words v = split_words [] (map (\<lambda>c. if c = CHR '','' then CHR '' '' else c) v)"

definition user_list ::
  "(nat \<Rightarrow> datetime) \<Rightarrow> user \<Rightarrow> member_query \<Rightarrow> accounts \<Rightarrow> api_error + user list" where
  "user_list joined u q acc = guarded (IsSuperAdmin (Some u))
     (let ms = tbl_filter (\<lambda>m. person_matches q m
            \<and> (case mq_company q of None \<Rightarrow> True | Some c \<Rightarrow> u_company m = Some c)
            \<and> list_all (\<lambda>w. named w m) (search_words (mq_search q))) (ac_users acc)
      in order_members id joined (if mq_ordering q \<in> set [''date_joined'', ''last_login'', ''-last_login'']
           then mq_ordering q else ''-date_joined'') ms)"

section \<open>The mark of a finished onboarding\<close>

text \<open>
  \<open>CompanyBriefSerializer.get_onboarding_completed\<close>: the flag of the company for nobody, an admin or a
  superadmin; for the others whether the progress rows of their template are all done. No user of the
  other roles has a company.
\<close>

definition onboarding_completed ::
  "user option \<Rightarrow> nat \<Rightarrow> company_settings table \<Rightarrow> ob_state \<Rightarrow> bool" where
  "onboarding_completed u k settings s =
     (case u of
        None \<Rightarrow> settings_flag settings k
      | Some v \<Rightarrow>
         (if u_role v \<in> {Superadmin, Company_admin} then settings_flag settings k
          else case assignment_of s (u_id v) of
            None \<Rightarrow> \<not> list_ex (\<lambda>t. tp_company t = k \<and> tp_is_default t \<and> tp_is_active t) (rows (ob_templates s))
          | Some a \<Rightarrow>
             (let items = tbl_filter (\<lambda>p. pg_user p = u_id v
                    \<and> map_option os_template (step_of s p) = Some (oa_template a)) (ob_progress s)
              in items = [] \<or> length (filter pg_is_completed items) = length items)))"

end
