(* ===== verification/CompanyPageProps.thy ===== *)
theory CompanyPageProps
  imports CompanyPages OnboardingProps AnalyticsProps
begin

text \<open>
  The pages of a company: the rounding of the limits, the month of the figures, the list of the members,
  and what the mark of a finished onboarding is worth.
\<close>

section \<open>Figures\<close>

lemma used_gb_is_rounded: "\<bar>gb_in_ten_thousandths n * 2 ^ 30 - n * 10000\<bar> \<le> 2 ^ 29"
proof -
  have "(n * 10000 + 2 ^ 29) = gb_in_ten_thousandths n * 2 ^ 30 + (n * 10000 + 2 ^ 29) mod 2 ^ 30"
    unfolding gb_in_ten_thousandths_def by (rule div_mult_mod_eq[symmetric])
  moreover have "0 \<le> (n * 10000 + 2 ^ 29) mod 2 ^ 30" "(n * 10000 + 2 ^ 29) mod 2 ^ 30 < (2 ^ 30 :: int)"
    by simp_all
  ultimately show ?thesis by simp
qed

lemma company_for_Inr:
  "company_for acc u k = Inr c \<Longrightarrow> get_company acc k = Some c \<and> (u_role u = Superadmin \<or> u_company u = Some k)"
  by (auto simp: company_for_def split: option.splits if_splits)

text \<open>The two pages of a company show the same number of employees and the same space.\<close>

lemma company_pages_agree:
  assumes "retrieve_company now u k s = Inr d" "limits u k s = Inr l"
  shows "fst (li_employees l) = cd_employees d \<and> li_used_bytes l = cd_storage_used d
    \<and> \<bar>li_used_gb l * 2 ^ 30 - cd_storage_used d * 10000\<bar> \<le> 2 ^ 29
    \<and> snd (li_boards l) = co_max_boards (cd_company d)"
  using assms used_gb_is_rounded[of "cd_storage_used d"]
  by (auto simp: retrieve_company_def limits_def Let_def)

text \<open>The month of the figures begins in UTC and has no end: the bookings of later months count, the cancelled ones too.\<close>

lemma month_counts_the_future:
  assumes "b \<in> set (rows (bk_bookings (ov_bk s)))" "b_company b = Some k" "month_start now \<le> b_start b"
  shows "0 < qs_bookings_this_month (get_quick_stats now k s)"
  using assms by (auto simp: get_quick_stats_def tbl_filter_def filter_empty_conv)

text \<open>2026-03-01 at two o'clock at UTC+5: the month of the figures is February.\<close>

lemma month_begins_in_utc: "month_start (days 20513 - hours 3) = days 20485" "local_date (hours 5) (days 20513 - hours 3) = 20513"
  by code_simp+

section \<open>Members\<close>

lemma set_order_members [simp]: "set (order_members coll joined w ms) = set ms"
  by (simp add: order_members_def)

lemma members_are_of_the_company:
  assumes "members coll joined u k q acc = Inr ms" "m \<in> set ms"
  shows "u_company m = Some k \<and> u_role m \<noteq> Superadmin \<and> (u_role u = Superadmin \<or> u_company u = Some k)"
proof -
  from assms(1) have perm: "IsCompanyMember (Some u) = None"
    and own: "\<not> (u_role u \<in> {Company_admin, Employee} \<and> u_company u \<noteq> Some k)"
    by (auto simp: members_def split: option.splits if_splits)
  from assms obtain c where "get_company acc k = Some c" "u_company m = Some (co_id c)" "u_role m \<noteq> Superadmin"
    by (auto simp: members_def split: option.splits if_splits)
  moreover have "u_role u \<in> {Superadmin, Company_admin, Employee}"
    using perm by (auto simp: IsCompanyMember_def authenticated_def split: if_splits)
  ultimately show ?thesis using own by (auto simp: get_company_def dest!: find_row)
qed

section \<open>The mark of a finished onboarding\<close>

lemma step_of_row: "tbl_wf os_id (ob_steps s) \<Longrightarrow> x \<in> set (rows (ob_steps s)) \<Longrightarrow> pg_step p = os_id x \<Longrightarrow> step_of s p = Some x"
  by (simp add: step_of_def tbl_get_row)

text \<open>
  C40: replacing the steps of a template ends the onboarding of everybody who has it and is through with
  the steps of the system: no progress is kept or made for the steps of the company, and the mark is
  computed from the progress rows alone. Whoever had steps left is shown as finished, whatever the
  new steps are.
\<close>

theorem replaced_steps_end_the_onboarding:
  assumes inv: "ob_inv s"
    and patch: "update_template u k title active (Some ds) s = Inr s'"
    and v: "u_role v = Employee"
    and assigned: "a \<in> set (rows (ob_assignments s))" "oa_user a = u_id v" "oa_template a = k"
    and system: "\<And>p x. p \<in> set (rows (ob_progress s)) \<Longrightarrow> pg_user p = u_id v \<Longrightarrow> x \<in> set (rows (ob_steps s))
        \<Longrightarrow> os_id x = pg_step p \<Longrightarrow> os_template x = k \<Longrightarrow> os_is_system x \<Longrightarrow> pg_is_completed p"
  shows "onboarding_completed (Some v) c settings s'
    \<and> length (filter (\<lambda>x. os_template x = k \<and> \<not> os_is_system x) (rows (ob_steps s'))) = length ds"
proof -
  let ?P = "\<lambda>x. os_template x = k \<and> \<not> os_is_system x"
  obtain T where s': "s' = fold (add_step k False) (custom_steps ds) (delete_steps ?P (s\<lparr>ob_templates := T\<rparr>))"
    by (rule update_template_ok[OF patch]) auto
  let ?d = "delete_steps ?P (s\<lparr>ob_templates := T\<rparr>)"
  have prog: "ob_progress s' = ob_progress ?d" and asg: "ob_assignments s' = ob_assignments s"
    by (simp_all add: s')
  obtain new where new: "rows (ob_steps s') = filter (\<lambda>x. \<not> ?P x) (rows (ob_steps s)) @ new" "map step_content new = custom_steps ds"
      "\<forall>x \<in> set new. os_template x = k \<and> os_is_system x = False \<and> os_id x \<ge> next_id (ob_steps s)"
    using add_steps_content[of k False "custom_steps ds" ?d] unfolding s' by auto
  have wf: "tbl_wf os_id (ob_steps s)" and ids: "pg_step ` set (rows (ob_progress s)) \<subseteq> os_id ` set (rows (ob_steps s))"
    using inv by (simp_all add: ob_inv_def)
  have complete: "pg_is_completed p"
    if p: "p \<in> set (rows (ob_progress s'))" "pg_user p = u_id v" "map_option os_template (step_of s' p) = Some k" for p
  proof -
    have old: "p \<in> set (rows (ob_progress s))" using p(1) by (simp add: prog delete_steps_progress)
    then obtain x where x: "x \<in> set (rows (ob_steps s))" "os_id x = pg_step p" using ids by fastforce
    obtain y where y: "y \<in> set (rows (ob_steps s'))" "os_id y = pg_step p" "os_template y = k"
      using p(3) by (auto simp: step_of_def dest!: tbl_get_SomeD)
    have "os_id x < next_id (ob_steps s)" using wf x(1) by (simp add: tbl_wf_def list_all_iff)
    then have "y \<notin> set new" using new(3) x(2) y(2) by auto
    then have "y \<in> set (rows (ob_steps s))" "os_is_system y" using y(1,3) by (auto simp: new(1))
    then show ?thesis using system[OF old p(2)] y by simp
  qed
  have "assignment_of s' (u_id v) = assignment_of s (u_id v)" by (simp add: assignment_of_def asg)
  moreover have "distinct (map oa_user (rows (ob_assignments s)))" using inv by (simp add: ob_inv_def)
  then have "assignment_of s (u_id v) = Some a"
    unfolding assignment_of_def assigned(2)[symmetric] by (rule find_key_unique[OF _ assigned(1)])
  moreover have "filter pg_is_completed items = items"
    if "items = tbl_filter (\<lambda>p. pg_user p = u_id v \<and> map_option os_template (step_of s' p) = Some k) (ob_progress s')" for items
    unfolding filter_id_conv using complete that by auto
  ultimately have "onboarding_completed (Some v) c settings s'"
    using v by (simp add: onboarding_completed_def assigned(3) Let_def)
  moreover have "filter ?P (rows (ob_steps s')) = new" using new(3) by (simp add: new(1))
  moreover have "length new = length ds" using arg_cong[OF new(2), of length] by (simp add: custom_steps_def)
  ultimately show ?thesis by simp
qed

text \<open>Employee 3 has the second step of the company before them; the admin replaces it by a tour.\<close>

definition demo_ob_open :: ob_state where
  "demo_ob_open = demo_ob\<lparr>ob_progress := tbl_update (\<lambda>p. pg_id p = 2) (\<lambda>p. p\<lparr>pg_is_completed := False\<rparr>) (ob_progress demo_ob)\<rparr>"

theorem replaced_steps_end_the_onboarding_witness:
  "\<exists>s'. update_template (demo_user 2 Company_admin (Some 1)) 1 None None (Some [(''tour'', [], [])]) demo_ob_open = Inr s'
     \<and> \<not> onboarding_completed (Some (demo_user 3 Employee (Some 1))) 1 empty_table demo_ob_open
     \<and> onboarding_completed (Some (demo_user 3 Employee (Some 1))) 1 empty_table s'"
proof -
  let ?u = "demo_user 2 Company_admin (Some 1)" and ?v = "demo_user 3 Employee (Some 1)"
  have "is_ok (update_template ?u 1 None None (Some [(''tour'', [], [])]) demo_ob_open)"
    "\<not> onboarding_completed (Some ?v) 1 empty_table demo_ob_open"
    by code_simp+
  then obtain s' where ok: "update_template ?u 1 None None (Some [(''tour'', [], [])]) demo_ob_open = Inr s'"
      "\<not> onboarding_completed (Some ?v) 1 empty_table demo_ob_open"
    by (auto simp: is_ok_iff)
  have inv: "ob_inv demo_ob_open"
    by (simp add: ob_inv_def demo_ob_open_def demo_ob_def tbl_wf_def one_default_def)
  have system: "pg_is_completed p" if "p \<in> set (rows (ob_progress demo_ob_open))" "pg_user p = u_id ?v"
      "x \<in> set (rows (ob_steps demo_ob_open))" "os_id x = pg_step p" "os_template x = 1" "os_is_system x" for p x
    using that by (auto simp: demo_ob_open_def demo_ob_def)
  obtain a where a: "a \<in> set (rows (ob_assignments demo_ob_open))" "oa_user a = u_id ?v" "oa_template a = 1"
    by (simp add: demo_ob_open_def demo_ob_def demo_user_def)
  have role: "u_role ?v = Employee" by (simp add: demo_user_def)
  have "onboarding_completed (Some ?v) 1 empty_table s'"
    by (rule replaced_steps_end_the_onboarding[OF inv ok(1) role a, THEN conjunct1]) (rule system)
  then show ?thesis using ok by blast
qed

end
