(* ===== verification/StoragePages.thy ===== *)
theory StoragePages
  imports StorageTrees
begin

text \<open>
  What the storage shows (\<open>storage/serializers.py\<close>): folders with the figures and the level of the
  user, shares and permissions with the people they name. The addresses of the contents are left out,
  and the times of rows that do not keep them.
  The properties compare the level that is shown with the level the downloads enforce.
\<close>

section \<open>Representations\<close>

text \<open>\<open>UserBriefSerializer\<close>.\<close>

record user_brief =
  br_id :: nat
  br_first_name :: string
  br_last_name :: string
  br_full_name :: string
  br_email :: string
  br_avatar :: "string option"
  br_position :: string
  br_role :: role

definition brief_of :: "user \<Rightarrow> user_brief" where
  "brief_of u = \<lparr>br_id = u_id u, br_first_name = u_first_name u, br_last_name = u_last_name u,
     br_full_name = full_name u, br_email = u_email u, br_avatar = u_avatar u,
     br_position = u_position u, br_role = u_role u\<rparr>"

definition brief_in :: "st_state \<Rightarrow> nat \<Rightarrow> user_brief option" where
  "brief_in s k = map_option brief_of (tbl_get u_id k (ac_users (st_acc s)))"

text \<open>
  The level of the user at a folder. The list computes it with two subqueries, every other answer
  with one query for the entries of the user and of the role. A folder without entries shows none.
\<close>

definition user_perm_ann :: "st_state \<Rightarrow> user \<Rightarrow> nat \<Rightarrow> level option" where
  "user_perm_ann s u k = map_option fp_permission (find (\<lambda>p. fp_user p = Some (u_id u)) (perms_of s k))"

definition role_perm_ann :: "st_state \<Rightarrow> user \<Rightarrow> nat \<Rightarrow> level option" where
  "role_perm_ann s u k = map_option fp_permission (find (\<lambda>p. fp_role p = Some (role_str (u_role u))) (perms_of s k))"

definition has_annotations :: "user \<Rightarrow> bool" where
  "has_annotations u \<longleftrightarrow> u_role u \<notin> {Superadmin, Company_admin, Guest}"

definition get_is_restricted :: "st_state \<Rightarrow> folder \<Rightarrow> bool" where
  "get_is_restricted s f \<longleftrightarrow> perms_of s (fo_id f) \<noteq> []"

definition get_user_permission :: "bool \<Rightarrow> st_state \<Rightarrow> user \<Rightarrow> folder \<Rightarrow> level option" where
  "get_user_permission annotated s u f =
     (if u_role u \<in> {Superadmin, Company_admin} then None
      else if \<not> get_is_restricted s f then None
      else if annotated \<and> has_annotations u
        then (case user_perm_ann s u (fo_id f) of Some l \<Rightarrow> Some l | None \<Rightarrow> role_perm_ann s u (fo_id f))
      else (let perms = filter (\<lambda>p. fp_user p = Some (u_id u) \<or> fp_role p = Some (role_str (u_role u)))
                  (perms_of s (fo_id f))
            in case find (\<lambda>p. fp_user p = Some (u_id u)) perms of
                 Some p \<Rightarrow> Some (fp_permission p)
               | None \<Rightarrow> map_option fp_permission (find (\<lambda>p. fp_role p = Some (role_str (u_role u))) perms)))"

record folder_page =
  fg_id :: nat
  fg_name :: string
  fg_scope :: fscope
  fg_parent :: "nat option"
  fg_owner :: nat
  fg_children_count :: nat
  fg_files_count :: nat
  fg_is_restricted :: bool
  fg_user_permission :: "level option"
  fg_created_at :: datetime

text \<open>The counts go through the default managers: live rows only, whoever may see them.\<close>

definition folder_page :: "bool \<Rightarrow> st_state \<Rightarrow> user \<Rightarrow> folder \<Rightarrow> folder_page" where
  "folder_page annotated s u f = \<lparr>fg_id = fo_id f, fg_name = fo_name f, fg_scope = fo_scope f,
     fg_parent = fo_parent f, fg_owner = fo_owner f,
     fg_children_count = length (filter (\<lambda>g. fo_parent g = Some (fo_id f) \<and> \<not> fo_is_deleted g) (rows (st_folders s))),
     fg_files_count = length (filter (\<lambda>x. fi_folder x = Some (fo_id f) \<and> \<not> fi_is_deleted x) (rows (st_files s))),
     fg_is_restricted = get_is_restricted s f, fg_user_permission = get_user_permission annotated s u f,
     fg_created_at = fo_created_at f\<rparr>"

definition list_folders ::
  "user \<Rightarrow> fscope option \<Rightarrow> id_param \<Rightarrow> st_state \<Rightarrow> api_error + folder_page list" where
  "list_folders u sc parent s =
     (case IsGuestOrCompanyMember (Some u) of
        Some e \<Rightarrow> Inl e
      | None \<Rightarrow> map_sum id (map (folder_page True s u)) (folder_queryset s u sc parent))"

record share_page =
  sg_id :: nat
  sg_file :: nat
  sg_shared_with :: "user_brief option"
  sg_shared_with_user_id :: nat
  sg_shared_by :: "user_brief option"
  sg_file_name :: "string option"
  sg_file_owner_id :: "nat option"
  sg_permission :: share_level
  sg_comment :: string

definition share_page :: "st_state \<Rightarrow> share \<Rightarrow> share_page" where
  "share_page s x = (let f = tbl_get fi_id (sh_file x) (st_files s)
     in \<lparr>sg_id = sh_id x, sg_file = sh_file x, sg_shared_with = brief_in s (sh_with x),
          sg_shared_with_user_id = sh_with x, sg_shared_by = brief_in s (sh_by x),
          sg_file_name = map_option fi_name f, sg_file_owner_id = map_option fi_owner f,
          sg_permission = sh_permission x, sg_comment = sh_comment x\<rparr>)"

record perm_page =
  pg_id :: nat
  pg_folder :: nat
  pg_user :: "user_brief option"
  pg_role :: "string option"
  pg_permission :: level
  pg_granted_by :: "user_brief option"

definition perm_page :: "st_state \<Rightarrow> folder_perm \<Rightarrow> perm_page" where
  "perm_page s p = \<lparr>pg_id = fp_id p, pg_folder = fp_folder p, pg_user = Option.bind (fp_user p) (brief_in s),
     pg_role = fp_role p, pg_permission = fp_permission p,
     pg_granted_by = Option.bind (fp_granted_by p) (brief_in s)\<rparr>"

text \<open>\<open>FolderViewSet.retrieve\<close>: the folder itself with the annotations of the list, as its children.\<close>

definition folder_contents ::
  "user \<Rightarrow> nat \<Rightarrow> st_state \<Rightarrow> api_error + folder_page \<times> folder_page list \<times> sfile list" where
  "folder_contents u k s =
     map_sum id (\<lambda>(f, ds, xs). (folder_page True s u f, map (folder_page True s u) ds, xs)) (retrieve_folder u k s)"

section \<open>The level that is shown\<close>

lemma find_filter: "(\<And>x. P x \<Longrightarrow> Q x) \<Longrightarrow> find P (filter Q xs) = find P xs"
  by (induction xs) auto

lemma get_user_permission_eq:
  "get_user_permission annotated s u f =
     (if u_role u \<in> {Superadmin, Company_admin} \<or> \<not> get_is_restricted s f then None
      else matching_level u (perms_of s (fo_id f)))"
  by (auto simp: get_user_permission_def matching_level_def user_perm_ann_def role_perm_ann_def Let_def
      find_filter split: option.splits)

lemma find_Some_in: "find P xs = Some x \<Longrightarrow> x \<in> set xs \<and> P x"
  by (induction xs) (auto split: if_splits)

lemma matching_level_None:
  "matching_level u ps = None \<longleftrightarrow>
     \<not> list_ex (\<lambda>p. fp_user p = Some (u_id u) \<or> fp_role p = Some (role_str (u_role u))) ps"
  by (auto simp: matching_level_def list_ex_iff find_None_iff dest: find_Some_in split: option.splits)

text \<open>What the enforced level is, for a member at a company folder: of the folder, or of its parent.\<close>

definition plain_member :: "user \<Rightarrow> nat \<Rightarrow> bool" where
  "plain_member u c \<longleftrightarrow> u_role u = Employee \<and> u_company u = Some c"

lemma level_of_member:
  assumes "plain_member u c" "fo_scope f = Company_scope" "fo_company f = Some c"
  shows "folder_access_level s u f = walk_up s u f"
  using assms by (simp add: folder_access_level_def plain_member_def)

lemma walk_up_here: "perms_of s (fo_id f) \<noteq> [] \<Longrightarrow> walk_up s u f = Some (matching_level u (perms_of s (fo_id f)))"
  by (simp add: walk_up.simps)

lemma walk_up_parent:
  "perms_of s (fo_id f) = [] \<Longrightarrow> fo_parent f = Some k \<Longrightarrow> live_folder s k = Some p \<Longrightarrow> walk_up s u f = walk_up s u p"
  by (subst walk_up.simps) simp

lemma find_unique_row:
  "tbl_wf key t \<Longrightarrow> r \<in> set (rows t) \<Longrightarrow> P r \<Longrightarrow> find (\<lambda>x. key x = key r \<and> P x) (rows t) = Some r"
proof -
  assume wf: "tbl_wf key t" and r: "r \<in> set (rows t)" "P r"
  have "inj_on key (set (rows t))" using wf by (simp add: tbl_wf_def distinct_map)
  then have "x = r" if "x \<in> set (rows t)" "key x = key r" for x using that r by (auto dest: inj_onD)
  then show ?thesis using r
    by (cases "find (\<lambda>x. key x = key r \<and> P x) (rows t)") (auto simp: find_None_iff dest!: find_Some_in)
qed

lemma any_folder_row: "tbl_wf fo_id (st_folders s) \<Longrightarrow> f \<in> set (rows (st_folders s)) \<Longrightarrow> any_folder s (fo_id f) = Some f"
  by (simp add: any_folder_def tbl_get_def tbl_wf_def find_key_unique)

lemma visible_shows_level:
  assumes "tbl_wf fo_id (st_folders s)" "f \<in> set (rows (st_folders s))"
    and "u_role u \<notin> {Superadmin, Company_admin}" "fo_scope f = Company_scope"
    and "folder_visible s u f" "get_is_restricted s f"
  shows "get_user_permission a s u f \<noteq> None"
  using assms
  by (auto simp: get_user_permission_eq folder_visible_def permitted_folder_def restricted_folder_def
      any_folder_row get_is_restricted_def matching_level_None split: if_splits)

section \<open>Shown and enforced\<close>

text \<open>
  An employee sees every restricted company folder in the lists with the very level the guards of
  files and uploads enforce there, whichever of its two queries the serializer uses.
\<close>

theorem shown_level_is_enforced:
  assumes "tbl_wf fo_id (st_folders s)" and "plain_member u c"
    and "list_folders u sc parent s = Inr pages" and "pg \<in> set pages"
    and "fg_scope pg = Company_scope" and "fg_is_restricted pg"
  shows "\<exists>f l. f \<in> set (rows (st_folders s)) \<and> \<not> fo_is_deleted f \<and> fo_company f = Some c
     \<and> pg = folder_page True s u f \<and> fg_user_permission pg = Some l
     \<and> get_user_permission False s u f = Some l \<and> folder_access_level s u f = Some (Some l)"
proof -
  obtain f where f: "f \<in> set (rows (st_folders s))" "folder_visible s u f" and pg: "pg = folder_page True s u f"
    using assms(3,4) by (auto simp: list_folders_def folder_queryset_def Let_def newest_first_def
        split: option.splits sum.splits id_param.splits)
  have sc: "fo_scope f = Company_scope" and r: "get_is_restricted s f"
    using assms(5,6) by (simp_all add: pg folder_page_def)
  have c: "fo_company f = Some c" "\<not> fo_is_deleted f"
    using f(2) sc assms(2) by (auto simp: folder_visible_def plain_member_def)
  obtain l where l: "get_user_permission True s u f = Some l"
    using visible_shows_level[OF assms(1) f(1) _ sc f(2) r] assms(2) by (auto simp: plain_member_def)
  then have m: "matching_level u (perms_of s (fo_id f)) = Some l"
    by (simp add: get_user_permission_eq split: if_splits)
  have "folder_access_level s u f = Some (Some l)"
    using level_of_member[OF assms(2) sc c(1)] r m by (simp add: walk_up_here get_is_restricted_def)
  moreover have "get_user_permission False s u f = Some l" using l by (simp add: get_user_permission_eq)
  moreover have "fg_user_permission pg = Some l" using l by (simp add: pg folder_page_def)
  ultimately show ?thesis using f(1) c pg by blast
qed

text \<open>
  A folder without entries below a folder that is closed to an employee: the lists show it as open,
  with its files, their names and sizes, while its files are refused.
\<close>

theorem open_folder_below_a_closed_one:
  assumes wf: "tbl_wf fo_id (st_folders s)" and u: "plain_member u c"
    and f: "f \<in> set (rows (st_folders s))" "\<not> fo_is_deleted f" "fo_scope f = Company_scope" "fo_company f = Some c"
    and p: "fo_parent f = Some k" "live_folder s k = Some p"
    and closed: "perms_of s (fo_id p) \<noteq> []" "matching_level u (perms_of s (fo_id p)) = None"
    and unrestricted: "perms_of s (fo_id f) = []"
    and x: "live_file s (fi_id x) = Some x" "x \<in> set (rows (st_files s))" "\<not> fi_is_deleted x"
      "fi_folder x = Some (fo_id f)" "fi_company x = Some c"
      "fi_owner x \<noteq> u_id u" "share_for_user s u x = None"
  shows "\<exists>ds xs. folder_contents u (fo_id f) s = Inr (folder_page True s u f, ds, xs) \<and> x \<in> set xs
       \<and> \<not> fg_is_restricted (folder_page True s u f)"
    and "download u (fi_id x) s = Some (Inl file_access_denied)"
proof -
  have ok: "IsGuestOrCompanyMember (Some u) = None"
    using u by (simp add: plain_member_def IsGuestOrCompanyMember_def authenticated_def)
  have vis: "folder_visible s u f"
    using u f unrestricted by (simp add: folder_visible_def plain_member_def restricted_folder_def)
  then have "get_folder s u (fo_id f) = Inr f"
    using find_unique_row[OF wf f(1), of "folder_visible s u"] ok by (simp add: get_folder_def)
  then show "\<exists>ds xs. folder_contents u (fo_id f) s = Inr (folder_page True s u f, ds, xs) \<and> x \<in> set xs
       \<and> \<not> fg_is_restricted (folder_page True s u f)"
    using f x u unrestricted
    by (simp add: folder_contents_def retrieve_folder_def folder_page_def get_is_restricted_def plain_member_def)
  have "folder_access_level s u f = Some None"
    using level_of_member[OF u f(3,4)] walk_up_parent[OF unrestricted p] closed by (simp add: walk_up_here)
  moreover have "folder_of_file s x = Some f" using x any_folder_row[OF wf f(1)] by (simp add: folder_of_file_def)
  ultimately have "ensure_file_permission s u x Share_download = Some (Inl file_access_denied)"
    using u x f by (simp add: ensure_file_permission_def plain_member_def file_in_def)
  then show "download u (fi_id x) s = Some (Inl file_access_denied)" using ok x by (simp add: download_def)
qed

text \<open>
  Folder 1 is open to the admins only, its subfolder 2 has no entries: employee 3 finds the file of
  folder 2 in the page of the folder and may not download it.
\<close>

definition demo_closed :: st_state where
  "demo_closed = demo_storage [demo_folder 1 None, demo_folder 2 (Some 1)] [demo_file 1 2 (Some 2) (Some 1)] []
     \<lparr>st_perms := Table [\<lparr>fp_id = 1, fp_folder = 1, fp_user = None, fp_role = Some ''company_admin'',
        fp_permission = Level_full, fp_granted_by = Some 2\<rparr>] 2\<rparr>"

lemma open_folder_below_a_closed_one_demo:
  "download (demo_user 3 Employee (Some 1)) 1 demo_closed = Some (Inl file_access_denied)
   \<and> list_folders (demo_user 3 Employee (Some 1)) None No_param demo_closed
     = Inr [folder_page True demo_closed (demo_user 3 Employee (Some 1)) (demo_folder 2 (Some 1))]"
  using open_folder_below_a_closed_one(2)[of demo_closed "demo_user 3 Employee (Some 1)" 1 "demo_folder 2 (Some 1)"
      1 "demo_folder 1 None" "demo_file 1 2 (Some 2) (Some 1)"]
  by (simp add: demo_closed_def demo_storage_def demo_folder_def demo_file_def demo_user_def tbl_wf_def plain_member_def
      live_folder_def live_file_def perms_of_def tbl_filter_def matching_level_def share_for_user_def role_str_def
      list_folders_def folder_queryset_def folder_visible_def restricted_folder_def permitted_folder_def
      any_folder_def tbl_get_def newest_first_def IsGuestOrCompanyMember_def authenticated_def)

end
