(* ===== verification/Spec2Isabelle.thy ===== *)
theory Spec2Isabelle
  imports UserProps AdminScope OnboardingProps StorageTrees BookingCalendar RequestProps LeaveProps CrmIsolation CrmDetailProps ResendLimit DashboardProps Errors SearchProps ErasureProps TaskListProps CompanyPageProps StoragePages
begin

text \<open>
  NewLevelHub is the backend of a business centre: companies rent offices in a building, their people
  book desks, rooms, parking places and capsules, work on boards, keep files, ask for leave, invite
  guests and send requests to the staff of the building. It is a Django project with the REST
  framework (\<open>src/apps\<close>), PostgreSQL tables, a cache and workers for tasks. This development models the
  code of its ten applications operation by operation, guards and errors included, and proves what
  makes them correct, and in some places what does not hold.

  How the parts hang together. \<open>apps/core\<close> gives the permission classes, the restriction of rows to a
  company, soft deletion and the form of errors. \<open>apps/users\<close> has the accounts and sessions,
  \<open>apps/companies\<close> the companies with their members, settings and invitations; every other application
  refers to both. \<open>apps/bookings\<close> writes the access log when a capsule is opened; \<open>apps/services\<close> draws
  the plan of the building on the resources of the bookings and deletes them with a floor; \<open>apps/crm\<close>
  attaches files of \<open>apps/storage\<close> to tasks, and both count against the limits of the company;
  \<open>apps/hr\<close> sets up the onboarding of users who join by invitation; removing a member settles leave
  requests and reassigns tasks; all of them tell people through \<open>apps/notifications\<close>. The dashboards and
  \<open>apps/analytics\<close> only read.

  Theories and code:

  \<^item> \<open>Prelude\<close>: time, chains of checks, tables of rows, runs of operations, and the interfaces:
    \<open>repository\<close> (a table), \<open>op_system\<close> (operations that keep an invariant), \<open>settling_system\<close> (what is
    decided stays decided), \<open>refining_system\<close> (operations that implement a specification). \<open>Core\<close> adds
    \<open>tenant_scope\<close> for \<open>core/mixins.py\<close> and the permission classes, \<open>Errors\<close> the handler of
    \<open>core/exceptions.py\<close> with \<open>core/i18n.py\<close>, \<open>Queries\<close> the parameters of the read-only views.
  \<^item> Bookings: \<open>BookingModel\<close> (rows, schedule), \<open>BookingRules\<close> (\<open>bookings/serializers.py\<close>), \<open>Bookings\<close>,
    \<open>Resources\<close>, \<open>Recurring\<close> (\<open>bookings/views.py\<close>, \<open>tasks.py\<close>), \<open>ResourceSearch\<close> (\<open>filters.py\<close>, the schedule);
    \<open>BookingInv\<close> and \<open>BookingSystem\<close> carry the invariant through every operation.
  \<^item> Boards: \<open>Crm\<close> and \<open>Tasks\<close> (boards, columns, tasks, labels, history), \<open>CrmDetails\<close> (comments,
    checklists, attachments), \<open>TaskLists\<close> (the page of a board, filters and orders), \<open>CrmInv\<close> and
    \<open>CrmOrder\<close> for the invariant and the order of a column; \<open>Limits\<close> for \<open>companies/limits.py\<close>.
  \<^item> Storage: \<open>StorageModel\<close>, \<open>Storage\<close>, \<open>StorageFiles\<close>, \<open>StorageTrash\<close> (\<open>storage/views.py\<close>, \<open>tasks.py\<close>),
    \<open>StoragePages\<close> (\<open>storage/serializers.py\<close>: what is shown of folders, shares and permissions).
  \<^item> People: \<open>Leaves\<close> and \<open>Onboarding\<close> (\<open>apps/hr\<close>), \<open>Accounts\<close>, \<open>CompanyModel\<close>, \<open>Invitations\<close>, \<open>Companies\<close>,
    \<open>Members\<close>, \<open>CompanySystem\<close> (\<open>apps/companies\<close>), \<open>CompanyPages\<close> (its figures and lists), \<open>Sessions\<close>,
    \<open>Users\<close>, \<open>UserSystem\<close>, \<open>UserInv\<close> (\<open>apps/users\<close>), \<open>Erasure\<close> (the deletion of a user through all tables),
    \<open>Notifications\<close> and \<open>NotificationPrefs\<close> (\<open>apps/notifications\<close>).
  \<^item> Building: \<open>ServiceModel\<close>, \<open>Building\<close>, \<open>ServiceRequests\<close>, \<open>Announcements\<close> (\<open>apps/services\<close>), \<open>Access\<close>
    and \<open>AccessSystem\<close> (\<open>apps/access\<close>).
  \<^item> Reading: \<open>Overview\<close> (calendar, directory, activity), \<open>Tally\<close>, \<open>Analytics\<close>, \<open>CompanyAnalytics\<close>
    (\<open>analytics/views.py\<close>), \<open>Dashboards\<close> (\<open>core/views.py\<close>).

  How code becomes a definition. A model class is a record, a table the list of its rows in the order
  of their keys, a state the record of the tables a component reads and writes (\<open>bk_state\<close>, \<open>crm_state\<close>,
  \<open>st_state\<close>, ...; what two components share is in both states, and \<open>Erasure\<close> treats both alike). A
  handler takes the user, the path and the values of the request and gives \<open>Inl\<close> an error or \<open>Inr\<close> the
  new state, with its checks in the order of the code; the cascade and set-null rules of the models
  are part of a deletion. \<open>exec_bk\<close>, \<open>exec_crm\<close>, \<open>exec_hr\<close>, \<open>exec_ob\<close>, \<open>exec_st\<close>, \<open>exec_cp\<close>, \<open>step_us\<close>, \<open>exec_gs\<close>
  make one system of the operations of a component, and a run is a list of them in any order, where a
  refused request changes nothing. Requests run in a transaction (\<open>ATOMIC_REQUESTS\<close>), so that an error
  leaves the tables; where the cache survives it (\<open>Sessions\<close>, the counters of mails in \<open>Access\<close>) the
  model keeps it. The two readers of \<open>AccessProps\<close> interleave the reads and writes of one request.

  What the lemmas show. The \<open>Inv\<close> and \<open>System\<close> theories: every operation keeps the invariant of its
  component, or implements its specification (the life cycle of invitations, the moves of a pass). The
  \<open>Props\<close> theories: no double booking, balances of leave, WIP limits, rows of onboarding, accounts and
  tokens in every run; who may change what; the exact effect of the operations that are easy to get
  wrong (displacing bookings, moving tasks, deleting folders and users, reviews, logins); agreement of
  computations that must agree (search and creation, the views of a board, charts and rows); bounds on
  sessions, mails and places; the places where the code does not do what it means to. The findings of
  the manifest list these with the theorem that shows each.

  PATCH and PUT. Where a view set takes both, they go through one serializer, and a PUT also asks for the
  fields that must be given: the handlers with an argument \<open>partial\<close> (companies, tasks, floors, points,
  announcements) are both, and \<open>put_board\<close>, \<open>put_resource\<close>, \<open>put_template\<close>, \<open>put_folder\<close>, \<open>put_file\<close> are the
  others. A PUT of a board, a resource or a template that succeeds leaves the state of the PATCH with the
  same body (\<open>put_board_is_patch_board\<close> and its kin), so that the runs with PATCH are all runs; those of
  \<open>StorageProps\<close> have operations for both.

  Errors. An error value says by which kind of refusal and for which key a handler stops, so that every
  early return is a branch; it stands for the answer, but does not say its form. Most refusals are raised
  and pass the handler of \<open>core/exceptions.py\<close>, which \<open>Errors\<close> models on what is raised and on what the
  framework answers. Some views answer directly, with a body of their own that this handler never sees (the
  rating and the status of a service request, the limit of boards, the batch deletion of files among
  them); what the framework says of a missing or malformed field is in its own words and language, and
  \<open>required\<close> and its like are names for these and no keys of the locale files.

  Bounds and fuel. A PATCH or a PUT can make a cycle of folders, so the walk up the parents of a folder may
  never end: \<open>walk_up\<close> is a \<open>partial_function\<close> whose value \<open>None\<close> is a request that is never answered, and
  \<open>StorageProps\<close> shows that no run without such a request leads there. The deletion of a tree recurses as
  Python does: the recursion limit of the interpreter is an argument, and using it up is a server error
  (\<open>StorageSafety\<close>: round a cycle no limit is enough). The rows below a folder are found in as many
  rounds as there are folders, which reaches all of them (\<open>folders_below_closed\<close>). Other loops are structural
  or go down a measure. Integers are unbounded as in Python; the ranges of columns are checked where
  the code or the database checks them.

  Parameters. The instant of a request (\<open>now\<close>), fresh random identifiers, the strength check of passwords
  (\<open>strong\<close>), the offset from UTC (\<open>off\<close>, one offset, as the zone of the settings has no summer time),
  the name of the done column (\<open>done\<close>), whether the cache answers (\<open>cache_up\<close>), the texts of the locale
  file, what the framework answers an exception with (\<open>response\<close>, \<open>denial\<close>), the order of the collation (\<open>coll\<close>), the representation of a value by Python (\<open>repr\<close>), the reading of
  a boolean parameter by the framework (\<open>parse\<close>), the token library with its documented behaviour.

  What is simplified. Messages are their translation keys with their arguments; a request record holds
  the values the serializer fields return, and the first field error stands for all of them; texts are
  byte strings in UTF-8, and lower case is that of ASCII and Russian letters; coordinates are in
  thousandths, percentages and averages exact in hundredths. The deletion of an object of the storage
  service succeeds. Columns that only one page reads (the day a user joined, the day a request was made)
  are functions beside the state. The deletion of a company is modelled on the tables its component
  shares. Lists are modelled with their filters where these decide what somebody sees (catalogue,
  tasks, members, calendar, trash), elsewhere without search and order; pages are not cut.

  Not modelled: the drawing of QR codes and reports, the resizing of avatars, signed addresses, the
  templates of mails and their sending, the schema of the API, the admin site, migrations, routes,
  commands, seeds, the exporter of metrics and the tests: they call libraries or produce data once. Four
  tasks that nothing calls (\<open>notify_task_assigned\<close>, \<open>notify_leave_request_submitted\<close>,
  \<open>notify_leave_request_reviewed\<close>, \<open>initialize_onboarding\<close>) are left out too.
\<close>

end
